(* ===== verification/Prelude.thy ===== *)
theory Prelude
  imports Main "HOL-Library.Sublist"
begin

text \<open>
  Shared vocabulary of the development: byte strings, Python exceptions as values, the
  result type of code that may raise, sequencing over it, and the generic lemmas on lists
  and on block-wise decoding that the component theories use.

  A byte string is a \<open>char list\<close>; an Isabelle \<open>char\<close> is exactly one byte.  A call that
  may raise has type \<open>'a res\<close>: \<open>Inl e\<close> for a raised exception, \<open>Inr x\<close> for a value.
\<close>

type_synonym bytes = "char list"

datatype value_error =
    BadChar nat        \<comment> \<open>\<open>bad base85 character at position %d\<close>\<close>
  | Overflow nat       \<comment> \<open>\<open>base85 overflow in hunk starting at byte %d\<close>\<close>

datatype pyexc =
    TypeError
  | IndexError
  | KeyError string
  | AttributeError string
  | NameError string
  | ImportError string
  | OSError string
  | StructError
  | ValueError value_error
  | IndentationError nat
  | SystemExit int
  | OtherException string

type_synonym 'a res = "pyexc + 'a"

definition res_bind :: "'a res \<Rightarrow> ('a \<Rightarrow> 'b res) \<Rightarrow> 'b res" where
  "res_bind m f = (case m of Inl e \<Rightarrow> Inl e | Inr x \<Rightarrow> f x)"

named_theorems res_simps \<open>sequencing of results\<close>

lemma res_bind_Inl [simp, res_simps]: "res_bind (Inl e) f = Inl e"
  by (simp add: res_bind_def)

lemma res_bind_Inr [simp, res_simps]: "res_bind (Inr x) f = f x"
  by (simp add: res_bind_def)

lemma res_bind_Inr_iff: "res_bind m f = Inr y \<longleftrightarrow> (\<exists>x. m = Inr x \<and> f x = Inr y)"
  by (cases m) simp_all

lemma res_bind_Inl_iff:
  "res_bind m f = Inl e \<longleftrightarrow> m = Inl e \<or> (\<exists>x. m = Inr x \<and> f x = Inl e)"
  by (cases m) simp_all

lemma res_bind_assoc: "res_bind (res_bind m f) g = res_bind m (\<lambda>x. res_bind (f x) g)"
  by (cases m) simp_all

text \<open>Python's indexing of a list by a non-negative integer.\<close>

definition py_get :: "'a list \<Rightarrow> nat \<Rightarrow> 'a res" where
  "py_get xs n = (if n < length xs then Inr (xs ! n) else Inl IndexError)"

lemma py_get_in [simp]: "n < length xs \<Longrightarrow> py_get xs n = Inr (xs ! n)"
  by (simp add: py_get_def)

text \<open>The truth value of a string, and of an optional string (\<open>None\<close> or \<open>''''\<close> is false).\<close>

definition truthy :: "string option \<Rightarrow> bool" where
  "truthy s = (case s of None \<Rightarrow> False | Some t \<Rightarrow> t \<noteq> [])"

lemma truthy_simps [simp]: "\<not> truthy None" "truthy (Some t) \<longleftrightarrow> t \<noteq> []"
  by (simp_all add: truthy_def)

section \<open>Block-wise decoding\<close>

text \<open>
  A loop \<open>for i in range(0, len(b), m): out.append(dec(b[i:i + m]))\<close> over results:
  the first block that raises ends it.
\<close>

function decode_blocks :: "nat \<Rightarrow> (nat \<Rightarrow> 'b list \<Rightarrow> 'a list res) \<Rightarrow> nat \<Rightarrow> 'b list \<Rightarrow> 'a list res" where
  "decode_blocks m dec i b =
     (if b = [] \<or> m = 0 then Inr []
      else res_bind (dec i (take m b))
             (\<lambda>s. res_bind (decode_blocks m dec (i + m) (drop m b)) (\<lambda>r. Inr (s @ r))))"
  by pat_completeness auto
termination
  by (relation "measure (\<lambda>(m, dec, i, b). length b)") auto

declare decode_blocks.simps [simp del]

lemma decode_blocks_Nil [simp]: "decode_blocks m dec i [] = Inr []"
  by (simp add: decode_blocks.simps)

lemma decode_blocks_step:
  assumes "b \<noteq> []" "0 < m"
  shows "decode_blocks m dec i b =
     res_bind (dec i (take m b))
       (\<lambda>s. res_bind (decode_blocks m dec (i + m) (drop m b)) (\<lambda>r. Inr (s @ r)))"
  using assms by (subst decode_blocks.simps) simp

lemma decode_blocks_append_block:
  assumes "length x = m" "0 < m"
  shows "decode_blocks m dec i (x @ y) =
     res_bind (dec i x) (\<lambda>s. res_bind (decode_blocks m dec (i + m) y) (\<lambda>r. Inr (s @ r)))"
  using assms by (subst decode_blocks_step) auto

text \<open>Decoding is compositional over inputs cut at a block boundary.\<close>

lemma decode_blocks_append:
  assumes "m dvd length x" "0 < m"
  shows "decode_blocks m dec i (x @ y) =
     res_bind (decode_blocks m dec i x)
       (\<lambda>s. res_bind (decode_blocks m dec (i + length x) y) (\<lambda>r. Inr (s @ r)))"
  using assms(1)
proof (induction "length x" arbitrary: x i rule: less_induct)
  case less
  show ?case
  proof (cases "x = []")
    case True
    then show ?thesis by (cases "decode_blocks m dec i y") simp_all
  next
    case False
    with less.prems assms(2) have len: "m \<le> length x"
      by (simp add: dvd_imp_le)
    have dvd: "m dvd length (drop m x)"
      using less.prems len by (simp add: dvd_diff_nat)
    have "length (drop m x) < length x" using False assms(2) by simp
    note IH = less.hyps [OF this dvd, of "i + m"]
    have "i + m + length (drop m x) = i + length x" using len by simp
    with IH len False assms(2) show ?thesis
      by (simp add: decode_blocks_step res_bind_assoc)
  qed
qed

text \<open>Which block raises: the first one whose decoding fails.\<close>

definition block_at :: "nat \<Rightarrow> 'b list \<Rightarrow> nat \<Rightarrow> 'b list" where
  "block_at m b k = take m (drop (k * m) b)"

lemma block_at_0 [simp]: "block_at m b 0 = take m b"
  by (simp add: block_at_def)

lemma block_at_Suc [simp]: "block_at m b (Suc k) = block_at m (drop m b) k"
  by (simp add: block_at_def add.commute)

lemma ex_nat_split: "(\<exists>k. P k) \<longleftrightarrow> P 0 \<or> (\<exists>k. P (Suc k))" for P :: "nat \<Rightarrow> bool"
  by (metis not0_implies_Suc)

lemma decode_blocks_Inl_iff:
  assumes "0 < m"
  shows "decode_blocks m dec i b = Inl e \<longleftrightarrow>
    (\<exists>k. k * m < length b \<and> dec (i + k * m) (block_at m b k) = Inl e
        \<and> (\<forall>k' < k. \<exists>s. dec (i + k' * m) (block_at m b k') = Inr s))"
proof (induction "length b" arbitrary: b i rule: less_induct)
  case less
  show ?case
  proof (cases "b = []")
    case False
    then have "length (drop m b) < length b" using assms by simp
    note IH = less.hyps [OF this, of "i + m"]
    let ?P = "\<lambda>k. k * m < length b \<and> dec (i + k * m) (block_at m b k) = Inl e
        \<and> (\<forall>k' < k. \<exists>s. dec (i + k' * m) (block_at m b k') = Inr s)"
    have suc: "?P (Suc k) \<longleftrightarrow> (\<exists>s. dec i (take m b) = Inr s) \<and> k * m < length (drop m b)
        \<and> dec (i + m + k * m) (block_at m (drop m b) k) = Inl e
        \<and> (\<forall>k' < k. \<exists>s. dec (i + m + k' * m) (block_at m (drop m b) k') = Inr s)" for k
    proof -
      have "k * m < length b - m \<longleftrightarrow> m + k * m < length b" by linarith
      then show ?thesis
        by (simp only: All_less_Suc2 block_at_Suc block_at_0 mult_Suc mult_0 add_0_right add.assoc
            length_drop) blast
    qed
    have "(\<exists>k. ?P k) \<longleftrightarrow> ?P 0 \<or> (\<exists>k. ?P (Suc k))" by (rule ex_nat_split)
    also have "\<dots> \<longleftrightarrow> dec i (take m b) = Inl e
        \<or> (\<exists>s. dec i (take m b) = Inr s) \<and> decode_blocks m dec (i + m) (drop m b) = Inl e"
      unfolding suc IH using False by auto
    also have "\<dots> \<longleftrightarrow> decode_blocks m dec i b = Inl e"
      by (subst decode_blocks_step [OF False assms]) (auto simp: res_bind_Inl_iff)
    finally show ?thesis by simp
  qed simp
qed

lemma decode_blocks_length:
  assumes "decode_blocks m dec i b = Inr r" "0 < m" "m dvd length b"
    and "\<And>j x y. length x = m \<Longrightarrow> dec j x = Inr y \<Longrightarrow> length y = n"
  shows "length r = n * (length b div m)"
  using assms(1,3)
proof (induction "length b" arbitrary: b i r rule: less_induct)
  case less
  show ?case
  proof (cases "b = []")
    case True
    then show ?thesis using less.prems by simp
  next
    case False
    then have le: "m \<le> length b" using less.prems(2) by (simp add: dvd_imp_le)
    from less.prems(1) obtain s r' where s: "dec i (take m b) = Inr s"
      and r': "decode_blocks m dec (i + m) (drop m b) = Inr r'" and r: "r = s @ r'"
      by (auto simp: decode_blocks_step [OF False assms(2)] res_bind_Inr_iff)
    have "length r' = n * (length (drop m b) div m)"
      using less.hyps [OF _ r'] less.prems(2) le assms(2) False by (simp add: dvd_diff_nat)
    moreover have "length s = n" using assms(4) [OF _ s] le by simp
    ultimately show ?thesis using le assms(2) by (simp add: r le_div_geq)
  qed
qed

text \<open>
  The contract of a block code: \<open>n\<close> symbols are encoded as \<open>m\<close>, and decoding a block undoes
  its encoding whatever its position.
\<close>

locale block_code =
  fixes enc :: "'a list \<Rightarrow> 'b list" and dec :: "nat \<Rightarrow> 'b list \<Rightarrow> 'a list res"
    and n m :: nat
  assumes pos: "0 < n" "0 < m"
    and enc_length: "length x = n \<Longrightarrow> length (enc x) = m"
    and dec_enc: "length x = n \<Longrightarrow> dec i (enc x) = Inr x"
begin

lemma decode_concat:
  assumes "\<forall>x \<in> set xs. length x = n"
  shows "decode_blocks m dec i (concat (map enc xs)) = Inr (concat xs)"
  using assms
proof (induction xs arbitrary: i)
  case Nil
  then show ?case by simp
next
  case (Cons x xs)
  then show ?case
    by (simp add: decode_blocks_append_block pos enc_length dec_enc)
qed

lemma enc_inj: "length x = n \<Longrightarrow> length y = n \<Longrightarrow> enc x = enc y \<Longrightarrow> x = y"
  by (metis dec_enc sum.inject(2))

end

text \<open>Cutting a list into consecutive blocks of \<open>n\<close> elements.\<close>

function blocks :: "nat \<Rightarrow> 'a list \<Rightarrow> 'a list list" where
  "blocks n xs = (if xs = [] \<or> n = 0 then [] else take n xs # blocks n (drop n xs))"
  by pat_completeness auto
termination
  by (relation "measure (\<lambda>(n, xs). length xs)") auto

declare blocks.simps [simp del]

lemma blocks_Nil [simp]: "blocks n [] = []"
  by (simp add: blocks.simps)

lemma blocks_step: "xs \<noteq> [] \<Longrightarrow> 0 < n \<Longrightarrow> blocks n xs = take n xs # blocks n (drop n xs)"
  by (subst blocks.simps) simp

lemma concat_blocks [simp]: "0 < n \<Longrightarrow> concat (blocks n xs) = xs"
proof (induction n xs rule: blocks.induct)
  case (1 n xs)
  show ?case
  proof (cases "xs = []")
    case False
    with "1" have "concat (blocks n (drop n xs)) = drop n xs" by simp
    with False "1.prems" show ?thesis by (simp add: blocks_step [of xs n])
  qed simp
qed

lemma blocks_length:
  assumes "0 < n" "n dvd length xs"
  shows "\<forall>x \<in> set (blocks n xs). length x = n"
  using assms
proof (induction n xs rule: blocks.induct)
  case (1 n xs)
  show ?case
  proof (cases "xs = []")
    case False
    with "1.prems" have "n \<le> length xs" by (simp add: dvd_imp_le)
    then have hd: "length (take n xs) = n" by simp
    have dvd: "n dvd length (drop n xs)" using "1.prems" \<open>n \<le> length xs\<close> by (simp add: dvd_diff_nat)
    have tl: "\<forall>x \<in> set (blocks n (drop n xs)). length x = n"
      using "1.IH" [OF _ "1.prems"(1) dvd] False "1.prems"(1) by blast
    have *: "set (blocks n xs) = insert (take n xs) (set (blocks n (drop n xs)))"
      by (simp only: blocks_step [OF False "1.prems"(1)] list.set)
    show ?thesis unfolding * ball_simps by (rule conjI [OF hd tl])
  qed simp
qed

lemma length_blocks:
  assumes "0 < n" "n dvd length xs"
  shows "length (blocks n xs) = length xs div n"
  using assms
proof (induction n xs rule: blocks.induct)
  case (1 n xs)
  show ?case
  proof (cases "xs = []")
    case False
    with "1.prems" have le: "n \<le> length xs" by (simp add: dvd_imp_le)
    have dvd: "n dvd length (drop n xs)" using "1.prems" le by (simp add: dvd_diff_nat)
    have "length (blocks n (drop n xs)) = length (drop n xs) div n"
      using "1.IH" [OF _ "1.prems"(1) dvd] False "1.prems"(1) by blast
    then have "length (blocks n xs) = Suc ((length xs - n) div n)"
      by (simp only: blocks_step [OF False "1.prems"(1)] list.size length_drop add_0_right add_Suc_right)
    with le "1.prems"(1) show ?thesis by (simp add: le_div_geq)
  qed simp
qed

lemma blocks_append_block: "length x = n \<Longrightarrow> 0 < n \<Longrightarrow> blocks n (x @ y) = x # blocks n y"
  by (subst blocks_step) auto

lemma blocks_concat: "\<forall>x \<in> set xs. length x = n \<Longrightarrow> 0 < n \<Longrightarrow> blocks n (concat xs) = xs"
  by (induction xs) (simp_all add: blocks_append_block)

text \<open>A block code is canonical when a block that decodes is the encoding of what it decodes to.\<close>

locale canonical_block_code = block_code +
  assumes enc_dec: "length c = m \<Longrightarrow> dec i c = Inr x \<Longrightarrow> length x = n \<and> enc x = c"
begin

lemma decode_canonical:
  assumes "decode_blocks m dec i b = Inr r" "m dvd length b"
  shows "n dvd length r \<and> concat (map enc (blocks n r)) = b"
  using assms
proof (induction "length b" arbitrary: b i r rule: less_induct)
  case less
  show ?case
  proof (cases "b = []")
    case True
    then show ?thesis using less.prems by simp
  next
    case False
    then have le: "m \<le> length b" using less.prems(2) by (simp add: dvd_imp_le)
    from less.prems(1) obtain s r' where s: "dec i (take m b) = Inr s"
      and r': "decode_blocks m dec (i + m) (drop m b) = Inr r'" and r: "r = s @ r'"
      by (auto simp: decode_blocks_step [OF False pos(2)] res_bind_Inr_iff)
    have len: "length s = n" and enc: "enc s = take m b"
      using enc_dec [OF _ s] le by simp_all
    have "n dvd length r' \<and> concat (map enc (blocks n r')) = drop m b"
      using less.hyps [OF _ r'] less.prems(2) le pos(2) False by (simp add: dvd_diff_nat)
    then show ?thesis using len enc pos(1) by (simp add: r blocks_append_block)
  qed
qed

end

end
