(* ===== verification/Zip.thy ===== *)
theory Zip
  imports Prelude
begin

text \<open>
  What \<open>sys.path.insert(0, pip_zip)\<close> and the imports after it use of Python's standard library:
  \<open>zipimport\<close> reads the central directory of the archive (a fixed-size record of 22 bytes at the
  end of the file says where it is), keeps one entry for each file, and finds a module by looking
  for \<open>/__init__.py\<close> or \<open>.py\<close> after its path.  Errors are \<open>ImportError\<close>s, as \<open>ZipImportError\<close> is one.
\<close>

record zentry =
  zname :: string
  zmethod :: nat
  zcsize :: nat
  zsize :: nat
  zoffset :: nat

definition zent :: "string \<Rightarrow> nat \<Rightarrow> nat \<Rightarrow> nat \<Rightarrow> nat \<Rightarrow> zentry" where
  "zent n m c s off = \<lparr>zname = n, zmethod = m, zcsize = c, zsize = s, zoffset = off\<rparr>"

definition le16 :: "bytes \<Rightarrow> nat \<Rightarrow> nat" where
  "le16 b i = of_char (b ! i) + 256 * of_char (b ! (i + 1))"

definition le32 :: "bytes \<Rightarrow> nat \<Rightarrow> nat" where
  "le32 b i = le16 b i + 65536 * le16 b (i + 2)"

text \<open>\<open>split_at n b\<close>: the next \<open>n\<close> bytes and the rest, or \<open>None\<close> at the end of the file.\<close>

fun split_at :: "nat \<Rightarrow> bytes \<Rightarrow> (bytes \<times> bytes) option" where
  "split_at 0 b = Some ([], b)"
| "split_at (Suc n) [] = None"
| "split_at (Suc n) (c # b) =
     (case split_at n b of None \<Rightarrow> None | Some (x, r) \<Rightarrow> Some (c # x, r))"

definition central_signature :: bytes where
  "central_signature = [CHR ''P'', CHR ''K'', CHR 0x01, CHR 0x02]"

definition end_signature :: bytes where
  "end_signature = [CHR ''P'', CHR ''K'', CHR 0x05, CHR 0x06]"

text \<open>
  One turn of the directory loop: \<open>Inr None\<close> when the signature is not that of an entry (the
  directory ends), \<open>Inr (Some (e, r))\<close> for an entry and the bytes after it.
\<close>

definition read_entry :: "nat \<Rightarrow> nat \<Rightarrow> bytes \<Rightarrow> (zentry \<times> bytes) option res" where
  "read_entry dir arc b =
     (case split_at 4 b of
        None \<Rightarrow> Inl (ImportError ''can't read Zip file'')
      | Some (sig, _) \<Rightarrow>
          if sig \<noteq> central_signature then Inr None
          else (case split_at 46 b of
                  None \<Rightarrow> Inl (ImportError ''can't read Zip file'')
                | Some (h, r) \<Rightarrow>
                    (if dir < le32 h 42 then Inl (ImportError ''bad local header offset'')
                     else (case split_at (le16 h 28) r of
                             None \<Rightarrow> Inl (ImportError ''can't read Zip file'')
                           | Some (n, r') \<Rightarrow>
                               (case split_at (le16 h 30 + le16 h 32) r' of
                                  None \<Rightarrow> Inl (ImportError ''can't read Zip file'')
                                | Some (_, r'') \<Rightarrow>
                                    Inr (Some (zent n (le16 h 10) (le32 h 20) (le32 h 24)
                                                 (le32 h 42 + arc), r'')))))))"

lemma split_at_append: "split_at n b = Some (x, r) \<Longrightarrow> split_at n (b @ y) = Some (x, r @ y)"
  by (induction n b arbitrary: x rule: split_at.induct) (auto split: option.splits)

lemma split_at_eq: "split_at n b = Some (x, r) \<Longrightarrow> b = x @ r \<and> length x = n"
  by (induction n b arbitrary: x rule: split_at.induct) (auto split: option.splits)

lemma read_entry_shorter:
  "read_entry dir arc b = Inr (Some (e, r)) \<Longrightarrow> length r < length b"
  by (auto simp: read_entry_def dest!: split_at_eq split: option.splits if_splits)

function read_entries :: "nat \<Rightarrow> nat \<Rightarrow> bytes \<Rightarrow> zentry list res" where
  "read_entries dir arc b =
     (case read_entry dir arc b of
        Inl e \<Rightarrow> Inl e
      | Inr None \<Rightarrow> Inr []
      | Inr (Some (e, r)) \<Rightarrow> res_bind (read_entries dir arc r) (\<lambda>es. Inr (e # es)))"
  by pat_completeness auto
termination
  by (relation "measure (\<lambda>(dir, arc, b). length b)") (auto dest: read_entry_shorter)

declare read_entries.simps [simp del]

definition zip_directory :: "bytes \<Rightarrow> zentry list res" where
  "zip_directory b =
     (if length b < 22 then Inl (ImportError ''can't read Zip file'')
      else (let pos = length b - 22; e = drop pos b; size = le32 e 12; off = le32 e 16 in
            if take 4 e \<noteq> end_signature then Inl (ImportError ''not a Zip file'')
            else if pos < size + off then Inl (ImportError ''bad central directory size or offset'')
            else (let arc = pos - off - size; dir = off + arc in read_entries dir arc (drop dir b))))"

text \<open>The dictionary of the archive: a later entry of the same name replaces an earlier one.\<close>

definition zip_lookup :: "zentry list \<Rightarrow> string \<Rightarrow> zentry option" where
  "zip_lookup es n = map_of (map (\<lambda>e. (zname e, e)) (rev es)) n"

text \<open>
  The search order for a module whose path inside the archive is \<open>p\<close>: a package first, compiled
  files before sources.
\<close>

definition search_order :: "(string \<times> bool) list" where
  "search_order = [(''/__init__.pyc'', True), (''/__init__.py'', True), (''.pyc'', False), (''.py'', False)]"

fun find_first :: "zentry list \<Rightarrow> string \<Rightarrow> (string \<times> bool) list \<Rightarrow> (zentry \<times> bool) option" where
  "find_first es p [] = None"
| "find_first es p ((ext, is_package) # rest) =
     (case zip_lookup es (p @ ext) of
        Some e \<Rightarrow> Some (e, is_package)
      | None \<Rightarrow> find_first es p rest)"

definition find_module :: "zentry list \<Rightarrow> string \<Rightarrow> (zentry \<times> bool) option" where
  "find_module es p = find_first es p search_order"

text \<open>\<open>import a.b.c\<close> imports \<open>a\<close>, \<open>a.b\<close> and \<open>a.b.c\<close>; every one but the last must be a package.\<close>

fun import_path :: "zentry list \<Rightarrow> string \<Rightarrow> string list \<Rightarrow> bool" where
  "import_path es p [] = True"
| "import_path es p [m] = (find_module es (p @ m) \<noteq> None)"
| "import_path es p (m # ms) =
     (case find_module es (p @ m) of
        Some (e, True) \<Rightarrow> import_path es (p @ m @ ''/'') ms
      | _ \<Rightarrow> False)"

text \<open>
  Do the offsets and sizes that the entries of a directory declare fit together?  Each local record has to begin
  where the one before ends, with 30 bytes, the name and the compressed data for each; the result is the
  offset after the last.  Only the directory is used: no local record is read.
\<close>

fun tiles :: "nat \<Rightarrow> zentry list \<Rightarrow> nat option" where
  "tiles off [] = Some off"
| "tiles off (e # es) =
     (if zoffset e = off then tiles (off + 30 + length (zname e) + zcsize e) es else None)"

section \<open>Reading a directory piece by piece\<close>

lemma read_entry_append:
  "read_entry dir arc b = Inr (Some (e, r)) \<Longrightarrow> read_entry dir arc (b @ x) = Inr (Some (e, r @ x))"
proof -
  assume "read_entry dir arc b = Inr (Some (e, r))"
  then obtain u h r1 n r2 z where
      a: "split_at 4 b = Some (central_signature, u)" "split_at 46 b = Some (h, r1)"
         "split_at (le16 h 28) r1 = Some (n, r2)" "split_at (le16 h 30 + le16 h 32) r2 = Some (z, r)"
         "\<not> dir < le32 h 42"
      and e: "e = zent n (le16 h 10) (le32 h 20) (le32 h 24) (le32 h 42 + arc)"
    unfolding read_entry_def by (auto split: option.splits if_splits)
  show ?thesis
    unfolding read_entry_def e using a(5) by (simp add: a(1-4) [THEN split_at_append])
qed

function pull :: "nat \<Rightarrow> nat \<Rightarrow> bytes \<Rightarrow> zentry list \<times> bytes" where
  "pull dir arc b =
     (case read_entry dir arc b of
        Inr (Some (e, r)) \<Rightarrow> (case pull dir arc r of (es, q) \<Rightarrow> (e # es, q))
      | _ \<Rightarrow> ([], b))"
  by pat_completeness auto
termination
  by (relation "measure (\<lambda>(dir, arc, b). length b)") (auto dest: read_entry_shorter)

declare pull.simps [simp del]

lemma pull_sound:
  "pull dir arc b = (es, q) \<Longrightarrow>
   read_entries dir arc (b @ x) = res_bind (read_entries dir arc (q @ x)) (\<lambda>fs. Inr (es @ fs))"
proof (induction dir arc b arbitrary: es q rule: pull.induct)
  case (1 dir arc b)
  show ?case
  proof (cases "\<exists>e r. read_entry dir arc b = Inr (Some (e, r))")
    case True
    then obtain e r where er: "read_entry dir arc b = Inr (Some (e, r))" by blast
    obtain es' q' where p: "pull dir arc r = (es', q')" by (cases "pull dir arc r")
    with er "1.prems" have "es = e # es'" "q = q'" by (simp_all add: pull.simps [of dir arc b])
    moreover have "read_entries dir arc (b @ x) =
        res_bind (read_entries dir arc (r @ x)) (\<lambda>fs. Inr (e # fs))"
      by (subst read_entries.simps) (simp add: read_entry_append [OF er])
    ultimately show ?thesis
      using "1.IH" [OF er refl refl p] by (simp add: res_bind_assoc)
  next
    case False
    then have "pull dir arc b = ([], b)"
      by (auto simp: pull.simps [of dir arc b] split: sum.split option.split)
    then show ?thesis using "1.prems" by (cases "read_entries dir arc (q @ x)") simp_all
  qed
qed

lemma read_entry_suffix: "read_entry dir arc b = Inr (Some (e, r)) \<Longrightarrow> \<exists>c. b = c @ r"
proof -
  assume "read_entry dir arc b = Inr (Some (e, r))"
  then obtain h r1 n r2 z where "split_at 46 b = Some (h, r1)"
      "split_at (le16 h 28) r1 = Some (n, r2)" "split_at (le16 h 30 + le16 h 32) r2 = Some (z, r)"
    unfolding read_entry_def by (auto split: option.splits if_splits)
  from this [THEN split_at_eq] have "b = (h @ n @ z) @ r" by simp
  then show ?thesis by blast
qed

lemma pull_suffix: "pull dir arc b = (es, q) \<Longrightarrow> \<exists>c. b = c @ q"
proof (induction dir arc b arbitrary: es q rule: pull.induct)
  case (1 dir arc b)
  show ?case
  proof (cases "\<exists>e r. read_entry dir arc b = Inr (Some (e, r))")
    case True
    then obtain e r where er: "read_entry dir arc b = Inr (Some (e, r))" by blast
    obtain es' q' where p: "pull dir arc r = (es', q')" by (cases "pull dir arc r")
    with er "1.prems" have "q = q'" by (simp add: pull.simps [of dir arc b])
    with "1.IH" [OF er refl refl p] read_entry_suffix [OF er] show ?thesis
      by (metis append.assoc)
  next
    case False
    then have "pull dir arc b = ([], b)"
      by (auto simp: pull.simps [of dir arc b] split: sum.split option.split)
    then show ?thesis using "1.prems" by simp
  qed
qed

end
