(* ===== verification/Script_Runtime.thy ===== *)
theory Script_Runtime
  imports Zip "HOL-Library.AList"
begin

text \<open>
  The machine on which \<open>Crawler/get-pip.py\<close> runs.  \<open>world\<close> is the state the script changes: the
  directories and files, \<open>sys.path\<close>, pip's dictionary of commands and the closure cell of
  \<open>cert_path\<close>.  \<open>host\<close> collects what is not code of the repository: the command line, the
  environment, the outcome of system calls, the modules of the platform and the functions of the
  embedded pip.  An \<open>exec\<close> is a computation that may raise and changes a state; \<open>finally_do\<close> is
  Python's \<open>try\<close>/\<open>finally\<close>.  Paths are POSIX paths.
\<close>

section \<open>Computations with state and exceptions\<close>

type_synonym ('s, 'a) exec = "'s \<Rightarrow> 'a res \<times> 's"

definition ret :: "'a \<Rightarrow> ('s, 'a) exec" where
  "ret x s = (Inr x, s)"

definition raise_exc :: "pyexc \<Rightarrow> ('s, 'a) exec" where
  "raise_exc e s = (Inl e, s)"

definition of_res :: "'a res \<Rightarrow> ('s, 'a) exec" where
  "of_res r s = (r, s)"

definition after :: "('s, 'a) exec \<Rightarrow> ('a \<Rightarrow> ('s, 'b) exec) \<Rightarrow> ('s, 'b) exec" where
  "after m f s = (case m s of (Inl e, s') \<Rightarrow> (Inl e, s') | (Inr x, s') \<Rightarrow> f x s')"

definition update :: "('s \<Rightarrow> 's) \<Rightarrow> ('s, unit) exec" where
  "update f s = (Inr (), f s)"

text \<open>
  \<open>try: m finally: f\<close>.  The cleanup runs whatever \<open>m\<close> did; an exception of the cleanup replaces
  the outcome of \<open>m\<close>.
\<close>

definition finally_do :: "('s, 'a) exec \<Rightarrow> ('s, unit) exec \<Rightarrow> ('s, 'a) exec" where
  "finally_do m f s =
     (case m s of (r, s1) \<Rightarrow>
        (case f s1 of (Inl e, s2) \<Rightarrow> (Inl e, s2) | (Inr u, s2) \<Rightarrow> (r, s2)))"

text \<open>\<open>try: m except ImportError: pass\<close>, with \<open>y\<close> for the value of the handler.\<close>

definition except_ImportError :: "('s, 'a) exec \<Rightarrow> 'a \<Rightarrow> ('s, 'a) exec" where
  "except_ImportError m y s =
     (case m s of (Inl (ImportError n), s') \<Rightarrow> (Inr y, s') | (r, s') \<Rightarrow> (r, s'))"

text \<open>A computation on one part of a pair state.\<close>

definition on_world :: "('w, 'a) exec \<Rightarrow> ('f \<times> 'w, 'a) exec" where
  "on_world m s = (case m (snd s) of (r, w) \<Rightarrow> (r, (fst s, w)))"

named_theorems exec_simps \<open>running computations\<close>

lemma exec_unfold [exec_simps]:
  "ret x s = (Inr x, s)" "raise_exc e s = (Inl e, s)" "of_res r s = (r, s)" "update f s = (Inr (), f s)"
  by (simp_all add: ret_def raise_exc_def of_res_def update_def)

lemma after_cases [exec_simps]:
  "m s = (Inl e, s') \<Longrightarrow> after m f s = (Inl e, s')"
  "m s = (Inr x, s') \<Longrightarrow> after m f s = f x s'"
  by (simp_all add: after_def)

lemma after_Inr_iff:
  "after m f s = (Inr y, s') \<longleftrightarrow> (\<exists>x t. m s = (Inr x, t) \<and> f x t = (Inr y, s'))"
  by (auto simp: after_def split: prod.splits sum.splits)

lemma after_Inl_iff:
  "after m f s = (Inl e, s') \<longleftrightarrow>
   m s = (Inl e, s') \<or> (\<exists>x t. m s = (Inr x, t) \<and> f x t = (Inl e, s'))"
  by (auto simp: after_def split: prod.splits sum.splits)

text \<open>
  A resource that is released in a \<open>finally\<close>: releasing never raises, and it leaves the state
  clean unless the resource is stuck.
\<close>

locale scoped_resource =
  fixes release :: "'k \<Rightarrow> ('s, unit) exec"
    and stuck :: "'k \<Rightarrow> 's \<Rightarrow> bool"
    and clean :: "'k \<Rightarrow> 's \<Rightarrow> bool"
  assumes release_quiet: "fst (release k s) = Inr ()"
    and release_clean: "\<not> stuck k s \<Longrightarrow> clean k (snd (release k s))"
begin

lemma finally_outcome: "fst (finally_do m (release k) s) = fst (m s)"
  using release_quiet [of k "snd (m s)"]
  by (auto simp: finally_do_def split: prod.splits sum.splits)

lemma finally_state: "snd (finally_do m (release k) s) = snd (release k (snd (m s)))"
  by (auto simp: finally_do_def split: prod.splits sum.splits)

lemma finally_clean: "\<not> stuck k (snd (m s)) \<Longrightarrow> clean k (snd (finally_do m (release k) s))"
  by (simp add: finally_state release_clean)

end

section \<open>World and host\<close>

record world =
  dirs :: "string list"
  files :: "(string \<times> bytes) list"
  sys_path :: "string list"
  commands_dict :: "string \<rightharpoonup> string"
  cert_cell :: "string option"

text \<open>
  Outcomes of calls are functions of the host: \<open>mkdtemp_name\<close> the name \<open>tempfile.mkdtemp\<close> finds,
  \<open>open_fault\<close> and \<open>write_fault\<close> the error of opening or writing a path, \<open>undeletable\<close> the paths
  that cannot be removed.  An import runs code: \<open>run_module\<close> is the import of a module that the archive has,
  \<open>site_module\<close> that of one left to the platform.  Both are computations that may raise and may change the world
  in any way, files outside the temporary directory (a \<open>__pycache__\<close>) included.  So are \<open>get_data\<close>, which is
  \<open>pkgutil.get_data\<close>, and \<open>pip_main\<close>, the entry point of pip; \<open>from_line\<close> parses one argument.
\<close>

record host =
  py_major :: nat
  native_b85decode :: "(bytes \<Rightarrow> bytes res) option"
  argv :: "string list"
  environ :: "string \<Rightarrow> string option"
  mkdtemp_name :: "world \<Rightarrow> string res"
  open_fault :: "string \<Rightarrow> pyexc option"
  write_fault :: "string \<Rightarrow> pyexc option"
  undeletable :: "string \<Rightarrow> bool"
  run_module :: "string list \<Rightarrow> (world, unit) exec"
  site_module :: "string list \<Rightarrow> (world, unit) exec"
  get_data :: "string list \<Rightarrow> string \<Rightarrow> (world, bytes option) exec"
  from_line :: "string \<Rightarrow> string option res"
  pip_main :: "string list \<Rightarrow> (world, int) exec"

section \<open>Files\<close>

text \<open>\<open>os.path.join\<close> of two components.\<close>

definition as_dir :: "string \<Rightarrow> string" where
  "as_dir d = (if d = [] \<or> last d = CHR ''/'' then d else d @ ''/'')"

definition path_join :: "string \<Rightarrow> string \<Rightarrow> string" where
  "path_join a b = (if b \<noteq> [] \<and> hd b = CHR ''/'' then b else as_dir a @ b)"

definition below :: "string \<Rightarrow> string \<Rightarrow> bool" where
  "below d p \<longleftrightarrow> prefix (as_dir d) p"

definition mkdtemp :: "host \<Rightarrow> (world, string) exec" where
  "mkdtemp h w =
     (case mkdtemp_name h w of
        Inl e \<Rightarrow> (Inl e, w)
      | Inr d \<Rightarrow> (Inr d, w\<lparr>dirs := d # dirs w\<rparr>))"

text \<open>
  \<open>with open(d/name, "wb") as f: f.write(data)\<close>: opening creates or truncates the file, and only
  then is \<open>data\<close> computed and written.
\<close>

definition open_wb :: "host \<Rightarrow> string \<Rightarrow> string \<Rightarrow> (world, unit) exec" where
  "open_wb h d p w =
     (if d \<notin> set (dirs w) then (Inl (OSError p), w)
      else (case open_fault h p of
              Some e \<Rightarrow> (Inl e, w)
            | None \<Rightarrow> (Inr (), w\<lparr>files := AList.update p [] (files w)\<rparr>)))"

definition write_bytes :: "host \<Rightarrow> string \<Rightarrow> bytes \<Rightarrow> (world, unit) exec" where
  "write_bytes h p b w =
     (case write_fault h p of
        Some e \<Rightarrow> (Inl e, w)
      | None \<Rightarrow> (Inr (), w\<lparr>files := AList.update p b (files w)\<rparr>))"

text \<open>
  \<open>shutil.rmtree(d, ignore_errors=True)\<close>: everything at or below \<open>d\<close> goes, except undeletable
  files and the directories that still hold one.
\<close>

definition stuck_in :: "host \<Rightarrow> world \<Rightarrow> string \<Rightarrow> bool" where
  "stuck_in h w d \<longleftrightarrow>
     undeletable h d \<or> list_ex (\<lambda>x. below d x \<and> undeletable h x) (dirs w)
     \<or> list_ex (\<lambda>(p, b). below d p \<and> undeletable h p) (files w)"

definition rmtree :: "host \<Rightarrow> string \<Rightarrow> (world, unit) exec" where
  "rmtree h d w =
     (Inr (), w\<lparr>dirs := filter (\<lambda>x. \<not> (x = d \<or> below d x) \<or> stuck_in h w x) (dirs w),
                files := filter (\<lambda>(p, b). \<not> below d p \<or> undeletable h p) (files w)\<rparr>)"

definition removed :: "string \<Rightarrow> world \<Rightarrow> bool" where
  "removed d w \<longleftrightarrow> d \<notin> set (dirs w) \<and> list_all (\<lambda>x. \<not> below d x) (dirs w)
     \<and> list_all (\<lambda>(p, b). \<not> below d p) (files w)"

lemma as_dir_idem [simp]: "as_dir (as_dir d) = as_dir d"
  by (simp add: as_dir_def)

lemma below_as_dir: "below d x \<Longrightarrow> x = as_dir d \<or> prefix (as_dir d) x"
  by (simp add: below_def)

lemma below_trans: "below d x \<Longrightarrow> below x p \<Longrightarrow> below d p"
proof -
  assume a: "below d x" "below x p"
  have "prefix x (as_dir x)" by (simp add: as_dir_def)
  with a show "below d p" unfolding below_def by (meson prefix_order.trans)
qed

lemma stuck_below:
  assumes "below d x" "x \<in> set (dirs w)" "stuck_in h w x"
  shows "stuck_in h w d"
  using assms below_trans [OF assms(1)] unfolding stuck_in_def list_ex_iff
  by (auto split: prod.splits) blast+

lemma rmtree_clean: "\<not> stuck_in h w d \<Longrightarrow> removed d (snd (rmtree h d w))"
  using stuck_below [of d _ w h]
  by (auto simp: rmtree_def removed_def list_all_iff list_ex_iff stuck_in_def [of h w d])

lemma path_join_below: "b \<noteq> [] \<Longrightarrow> hd b \<noteq> CHR ''/'' \<Longrightarrow> below d (path_join d b)"
  by (simp add: path_join_def below_def)

interpretation tmp: scoped_resource "rmtree h" "\<lambda>d w. stuck_in h w d" removed for h
  by unfold_locales (simp_all add: rmtree_clean, simp add: rmtree_def)

section \<open>Imports\<close>

text \<open>
  \<open>import a.b.c\<close>: the entries of \<open>sys.path\<close> that are zip archives are searched in order; what is
  in none of them is the business of the platform.  What is found is run, with its effects.
\<close>

fun archive_has :: "world \<Rightarrow> string list \<Rightarrow> string list \<Rightarrow> bool" where
  "archive_has w ms [] = False"
| "archive_has w ms (p # ps) =
     (case map_of (files w) p of
        Some z \<Rightarrow> (case zip_directory z of
                     Inr es \<Rightarrow> (if find_module es (hd ms) \<noteq> None then import_path es [] ms
                               else archive_has w ms ps)
                   | Inl e \<Rightarrow> archive_has w ms ps)
      | None \<Rightarrow> archive_has w ms ps)"

definition import_module :: "host \<Rightarrow> string list \<Rightarrow> (world, unit) exec" where
  "import_module h ms w = (if archive_has w ms (sys_path w) then run_module h ms w else site_module h ms w)"

lemma archive_has_cong:
  "(\<And>p. p \<in> set ps \<Longrightarrow> map_of (files v) p = map_of (files w) p) \<Longrightarrow> archive_has v ms ps = archive_has w ms ps"
  by (induction ps) (auto split: option.split sum.split)

section \<open>A host\<close>

text \<open>
  A concrete machine, on which the properties are applied: Python 3 without \<open>base64.b85decode\<close>,
  \<open>mkdtemp\<close> finds \<open>/tmp/t\<close>, nothing fails, the platform has no module, and a run of pip writes a
  log file into the directory and returns 0.
\<close>

definition demo_host :: host where
  "demo_host = \<lparr>py_major = 3, native_b85decode = None, argv = [''get-pip.py'', ''--user''],
     environ = (\<lambda>_. None), mkdtemp_name = (\<lambda>_. Inr ''/tmp/t''),
     open_fault = (\<lambda>_. None), write_fault = (\<lambda>_. None), undeletable = (\<lambda>_. False),
     run_module = (\<lambda>ms w. (Inr (), w)), site_module = (\<lambda>ms w. (Inl (ImportError (concat ms)), w)),
     get_data = (\<lambda>ms n w. (Inr (Some ''cert''), w)),
     from_line = (\<lambda>a. if hd a = CHR ''-'' then Inl (OtherException ''InstallationError'') else Inr (Some a)),
     pip_main = (\<lambda>args w. (Inr 0, w\<lparr>files := AList.update ''/tmp/t/log'' (concat args) (files w)\<rparr>))\<rparr>"

definition empty_world :: world where
  "empty_world = \<lparr>dirs = [''/tmp''], files = [], sys_path = [''/usr/lib/python3''],
     commands_dict = (\<lambda>_. None), cert_cell = None\<rparr>"

text \<open>The same machine with pip and setuptools on the platform, where an import leaves a compiled file behind.\<close>

definition pyc :: string where "pyc = ''/usr/lib/python3/__pycache__/m.pyc''"

definition demo_host_pip :: host where
  "demo_host_pip = demo_host\<lparr>site_module := (\<lambda>ms w.
     if hd ms \<in> {''pip'', ''setuptools''} then (Inr (), w\<lparr>files := AList.update pyc (concat ms) (files w)\<rparr>)
     else (Inl (ImportError (concat ms)), w))\<rparr>"

lemma demo_host_simps [simp]:
  "py_major demo_host = 3" "native_b85decode demo_host = None"
  "argv demo_host = [''get-pip.py'', ''--user'']" "environ demo_host = (\<lambda>_. None)"
  "mkdtemp_name demo_host = (\<lambda>_. Inr ''/tmp/t'')" "open_fault demo_host = (\<lambda>_. None)"
  "write_fault demo_host = (\<lambda>_. None)" "undeletable demo_host = (\<lambda>_. False)"
  "run_module demo_host ms w = (Inr (), w)" "site_module demo_host ms w = (Inl (ImportError (concat ms)), w)"
  "get_data demo_host ms n w = (Inr (Some ''cert''), w)"
  "from_line demo_host a = (if hd a = CHR ''-'' then Inl (OtherException ''InstallationError'') else Inr (Some a))"
  "pip_main demo_host args w = (Inr 0, w\<lparr>files := AList.update ''/tmp/t/log'' (concat args) (files w)\<rparr>)"
  by (simp_all add: demo_host_def)

lemma demo_host_pip_simps [simp]:
  "py_major demo_host_pip = 3" "argv demo_host_pip = [''get-pip.py'', ''--user'']"
  "environ demo_host_pip = (\<lambda>_. None)" "mkdtemp_name demo_host_pip = (\<lambda>_. Inr ''/tmp/t'')"
  "native_b85decode demo_host_pip = None"
  "open_fault demo_host_pip = (\<lambda>_. None)" "write_fault demo_host_pip = (\<lambda>_. None)"
  "undeletable demo_host_pip = (\<lambda>_. False)" "run_module demo_host_pip ms w = (Inr (), w)"
  "site_module demo_host_pip ms w =
     (if hd ms \<in> {''pip'', ''setuptools''} then (Inr (), w\<lparr>files := AList.update pyc (concat ms) (files w)\<rparr>)
      else (Inl (ImportError (concat ms)), w))"
  "get_data demo_host_pip ms n w = (Inr (Some ''cert''), w)"
  "from_line demo_host_pip = from_line demo_host" "pip_main demo_host_pip = pip_main demo_host"
  by (simp_all add: demo_host_pip_def)

end
