(* ===== verification/Script_Arguments.thy ===== *)
theory Script_Arguments
  imports Script_Runtime
begin

text \<open>
  The command line of \<open>Crawler/get-pip.py\<close>: which arguments are passed on to \<open>pip install\<close> and
  which of \<open>pip\<close>, \<open>setuptools\<close> and \<open>wheel\<close> are added at the end (lines 102 to 159).
\<close>

section \<open>Definitions from the code\<close>

record implicit =
  i_pip :: bool
  i_setuptools :: bool
  i_wheel :: bool

definition no_setuptools :: string where "no_setuptools = ''--no-setuptools''"
definition no_wheel :: string where "no_wheel = ''--no-wheel''"

text \<open>Has the user requested us not to install setuptools, not to install wheel?\<close>

definition setuptools_request :: "host \<Rightarrow> string list \<times> bool" where
  "setuptools_request h =
     (if no_setuptools \<in> set (argv h) \<or> truthy (environ h ''PIP_NO_SETUPTOOLS'')
      then (filter (\<lambda>x. x \<noteq> no_setuptools) (drop 1 (argv h)), False)
      else (drop 1 (argv h), True))"

definition wheel_request :: "host \<Rightarrow> string list \<Rightarrow> string list \<times> bool" where
  "wheel_request h args =
     (if no_wheel \<in> set args \<or> truthy (environ h ''PIP_NO_WHEEL'')
      then (filter (\<lambda>x. x \<noteq> no_wheel) args, False)
      else (args, True))"

text \<open>\<open>if implicit_m: try: import m; implicit_m = False except ImportError: pass\<close>\<close>

definition probe :: "host \<Rightarrow> string \<Rightarrow> bool \<Rightarrow> (world, bool) exec" where
  "probe h m implicit =
     (if implicit
      then except_ImportError (after (import_module h [m]) (\<lambda>_. ret False)) True
      else ret False)"

text \<open>One turn of the loop over the arguments, and the loop.\<close>

definition consider_arg :: "host \<Rightarrow> string \<Rightarrow> implicit \<Rightarrow> implicit" where
  "consider_arg h arg i =
     (case from_line h arg of
        Inl e \<Rightarrow> i
      | Inr name \<Rightarrow>
          (if i_pip i \<and> name = Some ''pip'' then i\<lparr>i_pip := False\<rparr>
           else if i_setuptools i \<and> name = Some ''setuptools'' then i\<lparr>i_setuptools := False\<rparr>
           else if i_wheel i \<and> name = Some ''wheel'' then i\<lparr>i_wheel := False\<rparr>
           else i))"

definition consider_args :: "host \<Rightarrow> string list \<Rightarrow> implicit \<Rightarrow> implicit" where
  "consider_args h args i = fold (consider_arg h) args i"

text \<open>Add any implicit installations to the end of our arguments.\<close>

definition add_implicit :: "implicit \<Rightarrow> string list \<Rightarrow> string list" where
  "add_implicit i args =
     (let args1 = (if i_pip i then args @ [''pip''] else args);
          args2 = (if i_setuptools i then args1 @ [''setuptools''] else args1)
      in if i_wheel i then args2 @ [''wheel''] else args2)"

definition install_args :: "host \<Rightarrow> (world, string list) exec" where
  "install_args h =
     (let (args, implicit_setuptools) = setuptools_request h;
          (args', implicit_wheel) = wheel_request h args
      in after (probe h ''setuptools'' implicit_setuptools) (\<lambda>s.
         after (probe h ''wheel'' implicit_wheel) (\<lambda>w.
         ret (add_implicit
                (consider_args h args' \<lparr>i_pip = True, i_setuptools = s, i_wheel = w\<rparr>) args'))))"

section \<open>Specification\<close>

text \<open>
  The same decisions without the order of the code.  \<open>user_args\<close> are the arguments of the user,
  \<open>names h args n\<close> says that one of them is a requirement on the project \<open>n\<close>, and a package is wanted
  when it is not declined, not there, and not named.  The imports that look for setuptools and wheel run code of
  the platform: \<open>after_setuptools\<close> and \<open>after_wheel\<close> are the worlds they leave behind.
\<close>

definition user_args :: "host \<Rightarrow> string list" where
  "user_args h = filter (\<lambda>x. x \<noteq> no_setuptools \<and> x \<noteq> no_wheel) (drop 1 (argv h))"

definition names :: "host \<Rightarrow> string list \<Rightarrow> string \<Rightarrow> bool" where
  "names h args n \<longleftrightarrow> list_ex (\<lambda>a. from_line h a = Inr (Some n)) args"

definition declined_setuptools :: "host \<Rightarrow> bool" where
  "declined_setuptools h \<longleftrightarrow>
     no_setuptools \<in> set (argv h) \<or> truthy (environ h ''PIP_NO_SETUPTOOLS'')"

definition declined_wheel :: "host \<Rightarrow> bool" where
  "declined_wheel h \<longleftrightarrow> no_wheel \<in> set (drop 1 (argv h)) \<or> truthy (environ h ''PIP_NO_WHEEL'')"

definition is_ImportError :: "pyexc \<Rightarrow> bool" where
  "is_ImportError e = (case e of ImportError n \<Rightarrow> True | _ \<Rightarrow> False)"

text \<open>What an import attempt says: the module is there, it is missing, or the attempt fails otherwise.\<close>

definition missing :: "host \<Rightarrow> world \<Rightarrow> string \<Rightarrow> bool" where
  "missing h w m = (case fst (import_module h [m] w) of Inl e \<Rightarrow> is_ImportError e | Inr _ \<Rightarrow> False)"

definition probe_failure :: "host \<Rightarrow> world \<Rightarrow> string \<Rightarrow> pyexc option" where
  "probe_failure h w m =
     (case fst (import_module h [m] w) of
        Inl e \<Rightarrow> if is_ImportError e then None else Some e
      | Inr _ \<Rightarrow> None)"

definition after_setuptools :: "host \<Rightarrow> world \<Rightarrow> world" where
  "after_setuptools h w = (if declined_setuptools h then w else snd (import_module h [''setuptools''] w))"

definition after_wheel :: "host \<Rightarrow> world \<Rightarrow> world" where
  "after_wheel h w =
     (if declined_wheel h then after_setuptools h w
      else snd (import_module h [''wheel''] (after_setuptools h w)))"

definition setuptools_failure :: "host \<Rightarrow> world \<Rightarrow> pyexc option" where
  "setuptools_failure h w = (if declined_setuptools h then None else probe_failure h w ''setuptools'')"

definition wheel_failure :: "host \<Rightarrow> world \<Rightarrow> pyexc option" where
  "wheel_failure h w = (if declined_wheel h then None else probe_failure h (after_setuptools h w) ''wheel'')"

definition wanted :: "host \<Rightarrow> world \<Rightarrow> string list" where
  "wanted h w =
     (if names h (user_args h) ''pip'' then [] else [''pip'']) @
     (if \<not> declined_setuptools h \<and> missing h w ''setuptools'' \<and> \<not> names h (user_args h) ''setuptools''
      then [''setuptools''] else []) @
     (if \<not> declined_wheel h \<and> missing h (after_setuptools h w) ''wheel'' \<and> \<not> names h (user_args h) ''wheel''
      then [''wheel''] else [])"

section \<open>The code implements the specification\<close>

lemma probe_eq:
  "probe h m i w =
     (if i then (case probe_failure h w m of
          Some e \<Rightarrow> (Inl e, snd (import_module h [m] w))
        | None \<Rightarrow> (Inr (missing h w m), snd (import_module h [m] w)))
      else (Inr False, w))"
  by (cases "import_module h [m] w")
     (auto simp: probe_def except_ImportError_def after_def probe_failure_def missing_def is_ImportError_def ret_def
       split: sum.split pyexc.split)

lemma consider_args_eq:
  "consider_args h args i =
     \<lparr>i_pip = i_pip i \<and> \<not> names h args ''pip'',
      i_setuptools = i_setuptools i \<and> \<not> names h args ''setuptools'',
      i_wheel = i_wheel i \<and> \<not> names h args ''wheel''\<rparr>"
proof (induction args arbitrary: i)
  case Nil
  show ?case by (cases i) (simp add: consider_args_def names_def)
next
  case (Cons a args)
  have "consider_args h (a # args) i = consider_args h args (consider_arg h a i)"
    by (simp add: consider_args_def)
  then show ?case
    by (cases "from_line h a")
       (auto simp: Cons.IH consider_arg_def names_def)
qed

lemma filter_absent: "x \<notin> set xs \<Longrightarrow> filter (\<lambda>y. y \<noteq> x) xs = xs"
  by (induction xs) auto

lemma setuptools_request_eq:
  "setuptools_request h = (filter (\<lambda>x. x \<noteq> no_setuptools) (drop 1 (argv h)), \<not> declined_setuptools h)"
proof (cases "declined_setuptools h")
  case False
  then have "no_setuptools \<notin> set (drop 1 (argv h))"
    using set_drop_subset [of 1 "argv h"] by (auto simp: declined_setuptools_def)
  then show ?thesis
    using False by (simp add: filter_absent setuptools_request_def declined_setuptools_def)
qed (auto simp: setuptools_request_def declined_setuptools_def)

lemma no_flags_differ: "no_wheel \<noteq> no_setuptools"
  by (simp add: no_wheel_def no_setuptools_def)

lemma requests_eq:
  "wheel_request h (fst (setuptools_request h)) = (user_args h, \<not> declined_wheel h)"
proof -
  let ?a = "fst (setuptools_request h)"
  have mem: "no_wheel \<in> set ?a \<longleftrightarrow> no_wheel \<in> set (drop 1 (argv h))"
    using no_flags_differ by (auto simp: setuptools_request_eq)
  have "filter (\<lambda>x. x \<noteq> no_wheel) ?a = user_args h"
    by (simp add: setuptools_request_eq user_args_def conj_commute)
  moreover have "no_wheel \<notin> set ?a \<Longrightarrow> ?a = user_args h"
    using calculation filter_absent by metis
  ultimately show ?thesis
    using mem by (auto simp: wheel_request_def declined_wheel_def)
qed

lemma add_implicit_eq:
  "add_implicit i args = args @ (if i_pip i then [''pip''] else []) @
     (if i_setuptools i then [''setuptools''] else []) @ (if i_wheel i then [''wheel''] else [])"
  by (simp add: add_implicit_def Let_def)

lemma install_args_eq:
  "install_args h w =
     (case setuptools_failure h w of
        Some e \<Rightarrow> (Inl e, after_setuptools h w)
      | None \<Rightarrow>
          (case wheel_failure h w of
             Some e \<Rightarrow> (Inl e, after_wheel h w)
           | None \<Rightarrow> (Inr (user_args h @ wanted h w), after_wheel h w)))"
proof -
  have "install_args h w =
     after (probe h ''setuptools'' (\<not> declined_setuptools h)) (\<lambda>s.
       after (probe h ''wheel'' (\<not> declined_wheel h)) (\<lambda>x.
         ret (add_implicit (consider_args h (user_args h) \<lparr>i_pip = True, i_setuptools = s, i_wheel = x\<rparr>)
                (user_args h)))) w"
    using requests_eq [of h] by (simp add: install_args_def setuptools_request_eq)
  then show ?thesis
    by (auto simp: after_def probe_eq ret_def setuptools_failure_def wheel_failure_def after_setuptools_def
        after_wheel_def wanted_def add_implicit_eq consider_args_eq split: option.split)
qed

section \<open>Properties\<close>

text \<open>
  C4. The arguments for pip.  The code, with its flags, its filters and its chain of \<open>elif\<close>, computes what the
  specification says: the arguments of the user without the two \<open>--no-\<close> options, in their order, followed by
  the packages that are neither declined, nor (setuptools and wheel) installed, nor named by the
  user; an import that fails otherwise than by \<open>ImportError\<close> ends the script, setuptools first.  Nothing else
  changes the world than the imports that are tried, which may do so in any way.
\<close>

theorem install_args_spec:
  "install_args h w =
     (case setuptools_failure h w of
        Some e \<Rightarrow> (Inl e, after_setuptools h w)
      | None \<Rightarrow>
          (case wheel_failure h w of
             Some e \<Rightarrow> (Inl e, after_wheel h w)
           | None \<Rightarrow> (Inr (user_args h @ wanted h w), after_wheel h w)))"
  by (rule install_args_eq)

text \<open>
  Every run asks for pip, and asks for none of the three packages twice: pip is a requirement of
  the arguments, and a package that is added was not named by the user.
\<close>

theorem install_args_requirements:
  assumes "install_args h w = (Inr args, w')"
    and "\<And>n. n \<in> {''pip'', ''setuptools'', ''wheel''} \<Longrightarrow> from_line h n = Inr (Some n)"
  shows "names h args ''pip''
    \<and> list_all (\<lambda>n. n \<in> {''pip'', ''setuptools'', ''wheel''} \<and> \<not> names h (take (length (user_args h)) args) n)
         (drop (length (user_args h)) args)
    \<and> distinct (drop (length (user_args h)) args)"
proof -
  have args: "args = user_args h @ wanted h w"
    using assms(1) by (auto simp: install_args_eq split: option.splits)
  have "names h (user_args h @ wanted h w) ''pip''"
    using assms(2) [of "''pip''"] by (auto simp: names_def wanted_def)
  moreover have "n \<in> {''pip'', ''setuptools'', ''wheel''} \<and> \<not> names h (user_args h) n"
    if "n \<in> set (wanted h w)" for n
    using that by (auto simp: wanted_def split: if_splits)
  moreover have "distinct (wanted h w)" by (auto simp: wanted_def)
  ultimately show ?thesis by (simp add: args list_all_iff)
qed

theorem install_args_requirements_witness:
  "names demo_host [''--user'', ''pip'', ''setuptools'', ''wheel''] ''pip''
    \<and> list_all (\<lambda>n. n \<in> {''pip'', ''setuptools'', ''wheel''}
         \<and> \<not> names demo_host (take (length (user_args demo_host)) [''--user'', ''pip'', ''setuptools'', ''wheel'']) n)
         (drop (length (user_args demo_host)) [''--user'', ''pip'', ''setuptools'', ''wheel''])
    \<and> distinct (drop (length (user_args demo_host)) [''--user'', ''pip'', ''setuptools'', ''wheel''])"
proof (rule install_args_requirements)
  show "install_args demo_host empty_world = (Inr [''--user'', ''pip'', ''setuptools'', ''wheel''], empty_world)"
    by (simp add: install_args_def setuptools_request_def wheel_request_def no_setuptools_def no_wheel_def
        after_def probe_def except_ImportError_def import_module_def empty_world_def ret_def
        add_implicit_def consider_args_def consider_arg_def)
qed auto

end
