(* ===== verification/Bootstrap.thy ===== *)
theory Bootstrap
  imports Script_Arguments
begin

text \<open>
  \<open>bootstrap\<close> of \<open>Crawler/get-pip.py\<close> (lines 80 to 176): it imports pip, puts its own install
  command into pip's dictionary of commands, works out the arguments, writes the certificate file
  and exits with the status of \<open>pip.main\<close>.  The local variables that the \<open>finally\<close> block reads are
  a record \<open>frame\<close>.
\<close>

section \<open>The install command\<close>

text \<open>
  The option parser of an install command: \<open>defaults\<close> is its dictionary of defaults and
  \<open>user_cert\<close> what \<open>get_default_values()\<close> finds for \<open>cert\<close> in the configuration and the environment;
  they win over the dictionary.  \<open>base_parse\<close> is \<open>InstallCommand.parse_args\<close>.
\<close>

record parser =
  defaults :: "string \<rightharpoonup> string"
  user_cert :: "string option"
  base_parse :: "(string \<rightharpoonup> string) \<Rightarrow> string list \<Rightarrow> (string \<rightharpoonup> string) res"

definition default_cert :: "parser \<Rightarrow> string option" where
  "default_cert p = (case user_cert p of Some c \<Rightarrow> Some c | None \<Rightarrow> defaults p ''cert'')"

text \<open>
  \<open>cert_path\<close> is a variable of the enclosing function that is assigned only later; reading its
  empty cell is a \<open>NameError\<close>.
\<close>

definition parse_args :: "string option \<Rightarrow> parser \<Rightarrow> string list \<Rightarrow> (string \<rightharpoonup> string) res \<times> parser" where
  "parse_args cell p args =
     (if \<not> truthy (default_cert p)
      then (case cell of
              None \<Rightarrow> (Inl (NameError ''cert_path''), p)
            | Some c \<Rightarrow> (let p' = p\<lparr>defaults := (defaults p)(''cert'' \<mapsto> c)\<rparr>
                         in (base_parse p' (defaults p') args, p')))
      else (base_parse p (defaults p) args, p))"

section \<open>The function\<close>

record frame =
  f_tmpdir :: "string option"
  f_delete :: bool

text \<open>The imports at the start of \<open>bootstrap\<close>, in their order.\<close>

definition pip_imports :: "string list list" where
  "pip_imports = [[''pip''], [''pip'', ''commands'', ''install''], [''pip'', ''req'']]"

fun in_turn :: "('a \<Rightarrow> ('s, unit) exec) \<Rightarrow> 'a list \<Rightarrow> ('s, unit) exec" where
  "in_turn f [] = ret ()"
| "in_turn f (x # xs) = after (f x) (\<lambda>_. in_turn f xs)"

definition import_pip :: "host \<Rightarrow> (world, unit) exec" where
  "import_pip h = in_turn (import_module h) pip_imports"

definition register_install :: "(world, unit) exec" where
  "register_install = update (\<lambda>w. w\<lparr>commands_dict := (commands_dict w)(''install'' \<mapsto> ''CertInstallCommand'')\<rparr>)"

text \<open>\<open>if tmpdir is None: tmpdir = tempfile.mkdtemp(); delete_tmpdir = True\<close>\<close>

definition ensure_tmpdir :: "host \<Rightarrow> (frame \<times> world, string) exec" where
  "ensure_tmpdir h s =
     (case f_tmpdir (fst s) of
        Some d \<Rightarrow> (Inr d, s)
      | None \<Rightarrow> after (on_world (mkdtemp h)) (\<lambda>d.
                 after (update (\<lambda>(f, w). (f\<lparr>f_tmpdir := Some d, f_delete := True\<rparr>, w))) (\<lambda>_. ret d)) s)"

text \<open>\<open>pkgutil.get_data("pip._vendor.requests", "cacert.pem")\<close>; \<open>cert.write(None)\<close> is a \<open>TypeError\<close>.\<close>

definition cert_package :: "string list" where
  "cert_package = [''pip'', ''_vendor'', ''requests'']"

definition cert_name :: string where
  "cert_name = ''cacert.pem''"

definition get_cert :: "host \<Rightarrow> (world, bytes) exec" where
  "get_cert h =
     after (get_data h cert_package cert_name)
       (\<lambda>r. case r of None \<Rightarrow> raise_exc TypeError | Some b \<Rightarrow> ret b)"

definition write_cert :: "host \<Rightarrow> string \<Rightarrow> (world, unit) exec" where
  "write_cert h d =
     (let cert_path = path_join d ''cacert.pem'' in
      after (update (\<lambda>w. w\<lparr>cert_cell := Some cert_path\<rparr>)) (\<lambda>_.
      after (open_wb h d cert_path) (\<lambda>_.
      after (get_cert h) (\<lambda>b.
      write_bytes h cert_path b))))"

text \<open>\<open>sys.exit(status)\<close>\<close>

definition sys_exit :: "int \<Rightarrow> ('s, unit) exec" where
  "sys_exit n = raise_exc (SystemExit n)"

definition install_body :: "host \<Rightarrow> string list \<Rightarrow> (frame \<times> world, unit) exec" where
  "install_body h args =
     after (ensure_tmpdir h) (\<lambda>d.
     after (on_world (write_cert h d)) (\<lambda>_.
     after (on_world (pip_main h ([''install'', ''--upgrade''] @ args))) (\<lambda>status.
     sys_exit status)))"

definition remove_own_tmpdir :: "host \<Rightarrow> (frame \<times> world, unit) exec" where
  "remove_own_tmpdir h s =
     (if f_delete (fst s) \<and> truthy (f_tmpdir (fst s))
      then on_world (rmtree h (the (f_tmpdir (fst s)))) s else (Inr (), s))"

definition with_frame :: "frame \<Rightarrow> (frame \<times> world, 'a) exec \<Rightarrow> (world, 'a) exec" where
  "with_frame f m w = (case m (f, w) of (r, (f', w')) \<Rightarrow> (r, w'))"

definition bootstrap :: "host \<Rightarrow> string option \<Rightarrow> (world, unit) exec" where
  "bootstrap h tmpdir =
     after (import_pip h) (\<lambda>_.
     after register_install (\<lambda>_.
     after (install_args h) (\<lambda>args.
     with_frame \<lparr>f_tmpdir = tmpdir, f_delete = False\<rparr>
       (finally_do (install_body h args) (remove_own_tmpdir h)))))"

section \<open>Running it with a given directory\<close>

lemma finally_quiet: "(\<And>s. f s = (Inr (), s)) \<Longrightarrow> finally_do m f s = m s"
  by (simp add: finally_do_def split: prod.splits)

text \<open>What runs once the arguments are known, when the caller gave the directory.\<close>

definition run_pip :: "host \<Rightarrow> string \<Rightarrow> string list \<Rightarrow> (world, unit) exec" where
  "run_pip h d args =
     after (write_cert h d) (\<lambda>_.
     after (pip_main h ([''install'', ''--upgrade''] @ args)) sys_exit)"

lemma on_world_eq: "on_world m (f, w) = (fst (m w), (f, snd (m w)))"
  by (simp add: on_world_def split: prod.splits)

lemma install_body_given:
  "install_body h args (\<lparr>f_tmpdir = Some d, f_delete = b\<rparr>, w) =
     (fst (run_pip h d args w), (\<lparr>f_tmpdir = Some d, f_delete = b\<rparr>, snd (run_pip h d args w)))"
  by (simp add: install_body_def run_pip_def after_def ensure_tmpdir_def on_world_eq sys_exit_def
      raise_exc_def split: prod.splits sum.splits)

lemma with_frame_given:
  "with_frame \<lparr>f_tmpdir = Some d, f_delete = False\<rparr>
     (finally_do (install_body h args) (remove_own_tmpdir h)) w = run_pip h d args w"
  by (simp add: with_frame_def finally_do_def install_body_given remove_own_tmpdir_def)

lemma with_frame_own:
  "with_frame \<lparr>f_tmpdir = None, f_delete = False\<rparr>
     (finally_do (install_body h args) (remove_own_tmpdir h)) w =
   (case mkdtemp h w of
      (Inl e, w1) \<Rightarrow> (Inl e, w1)
    | (Inr d, w1) \<Rightarrow> (if d = [] then run_pip h d args w1
                      else finally_do (run_pip h d args) (rmtree h d) w1))"
proof (cases "mkdtemp h w")
  case (Pair r w1)
  show ?thesis
  proof (cases r)
    case (Inl e)
    then show ?thesis using Pair
      by (simp add: with_frame_def finally_do_def install_body_def after_def ensure_tmpdir_def
          on_world_eq remove_own_tmpdir_def)
  next
    case (Inr d)
    have "install_body h args (\<lparr>f_tmpdir = None, f_delete = False\<rparr>, w) =
      install_body h args (\<lparr>f_tmpdir = Some d, f_delete = True\<rparr>, w1)"
      using Pair Inr by (simp add: install_body_def after_def ensure_tmpdir_def on_world_eq update_def ret_def)
    then show ?thesis using Pair Inr
      by (simp add: with_frame_def finally_do_def install_body_given remove_own_tmpdir_def on_world_eq
          split: prod.splits sum.splits)
  qed
qed

lemma run_pip_raises: "\<exists>e w'. run_pip h d args w = (Inl e, w')"
  by (auto simp: run_pip_def after_def sys_exit_def raise_exc_def split: prod.splits sum.splits)

lemma finally_rmtree_raises: "\<exists>e w'. m w = (Inl e, w') \<Longrightarrow> \<exists>e w'. finally_do m (rmtree h d) w = (Inl e, w')"
  by (auto simp: finally_do_def rmtree_def)

section \<open>The steps before the certificate\<close>

definition prepare :: "host \<Rightarrow> (world, string list) exec" where
  "prepare h = after (import_pip h) (\<lambda>_. after register_install (\<lambda>_. install_args h))"

lemma bootstrap_prepare:
  "bootstrap h tmpdir =
     after (prepare h) (\<lambda>args. with_frame \<lparr>f_tmpdir = tmpdir, f_delete = False\<rparr>
       (finally_do (install_body h args) (remove_own_tmpdir h)))"
  by (rule ext) (simp add: bootstrap_def prepare_def after_def split: prod.split sum.split)

lemma bootstrap_given: "bootstrap h (Some d) = after (prepare h) (run_pip h d)"
  by (rule ext) (simp add: bootstrap_prepare after_def with_frame_given split: prod.split sum.split)

lemma bootstrap_raises:
  "\<exists>e w'. bootstrap h tmpdir w = (Inl e, w')"
proof -
  have "\<exists>e w'. with_frame \<lparr>f_tmpdir = tmpdir, f_delete = False\<rparr>
     (finally_do (install_body h args) (remove_own_tmpdir h)) v = (Inl e, w')" for args v
  proof (cases tmpdir)
    case None
    then show ?thesis
      using run_pip_raises [of h _ args] finally_rmtree_raises [of "run_pip h _ args"]
      by (auto simp: with_frame_own split: prod.split sum.split)
  next
    case (Some d)
    then show ?thesis using run_pip_raises by (simp add: with_frame_given)
  qed
  then show ?thesis
    by (auto simp: bootstrap_prepare after_def split: prod.split sum.split)
qed

definition registered :: "world \<Rightarrow> world" where
  "registered w = w\<lparr>commands_dict := (commands_dict w)(''install'' \<mapsto> ''CertInstallCommand'')\<rparr>"

lemma registered_simps [simp]:
  "files (registered w) = files w" "sys_path (registered w) = sys_path w" "dirs (registered w) = dirs w"
  "cert_cell (registered w) = cert_cell w"
  "commands_dict (registered w) ''install'' = Some ''CertInstallCommand''"
  by (simp_all add: registered_def)

lemma prepare_imported: "import_pip h w = (Inr (), v) \<Longrightarrow> prepare h w = install_args h (registered v)"
  by (simp add: prepare_def after_cases(2) register_install_def update_def registered_def)

section \<open>What code that is run leaves alone\<close>

text \<open>
  \<open>keeps d\<close>: the directory \<open>d\<close> is still there, the files in it and those that \<open>sys.path\<close> names are as they
  were, and so is \<open>sys.path\<close>; \<open>calm d\<close>: pip's commands and the certificate cell are as they were too.  Other
  files may change.
\<close>

definition keeps :: "string \<Rightarrow> world \<Rightarrow> world \<Rightarrow> bool" where
  "keeps d v v' \<longleftrightarrow> (d \<in> set (dirs v) \<longrightarrow> d \<in> set (dirs v')) \<and> sys_path v' = sys_path v
     \<and> (\<forall>p. below d p \<or> p \<in> set (sys_path v) \<longrightarrow> map_of (files v') p = map_of (files v) p)"

definition calm :: "string \<Rightarrow> world \<Rightarrow> world \<Rightarrow> bool" where
  "calm d v v' \<longleftrightarrow> keeps d v v' \<and> commands_dict v' = commands_dict v \<and> cert_cell v' = cert_cell v"

lemma keeps_refl [simp]: "keeps d v v"
  by (simp add: keeps_def)

lemma keeps_trans: "keeps d u v \<Longrightarrow> keeps d v w \<Longrightarrow> keeps d u w"
  by (auto simp: keeps_def)

lemma calm_refl [simp]: "calm d v v"
  by (simp add: calm_def)

lemma calm_trans: "calm d u v \<Longrightarrow> calm d v w \<Longrightarrow> calm d u w"
  by (auto simp: calm_def intro: keeps_trans)

lemma keeps_registered: "keeps d u v \<Longrightarrow> keeps d u (registered v)"
  by (simp add: keeps_def)

text \<open>Imports of an unchanged \<open>sys.path\<close> find the same things.\<close>

lemma import_module_keeps:
  assumes "keeps d u v"
  shows "import_module h ms v =
    (if archive_has u ms (sys_path u) then run_module h ms v else site_module h ms v)"
proof -
  have "archive_has v ms (sys_path u) = archive_has u ms (sys_path u)"
    by (rule archive_has_cong) (use assms in \<open>simp add: keeps_def\<close>)
  then show ?thesis using assms by (simp add: import_module_def keeps_def)
qed

section \<open>The certificate\<close>

definition cert_path :: "string \<Rightarrow> string" where
  "cert_path d = path_join d ''cacert.pem''"

lemma cert_below: "below d (cert_path d)"
  by (simp add: cert_path_def path_join_below)

lemma write_cert_ok:
  assumes "d \<in> set (dirs w)" "open_fault h (cert_path d) = None" "write_fault h (cert_path d) = None"
    and "\<And>v. fst (get_data h cert_package cert_name v) = Inr (Some b)"
    and "\<And>v. calm d v (snd (get_data h cert_package cert_name v))"
  shows "\<exists>v. write_cert h d w = (Inr (), v) \<and> map_of (files v) (cert_path d) = Some b
    \<and> cert_cell v = Some (cert_path d) \<and> commands_dict v = commands_dict w \<and> sys_path v = sys_path w
    \<and> (\<forall>p. p \<noteq> cert_path d \<and> below d p \<longrightarrow> map_of (files v) p = map_of (files w) p)"
proof -
  let ?w = "w\<lparr>cert_cell := Some (cert_path d), files := AList.update (cert_path d) [] (files w)\<rparr>"
  obtain v where v: "get_data h cert_package cert_name ?w = (Inr (Some b), v)"
    using assms(4) [of ?w] by (cases "get_data h cert_package cert_name ?w") simp
  have "calm d ?w v" using assms(5) [of ?w] v by simp
  moreover have "write_cert h d w = (Inr (), v\<lparr>files := AList.update (cert_path d) b (files v)\<rparr>)"
    using assms(1-3) v
    by (simp add: write_cert_def Let_def after_def update_def open_wb_def get_cert_def write_bytes_def ret_def
        cert_path_def [symmetric])
  ultimately show ?thesis by (auto simp: calm_def keeps_def update_conv')
qed

text \<open>
  What pip sees.  When the steps before succeed, \<open>bootstrap(tmpdir)\<close> is the call of \<open>pip.main\<close> with
  \<open>install --upgrade\<close> and the arguments they worked out, in a world where the certificate file is complete,
  \<open>cert_path\<close> is bound to it, and pip's commands and \<open>sys.path\<close> are as those steps left them; then \<open>sys.exit\<close>
  with its status.
\<close>

theorem bootstrap_calls_pip:
  assumes "prepare h w = (Inr args, u)"
    and "d \<in> set (dirs u)" "open_fault h (cert_path d) = None" "write_fault h (cert_path d) = None"
    and "\<And>v. fst (get_data h cert_package cert_name v) = Inr (Some b)"
    and "\<And>v. calm d v (snd (get_data h cert_package cert_name v))"
  shows "\<exists>v. bootstrap h (Some d) w = after (pip_main h ([''install'', ''--upgrade''] @ args)) sys_exit v
    \<and> map_of (files v) (cert_path d) = Some b \<and> cert_cell v = Some (cert_path d)
    \<and> commands_dict v = commands_dict u \<and> sys_path v = sys_path u
    \<and> (\<forall>p. p \<noteq> cert_path d \<and> below d p \<longrightarrow> map_of (files v) p = map_of (files u) p)"
proof -
  obtain v where v: "write_cert h d u = (Inr (), v)" "map_of (files v) (cert_path d) = Some b"
    "cert_cell v = Some (cert_path d)" "commands_dict v = commands_dict u" "sys_path v = sys_path u"
    "\<forall>p. p \<noteq> cert_path d \<and> below d p \<longrightarrow> map_of (files v) p = map_of (files u) p"
    using write_cert_ok [OF assms(2-6)] by blast
  then have "bootstrap h (Some d) w = after (pip_main h ([''install'', ''--upgrade''] @ args)) sys_exit v"
    using assms(1) v(1) by (simp add: bootstrap_given run_pip_def after_cases)
  then show ?thesis using v by blast
qed

text \<open>
  \<open>bootstrap\<close> never returns: on every path it ends in an exception, and when a step before the
  certificate fails it is the error of that step, with or without a given directory.
\<close>

theorem bootstrap_never_returns:
  "\<exists>e. fst (bootstrap h tmpdir w) = Inl e \<and> (case fst (prepare h w) of Inl e' \<Rightarrow> e = e' | Inr _ \<Rightarrow> True)"
proof (cases "prepare h w")
  case (Pair r v)
  show ?thesis
  proof (cases r)
    case (Inl e)
    then show ?thesis using Pair by (simp add: bootstrap_prepare after_cases(1))
  next
    case (Inr args)
    then show ?thesis using Pair bootstrap_raises [of h tmpdir w] by auto
  qed
qed

lemma demo_prepare:
  "\<exists>u. prepare demo_host_pip empty_world = (Inr [''--user'', ''pip'', ''wheel''], u) \<and> dirs u = [''/tmp'']"
proof -
  let ?w = "empty_world\<lparr>files := [(pyc, ''pipreq'')]\<rparr>"
  have i: "import_pip demo_host_pip empty_world = (Inr (), ?w)"
    by (simp add: import_pip_def pip_imports_def after_def import_module_def empty_world_def ret_def pyc_def)
  have "install_args demo_host_pip (registered ?w)
      = (Inr [''--user'', ''pip'', ''wheel''], registered ?w\<lparr>files := [(pyc, ''setuptools'')]\<rparr>)"
    by (simp add: install_args_def setuptools_request_def wheel_request_def no_setuptools_def no_wheel_def
        after_def probe_def except_ImportError_def import_module_def empty_world_def ret_def
        add_implicit_def consider_args_def consider_arg_def registered_def pyc_def)
  with prepare_imported [OF i] have "prepare demo_host_pip empty_world
      = (Inr [''--user'', ''pip'', ''wheel''], registered ?w\<lparr>files := [(pyc, ''setuptools'')]\<rparr>)" by (simp only:)
  moreover have "dirs (registered ?w\<lparr>files := [(pyc, ''setuptools'')]\<rparr>) = [''/tmp'']" by (simp add: empty_world_def)
  ultimately show ?thesis by blast
qed

theorem bootstrap_calls_pip_witness:
  "\<exists>(u :: world) v. bootstrap demo_host_pip (Some ''/tmp'') empty_world =
      after (pip_main demo_host_pip ([''install'', ''--upgrade''] @ [''--user'', ''pip'', ''wheel''])) sys_exit v
    \<and> map_of (files v) (cert_path ''/tmp'') = Some ''cert'' \<and> cert_cell v = Some (cert_path ''/tmp'')
    \<and> commands_dict v = commands_dict u \<and> sys_path v = sys_path u"
proof -
  obtain u where u: "prepare demo_host_pip empty_world = (Inr [''--user'', ''pip'', ''wheel''], u)" "dirs u = [''/tmp'']"
    using demo_prepare by blast
  have "\<exists>v. bootstrap demo_host_pip (Some ''/tmp'') empty_world =
      after (pip_main demo_host_pip ([''install'', ''--upgrade''] @ [''--user'', ''pip'', ''wheel''])) sys_exit v
    \<and> map_of (files v) (cert_path ''/tmp'') = Some ''cert'' \<and> cert_cell v = Some (cert_path ''/tmp'')
    \<and> commands_dict v = commands_dict u \<and> sys_path v = sys_path u
    \<and> (\<forall>p. p \<noteq> cert_path ''/tmp'' \<and> below ''/tmp'' p \<longrightarrow> map_of (files v) p = map_of (files u) p)"
    by (rule bootstrap_calls_pip [OF u(1)]) (simp_all add: u(2))
  then show ?thesis by blast
qed

text \<open>
  The certificate of the script has the lowest priority.  After \<open>parse_args\<close> the default
  certificate is the one of the configuration or the environment if there is one, else the one the
  parser had, and only then the file of the script; no other default changes.
\<close>

theorem parse_args_priority:
  "default_cert (snd (parse_args (Some c) p args)) =
     (case user_cert p of
        Some u \<Rightarrow> Some u
      | None \<Rightarrow> if truthy (defaults p ''cert'') then defaults p ''cert'' else Some c)
   \<and> (defaults (snd (parse_args (Some c) p args)))(''cert'' := None) = (defaults p)(''cert'' := None)
   \<and> fst (parse_args (Some c) p args) = base_parse p (defaults (snd (parse_args (Some c) p args))) args"
  by (auto simp: parse_args_def default_cert_def Let_def split: option.splits)

text \<open>
  A second parse with the same parser uses the same certificate: once the default has been set,
  it counts as given, and later changes of \<open>cert_path\<close> have no effect.
\<close>

theorem parse_args_twice:
  assumes "parse_args (Some c) p args = (r, p')" "c \<noteq> []" "user_cert p = None"
  shows "parse_args cell p' args' = (base_parse p (defaults p') args', p')
    \<and> default_cert p' = Some (if truthy (defaults p ''cert'') then the (defaults p ''cert'') else c)"
proof (cases "truthy (defaults p ''cert'')")
  case True
  then have "p' = p" using assms by (simp add: parse_args_def default_cert_def)
  then show ?thesis using True assms(3)
    by (auto simp: parse_args_def default_cert_def truthy_def split: option.splits)
next
  case False
  then have p': "p' = p\<lparr>defaults := (defaults p)(''cert'' \<mapsto> c)\<rparr>"
    using assms by (simp add: parse_args_def default_cert_def Let_def)
  then show ?thesis using False assms(2,3) by (simp add: parse_args_def default_cert_def)
qed

definition demo_parser :: parser where
  "demo_parser = \<lparr>defaults = [''retries'' \<mapsto> ''5''], user_cert = None,
     base_parse = (\<lambda>d args. if args = [] then Inl (SystemExit 2) else Inr d)\<rparr>"

theorem parse_args_twice_witness:
  "parse_args None (demo_parser\<lparr>defaults := [''retries'' \<mapsto> ''5'', ''cert'' \<mapsto> ''/tmp/t/cacert.pem'']\<rparr>) [''x''] =
     (base_parse demo_parser
        (defaults (demo_parser\<lparr>defaults := [''retries'' \<mapsto> ''5'', ''cert'' \<mapsto> ''/tmp/t/cacert.pem'']\<rparr>)) [''x''],
      demo_parser\<lparr>defaults := [''retries'' \<mapsto> ''5'', ''cert'' \<mapsto> ''/tmp/t/cacert.pem'']\<rparr>)
   \<and> default_cert (demo_parser\<lparr>defaults := [''retries'' \<mapsto> ''5'', ''cert'' \<mapsto> ''/tmp/t/cacert.pem'']\<rparr>)
     = Some (if truthy (defaults demo_parser ''cert'') then the (defaults demo_parser ''cert'') else ''/tmp/t/cacert.pem'')"
proof (rule parse_args_twice)
  show "parse_args (Some ''/tmp/t/cacert.pem'') demo_parser [''pip''] =
    (Inr [''retries'' \<mapsto> ''5'', ''cert'' \<mapsto> ''/tmp/t/cacert.pem''],
     demo_parser\<lparr>defaults := [''retries'' \<mapsto> ''5'', ''cert'' \<mapsto> ''/tmp/t/cacert.pem'']\<rparr>)"
    by (simp add: parse_args_def default_cert_def demo_parser_def)
qed (simp_all add: demo_parser_def)

end
