(* ===== verification/Base85.thy ===== *)
theory Base85
  imports Prelude
begin

text \<open>
  The base85 decoder of \<open>Crawler/get-pip.py\<close>: \<open>iterbytes\<close>, the alphabet and the fallback
  \<open>b85decode\<close> that is defined when \<open>base64.b85decode\<close> cannot be imported, statement by
  statement.  The Python major version is an argument, because the code iterates over byte
  strings in two ways.  \<open>b85encode\<close> is the abstract counterpart: the base85 encoding that
  produced the payload, stated on numbers; it models no code of the script.
\<close>

section \<open>Definitions from the code\<close>

subsection \<open>Iterating over bytes\<close>

text \<open>
  What iterating over a byte string yields: the bytes as integers in Python 3, strings of
  length one in Python 2.
\<close>

datatype pyelem = PyInt nat | PyStr string

definition py_iter :: "nat \<Rightarrow> bytes \<Rightarrow> pyelem list" where
  "py_iter major buf = (if major = 2 then map (\<lambda>c. PyStr [c]) buf else map (\<lambda>c. PyInt (of_char c)) buf)"

fun py_ord :: "pyelem \<Rightarrow> nat res" where
  "py_ord (PyStr [c]) = Inr (of_char c)"
| "py_ord (PyStr s) = Inl TypeError"
| "py_ord (PyInt n) = Inl TypeError"

fun py_as_index :: "pyelem \<Rightarrow> nat res" where
  "py_as_index (PyInt n) = Inr n"
| "py_as_index (PyStr s) = Inl TypeError"

fun map_res :: "('a \<Rightarrow> 'b res) \<Rightarrow> 'a list \<Rightarrow> 'b list res" where
  "map_res f [] = Inr []"
| "map_res f (x # xs) = res_bind (f x) (\<lambda>y. res_bind (map_res f xs) (\<lambda>ys. Inr (y # ys)))"

text \<open>\<open>PY3\<close> binds \<open>iterbytes\<close> to \<open>iter\<close>; otherwise it applies \<open>ord\<close> to every element.\<close>

definition iterbytes :: "nat \<Rightarrow> bytes \<Rightarrow> nat list res" where
  "iterbytes major buf =
     (if major = 3 then map_res py_as_index (py_iter major buf)
      else map_res py_ord (py_iter major buf))"

subsection \<open>The alphabet and its inverse table\<close>

definition b85alphabet :: bytes where
  "b85alphabet =
     ''0123456789ABCDEFGHIJKLMNOPQRSTUVWXYZ'' @
     ''abcdefghijklmnopqrstuvwxyz!#$%&()*+-;<=>?@^_`{|}~''"

fun fill_table :: "nat \<Rightarrow> nat list \<Rightarrow> nat option list \<Rightarrow> nat option list" where
  "fill_table i [] t = t"
| "fill_table i (c # cs) t = fill_table (i + 1) cs (t[c := Some i])"

definition b85dec :: "nat \<Rightarrow> nat option list res" where
  "b85dec major =
     res_bind (iterbytes major b85alphabet) (\<lambda>cs. Inr (fill_table 0 cs (replicate 256 None)))"

subsection \<open>One chunk\<close>

text \<open>\<open>for c in iterbytes(chunk): acc = acc * 85 + _b85dec[c]\<close>\<close>

fun acc_loop :: "nat option list \<Rightarrow> nat list \<Rightarrow> nat \<Rightarrow> nat res" where
  "acc_loop t [] acc = Inr acc"
| "acc_loop t (c # cs) acc =
     res_bind (py_get t c)
       (\<lambda>d. case d of None \<Rightarrow> Inl TypeError | Some k \<Rightarrow> acc_loop t cs (acc * 85 + k))"

text \<open>The handler of \<open>TypeError\<close>: find the first bad character, or raise again.\<close>

fun bad_loop :: "nat option list \<Rightarrow> nat list \<Rightarrow> nat \<Rightarrow> nat \<Rightarrow> 'a res" where
  "bad_loop t [] i j = Inl TypeError"
| "bad_loop t (c # cs) i j =
     res_bind (py_get t c)
       (\<lambda>d. case d of None \<Rightarrow> Inl (ValueError (BadChar (i + j)))
             | Some k \<Rightarrow> bad_loop t cs i (j + 1))"

text \<open>\<open>struct.Struct('!I').pack\<close>: four bytes, big-endian, or \<open>struct.error\<close>.\<close>

definition packI :: "nat \<Rightarrow> bytes res" where
  "packI acc =
     (if acc < 2 ^ 32
      then Inr [char_of (acc div 16777216), char_of (acc div 65536 mod 256),
                char_of (acc div 256 mod 256), char_of (acc mod 256)]
      else Inl StructError)"

definition decode_chunk :: "nat \<Rightarrow> nat option list \<Rightarrow> nat \<Rightarrow> bytes \<Rightarrow> bytes res" where
  "decode_chunk major t i chunk =
     (case res_bind (iterbytes major chunk) (\<lambda>cs. acc_loop t cs 0) of
        Inl TypeError \<Rightarrow> res_bind (iterbytes major chunk) (\<lambda>cs. bad_loop t cs i 0)
      | Inl e \<Rightarrow> Inl e
      | Inr acc \<Rightarrow>
          (case packI acc of
             Inl StructError \<Rightarrow> Inl (ValueError (Overflow i))
           | Inl e \<Rightarrow> Inl e
           | Inr s \<Rightarrow> Inr s))"

subsection \<open>The whole decoder\<close>

text \<open>\<open>for i in range(0, len(b), 5)\<close>, with \<open>out\<close> the list of decoded hunks.\<close>

function chunk_loop :: "nat \<Rightarrow> nat option list \<Rightarrow> bytes \<Rightarrow> nat \<Rightarrow> bytes list \<Rightarrow> bytes list res" where
  "chunk_loop major t b i out =
     (if i < length b
      then (case decode_chunk major t i (take 5 (drop i b)) of
              Inl e \<Rightarrow> Inl e
            | Inr s \<Rightarrow> chunk_loop major t b (i + 5) (out @ [s]))
      else Inr out)"
  by pat_completeness auto
termination
  by (relation "measure (\<lambda>(major, t, b, i, out). length b - i)") auto

declare chunk_loop.simps [simp del]

definition padding :: "bytes \<Rightarrow> nat" where
  "padding b = nat ((- int (length b)) mod 5)"

definition strip_padding :: "nat \<Rightarrow> bytes \<Rightarrow> bytes" where
  "strip_padding p r = (if p \<noteq> 0 then take (length r - p) r else r)"

definition b85decode :: "nat \<Rightarrow> bytes \<Rightarrow> bytes res" where
  "b85decode major b =
     res_bind (b85dec major)
       (\<lambda>t. let p = padding b; b' = b @ replicate p (CHR ''~'') in
          res_bind (chunk_loop major t b' 0 []) (\<lambda>out. Inr (strip_padding p (concat out))))"

end
