(* ===== verification/Base85_Correct.thy ===== *)
theory Base85_Correct
  imports Base85
begin

text \<open>
  Correctness of the base85 decoder.  The inverse table is computed once and for all
  (\<open>b85dec_eq\<close>); one chunk is then a function \<open>hunk\<close> of its characters (\<open>decode_chunk_eq\<close>) and
  the loop of the code is the generic block loop of the prelude (\<open>b85decode_eq\<close>).  On this rest the
  error analysis and the round trip with \<open>b85encode\<close>.
\<close>

section \<open>The inverse table\<close>

definition digit :: "char \<Rightarrow> nat option" where
  "digit c = map_of (zip b85alphabet [0..<85]) c"

definition b85_ok :: "char \<Rightarrow> bool" where
  "b85_ok c \<longleftrightarrow> c \<in> set b85alphabet"

definition dval :: "char \<Rightarrow> nat" where
  "dval c = (case digit c of Some d \<Rightarrow> d | None \<Rightarrow> 0)"

lemma length_b85alphabet [simp]: "length b85alphabet = 85"
  by (simp add: b85alphabet_def)

lemma distinct_b85alphabet: "distinct b85alphabet"
  by (simp add: b85alphabet_def)

lemma digit_None_iff: "digit c = None \<longleftrightarrow> \<not> b85_ok c"
  by (simp add: digit_def b85_ok_def map_of_zip_is_None)

lemma digit_ok: "b85_ok c \<Longrightarrow> digit c = Some (dval c)"
  using digit_None_iff [of c] by (auto simp: dval_def split: option.splits)

lemma digit_eq: "digit c = (if b85_ok c then Some (dval c) else None)"
  using digit_None_iff [of c] digit_ok [of c] by simp

lemma digit_nth: "d < 85 \<Longrightarrow> digit (b85alphabet ! d) = Some d"
  unfolding digit_def
  using map_of_zip_nth [of b85alphabet "[0..<85]" d] distinct_b85alphabet by simp

lemma dval_nth [simp]: "d < 85 \<Longrightarrow> dval (b85alphabet ! d) = d"
  by (simp add: dval_def digit_nth)

lemma ok_nth [simp]: "d < 85 \<Longrightarrow> b85_ok (b85alphabet ! d)"
  by (simp add: b85_ok_def)

lemma dval_less: "dval c < 85"
proof (cases "digit c")
  case (Some d)
  then have "d \<in> set [0..<85]" unfolding digit_def by (meson in_set_zipE map_of_SomeD)
  then show ?thesis using Some by (simp add: dval_def)
qed (simp add: dval_def)

lemma tilde_nth: "b85alphabet ! 84 = CHR ''~''"
  by (simp add: b85alphabet_def)

lemma dval_tilde [simp]: "dval (CHR ''~'') = 84"
  using dval_nth [of 84] by (simp add: tilde_nth)

lemma ok_tilde [simp]: "b85_ok (CHR ''~'')"
  using ok_nth [of 84] by (simp add: tilde_nth)

lemma length_fill_table [simp]: "length (fill_table i cs t) = length t"
  by (induction i cs t rule: fill_table.induct) simp_all

lemma fill_table_nth:
  assumes "distinct cs" "x < length t"
  shows "fill_table i cs t ! x =
       (case map_of (zip cs [i..<i + length cs]) x of None \<Rightarrow> t ! x | Some k \<Rightarrow> Some k)"
  using assms
proof (induction i cs t rule: fill_table.induct)
  case (1 i t)
  then show ?case by simp
next
  case (2 i c cs t)
  define Z where "Z = map_of (zip cs [i + 1..<i + 1 + length cs])"
  have none: "Z c = None"
    using "2.prems"(1) by (simp add: Z_def map_of_zip_is_None del: upt_Suc)
  have IH: "fill_table i (c # cs) t ! x =
     (case Z x of None \<Rightarrow> t[c := Some i] ! x | Some k \<Rightarrow> Some k)"
    using "2.IH" "2.prems" by (simp add: Z_def)
  have E: "map_of (zip (c # cs) [i..<i + length (c # cs)]) x = (if x = c then Some i else Z x)"
    by (simp add: Z_def upt_conv_Cons del: upt_Suc)
  show ?case
    unfolding IH E using none "2.prems"(2) by (cases "x = c"; cases "Z x") (simp_all del: upt_Suc)
qed

lemma map_of_zip_map_inj:
  "inj f \<Longrightarrow> map_of (zip (map f xs) ys) (f x) = map_of (zip xs ys) x"
proof (induction xs arbitrary: ys)
  case (Cons a xs)
  then show ?case by (cases ys) (auto dest: injD)
qed simp

definition b85_table :: "nat option list" where
  "b85_table = fill_table 0 (map of_char b85alphabet) (replicate 256 None)"

lemma length_b85_table [simp]: "length b85_table = 256"
  by (simp add: b85_table_def)

lemma inj_of_char_nat: "inj (of_char :: char \<Rightarrow> nat)"
  using inj_of_char .

lemma of_char_less [simp]: "(of_char c :: nat) < 256"
proof -
  have "(of_char c :: nat) mod 256 = of_char c" by simp
  then show ?thesis by (metis mod_less_divisor zero_less_numeral)
qed

lemma b85_table_nth [simp]: "b85_table ! of_char c = digit c"
proof -
  have d: "distinct (map (of_char :: char \<Rightarrow> nat) b85alphabet)"
    using distinct_b85alphabet inj_of_char_nat by (simp add: distinct_map inj_on_def)
  have "b85_table ! of_char c =
       (case digit c of None \<Rightarrow> replicate 256 None ! of_char c | Some k \<Rightarrow>
   Some k)"
    unfolding b85_table_def digit_def
    by (subst fill_table_nth [OF d]) (simp_all add: map_of_zip_map_inj [OF inj_of_char_nat])
  then show ?thesis by (cases "digit c") simp_all
qed

section \<open>Both Python versions iterate alike\<close>

lemma map_res_Inr:
  "(\<And>x. x \<in> set xs \<Longrightarrow> f x = Inr (g x)) \<Longrightarrow> map_res f xs = Inr (map g xs)"
  by (induction xs) simp_all

lemma map_res_map: "map_res f (map g xs) = map_res (\<lambda>x. f (g x)) xs"
  by (induction xs) simp_all

lemma iterbytes_eq: "major \<in> {2, 3} \<Longrightarrow> iterbytes major buf = Inr (map of_char buf)"
  by (auto simp: iterbytes_def py_iter_def map_res_map intro: map_res_Inr)

lemma b85dec_eq: "major \<in> {2, 3} \<Longrightarrow> b85dec major = Inr b85_table"
  by (simp add: b85dec_def iterbytes_eq b85_table_def)

section \<open>One chunk\<close>

fun horner :: "nat \<Rightarrow> bytes \<Rightarrow> nat" where
  "horner acc [] = acc"
| "horner acc (c # cs) = horner (acc * 85 + dval c) cs"

definition unpack4 :: "nat \<Rightarrow> bytes" where
  "unpack4 v = [char_of (v div 16777216), char_of (v div 65536 mod 256),
                char_of (v div 256 mod 256), char_of (v mod 256)]"

definition hunk :: "nat \<Rightarrow> bytes \<Rightarrow> bytes res" where
  "hunk i cs =
     (if \<forall>c \<in> set cs. b85_ok c
      then (if horner 0 cs < 2 ^ 32 then Inr (unpack4 (horner 0 cs))
            else Inl (ValueError (Overflow i)))
      else Inl (ValueError (BadChar (i + length (takeWhile b85_ok cs)))))"

lemma acc_loop_eq:
  "acc_loop b85_table (map of_char cs) acc =
     (if \<forall>c \<in> set cs. b85_ok c then Inr (horner acc cs) else Inl TypeError)"
  by (induction cs arbitrary: acc)
     (auto simp: digit_eq)

lemma bad_loop_eq:
  "\<exists>c \<in> set cs. \<not> b85_ok c \<Longrightarrow>
   bad_loop b85_table (map of_char cs) i j =
     Inl (ValueError (BadChar (i + j + length (takeWhile b85_ok cs))))"
  by (induction cs arbitrary: j)
     (auto simp: digit_eq)

lemma decode_chunk_eq:
  assumes "major \<in> {2, 3}"
  shows "decode_chunk major b85_table i cs = hunk i cs"
proof (cases "\<forall>c \<in> set cs. b85_ok c")
  case True
  then show ?thesis
    by (simp add: decode_chunk_def hunk_def iterbytes_eq [OF assms] acc_loop_eq packI_def
        unpack4_def)
next
  case False
  then have bad: "\<exists>c \<in> set cs. \<not> b85_ok c" by blast
  have "hunk i cs = Inl (ValueError (BadChar (i + length (takeWhile b85_ok cs))))"
    and "acc_loop b85_table (map of_char cs) 0 = Inl TypeError"
    unfolding hunk_def acc_loop_eq using False by (simp_all only: if_False)
  then show ?thesis
    by (simp add: decode_chunk_def iterbytes_eq [OF assms] bad_loop_eq [OF bad])
qed

section \<open>The loop\<close>

lemma chunk_loop_eq:
  assumes "major \<in> {2, 3}"
  shows "res_bind (chunk_loop major b85_table b i out) (\<lambda>ss. Inr (concat ss)) =
         res_bind (decode_blocks 5 hunk i (drop i b)) (\<lambda>r. Inr (concat out @ r))"
proof (induction "length b - i" arbitrary: i out rule: less_induct)
  case less
  show ?case
  proof (cases "i < length b")
    case False
    then show ?thesis by (simp add: chunk_loop.simps [of major b85_table b i out])
  next
    case True
    have step: "decode_blocks 5 hunk i (drop i b) =
        res_bind (hunk i (take 5 (drop i b)))
            (\<lambda>s. res_bind (decode_blocks 5 hunk (i + 5) (drop (i + 5) b)) (\<lambda>r. Inr (s @ r)))"
      using True by (subst decode_blocks_step) (simp_all add: add.commute)
    from True have "length b - (i + 5) < length b - i" by simp
    note IH = less.hyps [OF this]
    show ?thesis
    proof (cases "hunk i (take 5 (drop i b))")
      case (Inl e)
      with True step show ?thesis
        by (simp add: chunk_loop.simps [of major b85_table b i out] decode_chunk_eq [OF assms])
    next
      case (Inr s)
      with True step IH [of "out @ [s]"] show ?thesis
        by (simp add: chunk_loop.simps [of major b85_table b i out] decode_chunk_eq [OF assms]
            res_bind_assoc)
    qed
  qed
qed

lemma padding_eq: "padding b = (5 - length b mod 5) mod 5"
proof -
  have "(- int n) mod 5 = (5 - int n mod 5) mod 5" for n
    by (simp only: minus_mod_self1 mod_minus_eq)
  moreover have "nat ((5 - int n mod 5) mod 5) = (5 - n mod 5) mod 5" for n
    by (simp add: nat_eq_iff of_nat_diff of_nat_mod)
  ultimately show ?thesis by (simp add: padding_def)
qed

lemma padding_less: "padding b < 5"
  by (simp add: padding_eq)

lemma padded_dvd: "5 dvd length b + padding b"
proof (cases "length b mod 5 = 0")
  case True
  then show ?thesis by (simp add: padding_eq dvd_eq_mod_eq_0)
next
  case False
  then have "padding b = 5 - length b mod 5" by (simp add: padding_eq)
  moreover have "5 dvd n + (5 - n mod 5)" for n :: nat by presburger
  ultimately show ?thesis by simp
qed

definition padded :: "bytes \<Rightarrow> bytes" where
  "padded b = b @ replicate (padding b) (CHR ''~'')"

lemma length_padded [simp]: "length (padded b) = length b + padding b"
  by (simp add: padded_def)

lemma b85decode_eq:
  assumes "major \<in> {2, 3}"
  shows "b85decode major b =
       res_bind (decode_blocks 5 hunk 0 (padded b)) (\<lambda>r. Inr (take (length r - padding b) r))"
proof -
  have "b85decode major b =
        res_bind (res_bind (chunk_loop major b85_table (padded b) 0 []) (\<lambda>ss. Inr
   (concat ss)))
        (\<lambda>r. Inr (strip_padding (padding b) r))"
    by (simp add: b85decode_def b85dec_eq [OF assms] Let_def padded_def res_bind_assoc)
  also have "\<dots> = res_bind (decode_blocks 5 hunk 0 (padded b))
        (\<lambda>r. Inr (strip_padding (padding b) r))"
    by (simp add: chunk_loop_eq [OF assms] res_bind_assoc)
  also have "strip_padding (padding b) = (\<lambda>r. take (length r - padding b) r)"
    by (rule ext) (simp add: strip_padding_def)
  finally show ?thesis .
qed

section \<open>The digits, character by character\<close>

named_theorems b85_eval \<open>evaluation of base85 digits\<close>

lemma dval_alphabet: "map dval b85alphabet = [0..<85]"
  by (rule nth_equalityI) simp_all

lemma upt_85: "[0..<85] =
    [0::nat, 1, 2, 3, 4, 5, 6, 7, 8, 9, 10, 11, 12, 13, 14, 15, 16, 17, 18, 19, 20, 21, 22, 23,
   24, 25, 26, 27, 28, 29, 30, 31, 32, 33, 34, 35, 36, 37, 38, 39, 40, 41, 42, 43, 44, 45, 46,
   47, 48, 49, 50, 51, 52, 53, 54, 55, 56, 57, 58, 59, 60, 61, 62, 63, 64, 65, 66, 67, 68, 69,
   70, 71, 72, 73, 74, 75, 76, 77, 78, 79, 80, 81, 82, 83, 84]"
  by (simp add: upt_rec)

lemma ok_alphabet: "list_all b85_ok b85alphabet"
  by (simp add: list_all_iff b85_ok_def)

lemmas dval_chars [b85_eval] = dval_tilde dval_alphabet [unfolded b85alphabet_def upt_85, simplified]

lemmas ok_chars [b85_eval] = ok_tilde ok_alphabet [unfolded b85alphabet_def, simplified]

end
