(* ===== verification/Base85_Roundtrip.thy ===== *)
theory Base85_Roundtrip
  imports Base85_Correct
begin

text \<open>
  The base85 encoding of a byte string, and the proof that the decoder of the script inverts
  it.  A block of four bytes is one number below \<open>2 ^ 32\<close> and is written as five base85
  digits; an incomplete last block is filled with zero bytes, and as many characters are
  dropped again.  The interesting case is that last block: the decoder fills it with \<open>~\<close>,
  the largest digit, which must not disturb the bytes that are kept.
\<close>

section \<open>The encoding\<close>

fun be_value :: "nat \<Rightarrow> bytes \<Rightarrow> nat" where
  "be_value acc [] = acc"
| "be_value acc (c # cs) = be_value (acc * 256 + of_char c) cs"

definition enc_num :: "nat \<Rightarrow> bytes" where
  "enc_num v = [b85alphabet ! (v div 52200625), b85alphabet ! (v div 614125 mod 85),
                b85alphabet ! (v div 7225 mod 85), b85alphabet ! (v div 85 mod 85),
                b85alphabet ! (v mod 85)]"

definition enc_block :: "bytes \<Rightarrow> bytes" where
  "enc_block x = enc_num (be_value 0 x)"

definition enc_padding :: "bytes \<Rightarrow> nat" where
  "enc_padding bs = (4 - length bs mod 4) mod 4"

definition b85encode :: "bytes \<Rightarrow> bytes" where
  "b85encode bs =
     (let p = enc_padding bs;
          e = concat (map enc_block (blocks 4 (bs @ replicate p (char_of (0::nat)))))
      in take (length e - p) e)"

section \<open>Numbers, digits and bytes\<close>

lemma length_enc_block [simp]: "length (enc_block x) = 5"
  by (simp add: enc_block_def enc_num_def)

lemma list4: "length x = 4 \<Longrightarrow> \<exists>a b c d. x = [a, b, c, d]"
  by (auto simp: numeral_eq_Suc length_Suc_conv)

lemma bytes_bound:
  "(a::nat) < 256 \<Longrightarrow> b < 256 \<Longrightarrow> c < 256 \<Longrightarrow> d < 256 \<Longrightarrow>
   ((a * 256 + b) * 256 + c) * 256 + d < 4294967296"
proof -
  assume less: "a < 256" "b < 256" "c < 256" "d < 256"
  have step: "x < n \<Longrightarrow> y < 256 \<Longrightarrow> x * 256 + y < n * 256" for x y n :: nat by linarith
  have "((a * 256 + b) * 256 + c) * 256 + d < 256 * 256 * 256 * 256"
    by (intro step less)
  then show ?thesis by simp
qed

lemma be_value_4:
  "be_value 0 [a, b, c, d] = ((of_char a * 256 + of_char b) * 256 + of_char c) * 256 + of_char d"
  by (simp only: be_value.simps mult_0 add_0)

lemma be_value_bound: "length x = 4 \<Longrightarrow> be_value 0 x < 4294967296"
  by (auto simp only: be_value_4 dest!: list4 intro!: bytes_bound of_char_less)

lemma prefix_values:
  fixes v :: nat
  shows "v div 52200625 * 85 + v div 614125 mod 85 = v div 614125"
    and "v div 614125 * 85 + v div 7225 mod 85 = v div 7225"
    and "v div 7225 * 85 + v div 85 mod 85 = v div 85"
    and "v div 85 * 85 + v mod 85 = v"
proof -
  have step: "w div 85 * 85 + w mod 85 = w" for w :: nat by (rule div_mult_mod_eq)
  have "v div 614125 div 85 = v div 52200625" "v div 7225 div 85 = v div 614125"
    "v div 85 div 85 = v div 7225"
    by (simp_all add: div_mult2_eq [symmetric])
  with step [of "v div 614125"] step [of "v div 7225"] step [of "v div 85"] step [of v]
  show "v div 52200625 * 85 + v div 614125 mod 85 = v div 614125"
    "v div 614125 * 85 + v div 7225 mod 85 = v div 7225"
    "v div 7225 * 85 + v div 85 mod 85 = v div 85"
    "v div 85 * 85 + v mod 85 = v"
    by simp_all
qed

lemma top_digit: "(v::nat) < 4294967296 \<Longrightarrow> v div 52200625 < 85"
  by (simp add: less_mult_imp_div_less)

lemma dval_enc_digits:
  assumes "v < 4294967296"
  shows "dval (b85alphabet ! (v div 52200625)) = v div 52200625"
    and "dval (b85alphabet ! (u mod 85)) = u mod 85"
  using top_digit [OF assms] by simp_all

lemma horner_enc_num:
  assumes "v < 4294967296"
  shows "horner 0 (enc_num v) = v"
  by (simp only: enc_num_def horner.simps dval_enc_digits [OF assms] mult_0 add_0 prefix_values)

lemma ok_enc_num: "v < 4294967296 \<Longrightarrow> \<forall>c \<in> set (enc_num v). b85_ok c"
  using top_digit [of v] by (simp add: enc_num_def)

lemma byte_parts:
  assumes "(a::nat) < 256" "b < 256" "c < 256" "d < 256"
  defines "v \<equiv> ((a * 256 + b) * 256 + c) * 256 + d"
  shows "v div 16777216 = a" and "v div 65536 mod 256 = b" and "v div 256 mod 256 = c"
    and "v mod 256 = d"
proof -
  have step: "y < 256 \<Longrightarrow> (x * 256 + y) div 256 = x \<and> (x * 256 + y) mod 256 = y" for x y :: nat
    by simp
  have q1: "v div 256 = (a * 256 + b) * 256 + c" using step assms(4) by (simp only: v_def)
  have q2: "v div 65536 = a * 256 + b"
    using div_mult2_eq [of v 256 256] q1 step assms(3) by simp
  have "v div 16777216 = a"
    using div_mult2_eq [of v 65536 256] q2 step assms(2) by simp
  then show "v div 16777216 = a" "v div 65536 mod 256 = b" "v div 256 mod 256 = c" "v mod 256 = d"
    unfolding q1 q2 using step assms by (simp_all only: v_def)
qed

lemma unpack4_be_value: "length x = 4 \<Longrightarrow> unpack4 (be_value 0 x) = x"
  using byte_parts [OF of_char_less of_char_less of_char_less of_char_less]
  by (auto simp only: be_value_4 unpack4_def char_of_char dest!: list4)

lemma hunk_enc_block: "length x = 4 \<Longrightarrow> hunk i (enc_block x) = Inr x"
  using be_value_bound [of x] horner_enc_num [of "be_value 0 x"] ok_enc_num [of "be_value 0 x"]
    unpack4_be_value [of x]
  by (simp add: hunk_def enc_block_def)

interpretation b85: block_code enc_block hunk 4 5
  by unfold_locales (simp_all add: hunk_enc_block)

section \<open>The last, incomplete block\<close>

text \<open>
  Replacing the last \<open>p\<close> digits of the encoding of a number by \<open>~\<close> rounds the number up,
  by less than \<open>256 ^ p\<close>.
\<close>

lemma horner_enc_prefix:
  assumes "v < 4294967296" "p \<le> 3"
  shows "horner 0 (take (5 - p) (enc_num v)) = v div 85 ^ p"
proof -
  note D = horner.simps dval_enc_digits [OF assms(1)] mult_0 add_0 prefix_values
  have T: "take 5 [a, b, c, d, e] = [a, b, c, d, e]" "take 4 [a, b, c, d, e] = [a, b, c, d]"
    "take 3 [a, b, c, d, e] = [a, b, c]" "take 2 [a, b, c, d, e] = [a, b]" for a b c d e :: char
    by simp_all
  have P: "5 - 0 = (5::nat)" "5 - 1 = (4::nat)" "5 - 2 = (3::nat)" "5 - 3 = (2::nat)"
    "85 ^ 0 = (1::nat)" "85 ^ 1 = (85::nat)" "85 ^ 2 = (7225::nat)" "85 ^ 3 = (614125::nat)"
    by simp_all
  from assms(2) consider "p = 0" | "p = 1" | "p = 2" | "p = 3" by linarith
  then show ?thesis
    by cases (simp_all only: enc_num_def P T D div_by_1)
qed

lemma horner_append: "horner acc (xs @ ys) = horner (horner acc xs) ys"
  by (induction xs arbitrary: acc) simp_all

lemma be_value_append: "be_value acc (xs @ ys) = be_value (be_value acc xs) ys"
  by (induction xs arbitrary: acc) simp_all

lemma horner_tildes: "horner acc (replicate p (CHR ''~'')) = acc * 85 ^ p + (85 ^ p - 1)"
proof (induction p arbitrary: acc)
  case (Suc p)
  have "(1::nat) \<le> 85 ^ p" by simp
  with Suc show ?case by (simp add: algebra_simps)
qed simp

lemma be_value_zeros: "be_value acc (replicate p (char_of (0::nat))) = acc * 256 ^ p"
  by (induction p arbitrary: acc) (simp_all add: algebra_simps)

lemma unpack4_prefix:
  assumes "p \<le> 3" "w div 256 ^ p = v div 256 ^ p"
  shows "take (4 - p) (unpack4 w) = take (4 - p) (unpack4 v)"
proof -
  have D: "u div 65536 = u div 256 div 256" "u div 16777216 = u div 65536 div 256" for u :: nat
    by (simp_all add: div_mult2_eq [symmetric])
  from assms(1) consider "p = 0" | "p = 1" | "p = 2" | "p = 3" by linarith
  then show ?thesis
    using assms(2) by cases (simp_all add: unpack4_def D)
qed

lemma hunk_last:
  assumes len: "length z = 4" and p: "p \<le> 3" and zeros: "drop (4 - p) z = replicate p (char_of (0::nat))"
  shows "\<exists>y. hunk i (take (5 - p) (enc_block z) @ replicate p (CHR ''~'')) = Inr y
           \<and> length y = 4 \<and> take (4 - p) y = take (4 - p) z"
proof -
  define v where "v = be_value 0 z"
  define w where "w = v div 85 ^ p * 85 ^ p + (85 ^ p - 1)"
  have v: "v < 4294967296" using be_value_bound [OF len] by (simp add: v_def)
  have "v = be_value 0 (take (4 - p) z @ drop (4 - p) z)" by (simp add: v_def)
  then obtain k where k: "v = k * 256 ^ p"
    unfolding zeros be_value_append be_value_zeros by blast
  have pow: "(1::nat) \<le> 85 ^ p" "(85::nat) ^ p \<le> 256 ^ p" by (simp_all add: power_mono)
  have "v = v div 85 ^ p * 85 ^ p + v mod 85 ^ p" by (rule div_mult_mod_eq [symmetric])
  moreover have "v mod 85 ^ p < 85 ^ p" by simp
  ultimately have "v \<le> w" and "w < v + 256 ^ p" using pow unfolding w_def by linarith+
  then have wk: "w div 256 ^ p = k"
    using k by (intro div_nat_eqI) (simp_all add: algebra_simps)
  have split: "(4294967296::nat) = 256 ^ (4 - p) * 256 ^ p"
    using p by (simp add: power_add [symmetric])
  have "k < 256 ^ (4 - p)" using v unfolding k split by simp
  then have "w < 4294967296"
    unfolding split using wk by (metis less_mult_imp_div_less div_less_iff_less_mult zero_less_numeral zero_less_power)
  moreover have "horner 0 (take (5 - p) (enc_block z) @ replicate p (CHR ''~'')) = w"
    using horner_enc_prefix [OF v p] by (simp add: enc_block_def v_def [symmetric] horner_append
        horner_tildes w_def)
  moreover have "\<forall>c \<in> set (take (5 - p) (enc_block z) @ replicate p (CHR ''~'')). b85_ok c"
    using ok_enc_num [OF v] by (auto simp: enc_block_def v_def [symmetric] dest: in_set_takeD)
  ultimately have "hunk i (take (5 - p) (enc_block z) @ replicate p (CHR ''~'')) = Inr (unpack4 w)"
    by (simp add: hunk_def)
  moreover have "take (4 - p) (unpack4 w) = take (4 - p) z"
    using unpack4_prefix [OF p, of w v] unpack4_be_value [OF len] wk
    by (simp add: k v_def [symmetric])
  ultimately show ?thesis by (simp add: unpack4_def)
qed

section \<open>The round trip\<close>

lemma length_concat_enc: "length (concat (map enc_block xs)) = 5 * length xs"
  by (induction xs) simp_all

lemma enc_padding_dvd: "4 dvd length bs + enc_padding bs"
proof (cases "length bs mod 4 = 0")
  case True
  then show ?thesis by (simp add: enc_padding_def dvd_eq_mod_eq_0)
next
  case False
  then have "enc_padding bs = 4 - length bs mod 4" by (simp add: enc_padding_def)
  moreover have "4 dvd n + (4 - n mod 4)" for n :: nat by presburger
  ultimately show ?thesis by simp
qed

lemma enc_padding_le: "enc_padding bs \<le> 3"
  using mod_less_divisor [of 4 "4 - length bs mod 4"] by (simp add: enc_padding_def)

lemma padding_of:
  assumes "length b = 5 * k + (5 - p)" "p \<le> 3"
  shows "padding b = p"
proof -
  have r: "length b mod 5 = (5 - p) mod 5" unfolding assms(1) by (rule mod_mult_self4)
  from assms(2) consider "p = 0" | "p = 1" | "p = 2" | "p = 3" by linarith
  then show ?thesis unfolding padding_eq r by cases simp_all
qed

text \<open>Complete blocks: nothing is filled.\<close>

lemma decode_encode_whole:
  assumes "major \<in> {2, 3}" "enc_padding bs = 0"
  shows "b85decode major (b85encode bs) = Inr bs"
proof -
  have dvd: "4 dvd length bs" using enc_padding_dvd [of bs] assms(2) by simp
  let ?xs = "blocks 4 bs"
  have enc: "b85encode bs = concat (map enc_block ?xs)" by (simp add: b85encode_def assms(2))
  then have "padding (b85encode bs) = 0" by (simp add: length_concat_enc padding_eq)
  then show ?thesis
    using b85.decode_concat [OF blocks_length [OF _ dvd], of 0]
    by (simp add: enc b85decode_eq [OF assms(1)] padded_def)
qed

text \<open>Otherwise the last block \<open>z\<close> is filled with zeros, and its encoding is cut.\<close>

lemma encode_partial:
  assumes "enc_padding bs = p" "p \<noteq> 0"
  obtains ys z where "\<forall>x \<in> set ys. length x = 4" "length z = 4"
    "drop (4 - p) z = replicate p (char_of (0::nat))" "concat ys @ take (4 - p) z = bs"
    "b85encode bs = concat (map enc_block ys) @ take (5 - p) (enc_block z)"
proof -
  define full where "full = bs @ replicate p (char_of (0::nat))"
  have p: "p \<le> 3" using enc_padding_le [of bs] assms(1) by simp
  have dvd: "4 dvd length full" using enc_padding_dvd [of bs] by (simp add: full_def assms(1))
  have xs: "concat (blocks 4 full) = full" "\<forall>x \<in> set (blocks 4 full). length x = 4"
    using blocks_length [OF _ dvd] by simp_all
  have "full \<noteq> []" using assms(2) by (simp add: full_def)
  then have "blocks 4 full \<noteq> []" by (simp add: blocks_step)
  then obtain ys z where ysz: "blocks 4 full = ys @ [z]" by (metis append_butlast_last_id)
  have cz: "concat ys @ z = bs @ replicate p (char_of (0::nat))"
    using arg_cong [OF ysz, of concat] by (simp add: full_def)
  from xs(2) ysz have ys: "\<forall>x \<in> set ys. length x = 4" and z: "length z = 4" by simp_all
  have "length (concat ys @ take (4 - p) z) = length bs"
    using arg_cong [OF cz, of length] z p by simp
  moreover have "(concat ys @ take (4 - p) z) @ drop (4 - p) z = bs @ replicate p (char_of (0::nat))"
    using cz by simp
  ultimately have "concat ys @ take (4 - p) z = bs \<and> drop (4 - p) z = replicate p (char_of (0::nat))"
    by (metis append_eq_append_conv)
  moreover have "b85encode bs = concat (map enc_block ys) @ take (5 - p) (enc_block z)"
    using p ysz by (simp add: b85encode_def Let_def assms(1) full_def)
  ultimately show thesis using that ys z by blast
qed

lemma decode_encode_partial:
  assumes "major \<in> {2, 3}" "enc_padding bs = p" "p \<noteq> 0"
  shows "b85decode major (b85encode bs) = Inr bs"
proof -
  have p: "p \<le> 3" using enc_padding_le [of bs] assms(2) by simp
  obtain ys z where ys: "\<forall>x \<in> set ys. length x = 4" and z: "length z = 4"
    and zeros: "drop (4 - p) z = replicate p (char_of (0::nat))"
    and keep: "concat ys @ take (4 - p) z = bs"
    and b: "b85encode bs = concat (map enc_block ys) @ take (5 - p) (enc_block z)"
    by (rule encode_partial [OF assms(2,3)])
  let ?ey = "concat (map enc_block ys)" and ?tl = "take (5 - p) (enc_block z) @ replicate p (CHR ''~'')"
  have pad: "padding (b85encode bs) = p"
    by (rule padding_of [of _ "length ys"]) (use p in \<open>simp_all add: b length_concat_enc\<close>)
  obtain y where y: "hunk (length ?ey) ?tl = Inr y" "length y = 4" "take (4 - p) y = take (4 - p) z"
    using hunk_last [OF z p zeros] by blast
  have "decode_blocks 5 hunk (length ?ey) ?tl = Inr y"
    using p y(1) assms(3) by (subst decode_blocks_step) simp_all
  moreover have "padded (b85encode bs) = ?ey @ ?tl" unfolding padded_def pad by (simp add: b)
  ultimately have "decode_blocks 5 hunk 0 (padded (b85encode bs)) = Inr (concat ys @ y)"
    using b85.decode_concat [OF ys, of 0] by (simp add: decode_blocks_append length_concat_enc)
  moreover have "take (length (concat ys @ y) - p) (concat ys @ y) = bs" using y p keep by simp
  ultimately show ?thesis by (simp add: b85decode_eq [OF assms(1)] pad)
qed

text \<open>
  C3. Round trip: decoding the base85 encoding of any byte string gives the byte string back, for
  every length and in both versions of Python.
\<close>

theorem b85decode_encode:
  assumes "major \<in> {2, 3}"
  shows "b85decode major (b85encode bs) = Inr bs"
  using assms decode_encode_whole decode_encode_partial by blast

theorem b85decode_encode_witness: "b85decode 3 (b85encode ''PK'') = Inr ''PK''"
  by (rule b85decode_encode) simp

end
