(* ===== verification/Base85_Errors.thy ===== *)
theory Base85_Errors
  imports Base85_Roundtrip
begin

text \<open>
  What the decoder rejects, and with which exception.  Blocks are numbered from 0;
  \<open>block_at 5 (padded b) k\<close> holds the characters of block \<open>k\<close> after the input is filled with
  \<open>~\<close>.  The decoder raises for the first bad block, so its errors say where the first bad
  character is, or where the first block with a value of \<open>2 ^ 32\<close> or more starts.
\<close>

definition blk :: "bytes \<Rightarrow> nat \<Rightarrow> bytes" where
  "blk b k = block_at 5 (padded b) k"

lemma b85decode_Inl_iff:
  assumes "major \<in> {2, 3}"
  shows "b85decode major b = Inl e \<longleftrightarrow>
    (\<exists>k. k * 5 < length (padded b) \<and> hunk (k * 5) (blk b k) = Inl e
       \<and> (\<forall>k' < k. \<exists>s. hunk (k' * 5) (blk b k') = Inr s))"
  by (simp add: b85decode_eq [OF assms] res_bind_Inl_iff decode_blocks_Inl_iff blk_def)

lemma hunk_Inr_iff:
  "(\<exists>s. hunk i cs = Inr s) \<longleftrightarrow> (\<forall>c \<in> set cs. b85_ok c) \<and> horner 0 cs < 2 ^ 32"
  by (simp add: hunk_def)

lemma takeWhile_first_bad:
  "(\<exists>c \<in> set cs. \<not> P c) \<and> t = length (takeWhile P cs) \<longleftrightarrow>
   t < length cs \<and> \<not> P (cs ! t) \<and> (\<forall>c \<in> set (take t cs). P c)"
proof (induction cs arbitrary: t)
  case (Cons c cs)
  show ?case
  proof (cases t)
    case 0
    then show ?thesis by auto
  next
    case (Suc u)
    with Cons [of u] show ?thesis by auto
  qed
qed simp

lemma hunk_BadChar_iff:
  "hunk j cs = Inl (ValueError (BadChar i)) \<longleftrightarrow>
   (\<exists>t. i = j + t \<and> t < length cs \<and> \<not> b85_ok (cs ! t) \<and> (\<forall>c \<in> set (take t cs). b85_ok c))"
  unfolding takeWhile_first_bad [symmetric] by (auto simp: hunk_def)

lemma hunk_Overflow_iff:
  "hunk j cs = Inl (ValueError (Overflow i)) \<longleftrightarrow>
   i = j \<and> (\<forall>c \<in> set cs. b85_ok c) \<and> 2 ^ 32 \<le> horner 0 cs"
  by (auto simp: hunk_def)

lemma hunk_errors: "hunk j cs = Inl e \<Longrightarrow> \<exists>i. e = ValueError (BadChar i) \<or> e = ValueError (Overflow i)"
  by (auto simp: hunk_def split: if_splits)

lemma prior_blocks:
  "(\<forall>k' < k. \<forall>c \<in> set (blk b k'). P c) \<longleftrightarrow> (\<forall>c \<in> set (take (k * 5) (padded b)). P c)"
proof (induction k)
  case (Suc k)
  have "take (Suc k * 5) (padded b) = take (k * 5) (padded b) @ blk b k"
    by (simp add: blk_def block_at_def take_add [symmetric] add.commute)
  with Suc show ?case by (auto simp: All_less_Suc)
qed simp

lemma set_take_padded:
  assumes "\<not> b85_ok (padded b ! i)" "i < length (padded b)"
  shows "i < length b" and "padded b ! i = b ! i" and "take i (padded b) = take i b"
  using assms by (auto simp: padded_def nth_append split: if_splits)

lemma padded_before:
  "i < length b \<Longrightarrow> i < length (padded b)"
  "i < length b \<Longrightarrow> padded b ! i = b ! i"
  "i < length b \<Longrightarrow> take i (padded b) = take i b"
  by (simp_all add: padded_def nth_append)

lemma b85decode_BadChar:
  assumes "major \<in> {2, 3}"
  shows "b85decode major b = Inl (ValueError (BadChar i)) \<longleftrightarrow>
    i < length b \<and> \<not> b85_ok (b ! i) \<and> (\<forall>c \<in> set (take i b). b85_ok c)
    \<and> (\<forall>k < i div 5. horner 0 (blk b k) < 2 ^ 32)"
proof -
  have nth: "t < 5 \<Longrightarrow> k * 5 + t < length (padded b) \<Longrightarrow> blk b k ! t = padded b ! (k * 5 + t)" for k t
    by (simp add: blk_def block_at_def)
  have len: "length (blk b k) = min 5 (length (padded b) - k * 5)" for k
    by (simp add: blk_def block_at_def)
  have part: "t < 5 \<Longrightarrow> (\<forall>c \<in> set (take (k * 5) (padded b)). P c) \<and> (\<forall>c \<in> set (take t (blk b k)). P c)
       \<longleftrightarrow> (\<forall>c \<in> set (take (k * 5 + t) (padded b)). P c)" for k t P
    by (auto simp: blk_def block_at_def take_add min_def)
  have "b85decode major b = Inl (ValueError (BadChar i)) \<longleftrightarrow>
    i < length (padded b) \<and> \<not> b85_ok (padded b ! i)
      \<and> (\<forall>c \<in> set (take i (padded b)). b85_ok c) \<and> (\<forall>k < i div 5. horner 0 (blk b k) < 2 ^ 32)"
    (is "_ \<longleftrightarrow> ?R")
  proof
    assume "b85decode major b = Inl (ValueError (BadChar i))"
    then obtain k t where k: "k * 5 < length (padded b)" "i = k * 5 + t" "t < length (blk b k)"
      "\<not> b85_ok (blk b k ! t)" "\<forall>c \<in> set (take t (blk b k)). b85_ok c"
      "\<forall>k' < k. (\<forall>c \<in> set (blk b k'). b85_ok c) \<and> horner 0 (blk b k') < 2 ^ 32"
      unfolding b85decode_Inl_iff [OF assms] hunk_BadChar_iff hunk_Inr_iff by blast
    then have t: "t < 5" "i < length (padded b)" "i div 5 = k" by (auto simp: len)
    have "\<forall>c \<in> set (take (k * 5) (padded b)). b85_ok c"
      using k(6) prior_blocks [of k b b85_ok] by simp
    then have "\<forall>c \<in> set (take i (padded b)). b85_ok c"
      using part [OF t(1), of k b85_ok] k(2,5) by simp
    moreover have "\<not> b85_ok (padded b ! i)" using k(2,4) t nth [of t k] by simp
    ultimately show ?R using k(6) t by simp
  next
    assume R: ?R
    define k t where "k = i div 5" and "t = i mod 5"
    then have i: "i = k * 5 + t" "t < 5" by simp_all
    with R have a: "k * 5 < length (padded b)" "t < length (blk b k)" by (auto simp: len)
    have c: "(\<forall>c \<in> set (take (k * 5) (padded b)). b85_ok c) \<and> (\<forall>c \<in> set (take t (blk b k)). b85_ok c)"
      using part [OF i(2), of k b85_ok] i(1) R by simp
    have "\<forall>k' < k. (\<forall>c \<in> set (blk b k'). b85_ok c) \<and> horner 0 (blk b k') < 2 ^ 32"
      using R c prior_blocks [of k b b85_ok] k_def by simp
    moreover have "\<not> b85_ok (blk b k ! t)" using i R nth [of t k] by simp
    ultimately show "b85decode major b = Inl (ValueError (BadChar i))"
      unfolding b85decode_Inl_iff [OF assms] hunk_BadChar_iff hunk_Inr_iff
      using a c i(1) by (intro exI [of _ k] conjI exI [of _ t]) simp_all
  qed
  also have "\<dots> \<longleftrightarrow> i < length b \<and> \<not> b85_ok (b ! i) \<and> (\<forall>c \<in> set (take i b). b85_ok c)
    \<and> (\<forall>k < i div 5. horner 0 (blk b k) < 2 ^ 32)"
  proof (cases "i < length b")
    case True
    then show ?thesis by (simp add: padded_before)
  next
    case False
    then show ?thesis using set_take_padded(1) [of b i] by blast
  qed
  finally show ?thesis .
qed

text \<open>
  C5. The error position of \<open>b85decode\<close>: the call raises
  \<open>ValueError('bad base85 character at position i')\<close> exactly when \<open>i\<close> is the position of the
  first character of the input outside the alphabet and no earlier block overflows.
\<close>

theorem b85decode_BadChar_iff:
  assumes "major \<in> {2, 3}"
  shows "b85decode major b = Inl (ValueError (BadChar i)) \<longleftrightarrow>
    i < length b \<and> \<not> b85_ok (b ! i) \<and> (\<forall>c \<in> set (take i b). b85_ok c)
    \<and> (\<forall>k < i div 5. horner 0 (blk b k) < 2 ^ 32)"
  using assms by (rule b85decode_BadChar)

theorem b85decode_BadChar_iff_witness:
  "b85decode 3 ''ab cd'' = Inl (ValueError (BadChar 2))"
proof (rule b85decode_BadChar_iff [THEN iffD2])
  have "\<not> b85_ok (CHR '' '')" by (simp add: b85_ok_def b85alphabet_def)
  then show "2 < length ''ab cd'' \<and> \<not> b85_ok (''ab cd'' ! 2)
      \<and> (\<forall>c \<in> set (take 2 ''ab cd''). b85_ok c)
      \<and> (\<forall>k < 2 div 5. horner 0 (blk ''ab cd'' k) < 2 ^ 32)"
    by (simp add: b85_eval)
qed simp

text \<open>
  C6. The overflow error of \<open>b85decode\<close>: the call raises
  \<open>ValueError('base85 overflow in hunk starting at byte i')\<close> exactly when \<open>i\<close> is the start of the
  first block whose value does not fit in 32 bits, and every character up to the end of that
  block is in the alphabet.
\<close>

theorem b85decode_Overflow_iff:
  assumes "major \<in> {2, 3}"
  shows "b85decode major b = Inl (ValueError (Overflow i)) \<longleftrightarrow>
    (\<exists>k. i = k * 5 \<and> i < length b \<and> (\<forall>c \<in> set (take (i + 5) b). b85_ok c)
       \<and> 2 ^ 32 \<le> horner 0 (blk b k) \<and> (\<forall>k' < k. horner 0 (blk b k') < 2 ^ 32))"
proof -
  have lt: "k * 5 < length (padded b) \<longleftrightarrow> k * 5 < length b" for k
  proof -
    obtain q where "length b + padding b = 5 * q" using padded_dvd [of b] unfolding dvd_def by blast
    then have len: "length (padded b) = 5 * q" by simp
    have "k < q \<Longrightarrow> k * 5 + 5 \<le> 5 * q" by linarith
    then show ?thesis using padding_less [of b] len unfolding length_padded by linarith
  qed
  have tk: "(\<forall>c \<in> set (take n (padded b)). b85_ok c) \<longleftrightarrow> (\<forall>c \<in> set (take n b). b85_ok c)" for n
    by (auto simp: padded_def dest: in_set_takeD)
  have "(\<forall>c \<in> set (blk b k). b85_ok c) \<and> (\<forall>k' < k. \<forall>c \<in> set (blk b k'). b85_ok c)
      \<longleftrightarrow> (\<forall>c \<in> set (take (k * 5 + 5) b). b85_ok c)" for k
    using prior_blocks [of "Suc k" b b85_ok] by (auto simp: tk All_less_Suc add.commute)
  then show ?thesis
    unfolding b85decode_Inl_iff [OF assms] hunk_Overflow_iff hunk_Inr_iff lt by blast
qed

theorem b85decode_Overflow_iff_witness:
  "b85decode 2 ''00000~~~~~'' = Inl (ValueError (Overflow 5))"
proof (rule b85decode_Overflow_iff [THEN iffD2], simp, rule exI [of _ 1], intro conjI)
  show "(2::nat) ^ 32 \<le> horner 0 (blk ''00000~~~~~'' 1)"
    by (simp add: blk_def block_at_def padded_def padding_eq b85_eval)
  show "\<forall>k' < (1::nat). horner 0 (blk ''00000~~~~~'' k') < 2 ^ 32"
    by (simp add: blk_def block_at_def padded_def padding_eq b85_eval)
qed (simp_all add: b85_eval)

text \<open>
  No other exception escapes \<open>b85decode\<close>: the \<open>TypeError\<close> of adding \<open>None\<close>, the
  \<open>struct.error\<close> of packing and an \<open>IndexError\<close> of the table are never seen by the caller; in
  particular the bare \<open>raise\<close> after the search for the bad character is never reached.
\<close>

theorem b85decode_errors:
  assumes "major \<in> {2, 3}" "b85decode major b = Inl e"
  shows "\<exists>i < length b. e = ValueError (BadChar i) \<or> e = ValueError (Overflow i)"
proof -
  obtain k where "hunk (k * 5) (blk b k) = Inl e"
    using assms(2) unfolding b85decode_Inl_iff [OF assms(1)] by blast
  then obtain i where i: "e = ValueError (BadChar i) \<or> e = ValueError (Overflow i)"
    using hunk_errors by blast
  then have "i < length b"
    using assms(2) b85decode_BadChar_iff [OF assms(1)] b85decode_Overflow_iff [OF assms(1)] by blast
  with i show ?thesis by blast
qed

theorem b85decode_errors_witness:
  "\<exists>i < length ''ab cd''. (ValueError (BadChar 2) :: pyexc) = ValueError (BadChar i)
      \<or> ValueError (BadChar 2) = ValueError (Overflow i)"
  by (rule b85decode_errors [of 3]) (simp, code_simp)

lemma b85decode_Inr_iff:
  assumes "major \<in> {2, 3}"
  shows "(\<exists>r. b85decode major b = Inr r) \<longleftrightarrow>
    (\<forall>k. k * 5 < length (padded b) \<longrightarrow> (\<exists>s. hunk (k * 5) (blk b k) = Inr s))"
    (is "?L \<longleftrightarrow> (\<forall>k. ?in k \<longrightarrow> ?ok k)")
proof
  assume L: ?L
  show "\<forall>k. ?in k \<longrightarrow> ?ok k"
  proof (rule ccontr)
    assume "\<not> ?thesis"
    then obtain k0 where "?in k0 \<and> \<not> ?ok k0" by blast
    then obtain k where k: "?in k" "\<not> ?ok k" and least: "\<And>j. j < k \<Longrightarrow> \<not> (?in j \<and> \<not> ?ok j)"
      using exists_least_iff [of "\<lambda>k. ?in k \<and> \<not> ?ok k"] by blast
    have "j < k \<Longrightarrow> ?ok j" for j using least [of j] k(1) by (cases "?in j") auto
    moreover obtain e where "hunk (k * 5) (blk b k) = Inl e"
      using k(2) by (cases "hunk (k * 5) (blk b k)") auto
    ultimately have "b85decode major b = Inl e"
      unfolding b85decode_Inl_iff [OF assms] using k(1) by blast
    with L show False by simp
  qed
next
  assume "\<forall>k. ?in k \<longrightarrow> ?ok k"
  then have "b85decode major b \<noteq> Inl e" for e
    unfolding b85decode_Inl_iff [OF assms] by fastforce
  then show ?L by (cases "b85decode major b") auto
qed

lemma length_b85decode:
  assumes "major \<in> {2, 3}" "b85decode major b = Inr r"
  shows "length r = 4 * ((length b + padding b) div 5) - padding b"
proof -
  obtain r' where r': "decode_blocks 5 hunk 0 (padded b) = Inr r'" "r = take (length r' - padding b) r'"
    using assms(2) by (auto simp: b85decode_eq [OF assms(1)] res_bind_Inr_iff)
  have "length r' = 4 * (length (padded b) div 5)"
    by (rule decode_blocks_length [OF r'(1)])
       (use padded_dvd [of b] in \<open>auto simp: hunk_def unpack4_def split: if_splits\<close>)
  then show ?thesis by (simp add: r'(2))
qed

lemma blocks_before_end: "k * 5 < length (padded b) \<longleftrightarrow> k * 5 < length b"
proof -
  obtain q where "length b + padding b = 5 * q" using padded_dvd [of b] unfolding dvd_def by blast
  then have len: "length (padded b) = 5 * q" by simp
  have "k < q \<Longrightarrow> k * 5 + 5 \<le> 5 * q" by linarith
  then show ?thesis using padding_less [of b] len unfolding length_padded by linarith
qed

lemma all_blocks_ok:
  "(\<forall>k. k * 5 < length (padded b) \<longrightarrow> (\<forall>c \<in> set (blk b k). b85_ok c)) \<longleftrightarrow> (\<forall>c \<in> set b. b85_ok c)"
proof -
  obtain q where q: "length b + padding b = 5 * q" using padded_dvd [of b] unfolding dvd_def by blast
  have "k * 5 < length (padded b) \<longleftrightarrow> k < q" for k by (simp add: q)
  then have "(\<forall>k. k * 5 < length (padded b) \<longrightarrow> (\<forall>c \<in> set (blk b k). b85_ok c))
      \<longleftrightarrow> (\<forall>c \<in> set (take (q * 5) (padded b)). b85_ok c)"
    using prior_blocks [of q b b85_ok] by simp
  also have "take (q * 5) (padded b) = padded b" by (simp add: q mult.commute)
  also have "(\<forall>c \<in> set (padded b). b85_ok c) \<longleftrightarrow> (\<forall>c \<in> set b. b85_ok c)"
    by (auto simp: padded_def)
  finally show ?thesis .
qed

lemma b85decode_accepts:
  assumes "major \<in> {2, 3}"
  shows "(\<exists>r. b85decode major b = Inr r \<and> length r = 4 * ((length b + padding b) div 5) - padding b)
    \<longleftrightarrow> (\<forall>c \<in> set b. b85_ok c) \<and> (\<forall>k. k * 5 < length b \<longrightarrow> horner 0 (blk b k) < 2 ^ 32)"
  (is "?L \<longleftrightarrow> ?R")
proof -
  have "?L \<longleftrightarrow> (\<exists>r. b85decode major b = Inr r)"
    using length_b85decode [OF assms] by blast
  also have "\<dots> \<longleftrightarrow> ?R"
    unfolding b85decode_Inr_iff [OF assms] hunk_Inr_iff
    using all_blocks_ok [of b] blocks_before_end [of _ b] by blast
  finally show ?thesis .
qed

text \<open>
  C11. The decoder accepts exactly the strings over the alphabet all of whose blocks, after
  filling with \<open>~\<close>, have a value below \<open>2 ^ 32\<close>, and then returns four bytes for each block less
  the filling.
\<close>

theorem b85decode_accepts_iff:
  assumes "major \<in> {2, 3}"
  shows "(\<exists>r. b85decode major b = Inr r \<and> length r = 4 * ((length b + padding b) div 5) - padding b)
    \<longleftrightarrow> (\<forall>c \<in> set b. b85_ok c) \<and> (\<forall>k. k * 5 < length b \<longrightarrow> horner 0 (blk b k) < 2 ^ 32)"
  (is "?L \<longleftrightarrow> ?R")
  using assms by (rule b85decode_accepts)

theorem b85decode_accepts_iff_witness:
  "\<exists>r. b85decode 3 ''00000'' = Inr r \<and> length r = 4 * ((length ''00000'' + padding ''00000'') div 5) - padding ''00000''"
proof (rule b85decode_accepts_iff [THEN iffD2], simp, intro conjI allI impI)
  fix k :: nat
  assume "k * 5 < length ''00000''"
  then have "k = 0" by simp
  then show "horner 0 (blk ''00000'' k) < 2 ^ 32"
    by (simp add: blk_def padded_def padding_eq b85_eval)
qed (simp add: b85_eval)

section \<open>The decoder determines its input\<close>

lemma horner_bound_digits:
  assumes "(a::nat) < 85" "b < 85" "c < 85" "d < 85" "e < 85"
  defines "v \<equiv> (((a * 85 + b) * 85 + c) * 85 + d) * 85 + e"
  shows "v div 52200625 = a" "v div 614125 mod 85 = b" "v div 7225 mod 85 = c"
    "v div 85 mod 85 = d" "v mod 85 = e"
proof -
  have step: "y < 85 \<Longrightarrow> (x * 85 + y) div 85 = x \<and> (x * 85 + y) mod 85 = y" for x y :: nat by simp
  have D: "v div 7225 = v div 85 div 85" "v div 614125 = v div 7225 div 85"
    "v div 52200625 = v div 614125 div 85" by (simp_all add: div_mult2_eq [symmetric])
  have q1: "v div 85 = ((a * 85 + b) * 85 + c) * 85 + d" using step assms(5) by (simp only: v_def)
  have q2: "v div 7225 = (a * 85 + b) * 85 + c" using step assms(4) by (simp only: D q1)
  have q3: "v div 614125 = a * 85 + b" using step assms(3) by (simp only: D(2) q2)
  have q4: "v div 52200625 = a" using step assms(2) by (simp only: D(3) q3)
  show "v div 52200625 = a" "v div 614125 mod 85 = b" "v div 7225 mod 85 = c"
    "v div 85 mod 85 = d" "v mod 85 = e"
    unfolding q1 q2 q3 q4 using step assms by (simp_all only: v_def)
qed

lemma nth_dval: "b85_ok c \<Longrightarrow> b85alphabet ! dval c = c"
proof -
  assume "b85_ok c"
  then obtain d where "d < 85" "b85alphabet ! d = c"
    unfolding b85_ok_def by (metis in_set_conv_nth length_b85alphabet)
  then show ?thesis by (metis dval_nth)
qed

lemma enc_num_horner:
  assumes "length cs = 5" "\<forall>c \<in> set cs. b85_ok c"
  shows "enc_num (horner 0 cs) = cs"
proof -
  obtain a b c d e where cs: "cs = [a, b, c, d, e]"
    using assms(1) by (auto simp: numeral_eq_Suc length_Suc_conv)
  have h: "horner 0 cs = (((dval a * 85 + dval b) * 85 + dval c) * 85 + dval d) * 85 + dval e"
    by (simp only: cs horner.simps mult_0 add_0)
  show ?thesis
    unfolding h enc_num_def horner_bound_digits [OF dval_less dval_less dval_less dval_less dval_less]
    using assms(2) by (simp add: cs nth_dval)
qed

lemma be_value_unpack4:
  assumes "v < 4294967296"
  shows "be_value 0 (unpack4 v) = v"
proof -
  have "v div 16777216 < 256" using assms by (simp add: less_mult_imp_div_less)
  then have top: "v div 16777216 mod 256 = v div 16777216" by simp
  have step: "w div 256 * 256 + w mod 256 = w" for w :: nat by (rule div_mult_mod_eq)
  have D: "v div 65536 div 256 = v div 16777216" "v div 256 div 256 = v div 65536"
    by (simp_all add: div_mult2_eq [symmetric])
  have "v div 16777216 * 256 + v div 65536 mod 256 = v div 65536"
    "v div 65536 * 256 + v div 256 mod 256 = v div 256" "v div 256 * 256 + v mod 256 = v"
    using step [of "v div 65536"] step [of "v div 256"] step [of v] by (simp_all only: D)
  then show ?thesis
    unfolding unpack4_def be_value_4 of_char_of mod_mod_trivial top by (simp only:)
qed

lemma length_unpack4 [simp]: "length (unpack4 v) = 4"
  by (simp add: unpack4_def)

lemma enc_block_hunk:
  "length cs = 5 \<Longrightarrow> hunk i cs = Inr y \<Longrightarrow> length y = 4 \<and> enc_block y = cs"
  by (auto simp: hunk_def enc_block_def be_value_unpack4 enc_num_horner split: if_splits)

interpretation b85c: canonical_block_code enc_block hunk 4 5
  by unfold_locales (rule enc_block_hunk)

text \<open>
  C12. The decoder is canonical on inputs of complete blocks: what it accepts is the encoding of
  what it returns, so two such inputs never decode to the same bytes.
\<close>

theorem b85encode_decode:
  assumes "major \<in> {2, 3}" "5 dvd length b" "b85decode major b = Inr r"
  shows "b85encode r = b"
proof -
  have "padding b = 0" using assms(2) by (simp add: padding_eq)
  then have "decode_blocks 5 hunk 0 b = Inr r"
    using assms(3) by (auto simp: b85decode_eq [OF assms(1)] res_bind_Inr_iff padded_def)
  then have "4 dvd length r \<and> concat (map enc_block (blocks 4 r)) = b"
    using assms(2) by (rule b85c.decode_canonical)
  then show ?thesis by (simp add: b85encode_def enc_padding_def dvd_eq_mod_eq_0)
qed

theorem b85encode_decode_witness: "b85encode [CHR 0x00, CHR 0x00, CHR 0x00, CHR 0x00] = ''00000''"
proof (rule b85encode_decode [of 3])
  have "padding ''00000'' = 0" by (simp add: padding_eq)
  then show "b85decode 3 ''00000'' = Inr [CHR 0x00, CHR 0x00, CHR 0x00, CHR 0x00]"
    by (simp add: b85decode_eq padded_def decode_blocks_step hunk_def b85_eval unpack4_def char_of_def)
qed (simp_all add: eval_nat_numeral)

text \<open>
  A single character after complete blocks is dropped without an error, although no encoding
  ends in such a block: the decoder accepts \<open>b\<close> followed by any alphabet character below \<open>|\<close> and
  returns the same bytes as for \<open>b\<close>.
\<close>

theorem b85decode_dangling:
  assumes "major \<in> {2, 3}" "5 dvd length b" "b85decode major b = Inr r"
    and "b85_ok c" "dval c < 82"
  shows "b85decode major (b @ [c]) = Inr r"
proof -
  have pad: "padding b = 0" "padding (b @ [c]) = 4"
    using assms(2) mod_Suc [of "length b" 5] by (simp_all add: padding_eq)
  have b: "decode_blocks 5 hunk 0 b = Inr r"
    using assms(3) pad by (auto simp: b85decode_eq [OF assms(1)] res_bind_Inr_iff padded_def)
  have "horner 0 (c # ''~~~~'') < 4294967296" using assms(5) by simp
  then have "hunk (length b) (c # ''~~~~'') = Inr (unpack4 (horner 0 (c # ''~~~~'')))"
    using assms(4) by (simp add: hunk_def del: horner.simps)
  then have "decode_blocks 5 hunk (length b) (c # ''~~~~'') = Inr (unpack4 (horner 0 (c # ''~~~~'')))"
    by (simp add: decode_blocks_step del: horner.simps)
  moreover have "padded (b @ [c]) = b @ c # ''~~~~''"
    by (simp add: padded_def pad numeral_eq_Suc)
  ultimately have "decode_blocks 5 hunk 0 (padded (b @ [c])) = Inr (r @ unpack4 (horner 0 (c # ''~~~~'')))"
    using b by (simp add: decode_blocks_append [OF assms(2)] del: horner.simps)
  then show ?thesis
    by (simp add: b85decode_eq [OF assms(1)] pad del: horner.simps)
qed

theorem b85decode_dangling_witness:
  "b85decode 3 ([] @ ''0'') = Inr []"
  by (rule b85decode_dangling) (simp_all add: b85decode_eq padded_def padding_eq b85_eval)

text \<open>
  The Python 2 and the Python 3 reading of byte strings give the same decoder, errors
  included.
\<close>

theorem b85decode_versions: "b85decode 2 b = b85decode 3 b"
  by (simp add: b85decode_eq)

end
