(* ===== verification/Payload_Check.thy ===== *)
theory Payload_Check
  imports Base85_Errors
begin

text \<open>
  Checking long base85 text in the kernel.  \<open>scan n b\<close> reads \<open>b\<close> in groups of five characters
  and returns \<open>n\<close> plus the number of bytes they decode to, provided every group is acceptable.  Only a
  group that starts with one of the three highest digits needs its value.
\<close>

definition low_digit :: "char \<Rightarrow> bool" where
  "low_digit c \<longleftrightarrow> b85_ok c \<and> dval c < 82"

fun scan :: "nat \<Rightarrow> bytes \<Rightarrow> nat option" where
  "scan n [] = Some n"
| "scan n (a # b # c # d # e # r) =
     (if (if low_digit a then True else b85_ok a \<and> horner 0 [a, b, c, d, e] < 4294967296)
        \<and> b85_ok b \<and> b85_ok c \<and> b85_ok d \<and> b85_ok e
      then scan (n + 4) r else None)"
| "scan n _ = None"

lemma low_digit_bound: "low_digit a \<Longrightarrow> horner 0 [a, b, c, d, e] < 4294967296"
proof -
  assume "low_digit a"
  then have "dval a < 82" by (simp add: low_digit_def)
  moreover have "dval b < 85" "dval c < 85" "dval d < 85" "dval e < 85" by (rule dval_less)+
  ultimately show ?thesis by simp
qed

lemma scan_sound:
  "scan n b = Some k \<Longrightarrow>
   5 dvd length b \<and> (\<exists>r. decode_blocks 5 hunk i b = Inr r \<and> n + length r = k)"
proof (induction n b arbitrary: i k rule: scan.induct)
  case (2 n a b c d e r)
  from "2.prems" have g: "(if low_digit a then True else b85_ok a \<and> horner 0 [a, b, c, d, e] < 4294967296)
        \<and> b85_ok b \<and> b85_ok c \<and> b85_ok d \<and> b85_ok e" and rec: "scan (n + 4) r = Some k"
    by (simp_all split: if_splits)
  have ok: "b85_ok a" "horner 0 [a, b, c, d, e] < 4294967296"
    using g low_digit_bound [of a b c d e] by (auto simp only: low_digit_def split: if_splits)
  then have h: "hunk i [a, b, c, d, e] = Inr (unpack4 (horner 0 [a, b, c, d, e]))"
    using g by (simp add: hunk_def del: horner.simps)
  obtain s where s: "5 dvd length r" "decode_blocks 5 hunk (i + 5) r = Inr s" "n + 4 + length s = k"
    using "2.IH" [OF g rec, of "i + 5"] by blast
  have "decode_blocks 5 hunk i ([a, b, c, d, e] @ r) = Inr (unpack4 (horner 0 [a, b, c, d, e]) @ s)"
    using h s(2) by (subst decode_blocks_append_block) (simp_all del: horner.simps append_Cons)
  moreover have "5 dvd length ([a, b, c, d, e] @ r)"
    using dvd_add [OF dvd_refl s(1)] by (simp add: numeral_eq_Suc)
  ultimately show ?case using s(3) by (auto simp del: horner.simps)
qed simp_all

lemma scan_append:
  "scan n x = Some k \<Longrightarrow> scan n (x @ y) = scan k y"
  by (induction n x rule: scan.induct) (auto simp del: horner.simps split: if_splits)

text \<open>
  Five lines of 79 characters are a whole number of groups, so lines are scanned five at a time;
  \<open>p\<close> is appended to the last five.
\<close>

fun scan_lines :: "nat \<Rightarrow> string \<Rightarrow> string list \<Rightarrow> nat option" where
  "scan_lines n p [] = Some n"
| "scan_lines n p (a # b # c # d # e # ls) =
     (case scan n (a @ b @ c @ d @ e @ (if ls = [] then p else [])) of
        None \<Rightarrow> None
      | Some k \<Rightarrow> scan_lines k p ls)"
| "scan_lines n p _ = None"

lemma scan_lines_scan:
  "scan_lines n p ls = Some k \<Longrightarrow> ls \<noteq> [] \<Longrightarrow> scan n (concat ls @ p) = Some k"
proof (induction n p ls rule: scan_lines.induct)
  case (2 n p a b c d e ls)
  then obtain m where m: "scan n (a @ b @ c @ d @ e @ (if ls = [] then p else [])) = Some m"
      "scan_lines m p ls = Some k"
    by (auto split: option.splits)
  show ?case
  proof (cases "ls = []")
    case True
    then show ?thesis using m by simp
  next
    case False
    with "2.IH" m have "scan m (concat ls @ p) = Some k" by blast
    then show ?thesis using scan_append [OF m(1), of "concat ls @ p"] False by simp
  qed
qed simp_all

lemma low_digits: "list_all low_digit (take 82 b85alphabet)"
  by (simp add: b85alphabet_def low_digit_def b85_eval)

lemma not_low_digits: "\<not> low_digit (CHR ''|'')" "\<not> low_digit (CHR ''}'')" "\<not> low_digit (CHR ''~'')"
  by (simp_all add: low_digit_def b85_eval)

lemmas low_chars = low_digits [unfolded b85alphabet_def, simplified]

lemmas scan_eval = scan_lines.simps option.case append.simps append_Nil2 list.distinct arith_simps scan.simps low_chars not_low_digits ok_chars if_True if_False simp_thms

end
