(* ===== verification/Payload1.thy ===== *)
theory Payload1
  imports Payload_Check
begin

text \<open>
  Lines 17057 to 17806 of \<open>Crawler/get-pip.py\<close>: that part of the literal \<open>DATA\<close>, line by line, in
  pieces of at most 150 lines.  (A line that holds an at sign before an opening brace is written
  as two strings, joined by \<open>@\<close>.)  Each piece is checked to consist of valid base85 groups.
\<close>

definition DATA_17057 :: "string list" where
  "DATA_17057 = [
    ''hY1;f3VpheNSUY+SNshrlzf-I#SUlDj41ORs*F422;3EMVZt>7eP4nv<yU;WOS#3Y%ie=8Vu<PLZ-Yv'',
    ''%#JbSF2!wBG{28ka2^{E7g`5^tbh<pd{_ewYVlI`)w$XIqCFVwXwfgRRA`X8E$oRG74YNd3FNPA^Ghk'',
    ''C8FEgIFp{slg72fOkEGzR$xoZPY17iifqP(mhnOJ<W%@mH*g?xf!(7LS+SqGtpGxf-TagY6JA`PVzYA'',
    ''1>a1s_-<9k+b!cKfnh;24s@gM5-|D+gbVp|T0By~_l5=sTClkd4uXn2X>c3a?nqIMH4)PDZ!iZU^?`&'',
    ''++DB%obMV<+wutx{0T)ocwwIY4qdhXdm$MySu=wHVQ5AZxsCg&=35Nn&JzjuE8N9{yoY?-6Ia~L<lu#'',
    ''>WApa>n{rMlE$5n(Z(H$a(`;*uJ~Iwh9QSoik#!KRINwl%SAW-XE;6_e_@4>kPr-BQl#sBNksE%CqU<'',
    ''CjcsnM#YU;m>HZj`P@_H%D4g$$+{5h<gX6gU2T)4`1QY-O00;m!mS#!UuK4LG2LJ#o7XSb+0001RX>c'',
    ''!Jc4cm4Z*nhkWpQ<7b98eraA9L>VP|D?FLiQkY-wUMFJ@_FY-DpTaCxm*ZExE)5dQ98L3juxZ;rYq{Z'',
    ''P0Nu%J!10BcwD<-?E!GA&UK8(CCEDvdX6zkPQkC6SVxbi?$;7Rh^fFAwjI%4@MBNs>3JsacW`zN<v72'',
    '';E3gG>RqWeP)N*j`AXE6fa~uwBtLb_7#(}S&mpyMblflWwM2m{C+l@Wh^J#hDn*EqExI@2?~WdFIY);'',
    ''Y)N1NZ3-0!w5kf8QpH92M5KzTW2tIJcfn#cBk;`UbN%}>q7ik&$o!>&JpKrfb0Ts=2?9qmy>M00n(j!'',
    ''ul|jMhBgnR+L<ytc0mMe~a!Xb_k*(I9$?M47z*^AbU*x0|L#&jRWW&r}EbHvX{nz%tg>4Px`GoE@gMg'',
    ''L2_aoz6&#8;cAFqk1+bw2}Tsvd}lZ$#sRdT~<#_B{{6Pl>p(V}4k$N$2Liq#}<$`pfyni~K@%Zz+!gk'',
    ''lf?^jE=%!6X`!DOTH<yrZ?^X;aX;*n@9b-V_KjS}w`g8=l^Po!c8lkUEr?8le>B@!5x$7Z*lHxg-U@H'',
    ''Sr{<yNn>dTmouQh_8~ofBll2oSZ&g5-K%-Y_`Bs#WJ$lo7vOn&&da7jCvM5^XW6Dj;0Mz0}0b9yhPJg'',
    ''jbvf>6@URgI0zzcloe&M_gJH~_ks1$1aei2JDvd`m9R@w@>FEZ?lz)KDKH-U5S+(L3yB^!@4@`)>Z-m'',
    ''f+e2ljA(4nN365kuKa%r+91)KP-BMNWd%0dVVkN2+22`e;2mN|>pR!7k@RQN`TrWGXYXMf-u~)1cTlm'',
    ''-&m9j@FBpYt68ErIht%t-Dz5D%CvyuZHrJ`lZLT$=Y&nk9r^3Y;M$am!3Ufn?GPkMagw%Gi3)-@_Wer'',
    ''~O6S2&r`u1o4XMZ&ckPKtr6zmJdPw5P3QdIU~tT7V<Sd-es`u3mFiWTDu628s>N=NZYUqU~Y9lL}$4j'',
    ''TqU8Z0{VeZ|681r4}Q{z5Ub&8~TDc^2At)TY9U<+3c(&qQY}Wi#{XU18{g(lPu&kOvY1ntW$z<62e&l'',
    ''JdnKPiqpbmAMGKft3kI%>rKp$NrKChB$TYkm&6t<uyEOF8^0AL4B8#^n?qxiixO>Bti=a2oy~Cv=&#T'',
    ''bjrE@XL~Bw^{`{+(;rZA%6B6j6(7rAV5q{Dn18&@itTP|$dZL=DU@}Y#xioGX7YNsFhKMT-w_5+*)J4'',
    ''HJr;(PFkxSw=$!V%Yz1RB?QDji?_mIW)j$^Lk^P#D*w~$D3$bSvwY^=`Twj1oy0d?p|k6X64lr=e3lC'',
    ''!t3^e6^Js}q4y-3w$D(uc$CWi&P3T)a6aI=fg?zTU8!X`Xdc2+>kD>Y!c&9oaqIfzWC-^FkQpLIf)kY'',
    ''-k-U2Q&1Rp$;$|;xgR=se2Vb?y*gmL^JJFuo%cglT~!`fbYnQij`r%U=hLJEL;o`(4x$N_(MZ%c-cYN'',
    ''u?_)L<2&dUpM0*^cBB#1c<`qM^la#73>m=}z4vgy^Z+{dw{ekV*I))@ZRw0ASqq0}TrG3}2XzS+0<c-'',
    ''JAaP7i{ds(boN$}pwyt<W<N7v+nH0olfc`+g?Ud%xhE6iVG&Xx+hta&Jp3_<A186!+n1&=0Iyq#JNyj'',
    ''>R^3e`>p6sC5b9h&wt5WQ~EL;U_kKo|U`t)A2(l)-zOYsjSx8LqqUGt1?bd!6qBYvb0#%Hql;`2W=nG'',
    ''XJ-(QG&P@6G1WBi6}}T_&deF0JExF(nUp{y*G59B+T>FB{$xy!asmWaw1D%@r<Z=oP~=%=L=x;7)NKZ'',
    ''KFO*1?}DL6_+5wQJ;X=vNMXXYnva4GbqhKO-MMnXLt*~T3~&Eii;OG+Lbme*=u)AYr6*rAzR-*jpuhy'',
    ''=P$_Z3H&*MKT#B|rz58|f^&I!-Dg1{f#!DXseK?zx=WV2uNdaaX}CyxHFQoY#>HU^-c?%JQTCl+bZ1R'',
    ''OD=0WwX!<MnfV*5Ar-<MM38K$}m!Y9x&sK|J*`k3D5cIuXX}%=1<T4%RbQ3+4FQ99;;pm$^Xm=85MfC'',
    ''V2?Up?o@k@jI{;M$GQ-W*H&n+f8xx*iM*=-u5ErSecmoCX`3dLhFj(|3xjR0J6R>WR$dQlhkvK_u&44'',
    ''7cKVnSwLI$n5+St5<JcM$ZY@UW@AzyWSOXx%|=U9)^?a|a)hP!Ag#>h%r{2i4DH&9>}iJs<3a#H)^aX'',
    ''woLqm-fPvWq5~i8Ttm4kQ00c_d-UZq|<Lmcjt}>vgV#agej$fIG-T)d^!At25G+6YRK`qd&_h0j}Mey'',
    ''*Gc0F=^v}%wY0z8P5`#Pd;qjNo72FP?)MJQWHPwME^AB*EG7XKjAQJ%f`0}0L+m8SOTSSM?1A<x`iN;'',
    ''^7~tXPR_iWriMJKo@^v#^54i9^`nT)FBg*Swxo*JVJ|ffSNk^`Y;p`t!O9KQH0000805+CpNuBwyAx{'',
    ''GU01ycP05Jdn0B~t=FJE?LZe(wAFLGsZb!BsOb1!gVV{2h&Wpgiea%^mAVlyvhX>4V1Z*z1maCwzgO>'',
    ''g5i5WVYH3{nJ^3Y$f-MNzoOWzj9*!*+qTw{9U((kNy_kt#ou_|o6rAw|iS?PRk83`^vjnKv_!!_Md)%'',
    (''Chs$8!Sr@'' @ ''{h*BlURy1_!*cx2(sH9)Y;2Zw!ODBlPWbTt!?-N;wD|tu(C$7ZI2(BL!0*vc+g3cE?J!!J''),
    ''cI&j)36$+@^E>|Q(Yjy5VwOD_;n2Wc;>D!a4}Qp3-gTRwR>fcM{?4+j#SWUi))vcJd)0Dt$ct?T^xWL'',
    ''s#Q#s;0QNOE+*+aT<zZtfo<uM>NZw$N%0Z_M^rA<nwY2QaBU|`0NYzwhQSyTA@j3Abbjz4gsq25RaW)'',
    ''_GJ0r9s9Crx%k<uFxEQ>pT_#qU+f)v()?jV0y!(#!?6JHBlwa^OkyN<5`WC;~bw~eIyw$*>$NGa-fsk'',
    ''H30rd0|v5fQ|hN@5*X4JNMZ7$Gr^AnE{hj)m;#*Uw2s1WJobY{1QsxD#p{7eFWwC+N%Y>xBkRScK;ge'',
    ''MH>6zKnlFow{K`YvowO{M%?>T(s<kUNHtO4h9=)Si9ZA_w2{)3r+lUkHFhjIH6VO;hQ=GJ%6AMyS=c`'',
    ''dDR5t=uL;SiVhj<s8YzOMBXB7187@aO0HVN(_S?DBvbo#aX|9$m0Dz9FR65b^5ik-BfJH9Tvb}q(JN-'',
    ''N-eOl#g^^MAUOF*w<4S_|Eq8n-G@b0b-?YNBmVb!Wz$0sF1HnT2RW%w{6*Yk72=xkK4)I+Gu?aEY<L='',
    ''{!K(6O5m2yi6-Y1gBGW@depGF}ibu2g@)^F=wv5YjOcZ{{`KxvxF12%#jkcx=Dq9hG9QXehgNk|Db!a'',
    ''b@e@OI30c9ewo;;gKedZ=}KprMd1i@cabGRGsmhaMc6&O3LPgZ<h(`NGhhNU(UF<aNH<Y;Nsm^I5In7'',
    ''V^n=F^McZ<IR%?vm)6=pUj|YDcqipAsU+(#cUEge>c)%;Ujxt%!R!*5qD?9Ejh5xL`VVf4ZNqD^NAZ$'',
    ''MWg$HJ5dWM+~IZC;RHE+cBMNEcoyVJVlmh&<MgC<BlK!jSFxaJ^RnEV&C3OEv~qL<N4lv1t1HLq=i`~'',
    ''ZwZYTuXfYgO?0a;NTzbrl^}>DjKTt~p1QY-O00;m!mS#ye4ww*U4*&opGXMZI0001RX>c!Jc4cm4Z*n'',
    ''hkWpQ<7b98eraA9L>VP|D?FLiQkY-wUMFK};fY;9p~VP|D>E^v9RTWxdOHWL1>Ux9HZBRNMiP2B1Abf'',
    ''e7Va!#9Rl4k7mZf<-Y8X_SHHAV6W(z4p=f4|+u3jva{<F@+XNFcCS>^}PnW>uG4mL#jTX={-rOm3^PZ'',
    ''Wv#xGH)A^=-(4FoR)bm(ngkrvO}x3NSm_E-9TQh*RohoCQZGcGxmgi+BciBV5buXpB3)c)_E?Mam8yT'',
    ''?2a(@b1937xJyOVuy-_iR@Y@c4;GFtn$XiY@%Xb-&P6JUCg1<0ME0gE8ZHY_oB3&36nc6EC$KBN|NQy'',
    ''W8~5ZBJc(%RA{@Mz2L4Hw`$VN1u@z>jKAO+m`!eM?@GqXXf({$85B%<2fb7iAPjz{>zaTO{6*on>D-5'',
    ''+-{I3<N>CQ<%KL`+Zrp%nSk$DV4a%`dS5*YBG*SK3p27XK?lO*AJ4tQ9w%PF4r126bm)YFJfi6ifKg}'',
    '')Odh?J*Suo^G`D-9CjwP@bMS5eQBq~KeC+3{p@aq&L+;p{*E{_*^u7ch4=y%9h}<^oBk0>l^mfYU1a!'',
    ''4v!q-w74|XR1`5+=^O(K)tC+ChI9|_=J7l2)5*ao|P1NrdU(57JltEqF|Y5M7@;-@CySRH3-^-8NfW_'',
    ''tkW_9@$W#b*$7yim8>WmR*QVk;2{jM>+5cIf@G4L-Ssu&MaEKIu%&RDiHt4xxCY4mbpD>ERAmErl_34'',
    ''Sp{A|n)I(Yv!V8FJk{<ASA5WeDwbyyh(pEK~WRNS<^AuB?vduFli!^UDLG+C*B=Rm5&E|Mwl*P8)#*='',
    ''@5#1H{Lz>|gV0b<l;*0fbFW>aq#$bL4}JE9skrD_N!!1MIjDdO=uKpP|xkud_9o>F2uHP13hqR8zQTa'',
    ''W`vy{bWBMWc@@n2%}&)DEak7OLSzD%dTrC12(up5XouN`&A!^`?RhJR!x2;qEUWtVV7{*^-pd7^NVnE'',
    ''BKZ+BS1g=nJ)7(y`jZrTc;ucX~3x!;QyG|zIX)R7ail?F+9e769)Q|NhVe-fj_*>n*{B-DC;fH<u73R'',
    ''_%qG9QV}zr3%qsFh`Z)kJNTocBl`DEEqEh9-=uxSW4U6@zCu%QL_jgCvW7{9Ry?7#uhX=wGsF*|=KSp'',
    ''&cKWw(zlqqgY&N8GjY<L$!jkb?fK4iK0$LV@0^r<&evuMDv=*?1h_qc$m_wwwBPmUGNwW}(psyC@;O4'',
    ''Lua!-`-1jK8hf$Lai?^bMIwrnTW2Kh}lyjTmp-BN7$tppuL0Ne6bW`bz(94w?j@uc7&5RGI(S}?1^cL'',
    ''_!!b8z{boPZYG+@T4LkcI*q9GnAI#xPep=dncHbbxX6cG3v>`r5fA6!i5qiW+_ZCDrpSK8rn6bd0|Cy'',
    ''xU1GZv-osKLc`MGma?<#dO-)EbT+X5_;FzGuTDkX-DvMqaB9z4|6TAYY+R^0Z{F33-;@8Iz<6GNDl}&'',
    ''d0TVoj$@Wx!jvmm+dDP}OSF|^e~U}&POr#rdt-54?!dr$E6D8z^YutD8@x?hd)&^RJ+nqRK}YS2UW<F'',
    ''nD^Q{}BtQ;#P&E1=^HrYx#^mt<KqmSD)-qa&U?x%T_}<M{+9)jyMHVr+g3zF3Eixo^hMMx6H?VX=`=w'',
    ''>2eFg62@vTbSWN)_z(kr=!Y&Qd9>%3f2s6}&+7${H{nFM=lY1Bk?8w27=-_B6^+GB2-rkc*XbQrT+4C'',
    ''Au{4l!`5$5BT_J)X)%N9MQ5gkl$|Q>c459Z7RTCPs2zqCe4I!&AX5Og?)K9ino%Q`#u&rEF?cih;cXu'',
    ''OksUH7^vLl~Q$pfvCv;)I7Zbl@b|X10or&_2NFBRg(r!8v2u>-BK9$Oz&g6T>@YLBLfoXe*sv+`twYx'',
    ''l$%fjqq*R!adc`^Q)nn7fpF`M;2Gqh-NxVR0o=vrUgRzTWKI$hYYXt_ia}HXCJha;hBbtx!Vwd9RW4H'',
    ''r`-i*!myEZU!FX=8ON?kfCR>`kHAro`kV^@*am%b59A=?(?hqecx}*$mXLo!HQDQ!yIEt@cy#kxnwz~'',
    ''*m<W#nJc^pi~iDrqdduG$`&OTFq32>c1f4(luH6&+gxqUwUBa63O=8q?^=bN$|+dLP=%&w)Qb&p?8oS'',
    ''D!Us-s}5k7XhB2<1}=1j{B#W=iC%s6+MQ#aEF9$pV)|Y)t>h9RNZjjeCR*sg6Ayj)w$wMClENi?l^8#'',
    ''!K%`$&X2F(H^T3YFG4(i=1zl83dR)tKu|=;ThHycIp!<tI>Tc(YRcU8IMRg3B?(R3)<8?2vU&pD3wr8'',
    '')>4;B+jw})Q9nEWAY42WNcuxD2DI6+4+RjXsEx`z&6+TdqrvPuPru?WO)!hr-)?zshL#>3t#a^nHb2l'',
    ''pIM?Lg@?25Kuf<8trNTUV-_@(EYj5-!qm>?Kh1d}U3~Tzh5vAl2wN5;qY!tzdD-D2vb4+~?gcW{<k-H'',
    '';DIyXY?a6&oBmaKunH<y;AjSl|C9h$^43>T29XShq-1qG<&=SXet*O9g>V#@z=Tk!&^Y>g3OPAakb1|'',
    ''b4LM-2FYRK=h#gS;F=oG$3)FVr%MM<rySht_uwMlbb0S8mzOj@N6q=pOrqRLtUaVKa%qj31(8LG7=hy'',
    ''m^OdvtLop2kt@BhBH;On_WbH(ldL5H7kKxr+)N|daY+n8s<Gi@<n;Jts2Mx+nRyYAxc8lpmmR$%pe=3'',
    ''3Pfxvh-36bN7RScPQpWM5b@Ot7s%pdmCN;}@gN0}f7v!VM|Ja;!aLXrVUw>gUq%e&;xGa_59}<tJ97`'',
    ''1C?f0rowQ6a(Q0039Ul<Uchr}8&=Aprd~J+cBNW5e*Z3TJE~=O|I_rV#ztK{mzF7@pneGMmO3hYb)7e'',
    ''rR>zYx%((jywLiBNtT0pKt9BRim?Ay+cK9;(tpem6{DEhMaC_raW=6$(=^cDuCpfN=-AFZZ7`*_%pee'',
    ''#BjUVEBq&V&2df-z#>esvF9)ZV)?v=2{nWhs6c7;j%Dgi^D%&*43|wktHW$J<SR0L!-XZcFxw2fN;80'',
    ''8DB>LSalLM9{AA&`WJsFbmmq!Sfcu<+_*Lwid>kJ!4(Uu|v9C<3VkQ5rrBAwj?iWi{3sXgScWB+oY&R'',
    ''=YUEd0)!<svtRCkf}5+c;8y%$5SX@H=CwII7}$M4HREkF-7G1Kd~YFvmqOdNLFG9@y3qw`!fUT>h8~e'',
    ''nvEjF(2c*cg+sMrZ9Fc3)-KcSNP)X{=59}p}?&Ar%>8_D#!v-LN97|RT^4weAq#MWwrJ^=sS$Wl~CKE'',
    ''(Id~TAuP~>sXcY&Z6K7;7DIt=)8r4H7^9Ky>ICOw`$@Eg<-mA^ekbX!T-HWam^5AxQfx0biqipveyaA'',
    ''<x~&KnTyPI+l(T^TDHO?eJm00cq<e)x6(_ZM<2b6#T_Gsg<+V7Wh<+Ah5;*g~Mf77^A5e6;P*P*3jnH'',
    ''W@q@;#u9{21f&$ExN41?iPE6-?iVL?TC*Ft3^H7i_{qk^^3d~C0lLmC0cE)^C6RJwFV}hHv{5m97cb-'',
    ''XdpdeRMR==;&a^!o#7r*F2^emWvi0|G9I=AW3&5p=pf9sVp^9<olwSOS-}fmnNl1h$EKjBQGUccX=~}'',
    ''lhMEd0V_KB4xoZpj-~|Qcfc9CZ)-EcV_Y^>gZMxA;m4h>>z&%$G37g-KG1D!E6Pof%Hjl;w?lF?;{Vq'',
    ''J<=Vo^~#aa%sH-#7JE}PO7wm;1(W#ln9$Ej)eOes&q3yWR9j=OYouIv%aK#(SDM@6kGsCSSW)(->%dj'',
    ''PBzk1#<!>gCcxRbXtww3IB~W&zF#*j?`v&hbbhwq*y}k(Qiiuv$t<ZZdkxjSQUe43<2`nq)BB%acsXJ'',
    ''($wxmK=no>Nl+}+KPf`Epm?ckoZP`Zf#qd_%6l0oSWBSW`Ton6M_~QUXK3t<>`xvU6{tkH}Ti;*Zy(b'',
    ''(IK^LT7_CX{pvJ4k7=JQ81+Mg$b{F}*wxxmn06Q21Bppxlh>J<6X~~5jt8PMB<X2PMkI@-TjgA${o<V'',
    ''%Uq(7W&U}kyk=B4#pxAS?S_}*OC1Moa7YH{Gnfkq@;O(7oM-r*timJ#2Jb~qOBvHXBUxpoR?pnN8-GL'',
    ''6f1N);R0iGMqzba=(=N;JCQ^ihR!QZ1^%<&-AV~)H*-vkHCoEh4yB=3!)nHQ9M7fJuXOL0)y&*=Q=BG'',
    ''~$LKalHgijF=0{R#w!x@_0_W<w`)D|!WooL8h92=w61j~_ptz4>gxjV7pX?$IK{I~V=#6C60aSI3umO'',
    ''kC5hQTOw(jWf1>a9<SMyHb5XFU8n9AqsQ0DMIhG=zL0(i`lz^-fHN|h?RbMhFVOR5G@6gqm>lX>Gs<Q'',
    ''Dl%7cx=3|2NCMBTXpnqIjtEi6FY%TXl4n!#P~QsWM~pdIyoIGjBU97KqzCq<$j!p*6MH9OgLZ%vd-;N'',
    ''}%BfXz`r_rcgX^Cc7@tWnkH0#4`OsSYXDN%gtk+{#KYDHN;^#%U$LYO$sQWjmzkYCa11g4`>Co-eD2u'',
    ''1PyQz_zC<py}FQo>4Erk62H&=eB@WO<*^Dt}eMGZF>W7Ja=2mE;|r|c=~=ydg&8=<sp$ozp%w=S&YEP'',
    ''T84(9ImgL92%^Z`tV;mUq897wk>5AktJhN8w?nsk!ty@M+ncaHf;CNGEUVs2`B26*_!BHQ>wJ#mf{IJ'',
    ''%`XevcRxY+;4Cqzy8({8{*}1n$U_aT@Cj*ydoJSy1}q_g0{i{<@un9<{x*Lsey#Lt4?ba2cZ7vw&;UP'',
    ''8l$_>H1zO!M%fscgWuF2sQXXYqtk^cle_`5Yd0_`o)ZNrd!Wg#4-$H*Lxr<|tij^15F*p>>mo@=ujaP'',
    ''XPj}4`#oyN{C4uykYU#Z&Vu-}-M_m{DbhYX0UZQ>*7{lg)-h)|%?`8iw)w@mSZ2Ii^v#Dnsg=ioq4$9'',
    ''J4j|Yy2MnZ7dJuau;+w#&Z^j8jY7Jq5nRvFaZv%yOR1{8MQpV8^C?F|eCvy0>L9!BJP2>s4Md~YG|pZ'',
    ''KA2_6d7yG94+h@Lf-I0I&d37_EF%a`!%y^)n$c(`U9BSD4|wH909HYhns{Amy^M5&6DH1!0S8@l^<|P'',
    ''rQpjO1A>Grb~%<Oov|SX5C{HbOFL>Gukg0u|VJU9^))Vdjo@luPZDNQ{jJ1n04(0tv9o0kW#wvyzrV2'',
    ''{|8V@0|XQR000O8HkM{deKT~fm<Ip=WETJcFaQ7maA|NaUv_0~WN&gWa%FLKWpi|MFK}UFYhh<)b1!v'',
    ''rY;0*_GcR&wadl;LbS`jt#aK&k+ei|=>sJ)K2TC4>IqXe<urM6&+Q2wACK~J^2&5+2w0cakxy`0!P2l'',
    ''<MTh%X;qMS*PU`7ZcxmjKB`l^bBk`-(=MW;K(HyaRDBb5f0wzBLr-`KxrS{;@%z)wN+ohnO_CJj?9_c'',
    ''!p2*O|=uj6Y|*(QsqVuauH%a&>xXW}YU6D0w4W?FsDDP1TiJpg6rLq^feJ*=#o3Y*<;M$}9L7{lfp(@'',
    ''mAk*y_0zxeZt3C$=Vji59Tucjc0mc6*@aRGvAl8e&V%2SsW_yENVb0VD9r4_B%=1l)U0KItG>%@>*_D'',
    ''b=mNG3zcCVL)&FL!;ZDEG?$m#Kdia`Ofp&5C|Jn4k+Mv#*X#SsaCDDHTVQo=u21gLjf&Omfvbc_Z|(1'',
    ''GGBfn|N<N7k6;1h$JqgsDw6EBss2?DcRV8cChXx5`0VEid^@-EG4U%)78Akh^$adxqUGda~;AL(DLY%'',
    ''dPuH{aL4-H-|M1}!5#P-O!DRI{~E|O@}7DQ`wY<X>1ITGV)OeiA=wNl(LvKMo}u;?9!Uw`=-=HzSg^M'',
    ''9_^F<f6=yo=%8)z4S!t3~of>8Z>Q-zWZ@Se%nz=r8Y^t|dkxO98p>_xm@LtZzb&TPFwINrn5n4`{&su'',
    ''k_!=`tte}^@GYTs;oW${>TU6i9u-Ci?W1L%17uL($A)2(<s>}!8GrqN18EBk*6qvthqOdrSge`-pi04'',
    ''7-^JinGK9~s@~K>3s#EXxdODE;VrJ(rL)7Fz>c%r9D@5?+XG@P>a6T?j=F1f3+nH~5kps(97|ZDP~~}'',
    ''0T;M@qy#{9dxhX{^ba_ZZS(_h&oZEO~Rv30Y{}|bHiDHN_hv<v4h`#Uc*Ee_XKSZAvGglM^;-f$-H=B'',
    ''9O%Oduwtlp#B7QIpQF!5@xg2EWK&o4bMhZ~NS2M;`rfl|vb9gB#AgkbRzDz4V5!%IC%rn0MZrVg*%KR'',
    ''<umFO~rRfQz)%ie);GC?+r;-b;PsA&=+tvrC7C{8_uA8RII7wwUcu@@yh<^f|+b3I%ds!!`h^N7CeM;'',
    ''CYt}r@UqB^pwBQKF4%Jb_QKM-qYt6GaA8sT)@ZBZgSET#i<&SMc}sGT5ZsXl(mQ!(xSz7YgNW`EVJB|'',
    ''41Lx+ENT455TXa&$57){tW8o)D0Dh8Dmg<fS%q=cRH@hxI#%{2P+&pp1a35Btj11Y#1Upy)J$8UJ4T%'',
    ''biweQL<j`t@3hEaG<qj$6BO9Wl!pzZP$SFny020ftbtoT@VZY-wU=zbC#bmQB5TPwFbN)Qh0^(Pm8G!'',
    ''B+7Hfy2bF2&Go+4G^L3tdh<YbJUH&;Hfx~Ac3zUYG>3QvQcGUa;$GM1xURvZT<M?AG_ekw!l*R%@1@b'',
    ''T&FzQ5`2DEa#gDO>*4mQWOalquh3%aJk1urT!eHzCBAbok-mF#v~tm<YUx0`DXN5wLQLt~Blbcu*?^%'',
    ''AL$SF>sxot^iDM--eJgnLf^ezFQ5OS6?8A_llt(kl=IVo<>W5?PWrTC5FQ}pHG73l(CK&>wvWI(+Z-0'',
    ''MetL<5X>#<;QBCMeG?sp`~2Li@p`71%>H4i^4*R2Z_YdN#@8p_@v!RhE^z!Wb%X8pq)$+XIfjGb;UXs'',
    ''4^>LH%+m7D=lUG;2ty4Cq#^lz=p;Zk#l#=DAyEk@QO%n=jHwoO)Xt~FU=d?CSNXK5L=NfKA$R6iU(_h'',
    ''~{zd14YM`NkI$8N*I5QYjfNcsM4`YSoZjO^$b?B6u93mvr>Bi72ArRAZYKv}`vVn*u#HZ?mtYf;f0A!'',
    ''P#B*hQbXGV4Oc4v-?7M<4H=k$9+4X6WeF>br|h?*{6Bz=n!r2Q83pZeZmw>%uxf6U!q%ynSM2N3(}Q-'',
    ''Ys0be-~KMQ!-F@I6@|H0pSljB+cpX8o9+lDG<Z$&Fz(O=K?Gl`bv%SAdnCXuU`WHrlI1Q(X6^$&PFBa'',
    ''RzC#0Nu@@Gl!$y$%2YJ1<EX&OBo&clPNeiZ(a)MT3Kx8{f4fJ~;sg(jL>YLXoB<C5c0IuY8#c@5i&I?'',
    ''4;C#U5cf%$XbztMp0+&DQ$dRbn1AqHl!yiuST}uj#6FIWBe_~yG<hhq4?7%o;-I@j0#6O0{yxZtch#k'',
    ''x+xP?$yD5DG;7NyCF#W3)Yb~IDd3lUslEO?{_<3uI0$NudJa!Qrlx7Yy&xsDqVw{tnRvF+Bi2uyO?N8'',
    ''64dfaeC;AiA_Jc(cY(M6R2d-8^u^0>>>|?Um3-iGOCy)oji&Mwo+cfyfVNGEUqI%U)LC+li~8z|X$18'',
    ''Nec%+0e@jkMc(^EC}@ZG1I>K4RgOq^y@XP&cpUHZF9q-|4S#5&o3{3I%wc=M81d!82etkoMg1!fhl_C'',
    ''?dAMreVq9o`5-kIV6(4iQiNQ@10z2&Xl;eY#-Fk#H<~@_KyO{bvO7@nxbaODB!;nXDjNfFtJhzZx=|_'',
    '')fnH4mw;0KoE(@<poeXU8*EGbj%|50dt*1UATl(<|jSu=KlLDh!TaL7QnP$!4wjWj9!D2%D#aZ^7hSC'',
    ''26P)h>@6aWAK2mm&gW=Y39ok1NG006g0001!n003}la4%nWWo~3|axZdaadl;LbaO9oVPk7yXJvCQb#'',
    ''iQMX<{=ka%FRHZ*FsCE^v9xJnwVkwz1#+SD^BAB;Co3&+be6+`8$-=WE<)ayPc$OFL;sf<#b4O_3@IT'',
    ''2cS{x4QsH0EBo>U)l*jSP}^=b{C8NO=nfPW%GH~sHPJ0Ig{I6St-Vsb(uFx%=Pb+42P}CLWv(#E|+$g'']"

definition DATA_17207 :: "string list" where
  "DATA_17207 = [
    ''xwGX3UyJI*-2Eqvu-|2==ho%wNhmu{$*m|GSf*wV^x#q7h>aChRaV`|Tl{&V2PX4Xndf4qWLea9{8x{'',
    ''UAHNbj71cYrG7uB-!%FPDVUrUE*T<?<B>*9)Gxkob%2b#i_W;D;)!wOh0786Is+&zyJc;yVY8Ke>)f4'',
    ''cbPHOpsU7}W%EY@>%*ohhmSn^uvdo#9_1+NbDY{owR^)dn`*_O|u#do9BZobN;D2Q$N6WOe%!9En44K'',
    ''5dMEzvXfB`p2$@Mq0DJ*QDJPbx!^ohIvfhRc+-NN4!V4w$QQz5#}uoSdw3Ue~~?EaysSj#ZO#`FB8Id'',
    ''UZl<O+^MmB@3zM^GPl83?49Z;m>5A$*NX!RUOzhd#oA}JWjdd@WkQLWEu>C6=4L*T9N`1+Z~`<!%Z0I'',
    '';II~oD^(dZW~|^_;UH59ko$s}QIi(38Q4MUmN0-2LkEz|SWzmv+ud|lzy~Mc=ztZ`i7iSFl@nV0B*wG'',
    ''X*Lo@Y=wAS9N9r@9IZTJp2h`uk_dKsfWX#c>I-`4Ezx~Vn+b{1PAEw^i9_AtT!Io$S_%Je%pFEGi@uc'',
    ''jVvJkCY|M8!4_pb`|Q9|E*&R(;S*q^JEzFbmHP6&O#Yn~dGZQ-w35EjE<?E0FG*TB_rk06)Vh6?i}&@'',
    ''R(<dr+@gH9V1Ja`ypMn^|!*8qp^XYLzt^DJ~09C3=Z3LC5ZSmDXoS4p(xS3#Lk|Qpf%xYzcNsZ3Jso<'',
    ''zlfc)5Br`>XG2(B^aBO@gilK3n?p$vs7&H&VC~bn!Z>d&tTTBDtDq%2bj+IY6aXBX~Nj!#(>jw;={Zy'',
    ''nS<h9sttkqcu*VA^tFNofDQ&oSD+>V@hf2X)k2mFf&@RB9Lx*ivEl^-R8~L_5L*dgZi;q<16@4j2wzJ'',
    ''(lNw)R+F6;wPp$}HR)M(f%j(H+^7aQ+akk@lTZyV>8CdG2*zjjrHWi5)iVK=7fNJ=gxZE{I>xy9DU}W'',
    ''Z;)-F^hFLxOkiJ7+%Kre0t@FmZYDl;4CN*gq?NCKGKhU{YEEu{BpU>!JTV!Kl{%7q@x>YZ50Os<%jbq'',
    ''3rlQ&?xLEj#Wy+mPc?w*V)(d=f_dX&=U^mhADg#k+ozyPXlBitp(VwhtQs+#O$_2Nv*YDJ!`~HP@Qzj'',
    ''+}3`@X0`;_Z5c)E0nRdfOA2zKu!UV?@|j;iwHOd3Wx?iJd1)H65x_7R(S(#!X2_Gkvybg*{s>FsdnI0'',
    '')Cs$Txg9_lUhO3y)f7l-(w<}ba`WMv$J=in=kIQBKD@iVe*o?Joo42&<K*`=^#1nU-Tm#&<NV?A?c@J'',
    ''E+|t;~^EWegd47R^F7eN=@y~C*KcdiQBv995fNnPO8g0W2kD6-g>+>0VhMOQx_!SOL4c}-)&%luLw^B'',
    ''GRkm_qKVZI3Jn|&y~%{2(^$}%@!JKv9PSZif8u&hyNI2`<mA!!zP$kT{fH$#Dip+Jk=6|l$zAGlpKaN'',
    ''aaOVYL3@KQt_cr{<ggShF3T>MtQ+<T?SyFaATH<uJ&<(etOY@v#nq|By6K^hvgh-|uZD4C~$N!J01*N'',
    ''}wCgQy72l?JePeTEp37yf<T$BcaALw%L{z{0Mn~at4p^BY5J39M_HvdI)ZKO%97jYK%mTqZkm+{Pj=S'',
    ''+X_?_YCzQGWRi5ubylkbnkz6&6))-xw#cgDFMK4;gq~~KJ)GwvQ{jGrBL)Cbh#b*Qz{{D8?TVf92fD`'',
    ''7Bro^mrgYf9D~mCjy%iWjM1Ch=pTX(_+AB1_NE8RtT`Sr`g{nH0^$H9+K9Zg6+NJQkOyCCz`ED{L?TU'',
    ''z^#U_-K8dSHMjAo<h)ZK@XVZ;cBw%{Tg(J_o-GKU<njFtFD144y?p;2i>7;anQt`_J!BCm^faQJ`_+9'',
    ''RG$0tM;+bbMa)J}Z&R3IuSTmn)8982abdGsNp*Q#N^uqGhKs<Ed5X2Y%6!eWkt8`U=^hHivG4UB|@uN'',
    ''H)M*1C_iR6eu^m$dka;o_Q|Q7EA)}A&MY6m01YDFwleJP9)jZGm97kv}h7#1x#`Eu{7R(&z2q!A-&UK'',
    ''u^KzEsTr&fV7qA`BA~r#J9~TO1;?a-%F4OZ>6#c;F$D&H8`Ul4f(Vleo>tRwAwK+rb=tc~3!JnN@l*C'',
    ''5{a*|($}YUne!JjRE<sZ@RSw?OB|A@kMf+;*C%r9+9274g^R;C=E888PL&s{xR~z5$m>#3CV@61+he@'',
    ''dXajFt|K6C~@EHNY_{ZTaAB`^l`BAGhy6!RRNX)ylud=IkBAQH-Wm9Ve*0kmX>Iv*X@PG!SDzAc-A0v'',
    ''4-zG@1Zxd4SMJsLj=4;rg}25q)xK?G_w|B}q?euf9cNB9irt*(g|~)A+IS*yGu7$MGb;(}vAM>Po1yW'',
    ''=A-*E(uyy34y7g!y+(<<W(G(QxIb%u6j`mYM=%ftCb-{8Y?)DXW&POqLxZNqmv0M-M_zKzrMIUci=sk'',
    ''19F*Mw08~kc?&&eJbQst+;+CIY^jAf1&^YRW5b24&I&_?n2qT?IxlAt!gNzJdW@4z2|f22%krk)SYSs'',
    ''sQ71BJ6DhpgaTFg!9*NqO2uWh9N<-5FHN^O~_OfF#3lJm79^L&km`Q+nqdu7soZNjd`S30^IK^B-5E%'',
    ''TFGJ#jcF-~++^phSvqkA|DAiHUots(6ju5!hG32_i+c1C>|8JDPly2xLuWW;{iqi4p%)YHJ8AUOG;ex'',
    ''9M_{cFp7Z|<aTKfC-fiKRb$KzqE$fuL1gfwCS@S%AFJ$tR5~Gk26uPpJllvW2!3xQ|_+9<CN1U7zA*l'',
    ''MM;m5;i_&yKvg;U>eaMVH3bG)+{JZwVWeyor9kOW^j;mH#h_wt^HXpo<+`fI_uU|l4dp^1B;)ba1w8{'',
    ''eQ%*W^GfnU!C)|9m`HOVIz=foIOyVlSM;Ry0&GPKWFyxbGl%bF(oy{Z@sVm~{VAKdvpx*^A}GidfS@N'',
    ''7rE~>zi#Y;nBc<bdCYqK%NRg)}-fg2Syz*XuBDhR<fBE|MiruAx)Zbo=F`@Y+!kiK?)}|)I!W<st2xL'',
    ''VLJ&5r^C}6H8lkLHS0MMX(z>31r)`>4lk{OXnda$(S374I89_EbcT+A59P<0bdSECZw5q6m3R^uXy(`'',
    ''QU=2;p%0l!Ak4D9~;Y*$stRU9}ewLRzr(7d?=0I4J~Y=;rC@rNwki(kCgNnTY8XMX(}6U*I`{oyHJT*'',
    ''2aOrSa*Y2#e%fz-<z7Cp-+KZ3g~ZTO$P+FK%{GN1SC$F!70G}B7ZI+M5^~77v&zO0&Th)T=%!A-KLX&'',
    ''`|eGG+Nx8Rj+sG+S4N&|c2}U*12V-u<#XdGd&TL=_{KTcRrw?euwvC143qFJkzVi)qo_{B;5ks6s@wy'',
    ''@`_}E#ET)4&%4-(@X$tFH%KYG?=_w7bf*UQm5kjzVDoIvAj<+xj1ef6C2g0fl+U^pfjH95JO%=fD)SH'',
    ''ix2^%}S;@jX9a<%{;r=SU>iZ{uw7FWE#E-CX=qQP?$G95Tx9JZwnPY43)lLAnOIdF6u%qO7A545tZBc'',
    ''O~1PX~0iL+O!}V*I2Y8JrNxlWG6NoU$8uWYcavep$DGiWg0m$(1bv5X1;LFkKaxPjZ@oS2|m=;m@emH'',
    ''YK_uS;!>K&$jgB!&7BBz?Nef0-qm_97P#nC6@5>sv4DB8q}o_Ek3aI&glxE84u;f7J7K69q+!sv9i_('',
    ''O{RSYm`s3^ewn&y8J?P0hi{cBFa(J>Q+4pt2;?*zi(lnd=Db28O$;6@G3iiT`{cUNxi1+{Q;A&SUGlj'',
    ''rHeO*#)k6&;dF0As;UTwJI1ZDknE`P=XTE|%yKTVV>jY65nMTAClm$}&#QY~NK*48it9QPmD^^_V43?'',
    ''InMuoQpzm8#SO^yvAh_qnP*Dl7jo1Qg!?tyFfwMWNLe9_i2sg!66nod+>bGKdb(seoU>IY}09Mng|<M'',
    ''<FBH6D7cRZMP%;-DIN-|EU5wiu~yauq7eZW=H}Dq%MaGnnm<rT`@K1MW~J+sby*)!6L?`v?0349AmpC'',
    ''>!vt3T4XmNm#GPeFFkz(ST1=R!;!l1I9D-&an6m>%x3GOjCeBo9f~*`2hN`l4%O=5-hw}fIN2n1oo<h'',
    ''N~X~xrO&;WK=RTjK_bB9PlE6>EQUo&WYPR$99)=v^<&|%0OK{@*qe0h^(ualHtl6PfM0Pm@B$a%fwJ;'',
    ''<AKK$b5rtK0!)cIgXLhbPETqZvdhqHONAdE`Mzl@pC=P&e9}PqQFRs~nTU()y9whx^&Q(@c+cVp)aK*'',
    ''lC*6V|<rPg>xbOTA;iPpBi7fDhd3pkX7Ca~U~!#IqgfPp5ba74M*uX{Z8#w2`(pNZ*moNF^WKLU*B$f'',
    ''5&maYFhVeT<n$ris`)&q@Gijzu2tz|o~d^qc>hv5WIJ7i@yaTz&T0vRT)OhLx1n`ZEY*8u8}yi~s)36'',
    ''c#@MPWQf`<^Vrw72_!8{y-sO#8abc(!uIcaG+SKElz5ghkyYBb-LgJ@%?NC$~rl*K~c%}G)k{yELNa?'',
    ''eGQ>o5q2ly6-hKsUXo2c2~Yljq3N(PwM4(?GMY%Mu@!3TxI7oHUcLD|>hm0NZ{FG-8VKcWV+|H&wT(k'',
    ''P!qDp}!H0ND`(;{ta)=tiP$}8jdTR%C9faKDCC2o`Ta%{nL<p842%hEk0uAGt{uCY%hE5KtNQ7Z2Rww'',
    ''*(K!9|j8#9T@<Quemhhc=7nL})uv}%F;p;ZIUqLXsO3$-`qhENCTc7Uz~L(3$c0zll+(>d7EEMn?GD{'',
    ''vsjE>?&AjQpyYgjw5bit|1;C~BYrL|X^J&6=B`Xg_+g92C-zB=ZPp`>1c&_8W9)C~4%hj8Cjqh=6rff'',
    ''HiK{FF>##o<{YNk9~K_|3Lke`Utki9uL#p*qn(CL2mMT#z2Bzy=t4@pY}&i{U7DCz}gMFBJlB;X2EP*'',
    ''4jk=jv6xx0=gwiR^kP&XvA|3cx$Vvmpc*%_W6ZtSa!DB+rxz1b%BIX@;!Cdyux*aSLJrSM$C)KZY_aI'',
    ''~o>dr2#n{oce^tr0UiTW^e{>fb%=`G)OYPBUD}LGA?N9ZbC7^e<^<?UsJQ8IG?!}AYCZ5!^jcx7xQ=h'',
    ''?lm#C@2k^t_4PLxvO!#1n6#oW%nw_R+u;~TbUtZ$BI?7SlgcLs(z5=^~T*HxsIut(sv-HM^Hrt`5fEh'',
    ''2+sZEs{{TlfY?oA$}dH1vG}3u>m+AA=(!LOVF#KkT8ifY0;>pGMloWiG+YXw{;7pN}@rnnoqV@u7AK+'',
    ''i=;R=DZt#Iy2)C9*3UEvDO@K($tb<!ccHF$h&CU>D#rn&p6PZqt$-gGwi3;KAE8#&dfzRR648UBlwbF'',
    '')sNpq?ldgg>2U1y5@Fk7(BWbD@JV1cF*lwbS3x1@E}1uAj$Mj6D+eaJD1SV6sQ6%t{F9NV)PN?8MJSt'',
    ''Lt7v8&lA+P`Q#=^y(W6f=)ZjiyvybPa$+DbLtZ!as=r_N^Z|$b1k=lQEjd)c;nB@@+2W3^s9azkflQY'',
    ''$&=wT+~d1+f%B62}6J|$yb&D&;c@y(5X9~yboS~2N(`yY+0u*n~E6uur}UJYTMCQCvs;!6{*CJR;CPW'',
    ''hj5LG+<L-w?ydrQgJgw{YAPUnn|{vg&+5T9)5kwGh6CweU*}MmxyqwrF<XPl~zi7%tYTx8bMkJ-!Kt>'',
    ''Hjf=1({r9^#|W^)#EX&;<|&m?e}#i>sk03or$;F%CvqNw%;G<v@bgX7EQ|8pA;uJDJGL;!rRV4Go$ds'',
    ''^b;?~zXiAB&GftT@4Fof+W`7K)gUYrgaT7P?==zqFLs~Z_TMTzWp{<{jkUeVJ5vR1)8OE)F3Tz?(|6V'',
    ''=+BIYivtM{6^xTc!z}Dnuqr0R)&%O#1VTFz3LzziCq2>O(=9!qc6&Hthu`U>AN&1XiTnFaGl+I;Y>!Q'',
    ''NV{h!}6lU^4^S8zjEF-{(BjwiK_RQ@g;>C>y*3*+?m(whA>!#iiV<}hDq#Xg?bJz)P|ME^saei4x-m_'',
    ''b5+9|9bP^rHpwKS_J*f4fNgwx~^Vyr5qB;?m?`NfN^Sp^9XzAo(*-Ee#fu+7_gHv9GYyrW_-WHjHYT5'',
    ''<Niu&Z=gTZBx?Og$BKVyj;tbXTrJwB9_#$9XsKFTZlG%c77eTf9R1(tg%yv@~r<7&y}4vMlhyRDH(aO'',
    ''y?&o(NiQrKUufNJ2wC^9Zr{GMZ^=X&`r|eH$p2WF92p;db?SIqhsV*NJonOCn@;ngP#(**$9$t`&8m0'',
    ''edtRKqmcZVp-V<MMd6qg_CbREi2UQ1}@rj({V8+0`ykdpvf{4*>a2d>4>LI;?$B@3j>lB+nZ%ibK0`>'',
    ''9m@!<A&>2$Ykt!mrLBY@ie;5L~KApfKx1H4yTx!$N(78G{!M1X*ARilp9t%Et%=SW8shdn>^OH|=5g?'',
    ''-Qi%sf)={L?^jbAZ*SjFe1U_W<){G}_;)zZF;Z-8^gtfAI-<nZxanMlHZHR@BxgK9pP7SBd2z+l+-~m'',
    ''e3p{p5r*(@e_qX6=8VImU{Nkc?`JqtuAjltzEx$>YNnik6zl$bWFD#*KPj?P)h>@6aWAK2mm&gW=Q}5'',
    ''00062000000021v003}la4%nWWo~3|axZdaadl;LbaO9oVPk7yXJvCQb#iQMX<{=kV{dMBa%o~OUtei'',
    ''%X>?y-E^v7R08mQ<1QY-O00;m!mS#!5n4CII2><{A9{>P40001RX>c!Jc4cm4Z*nhkWpQ<7b98eraA9'',
    ''L>VP|D?FLiQkY-wUMFJo_RbaH88FJW+SWo~C_Ze=cTd97JnZ`-&Me)q57aj~#mxN^6}z69_?wsm>}G#'',
    ''4ap`>-ekTB2=jBvD7Cl6Vi!f8QBiBvF*yEPDJ9Thws)&3%U1RXitAw5w%Zu_z*GUh+y3x)nUDC5!a)#'',
    ''4KlgzfX(3edNOadZJYUFT`ZBLxy3<o?}+Zlo!IX3?>9V|K4nF*Hy)<Mf3Pg@6`)e^!bj->e!*Vt+?bd'',
    ''&pJz+G-te)ot69h&+2J1Zy=O3exQ3MLXkdO5WgQK6PGuZq+<W6nUMDFoqoJx^1u_(5{VMzV3rCo-<dT'',
    ''_Q_D09rAB4x3`mEhLfP8m;9)X>KW9n?MY!jDpRtgZB`ZMJ_$##=>MGkY86PHEyW~<WE4eiXOF&lSnip'',
    ''&`nSjOM!PqU_Gx-^QvMPw8g63dwP}d~Rs1W45EZ6G9+l<N`uX1CTpkt%CKBffv@qG$U&=~sUo-0~Vgy'',
    ''U-7Y?)4{>iYvP3KpX?kzCUgIEQ>vnnGSgGb4f)$(BD8P+peCRJmU`(H?V1MYFpWOb~fs<jdXX3#Bi?s'',
    ''>d{DBuOhcDFYJ~LNb~Vz5{BI9LW_Ume(LBOUOY=IAyyaa3}%hqTc=qdx_*N+bqpfsc{f0NWw&1rCZpX'',
    ''7K#~S=-^LyT<5INJIH}m>`bG_51uE^mdiNfbrKpkiFv+kTxALS#j-qt4vS^uD~iE2mvoC_L8zu#Mk<<'',
    ''uL(^i!dL-SQH3z?L<pD7Z4%y+6rWx>KVTb5)M~=KER7#eYN)4c9kP!BOFrUuXkMBsJ?VXUXS7N?EmF#'',
    ''LjBY6D4WW$SqE=%R`uy^b%N^J0o^e={#Ij`_M5bD>rBxifN#b6)UX2RLu_x_#UCy(Af6s^`Os|y1U<g'',
    ''gfW<+y+wlmt@U+-@#!uJ4WS{mzaYd;}<fK}^B<7Cl20pm>^L_<~2hCk$<15MU6f9|_w*qE3rcMo}PGw'',
    ''p)OQ(1cZDg|WUMm|Ie2pB`zJCg7-1%qp4gFdW!wQ`KzVS~lG&b6Qt9>sWvoWFyh-P%4<CJ_5e3y?_;u'',
    ''X~he4@NhbxbWx-tDl48ujVnj_V=jXE&mr;@8{TrBnUvFw@P0a)`pm$EJHD%2SLcPk+>oi55EQd~K?WF'',
    ''|RD~_0A^vbhnp)>by^}G#MsuMR(}gkxsddzekZg3Qn&-hB*h!SE&&nnytK<syKw`sW6sCO1iX|pYA(t'',
    ''^Pz(cp;LFQRFT{v9Es!vBbZjA_sV`1Kq<8n9@1yB!%mM88`6HP#De?eMQ6+8U6zBvE#dD9I`FeIxCmX'',
    ''6oL*19SbLx=jg0~~63B#$N2zW|w8+IIN7!jqBH1<f$2a^U>N=I|paxdZ?yIC|T5^)aZOEeJ3chgdThb'',
    ''oyH0>Vj-}ax_WANid!-y9uXa+Hq8pSrF3<txOkWl@@I-uhutTHa@r4uWe?I9-ii%!q-|t876`zCNgV*'',
    ''`EF0|_)F7QwTw*WUo|N&RDb>Cfr{`JOM1*WO;)HN|E<>H%Ba$NZB=Q$(VPDJKc9?d8GnjoRTt=!$x4~'',
    ''cC);sFXQdV^Uj!|&evduM2!YaH*bx3}Mc)39T0%FG&3#k}$d*A2uUbPjgM{&iz<dwv9;{fSQS9z-!``'',
    ''&Uje$QJOlw$Y2}^W;1L>O$6_@T{VdJyoQhnx^g@Ojzaf~e#x0&ReWVG6|8P)_LtAO<?TMOW&)eS#w&9'',
    ''!YvbJC()9Uztag-9_ljf}7iptO{jU4DI=ZxvQ(kswo}4t%K2To#;C(?|YPVC0-q(gvXCn9LfVeu1`}Y'',
    ''0=nA<uIs0f)}fw#BHZM!1fundfIpXd8^bUq*1$B0}V71cC)qF`*)trMg@au`9m8@r^T|9^+`>cK+v`M'',
    ''|E;EkGu>O+u|Vh8GxCd=l3$wQ)y0QBNz}>rIw4uO&6`N_$RTxM*wsa^IJM`zA|DPceo*shlS3_Ox5Ev'',
    ''bV?tfSG<}qDJ*x)u!OYv_XjEUsi>RB`+rl@b>(Tg_N-x}|17ZR2Cuj^0yv`D$?=Em;#o4}*GVF?Ju|h'',
    '')+Dv4R5D)lk2HWDz~)*^~|!d9+E^qamE{U$6-i@0LgH~S9bG%=R1d&+`DC5!;7s<^2k<9pz}<H7Vo;n'',
    ''vbB7gHSPL%2ebF;)iNJKOVxw#zz+)qANLFx6!AyN2-|%xi>J_J_a6wr1vg+`Ek^jtV<{><hxFak-YTf'',
    ''85#WNw7ZzzQX*S)cQK;)A^df;GSd*FIRRrXTWR)-i7lKttHPPuwv+`K$Y8Cs!Y=3hIs`%ia#>t+RbjQ'',
    ''@z9~h0R~(zYKT^@XrVC^hIcSC)Nd^HtfN^Yt<P{pW=4>iU-S}|4IlW2f7thKBTNgigZboTxGi}Xc&o2'',
    ''(3^WePqWbE_T5=|=FpCbcfU?Hq3~$~ZAdl1)!+etPVuniBcgS@GPV&gq1zCKkiw6ikX!fX+R|Z4?O&R'',
    ''i@rYs4j4R2p4$}E+^bTOR|Zwj?D1PybSZbbdQ&c4Ixv&Ag@lcz<{aQB0&dz&2eeDkt^F(EP6oe49NL#'',
    ''=<})x!c+nb*+um4F2lul&~-0hHO}1@=la_9jcg5M13<y1uQFj=3HWTqzCDUdwJ%)1XFNQk~m-l$}!GQ'',
    (''akCPc{A@Mp25LFry4t6IG0?_#k?RR<EU45&@'' @ ''{iH-hLCf4OI(A(>jw4H#CavQ9?I|;mrvxViq(hcH`l4''),
    ''v4s&{o7hXFW--=R-+n4MaZ_YJCmN_dxN8j!XCsSXQX;#>*rZUgM{F3i`>FY_0SN_i{Pt!*t#+T{(hmp'',
    ''ovS(~N?rR(SL%(;W*)c&wtvaF6218%%;J;v^bf~*HQDCiSthyIR?ggi97>qrMY8UP3jaO{lXU*0H`U8'',
    ''7UhsOqEDJv!Ri;XV~jubK97kDjhaH>HH+7!3D#Wt{{6@?}Si^kONFkWz*XY6gDO(qjGHdKGF@EgJa-e'',
    ''IGhbtwRt8&7`s@Iw-F)jS`75SdHV9uya)(yI2kVa_dM55Ftn?ELn2ef{b3dL7+;xyH<-Mqn;Nb6@O@2'',
    ''eXe5me68iL%i$}|1rB?-+f)*MfW!sn{VfL>)H1Xl;I}pCy;nI&@aH_aXF>NQSi?H3XBBpvAU;$Mlt$&'',
    ''HCyOw(7Ea!WL2}-<Zn<*0|XQR000O8HkM{d*b<+%s|5f6vk?FQIRF3vaA|NaUv_0~WN&gWa%FLKWpi|'',
    ''MFK}UFYhh<)b1!vrY;0*_GcRLrZgg^KVlQrVY;ACFZ)`4bdCgbbZrer>edkwf9T+52hL)P<MF3F<uId'',
    ''=Iogh|_2iYJfawIXPxXkX-j9c{IJF`oQq$oRuQxw&Uc$uBcIWuRMM@L82)%@a;MWxz6uF^PCX})F!=b'',
    ''6W1o-2_qO9csAJ}?mJT?`2bsYH}p*141=uovTz$0WdnZImh|Cnqsaz+ZE|&cKiP_M|u|MV6(@*C#10k'',
    ''S7VKD9wIJlVCiujxd9j;9C}kt5TH$!jPrgf(yl>rQ{g~56!)0De*9|82<DE3g^dJifK11-p=RmuTOcN'',
    ''L#$GsTkti8La}rGb|wTDd+RZ+$JT0_jIY;(M{TnPb%9Snn76sgw#_TLw#?(Y+(#V0M`$g}LeDH{9Xer'',
    ''{M_Vl3#dmQQNy&(p{xau)E7w#+Fw#Gkn!y$!ku1vDfLfljd*qM)`HC!>T;rWn&Hc`&zL4<-ePX&cVJ2'',
    ''<!G=UY8mgcDnLq|fk@>nTBc&w;A9Ta_g>}4d@68~P_RdiLS+fA8%wK+>MZHCR2AdDYBTrf-rlgIWFm^'',
    ''NNUicAW@6((!Cl4|sKjwk~%p;ez!^i#<uE5Vo1GJ9aD@%ih!%jx;m%?-UJ=-G;kZKPUPMb$VekdBIrg'',
    ''iQ1UTH_xqM3x1TIi!w8BwM-u4zPV(S`TRFH+TdMGX2*gs&t`&&ZJj-SVRKJH*b829j+Yv=EnBecrONG'',
    ''93d7#XW3$O>z4&puxHzeR$Gp5`xb~+fRJ@sBZn%aw$i=P;r#`B4}!op;OZXTAmwrs-GSj)LX1ja-nX6'',
    ''UvpMwwkMBTrylqRV*b>+sjXEzNXVoUnfC>15YD0q{kU|p@62G5zUT(uSf@D7iY`n9;8TAubmTSkpR#-'',
    ''JDflgP?VRvS7?z7{>NT5UwJeJ4O_I8fi-=UzUH~bBk%IneZT00LLh)8%5<3In}f4H#QUbAm$On(O`UQ'',
    ''M&~9_*bl!V#JUWHH4ET%><!P3RiQqGMH6)vJztfZZlU`J>66A~{q<&?$!$(A?8ir=S<?8uEnYu;wZ?%'',
    ''CrS3qcsf5Ycr?foF1yS<^#cI$6A8@SO6v((&O-IcJ^+5KAq3P%h~ny^lavIr^j^<5&gk*O%r@VzP;wo'',
    ''?UnD>9p>0)v$@@;&SO_RhXV_#tpl?h#h>uT4gjZTut^C0B#o7WcVt()aURRrcwtgSs?<4~v}v_@X08z'',
    ''%$@8au^b0rHJiQ``RHS1reBZydccBtzJQ}$@&OgAG--DiO0V@!Y$9Tt$$m_vI7<n!9ip3F)mY(i7<5C'',
    ''NL$D46eXTg`Bu?Lw`0jnZB5}?;R9D|N)Ee<`P{Z)ZL6I1=h)Vqz`@G?v4012y7wZY9P-b7gj`5Ff8O3'',
    ''c@N8s0})sfjlDEjn{`+laEqZ1?fSO<s)wZ9S6qu3?x-Zz9qalZ(k49F?G+4tp{XqC?^2;?1NLb#yZ{!'',
    ''u^nv>iZK>itx|$QHvzN{+Pqp!tBr36r$f)6Emy_q_O=u9k{$h5V}Jl**oRzlVdnNZOFs%tc3@D%c3<g'',
    ''b<;~pYYFajvX+w5x6_M@+0|JqB?EN!$lOXg;0-is`f>htb~Qgg?aI=Ac2A=7<ZriIf3FX7I{02Mcocl'',
    ''ThdxE_H}-|@PS6nWzZCfYMz{~}9?unWcQHXNzjeFv(B{Z~2-r`f(Ljef7AQtPkH$kG8i+?Nz5+fQ1*s'',
    ''{Ruu5<|e%aq_Cwq6GN5yPT?j5B)81<8OE}Pf}kA{wapjL;->S$Ddt2sbHdxBzEEPke>as%D01>m=FuG'',
    ''^|TVq+W9mR5g!ZINi6cuY6vk|z&AuS4rQbR<%c!Rz5*3P@6cSp;)Yq9sBHLWPn(OZBmi9(T_1NN{s1J'',
    ''-9FY8%I`M^tZmL8W;uuJX?F}EO%%<+ff7QvmNY{;97qJP)h>@6aWAK2mm&gW=SLDzYK8>0006m0024w'',
    ''003}la4%nWWo~3|axZdaadl;LbaO9oVPk7yXJvCQb#iQMX<{=kV{dMBa%o~OaCvWVWo~nGY%Xwl?HX%'',
    ''y+s5%be#Lb>8GtecOLCG)*|0OROpVz{BrDQ(9oGYaz>&NN#34996zfTUdw1^+z~Mnz$@oh<<w!#U*xU'',
    ''E+?e4+0?fLwQ>{zxT^U2sd7I~8JG$SjXlG#4n@R*#r<dR1b-;r!X1tlyNS(*nK<FO!YMfN-=JDx|O6|'',
    ''p-?GEVMk%2s=Vm;;(-Y{ddUqW~NmI43-#eMCt@y7KcVBN1Dse#!ta<knHlvm^LnVj#hW26rr8|3wmwD'',
    ''GiYv0Qq6akRd+;R?<7kgdedG7FjhGU|lL`v~n$Lv0*~u5R!|Plo61V#1HQLwd7Z1eiYGgU|B~b*-sN1'']"

definition DATA_17357 :: "string list" where
  "DATA_17357 = [
    ''qficD%7C_1+lhPnvImdjaDBYVvP1+CqjA;*dg-3^Bobf5r!5Tb_dUz{05S!BT#!YswhE%oU%<CpKSrh'',
    ''qd=i$FE0R427KMmf+$g#rH0TOUcQ3Wsq1irg5JlEtmB+#0_TPCLfmL3*0gtnkE!~oU%i>>Xka;Z5xTm'',
    ''3R$tvYrsp7)U0S~FQq~J|dnrune-~?MANs%{;#f+r%*Bo>qTq5m(@-M+9c#Muld~$m$SVn_fWPHp1MQ'',
    ''?AdEf4buTn9YV&xjxI2?zb8Bx74jDq8R~Ng|XE{6Y~HBo|2d_O{^owy&KQXb-ePvvfa@Kk&o0G8_)-p'',
    ''#=P0nsRz_9eoIBl992bF-lXOR)iB@2+Nv4)a|uf<PduU5Pnc{Pkf;Qfu~!r+FpfWA9NBDmVxVlOB4YO'',
    ''(QWNEG?u=EN@pqfpVFlueo8BEhuAn*K7z_Z)o3{4M}m`$uL36FU>SB#iC`fmbhQF0315+r34a;kQizo'',
    ''oi>tW>4x6M@2sDI|1BfFiCASwh<LeQaGJ~+Y^?E>ktdoiljth|tDqXR4p3+9P5R#l05QGU>f_@-!a2U'',
    ''}q^kxZ~$%UoWJ8blNbb0>vYT*IL-o<$KW_06SjpvKoTSy}*192#@b*+@}PTvvMapPlI0{|xnkPX1YX$'',
    ''RX{OLg{voa+)##B4xh91mW+ps~AScPybH^Ie{<U*Oe?IZYwodJ}(3y>T3BhnK5^6hlI3_Dg7_6+Ey=k'',
    ''f$u$d-NfRILja{*|u%T!1laVo`D%WuLui&DR`7;)Kk}%RmP5707=L-l8_6U_7V!r$_=6jO^s{*_SN6K'',
    ''b5Psl92l9uoz12<i$`$f%U?V{%Dfl^FLA(4@WS&bLv>(yyz&LD-?enq&G&KUKgg&<K&tpoeFkA>M5IG'',
    ''O1sc81|1SJ1ji{{ZVwMZs5R9h*;gaJe;Ds+wU)I)S`=n$$kJ)`6-5fSnAM%6(6g;>C*VQnX-FTk$2`x'',
    ''CD%jc3wrFcS~ky+$tkO8;HBB255cu<C0rOP^IZ^a_YrHZVMjPy9xmlCUif(&72k7-4$2)bfdb(io1(F'',
    ''+&$0g5XNPKqa9@u1W^X4>K>jgZsgial6LUEuKg9w;)VvOZ}($ukyNmIr<lffEnON4q0A+kIlw2e1U($'',
    ''Mxm?PnPuz^C;ml<l3W@V$MC11&1tzc2wqRxF5=dBkJA=L2s5KuJz`8?jgG20pAB|*M3sdBBsMxS%+X='',
    ''g&2Zd1lvUlG%}hVL*0`jc2DOv3^pNawITT|&4LMUb~9Z}FQ!+Rr0&mN4ou&6)jjWew0JXp-EXgfY;}K'',
    ''HUm|anD}DpRt#G4&+><)67F1ea?VZ{^xla{91~LHFFdCuVQ^DC1>0_HM@AMN0+Gef5^<~b^p1|4JAK~'',
    ''n*o3pc$vod?O(7AbnwXE~GWxEd36_)$0SH$yqhWi~PYNN<d1%^opYj)E|E=D)tk<-bjPU79@W_<ZUKI'',
    ''qqBr?bU)Iyt}UgrAK@Hx2lk(cj;WZ$_`Hs^`Eu^1SQG<@xx^8(#t^639cG()SK*z#tqZ0J#m7JHC28c'',
    ''WI0{+Od5RFlP5K_=+%-b(D<x9c+!1oPPh4tUP5-wvfpCoAF}gy}FuS{4^i`JOV<e-@p9fTg&1pTYE^<'',
    ''tAbtfpf43bm9RYIZI}9qr*rhs$YyTip=DW643W<IQmNFw=J6ffA48T1Hf0WxEk&6{jxp=1GNkDKTw7J'',
    ''bhe-opO=e^fY={ORg^=Z=@!Xqzn9fEMRO^r|(wu4`x)N?F#oHKKysaS$7MIIC(OpVcEAk`}zM%Xrky-'',
    ''{lDBL9!%P8G5+35~cdjo$y5fNK&GH|D5zCK>D2T;C_b6FVTUQv`hW)J6DK?E_|C~};3g;S`_w$JAi_Y'',
    ''^n3h;9Lcs<*JUuWwDFs7A5WlWU)0t%^MXbjTcP)-98j_y*dMEp}Y<^GUt6_iNqc*55<=yr+GQjNnRok'',
    ''4>7<baM#<)yS4=63|`jsEu6<#m)}ek|oP<CIHIXfYM5I65LhU1iHdGlqDEhP)E6QY$)S^PFHUE=sEdk'',
    ''nPRFk%YBDi<s5)6%6rafpPZhYecSuGmO~d`)6A<?t&XgPQE%E}P+d?z4Y1!&dA{CYR6usd4M08*W1-4'',
    ''js9ZkDJFu6<{6OtoW!02I*&dh6m5J9hrl}vvJ6Ibu+)8z*=qn6+w$zW;2E#52Q*s9}l!NMey^16}1Dp'',
    ''ro9o91e3z^`jgcBRA0pp4bEolk*ry*I|br-fP(%Q(-yyjX|rQ51*Qu+{;dI@Z<K8mRVM(qV5O24f!3S'',
    ''b7GxX9p8Rr#R?GU|R;eLEUMzsBjKAM6y+frm9?^(v{*KB@tVP5O0ZXeVJpcK8q)4le1F&aBa?Me`<-1'',
    (''fNd#m0LtKmMD9jIH2^7aRfD#oTBC~ihHm2GdV;6myjrXt>wUbi2;`?-$W0v!^ynE@'' @ ''{jV4pCSreKLK|L''),
    ''9SD4<Mxx{n99pZo6+k)_zfTcKs5&u6H9$u8osEx+5}ifRRFj>APtED7_DNfii*h46me^fITjij#CGt|'',
    ''b5`E%@DNh_#sKTvWpjL2-gSl0?uIxe9kV2vB(tBZqtrI+fWR>iby<2dqC}EQFU>jwbhl7A<)i<`!zU~'',
    ''_Pa<9N?j+grDHTWClD>1~a+_1hJu~v&~WlSBYswb*Fw|dw?3PC$=*B92+1xrpE&x42yP*b^07xLqpm`'',
    ''mw<tpsW?>}tSXv0q;B1d9_n)s=fd(IC6ufoOReP&EuK6%FAEyy;SdanYm+p5G<PU&%?`;k$s2p#W_oQ'',
    ''Zjd}mJbS1khzow_u2!F{B#Zec64;N!(Rr2wK=I=iAi+Ww7n~lHPIMpRdy(~9%e5tptWv}W}5PJItRuB'',
    ''gf@^M!y$2wVLONNkv>2YMazt)mv%>z()L|KB$&4;xJC!C91$7Q7nwpJ`8_7n&ot#XlFFCFGBl?)!#oT'',
    ''5E{5<P*1N}>(Zy)|ZuHulzj?cOJ$*m<8ge}*!+Sr@Zm1tNCe?Cn*e5&qmm#GlG_Lw`T68`dVf3jFm5l'',
    ''l~g9`-L^Dd{?YibGivNSwomtvj0kaKQ7B+%ies`ABWaGhs%?<x8)g8mCW+*)637!VQlsFGdE?+-1Lmq'',
    ''utQjQ<t!b@D$MT~C(k|FP9nT^U;koVW}fQ8BGzM_)a@M;ogOc%#x0Q2lw(w?HqC$Bh~>hOB{gx54=|R'',
    ''yTDaS`pf0!5lnbnJMwsHPh_{?{UV|;Rg8ez!UHQ3F^O=FGyRr%>VRWgODe>34XMzNM^e0@4CmdG1NOW'',
    ''W#c%6wA5{fjAzjP2-QcNG|Xc>{E=WY(paoylS@@4)HFT9f2^<!41~`~$AIrsT^<vBC@C3I6&a>c-aR9'',
    ''i<9}R_&}X38-<h*~<rs2g53O(>g?O?crzdy>j1!bYb+%jOvx);%-94?k{E?hK!Ot5dv>fBL?B5*=MX7'',
    ''0mb_Bu!|5r#K*>?{X!=*OBuW>4YLkaC^OBVa--os{pD7yheO%LCl{JEo~#jT^9ZRnwwW3=TuJaBdAK8'',
    ''_D+&;}2k3kux?=|0K08|K@jM!Th{#)8Z7)oAfyHuBErlhbxmKz<DNHPO#CxMJX94@jGw<JkCC3Xf$+-'',
    ''j@j7V&H|@spnoydi`FVbmOu$(jgz)gzVRoIS`PiT<xraZLfTU!-@95P0494_*7o~W^4_rp>Bjsmv23<'',
    ''`Ic(R|6rumI<eyB@9}Uv*fI`cpL86ITo<@>IBcOyg`mh+I6WO6pFTwc1%P%OgNrVteU*~b%)pW&KIM?'',
    ''PJS`q}9Te9_F|GkyfygPWKIroBH77*l1o4CNS9!GV#aw-dkdiiiEs=+<yH<pjQNd!>c%m^kP7fUX>XS'',
    ''RVN9sd76z|I+dE*k)_^VLY-GeM&M!E(88_3r^He6)r(vK`O&JPQ63Y8bKRNm1N1=&O6VDbVsXZnyioy'',
    ''VHRh28|&s+6ko6fHHNEq*~@7GP-XYk4BIq#OU9;k#OVCC63jO(v2kyW@*&>ZQPai5Zx6Avn$KC*92{u'',
    ''$NqE%7fO@B$e;K!E?1z1J=ZmR>3i2{UEf43(8CFO-|z&^<#+ws<5WVRdlpvrEV(IJkkat)rk9HfimLi'',
    ''9U9>jxN1gzv}ZchDXGE@#Re$Vf!Rwa^$Q9E@=a=!Z%9Q^Yp$NF3I*xcwF-`*#@UE!YW7;bD+UENzW-#'',
    ''rC6;lrWf@!JVUqcN7;%^oklmlXEE4&2hUdQ*)9cyIXg(iLCs-dooSneOGWp=DqH<dBB`<S&_@%Pqr7R'',
    ''Ppdg9>{=fH`x#tkW^9bmeaZ~&c}t(Jaa4C))v-pBV{TntSQ-yiBdDR0VLP{$)nn%bT6{5#K9$3N&E4)'',
    ''~UmW?)$$iLh!PZ7i-s>pIB;5wc=0>uRIg-VF#s?rr=y6dTCe&ZGYOg^t<l?2%B<W?u}KU!@^d_zyP0t'',
    '';2|~5RavrihwlAp(QluceSI7`bmY{^OVp12T)4`1QY-O00;m!mS#yB-->y>1^@sg761S?0001RX>c!J'',
    ''c4cm4Z*nhkWpQ<7b98eraA9L>VP|D?FLiQkY-wUMFJo_RbaH88FLQ5WYjZAed97G&Z`(Ey{;pp^Bq(e'',
    ''Lj<R9xFc`>(B2BSkTN^BCyP_x*S~|x>B~l|PyGGId_8s5!t}H304~aw`AKo4Bj?ej+oSvMLRAh|btw^'',
    ''Oer@xqy=;-Jux_)!<+ci;DSqiDiMo3c0JZI~lqJO5ID7x7)g?L;`wkCzhsvPVmWn7U`iXBr-aGG~;-A'',
    ''*|Bg@Ga)DGIV@ddqm^cZ`X}^>}`%a_gRwxhf%L8<x^MKM=hIKk=OGsAQDu1))51_B=x<L4eaW0x`tcR'',
    ''6NyIC8iHc0=O?og4$|CBUguOk$zT0G()JDio7O9OS|Fituk`Aw*<auN#iK`jf*`ezq5jAYVg%6icZNz'',
    ''B_(i;Y6j#?pvhe5+9B3ks1m;;5(=Sl7g#H%QEbO3K{Y|rJR;=P)$V6PvrK|gpknfz9}pzn8Uzm3C_=S'',
    ''{qSUA;YQCW?j~}Ll#cpsE(V}szJ*k7;5Y>3VmL{6)sV2#$(v^fHA*`?)(X|qJr6F<OQKaQzg{UM5Sie'',
    ''T_B?ZKMWydb16tW|<r;?+?lpV7>#j#srmG@FFpah-)PY>^%d}QUr;@G^*=XT6Ivu*+~9^xO*<?o82+p'',
    ''SA{T-ZY<Vnamf!imfpq%7==@x3DLa9xHohzWU#QC0|PATcWni?}2TpbfRvx>T#Pvyd4QXohNJB2_UHX'',
    ''TZ-;6;S%jCt<wRMSg6(c<M8(L0c^A*P(N)fc+~eQxLf$G)SO>OTiokp_qzx*q+RiXjXuzbTfYA20TO@'',
    ''x5C8(Ik*3Mb8~f3&n@lubu$nxh5)4y`F$W)I6nX~gALd)QoN*B+gtS-_6>p^3jjukf^vFiDu+WbJN)5'',
    ''>f>fn37x37ENJ*uF1P4ZfUgeV^k8|XlycQf!BuaCtd>w3bn|D31aO+GGn*Yy9nPW9R)mW*lU)ss5w^W'',
    ''C3S8r%1=Q~IlY%rr4XF5sd3i8d8oKShE@ZZVjy?OInTeWdMPHY?|!h8FiI5Bi!IiGbWXNzWORf3%Nj9'',
    ''gm8MO-V;-#Th^<gibSQC7*8PQeiKTw)flbEdXvG0L}{V%*R#exn$+_9vhBXxP_p^(fmo<CUmn3W=}Sj'',
    ''TY^dA7@>u*(byrSsjg_n?wuVn?`R-wb9$-4SF4z;W2J8i)_hCvG`!=Zd^6*$ePExJl+bW-GRj>np<Tj'',
    ''Jl3m;K9q1i5-Cn`mFz$o`Y`)61z_AW4&dgEBGaplZuhM=^V6#<1(MTZ!hkS)&+eGYdm*z44gBobdS7q'',
    ''dLjN(8Iynh((3x69t@yPir&F^{5r=LJ*y~`dMh=hPRfVIAR)rDdiLx4J1lPr6?!%|H;)z-ukthEhNnU'',
    ''<2G{8mYmGSCjxS)DA96LtI4Be!647nW2Y$3<HVvR;KZSLK|@}4!=>=zsf)1Ds8kh>7OczD2@Dt9-cfs'',
    ''zn+Brs7S<QWRB1_rvj^t>ZA5JD7W(1vpG6z1S=rp|#ahRBaRw9es8&i*fl8lK6+9bGXTg<QdXb`S6F?'',
    ''>74-Qd%?<O@_%UV}<TObKQ|Xz=U!2AE)}X+K*Ft05Me{TB&8?{{?J-E4IV0&{n9esPc@YRAY<adM8l5'',
    ''w0O9YzLq@7n3nDmu=C(n2#M1%c@Nn3@R`P?4lb+897(x$>HZERa&*Yf-twJ)B^guLm${HPqz+L$4L@u'',
    ''4j?071eykfQ#iC%*di>KhM>IF&9i{2cNCQW_RA6tGn%+zy%Qi;3hP17c=|)>xnO=dc501OJ#?<x82v-'',
    ''2*sv$4qYE)X7X2Z45zS?;`h`EvDHqGoo3~5<Uz?UO)eRcWjkfzUvLw<ELc##|0*xPgnd_97E{cz}h-_'',
    ''gOh_loEC^A^t^@NCakOjBrF8oI~!dUt3ND;=m#zwJ3^;ING2K~EBK(|;sZLr}^3kf?ME1sE3E?HgySD'',
    ''c3K%f~qZfJtq3CMX$RpfG0x|Z_=6(nQmoCYJy`whoy>FMPf`*=Rf|i#2lg-I?%5@IcdCOg^<RyZaUjb'',
    ''WoU8TRLyHW79FzeB;(+sbK<Dwvst(PcKBvZc(49^^Vf&u=EK!x;(kqPDq}v4{q(!ApSH03w}UI1?`U4'',
    ''ZM6o=2>we-gbqzGg0wc%=P}tbErLIoazM5i&j=Bda<L7!sBh%~czIMQR41U%1LN^-PWPKI9YRSQvm}T'',
    ''X)nEC37)zo`cM`Rx;kn2?)q>V(=$qhsBW4~+t6wY(lOSRhAb_p0XvK`gxoTw9GJQtduboz%jRT~D1Oo'',
    ''&GR0#Hi>1QY-O00;m!mS#zhU7&nW0001O0000w0001RX>c!Jc4cm4Z*nhkWpQ<7b98eraA9L>VP|D?F'',
    ''LiQkY-wUMFK}UFYhh<)b1z?CX>MtBUtcb8d1Z`23V<*S1n+r8ZdDL};9Hg|EfrEDP5OTo@#JxsVRF;T'',
    ''K<?gK0(h^dHs`pSO8119iSpCUpEeWJ=vzTi^CQ+o1VoYhu<#K6K1@8)1yD-^1QY-O00;m!mS#yt!KP>'',
    ''M3IG7-A^-qB0001RX>c!Jc4cm4Z*nhkWpQ<7b98eraA9L>VP|D?FLiQkY-wUMFK}UFYhh<)b1!dlWMy'',
    ''(?WM5=yV{|TXd9_+?Z`(K${+?e!G$?E@6esE3w%FjjxZQ1v3wF0D+Fo%7BQR)*wt1FBEh*XcE%v|P%#'',
    ''f6*x3pQ{@*$DP;c(vg%nX%t_9Kt?h0-Nc8+NY~p+)jq#^rRz;*=Z1${jD6u5!av&fcBM9sGGQ|7!%lz'',
    ''QtcJ@z*QH^Mn<r;xs=yXYXL0Fpd}|C%{FRl9@`Df+%GkD-FAH7-u|9VHd$tPE=Kq-~%%HNfjq8x4V+P'',
    ''xVrj|z2~P)!RmjAvXuE&=!j{N3T{NgsvJZoHox9|WWUH*<VGNmU0D`4mzS|h#GJ>aJis2ne;%vsQj1s'',
    ''?!d!m)>gCJt{&IO%>eI~`gP)C788Fj=gRB{uXDiB;OhjHXZrG}RI}@K{QIzbCsBX1ZI$)7hS$0}|9iz'',
    ''_fE542uSjMgTS)9x#DUK2Q#M4T+=ets5^f)R;0lqjpJF~tF{hPqAnWdTFfK)lxC+BXFiEJ&j0Y@33ag'',
    ''HfmJ0bdW_CpRcJE6g!2}4dS<Aq^+5R#RO9Z1BvBmM|Z=};G19YAZ)9}NKG*=iNRODb~v5Uaf8usObAz'',
    ''yMXq4g`c*hyj)f2(ko%NDC|C1wX>GC;m}xFYYmXiMW&*?72~zVlG^Yfn#_k&?h*r#kNYhCTYns67^{*'',
    ''R0^H*lo^q3=BpLx-w>bL=166}M^iG+5>>6!6ODi^QfXRh#Zt$1+a4K%sMVz*V~8B2KFV?j3=M>i%tgx'',
    ''JAY||yvg^*VTpZw#fGrJ6U<}<cEqBr|15uXB4Jb*L;OSO@w|3dgv%BT-j>KU|T`GtoG!?h90d#=pwjd'',
    ''COy0~F%`R@Jgr-;41{ny8c{e1iH2WPxQY{0wVx^lIeqUj>`4cA)(f4<ot6XPP1qH;3113Jl5`Cmj0>s'',
    ''}W@*35IpKFDp(%L-g5P1lPxt08YjY+aS;q9gEy7}!>5A{!04!ZQE}0YiyMYCdZb^U6@PNZmafC;-=MS'',
    ''!$H*EYzcZmSm_YYCL1#v+G7%5|c|{{_#`@I>6J3_*{q>y#!}6Q()-pM$m|DLCWXJggtL~&T4)&nD`$T'',
    ''r&_799(SPeLs@DG)(`=13@l>{=Kd@n*wD{;6LC4fZCf{3xx9J6#rPO8`}?iR#lz5sc%ByQ_dm`$<2E}'',
    ''?+d&h?mhpJv!V5ecSwM=&|DIrhFY|yt3_X>EGgBF{(~SLXvG|^;WGNpOr^cn{?1N25a2RrNWVnRI0Qi'',
    ''*JXo$|uaVOyjZ557|6sZtfcycK9(LoP*;<2*GSN71;K@5bOHAZ5w010t7Q23Jc1?-o49>yL_QEUSgp>'',
    ''b|{9s-jO#R>jE0`U>Byn5(OEw3M%*@g|caS6MU-;vDw9mi@Op<8-hYdIHCtM6P|?q<AKYr>va8y4QBF'',
    ''oJG9J%mnujrd4j&Ec4UH}IK!TVZVzL@5CLMmk3Yo|Y!y26H(kEp-5Itxwi*l#$#bN)Px_0K$n_7=uX)'',
    ''xSA?<Z+N84ylph6Ok<4(0FdhnxE&(<n2XQW?k(rc3sp>q*IAF&Yuf}kVjW%6w*VfJqjOTv0dCG2AK#`'',
    ''bnKib5Bo5<BYaeCTP5gktQ(-6JP!M<nMLW7rQltsdEMK&v*D<9jU>azlF<nA&Ii^W4@3iqFe@dgP|A$'',
    ''6bfkrXZ%6do@J27Jy-xDB1T76HkN@WrTn6Wh}kTzQNGR(#WsfQOAVd!C75Kd?91y(MbEFd>L1&#hhI`'',
    ''LXQCHqnJT#Jg(64<aYEF7ZX7$VLsK5BrjRxty{^K@kC=^hYnhAj+~FF74{?X1qG0seJh{2jd6D#b1o*'',
    ''iErt?%v${GGt@18tWkt0!G=J*6fC-*cy!$C>U)6*@0>k=t5j+(oRGoE6USk_B9dj#A|aW+#E?R9$y^R'',
    ''jLtV1s2?dEq^ctT3^6Xq^}t4mdtQ+1e#DMpW^28brX{F_W#Sr~Wjq_5JX+7$48O2Ji6B0Z0$gM@vE&<'',
    ''=iwnv%8|W|9G3=reMea{TLB&b#st@1lKs?1%YhPS6!H-?e5U9{NMY``1s2_r0Rmr3)Ba(Dal>?0d)*e'',
    ''nm=5}m^{SukjLIhC?&Fw%cfJXwlq3!HMYq#D39o^Yd*89&M7eJ3$vz{X{peVrs4viR72Y2!Dh<Pc?cF'',
    ''Y^#^2mP9q+|OHTb$Gzt}t!JvZm;${h00T<fs@eS6I@giiA+?#0m^F*lKhk-4Wd)!J9CH{*xv^4tEm-='',
    ''k$_<UqfcUCAfbRfbiW02C;**7bMVImOPKKXMv94CXl#R=Jp1w);(g$E!wliX-CbuKZEvocX>6O9Nh@R'',
    ''d&(MCI_Ch?LAevtuqB4zijH&*-rhki4Xp||F6IVwqq_%b91u}yeA9^LIKA=bFXZ?&-Svwvbl1*xGgk7'',
    ''w?aHXfegWy+NJ?%go3vPTe<sbf!Ss2;w(=nI88+n8T8=2_$)Q-c=@n<5EF4~RhBp9gdgXU)w!kO`1K|'',
    ''c?qC9860vo(`+iK`0U{!izM*(BdWf)UI`UZVro3*M+_DrFVp4F@A6}SeqQ_IwgMc3AT1<4WQNmwS0kL'',
    ''@W@+5T<TFC`sD5>dZyYyf>>N!sa=Obv&CLviQ#nP8MpzOa)&3Qym#TS_?24w}AF6`Q8VSs(`0=b=~Vw'',
    ''z<%>zcGPP_kgzx0x#p&bSVtMg;1&`6z+}!uM;p1)*2!N%L9L7=UHZ4@5#Sv{U3qf3R<Obt2Y-LUZv&2'',
    ''uNf+dr~74;JP>vsB3}cWLd19>nUHsEaZITUAwO0c!nja*g3^(;^AP{Yp|)?@s47R~!}q3O-q@29S(hB'',
    ''c(v}GEG$!LEa*)0|$5<H9)>Xdk0I>#2M`oOIc73>&Gay~N`ce=L`Dk@MR0TRlji-z#-Pn-BFpG6kaj>'',
    ''BA7>sWP3`7aEGSFBk<ZFR?L5AM@8>cWMKW;;kw{NE~!o4<MQWBf=Lf7|2_RW0`Sp5FSKucffu$?bDml'',
    ''H8`#4B5^%f!|zQScF`jgU1l=-JwNP~pjZ9(30&`laWDs$Y+H;G^AJxXp8b4$4t3o(Kh2D|pIzCRVFxH'',
    ''Ygn|d#)c}Xd~32Q^RE=A(N&ZQSm5@=-BpNQpIB60_MGo68x42_64NOINik~W)?EuLo>Av0*>m!1zRqg'',
    ''QtzQ%7zSAi64Z*yFoaU=>e6|vic{d=dNGl-KAm=;x#nll&R$crBBiDnjEs)KBQ~{#7ldBDuy@|a)&$o'',
    ''<sL#-C5a~(vHZwbpr5Vv;#W&Dfv^NU7jK9;EEk5gAu^Ofv8>dh@`fAdpxE}0GCik!B^^y-uptHF1RvZ'',
    ''UD2-%x(YJ{lj{!nwm4B{FV@mmFz9e$={Q+rqIV1qu^kpv^qpWv-pYPvySPq<g56X(O3-Q!gl>*BW>rz'',
    ''kD;a-}0_K1D1R_zCPMl@(k|gYCKkMQ!nQ{~B|K{UmBcjuq{p+236-wpZ5Q$ueFPbl>e6;HNIfVmvGME'',
    ''4$!O%myPHYe)*1#R4C#+V<W%fD$Y)ZE@xXdS<kj{yhVR*3HGJbsZNEo%MEKye^@S&N-CQm9f`w_5Vk_'',
    ''YF&{Wq&N;W_RsJx!_WB>C(4UdLa}aZEBC3~eqTabyp@4dXumE$>+0bDO`vy|0%OC?zLz1qQ^Aj|U)bG'',
    ''}_x5l8IbleG!7kqm5Ztmn!3wmhCr15$5l)K#0Z>Z=1QY-O00;m!mS#zrSWQ|;9RL85bpQZ00001RX>c'',
    ''!Jc4cm4Z*nhkWpQ<7b98eraA9L>VP|D?FLiQkY-wUMFK}UFYhh<)b1!pgcrI{xtv&s7+qROw>#x8m(='',
    ''qj)%1fNIbCan%RcxivJ%63#H0|YiI1~w4tSOQuNZWdE?tj1C1wewIlI3_Z5drKj7K_DV@xkSAIQ*OiV'',
    ''UPt}uvMJ0#}uBUJLbhcXW81#Sei$I#Sy#SW^4F4W^UxOx5MFZFnGmI<7Ar#ck7H<-iRH)e)IZ!`0oey'',
    ''fk%J3n*gwQ##0eTgI553&C^XFL;z$0!PY$G%PqT0-6-S!n5|OIS-fK2+D-5Hm}N0kwPgw6vv`@gL4>T'',
    ''iz+AEgasZpHfslw-*`u3s;>;By_5v3uGC%h64UaN6!x~pX2yL{oHD|+x!WfRI8lSr%&;xd{R2Q<x09u'',
    ''@b1h~l3z(Xoy0P@1zM?Q3M7;FMn2cnZW1ds#5xqx;cw_~=6{a}T^oEn$p%P<h@G4lf?zRWYo6qxDp2('',
    ''h3o{|Wsec!;b44eTLmamgV;VLb^7HdCS!nDe-fH`Uez$kQrMBdC@WmLG%YsMbHZmthVftl}_?AEgdNe'',
    ''t_)~@2UH4pwwN)51g7LyFH3C;8^m3eUX%1tct|i4MVo%N^(#&$l0y5Dn%Yd26_;<Axq+vDy_HHmP~w_'',
    ''vc=WMn=h03l+70GdVclW>}-0*hLZ)Phhz3-cJt}#^9=)t`Q-BE4|esDO)mdn|Cn8#joI|~>-luCU{`Y'',
    ''>HoLe!pG_fmc6oaK`D}LiEBgSLmsdCJe0DLr0kSt&RHY&|n=X*t#dLo936hf!v-8=_A7dc(advZwbU$'',
    ''9r*@RtB<~Os`&*zglyZ$`CzFJIyg)<<0IlKHghkB+L)5{wh>V-Tu{S6Xq@o92?j+Ftm$!BQ89JyqtSJ'',
    ''!{cXTN^BVV|zf&!&+1VG7($KAcZwWze+K^U3UD%+4kklV7KVbp>>=g$O8lWM4i_F%#>Yz`xU*+0`XB='',
    ''Je|FW)8_Qv~_+{Ab*)Hreijl&lV__kMpYwY$gg8aIT09U|voo9Ta-CZvX_-pBK}DBs-f<&Vkwjk!3?Q'',
    ''xIGxGQczjPS>;)ta>rr81~maRPQ)P$4@ag41C_tZBQJ~NQ0R;REKMaN24!@!IMr#fEsC;j!o^_VIBpJ'',
    ''uIEC6y*sx)=*iTE9^-Dt5&yLf(pND|<0Og>g67P-u=C%DA>>;%0v*4>dBvT47TTpQ~6`Uz}811VSm_1'',
    ''Z<)Ny-o{l_to0M2YpGKg03*Vnh~<b)kV@!Rg=w^;nHwfz0@E&KU|S#QVe-3UasVgUMnz~B$fO?2mw1Q'',
    ''0h%$CMv{6~5zXQ2=RK;DumQi){Rr`5Ax8C|gpYyk!u%=~m}1w;4(q3oa(VFJ}KcRm^VOClUOM4|pheD'',
    ''_2WbaGBN4oQ2%6Fplm<Ej(Jpr0it-6pL=)an#^Cj{=<MS~$n{$ck6Qa1y#1^y$V1E0tyfO}{n#(|vG<'']"

definition DATA_17507 :: "string list" where
  "DATA_17507 = [
    ''BgsGhy<-0@=SVkvbhiSnzhG~VfpjM90;-e*w8668u%CWnZ{LjA_w0@2uoQ|UI?Im0uEt<gmmx<hy>`I'',
    ''_qx|BPMIvDTaiY`LTSwrdla0zMNjmIzD<(q^92X_{=kpZ|yO4u6TQJ?Mj27v?l*5>enBui4&eCla7Km'',
    ''8CTcc5t$)7x)Wb6vGa|N@?G)?2Qit-91^gT$ZlDShxO*u(gKfc?G){k#%w0s`2-(digEL`7rz<03F!i'',
    ''>?2P!a*3XX4l03iMK>EyD4PZV`fFhV38~G7<2riAw|IfIE<f+=|={FR9O@agt?YC3T#MaT=7l%w2(Pq'',
    ''73NN3@B$srH&@<NV)@~>uA&w1@RRNZ-F1F7S6f*uk9HZURu)+sTbgLWlAx|%wQM)Fw@37Xd?cYcz3)+'',
    ''1G+F869W@msyxhapdkqdl5zOJt&u?*<eL#o<FcNyLLAY!h#um57-5bhur9k>EzxxW-vs`-I2c)e7lJ1'',
    ''SJ{Qax%zcOhU!a?-M2%o~;A?{Us!>V#CVnV@e3V&`zyxF0##5+S2NjT($uSzy7#)*Ld4Mg$BLQqfYSf'',
    ''of21N&6fJf$ENPQ|hb4M>ir-a~hNBr^RGL9;pn!~hd8AK)PBfFqdZG<_u7<oV$1&+j<_5=%+%9z<CBG'',
    ''6JS<BvT9-2jAU7!B2mRI_7BaJ9jwsf=oRi@jF}3ljz<h1;XK4{n%axgumadN>oMhJu&1j3w%*&Nby$h'',
    ''pXysIl;*U&2amVT<T<l){ah=jV<h%N-Evf1!m=bkT$0iY$eXmUxx|<ymffQs^Iyy2KRRW#3yNC(4)c>'',
    ''t{!Cd8&pxp)q_Xe)&)moBvasM=1XE142FPZTj(=DPt$;wxq%#G4U)*~ZFQg(gY}tX4b_0gn|#0=tcOO'',
    ''Q%rBDdgR!Xi;PHqx_l`+NjlKSHiBN6SW$$#62O!<%ZXnGELA5Y~e@$!9f~l)&HbawEuzMSswpQ<MPyx'',
    ''{;)jGdBO<7@oI*plzRHH!Kp^Y)lZE1@No3aR=E&%M>&DPQf;dN&~`xq0p0YI3Rvb9>Ep*Iri#hM77Y#'',
    ''c;_b_Brh#g)DCJ8VgbreawyAcY)VDV&(Er`K;^AG1{u`9KoU!`OvKSR`k9$S!f~VFQ(;D@@eT6EC)=>'',
    ''>uP7P#D708VK6RQtKkxO^|SJiw1QKT4;q5tJCB0)S#*`_fh;9sbVxE|NcLtHgqtJZlleiG5Z@V97Cie'',
    ''j0(~0>3lSO1x$;sR_gp(vif&6w1@D&#)ZWr)@U$<&RT^b4ceSTpI1{^2li`w9b?j_y5)o6WwyInZB+m'',
    ''UcXf`DaNRTA)!2p$+1>iGtr}Ljb^qYo7Kbi%1HqXbWmIepX+%h62Y(*aC5khKmFU54iqvpc5aszTp?y'',
    ''vd*4H>9Txb}QX>F^qWO!yHD_*NKp~_`2gkQGE=<`4X5$*(f+@e8Y_@T9RsU!>kw>e==YfgZUlyc$2lw'',
    ''-E7t!kLm#8MeKfp8MnyLaz;dO({_{F_S}S(<~|2XcQC!F}D;v_?@R?Q)&|1;990d#qrA*D>wjf;7P(r'',
    ''YUaUiiCSi8f`&lu|QVl@vZ%i0hb&t?Yke0#jnYrYUJ7#g?HM~Yvj7&$OYHUP)Y>FO_g4G%<Cgl%I2>;'',
    ''Nbw{fFa?VuDJBZ;o6PobhkDK*03(OlU@J$RFo#{MmB2Jo6LFq;%894eAUT1i$Q4E2VBi!p;7R)&s(o8'',
    ''yswIV<Wqcz{_uH6eF_VTi&R#G?$tTqvTQ2pb<jFxr<~DA6kIX5dL4B>xEFstY*rB(eownH(y5p5Z5aa'',
    ''(v&S>0<zY0QVEWzt7SWGN)$cNEP1tpAn>ZP@EVf;1-RueTyGuc5qh>|>$OAf`GT!EO3rtYItz{!VBYE'',
    ''WO)LJn+67tY2_`o*LG@TY?WXrK4!BTy{L|7C7oKK7$8+wse%Wfy+xMt6LN44(=h`Orm*8xvRyNjbQ}U'',
    ''^!H4ns;Q@sep(Rem8YL_u9x7=LTJvVjc1)=dV1@2t5g4kxl)I`S>7<I<U>*QyWSh7@q}C&jOD$&V2Ub'',
    ''FyyqY*vTq_pM#^TQT6klsFFX8T&DIwfBJ@s@ULLUs89g-(@ny`t#B^e-(xmvkY>`Pt#(){e3&h5gZ1K'',
    ''Q72G9w;6s+~l+xES-HwoKQ?5jwY#n@VgY%ag=Pr_?8=mnOer(KY19$v<v)MY?I^`~n>3X^f&_-gNWeH'',
    ''4j@qNJmbW_P7CU7)D0*mdkcn1X`g@KPXWYK}T2^~Bm%M>nVP<jg<Mv-F|Ae}_YzW8)=aeiH-2tDcU7|'',
    ''DDXKn<GXO3P(Q8z$elLFjA(nDsX~=n7OqBq-m$m|aXSn%M|$m*6|-Msd_Z8hn^8>J_9N72pwBmGDg^h'',
    ''X@kT4nlZ}S0(hJl0$?DsErW9e!982Uhwomc3U%tx<klh8;#RnXH|qo#x4pA@;$3KZF#%sc-Mh<FXuVq'',
    ''F_BMg2!G`~Cz$`Chc=LuC#lj)d~Aggv3JiiQSwgdMK_~{oiHp$kFCh=$rVDd8}--&=J<gd#$@x(iYHZ'',
    ''OtFk_Hyv9?K_z0;c83U$|l<-oV=zOj33zgQ|uE|y4dI^$Vl-x-@Y4TTr>m!&2<Z#@`AB~Q=y;#{jfvX'',
    ''>l1<5`vn7!x<j*uN$NopEpW^WHizNDcZir$TS6$m&8<J4Qnv9i+H{VC?0>YT>zs==3m*<ZzGgSVQ>9y'',
    ''z5P-A8>@7?{1%zptujcK;$JUB!`7#*f95A`o}XK^k?#g@Co-GFIAiA=4k?iZ&Tg{mrUtcXnUZ?{3-c)'',
    ''b~6M!H&u48c6G9GwmnRcCuZAP#AI!?<2`^t=~&hLuisR-A%HOSZ`Smmub9=v(j0qB^6_4ZX2zqO_(O0'',
    '';kL*OH9^QkpX;LVMQxh<{o;IneOgX*icmS#-Qs;U-)E0O<j0SKHlkp4?y+LuzjlcR?=B4i`t9*h?g}-'',
    ''xD*mqbDjHk@o^qKT^{Co%I~bT}gbkYNo{>J4E%#yM>8rY5P#)4&HzVZ%ZToIyu?=LKJNpu2C{+M=aEn'',
    ''?-1H5h`k9!P0nkSmLtyIq&4CMLBNp&l!p>@O2pq(!&)r<{C#_1*<Wyn(vD00jpcgS89ZQJYfpy~j|vz'',
    ''I}og8g@^$cvxT6$mvrb{hqAeGZ;{b~w6Z_Al`g-0%=&fPuwN>fRlQ{AV0Q2cnwr&&3re?gMf2=p{Ah('',
    ''ZO{Wdq0I$-yh9M!dyHbH;)diR3RQ(Z3+u(+{}JHDoGa>De3k=+^o>$=VIoSiE;0?3NUIof;MV?e6~^{'',
    ''frw{e>>Z2_5bow6>p|$Iyq}Mq;?1<+Vdsdtt<I#qcDg#P_D&)#6Ky#W_F}eAjlFygI;OuJ)7%cvbJX;'',
    ''5m9N|Grkc50zB^}J@<6}Yj4S=w%8W}{`_H(a=jYR^lYHFkFB_=1M{+3cDXec`q~65wVy#c@T1S0BrCo'',
    ''2^Tf3j$67E5IOPIZS+s@Z>^;RiMm)=%Iyi0G3wNM+0oqC&cFi#@;W}2($RdrWo?ytRo7biSwS3q4w=N'',
    ''TWk|6%AL0p6j*J4oP>f&UT$c+iWTdko;M>c0aYppG?-L-6l-mZb5M+KPWJ_FNSo(()@3+F5|t8@epW4'',
    ''iad8&iKj&Z=dYPCpYrL13Lm~&ACtPyp)bS4Y^KZj|*{N+W`A%`w~WIJN<<Xxdwyq7^nWl-8Z4}CCJvQ'',
    ''zvkQxHwV$2EJc>OUIy(8yh)y|U)soTLWsKSn^4m2I}7mG@>?|U+fbqwemkaKiobXX0o=2F5&p~gKXtt'',
    ''|e<6*}5nWV#sTj#_zRXeqRLUX69}b#<0Llxw8|BF%*x<d^XWwUZqZ@hK7g4~ubL%X(cqMWde!KtL<?-'',
    ''z2!7A*7d{~9s>&13)_gp`=a2`87*_xnt`LY_k?#&it_V8y#5=Y-~^HUS7d$cllf0q`-sgKrM)JfIRp^'',
    ''t#;g|Xmk@IVeFfbST;1h?ChEz!HiLWivO9Sjovz|kO)cMOLP2A@A3wDR=~h^n-Aj|c_d91@z)?lDmwL'',
    ''VdeoVH|8#M@Ct&|KOM-5>DUcb)UV?(>fHchlM?LuB337+LieIn%BeWvz5>6<!=3J9!Ty~!D>%*liQ_;'',
    ''o$o$^2A!td%{X%#nnqXcMdErov<(-0v&0v4@E*RtCSOABecKv=i1YHjER?iyF}-bnP`&Pt{?(p%dM5_'',
    ''))I7E)W;yFgTsh$PMlS3FVV51XFM(>;B9WfgMAeP_uSbM&G-gNCZhTP9kdKlndM@c7-9A&<yA^y-r6y'',
    ''&?=E%Ap<PmE%W`G-Ec#;jivr#IgR<G7GX#`Q0g2<^l=oNH1yVQaQ%&A0HL!nff6;<8^(yyskYAxT#+3'',
    ''{|A<Fz6*WU@BwRWEa#ug`ufs#=*fj6hnsw<fw{_FXz;-!W?Sc!csW-*k2Gr5FeAc4I^qhn^f~Xq2In$'',
    ''ufMxGFeEF=n~~Am*px^pi2mR3q%&fQ?<;OI~GEg>r@ryE{vCMs6bQ#A<8$Es!a$s^w`z{D8k3C2AJu#'',
    ''78HrDCR8#y+F+(}$}aT5^&jxUgoC%PG58L>Yx|T9RQF#(?-~6shfNj33bLj#2r?VVSfc^{0MR;@$%E&'',
    ''Hp}VBFWc6cD{Tc+{cx_hfMq3Lz9k+p<A-V?lI4>1iPH$-5%hy>W3OPe`pnQ|Y^35MpPxUKOd9;l4$ai'',
    ''$)5KCn=8BhhXvpt&H9Eq#m13OWHZZ0T^b75&=6}+xZVyM6-UMQNiVUa|il^rOZH$znqZiTJXy1`)!f3'',
    ''4k7Z)yok|CK=rMlTRTM<w!AeZ)|mLA|c!)Dm3>D<`dO39DmNW$E|%5mrx!gHBB@;?uPCfH7l%)&G@eG'',
    ''Nzj<Wf-rHUi(z>gtoe43J}0Tou#Rq1W=GhMNkp7=>2g3p?BO0vo$iYl(Fi@kgY@vU4dc5TG33yR>zdK'',
    ''tp^PNYB+|;>&DYSHQdq?cB3koHVc48>z;3gg|B`8?f$XN-T@uoCLn?^^cl-2D9CPn1=dC(po?R>2uP?'',
    ''l{4fyNZhQ%4;y(oZ5u0VoPU;M5I3NwNbZ9`!Ms&l=aub8N?na<ufUg>~-JL?>NXtHXUYAI0vqzrQArj'',
    ''r_k7sp<#5Q_k-_Fnw&+3o@<{6z*fFMp`<FvqGu{hTgGAn!w@C#)uENTN8HeUwnbknVkS0GI~lBFG#RN'',
    ''HpZB2G<X+egy^_H=X~SSJSQZu-<y&!hiUvVPlBMbi>3t(N&u*z!`CHN^Wu(f4o6MO)sAK^YiNZ;cKE{'',
    ''7)G=DoB>*o{Y*CMA<Qh1(Y%NAlF{dk2U=H!*FEdf?CxSnrMh}47jHHU>7KZ`&wPujePz@K?hAZfI(0R'',
    ''0ni!%pG_`<m{R(sO@xSTouZ--h^b3dLb}HoSSZa-VJ6L{f8}n7E^<9jdeZ7HbR}Hln_KqN343GQD3-W'',
    ''$dTV{o@Ay+m(8x@N4U8HrL0!0+x8}-|uSQ1Lv!cD~8P@D+yJ}I!EA}N$@7+{-9vJ^Mb0gmk!NFonPyq'',
    ''p+)q01@so;&4uv4CduE(wP=%4>Q8Z-QX2Mkc4U>q(yH__V{g_g>Px>{mZ*#@O|*0P0zIQ1d_>+4(76c'',
    '';LJE%Viw1s!Pl>T7U2YUpI~axz{P!)Ulx@%E~XFNcp2dt_>DML`YSEp=6AR&}{YWoa+KP}%2c<6fFr*'',
    ''t+Ey{ZwR@g=E-5azKmnoXYWytV+4saH%yx#hmz?o8AdI5#p2Tfm%2u3EGgt$f{#k>N1*paAgLKUA4We'',
    ''p3WM~Nq|3b&oRQ)$vqtX+A~NW0ZjX!a@wr1vP4a3W0oyjqW8!+c&(AKbcnnxu|^FPSO?+l299<BqX5f'',
    ''rIN7po!$=}vu#*zU%9ch9tP*TcGf&iTOYY`?%+OmGjta--gt4a*)xafFK*}>N!=qyy>vFT$HY1Y+D^0'',
    ''Oo0;^QTkb<cIw@oQ+88KOCBq<6f65L+tB}D}at0H#0qmZfck`AQnWN^Zz;&Q_-+(Eh^s~9!5`nYF-IP'',
    ''jNA3DcR11k>V`16jj6h_IJ_$v&+V50p`8n_Mvz@`((Ed^~#JQXi6YaL3eA^zhk{-r9RTXP0?RS(r*zO'',
    ''Us?u5?L}zl5J)5=NIw0N5$p{*n?tY3=I;PL$Y3jK@dZ^T{6NhQ79F;Vf`|{VW27l4r9(o{PBB{Z9^_G'',
    ''%H0g~9E#X)?<n@$vHe43Ag&T%RT8$7IH3SDcmRsh7nvXDS;YbYc&n;QJ6qk^!A~V{%Xc%kwzY%t5W!>'',
    ''_Z;v6+*a&Lf5@H!aq*E+ORsdeHnT!>M++%PiTnCVkjuEou6W1P*jENUycAY89;AjQI2Z@bPY7J%xq0Y'',
    ''V{-;J?KY|WE4+cgWS|L8nN7)pff3}tSiISqzZ8m~8gWI=l<zuGYD5;gwlg^t1cSW&1l002gR7e$Y5gn'',
    ''Mv-+JE|p;fIPs!RyKgIgRF_Dd34Iu!c4nT>+qFPc#Kk<L4&Lt1&0Z^3;@*NQz37Tm2`8K5l`k6B*=ml'',
    ''Zy-^F(Rw@?FLr`Zyy@r*CM~xa!#*;H(HK>d$t@vzje!r<en`@PWNazR3e+*=B^mzf(Q(1;N!*xUVUYN'',
    ''lFLY#_&E<WbJnOz7I`-tS#v0mo%D`;l1A-KVFFB_F!vFt{#&Npy*C-{W)ci}7(_<oeQWs7XjmO+@_62'',
    ''WV8gz!ekDmH)k+B{v<$YUy2;^6SS>2rgqKRL7$_$k=!jsf`+`T%tEroj#6@$S2wD`G%nUG7m5a;<Du('',
    ''f)EMQ~Q>G=Fa{={2Vu_Nct6E*XeKK;&_*qlbeX7^5`t1uVq`mBq208a+81eFXmmnepWBsHAcS3O1&%r'',
    ''gO6=H8+5B**e}Tn<5;H|Zo$Me856JB_bP;k_G`9?N6uCc?u16O2;`>#X1|;{HjwZ2vN!TwhP;&SbHe{'',
    ''d$QXd0Esi5#))FpC@WT`h0yhxtT5ux$8<X3UvJhX;s-T=wNNEs~Z7+6&)5@3Y>1XsOJ{9hc!Z~DwYg?'',
    ''lB#bqq?WU^Lc_qpbYy1X6LdHEL*)gA;@S@8tHU*NWn5OE7QUSd>7UA&kvgz{jLW(tbR+sU!+Ua>mU!i'',
    ''!1wMCCeZabI+<UBrVqhs+1$`R6Xx&5p01G1g8kIWQRi7tPpLwFoL$vE8Fv>BWbrm5uUs1KLhoL78&Z$'',
    ''gNt4gANVu<H}kB(z`q0sTeG3+NrQ-U0S)aIHJO?fwh6@caz0Uk8knsmXym>p#tH<Iw%CzNwEX4YuT{{'',
    ''4TITP+oa>B;CfYLm~sSZ+(B2<gaGeXOg$BTWsj9>&ILa0iPK^5vkUIB~ZzR+{;#h%lCicp9E8)RE&*f'',
    ''#V!ieJz6C*V{tiE*C-9`;{JUtAh*oG^u)Eh%P;1q9s0f!84l40%Oz^0s$Op864GpsRrC5%*rWWwSXE5'',
    ''Bl}beS6+e|D^ZgUVX`1x(I#yGq>9LoBRR)<)_2Mv-PV0oS?G6SXbX)cAOdqJe#%2raLD9CAL6GNRK!~'',
    ''WP65V9E|z>m?6aBo7Qg7BV<@jd0d>%Eyh)VMhH3RXc3Lr^&+kIDuY+wLE1saJ%7h^W`Vt84Oj6MCBnh'',
    ''|r!yrZD<R{e(1E57fTX4sf4YMOv(UEjh>laPh9LnEtQLa47UwV3hd2WP6!FNSI1MaitvZ(Sm1lGS3fZ'',
    ''(~g;99EDk?t!k6>DS<*?0Z4bUSn`+<Jc5=O;xT5pO`sjyPeVyIJ}!#s7V;qW~9FfF-r6JIb@w_y2WN('',
    ''Oe=mkl!xE@HQD&U)RB)Dn*=O^>r>a%gEh6m}KN_3UvJRw+B_&X1v#zV1VX4(OK#WG!Y>KY=DE)6Pt0K'',
    ''8y8H~ye1DvuBX=wL*t{G;q$v6-Vg>M6H;-75yKSA2+!>8k3X_s=A7d6_!Dvmux04(sBJ_L6!~%>*M#G'',
    ''3xlz+D>N2~C<L?OWrrw(N5aoCJG}DSV_6rV4R1*I;Hx1~{$}6U>C&H+N(JF$cmhT9lr41swoXfXNDqf'',
    (''PtfWHy8>IpXjT5B{u5m|E}L~ek*WiIbMma)9mcL{l<!kly8X4V1}At4`ybQ-_Zh@'' @ ''{D6#~Tiyu7J)joN''),
    ''8p0`bSDcIrv5B=ZcqKfv<cT>=RG<ktk{iVP?k<6mTKlvq>byGSm~#P=EW71SNH5gWp>;2*OxiL7U_(O'',
    ''DAb4Bd7%!1oQPsgC52!4c~G~8=<axYwq1+OALBNb&Y;8y2a=}O%W_;7}7V%3}R5oQ~U-eo>yy0k*O`d'',
    ''fM;4oWdZ3@x254ng~_0RQEdUXhpl^2#qD4Dp@wpJ)FyE{V>UbNYfzoV%cU)X8l8^cdki9sEIvm6h$Lf'',
    ''v4TCI7O^yuTxUmP73T;wk-zqLFj|Tq_P)h>@6aWAK2mm&gW=RmRXyx4i007JZ002z@003}la4%nWWo~'',
    ''3|axZdaadl;LbaO9oVPk7yXJvCQb#iQMX<{=kaA9L>VP|D?FLQHjUu|J@V`yJ!Z*z2RVQpnEUtei%X>'',
    ''?y-E^v8`j=@UAFc60CeTpCUP{q=N-UKho9=xb;5VFbC29r!kC%g9T?WQVJ5H`oj%=dkg=lcfB+u?1Nk'',
    ''t6Q<+nYKWG6zhPhYN|b;EA%h!5J;I&zW<Fpv8=8<Vm6q)X=A)BzUgtb!A1%k7M;bYV%QnJU~XmP@)mH'',
    ''n5$4D&B-CKEuMa_>eu1>aO#&TwUu8Sd8Yjry7s-6j3Y(MnJf&ad0Ww|Mdc|_6kW3~H8(rFupkmyvK<a'',
    ''ZVA+&2$i;V@MlCoIQs$$x)Hh0L@0G#>uG+uwwnMwcx7W=VP)h>@6aWAK2mm&gW=XBooEroN006=c002'',
    ''|~003}la4%nWWo~3|axZdaadl;LbaO9oVPk7yXJvCQb#iQMX<{=kaA9L>VP|D?FLQHjUu|J@V`yJ!Z*'',
    ''z2RVQpnEUukV{Y-Md_ZggREX>V>WaCxm){cjUT5dGbM#mG_QJL6mkX(_doN>P9oi6#*SiVD<P-|fX)&'',
    ''bz1Gb&UJh_s#B|eU1ZEZG%Ld{g{t8Z{Cjk{r>B@q=oSLd^$JIYq5|?O65}LUKvfLH4D04`#C<JX81QE'',
    ''>73MFiHcTpscGqyzM;wFW!CTad%Xj?G+vJB^;|hBRV4|(m%5OaJUm@bo>QfAshuR@!cuMu{%;{&^u}v'',
    ''-@Cakh7nPc2L^Sul9v>eUCU;rf&Wyb|K0R*CWplr%dOfwMjrC+@uQ#3EO6!otbV_G5IL*Gx9%hdQy<T'',
    ''1k=jcLOuS%5*FP~X!Z1PrA%lI)J_u!Fg9P9OZg)C`WXvf%015`<&N7TYK0(_sRD^(S_u!TE2X>J3KU-'',
    ''>Y@Bl6tXf<JjfubyAf<C90<kI2c0@?(T{+6%XuG`%sE%artG$dYqAwq?%O4w_p>@mAxi3D`TN`u=11O'',
    ''O>RJr$Wbg_{U1Ww3?oa%E{>OfUbd;EF$(1*wZ7o)?R!bHzz7t`USEb(a_3;P@$S<Fr2x%Qa-VRY>+kq'',
    ''*bu=zTdfi7hEwk!#wfcM<HpJOV~lNsDYn|{S#FlvCxc;Q7D;Z8{j^((ZQcj;!nviSgOeYAeDZKi;?}5'',
    ''w3aLS3N2Ww2>@9divo!)LBc~SzEZSP|bD_y-x$#Fef-bGNS)d<4(Q|T3dn?y$PdYDVm2z`gbWGF+WL='',
    ''Y3nAkD|wpNm_3$CamH#aNPLV4!N3@y^RY^88U!z#LEZV+s?Evr!Ir#(V%_5(*iDZr!G9lVsLe0zzWUQ'',
    ''UP^J*GZAfWO*;=xN###nlqAEo*L8WI(xq)77!r8tl^Uo+>o#134<BX`wS`XPY)^*II91=o0+7oGC9Cb'',
    ''dohES;6v30Y#epa`oorQ@Xr*O~T_)9e@lyOM+@ES-KeDf+eg}C?GIc%~d|{wN>sEIG+nEa*tC;xwZh='',
    ''!AvD)vLb_%Hj;wxFh7q1zr%LcLb0ViBxpG3Qt~&JPpq**iVcyNg33Etl_Tash&{N~XnD?PO@;9lRJdb'',
    ''m!@|uPOF<^;TIwPhy#FKn_@HSRS#_eyKvT5bO8I#*_^gkP1}Pc4t;zm&H-T@K=rrq`{!eA<*ukq~<(K'',
    ''LNDCJ@%ivqVfY*ZHoIzMV^*0uAdT`c*Cf<voA8;VN(h3kc3VG0d#Kde?}(&eI-NegG%LhNK0rz@t)3h'',
    ''Wt$a&JniH>JcoXCXOwT(g^uR;$(UpL)#Drj^Jgl=j1L00&%ah~uV@L{S8=qRz6ewPbN1*o}tB(T*yFd'',
    ''!>oe#_h3D=<zp#;tQ=~oPcU$k2?or0LOPeU|AV_$OhS;M(KpDq;ctYgpR{6e!jeV_3Yw&@+|Fj6axpd'',
    ''`0%#OOq+N4&g8;swtbnm5Aj=RRk`MF^)%!|LrRcYA$j;HI9nLvfh0P_(rg{>LZl}q|0I2OBR%xb^5rB'',
    ''=H$`M<hpodQUIA{3M^8?k0MugBAu*X{#Z?F1rKwo$iV@A0o?cvYku1+uahv566N9XMjIHY+qI*~BnfK'',
    ''ulD2RtPp{ga&q$`b9gdvAgbD-^5*TL4YH=a?lok^k*an81*-{G0rj!8*B>Jj{F(|t+$v3kwS)EP+}I_'',
    '')f+WIU4rgyK&~$9d&1aS$9xnik@$KgsooZrK~N5LdU6AUx~_O~s?tQPpPi&bStg?D3-e6T#S7ZliB`9'',
    ''*m@2blMZ+J1W;?#YHi?T0@>BC{)CG*$4Sjj5`&V6V98^jCS2I!s+fHv)N-@u+_fYJ19o@c5}N2$K`B4'',
    ''{R4XU?%n>B$~=zD2~QXXfSfB#7jXdCiEL|XvBX&nFH6ud+uQGyF3u65^7|qE+e&_=qV3PuD_cpOv?o%'',
    ''GlqYu^U~kUqx8cyCrT*^JRT$~?pn1nhsxUR+$vJep2M;OPexYC;j}o~Mb;5(#XcKgrraKRLH&}rBe@1'',
    ''&~zY=5X6?6Q(&)%23gZ6;k8jMpsb8b1nGIA%J-6p`-Nm*fPUCAJ!_)-a-`5RD60|XQR000O8HkM{d8@'',
    ''Oljb^!nYd;<UgHUIzsaA|NaUv_0~WN&gWa%FLKWpi|MFK}UFYhh<)b1!vrY;0*_GcR>?X>2cFUukY>b'',
    ''YEXCaCvP~%Wm6147~d*7U;nZVB`;a2#N+VP^3YW9C9Mo5*05jiCdC#lE3e6w3OwzI*BuU42Rn?^$wsN'',
    ''bz}r^p^wDs{7$GF6=8~3-`p*++xhzN=D879Qy;yCUFd>-Y+PhIh6YQuINf`7qhRBd+z#Cy8LwAuo^@T'',
    ''*Fkr2L1{)RxP9QW)F=A7)8UKzbYN@?HAnegM$TDY0q(N}et&LE3By$syZr<$s%B8QWe*dIF@m)8c@!d'',
    ''@Y)%|t~wiP_Q{CW6wpRy*ziy$ksVR%K39EMVsW>a@Ws56_S$~m0p9+T3v)<k6BjeP{6`hcm)RZ*y+M;'',
    ''i59WIZzDppeO_{%K0fb@TShA6E95gF=klop*ahg*{189z6>}N-Dx)I%L|9jepKengZavF1?E%rOUcFw'',
    ''Vu+}ORo$&nQO?WFbm2O7N$w|dug*VODhcf@3UEu^D8jS9I$xyz<}lJGVJ2SUx~$$jas-lL+6)YXLJ7n'',
    ''P)h>@6aWAK2mm&gW=W<Ds6H|W004**001}u003}la4%nWWo~3|axZdaadl;LbaO9oVPk7yXJvCQb#iQ'',
    ''MX<{=kb#!TLFJo_RZe?S1X>V>WaCwziZExc?68`RAG01+f6u3%udrc1p@*%hNUW2Ad(0C6AEEX~?Q8s'',
    ''UBQ6MRMeZRgle9=qn6n6m<$Kr6_pJzsuRy)Y^s<o}=c@ARNC~bkQjgqb9x&J;1kBut6aXYd4IG+IiRC'',
    ''L>L$qO5AHcHAFJU=}=+&@nE_kuST?%mNsYo+G^?_fnjD<~B=_0$6YE{p|L!_&*Zfz>4_yX6`h$!w+c&'',
    ''Nx$a1#aOJlZLwoofB_3;=ehGx7_d|XB@d}nnk@4HP1Q=L3#9GGAVfl!sLajYdjFD&P%PDhL;IFN}Yx0'',
    (''5W)|p;f1I~;nZDRT)59aI3~R|u+%LFQ2|B`y*gA5L8D8G*{W8SutpiF3@@'' @ ''{ZQ!;OuW;=JUPshBF%$WI''),
    ''VYi%RNI{S6GeE!&JUV&Qw2mcKk9+l;D_@o9I2PwYsJ_|E+4ZS%CECG`Tb~K=!@330AbgWijl~X3Ub#X'',
    ''*hutneHC@#&5V<APo!4k6Cp#QwK@(3snt;t3yqK3nqZ@6XFYM0p=OzG)#<|~mpIn16DMK9gc^Vy&GA$'',
    ''6$=f%JVfQ1z&4uc^-+#;-XmkD&;Vn6}sgGq65F$ab2&R!#+;MCG;eAnB_W9{LXZ-#tI^zB?H~V<6@&B'',
    ''wr}LuQT`(ey_9Z^vm_v?nZ!%2YbdHUe2lO!+HlxYLGqGCUowaTZ<URFMU(lEkmts<KQW*Pg8^CrF0~|'']"

definition DATA_17657 :: "string list" where
  "DATA_17657 = [
    ''kWHrf22sd$LiQt*_(STDq^i{n_&x=Jx-)l`0vM$eW#IPKMUYiO@>(V7ID~hw5RPR^W|?!ittzgmqH9*'',
    ''BGeA>s;xT(W8<UWVs;#?Qg=z#U_8jGt+8oJ!GVpw~TNL|{{S3w;R+uhP2ey%B`UsXAN|~@cgS)asEmm'',
    ''Rb3>dMg8F4llP&LA5<yGgZA-iUkp_-?f11n2GPnd+ADyf-Rbj%gxfFgS(kXb}sI#epSf8O6<w`eLTsw'',
    ''ssj)ZS$Wz5eC#C9;({Vx@K+e{R{H`@1oGCWSp_jw=hq4Gxq(p$U4XxiQEtV#if$Z$onOe?C0@<L)8<W'',
    ''%23m^TRS<-v7RM`n;Ttvflp~)#`%hLE9~Xb_U~QxQC$wkXizqDbmYu?b2~<D5VR{DHt;)-rMt9@Vek#'',
    ''gc-nDbqRwHKiIZG?pv*rtul5N=9sqWYL))AJ%DE<a90gH^HDJA6kLXEU4mnNPB3%KYy$O$bHd(0v8bu'',
    ''N3Qr$vj!?q7BSv?q+ZR1l25sLHAq@;+s}O7@b}@|tuVW+C8hZ*$%UWqWtLTMO=tIMfL1LU!vgRvf@gN'',
    ''<9SDq6M(msO9*}WWB)7vKZE$mvv0**fhKCP+(pI4vLjv)p?V^q}D#Lq1B2?WhC2RrsHrnzrT5AeGhNI'',
    ''w~xPKgj4aa|)Qr8Mrw(+inE@7=c$TtC6wKfQ~{bisI>1$35SU9>d^q@!f|Wjf#~XZ$t_Y0=>M*QpN_S'',
    ''s9P0ts?_}?%HL~BrX(=ZkUwnz{`BYL|(C-kjEsA%!A=t{@sN~^A$Z4b){&6o1n5aaqT&5xnoO=_Mr4P'',
    ''Aa4oje{*br6J6;Nf$Xr~eZ!2cah1!u5rH++0%sVu%?TUyj5*pc422L?dQCnKO6Hm1CS4m~o+;A6DT4?'',
    ''HO*0G1B41=LPal8FUzUF??tUK>f>mC?9vh^VMk|XWs9-fZj{w9ohTfpPep&Quiz`ojb~2QMP_XPjk~5'',
    ''~#$*akQFu{YpC<%@Pj?nFr@3{<Q(e-!CaJ?B%tsF1rW0njPcl_{`bt3+NbVR0GTmF)?=O?7?hO%P`rz'',
    ''Q!X>1#7%B6vd&p*tB%rYA|xLJktc(sPrWWcn!2Y(K;weC&b8A3t^4Z;q50w>_SB+bxetdiHPxYg9>=&'',
    ''T7<5Ao1X_7xiC<ZYLK*Tz7b?fk^*|JBG0rX?T-)yB%U5%%elG!Qz7aYTNA*h=PQ`AU_|WgF1jd@i4i>'',
    ''KhckKnC|BG$!1k@+JpR7<ap_X+We^M(=a0{Ls)p-apSoAlz)DFd0u?<TTw^lG^CvdH((pC-75`qq-Qw'',
    ''OxcXOt<vjP%P<ON#8LJxu9c%R_?;jV-nABhIUh@0rf87jTX-_YBA18y>^+K_RTV`_6>~9>y^=Ui%q8U'',
    ''~<WU(+J>kxrQQTF;3tmCq1q<<A2^gj9-&-+N;^><<u+TckM*53o8HF?+Iu3mP-<tDx?WCK<A)~%Zk4>'',
    ''X8rNR2~6W24)^YqplOU@X-@QAwNA4qvFcHP|m0lniXA*ZCMmgYS7}es#4$Kif63%kIi-*?-mHs?`!V_'',
    ''aCpCR?4fJ_wUbKTDKd6>pw-EDZRN8#<cwAr@#OB;phKzRE!(x<_zySb`0b0IvooP%IMx);`2a%3-^IA'',
    ''8#~hARyr#9D^w4OEwpGfG?~O6N0WW4PUrLYxYPUzP)h>@6aWAK2mm&gW=YJ!ygu3j002-3001=r003}'',
    ''la4%nWWo~3|axZdaadl;LbaO9oVPk7yXJvCQb#iQMX<{=kb#!TLFLGsZb!BsOE^v9JR$WiqFcf{yuej'',
    ''<<sFnn#Av8q-X>@2pn%E?G+ose>Zm36MXSM?r#DB+jQs;vfrmZh+>~qgO_cJX7uOLZ^Ml}MH1ZY)rp@'',
    ''5{4myN=tefA0iONqpz!wn=oIz*Q79KH57ifWSGkZY8Yr1uWxd7l=Gv+q~Q*~Q}9=ktp%a18$S1FeG`i'',
    '';^hxJ<roWp&~b!tdQg=<lYTposg2=;_(G%7y!vKtW{z?Qg+>)HWEdmT{6`kcrg8F%`{6$qgI_sE%^O9'',
    ''d2yUmNzxLNjAX0U=RCG-v)RmkU#@gGS)(KrT!40of+(#71paAID(Iv~o`uIX5u}1Xj@W5CFJQU65)Ce'',
    ''wI<7pI;AfmM%oOD;wkDx9@jK2j<s=h5?}9K$5eTH5mq=IuC6y`wEmta`p^<}b{DTsNNmB(0icjj&!@p'',
    ''`CxT9sM<5uvSQ-(RDYsh$2ksfwwy|h3rL>DIqB2C6`X^#0gjJ|a7lt5rDQ0g1=pjMVigcb{H-oPDUIx'',
    ''N{_D^2f=XZ2dGI13w5mNfmae-ItbMjrc`4|2v!Z6eVil$L8eF;by6k@Aj<yi1)ex^HZ`pbw<2lqJ-CA'',
    ''Nh{YAhuR*+IIgc!SaOvA!O9(uQ#PZgt|4A;AISqhxTOBm1p;)s!NPx&vBicoa~%t<6<<ovs0of!uH=s'',
    ''2eY}OcpQv`AA>&_iU9n+AIx1(;6LrwFkK)<$k1PVA8zgq@n{;JM%$oc)w}Gmy`aVJ!PIwDQYIB)8BT='',
    ''+ro8ibw7E>>-2s+w*qbSz5KJ&;<pzFa26t*cANY~@7RzLnJ9L+hA1|`_OB+pSyiLBgZ2(6!D6!$_vCe'',
    ''$kYIWv=?lI=W{&57`hOrN1IAJZvshu((-oejNn%s+UFWu`o=kq8>d+Il;2tWFB=Xm!naPGH^`QM9}^1'',
    ''mWw$2REmINSlP0=EZR5`p@k1KU`5&rnMP1QY-O00;m!mS#z9=K&m@0{{SZ2mk;!0001RX>c!Jc4cm4Z'',
    ''*nhkWpQ<7b98eraA9L>VP|D?FLiQkY-wUMFLiWjY%g+Ub8v5Nb7d}Yd6iX7Z{s!;y!%%?BnMl7BP@`c'',
    ''fS?GrF0zMhgCZ?@Q)ubQ;)W)*BxT1a`rkVwC0n-B1?r1Tk@G(0%}|XsTPn+@_r2w^B)RR3^(5BLsNQp'',
    ''#*0UxY%kxfDZ(_qPck(^onjO0l(0bpMm6EIhc5$iXdNu<2z2eSGqmO_m7B$;vVV%^Qm9@ssX0w_blCE'',
    ''q*DC4+ZnDw`;m=S(AH#hP5x#jB3(Y|HhvL!(qxnoU@RD7r88xtU0d4!=9BcDZF(FrTIVK>DKzn7M;f!'',
    ''<IRa^%Of@sGEM6Yw^bK|3i3WsqqaSxKQz(e8$5dvVB*Fw0<BheUa*E$$?4=+S#C*Wf&oamv*R=YCLvY'',
    ''*Gcst_4*_dm%O0X$%<BCNg#1Xe<0A+=jhFg^C3VBcoAQD|#1(Mhnh2IX%6+JpazF!xTCDu&bsE75r*6'',
    ''|G&<xkdEn3q55=Yar1{3YsFz0HG8&Ov~!$!$}&v%CL45vU~GNaMqQO%64oLu-GzuA<JpOdl%nAzwPMG'',
    ''#W@yUwRmILVy;27X0fU$VeD&_FsDNi(nO>tlFvg*9M^W%$B9>jRJfuNGEn|j3kiTg}-5U!rgW>0cZ}G'',
    ''T4SL=W%2DiAt$BwOR22mCM(DCWi>tMS)OzJC2hgV<6h>>GQy;V4IKXGJ!ZN<}!zMRS*8Wa|$LD%(#L2'',
    ''h9ujAbvuWh0~_2f=BNCLz&1$7z$)k(<3W2>2#-J@6y8VaoX!$k0|ms5P(q%_im+PKG(vHS`Q!q0378s'',
    ''Zo&xLWeM<c3$X;$I&n816HzAhe>-cATmjBj_9xlCOYB<%#t=p@b{;G@_7zpZG~SPgG75G#8GcqmRNx@'',
    ''IVj~J_)EYDr?Te5-h3Gylg0Bm1??V`5%q_d$^H=+fxS)&Eo<Qgphpvem<gx|{5~t;LkD*bol0C?#YBH'',
    ''&JC^|`K^8+!gdY3DMRNwY<o8-*ivjvDJeTJI9?n+T>EmFB8>sXqntd_8`0<A#S@L_&E_zbX2!r8W^1G'',
    ''m?)#J~1!>Po?lhCz-Z36szFQZ!<dhEKDhA{cuuDE!0F)?ObQ&A~Mzc@4Jc#XcEm3&LTeEI9^s-VvhIV'',
    ''@8f<b|i4*>Y?4@D_&D;{zM-rQnOs%AN2$N|j3Zs5SLZF<knO(T%O<!}d75iCNOd5(f3ze`y3=bL{%^>'',
    ''K_w5(EaS{b>0JJ7g^Yz2ZHCbe*sWS0|XQR000O8HkM{d6p$E-84Umcs3`ydGXMYpaA|NaUv_0~WN&gW'',
    ''a%FLKWpi|MFK}UFYhh<)b1!vrY;0*_GcR>?X>2cYWpr|RE^v9ZT5XTpxDo!ozk*0`u(b6m-lT`N#<}S'',
    ''xaW0D{x537TD{#2Vv`l-|$f8S0@w$ujw|8dvB2tpm=5RHFjVzMGnP*-&GxSEu9ZS<qQ#VSaDa&_zscO'',
    ''bol`NWCr26}rd0po_VV?`R-R9-?>}-Q1l0@8RVqfR7tSph}jKSxnEK8Bq3s@?fdajgIV;XqJ?{7t|j^'',
    ''3;HO4c%yh4<=K@O6Lft*G{}lQ6Gh%fy~%ANf`|7OMRI?CcC!Wi!igvK94PcoZs1(~|E%>KNu^1+OYb3'',
    ''`KJF58ybS(pHZiJ<_jPCd*B}Z4^f-lQSBf^X!f(8s>E^cKezg@}gjw61*0Svr-()a!nP6>pRx$*D$<h'',
    ''pLo%TYRoE0)ap9{+whXD1grQ)6i1-lRAOy*Lqa)7XQr&hCNF^suV5qi!keOI8>!&iUdm!R)vNHM%*vS'',
    ''&G1FR^eLIFBzMehB|JS*qcd=V`SJ!)3^B$<Z<0VJX45gX*KlZlJI)VAPEK%a0AX^=czMn5fV>ZH<(<e'',
    ''{FJ>TsMkz{iBWE5)-Zxq`LbzxSp=x~<<tn!mkDqjQFfJ-1Ben$!8P{gm_e{6x7X;>~NaXbulUh!1{Sg'',
    ''($350(Ok#Fop~yr{%-`P*?p1Pupd+m$va;NYP6eh&=fC7Y75PM7~~R8i!sXP)mRfmbbAQx>AC&U_Q#s'',
    ''ugF9<TTnD2c{9&j5j2nBkEXCJa27ry61}TU_FEdS@UA*AXwm6RyMnpP)u&z#<gU;DC8kw3;q$l@4?!{'',
    ''T9la}RWk{@EAX<WtgEC&^n<`10PP=S31H*15<6G{+~yT}WmN-bzy~kaY{QXP2m=flCyI`cq0Fx95jxC'',
    ''PN<echI8v-|6C{VvatH1w$|_$K$BVmsd#C*r#vCo45jC>LrWE&ka2!yMSZ@U(SrIe*lgv?L;HEi5105'',
    ''#{Dfff&O|)<uo)^eG>SB{C@CRBqw8GdQelZ%QZ6WwU<XA3AU#Top=h|jLUxg+fv`Ty<4{XQFqa6V|0R'',
    ''Jo~Y6)$bqzH;^rN`XjPJkhyk(p`QYQTN~D{W!c&jD_LnPkzgcd|z06<EXA5!B{+0Gd_RfM)I>+?5hms'',
    ''T`v?kjBM&6_VO3nSsswJAFOcXt&xPj(gFE3uER0R(L)JxX?rcL=Pi_4?<-y;+tBi0HOmAF*4wQjpA1?'',
    ''>gee^egu5LH7YRd3$fXN=6;2({a5L=ISn9ShX@6T>7esn!rtb)y!Ef1SLh{<Sl2<W+!VAJ&fY8*@7p*'',
    ''_=P74Z&FcoE!CJ6qlglyud5V9Y;h#S+*@l5<lRy48i2OfX5%f=MccQ+N>lAFi7DZlpP~(okOaq63!br'',
    ''2$c<2QTjAMnS&ujFU>P|MrddN#(9PNQR#)-0|RKpmprd1iwL;J)a3l>GrCc%{*9e4?uR*e=K?SNVihn'',
    ''ls<O6!Kq7V<1cA_|bOVgjJCgN_zWLOqH&0Wk%eLQ18kOFGYzSM%3bKfYb0@8*j)H?Pv4-dr!{Z?8Wrm'',
    ''VIq-PaigNx6+}RB1|Wc*M^jW;btA=ujrHj?7;^FL>>*iXLvo}i3qUMD!{jCd<PbVUXW8<%{PJX8<o-&'',
    ''kf>`C%Vm2Sm20!oIEC*Gc70c{<?@6*ke$Onm-CRO?D-qQwkae?jOVS~Y|;(SYN>q0%m~vXq?|o^#7fi'',
    ''$AxfJxS6=9=1Xvr$qmGVFw3C2`A1?*eC!Y|q-3}ZI&_kL>j00{pu?=Md<BrZ64zME_m&u!SVpA1D>`_'',
    ''&I8i${UkonK-oJCLB-&yp~<~Ef2*bL`0yI_|#fh3D2W-#T@nhkM6j3>z@0uD$_H%*yMmkF`6^jLG$Fx'',
    ''U8bl1!jpm?Tf>@9*Jnk|e)4JPjw9<Y*G5z+(}Tw?dX%FBt+$Ekg%;arN@AH?Lo(@2>uK$}%h<zHvmAc'',
    ''DhL%TE+_UbJh!cQ})xHz^rU+t=-QP?b(r6ZhLWm2l;4?sVX`#(gQ7rwIkD(1+q7)BzFtWhJJ3Y{Xz%%'',
    ''XZQC&7O?pe``UM=>;oKR1y|sjyu=)tLVr(4s0h65g~auvv6i816KoQo$9<at0aC`HF}pqK&RPr#1~%o'',
    ''!T)>f8p@BF&6I<PCu}_6psAHhE{ugA!qK<xcv_@~{SFf<1F=fsBAL+kW^SATG9G`C9FRpKX_<)a#+pC'',
    (''xJ(J#g?9#2tw`L5YHbHcPqv*XzyY<&52qSt@'' @ ''{vNXj&nWkWG#b&G>Z+1Bu+XQun;mK69_R$=*^fhp8`g''),
    ''8;8>=Xv$-l1@cWa!{C;I4o0FH|GOUDMKU`vg<DqLgo)>gYF{#8W@M6q`hcpqWM_95T?rpm_?1DLI`HW'',
    ''M{sy`RNv&quRl68~bJ&u<91f*d!e2N)Iz={aKe2H{44HX+l>4FtPUvm_#Fu!<Ahv!^-Zfa6u<X&pJx&'',
    ''Fg_q)@7;+d#;0dpTL`CjEdb{CUa`k)ar5eC${NsB0>?M-3AqIn#-Q5gtq+yrVBF{Y{No{Rl}IrUNw4#'',
    '')jsg{GM{6xDG*at)zPTAEbSCC`Vxa7hQqLO)wHL1Gx#gg(gljr3I-v6LmrZy!toReFjC&7hK3viB^g-'',
    ''>nYvPXb65UgbK(Bt+56={=SxE13bbhX9n_&DG>Lh89ot0oO6@qOYWkuy$Q=Sra05eGeMMBS#uwD8B;5'',
    ''=}(t}ZgU+w(eK<waf}UF%L3?FoeiBCiuXhb)P_Z5cthLHgZjV|$slCkQLtqizo1Dkd;=fe^NK2!dQ*p'',
    ''?~l)6Oj{<a*DXO8)9hY_>Dg2@R%z^_IpeRFz)ZBg4?An)4)*F2h}b2%HVCX7OQ3(J$fli$l|a>uw<yL'',
    ''nX+#byZAHwedOuM+pT8_-dGzIwxUk02jEexO(j(6Yfw{Da8e;EwW%rn!FFMz6qbL6LJQDTq1{b&iQp3'',
    ''p@|wXA_Z^)5gIbuh<Soa#z?%)mZc5nC&sj9Qjn39PTkP^uPxo?>akyLDVn-SJ5MUpus_@hDV_WR#1}m'',
    ''k2km><?IWO!MCyO%CEvB%1Fr^<nnre}fel1Fib6X@OgNm?(4T?R3h<%mW$)KdkkdoRG1JgPUkXhpam*'',
    ''!R4widNU%-ICb9WZSx9P6Zm7(oHJ;kkm6uWG2J$ZNj`xX#xU1F*fEQ=7QgD5C~iUfY!1T(`J3!7xh3K'',
    '')k>KoQ{VsxH@v;A^5*ZNTSFLd}^Q<h>cIm;bC`06%h#G>Wa1*pxdNfR90dO24|Y1XnuM9RbocHo4D}0'',
    ''F7|}Z&FQ<QU~@E5YYTPBG!|hU6s{}ZmY?`t3?hUT=W`alpthH5R6WtX7ndV=VQ(nf^b$gJA^kF;u38k'',
    ''6`9PI5IDarOb&^{1b~ts#{X7iZM%{@4o~~{i3N}~Z1=z)FYVW?~c~`6InCdGK@bkz^=vbJ%d3jrquEn'',
    ''QlA+OOUFTh?STY0q;;vjfvzidap0!$3d0b%wX^XkLA%#_$cEDfy9l!A>aTv4d2Yx9-7@>Dg)QoLj|Gc'',
    ''jq)KGuq7VkqaiwdMQpg|FjI*mf)lA%bfG(|WKhPN_?1S{9lZbqX{;rhO8|ydgB(jza72Q#_izje0kVZ'',
    ''VC1{?QQ$A%jw)*5fYBTuz6ylH1dJG>qgmR!G&M1j=~S6Yp(riyEhQ;ObiEyX)+94o2DrItFWmS5}`ui'',
    ''m%5j=TpGNFBb<!{VM$AVspSZGd(2*Wx1~@Z;l)0k6c@UcgG|%9B!r&^tNb3or00n8aGDt#%L~lPYaH5'',
    ''|zGc&A-tlcS-H>5Dd;vLBOK_ly9L$N_g0^+wM+eU*sdeCD#ZX!tM30s*Z|HV>)RZ4fc_>FgR<5mwA|$'',
    ''allqF~cyGk<0u=cL!!64AJ;tcmMex<tn<q)xhU4~WTBTEYM2YNdCU7$kRVE`X5yBJ0W5AGANkQ)ELnA'',
    ''j~&141)?6&fy7=$@wuS(v_Bvr7w^(eHJl0a%Qso`R-rf_;g1GponHv-4WY&fVz97o&^&V|H!N3XGa7p'',
    ''$Wmc&TX*QMo{D*u@(O9WCCHSLt-%J;1sF05KhbRZV6xan_;JwFeGO1i>&1P`498k>zC>L_V(tskL-}v'',
    ''OpCqmE`u9<ct3x6{o3x3=q^IkTZ|ts)tYs7^CGUTjE^>OVXthU5%z^1SlIsRbiRh$M7^d@_eC5;N5^C'',
    ''mWQ5(01$k|7MG{daLwS&KTTCPZNFxH;zrFGr5Z7M%qLUkJ1VortjlQWy@l^L9h`eJm?xk>U$ZzW_u~('',
    ''+8?+Id7M5706;Mia4eU7vi9@>NPb9)2u;2%}+e$=yv5vk_E9b2D04Lt<s)#rE=f6=Ufty$Yx)44MB?C'',
    ''{rwkFjAwl`{3gSl9=PAPdSr@xuJBV-K0cr_1C|AboJv?S8EHEI#`WP)h>@6aWAK2mm&gW=TT;VJ?af0'',
    ''03q!001%o003}la4%nWWo~3|axZdaadl;LbaO9oVPk7yXJvCQb#iQMX<{=kb#!TLFLQHjUoLQY&01@7'',
    ''A~~}C&acqe5esaW%iU%kd%5el;ic(qN3<Vn+%Yj<E(j1t>!OM+6{eZT{`NhYlB!ftv}a@QhubkRrV1&'',
    ''QN@bornPQP=D={7~HpM1a<FU}Ib(R-GPED3<3N^ORE%#dGd7Al$t;|!MJ{kYKT*+ChwIG30ok}y)+KX'',
    ''GNFNt34BC$!`M>}pQ%`(wbKWsJsE)r%b-|_!1zWd&Zi(~a=rq+edQsc*tMxTaxp5>9aPK}yD`};%|i!'',
    ''5LLX!VN3==S<X8-vg8Rjbv)v_X~@>PsOm#ch_V*2k;S7$focK_*7EX1S8s_*^aICMm|V`snM?`2MH6`'',
    ''{6AFl~Y=$;zq8GD3(ejDt#)JB3lS4=K4vQLKGQ3uQO;eO%(50EH>$kwj<VgHs8#k8zyVxW{^%FKYYF&'',
    ''jBl>)vC1zkfq%V=K3j+%zJ1%bmg1-HzwJAVMXlekODHc$b3^*C))Gf+C6A|a_DuHc$Vg1PeV%=Ca>9Q'',
    ''HcBm+}nN!5jKGZ)pGV%M;sbIM>#lG}P#Vwxth@JZ>s}1%%RW!BOt(7oEem>n5%EUbMLBZ8<j*t093B6'',
    ''#Wl~ZLgTSh{rb8A_V;oE$xjf!iU=E~q~U>W#n2by(cSDcZGooTnrBj5-ki9}8c|E$*?Qb6Xp++iqoUO'',
    ''r*GH9{cv*GrLz{}s7giqtJvycBO?-$vU)ohMbuqR2ZG3Xy2nzi&t7LdX7n{mi;pxyW~YAx_03El8UrK'',
    ''U~0L5deneyZA6Bv4)@k!h?Um&E<M*ve~mLA~6^~JdSVgZikV$f4F<R8{B;wL*UCruW_yq6|DbJ8j7#~'',
    ''Y1zmW*F1tF(%N$^jdA)m%DTJ9!gjGJc<A|u!QIXM!*DdZzPmlT#xWT<iML<gz2$!qK3>?5!JI%k59Sd'',
    ''R$5+CFiE!~B<J~CR<TGX1+^Y=V>6CCrascDM$4?_M(`$ID>9<ZX;Y=)xVr}~8=Ue@(<5l*vP7)bs`P2'',
    ''D`r0Zgb5BZDA$0I#gV+g3v+HPZ*DuH*$@P%`L#NXAdFy~X8`q?^{zz!&MuG6{t5-*EYQk%ZqrRq6esd'',
    ''JfQT!Mj1na>p=;Mop)Ioqn~nc?-#8P+*-%Ad3H6v|I3RXKuQ1N#u@n)ZbS?sK(Jx!bES8;zhw{K^8cP'',
    ''G785zJQ)&C?tnDnKD<io#?#(I6NN?@c(Yag4R|LzY-br5cGlUJ5@#DB$0{JnX1i@=}ue?M`wQ>+}L^k'',
    ''#o#Z4Bl8(ej5E6xwgIyA-Va9tPP~vwLIEbWOFaX=8Seno4T31iwsy)~8%gMW`}xx+Avb`f6t-m-h{Vn'',
    ''N@5Ig3!0=M<M<dq6FA3<724Nky-VZ-qeg5<~9$epl96pTTcpY}hHre3~c7a{>t55zdP`zJ$@^9Z={K>'',
    ''twuRdP?^<%$n<@rbcf;QUse;-CyUcCFre|a>0;6dL=+NBrvjpC<ou*r6-`;~|eQY!%BCYvkZCSD%L2o'',
    ''F^|W3$LC0cZqrI@y%`zRQT`)BBlOtC?QtSzp}miY4OjLi|DW;&&ywn$4Qznz2#9QtR7f><&=khpzbZC'',
    ''9N2f_v7@&6wKn!qSK4IBFkTeXp9pVjY7Juax&*%ywt^b+%YOyM3m@@Y?dWsHzi0rtTP71ehie|A6^@L'',
    ''Dn6SMp~Q<!HiS-e9Fn{(2~2pn$ZV-*&*Nogid3#t$zcx0VPWvJ@e1dNK{)5Q%oYto<#?uGa!->E24s%'',
    ''CQT{xfjj0QrsH3x=)$Xg`SBK2s*Ully<eZfo&z4fB?l}CCk#Mq`&LhyvfBc$m?o-3^&X!4L5yN;TB#p'',
    ''l$o#|mMizPoa>QY(QPHWZ1fJj*ZgkWh_up#;f-keKtsggT)P6k&%Hehs-<yzT^E_&3Qs8g08id~$UlR'',
    ''Xa)!pm=npT?XS_BH_pSvu{dDL{|u`UnbXm2C{o_D@J?!UYLYPKOEetiBymwji3_ZWbfO473#y6ehPAp'',
    ''abw$VzYkACE@@~-pM~A<|6(f0u}*ih<{2-Mc6o!u1FOu${gQwf0-aV#D{{qU-R$K!u8V#h@CqP&+=@l'',
    ''FGJq>n|o_OKrR^q_72RKcQJi9G=BR^6vW^I)VFBu9Z<eVolwq<K`HPK8T<uF(=?c_y~z`lfjx_1;J^$'',
    ''0gxrbKB6cg+0K;{zVa;U6DRw1y@OH}L4YDXo5a&D<qEa=p$b++6K%-c|V=y}n4^`rLwm7Q>afhyj@hF'',
    ''a86rW}+J~XgGvTmbto}#%8$3W{jxWqi0nOJA%Dm^EsF~zxO56tcw1f6PE^{!o7bjKApR2fGK<l4Bp(>'',
    ''+7llPN3D+R6^)+Wi{*9j@B;km*O3klQfSfm=D$Js*)e&ecE4u|b|{7>>N<Q>dTdQ)|=cDkgYz`BWeK+'',
    ''di@#N3~a&OZ>x|L)^0!XDyyxBs-~>At*%RkAJl1RX;<8kbZUf@Bf|Et95LL0c4F1V*y`MIRZ2-I&?ab'',
    ''2;S_s7>IlrGTD;`8iXTl@vm$bg>0E<ASMYUoe>qT)zC+2ELZ$R1z3Y>7?FBzH#j_s!&$+4)#ML>5}0f'',
    ''Xh8_g`Qhh-QuHlCa7*oXsQ4Txi2D(jwLRrGp-tW;8<3QeJ_!M)v&Qzz}Z%3lt?#8GuRNk=%=c;|zXu0'',
    ''HeMrcVMMBO7wAoxCP62(tAr<wpe++|%qD`<7pi9pQ_+Mz*U2AzUp>bYwH^~Eo5e{07U>uL%*dT=U!R5'',
    ''snIbcU$xbYV!~BNavKUGL(*#Wu^~1l0Z7T`-`pd%bwybYpvnmsQU&TrBpo-J%Q&Wgo`xm;JFD+xHze)'',
    ''Y+u5*U|~(M2FgRj~Xzv8MX1|yau~;EQVhYdBmtrV7ik?JmIU8U*7$8(vbb#zXtn8zKt3x+3osh%oS&)'',
    ''aS4ze_$(BWB^C2Q_+UrcNJBtxR#fEMG>Ff+o|Qem$d$#;{i&%#G$vy?G(EtHlGvQD6yRlUvpGjIibUY'',
    ''^CUI@N_qKB3oZN?kvOlTS7ZW?|+M|T@F{zndKnbWxYLHH}09P`Z?Io7&NpJu>+vvyYyvD@oLG%o9E#!'',
    ''0xTEaQouGtx7OxI|`7B6>V@-Y0{=j(^z`w3*40x6r;ny|X%SEb6jXoCPLO`S_IA+9xnFXYuGw#x0mZz'',
    ''mxZu(KPn_O~wWH&Pve<?3KT;aP-dP;ZlRQQ&-lR;t$o4(Y3^&d<?C^U46Ka(YDC*IT7QzY~^?L@<_%m'',
    ''~yOU=R8#4h@3WS)D~|liQRprso5E}XUma$!4RbXqv4R~XLT4o|GpvjJE;F(%vtL7pPAI%i#X=$??pO+'',
    ''g?%CGO=zFL)=_a?0YA~Po1g^70bC_X2~q~g{$fMkP{^;8BqmE)dqUwo4nkovafIP7JKrja>IIlB5+zF'',
    ''X!h;7(rS!yYO`gtz<K|nT$;8TlEJvw&@wabcaSe9Clh4F^+c@O57PYBelbf<0r5;$lZ10?jks?f@qX1'',
    ''NJ#sHTj-7FRL7HWB{A*9-Bvm_KyDK{vce2-!CtlzKdL`Gy^du$4w1h)m_a#VHYMX%!{2jATvU-o$Za4'',
    ''G)DGlQ1A)#0a7tIFDy>VZ8($84si(8Y#}_Q@n@*iR<q4bNo4!Y304_9(fL{}Y`8VyD@Q>ee}9;Hy>G@'',
    ''YR(vK-PKLbt@YRP!46Lt6;YpuIRgNE(g-Ty});P&7)I=Tu+rNYq!)-OCl)cGTb|#X2r6U#b&XGO)f(1'']"

lemma scan_DATA_17057: "scan_lines 0 [] DATA_17057 = Some 9480"
  unfolding DATA_17057_def by (simp only: scan_eval, (simp add: b85_eval)?)

lemma scan_DATA_17207: "scan_lines 0 [] DATA_17207 = Some 9480"
  unfolding DATA_17207_def by (simp only: scan_eval, (simp add: b85_eval)?)

lemma scan_DATA_17357: "scan_lines 0 [] DATA_17357 = Some 9480"
  unfolding DATA_17357_def by (simp only: scan_eval, (simp add: b85_eval)?)

lemma scan_DATA_17507: "scan_lines 0 [] DATA_17507 = Some 9480"
  unfolding DATA_17507_def by (simp only: scan_eval, (simp add: b85_eval)?)

lemma scan_DATA_17657: "scan_lines 0 [] DATA_17657 = Some 9480"
  unfolding DATA_17657_def by (simp only: scan_eval, (simp add: b85_eval)?)

end
