(* ===== verification/Payload2.thy ===== *)
theory Payload2
  imports Payload_Check
begin

text \<open>
  Lines 17807 to 18556 of \<open>Crawler/get-pip.py\<close>: that part of the literal \<open>DATA\<close>, line by line, in
  pieces of at most 150 lines.  (A line that holds an at sign before an opening brace is written
  as two strings, joined by \<open>@\<close>.)  Each piece is checked to consist of valid base85 groups.
\<close>

definition DATA_17807 :: "string list" where
  "DATA_17807 = [
    ''dQLhrN!)$ILfoxYO4Y3^IBEp948CfEKQ0yLBJ2fUY;<mw37ECu8p^e^-Dc-ijxHrlsx)2Zy-96(=K|H'',
    ''@BUf{jO1lxXiVB*TP|ivZ?sO)TXm9Djq3~txWz9kACfRQ={b=)P{T2i4CjlD|4}c1Nl~g5!1;#+ofHH'',
    ''Kx;Xpm?gKR+o9EYGv#%<h*qMOnFexKH-n<@Z<UU=ZV#9nCUdyZG~?~&_u@zts`Fj4S`fD-hB`X>yeX%'',
    ''=uZLNRyU&q{bt3cJ7l*f}GX16(TNlCyeUCP0r12N|oWDST>yk_IbjG;y6gdnOWyaKKAqMJUKAT9-0kE'',
    ''j9^%Gnd4ZvyC|r{_ACUPq?>Ek4goc@(W*gAufSKE92Kn;Sax4a4!(-AisuZ@Fmv(6N88Ao1s90mQ)H8'',
    ''jQQAj7r%WI$mwX%L?uppZ~v=%eD(06H1wW080me_pNJ<2ZYW4XQ}Y5fDqYgQdi@e~5&YU=YuGn0vC+L'',
    ''7ux?%9`i(=Ki8U%+zshJkqEzdEe_i!n96AKbRwO1u+-#fHFfjrK&yvlYf@%>KdgLfFDO8?f+=~i?d98'',
    ''qSqpZ9>)HV<g?DdsP8BfO?PFOOw$91?xQ(k2RJZ$grHCpETZuJ&%y>Z+)v4I5!WG>?G-40$~9;I!*M*'',
    ''{h8oe8>2MSIm+)3dgmqgs_@M!vFs-KUXww<9muE&(|k`t6YDbLWIpO-L{Is6}0cTJ}xpmlAxl?5|cLU'',
    ''R(LLKzZ)IgsoEZK7Db!s^ni0uAHr?k=^I})BdDN8WZ0GBeIwhL~|oPdjWz%33@>^r4)v;(z3mIeecZ_'',
    ''@Rc-s6?D=(25gn%tF+5RyS{@bGM0JR@GZqu_fZwg2IRQI3iH>&osZt*MwJtUTKWsH9mkl|><WXc@DvR'',
    ''3%N5e7UMEBkNFHbtMVFzZ+Mw)o=V85V#M$7A@8%YXd?Fm=?c3|Rp#M^lrt$#e=Ig_5z0R)__F2FvC{4'',
    ''RB53+AH>-EwufRERI#Z<+!!vOcU>c5qjnXpCUsgyr5*i-h1J<9unP+FBU{qGO%xK~G>^E*1@k?@y!^$'',
    ''NS*_Y3N1$lLXLc7PEd;2XDD@gdu!bGxi93sBc^m}1D?h`$H~SWZm8!6P>&vi>3ya*j<3Pvh|6Okv@Je'',
    ''vC;xBG=PRq4sy{r2n4X_TnC+<W%jlbY9yo4ok&$rOQjZWIVjR8{R&?dbzB+hlZ;>z$K>xcZ~P%>kn`0'',
    ''y$ttrv}2p|tcrQKEivbW#QTj8zwlu`-Oqn}&(5EZT$Hx2Qt|Qe@qWZr7nOZPHKz*cfY3VP9~jX&QgY~'',
    ''wHnwQEr8H1=h1=KZ+;NaD4z^IKXOr}!v;CV^LP+j#_)Eb!6vg0LU7gko9U`jaXeiD>b+Viwk=F<W1b`'',
    ''U!g{?TgBCsVYU9-~95gV^s19|?|_5b9G^*_E^ZJ(M{uk7!I8!l51e@skoyA2fWz>&JGe*sWS0|XQR00'',
    ''0O8HkM{dZ?<XJPzwM6d?f$?H2?qraA|NaUv_0~WN&gWa%FLKWpi|MFK}UFYhh<)b1!vrY;0*_GcR>?X'',
    ''>2caX>Db1b#yLpdDU8NliRit{;pqvxf{<(GYan-*G<djI&p2s&5RR!>T~*0f=Eb0O%VzJo~(Z8Z}0Bn'',
    ''g@8z%&uKf;-WN+EuvqLq`|Jz7)@sKVi*;u^EfxzVcYCER<13?@&WeTmKDlIfTfu6v=3Qf%QPoFbnUy='',
    ''CIy+~b5j9&K+1A>9BUj8SCfiz8+zMv5+_F}M#q7WhNHcp;$+dLbEQkgXda_1kyl}6`;`N)ie}4XE@$%'',
    ''L8&p*7mTipHd<EytH?k4^*N}afUMIk;_VsE8tP1t?s4t;MylUG_RJ%O{IGb36nThXw4-gM$~>W(W5TR'',
    ''>K)8@TY($>OCq%`H=_zl+LFXOqbU?8T~1YdCI!0;jWb!r<@X;)4GDtFT&%dqG0|LOQtsb4$b4U0dOO7'',
    ''<}HLS!#wl$(D7kgq6a;H8w>iQw#89>!i3dL6NHA#sq6jorb+G;Q^~uyOx_yb3C+|&~yLHu!^^AMHm3n'',
    '')eP*yBOumF!?(RsO<B5a_!n$=8&8G<S~&Xl>*8h(n)3Sgo8o2`Hz0ms^*fOBBX9Xe=&6@+>;LW7YGL-'',
    ''^X#wkTTcO1-9oS=f_4?J_)tp`7kLC5X_{4YnMiiCWU0=<dZf`Z)3;mVf!KR0;thP+u3$0}>40$8H8Gg'',
    ''sR&C<*Ln)BzuB)7pJzqy&s&e&NRzG@uijIiiv#+$||!!_RtE3`rEE|)*4RxFpPcCA{Rw>~cS=Esl!mQ'',
    ''DLB^+zJ&P+UoRf{K<mWjutC4O>?LBWG)`7vpVBS_P31#x2|rRQw~YOP@t?2MI<2dl@7oMeA@0YsA{3O'',
    ''Bs<vc8s-Rx3>lRp~c^$BnU(dKO}&avReRj*bz*L3UYTJ#<l2)Va_N3P{9HEAJ~LinJo|%s2K^z--qvk'',
    ''N=04tKJ^qsK1aX#N2NXPg*P%9OhDMo*}75Ol3KVl^M}7x>Jh<q{FB^uJH~ga11qStvmzXI;4%cb--(R'',
    ''mjfe|4*j|IB`<p9fx~dYOJ$t*84!ap{-7Q0mrOpXvu&Nh_RyrCuFYK7Jy;ds-k0V>+(@g{45_w(*@T5'',
    ''y7#r_zjed|HI-N3JQ3p}Uv=DKp9uh+5>*T1`Yy83PX><>@BdG`D3H*$3yrCc`8o<952a#2KaXkB+31R'',
    ''#X21PTRm7Euc{-Oz9*^ImYtqx^>``y%J9ggpq+;weT{ot5_@33-Sq1$4+=;#_+mdm@Oz<6PYPGxN>^e'',
    ''obRG#HVv+l<<G()XaJ0kB2>16u`(<qznxS?#R}>vPwJ7=j$~Ez*YpZ$i0c4@#O{@(&hOm4g~z=?(SXm'',
    ''T*4dQ!$wcpbM}r*a%I@dpWfqQ)gVXK3aA(~gyKaUBZs27BU?prs&!6u=3{T+i;fo|_DpX>Hwl@R?jhT'',
    ''%>FOSVTe;b?7w<kWup4k9eKiNZck~FD*bwNuwxtvZ{(zMScp#OQ_6S6OFPeF;o@R<vT8S;chczZK1u#'',
    ''CZYl%>w_wYo9c8bQtqgsIBPH+QNai3FsAe{}K%rr6RJ^58Y=dDWzeL(ekqxB#3y;Ij4GWefJ89i&$ko'',
    ''FKD&+inh_xsE|^DX3I%_Y_DqT*20CW`g$;SL$bB}dRjYLK`(T6Cq`5$ofmc9m`$Zw~xuGPbC=frKvCF'',
    ''>x?s!IC?)pKyY~r5d6`t}XHwkd|s|P@WI6KN#rio3OxzEE!VE4Fx0SbU0LX0IJl0w9@jAz10k!36|f<'',
    ''7Wy7avca+`fY$7&I?Xl;mP)s(LqEZ7AfAJGzD6?Sjy|F*4_Lod4WJ_{66QqAP<d*Gh((b58?lQ6w-tc'',
    ''-0+e@5nw-ZB#6jY9I=XKL=)+~1wmYuyhoyVK2>rOpiroMVYKv(9N!ta5;kkxv;;9^(Nu<ifVroRQo;y'',
    ''7Ik~0*bp<D7rX!trS6K^!@ViAghTmK#Ok~MT`q0kH!EtIDI)79)m1X=CuetZg>@t@P3E)LJ`q{pz8{v'',
    ''DiZEY~(szt05DLI8MgpybXzqOYEqSgAkJ-bDDpS@MaVU9l%@8n+RQAP+fl#bVJyE?z9=xee!uJ?6;`e'',
    ''fRMlb%>C|x2o>-9NN2qC?s^u86J~pkA38et*Ab_9Kief*FrR|I;0E3NMaICzN8_MCDk$+1`+Q;iPJrJ'',
    ''zT1MIh$@rq{i%tFNKKjXXnKJ)E78~ySxw-q0Qlb+XhKb27?jRO?${vJB@kdW{0Jmsu*~!7Y$Os8-6fT'',
    ''RtZUfM_%n?qN+cFi9}9{=ooy&8TzAnI7Qmg-W_OU-jkn!SXjysFHK0BEqGkUOS{13I;%5-#7Q_A!g=H'',
    ''q#gAyEHj7I#a6e^uS#rVU>&e0Pb=k&y=kNGmX{ghVq(dH&TY<dS~BSX#;qs~swL8B*+rx$k_)Seg`_B'',
    '';WEuP`}Uw(Bs_33S9oCTj3^A(7#=Q?j_g_(V|pSP3ou=)I!xzGXM%;FO`#&t3oEAq)8h^iJyQpgw}>G'',
    ''fI=<VJp;Zh`GLz<|&LGB?+N+Gj{o~#Ct0`tAzaI3sUy<f6!M$WRB7#_DBl{PvXZg1v%kHU|wJ&h*EKg'',
    ''12<}~pq>>QULAAlOGt7^izfqDXkyT9Zkl3{4a0Jkk2riXn9k;Y*izk3XQ5sVMWScPiWEj(De2bb(rdl'',
    ''!t1nki5aGx3ag=&5>n<&)edD)W`d^mIq{hI%JsjX5ZPUT$FjIH|j)BMR7I(P8NZ4@Npv9^vR6p)Eedi'',
    ''YCMA8pNrG?3JJg7Wxrj&6#rtXpgB+NGZ`lz3y1&l$}*oxDFA%j(=00bvV&@0*l$^Q;b6*MhYqIYp31+'',
    ''5zxA7`RC=A@7kyxPWcwiTjAAgrNm+zzA#6euQI>X&FQ<^k*-Bz98=DB`gsx`w0nam<`ex1yCFyvnb#`'',
    ''6c@sb{*}N#lRu)MJ>dh&gokp?%M+180FFL!}a9wOX|nY6vA`n#>sKKfM*&vE{~8)rdyZbUmF^Kda>Z~'',
    ''Se(O5K*>pcM^H+NymKt*%E&<lh$zd-)-klb#|4>RsGad|fa*@W?j_Ppn0BRZcD0Y6WF+rwiowg85|bm'',
    ''eTTx1W4X3WJG_`XeB5p-JBR<2@tU+TO&z3)9^}4UWkOam`h=HDcc5<4a68_vwnd0JeeM0`S=oA1WdwS'',
    ''n(MEr44`&T$)E_@w$ng$D^;d^wQk!|H)L(xkH#Y)U_<uW^MITo+4ya?+32LVcC`(N=sT$qK6`mtpW1d'',
    ''R90{9lNHFYx~hB9~1+^vN}IdOf0uVy=#|{nTZMoKTTxP+?!4N5^-b?vH&o@i+->-8f7L4zUeGjy!B>8'',
    ''slF^rBm&EE{cCtL&TREY_E*O!LtJdH8CL{_s3*uciQ4aCRS6Fm(yW|e<d(HIU@5#{!U>CPEaA110{Bh'',
    ''F_E0MEXzSvFoq#FGZ=?X8p4@-G7z4?4^JIDpdTL7QuR6wYTBK2<ZwD4$Yufq+#sbr9yI;XvVR3|3J^%'',
    ''%(6qvxlrLHd`GJ-Ed~t{~tX`9%cDHvUyVLg#e2-Vq5(2e3=2N`fUx4ZPa63Gx#a^^Ejz0ZtH%{}i5gv'',
    ''^a+wk85PTpk|p}9Y~M-1{+I#Y&vi?14Kw)lb&YHy&(a{1545au$3TkmX|?v91V&uLhXJL*3fEMLa^V6'',
    ''M^ZlVLm<?<hRWW8%X9Akn%O!qseNIe(f1AmsZDSmAHDbSwnVZ*@b+N1c)_9XsV@sBwv}G;p9k`Vw_uq'',
    ''Xb+<Cg)4CAR#NIv+T8Z@^r^PO>gEs*EkdUOf_1s%+6M=10$t#g=Rp&sihz3zflVHS9q-YsZQph3_vFP'',
    ''7f?$B1QY-O00;m!mS#z3nQJx=2mk>0761S-0001RX>c!Jc4cm4Z*nhkWpQ<7b98eraA9L>VP|D?FLiQ'',
    ''kY-wUMFLiWjY%g_kY%XwlrC4o`+cpyZ?q5Ny5lBWHdD8$z&gf=0O_N@MpxDbL=!eC^OG}hZgc4Pf+Ku'',
    ''nm-^`GbD8IxlDqz<VHSe5xW~kEWimg^<>sljLD<-Q(8^`$CYSlWi^3RhJ$#Sif$eq-+?dWP=iNdvw5)'',
    '')68W#U^dni0`QopW5c<;IHl#%ME{Oj@H>+&N>}6}wApz7>^7<}Bf@+v4w5TZg|WfquDP|Faclhc~6+n'',
    ''@ZF!xd&;v;?}Y+Mx}#AX#&qc*=w53mJ<fo#l;2v{=yx%&a^rD&Pr{V5seWRgvxruc+LL(`SUIN^66v7'',
    ''zF1K(ZW#v}Ag|dYS1mD-sAbvK`SPJb4_Bb@AscD3N;`BkolWSu5G4e?7Eh~HnkzeJ-v6uLbuH!$LlAB'',
    '';3gH$5(cSWnfTYD2g(r}85u(T7J6^IR3E*JCYVGJDvyK~QpQPKS$s&oU@gnjo1~1ridg$MVXxO$9CWU'',
    ''y<8Td2HjyUK2@-BIAyd#G`oVduf!K)C;o5pC+?RI@&Q2}N_YK1BzM_@BPz#gx8{`HBQ!oJ9L1qR5qRM'',
    ''PDjx{kR*dzi65L;^`s%Um!ezY6BI+-2Q<#-4+c3{{>o#|SXoI>-un#G<#M(0qtxovXIM<a1l$9cGZBu'',
    ''rN{$qF^^jGqHhJur-r-gXyIgAT8}OCc$`DQOtAL)oa|<fnl=mBG8?3t`<(|{D@z_3-_eWSEfSkN3LP8'',
    ''DEBZ2Vz)Z8aeZuQFeG_qm(PlXJ!5Gf_W8gw``dd1+kM3L{{Ee=AAz3afCElL`2))kpwC+fE|xyIXt%m'',
    ''m1*<e94s3}M07*u-b@2kWu<;2NfFg^K0;GsN%K>ZP6|4A;wr(w$_{MXmc9a(uk{huI?~zQ_P3s)+INi'',
    ''%R)H7%6)-mZiGg0WDtppr{Vq$AA`qPJZEEU-%BiOXPII^9ywc_<x+BaBHif#F$U`sH%(vPB;WkY1%f8'',
    ''!Nk@RBW;lhIbbdGm&Sf$Z%KOOvg0&2q8WXuVM)gQ{FqTq*#eL&gllAFrNdKIH9GVe@FMFo+S$2KojhY'',
    ''SFbElmPdyFUPQyWf_#%=^ivYY1o0Ln@-L0^(9HXCUMhV*3ncvgQ5H27~mm742Ad|VZ;;=j)8IPBEp9Y'',
    ''_9WO72Y$DOQiT-Lu*Xd!YM%k3YFvj%mZgy7muy^lSi@xM_h3gM>;$ssEP*H`u>kb(EISba^Ua8ru;m;'',
    ''pAwtAN`FxHkSrSS*lO8ziq5BN~sA~e#S!`AVHhWl(nEP!$%Rfc_j{FF+t9T#*@1SSz0b-1$L_a}d+d$'',
    ''J?mC{(3LW?hil9k<?uYQ$}kT^W#3qd~2RMH8<*9suA^lZ3*Qvyn40HcUQBp9YE0MB4wAk5e&Zx6JWz|'',
    ''!F0Lei15;tmq4h&a55zm*gz5;;f8SP_cASkg+X0;G1W*9+(nEy6Q|l{gSdsr6#b&Gnl958>f@aTS3Wy'',
    ''~gE;A_lp0(q8`XYF}FX8vba`^XC0G2VA!>y3~Rj6{efIt=7WyfwviOfZv7SipF2X%|;wjjW)HC^-31s'',
    ''08LO^zeJ?*BFZZujzLH?eG;?HN?8|aF)Ac{^%J`sXL7D_9B;*Fyy>ifJwuJyZas5&F%~h{4F3<_bfy<'',
    ''x!*S`|(#X87G=}JV5#9RTGO*o4df#;-p0k%rSm;%UiW(Xs{GF(z76<GgoqLXgE$Q$By&gK;Lv$j`*v~'',
    ''L`z7S>U@r@+G`~!~_4GUfXPG%Z2+tD-uN%27nRd`^5iRlsYqwwt>Mh0{;6a*aSa3VRJr=hm}tW)V?`O'',
    ''uBj58tn&zcmkFFAqniuBFpSDH(W@!xK{y<jk?1&rWF{L_mW+t}{BD9nlE0Lv%v>uC4{tFx0O(tLFF-k'',
    ''oc3({I3vKV&5=%=muK-Rw_KgKtkub5YW>tgNe;39>!AZ3MJQx?GHe6oD_k)YV&OnV&OQiWGNvVu()+='',
    ''VEh+_hh7?Xd0p!rA*SbeTNDx}W3JS0?$x6VfxU?PPXvVql(LXqyJ+NqJkyPn6<0wJbcJ`fJGa$!))y('',
    ''JCs;dF<CML}@npX`F`xky!^jb#6ipG)GtCdtGmQrEGau7O^H#s+JNs3H2UCD!)ZCd)6AxnJ$o_7`^Rp'',
    ''WK&!`)uL_KFOXPvMQGW0rxb_q4k-hvz2;3@XAFaRvvh3^tmmWFC_T0?D1;mS;#&0^~+wJ>G=>R+#aoL'',
    ''c`?=f$h+2cJ5GGwACow01=7s5R01yJSI44*yM)`&qv;#1ZeyCjkH@sx{@H7>`0BqF#&txUlLRMYsBx-'',
    ''5f@2%06=N9$ys#@&QswKxlLrA+f9Xw0>|NVrxQhZ$_d0?e_7<P9xG{YQyi{<vqKCY3eQ+l=~U{V6*PM'',
    ''yqJmxvHPUcajSz_lnIAkt%m7-FApM9qar}^alZ>$yc&+af&B1fJ;lLjgYCs@#EQ3c;)L_A*uZ3#jp&0'',
    '';B+aBP<OU4e`&fjR;SxH_;fFu!Z6oU7CTQCmtc9{--`1b|^Cy4}oU(IBY5*3kGnO7n=Iqr`T|;3)(hV'',
    ''`}Hha9qehWsZgE@LI1Pr+Smk((}L3i_cmladWim@IqA_5%$+0LiNbd<&a>CX!&?E0jz4yj^E*O8=u<Q'',
    ''fe%8{sGmkIXc`;I~%D4^hz9)gxalz-;RTFUA9CGx~VY=Toq?$pXmZH?c4pG+Fma5bx=G_WuD;O9KQH0'',
    ''000805+CpNpHcSI4%nS08l9a03-ka0B~t=FJE?LZe(wAFLz~PWo~0{WNB_^b1z?CX>MtBUtcb8dF@*L'',
    ''Zrer@|6fnB7o(trN{o|SdoB?hupOl_>Nr8<w75$GYDKOr*3?qqE-mYd26>GG?p`iWax?ouE<fa`$sJG'',
    ''>6_QBe&dkov{N`gv*&|UFC;TcPg`6Ms?%liB>k)XZ*^F_$B-DfV&P$VAE)qfD4<#=*a*=V8ELSO8GA^'',
    ''l1;A=J~a>2;-r)S5PKYdTeMjR26@|fna67qN<<tn&;-)`oM6^s1!g39%kpXFEgkETAEFh*XDkDojrlX'',
    '';etm`R$X!q;j9QMTIT$<;yz<kWs75BDEDB(n{fBuh|bLRSgb)M*kiE?7WLCQpV$faLSD)A7ZmDOy=#o'',
    ''@YxEhVw!eISWHPVU|l$@C3AFVVX#m(^T|&W&xi@!tnViov~C{rt{;I@%g0J>-{)>H9326K@N$x?|<XL'',
    ''lRYxYmW*(^WI)a<Q_&orW|G{{G>NU5;WHIX_~aE^(iPfRFu(Wm@0ZVBT!a_L&&LxG{fj!Smxye1aPZA'',
    ''{qk~c61@3oms3~qoOB#(LFk1?yL7LikLj}(gE;F&P1aLsg?dm$=akdttgTMV1*P|7F__fzNJwAOlMrG'',
    ''i0FJ^N>MU*6Anyp#h7cz$<4gw`22XkNMlnZdelJqm4ZU*Fda(Z?~QYOL5g2;?0MiNnU-|^@l2tKgDip'',
    ''97{NB^{lSkas=iQWJxIeD!eW*+&PDrewTE`We=wr<hXFkT4Q1OYPDN}&#;1aQPfB9j}o8<zLf`A1FWq'',
    ''iLx4msCazbUQ?jl|eL!e4`Dh2Oy~^G5k`IDgB0o0@i^W5Rn5cFm$zpl;Wq83AtvQb(Y7XR5fNd{`!$p'',
    ''E)rs`{v83@3MTIFS!&R)VU9SN&sh$UP88BH%!4J9i(vYGwF$t2zH-%+;KMA&1J%u|bIN*=L<@ZY3IZb'',
    ''uVCN%a;RQG`LeJ|n2#64wV1S^@@$9hck{~M8{+bIQbj1R#EWVD8j_jcUhlO`Sqqi5o{4hTM@$7<3&c4'',
    ''6+^(xN_9(y$oDg=XwHH`W!{Q)^d2{Rg9-@)S|-0%;`Uk;nHc4oDEZqZuF!BmCsd)hw=)g&t<M#YSgIT'',
    ''ca?f^wU=e2KA^Qpt=eIu<PU75G@+!;;_)tj<2<Hs`Sk=`_o(i&bC2)C9BD=Ny(4_F&@@&ybT7DKxD88'',
    ''mQ2V7%?9|{7aDO6_YOCjsX^BJYp+3vJ@i_1MmfmU1fP97fZe6q*!52hL|=v8WU}r2z-Lk!|Itt5n-O_'',
    ''%pavMA<+a;3f>H+HiJ(|Hv1WXJtSa;06quPi;T0WHA}&-dA8=(91VBAfHbJ~Tp4&nz(^)mG=c>9`s@A'',
    ''u{qKhQ{n)&pns+E|P-NBThx=MzwFLx$3p2f~+M(~gm2dgm`P-a$0}TqSN5G&9mk*XSURI0AT(5)U@I;'',
    ''jr43zMpdRBV=kf?f~1R-lFr=)1fvYS8@K%s&pmyZB*31_ia5vdHP3hr%)B%vW8Zcz>sKF>-Pa5<|BSg'',
    ''G0?nj^c#wA6P<Dy{8n51hWKF{|W>!6peXs<MTEB4UvhX^ioxin(7CQ>h4>>n6fCf#t}qwsvf4k!Dn^B'',
    ''vsVP>~C=W9Wc})$~dchreit;%|rXFZ$E@t9(INKafBg9Sfc8V8|xbT2z?jdCa5e`a97+QFE!BJQoOe_'',
    ''TT+@pyA+Us-9}KL;9pP|8dTw*D-)0NJj-{ANPy#l3MysZHp&qCp3?T-pcM}-hF&u|jKkaJ{&bwEBNFF'',
    ''0eebn7N4=2<$XB^XzG`bT*a8P-+6rXauoVDa0kolyk$4LzD|WS~D6qZ@^7``W=s?$T6&Vp28X}?Ws#I'',
    ''lBh^d&3?R}r1!IN1bSrDiYtjhZ-g@z%CXsXkMxp7qLcL;E@K`93ND$u+DIo)>{D{)w|P=I5cCbJTJ?@'',
    ''idA;@cUBucHuOc#R3>1qT!w;+$P!(aEO`ps64PB@-EjeZkVX&ONp8uDp)~zR6t5KDC8*ZgEbpH_F*6H'',
    ''ygEq>pd>7BVUOl1W&miUR?rZJ>}rab!1XzyVA$lV?%kC*fnBp!cLz`=xl-apn^Yk7bDePgs|}7+w*Z_'',
    ''?ZLMxgJr#X(q5ghvNtgeOTt$LRNy&HQ|#W#%r+zpV?`W#V1N{gs@KSDPZU4;8mQC8)xe}NB^-N$*+yC'',
    ''lcfGaiPW{5Ryl2r`MwnE+KV}ErT_|;?B+j5whMOaUgmr@_IC=5huVr6#a&X>erQ$|?2VxGORt~%it6z'',
    ''{->*=VL%pJp!>9h|Gta6*>7)+<o+Cp@qy0m$xs{#|C1*_T`rCD38)l<0U6Gn4ru)uaxR@xtLR2;mjui'',
    ''TE7Ek^?K>V>jJp_A$?TRM<a4no$LNpN%ss~Vt#W<7BE5DzW!T`AiMcfSsQ?eW2z{ddDwy>IE_BzPsh-'',
    ''*Je+kgTERgSj>cFVJL}-C(fWE1{zDo#Lq<2uX7(khMSa-rhca3V+8P71PGQ+3wB5;N9JV#wcv7pp%^i'',
    ''jX|T66ZqRD46~IL^vDQuT3)kc3~Me@)&s_VhgybBJ_z7QHgk`H?vA-<%Yfs5(P#aBvqe4SHUivwzO#`'',
    ''XxIxlzQ5hu0gE-*}zqF3rds(FEz0r(fE!4vDE>F6ZL5&t?I@>wtv{O%82y{Auq%}`+fp;A)iY4swa{='',
    ''EN&x)%B)(8ynd<nOrdV^#oY0aSD!PQmH)QD8&S&Zze>w#rn?E&;LTVldp<8$OScGs7nMASg^XC>Sf+x'',
    ''3~kUA3^Xg+8<<EUTD<p~n1e*kG&`KsC>+7f{`|!`h6Y&e+vCA!m9?1#GBXXFSSv6P@Z7DsR`uGS(FD7'',
    ''2}|)%#b^DVlFHfZ1kC3TGf)XTiGwEYuB0bX}j?4v{kbhQb%2779D$=gr#w(@$Ah9g2WJMKf#r$xaLCL'',
    ''km~Mf-3Qd-VVOMiyRKrUp}?cKodm)S<n!nne^O{97_+|>*w=*B$N-{9lhmgqW>RUja4)3zGetS`u`hM'',
    ''n7I_DW-mJDT%Nf1aUan1R_5fa}JG))bLQU+jaO1esCOI=4Zl}5Csb`)C={(^yJ-o~dXTI`V&iRQmZn0'',
    ''$Nu{B<M|2OxwHr>e}9l~mYoI?2p{m#b^|Hdl$@xy;ioz${A>twS&wt~mu_=C1TqGg1RCgDr2JKFs9WU'',
    ''hPCYWP*=aMMNAS}z9>?bNED4{B-n6STo^2n&P5FAfX)L&#@Eg&v)C)WYTvt-`-pRQT`g6aVa??hKGm4'',
    ''bgUQ-9I;M@TKNs;b+eaDiK;Y#G(4oSe+I4BP<RIJg>1-wPLkWWrlTT)Y(Q$yT=>4yp5l*l6lF1MX|hM'',
    ''#AL&qsV6Y@&zP^t@s|)oZ!RageF2WzHO1w288!48c5)1inxW$^U;_;irAvtiQ|B}q?0rr}_EQR7hU0u'',
    ''dks1G?NX#VHb{edQ2Gu?6j!B^3BvPBz)6W@?lZZ<5qY=-@GRvKd9lZe%Vv?`_Wb_;_cr)8-VqP*HseV'',
    ''ia_u{BMb)Z?R9-aT=!HpnoH4CL0wA`F(Nu2JeenL|c3|-%~`=Hv@HnKHze{JR|mT2cen$d0hZzhHyW!'',
    ''$il$K;V3AL1djpDdINR%0q@9o#h>RuNg(xnTw;TGffLyVV;ZxLaHfy0;{j4qtVR1Cy!}Sx>lWX5d~bs'',
    ''xwtGo1SmRUQ3<3-QKQ`w!PS`K6dtpf23|t$?|>ke`tcBF->&S*4A9qJsETee?R%?j%i*;CEw|8(FmU{'',
    '')4&cuvrmT*v%PS=1O6{iO9KQH0000805+CpNyn`Siv<P%023ns03rYY0B~t=FJE?LZe(wAFLz~PWo~0'',
    ''{WNB_^b1!URVr6V|E^v8`noV=FHV}aC`4wt<@FmJvU_R`b9{PS9I+OO29^M;+v0^L6-~rq??X<tWfH6'',
    ''qBE5JD<ULIEaC9&+}@$vEDfz_W6xs_Rx?^L!gpVN3N)3TNShd;L)evi-Weh0hVz^a^82dN5{#V7fE<2'',
    ''Fft{w&n~P;J=P`=88N3Wse!*{eF`8GDV-D!b9CN@P~b4g2!??TM9AvX|e!e*fe3JA2Cuwv$z?(y~_l*'',
    ''ckpZ`|;xk`<AmTubAAa>Ze-t=RuY1O{J36zvD}lpW;d-ahiUzz0710S8~@ZeLCK(em;LbJiPq+<@?Jk'']"

definition DATA_17957 :: "string list" where
  "DATA_17957 = [
    ''`-T0}nz6WKs&-9sQU6@3Hy$oFt+@U3sbhM%{y_{z02BH?M%Y4aPtBDMO3oApp|bnF8G$H-(p2VY9k|T'',
    ''V$VDyWVd$;7(`y?f8#V>1f{Ue?2C>2s(1G4kU^Lgp4%~=!7<4oNrVf!Y5`-bNfkVJuGT<%>xJx_ZqJX'',
    ''cbL9B2DbZr55Q5<L3*nv&JLlp2HOx^K-yGFnfOn^hcS7g9fDBvsFnH3DUSWbgj;Rv|01$>3#IK##cqy'',
    ''yfA>1sUSD<j|tCcq)!N&OH=>w~_zX#l+*)GkvRJ(L-b_S%D)Sy{s4!OVD;%s|kaV`DVe#tx)2(}QslZ'',
    ''((qBus_4&@|5#n8QN?#5Bo;sOL8j^pqc@;xz?>EK$)E4ddFBR+()_g={OP~*Sr}A)g;(dj}uHUjZGW@'',
    ''(Q}#tqq$ypApPVbGP5tFJR&dvnXy*S0H%2rt(|F5UvL^kZ4&`%5;8miN}(l=0Zd_FNg)J-Nw53N%&@T'',
    ''o=@j;0dC4Mqi9k3Bu-~pBy{|)D6bHF2<OkfYJ*Z!%oC#58LfUHrq_=AbQ|Qjnh*ur~t%Vz+%*<H21L-'',
    ''ro2mey#B~E9=aY!M3;)eCvg(FFxXBwL3`{s=ZtWTmtY51f8b+ZH4H~JqN*`(65Yzc$JD#u6@B*~O|+o'',
    ''DP6_6*<Y?p>f}TUc6SL<(D5F7PXXpj%miI!|F~gb*ogJ*pu3x;4Ez?$?AjO=5726t<2{;09}Q^>jT^A'',
    ''%sVk-Jv~qkGTp9xaArlFYZwNjhX}?h#Dzih{M$=D4GND3k_Wc?@n=|vMMhRdK?B}$JGMLL5f4#DDKK@'',
    ''5ijynoQ<x#%S#>x@GWKWp|V~6al3>vs?RAbBnHPw6C}w>mE3ohGwjqw<8~%z;doHxK(-fwQu789y>dz'',
    ''~iMF5^Ge8gq2-*Mv3=nn$dNj^T6<yuu6&Gv2-#a?mk7436QFsrMXuCWf?a*i_@R>rR{b@?ppN=*YJFJ'',
    ''#Q`>G~u6{79fXgLSPN=MO=Y~dl?EL%I&XqhQAMFnU_Vf5|jrQ}4#kf<ReOWOgZ4F{XnBE;h^4Rr|vT-'',
    ''pE^7yt)-6xxD#{G*{nqu^Oe8=t~!TMeM8+bW!cVx^<#+8zNsQk!LKhc@-PChBz<t9euPYEIw~PNIg4t'',
    ''brA%0XUf<6Wf5J26%)49&LaJ41gmx3T;8$sB5TC7~s<e_`m=-rJ>Lk48{xy2m=DzfB+Z(XABhDf_P-2'',
    ''p&?;FNE;9W1K=AnjW(Sa9Nj{(0bh<qtTNTNZWcH>s7#g;__o+@kHf*T-#V^<=cPf^Th9w`Sa^T3=>(+'',
    ''#5)pwA1P{$er$OKWm`QZU8Hl+~Tsfu1Tt$RS7j=<$@qL!_cddv+mvnIlZq=SRjBa8L;fG_Hl!h)HNit'',
    ''3-GLe#6%0RCCN~i%^<Rv*DcW<ZaJwC@>?JQ~`e?Q-$?i*angsz;z0MwS2vveGTYxCGhHBuLilSx?~)L'',
    (''Zqg%y72CsFB`Zlgj8AXYa86KwK-}K%I??W^fR(aQB1474N#oh`Vx1Bj(!F9??s5laOOEKy@8@'' @ ''{!(ZyA''),
    ''%ePZRQ?C3Z!OFxy9pihLK<(MBveL8)Y!yzqsE}M6>5DO4?zt@m;%r}Icvi`6wI!=jbIHmYX<8s8Yi27'',
    ''eh~f^oalqtz))as;uK&ht!==r{8Gw-@8nzkG}&p-Cqw-7@bAO_P)h>@6aWAK2mm&gW=T+gF&{(%000>'',
    ''U001Na003}la4%nWWo~3|axZsfVr6b)Z)9n1XLB!YYiwa+Wo&aUaCyB`O^@0z5WVMDOsSBaie}qAB5~'',
    '';Ma#)G>P<lXOQDl+<ymf5XHUd<&zkU6Y1hG_mtRp3k{pOA5J<nh;$TINbfNPYMs=3_SqWLM<8ikEJfB'',
    ''!X7(0AOTWQI8ex5G=0!~l(|_X3NAA6H7B4BzhD81B0%+<y9e3+ofid7~uEndUN~1+P$A9K+rGVFVTtW'',
    ''{>yNZ}TZ^lz|!@<HCCCK`4SZS{Vn=R>{nn(>PLWjA~$Sgy3sv0sc>Elo=i?)D9lw>eLuzu0jffzxHU|'',
    ''>(DH#aRba+G_DltfQDLUeARiPNIQ_$U@~cEMS|uLW6<r5Y<F5lFD3>tsZZ2WX=a>-2`mXAPpQx=x8C+'',
    ''D1$<>1x(H~kaVogR4M^7f4~O2vVzGb+1yVV{n!9&?>Bo*+*l>a1zijVR!yK=e5T{;_I;8HdWT8)4Hv4'',
    ''inoz1;0zca7PDxRe+%1af0!=MJWp%*?yRGt?i2(KyGlYG?UA>uokmL%vxRu|yB2ZsVHf4Z$QC*U$(Jn'',
    ''t~8Ep6{fw9(%oR@1zw(X%2Y%vPMg=INdBJRRqf^bWTbcIa3`fSym9iYKcCY}m0BD7_YbM*XZU`y4%ro'',
    ''(GN;nV&CPfk%h3rhQ5hUPC(`TK^tBNdiNlEer9_2cTWTk8n<wryTk9(cenWv<}J1A9B$qgcQ$;OBzAB'',
    ''Zx_CSvJ5n385)d~Wy82EOVYND?<z<8ej+>P^!Vnc6RfZrtKzU@?yxPC+1{L+DcBh7c>z#M0|XQR000O'',
    ''8HkM{d7MngDx&;6Lq8R`HApigXaA|NaUv_0~WN&gWcV%K_Zewp`X>Mn8FLY&dbaO6nd9_zdZ`(!?zUx'',
    '';k5(K0INswG5kp%c)#S&mZbqdHiSq8DBR`xbDDR7sueCeV6BfS<V(B6AX`%C&uI{PA*FY94fuuO6}-#'',
    ''3q)of*AGLA;{T?HHweJ#4*t^{UlE@OdCUiPS6B<AiZ0mw&2!l=vC)F{1$zl8B|06SR&KG}RP6B{dG>&'',
    ''0|7u@Aw#fG`HxaKR7}DBU;e=I6@1&p^=gfX+R=I#%QuQ?;u79nqPdJUM{ARdqp^=Ap>e@^g4;}k>{;b'',
    ''o+iZe5WU~T2}fx}!35%kU{ZoZrUiTEy&J~ymvqxX^RvlxzUTn0knbSrJzNFOGmG*;zmYatpNl9+$UTW'',
    ''T4$q}{(y`ZMD8$<5tJ$#KYPD8mjWA;*;a-9%Bg`e+fNVI8qYhf9QK0VL;^daW<?WXTan~M8y*zmwX9g'',
    ''Hyw=63q6f4Teb6i3oRw~vc6mdqc(I&yS_jrt=7!u<vNpfLfBRZ1?1Isi?;>2~%=?X--e*1>?9P}nvW!'',
    ''w~5;f2@-Ev|Mzd5%={T?dk{J9OH;2;UQQdW!Tyo#^KSM6YK1ii+(2KP1t9qG*{cBO$-!dvb#fh%$5;M'',
    ''?~z~50Cr~PLB+7uQ9^kel4Ql+C5u*ytqIQcjC;l4GxGttmRlPl%#Fm1C3Vk1M3b>-ksE1Nm<+-4&RNs'',
    ''gM(lp<}^ACGC#YzxI99Ou*^iHf%l(3F9*f2$v|}DD11Z#hP<axr6NW-{Yv>`&rW(AhNZ+8rAw{=N*A5'',
    ''{L~7-#+_=8ubd+pcc;w1QWtUoQmw~D@xkVh%<fQ_%CuBn~7wWJ39W;Qylbdm&n#C#Kq`ZSXbZXZ>_Zp'',
    ''~f&|A%5bQGW_e3Wrl(MTJvZyKenn(AKH@s|mdF$vgKExB&Vq(VTGULIIUY6YfI5Na`vaCmx^q@)Z|R+'',
    ''lW%g}%WO4e4b&RoS8@!HOXU1o;?-$aHHY4gf<qA?Pa(p**YfLp+Z21eAva5`YozsvPWra0)%B-L7P#P'',
    ''C0?ekC(XGiB2P_O(lD=$eZ>ymprm@<Zae>mfPuUxt&bl3)kSg<ra^?Sw}NE?Ojx+Q#*hEb`Y-6*{^R7'',
    ''h8n$xLF>kZqtMwvVWF)J(HUH9w^>>*x5K^&mZ`L=zWn?1?|F&I-nE}%s0bg!lyACfu8Ko$XR+(<B#^_'',
    ''^@o)#TfYQu>U%uHK`dt%AeHIr9YfKX7SI#Nuf$}>v`Sg9OLBVVaUm)-Ims_%%ygPXB6HCG1eRnd=l{D'',
    ''y>DLrH)^z5S}Ea{l<)}j4q(6LO(sNb*mWrx)bk!fI*mNx}Er&4}Rrn}<YK$Lr_h~`fbg$EGrq}h`v_w'',
    ''0zsm%}vQMfQ}3WwQPDFE4qzRTfL0>7S}O*!4~Y!)X@Ii;-0%UQ#^s(b|_?0O9q45Z{967#CW%HR0*li'',
    ''Fekr$77H21f~m@MshM-!(i*<;EQL*4r^@4rpIg~DNd1%6r~@gFlqIEjA>-%NZZYN<76kcx7cy^0EwaY'',
    ''IGhY+1q-3y3w=kzFs{PY@}3Nin4q3d6NZxLc{EwhS0f@C>7E=lZS=?pXX#X=bvpWd>YM*Z0nXJ_*zq!'',
    ''*&1UBZs&LG(EN}9EcDSDHQpuB}&xPWsvEq+!f9=arns=VzQE94q{&wp)&#HT&)aZwo({-1zn!~>Bra;'',
    ''hzN=+lOGN%<X>%(*;k8HWZ*LFwW)Y!tWaNFp@Pt7M$#WH#T4nk6ctTg8)t=TU>`F&X?)1;qjxref;iT'',
    ''UODe4Eeo_nmxMhDkb|IEK9`$+Q}ojpZcUdP3IIvL?@zx)l<zlMdJyz}H`H2l&%+yBfWQss&H|HC!PQz'',
    ''R%$X9`F#Z*wMp?p{OvV>konhE}BK$jl_S!Bp&1vu!(!kXPbnpI?PgWKGmRxgXd~|KB874S2Lt#pju9?'',
    ''vGpHNO9KQH0000805+CpNl0%+zN7>I0MZZu04e|g0B~t=FJE?LZe(wAFLz~PWo~0{WNB_^b1!&bb#rB'',
    ''MUu0!wX>Mg?E^v9Jmu-97G!%xv=U0f7l7yupPS-XL3()li3S*RYFkml1mW~>O;{@5EEie1+DE3kGq+L'',
    ''JkB46%vEK54~vD~ZP5^Ao~{Bk6gr5QGw&1Rz^-0zAK%Il$`cRg7aWG9+Tnv<@^-`@YL7dXsCI$LBkqr'',
    ''8-5I?u)2h;mBedS|uR4lgGBF1>o%NX-{FHocsdBXQ(IG3ZAFk=%%jbmkVikc%|0@6J+1c|jxb_~N)L3'',
    ''L^33?C9j_#fdO;D>Rid%?h`4<z?)ACMFZJESHuhlU03lTZ(0#x)NxTr6pOJ6^#ZDtgb4THnz65Trn;Y'',
    ''hv#SRg34r3)K}W|O}#4VjA{wzR(nyqpv-hdnlF}RSCF-HTZ~&pX;W3U-0gyYmRwCa@7PmQX=idV;Waj'',
    ''9ch?=8lrqVv6Sj17|M!->#;q-@tGFe%;4D|Re!|&FRjc*=xI4mI-`5*=8e}#;b^WLJ?8|DI-aXBE*?;'',
    ''}6Vvp&*VtE9LeOFiCr`XMoZWMc~tyt_uX-Upr*wvYASBI<X7sespec`6un)-~SzGrGZv^jNk#Mdvpn9'',
    ''cPvqt$75i>{_l(%j6&Sm0?tbC=rH8o8X&xV8CWx4P9({iw$EyVB{^X_uS3F;u7ZP#PXcJ;RRg9;iFF)'',
    ''+=n>%8#?YwW#cEWk1GN;P6$|*D*G^+vsqIj`@L!=c@<iu8H%Ta_ash?T%c$`jewvLBh)XlG=m4{mw`%'',
    ''Y?_zt)@p-o+Y;MCP2IT@sd2YH6478N$ekjWJP`fs(}RA$(`js;3)l9#&8=70{eEj5Mj;%8a5sbxL%0{'',
    ''h{SY36aOlI*2YDDwLa2Ob!!-(_S%*=mGzyhQq0%T+8ih)uP-zq@jY6f-FobakWe7vHkqV&>VW>Cq^$O'',
    ''+(%qDY-`5|+g`BBYgt6Ar5zTRPe%zVJ?GIy9g<|j<wEZ-^LCf_69Am1I|8s8V+6yK2%^Hb&{=9u{z^K'',
    ''<4G%tPj5<`MIldBQwpe#!ibdB*&j`3>_4^IPUq=6B3<=J(8J%nRmo<`2vtnJ<_>F@I+M!hGo;^(ziuG'',
    ''v6>L%wL)Q9Qi}!Pmn)8{_OaJbIF`CQ|52X-<cV6#`JI3oVj5B!St_J!St`?lKCg|ih0evVgAMZoB0p('',
    ''U*_BOJ8-amXP4$+*vBNoWPr&oCJ!;$!(<<m15AdP#F$7-5=;~(8WX|<ePZ;9(I-Zq7=2>&iP0xUpBQ~'',
    ''&^oh|YMxPjcV)Tj8Cq|zbeI)uw^pWTz(MO_>L?4Mh5`854Nc55DBhg2qk3=7dJ`#Nr^hwYsL7xPD67)'',
    ''&XCqbVCeG>FZ&?iBk1bq_pNzf-jp9Fmr`Y7~K=%dg_p^rizg+2;>6#6LiQRt)4N1=~GAB8>&eKh)L^w'',
    ''H>}(MO|?Mjwqn8hteSX!OzOqtQpBk47JjJ{o-peF%LBeF%LBeF%LBeF%LBeF%LBeF%LBeF%LBeF%LF`'',
    ''WW;v=wr~wppQWxgFXg*4Eh-KG3aB^$DofvAA>%|`E=@kuTS^`L{$IxHa5TI!q<oYvPza|rrWo_P5%Q>'',
    ''O9KQH0000805+CpNstYPL#F}&0K^CY02lxO0B~t=FJo_QZDDR?b1z?CX>MtBUtcb8d3}{li`y^|hVT9'',
    ''rBE7_rhV6ABr*xMVdMNaZ5*DMi#)*h51xY4JOaFUEU;g&ykd<binP}d3EU#9p>?<wL^a!L>(o!zDJQ6'',
    ''Adx$p~y>Y7SsvK4ZbRy8S#s<DlRq9DA!C~XOSHA*xVim=ZDhuPbd?G_gSmMfW(_HASzpqVVDu2Lw<Qq'',
    ''IS?U(TpBz#mBbv)?V#Cu&ZK{e<f`ND!Bn#Pu>MxUq@+g6n0nJVAMG<#3y2)&SLId)9A$_Xd4Z*OtZgG'',
    ''RdW}&guw%4%=nEk)w<sDX^S#Jpr`*FSki-mL;fQytHIT{$>O}liAoxTEpWszVZ0L=7<hr0qZ#&p<W~+'',
    ''owW(+A^{m_AE7}kVx8;>>LLLdiXEw8Fo0u?BRUQTc=U`!b`%Y0Z#*N`iv*-UmdS)(C_sHrBh(LVvVVQ'',
    ''2m1dyP>cfl(vn|YvFk}6stBDoUre;i?HZ_@_&HR{7hG>($VCxJjas*qL27{V|S$hqD?Y`><@<*SA_v>'',
    ''#Cf*E4)IRQr2Q8D5a-K2|{gd+Ex*am;xY~8)=3-F4>vZ0{+lr`fPYJ+kYu56K9Shse#2d}Lj-N}6c5C'',
    ''&#T4RW_Wy3WHPDy4_#ElNR+AzZcvx{`O-FIms<+tg)WJzjG`b=QK+>%`ml)FQO8>V2uS20Wls$e+#KO'',
    ''pI5R;IHXAa)nEw3=}oBcp;n6hA*=7f3`whL8tx#n~s3Uq`<J9sL>hjC{f-TH7wI9q5<Ema`f-R!^?~x'',
    ''5q+i@jVg^Tu30cQcp6e2ho`CJ8o%?doYnVk)2r`u@ioEV<}wZ+Uh)=$TL~9Sep1oElh#TPE4(9(j1x)'',
    ''1=-_*)LC5igK+tA8_k$0&stP*AKzJNdH)-59u8W=TB+vc>P)h>@6aWAK2mm&gW=S1kJ74Vq003qM000'',
    ''#L003}la4%zTZEaz0WOFZLXk}w-E^v9RQ(udtFc5$DQw&0>f(ZM1;M2lA9s77M%OYtUZLTr#GI5uF`<'',
    ''q0q^(=dEY$&wGncu&es(!G}gSK6#OqV3Bvpo!IC{Kb=+P)X20W}ppPmgPj9ncA{tf5k#QC^n9_)t6iJ'',
    ''t~Ji8c%D_=#{3WutQ%fLtbc&P2DK+PMyYxm?TLMg$}AkUCHG?;$2qPM)X+MIhRQ-h~PPJ&I+^nJO7pd'',
    ''pEON>qEqb^Zd@=3c@Z5FoW(l=8y(olNh35kplQ%Zg;a89L<nT8;~0${<JCyq&UZ@*z+rH<gI7C5{cp<'',
    '')8d;0GhW7tdaZDmmgDtqxWQ4jcV5TWRxQ=F{v5G?^Ci^7XOj{{*ZH>NG--RYDfG%pNvOK@R^ooch4?`'',
    ''sGmcC%wtHAZ1srKW}qKZ7Z!L`;!WehSYTm^@7!I;m1s_H;TI6wp_InZAyeVla>`^tB8#2)UT7x+8=z_'',
    ''K$CwkKnv0$$(pEqyrCvX#oTHru_7TXZ1c&rB137w~ab@(hZ=Sig?7OpAvI|L|1YTiDcn?v__T`cdfM`'',
    ''tgju$og5(CgqR-uM}MEI4y82`wI7u5hj~|Va%8Ny-@9b2Y{1%9MLuvhkkSho^F@O|B`LVeQ4>6g_E-v'',
    ''H1{Tm2Q?brhCKNLP)h>@6aWAK2mm&gW=Sx?%(G_$005N<000^Q003}la4%zTZEaz0WOFZLZ*6dFWprt'',
    ''8ZZ2?ntybS}(>xS?_g`^UI>jDML|-fQVT>Y8A0Mr{A%xfzWr@=n@=LbEXs7+}T-#}rG-VQqyd<{oJwE'',
    ''sN*iI_T9KtZIbuD=qg2<~<YKZPtnbn$yu1!eOueOS$CZ!Tpa33iimw6r)$v*GWH3@lpalHsHm;bLmEN'',
    ''-rrA7Kuo(TKb<d2mM61J5$10JE!%Yf%=UbR;#7#8On6sTU$S;u|p1!iU$F>#NnxHBR$H03Q#zJ$N%aX'',
    ''^2Q+n@<^WF(!SzSbg|1r!c0r8Gc@_-(Al~<EOUu_5AL61h=;~=jgFfmnLjJZohvMyt-P27oTpHds!Cq'',
    ''DU7GUfRSg?@Z;c@knl9BGY$TGIO1+ZF||*?+a2ml>ms&;$HAt|tc;@!9!r^^hUSHRl1B;n7qRO;bi_p'',
    ''`qRO@>WU&b-$WV{25|lb1AB$sy$dfWS;OSjQjaX;k|M!9dsW>4)XnObY+$7uC6-PO<pPg!eHrCBVVN_'',
    ''=bGz@j?N%KfQn1n({qEO%q@cknI&0yT3Gk?l@XoIR@>c+Jc#RgQB2@SVkarqBivJM#P!iaHwYmzjA5j'',
    ''{~X8{s<cHF_q5#95@2*_Mrd%?72-o6Rf>488!|X%&~S-_g2+dk(eY38ZD)-7ZBiY7{G?oa4^(+9A)?R'',
    ''%43XnxO&uOSm4f>9`GWJw+jO7*fTvbOPs*+$emVe}8P4yLk|q4r-i$Nn*hPqnk|**>RqPWu+C;H1WZ{'',
    ''J&XvV#D17Vq~~eR_w9Luru6T<NpCE&#+-Xfmw3RUg_J&uuzhoPV)aK7ZU*cTcr;?voO_ELP1D&MahY%'',
    ''{s>Nb|RKTv`zx!MMyMIT2_s8t*Szzd=e@ovX{2Trjt79?it16O;%K*<0E_G8!xRGUD(KnMrk*xK;tc%'',
    ''9>E*PzA4BRn3Zom~DALw2Ezz0mq)OK&g502NXsbarjEhp1qOh3FugYSH+DC>tdj7`Q@6x@T?uHP2yz6'',
    ''4H#KLI>(x3*$;2MCewiwN3S8#L<)>#qOPtTtTJ9tf^?$0p{fj2iU#-{TCPJO_-|h5Nu%x3053ujdwzX'',
    ''Nn(@+hUYXxRk-86q@&4Xq~uNub1l?d?{<lYo(zwr|+4%Ej(o50ZQcs-%3%?o~HdG82JTIO9KQH00008'',
    ''05+CpN!cEmrW6PO0D>L>02lxO0B~t=FJo_QZDDR?b1!6XcW!KNVPr0Fd9@i`v!k~4-M>P0Cu7Liq-pc'',
    ''yx!jp{w`ntzNp`wvU+&ytWRPv`0wR*Qcge5MIg$VYvK?m|9<V{@`&;5DMMbjg*y>iYEF-*Xgw%u{lqg'',
    ''%xGW)z*x%Z_wop^ofAB9@2j!2>5O~O9qtkGQ5s;BZsR28j@e@ZFj2*>M!ed<BJ6|$oGji|L0<p?9$&p'',
    ''pI{*v~DOtYWo(&-4g#po-;|K>*aT9>9B$yefnha-`I1UJf#|TA?KhF1Msc;Y$7s%NnZBGlb;O@^WDP4'',
    ''}5qF%yTVdHwQiPlBrH<Rt<8TS^m+G&BSZX<Z87-+cHVg-pI*`>F>?ED9dVEfqP;A%S);hc?(#jpoP;j'',
    ''TB;uJR|Ky0dToAt1k%v_BRw%iP{#erEbhp=?%j7JLR$)b1}Th_n2JfOKolZJ@<cT(=SR+@N*wb4-n=J'',
    ''`6dyo&(#mpp|Gmg*Ijj`UI-Jb_garDP(2OY2%A64@^D}=zFaw9~qooo=wGA3ik-{m1q8U@KJpn;8H1~'',
    ''Q-Ue7!~BmWm(Fhh#ggi+OzSK1LRoGKlm04hob&VS)j)J9EMKCpokE0T#h(I4QdO~1aeqP7Z53-5a{Lc'',
    ''Rd@C-UTi?wLFUP5DTkoL_dv^1A^(Ns<ecc5*_@s{MNiJ?$9C^^z;!iH|oC%87R|l&|4DIHw}*uLfYWl'',
    ''R;1|1g-4Qq>D&RoN)_wgi^(8uCpvstUPYXmsFk<{CxTG)y2Cd)<DwCQe;aIB~AtkKJIG3g#wX*&<Z3$'',
    ''_@sYcLL{^>e?Y%zEGtP4H!Ud#k3@0&Td`QdH9eH<4iw+_cc7WFh4t+YoLXcBYwqE4D#d}8Zs8t8V0GX'',
    ''%gu)#-qAt7pv6Rg3fNtbHz5y-rlF|BpcV=g*&dgZsD(0|=*Jf92ws7ASOzH6-SOj5r;OyW_+pIR*2`z'',
    ''+4hq{&-+zCL%G<~5GU=~Y|p|mY^Dj*G7i9K|(d}d{nM(brOf@Bfo0pK5#bv)wSXM$Z*QhkJ$9aQMT;-'',
    ''Jh$WUJ8+qGmy5euUT?x&*Wl#$c9!xdciahkPclT%XB9PyI0=>j@Qmt>0QU3cC*UU(&-9aWv1et!r#{c'',
    ''8K^aBX#-=-hYAi4a;Fu8IUXtG8*g})c?n9?+lBu#UNyugrtN!aWX&;vwy(K-yLCk8yhTCe=uWhY#Ag6'',
    '';VMl>c2k;1z2Yzj4m`MmCJ)m9`8%oT2UrM_>!Bl-oD#D6>n0{S%pNdM3=*NMVf2Log_dQQisdZXi?VS'',
    ''*wd3i?Cj_OKh!>>er1;x6P7E_l`LcXYK*2y;nkHn*N-&_Vf(!w5gU}xyP!sm#Vfy^ICDw>dgQfIChxZ'',
    '')+2Z`ZKyW!2|Y9RJ8cQd|cq75NP{;L>B)NL@9pj_k^f_sX;qo-OxAIP1RKF9g=z=IxNz8~BiLiwY83p'',
    ''`-}J@C<sUDIXXd=38j-Ic<35YpH5<ay>_3^sL;*j<=NCt8pi^1f!a67)Nfc|Ki;ud&%}32xfvbsddVy'',
    ''S-bGfIfq))~T2LZ}t!UEbI*`75&IuJY**++GZLRlPRdixe?|Js#%d)f(B*kW;19vR4OKel6dP0ui>tz'',
    ''{Qt7`gpKb(>tj3~cNoxW-R8on0Tzahg15cs)#H#yFt7n>4W0%+rsOBtGS7m?0e0Fg_Y?J}YiRAKFxvB'',
    ''g1_{7!5y5mCWhuDQnS|t&JU2E_Oal<DyXa{`D9m~rhUtSaxC&VjUYLdW0P{Th&Q9|gPWB+><dg`!qoW'',
    ''wNb2@t3?7{T=&9gUWgVlq|n!^nz!O;-Ra!Zl?DfJmn4GUX2sIvZ1R<uYc$VWunSt6;CiBzr9rpr3syI'',
    ''n0Dgk8h3vrNvlLy4e;_#~i6>>;7pKDNm{s0S%NjEezs=6uYnRo?#86^ME92-TcP#W8h%i#={$u97LHm'',
    ''&4w!3-=V@RM;foIRJ!-!ry2H5id~vJqh4XPv@c#l*fNO*SiI2x{0YBncXWZrqC=sUQDPW?%gz0j#!0c'',
    ''e{$fk-6kiqi_6$?RMWoNEC3v<)cr02ddH;K)6#%Wt3*0`ULt^_(~J3x*VO;%trWLW;Xk?a2v$OLg6Sg'',
    ''6ifHU0b{~zgwm86ur-Zy}o74Pkd~FgBDbCMZqXlTZU+88}WRq7aar3ow9bW67U{DzL(q!|6+Muu;vI|'',
    ''-d4hrKUv|N-01t@}T8MD8e%!V*dSS3(SOjbAjoFN7ejD_bNAOjT;kCR{&F`C;=C6g6bwmq0)h=v$;78'',
    ''eOQ>CGt1KC!&DC5JaIQ`$mo2@W(B#e>xg11*q3$c-Yqf0JWLPsw^2On5CEvjmGTC6VX&dH=)9$U8l$j'',
    ''}}oCmdd|utfqe8nwl_>*sm5eyu&)zd8gks!of9AOmB$iYGyjCp<!UZ?xmq(7)G0qJ1Gu3S3zO+V^H+!'',
    ''oHLcqrY3*wf=;*Up5dfKiNobc-o3~wQCyI2deSyvPGA3qptJL(Xj){L%{&}-=nN<<pE;MlmK)(k+hDH'',
    ''R^3o#cfgd!&%O;QJFXLs1bGwn6shEH{ecPyInZ*lclUCL@^9GM$v8-n16HjDS4#+Zow!tq7WRrXlyq*'',
    ''oZ9t)#A?x2bJ@K`U{sy5HTgvS<kblFIJLGO7PB{+@_2w~-2pW*dUgu@1}&3jJ<UqR?NTXIDvyaFcrGk'',
    ''Ie=YujA%<h%)A^4!!^2DELQhdjpC#dG-8uTV<^1QY-O00;m!mS#!A_VZxb0{{RM3jhEX0001RX>c!NZ'',
    ''*6U1Ze(*WW^!d^dSxzfd8Jm{j@vd6eb-kI1_H?&S?TivdfH@*q6Jd4P4kcj1TBqZ))dK-)OxpH-ytbk'',
    ''7YishF|aFft~_UkLp4Tqgwm#Wy#Y!I@3b<Gu%lI?cR=GhNd~!nvDbIab<%iud?_l`Y34?E>uSM|RG(W'',
    ''rnH-q~H0zkGN4tl(oNSZ^!yH%A7L5V;7e>ptnhY-|05K{*`^5vRPLL$Y`wxH8Uw{7bcT$opMbk7VsRh'',
    ''?-r<AaMRdeeMKO#K83X#%1dRBs2OCCd}VQ1O!+}|ezf4ki-JU{kM_lQ<n$Ao~IXjYwB3l>Ghz&|}V(1'',
    ''CQ8G|F_$6-jWrS}_Ae;4aV;9T=&Qngd1yX}RN1KrF&Sr7|^`Vv$<14iH)z2}y&jw-^<LqYWW%v{5bjq'',
    ''IBT$>!`3jqA@St|J4v;Dxq46>;dbnCwK?X?*837Y>NVG4#w<qax2?M_%$@xYFu(hX=Xt*Ik{t|wfML@'']"

definition DATA_18107 :: "string list" where
  "DATA_18107 = [
    ''Uj~ZfHn9z|MImzH9rnf5f9{z~o@i85T}=_WEm$31kb>-L;eYAD_{tv+Gn{F@FsZ@1GM)3VGGLXDTc%8'',
    ''FkoAps!+PP$FJG7P4jg-8rc4_yVC8cHq08MT3&fouR^FGwFIsGgbx|+?2`32`yG5Yz+xe3gEU~{OX+e'',
    ''gAC0n9G;S2J|iCYrc!Tyuv2%B+wi@nhy7_Kp+;~m%n3;J5Zn@D)WWqlA_p4W6nzP*}mslSiyPrv=LMY'',
    ''fmw?j}C1r)E3?Ig-Y!6S;69JTC|fNpLC@BfTXl9XL&2&x?q>2vsq$Ny(OGWWzdzL))2t-Af}Qk4#wDL'',
    ''jF?|2hS5Xu4e+|6Jo>pePWihLLHgFBo$bsqE<vIH?++r`sg5D4!6VPTPQhT%b86sHWc4a#YZV#Ms%|o'',
    ''I3huseA)vJX80yF7-qZI!+4{&>i>ll_x(QB#h$tLeTj2pKEcBb383z`N=DvT{3E{kioX??*?4R2*TYm'',
    ''ZgYXM~IT<%#q^(iC&VI<3EX>Bd>E$rthbt&2eqPUJe7sd?rKB@T;9cTxbv%dgTs#KVL)2gxm+gHfd`$'',
    ''F*Tbow?&PU(r10Wmn6+uO7Zt_*CSqVLLWr#fcV43v1iJh<KA0)nD_X|dSn4;G;b1>03u{gM$FP;EQSM'',
    ''$m(n`AcF%Q4w}*e|O;&B&|qBwCt=*+CUH_|-IsmR7#KmquQa-(aK$T6n%14WenAQNQ%#_!)`3)K{-jK'',
    ''s!~hj^nJP<?Q`-Bc=a0XBbB~q6gpik?rj6ZbAEgRk8SKg6E^S7(CZm@P13uza*aU{{T=+0|XQR000O8'',
    ''HkM{d_=)VKy#fFLJq7>(6aWAKaA|NaV{dJ3VQyq|FKA(NXfAMheN@|S)G!cz&sSKLR!OR?#q)|FRj5!'',
    ''TM5S%T3n0szOcK+?Hoj2$_l%v}W-G|UZahA7GIQqA7&Q>a8t=RT#)ufSGLG<*RlRq>#&eQP_Kw@G7pM'',
    ''8ytF{%gosag#CP@<*wb1m$EmUe4xU6T|_v3NJSjU~WtWq`D8FYI*-XB+pccNeJ4Dgy&otIDc0zpG)E6'',
    ''InOulL7KkGJgZ=Had&50A(DFCXLK_901<5I7i8&Kb}a+~;V^7?XTJDRP8WJ-3$JA@dY@HvQ*^gy3^^b'',
    ''rt{7s!=V%qd-J8_|~h6_eAsRiMM!Ts!sd{nne5~Mhc|jlAM5e3pIHbt|R+>bQcoc4gB)LzyQ)&(uf|2'',
    ''Q>0dC*T5Y=^$?kaL<xILKiLEnQo!uez?Vjgw;>EP?X*!X`KGiJO4=XfZ6JR~D5WFNdd$$g1n8XBBrT?'',
    ''Ok&Z>5=u|_4T_mJ%jAa)3rXbhcv=;xapPnbRMs|%FpD9|90MF^-eeSoqA%<2%%`j|Bc^zLc{%k>nC*A'',
    ''Y3z~4RZTV+tuAuTol>@ruT|GKR@B`UDxrdhTSUWKogsddW0EAoc>-j&<d+dw+#b(v!I$39sC3AM#GI1'',
    ''nWv$h@;D*=;<>{4hECQwf=ELd-98(%e`u6k7v~n}lMmQC??nimjCST0Z0DRJo}&3KA-DRy)xUsa&)kH'',
    ''o={LRU084i`|ytKEMgD!I*r5H-OtlPJ_POtZI~V2z0S6s74v=LN`vyt4PMV#?%{?r8|50F2|WF@f}4i'',
    ''UTZo%fwEXbC<qH~Of@WwM|N?Yhvg7^{=cYYNgT(7-CX!uwAhK`o(P_Fp4+$vlm<C*rRJ38gxh)G)@&n'',
    ''BIWJ@?;W=AByiqHz%OKa;^2{c_d@EmIqh8nCK^B1{(^Ri`+rghP`YccW0#Hi>1QY-O00;m!mS#yF7SN'',
    ''rl0RRBj0{{RN0001RX>c!NZ*6U1Ze(*WXk~10E^v8mQcH{5Fc7}$R}3ye4y0z!rRgOsY|o*mun5H-+v'',
    ''-{mB$=%L{mQcCL}7I?@_aANOl!3S#@f-378wH}jkX^6)#+jM$d)@H?Tj<RR9Eh>)>3lSB=Bju9^m}%b'',
    ''b39X?_m6_(RiVid&0h2t1Tg<9=LPxhJ#rP<@(+KA`nhd6z5*wpbrRWwT0E%g+c@<E)kAEX8?_VM#sDP'',
    ''S3&^njMW|dUa5al!HwZ=r<wh|M@2~lHrRq4Rq1eO51^L^9e~@;tug1bJv!0Tlhd6wqV@;q&@(5b7`SD'',
    ''rL^c&~r@Q2QegF-kF&u@P@I5FUtwA{G19`v(u2XboOeo<Qs|>deL(p=cY1Oh}Yr|%R%gg($?|V!c;fA'',
    ''0v2&P_a^ktIpS2g$<hnJ_c81_eP3$WEhdpA|ugHU-pa+Pkxunos=TT~{UJ;^xIb%AlAqxw+#w#h@Wa|'',
    ''MOnX8)eCLau0*`>%QxHwMEhQpu+)!lXx#$d%tTBlRhV<-%dM-X(>fK&$^+s4}ST9|$SrG4IA@3;Qs*6'',
    ''|v0JR>lhD**u@}LGY>nUr<W}1QY-O00;m!mS#yyC59HX4*&oJL;wI60001RX>c!NZ*6U1Ze(*WX>N0L'',
    ''VQg$JaCzk%YmcKi@_T-TFRKyBY{Kk)ZEaSXm+o3xty<GFHy`>&$N?wuHo+{0bmz<c_N(#(3>Xr6A3Ev'',
    ''KYC7PmqF$~lm(A`9aU@Z+tIDciQAGGL7ez_vR*JMLS)}i0GxIzZ`#sP0_EzMqprt74due}_?3nL(%Iv'',
    ''*7R3%UC-4iV`AR}jGalV-mxa`1zv2@0sW0sfXRz3Sz6r#{TYLslqFCt^J*$!FHc^($*H;ey?{Z{dU9a'',
    ''&c1v$6r%QpsX*Jkl)jfWFrw4R|VIT5^#|3w+{5S<#ebrzjKAJ{4P<u1LaViDJn}#s{F(5YQ616c$Q?+'',
    ''f0@;O%-t^*ov5!o4dP$ow%svyNajD2VUsMvt>=%(u<FY&~Iqos(7&gER$%`gag$*D<iI7&64QE3JHiE'',
    ''yl{)JwAl9jEC%zQyPyfnVMIyMsPiaJEV<3@c>ebvzG?$^@z5jWS%P!aVjNif80EA)MB*u9MT4P@ZNR?'',
    ''b&3g*aEB#yX2jH_Ax+E*WD~xZ3AnecT*&>QEdIYat0$7|<DXspE&KG?jSZYt3&*!eaNKWHNx@VFgdp9'',
    ''#RwkCJyyIZnApAzK(c;H#Wo|#;dN&+LKXs8pJvzYHVXg)N^|9XE<@<RLy8YWed*3W+i-%IO}#F&7y4u'',
    ''B|t{!x^SNKq9rBeaMQ{Dfc%4qb(&QV?0?s6y}yEemp{lstF%1HsTV^A*f79v|@aC!R1xiDraRd4@@QC'',
    ''Z#ZvoCyU`kuvZzm>eQgQo`_-k=oP3mM+m2V5Yzf2b#}Hf?naVg(Bn?ynIg{jCX${KYI1}6L~O3Su3@#'',
    ''Yxpn>2PmzJ7BMaKO9(xz8Sr(ArE9^TE+V8Y)1uRl;rwVUinQO<z^EsMAS-a#;*1*YdTD5Mo3I_kcAoJ'',
    ''viWZWkyA^p&i@k(DuOFX`t7}>i$QSL&u_B1E3~K@|>a0eEI1~ZP68J#)(BAhULYk-_Al;&gUSSOXlm+'',
    ''ErkHvC%Ef!07Nw+DRfZ|$y0-6eo7)B9i6saD>D_EDo3jSS}pf(1-TcZh+<tETWNV_w9WF<Y(ViWX-z^'',
    ''1fH%MIqh_Q-*y`KIR!FdJc3{s@GA3Q5pH(0sl-TbiUia7msxU}vI)@RFw#0t<VFG^e5lhKM&ifq@t4d'',
    ''dZnLeUXf;*HykRXu>cq^r$%uYWBS3o_Kj68G9loX`yf1!D;45v^f$;GpV4RyR}ku_lZt^Uej5yKh$`O'',
    ''`3FPRXFe5I8H|aY8_OZ{99LxC*Bu7<JuMP2nnawZ11$pyNudBDXD3R}m#b@a>dXsS#8YR)7p-FB6<)p'',
    ''i$7qb?Hh~0tu&6AmE`av^FUH-_|81ghR0)a%WuZ60s|eVLrx-%KerMb*B%cA}0O3&S8ng(d4}&z3#gL'',
    ''KB4QMx0lzoJZKx>R~CEK4N;epCu>cs0VxiKY1gFxB~0|sj8x@de5JZ5t95Qr>2ula7BF_thjUo`wTpX'',
    ''xubk`+gufl?0QsnHV1tC&IU$%Ck%!rU5#f*QOUo2%E%q0(vTnikB^0-Lry+Z#9zOx0v)m$)hli2AAH^'',
    ''fsOl3017z;R}W=*s2)dZ3tI0Vw`IsmjlAIwTM!+CBboA*eDNzP%KpJ^^ww?p4I!W<>|$Kwi8fOt_x<1'',
    ''HJ_U)m}m&*$~pTLMX!BiMQU=SmBrWz!1zup2^HwmkPU5BzAnW&0pAaUX>#A{2*vjqFukt5#VfuBiiUu'',
    ''$l>b&yQ3h<Bvle?%s{<#HNdU`>QaNGTaA_PyM)|os0L1n653F}#9?FZc-hHQL*^Epnw)D!{MVuBLWiO'',
    ''tYh$vZvgOTLr%aY677FH&U+$lX`G%u{->c!fbz|<gTSeN<o@*E1G5&({nT+TU%B>_Z$|GZI6hxE+~S9'',
    ''Y)7-raq8`}yswf1B69e?CfIVZ|bzWJnhGjJa$jBCaqv=p{OGgMx=&?mvEt-o3s5=%t2Wy9(ui3I><!%'',
    ''lSn8v;E$yek!B>&_uo0bAm!N*yBn>1<D;L6DDoSADLS7g0~-)Mtu?{0v1P*(xJ@N5)k->Waw5@rCU|K'',
    ''#wGG=^`g*AYVq~$r(bS=`Ns`;$6^X@psQy?RzP|wU;!<Wr$8F6><fJKuzkVf73nX^$q^Rb$mEtCC@cq'',
    ''2{%5FeN=TrSEmR2MUyI;?>cjkD)og7!h}{LarEZB}@9V_$EaF&=Lfw!-q$bFK-)MGLg;Ryi3%29WUUB'',
    ''u%pChoIbovdL+9ABBe7hoBSm`v)qEh7R6jYNA%tgJ*!c?agPRS(U=j(MWjybr`+&k&!&7_-q)HC-ZTl'',
    ''qf&nos`s8jIv-<GEnv{2V(}Cd!bBtHjvRR8EmYbNfM;TJi5?+DTuSW>nvDT7G>Y8u$|}&J%F3)|`$7j'',
    ''y#R8IAwH7g<(QobfEIU+DTt^<ZOS*K{?V#W++AbLR5L%by~FuQcy5$Cs5t0oEDJ4y{2}?v7li^*?!><'',
    ''D~G$~6f~=jWz(fAs?0R#4Bsn)-8QF1*V301>B+cEWc<gN)xa!$c)Hhai!<HV(gjz8)@XibSqXLazG-R'',
    ''C?%;&@W6=v>b5#q#I!{8@g38@)7(i`{5m5D*woG-fPw<TE^|RiE^5xsP%Gr?X_n5Jd6>i2rj%UwtT1m'',
    ''_&s!x<+KMe|nLNAIS^{&+GJoF%dXcD?r&oTL*Xv%TXV3Ri8@|2gV>3yUbwyBXx4>8`3`vTU_GVH`0yu'',
    ''5oPZLk3gq^Wp{*t5!&=~PQ7?6t+7Vib?8uAM$qDv`&qoHva;y*AASRGU}^gDy%Di*$tw&V-L%Dl*)@L'',
    ''8fR17TxV2+5ZX3Lzn-33WR^BE79vM<mF2A&;z~xRZ6TfDCJaF?PV%#@c-`==r)X}DNk+sno_#yPhV7^'',
    ''N6>+Ad#9F7Pg;6XzrgO7mj~)qThq?NmZoh^yjW@OU8i}`G)6WAYfrC&>wTIVFR6MMXb323pzsgrR^s1'',
    ''955_T})9${2Z6F#+I&Ba{^*2ax$^Y=pCseC%(H6{sauzc;J>?ga!{XFEWzhFAWzY9Cvjs5}6Rhs1D6e'',
    ''W(Q@H+AT{wQs{mX2k7Hu$vu<1%#$+13I(MMZ$rSqM+SS*JG?47K*AZ5-9?7@J;*K!(8)#jCMn5^rj!+'',
    ''@B$JVR<HE;()`sF?*7O2d12QPQ?Agfz#d_rh{@EwHxE#_bH^8JwuuW3&fn92HwK4Um8G49!Cqw*NMJ1'',
    ''}Ho}Cir{dpX4o^p~=+%_55UEan#nL^r0vh20M9;XwkXEO<oW7pwC?~sXi+*YOh~!eL~R2PLpXnH7&zc'',
    ''v++9MYq7{mo>lC3c+^20*(M<0ca7yZO}hi@#H`MM4p}vts=w9R$1E%))WEpTvnvY>8|K-~ti|pQmr;d'',
    ''1KVZ<!#EbNxrLwXl+5(%n%~Dq4QIZ8Ju{NY#kRr$ZK;I^$S5z^cGXgrzp`)6Z8q#N~>?4dKw2aU?g-C'',
    ''ne*~7HH*gN{ve~HKO^l7Ki)C@yT2kbY!=-`zMP<Rf$2WumY$<3f~L}b8MYbkQuv%8C?Tiz%H@`;Nlr8'',
    ''U_UB!ekI;&y8iYRMJN95)S>MWt?yp(6B#mbd6Iglt2Q-0omjvAEJF3ZRbBepn@9h5dKcI(?$qASr}|m'',
    ''EQWFYHjJOUGVB#|H2IPBGm^MT`0wG`><WV9PxAIUfTCJ?nF>CZlEZ_%V{*jWG#Wa_TfptZ`A}h7q~Ok'',
    ''(56!z`GMWyxW;fF`q9jeXN_U*M}g~2@h(<9;78X@kQzzf`a!$dax;`hN73EQ?=A&*Y?Mf6+pkNfGwdh'',
    ''T+2-9ifzN$Dpmn!^ZB*_)^&>XPY12to1OBEH!^Zse1LbGa?X5X6_XA3lBE@x8qc-y(I*K7Tb5h90`Rx'',
    ''a8cRuUav>*F|P4AIzJBqwQ{-Vy@_D|&wknT7-4M?4O>y)d{1BQ5t^P=R}a16OopE7H45rWJv`?4RnH1'',
    ''Du<&H6;^^W>hlEqs9m6C<*rPaEr-(P(>3lD5}(xNo~oAiQNkiAOuo+fw#S)Ml8}o0ck$;#uioDmuaHU'',
    ''Z$o6a;n3&>d3aqzv>W)IW;XusG+!>Bf7q;YZzEyVD%8GO_GInj(*m|3z%VJN@;PuWjj3oVAo!QXir;P'',
    ''k(s04ey1MbemsL3PalQR>CRYx^YCpPx?L=fg8Oxd*LTD@90F0gO3NEqGVCbFC78Cf>Gq7!Xclei)Hl+'',
    ''S_~F7EJid%)0&#nGOz*l5S<tE!)>qXIpl43wW#;wezL$G-oy{;kZsX26XNpC}VR0+E3C4C~d>qHDzdb'',
    ''FPG1CtY<wB~CLX`4t)O?PzQJ-?S&!T+=@fl|1D0i4_r(|DysRiRz`PW{5mG1C*Nq)v_c*=nvs*~)Z04'',
    ''kFrOem`u_kHjH&G}M^XRk+wWvKp!Dx_tJDlQ?k1(;=n<uIRMxFa&^bPc=LPJJQr8@8lSs^Ph3=>a(aR'',
    ''0)0*b}+}b2zI|VGOpWuKCWbYS;kfa6XPP0VO7=~@A^z%mQ!J(^1k1YV2!Pn{&!YmxaL#0kM?`9%Wur7'',
    ''92ZylhHd)b&4?R04ZVN_;je;c3Pq0KIC>iA*7PcPwiAos-kBcGdtb?5)!e?Mp0Ej~EyTm6xqI2q+Y@M'',
    ''bt~U$}lKVEQ&W6DC`n>2SZG}5ZQX0R4XT17s8-MkFrs(Is*N5};j_sw|s=W~?&v2{WPyRddUQw;`YpM'',
    ''~;#PyYk0<UsY_WJkshT7-NCz#$ob_*8dz^)kfv9_W-kQ^`}#HpGe4~*h(=VL(So%OuwP;$R`*fOFw{q'',
    ''V${ZbsMrvlbf0Qy77`DodSNTEm7P)5z+6`ML<eseHx4@*yyoK|56$nO;IqV+I`t(H`xM0EcB?C)JVHM'',
    ''oSmt67h!rrE4T5(BC$$zOH<?L$K2z2UA<h5R6>pK569_>I2&hSw<lAzhOP#W%P@9oqZS;O#9BeBEyNL'',
    ''ud5FEkri`ix|-J9Rbg?oCGK9q=gu^MkXU~er8y4Cz4^-3^O-@HT<bG8)fBTIyI~LsgYgm&ua15uhGh4'',
    ''$dqiUjZuYxUo;^-54qktPveoS2@)}iBf-LJ33-xvxE=-S52I_<K_B+EXs39#06(vM?X%C#Bf*k8z$yd'',
    ''T8$d~*t+ZuzwG*j#UWkXmT%Yv~U?jY)TwT73#4ks$RPt@Pq)r=^NLBg$oWul#lQo}~M#u#l$J4)$pqg'',
    ''pWCpX?SBv)K#}dk!w)oiD7N)1Nvc4kgJh&dhoJgNAcb@QT!rY!>}C`!7&S0|XQR000O8HkM{d4@<{5z'',
    ''Y72WX)FK$6aWAKaA|NaV{dJ3VQyq|FKlUZbS`jt<yw1>+qe<`-=BhTu#lA6+T^YmpbNM_oA%lOLGRE8'',
    ''EsDiLM@y8KSy@y`Y1h8C-@P+@NTeitAD1f%)CjURH8Y$i=SNbd6nm0oW!H9+Wf|f7M#z@XtrAt&vdsK'',
    ''mEbRDaC2IG*61yF*ckbr{l{NfSi&h@576d*e%H}PTtq_%RqJQK~R*8DYRJ&k@oHZ@^pr8C+N+Hj2a*v'',
    ''fz6-ZiWmWDTJcF*cUNXMl3!F#x+isfRzr*+{7-kYBTjZun=T8&7wf&(3|3wCfM-_!h#?%20D=+Sg7AM'',
    ''}s4Z9CRxyjCr(Dpq6#SFPmRPS3X@_%q`wV+C*NwqnUhR9dh`vYaBh6Z>bj7x%3AP=C*xw{QMt!Z7gV`'',
    ''$B}~?CBlL%viRQqH9(}+hTq!78qD2$;L%E1(iSQu{g_Wx`#YT7K=q*QKiU7(AfGXwto{7#N~3S{~`tH'',
    ''Ehdfel)_2#sw-du;>=a)LbF(JDncbA74QQeuL&hN#BU9<Sgm-=?-@~G5IhtT+@1#0qM~3!gzS+X=@iI'',
    ''>AxA;TMI*(ITwDL#xCg2OJLD0$Pbi;8M$v+mP(8fnZI;D~RppAjrg8_yy?%Z7U>#vZHsC(bSu29%N!o'',
    ''M!e2bnBqKBbUpbOHc?)Q`;rA1+*8ut(J6RkzGg8$c|YYPhAidMmMnj_C9Qmud`pp_jP5rC1jtJ=-Cv{'',
    ''Ed5bjzw{W1Qrq_dbe}=jhlO9lNF#DCXzU(Mf-yj?C!jvi0ZD(Mczeo1a+@3O!HB$|zZhoK|02!#Mg-n'',
    ''nJwivh8Ta>U+}O(w5x9dc3Q|mR2xJ&J?a?g4Ckb<x8SKmQ~fzSI6~SeI>*6gZV)TobkcBQ%p{5Q|%_2'',
    ''dGOQY_FY{aG5?#c?Je*Y4R9DvyM`r;VKAQ)%{46dUp$J-4|?Ur6k}`2Dh8`6!IoICdsc~N&+3-kGpTS'',
    ''@Ov!JLPUMO#X9Br|HbVsZpoBi6h%))x3s?rRe3td4kbBymbHHqrG3T;b-uzZ@NKeS*itT8A#A3+->g;'',
    ''QUUrWi@kGjke>G(<5dvEy{a9G|#+A|k(GZUeE03%n#2qv-hS+XK_f?4k^&6Lo=G`LEaFZLA_8wB$o9h'',
    ''Waz;?Zp&Av+<#n64M7KErk4V~55v2VerYi`6-YC!(A+b*9ee%{6eu_Pq&Qi9NJp+GyHP2^Ho^@J3U_3'',
    ''$hJGyjgjZB+p@Up-4Ogu<dwNWY(yx)F9Bp0gEl%be*ge>a4IdJbW-<5<=cfhCPZpFA*b<&<0vUBRM{7'',
    ''1-PFpv$|SDo6bs;44{1-0@N^fP<&SL`c7@Ew&^ewromvu#<M5PwW<;i8T_BY>S7m{K`@Mk<dBRA@3LE'',
    ''=+JP(>4H>`(*k7_f;f^ESPZ5M-YzQ{??<5T|uClAgQACjDg^ic)QEKdF2iUdLw7Lo=b9<u{zr>TuSgz'',
    ''Nad+oS&JKZu?6NmSqW^jRi;8g_=AgCJiV{4ff+7g#0v!hGN?>e0<`7NzYSJDfYWQ~A!Bmm@syIKJ&6l'',
    ''7=%l{_a;Z?dFTiq=QM$`TepzjWPab}JH+`Bgr49wyCCb0GZxd?(IWY~A!SC(g(Nzy7zJ*wxT@dC6JvG'',
    ''8Yc~|91}bU;}}*^-rQ^&-39YFv_-l2MV;W)B|txTkQb@1<1%hGZz0{bg<pk(2+PGw22M4_?H!vkQi_S'',
    ''%*bo(7c){$@xlB@(MfYcAnKBIy2YSQ*XV|uIbn)v9Fd?Q1y>s7=`Ljb@<oHu?<X<i+@RaQg<+ADgOmJ'',
    ''Inwi*qXAeP!eXy21Y&p@}h-4tKp`mWUr3FCOLAM_FY|fqGgfr`1SccfRZ%=wCbO7!SLLwXqY5F6QkkA'',
    ''d!!>Fk@L&te0Y2<@;Im&oAsIfu@n8Yei^n6U_L_5kk(Q``sc=U1UKK0odG>3uiJ!Zq4hr~R|hj1Y9j='',
    ''=>}@<C4vyskr_jd-oZqBRFgMj1TnbgHPVf(h^#ur7r<7X|Arl$2T?yXPXmHlrHJ7H+g>ya{dU!}7mv('',
    ''`NG=qk?RB+%V{H*&REYglgkKA>S@1Ak0O_3WcD(XlKPubPD5If;WbOv>kR##Yr;uFRIYo?KCU?_2x$J'',
    ''z>t=Vs}-+%1-w)}<NU{cF(7;JhC3Wh`_UWni@rhuYe||74D(fN2(CseBOWNH1>1JJIQp=wg~XF!O$i<'',
    ''*7kWRwiqg-5*YPkzGRl=e*PDeO&;b3L$4`%{OG1Df*`Bo&LQCUlEH!NpZIpzZbF-tPU|`yoG%?PDIqT'',
    ''*@9>|LmvrT)fx3&S$xHa`>H>Gxe6T2|u#fcpY)wY|=O~5_c(w^PS&Pdb86=N&n@qnlP(_(|4_SoS0d{'',
    ''^Jq;-Q|NFXCPT8hXL8CNcU}BfYZ?AI3TWP(jH=3S<EmnYVkLYJ#6v7UvLe&pS&vQR}+@r41i`;W2AKJ'',
    ''S%Vdu`2g`sa+^juDl)j&Ek};;iU8C0%C-2*|EvPEv_?z4S0BSh(n3f^qu`cI5sw919OJgJ=tuea4!M`'',
    ''eX|&;l8)PjXZ45@0a|Mv_HfHsHSYtPfSO{Oeyma_QpNJAqQ95&Kd;Cq1k~`a;IcguK$ZFcOxX<+UbK|'',
    ''@doBt__8n|1a)@Zn<a805Yoa4Zon<O{#Xwz*Bm9|=9yzND%`h|`3#-g_!}c1a2+vH$*PQW)1V6SFMi+'',
    ''|27qHA+s3am6WV(bJP+%@g^!4O4!!(Jt_{38e_3_rkeVYa}RM03l)g_oaIpHYVq38YO&9f#SH6gY~a('',
    ''$t0rXKOZt&M_~H#+Z~rp9Rkmj<(EWG8U+<0!+2@cI%rw4-MYMsZcB=zd#Jt>M))_z=hk=v1@UM<=%W0'',
    ''4)1E0KF$Xf%Bj<ugEQ<rcD}Vl#yBH$8hbLeMc|CpX9`TYplAxvlw;rCpA$E!Vnn7%L}#HT&U%0rl3Yi'',
    ''{3NyX1<EYu)6;qGL&_Q7jcO0qMw8GlF!a%#@SKX%QgU^wD{9(<PA~fB#X5P96jh%jcA4-~WtjFAF&7u'',
    ''QN!V;Hxx`|5V5DZOz~dW4O`1Y+ynHI{!IXY$B0%vKt94Q)u%~=8EeLx{f)^t$X@?5G+huq%Qsa9KI1k'',
    ''o3toI#y(Fk35YP)L>C_sRXghIW*R*$wqrcYGJo6za?c14zCX*Lmi+QfG8I9!ov9g)}MU^Pn;PZ!Lods'',
    ''^v~8bqGXWuV0uVlZ;Oc`)WyyI15}{W4Cu7ea!wYw`!){;}J-r?+j}sH@A%9borvo91GF*&G{s+3@C)E'',
    ''7dV|`SrVR-oDb`@vaAUk?XJCzWdeJUw!lLms$u_I^^gZJu&*m*yH?u{pJSDML32;heR8BKod2?!r3h$'',
    ''FYKWA_KFjN{18kO0bYr7aGU0Wu^idFSF&Qwv_gT2MVkO$@MN^#iJhDe>Y=G9zJSvQ@7m0lR-ZeRonR{'',
    ''Dh?5Yr;z_NpJ`&BnX)t`AqN~3fM}1S;;C>~xN+r$~-IWcAO(L5EbDiOCH)(?IlJ3306L(Xu?#2%j9CU'',
    ''<2RRVT}x41R#^nt5p*&ZKRBEnapWLM*<YkznJejTrdHWhzUpnHR*Lzq+HAMlc2-!={hs6XiUvCLe&oJ'',
    ''=#svu~Q$OM4FqZD#pb(@*fLfi?K;69A2+Nsn+jJukzZ{-EFb`~sb5ZC2L+ZTi`dkx9n0xR5VDT2$!Hf'',
    ''%Sn5bVkP+EW0Hvun`pagOGO^Fk#O4qyD`s?Z1^<*YxWHNa4vCp><pf5qS+63DpATp$el8t%oe%O>mle'',
    ''IxJSAvsQ};HAtR9>+oTCh&%B*vWzkQSfF*cCrLLMOM~SZRG;4hr^R;yS6t0x%6Sxli#*W&GtfOkzeh6'',
    ''&G(@bC^(0U#en?w(Xft$H96+jp=ihT^bv|^c)^!vHEV@BFJ)P)WSOYmOm|D=>E?_n?C?fGAqu*sIx_z'',
    ''T;qyG<3O9KQH0000805+CpNv=YK+$IJ90G1H|02TlM0B~t=FJo_QZDDR?b1!pcVRB<=E^v9RS8Z?GHW'',
    ''2>qUqQ4mB&D*@VcVBrF3_bJRv=A-Il%^ahQLU)%|;Scl8WsW{qMV@Nb1ci`e6<b%jDg2ch4Q~sI3$wN'',
    ''z-kk8_Cj?@Uj+C6Z)t`(P);ozh^VMUWna}S3CDpos@gj?5Gct*0b3bA!}YIk5sWtlqIclhkMojjLGWZ'',
    ''>gsy6>V!eCrrODUlsS_uf5$W3iR9u?6@q%OJ6``)7P8LnC9Rb4)6143XNB^Tr@QyvUZZ)pwPQNfOqRT'',
    ''&MXLBeY$TW1kexiQa#raSRy#p<%vi0tsMILVYbk~7<dmkmQE3LgdCA+4>4&%XSHEAc(%(Kl+`j9i(`Q'',
    ''!YLMAoMo+!GIJTs}lic_trRE$v7KBRVc0^r4;cBy1aG%{mqYDV!Ru=d<}b~N0kS-~OT*=&YHFiDoK2o'',
    ''j*~#;k>DTG0~9Cjzmoph}SyqcYoD8bbRWUCs!6Uc7kGZj&u|hq)nbj9~k)7Z4Mo5!h1==*bhwM5QSQd'',
    ''Vl%cFnM~D0EB@uf=d!8gBO^!MgbBmIvGOdwG=zD7Hy6;4#f#LD}ZDDGCrYm&aWhx8PS|=;k59I>og4&'']"

definition DATA_18257 :: "string list" where
  "DATA_18257 = [
    ''E4DGYpmL|+>*DEP<7+W%;AOx<Oi&?8ynbJ^Qv{hLEAte*RSC__1GpV}3H$^L9>nl}f#rA%;=v|VmtF?'',
    ''vc1ot{GnLEW;g6e%(v~)bUSjA;eX4od$YLn6XGOgXeuYy_K%a;$@TB)pk9RFg<UN`sp@kxI`w#`uY#5'',
    ''&@SeZaZnbbDGbSFhqhp*!y1yM)5Y%0sS&16iF!5-^;ODdtw>gB+7NjZ4kKb2wdfh&avTe8m$hh~FnO$'',
    ''oJ5!nT}<DU&D(y6l)0C=|5d7Y$o`t`%$;-&^(22zzHc5G$&&YeA8fMmO{*J+gdbI`CZYLFZOftRF2jV'',
    ''CX8jXmr9A)%p}h!@ws9lYSRQ>(`skWGy+gH|P_PI2EEl@d#u&{2BHA@j;B}XE0tW-}FbzlNRVRZi#G@'',
    ''KBBXibu2q9R|wDUCT7h`95}>oQj<P5yvS3<6!yx{fngW5Ya{;LXaVf$ya~PO*r`VYb>ssy2dy+&F$ul'',
    '';PKx8H58zD=A#AlEk}Iq)0rtJ%(oquF4(3+A!jh0dbS?)72VEN39TlLdJ>Q|t_x+xcf-6nhX@S9T1xU'',
    ''0gPK35w&<5<}Q3?5zkpqPj<o66r*WED>+JW{oiP8d(Ag>Buu>=f*9q9V757C2$!5O<!X+hvXkOLzbt)'',
    ''TI<WZ=HHyX;>m!j>0o?+`MekYT~vnF5RJmgh~ctGh{Ib{*}VfSb@(!2S$+=L=gD8o)jUru~3<Vkb2|y'',
    ''l!)i8XExpGT6qCs|5Utr@LKY*rzixE(ajAw$GcP*jN7x?o{ksKCU~oO+xD$t`?zP>9sZdyhJ86rkR@r'',
    ''17W*83@%4u3}sdqG-IB0yhf@F%4C4Uw;kzA2jcER;eUHKqWWAYKE2r2+vhe0dz7#oy@lkN77c?GM)q`'',
    ''_Yoz9ul)=rqtZXmEhCXSqxM=;e6Kz<bt$n{g21P~@Vp!5cktHeVF<cKgC|DKtsy-sG+!9{(!j8O{tb+'',
    ''vztQS9QhD~O4sQjJ*`>ACQroM&-!t%6tKG$^um$XkT)8;DKUcSr$>EBwDgOE=!v!Q?M&HsLi@x~bh=g'',
    '';yt80a7E(YS>~VD^T|z>kIt1Po%Ai;>#mOu`oA=W*Q+K;DoaUQbK<CBb(xb9CAl7au&d&Mnv8@<g*E$'',
    ''-UVn_%C#QWMDn|hI$zMT?LT+0RApWIF0NT`7w%;Pl8ttyw@sl9N@)#zPM1p!CVDoeg<UP)`p*8u1Gjn'',
    ''k=Kr0dZU<lt3EsOG^Db9^?^&pR)pwLG){%7HmJdAZBKKO;}lzt3LB}!4apxHbKOV8DXnIJcCVo0f#Ln'',
    ''7ni(VGe%PN%*aXjNLp<n8((9`&;CW+Xf`a$AtNXV%H`nhj3DVx`MsQ~OsOL>j=gaq5`7ZDY#Le6L>(%'',
    ''`wt{VvJX*cc6dp&umIKHx9SLQ#yJd8)6a#yM`-;QdVCp$Q>^}3yyz~o;J-r%Fzzfem91QY-O00;m!mS'',
    ''#x|Qy(P!1^@s97XSbh0001RX>c!NZ*6U1Ze(*Wb7*gOE^v9xSl@5kHV}UIUqQGiBp0^OXJhUb<VP1QZ'',
    ''Gt4*OJJysMBA)oNhPIZ+0g%ecPCOJE!k<`=7-p#?mONczdPP#rHUPk<5gYNO2jdfyRuLf<Bz(?>Pp1T'',
    ''^Jug}IkDq1i%PDvP*(Cni1db5MrI`|)@zxs?PH-0x|C(~$hAm{-Hzv}RdCuob~3u+RjuQsNQJgScYmI'',
    ''qp5NU~+4=45^=&5`KZ!goT4T!XI#xm#wMvBUNrC0bmZNP^UCFFfp76ZLWx_N0kBD==6Qj`xod72n)|+'',
    ''T8sw-LxW0HyE35X>b*P7jJif7|SXuc=&5rfZoJjRzy=Bq;OcqNM*Vq4S@mRv9}d{-y|Z^7p*6Deyf6g'',
    ''mPRDZs73ia>*wfL3Y^0<dHy7<*f)V$B|k64mP^`^9Maz@n&Cq-(HCy`ZiG77bVtj0l^G6>vo6vWnwSi'',
    ('')=Mz@3>lP_<FZ}Hm)|Cln@'' @ ''{%98-qklc+_zxDEy~QL;;8a6v~rr5|8e*h=6hn5}{-{GF|2CUh|MUIJID''),
    ''MKJV+C#Y%>=n6s|SE?30=!(}_wYcD!7XGV^$jU_%uWBRMs?IW&Ne!pBa>7NsG6*LVJlWXjMZsj`d)Op'',
    ''S1VEuG<6^v4MO}vPr+yG7UEo!no0yveo-&M~6Lq;_c~Q~o+%vx+arDep4ipXpN}f5p$poY!1J*prR4{'',
    ''HWZpa31;I~HmU1dr@iO5X?+Qo0RAWq@lowtyJ5Ks;4T5y$YVoRtPSr-y$vTuH=WM0Jv>Yu!$b4u}#Dd'',
    ''Y<ikcgh9>`AD{LW_3UJWuAY`(YMMnSsQ{$R9Dj&2IYs$blUSPOIWrR;ccD^hm*AB_Hd?D0YK>dW#hAh'',
    ''InAIh86I#NGLbqu(4G7T#MM{9{H5`R!ayG<D>?P9$SlCC|-d`(88P4iK@S=0CW<kJ?mHyiS>GhjyA<6'',
    ''1*Hij&P(Ju+}X2W|9+<>q<@J@y&4=n7itUKi?yg6!dm!4uk?mx1ibtTo6_TC2|JVxvncYkip&~-5`YX'',
    ''LB7-diS&mu*(OF!7=qvzpmyPk;bqg`O05i>ME5Gc#uvr5k@aq(UgE?*HIpf!sz?`*}v`6m?SsqxamKV'',
    ''O5J%12;NQEE6#&bc3LprQ*I9YaTzPG=SBQaIE1^W!wRQqBF{7!kr_tzmzQd5NTM1;7-bdLpRuyzTgI&'',
    '';XjmzHnX?fL2T?U`n9)zw+b9-%^UMWr@Eoy5x42JL~t0`hFbb!;WVpivm?ZG@jp=0qX_!Oh-+VtUg-d'',
    ''&m+}o#>ZEy3Ax12Gd~j@V=o?h9M>m%frAzNBBGXTF5-~&y<xDCyx-&*W;c}t4qN>1>a#g^;yza_XA=3'',
    ''bbfzwc5;6*6gY<hz1X?P7AW9O-9PAStd`FbuAmyPAz20*uPU;&t3N+-!b62^z-k-&gU3Cn=Vy)(tfuS'',
    ''Xe{zI3e|(%>e!jT=`6KL*qtWp_L|#FmEFlEdVBp>N$70{t<Eb%K_Q8`2@LF&eUNiRc^WFW))z$g!zLk'',
    ''`=U`SgWhfF+(HXEW?gq5uf2LwDXEYlRZ-~tD6k4o@u=iD3iTUDgR948K}k^L&$_7ofbBuqEZAitnz2t'',
    ''b~GK^km|^w+NH!yFfz(Qe^Pb&g?<NQA#b8>ddh>W@>IAiZ5kl0h@(s)NvP#S2D046Le|y%nL;HzUhly'',
    ''KX<hrr3#D2~kB^UV}TT`!%Ck6`wPi2<W)?kItS5SU^37YdDf1gclPx@|QT-7F#G)ax0tw;rNLCYbtog'',
    ''o@KRxW~>y{cx?nv!JSqKO^b3RVGUD%>4n0w&_<%UUm6DP+1^nOE=Y}ghQVp8d(MVv>g*lyvV?&+L>&*'',
    ''A$a~<WbD);E4xXs%JbTI47PsMWn-L8)Xqdf$L@l7(^hJuSokC4B?vDpv*Xqp#%@o(p0`$1ot~VVxHow'',
    ''jge7tRk6RPvnZ-R|2F<C~fFm2X0n{wLrn<B4w)QtOvJIB;lb`O)P*J7~`?ET<;M{~(|Hk*yR5PGjZLl'',
    ''-z_Z}oWE*0`|gQXxNr$pO?~O(yn$PKF-D-ZiP)!?r1X1pB+q>mJ(6_=ETpDgZrjS0P?OHl^bLzN;$-w'',
    ''Olm?r>DRcqN7-I>-WKS4mgIsHI2PNqpZ`Tke+r>m_q%TOuQ-F<jfI{eX>>B<Hlfl#!t8HP<eOV=<Q?&'',
    ''-2ORsH|T3Rx~it<V_y#Qv#Vh4<sW*Lj-oU$Ke*el#=;JE#H4fVS!PYoGGr6=G`=}r-}4jp5Y9Fi-Z^*'',
    ''G^2kwN(E9-s_q(Og{@3ltO>^5Ge*>^?OzOt;KOwWtD_T#R3z$;G`Dbd^%NsAuKY8{_?dU&HO9KQH000'',
    ''0805+CpNvnw&KhOgJ07MG_02u%P0B~t=FJo_QZDDR?b1!vnX>N0LVQg$JaCwzhZHwbJ5dQ98F$5OJhu'',
    ''8G;a=tIy7D}O%UP~#*p(yq^7As3WN#0!keMj<poa}OfMAm3tAB|>I8QlP5Rp&Z`jDcucZ5;5U)v|NQ`'',
    ''gIfy^j5S{<wfWtJJ*PEl=#;#o_SH@%wX`_xc!^5j!XF$e(Qw629--;vG|O%Zn?3@%uKbjsw1~p=%(SS'',
    ''992H|%b5qi7uY(XmA$gcJ@FS~w27jqklb4MM~QxK(6S%q<S7CgyWK9#6B{{Kyzmp+ED9TB4}>M0B!bh'',
    ''>O?-{E4u%Dmvl#rY^jX2eM{e+`SM~^h68caI>pCZ-oun3u&cfAjIJ6g6YXufv*JkZyWH=mBIM<@6gFX'',
    ''O>{1xGdwIIBdh6Wukx#Ql~5*?aGC?pB)pc0Y{osk@vtYw2+p9>>e2WP|E7R}O~<K>1kCBCB6?ctEEKv'',
    ''cXz$RVCUiUYZ`6e7__Hh_oL=o5U=JwRXK<AB2_$g=DX&!d5l%ajT61c6bn?dW99#d~n$IOF~ZO04J_2'',
    ''qhe2dyBG4;R81(OVfv!^N<z2HbP>5ojxgenIxN3EQM!T;>n7pWaPcgco{w@jQzynNBn5wl>Q$VVa4f+'',
    ''r9|uUcp3H;124SZJoe|N%8hizJL&Q-U)OY>B(L1$v4`+VrbgN33;g`g)i`IWq~xW%5Gs&Q;uRIF&Lv*'',
    ''y>m&7sGJwBpx=KA1P;f<gOUXgX8uC)K{)UOhAJy#Ak7Ii2F}>h5R6Ukk`Us(Qnku6+-Azb#KWi0Jy|g'',
    ''b-X#<5;l`u^xIH0RVT_{mvNZD+cL~HLu-7^_+qH%-!>|}J;?te<x0VZ>{nobRgI^2a6e9kRWHI$4X&W'',
    ''@dsC9`O)hh`8+$ZZ&CPpi-<6pDdSG|p&AH^-M(Dkb<m`!#Gm_dDc(+b7;fnv#`@&>UFd8v@DC-C;DIg'',
    '')LSJlU|uy>sjOw`R_>Ax^3(?Y1PL{it|6T!gRB5P4UKVNmW{E{+0qky^&M0=VK@%fi=3kWw3`hALcE?'',
    ''0;_!Sy=F|VPpGe}bm9E5KW&s=0T-^ug0{uYk8PXIe0yb*+Qn@NKfEL955w|K^f&pF4Rs5PFDfH6qbti'',
    ''ww1vt`g|~{j@dmjc_GsvSXoL9?k^7AArpP$%fR${6^5eZ6pzk$)qN3M=+sM`2vbP~LTv*(`w{C+M|ED'',
    ''`D?(|UdeFEqaLhlt?(QR9r_K%f^y+=5)K&1w6^$@Ra=U-#K98c`KB!&liP!%o^@=yiC);kGw9r;wi_q'',
    ''=nO4fTCWacUb$^gmEb0|XQR000O8HkM{dmp60f{09I4F&+Q_6#xJLaA|NaV{dJ3VQyq|FL!8VWo#~Rd'',
    ''F5GMui`cnzUNn1R28s=ob6q8wCqK@U1_DNs@_)W#cCCqWB~V=IJF%({QGytb`mET&S5L{rd&X<XU6mK'',
    ''%y{g4!&YxrtWc$>c8{#F+tm*=GTCZ%V0pf6Y@;F1nK;x+TgEp=$;LwN|4$}iT&mp;CA5E)X`fD9S2$r'',
    ''NUScikY{Lx{>Tuvy*^2!i{M`r*2dL~%ex@gf=K^XgRApM~K=QNJN-x=O8jeCW=Ep|J@`KQBxM$b!cVd'',
    '';_!S*DL6|xiVe{!XB&4qyxRkop3TH1C=D6G=wF=+`k&Tvw_*WjRzP=2a@6ZQ9R|Mb4;`A&NP+0y<=e}'',
    ''3Y{9+v*utp>emEn#sem3Po&GNC|#X6rU0*$(V4Zfu_C6+d7s7f4n}ZcJFhdvksngT>>7;b%IXx?i`x='',
    ''V4qIdvOHAwo0?JYBbY5yI~YsG#{!GszQLtCQgFq6*$kxk9Jk_;)(Boq#U?iIzF}Cf;P<Vf${RlD@z1w'',
    ''%PM7^5KZ8zg+$~0%0_K1!VFm1Xc~kg=ra?Qv0TcGeMAipil)JGjLVW4021${d6$=}Fpq3+ZEYSO9^4o'',
    ''LhnGl2Q<+c?P(4U)!Pp0HOXMzOHDH_CDkaVP_1o+RZ;6-V$!8QWH!x$30dL=?6vpOWg<b-KXA6}f*tk'',
    ''#=rK53zT9;YH0v4-M97Wl1>8V<0Q`p=CMI8Y#^Q*g|#*m107h1-?t+m>*&jCnZ*t;m6%+yebtpNR=Wm'',
    ''$HGW2Fa72n`|O7Q^Qi;5x^`Fr4@cbBHxszRVz1fu^=BHMjd)JnsThN%liW-1){dh;&2?y2r!YyU;uS0'',
    ''@vBhbCs~g+9)bv^L%bVZkOy0*E@vPn>SCVkTza?jfoeh8KF;Z7g@(1Gfp~2%;_9$FsK;OXYKz>ij0@;'',
    ''0nMFvlMZpK(`<>~D`(QG6neHC5R?e!wMRvMIeWltIdZ+8r5Lxok#?<2Rx}#thtqqI^?E)X_)}Df*LO('',
    ''zen~^xC15LvDgynT4#fD+6j#uM!IRQYl-*@pZnNp4Uw3iSFMWl~F!y}I%@?ocsZ{=zY#UJ_y6)gnl{~'',
    ''+aYZUC2s|G7SnT)g}2;AmcwA0hPpwab=*HqJIiFi+cezuz9zOZY2_EUWVN`P7lDCzIamAI@v$8~RpVS'',
    ''KG~3jD%F5KHC`mqIBl-$=NFCC>Rf*o-djpccCdccnb6W%BxL_egOUzHpDdM?sGO%pl^q3tT&?HeB99m'',
    ''#4S_ubcRJ0edmL{30w6CNM^2q=VV8o=kDukVwB(q58~X7_!ij5*+XH4EA_ej5U_xYjrawXzS-kE)67W'',
    ''=clTWO$oTm!AgS!?3hDObp)wuw<%+nV_a0(kLOn8GF?Nd_n^vxTXIzzW?Vk>0)~b34)_(Q**%C2SkL#'',
    ''|?7<8`h>F2;yX8eJ2mS;>QohrwsfPiG^T|nYG((@d4YcOkfKJ*O&7%<fw!;PAE+g$0_pr6@SoCcJw)4'',
    ''ePoAhNKx;f*zh^TQGokB*a^NnQ;-=W2W1JW=F;y$!3Jw6-4V9+RIe<*~@GtLQYPjpi~j`PVKL423(B~'',
    ''Bynwomob4y`rVNfkh$y=~Zl`X3q<HPr9d44ZOyRw19QM733}Y@jOH$f|_hv7xI~Q|~k{A(Ef6Tet%YL'',
    ''!@(S^?YC$c4Z$>jZdfr{c5pkTv?6cPao%?f!Xtm<o-I-FN?&q^~S5sPsvDl#CxTKKMD*Db4c4IwG1Y1'',
    ''nO(bkB})dCrmreS$z$lx^3be>9xBiz`TQcmvfS^DeuL@R;&`@vNUcse9ny5g<uGRLbw@@IiEyn}j(gQ'',
    ''|6F_iJf{L}b1-Os7v!igE6~@%v7+?TW9;d|hS2P*>(6~ckvF8=KiWq2CL#>RUewmI;RuxKOIkO1Plsu'',
    ''^_x;-GJcy(rgNAUtPWO+fEyvSIlqMmdfIsBhF5WnwtV#4C!rmu5iLLU0{-*RG8;SNs6^789k*z^BK9O'',
    ''yRjMoZd<J`dXl9R0$+>l_T!ZRR~gDhOC;9Kq1}{{Ag1Vbkp9vrp9H)2Y=_f_Y@$8ak9OXW3s$RP%m?s'',
    ''ENAN^-B^3T{l0};9?pj;7OhCJ~F;B^gF+xiQE*OW?tY96cO)9*uAgdp`IEr)MIu9m2ujg+}KcS>P+3e'',
    ''Wy~Gwe(opd-Ifs~3|$s%!EV{o)z+N0-}$&%Ww;Ms8b1`|_mP5bUQtee4ciHGQ^eTqVwu0d%<+V3wUQ%'',
    ''w<dor6@nrxm!9D(X%hs`(&Yf3aK%eLwi;=Ks&F~8RvN%MJ6ng!Fb|L=j5gyXSr8-qoaWD8+RY968oQm'',
    ''Vi<4%5J?xv8iwL`i70}o+0Nk^yf@sgwIE26Lsp~~4ahk^W{$}7tUB(KA7nkWL~I(oiEJn(j_Pj}Uq<{'',
    ''X~R)_r>w4_|Ob+20#QCnHriWPLsYVH$HIBHtB8O`@*=UFQ2+)QoPnUv$}PG!EVRNQ(?jj@37p8Rm7zt'',
    ''*^QiYV|qI@J+b6_jjXd{Wopt32%MUZu83zU3Zl*`0(od;C^sDtWfQZ3zpB%U#^Q7UIKM8hQqgnEYg|f'',
    ''!*kkrZRU%#U!6BzacGJ^(~n$8e|O}Af|ZH2Z;X6^QdcV1wDm75)9)nHN?+_yYev;7jWqX0ay*K0#VU6'',
    ''NYr%EnRc<(Nlmm{usdIXpLkF<`15ir?1QY-O00;m!mS#zrC#iAl1^@s+5&!@e0001RX>c!NZ*6d4bT4'',
    ''0DX>MtBUtcb8d9_&WPun;c|DM0X3YwB^A%(I5$BC16$9Cd`D1uGgX+oJBJFP_;N4C>a>9oK7p2tqwq%'',
    ''CawaD0H+eqMjiiy!0r{++4woR}#!go!-oN)u5wpS(2WW@)CfBy%_rvebl@j8p|Rxl}Wc32l@Z*9MOg-'',
    ''}k*-$r(x0yf(GsX-dSblFAS|*0QJ#Pu)5O1#^J{J+GmVy8Y5i?KwG>sFHNfOD0vK#ZxQH@F$a+WyL+u'',
    ''sO6bQ;K$MzaxxL+B*|o%i%Cn)L}vbQJ5;wc>3Y}WPZ_TaxwPaTl#;3=6K%-ktfD4CmY)>8VPGbUf@c='',
    ''3R>Vj#0GeF@&-V>!!H|v#744F<*4iA3iZZ6S*3YU~aqQB!Ee5Hc6SbumvFWo~l6EH%RoZ-#^Un6=&HI'',
    '';FN^TZXJ#MgEyIpS^14yf^2@38qo|6eTsWz+-<1kv=4xyf+C0|xM__Jb9kPB%--|_lU{9Q_{m~HBZ)t'',
    ''BN>FD233gt;gTSK(O7B6hY!(aV{ERR|?m=>Nx6+W=DJ)CQ`bDu#>mPpalGd;S7rY<ozmE1rp5WShc%9'',
    ''2n0_Q(6?zX<9G*?K1RZ;;)hf7q#XZ?8|62<+ui`p+E7|NB~Ls&Je$(M$Ea}A$}Xov=$844$ZWBoLG_f'',
    ''m)94g`#XC=XB>>>t(;D2!qx-WEONvuX_{&(%3PA)&PjL_lebNHx+a2e2+%s>F3zAn!ML|!x3nn|q*~T'',
    ''0;~p<G?>B;3wM+VxYHExM;W#G2mYg7RGV&hZI*qm%uqbEHH@6J3ePd<RbG+BG<S(MsV1$X?4_&A`+1='',
    ''}D-DFA_&m`j^N>8yYWNp$k;U(-s=0q!|rtChK0_iU-*G8w?B{!%|o}L0~D=XKj6zUl0A^S6a{*eL{9f'',
    ''QGPxD-pQmW(6ecxiaoqvw?Ep9T=OMr?p`nr{m>3GkNAOb~6AmDfp;@1VJ6`8lWd$ZcbbfCe=wC6of$-'',
    ''zT*Ll^97rfBLw83Yky_hU8Qf&jYf$`kw>E#&8A7E{8od-AF@=R0Dz~)1hIFIMCOYf?-g}Ju-hA48xMX'',
    ''q-aNm&uIZU4Wu)XDcMkxHw089>lG{*U25{04Bx`9qvL~v2>u=(kk_xt@up&wIanP!pSley#E-^a9Lw<'',
    ''Utz*TLKocNJTqrLj*QAsHJxnKZ0W~)(MER)K9!!m?^x0rA5oTJCaU2>{%Zd(QL>N?cQ4D@LdbbC+P*!'',
    ''VOsp{R)!O6kFk&}Oe!DldHLj3c(wBrxXm~N^fthPDOPMjGS1LyBA|He_%3i!)jB(WP(^;FgcBOE3ZQ$'',
    ''y!pl8GdAL6?m;XNn4FQe<@J3YFYXxpNxxkG9?sm}*?YjX8iy0gNtIokWn3cEKpU9(^2LU5)O8P8Q@00'',
    ''xNYQD_&Z}V_c2W+l$fl)j#B4w`w`p$%vN&M#*vKklt{+u_)07cUNR^mKBgNc(%?ftf&T^2ANK&-M_!R'',
    ''zP$ePj2JQFL_$GNdG<)=by0Ff$D$Bs32miDx3wV)jvx>w$zmW$YiPIpFfYIkbS@DZk?W?`TCptPj$6M'',
    ''HK(n(AWFyE^I_KnT>+IJaa~};0hE=f%N586^S{v*(){wvoBCWtjvVc_W!w+u|Ip_VZ(d7<%M>ZK=>0Z'',
    ''wKO72BbSV)>OM5|G0TQWX*WmByu%EhkXXq|0pmOoVxN4Qnhu8RF&PsukM>u*S98?;fidqXrSe_3Wl%{'',
    ''W?$voBS$E}dOixKOv_dIBM|@qnkpWFWMz`Qh7><I|oxXAExwVMD%YUt1jZ5JIJlMx?{w+aQRnnXQoC>'',
    ''0r<;n~t9L^ULAcLl>rYA7I)8W!WR0aQiSdFt51D%e8|UUApA5w?qL$C3cq?H<VFBU8*-N1LHR4AP+GV'',
    ''b|fP~!^T;V5Z9tW16)x?WVX3vmKAyg<1l>AL<vk|s^K@(-JTu2lR{=rZCEXbCud)`9{_MMd<mS{!Nb='',
    ''WeOeBW&-#S!Go4eV!{F-j_lpmApMofIKIELL)w>(ozY>k7bP3XC^pQL3!9eJv8D7jW(GsvxY~PJFUT0'',
    ''zj=)=He1WpbMJrRoMa9=(*a}8s1(uA-p<_*fBY64ZKc@Rf7UJC(_#)Y<!*+h*2MwCc0r_v^hP_lGOub'',
    ''G|EC{*6M*-arIg!&P5?QUuHsLA;`jIM<UtaM1=62@@5S;FKKH3iqs=J=Z6hq0~4;kxW@l$=9qfCxhIw'',
    ''c$n_TT5+8v=Z=^x_6!q+&@W%J8zG~T?|3X7i^Cao1**1?HDPL`mj@`FjUPl$jVk-LdV)ZJguN8>M;&~'',
    ''lyMks%}<Tub0^6A4^T@31QY-O00;m!mS#zUqNSHj6#xJ@S^xkT0001RX>c!NZ*6d4bT4FSV{~J0Zf0p'',
    ''`E^vA6JZp2?$dTXmD<)E01Z^6zeINFsiY~>KD4Qvn(vh^iTQb7}fgy<%2yg*V67MSi{knS|7ytv3vb}'',
    ''q|Nl-3}1ZH}A`rSPZp0M#U%ozOhn4he-ESa->$=S^|UnVh&lEos77p|Yg^Kjt?p`VM7Y?TC?h<A=oSj'',
    ''yKaeDQg}9>RRd);wK>Sr#U-%lbKjhUfQT0MC~^<!qj$Z07lQ4_+E%FyBvBYcCIHVHD<DdMX#c=P5$L`'',
    (''61lR6ZXda&OJJTIp=_C8ZMSOd-LkmpI^Rt_4*Z?ZP~{#_O@)~{S>ZU){P=I#4#Bg@'' @ ''{FhVJP?y_G=d0o''),
    ''lkpC1y@PuS=kV8y0~Ul?o`$nc&Ve4Vhb)=rfH9|sVUCCgiN9I#I0xhb6e8}$TejY$>m(E7kRHh<XLHV'',
    ''x4!C{5a*=v*&I6>KrcA!{aw5DpOYS-0BlZ_3dFaFK^_qJr3uETNw%~EdGg<;C0-#v}lqVqdsWb}NQ0%'',
    '')36(D4r^*Tv&;C6Xq9lZ?U7kev?LSm2_CIdV+<4DVZa14NVd6*$EAj^6)i$Wi{3n=7X7~_2)y{0iN13'',
    '';wcX-X^VWozz-^U&|GhcwJ{9!r5R1Px|?><_v>vQhVM{Tp`CADv%y`|n4rdv(P=b%(?5VBGJG*r)#Z9'',
    ''UJ!Ec83>ie9gx1`Xe^Fz8u4lUWfGu=T{#t`h&Ls4kz~C-(2;37bbw~OZL7uJbwpYyWjV(`r{v2cW}Wj'',
    ''`{O}xGy;Jiu)#I!ee4a!Z1fI*R51I#$FBO_@2`67@_GnU;r>nUyx+aT)i3(P-ualpgY)absQ2F=017-'',
    ''}7v1;Wx48Ha5raAE#;14P@#q>>8^WeWAFjrLJG&fSzh_t1BSQAW2=;Z+9d{Ax&F~r!9d%${Z~U%@&;Z'',
    ''{q{5v1_uLn3D79J1bYljVbZ?F1qdxP^HPQAwQK(ZkW{4kOeI;=bFk8sWF4`ToZ^I<4}1So@^fJqdG$%'',
    ''qNz&>O<e-**Y_Wtju+(L7C7Y&xB9@=eO8Qx>jJCP68(Bmz~Oitk59^1d=pOAyfrtcALta`h?O>YMp?&'',
    ''9fu1#2O65^q$87h>;o@J|4jy=8<>D|ML_i`e*OxsDFVhxa`B;&j6~6wknLc)B5|Z_ws+H6a4?x%Rf&i'',
    ''&;Qu!;DCPn=;$cmb9V1VVK4>Vj&mn#pB^!|Rsf`c=&ronU&2Fr7S2hDR$?SxsTYD7`RGL(-b>RYby@='',
    ''$;0egeM$!VH96UW`&(aoq#w5Iy0|{d`PB;9BtRC6<`6l+sTES<)GK_`3N;<M6j<)zc<vxHd3@~V>SPv'',
    ''lO=~m!Kgj6#n5vTr=`*&CTo<~Rg(dX-&_2~)iK+Hqx7~`A>|8E!j21=mi$Z{|Cxp>+Eq;g{jZSWqbNl'',
    ''*1{9>H8NDH0?*lLN{VVGP|RdKa5_r*wA!_AM(<uruRBd>1DVv0OnCUo33Fv%bbHeViD`XS}jQT5}9yE'',
    ''0?^|XnQeIgfDoC_SIvp8p7t)5+Z}fHeNKKD&-};KO$M-;9_Gk;_>2#AAVqd<YgJU9JI?R`i&I7B%2uF'',
    ''g8G3oS276^0vdT3fi6yX558sOg3;{z0y25aY!l|*EaE8D8-Ne|Kp&t%xQGh{39*z$H9dnM0?30QN!DQ'',
    ''zxDx3QH|q!h!8!maOeMAfz~Db`LRbbQ8zwxUGxjn`lnlOy{*sYOQYfUC1HTS;Y2$Kb0tP_S1pJVf^Jp'',
    ''vLik=5^C2?2=t}B9w$Adi+JP4XLsh1<Waur!DlPDlxh>qXSH(n&RT8tF|3I!JhPA=FOVu-<{3!sC8#E'',
    ''@!oe0<zh2$N3_N%6gOt59@d$Wft@(*@7NoUf)+C*#q)!|wRjP&wicNHW54?Sl<j$~I9BgYlVb?#GoFI'',
    ''Rvhl0gh;{7%xaH7eqT1&ga0ZIPb6wsfo0R`6C$gaK%llp=Y3m2pq}^h3MP@rV}#e_`GTu&__7pQ5$8^'']"

definition DATA_18407 :: "string list" where
  "DATA_18407 = [
    ''DHFJ35c~=xuCr6^@G8cSQ7+pS%R;NUYY(?5Y1T9daEB4_e@$)0ZZtQ6Jq2Src*}$5XM-f>O+2+v`8QL'',
    ''4J4{_C>!&i+KILnedI(GY320ukuZX3CUZ%mm;-ivfRa`sNup)qe8`j^dJSc7!3Ka&AXD?qjF|su7Ur^'',
    ''unsS^QpaszZ#q3GFHX%s>D_A2!|<w#}Fp%(Ca2(r%&syNB)CvHZW^mi;QOcA$IY%U;($XaBZSVvn?oo'',
    ''K#^lsn2?4U0aUUk^U^hU4i?cRcP52j$E=ZT;Q(>&;)*DZqRDFU-FuFWRSn`V-#FHgmk`K5zfA)fTWmT'',
    ''@NoB0e#M%JD(q3wBc_{@b}`ndD+iyeSCj#(fgr!#;q~q^Tb%D|F*wlq2PtapCoOnj5p+5XY7A9$68>l'',
    ''TkMqnsxhrXkXrtHL66~Y<?%lR^b_`pvlSH!A3P8lnQeH5YhVyubQpIRu1xWxa3<;%^bHc7GtfuzWjZy'',
    ''}i7*axt#U#(43Rao4Ios~7&+QDxTK*<#PzBmyGeA<<)WFfo)T2NhGLXX{b1KZs596-njW3ds`3-0l{#'',
    ''rFu-Zb7`siAhpeiX~=Vt3D%$=6oDt1Ff(lZ)DZsJw(NY_@>HKzny8Ye|^2O+d8<5D(Hy#*Q?1YEZbwC'',
    ''am92B@$XG`2RRwt5u{Fr-KZhrV|RNV_&cmVLU4UPk4odhOfQlh>CfjGh;Tm4-T$e%@jE3~9X0To?<2J'',
    ''5QYU?d#J?X&9Dq%=*u{7fb6;!t@Laa2Xa>oD3AET}JF4+>r0V4yV%&eaTbL=XeS-odR4!!BYFVFGSl='',
    ''aVg%yEtN$4LKsvX?4=|a82-U@Fp_xQkSBf;xu&p6su4Go21%c%mp4qvmn;v{cPyWwvm$u<=1K{@X~1R'',
    ''06epD2@d{lrra`v)nZdK;4>8r6j2hIl^cYxH@$i;XoWK$P+^$?62Tr>p9zi*TfKiJy*{m~=q*s&jP(1'',
    ''bt!L$Y)0$6$m&JqyB+jW)EG%>uCl_Vx<?3#zz2D@;ylc9!5$^Y%dWj8+bG<XECC7hbaifXx_hUrWt4j'',
    ''6PduT)R~#x*a}ynl5yT1@kbVI^QU;e^bGNz8-LakHAChJ-1Ima|IW|0ulU(bi78I__~Z=7ha4d%AqQA'',
    ''JH8oY3AI1%^+kNNogyrSCw>kbz5JpXINX6<!xcXgod@ve3%fH)!7*s#??Bn#lV4K`1Tn+{aFSvs*(-('',
    ''d$Cz2ri{RCELcO(ZlJM_JUmdJZDkePNQ}G)ENkrL;XTh>Hj+UM)u-`L1rL)GBXr`Fj9>x2s6|(6+Zf-'',
    ''N^=&;RNbK>A)IZ~#Mv}W6$+g94d2N(Yr&gCr+A5)7#WL%W);Lg&pmU&o_+ir3gr8C8X~vH#Lcbh-BFR'',
    ''GpKi9>-J~6lCgms)n+WqB7*VoO$M^^;WQ#xR6pQ4h%9rFF_?SI^r*3q7$lH^IdZNbcLdV<1LpfEXgqb'',
    ''V{(GHEUGxmCAIMWiCps^(i%78lby6k=GttRCMG=TcrOP!XRks8rEW!LClA#1p%BP@LAo9I;OAd{0DKr'',
    ''gbBR!<IK$o~)YEHPC%k1i*$8nJ<Zc9}jbj^d<I>L?PIYx#xrUY)dhoFL1*I4pW|%({8n^#$@Sbv|+!)'',
    ''S{N-y(RA7p8mb<Vgu&x;EG(dBlh3Kv;<wo!&crFds|S=B;wv_*FxM}zKs%jP&~#f>rk}8LG_oYz;#9R'',
    ''bfzR|P>}^_PvIy@ucZ#C7cat_vy~9LJroUmiS>Ud1DNgy$^XCF+iEM;(HDgRE1MH|GRV+riSOSBnsxG'',
    ''0K6g06|$DCb19<G!_y=+Q`r`bJz$Yo!b>O2tTAbp4{{2-pzk{fg@Ugk-*Ik#E2vf#_A7W$S_RjXR&s?'',
    ''@g%;a3e0qEg@)=c+F;d{df%-Az36AqB?%G2z(@>q=+13VvM~iJFzvDp6H@1B9MkKrd$@CM8?a>9<thg'',
    ''BY?eWirl<gM?>sOZ8)Iu@yytJT3{P6m`Ac1l98O{?tr1py3IHn28BBW@j~k#&WTra%xqJDynNd0VTfl'',
    ''AOJ0<_1@o%f1F<Q&&OC#`-i@-+cZ4?=S`UMtHi%^c9dsOK#O(is-^mp3f$10wA5`ttiYsh*iTB^lamy'',
    ''mMXSzS-$t#qK*&ScRFM>$(^xsOVdIVaoz<;jMMM&vsv@_iZzkAO<Gksx?;7$eWq)u{wa|{7Z!QK`TXF'',
    ''W!#LLzpr3oU6M&zLm%pcU%B9t(V0O7;W%^BG@N)Z*#XLSnPA_BWJJp;m2TY)Fe7adV&6*xj%=~>MaHe'',
    ''IT{YX7bcyj^fYq8qH<8Mb>#ndXjU$(G~*)9XEK!D~<IDGk2j%@c(Pua;316kfGj7sLx$UbhkQ?j93iY'',
    ''MY#4-}g>2EFFFEsQ@G~mQaNlb*P`v&X6x)#9<5&7(9jkhtWMvlDtB6ywxb^AlUf)>*<S79Q^P9g`BkQ'',
    ''rw~)nUlFu|uH66zVTKD&`6C2t7$=o|bM^7G5OzTjtB#b+qU%T8OD$<%0A{Q@8Z-6V(@7od34^#w6hY{'',
    ''4O%&r^s@ewzJCOSER1|Z-S>j%B%Qi(+K*}OjJa~dC7n8m~+KS0SX{%@3e5yw{Pq%417W$P1`6)82QDq'',
    ''02h7&g6kD#6bNJkhER}T;hfCbS8PwT9eFe;KE?mk5<#EdVI2{E%#An37E8ueS|CgEvk<t|?8z*jO;v('',
    ''eCAEGI}hSU`2N0*LR$1%w0{ub*{TMsFNI#&*ZIHb5vlQItGj2FY`LktIf3=(8jZu&H}qPW8TVW?>3dM'',
    ''md+GW;TTNJEf}#Un_DYA2{V;v^k(t(V#p&x8^ie3TT;@H-25Q{etN5u;|1PTNNNyrB=&;DYF(p4_ulp'',
    '')#DN2`)T4-So&wVM7;^=gk_L~aw*^WGUZ;7v6UxJ6V?g7hLEau`;}_}pclcn=y)#ahwc6JF54kE&;dn'',
    '';8(H8wX|h=?#oK87p{yt{#xft0Xnd;<UpNruCwbZ-m>9UME0mSTfo=JRrI)udNNeVlrJ5U}7uH}?ps*'',
    ''5u>wH}E0bhQU?>DSdejg^Atb+V(lQ&LBlx3Q1-Fcn#GQd^Q5Pq$VF(Nc9tWj9%uDsZTt+--GbdX~~3w'',
    ''yq(>ow*)APJapX-(jdcw-Pa24>R6(fcF}WSof0`^zv2w4^84@35wK2BWQIHmZ#t?Xpjz3@z6toI-l>l'',
    ''zUldu?S>-=b?BprMz^Vii$!mg0}>m*hAF<Ilkk3P4H-a+Cf>ccXF1HNO_DCOS_|&MqRg#7tNR!$>VK3'',
    ''$;bCHA4ohmYb`X8+hjI)ze*aa>OF=Q?I;dmXN;mgaEm`WyQ?wcoJMz7u@~&vJ#HR7k9bV)kj0Lg*$g}'',
    ''0tju%<C#kQ^lW+$ipz#`c5hckT^OT{XE`WL7RJl`^=m&8^_LmX{P3MB8OCxw2PHs<WyHvi@o84U^DG8'',
    ''X1ZMbn@g4|t~(OYk>ohjA|>%4=v-==u+J1tw-l2(yFlRrxg+l3}M<t=PW7M>ZiVU9GmnLu#YxY4?2NA'',
    ''DcQ8`=-Pp(Y{@4q<@JhM{ksZ4Fb7fIDoPY*>~jYq3s{&}j+atGtl~(!1n=-}AI1qZL^tXf}-<L_a6rY'',
    ''=O2;lNrq4lGA)3XXIt{)?^&$&I&rZtmA_A3>MjMrX-WkScBiZg^%{)YdBXcl=Q4w>cjw76>1e72iN0K'',
    ''Z@h1okuF&LL}f6Z7kUfqSUD5#58K94J3zINvln|gAyANQDHa8@F@%O&ihhwx6v+q>zrixz@3w#^$y`Q'',
    ''A7td0#9bTr+z-UalWuPb{9n>{YWZB}?ar5l7dhCl00!?R>vcEv{{1yjKP;^jjv45S^7O9UhwJj~Qvf2'',
    ''J7i0+K2Hl^cL?Xe?+WMMGu=vdaETE{Ai#~0Oe+iM(z42ps+DU?6IvG!8<gtYWwg9~iCK$^~1c~Q@>+1'',
    ''Me+z=KZ3(6Un#x;3^JKMJGbcs~g!lGi`-p&;<uueH>nIrRDf7~G4W0M(?fE{czUeQQ#w6-%l$Pa@`@D'',
    ''XI8cuGZ_>NK#u#*J@yb`se@*DQ?U*TqCEH?oz81Oz9A~y*(JUGTwpOD2ixbrHWroTv_Nb>4mp|SgqDR'',
    ''Qi;u$qsFE-l^~GB$s~2eHw-r9{W77tfv%`fsZNhq^ioM4E?;h1p;s{)tF>0kqky}B=Vie|SL=nW6i;s'',
    ''F6RQC_#L4V(E}q`5SyY`H0ccs!R9){dNz*6tJ4LPV4mJY-_iGvi!l@q~LS<utGI@(58lbTHGWjJ4jk$'',
    ''P%#{o{<%n9_wa>Y<ZgeKAKNA|UI2ti<d4pAfTF5TbR(kJKtN^N}#ou<}4+ItZ-?6607)E!oZWbBgK$6'',
    ''A$o?Fk!UOOzLZi<Cdsp=4fEcqoCAE#ak;f-1qnEZfXz4Tn(a)PCZ~eGl1kx_u|UHq-%HxtD@5ZR8zZj'',
    ''iIhm3khRVRTq86FuAP`wKV=eEehVJJ7S@yR^3e{s-j%4zRO1Ey^I*WAK&a@!^#VzWs>b?gu+M<))d#>'',
    ''mGvQCi1IeON)~&N24?`0pB;p=8rzJr9?_(ZgsXn`tvY9G(yikMxw569_K;|vB6*11xwkqXlCMYcqHGT'',
    ''9(huy3_@@-X1FRKEJFQWfyEl6Oc9Hw;s9lim7AdhJ=8GG`MoRKD#Ba^?Z}#W%oprDPMu4n7l>i85DBs'',
    ''Mtyb`DZ?e8{2bZjA<kaHuVRE^Urk~}0DRVpb%D3PLfnB^2!Mx(ldL*b~bI~^2^E}L61tv*1OY5>c3Mw'',
    ''n+a|I1%48dVnFu-wa9IJ#OTu`Ha)hQ$gw#m$b{M|&n(f$gtw-S8B}s(PeIK0M6iiijfBU@%09llY}ko'',
    ''yzR5OI1R&9bJ|CMOd=uP!Sd;s-Z_2Es8!F)u$W!*A&g6T9PUi#oN<KqX>z@zLKJ4Sy=XWFx2zqqTkt4'',
    ''DAjtYb*rXT<sI$m%CRor*n(5D3Tkm}6)bs_Jgg8xD@y(cimaJmRb+5ao~29HDms8|UloTYwO?JZDA^A'',
    ''6D!)&os>mjR^?jS{7nAnMzX@J{w$Yf%v}U6EB-$QM*UD*oLDfSjD!M_f^gIgmyDH~0JE^|CB7btU7^o'',
    ''^Q`X!b_-d`zxW2d~J0#?*_U`zi8P)h>@6aWAK2mm&gW=X0VXS_iG002h-000&M003}la4&6dWMyn~FJ'',
    ''E72ZfSI1UoLQYODoFHRVc_T(96wFNzEzN%gjqjtx(9!Eyyn_QSbzDbQA(A13bC7xZ>jzb8_P26>Jrvm'',
    ''B2DeItof4Ii*-G08mQ<1QY-O00;m!mS#z4PBLxb0002z0RR9K0001RX>c!XZ)9a`b1!LbWMz0RaCv=D'',
    ''L5{*O47~Rhxiv_u<c`DxxbcIiwCUDW8b`4~@O$D-K~#wKDe=sB>=`pIDnT;t>f?af5ZugyS5M}WLx8h'',
    ''_C1GZjx=dbmq-xv!{hOxgLr0{Jaqu^d=h^qX+c&Dz;78>gL}2GM`7r*7bOoiPCnoA3z_uMd2ka~IauY'',
    ''J80IX%u%Gv6uY#Y3*Q=bNou?*lzw-s)8TT!|v_$m?bLjcLmgz;aIEi5anqJ9PP&Z?Qn^DUI@`I6(u*)'',
    ''u}aPoGs(!av<l$Fe|8znz#9?X4B}auiP(4d!247I*+qO9KQH0000805+CpNdN!<00IC20000002%-Q0'',
    ''B~t=FK=*Va$$67Z*FrhUtei%X>?y-E^v7R08mQ<1QY-O00;m!mS#!MWn!qV0RR9t1^@sT0001RX>c!Z'',
    ''aAk5~bZKvHb1!3PWn*hDaCxm%TW-QI5d6<6R!9h2igExXF4139B_Y{>OX5)5P@$@KuOA_?^JuA5f9~w'',
    ''gj(5k7q7o}8PFS2%f$vu)utBaQVO*-buCYu@CY7Yy2=r-~l#Cxus?<QCU<aRH7Gk_;n@g_Pp~f+86RK'',
    ''8#;nJBfVt3@`obj$pHfy=tt>p&RKukh%5$zimD&={Dv1LhaC?sn+jrv+&oF=Jt7CE9y{kWxz$NeeoNm'',
    ''v!|49aG&zt?(SbuS+n1WiWbtD1l$X!V572}3A$ejyLV6V%BTsIGzoncOs9;M4QB7J72fPU32{dU1_32'',
    ''5klEgy7rH#4=NnX((5a3*;LG7lBg4n$^-|Blawb9`v0hAF%O_nZ86t%D_!Y-F~1T)Y)^!n{;gaL8RlO'',
    ''gS|b}Fj=2=F-hpwU!IpbuZOpzmtya*=*M1Fl9wg%0yL<&GptL$xwpQlBmaAczb-I_!&Sj4zhPiE=pMU'',
    ''VT(B)q4|hAI;Zrh836p;OeHQrkVLaHEdrLn2cRO@bar(w|y^2Kdh%DL0`v$eS0>Ye^VW4xCN41^th~F'',
    ''v>2x#;TP)h>@6aWAK2mm&gW=Z)XGc$k%002r9000;O003}la4&CgWpZJ3X>V?GFJ^LOWqM^UaCya8OK'',
    '';ma5Wf3Y5D5xNK&-<a4fs@~K!LVfWV@FQ0)dvsHa9Y<l2q(uvHyK%NXepXNp^Z!q7RAs=D~T>Ypr%H%'',
    ''ht86HDnnRyGm)x_{ylVwvhSv*{s<w)n+5)rhV0L{8EW(wkBrykZSnZa{4Td<z@K*KWm|32h#Rn^fz0J'',
    ''5?cJn-@ksn|Mnw$xbJYa6{Tqb8?c%1OrgjMVXPJ_L?~%GitGhsp>#`AJ#R7%M%6lpb5vUK{F&3a`jT='',
    ''kl@vKI#T#Uj?_hv3WZcpPXZ_B#fqSi$p3P=tJkV^}S~10=d~thm=J;n>g0KSCY^?#_AfB;i>5k>{o04'',
    ''#M{IV9Z$VwrfjsJkmQR7U>^0nEh4e0RQJc|mI-oW966$<8cX|tEyoO}@&4ctPp{KQKW?C-Y#WtQ`N3n'',
    ''vsLWEm&PV%Ap@PanLXhaR71Ek4_En{N?8tY&UotOIoyJ?=-ehBQ~Z3S%hlut{ow>wN3k6i}hRK<2MUE'',
    ''l{pk4RxR(VnX)AB;70hj9$tN*iJGkMCf$OO|}Ee3vPKFo$^oZ!A40(HKaod2a6kV59ENvpQ60wPk1n6'',
    ''QhM~s@l1rEGj-PP9U{7g&1M-9f<9hQl~=S8)5~=dUIml|i{@+g!9?tX!+MAM%;hd$(GCCnd*+3S1doH'',
    ''@?jG;XOgOcg$b27BmqW*=z`a(#_6<n&Z|MrfC#~K<1{EQt8sbhh?D=!OPQ5YUa9VK4p&BVZeeHZ5O7~'',
    ''n#jPG+bZa%6Sy(bkGPGS*Op9MPfW<W=Z*-ERwA-BF%4l7A3SJDbucaUC8JW^924o@z%e;(^VsKk-<mf'',
    ''0;ZRrzqTTW(pQWaPR8!<HtYK=xKKE{8f%$Hr{knaQzi1q^n=V!gxn94jVZwI>xwmO<4TfmjwPUUyhCM'',
    ''O8w;Ezs34>TU+hu3~#&5|AtE^9)d7++gEjYK?Ui6~~f-qES*KJk(D4vmpb2Jc2O%!#7+w)r5@<GeqsS'',
    ''x~TBHveraP1lhQA2qj+Ig0qU-EuCo4)U@^j0Sd!0?$IO+Rd06|XTi}F3usu6pc*&F6n2D8DetQ|!6q@'',
    ''8sv#Et=h_-lGmdVfi?ngjNVqJ5zCyJQl52$@g`OwV>5Aq$y2F3xfsv!j#VDHp<;i%t=dWg7%QsP7MYr'',
    ''~JRHf&xeq2Q*JQWhbVP5O<Dx!I%;X0tzwZX8QZ<V?3^vGIaQ#SLi8ouK+bL_R62d7DrWH<t8xmaC#-|'',
    ''8l^M!^`e4o_h#<Y~T*3!!xaPI*!IxSOQ%y_ImIuw#iG%d*qBjppF8W#Gdc3Ss%GgwuiM8kW=N4-EbI+'',
    ''u|v`WNX0T^LmaYmZ`q_M+s@^AEIS6E{&LEzLTG~4&TOG-qUGMjHaVBoV<hQX`<s$-absj!&yCe9w!>M'',
    ''%(M@#uo*$7?bTfYQ&X?v2uqR6iq?Dow^_!Ls_k4^JHkxZ$&X+{uGO?HZvMcQRN<HwcF@+KZnR*JAIuX'',
    ''D4mrosl-*2ob7KPOnU{Dy@^c4{5qmfMG;`R<h!?J2_rL44;P=MU`>cU28;c}!mzVGE)(+ojAhXI1XMa'',
    ''9?p-29rL~+3qh{y4*nSqmW@K_c!74PWlwgL2p*^2=%I)nFgeHe5(6?q)>47%%%;RVT$h!>9Sf9e1lUA'',
    ''@B1J?niA|Md+0m7?Ms9<q-6H-(=4pOVYHx`2{RvFI|}iR^nNy1ivTFvixZEY+SevNz@LK?B3s#PNRh%'',
    (''A!6g-UOSUbQay0?j{}TL@'' @ ''{KP#=6xP-_tvN;bjd54UHEGybAN(s^ILfU<Y@Q6cq#=hcga_>)Fp)J##w3''),
    ''q>W-4g!>K|c0yqE{{T=+0|XQR000O8HkM{dTxrr7fB*mh6afGL6951JaA|Naa%FKZUtei%X>?y-E^v8'',
    ''ejzJ2<APhzKo+7xG-e3+e+s<+*!GQ>Z);5XvABzZ<X7`i#^MBxy0WnmqOo$NkQCPwMq@=2ZT^kcFZec'',
    ''nx?xH@WLB6|O>8z0{)2<UMq=TD)52>5AOpXu}4a?zK2zdq#Vhd|MU+^{1#@_#0ciYINpAD_+-e*9&Y~'',
    ''~M8O9KQH0000805+CpNgUve3TX`h0G2KQ022TJ0B~t=FLGsZFLGsZUuJ1+WiD`e<r-^q+_v%i{R)iS%'',
    ''pH>x8z&#qxmMGe#PUR)v8CGTxHGmxLnKbeibpU2sna#dfA8+%L4Xg%_H_ECH;GIFyNlh$zOdlQ$;slC'',
    ''__-^U*o(T=Y+F`>HC*YkzFnNa>|(3ro@Lp#Yda;fjFtOFs+RE^Evv2-nR#C<?6}nKNeTC)ca?bXFGmj'',
    ''{n--Vya0jkxSXbLco3cr>dr=osrMi4b_wruov{O}8-Z(Z0pK;C1aAxSuqdPp1vlVK~D}Z*(1455k$U|'',
    ''L8UO0qX(PpTeESGf)s_G$?_!<At%38O)svN?Fc@4DNqlkxGG;Jws&(A8{h3Bx&6$)~$lvGKN*R^G((?'',
    ''T>#<Q(xG`YVCb6&LkY**yLFjnSjWb5QxdkY?G%BFlg|*v>Qdc1cRhRKUUV{bKR@hab;hoM*4j0Y-^5m'',
    ''-`0zTB+qvt6keRzv3VLE9xZKEY}Efkt}|=eDUJ^<@E&C>Zf1d>Ex>?>6d?4CP4ikS67#>uFs!kmsi&p'',
    ''moHx<CkqC@o=d<6B`RJ5N9*C7D9V=KRAMv{$}yU(CG1ln9!3*1nt>IKX0|YuRb_oQ!NUV^m(8Psisc~'',
    ''#D4}XTH;wx+3j+Lp6p^mhd^^^KN1vJRVBZfrAto1|pXAknA2ksDciBu~-jp?0$I*<etK-}pnDoS$%!S'',
    ''q&7(BSKsPp5@KD4UStthgc)a{%-WIL{R0&u~!pD;VgTFGuO;At%id<l(bY@=Y-f1k2b>-w2}AF*&-$s'',
    ''0aDjhtD&+MQs_Lg;qM!1BR~**&j1F~dvt?ELjLG9*_?idbwb6_c#2*(5wHu_(lrjU9f4eq8gtSTnSDq'',
    ''0U~)8eYJEh0ZXL*a6G4c_Tq4ej0WSpgaxd#b?hk;I0{2RhIL7CkQ6l5GBYrS0<iE`(Tn1uM2i8MO92h'',
    ''Rz@38gR!IwqO<`C`JOqUHaK?0+Z_Y-fTJ?G9j}nan5cw}5$D2EM>Gt><nZYg&+quHcutTJa<4QXaH+~'',
    ''$*bms9T$QA};p!2t)vsAOuSz!%0a^WSCb@H&D}`L}+5ir?bK3#<7h49-16yKqKB&H*H;PxFH=)2XdF}'',
    ''W6apeWuyBV=Zlj$4$`vXF_ou_}xt&@$FnxScI`Zak8rg432Oj=w;#&<Gd(h1v_nuL1l7%teII3A=b7+'',
    ''1F)f^FDIOlWBtSoY(IF{+GA8IwP_+^`<#+37tgaGw5g?Y+bPy9kzm@CIO_?)I<*ghU$wS9THaeij_P9'',
    ''Z@nsxDjeiFX;U}olUrBSqVvmD4W2FU@QEy4!Dj88b6qIbpH$Gb79U28u|Ojkn-W8e@uGyg3KTaO6erp'',
    ''L^Ms1fH@cJ9#Nx@JFlCnY}d9dTvM?5mvo9W?@B-gT!VucB?BC9rCJPJt0kMlFz##x>>gi7E;H%%fyYO'',
    ''V5g7*lgR2WCP^yuAf>|Y?_m->n>}fK_M42)J*N;!YmAAE2Xxn?^N{<5TyRre#yA=-sTwtok_(*yEyx*'',
    ''Kpv&5OSG&ZUzPYn{%F#SxR4|7(Kp$x}h2N+ta!NwxXe`eP^h+a8I3)NkP>51h^K*e6){*lZRt8?p<eX'',
    ''UB#sVNAIOlE6S3xPhjzOFG6w`5)1_&`7bv9QYO>l=jK@q5glOl-FzZ;2XLKpu|=lXZeIcp!EpK%L9Rl'',
    ''t-<N*TJeOyQKW!R-C5F_WVed7HEV#@TO~#wu$;=ZN;>pg=Dq-EP08Vk@*pMf&WK2r<xDACu$QCc<y1>'',
    ''VaBqK;yRZ1U;<?WmJ&MlidXGUcDGQHbP9yb=_rVjkT@7&G}B#!2RBh9W=HUNiQts%3LG+<X=EIk%tXS'',
    ''6e1AQg?<Z2Z4@^c$RGz6=+Xq3?lI6zPyfM&cpsKPe%-LM6Oh5qV=b#sj*@(td%&2xWGez$Jv_GQ(68f'',
    ''zx8EmoUz4!_HVD$jWV$WO3(Mnby*r5as!X_GK3s!VgW4nfjBj8tz@nP9Xy4Is^bq0#`fe&9$c5wW=jA'',
    ''rcw#ks`SJ4c<~3x(kcPLf;6{=!z@tl4*K_H7c1bfrpg4Di8k((lr5*QTk0K?c2}5WE86pup|wGM9yb9'',
    ''0A7%p*?|^so*Vza}^-0mR-C3)6%d7)8JfLzc;43LLpYPu1PqnfDBlu)0!<#o)}kA;ER~E(K^91Q0v5C'',
    ''17)SpC0QTPVbSFmn!$ghCwNGf><iY{SIg6UiHZyAQ~?nh#?^8rdw7maZD3P)5K7!;xJ~R8Uus#Asd%N'',
    ''OZYbNM9DwEAf!LsQ(WCp>xJU_`96OQUx$aSBT*Vw1SH6<M4M_rH0ADe&FLXrSVEh;!VjU6|OAh>u{qk'',
    ''E>P|?|O?$k)9%$R);%b_4^X_ggb-ews^sc7Ua!o82N2kaOSqu?Q;$D2F)rD!vze2CWQ-Em-F>*)eBt^'',
    ''wQ@pSg$r;2SU=R}#VV@Z{hP4|1?=TaBzwRK`~N&X)eKS)mWBxeh3VqeFZjUVmTrj@?-Qu_SN5ejgQW!'',
    ''##<8V{(5&A<ly5^~7dH<UV?jY%keGsp*2f-==6@Dl-@))6F0V#2B$hpiyB!bWRXLg6<+%!(JAIzq7%1'',
    '';|@MfKVb7?$YaS6L?1~l4ahjuAAmYVLIPvh4-Q54{o_;%uJWC4F(ol?Pq4(})Rv(mm&O1F`&izaB%v7'',
    ''`*ze}V3H$zdH-IF9W|o6YX4%JxWp~`XE4yr<PLKw(>_{R{eNv*&kVfhhpHh;-y%eQFVS4>di*<eZ>~h'',
    ''22?2g212d4ZX@Hohh5cF+M{pGi0`GG;zPFE)fQB{BSgnZF9(NURX+cyawZvxD@_{iQqCaSuppc!EJo^'',
    ''1sf9W_Gb6eAe+Tu&+WVgYElg|hI#RWa@7wtw6&Fx_7sc(5IH>ub?kZAFIxT5MRwy7lA!e=MN8F-!3w-'',
    ''X8p&oSqW)sl!IGq5c)vk2IG^<{04%V`VOqP@yMda&*F=i@=mU>jc&s`Ht7Oc&}F5E=MDE*-CZ9qkStu'',
    ''+Yq2zFv%%;l>}TxO!4|?&uZz(_&h#&zZHYoFh15?c)#*_+JnEJuE7a$t&ToVgA?>Xss9rVb~VKJa$Ab'',
    ''x^Yqu_|9@%EpI2kG*)yb{)pUasA-o^a@|SU#Zz<hR679i;MFIZ$%Zu$EPOoj1h1Yzm$-`|jV#VE|A}3'',
    ''fGe1vpkc?MUf`ge#Ryr_%SB<`5S{?2xonV(<$^TqiFP2wOsNDg3gaAGD?x)Y*dKsmp2JzFh1m5TudI~'',
    ''OeB`ZSR9arBf%!MJh=7yg*r6Y%vwE2nO{(g>V7Aug%(YYwY6OvX?r1SN#48r(a-(fDs)MI-|PhN-NTn'',
    ''DaGVZVW3DyUN;d6%#<!TUhZ>YN!?_Nhaf?pc8Qte#$I*HKcInMY9<2<IDg;%%olQi2)#BS-~}B?x@b~'',
    ''iA>)@Pg0%(o+BRKTu)QfBF7JJOwsE7V5G#=$(JW<Mi<}=9uq2!@YSEuqooqtf1m44`F8jB2mpl<*}T1'',
    ''8Lc6W$gze7zbZ|5m)+u9eY*Y5Y;q(B&=KCMw()N{W|Lso__A%B}y5ay5Pt7Tw8tJ~5%GI4vrfNFu%6v'',
    ''!ldM=gf8q6g(N3&WQH6mMiC#da#0@&WwlG$b#t>I%--y$(cZ#QO~T39$jnTDpKQjLaEx_Qyqh+8dBmk'',
    ''D!7@dV7oTTQ$0$nlM|VNIRr#jfYSmypfs>*&4(gfyOu6yV(8-}`$+V+K)!b`vS@mAm({Cj-=k>mCQe%'',
    ''QU_tOn;Pco1KPT<P|T#7)8}s%d;0Pi(nhFEzcpBm*kw|JB6>N`&E9wA|glY2oc#~HSfD44r$eE+O|TG'']"

lemma scan_DATA_17807: "scan_lines 0 [] DATA_17807 = Some 9480"
  unfolding DATA_17807_def by (simp only: scan_eval, (simp add: b85_eval)?)

lemma scan_DATA_17957: "scan_lines 0 [] DATA_17957 = Some 9480"
  unfolding DATA_17957_def by (simp only: scan_eval, (simp add: b85_eval)?)

lemma scan_DATA_18107: "scan_lines 0 [] DATA_18107 = Some 9480"
  unfolding DATA_18107_def by (simp only: scan_eval, (simp add: b85_eval)?)

lemma scan_DATA_18257: "scan_lines 0 [] DATA_18257 = Some 9480"
  unfolding DATA_18257_def by (simp only: scan_eval, (simp add: b85_eval)?)

lemma scan_DATA_18407: "scan_lines 0 [] DATA_18407 = Some 9480"
  unfolding DATA_18407_def by (simp only: scan_eval, (simp add: b85_eval)?)

end
