(* ===== verification/Payload3.thy ===== *)
theory Payload3
  imports Payload_Check
begin

text \<open>
  Lines 18557 to 19156 of \<open>Crawler/get-pip.py\<close>: that part of the literal \<open>DATA\<close>, line by line, in
  pieces of at most 150 lines.  (A line that holds an at sign before an opening brace is written
  as two strings, joined by \<open>@\<close>.)  Each piece is checked to consist of valid base85 groups.
\<close>

definition DATA_18557 :: "string list" where
  "DATA_18557 = [
    ''YXf7I==%rXA6<{a3ryWz2#44qsJ+$%-d}@xgP%ATIVj#(GStgMUOSNBP&5Crn6YX9{f5er@JfqnyJmZ'',
    ''R8`zY&Dxd$PY=z*#77>fS+e>s8p&6NRYb(=th~8%Y2GiQLSixXXV320{ZfP3S=-m)??@QU4>oT@765_'',
    ''G1hJC}>?3(fJ0y2SEa1DsKHh4Lqwfs(yT9KkDNPKEm+Sp?p1{zgD{Gf>JI>X^jLM;w7)dz!5x?i_V0$'',
    ''LX2w$A?Uoe2Z|hjA$sSNSdsvjK&V0dr;o<rhRDNDkWTiK3zTI*SoLDhrBiH6maIg@6EVgfBx*oHoX5y'',
    ''BQae`s<AFXU^UeDu*a!gODRMMjmg4`;CKRzu0K29to*-x8|jsHkROR&@~(DB*lc-7!&Y8qT<#xT}spJ'',
    ''-C|bdpQJ>)g6RXnv8aFo4r)FqZuu6!`v4bAtq(tPzaIzx*C;}0Uv*(Wl3-%rv`6C!v73F8*VtVS>|S>'',
    ''_tL4&QB}2GCuTi---orVQFbepcZx#kh0O0USnmmg^9!DytVF7<iB$rtAW4pj?$xGRajXj;hted39DV9'',
    ''l?d?97jd3<}?vl#U3?O?y6g_!N%m!Yh^h8z#kN4h;=tatyVNAT5jT!B`6e^YP<Vp_tkLn_`reV@b!<>'',
    ''9v^<4;5W15ir?1QY-O00;m!mS#zTZB@hfEdT(QwEzGX0001RX>c!cWpOWZWpQ6=ZgX^DY-}!YdF6d;l'',
    ''iS9%;CKBB?C5F%MkMs8#9K8ElXxxZMs@vAN%r;bN)s3)n=`lq0R#YNMEm-`-}C5qH%N}-)Na+H5}5;Z'',
    ''pMIS_?>@cl+g(x=+x@ujMNuTxu50@-DOW>V??+Ma-wz(h_jP-HT{YM0&vsD1dZB&|H~X=w^<M{FWE8t'',
    ''@Th+SY*q3XuD%T&?i@UOK0JyI3Q^n;UY_XG@Y8VmnkQmVGw%JzK-uE2;RfX0!WpgcxzHLV?CU#|2=Uv'',
    ''$kqF04p39)%YZ)96t)#b&lXf~}b(|x=ydNH*7el3Q1GE|>}q5yUMvBde&UF^iV+E$_;jug&!W&aV1s7'',
    ''hbcpT{cn;_v&a7dz36y4LIFwydkoTk~n2SbrP?=gjK5Y}%$;1FWA!(Ud!JtmZ9ryJ{O%_uu)?c|y~hl'',
    (''mq`LWU&wu%woQ4Z-r@'' @ ''{7POOVp{5>c+}#LKTdT8fcU?KEYE3y-x1t!vex6*55q@myYBf)Oc>T?bZ-01a''),
    ''s%_f4rf$oPs#p!hzOUyA{8Nl=0U&R%_u~!zMPHyq*{^R9JRze7B|fc1H^Q)V=d%Y1Jg=K!EbF?&PcQq'',
    ''vg)V&$XzjmzFf*X)c3nmwt*WNz4)dhnH@Gi~eX|jLaa;A{zN|%aJ5S!cep9@7`PIwsUKU?}@%G<dzAa'',
    ''w8{_5p7Uwr*?PPO+ijZRC>QgbV?Z@RiX$g%gku@_<vYxj}f6yg)?D?oVMsQa$iR6Wg!8qlg1^iF{q3)'',
    ''$>YjQ~cy!M_T|8{9qO`nssAhMVBJfN^y(>{ngi!Ulsfy(l-uC_are@AKqU`BA*0U&Ri77OQ<#Z@53A8'',
    ''IXGEejp0S4vLM!zIoEL{f_aP$I6`>3Y`8Lr^%bA{H7dk3~v6F{_@LgMAr*mK2`9oK%CyZZr)Vgv!_2W'',
    ''RrBjfN~#eN*0vd;D?!0QjQehE+j`(3s~YcKe)s*G@4o%^t9Qk_zrOz3uePsL!L}2y0A1BIHdO%{g8v7'',
    ''kk~5`>Yh--`lk`qll;d`-=K_A3_p~?F7aV#)Z)n|MA%Ebl`v6A_G<T_(NDj;N6}`&}qBKPTO8~v?%dr'',
    ''J=xU|S;{!abO3tb}rC=NpgbslWQHo@Irb%3wHSB4B%cy>wHumecF04h7KZ?Zo9Tb4hbWgp(Z|J#SFtH'',
    ''&R%X8)4%mY-2+t`AkdX&XUrs%^4kNchmEXxc)T+vV4NyYI4RGhHV5_FTfQ2XO=vzIZ^Ndsy?n@k-1kT'',
    ''s_`$E7WlLKXSmbHXu&saIM_b;0m*33k;5a0s>0#IG^jf90o<nEH09@tN#$|5!&JXj@^KrR*glG4Wi!S'',
    ''uKoKQsQ69{1>y%VN@^ST<`QQV2C=C|Bpb_DB}~U$PltYxFvzmyPynfrC6j%(DMzvVuHVP1bqC}LfO1?'',
    ''Qkz7?msz9EB${Pi%Wzx-GLtu=+>vDY~Bmm${fM8|Sj0|FC77|CE>s8DQ9suT41MQ|}Ei#%K<amgvK+e'',
    ''ZQCk6`)K4X8l40;0<0j|9a@Mh)|V`dZ)0zzoesdmT_wScsAxb6TgEQU|H*%Z6s8XCWNjj~_+ae&qN2%'',
    ''MczGf!T$NFK+8m_+jDivWtKp}BOK%4U+X*#H>^`La1=t!kXGkpI$qdv>x%OPE`RmC&GdUFa74b!hj=P'',
    ''LxfuT*f<QZ^d{MT0qUW$T>#XI_qo}E>Bs3uoJNTEDHTXE>U91aF<E?Xh=UakA{onQNnm4dogpHb1}`K'',
    ''07%dE26oCb`oO>LYqLq=tNFt(q_Ca}sXyF8W{V@u)_-{WLvDL0qJDb)EUZljrL4c)a!4PrA^hF;6|j='',
    ''BF62x6k6W5a2z=rn_TJQTH{%iR^UH9$RjH*aZ^(RrLtX`i@whhp)*CU(K~=M5!PDkB_&iL$yMeCVwDo'',
    ''34Mwk<qn7^oyj;!`1c`#kZL5*0)LM{s&d?;%as}4zd3tAAafk(v#z~2Gb?50>9j`Zg@=?=>Jb+rZ+=B'',
    ''|R#gWds9LEln>8_8!1<Yj=DT(_XQVNV50BV~U`SY}cZwm1K%k{UrW1oQm>-5A?s0J0)z(ARalDr@K(2'',
    ''z~JKfM_Z|`Ot=&c3*ESXgB4pNLE5L$r@Gxm{Fd52@G`I_6SVYR6PaaHQuzF-0N|*5rFMSx{S<^Ctm1{'',
    ''Cc6S{OCGxMrjy?SF#chI0|5{xfS{J!5!PqeuTenX?(4+XYFvQwOF@Oj24*pwTTjkR+HInRQE&B=3|U0'',
    ''i4nu{*>D#(Sx;*nnVbu<r!xq%slu0eFtFhYQpf~LTF%LNMqHPvN90uVZ{@;P{4B!@t$ggt?+;A9Rxf9'',
    ''fD5~J6!-l<=Bizk~Q)lxUJOh}yYMgmGRDp902#fyw(k7`Z?2beHQ)pV&O9pd})ClapY=U?0!T7E)FRQ'',
    '')~|6F>(7rJWJCJ+kY$B`Qpd!~^qiM~Z66QcG=I;x8nY^1jgWC-SU9A$qp12P0t?o-isUIjB|c>#+bGW'',
    ''=i~{=cvdSN{ACsj>wH#fkNf)lTx6*LKddWpk74g2_^j(pkMVpkO5K{(7K`r?@ENuBv@m1#8Uta;%M2A'',
    ''1JcnfMV0L`^@J~nzgw1)41QZmPsk1JdW53-Gw=-*DC!~O0ZwQP=4WhrwI(s45wIqK^GQ98m9SRF{EQX'',
    ''U$e@123MmYk-g2>8HYQoWEin$@_=`U&v%t(wNQfSYnY|jMFhbQ+8x3aE!!z1({vzI6>AIJ`b#Za=B{5'',
    ''KtXPStX${VYcy}G-p);Gzny1p5a0hZRNEmNss=+N*8&7y54CEE*7#&n+G&R~GRiN1gPRc?3ZUR#>9LN'',
    ''qQC?t6QU#l!+Nvt^Qgo}@?imsd8mTd=-?T7?a{b$KX8RK>sZp{uJgGgarwvst7?OBN<ww)2!CXdZD>7'',
    ''74X11I6K6@j<#3*fuV^I2<EB6OG_F^>Dquv!dh_mvXsMn9+hrlux}VR|EY`D`_A}ZNvfP8kWw(1__5q'',
    ''7=1o6;BKB+`#!LR`75M{Pz`|lSvNyXCCbAx&s;!L2%A98p<y0*I-4oekk=aGLufUIR^vMOy;N#^E?(&'',
    ''U`>0pM(P}ME&~$8V=p-}=XjoWx+wPl9j`}$HKw{-WOMtyxmJ<Pn=~-)PUUl2C5S<G-b7rX~OH%V>OwF'',
    ''YmZF;g&n^wYfIfflW=Rou(Eh3!;goQzX7Chf%1xlv`q2#xkNn4{G(*dP<G~g%fCLo6ZU?-He_ZR|nXY'',
    ''FC~SHO7GCPYo{BLaY=eem}RR?Y|DO-MVIJnU3z_OL5(8M8k9kblUZ0H>hRC~$<UWDhGk6ZTk75*=!YH'',
    ''uua!u!qc0X++V%0P<0Zu!~%A$yR%ALZQTrw02;*YI~9;iweGyMJ8;Q7mtSJQku7@fn4!s{4E_c{vL^O'',
    ''f`@3;CagrjppKB5dwmUzx4cGt&S?Y<V+JB6+7zHA)JP)G?kZ5hRstm#lqJ%AgB{zXQRT%Q6HN^oa8%P'',
    ''aVwN@l<HtBcz8NUZp?-faCC-S{feoJIVEo5e#pQp`6Lo#T_8wB~JT79#gxhoF*r0LSGM;vIxfW=n5`C'',
    ''IHRz8i;H0sN|?8|`eNmquod!dKQkm@NoXoej7OnnWQthQH%m^>tpfs(Mm_-IIBXXwJYO}ip$l`?*+vQ'',
    ''A5k7mnniK0C&}X`?513>ZCk%k~dv0UYhSo(0Vr47~K`#qx@HMNfK2@NrDn9)L55$g%1<sW~*(U^S-(W'',
    ''X)P8*K>w57wMF8&Dl8Di!Oq6vSj+lM}st{UIJXB^FHeTgl)LHfo+5Zsc%J*E4S)gW9e+}TH|M?BVF6='',
    ''al4Z#U3&AjsK)f@dAsh*jhHK{R<LK>)yZCx7ak~WIZ7iNq9gJPP`gN;B1aEW;<+q^LZKA3%+CC#9VHZ'',
    ''l)VuNkV_;%UIGZf6jqkZ%2!)hH;>n}sFtDkxW&YN7LaW)=TW@q&fnAB4wn@iiKd_ybIi#d+z&lF(Kz|'',
    ''zfnaaR0%lfW73}l2JSxl)9b2bETs_hn76Ld^A2SaYC0rHz`P%30aY?xSJ3DzzL(F5z0W8NcxzP(GfG!'',
    ''Y0Bl-_~7-nJ$3)xJlTxNDIsa<64?6PWQ1=plCrdWi8RBNPQ?80LOWnlXhOZT4n{fd`Y^v}<8Nm9$-t)'',
    ''y{6y){q@q1v5P1b&--1BVdmIDXg`W=qb@MBt4ER$)a@H|LCr?+kT5yc+1D+_>}w(2F>L>r~E3@MdiM8'',
    ''l{ndD-Qa&)9^)8Nyx)k`{yIy)AJ9T!FCfdfNVVq%jNIUV>3VdJjt9NnwM;TWcoa{|jqox731mqMF4_2'',
    ''yVA<a?Fz6roc3vkXnn$oOB2I}h2jzN9qy%W~##a=WQ0_XE=?5UB3u#neE}!MkaZMS_=g!AJ$#1a4aqK'',
    ''e@C2H+L*-TDA1`=&%%Fj^pe->4e8xStCYQ(8D#b>$lM<XlE(&ZAC1^!*8GmGdNZZj=&#CM78rEB@0lt'',
    ''=zQ=E;jcp&WP?FLpg}lE`RZTV!>7m){Yqtl3mvrSq5kA@NU}rQKGgjK!esWUQE%#3tBMvvoKk1Cskih'',
    ''fpYYaB=|kYG{)?A$^np6uWC6dw{+Le8B)k?aF4Aiueb-1{F`F%(cnm?^Y(>@d?EM9LR(t)T{FjRW<g$'',
    ''4cyF=5&Bo69bh=@h>o(!7k$LQnulb)A4U%eAM&yeNjB`EDAaEDyY4W{lkb3&Vy|UTAqyg`aF#WPXt{v'',
    ''M(}k-mEN3mDU);s4w0ML^I33`v3Y5-wA2;|rOBVzH2}oCUi`3l(kr0uHn>fTbeC~snN@ffV$!g1zMX+'',
    ''w~fD#_FRQgpcz4_Ja|Mm6D%jEUIdONJ?N{r}hB()9^MxrIIi0<m2lkDc2c>C(7-h$Q$<TD^|I)u=+sB'',
    ''v^_7Te?axGa~P4#;(lvw)bbsqIwu!c?<JF**IJH~-OAO=iWlvb11Sh4==Eu-&g)*cVa!!(fIOhCI>y-'',
    ''ZeoWA4U#qlO5PK=naokp4oho^h^?+eS;DEcSJD~MM#kCTgx1f1EMo>0+~p0z=v5JL<keP;g8r7HYlzI'',
    ''{?|73fdY{MZ9qk4tan0mB*j8_qZ?vk<aO2larxJBj-KEe`V}a3q8}Y5q3T7;Ol@eVj5jOB_GHJRERO>'',
    ''`Czz%YcLBTz9tRzAwyw8rZJ6H9J==qjexdPFX@?A*Eg+u*<q_q8_>Ymz$g7YDfhJTndl8z(J$s4ML(4'',
    ''y8(-j9s3R@RRjOr7p{L-X=?E*L*%0#p$ApLW<eR~yW^CNvTkgT8@I>|!^G#o&4XEA4|(7-P2l|2#76h'',
    '';>wffbFVn^0MhI{hXRw|r;LpTr`rb!(cw&ZgBebWj!DfjCB7Gjq5_$or>aCXCifbWs}+hy6;EEN#n14'',
    ''@#Pz?4{pBo3dE_NG`r<WmpH2M-pS%8-OK^DZvkZR;Q@+2?%29?ca?LU&TFBLE7PgUK2eGlBEV{I*YG2'',
    ''4ameBzhOF{;<ilv+;t_!^_zP|6;rU48nVwVe;t{-_>v+3$t@bpD$C0zWQ&yZ&_Q~k#xCP4^op85y<9~'',
    ''x%kg@Gs<mYqfh>8L(3vsE+5>aTXY08B-W<l8wt0?c7eQ1m3KipsBg8nzrdqcf*9Hzs?3@4noY3D<cDX'',
    ''gya_PVk>bQOkl<BbgnTrOS$Uqsvqby{#BfW&)qX%{t`WsYbBh}f;(|P+TAX#B}$25b%Cw<E&$`UoT2{'',
    ''~CW9}P1te$gg1Tqxq!b=JzVZ_T|$SHHrI@f-J2`BKj7Dp}>G@ROp7&6%vs$A)!Zbr=%w9l}yx9KFhRr'',
    ''4^8mV!gw-#`lOb;*(hKNuvTJU#!t;M_{jf3g$#bhNMNqeGGsv7K^4`VC?8(y}iD0VQCi0y)YG%_o@1p'',
    (''UU{VG2Q+S@'' @ ''{kxO#04NeKc=8eD6Qv)w?P%=bBRXM2yMrVdxNns26|K}GXi5#OW!YE(;Ls4-sP|~<^bHt''),
    ''&3lp~sT=hpZRW$=NZ1!a0Qg~AorQUktTorzjWTBR>W+@G$8_apd%!V8(7<M;Z5M+Ft`YpLb@lI5R8_Y'',
    ''q6$9`ksE?VDhmf>i_&34n?;R)P!KTe(TTDQ9$kl|t@hV?S-h?JXcu2IqT5+h}g`(a({rE}((mj{J1qO'',
    ''Y^}7xIwu#TCfI@^{3X*>-fsXn78AS7p7z*5Mo5Lmjf!3r3{(!50n1?*BJHVlS@ZQ8sNCe?L75Vfm}m)'',
    ''};wM#L;j(F_xQhEDLG;367bE3&jHsExz%ZTC_$liqqPpC*^3M)UV)?6OmFWY{1Qa4fITPi|h3*9g?95'',
    ''c{E^z+9y1<)=z<Xh({qwA7mMQ$R}d0CK<CkFV>d;Oh}3*u-SoV*{Td(gOA#qEaQkmrR%)V1e*vrK?pb'',
    ''HP^g|{k!I8rQ{k-lAz)M<Lcr(BXR3m-cQ`6)1YF!WIWeBtSO~e6-qHC;L$WRwk1Uz?M;%=<PvMTLP^T'',
    ''F(G92xS3uh3YIMJ0A{}EQK1~)LA8fKg9v;a9C$um6+8<Zze&}a19kbDFU409<sRiw+`mGwt%Gal86b;'',
    ''(ND;Hmo@eo{m6!m_urJT^964j(L$vuP`fN+9?=OkR)Z$`naU@dm)YfgHBm<i{Ve{*OPR>V$rv9f-4|F'',
    ''RK|S7!fjzsBPA0NJEfFU<qhNnMV>SJofD#gLWt2WbcGXZpN`2E}uNP21$LtLT}-d?$DJ_V7;Go`?`Me'',
    ''`_G=|@$pzQiXFm%Pn|dB247J82M2m$t+F}LNiKE{IpMP=JI4`t@U`mOCK_C*9t_bwx^(y`?5`!MI9b8'',
    ''2L|aB<C2W;d)sRR@;#fp%^`BYN_GfqTSNHI&8u-{lc}JQQI%iTg6ri>>9ms4yXN>y@vfy*pro!i8@<l'',
    ''zgGQ3El7Y6a{ui?J}rfae$MUay+vP@DenkEvd)r%qh4LYgG8pcnGW|O^-BhTqMV{m5UVe?mEHHVIFsl'',
    ''pbEoA)qoAjHi^ojEYH{px{Fv?-8Z)r?33_c>*dek1kWC(2q{3F#wnqyC7NTb%QRY$Zhq-OYLOA=D7gY'',
    ''5OA9wx>12oZJcan(x>z1~eDrq9{y^+}>Ta{>c8VwyVXhsPTKwJ~9s)5^PZpReeA;9_y^hLb{dCTMW1('',
    ''>maNn#^V~lJRY#}p_MWL$r_J-j%B|hOCtsh0ydLNWZ!q~V8@loWyU}qJ%6+0Psy_*3>u`2KB9!-^HCg'',
    ''@b-7z@%H-2!@(Fm#9#fu}(=W5+akQd|%&$j0B!d=4zdC<Hl9@a`g%fdyhU+DE7J7L9^y;`*IRY}k6N&'',
    ''=;7`H^CifhuOS*o5CIbHdd#O3tOzy0gt^*67+O#=xRzei1hlPVc*KLw8i4mqN<iul2(TS3&aE8be2n@'',
    ''t%kyL<~H&S-?vAL31Mm#=F;$xKe59iliC1MF0wDe#gL5XmFecv9qjmjCY0vkzC(9+uE!5qAc~y&G1np'',
    ''@ztWrjSCmj0>HDenPQPdEb_SWg(THEL)W2SToUfv_}*eKCBffbx#~Y#T1AI(2qw0pI?$wgXBXsHfbQ9'',
    ''FdK)7#3s<?-uCTxYz$>Oj_C$W7uB&<rHneK>CeS@vv85K&(Xoer@}%a&JSUZoU@kLu8^S9F>F^+)Y^I'',
    ''&(RzGtF1{=qtSl2#^a3b<#X%h-dF8D)+93}7CgQZ(Hy@k!uDO`<3QV|5U5b1p5<_RRiG4icw22-n^8^'',
    ''0gp+dE$IGaJriLm2U7LPN!m_APR)>7w1=E=pX+~5hh%j8jiF?saFUO;Z~Xn4x)njB}8t-wE`B99hBZ='',
    ''5s5=mrH@4oahHi?mF>$s{m`bI5OQC!k_sz^Lj@<6*!x;cF-)Sg>*~6Kte2EE6^q@d<sc(@;VPa^0TJB'',
    ''kEuJeFFdmNl1!TpfuIDb%L{%WJF756a*gB2Jz4eM^_VUZ*G;8L~iSHKeh#B<m`8`L-_i)PUS*Epp&>|'',
    ''z3=gi1Bi%B$_}hHyXir!P^>o~&4S_v0_7G3R8mmLNYL{M1FFyFlYImK8Y%L}AMO7B_@g?$VF7<DI3RQ'',
    ''colDeW6b7t>+3v>y(<_j11D$kTFSgYufVR+3=&XgFD<(atjG$pa>HoHhPjWJbmT3sGNwOY9D$Em*yBn'',
    ''3n$5<2+O9ID5WIw&kNQ9YU7AEmbbe-%C4TNX?v8c8(!Kd%xWZfu|xbz6E)>z>3s=0j_TWl^gB9ak$%G'',
    ''*GC!!lwW#(+eQ54Tf5J#Z>2k=f1onc=7Sfi)6J?R212HXaR1l1@xVv!(#C^wGe~YOb-$Mv6y6gd<T0K'',
    ''@Ew2v9hJwk3rL89E@i?o`DFrNsO}FGi0W<YOEZ)KHmK5IVuNv9IWC)Q0UCtl>G)UeT7k$`EM~@zu}Y+'',
    ''OU7C<FmM?pv|<!8c!|n%+Z8JJEhfUV)8L*cZUXE<R`~hpFUIg8<A~hpcEix1n@ZQ?O(305g_pNN>qs&'',
    ''La>-Myn?|ACGw3-53?vX;P>3&Uwh6H1M<?*s9)3x%oXtyR?BN2omE+iRQw4PWwxUysDfR;d3iLZTu|b'',
    ''9(VdFs6d$c}mS~PQDFnOu5j5-Iz{<-SY;0G-~1je<~IlktY+=b%GiHqzV#%FjPo}06|w7rosf0A)hom'',
    ''q^Vx8g^SB;AVCokSqteECpq?|T73W07yc=}DQ{;)yOfzX8(Ygu969?xVciY^HEZP9S}CJbtN0s0Fd{e'',
    ''Ec-}Nv!bMwpMyU+7WDu1bB|4Z_=6>Z-|9kOpO$<QG1lJJTj9lImR1jKIYyK;<nfL+t_4>*<tiC3_3qi'',
    ''k^xR1-DT7B3Yg?auTr~)4Iq;_E*2QGQ;UV%01LDq_YEF@UF^yRcGBj_V$q8=Y)!=;eQ;acYo5FvU;Ys'',
    ''=jBJ%t3m>mWmNVGcCNud|eSCCjO%@%TnS>Sqn@&CJG%?{u)MG7x#3TB~!$$DwIL=`5dldKm$#jr=8Wb'',
    ''!R5wcDhbIe$-&e{?N(M_1SGuD3uqfeDi9w#YBnEr}d>t9#R32)Mv?J_@i=G6TdWC4pvSKr%`RT<~EGU'',
    ''y}&31UVzC(1_}F`KBo_DBI>T~)9ikA>{6Wx}_H=+nFU98C<|UZ`{}#2-la*-v#?b(30+K%;{?UD=NnQ'',
    ''WTF3%gXtM5{!&BG!zu0x%!U@jZ^%}UAWlNYQ*;VyH9Ye)0ukRK<^Rda8RaRuRMona?Z7JeFMs-;pY^8'',
    ''qM|aTmwl))8y-yDZ5bTsta6cCvEhrS`Dg2A&lcU`dHxv!Ol}A7bMJgVkGY3R7)_NmM47c&dtb<Y<ko%'',
    ''v>}tAt7g87XhYX?cpiSqkiajYdwvdhG&{%pBO|VOu-$#&Q^Cy(3#v8kjLHCjx@q-i_UEJb;HCE#E)eX'',
    ''68%ph%Kh$+BROUeY-!+1~f^Ko2$PkfXi@d2-_2xL!~svgDQA=%!<Q)?9+Eb}OOPtrn}GuzUM+YKeKoT'',
    ''=1*QCDo{f?6gXp2Q4uFF{Nv`S#IZ@}co&G@Do(szJ1gMhm7HDZ}hWwtL|O@g3PfXOJpyQjcuFb9Rsq?'',
    ''f=#$^5*1-ef5M-1}zkH?)#>_b2L24zOzWaM6=oDqz7i4?#e?-W@0fpj`kmx>W6P_@uXE*iWNaFpo1?t'',
    ''hodPHZhCoQL5Y02rV4tSs%!PfzS(DrI^csB56Ls<vc^3`V7Ib&f&!lyQoEjUhM-PU%tGM|#v?C=nwCu'',
    ''O)dWd&t8z@k<;Ij}Z7quP)>t%Sf8b3Y)kVxHrdSlZN)~4&g`1vit2oGdb+yBQyy4;!Q<bFiWah%)d%5'',
    ''@y2z^0U{;u4LFX@F03;5mdB-mM`Hqqa07j8Orvr`smBL(Xnk$E{r_b4q0wTQDT-SAoJEya|9fQjsFS?'',
    ''|d@AR$$lZ{jQ%vIqCsG5DOZYw(%gIU$h9?!o7L^!BWS-UyHGp{a(B@`oe6pe=SZhHqLq{b%$e-<3_Z#'',
    ''lXA&2RgK1bVLpINN=W0*D4CocAp)+S;4Ds9c7gFG8C>SF%mp(0gNR7vcBdD=F!t7lBtVn2UR-i-YJ(9'',
    ''Mey29T^u>YsK<y$m#Xo%93ew=#%DX~Vh)O5F?w$09~-;OS9~Nf(uvpyPTr#O9{X+<l@3`RnMfZEi$_E'',
    ''LQ`M!e%P>67bgR#F1;C=gb0)=#-R7}W6E?WuAjZ%ETM%@|kaKHdM85n^=J%sqj#Ma5vTAnSP(HrwZdP'',
    ''FgMYfvJb&K$;oUQP*HcUZG-ZT+EP6wf0T4C_>9saYze@dTcR$Hs*FxyomU^rMW_aYK}2w5FKcM(8d=v'',
    ''Mjy-S6xGOy@@i64KCCM=d)APxNUO>C*<NH#-5A*6o%@z(xiVCAaDS1ZcFuI+?d4sxD9;rkC(^c|Cwg;'',
    ''m83lE1QSi(%ekMsaY%|v&bizfqpHXIs3;&9k(8AX_#|)y>I@1s*a?;0JPgn!ew2DE<Szr)feBrd=U;F'',
    ''NLqUbU_bl)GVtTNV|35+YGZ+)X*)Pr<RPXEY?sq1Pw33;sC9GHC(JS>XUsjSB!lFSob^#()qXg2>R5J'',
    ''?sO!1FLj%1#$heGSpLr|RwJ4hc7Os#+w_cesCXNk2QC=1cL0+qnWa0oQ^N`WZ{BaCauAEN=x{(3!(@)'',
    ''P{zDWM~$K=^(sHi<{|HmKxFjYUl>nn7C^%(=3J8{7F-0IVQ_IZU#{lJ_JTpqc`cUrhsDTty4tb>Q~<('',
    ''od8fX}h@Gxq}=TR@&Qt8jenW<FWa@znNvJEkOkSKd;5?+Lb{Wfs5xEW2>0IBF&oU;LXbxE%D^J`3R60'',
    ''WbI<Z%_6=I?#gv*q$i?aIj_OG_GNoU)CKZ@9}JdED7yDyS$2(0t!I+@$9n-b9YzhL`6GGUMB-(AydK2'',
    ''nUS{y^(vH_uHy-#di`R)dG`%RY3NfOlz6V(iu#ZU)U8zxKmSfeu8ot{?xh8loI}ll;kX>i>jX?kmZo!'',
    ''u4-w*>yy;Qpk!ubi8?qtfs`J^;DYc$naxZ>~(**BsUDMTL+KlWBu`az<ZfK@5eyW80G73=ry?lQ)r}J'',
    ''<VSCcVDMV9u+F;_bne&WtC0&=`(3h$Rb`kR3V{fS>zVa^~JM+WC%c1}S|#qOF)90|!6%2%tZuEs;A?+'',
    ''o`(Qn*Or-F5A^DA$0G$sHNDGqv`Wi6^7b9wsm8U>@xyI$hgtRYWM|Ig)-+W$o*b!fnt&IJOoL3b<2w4'',
    ''lr*BlP!D=C^DGD<4zVxV$K$nZ)GFu_{K)w@9Wk`^c`lf#|J0SO4n;;bQY%xLEny0XN+l}B@UERqFe*f'',
    ''Z|tG8W+c_1h9L9J517Q=O4I7%CMM9KrI3H4DKbmlGQf7;TUw@v?QsZRAqgUa=CKSvUKf{qWZ8X-tRc+'',
    ''&qrp%{J}dWPB)=?2;zSb6@`qwdpm0FXb$pbB=LNuo`Q7Bil>N2N$88;GqW2+%@d=98#d%`yH+Q3P2DU'',
    ''J@hfZupiRsc~5z5*>SqzkcywC8OX7ozRzeADjL^3J$oXpn~owmmT#hn%z&&%JVo-^|J=%PIIrTlNaph'',
    ''rRD$u7LbjNPH+<m7$JA!N#=qOa~s1H1?sw8w5}AZJrzwQKoW>9Cs*`4BAKLX<2Pd=bQA-=OX*N!J~PZ'',
    ''4gaHvK5Q%U`UD%a$@d%LrHT<pt=?EK8PSJacZ=#`imz%L3k8+y#nl-EMnf0gT>D($p_v3=G;pLit<!l'']"

definition DATA_18707 :: "string list" where
  "DATA_18707 = [
    ''({`9W8=q;9hOD)|DVuA-{gYeUjW@u@gbn!1P5}dPR}b<P($*$*V3|qSP(9`O#;TK^5t9Nq8p%7Y)OmT'',
    ''voTV`tmM5#PdQpD7#{{2!VVp@GNls0Z0nSWOr4zTwjd$eQI7MfV5R~Y7OnjzNl*o`(m84FFmSXB^x}p'',
    ''1cEtxx#;#*g&w4gEl&qvVG`9x`H(N!77ZT>S5)8fWhGI|N8dMr~mM+qDutpWVUOIziQ+X~dsbGj@0h$'',
    ''G7+zMsf@Z$A#|>n_io9db_OGvXu*=TT394Q@UW-aWCL9%M35POho6hom2xlpEI5Mh?6WcDfbVVi?sJc'',
    ''>eFrDUGT8C@buDV=sg&%GsH`I9VaN(zRwI)lj^~yBR$nkarbSnYgLWLHO`fuTz+(bKiuOSe-M5Z2heA'',
    ''(Hr_IGQ7}vU%bh}YUdKKC*N5ezD&>+LkXzqOo#a*L*0edZ#U({zY36XDDZUX*SdyMi8(aS<g}*fn+<t'',
    ''-OmCQmTuwU5PG^jtxHrkkmQ8QGBz@MB`Nko?Ga3Z~nVeVueuB7VXK=;-AQ|e#Vs9lbwM#1+gXvO3CCn'',
    ''~yA~9>cGSa&V^~z1k@?KF2)R-1Vd-7)B%2D#PM>i%i`rW`hpC^w{q;3OBM4L#S7ij@&q`Xc}z6NQpyc'',
    ''aC4ldAQ;3KiV$AX8wR00x?@ENG!YD8<C;fd*`<I&;G+Ux9a;^@TZ8>nmfR6y4(G*W@Qqsjy)E0Y_yd5'',
    ''N-y3uMJHh%kd{i>BTpqg!Yd~KJ>V$Tg>@R<WTE+zoFEx7*%u%kn@<a*>){!o+KTx2Vezv5GyG(b(Y*9'',
    ''dg&LPh%_Wr9<G*FB=_w1T+;Rf9Umhzt2yRIE-P{sx6KKX7&)34V~BpTK+9G)?S=7A%=s#)Jfl8X`8?D'',
    ''eY*Xe($#f^ngv300rKf+}LSz<V<@^W+t22H{w?`9~eE3#sKS9XZCJNt<oz3PG#%jkY6c}_=bh%PAqIT'',
    ''SWy5UVzQjf;ayMiSWn|LmNe)@|(&MVpGRg|`Pz4BgTx9mpF&TH-~M0a?*cM_1VgwlJBZR;vXCk<E=8I'',
    ''E1{A1y=q(W77PlYt$dt4I#7_{xUePbFG0*M~*lh;B$HA^NK_e-M=WwJEios}zoztn|+G^F4%Q`xUD8P'',
    ''X2W#lLz0(s`C-S#?l!WT=WVlJYP5xN!)8Ekc=dCNI;nD+pe!*ch)EFQ#y5RiyOHVn4%w&kZTV(o2e_N'',
    ''fILWc2BU#NX-A9g+wh>3&Ec**@X+r>dTVYMQg^D-)nqWGu*c**WpSN`;Q>=2&mlXd+Jsbo%Y(|7WidF'',
    '';69hxFojeRi`(CTj)oGem`hmUt&dzm`vv`$U*9;OXhbzAHQWFHzjxB1?Va%H2p)^<7*lk3Dlp?ql$t@'',
    ''Bwz4B%9=9Hq=@=O>dP}&7;D&jy)IDt-t@!Jno4xD)ZylD#N5+B<&tlr5xaNKEqVNK~b?f439;%DrOC@'',
    ''h&Q{!2N3E*LfPLMCiEvAXf0>wD+yFY%=ZK1<Q@1&Y7tomFwVIAQjRV~A5TVpzp=4%3=NG-HE$R4=iI`'',
    ''oy@`)hTQGee#y#bMXTbGAj#@I*N-^M45x^6QUD`ZZ)tPW2i|fDLJ%d4GgE@+Zi9pw4@i2a8>oVgLG1n'',
    ''%-tEEIOV3EbCPl0XI+E1i|Ad)=3?iGOOqpaY^iEi=uIqiV9pmgo5%r*-k1=80|+7EwL-68hgr~_qKE{'',
    ''`aBsPVZrYvTLL;b!w5vTZCe$G!>@H&oinKjo>6!=JQc5~sI<mTbU!7y8!WEsqh`KyNCgm;dq@^;Ku``'',
    ''C+GKZC$CM=kx=`8QrB=3Y^(cLO;z^U>kg}F}jRS`Z##pFU?s{>;Sq_K;;3A75&XHTc7@wRI90s*)^n7'',
    ''w~`<)iiVoViFhIV>L~%#L5`Zn|aE_?PO(WTsR!Oyf1~O3Xfe3poapk&Sq9-L{*A?|>)sgNZ;X2Ng5p7'',
    ''^?-4$Z|baw<trQ;g2Mxg#@u{H{x>z&w+)x3Q%G+@oV3|{R(v}x~V)W*vh$IwXM8H-iayUMnDny`4>Cd'',
    ''kzY$<GWL7oF=#dvqo1DB-V|7k3}-M2J<E}J(ybz8Z+DPWu^_4j9jDue3~Q4E2J*iW*2G%l`YV?J)&RA'',
    ''K#e#y0#BL=v8;%l+#ujnnI4o<B8i3briM99=x`wpbPp}Vr5V;l$T*b29wIGXhLa1~!I*7?wmg@3)z>F'',
    ''0_XC@5SGgBCYToIE-?O^|`E6ki=DK6rZeydPpGo$RYyuJouK<G|(n?EpfxGA4M|2<(Hl+nN_be-pfx~'',
    ''LPu%G>Ssn`;3h!`$33;dhuIjgYvkuVMEkKUk+}DB>Xb_ASCRYjjN`k|_pFa2Kvi=q_<F=rZ|1&IgJQ_'',
    ''{ktcl0AfxE%Q8|$+n#B?5`UKEihQh{RSd$*LHiP?R1hno5gnp4z`ekiN#vk`y$7CDlFry%(`ZnG+G{='',
    ''5t0xgq4w1^I^w7|wzjF+J8^bw&$Anu9->wcyRzKZW2Q?>LFfI|O!+GGr@$k_`zEtM!n8b~ux4T~MF)r'',
    ''ud^JPujJsh^);m%XQ8Sk1k}O$l#O*wJnm-2=7}rvUQkAs*2Sq_Cl=4A8y*1h7!>J7@tu^0UkoD=`D5-'',
    ''V!=SytjKNlZ1`R```LQavtb1RjMI5zY3P<FB1Ze_<7s%N=17kKFq)y%K^cHd?4q=}p)_%0`fZ~oG@NA'',
    '';s1;YTh+al0ODQ3{4mhnENP`YXNC&R_}1VI|@LBItZ|)E1<WxF@U^9QbR$P;E%OrB7e1QSXA?VG}{q='',
    ''y2OS#tTm_pFCOB<qiJ-FTJ>>8=+pc?W*kGugagU{=0pb>r#3r3Vx|!<?k^lqM&|V>D8wnv^6m>mT9WI'',
    ''DD*4b0Q8*```Xh=uX%`$E%;&bdW#8yFf5Dnjo1v4XfoHDOG^e~09jb*Eie9#5sX%z@$2y{`|$q#-#%P'',
    ''jJ^pY-$feW!B667tgV#mV7P@CU7jv9mt8dTwo2y6ofG|I@YR`?Ua7u;&^PW}SaYZ;)of}Vo?XA`qFU%'',
    ''G7`hszl<OQ$RN$|*()sl&v%VWBm)58fZ{UK;hg0J)eehIThw>*+Cfr+M+{fiP#ku_3K>bJ?Mrh}At>b'',
    ''0-E$<-_1yv~tx_LSU3pWL9V+Lw07m7;1=GDhU~pp!VSE?Kjek-tZ+DB%j&?Suwhcg2Ixwgv8jj&|J84'',
    ''H_4iD99P?ERVrB<8*=3Kd(R5Mn(sUA|xu+G~Yz!U^u4uj!plg;S!^1JqR9FGg*PMk7ewwSKQj=>fuN?'',
    ''g$9`9T&A7Fq~><VEUJIMWNM3rth#`zCR5t!v}loZWt8=da;3$x*xow@8PAtBG7KSlj9zLxdwXQ%&!rx'',
    '')6xxtkk-&#RaZJcT^eZWoQLVGI;kB*Fzkm6TIu^-lv=Sgmk$;W|KQgm<a$Sw^@69#*1NB!w^^apmoC9'',
    ''8CW`zEfS<IO*yGiCjk5wqC5e1QCD$~4~D~kOqc48PX2^(PME9l{3q56V%Fj4|K#8tb4L6`{oiR9g$Dj'',
    ''~c&0{0lC1dfAL$?N6)Zt~CJDvUZwk&s&n)%P9pXJJKJPOY#rA~_usgfK$><iyz(E>AY;^xV3AoKxclB'',
    ''Gf$T_<nVk5)O1|gV2S99J8rrzfqS`cR?kKBs~<9<0b5c{Tx}@4mBORG|5G7zLE0{_rXU7ufvk+dSbiX'',
    ''{~3`vNqhebP)h>@6aWAK2mm&gW=Rs=l6JEp005qb000sI003}la4&LYaW8UZabI&~bS`jt%{^<A<F=9'',
    ''C_gCO%YEDv4(#EO#G<TC^<40vHvE#Bgv8y&y3P*$_W++l7sF9Ua{`>U<0P&<W_FdJf{1{O{186k*jpn'',
    ''9n_hPl$9Q$J@S1VEN4{g_r;z_mjv6n0U{^rdF+pXKWmg~N18)X`na#I}ZzO2?gx2byB^=(_*7VBM6HE'',
    '';Bny4`N8W^2B-N<%(Whvn);Hf7tHeuwAns*|ccc5A7!tvdO`QL5gBvu^i?qBjlXkB6cuk4kn!i?Tg6b'',
    ''z79C&9qXhO;yX)v8(3-zLZsG|9)93{u}<Y>f05--p${L?C01ViuE&gnGGY#AJ_8WA#VD<QGHR@1wQ?}'',
    ''>)LKEeg`Z0i|iCUc~^I`D9^f)EXPI^;<HNiUG;QCSYNgM7wxer=i=*5zEtf|{q9)R<!4pLql^OjeW7-'',
    ''GGWJi!fB(5TR84bvCLK^n+nxX1)!a)R54d3HDE_im;j>X-PQ$Oy{jO~^ava3M{^P%^iV<b7tMT>?PzO'',
    ''wCFPnbo0$3WTb4n8^D|M)gGw&^a>jB^jiADiE&xM4E!0`aGn2V<E_C;O&LsIKm0C%~A1xgG4%StJr_u'',
    ''tdQu&F)_rft=fFwYe{4I3gs6>ih@P6CP1JUd>ZS{(>OLsy_%(;WUBo}YG7T0DJ+U*5dInaEB&nDe>Z%'',
    ''Kne^Y`R)C#U41r?9H1u>$*@%I7n5~_UZ4i-?RHSj7PZvW>Pg(zgkU|tT*t3*-ZSpTs_OPf^j}R2G5a!'',
    ''!1I6pYXF2zLm-_5KGis|hUPCt4V)m;;o~sMN9gt_Ho!vQ4?wyD?9pAtx@~&kTuQHGj+|{DL&m2*6c>n'',
    ''+JvOi~;P*Mt)PYpdT7j^7AJDybIELrT;&1>aIEBAw2{iHoA9xsdGTV4EIn-J>ZvRdmx_Dn1@3^OvJ9R'',
    ''Ja)I{8gDYl(H&*p;uz%C!3A7?YhyIm%2@$502!^9)8f8MEo%@F8hE+)&rw^cLcF$a=F{`c+)cwj-&X`'',
    ''o63dUJDQep8}7_M+cO!KdIw0oI!Ze>uQZ3pnK{2^5}$YQ5y;e}E31GbLI@(ZGSDGpQN*Q!NGb7X|)a*'',
    ''X_w{;6j|F*dJ9dp5Rw(*0+FC5S06>ku)6#y1?^hFfxUKp!2$DCUEN84w-9x7CR7WHTT5%9}nBED6yH6'',
    ''v*pO3TiM92=;48=0cE1yi0;@d`f4v>LP%7ySy#ZR^zf$&c*?OiOT^W}vPDsr72>%7q!DWZeCe5<+GAa'',
    ''s?z`fJhLr#Y*vk{{Esgbb7G;ajfE<Aj6&)NzP&i;_r5Vf40a0B8t{RY(FA^3HG7VcIGgD$xwul<&(s|'',
    ''Q7Hn52n21*8R18JXLii&n^0!RS-EJULx3TQd)s`U<=84#sZRfnwy1S1vL^&_f)sQcr=8)<I0p{P}B_Q'',
    ''C)S>7eTTX{PXRac_VOTYwWnnovMN0H{!HgVdPZ;@Jq9tf4OviK|x#K2)eswTkv`XV+0YwXoBB*%xKe7'',
    ''fW;OGC~2F!VjoQ>1BmN!v7UGi~nGNiULqW+@SRA97r(yH_S~6-WFC$KO?fIl`L_Fmh%*qk^*$6_xnRl'',
    ''*q0?~KLme?Bh7|^kyWe!+bcT*f8@_eUjPh&9?HiTj$W@3DtMbJ<?i)Qn9LiT$-a1&t3tCko=y_E0RD@'',
    ''D6f@jl>;)%Tn2v-=gBD&UD32fknbv@<f6gZZ`bc<2gaYF*)dPY_OK1HE7N_8-s!b)!6&&=oBY1^oxj@'',
    ''9v)TkiVH4aVB<(}ojy?6&aumS1>;tW{+Ky&zikf=TumS&tt-o01fewM%*HIsD=2<H!IC{xduU@p)q6Q'',
    ''hu(l^I1{KP@Bi48Q;lt|B&eI`k+g1g4&$wZx`GN9NqCX{?3>YacdjHv9O?$1Bgtt@z^o_g{W~zw7&hx'',
    ''_|q23%h@OLi6qI;e06G0)KxC>N5!Xx1W6S$**j`1FYY{1LNr@;(_S?A-O0xusrQqG-IK5DCSV`0N32s'',
    ''?Gtn$u_#MVt;7Ck5v&YroK7qcKCh5u)UyAvpUiw!kEgi=c&o6vzZqr;G+8qSHUvdDGm_VT77_#kyK?('',
    ''dI0H$ulG`nO-?Y=&Xj9lc+4U<;I{Tsrn+A++Ht?nnp&JYMXOeo7ZXG^#<*Gg6bJWytWq-*Qnu7uahB$'',
    ''Lc)vfst<BQ;LT9bSD0<;C0Fpl-_E5t%Cx95ki+6L^?Y717WH0zS3?hnErw<8M;lqRO~&WGdb3E9qoA='',
    ''tQ1>OswrU^J8Ayh6*_JXD~I!ItqTF{r~CeKw$WKYZwpI1Q}}n(o9?S1zV<khtZ#0AkWh(lU0%c6oL+d'',
    ''gXyN&CPw;{;5%p{N2~03P1N?Mil$Rtnbm@2E9OmRbMYqZv%Z74DwpA&B1I1c#1c_Q&;u91kJf!iuW6V'',
    ''%R=4jOiJwVBWZr_Xo9AJ>gCdd_br+^xCGQb-S+VPfVwDX0u8XUXDJV;=ds)_y7dn9Z?b(naKNUy$udM'',
    ''hcIiSd-NLjBcNgo85-l99Wd-&{IVWk1k4jlfvLN<*5cjY`<jEUYzXyr^bLiwqZx|8JJ=uJAX@VZkwZ^'',
    ''Yl{cZgTMjof7OEs=k(5C^&oYv&?e%AdyoDY&UzKB$B0<JR?dv-F3PYkh_Xxg9J4$-nbV#9lJ69by)iA'',
    ''-(+q2M!a%e6pI+Q0oKnwy~{<-Z(}`Th6b-}`ii`xPG!0VYIO7YBg2FPgquvrL7y`{L}t10n%#@dPriL'',
    ''}Z@i1dl<*))9~}8J&YwZ)ptJx<d21Y8+tJ6#xVXXa`&C0Ol5GtrNTVlcm2_Z_W?i%KV1LDt|CsJNdI^'',
    ''<wHCB$nOv`dFT*6@;d|^8rla>A^|;Eo)5m8&((pxEDppMz)CLassQ5vIAXnW-4+qR6}2Qc(Letc;Gw~'',
    ''u<ti9H^bjUQ(|~}K@51XA@b#f*=sxwy`nU#_SZ$6#iI!Fg@!{;emhKLP4PiWmD#*H)MRPnPTCmK9ANY'',
    ''>|S*~<NigCaDO$Xr)?VK;LgJ2H}@&_*#{DWvII1#K#v#AHeu>7B`(1r%~?*RG6r}JP%y2}R>0@4?JF^'',
    ''_l%-0#!4O`vurfy563KdK`NY;*dSq;RcVu&2U#;2#>rIM>vHlqVLy_Ixs{cC&JR4t={m={u3PY3;iwR'',
    ''>(nOPc70O5*&_<k_`V}HSytJYFD~%E9gx_xr;#;*l?IIuISMl0F1$|N7wX2UF@IA0w3N}4?O0}x;@Em'',
    ''I*SaCiE-_IgsD$;RA=T+6M;X@F8iZjy~>|Ee>l)EXBcwuPhVO@u=wfZzweZGzx<cDD_zIXRL#(-{_9D'',
    ''!8Fzx+L8}#6BdgWY#A@cEmJN=t$N|q2oH@8d%hDTz0~`bC%~5$ozKs?W0?jGh`Xhe?k)>8T8Vi~`Huv'',
    ''@BcV+3(exXF+`Mp7Q8^bKprGwe9dWL_Y6bc>a<aTSML{^P{HgDEsq%Vj5po9SfMcs2<pb7wIy%BpjSk'',
    ''(bon-)%<SJqe8BrrDia$C<Ub|Js-nzY&$J!dD>>frc-jAu93V4ZvL$WrGO9DtH~R7q4-vajD2$;iZ)4'',
    ''qnKK>#vkU$mH1NMSs=y+9^r8bhSU!$V=!6IV3CG6N;6)fG`LP4LvN(F?Ldb4%=*GhZ-jUj1=mSD(<NV'',
    ''DCFevgPr3Bya5;|z#~bP$<8-{Wb;yWFamAwzUZE1r<~EOdvJ(Lc-jPjR_mg{UB|=#Wdaf(AAzHJ1BIk'',
    ''iDPnj9B4CZPCfDUhhmH|MG~WQk(4F*I5Dwz+>~aTM<Go4R3Phj}?x|UNT9#(V?(gJCS!ona!wm@hOdR'',
    ''%Io{Fvkg>HKD9(5vA?J$t1VTcJv^f<~wz{R;eb_sLB`P}IJ!u8+Gqxp{p{r$zz6lMW#IimYGFo|2(SU'',
    ''@vH#R<C@!vOij)*qfku&?p2D7fP7+^ult9g`Vg+nt<s1cwh3USRyNIr6|E_i5A#JphOtf3bRp*}k^P5'',
    ''Yu2E2`ywdMoA^H{YV>hrz~j;3sz4NR6b$`2LJ=2Yrnh^cS$HbD>Lz^iDO5)tF`*AqwOXehPrO704KY7'',
    ''dT*c!Cp)-`tgqQ7n{#@Qq;!R8AeW3u?=GEpkffG}qFYQT668<-I&?Y4>1|7a7QoV`E4Gxq;`Yp%O(rq'',
    ''GnQr>*xctjD@Z%8p>AQ1GX!1u;Hi1cy(9sw}^t$>)Ovs!7CH^4KM3xu9A{N7wki#~eLa#qQ0IVme)@='',
    ''w{Y=g!&3R>uMxxE%x4?a`YPp=*o|5XRMt~M2B-T1(~AAjyapM2IHb#%>=*S30*4eFF)YE%T!Oz+g3i1'',
    ''gvEo5i{&en8*!G(>kv+;^5_UT(X1Ikzaa-T6f=BF+6Hj`ipZ#spj)t2v>}FP<=rPMVmtAPINsH$r^A+'',
    ''%D&01scs#EPj(TdK}eX{M$p~H0LI393LND5IFZF%LHu_G*7f%k|z{D@hR0<RO+}V&8d?UWbLE@8`X!M'',
    ''q&glw0ew~Pd;$=tr0uZ*X{ohmGG7oz<M~YEDL*DL7w9Mcfy*7nG;WavBqcBoGW9^2pK_W;Bz}nr!%2*'',
    ''w&@Z#ZIW(V?TjwGp_AvOG18qJxpOS6CUT}<JoyCAY-ZNC(Qhr|#OyvyA{t3babVuogyWUce^8y$<Hj`'',
    ''W-bRZ8@2N4Sc^SMR0K09!m_T*)`IIEeHDn_cg*_{kDouR_^HW&f!;$q6hPfi#-2#Wk%FAzk31bZ>RXN'',
    ''na!FxsYx{xcBg81@`RGD3mwvEZ4_W@-Ft{l1h>N6_xSm3`03y|KIc7RA8LcoJ^3=6MPOxeb0t$Mb|bx'',
    ''XX`-v!u6VU?}b|F>|>UpB7EqV4MKYk2b(HUt5q><q`z`_*AT)JGn`KV$<PC0)vic<$5iA4iSpG&`lA6'',
    ''a_set>J)&8@fte=KMs8!uT=pV%Y#Q~r_Ds)BXsCmL?F*(SdF$z-CvDpbM@XSD`^SeTgaM;jitrBdn*0'',
    ''NV-C8FHC#2wsK9=7hYw_cMkGe8Lw_Fg4tn}qK+-{W{W*u}T*h*(vwyDhVQNvEIZ!TZn^A&R&VtBI8jT'',
    ''+9Ef42Q0nH#TmdIQVJn+M{jA`_9q(!!hr0|lCo=S8`XvvA)!B1L!(u{K5RTOueP6p|U`6M>TCrWd@VG'',
    ''<wA*ID4f2$&E@A*94uB+1hP_|Ch!kibmjYj$W8H#THHqvsw;(VRNB$vnvl?!#@&vV-jQWq881fX!Kc1'',
    ''^f%_V8AAAwlQa?H(#{|2iC8|)4J<W2l5a)U>~GDlZ(cCaYP-mZ8lZ6k8)40VgwP=FDce|&7o?Jk^gcz'',
    ''%*~sX`z4et6cyT6{c7kNB+c6V`jNC<`}fz}0g;C%V<~j%4JM7-(*g2tNTNcP{}y#u%JJZ=nzU>6mUCe'',
    ''J_<zLHE=4GZdqLAo`<d&d1Z@}7=lk}ssO5|Fywv2kEbzZOVa)#$Zyve%E4TFfg0vM><@Rk!=~0-gu3;'',
    ''&mgOQ}nQ!vGDP}|aBSJs)93cdfwH37jc417*g@z5Ys$o~K)C`5+x5ZkX>eL>C*mzf#QJjEgy22DW6nV'',
    ''8C_xq>TC77O&a8Mi22;6Rrs9_GbDkGRkyGTv3ytby<JBKDU|Fc)bH#HyS?4+o1lnI84vAuAnMz`>$^c'',
    ''T_2OS}U#^&#1u|%CVtImG&OMa^ex)yLEr0R2qH$i00{J%=Nf*sgo#kxTd%iU$%;fa_9QThii<3X-L$F'',
    ''*<3r&yeS@6p-9jHHK#W@Tie4C69FhC74#M~3dmoNfH-O5Ndg5(lQ&Ptw1o43=A;`@e<~D(ohW1``t!k'',
    ''wKY>tOV>%Jjc92d&#3t!xBm6L2b9BhtAwjynI<<s24`I))aG3^O&}2d#oi%xvEv9t^W|C<u4ehbq4{q'',
    ''M0|25qumHnB^y_qH5yB3)k-Gyf<H}87M)=$c5=WLBJWT1oZO?TR)PP+56lPduFt4XfXCwsVwlF1b|>0'',
    ''5Y45-IR;`qqQEk#PP%-oyIioy_;bY|BNpS#Zeu#@sF#A`Kp_0r74!1m6f%&(&c_KT2M<Nz2?%$^MOQJ'',
    ''2;7%2>O75O52TMZkTwdt>?-{;*p8kS<FqoA30y)RBM=FQXCyQdyTiBi@tc~>viZ*T9Z?fE^_f8AV3Rv'',
    ''fEI+#UQ*87-cjIht-VR+vW>eknmFaTQo^8jWd-x2ob*l(mfO|2P%6W_^lHktb`8LsWWQdDcg^5sWd}4'',
    ''#Q=S0E=J^r=UbpE=eXmNak6p*949*Qh$sSw_&CFSaVQU8wL&zU_8r}&$c3R+Ir@DHU!v#ak$p;IBwwl'',
    ''NF^C!9%gjXZ^(wM^ZfwQRa(sH#q+sjVI%>#U%_lnnmO3}b}dd#vwInW^ouP9269VFXYI<DGxEviDjb}'',
    ''I7hG^XD=ht^yfB!oM;Bg3_!9$2oq5r>F4?anyrsZfTnDX{;Qm&M@gi+n^39m9OgL<XugbcUcnI69h_f'',
    ''A4?~YqeQvgEmxda(5Jbeitw_qtvB%T^HUWa^Zkp$`te@fey9f);q$!OAMQNIgXA=>8vA|Ln>zR1>lLK'',
    ''H_LKAIxp?@QA0@y2z@7|OEE+)4zb{}%!+P7V`~#Is$S^}wZNu|Gl5Gu0Xdd2O=i}zx)5Fm%LEOQDuVg'',
    ''wt3PxL%eBi#U9=&G4^W@>&1#W7Qgb3d%ZLObKT9x5sz5~^{4E?r;od=mGfNdMR7;%aha*}^DT){%kO}'',
    ''~t3QxJ_w4@-En(a`Y*J%s_sQa*0x;fpIAab%fYWbeu?an%524+i{K3X>c6)=u3nh#$s3ZH7a^D&-A-K'',
    ''`$fTHk2gZ)&Wpfaeh<rTHNj8oPD6up#7jOKXkp!SHi7#scEz6BgT;j_|*+FkHxD^)l3oEVu{p*H@e%|'',
    ''6<rH+neNtfX9AOZShJlhM^15RBOC0trX~sWC{Y?L6O9<Fe`uKAPFG*5+#rhs72j_n3xd%@v!LIMG3_0'',
    ''TbFdl^=jSp;&4PVS{Fhi0Kc;mTc7RqlyC+qmuzMk7Sj_S!A5f*dcDcR*Num5A{E**#7K3{kj$7p7BS;'',
    ''|t81>M(I<N=&)4CNyR1OR#I_DgR=}##x{;{_;Z${qFEf#zOC<~<{^zSnA0)6BVj3r{5Yp8ws`ik&`0m'',
    ''~ZZlAE?ikO<q+OxSm3v=TIL^#vB1=SukS!iL3QaMrKTdY5_N6pu!SdnWa2t~)rmKSRZf7J9*CTYn{N6'',
    ''hpyV$zxBZSo^--6pVboKM|u4aZO-XmSb4HP_+sqr)I{dw23D+6)dDPok0yBd6=uH>O~_$;>jzy(M0+G'',
    ''L~7=Zk>nVT9o3ZNCjDAC`o<J$oGjy8M96oi=qc6E*RdXy2O-N-A-EGR|pMjh)0_9)fRxWZg*x{a`XMy'',
    ''OkP-W+M1Z*4?;5NUI|wub-#dSHlW2_m(3&_0WeQwGq{wQo{__=gsww0cd?T7k|n7cKWVvyaqWbzKbCB'',
    ''iEES<(12BpXvJF{tSOUO&I4{YqJ(n7NN!8|3{k<do^}s?2JzngP^PFObT@nis=ua&dPO}ROfz+{~)L9'',
    ''s@%5k$KU(+4ft#LrzMhw9peeqKyI=pU#Yq{sp){*RK)V(_8Yl8Px+*&CPtvjyx;UtrJlRkX}k3ryeX^'',
    ''*hI07Dss%tMSKfdq=@c?2FpSz?i{u@gm04^YVwGz<a_RYa!lrQ(Yqc;{CJJJW%m4@nC#5U*wqoUqG<b'',
    ''jCp}{jw3syK~{JGQ<%S%3wOalqQkrnRhecCso{LT-01i++NmMo?^Z=(KEatWAl)$(^xBxeRrg6E7luF'',
    ''2+*i_rev0lk+ORSs8f7sb-)%><Pk`i{EvkM$Y43hg3p|DHN@U%(Z1=?gC_Tf9&46$7=;5M%S7f#NQ*<'',
    ''wlh@0qTk+f9;!aV7@2s#op)C+*>L$?DmRMZf4jiUx_;TKy%QV?4WtjT5X5UJpd%IpAJH@<*Zo{p+>Hz'',
    ''j`j}dz|AvAMNd-JHez>xRyGkAxsQxGGY!|+TWNGN<bu)O00q)2np$%I(_LTu4&SqkGqOgRr5v>5<`zL'',
    ''$$ArURh;Omotr%9b;IiYn*G98XoX$?S9rPVD8;@hO9CO8drZBe@*eTWbdKCQz+C@wbo#SWNyc#Q=g-t'',
    ''SsG|c61#!JH%W}C<?wjoF_Tw4$I19E!+I?H(0)bgBoNvnn=E967$WrBW-t)PjJ4$$oaycH6&6oy;HL#'',
    ''2gBf>5il5Q0iI$8M5weRKcdgE8Xy!|j=)+{Z4wyoN#dM3sSZen=7u3<FyMs%W`JX}!WcUjPGNVG___v'',
    ''t*%VX3&J-(xg%(?|2bXzJkyamSfo`3!B$SI1&Cec4!WeVTTpJ&`CZZlSNpYI*Ok{0W=^M7NPrbeb3c9'',
    ''Jc9@j0EVgXl}wqzHJslCgL?!*M7?Xl=eS<Yx8hL7yXTZfl|3##%+etTjrqu$V4*W64^`vZc2N#iBvFs'',
    ''v~oQ#)5=7r)LV-xKGii!CR^k(uG@=s+sSfU{%2f4r%;&eiO~<efu%L{HK5G7Nm-C+%jy?Tc+z+|#glB'',
    ''{xk><*W8&L#Q11qL^-BDkkc5m>%70<XL;Bw9!;DdoqqjNd?4872b^9V~P!$Zrz^hstTPl5krGXH3OoS'']"

definition DATA_18857 :: "string list" where
  "DATA_18857 = [
    ''Vv12a`D1}flARVqj_Z3T;8E>d@t04(6@UKbkI<3BsW=Gs)djPcN&Wd6?UN53Wf*W;0>D>Dc^#-$zY;@'',
    ''DOHGp*AVU>*PA@|gqBhu9Chuy1#4;X3+8JP`E-pf#D)?Z8FW`V~j<t?cS<hZrUCW&jE<3dU6gog*E3~'',
    ''UlU*$J<z%rmH$q?k?OI4<5Tw{BveLo$EX5uHe`w1%uKV*40CHEOTM{sTJ{p-dYDL0=PobDyG(Ftz5YF'',
    ''jl$y}Ibk!A}AJ%$)1vkIea2m?HYVPF|>I>mKj;!X`1^0$JS%G$&SnJaBCytBFuP2S_~7$SW{F=qwPSj'',
    ''=-z9q#6}u=oDQI?+#t1jGF)}jd2YC$_yC`p7IMNMuMbceSt3S-@bi|41y3uY8>E=3oxiw$2kq*kAUKP'',
    ''pD@+Ej-ujHcnk7#W72Zpd61wbx8#pY2mCy(n~*UJEwP%l>>o50IV|l8u4nbTaVGeOrad)_ZQGV+rbuX'',
    ''}Qd}w!lgy4_U}{(GIgn2Ec{jxx6$X8|iiH+c^#hL5K1)Ao)Q5yycI;Wx)j3E;coZ)GA2Lm|Q)*8pS!#'',
    ''$j;Wy5pHhF95UACL&y`Nz^iv@EwStGd55_xCx!l|fF#aS5z+uC9Zjen&}R-kqdI!Jo<n1au}SGM;^3P'',
    ''!qyv8_^ZAu?{0t1sok`|BkB#ZkYZl-}P^653pSdc<+X5kSDxKrh6w5!HjvHB4>CNR_Ww;3vOIEbx03I'',
    ''(Q}DF-o`tg){*h6dKb`kpUrFIi56e8`N6QeO^f^_{sbGgOzx<b!qCfAnii7bbSF-P&xGaMda`24ys$;'',
    ''Kakk)5o<MnLDsL{o0w_7tEq|W*4mqE&h(HI2ih#_^jnXXzyI*z>+ytZ{Djxr^4`kfR+@2f2C)WXT8?-'',
    '';v91$M2?Ie_?!Z`Ov32^#w0igY$jblHl5r>Ox=FyIc|&hQ$@Yu<CAipRCgGJB`2QQ!zzT@?&H=If2S@'',
    ''{5v~4(H<nGr&0Dk*K-Yyx5rh-}uCd(2pKJ$}|euST&9%hMLF*@a)csadQL`!jV4ULH*<&b^eDjj4HL9'',
    ''~XQ<$8q0@RFAVl<Dm!|Cz1Tcx7fo0wd$$qx5Es2at3h?|Ox~jeOk{dBHzB&5^;pI@QrZ>rYL0#7~s+c'',
    ''(Dh5eqvr^qU$SjBQFeo?Ey>WNT#}tD<BsWLCnWX2#K->#dMsb6NH6*vC@$3Kf50nYw^PKZKFK=s}mj$'',
    ''MW_7N`COgm5H!<*!sq(L>`iu(+d63t<zGfO<u}#1jkN-kd$S*@G0DjDNHynCrN<OEl)&M)>f<jTUz6e'',
    ''z@%erGB3JgMRXXgL@idVt;{CGMlh+p#{f!vPvQE|UspC2;qvad%15MqM!9(!)n@g7mutY5nl#h2@BxC'',
    ''!g2Cv?8x~=<ehN#MN+$Bb;MW1(pGOT5rUaXI%NXg2VrHm@uMw=2H<L{{8YIs#lUu(s51oz;QKTA9Q13'',
    ''2VZmm9u)Q0ZU{X6fQ}DhEWAB5vh=Sk)!5>I6;Qiiy4%J_%w8=;fgoSy6QzbTh{Unc9<3&kbrMI@3<%I'',
    ''$xE8r>hYCoQ#y4_k%@C;Jn4(V<m??FQ3dO$ym3Z*R>{$cF+yfg}w}SXQ$~}Mw_Zf6bt&1_<62GQ~U%~'',
    ''RpTTCWjdP9Rjf9Tq&qBcB3awg@dsVk3(@^o`2DYw5#fr9nVU&vFd7>)<~4t>LaK{5@$Vyez7na-X%VL'',
    ''c*+{TyVs;rKz9bwTQlLWCWL`Va?+^H@4)52oLU!47PW%j2;ZsSH)?xiBQ$fEsWU*-4h2fwuC9D;&<4d'',
    ''<XmNxm;dG$g9%<$TV32g)!Y2lmafD6kPN~39y+Z`ICecQ$n-CM!0p5hX@avz(hW3P?4h)W&+w_<L%o1'',
    ''%BaDV-8r-^Smuw79P8z={f|swnT(f*vcJP(ONI=3%*XGt(|)=_X3ixKxv>xAVh@_GH)T;3c(6UH)abg'',
    ''r|#Oba-Xby_lYAz<0F|Exp*asDVFvvaRTx^jQl^3+>^4wN6FEtS}Jsa1x7Wu|BWy?M+x_6y$UFRQ2>m'',
    ''Q>x!SFf)FW%`;};>3iTd&mdc)=7Vz;yfW{Cq&1nUFZlM(0>gVnvz0srJ+cF)GWVlxw8U1J;l(H&(9@W'',
    ''r3bAuH2gCv9SsipKgGz17qN^)bRY0GsBwgJdu&wvVfZ=hxvK;hiDA<7<*Et(V9q7_2k2PHpOcy!|UOZ'',
    ''`N)CHZZ1(gCfRyQfp%N+()Aev`%ZUBG7Yo5I_e$f0eq2ZfVL)%$Ap2JoA`X#Pa@QRXAb~vYhR78wM9*'',
    ''(VhWQTI^x+=q5zaY_kf0)kZ;umO)!T)~oe8Rsn1)#J-hP=76FI(1mRG@`U*~_*oUQB@j{eB)wYYO8JN'',
    ''ZuyuK1&Ygy>piL$KgkQ6_VkH{1vKbD<_VIsjsa$sQ?+zg7a39P8ZO3`R_21$3V-x{?dg8H@vc-$*xZ?'',
    ''-)SAVlP=#C$*YH)v1KzYT^@eH?UJ9*Yk~(C(3Bf6Qz;F@Z1FhRfU*nGz{`6fgEN+G=%2lOJ3f&4pY=h'',
    ''#5}7PHa*=@HMGBw{>l((WGGW?(2gd@-v<}&^7P~oj@-)BsSGi;ph+paXjArw={mitz%6G|5kyD89mGw'',
    ''YfUf=)u+7dPWMo}@Y=HX}jm1)kKzW)bMO9KQH0000805+CpNd-p4a8L*U0Pz|C02lxO0B~t=FLGsZFL'',
    ''GsZUv+M2ZgX^DY-}!Yd97L7ZsfQTeebUzJTN3-WjU9Zg##l9_5v&r%r0g&nFr56W=m8z*Al6al-r#k|'',
    ''DGyRlqiWko>@dMZi!^ESas@D72PP=k+N(CGbmP;gm=AEhS0s1?O<5x-gmq4dn*qIE)M=xYX8fyu5WnD'',
    ''cDn{8_Pj4D+4a<TiGyak?9Uagjw~l1etP@;&mZ3B#J-ofrqps!6`R+ymx}d<OQF4te+VwLp>0d?^AAc'',
    ''%HBTQ5Z>O26Gm61JR6pf}>#~&<ZF8cSpdHgW5mI%u<^N_SsCZlnDaKQJVO-Qq7?5$;?RGfE6uI}NC=S'',
    ''g0-F{2U5~Y`A2GgpRYCS9b3+(cqnN;q7W0lG7b_AZQtE;~e&A^NeLE913MH3^*o`I^Jd}cLlPRx;!VR'',
    ''3X^L9GnM{xxuz3knt>&wi^}11{x)o3czbYnz<ZT>D+|!H<R8?H)Bqv*l2!SOX4=5BBB=1ONH&@+<BDp'',
    ''YhLfK+|Vd)*MatRtmP-$R4uvsyuw!%_r!Y>bNni9?yW2f;0Hj;`5FHd<FSc4UF){8tlNInXqfX{{%KB'',
    ''Cq}3OBYUx6=t+RH_H8F?-kfvtBW>aI66B~8*R0q@cU5jz53kfJI3Ix47c@UITIa-2-olZkwvH%t-*OX'',
    ''*z~>DrJz>?J3l}3q6oUwTM$7=H4cJ`)u%tQ@eePN=o&e<g!N6h@NJ9a*Z%#B9l{JYJ?U|e?hybAz$^t'',
    ''1M0oQ>84OIYkJ;}4iolo$a<RV=LR*KqY`7{MbE2>$FN@T%7!D+aUpT}MRMmk;DZMJ#1&f#bVOJvau_X'',
    ''3^bjO+&)xH>X@41r)lV8_xk889YBt_B_xL?7je3_YQZ0ftCMQ?mNTPASZbNf3*bViXk319>&z7R>MXM'',
    ''u(?cz=OSv2zmJ9CvtyJlA=E+go=8>u93swAvR3wL@fbZLU4P~nq!HI=LGPj&Vfn&2>5>GZa<QJ)<J&K'',
    ''Qc;*W2}Udc@p-ygPMkezjt_nb*dt(DbNm5x=1fO4iZ8b&atHk?WK7~GE84VInIQD_lC{2b69{zygb4t'',
    ''AUr7N$;mE!N?gq0GF?4%C5|F(WGYJu_Vp>xO_Fy4Kt>e*A3J5O9PYt=HxA^@Qfij8kAB}`xcmjl{<;T'',
    ''55%A7>xq-DV1jwj&T%-=`ADrjfn8PcL1DC60sk!s{*@Gh=*!38w)#Lo9E6I)Oq7N|I<4;v8Rle*{tYB'',
    ''Ku75xls&MfT#niwB1vV6%C0p)}y7Pp5EWeU{l63%^9A;gKde_FVJ%KV=c<&chKl8goi8DaeR$Onr>!l'',
    ''yTjHi?`7Axj0|)O06JSPRvrY5nIe!xKuf6K?fsCKw!gFcW<-i66^2m<QbQbk24oPJ`(g88JD}lCLIKD'',
    ''<qY-5$8ZZ+0tAX_K3hO;gvl&>X?9n$6<jnj-T33`J1P<rq`u@@Ck50hBeS0v1VtkUQ7<xNah1ne2`iw'',
    ''YR}u?7TM#biEkU$OXBQPsCT_#J^jhCs>$@c1I(WNz@co%74K|)u1u4xsVy<)36>g_sb|Gs;hCJtt9wz'',
    ''kBE1~nYp#U{Z59K{3lH{B$hPT{{Pe>mTKgZ0t46n$}&?2PCFG^MnO2YJfE3&_mBqu3ol#@gxS++h@m<'',
    ''6^9gqtUC0hKmj&~2c+D=_gTm4nf|W|rMS7Jtd^lC7c(!rYjBR3gGMubY84ffcL+E~MF@fcITq(LL4pJ'',
    ''Jmx2n%^fkQ(Pq5uz2-x=f6*&1G{;}2A}b|V5f2{Nu6;VUB&?r*r#Uu;gBZpyqjzV0$a`{H4wr`xKTNq'',
    ''PNtxJ&%~PA!)I(n?TmcV{KC-#@5ArnnYIHgz2J15F;eta+-HdppXB{eVQtY2Eu{O&sSp{Kb1pdd>#4^'',
    ''-VP27KyQkHYMfNI-j6=32sg6_}fR_O@&s+`~^z10a(f;gH(<V18VGJ1r8_{TrV0fo+F-M?^#42*F{{l'',
    ''^uwpk~z(*H3hxE?f`84|PyBGsxgCoW(Ti`4j*7mBboc9&)`UH@e<wT`8}rIkxn(a`bu_wv_sz8v=!?;'',
    ''bkKG93Di7?@m1g7hU7*3bwH4EDPTf{+fuoI=8>1YY*+p@NZG^F1)%YtTYOY~khZqteCfNK10*u4I}Jx'',
    ''i8sVHO<Y>;<hPrD-`L(R*g8<IDV;RQ<OvUh}_D>BS`pU$ZSgq8WMZ)Cg7;p@Z&v(CEsg(MXo39E`*A;'',
    ''$JmB$rrJTjN&JcnZC#fTM|OracjW43-TT`2;L>Bd(OC74Z^+Mre1M8dp7i$q18ZKOM58UEIhj~o1_A%'',
    ''ZMz;pv9+@r(`Sl3k!rKF>FfG{#@dq?VYCvyYDGpHecejBkhnJw@(A=;as3V@}fsHps$RMbVz4g+l3+{'',
    ''2EstyEseL}p9ce(Z+BE(M6S~%l8{Nd9QKi-)3FJvtw4VES!KVs!|n`BXUhMjt>DG8i)A;BZDEC6VW=^'',
    ''0S-zP2ouJ$8zI5HwT!1e!}&ySkWo1M{uJ?R5-EKB|u*aWeYzpP!tW$Dw)PPsPiUNk>FBn8#^tU(*Ozt'',
    ''N?8PhHk;0c|Ym^G>YREH1@~%L1$}+*!{2`w+laW6%tMjCVE(&C+Z$8y~-=<e6ey~yUU8ZbD3lnWec16'',
    ''vd4jgeB)KjK!r-yEWH{`bMx)hs-SoOW+4B>>|)7lt5{Eijx>&m(*;a`7f%X;&AHLp{Pmh=YBE9}|Bkv'',
    ''P@vJ))F1~sKwz;;KyY^xnI$W%w!XWsa1&Vi`^qs2P7Pj;C8i8D4*w@6{m)Uk>u+60k-W%-x2T)4`1QY'',
    ''-O00;m!mS#!dTC~0sApig~Y5)Kg0001RX>c!fbZKmJFJE72ZfSI1UoLQY?LBLA+cvh}^((OU%_Wt{^r'',
    ''P)|$F15;6Q@^m(<Bo+o3?3|p-4z#O_3@emesjG{+<T_0wiU7y1g^|;cBL}L;?o~2j`6gWKkAt5r&JVZ'',
    ''b})3B3*BavKG<2Dzc`QA^#qY7T7K>vP{NxTI7{(n8@E6IZ{93BCq9bouzaAM3!Y<=pU*1mKAZ7$<d+M'',
    ''O0kM=q=-b-%-2QIWK!hOS|-BFisdrRm!8<J(s(7dMUy3>T182*74<3w3>MhEsi1MaLSUs_Hd#~>fb(`'',
    ''J0wbbIRCN-npZaZSa4#zTZBta~?Ix;M`a!j7>NGRI>Zmr~oB5_JVp*Ba)y{maqjHgEW`N(*4gF+NZqi'',
    ''L4Z)3S}s5#34dX`1_@S-e>vTYm}Yrsjgl!gV8VO@k(T~34qg!2Sw0pDSouma)cdRevIk>bu!{z$;5N@'',
    ''0yRQG6XOWi>%!mLWcyh_cCZAXM1o2|T+=%esLj%Wo#4{T}8;xXg-qluZcQwnT7=%q09-N98s2#5qq!;'',
    ''}(<fM&?OTYCHhVu#{ENlt9K_s{ocFSQj_a;GO21rXFmkTfF({tpC20b-6=6FbfaAM<d`NXns!EQ=hcZ'',
    ''Exy~;vYNd{#<{FZ=sJ5nl367O8=DrRFoXpJL7IvWUb(JIDZPpClC;`n(Jn-`!ryZsd9w+VwDg#C>f=S'',
    ''#HNJ<|DT-3(?V>2xQ4K5fJ3&pWFjX8g2WIF)g9g=24x=uqJ+4JaLYmiArzwpXW->}})d`gFR#D|Xa=P'',
    ''S*O$NBAX*n-TiDFnGl%=f0T9)fHk1~ThJ_OlWcDgk=$O$nGHfnMZBI_4&s`(isp<4;;0E(jxs<Z^;BP'',
    ''p61JIK63CD)(G)3?w5Yxa+e@Z!g-i&vMk*RL+I`Q^JeZ(hH>x_It9cRJ!E)C#~zH?pii#JrEA(Fpa7E'',
    ''P)Fwr4vB&m-O5ZL!?d^jz^>Kem=7XfF8aVz^sG$?`McbP|tt&#-ks99&B{`JGaq)GxZl<IbYWi!1#Ig'',
    ''rUwM5P0hBe3|d@0eLFbJQo&jpn9#USHS9q2>5TM5bSC*kbVhn2oC%IcL&OL0J-{xU5ePNQr;<w`q7a8'',
    ''7FMf;Y@gUeI(+++k*34o?Ku8fYR9@8}k@IHhdk9?FEHFoT0cP_iN=X)hJS{GV;&q<w1PHHqv#VD{E<O'',
    ''uBdt#%B3-lm79V$H#O#*%go})xA6e3|!hGmpi(nqxnKe!v(7~tQDxX>2sYPSI!@i;1%U^N~;zTV=uF^'',
    ''_KMjUUjnO__s-p#}&CA&;s3zUdGg#L6At?+&k~(u%o{dP!k*aBxsm0X_)U(Y1uPmDr}R8ci)OE`FR{U'',
    ''IoykKLO~Z+cP*D)z_DVCfW$ub^)Uz1M+;tU#9E=1w6#Ltvz^73Tdql{UIU(K#lu6sz|Z=;AjLe>zfZJ'',
    ''AID%6K~h67xoIAT!Dfe2dK7!(&Um~Q2ahUoMAq>@JVJ*B91$5eHS&W!Isa)5i!%o=kR~}1NObje242A'',
    ''}eYeKgMBoQm19>on2lG1=Z_(Nc2?}xt{$92al>{@CkVrHeQ5WJf^{5*ColLV|)x`!Tbc^mpw3~i*a&j'',
    ''^e+X!sbBE6N#^ox^|F;R|<tPcw`5$O_ak_;sxR!v_-V6GK@?86278#})oEw33Nr*~5Z!3|g7bY-&CoH'',
    ''y{wUo?3<5x92frNv+_7DdaFuXFJ}1qWpdd<;&kK-*T~at2_xMN~?lWt1Ehpg+K|E5H|)xt{SDm?VYPb'',
    '')krkeiA}iPehap<6WZA*Q>JF=7A9Jr2t0|{ONiH-sDP_=<1oC3XmF6M4AB*U?Nt<MlPBRUZ4+==8ZHG'',
    ''1gs0(v#yK`9U{}>Y(x!QBjTn6hoFY82wfobQOnurQnPTuSJVtr{3rR@!DTpmd-3#n%VUQ)Ht<o6OoOn'',
    ''F$?3GkHC_P(pDC_^ynj2px)@tfz|$py7iGFczeM0V5w!^JMgn!{{YIALIGeuM(9#4gzq9NZ53wuZwhP'',
    ''!%Oy8&I;Nozqk+_L6pe~9>B$n_tR~!VYh@4n-U@=U<Wh+FyO*Azjc&SoY3bPQ{4-BW)ALz5iphJB903'',
    ''y8>qp=2qT0yxp#Ic}d#B?goY+)z31S0{_O;{y?9wQ#!Rkd8p9G(Nd{&<28A<QgBi!%g*ni>#5uc*oDJ'',
    ''Nn~Pu^%jOSy#x0I3wr^v;fI?VkTV4&A5lP7kJPFe|&&A#_l;j|7fc)3IlolT9=*G2YBaG5A^Z1*DmCX'',
    ''bP1+MphVzmqM{bX0@e_EK;T?}`h(>{NTl|l2`?_Z)?(~O2~Jrc<O%)%492SCv0l&|@IO_08YqNI1W({'',
    ''QhhQs|IX!uKn^tv&_`-BebBi81Iu)npX9ps50{iUeW1A!$V2U~rw-9HCYDjSXD~LKKAV3s$sxgV9S<X'',
    ''Po0h$m+re%>M{eABZd3RtZFT<zLuE51XJLZ8>z}UneI|k8$!XpgYI&Nj74~X`WYbUV}aiIRw>YA2JwS'',
    ''b`^sKEhlBx+~mL2F61Ai}uS2H?m_FCZ_`Y1h2>DDmobID7Tx-Br(wyRMMmvsK=!g2QC6mldW4fc0b|{'',
    ''Qt0_g1xQBUy0uuSs|2j@u>2|qaG|ZS?9T}_;_x>E;OK~-e3#;H9((l<Bx-^*n)u^+jKC^(M#R8wi|F6'',
    ''>w#(iR5WD^!GBbai2w)+j5i7*E{~yyS(tO-^??yNgs&R`BVy$9YmtJwP@FN|LlxHsFcpaRG%&?(Ry6O'',
    ''=G25UP8t6bj#W&&<+#d0m{`7om?@@5N_~AQ3liMFt!{9`HQLbv{z}pWkz3#&r1hEg7f&PJk;Fv`-B(='',
    ''p}^hL)ay|hNhUcTl2S0&g;!0Z#g{e*6gt!U9l0e_fsf5`031{`B@NsMiTzQi0#Tc%ZKC<|BeCE1fiP$'',
    ''7V7jVf^k8)#3D)Y_>QJPz*b{{1m<KBL~4h9)|b<FD#<))IsMGDX0LP$WS{$F?HcfGbm0WOmr&NzrxZm'',
    ''uQ-Dfu1H9*P=?1ZVp(52uK0g(Ws19e(8N(r*$U3`S8!LKR$jdZ&ETBza&r2K|lyI^c6eY-}ZikG7rKx'',
    ''-wFTQ^RJ^1|NQ3T<8Qwie|y=?b^e6mpkEry##%Q!xho%kp><VcAl(bDT5evT!!Y;87?~|LJxVV&0s4-'',
    ''hgOuyyHTB}?ZzdYXmtnkW@@pOn97zz;X<7u&FJ3%-_wp+I?%j(Q7jMJM+0Pg4Qv8(4EP=pE#vlMd+$5'',
    ''?a&J;$3|527+1J&oh0*i_UT<A<(ynYe5h5@;tMVOEPRwKS8oDma8XCezzGgs%#q4l+SvLn=}nVMrS;b'',
    ''(Kc?V4q*uf1ci#QOU$zqI@fFHlue7Yq}8dhI+SI1AuBf+D`QA0VhP_~8Q~7k>zvvIoP$$&Ma52>^d0P'',
    ''A#=%<8o(5XlL~tP*+O8Jw?AxZj`83b#+uLk)X|#R6;Y}^uV7Lx`+x4(+jzmJ;5}P!GxpcdPQzOg@$O$'',
    ''s%GA5I(Qaguo$nv^Dus5T&&mNy>Chh0W+-SE9hr@Fd9iw#j>v47$vW&F?Tu4B3<U=UV|2|Rhwo(T)bd'',
    ''Ph?v{Ci#mUC!KjyinYyj-!NS(Gyo_!VTWN9JkjQRiSnbwX3QAy#9XcxanTkUrCMGD@w5}ky&Wk*aBT!'',
    ''!$W*r&u$;51`38m<Qkpoc4T)UNHQJY;O2d7?8qwNgHeb$C_1N_`+??iw$m3lEFx3JU)L;)Ss{E{@Bj='',
    ''fZyiI`(V6ydAILSX(F=vC;6V@`|WDO_s3`4+eX7{>_OYR3^==7d8(m6C3!$iT4ihojHWKXSlg-r{rp`'',
    ''uyl~C*m{67*jy|7=Dq#3g&X#pQ>&#=4o=`r{a#}eZ(ci0wMuh33kECkj&Pb41?sF5)5KqlqF0oVT)k{'',
    ''4yeNl<ZuF11gkN1N$ewDnnKu&lrFWzFSd`P!ZU1Sk;_hU(yNi3G{fvrJO9yr$Uw_sWZLnZ?50A1vrrZ'',
    ''a?ONKo)=nsZDM#ZW(YA7jAuadFIE<|QIR6Vu5R(pC^U<cVhj};N|0LyVZFwr0o#|%EF4;{cr0ZGFV+I'',
    ''fRYSV<go&&-#IB*4DsnLBquKxX=;(!tx+o_Sx`*y;{y-I*BLPJ9QbvFq)$bFtxoFPR1RelW_DYYfW8~'',
    ''rNRNA^t9TqOi8vW*pKpJv-=SDAtKlDVTj6(yW0gnHMTC*;mG4^hYBX7?YPt}{=-4WZF~df)&;(uYdpc'',
    ''9vlf#m=gR-7HrJhS{<2&Cc1{|5K(&y$}#;g(?6p0@hxnw66&P4eo4(SvuGHs<Sd3#0^UiP=Vgv$-ws9'',
    ''dOQqDgf=relb%)7!pshH<f^5f=C>MW?IVRS&{}96;kb};xeU<|55<AhZ9>C=pcN<=wBZYO$P1w35q9('',
    ''(N2(JgYUsmTICn*g?w+(g<H{$|2r>Ik9?j4;hx@6n)6LW>D7n8!n#Wm_NV5pl14lCL89kcO{k@3&+YZ'',
    ''AV9*GR7fB{*{%>$aNYIXakPc5ZBQD%Xp#8-J~u=KP)qIHf{wZj`=)Eiwwbn*MDj?B!kI{WkqNe*L1<+'',
    ''4HFfYKT;2Id-(Q(+e5{v4r4CKPi~&|r3gcq{8Gp|GXk-!2MjXK9GelVqZc1Y+=-QUX}PrJDpp{kjw~g'',
    ''xTNMEZN>}4n2`hNJZ?%P6?2rP4fgjQ`)XvD?0qF=BUOobp!4(3Q^m^Pwo&wJ!X&TU1<98{Q!rtc~E~e'',
    ''k$nv~HaNO#Haq~oyK|VKA@0Wd0YDvM8U|^b(j#a2TI;=MbkpVjG1Y?)ydO=*+^I?nwnd5CZeb;B2U6N'',
    ''$lwRg539jW%J1;2My%yc2-P^#WVy~G!UFXF|T@|4WO6z(ID@&cDAX?xLW3PBS7r7lIo5BbXTWC>kQ`8'',
    ''z5#w%&O!hL10!cF}cVwf^5lt7%0hdeorZ_V3dm=+>>p)d9BlCo@97qmZ~y9JBX@odcS^5TeV5g!KG1@'',
    ''f5!vXj*xgJPlA;;cLRtWmR~xW<lZ0PXWA5q$ylK0Kvh>F_fGN3jD|z0N`HCkZ7KV4y9%sTGaUi_r@Nu'',
    ''+NPBA?;}v1T^hhf`^uX0}j#2uT52JzUR7wvf^EmMFH`L>%ifpDlBOHXmSw`2vwljP^GBfkwyX@V46Bl'',
    ''I)0s%@ab--JfxRG!g$CogdUXElOE70`{CRL<33D{t4TIZu~g-_m_r^W7wGn!%dzWS-tAoO_bt^++oyK'',
    ''Db60JAFL|#Ukvh^-GYrU^ZmH{e2hb@8cSZ+>T+PjGOri2b$NkFwle>dCb$KJRVsm6%IRep&Axnn?iVI'',
    '')>MN;Pi6aJzd1_f@*R%9FHR9AAH7u#0ML`MNu9iPJr1O}9>F~90nFP7IYY*XZ*Z~6636|LV-Hb<gvHh'',
    ''`mlI}y7v`cq)UB-ZLIX(rn=0laR<oRWbDE151=H9TQ7AueA<xTg)KRqvPTF`+XSDw+Hh<y?xm&cg5C&'',
    ''t6^r>@RFX+sp8%O2<W<*V)hu8m6d*UIFJcv1@r_F0IAq0ha|2><6zpHOcfL1Oh@FFrMgfgR9x=XFQRK'',
    ''@J`P@``p{Ry-R#KC_5&{t`;59oC^PBB2I>d&FP??#q8(O6deMe;5Lc-=(PXn%&;7743&4R$s%FZLOW+'',
    ''zIYq=sFp~+tUWad=zkc=dr*WV1-F0_bAfT+Mr1N5kXr^9p09P8u@0LZpoV~ih+U&D07)9shv)3=*{Xn'',
    ''JLe>-s#DOfHLmmf|)LNE3G<fG0SsPHUo)>!^w6=f;Kro%USuMVT6`3>gcX&;AVtH5nxbc`VG2c89&C)'',
    ''*iGp^ijo9z*Sko8S092VZ=kuxsn#t*y;gc`YDHs%1X3Kk*KGnxaDC(;g{#cAqq)Ph%aUCRhcMv$p)C!'',
    ''G8)c8^_Yhg^8HX#Ckgzk`m=u$tSqhtBp2Mw=l6d<F`SkswxWR004ng+eTn6Z)7qyx}J&>^)Vhodo9;<'',
    ''sY-PL@=kEADnqd$`+WFiSr*M^f<ggKdj^g&?X(?GO`v#kdw?6_Sqg|p3t)Eetne@p!cx-;KqPC)h@fT'',
    ''O>gr5uY*dmtTDhje#n&Z=*5r<gO@-L8H_bKQNfB4BUu6|4x4t00z@tJN<d}gS?NLvXaha$3cv0|kx_N'',
    ''=zLNF*5U2NgmUq5FaX+vVQ=Q!<cWJ1pX2gIa_KW1B@_{{W1(qLU6nhb1@-?_aj;*|87Qqw?B#Ep<}i='',
    ''43M-EDGYTqT9YXuW<IdNIy@w~l)B_bv%ED1kn7$GftGD|a!$%D1*L{GvkaZY!*N&8@8|-0%i!InQv<y'',
    ''N~ywc-kg5dT%Xm=?>ZVk2@XUzj2>TEsMcqz3trVx9ORTwsSy*w>~c50BrOavi*J8K=k|Jhw6V7&tREh'',
    ''i4G5zB8zXn5vPA0>_g?o)DgMW(IEK17G7IvEcTQgP<?QDOv>b#6v?-P?d(Bysqy98i|>7W%95k1nNNz'',
    ''-)6-#c@PN4gMrxR`CbgwerZV{sLU(}jwYD3xDncc#^cX26OCjxrV(O@oH~f?0%P+qaM_pSf{)gwKtZi'',
    ''@6Ne7v=)&@-<=^8L-JrhPd#s88CBS2uq{v-=V;3Bmn^>1py{vAx1s{Y3%8rrU3{;ss*9c}QmnWZI_TJ'',
    ''Xwqc&<Y9J4bQPbPYnnGj<OF<sMEOf^_>ZoO*={27>NxYjSmtYa5lAZE+(U?^%>n%2#rLhH>p08ItPp='',
    ''+MPN5g1E*CkClDBpMIQ<1yobayQi{n1hZVLdvc0hv4zGTAnLr`FeU5d;uIID@=V=668xq*3q1fj6}Co'']"

definition DATA_19007 :: "string list" where
  "DATA_19007 = [
    ''9ssgI$kohi>j!u!9~?@sfRW2WQ|8~4H^8HdvQ`r4_w2OY^Di)cKuKk(LdL93qI_&S-#tbr!b11L8m8|'',
    ''lV1PI<aNktuGdKUL8wAcn*9qzr1l{8XwS?n>*#S?cdjzlJt=JH%-FgVZUdIFJ9fDhcS&ERM`22@YS@n'',
    ''GirI}5^Je}6NjfcS>ipye+vQ(DMhR*OS!=X8NQx-`ROG;Ypf#6pg8K;YsN*}<=fN!8`wuT*^yTsi7cr'',
    ''#9gX{11|)qw<J#zz%z*xy81novFe{{2%+m|Nx~BR1S;81X@t9Ck+Ua3opL1ZqvmGhn3lE~Wq9a;FX=x'',
    ''@Q!}|G&2Xr)!HJOSZeAkadR4{<PKEs)Tl{DznjLv#Yc1kE%V3i_H!vRLp<%F`nfvL&416nBq{p+d!1U'',
    ''x!gKk1B7V3A$M!hWTehx_HWRFrdS<7Y%vfG0h=}m;U0~1sF#iJHrXG1JRr<yb>;n$#Ge#J9R9Jep>y='',
    ''|j|L4$<Zj4d?tK_cf~ivhVNHk9t(^_sc&IqmoFLHds&9iKt4xkI4|0t6By@|^_q%!SH3hxucAcw9t5A'',
    ''Jy(XniymHQhU*A-_&54WvK5TdJS@U`4gzV|`5w(92ZCdcj3a)=_@VT6gPukFMhPQ4y?^)8F(T_@o>=n'',
    ''f6<3ODyn7Xv{1fnAE`VNvoio>1}n+wk@=ojoU3Z0rv4Jhm>kA&U}YY{?F?V};CxHa8H0RpzXWxqrqyF'',
    ''+JKxz6Urx!4t128$nZMW4&q8rG#y|55<ewk3U?TtBU4t`!CkfGL1!*E+Om&n^3h)l-Y|RBt=s>9J(+L'',
    ''#@zX!Y4WT9_g9rbKdOvuAK@yX-5Y<^IjrZ!Z5$NW`V@pZTi3CY_bQKp(1=f4_AX|+FBo(2z`Zm+P-r&'',
    ''w+L6>YgnOHfAFq=M7{OwzF0kP;Iy~w<#Z9AOQ(ojDZz13w=hP$I_jn3;Y68|Z1Y;530g=42Q0=pDJBT'',
    ''ULJeMW?Qp|kFB?kHsy;m{QP;OyiU6X}Jqw!!Ww8h#{&OV^D%@i1jU~kf*snEG93ovH1r&5BCr*1%q&='',
    ''}=W4sP0vYZ)jHiA8<|z`|+4aw=%@c9W?yfOLXJWiJj5&UhM&#^d*#G>H}qEC;l3rQKs|EmVKHcO>Yo5'',
    ''*X|#2j0!})_6O8#+8%28C8=MO{t(Ugg{(i9WGw0uw3En>B^QhTS=AZqBPY+y^OMT0roz}b3$|*ngW+n'',
    '')j8@6;ZuHcMYSZzrgL>|8icR8-13IFzR4jHbW6vwC^R6@OciK|uaNYxm}e)ae?2-mJ32d42vF&sh8Kw'',
    ''iK%|rUl|})P{>QUR1#VknF+@qD24a@5-rGuzAOzE*OcN^CtOagfmvp{*F5?JqZAkUv#()?Wrr^qxgrW'',
    ''PE$=kHv(Zv?(`h+sV{*2&4lA?0C;0Gk1!I%h!n|b!CQek8u-mfB7%e=xcdCmPtbg@POViBud!&Qpc)l'',
    ''qj`<_O`+iN4H^@AU{w@9%c)vf`b1nrw;%@mvYwgC|*8_{7l>=+6v!O5fXY2>)5EhJ-L#M<F>}g84B9R'',
    ''8GM}-&!NJ7|nS1|L6$VVP0VE1qaV~q8c}D@j&?$^?Zf}8OR6EFTQ*C{a6)3DbNNnYcilCiabdX8ZLbx'',
    ''{O=l7=7DNKA;wlwS7hvi73rH~&?{H9X<Q1y7L;%Cz?^SX88QT8XZ>N3;4zC59X(jfaw!ugomxR(qEO<'',
    ''+7#&$xweIel)`qI?*6BOf#+vu-!Ub<;Z!R=YTTA!P%7KjlR|6cAwm1tvT)a+&wAiFmhp`ZzP$wes+QU'',
    ''+KzvS-k1Lx;~cc6dvqYi2WzTv^6>Hy6f{tnbl9X<e>;Q7mg&c>2KTbD)QkG6?3=P6>#87b3^n>v?V9l'',
    ''TY?byR1twg(djlJao!8x96^<p9Q)ep{qtTRW=`E58XEiXnZc#Xu4i7qPRP6!~@uFi~tbwOU?YJ%9b~i'',
    ''r%Eg)-tQ{AJ;^qD**pZ5WOiLpy3(bm+iXKH9O$@tiT)N!^j*v_6Uo)1c$nNJtrd_%;@U=F_(?e^HK8b'',
    ''@bS=jXqo{!SkulOm_AZ5P&O2mE4K2-z0@TRkFWZ?>>il52Eso<scx-s8nl>eR;DgbNTzy2E6Rg`yC4q'',
    (''({KJ>1JRv6j+Px@'' @ ''{RO!$L@ugPRG)@Y>PLcv!X8rAAM?A3gL$-{aREe@QLm3Hega((>{-}ll{#CT2b;6''),
    ''6hTCuwm9G&%rF0EtRDZo@iEWppJR{jC0_=7u(M>{>h)X0POTA_V|VI8IIUsF)bE_P4F`gg4LH~ppV#g'',
    ''Y1h<gg6OK%!g?guCU#*+uUexka_Hnd&NEEzWpv!>}mpPd~wR|DZ}|w*oR2Plj9mk{><r)4!#~#q2?$n'',
    ''kEU&9?h0mM3nO*b5G2}4)G)M1|e$eb$^7}0*hc>mZ2zZY;)is>tIf}!#Ve5i(SN5Q8I{de+BPH*X?sJ'',
    ''?tH|kgT1Ne<Bq*caA<k{fj67+x_C3rXY*}m=bh+v_&y@%gY~Vx)2qF~tRp$SvfBX;wJ-m`B#)am>Rmr'',
    ''WZoW$IVEFM^w|uOt?)kg`Uop~_F_=EYadhzrU;c+ja$!AXq6-rA{bvNtm%%cCwc4DXeQ`!r3%Hq~ZVw'',
    ''de2qKPLR%0$`M)uE7C+t;Y{-FeCgI(3<l7WKnjF;{RzJZgG;cgsOb3n<9W;|!1wkfs+*h2yr(|LJ(#)'',
    ''L)eHAH}-ZsB2Mmr*&#duQ4r<4!5{gYR)sWn<<Zmyz=BcxvPit1De5>auZE#fHG<VmUrF2!rs<J$63Of'',
    ''rchXJp=NNGFpWU{?YfzK)2oj_IG)T?}+|#;4FJ@$Aujd`iTJ-7D?l^r&Mu;`_+8W5*Y25ylg6frlda}'',
    ''S&}Ni)J5gcPqBE2`vl><ff$uGa?Cfy<o104?K@tgJ$HQD?M9<G1B}HBfI-EGe894mp!a38v5sY;ds3-'',
    ''uOw=iI;)K?XLpef>2*5Ksb^InOE81e&Y<5mjdKiLT$D3v=nJp#^+%lZ_GzgaxcgKC+{>gA`ZZ|Su%;4'',
    ''DJuFCeotxbI>4==DVBX(RcW{X$A<pbPc0Wtjp0@q`#%evUiYIRTLV3|2yT4Rw1+A8w&uNE+anN_^3ff'',
    ''VcaoVM}xP3O>)y8fLS@!29X2D%vNltVv1&hVUAnJ(1>Ye;w%SZ^>gYkzeSgT`9U5A{wRDDOahB|aVl!'',
    ''DUkERGJoE-rG%8DuLcH?qCUFPW8?pZWO~E#IbNRBLK1f-u~+cf%*zI7t~#;^1JFjayB+T0|*B#OQioL'',
    ''1)(5t_G-Qpom<V1DO5b>P?CdDN_n(J=t2eKDu=m4+7PWDTL?T>X(Drty*6MVaXI^oFVp#P)ogIH;aCe'',
    ''8-lwKc=R8vvTjL2{w?a%&OQktL31cNE-as)CHVH;7n!|4=E)NDads*<u1MxWDdv*7)y)DT7c-W(v#J#'',
    ''g5)(L`V{Kn2#6@0a-_DS@JME)Ki^>0=<-iy%JA9^d9Wknlg5^J)VxcIGsxL(NsOr6{-x<i%vP-yz6t*'',
    ''@5O4tsm*+WpoT#NeU8do6N3oA6ZVSIopZvyAfH)KsV$(*`=9562(s6jN@PToWU$ksK!Z3EmGZacNy>9'',
    ''Do}H7EGUuGSBgrC0VyQRU$WI6`0k!q;q8FVpZ3h>iqb43Bxof^y}k!QP-K=?9`Xzc~;DiPlD6a;0yH#'',
    ''h<f<)^vf>{5%<|G+)L@1tuQHK`o|?SNAva4o_b;B9H>3MMK=ll*yG?)GCd3|!vuA!dvX(=4qwfMJC=A'',
    ''M3zeOUD8|H<-mfEvnAV!<KOrZa@4wTAeaJdtTl1W6KAvK8oNgKesvpc`0{ssse8eQ1eu})*y^Wax4c>'',
    ''{Nw?*k}quviJ)aAaFy{%;(18T31&|9yCIvq(B2GLEC@*QsW$#G`-_Qt1Yv}J*t67shuE$Q+n=Ju`hvW'',
    ''!m%^Vtg8IYD)S*G1MvkyYB6`wg$ja?Yo}ZJ`Albc@=l8H@Q|nq)fRYK|^((j8@!Zy1+kL+M)SBIhG^c'',
    '')D8Z{JS~~PkSUX!kfg?wKQ39i;#T=vd+=>=J1~1T}tiXxB=t?yIRAWnfF)Fxdw)B+iFUCVk|2u-8W#3'',
    ''%r_Ro3K-bWRx-Zk<6r8wBC*7OUm@Q&8muh{g}P@7Ug=G?ZM!`B&|2+P?M-nOW7FYKv;WUbNYvs@24$6'',
    ''C?V7dp>E4jqT+@$MiQhPviU0#X6V(RR-SVV=YufI3^Y|@9WYd%J=zjrFO9KQH0000805+CpNi_=IJE;'',
    ''l)0Ba%u02BZK0B~t=FLiWjY;!MRaByU4a&s<ldF@(lbK1%k{?4!1DxCo`SR{5{J+V6!I|+0BR+Gf{PR'',
    ''J;Ww7^~qt*TuaXs7+{J?E^1Bwh?j+Yg;7lMfi}KIi>8XIF6?r}k+gHS<*<*o<pt_`QhOC{a^3F(%f>?'',
    ''e<ujNjh|WHEnl%BOgTHa3k70jsux!#-o5uRUk)F1T~|WPNiWgO<0^JvC=}jH3!5Hr00!NlP1FRn4HEc'',
    ''F^mtj3R5FI`**FD{jPNWO)qrK?v7=QTEyJsyYG5eXV-WA78COr^hmWxilyFzhys<kTF&$JH@_XWm=Sa'',
    ''1nMEvWwOSxX40m}x_b0*wgBoC0#HXTpTx0M_P<Q-tD?oAZOd5s^G?*|j)l3BKKG3o7!2v!a7zQwGq!M'',
    ''@zt_8eM`rJqrxix~qkCTaU7%V{?{DY~{hUK3YG5ipcq(Xr3jY^~d{6ritVW-@`?jPIl|7>5#VZxI|yN'',
    ''jE2`&}oFuRzS{a{1>-&a>69+$Hd08EgD{_JM(mcp94Ka?_mzx6U-}>mCn2gIap<4z)uYP6x34j2k|<P'',
    ''@wf-i8dfDtV!2VjzYGpC|p3^jK@Nw-AqRG^JV|+iUrEo)<+Qb5Fwcs#>i-_*;o-;w)}gy-#feTF0Q+s'',
    ''3$Jr?bJqFP`Mz}3!ex}{_%9HVA(z@15=f+?gGBKu0AmbT047i%8;G4bfhCj$B4EP>`%a02>o9M=H(ds'',
    ''%Y63GhWMEaCnmlF*sMS==CL$5+X&MD0c}kj(p{ODfhL2p<hgF0l=6o85LKgvcU3YM){wBka58i`mBQ+'',
    ''n~Bx)pK)!<$Bt?cje#*RM~gMJ!|1T?kJ2hZJSSxjzvSH0`2W9z0-8u=6p@CB5SW)3ZP^0eRV><1pE!X'',
    ''>!8ZsaJh(!z)*?1L}_Gvr!OIW3=2ZJj{<yZFtGRDuORX?SB{yqS!=kqW_a4QGP_PP17n3AvkqS5u7<y'',
    '';+zE7z5RBBS>PPb~FUiKoO}TAwzi&R0#1>@M{T8fxZb-;5?4mhrDFOR713cfVhS5pzs=HEmFW#C73;i'',
    ''%TT*ZG;j(~5mBcE{j}kcFB+&*iJqE;!%B`JAK-V-D36q<eHFtyK|l<Qc}%>5g1QyvSYRNf+2;1&m5ef'',
    ''dGNNkb8DNP(gkS@>z>Pz0z|bi>Iblw~6Hw3jp-30h-EdYZ%X!?aA2cD?T#Fw~MaVr7Jv1EPL$BNEemw'',
    ''U+USFO&trg`hfv#lXzpu4zL`B|~`&Ldrjb)fJ5<7X%!O$#+eyoWtsqa71!^%0_8?h@Dfs((c+IrnqQ7'',
    ''J6}Dks@uuag<&u*OiSQ1Ga=q-1L+kZi<;0(%4dl%(Wku!>}4m0i)KMD@A3MVo+5GX)u0(?KtwgNP;gM'',
    ''zlznnM&?adK%M)96!#uxn&(mJ)8v2fWkrH3XEPvemy`jp&HAGsHL*t9nNGhk{RJoK&CsDexkG*8Jf;S'',
    ''bdc(Hm{pMPzkc=V#hbT{yT1GUS<~e@o}X6GP*1d6`>EE*S`a#^b&4a~`s7h@)1!k&`BPMMr$`D0JqYK'',
    ''q9TQ0v$ED`q))SChno$^Wa{@y^ZNs+8=Z{#v*e9rZTgbwYL=rNsJln8eZ&)KzCJ$i~)qy$ZO!?^)1_w'',
    ''Lw_OltJJosRb-KhkuDSLt@rFA#tdX#lw`|3f1*S^Xu0ru4DHQVT&y~n^cuni_|2fMY4OK^nu9ufdEr-'',
    ''h9h282+}sPb`sMOq_QX`6H_X<(gH)O-s^yPR8`ZE5H19&&sIeI1y6$uyusHnim93g+#`Ip)#suyZsb$'',
    (''<5|k-`lHWZ<1Kaqf*POKVIGSW~;I@Z&Ax1H#Ov)@'' @ ''{4v{uLQEb){RS%gPy!om&e*HxO61Pn;R{*o1)L|''),
    ''c}^s}|D7gFHkNxVbzQU#xgcw_6)o~{`llQ1MzsGo+HH+i)10rXQ{g^s)u!TxR*VGwbZ<#N$-~|2tM|P'',
    ''R`!VsVrhAZZ#wI&P<-7&`1W#^6ew^3J>{T*<oxiNTc$`=V`H{oIlZ<0TIRz6j=1D*YS!qOx;56N`Agy'',
    ''TFso`+@Zo^Gryoh-_mT}wWar^n}qoY&e%T>6Q3$=nGIUKctpr96FW$;EOD}V!H?4ZPv`oDIYwiL0u*!'',
    ''CM_+Z#)+EsT%NzMS%Bz1#j*`K`2-tQ2sBwD&06M%q=7m7&qf+&(CFfDY|^RW@YXv<Safhrz*e*%yc&&'',
    ''n#@b=Q8{Q3^T`g8#PY&6n9ZLIGe~I5Wpq24LvPdz($Fn3?aLf8%Op!lk}0mfE!Z7W(njPABG~kzkx*?'',
    ''A*))g+Oh|K?0Xy4y}rD>zA9fwm4PVTPuSN-%J<uL3aVQQsvqyhtUs2k^>u003lReYLa5X|as&8uYr4&'',
    ''YafLRvksEFTp>-^RHf*XFUI8;#P}c9fatqfYTQRvro%7YnxBS5po1<APa$OCMGWl$+MO@wbZTVN#TdP'',
    ''WbE8qO^aK;y!e2Ef?1Z?hy3v8e>5r%8QbnS&}gWOeL=W|>`oPKbyoQm>}nqNO^cxZ>$l|1$E<%kE=4<'',
    ''N~+;cFR$UX`4)CTwrYIUDgX9CH7j(Ih1Q3bX|Mc_=_p)~iox{L^V7FqHPHH6H|XDFt_rQ=ah12!XQ$('',
    ''X_7;bO#WWo(Ve&gFI%7>8ZV!2krDqqqi?}&@K>SJ)|e#%-l+1{}cB2qCZs6UB}GH4wO!7b<Ii%!_uyr'',
    ''PN96Z?x-H!V1qq>SJ(gJYvJrHN$$lWyUztH+-r#XFJe)gb@B%ve>wln>wdnyJ-_<oeeR#%778RzA4bv'',
    ''{w5-8pKA;Y=q!@Hl@NHzi0MkQC49@3qs1lJ3`sgW`)X-DfI@IR+l9pSH?w?D_{UsI2;tMvV^LYdGZms'',
    ''*fSx(e~;Www@3<e3$M<IGW3GEO0@%fP;9=_Tgy`z^q<8}CEYlw#F2vo3&x_%-!j5cW`@olLG&qlyD&z'',
    ''~K>u(oH*z|0^FU2@RTq1*rXK^W`p8z|qqhCQ2=jBI7cwP)DWMp?x_VP|R<LCXs0l%*$_@zjkdxuM!7{'',
    ''6Ro#9Z!bRFds%HT^wVcEDtclbgW%YuWdEHwx!_>&}N|j*!9QqPck@p^YYo-x2LwqCR}@n>LDZ;PY1nP'',
    ''PMtmy8E9EBAZVhJpy4;!DLZ`mvPzAsV0etIEEs}M@AK|kSzQ2uxWoOUkYQDWaWCMgi_w5s^wE_V3LF9'',
    ''M8UWzZxJBMSY%zkWnqkubA6MvjxwTeXogIMpN-nZ|WmPKbyIK=iZQHBFHtM-AV#9g_cb+7w<fPqb73$'',
    ''CHa?8u4Wj8pF=zj*}jmEw;gM6g5F1yATx6pLyD4oA!%LeUB1xaTo4{7%Zx)THWKuZjb+xAY4*;k|_jj'',
    ''({>pfPAwynoH#++}Zd`Gb;y#!CR01_59y=ZI%t?&0|R+2+e~;IR_2H^=w{U;nstfGxkWqrIh5lg<ikp'',
    ''Ci%Hi&sadnKODLCeW3rlx>rpez(^n_{%?c`_N}W+Vbrry%bO6SVquDGS$f))ka9?g&Y=aY19c7hb;uH'',
    ''m(sYBkfj_ZP{I(69I7a!EaMuP3N{-k^IGfz#+o#yKi1w<YQ1(0{TEP60|XQR000O8HkM{d%?wR000IC'',
    ''2AO!#b5&!@IaA|Nab#!TLb1!0bX>4RJaCxOv!EW0y488j+xb!dwaQy+pvcs^;E<F|KQIKt_VJl05B&W'',
    ''%W{`)A|PVAuVVKV|m63NHMCsNAW9)wUs96SmE)H~}V$R=1lL=@w`D5i58YA54<-bU=5B8^3%5{@HR50'',
    ''P}3VSFDwvbAWn3;}))q`P0_v5nTBO4~f~YWuAyfWHnE6Cp!Uh%%s76&Ts$?#>#l*s3v(8xDZ!yMf;dU'',
    ''XXtt!Pp3obU*{r03MyDmLha>x{8mxcbyk-m#~}<tczq#1#!=wFZfmK#8VEMYqz5lnaBE!Kq`|43XrJg'',
    ''loQl+bRj<$oozd~_X8Fm!K`C$-~qv-)afQ*pQ>rFl|w)XmV?46@Vx}s%L69j<S(3i$9i0$g;TG|JY$z'',
    ''ik}M2EUSz8Q?)S_iqUl2NXsuBxSCcOD8mjf=VyKu%Qo3a{L#@>GCo_S}xH&=e%*_Xu4xDA=NK(JgD&z'',
    ''v|l`%`Rn|raIr6}iato!FKtxM-o(Q&uozP!zJZ#UcRRi6KDpewvp=)X15)B&IM%_qH+MyH-6N`Gs^Ic'',
    ''QugN6(}4)95Wm%p<=H1~%Vc-{AF&fBUhimG!-h*|8QPkG2rJO4)>{E)2Fyc)n%)82=oz3OOzw13b1B9'',
    ''HbujHHgguA&0gar5RkgNI4%}C1hn6N~~oa->Y&_z+X^H0|XQR000O8HkM{daUN<U1_J;9xCj6M7ytkO'',
    (''aA|Nab#!TLb1!6NaB^j1VRUJ4ZZ2?ny;V(X<1i4t`&SHJ3JGMxwue0|n}xFNp-|cq3OyP*9@'' @ ''{FiWF$G''),
    ''>{QDhARuU&px2H9Q)S8($PxJAdrfG5ujVd~UU~6W9H?6=1r8Quc5?ogF3n*Dm9>~lNdZr~E8(_KWEEL'',
    ''#k+%U_PG|MC<z*4IQvaIZEr!mVMq|%n$jS`*3EW9Vla4u9;5ng<a@JW(v1TzL+czbuq@fOUp;dlNc0e'',
    ''V_;JOrRDoQuleabu@E*4U^m77voJufIje$wdDQzy2_M5!p-<-Pu~no9`3X`vjLS@D@Aq^Xo5o3}u7|X'',
    ''|d8ijGVGq&dk)RA6{SuPf8-03oPN-GHcKnR^b9DF;+_N7Ep3Q?QiIerU9i2Co6{#j{Ls^H(q)xa060V'',
    ''pC%Xv<20X1Z}&{P&qglp`84bBwip4-{Tm81X3CA}a^I)f0rjJ{#E1HV&=~{<ro|0sLhQg%Dg3CThQ8*'',
    ''T8hS1S)JzssF7g3Y(gxxQ)X{duTN)^phL*R>k?(-Liu<&z&_4RJS?ZjR_cWa+CwX3L>H+<=oo<yuV%!'',
    ''<O`!&LqOV}`L3BE>6&6UO?D;#5i*1F{#qq(SoMiiIfqRzr;LMe;zT$cOPIk9tP>rZRYGfBE+oer_KMW'',
    ''%rn*CC@Cq=^B$YpJ%@!H{loA~;kENT1G%lttqT(!2YY_5JVL*N5k)A8=(-y6Rv(t<PlRO^{4R8HX(gV'',
    ''?$TB)Kii+5=;v>Cs<q5#&yA6s8Y}oXW<I7^GG^~3*9c9ZJ31jj$rchx&#(WfM;^mJvTJqKFH5jegNar'',
    ''SDrG{DB>SG&B!&>jfxv!Uv!G0h7e7HY7~)E`If8BIC6a$^7E0sU$39n`}Pamq8K;f;&P3Y@_e?JasQ9'',
    ''HI3M|rm-r+awN`pM_B`(Y2u~1Tw@xGgF=ZC`&W1WrLBq#absCOlaIgN}Yd;Idf50iFb&F5%tP?i9pj-'',
    ''>TP_kIP>JA4@sD#Rym@YsPHU6TEk0t!l*XO|Y2s;K%87XGO<1bK40|XQR000O8HkM{dy;?u8x&Z(H%L'',
    ''4!a6#xJLaA|Nab#!TLb1!9XV{c?>Zf7oVd4-YDZ<{a>#^3oXPU!=9OHl(-R7K*YT{=z5+GyRL2#O3G!'',
    ''78zl?I_BBzcVyst%Bw!uzz>oci)M9tF(nel~@>0^nZ;ic!TFZjh^Q{y!?EH1X2&^1U(+o<@V3-r~4`R'',
    ''2V33yY<lf^Ht*kO^HE^?usk!jIgVqi3)YNbanv($GztuIaWpPR*y@7ya+&8XpC4bo{doSq{k5b#G=_!'',
    ''Rx1zxy_o-gUUAjoJjrkI!x0_>_ePuqQ_)4sRAFSGv0;vQgx123H*~w(`SYz=99P*Pz1IB7<1C`QrMP|'',
    ''S%+K<*)*yaQ!TKWK6BcSXRy{^v_Z<?G_AHw?uhC8&a#tNynJi`HT1{pNs4MDXi0|rXM`ebV*V=~h<bK'',
    ''<$$PX`SU(s_C9J-Z_+a8rcFa&65~*gBvJb^+YcXb)O;VA_yYM`Yo93g_mmtGR&{S_4HFhMTVv+R&s&n'',
    ''ny?qh8yQ%y<A80cyQ^S+;#7zZG@#wY^2Z9MU;JT>&WzOG0PxHAop*4;If2&_8A)Fx~KyOewt&5AsH<Q'',
    ''cUm1<6R`Ad7|`dY5W;6;nOqOz3h@7hGVd=?O9KQH0000805+CpN%BMOz@z~H0D}Vn02crN0B~t=FLiW'',
    ''jY;!MWX>4V4d2@7SZ7y(mZBoH*+b|5h`zzksLsK9#b{^o<uwlc1_0R!32C7WQ+HBFFq`LY0(X!GsaCI'',
    ''<b^1Vm$iEf-&A~;m;e5)rD`>N`MM@(+2Esq*O$sZ{m7Qi97wyLU@I@q4<zct9SC)q96`_C2h+~P-vnb'',
    ''5Moi|EZW!C*EgL|%D_J%PH8Y;>AbRdA<47cdE13SqxMd{LX}ZW!=4g$NTu8cCDdoL11%S*vxTS}dnJQ'',
    ''(OnnOXXl<lpU+wjm|(?=%)0z9HE%R<F_QLa&QuQcANql{9;czHur8IEYsmb^NP5LXsu#jJ<y8_F}$_n'',
    ''d~We253cAerIXI$qIpv7rxR=vAs>+fNqt3J<xBIsdo&F`T}!X>j}uvE2A$crgY!ppED+{Z6V8LB)r&q'',
    ''shS1{lL^7P-5wj+cHrSI;ribN=kXpv<V$Uh!<9Bp}Io2C?l+(7qY;IW~HTUg4t!`}?^kQj>czFCO!t%'',
    ''aidB1OF2($r|<fW<_cLgG4ZFLJxJvVk)#N6I~`Tuix_<8Ab%RaBhetqEvugtt0x}x5URL1=eP)h>@6a'',
    ''WAK2mm&gW=SA71$5v9004Un000sI003}la4&UqX>4;ZXKZO=V=i!ctybG^+eQ$5*H;Xv1|m_3vE&+c+'',
    ''}cIsI7I*<2$B|gXbWORj>wJ4U1oO~Sug$e&MZlZy7U6Hf+35`x$T)Vm$lIqB+0sQjlm=VS=HJ&5G$+8'',
    ''#$nPvk4D|O!Twk3wl&)RsV;?EYg6^l8)1}GxgCv08LlBO<tk0Sps`Y`#5zOo!suoM^a<W0`Bt_Sf=&o'',
    ''pp($tsZ?!^@Yf#!jW9hUNjf0UlFz#ZB?_VvKAqz(!l|!RMS#BYvZwpzeYgFOeUzW>g3PNQdEVu%@7oD'',
    ''L>s9NL*R&4DQf;Vee%Mz8S$iD?vp0bkin#RYC85Cr$^b!OCzuH-o3TmTsBdQ>Vp9_-Mh%Ic8f>KbT^L'',
    ''9$99??Li{nJL9M{t@P=ado9jq9v!3Yiw*G184;yD3`BUPbB}e^n1o?B%=H3CC`0ks{ol!sI2L*|v$`P'',
    ''p+CIN0$uqMVcqp;&X!D3O=P+JNVI2{#L}G2V=C^I~c=<ZMD)RT^FsIIFgsv!R(GNZ;$}QDFY<v?woHA'',
    ''PDX$XEVS9*9khAyEa?exPjH;Q%d~^hbet0%&&basLa>Ohg3({$5F50N;2y~|Nef|;+N%uMO%mq}gi#k'',
    ''>y<Na_`o4rzSG90*B}?hLG;~ClluPS`N--Q*o^rg=9?nCjgQqydRA(3l!lqINQHx9m)j*C4lv0AVFv1'',
    ''beL^oJ-ODMz_O#0|bOxogPextCG=-Mbr^d&?HJzwK#f$3v%Q0a$}8~ofzgIQ9EPnw=9sbtku3H{gooy'',
    ''PD^7>j*YxK6!Y5V>GHyb*Frq4rs6^*Zg3NJT*GA-No%YG54{bgwm=jBQOg!wOTuQbe<jP>!oDlQtEGn'',
    ''u6MPmJInO96mLQ%CQiR!p#fE2_y4s>Mp)oeeAoQHJi~P6=W+~h<e{yxDyCRcgda;h>!dDEyvcP8&X-t'',
    ''u#`#|J+V8h{rk=mMQ)F}q}|bXaWPw5%)g1}^B{^TuLyZDyS%!-Zegm3BnIP(BMD6q{_yU5pNzX-FJ>='',
    ''(|2q0D_D6iF{wSCZ=@JboTJ3q*_xqTCgu%m8jVUMTu%~aND`4SCPsOSnA;sQf?{FIItQ~#=$hEtHXEu'',
    ''OmaKNbdjdHTWkFE3QxFft4rNtrdLmCTV73W4bbr^WxK@`F5?GZPbcL%{7>T$HJcXxZl;cnWUt)1}S(E'',
    ''q51oSm9|28OacoCwjIe?;Iv7OC$R{j86BD_m?%DGW`ZzOVA_X}%#HDdIRPD`^gQJRa}3AHxGvo~Ti6y'',
    ''$%fwa@u?FbNFU7CJlf;zM_ul3au9Lw=hd#a<qDUM^lRPbP`?|MH6o!oOu6}DNM-5Bsw&E8DISmW?!&b'']"

lemma scan_DATA_18557: "scan_lines 0 [] DATA_18557 = Some 9480"
  unfolding DATA_18557_def by (simp only: scan_eval, (simp add: b85_eval)?)

lemma scan_DATA_18707: "scan_lines 0 [] DATA_18707 = Some 9480"
  unfolding DATA_18707_def by (simp only: scan_eval, (simp add: b85_eval)?)

lemma scan_DATA_18857: "scan_lines 0 [] DATA_18857 = Some 9480"
  unfolding DATA_18857_def by (simp only: scan_eval, (simp add: b85_eval)?)

lemma scan_DATA_19007: "scan_lines 0 [] DATA_19007 = Some 9480"
  unfolding DATA_19007_def by (simp only: scan_eval, (simp add: b85_eval)?)

end
