(* ===== verification/Payload4.thy ===== *)
theory Payload4
  imports Payload_Check
begin

text \<open>
  Lines 19157 to 19721 of \<open>Crawler/get-pip.py\<close>: that part of the literal \<open>DATA\<close>, line by line, in
  pieces of at most 150 lines.  (A line that holds an at sign before an opening brace is written
  as two strings, joined by \<open>@\<close>.)  Each piece is checked to consist of valid base85 groups.
\<close>

definition DATA_19157 :: "string list" where
  "DATA_19157 = [
    ''I)2%-!`+#NI4_5{D6@<@ML#q7kWa!_xRSIL{Iq=Y@*b#?7qj_1@;|()-yZ0%Q51!16t(N=u9Hzyt57K'',
    ''0cB*cvz(O=MXN40C@DcK@<c5}@92K_Bf3<~L)^Huq<Ara%NIB(R&u%T2yl!x1&}JiTNo|$44fw!|BAL'',
    ''7yHrsYh>oJ@9rp#Ll&!pCMzqF7wUU_WnOJ@&m%jNuN5&8R)IFvpqiZQ&V+9p2E+P2h(N2}hN7lxIfK|'',
    ''_issXi{NGhAqQAF8&K8Vm#Pjr!<8c+u!jP)h>@6aWAK2mm&gW=W|u=>&ZQ001%z000vJ003}la4&UqX'',
    ''>4;ZXkl|`WpgfYd8JlSZ{s!$e)q2+dN{-ZQUkl~hM_|rimqGxu)9Os-5!d<Q5-qeB1@hmH_Z<B-$zom'',
    ''Yqu#jYzBhJGDUv;NRcd^ts&3LHndLWIjFj^E`V5htJ@&+_?{%)ekFXR)hbC!I@hQslaGaLg0jZ<XD?C'',
    ''aSLJIFifYlnd1W>WxH3Kntp&+nIA`6Ho;D~wsBluO^P+0a);~$)57Mly%e;E*<y4Rkf3;umax3@U>Ot'',
    ''sM`Xou-z-=W_Ut#MSkIOZ?077pp*b)MMtSx>C8Jt(bY$R?e54%bl`5+w&Am$)Z8kNzjK*I&g`XA94?5'',
    ''vp~Gc9hfM6ulow+1xVpqDG9RoG|A&u5=MUSHi_<d<hRmv9O*Ux|0`zn?L{52BWyz;xs?ICQJ3JubD~A'',
    ''?VefO&=dKddq}^Fl$&Yks3a^T%xY?);V-W?-wX<J%N>c(i*fO0%$2bhSwuPt(8YL$4+{ME*jpBz_R4#'',
    ''_WI+8Ul{Mj4I;klAukyGw?BN>t=@n0Zg!7;6k2%C(Uv~7t3PBB<|hf@b98ic20JI3hWSJgt5)f?hq~2'',
    ''4HCi(K2+x{AvR_3di>)W<HHeK+m^iF#YwXS(Z>(KIALGsj|F30<*{qBTd7gTy%SEUB^aC=`0U95m=cE'',
    ''x%)Sci7oWWWZfdVoF0u0BfvC0HYWC#|Jyx^k{hiK47PbD8w2_{JJ2Q3n^EboJR3SYj0Dtj6*{Rk{b?R'',
    ''#pH!8zt7?-=Q>NatvLnfiE6;=pwEB*&vMAt(?5_=eG~5i3o3-f5zY?^Ufu5Lq(3UJHfT#uuIN8$!)*B'',
    ''hj(j8;g{Yx5G|p9RtgWU{Geb#_5EjkyG>px1VnG%I^kU_h_fPPnnUsboelz9E{Zq($ADjT#*)VyKmxh'',
    ''{?dqJ$6u7OboQI!%#78A?3}<`KZCb0GCc8`IVO)I*;7+JEj=SK)l+iu04S2o+6H4JQ`Yv()Bs^YB=tJ'',
    ''EZXQyJk;L5$b2z4OI;SI(c#L>Hz>&mWVxHwX6Bn&LC3CkM)Atz?_aeonDbXEx?Piop_ljxxZ*PTQ>0_'',
    (''<7coDdW{qLlYbVM2s-riBOOBw5{PGL)_I;Utka%zWF3fqD-DSg1o>{hcm)pJrf4bkg(m@`H&3Q>*@'' @ ''{w''),
    ''1C5>gklo>!=I6B^GK2S6rU4e(%S1I#Qe+;ACa3es<Bvmg)0Lvt#^Ybn~GJb>l|Yi{js;7g@Iz9Adg1@'',
    ''jJ90D>1cw*vT0-%{nT<jNpq%k^*i2*(xV#UWh=i0=Igclzf~GiqHxjk96b3=nQu@PHfD$@npohhDi#W'',
    ''u-%bu94@fakP<}avVUlG)6o3HQ;99hZirbfV;q)Cpb=#=iN_oGM8w(FK`9=n=gFb|Ac74JLyl%30Y`Z'',
    ''2f{b<UD1+ZA?@;|nldPMt=k~bZ=}2h}ahB>PLT`}=kW@G0SD|-e?;|nUQ{8BBUPvdgTyWIq+2D59+rL'',
    ''cas}s1p|N3953>o4QbvMy>KQ4vy<Zn<*0|XQR000O8HkM{dXC~KpvjhMD{|o>C6aWAKaA|Nab#!TLb1'',
    ''!UfXJ=_{XD)DgjaFN4+cp$_*RLR)hf1wS6y4h}5AzatGvGRa9UvHrK%gbc=0=eMNhNWA{SGgZC|g;p7'',
    ''t7?ieCK@UqDsjc<$2YbR?$31tZt+-h#a)!t)aR9pCsYDkiyVc!`Y!b;qrK7;&|~FpNJ?qRk}NuI!TN='',
    ''|B@hh!kIZKN=mCtUkln8w07q!rKB1OmTg_1^IjYg9qA^O4WVHTE@a&h(<wc!w|DoC`{BAZjO*@}3T*='',
    ''}nTl}rqWLowrBtYonoC7$lH8z;G#beYm8`0$q5>>gxEd8ifLu+z5p!aCj+iKT>k#kH+R)lXh9EOwD2f'',
    ''$#@vqzulfuL4+@b~AN<ot($sxVDHpEak>r;TaEC^4t=o&Lo0ytugf#^rj{e9pLhu4}2a-=FLX@$IkwU'',
    ''COoUVO?thS_Z9ewQ8fC@7(q6Dv;Wg>eqCx0(VTYUxL^HBAfbN_3#XEG<#xB0oE0R;s32gB^`%&5RXbL'',
    ''bDPS3?4atBc=}v1TdXMPoI6xjPlZx$pqm%x_ZOXPu^1EvT&p(k1o@Y1x2AfguNxksC2M2NADu>cXRYH'',
    ''14{)bTBEhQ0DeA8Rf8T?Y1bY73D|cItnbPlrke6<4jv1s%4|U2<-<O=5SVuP1`whostn3tagGj<d`F8'',
    ''%hCtX>Y)4O*_}<##43sHUw93_UoEuJ`DaVr-I)^2c*Hu_}Dwavr*$n?9nMl9(xAsYAXolWjvyq_>h%;'',
    ''z~SlCvUJp|-~X{;O0j6K%rgKFvE{b_g&wDwA&2y)kW`HLb=`rf_kK!m-u#|<r0CYp$zV5$p;Gi}nK3Y'',
    ''fow@VxJ5yf<e~@ou$WJ><*HCLjtXg8jaXZmkykM$5f{ey{)XgS9WE(P>vsH|P$k(LgCMUZS=^1X)D33'',
    ''_K{rAP|a5Cv_svbeM5&?pFQ(A;jDJ&HZi<oQ=7<K@TwOkf5~GebXZ#9A<=@g(r4AQQfZwUsP6-%NIDu'',
    ''W9GZKR=eH(Za(6o&mYv8P2XLX&8L+gm%HtH`{)0u|GnC5?jK_dPwtI!O{Zdh8X7f+qGTq|LwRe*z`~B'',
    ''`s30c!!IP?4(rZED!``xMVuA$wSY7N@0a+i`5(emld}QM1PiZ8Q4Z!tDw!HK?aUv1ku4IZ(Zgz!<<4`'',
    ''C_$f-&RpzY-}*ihA<3FI}2+J*4E4<UUsykMGX*bXr23K~Z?pNu^l8MAc87ID{Joj{a)SjttHs@}PVzA'',
    ''@%(6W~+l9m0-^V?Pn?wn7xs9L<<LJkK)6V|0c6MVd{f$&RWEK;Yb^9lkG?`|TRRc&)#KNNP;QGgDGv7'',
    ''@_IxVYT}LNER?|m)re%_M@(0U%M*sSsZ-!Y{!1DiT?gltMxHjALCY;Tp@9kp4GUdFLLS@gB>>W4z2J?'',
    ''zN^Q=!KinHotlv7w}rQGEjz&XzTrKa6gogq|0b7d0`Y#r|3U4}+)2CT;A??#dO75~uW39X6n{eGvZ3O'',
    ''#vxiUJ6bb{rkWU!i1*t<b9f+pZo;}H~mgA2=z>(iRsxRbqV^armqfa0AcLaJo6J5R|_zt7r8G($by1e'',
    ''Z-sw+frLFuoN#pFLwO9KQH0000805+CpNk~-K>WKyb08bSF02KfL0B~t=FLiWjY;!Mfb#!E5bY)~NaC'',
    ''y~OZExE)5dQ98!Knx$54QG#VFQBZLy)9v(DVgO)}qS-fsxKJ6Nyww%8pU=zweHErQ~!5+J2ZmBofIx9'',
    ''-q5=?&yV9Ig8^(X-f@p%tT%&Z5h8YDl09-)%RplkEh&%6*)BDcSgzPJyW;0Lf$r?%0vaX%jVN;%w)2l'',
    ''-3n1e@d{+BG;2kZ`-RA0v;b8k_ng!=OIM(cP?B-O+PSzM>}`;!9CvSotg<|d4J1mYX2#y1y*hdQ{-Rr'',
    ''*s}wTRtbVh3bJoqFZQP>rcKWZ2)3@>Q(ed-s_~h*EjOkKJGNP0z=y)ZxEqMlV)u|}0=(K}01a&I(jNO'',
    ''8bg*0ef25EZ=UoIkG5IqZdqas;Cavu}Av06*elgZ@b^!yoGbo?SdIl4TJpS`?fhb-9pFyG7Pd+Fug^M'',
    ''k#Y2YVNP2e_6T1sdmTk40$4xf=`PSn?d>V2aC<j2pw=wdc8jY;jCGUs#NSP~F@?Vy6cahEEC$j3Ob0j'',
    ''pNYZ!g`z@`iu<8&`F%xxOW{M(VY@9#N$PU#`%XC3-IJ~l5wYuD8d3Xr_uI=ohzO)y95Rg!dMCor@UQZ'',
    ''^`_gLp0&UoRRJ>GV#<^vsU7kKee2O^G6n;Jr(r8GZ6)9#fx@!z?DeVE3cdS|XC=7zsjt`5`RVhdh0yR'',
    ''7I3s7Q*c76Ph#5;ttwGwDa<8ZC2|KbF7X?K)TWf&|Rf(xr>NZatip(X~PI#aL*1?xRaTug!UW6m8K8;'',
    ''4`2{4Xq?Cb~*yp!P8dO<JYIDDtG?aKPNpgIqxk;LcmP<yH^Q<z)vJ#5V3r7pM4L%}t-N}Izlm<5Q`K`'',
    ''`}Jb!qcwrfzul9aCn=Lc#wiWv;q>zuqN%X6yxQzH=fuH&Ghp{2mxlGy;YdWQ{4cmJU3mY;>Q}n^sILm'',
    ''{emv4jWIQ1o7!s5C=!mfE8Hwo%Twt8x!_dP}hyrw}c5p=Hc+o250cAG=O-aNS3i%)l<ipfI+}zIy@m3'',
    ''AIBJtQUQi>oJ=&J!D-ZasI6SP9dPn3c&cd)qH}zChA&(9^07p>GzPkWH#^9Db=13f+@(%9C^NGyaR!m'',
    ''>jrWs=){LaT8PD#{u>(85uCUP46&JT?)}!nHq~{)9+lZRDnW%x>61QX-w;P0YKw$7Z*3pH%n5pvh@%E'',
    ''_lx9{g#W@~L|%){=d!MgG#Vrl5B-a80_imDdaK6A;+f_ifIMJ;3HkaLj>>zHDp;bRFh*)X-Ja?DT;Dw'',
    ''zN)unAlP+(*orKwM%FG$a#1N8+TAP8;dri4{mf9Ttqb_lg&Za`w%jFJ|Z|)T9;*x26hQr%u%)qF^S`0'',
    ''!hJTYIC~E3B#rsBYtbM98$YjS7G$rSPl>MO39HEDx7*?;|8Pq1X74L5RQ~q+x61|rD>N+t5;2%oPIp)'',
    ''x*Y1~EQ&Ojt*Ct|Z6eh=oc4(I1T5%WNTB0mv64VFLg6vd^=9dy_KQ8P>r(}J(JiP8DOCuc0R}7ltnD;'',
    ''ywHTSFaLluv>?(~{eS5CQnLTE$LD$v)!sB_@z0gB--ZOa0p0YpKkL=gq@Xzl*yFX(}8o1dr+k@%4U+>'',
    ''=b;BQ0Ga}egwU1{)Q3`5tgxt4uzc@~V~xr%91kZl!H(0y)<H{EI@3V7n!xYXGgXX+4eo5N4RQ9{iaa('',
    ''}>!A`{gO_$Sv`4tnb8$dE{LVIW3Ea#3EI&|fnE^lD_r%CXtXg&lG}q~pWTlVN2K-G*dWIK2uqWWW)G;'',
    ''QEo<19H;gBUwHcn2tv3cJDEsSWP2gVr0774p092YW~Z$UoM}xHnrd5AtU3_a|{Dsk@dI@h+J#?g{F4W'',
    ''W4c^f*n!~s+PtpKBNyt{hM}l3448hbhJ8wXIy3>fWt?A~Ky-tswTpi^9Ef|<gZ2$O%yfleN7QAPC_Q&'',
    ''Sp#)gz*n1&UwRUxnuarp9a8rUA$XCq^YN!5`u1Hi);Q^u{yVSoPZD9&LNs_1Z!;5dk4y|8bb|_K(UK0'',
    ''^5pk3o+2tKINb?l|7?QSV&&&=3TtpUG#W8}GDtcI_+$oLKR+W$yWX_l(YQid#Q1iBepja$uA+F~WRW4'',
    ''0|y_DOwJFxh-wiMV3FkBagfBOnUKxz-DU;f<|EW_ZtbP*zvQQ}+)Scd*uwrEpUY01Ga$vjOB-L){b5r'',
    ''LsyjIv1TO!z44^?~KZ|WCN3NV{AnhYS4*JC;tLaO9KQH0000805+CpNe$+bxaR@@03Zke02TlM0B~t='',
    ''FLiWjY;!MgVPk7yXK8L{E^v93Rm*PMFc7@!D+mXMB*5XNw*WZ=O;ZGIQzLQPLs8I-w6d8<q)Jk5{r6o'',
    ''`qOFGmxH?1;cXqft`*5LEMHnj@+h|~nh^kiF68>yd*;ruhcN7&42Nf43t+_U!1M&_aU;2|M>W)ga*$B'',
    ''A_pJs15|60_P?Lg*ABTM$m9V`%;8ZuD`(B=&A4q-yc2{PF0*A3HPRHHNK-5$*FH-p+D0oq)&n9g+wn{'',
    ''L2<_GbxWl2@oo8bwhK1<AIMy&~`LMj$z>_japfGWt%hB7)CsHuLZI&WDJC*e#G25uztTlEwh3xXrfSz'',
    ''8-O{kE+nf(>($fN*c0W=?2z;HxQ~KT+ycn<3SyF1=7+X*Bvj-8DzOaCaG+n)e{YvTWT&00=Ojia>q-N'',
    ''KZQKpEz>l&d<PCKS~Mw?#!KixNpu|f5n;%KlF%ydo(r;aGW&MHw^lom`=F7z<#b&W(Ao<?oRs}M0zEs'',
    ''3kKJ)>PkPAZ3GAf$ZT=VJ2M{I8eOHASY~o5t|2NahW4cR%+}A<)cEFOD#`HxAnN++^jMWP_NVLN+m(I'',
    ''_tcfZm!je4n!II(bV=G65xb~~%U@|;_q<igmle^Kp37$J@2G6Qc}49AMz;@LgM;oe$2H%{9WtC$}Ic8'',
    ''~L<TW*fG#9uzFZf<W@H*uO?jf>&ogP?kF4~7zBJHfjA^zrik;qGgE7U>Z^7;cB0On6V0K!D|%D(4XeE'',
    ''=1Pt$m`yEOeSXP{!ao$Yjz5|+F~G?MgKlLD;4%dda6|sIq-DJCh=njx?Fltr=QjPqd+L7o9O@9YzJ-K'',
    ''jQ3V4{U%LQyZwqOdx!6B8zuucKhkq^$bht163<Ocu!-7T)kx{q{qiv9b2B4zGNn4S7!LajWY(|j#Yxy'',
    ''GoztLm$8M1h+`HEFV)S>#Wc_hNdi$#V@u7dXcIghYn=QLFhGJo-_t)d7uml&c-aFjon>tN3n&?3wO-G'',
    ''Xx{R2=-0|XQR000O8HkM{d7NYV>y8r+H76AYN9RL6TaA|Nab#!TLb1!pcbailaZ*OdKUt)D>Y-BEQc}'',
    ''<Po3c@f9M(_6&VIpl|>;+_(f`Xzjy&IHLGc9gQ>EiFx+aeQl^FeaXml@O-*8>wgg7GjS-+bv`;D$R{!'',
    '';S`cIKF%jOw^58y*wQEhuv;d>w2}`LIpB|IJxUR1^z>e*n7pny>X#+>pIlBnukUH#oOwPY?y<br~(9e'',
    ''97F*rl$<0rDV9!HwPiqak}8Jpj72G$CNxdbM2a8XmbRl2<!^ycw9-=VW2;PE1xzoZo328sJX6^RP)h>'',
    ''@6aWAK2mm&gW=ZAZkd<N%002!b000jF003}la4&UqX>4;Zb!jeedCgi|ZyU!Ie&??kP%y-`sg>=tL10'',
    ''ut9mh$8x^`eW@IxFdhPy*@qUFqXXI2!0{`h`pE_)%DbZr-H^&pA6GiT2AJD1_I)*F^(%f>df$TB83m9'',
    ''8!03!}@%ip+nWEXS7>@=hA5)npPLNGocqb!p-Qvon6Pkt@Z^xY2)_vzzN5uV25LvqCI+Q`$@_o2|JjN'',
    ''>N7&R&GT6KiA5Ndt1syd{XMwN~+bwA5zIG&Gn|@HXii;`t|p3-rsbu8!Jl_-!65%;Wjh!53#o*4TR&$'',
    ''l_2H{p)9u~aJxFY6ROa4C)oYLyR@qHsusqi3*IjLj@NT`t@2uIh-it=CpNA{S&6#kd-lGDrc3pAc`wy'',
    ''`!v5`_pRT`unZ5Ys?aiCFQ2tME-iHs#iL*^5l@cxEH~!;fV(Z;Acl0q`<hs-~-|)#9d!?;mdI^VFE=3'',
    ''K2nW$?GfpV^}ZX-MqyOw6oq{_>tAm!iej1`-gw3NXsK<L_$c2ClYxX(pp*-Q5aR`Kk_W7!pZt(BNe$d'',
    ''us!DmqIFW4?0FW?82A1`eG}CKLD|%Zw;RZnG$SmY3X^Syc<LU5jGQmb@$%Jikr+VM68Fv3f-=!mX{l#'',
    ''pzO(V$P;<&2;V<!dbKvvMkwFutKYI%Wjq4vh5m<+fpQDFe1V57iPu-p|In;EZOgkL692LAT~TPOM4|k'',
    ''QVT-_O;b4|G)jV=Aoa1v2qMCs-@LfKW^l&TZI(->ba(Kx)}LyDa96F!k?$9}BqcFCCYut)N*f~=U^QR'',
    ''!n&*~$6|!wPEN!(rcq{GNuZ{W%<XS#@d#~89Ef)uRC6#U}yUU=Q5=uqPr34F^-Bn_iB=eJ7Pj32cpOH'',
    ''uK8foloj8e7cMi|ig^|z!o>brVJ5*Na0o#Y*;<h&Np2ALPw<6aXc_$Tx!8X-^%>Rm}h7W3{Tm)<kBy1'',
    ''q4ipYZPB9Ra$h$O;Az#Fkv;5`jP`k~;*u``u(@Mph>7ota859olvVY9pS0_7s@@uBDoFvL>k$Ma-f^i'',
    ''H{c_vcGt*eCd|BXg=<BZd+-@!HUk2CX?(t*a8>|&p8sqL#&+>08`YvmjGh$TsJ@wII%<3nO^)3Dk03L'',
    '')2aLWlfz+Bkx&My&}$n9E)ncXn)NIprz2cLj1){Ob}M!Z&1<MTo{@TAc}G^nGQBm3+N~-zFAR}hh;A)'',
    ''tP~hkWsZQ`a=O%(Mki*Xme9{|tR?1t!*0Ml`VtG>=U~2+GYvio{ab8;dW8_Abyl#yhbOmQ$5b1LROTq'',
    ''6Q2+I}J<CNkE`CK$-i-sVGT=Wk12K=%o>C?H_h+o4HAddV}lbA#d2SLLd^UO2#BxTpuDa%l)km67aUv'',
    ''lrBx_5;%Ike~LbUeAbfrV0mGDuYlWW=4{`jy*C3KNi)QqNYki=`sp&OwcWiZ7vQMzNy$O83@mkz~7;`'',
    ''5Kl$jI2Qvi^Y8f_rS_RlzfN30+}txQPPJjLJ!)lC8ZgdSw%{Xs<DAK9y$gylnJTeiEOooxqu$P^)5mK'',
    ''exlDfE%UM#yx6sxpiBjT5%-)vr>zsae_W<RIU{YB&B%G@>>;mLNWBjq-fro?qzks_`t)-{vXgWgf=R0'',
    ''9_6$L1l5_zu_V*(xA?Y3l+uVgvlD16kvoq;PP^`t{W37m&_Z8(V7L;z8e~a=Ci*1jFOTA%3641oB+&q'',
    ''sN>Q3s$v|??cVS-Aj5OOZCsa)yN`+0{Lg%|{@9(!py3}-b!LfX`aA9+7tl!#nJbXho>YhG2NSHzvUz='',
    ''9WrWIiW?8_M^Q9C-;+0K&ikg<RSt#$bOi;N0HWv`6n9L~;*-<bWhsDn$-}HJ*1wd?>>AY&!SO-=pV>k'',
    ''D5y)KlZoa#Md3T#f1=I+*s1<x^uBpb{*>sS|<*e>zrrYW8VgyopM?qYn~RBhn=H1qXkWQJHZGmh+7g?'',
    ''0{OOUSVGi83=N?gC<@b(Q`Byh<!%mEe46M%&gVr;%sRcad>9A&YE3!~4nibg0g-4n01#Bs;)q^fP`NP'',
    ''7dke87O#=_1B8So;xg62^zMi8wg1)svoVZjN;2LgNig8WLPRFP|P%Ir$W}n~Fh%y^0p)C}?51{*VU}3'',
    ''LT_;h&n1|B8*aa0_Lu)#jQ5{Q}Elug+~Hrs1jVWUUvX+ppI8$8p0g;K$Z-L)db{343|0E-n`*FC!xDV'',
    ''=qne2iXZDsf2jj6J{8vS5FRTDNnB&?TnnA*%2@^juf$ar$_OBZ0Rm_DoMP{DfV$gh(UPOEW#jIr4!;y'',
    ''MY#9pX<mCUX8PX7wmzVvIp(D%oh86_46`KP=eD)J7?<ZN$)sHulE!Y(hiT?Nr8~LKSWg2DR!okBOwsI'',
    ''`aLX%GW3g`+2@)-4TWmGadA&+%;mb+lu{6*SQVFu^=+tE+4I*o*NplB)1&8VG}k)DwmxMyI`l048l1>'',
    ''wffB&v2ab*b7}6sZ*cxU==}UE{gs;6<I^r1d=z}wHOAw9v;HVxg$`pc11XsYNP7@0>B^_E(-{tkarSX'',
    ''j~X{SUjs9@S7=i5gQpsgaE<tb~BYk(cun;_8Pt}!%vAhuAtS*=|a0X#rS=}w$_r7Des&_bC?D>rnQl0'',
    ''~L_0T+g7uDbDsRi}ZGEZ#T8mAAxX5AXU8_X)+{8GEr7Xi>e~99F6urHF4}MRdDRgRNt&+RlSEx@gcr_'',
    ''iYyR7ux8WS4=mxAG$dGNPAQfk?e>9-2SW1W1pi+d#AzQS5If{f@HAIM^5W1&icN^h%F(fIuHNmz08Zs'',
    ''UK$Q;n(b4g8nQ3^fQN+n7;lF~L08;+l?$#tdb}tG${5HRn4k$8-z*CLtoMqPTA{i*!slm7y)2tS4*y>'',
    ''W?RYpTbL8?^@$enrkA#sz@5FTXNYxN$ArZoZJ5qmbY@r+Lo_6KJ^uY`<nWIcdiU$uo2$^QNl=uE+R|q'',
    ''7Absv2mcaORRnNSuzB5s%*f04*1#2(DV<Cyxi4n9H3UW%rinz`ZMNIBqJI^%|gK3z`z+IpIdKt*^57T'',
    ''T+mG~eZAsHpsivGem#Fu1JV-`}g~o2ozqzRy`_?Ln>R%aV4LBNo^6#O&1%QDbgN__Rl*l!}O)pZl5Mu'',
    ''LG&W$wM1cy$an$u4vkaqG-6raWc9sa51{ezw4g;wm(YPdas!g(-f&^U-&aQV?PQwp3IR;+eY2BH`G7U'',
    ''H2@1YDrQ2f-^T>*N*!D8!ZdjQ{v{0_&CqY6vJg3^>8`YB+|lzi)K`L<ku>jdbG=%)|7qmuZ&yrSbDPr'',
    '';o-2o`nxdW%Q`R1P(F3CR)-+@~^S2R5k4jK;`o(&g{I$EiOT)h#u3+!lUA_3>WvClwE<-+xGxh&OQ8^'',
    ''F9oSN?>9~P8D6SVgtA>ns%<O=OTskL0Z=E%#&+As|O#8gN}p>$QY)@A=Dz*QdSbsWu;7lw|RhdDphvA'',
    ''t0uJSf&Wj^@S1KN=}Qaynx-0>WEcnP-=mE4*(=$D7M)SMkeAR+rM4MwrX5{`BOVFi;OzH7FwJP=8xSc'',
    ''VsW!L=)ZgE9iwLW#6_pXxFcQcr&Jy;ha7sLj>5Yck$SP$>2U=NXTzj<kiC^J(`32%b0ZD0{mXdjccO@'',
    ''Bm9v@29A_@xXj!j<_`V85wKP<=+GU`o>&X4JMngp4w$rIDfT_?aNEsq_hFlE1+RQVLBD!HT!_-r6(_B'',
    ''@IHbLwG5qpxuRbnKpCj}X`y7o)(dTb)qvD4#G4FrW93eG08(;ZxEP-D}abvEg7au<S^Kv>;9h|Y3n@R'',
    ''$5{c!D@kOR%77YSagZ-Esu7l(UKXyWQ|`sC@K4?UqxrE!1~-^*otUwb&<9Irq+vf(}b*?UtHbEWrbtm'',
    ''u3ADGxrN@1~K(NK5A4dred6F;<MUX4uc4SuY^{*lBF)G}PQ9tV4^*ru#f@WntIDu*f{=Fqs6&rXQQ|G'',
    ''%)JZz(C4gllQWwq9$guZLO_{J^o_nt~^b}^WMC2A%Jm&wDX9|J!-U8xb8&XiP|ye@xCk=r8IvB;QGlv'',
    ''X};pJ>&od(Q&HXdVL>YENq=0sVbde#)!f(Eqd+m~G5VUmP!QT+&K4zCx6IJpj7u`;Y^c-q3O#;iQ1}r'',
    ''ul|mg^G1{aZdUNU_rdPd^qa7QvwZ<JAwe8p7qlXc~CMS0X0iE!@D!U7gBpJPanEPy%9eC)cG2cIaK=4'',
    ''G+eNYE+bVB_-7<gAVf+}A2i=i7W<o=@BEZPdo%%MniAv++C_g{w16hg)Bk~tGLPkj|@EM1RQH8w;5W;'',
    '')L~4RQ&X*-R^c>xvrp>&Gl+PXuAO<VoO~pv7}{vCP@65Y+`Q>15*0xNif|9rdjM^ZZVlix<~^CTBUGl'',
    ''?Z|hy}Ssu7dJ#qf$IXP!QFbfwH&L>t-CfwUHpeoX~<as?Jr4Nr&7t+k3S)g90Ba(arF6FA#{sV*tNEz'',
    ''nD)Fo>vfW!1-&QYJuV5wrc_Hkn?5klXjVQS>Zd*W{|zKM)sf$a;+(D>{tE~Z&u)Fh^#q<YJAYu#>BeD'',
    ''zAoJwoNbr#kO{0I!LN_`K)@ggRUf{(3maV8oD`buEDc!fCy5fgH>Hgvr0lE;BB5OQuzZ7QIHI1!ZYK>'',
    ''pT^zrY%cp@#qM8E>+MlMK4Xj2%qCb8F(sYrc`>~0gob)hKQ_RHUw$8FU9EQD>pzCcNI2!I30PVq>?dC'',
    ''S}ve71aNB0mZXRPL=6w?NZNxoT>MP;KYgsjBPFxT|H4wr792I?|s-uCK<b@@UAB{;k_Lj*Nq?gJ#YNI'',
    ''PB;<fs&D?FP`PO@Lv);_-?@gXYnR$nscO<(&1MdH}nOCKDoWGiH?zR*Nx*e#uU@;D^TrY+rI!%O9KQH'',
    ''0000805+CpNyt{kOXCdy09G&n022TJ0B~t=FLq;dFJE72ZfSI1UoLQYrCM!|+cpyZzQ2OlU?I72<R&@'',
    ''b4na4U%S(F&+O+5<y$@-ir6t;CSC&*#veymr-*09}O4OUzn;1dXmdN4onfD>j&(HtM^E4Bh@hoG%zq('',
    ''@KPADyloFzqGsUn*(U6*B{s`K;nvz02gERI)oRVxw4Om6WF<4av+btPi+`|Qj<7fR)Y`;isvwanM<XQ'',
    ''ACUy{RjiHNOt}%&b$&GKzO1PYV@kc^hquozPLOvP>@B$|YA?Fs_+-9Mf-azPL?9S;2O+oAHvTuZry!c'',
    ''HNG`^_u}<Ds`Fh1JJ5AbGGEkO<l&RRCAU9NU^S$r79Ak_56&Df7G^8Ld=1$8=?}6Td6BOJ3BjzW26zY'']"

definition DATA_19307 :: "string list" where
  "DATA_19307 = [
    ''OZFkyB|4b1U@fXxt0Y$9uUaax6?qkWgrNwSP%zRW7s0@v=vf%YIp2Z+kYbW?t=aF1zA|zOi{+mpsb<f'',
    ''JJD|FTwbcRWeELj}bh3d(G_j!dhFFjl{@JYY|K;Bb|L9d!(%)T<?BL8)tU&rQmsK2xT4XD`2!0;0-)J'',
    ''S^cv~pZtg@HY2Bl*pwJH?baV3jdv!0@Plt2e6vDM8JU${}Ng^qJkWkmwwtw2ABmB=nQ^XU9~s5Y>`^G'',
    ''o(5`e*cyIeQvCWoaRF9#m|@cY+bImEvney_qRj46x=^r9yvc0HZS=(0N<r!UJKPSvUSTyI^J@*;bBoM'',
    ''hHg@;Iobp0O+9*lmNrbX=2n!K59l=3NJu^VXf-W&_g8$&h!Mm4CsVCqC1||LWi?SnqV=gq*F9M*fk?N'',
    ''j#R@wW76)y@%3?P5i&@FWPcq`%|A8|k1f&_qn++#=C~b*%|ULSw<1#38i*}$9hvrc0|m<qR6$Kj1}{O'',
    ''k5QU(pOvVR9d#-Zu0AcWo=Qz<3Cy#xBUIa))tyl0#7zX{NaV$ZOq-0-RdN6d}eQ;Ah0<7?TjMr2wYv9'',
    ''y*1CbJw7QbgLw@AiQ={g@Gc8TUSXE^e*XK9EaZs890Q<3$zK<qbzL}maP5^6O3PKpgE9#t()5@fq;wi'',
    ''F2mcL73S#-)R*(iYbef?(i5g#p9jNfNh!fkWgN>O6)qX1njd8AYu&!jLUi^u6bWTkBYXvDEN|SB8VLb'',
    ''}MF`ITO)3Vi3im0Y||C<KChw7VvrjwvpTvbrsA;IisME#MPl3k>`XMfIT}UvYhMKF&2&>F|MSq1t7nb'',
    ''xd13&pBI_}0xGOg)Tsd92g0#pbh<yzx(I(z-+iEVj|$kzmI$}IApu^}pC~K#U^BD(TE=Lou*NZ}X_zg'',
    ''w5KpR{6Xc~KJ<yD1iqEi}G|i!ph#fp|!3M)KP&ioJ%ZI!q$>{nkqcGh>$wC?gX7e^EH4h%Jp8z2=8k-'',
    ''J-Uvm)#^|#u{hCX}cWi)LV>ILvNi<)E3V13;;T&*D(eDlrC9>4kV3~_*gKnecurwyH*4N`|bRgV#A>?'',
    ''Q*pC<`sCLLDqq_+Y}9zy}B4Hkm&|bJt8)95QH1`3fE3vq+1wV@7+KKYhYrubt7U0vE%=Ox_5VJp1F1R'',
    ''gtAajk^mPJ7*P_h()tbnaPS?g~WJYJMdvdD{5RZ^!S^htEH)DR@PSn>__Wbum_L7{nt~H@P2bJQr-&4'',
    ''DpR)S7&HLxv`$3&%+B0YRjHpX7LZYI>LvK5?V>!Cd;w*~f+*?*Qf%<A6wh_Wp>`7MHPjZ$bLjS0C&~U'',
    ''EI1#seTV?>k>pywEE-;N?OP~Xqrkz^{j<@U__Pfl);xS~ux98CyXEF36fF|P!I&IANV?Wf0TQZ@O0?Z'',
    ''p4ORKlKgy939pyE~qeNBa~WKNVClC3j{L<HKA9UxEN=UKs1vmFUF>YQ{1;t0kZz#jKVv-K!Hic1KmZ;'',
    ''R?jL<<vek-kx?P+k89oPqA|`sw2^bZX)xDU<@Q;cxN%Z$B}pC*jdflKn3aRG31brzzd=*_}ALo<J^R@'',
    ''EV%0(FcVczj%HHEF3^m5TQUz8E0FbAr>~(f(=FNygTKcRSA#=%=ixQd;ah{$fm0zDYECFuiwF}=kxwF'',
    ''3h+<>K18*KQQHG@zknx;pAY{j%Lkyem-MZj*jgUATu9bg@GxkC5v(%rZSSIa<JWsGe&A-vv_l{>XOCw'',
    ''e9=B<h@vRUYsT!O!Q?dV53xo%&F5@e`a!h507<}<P#0~~h_-NE{#ex^aHqz|IC9{f|L@q>G244_^y<P'',
    ''OzuX8gxJj#3!%myBeu!Cj0>WgM@p9D~|&=DeKoq<(tAWdh>0{k$?%Dqycx#KovMT)7bTMf1k6H4?Rvk'',
    ''2=ba<3#j8%1G>KRO5oFTt$gCD;*|0i{}?1_NKvPXK`LHhq}4&)rtM+@gUfN2Sl?--2d0(RKo&w{A2T6'',
    ''<Rg=eQ@C*JgJRc*ZE&{QK4na${PK)*x_%U9~wH~)n$ec!L{p6H13`nse1ZB)CH-hk88Uh!wv05x7&G4'',
    ''|38`7)hjcHRr`Xx4{pt5EiwhKC@WAnxdx<YTX{lHc?J?%tw1yK1j^uJTQI`zB8^PV*rm1N!Mi6jZ%@S'',
    ''%V!2BxF*;1`1FC)SaiFd_unDm(BaC4mb(!+Y2!V-IQq%*3N^ZcxV5V>*$a%Mpqo`G4k`@;*U5zra)4O'',
    ''8{>V2~Db}?@(HZDvLa$;XsG_whu7&5P~k;3&g#>}#SGy}g}UxVPTufLc>LP>NuyqmfAGzo#_nG!rbJf'',
    ''dbMf=$fYpiVIkIP?g91*as8*p{aEWZ2fZ?-XQjvRmUq=rbA*`7ScP$D+^lX3>`04AZs<a{=lG<Cel=m'',
    ''wx4rywvBYqL?4H5k0ZbUjcr!YTh_bWEFg>z*L$y3cW}&h-}f>F@PEhfDj3pyhCXG8+E1ijPZs-m-L){'',
    ''&okIR#1EnNfW$aRZW6>qT)KG<S;)4;r$oh%z%E5M5(;~sp+~bjdz^y%`6pOZXpry3sgZtxQ})=)Nn9)'',
    ''<h6XcWSsK;x)IOPh0P;Vb_QYiO0Wv>KP2hjCu{lK|ECXD2ioq+q(6b{g3}O;ZnCkKf!ayd%+4Ok-Sj2'',
    ''37dMxg8^yLsP{MdG=fvscu$Be%JvDi^UbhL33ym#RO5WLWLHhS)}bNqCXJwDd6^XY-(s5MJjzdpojbl'',
    ''R{t>3>cK@#;pFC4%T0mo`3tt9(=ykC3G(7_u<Ee6K}%RQr1dV44W1^hbqha*?AlIaPM|(TR@n-@_~#&'',
    ''lm=wo>7u8XQ7;7ss>&++|Oi*f0r{lqhxpWD}fFjI7<9)Pe*-znL(_MO6L^G1g~8_k79AU;QJ?tEokN3'',
    ''SY0&1Eot%Sn>(a;m*j>R`}iJ172Z!k29C=RIoj+WEF54t4(dbk7J{}-W+@b3Xum@+s?JA%7-(4kEJ&B'',
    ''&7_g_%JDU!J|6wu&%%sJ?nXSmo-adT$@h-*cK?*hc?5s0IuDrD`8R+4pmQA~!z$D6z<3?_exbIU;`BX'',
    ''EWwA`cqd#G~e=+{&V6E#B59{b425#%0#(9pIJnxU3M&3*^X{j@Zi1FP2}6E<do84Ph7IrgAi5EEI_R5'',
    ''m!y;BtgPq>I-wfI@pmV`8<F9N0^sf*S;zce*vY(|NP>NfM{qEp&OsO5Dx<T2S~1DEfdW*0Ks8Js$Lr9'',
    ''CiQ96>H?vx<{`v0sacGNoq(j^S1v(zP;0|#Z<ZVVGRW;CtT+i>ItZ7i(%8pUvrqjPn_&oRU4iyk-gde'',
    ''!bo>$<m!#9%Or~Gv?En+TV}XvkPsG_w)5-JrDBrGNlz}r9=C%xJ1|QN6P@;?Q5Sgp;M+N#nfPdYYN5x'',
    ''3<MWG8u0Qsf+O?m+N8`B{dBx9<KG{?|HkI*83ibI*i(FS2-S<2i6$Ua$I%^&%#Cv=J7`SF9_In1^^w)'',
    ''6Qv=8sgwzGt$@9)lDNRX%O<xAOCbsi_?7Mr^*u}wiaHpM>HRSHIai4FuF?^AQIIO_61>c%%DMJg@>T6'',
    ''iLu+SL&A<OoG^TPYrkd?!_r+apa4RYERQ{{}|~)Ecb_4=;4Rv`aNF-{GMf{L>QfIKa5Q;$<lm<BBdQ^'',
    ''ls&uqkNvG=DY@owk-%lna+AmPD+Yor`XYSq_X2O!zSW*Cu5u9t)eCk`^X;Rv*!KOS$mJsurD(b*GZ{X'',
    ''M{p<2@Z~q}is_{JR*0=<H8(5SFIS|Rcm=apI6N@dKchEqe|huv9o|+bK)T6>%!5u`UBS?s_G4~ZNo-%'',
    ''J6lw=27jY|++O&2hwdaOX!Vd%u5z*2ZC4C--;nJ8|dnL5Fm$Q<n99CT}RNzjjh8H}>D<(r2HlxHN^S!'',
    ''x=iVX6mw_cgkFjgewO;UT&jqWR$gXYHQhxc6Q-q>An8#Ual>38`oG3=)=52i_)cwPP<>6~y2A-}Q>P{'',
    ''?1Dk|_iUs#u(BVtUIJUSCQ@1=94L-Bu(Uo=d$oXAQa(351uVyO7Un_ihd`ZcZdHA43xG2b)?^G*vu$f'',
    ''f6re*}k5C-^>l9)_;3@fI5PslLu*3FC)S4c*A5Wofu6dT+DTst}X|+sJgdpx`_>5nCTLDcBk*@O$cYv'',
    ''B(ta1dei6+yhLkZ_bikXV~%NaPs_FPA=EYpJ@z!m=t(dn0y@*Wel%_h8}@8>tVP-=!r)C0#*r#~?D8d'',
    ''LlM&Y)tj)kF1ioPBp>42S{r=WNA#iE`oc$mxW;^yj3kCj0^2|Iycl?t7&AGA{NqkhgXc)GS?(6?hO9K'',
    ''QH0000805+CpN&CRe#WMu}0NV}#01*HH0B~t=FLq;dFJfVOVPSGEaCwzi+m72d5PkPo5Lp<KcV(q%3K'',
    ''UqtMcXtj0t8JFw0$ua1XrRgb|q3FskNQ2?+mF6Wyxu(7gM9*T+duwXjKzRi`KT9Q%XeLC~XOQG^%PXr'',
    ''~ZAl>gbg^9E3ddugdf%%j>2P6<@7x$e$m6`EXBu<3KHiAwpV3j5wvWdgdl=bybPSv|-xtmDT6_6@jNf'',
    ''JN&2K2FF2|>B!XI;HQi?mb`O3Z?#t13+OHZ@AAEs)6j?}ZLO$G&#!B%IZsF~OjEHlFxzruea;3(I40z'',
    ''8u8mOgjgnTYYUIn+QC5oOqv^J!R#C8EwOV1&xF)+kdg+1N_l_1*Dp?J2-vC=yF=NQj>@#CJo@&~7ACV'',
    ''WtM30|!<OsRYJuMxGnm39LteVNJ^dC%C@|qhU$L<{;Co6G3ccryWcsBiuG39V9Mjm&ZNV=<f3OM8p<O'',
    ''QHhNMR|B4X=s>v$FeLNr?F^(+3FZ?d{VMPo0y_(zb!%_)sJS?`_gS3<#Lt9j@MxKhCyPlKikE-=^QE-'',
    ''zDUA`kLg58yQ(rvS&_O!woGoJJehPh&7Q)(o%5EbXJOtRe`jR{2+{l^i>UcY%K@^ZcF&7Q66Qiiz`8t'',
    ''w~foc4@EkN5e0#qGi!Amf)e65F$DsPkqH8UPk1Ap@TdG_xy<8z1aW`ZT)%bc-{r+2SLl|uU8X9PF$*9'',
    ''J?0NCx#c+Om@|9om4zvz=Mp&iKg!vC(1;z!BIX6~FCvcFwC>L7^1!MzG`>vAKPdT3BXzMLR2twg)qtR'',
    '')!Ic;UbvZuHgu?aJvOp0|0zC%Jyyx?7*acor1=AH+AsM!;T1na@ujL9xuL|Bq3t$Ajv^F*3&FQcx}$-'',
    ''ePT%-5}?nW}5%ax=KvUw=qQcFcFZcgaM+>@lS}Qe$(~+TE|LGJMotKq9K@!h+7$F?Itg%u(2^>`;Mub'',
    ''XA-{zMrXT(6UMK&OPx0B6qEG0>uO>+9qd~PgH!h^ro#U1jP1J^g!;ydyA^nqh&${ssib~TYx>M2&xvF'',
    ''I0aHX0TU1|qBm-V%ll}HZ54<QGp=sbV0R`l01IdWdp%j3O+?oCKHTAuwlC`WqWCDZ*!csUDtn?qDaOm'',
    ''`OhQo?72?NPDrBMJ83Lm>r~!r?0oZ{@YlF43HqjicsB=aP)XqPKL)sa>neuG@tD?GTxQG>a+q*EJ;IJ'',
    ''o#7;vL#495*Al`X`{HH*JKzVAl?D{x|HY$O;890z{G>89!Z%a`z#<*+c=MeHrizpGFLVrneY7OSj`BQ'',
    ''HOiPmykQxQoD5+)T!p!}2Ew{WH(6j|2E<`cj!j8qpC!sn42_FUfgBEMN>*LULFao!AsoEi6(@d<j5g+'',
    ''qoZbT#F{2CLTqdP)-~<ydx4-L45M>$pRGp6Tz^=g<xR3(A&kk(>nzGw7}-W+Ni-ybOt#0uO1e8`}(B9'',
    ''P>c<xxu2ym9<S&K(iiNU{>Bxf95XUp<{wv&Y3}>ZbR7Ug?^*!CME^blR{8%RG1%&LOc1f(LL?`~8l8c'',
    ''`pIQNB2U+a<yTJCgXt~Qy*yR_-G~@-hJ!HOY!(+@AnA1ufp@KJ)!i3tpzr<8$#!#1&#PGv`Hd_4ydqu'',
    ''y{qdzIq@g3zmU`1Q#X|Fc>Z$@-wtwu1@i(xjT^lG@HwfS*vZa~Kl+BVE1ho&SHn9M8-+NB>c&;I|*R}'',
    ''6Gm{eG&B><pW<F>UP^ukN~mbsM+#n!)-I?uebO4nFYL3I3d=x?9w{wz*mT3s6e~1QY-O00;m!mS#yPz'',
    ''TPkZ4FCYWD*ylv0001RX>c!gV{<QOX>=}dd6imikKDEq{(irLxWiSFy{ogEwm=uS!j9|21%f1q)1<}v'',
    ''pl~Hh%bX<2qI7%PqW`@!e32-LyLY}1ww4+WhcnN-k;+?9ktE6cu5VeA5MDK+?FijTQT826^zVxcGhT|'',
    ''K;B{etcC2c0UNZYz$he{1{^BA>wheFMR8%lx*-Bb5ML)b}k11<9E^29MzNXnbQB}0gMylk2)tP8x$sg'',
    ''lNJTMveZCUc2ozu`(GD0QM!-@L+{OK+G+%wrZ49v)qMMKkjiYka7SSvy9g$U{)F>f7B^c^pUO=es+B|'',
    ''Rpntrcmju4RtA59vS%k1O(vX7*0hT`S6qiwlqv=JSr+PIesIaU|&LQzYgM@IiC37D$X;<AQbHsj)CgY'',
    ''A{xkL_n67R7&zK@4~4h(dL4{9})tOpx|Ag1~T5-v3MA4StAlVoR*?ydR(S^Rxt^qq56$~iq%T}_j2EL'',
    ''jr%O^4=MNd(IH281uMk~L|4+V91zZH-X%#WS(&d;Be&m!1S|4_wgqVT#f$p`KEaL#A+E@;qP>@dwxX{'',
    ''yLTf@B&>^ckR0Y}fg+mIA8A0(jH#fBHcv`Z!01&fSw8f2nLSL}3S*KcssGpnHfBMUxU%iS3c05N3H^c'',
    ''8yO)FBft`zBtXygD&+vAGlEiEb(Oc`5QH-v|1!U4EyCNV%+9(cD81EsBKx{{&=ZE;#A5-h)0#=-Trn{'',
    ''~<R5Fg`Gb}eth;3kNoyT$yP9gu2b)N}k_da0()h|v8bazzj+AtLXr7?4)dl!d{kPlyVT(3N&EXE_23X'',
    ''-yhW3B$Se&Hfe!h?dM~-mx}m${w|743P6W3xk(IL|&5DCzjWw+s!!t4yYZWyqh<YZpT@hyJv{K@@Qok'',
    ''l6?aK0WiNJ=sr<AcoRsobfMAfAetnAZyOAi^EqJq<^4|||MA23$&cUs%Y+YNgK97k*^yhdcHH)LlIrv'',
    ''jZUgf&fGx_sI3%*mMBm+hLrcjf?qmpK*@1Iv>^rN^9AI41JZ%y66Z#SH43;`IJqVl#0m>jbZz0WmMH('',
    ''TwPI@9I-JTJ5?>m-K*)wM<3?2Y6;s9v@a;YSb@iG2SY{p`+3#bG5aFcx?W=UuIcdVf4(S&Yt*z<HxXn'',
    ''CMVNn}OK5;8!y$M9woP3+Nr5C`$^g4f}oN(Dj~j<%bx?nZ653`&W5ng;D82OI1W^P7ps08Wbfa13#Id'',
    ''HMcP7a5=*47iv;Ky9Ku5~@ehQ97X>GYAm8R!jzNz+zyBl}ZA633g(Ombkjl@Hq_DS{Mu#kbc)rj8K^C'',
    ''Ys~tgWih_(+T&&(Vr$V20yu&8#usHRol3yw@g)YVY2=^de!*uOfYYb<0R1&Uf<59!)>QqQtAE!`3w0N'',
    ''c+jZ`i9>4IQ6-f`-?Q+`?y#O_{t?L@bQPN;(B^w0sheYT~&lnv>R?2Sb(Y~BQ;2q9Y1_lzYplIm8O>)'',
    ''sPVt0-}zy!-`Njrvsh9O#vet<5rYiXTgzNzRDf+5R@XgL%<H(0n)qO~-l|0e}ysn-Aa;q7bdt(pzY#T'',
    ''C%#IaUa<E4bqhT5f407zRa9b=!eTav7omoLH;nL2aSW8R@QNK(3LK8`2y~UXRO6t#Sn~D$!Yyrxw$Wx'',
    ''*eu&N0xVPfP=-JT7@cLl}aC=7Na0c)K4rqUuzyrb%h#3W~re*T|)ozo#@L<c^xKI5M(MsaE<jMl&^gS'',
    ''^ARBx@8V01z6rO;C#eI>IiTI7_9Tvn=Xcl-wM@Y%?ORn%%00DV3?LEXKMJ5b=qF}aLyeAN?*R6e30mm'',
    ''D%hE>n24b~x3X1$=@-t?Kictk;@C`bLgjqrHs2S`|xf99?zVUP0vzUAoI?429$1Cu%@(8I3{()!os?p'',
    ''U7%4<k;?2)Ewd-9ZTC?yYWVPT=2!cEqWVz;mEoZy15)BVH<swnYW!c#&(9iH<7qonqfSUUk0n}OnWr^'',
    ''BH3({qeWAW{MMbAZK~BZSLjmR*_*RGG+rSBb1I*(4<37B#^$aCSw$QT0X6KqY`uS{D%NR9C4}WKO|yC'',
    ''L*|@WH5kRtVQH+x3erBypI1GznW*VE3+U*TMQC3%T#fL;6of80W;uw=-cP>+BQ&(i~?2OLY{%w0?SbG'',
    ''1V1mAEAR`3ZZ4T}mIJLj$O=QU3BeD+4PhI#O%)ZDP+Cu_OUE3uq&U8?;eVM87cp%Lc8|?Z1ul;U)Xua'',
    ''n_q5HP2IruejR77Rk@<zd6}t}NfCF3yIMzwstO#SMm~gJ!b2?QCWbxh{uV4x#A(-`AM)M51#LtXzFtK'',
    ''-Vc9CG=P1?*(RT}z()5>KPd2=7HbFl<T@U9e?5@B!GlBhif4tv9KH92Y020EAad~r=3)mWcY3m}_2Cy'',
    ''t#m)l#b`T;N10xL|fge!zT_VOARozo`SlhVvZam5zHK-oO3(@^C{}>5eQmz@3Y(XVv7T!oMf;!pWJ|C'',
    ''H)jr-GH-VcciKYJXiv^^SSLH`jf6}-0^ICrmJJ}&!4`tb+K-5O~uLT6slry9hSw@q>rzquc4m^>Za!P'',
    ''8U$Lmtbj&sOx2&__{ArcsAt{GiB4wNhDR3jq`TUZ*Ps%o;lc7gG5Z>5AvQY{t=+dOlNG_DH#8N7Q`an'',
    ''u4&rMRy#g$#b}gg#ZiEF=ccyLGVTtYQJ4Xr1jzAylQ?eNjhN|o&7)%YCIPv_9S%GS;>I$?ZI;i*f=Cs'',
    ''L_w9b-#sq?-pb%%8h!~f>2%piRB4LAY9IMf{i27x?MW*vG)b;bhqhzn*Ax9L0o;S_EOFq_ZO>HmAS0#'',
    ''GIdC<09{Zxt{B?-WGNuJEt{NJcQM$m?k|IigZ*t7LeqsY^|Bi8?m;8v1(okZ)+D@)_=Pd1L$p4`t^Zw'',
    ''bs9w<DSvX%MT3q#mvyyK3-ZgUUq<uw@S$z&l5DE>hHk&_0b(>9$Gs!v8N$2G~v{96vU<q$HiACiHr`<'',
    ''6QN?J6p`8S75TVV&2`3_mZew<{-)zWE`KAE*C}AI3t*$wju*Y?<t%KR^SycN=bVU)ke~2#D4vm(D%zk'',
    ''sW50~$d@e~iII`|^Wn_+w&_sK64KdAA7|Z_qzlq<uZp0nw$6(_TN^du}cVBq#G*1jCOzW$r20rkp&ZX'',
    ''zBw3$|_>iFgaD!zcfb*!hjTR43IYvX1!&MIA+8OCi;a~{4ATT6HcytRoI{{7(G1u8W4yNm;>@i_T8c+'',
    ''!V6B@jF?br*){g4U{U;^t^iZwhltO<Ezk37D?*>6GST2!@x~b?c*PZv*FKOQ?f*w+7nh<&-Cr$`H^Ut'',
    '')r&RJw6zf?qq1>o7r@f+ET0Q0n2-337pgooAymHgs{Ij4x+ivtdb{3q>1O~d>}aNdC4aGV2@mOGCUz@'',
    ''V3!D@c?Sl)-`S-U(fHmjU@pMJW%f2o9_QRn7g^%_iu}p~0A1HoY*Qed_04cxC~%Xu_=XbZ2)$}WFo%K'',
    ''3J*-fpn0OXS9XE6SycPfEXRd=AV2B*N3K~-Ay;}|f)3PL&epco}-Ol1nMwfnQPt5MSubht<*Pq1OtMg'',
    ''90^i2$J=A)I+;@2B0POWIhEHYqu)rpVjvs~xtu1(d&Hz)>gXzeKq#|G7#PeJnOS&9dJ#=Vg^F2#Yh;p'',
    ''CJRuV6Rx{=;xqA6Epbd2Pgaic%Cw(~950cs97Bh%t^U4~T4?xmI<i+cP=BJgr7gi!td<e2v0q6#H7fx'',
    ''t3QT&#k^i330uZ%Wt*Vg>$0jqzSw3GJkj#?NZG5_nEu|(f;6)+@fyXfn|yMdC{M%<FeVUx|?=>R2N!M'',
    ''^2n~=VW%#k_P=K&=p}34?1k)byBqv<qd<Wl(x~tOK~e5EH#fm}a{u$5Vzp;LnW=l~9=~}iG1?S+j6z3'',
    ''(BOgD0&_AT8SjX|}o=h-V2cusdM0>9nqC~G`K6oG@i;Ea9eE0n>ipkf|ULBaetfQ6&0?oh)lOuk*L_R'',
    ''RANDoZ4#}8PW>Wc{d1qMX4O!sg`pS;tTeyAG%^#m9(KouyM+H!C4VGfm`y^g3)X*LU5&)JLqy2Ct<AF'',
    ''C+;8b58qg{LviJu;ntk>Ni+HM8`$EaOUsJFFF)J5PW9dY+>MHFJK4;T|}hthr_-$P=j>5o=g3vbUCI^'',
    ''yMecB?jS8Gg@F>bK%D>`UzaK2edt~;Z9-NWjnQ%(@$wNyis4#fj{g;Ht5BC1ty2Y7N(^<r548uKo!Ny'',
    ''$>;MDUg8boi*FaOECaR>u}>AC&#F27Iyn8eEK#2^N#G?l?kN=+yA60zi<Sl68(fuQMwF}1O`UH{y(jJ'',
    (''&+x10wnGR)6#vp=J>d+;}x(4q+>x{Lk;x}eEQQ@e+OB*W-=Mdn5@'' @ ''{;aKcInvLw*#e>i;IhgRDur|9Iq''),
    ''n~1<}R-0Z>Z=1QY-O00;m!mS#zLVrm^>1ONb#4FCWX0001RX>c!gV{<QUWpZP6a%o{~E^v9ZS6hqhHV'',
    ''l5xuP|GNB%DlWUl#^imQ(uBo)#ARvJA#2aT1?(>>S&f*`@TqS8{I7WcJcqV8C%?>67$X(o{ybgwm>az'',
    ''2TG+(RSK6!aiFqd&lYU9!2B6)O9UXJ-uo>tsHN=N=P0>6>986m-kLcJ1H!M?Ie4q9dk`aOzRBii|DDC'',
    ''1!0+y-?_0ut2?cn(Q=V1^;t>H%1IctQKxBd0wH?hs?;X8;wf+SiO;GFttwG>%vf%sC_-PjA&1GSyyos'',
    ''_zn4&|SPS7uL9CF>TJj4wMQ;R?$r@XF8xeR=95lsE9sBoEm}x7Y_6+YdopuYU6(9C((eM^f9!P@cGt}'',
    ''~-ajpxNc3fNAOe@EnDE3|sV0xpxBK!$mO)QsH296aVq}2!#pPQSTk55C!8cu$yJt`}lHqV3&n-EOmv|'',
    ''pCoI-$IdSs7@UwPDsN_zKu30_5#uiR&cZ4_FW{q-75%r(=jN?^VZ&$7E8me0An|!8?naUeQ9gEmLK(`'',
    ''ijp(%uLaU6OR|Cj~TIzK2z&T-Mhn&Oj@3i;#?lKCM$4K$_ujtNdtg$knLHxq8WpXG0HG#Kx=-Yx<lhO'',
    ''2)WPuz&(hQwmGsk|DuIThO^$kkug5GrU-&HpA6}n-?NI}`HkQFM)FGhhJ(4`tV{wh=`|tCT@oWe&p2?'',
    ''F^%7GE{;lO91P#$0SD{Kca*k8N?5K_+BW^e88f~48a6Abl7YqEU;GHAMulFB~(I#6v|4HBT0>kV-dV6'',
    ''qSZD+XM`I#97cY8~j_)hn-Bucw6oy!#u?*v?goxO!$Jmwe-Wh-R?XkgeI%zcRau4E2*8t=cxNAe*g%|'',
    ''K5iML@RUz=~|wd3MEE*GoB>3YGtt`1EJTfXWNL0Mc|TfW6)nR9LLl6t)7wiV9^eF5hAm4nM%_ar1rbD'',
    ''OgTP0*Qh>fu$L;mBwU;@2}+M!osWS;}EO&1ZsBiNQ3&AT(1LJs4BfmQK2e*ji1mVfVrfp!JnNSm>6dp'',
    ''LA1Ep42*6+hP~LsPG4d)K36z0G%uvcUg;HK#sHww<C|*!Hq}P@yxiTebsgU57Y{MEg`uAK-h{<2pDNv'',
    ''P9f}t^$ZR^d&WLW!WpADeOHm5BJ{6M$i|CpH1K?ncNmhl{a2U%JO3j8=!I&8Tazvn_8Lk$|cZ3IuES#'',
    ''`IezE&W$kO2t(D3KK4$tV&C93OQ(T3UPU9Ne_f9{&nCI3Hs^RU*wSyRB5ue~rZ^Qmc2gB$6t`iSJYD4'',
    ''xkI7LpG87z*c7pK%%hbj&#HYz<D8w{dz|{k&qFBx8T`I=$4&x~84cU!ccM^C|+&aUb7NdnW}93VVp;c'',
    ''j?2o$7@h74f^POg39q`2Dc>G`aJ53clP_8{RW^NpgKa)_v1*mQJrnP3a-*n%umB$|Bg-zBk&LM%$_Yw'',
    ''9=3-7;jBC!x1`i6cBEx6Q-rhf2-s68ir{Y!3}iKg6|yx?9%=L!P)h>@6aWAK2mm&gW=U=|l|dj2004$'',
    ''0000#L003}la4&Xab1!psVs>S6b7^mGE^v9(T5WIKxDo!ozk;w~NILH-af_nOBEHKt$Q=Tt*CIu)1=d'',
    ''@EUU64COQJ$jyLOBI_s$GOiF)xm{Zh0-5NOHaa5$WK=0)BsS+XSAH>Ob{NmyRiQW?hYwJaJV68n3xXv'',
    ''YhAIONsA{gm3hDY01WkyoA9adH$@DpjoW$GDV7q2opsMSkzN*Ia4AxMp@Zq2J#6yh_ERBmR_E5B*eQ@'',
    ''<O{QRT?G4lBKz>3;qOrOg18oTZ!EgWL=pAMtj2JuHy)=OZKx+I+xXZSs5jZ#UjziDtRo61jJ30V7GAE'']"

definition DATA_19457 :: "string list" where
  "DATA_19457 = [
    ''cqhv`FGLu?;O#}Y`TNE8I=ToVORdClN(nDzZj4A*Fb!+&Qg6i^Zx#II^QScn<Lk&{oTG3vw4d9l;ex!'',
    ''{OA>xgBo*B0Zyd|9MBU1H(cZ%Fw_*HE^!63L!K%dql`Rxdwpx!5!hE8!Fi9$2f`uX3uHag;KR5SBtLb'',
    ''p4@o2qZ@E|>~3P6^C2GU%)vA7#lqLzsp-eqF<ARA++H2f@uhKZ1vEQ!~()|q?FjH&&1-O&I!NJ_hkJ%'',
    ''eMAIzlaq{Sr>M;|Any1;yv$;^MOaAF4D9K^;rxv>GkhDHEW+ducMp;YAw-s?o5bTMg<EV11P|9q(8nT'',
    ''^$Cmf+z-e(x=>Hw13>{0XW}v9PkN#&r?*A*cqvw*6d0L?5bnfk%E5e#(-9cnQE#84U<=CIN-Jk@WerX'',
    ''+U;^MuQPc{v`K;8?GL=rVmK`xjpB)@j=2KU`e*Rz`=5Rc)+~4*{HrI7y0?;>T?R6Fz7T7{)h-LIygg~'',
    ''YCq>bU^<YnHe({N`3N$=C4k_q8uW)H9j8J7>2?qYf<etH%%-IgAZ8=%$LrmD+|Bx=46DAe+%^?i_Xq9'',
    ''d<ZrILBaW5<orfYUr;ihbSQhXFy75hn60Cf0&Hw#(<g^?QKgOW`h-bArAnrHOtfyaMCxo*4v4-J#o4i'',
    ''xN94AtBtgLuTaaTXUo5D5q-NDBy9I!6y>+>YW!8cDCI&?c{lNyp6x3I{FDdl8tdw;a7oN2r%Iu0`-e8'',
    ''gHb7r)XqJ77hdk?1VQaOE5qpcU;jEw^}DS4D8u3zK)J|rSV9lbK0*{O~(iE%nQe1G&DCbM5$vmhFCo2'',
    ''+URgbyY9L4f(c8d&{Y6Pnm-5>g3JzYp25i!;}s)@n8r-`bnwYmtG!e^!S?wh#1NC^kQv+qlN01EvMS*'',
    ''A(p02y0y_Fl{F@0ko1TQzqvLZPeDT=?*0_Q#yB=KWHQNkyx}7@H1e`sS#YnQtT9ZYCTXtsUw(wLuk#i'',
    ''GR2G5FxEVtf%O`UQh2K#;WR(9>&R^wgdz2SM~?cy>1AMhG5XIQ)*0nagMQ4f<B7J{*Mn0cimjNb6OTO'',
    '';5e&vFR-?MN`P{lr6+aQ?!VKC5UJ_{rgCP#<?d0I<N``~8Fz_ni7jzwHYlf$sENIG8b?E+2%nZuRA>E'',
    ''f(+IIhV7j9MzVJS|DQWo{|E}65n_MEXX1N55`nOb&A6QY=j?506w@hEN{qEVt--`g&58J`6&eMAa~BI'',
    ''MvPYms{my>zxa~<@bPbd_^<|0E(*drc9QA=GuMi72%@_Oeh@4J=vyH-3{{wdemCLtAjlF|LHvsZcl5W'',
    ''7;WBd*!d$djuWq&x)Mh8B42HKjHS(VAISmoTE!|TL?^70iG<Skrf?3=|o7dZM#HTD^U=7YK&j$ML-Bt'',
    ''pmrIJ79WmEQkjdsF8$$O}xpa2Ftf#2+qL&-c%)qSRyAeIqpX7~e;Qt_%`pV~+XWo~QpWJKtxKC0P`Z`'',
    ''td`z*_IQrrKG7_giV;W+CRDc=7ODuywfNN-?xcw0K}L)i{oB)?3(lvwhZH?a?X;d@C&&ZjNZuR6AP?7'',
    ''7$}~bC0|hW9BXH4y&S}H35%Y=wy%QcliWaraisC5-_4A5288$8>J&X>)C{)btnkLO_8z_o=jC!f9c$I'',
    ''e7G*c7hd2>&=&g&=}4!D7Gr5~6rI6c;#5AQNNfPJdjS?grAd-&eiUT8O2VmOZseb>I@)z$Nc}G;Ke#f'',
    ''sRCQa-Xy-pN3~Cn{tRX0aMytbw%XWVBLte9d2nL?TgZG8*XRpm@?C*|b=<`m;sCn-Ymn@S8l0p&(>qp'',
    ''yWV0;gC4<n0g^Wp2(OKs0#{puCWLel8V>t`lS4Pe;kvDP@FXOb1Tgps}jyGJn6x4mR)Y6Nh}{&o8G4d'',
    ''xl+(?1V(m+T{yb8x}BZEn!j$OiM}oN$D<PHU6tCEX)0WOdMaDm*>}VR8M09+HvaN!U<6K-TC2joTkE!'',
    ''Q=%J?xAde9YCAK46DA;q4Gl)$Jy-^UQZdo-kfg_kisp))=;}e5RG#ruFcu4h^U`;8??~#OpO4S+^@ME'',
    ''ZZd~Ce-#00P;oRNz)jF$TUU}Rw=P6j|D=s5sRo1eXoeN4n9O*r)c!E%+X47oyeIHO1=E#vmyO}4ue2a'',
    ''%3=vCH3XB)?tN;WsVREYgd83PI#)!}0+NUJZWMmTcy}^0d?XC-xht6##WY79f*LoI@JJBYiZ3p^e1wL'',
    ''IAwBmzOQuQLah=Z0h4rjfQz8KP`m9@`!WY|=tOUP%3MA*FF&j33&93;bnh^HP}QBp@f+L!6y-a^s*Td'',
    ''LN{LNXV2I+4jz7c=~!(D6?b;_v_pe-}hx2D9P~=-zxK-OcNX$G4&spun)?b*PQ9c_pO$0x~Mg!zP+{)'',
    ''!pOk-CYGthSrygf(XHk;2$aoOo*vGb-oHGnL%^6<k!RK2_}b?>n5*Em~P%|BkO0BprNz~CvcHz#J**3'',
    ''7-WkKsjw*Wb6^Va6Airm?y)S!v1QO)?7tMa-Xb!Y&7@|!izGkKA#eGa7mXmx53!+L5L&<r1NeX(*X&A'',
    ''RWjy6R*AT_=R;zt;3ZnM2iYvRNR(&O^&-<nm6EZ@mx5t}mZ(P0@HB*etc*2AR6#8P5-aTEjK3J{rqRu'',
    ''vl@OhzokIxh+t%B!14!J9bk*M#Ij@LUq&q{P&`J>NR{Vm{*6MjR#upm1{*6FplR0yTC9rw+405v!_X~'',
    ''Fb~rjE`Sf~9;t2{H5emsUGC=a&ZJ9hSR;HpEOsLF*p1w`P(GIsp(uj)un@%h!iNH`X@>vL~C1EBOlq;'',
    ''8FFDRcAZnzQs`?j^mWyM1Ao;t+@w%xvtWlO5X}dx$KpGccm|Z|E>MX72>%_jmwENUT4Sl!`x@bms^rh'',
    ''fPY_{_>;y@bWLdkRJ&Y5?7}`X0ghj(w{ntO*{$D!<(Yg}3P`uoPMBxAhJK>m_7XVMMUXg2O8ae84jL^'',
    ''e%CBn>?j%+EE@*kCvB$xYy+Sf9rg*98LnQtNP=yrH10$1x2OcuEFZe-wTrgbVA~XU>!Q`RJ|6$wT?I('',
    ''<Q;ZfVqE`w^Lw&>x1^2a|5uy!%%mC`q?TBJ!O3|Ijy8h+<QPO+VHX7w(JHmjShFM{JT5CYMv&c)7t6`'',
    ''pdnwcK(n!qU!S>eIe{X#|!v^gd}xc}JN)bW?T5ZpE2cIj&qR7G48t+KRSzGHxvo``DXcr2-<iE;q!b5'',
    ''pAnL_3}NzrWw}|l~t&gy(tC*+l9dPrzbG^YV|Ac^N6EeGH18=rv-68tYSAYBXMUFYID<r2sS$3QKQq&'',
    ''50MQ$3|34{=Jha8AeS|9!4)&%VNP-+bv)OEZliw5TtD+!PNPqd)77&py|2UWb~<pFz3Xc-j8%7S%Z`5'',
    ''Q7&!K4891V#7soQ_J1cGp81r$5ExQ9mhC!zzTKpSOO9KQH0000806LatNvm-*R}lgL00#vC03!eZ0B~'',
    ''t=EjcbQE-@}-X>)WfX>Mk3FGNLCLsCglR7p=xE^>2pl~hZQ(=ZUe`&W#_0SRs6dqqL0Jk(o-mUHVmQ^'',
    ''(+VB72h3f6q8+Nf(u6>8Z+mkD1S7cfM1r)k>+y24TNFZ$CgnOKpp>##+5?n7h2xx-<5NaXz}LJ99&^q'',
    ''U1D29Smb;ZTplkvVOPUDJBYVqy#=@HX#TJwj&8970i`VZ(zTf>W00PW+&f?M`tQe#Xum3fO^)d8g4`J'',
    ''5rvOrd+C&)k+>k&jfoBexqlf&Jmp)9FP@wJ09$E$rn>QCB{}J$P^2#KP0l^SW0FD3+|MzzFW7t`e#@A'',
    ''kHGYgM_{<ZxP!siCt{jmII4X=^^mGu5!6)ubz&Kn(!Qp>}I<u(p!XF#id|fZ$RVjc3`#B*-s<D!CQJ<'',
    ''@Y_7tI1Re^6MuH_Q0)BDy{x$zk4T+$Y%*TZ-Kd2k8<mTZzko*4ylyJ{mv2rrT6WCow-oLiF_(_JeePw'',
    (''0j9S0D3IAJcUMo+)YTfAju2kmz6W(-tK9j+W;x8#yXU=ex!UP0bC~Wb@SJM9w4eU}}f@'' @ ''{eUUUEm%!^d''),
    ''_UBC8?V$_4i4xDYl?MmSuLLal=>vvXNo8{T7oo|%WC-u(h`U!T-te^!HU$uWXumRZZ~kb3DVgE*v7C*'',
    ''M6LWcv3|0mS<rw#I}yPenB@5gfli~r^eFw&<9=6-LGA7p=YdbB)9t|5$4cM}Ixg%4*Rr#}08mQ<1QY-'',
    ''O00;m&mS#zBGWobF0000)0000a0001RX>ct$E-)@JE@WwQbS-IaW^XTLZgg^aUvO_}Zgg`lba-@&PR`'',
    ''FO&d*7WFHSDXEGQ|C<toT5P_R`1l2*BinRy_tF*;w*6j_7|08mQ<1QY-O00;m&mS#!L+q%zx0ssIV1^'',
    ''@sd0001RX>ct$E-)@JE@WwQbS-IaW^XTTWprU=VRT_GYIARHwN%?~6EP6|6|+xmMV%W35vdi0A`z+3h'',
    ''~y1bD|dIgG4<NUm!wgZe`m(tK#F)+3Gw9J@tHX@XJ-6VR7!X+?<F{2Oxd^M3f7>EZ9xaN2qHw!rc-vt'',
    ''PTAa<I#xj%J-~}Q1;tBN%ya-<L(MK@EkRd6=q?6@M98(QK>KuYvzW0<Yn@r62mXJaEm?O>$fdEeBKyM'',
    ''JhmCN+4zoe~`zTe-md2<Q88d2}Xj`cpb}e)hMU!ae+psd4zQ#Ra{B>X8n|{DaPZ;kFeAO3t)(<#qtpX'',
    ''BOP)qaOd|TY2GdyBbJz8lbo(h|McxBpF=sMdrPS~<SguyvTAZhWWW7-O-DF^(X{LO|L9$I%hvS*GOf{'',
    ''-dxVDuoWkjC<<0K}@~myoAx=|U6=^!i=nOthXi#xx2jO(N2wrNoNm3K&wc`q@mnoOU5126M%Zs;*5HN'',
    ''sp3Ta|$*1%1KKC5&G)m;=|Y3d^x-M!krIAO5B<6P=zwOF6~by6R$$BemWQ+Ik#IYxHN-jwZfw{F8r#M'',
    ''lq@ry|7S&axr<KZr4HZ&PC{yK0~(wNST(xb)zXJ@vjR};XvoKJ`S6&6KEQTkT%El^_-!e*4?-!rB%c^'',
    ''$-a!u`+OXe9Xc{_xHz!f5ZpD!hH=Y13_PG{8lxu8Ar|y^!4;x42Q>WlZln#8ERim4WbKKXLFU}`?$WP'',
    ''Ka>drAgNj_1Rd%tdaNDK1aD{&Ax)!3TqA*tzr9<(C23Bjqx)D`+;M;GTKJ~@6~WVVh_y4y5KKH{dh?S'',
    ''A}luP&Jb+MoPZl3eWGIM#_uOWG}_71aZ-s^`Q&jDHmJ|B^oF1Wo}T6}z8MO9KQH0000806LatNyi_T!'',
    ''Ug~U00aO403iSX0B~t=EjcbQE-@}-X>)WfX>Mk3FLZBkUu<P|Wo#~VcyuesEZ_nFP)h>@6aWAK2mm^k'',
    ''W=X5tf)if=003?P000>P003}la4k75FfK7JWNCABEop9MZ!cF!MMX>t&qz(p(G5#2D$dN$vr;hBGvIP'',
    ''h%}XsxEXgmjQb<b4EG~&J2dPoeFwiry)HBfJ3d+wf(e*6W4Ja*2&B;u%QYa}ZP2~znOt(@fs5H{e%g;'',
    '';IP0Xu=i5Me9xByT~0|XQR000O8I+kWhUad@Fq5}W`;Ryf$8~^|SaA|NYIW90RF)n0jb960fZf0*UO+'',
    ''{2eL_t(Rl~&tw+cpq=$5(8p4{kjs=u6U0+0d;kr;R3wqlumN(T2$tiH0N)0Hn&l?}DIA$yHlPFXC{|*'',
    ''*gyS9-YXA6VdNztW-?`=lqo2h#C{nQnRPmKk!q2#%|lX7N$?&u0&Y$iz_ggsk+7{#~hqe6)cqj*;ps4'',
    ''N;U<7T&Wt+BKs@~w4A+BHAb4A6DXb2Hi=^j#C5L)mnvpgEfGwJKnBRM!%At&V>Crr3t3TmgXgG|#<il'',
    ''tru(@ts@0YkN);7y%8R{|88((ey`SH)x7e?g$!!8CY=1u{3Awbcb+WQx(Y4waVF8N*CeLh92}gz134F'',
    ''SFd-LIs8#b$iwQ?zuQoRl-QWqTDI^kLiNdhk+f`w6en>p%WOoqn_w|Mi$g~naAxx^+zPrIJ#-NcTSc*'',
    ''KX>Ib3ONR7ccgsBLZDqTDGhGY_~`OScjRw-TlIzqGQ-2}T8P5h?4!h`RRkdncNrrD=KmI7@muKNQcuJ'',
    ''DBnPfsBho@%(Vci-Q?24`j@1U7;V4@LLmXi=KVNFRe6aqkv4{GNqoLe3f3%xjY{J&&L0Ae#|INCv$?o'',
    ''{>vGWfJ5sj=H%v@mOg=6WuJcp^cYA}I2vI`&vDwI-_*UJy|?Uxw3(6Gc`JN#nV#{BZ}(wMhcd9vPIuF'',
    ''oSFbcp8S_H&@La3dt0(apl!-Vz2ntuGh_Q+3#FMW$YmK34#Fr2EY%hId$M7%@_AtU%yJU_6*g+8D$rm'',
    ''qOUHLfV;aX+wv;{j|jL2C@dqk(Y_`g66uIy%r-=r(sM_Bk3e4-Y^ORt@=_uyTP@VT`u!kwW)eck`Xh^'',
    ''5Eck@(4?0WaB}R?!dx*HfSCb$Ap1L)q6&!R}B;T10e#1pbi7{NpTvue|}NvA-I`M&-!K?7dG`PuoT?#'',
    ''yQB^-(1txCF_FQQeu@`-)&;bxElswyMh5g;)E&CZCrK)*<7`O;+J&~_q64mv{RpJVI7*Cp@<yNQ6|@M'',
    ''#J+Ka)*bfB#F>2J{cAzwe~k}YVAP+Oxhcz%Mx{)@Gq6FCyApGi*^p%*+kyBf@&e<Zy6_E>hCSZh)Lk3'',
    ''T*o+1TY6&yd_-mL&+dsx$lkZ+NNGF;aDKf7e^bBtN_!!eUvXGIhM`6*Pz_8um{7In9P9Q6VV@9c(o<)'',
    '';yt*9k5$&)50!v_+{M^&lS5Fm)svm77p`Ov8QUB;>4)oQg_@LH@09;s!N1$az5`!`Ta0|XQR000O8I+'',
    ''kWh?nZi*UM&Cs#$5ma8UO$QaA|NYIW90RF)n0jb960fZf0*UQbj{gQbetMNt2_<((V44eg8zdk9k<U1'',
    ''!54h05J$Q7?S`o&q%-iq3W(`r82Xsui3X~%gRo(a{`ZW_u~;B(dO;{_5HlgN8kTXd*2ON0HN6b0|4DQ'',
    ''_X&Hrg@j8C+CcD0m&%v(VGmpVNfp-y5m8E8*=PrXFhcy#|7m|9RY6{VK(a9@+Y2nia_tC4L1wU+65K4'',
    ''#2a!%Re0`W}M7cTM<-zVy0{IIk42C3Xsw$}C7bw##D=!&z#Gck@Y#^yyyknJCDw;PuTl!4GB{P{P{+Z'',
    ''eaMS{RTU~SM3N&kXHNy;hV;H%jieUr}sQ<-`g=duGZ`m}D)N7|1?@j%AF4g?Sk{R=Cq;-($*rXF6f2$'',
    ''7CBsE{ZQin!Xw@y6N1%)pEJwI^>J<V<w-cr0nOq&pBp@V`GYZkD=ig4ZwXDPRe!j)rP7xm^$fbj5QXS'',
    ''5m5XI&+JIwcrcBq*RP3b}$6u;9p3|8YQ1bb(lMTFD~$?LE#<}M5ws+dQzPzP3fdwS7bx*cu#M|OR*zB'',
    ''=x?aJj+6BTMaHabq*yP4x&=RUSG_MZJzAiYPT2)MPK9ioDH1)XcVP#UB>K0_%O(om2SoOwQKn5zV>%5'',
    ''zj*L+Icy$RHkMu{*7kC9a=$T_1Y1r&g48s0GYLga$&@o6~p*pxoBIJsx{P38Lu8<vt(4Gf^#25gZM5>'',
    ''m!RP>i9L6B|sNaF8N4P!7)gC8|<@`}b`6LZ9lH{4JqU9^}wCU9Nq1Q4@^{kT5>i^lnguC&g!*wMeowP'',
    ''Z<BzJTawr#cSMl<#ZAQk)79Ef)(EI$Bg|s#E(BI>RcEQYq@&)B!&ir#~lk-1J}hpc4dV5$>DwS@f+Lx'',
    ''l7bq9-B;JdD68gI1n=Ml0w4mnp!&q!`}ddwvF@t^)vURbrQTg1_c?d+b+2eaka*L)JI&bY501^p-~}n'',
    ''J}2EB1i={b5irh&v2R{o2w|FOA={{n-IXz0G~AyI0J^UBrM^1DexbpIBFH{7w#7=o2>B5&Z-Y4Qli_u'',
    ''UOJ0Rt#Nz$3ux2?$H9>8LkNv$WU9{67Qdf}=daJqA>5c$E9Qz2_^l{QBahylv3n(HD+!SFpA*8%<qIq'',
    ''lDBQxFi5a?-I65t*X%@>lo>G-lk0229#+1{VABd^mJM0}<u%MLSaTrEjAAmJerKFLTGgU(}xD$FoAg#'',
    ''Z)*(QKAPe);K7%s$!w^{*F9Es8w^h=C?khFGj9WCW;$azgErgCjT0)Iy;Wi*m=r-QhU=4mkGrk7F$0>'',
    ''$SY1zES~~ND$rZfSWfM2|JqBGK(qPa0S)bfjEubkt7a%1RV0$AV6VREPD1$fJZ+~lF%a$4{KhGUbr+s'',
    ''d0ifQsX%fh-GgBV1Dn5n1dD<w+roLhEuZqMg>Gqgu6zKoa9gKgLIpEVNsHmc`0S#xx#YL3jB9|p-XGQ'',
    ''m5B&~&i_b5>ine-JFNS1^dD#7cq8E6fz<v-QchZPtmc8?$-!|f63-X&&{suXSgLeFoL5$$&-VJJRP@o'',
    ''7<HH+cL2kUa$VM1IUVRdWPJ5vf!JXbdN1b%0eAHTdnuVcBl_iax~=aIB$jxp#1dGC3Rox3?K_NW5Rlu'',
    ''&yiTI_K0cf;P2XdApb!*p-vQyYUxCcq+iNe-PjM}yE}*SWYI+D5M?9}uBoB%&PxV!ws{@w5D3l%!+^I'',
    ''SO0~MC&cg8WmqVdW$86<u?&~9GT=OheK`N9?fQP078C4aLvnP>9;ucfx(xE=sZ@Jj)CC{M78Un6Mfk>'',
    ''7<awg>`<z1vwXP=w2=xs2!+Al5M;^JZ$T}OUPF*GioHGDom;DsPGjYa9h;tKs0aFidUiVodh6C*b7k}'',
    ''`>VnAc@HfSg2W9?vo!X0nCFPN1&T6tQ!HG_ln>Aj0o_A1{I$-8G6t3_J!RR{dFckjX1bnuQ)ZHf^HXR'',
    ''>DF3c2X0kY>g2%PWii4qa7HZI(KFmt)OP&?$eUi#yg;VWmIoZ1@i%FMgIY{`M_BfemOoWE+Rgg*GIcs'',
    ''J@phcNXPS740%Gskn9{dW)G24+g(aIq*IZi?IOdVH)U6CAG4b+OMim>(p?l(F;uxP=51{#{J?n`X-k`'',
    ''S6M7a$mZ&IFm|22iMX(x&CtNSpcdNDZVcU(p}2aA=GepiFV|B)Qy_5>4Pfx%1q>XxcBB<kW*X8sCu+f'',
    ''VT9OQg6xZjDldT#mPgHLFO6#LAmrVJe*y>fkiS|b2c~+j%bii}XT0%iDL-|0n$UvwAWAqR+kQvN(rBK'',
    ''5ZS8+@u2<BtS@If&Ucgh)JHV(M#<yU+7cuncEvs${<x$KLmk!ar_D6MH6^^HNB=)Wjet|zN@m%%8tC='',
    ''Idv&AtapwkiOEqa}G=++!@)u)>^6r@n_uW5hxiW{^AViLr^!G0gIf2P^Sl>8$FjTTsEVQ`nEAllEQSd'',
    ''&CaYXY~4eC0^<`fl?j^n2JXv{$c13vS`fZ8?G+Qe&Fb=k1N19X}ggJx8bHa#mp3vYM`A+#LqJN8qPYD'',
    '')aEGWw8&eL{;f)E*yQ(?5-er;DJ?Er-O97fC65sStPqDXR*{)4S`?dehTW`Ln<{gRxO3!-+WM}?fRCk'',
    ''n3P&!TN^j?<`!nbxQ12=o5I<I)7Q9hFb2<J=>_>#=VIj+fO3OIEcM*5t}()#^`*8wpt#(V>FUGO%0*?'',
    ''dMHK8^M*Kv6uPW$;NLQ}&@%1vtDZ9#Wa=pov3$v8QC}$bADFiZ#P(KVi2m}c9YuF!EM)N`BW{l5QaB!'',
    ''AMrYK#KUhmNeZG{Gsdcdl3-0^_QxPrw4i0n`h0O7BZx5_iWCc~?d;f|fWj4zpRzPlcH@WM?JFjPLLN@'',
    ''^`m>j6NtrKP9_i5<9=Zr?15D(H*k!;o{Mx1FWE+smzx#PfwvS)GJ@#ZZ>kI7L_WDACNG&Olw+78~)6i'',
    ''K}D`o)h?L3v0OIdInJmLeqr|!<|I5?Lrft`7rUM#rPX(NNs+TwjfFn@He*DG<q}j(T9@B<_>nqb+X+t'',
    (''hqKOHB2MS~3n;PC)G(_lVI=9sxgRF?tz-gl4Eq{-h&I<6UxC*)$<(WGK5C}A>fQuE5@'' @ ''{@u9;&Mk=}1x''),
    ''~+6+7B1<04J7K7en+)v<fixbJ3{E9y<U{Mys^x$};Rw9T?X>~%H7lM6rfWtMJ(TDp;sh(hW1PKsdls-'',
    ''RDG2|7M%gY<1MHjN0n}p<C)+bw)<-4#`>MWv9li)Y9h;SrFY{>&BznQsd%wG#h7Fw*m;hi&0;Veb$$w'',
    ''I4=%CzLXR*;T)G=r+;89hlXutOn|{KlE*ZINvS_^Z>UX?C*i<$7fBn5CdItjx}B#Vgl`w&Jv$IN)@J-'',
    ''L*uv`VYpzZ-AGNrj>=UKZwb|b|a*l`gGXew?DX{lBAZwS9}$p*X(xasyf;cC<=TtVarF;*1ncE2O2NO'',
    ''2R={*=*Xe`@Wk|t7*MdD?>@k5SHhzQHr<g3^scUdp}rOAmWINSw4M~S$3y;n-q&c`b6B>BtUV|W>8av'',
    ''0o+cW?q8&_v;5Tu{4}+*^n|}N%#E0G4kIfU0O%9nK(-@c@*H*hV*z6%|t9f{Fzj`7xtHH8^@NdlV4?~'',
    ''p?(W}IBl1NbFkW)|V`J{o@BZm<HE!F{zossLoNZB!P%>~Fe!@Sp>pV5cxZS~m>IKq?LSvSYy@teKJ^g'',
    ''OTRtS;lmMkk@&N}DM+!P|8kJ&Gat9~th$ro^s!`k&~U{$v>zPg*<DaM6V9VeLZq<*aMUFrVVw@eU?0v'',
    ''zr+SS(G<*guUy5-;unOB4_q4ruc2;{Dd$0BO#o|l7x#8z^z6Rj22wnK}(J~S!^66`p3B*gZ`;iUnqpE'',
    ''#rum9-8K!g5cH`cmvf@oBxM{g;h7`T<AqXcNZ)S(mV~z0{gEOYs}lW2D2RiwR9qPsd$JD>L9Ct4GmeP'',
    '';wG!v%5$)k1DU=-Ndve&}1n?bjo&{sFR<AQWJ}&pv-IkSA<*YSAGtPokhys+P4?VL#r=@1pE{@I$y8|'',
    ''&CK)=PV+i4ueJ_%l>6OEJ?G_?*(5}uqp0%ooTd55;pY;|4>Kl2V1e6sJFryx5R`Xt@|fghV9skh?kwZ'',
    ''L(y;KUvntcy_L+>w`&RP!r%;?n3In&wrBm+nw_Sxa@u4#&{%?ebjpuW2VdV<vBxGU46LNWf@e%@u52C'',
    ''w^dw9K4~YG=}*AJQ9fY+#|xi!QB?&Fb4I9jK*9ekegwjy!OSII=2)V!`q&|DN4H~w}$ML1j$SAV8_jF'',
    ''%fSTx4fc<JeA>rms&XQ;vO^a?kFo0D-CciRQF$r^icaSvQnaZs#7Ru(I}pUd_ie&o@V|=HS9GiIhX9B'',
    '')P43jo-U>zM45d~!_yE?~TT1q3tM03#Ct=%KK|uVwvHN46Ctodd!ZyG#N*U<XCTHlvuI+^051HocptL'',
    ''U+DLhC5ebBC8u>}Hx{5|}ecEvQGiiGBP8<zvrQDtTmJYsA6$EdH(g*z@IqTZG6=u68MDu0i?DXZ<rYn'',
    ''ImA?tCpgV=_Z_&rF$vuS#q)YwW2WKwqocz4DX~KUU>w_isJ_2YP#d-2=T;y4-ul6;bYvdQX80&Iqs~g'',
    ''*uZB{3rqdR0)EY?TKc$S^PWq+(Ok>)O=aOBRI1S|3>hKbFlYKp>p=9NGFq?7)6DuN-H|v5zfvNXYIaQ'',
    ''E<fRevdw}p8S^M8gK_(sa2h`-MdmW^HE51?l!H&EqhPv+N!gt#DW@WVHoW!>cqmB5FM&<nf`6cUo8re'',
    ''_ut<+`Z|z_YU1g7WF*!5_-wY7U7^TN(yPv0^A)KusCcg99pWu0YOQO+#DrrB;o}Tuq{~_HMYh{R@WpK'',
    ''C^+HLBpKB~Z4eK=mLX=Z6fV%U|pBKMiszl&=>$;z$hd_B>)qLJL2*m{Wx8$a@(;lrCq6>gJwzP6!bw&'',
    ''x{COE+eg9sH@3{e=G4AyrVmotv<Ho+5>^*K_$ct+ohr6ve6cJqQ#?U}L-(>JMJ>e0bVw7yyNlKhO-pv'',
    '')ca{GjOdF`>evM1{UXlFCam8@Ek`@J+6=Op0f$-I*P)bxo@={3W9$!)RN`fifV)Cb>by$1TegI&92J{'',
    ''NjB;7ey?jJu^%c!`+J3IFRINO7yAM{&nLfg?k#yGfA8#m=_w^FN1d_>i6$dSG4m7Wc1%{j7G^1vsY|2'',
    ''nW#&N;OExLHPa^bdmNcn{>~&KIvxSLg)P`MWP;_QE(QcTH(#n2}?zwe#64d8oD7l4;yHz~zGUaQMA$Y'',
    ''B};pU3Wb6~jwl}C76r%AYoHiTsD>5O|RnWkdkJ9?7dkuBq6-}&H^A)N9u{>E5Vc|e-JFjFt%1WAuC{g'',
    ''^v78MV@Rn6mn$p9DT(0B%N#9gG0qdE*C~H-AUw_*VHIboGy>epsa1Df@>VMWY$+C3Lu|M0;TZ=fvdHZ'',
    ''kzRQo$v!k+`Q_SvkNOje!JWsv8qKxAfbXjOzojj2ob~YD8{7fc$|ljOm|z&{JZJ+#gIIId*KK=;cz<M'']"

definition DATA_19607 :: "string list" where
  "DATA_19607 = [
    ''{FrmQgJlSjnWRVckWqqoTF{(h_z=1Eh0E_ZH-vEPJ2(7H;+G%A9?hl;uL!y~3k*kf(TEhCR@mcR5-Kv'',
    ''e@?7WJ3A?fyO+6F%Z|8mq%Ho@;r@7WT(N}rOsMHn-)h)<n&gls(GPj=bi*X+3`@;gcW!Rx8^1JW($?`'',
    ''VyNxp|7E>yV~NR8V);HtG=y`!uO4AKB0&(S;?Dt8Y(JU60#>+nArKF&MK-#LR|h|*Q-J7baM>I+i7eT'',
    ''{KXBI`H>Ky}*m_F*cbr={S3LGV89#Lbpj7vgTIiWuCKE*X^}NJ*X}+ijThsB?5(YRep4g&l$s|HevRP'',
    ''Ws?t%heb%$1KYUs}aJ~oK_liLu>Z{t@kF7-Fzy3@Mmj>!N9+<)u*V1Fp$R59$Lem3U?EHQ%dsg;s*k}'',
    '')jHK4^s`-F17UJQY6pGdD4VEw)>2=sC9`WEB)}|^d(E`r`mj%8Ng$?7;BCyYXrifne4*9>F^e4uzn8e'',
    ''bkhlC={QTv0rQ#<Z=8<D8VZ?-RdfF1#LW7DEa=lyT`F?{hSXidlCXBYK5QV-$uZlSDzkpBRE*0c`GJ1'',
    ''+UocHi`1j*d-2|<T3fLDv-sbk^$K^m+rjen{me!;hS`~~<_@Z?lrDmSfnyE>wJ?kq?yb@0{1m0M?}(}'',
    ''hHX+0_JhhXL=q(!aomuG})}7x)ciDurUWK)%%bTm~<SVF=uLRIK8R<Zy6{l4SFaQR33gi{AtIKlu0R8'',
    ''{<=l<#MTJlb`7lopUWL&zTHs$9;Mn<lF@NhElGKv1NSXS@ypXY!aXd(!5T$RTG5G^l{ldiip-s)yK?8'',
    ''b^x_6(`SFc-T-yocWlk9h~WVm$ezC`JN*5q_Z9lng7jxKh)}bCEJObYPn-~Pdo<#^$akSYGa&|l^nw9'',
    ''khf}jd-vh%7@~3TkJNGG|r}Tsmt$jdVfN=!xdPN#tk?J9HULVFnIHg4v)Q-TuAM#d%PtiE_A9S}NR4g'',
    ''qbk-wN_V7l(&xiZh@NysPxB~}vHXq1sHpoum=BL8>jpZBY)F@@?j6Irm)PcWH+OghBcpq%#UbU4suYw'',
    ''Ri3<@!+BGUVp_-y!!&H|2d&B_HeMGlR#rc)Z1$)s4-T3Gr@`u*DHgJ>Gj4=eD+DO2Afhpmqoh;ordzZ'',
    ''4%|z{Nvcqlwu_P;{;zNNGLdu4!mMoyg>HZW5=tf2h!F#GH12=EEoU?{SN(o0|BluXVxlARachSM9{IS'',
    ''fgVQ>{?R)hQ#>z%>&g!Y6?C>yzn3}xz<%DfJuSz2b+0{?X6nOTQL=M{L(xm{xjta^-n+)&C6L>?R-Q^'',
    ''1Mc*f~Nc~?M_+O^(XqottK6o{GGK(tZ$cSr$SfG@w>}$`oCG*rEHq@fek^ufZpM8@)yLi6rV5&g?M`V'',
    ''lfnmI-u*JjIew^}=-rwEHiKGZLG-})_48q~9~<K1<BB8S0;Js?#R6Qf^TTjEYoeGk}W&~NVH9#o2Brl'',
    ''K<ICs1vfJ+;+g*!$7ZFVLu&>W>W_1=~@?&0*uEk1)+A?Z8;^@OI*tf=t(Puak`(>HsmL&o;34K9pa;S'',
    ''yHwi7af;m*TpmEEo#u$A&iuAF0G=1R}YAcY)EG8Vz*Uda>$l*2=u)H=_l~e=5_sH#5rw`mL3M8#qs8?'',
    ''20dBRWz9{31}SMWxKM%5uR>x;Sh2}r@D2Fsf5|X@y(;2l->oMn8p?o;v{|A=UE@NR@aKTgl+ePBVd(M'',
    ''M&V?<#L)bUSKMRuA{QxmegOvoe`xzQAzwtCy4ky`BO9fhw>7-5=G<4C)%C|9-`1{fLKhW)~9MRG$uTL'',
    ''#QWU?&D>HrvyEcGDYsu7~Ey^l>vO>|I1(!vhK-+R3N0iDL|HJcygQ7j|VTa6>WN*8)Q>IeBm277JgQs'',
    ''oMDrWKCfqKL|l0N=M_exXKN?b>gFKdF8KqwB-rjQ*?v-f+nsEU8k$()|S?@zO*(hn`{RbRrB;VYgBV!'',
    ''QYGIf1o$uSL;&2zB!K*d4)<lCv1hJ7H|!y(G(tdm`x~slvIs%z$JK|C4M{L_e=#usdGSJnZ2N={sNwm'',
    ''VjpTDR|=tXN!b_yA?D18BL})$kig!zFkf(+BL9%3f<+O4tb)%{mMAP^b|-=of;fUMRlSW>qfK@3k*ri'',
    '';eFqYsO6*_AUv|K*d*wJY)Y;t%&~c(w*Q8Lv^jRue%@!?c7IrkHPm8`3p1VWet+Z?#^(!oYq4<UdIo0'',
    ''G0?}F`1HJ&vEH;1jbnvaWXs(b1r8Ea!$I~@DY7F81`A2Nu`Pcl?wM}}JyC)%ruC`4DTn_Urzr2(ui*B'',
    ''i)9*DELzTd@4JasCT<*kZ+-A$Xi`B}0~y2~^HJ>VSJqfQ|~y$tn^)&>TK--R+h>ShRQ^>b$G<f1tnap'',
    ''Pd$)j})!oZJ1+AMlNf{<YCE@J%Ku|K{JPkwZAzPu_aX)ewP|A=wHZ~d$Q8A6J8KN!C0b_^;1h7J#X(d'',
    '')E4?pD6aGUq1}fFlx|k})=%EkH5tRVuBM1!9yn43b*&l-Xwwx9)UFe|_9~P$LN>~2x+RfK9ewJz{2TY'',
    ''L%>7MfwX>vCjp!m2RE`2LZe(lHg;W;<de(0Oj5NsN46XAdY|;6>-1|)N+>(rwFV7q=lPS^e$-u>BX!y'',
    ''1BOqVAx*}f}G$O!NN4uIo#&5=DQI}jqj^ZQR!VV<Jb?a#0An`q4Vu|F#Krozl2a73oU&{^?MGEc+n6k'',
    ''?qv!u=^7^iBPt--g;Rxwc#ve#mf_3yIPDJ?2QR17nrEf8ecnrp5@wNRRM@>Tstuq-9l-dIp|<P4@TC<'',
    (''U^zI6@f_7@'' @ ''{ZW##BdJxz6zY;p1VN<MT(q&A{tdOGR0M!hJ!wxWdDKe***Q-9RH~9B8xI~t_K@az9b^e''),
    ''=sjZ;mWJa5HJ_D7cBbniVav3=sV@@xHqU-ZIV5A+H&gq`s6Z(dxXq#<c1@K91j$iNwn!tNR_Q9Rq;rj'',
    ''nRxmO0^y~}4-y016NcxG-Lx={F^3x51IknqXCf7YO9<9JGuHarEn8>Ukw;PKx-BSL$u=)*O6K|UN8I+'',
    ''PLh_bx?a6m(#y_@m2vXCpoigudoSqq$M`PgGQ)Du3gpBzOpd0?wGVeq@e@&)NzZbYjJyZ8K(Y>}BgqN'',
    ''lac#PZysWpR`3mOW;0uBF_eXp84b5c*v{_=4#3S>oQRUBbdy4S$eV^Bx1_y@SyMTbwzTvZ#C}n=A$y2'',
    ''ON+sq`YrV{)Ve15%SZ#ampOa_XB=SZra5d%rFXYSpqfKu;zIfs+*;5>iha29_|jr-y4&@XG@0Y6IX|t'',
    ''kuD{62ZPSqJNS7f?zh$}Zfq0qC*n*(tmu(h6W@p3He3JNiW}GPy3L2@<&Bk8qP&<HA#xYZIxl4&Ds_V'',
    ''ySTS@+GRtdNJg$AS!-@BO#NY5t(e1ORp+b8-vo|WlGdPQmN{q#YMF1xf0BA_X)?$K)K6W{2igqyeeoF'',
    ''XTwxWLv%qBVn5?Tq>{d`34sjiJfi#5<BO=UCDi(5f#dAf6j*jYOSCI3sZPoL&AcwBoZ+b@27K=^%y2B'',
    ''ngp*3%?f)sZh3`WzfPc4fS0Wd2qgf5kQ~Z=ZJb1>oS2Ik*5PHA$>Ra623KEr1Lsfseavzo@(&bR{lqa'',
    ''+!GVLi_{Sr%#*OGo)e1$wa5yX}!41-Vo);#3@8Grv}2Mqa|60<+XzT{Iq`^l+$nvG|=0(DNxGAjo<11'',
    ''VJOcd8)d!bpmeXX9veh7Fx?q>L7HM;xZ4r|-n+8?#P;dqY^T08MnJ$WW@AnCP=fVt^&1UB<aA9#^`js'',
    ''kS5`3i=$TRfHC>j3ee&6sL>o8Ob+9j2Uq%kK7$^QAS<V;_-G$mlF@i`Ypyo1}cYj2zf9-I$e0Z~@7s-'',
    ''f$CI!!j8nnrwV^G-2VaTP<^E`?=JhCO<PeyTShaG~$@6BDmp=zUgd_7RRU&pEi^nk+*@r0hmfe>)nLM'',
    ''aaE7Y%}wFroGBYZdUceH8i6?Z`hel|h|`Q<(;R9@IZ7gxBx8YXgOom~yr=H@-TVLZ^}w6;n$|R4sK*#'',
    ''KLq5CpWBlo*MmoG4y1O?tNaCdGt<tEut7b%}r{x`(v*%4&`ZS;SOhmW}v2OMv9%gTUp5x`|L*ewxs-$'',
    ''H0_h5cxTjk<qm^1?>8fcTl82>J<Up;v_j6(1X901F73Jp36huXGe0#|{hsl!Rr*eeQ0EezACjomDZ+2'',
    ''2vw3MWTpEDQR&SHK<jpOMcs$s%&(q|8FBX1KPW9LGdA=-@^~ey?j}D1)$%f3}<31~k2VfF@>p8aH#@#'',
    ''_uxnld!Pj^9n&pKv7{!X|r@c5R&@lmQ%>R6AkbDbJd#e;~6oT%a{t+{1^731Be9<~+qU(Ds0*Wf4Lhh'',
    ''ReFPb*IZ#uSS#q*lp!Mh83x^yGPUv=l6uFWq}Mr#lq-wxIn)SB2jxO|n1HH^v^Sv(jP--a*5?3knFj;'',
    ''bk9MUM6Nrl0a!_%UdN1z29N@E#vUDmOk^wL)GM#xm*=drieD9dD{Y<v<p*)R#!$>n(}z@@%wW->)YLc'',
    ''FBv}w7eQLY%YB_-q{h_dR;~6*V}K%aqbODTOt`KA$JQY{9kzT+qVK0a-!l#0TJzEY<%#LUnn~BRJmk8'',
    ''796FQBwXnwEJrJN5l|uKKJ>i?8z{x+>$S;iFSd+-)J5LzYaUV3<p}`wpigL$JjRt`{)_<_$q#i+0G2A'',
    ''WDL;t=q8MbWkiOh0ORjx3Padd^^%rvJ1Kv-;$=CjyZmj^OVPVPL+{L~X$8T5V#|2^4M=g)2Yp!}=A{B'',
    ''X-N+q2M$UC#8QRB!jlb&dd+AoLYHALBrHSn34vbepxxrkb{L_FqrpG+v2MABc~!>K%L0#c!T<U=RX69'',
    ''+e{30COd{b{`#Qhi|AMFZuL~v(C?CQ@>@15dLZdg5}6I<WuF*=}7^(80!%bMI5k&HMzvWLkW=feB;5~'',
    ''wRvuF|9h(FdBZSz-`O*?eZ=3*6`@jhnH$!Whz=BNBXl^iW&zvANXX;Qp@seEV?zJ9G=K7KMOXb7-D^g'',
    ''ot0F1gbPOW^W3J+u4iHoaI8hj;Oq-z`?oVe&4#)lT-GNW-%KwI~ZJG~Rw;VvS23_P<FQ>!cJ$#Y_z#J'',
    ''e}9!k9nE8Oo)<;45yS)p&D>5q=^lkv-a(#P?Zd9(p;B`jOhDjMQWGwHCEU6MhBLPK(e#F>VG6QA81<R'',
    ''2y4PqJ&Cl<|kVm6kHo@?0<YC8-V_MpbmGYT|MiMA@I6K;Z)l;^cCOlpRXG-`)HjQJJ*Ohub>pESKC6k'',
    ''3^pNI&y}RLg!#wJOcIUGQf~4?2iEAQ?Uu9&jXA<I@(XF=R{ROz5TxrdB?f}SE~R5!ymw4x}-~#H0qXU'',
    ''0zn6evY#qHI<geG_pRr(*Y}$s-_!m5mlvuVYvQMwg1Pf;r49$<n9+A7)@FsgOd^HFS28uSLd?b7-E8='',
    ''NljV0zL%S`D*DaJ~70<Shwf798(-psP_OVs7)}zA=No2gF&s<<3`Fgo*r2>KdSx~>M`{!oZ|8j5YpZT'',
    ''8mW$X0gK9L%${(4FoSqWlGOZ-@cmpG_>h9~#e)mA$$?Lcx2JAK$~Iqtvl?H`==SXOV|-S20GQ7+Um%v'',
    ''UnN_d*s*wn>>4HH>>SMKZ}f$yY*(QDv*t|GgXhq-^ia_MOA<$|(*pl>w=YTxR`|o!EoXY|23;!A`z{G'',
    ''AA%B=M5x^AgJ){SN`+vz&q*CL?2E`CXF9i%pj(_6*8njl+bb_fQY~y=ID`I_J<4gwAeV3P&@R~b<*EB'',
    '';BR)^>ypm;<D<CIMU~MPlJ7ac<25U7hU=i|g)N9{p37N5rq5?V{%gv=-<R;;9+<H8Ks%||%vOeQ%X#o'',
    ''6#l6!#7CV9UZ;wRDY!%j$2y4=1N05KsmHWi|zxo=(zu_B7zY4}E^Rq3g)<N}UqgHfs6rl#2J{21ZMq8'',
    ''{sKTiIhiLm^1A(^bi7-*2m(1)7m0|@^sqsXha{LwKIyyfVt1Q7*{XEMHLaB?Pd1-kO7Dv>&<Er5b|wj'',
    ''m>Zapi9MCg%SA@_rs1eYw;ioh5zX5MmQCUbpH$LOLlS>^=V=k3`9yBJ$?LfKJ4~Hs}93-v6NcQiR|KR'',
    ''H>3SMK3W-lD5S9zRj-;bP9vk<@y6$Iik<jLJ~fAH{M$;|G@Y;&3FovEQYkNZl#1n!{aCjw})HHLcM=z'',
    ''+E(9)mU5F44>Py?3I4eVf1~@9Ye0*OQB!D1<$h?9HLbnou6sk|*_ze^qhkaY)j$`2j-NMz-}~SH$T#+'',
    ''{S1izkf{(o6%OKJ{Fif?ubc@NT9ZK#n$82|+>1bHNMwXf_PGEnQ{vX($>-KfxR>Qx|x@_tcXaNAWh+t'',
    ''Sk(j*^i2JH0NiZ}(D?n4qUPxT1>cWY(LtE8D;XD)9j!EHzGemLTZ<@bc|RVM_^+8Y>)EauR2e>BKg<!'',
    ''-}ns}ujYtMGwt`{h;jM;FAqR?l6iPC*8j<Vt#fSCP9v)RSdsHej}v#;dnF+M&ez6`Lgqllt#7oUdGL#'',
    ''CuBD*UJ)=?mj5U%q(%Z<8N6WkQTom<b47Fo!%eX=PaS``>-G2%OL!C+Kx~sUs}yL?v7(Gll6cXly(aN'',
    ''I#RK9poKM*V4Qc!9)8{k{_W7K;uHFDQ_T0JZUed2fa5uj2$^%z7_jX5<d>itVQ$0i3Ec3X=QQtE>^`8'',
    ''6&)IlgPP19ya(WVLe*`b1>Cbs{^-5O6Bawb=0w$Yn{!~PIN$fBbgMI_O`qPl~ew<u4N%Z<|4h}_E&B('',
    ''%QVbI5-pa`#?Z5y}hCYM8W(v<A7Wc?+VwPJ_BKN~^+ez5J!xrD3^=IQtrWg<gzGAJMLK1OHEx}R;z&L'',
    ''0=Rf!Pb32@U&vF$sA?d_Lz<yzXRC_)!4&j(5n&0MRh3;r+nai?~3@52C!|6};5+txD$Md9)6_!!^$|@'',
    '')lr=LQCxnezqdfC&Xz%k45SPE3cA1f-V)+lhttm9~YM0A`tSkr2K{X#cOVaF-=-^c2lZ@^JjC5=lY<='',
    ''T#U|OW6P2^$8f}insMcM*7WnifM1B$K1n{j9g|`EJEyca`WC7;VxOKW)S4O&i&79#(O$C=lg?p(Q_Ih'',
    ''OmY+J~7hV<&ugy&gJt8-jyI-3q0ZKbj*$22H<P@0h-ew9ZKg{#m+Yw(pZ`zaiJ6ck<uiuLBPQk|YQS&'',
    ''MGz}GdAiW+1lz{R{664zY1OVfrY&s3Wo`DsG(=TT?*8d{q9NVZ!Ee1TN0Q&P?z&yz_ON+?tD3ihyjKI'',
    ''fP7oSvjjui^;!j#%a&(isVdbk5yJNS{XE<qMY=6_0N(We`{Ea69ksr_oD7c<P?=_t(2Mzu<->=%ZKbH'',
    ''ReF->gGCiU(vQNCfD%@XvbWcT)WyPn*&c);0_fNY~trvv*15?S+l%mTUSAGAGZieBNbf`?!2VO-ns#K'',
    ''hx>ic7>@%+;x^ZqTTw^+Ecbt*P4#C3jt?TbJP;>tt+*axV{T)8;W7WLDhCuu(u3eR0T?gW=-G5gynEd'',
    ''H&G`p<X0v60Ttf)~r33}GNU<B|DYDVZC4q%J-Rq${qK|DY<Iq3$YlAO4R-nt^3++(FM#_hJs-L#fz%R'',
    ''9#7i;~(-;d6!g>vYMG7>!>w}U?5J@xme``)q9C#A+XeUvcg2WO(7VY0Rh9VZ31n0tf@Y37eL!p+5x8w'',
    ''r0$t-t!PzI+4I7;xX95N1tIg=3<0htT?i={G~nZluB{4@JSF$03c~{k(?oH`@DqC#`i2Prg6H6+_<kQ'',
    ''0>#@qMeD>zOTqu7zxXLc1Gf;&<3?bejaXbMO^>aBZ~h^h4KsFdqABQOC_TL9JB_Hfb$J&js862Ap~g!'',
    ''M4m5}P?<?-N138OgTZIOPr<6#;|nei%HC+T8E1{dgU_|rE%^O$a<9C6H}-VvgSI9EI~4rcCbY?quReC'',
    ''>7SAPoI|3aGd~npJA5&1d`@K(@aE(VQ;E>4$V7YFa+n++<iM9Rbzg<GO9!Z56E|#ig)p1#^eAx;o_Fm'',
    ''r^LdOSKM(}+mds~?9o(<I`^oI7?(^9wR_vNB1)rg|D9R{<{j)tI3BogT%&+(Nnbr_ZKVY)5lU(@>&@Z'',
    ''&Ah8$Yy{E}|fAjW_^}Q%j&cG@D#)#=;s{4C?}TxF%Hr_3RA&ncshceH96=F%Q`(ePd}tHC*P5UyTX&#'',
    ''NcqS*!x~Zt7%!83#uGcWrq<z1O1PVxv%Dezxa!L2GJ&WPmethcSlePbC7m%>gdp_gx<;~XMk%kZGi><'',
    '')vECq-se{-iyI_MdjY!As9v*~Px<pcnSDW5qD$a79LlgTIjA!&>pOz@dHnqs+K;<$uRbwUve949bakn'',
    ''2Y;D&HmqFu!ZPn;38wn-?$;}h@izBknerV_wD^A)ziQdb~i_a;ykqH&CyLN1`#h4=BSMFViwF4$#3~!'',
    ''k<<<psqDbF`EKOp`TTCbZ;`g+W{GkOfSw4cbHS+68CqCKFw-8=%hQESjdo{vXx`RDbHztEnmc(@N^@_'',
    ''H!bvG!qd75LiqkYA=J_M9Oue$}|GU}Lr_@L^ZJ0xKbE7MqGCU-8mS)W1F~a*K5LHu{YyYm)69AVLbJJ'',
    ''91ud;BnqB!Ll|M$nzH%^MM`o>w?{1SWji~p=+~I3OtHoEfmv7d)DulZu8brnPT*c@#ralTo=vUiSDo;'',
    ''owwL4SlOiM+jE<DXF^hM+3Qhx!!HD&+i`nzir93Hl8MN<WlIqYAZ_35;9oaF{zBVoqc|8psN1W$oM;*'',
    ''CA@(|I$1J7YqasZJ4DmD(*?VzQdSwgnmDwme6#04K_Aj_!H#J^cm$ItNL8OTnj1e+NOm+7R>A)61!=9'',
    '')wYIH=1D|$DLYIt4}243+t=bzfKY0ANWU(7&QUWcesMaR!Ql!=B#OqheOg`>&dt`cd;paD88<3O8a{<'',
    '')#?7wYud8sCOYai)@~@~~U%MJExuQ{hVFhcwZk$F=R$S{5ZR9g61*5x<1q9DRMIBe-&9ZkfDN4QJtO6'',
    ''B^%w3d&v>_3Yfm9w#1BpjVn4yE_nqf4*<?L<@sQ@Zl!M=$cD}gh+F}5>*eJpoTc-$K=)>7;%k4=AfLF'',
    ''nA{6zH`>7j0RID(<{vun<g3%)bDW^|kR{((Pn>Bp=tUnciLLHgF4VbPDk96Lbo)Z^^$V+{kEZ9t7q4y'',
    ''ON33V^g{O`CD6#_tp9TJKDgE=JH_)vpV#ddM+t$zw*+TG7Y4SuHrttFxo+C9~pmTu>-YnkP2dhevUB>'',
    ''=$JoGwzZ7)oDxdpAqy0Ne$;lCeH-jn|U{saE!*)_V)>ud9W8TL$XImHxC>VNuS{I&HM5Y7#}99lE9b;'',
    ''v`&$}_~6lG)^u=V#wb7N-VzD2d#y(1iYu#h<_x)}$E9q<*4S^WcwiBT*qsUtAy4`P_E&AxO{i9<**vs'',
    ''hjONG70hg>=*xA?0rHtSo&lzyWQ7+b$FJQf5i)^*z3XGP*g#ztXPO}$-->M@Y!B9LPsrEMrcdCtl(#7'']"

lemma scan_DATA_19157: "scan_lines 0 [] DATA_19157 = Some 9480"
  unfolding DATA_19157_def by (simp only: scan_eval, (simp add: b85_eval)?)

lemma scan_DATA_19307: "scan_lines 0 [] DATA_19307 = Some 9480"
  unfolding DATA_19307_def by (simp only: scan_eval, (simp add: b85_eval)?)

lemma scan_DATA_19457: "scan_lines 0 [] DATA_19457 = Some 9480"
  unfolding DATA_19457_def by (simp only: scan_eval, (simp add: b85_eval)?)

lemma scan_DATA_19607: "scan_lines 0 [] DATA_19607 = Some 7268"
  unfolding DATA_19607_def by (simp only: scan_eval, (simp add: b85_eval)?)

end
