(* ===== verification/Payload_Decode.thy ===== *)
theory Payload_Decode
  imports Payload_Check
begin

text \<open>
  Decoding base85 text to bytes in the kernel.  The value of a group is a sum of five table
  entries (\<open>weigh\<close>), and its four bytes are read off the binary digits of that sum (\<open>binary\<close>),
  so that no division takes place.  \<open>fast_decode\<close> computes what \<open>hunk\<close> computes on accepted groups.
\<close>

definition weigh :: "nat \<Rightarrow> char \<Rightarrow> nat" where
  "weigh w c = dval c * w"

fun binary :: "unit list \<Rightarrow> nat \<Rightarrow> bool list" where
  "binary [] n = []"
| "binary (u # us) n = odd n # binary us (n div 2)"

fun chars32 :: "bool list \<Rightarrow> bytes" where
  "chars32 [a0, a1, a2, a3, a4, a5, a6, a7, b0, b1, b2, b3, b4, b5, b6, b7,
            c0, c1, c2, c3, c4, c5, c6, c7, d0, d1, d2, d3, d4, d5, d6, d7] =
     [Char d0 d1 d2 d3 d4 d5 d6 d7, Char c0 c1 c2 c3 c4 c5 c6 c7,
      Char b0 b1 b2 b3 b4 b5 b6 b7, Char a0 a1 a2 a3 a4 a5 a6 a7]"
| "chars32 _ = []"

definition ticks :: "unit list" where
  "ticks = [(), (), (), (), (), (), (), (), (), (), (), (), (), (), (), (),
            (), (), (), (), (), (), (), (), (), (), (), (), (), (), (), ()]"

fun fast_decode :: "bytes \<Rightarrow> bytes" where
  "fast_decode (a # b # c # d # e # r) =
     chars32 (binary ticks (weigh 52200625 a + (weigh 614125 b + (weigh 7225 c + (weigh 85 d + weigh 1 e)))))
     @ fast_decode r"
| "fast_decode _ = []"

lemma binary_nth: "binary us n = map (bit n) [0..<length us]"
proof (induction us arbitrary: n)
  case (Cons u us)
  have "map (bit n) [0..<Suc (length us)] = bit n 0 # map (bit (n div 2)) [0..<length us]"
    by (rule nth_equalityI) (simp_all del: upt_Suc add: nth_Cons' bit_Suc [symmetric])
  with Cons show ?case by (simp add: bit_0 del: upt_Suc)
qed simp

lemma length_ticks: "length ticks = 32"
  by (simp add: ticks_def)

lemma upt_32: "[0..<32] = [0::nat, 1, 2, 3, 4, 5, 6, 7, 8, 9, 10, 11, 12, 13, 14, 15, 16, 17, 18,
   19, 20, 21, 22, 23, 24, 25, 26, 27, 28, 29, 30, 31]"
  by (simp add: upt_rec)

lemma chars32_binary: "chars32 (binary ticks v) = unpack4 v"
proof -
  have d: "v div 256 = drop_bit 8 v" "v div 65536 = drop_bit 16 v" "v div 16777216 = drop_bit 24 v"
    by (simp_all add: drop_bit_eq_div)
  show ?thesis
    unfolding binary_nth unpack4_def char_of_mod_256 length_ticks upt_32
    by (simp add: d char_of_def bit_simps)
qed

lemma fast_decode_sound:
  "scan n b = Some k \<Longrightarrow> decode_blocks 5 hunk i b = Inr (fast_decode b)"
proof (induction n b arbitrary: i k rule: scan.induct)
  case (2 n a b c d e r)
  from "2.prems" have g: "(if low_digit a then True else b85_ok a \<and> horner 0 [a, b, c, d, e] < 4294967296)
        \<and> b85_ok b \<and> b85_ok c \<and> b85_ok d \<and> b85_ok e" and rec: "scan (n + 4) r = Some k"
    by (simp_all split: if_splits)
  have ok: "b85_ok a" "horner 0 [a, b, c, d, e] < 4294967296"
    using g low_digit_bound [of a b c d e] by (auto simp only: low_digit_def split: if_splits)
  then have h: "hunk i [a, b, c, d, e] = Inr (unpack4 (horner 0 [a, b, c, d, e]))"
    using g by (simp add: hunk_def del: horner.simps)
  have v: "horner 0 [a, b, c, d, e] = weigh 52200625 a + (weigh 614125 b + (weigh 7225 c + (weigh 85 d + weigh 1 e)))"
    by (simp add: weigh_def)
  have "decode_blocks 5 hunk i ([a, b, c, d, e] @ r) = Inr (unpack4 (horner 0 [a, b, c, d, e]) @ fast_decode r)"
    using h "2.IH" [OF g rec, of "i + 5"]
    by (subst decode_blocks_append_block) (simp_all del: horner.simps append_Cons)
  then show ?case by (simp add: v chars32_binary del: horner.simps)
qed simp_all

lemma binary_eval:
  "binary (u # us) 0 = False # binary us 0"
  "binary (u # us) 1 = True # binary us 0"
  "binary (u # us) (numeral Num.One) = True # binary us 0"
  "binary (u # us) (numeral (Num.Bit0 k)) = False # binary us (numeral k)"
  "binary (u # us) (numeral (Num.Bit1 k)) = True # binary us (numeral k)"
  by simp_all

lemma weigh_alphabet: "map (weigh w) b85alphabet = map (\<lambda>d. d * w) [0..<85]"
  by (subst dval_alphabet [symmetric]) (simp add: weigh_def)

lemmas weigh_eval =
  weigh_alphabet [of 52200625, unfolded b85alphabet_def upt_85, simplified]
  weigh_alphabet [of 614125, unfolded b85alphabet_def upt_85, simplified]
  weigh_alphabet [of 7225, unfolded b85alphabet_def upt_85, simplified]
  weigh_alphabet [of 85, unfolded b85alphabet_def upt_85, simplified]
  weigh_alphabet [of 1, unfolded b85alphabet_def upt_85, simplified, folded One_nat_def]

lemmas decode_eval = fast_decode.simps ticks_def weigh_eval binary_eval binary.simps(1) chars32.simps(1)
  arith_simps append.simps one_plus_numeral numeral_plus_one one_add_one add_0_left add_0_right

end
