(* ===== verification/Payload_Stream.thy ===== *)
theory Payload_Stream
  imports Payload_Decode Zip
begin

text \<open>
  Reading the directory of the embedded archive from base85 lines, five lines at a time: the
  lines are decoded, the entries that are complete are taken, and the remaining bytes are kept
  for the next five lines.
\<close>

fun stream :: "nat \<Rightarrow> nat \<Rightarrow> bytes \<Rightarrow> zentry list list \<Rightarrow> string list \<Rightarrow> zentry list list \<times> bytes" where
  "stream dir arc buf acc (a # b # c # d # e # ls) =
     (case pull dir arc (buf @ fast_decode (a @ b @ c @ d @ e)) of
        (es, q) \<Rightarrow> stream dir arc q (es # acc) ls)"
| "stream dir arc buf acc _ = (acc, buf)"

lemma fast_decode_append: "5 dvd length x \<Longrightarrow> fast_decode (x @ y) = fast_decode x @ fast_decode y"
proof (induction x rule: fast_decode.induct)
  case (1 a b c d e r)
  have "5 dvd 5 + length r" using "1.prems" by (simp add: numeral_eq_Suc)
  then have "5 dvd length r" by (simp only: dvd_add_triv_left_iff)
  then show ?case using "1.IH" by simp
qed (auto dest!: dvd_imp_le)

text \<open>Lines of which every five are a whole number of groups.\<close>

fun whole_groups :: "string list \<Rightarrow> bool" where
  "whole_groups [] = True"
| "whole_groups (a # b # c # d # e # ls) = (5 dvd length (a @ b @ c @ d @ e) \<and> whole_groups ls)"
| "whole_groups _ = False"

lemma scan_lines_whole:
  "scan_lines n p (xs @ ys) = Some k \<Longrightarrow> ys \<noteq> [] \<Longrightarrow> 5 dvd length xs \<Longrightarrow> whole_groups xs"
proof (induction xs arbitrary: n rule: whole_groups.induct)
  case (2 a b c d e ls)
  then obtain m where m: "scan n (a @ b @ c @ d @ e) = Some m" "scan_lines m p (ls @ ys) = Some k"
    by (auto split: option.splits)
  have "5 dvd 5 + length ls" using "2.prems"(3) by (simp add: numeral_eq_Suc)
  then have "5 dvd length ls" by (simp only: dvd_add_triv_left_iff)
  then show ?case
    using "2.IH" [OF m(2) "2.prems"(2)] scan_sound [OF m(1)] by (simp del: length_append)
qed (auto dest!: dvd_imp_le)

lemma whole_groups_dvd: "whole_groups ls \<Longrightarrow> 5 dvd length (concat ls)"
proof (induction ls rule: whole_groups.induct)
  case (2 a b c d e ls)
  then have "5 dvd length (a @ b @ c @ d @ e)" "5 dvd length (concat ls)" by simp_all
  from dvd_add [OF this] show ?case by (simp add: ac_simps)
qed simp_all

lemma whole_groups_append:
  "whole_groups xs \<Longrightarrow> whole_groups ys \<Longrightarrow> whole_groups (xs @ ys)"
  by (induction xs rule: whole_groups.induct) simp_all

lemma stream_sound:
  assumes "whole_groups ls" "stream dir arc buf acc ls = (acc', q)"
  shows "\<exists>new c. acc' = new @ acc \<and> buf @ fast_decode (concat ls) = c @ q \<and>
     (\<forall>x. read_entries dir arc (buf @ fast_decode (concat ls) @ x) =
      res_bind (read_entries dir arc (q @ x)) (\<lambda>fs. Inr (concat (rev new) @ fs)))"
  using assms
proof (induction ls arbitrary: buf acc rule: whole_groups.induct)
  case 1
  have "res_bind m (\<lambda>fs. Inr fs) = m" for m :: "zentry list res" by (cases m) simp_all
  then show ?case using 1 by simp
next
  case (2 a b c d e ls)
  let ?t = "a @ b @ c @ d @ e"
  obtain es r where pl: "pull dir arc (buf @ fast_decode ?t) = (es, r)"
    by (cases "pull dir arc (buf @ fast_decode ?t)")
  with "2.prems" have st: "stream dir arc r (es # acc) ls = (acc', q)"
    and len: "5 dvd length ?t" and rd: "whole_groups ls" by (simp_all del: length_append)
  obtain new u where new: "acc' = new @ es # acc" "r @ fast_decode (concat ls) = u @ q"
    "\<And>x. read_entries dir arc (r @ fast_decode (concat ls) @ x) =
       res_bind (read_entries dir arc (q @ x)) (\<lambda>fs. Inr (concat (rev new) @ fs))"
    using "2.IH" [OF rd st] by blast
  obtain v where v: "buf @ fast_decode ?t = v @ r" using pull_suffix [OF pl] by blast
  have fd: "fast_decode (concat (a # b # c # d # e # ls)) = fast_decode ?t @ fast_decode (concat ls)"
    using fast_decode_append [OF len, of "concat ls"] by simp
  have "buf @ fast_decode (concat (a # b # c # d # e # ls)) = (v @ u) @ q"
    unfolding fd using new(2) v by (metis append.assoc)
  moreover have "read_entries dir arc (buf @ fast_decode (concat (a # b # c # d # e # ls)) @ x) =
      res_bind (read_entries dir arc (q @ x)) (\<lambda>fs. Inr (concat (rev (new @ [es])) @ fs))" for x
    unfolding fd using pull_sound [OF pl, of "fast_decode (concat ls) @ x"] new(3) [of x]
    by (simp add: res_bind_assoc)
  moreover have "acc' = (new @ [es]) @ acc" using new(1) by simp
  ultimately show ?case by blast
qed simp_all

text \<open>Reading several pieces one after the other.\<close>

fun run :: "nat \<Rightarrow> nat \<Rightarrow> bytes \<Rightarrow> string list list \<Rightarrow> zentry list \<times> bytes" where
  "run dir arc buf [] = ([], buf)"
| "run dir arc buf (d # ds) =
     (case stream dir arc buf [] d of
        (acc, q) \<Rightarrow> (case run dir arc q ds of (es, r) \<Rightarrow> (concat (rev acc) @ es, r)))"

lemma run_stage:
  "stream dir arc buf [] d = s \<Longrightarrow>
   run dir arc buf (d # ds) = apfst ((@) (concat (rev (fst s)))) (run dir arc (snd s) ds)"
  by (cases s; cases "run dir arc (snd s) ds") simp

lemma run_sound:
  assumes "list_all whole_groups ds" "run dir arc buf ds = (es, q)"
  shows "(\<exists>c. buf @ fast_decode (concat (concat ds)) = c @ q) \<and>
     (\<forall>x. read_entries dir arc (buf @ fast_decode (concat (concat ds)) @ x) =
      res_bind (read_entries dir arc (q @ x)) (\<lambda>fs. Inr (es @ fs)))"
  using assms
proof (induction ds arbitrary: buf es)
  case Nil
  have "res_bind m (\<lambda>fs. Inr fs) = m" for m :: "zentry list res" by (cases m) simp_all
  then show ?case using Nil by simp
next
  case (Cons d ds)
  obtain acc r where st: "stream dir arc buf [] d = (acc, r)" by (cases "stream dir arc buf [] d")
  obtain es' where rn: "run dir arc r ds = (es', q)" and es: "es = concat (rev acc) @ es'"
    using Cons.prems(2) st by (auto split: prod.splits)
  have whole: "whole_groups d" "list_all whole_groups ds" using Cons.prems(1) by simp_all
  obtain c where c: "buf @ fast_decode (concat d) = c @ r"
    and d: "\<And>x. read_entries dir arc (buf @ fast_decode (concat d) @ x) =
       res_bind (read_entries dir arc (r @ x)) (\<lambda>fs. Inr (concat (rev acc) @ fs))"
    using stream_sound [OF whole(1) st] by auto
  obtain c' where c': "r @ fast_decode (concat (concat ds)) = c' @ q"
    and ds: "\<And>x. read_entries dir arc (r @ fast_decode (concat (concat ds)) @ x) =
       res_bind (read_entries dir arc (q @ x)) (\<lambda>fs. Inr (es' @ fs))"
    using Cons.IH [OF whole(2) rn] by blast
  have fd: "fast_decode (concat (concat (d # ds))) = fast_decode (concat d) @ fast_decode (concat (concat ds))"
    using fast_decode_append [OF whole_groups_dvd [OF whole(1)]] by simp
  have "buf @ fast_decode (concat (concat (d # ds))) = (c @ c') @ q"
    unfolding fd using c c' by (metis append.assoc)
  then show ?case
    unfolding fd es using d ds by (auto simp: res_bind_assoc)
qed

lemma nth_eval:
  "(c # b) ! 0 = c"
  "(c # b) ! (numeral k) = b ! (pred_numeral k)"
  by (simp_all add: numeral_eq_Suc)

lemma drop_eval:
  "drop 0 xs = xs"
  "drop (numeral k) (x # xs) = drop (pred_numeral k) xs"
  by (simp_all add: numeral_eq_Suc)

lemma butlast_eval:
  "butlast [x] = []"
  "butlast (x # y # xs) = x # butlast (y # xs)"
  by simp_all

text \<open>The value of a byte, from its binary digits.\<close>

fun byte_num :: "char \<Rightarrow> nat" where
  "byte_num (Char b0 b1 b2 b3 b4 b5 b6 b7) =
     (if b0 then 1 else 0) + ((if b1 then 2 else 0) + ((if b2 then 4 else 0) + ((if b3 then 8 else 0)
     + ((if b4 then 16 else 0) + ((if b5 then 32 else 0) + ((if b6 then 64 else 0)
     + (if b7 then 128 else 0)))))))"

lemma of_char_byte_num: "of_char c = byte_num c"
  by (cases c) (simp add: of_char_def horner_sum_simps)

lemma le16_eval: "le16 b i = byte_num (b ! i) + 256 * byte_num (b ! (i + 1))"
  by (simp add: le16_def of_char_byte_num)

text \<open>
  The same functions as equations that inspect one result at a time, for evaluation by rewriting
  alone.
\<close>

fun entry6 :: "nat \<Rightarrow> bytes \<Rightarrow> bytes \<Rightarrow> (bytes \<times> bytes) option \<Rightarrow> (zentry \<times> bytes) option res" where
  "entry6 arc h n None = Inl (ImportError ''can't read Zip file'')"
| "entry6 arc h n (Some (u, r)) =
     Inr (Some (zent n (le16 h 10) (le32 h 20) (le32 h 24) (le32 h 42 + arc), r))"

fun entry5 :: "nat \<Rightarrow> bytes \<Rightarrow> (bytes \<times> bytes) option \<Rightarrow> (zentry \<times> bytes) option res" where
  "entry5 arc h None = Inl (ImportError ''can't read Zip file'')"
| "entry5 arc h (Some (n, r)) = entry6 arc h n (split_at (le16 h 30 + le16 h 32) r)"

fun entry4 :: "nat \<Rightarrow> bytes \<Rightarrow> bytes \<Rightarrow> bool \<Rightarrow> (zentry \<times> bytes) option res" where
  "entry4 arc h r True = Inl (ImportError ''bad local header offset'')"
| "entry4 arc h r False = entry5 arc h (split_at (le16 h 28) r)"

fun entry3 :: "nat \<Rightarrow> nat \<Rightarrow> (bytes \<times> bytes) option \<Rightarrow> (zentry \<times> bytes) option res" where
  "entry3 dir arc None = Inl (ImportError ''can't read Zip file'')"
| "entry3 dir arc (Some (h, r)) = entry4 arc h r (dir < le32 h 42)"

fun entry2 :: "nat \<Rightarrow> nat \<Rightarrow> bytes \<Rightarrow> bool \<Rightarrow> (zentry \<times> bytes) option res" where
  "entry2 dir arc b False = Inr None"
| "entry2 dir arc b True = entry3 dir arc (split_at 46 b)"

fun entry1 :: "nat \<Rightarrow> nat \<Rightarrow> bytes \<Rightarrow> (bytes \<times> bytes) option \<Rightarrow> (zentry \<times> bytes) option res" where
  "entry1 dir arc b None = Inl (ImportError ''can't read Zip file'')"
| "entry1 dir arc b (Some (sig, u)) = entry2 dir arc b (sig = central_signature)"

lemma read_entry_eval: "read_entry dir arc b = entry1 dir arc b (split_at 4 b)"
  by (auto simp: read_entry_def split: option.splits)

fun pull_next :: "nat \<Rightarrow> nat \<Rightarrow> bytes \<Rightarrow> (zentry \<times> bytes) option res \<Rightarrow> zentry list \<times> bytes" where
  "pull_next dir arc b (Inl x) = ([], b)"
| "pull_next dir arc b (Inr None) = ([], b)"
| "pull_next dir arc b (Inr (Some (e, r))) = apfst ((#) e) (pull dir arc r)"

lemma pull_eval: "pull dir arc b = pull_next dir arc b (read_entry dir arc b)"
  by (subst pull.simps) (auto split: sum.split option.split prod.split)

fun stream_next :: "nat \<Rightarrow> nat \<Rightarrow> zentry list list \<Rightarrow> string list \<Rightarrow> zentry list \<times> bytes \<Rightarrow> zentry list list \<times> bytes" where
  "stream_next dir arc acc ls (es, q) = stream dir arc q (es # acc) ls"

lemma stream_eval:
  "stream dir arc buf acc (a # b # c # d # e # ls) =
     stream_next dir arc acc ls (pull dir arc (buf @ fast_decode (a @ b @ c @ d @ e)))"
  "stream dir arc buf acc [] = (acc, buf)"
  by (simp_all split: prod.split)

lemma split_at_step:
  "split_at 0 b = Some ([], b)"
  "split_at (numeral k) [] = None"
  "split_at (numeral k) (c # b) = map_option (apfst ((#) c)) (split_at (pred_numeral k) b)"
  by (auto simp: numeral_eq_Suc split: option.split)

lemmas zip_eval = stream_eval stream_next.simps pull_eval pull_next.simps apfst_conv option.map
  read_entry_eval entry1.simps entry2.simps entry3.simps entry4.simps entry5.simps entry6.simps
  central_signature_def split_at_step le32_def le16_eval nth_eval byte_num.simps list.inject
  list.distinct char.inject if_True if_False simp_thms rel_simps pred_numeral_simps Num.BitM.simps
  mult_1_right append_Nil2 drop_eval concat.simps snd_conv butlast_eval decode_eval

end
