(* ===== verification/Payload_Directory.thy ===== *)
theory Payload_Directory
  imports Payload_Stream
begin

text \<open>
  The directory of the archive embedded in \<open>Crawler/get-pip.py\<close>: lines 19722 to 20056, the last
  part of the literal \<open>DATA\<close>, in pieces of 5 and 25 lines. \<open>pip_toc\<close> is
  the table of contents
  of the archive: for each file the name, the compression method, the compressed and the original
  size, and the offset of its local record.  \<open>directory_evaluated\<close> runs the directory reader over
  the lines in stages and obtains exactly this table and the end record.
\<close>

section \<open>The lines\<close>

definition DATA_19722 :: "string list" where
  "DATA_19722 = [
    ''!Z#*L>aoB3ZIeHHCdc)cjgC&VcS6#!BoAaK+fg6;BT&MJL})`*lvm&+h8_k|lnw0u-iQ8#{p)qL+tAd'',
    ''%E-!R*!J5n+sd($qgnNjqQO7ASCnNV2=ybm75U<mg<v$xZ(7*SrK0%L7>zB#AsqL3BKc;C)kfLtx;@('',
    '';`?UEAL<Z;Gry1$5ePigogQKx0*^i5Oz&;R-VP)h*<6ay3h000O8HkM{d2au&V91j2hR4f1h4*&oF00'',
    ''00000000q=5hc003}la4%n9X>MtBUtcb8c~DCM0u%!j0000805+CpNlQtjWitT)07wD=01p5F000000'',
    ''00000HlFQ4*&pgX>c!JUu|J&ZeL$6aCuNm0Rj{Q6aWAK2mm&gW=Vn=i}gbd004$A000sI0000000000'']"

definition DATA_19727 :: "string list" where
  "DATA_19727 = [
    ''005+csSp4FaA|NaVqtS-V{dJ3VQyqDaCuNm0Rj{Q6aWAK2mm&gW=X57{yU}&007}A000pH000000000'',
    ''0005+c93B7waA|NaVqtS-aA9(DWpXZXc~DCM0u%!j0000805+CpNlTeBA$}4709rr*01*HH00000000'',
    ''000HlHODgXd*X>c!NZDen7bZKvHb1rasP)h*<6ay3h000O8HkM{dn{PY_m?HoHt9<|f4*&oF0000000'',
    ''000q=BA2003}la4%$UcW!KNVPr0Fc~DCM0u%!j0000805+CpNxpiPn7ax90J$Fk01*HH00000000000'',
    ''HlFqVE_PdX>c!Pcw=R7bZKvHb1rasP)h*<6ay3h000O8HkM{dHuxp~U@8Cr4x9i03;+NC0000000000'',
    ''q=8Lr003}la4%_YWMz0RaCuNm0Rj{Q6aWAK2mm&gW=XdXcbSn0008<G000mG0000000000005+c*OmY'',
    ''PaA|NaY;R*>bZKvHb1rasP)h*<6ay3h000O8HkM{d`Y438OAY`4<SGCF5dZ)H0000000000q=A;7003'',
    ''}la4&FWa5OSCbYW+6E^v8JO928D0~7!N00;m!mS#!YtatW(0001-0000J00000000000001_fe@|$0B'',
    ''~t=FLQKZbaiuIV{c?-b1rasP)h*<6ay3h000O8HkM{deVHITVkQ6p3Vi?o3;+NC0000000000q=CM!0'',
    ''03}la4&agWo2wGaCuNm0Rj{Q6aWAK2mm&gW=T)I%t#Lg002G`000*N0000000000005+cO4R@WaA|Na'',
    ''Uv_0~WN&gWUtei%X>?y-E^v8JO928D0~7!N00;m!mS#zXiI$3p5dZ*SR{#JO00000000000001_fsWe'',
    ''%0B~t=FJE?LZe(wAFJW+SWNC79E^v8JO928D0~7!N00;m!mS#zj!N9H{BLD!+l>h)00000000000000'',
    ''1_flBQF0B~t=FJE?LZe(wAFJx(RbaHPlaCuNm0Rj{Q6aWAK2mm&gW=Y+|rUhv`001yK0RR{P0000000'',
    ''000005+coe%*4aA|NaUv_0~WN&gWX>eg=WO8M5b1rasP)h*<6ay3h000O8HkM{d)>0WG69xbP{to~E8'',
    ''UO$Q0000000000q=7t40RV7ma4%nWWo~3|axZUkWMy(?WMpY$bS`jtP)h*<6ay3h000O8HkM{d!60;w'',
    ''>d*iHt7`)Q7ytkO0000000000q=AQ00RV7ma4%nWWo~3|axZXsaA9(DX>MmOaCuNm0Rj{Q6aWAK2mm&'',
    ''gW=UWk2aRR{000F8000;O0000000000005+cry~LYaA|NaUv_0~WN&gWa%C-cWo~3|axQRrP)h*<6ay'',
    ''3h000O8HkM{dA$z<E&j|nk^d<lR7XSbN0000000000q=7>v0swGna4%nWWo~3|axZdabaHuVZf7oVc~'',
    ''DCM0u%!j0000805+CpNtswpT1XuL0Fre801^NI00000000000HlFOF9HB?X>c!Jc4cm4Z*nhlX?QMhc'',
    ''~DCM0u%!j0000805+CpNdQ)?I<5c!04@Ol03-ka00000000000HlGxOacIKX>c!Jc4cm4Z*nhVVPj}z'',
    ''V{dMBa&K%eUtei%X>?y-E^v8JO928D0~7!N00;m!mS#!XR7Rx(0ssIg1pojb00000000000001_fv-&'',
    ''h0B~t=FJE?LZe(wAFJob2Xk}w>Zgg^QY%gD9ZDcNRc~DCM0u%!j0000805+CpNl@mgEK~&m000sI03!'',
    ''eZ00000000000HlHNPXYjNX>c!Jc4cm4Z*nhVVPj}zV{dMBa&K%eVPs)&bY*fbaCuNm0Rj{Q6aWAK2m'',
    ''m&gW=RsN#_%iw000&P001EX0000000000005+cg;fFoaA|NaUv_0~WN&gWV_{=xWn*t{baHQOFJob2X'',
    ''k{*Nc~DCM0u%!j0000805+CpNqG`W@Xi1L0H6T?03rYY00000000000HlHNRssNUX>c!Jc4cm4Z*nhV'']"

definition DATA_19752 :: "string list" where
  "DATA_19752 = [
    ''VPj}zV{dMBa&K%eV{dJ6VRSBVc~DCM0u%!j0000805+CpNylKh-Utr>0N^qJ044wc00000000000HlH'',
    ''bR{{WVX>c!Jc4cm4Z*nhVVPj}zV{dMBa&K%eV{dMBa&K&GWpXZXc~DCM0u%!j0000805+CpNo*!GeE9'',
    ''<a0OJV&04D$d00000000000HlFRX956lX>c!Jc4cm4Z*nhVVPj}zV{dMBa&K%eW@&6?cXDBHaAk5XaC'',
    ''uNm0Rj{Q6aWAK2mm&gW=RfI9{j-t001oz001Tc0000000000005+ch-(4>aA|NaUv_0~WN&gWV_{=xW'',
    ''n*t{baHQOFKA_Ta%ppPX=8IPaCuNm0Rj{Q6aWAK2mm&gW=RrZfVe0K004*?001Qb0000000000005+c'',
    ''jd211aA|NaUv_0~WN&gWV_{=xWn*t{baHQOFLPybX<=+>dSxzfc~DCM0u%!j0000805+CpNsD{MLc9O'',
    ''~0P+C<03!eZ00000000000HlHVc>(}%X>c!Jc4cm4Z*nhVVPj}zV{dMBa&K%ecXDBHaAk5XaCuNm0Rj'',
    ''{Q6aWAK2mm&gW=WnMR{YBV0040T001ih0000000000005+c^?CvTaA|NaUv_0~WN&gWV_{=xWn*t{ba'',
    ''HQOFJob2Xk~LRUtei%X>?y-E^v8JO928D0~7!N00;m!mS#!8rw0F91pold4FCWw00000000000001_f'',
    ''eCy90B~t=FJE?LZe(wAFJob2Xk}w>Zgg^QY%gPBV`yb_FJ@_MWnW`qV`ybAaCuNm0Rj{Q6aWAK2mm&g'',
    ''W=YeC##E*O007Mc001rk0000000000005+cuYm#paA|NaUv_0~WN&gWV_{=xWn*t{baHQOFJob2Xk~L'',
    ''Ra%E&`b6;a&V`ybAaCuNm0Rj{Q6aWAK2mm&gW=UAoX*sh1008g+001BW0000000000005+cp@RYdaA|'',
    ''NaUv_0~WN&gWV{dG4a$#*@FJE72ZfSI1UoLQYP)h*<6ay3h000O8HkM{dJ{6~5ivs`v+z9{x8~^|S00'',
    ''00000000q=Axz0swGna4%nWWo~3|axY_VY;SU5ZDB8AZgXiaaCuNm0Rj{Q6aWAK2mm&gW=Y3mz}avL0'',
    ''06`#001KZ0000000000005+cSBL@taA|NaUv_0~WN&gWV{dG4a$#*@FJW$TX>@OQX>KzzE^v8JO928D'',
    ''0~7!N00;m!mS#zP*4QtF0ssJg2LJ#f00000000000001_fe4cV0B~t=FJE?LZe(wAFJo_PZ*pO6VJ~T'',
    ''JX>@5}Y-w|4E^v8JO928D0~7!N00;m!mS#x}ZK6F)1pol`6aWAn00000000000001_fz6cy0B~t=FJE'',
    ''?LZe(wAFJo_PZ*pO6VJ~-SZZk42aCuNm0Rj{Q6aWAK2mm&gW=VH@XCdMR005F00018V000000000000'',
    ''5+cRGR_-aA|NaUv_0~WN&gWV{dG4a$#*@FL!BfbY*gFE^v8JO928D0~7!N00;m!mS#yNoKcru0RR9+0'',
    ''ssIX00000000000001_fpeh(0B~t=FJE?LZe(wAFJx(RbZlv2FJE72ZfSI1UoLQYP)h*<6ay3h000O8'',
    ''HkM{dUkP(yXes~zVV?j19RL6T0000000000q=5~i0swGna4%nWWo~3|axY|Qb98KJVlQKFZE#_9E^v8'',
    ''JO928D0~7!N00;m!mS#yh3d6j=E&u=s!T<mt00000000000001_fw0X20B~t=FJE?LZe(wAFJx(RbZl'',
    ''v2FJxhKVPau(WiD`eP)h*<6ay3h000O8HkM{dgE-<XF%<v+T~Yu58~^|S0000000000q=Bsb0swGna4'',
    ''%nWWo~3|axY|Qb98KJVlQcKWMz0RaCuNm0Rj{Q6aWAK2mm&gW=YY-c(1lH002eD0018V00000000000'',
    ''05+c7ZL*iaA|NaUv_0~WN&gWWNCABY-wUIY;R*>bZ>HVE^v8JO928D0~7!N00;m!mS#zYm$jR05C8z$'']"

definition DATA_19777 :: "string list" where
  "DATA_19777 = [
    ''IRF4300000000000001_feJ+f0B~t=FJE?LZe(wAFJx(RbZlv2FKuCNX=Y_}bS`jtP)h*<6ay3h000O'',
    ''8HkM{dJrS+~jRyb#iWmR@9smFU0000000000q=B<l0|0Poa4%nWWo~3|axY|Qb98KJVlQoBa%*LBb1r'',
    ''asP)h*<6ay3h000O8HkM{d4W?}Iw<7=mv6lb<9{>OV0000000000q=9^00|0Poa4%nWWo~3|axY|Qb9'',
    ''8KJVlQoFbYWy+bYU)Vc~DCM0u%!j0000805+CpNyxWFn5YW?01heu03ZMW00000000000HlF%fdc?=X'',
    ''>c!Jc4cm4Z*nhWX>)XJX<{#OWpi(Ja${w4E^v8JO928D0~7!N00;m!mS#!1|LfZd5&!^rI{*M400000'',
    ''000000001_fmV$J0B~t=FJE?LZe(wAFJx(RbZlv2FLPsZX>fFNE^v8JO928D0~7!N00;m!mS#!yn2-#'',
    ''-ssI20Tmb+Z00000000000001_ft;TM0B~t=FJE?LZe(wAFJx(RbZlv2FLX09E@gOSP)h*<6ay3h000'',
    ''O8HkM{dp5nz>TetuK0Db`g8vp<R0000000000q=Au21ORYpa4%nWWo~3|axY|Qb98KJVlQ+yG%jU$Wl'',
    ''&220u%!j0000805+CpNjKO5CAT^N0RPSa02=@R00000000000HlE>0|fwZX>c!Jc4cm4Z*nhWX>)XJX'',
    ''<{#RbZKlZaCuNm0Rj{Q6aWAK2mm&gW=Wv^1y-*a005s{0015U0000000000005+c6+Q(3aA|NaUv_0~'',
    ''WN&gWWNCABY-wUIc4cyNX>V>WaCuNm0Rj{Q6aWAK2mm&gW=Yt60Et?r0000^0RS5S0000000000005+'',
    ''c09XY8aA|NaUv_0~WN&gWWNCABY-wUIcQZ0BWq4&!O928D0~7!N00;m!mS#y_%uDYLwEzGBZ~*`t000'',
    ''00000000001_fs_6P0B~t=FJE?LZe(wAFJx(RbZlv2FLyRHE@gOSP)h*<6ay3h000O8HkM{dU(}$f4J'',
    ''7~o%a{NF8~^|S0000000000q=DJ91^{qra4%nWWo~3|axY|Qb98KJVlQ`SWo2wGaCuNm0Rj{Q6aWAK2'',
    ''mm&gW=SLOXZ*te000sJ001cf0000000000005+cAlU{0aA|NaUv_0~WN&gWWNCABY-wUIUt(cnYjAIJ'',
    ''bT40DX>MtBUtcb8c~DCM0u%!j0000805+CpNw118WzGQr0Luda03`qb00000000000HlE`+6Dk{X>c!'',
    ''Jc4cm4Z*nhWX>)XJX<{#5Vqs%zaBp&SFKuaaV=i!cP)h*<6ay3h000O8HkM{d;$l6}M;rhEFJu4!Cjb'',
    ''Bd0000000000q=7r!1^{qra4%nWWo~3|axY|Qb98KJVlQ7}VPk7>Z*p`mb7*yRX>2ZVc~DCM0u%!j00'',
    ''00805+CpNpBVat@Z%`067W(04o3h00000000000HlG(_yz!QX>c!Jc4cm4Z*nhWX>)XJX<{#5Vqs%za'',
    ''Bp&SFLQZwV{dL|X=g5DW@k`K0Rj{Q6aWAK2mm&gW=S>=Qr74m002vA001fg0000000000005+c2Kxp8'',
    ''aA|NaUv_0~WN&gWWNCABY-wUIUt(cnYjAIJbT4yxb7OCAW@%?GaCuNm0Rj{Q6aWAK2mm&gW=TXsA46h'',
    ''U007i!0RSif0000000000005+cHW~*2aA|NaUv_0~WN&gWWNCABY-wUIUt(cnYjAIJbT4#aa%O34WiD'',
    ''`eP)h*<6ay3h000O8HkM{dqMMnVuK@r63<CfFAOHXW0000000000q=DXZ2LNzsa4%nWWo~3|axZ9fZE'',
    ''Q7cX<{#5UukY>bYEXCaCuNm0Rj{Q6aWAK2mm&gW=Yj}4&o&g002Qj001EX0000000000005+c%XJ3;a'',
    ''A|NaUv_0~WN&gWXmo9CHEd~OFJEbBVRU79ZEP-Zc~DCM0u%!j0000805+CpNgfPsHCrD502F@!03-ka'']"

definition DATA_19802 :: "string list" where
  "DATA_19802 = [
    ''00000000000HlF0iU$C2X>c!Jc4cm4Z*nhabZu-kY-wUIUukY|b#!xda%Ev{E^v8JO928D0~7!N00;m'',
    ''!mS#!BMrszn8~^|$D**r^00000000000001_fy}7~0B~t=FJE?LZe(wAFKBdaY&C3YVlQ8GZ);_4X?k'',
    ''UHE^v8JO928D0~7!N00;m!mS#yN<E~gd1^@s65C8xk00000000000001_fy>4R0B~t=FJE?LZe(wAFK'',
    ''BdaY&C3YVlQ8HbZKmJE^v8JO928D0~7!N00;m!mS#!Fq<#JgNB{u4MF9XI00000000000001_fkVv)0'',
    ''B~t=FJE?LZe(wAFKBdaY&C3YVlQKFZgX^DZgg`laCuNm0Rj{Q6aWAK2mm&gW=Uh%cihZE006Sd0RSTa'',
    ''0000000000005+cixmg}aA|NaUv_0~WN&gWXmo9CHEd~OFKBdaY&CFUa&u*JE^v8JO928D0~7!N00;m'',
    ''!mS#!Z$GbFh4*&pRHvj-400000000000001_ftXkb0B~t=FJE?LZe(wAFKBdaY&C3YVlQ)La%o{~X?k'',
    ''UHE^v8JO928D0~7!N00;m!mS#!s)2|Pv0000X0RR9d00000000000001_flFuz0B~t=FJE?LZe(wAFK'',
    ''BdaY&C3YVlQ8Ga%p8RUtei%X>?y-E^v8JO928D0~7!N00;m!mS#!Jl|Gi70RRBg0{{Rc00000000000'',
    ''001_fi-Ce0B~t=FJE?LZe(wAFKBdaY&C3YVlQ8Ga%p8RUt(c%WiD`eP)h*<6ay3h000O8HkM{dBvqZM'',
    ''rU3u|ngjp<Bme*a0000000000q=6D^2mo+ta4%nWWo~3|axZ9fZEQ7cX<{#5baH8BFJxhKa%p8QaCuN'',
    ''m0Rj{Q6aWAK2mm&gW=Ts=Zq6M7008d>001BW0000000000005+c`fLaQaA|NaUv_0~WN&gWXmo9CHEd'',
    ''~OFJE+WX=N{Pc`k5yP)h*<6ay3h000O8HkM{d000000ssI200000C;$Ke0000000000q=8j$2mo+ta4'',
    ''%nWWo~3|axZ9fZEQ7cX<{#CX>4?5a&s?VUukY>bYEXCaCuNm0Rj{Q6aWAK2mm&gW=U?)e1IPT003<Q0'',
    ''01@s0000000000005+coo@&LaA|NaUv_0~WN&gWXmo9CHEd~OFJ@_MbY*gLFJWwOXklVybZKK@Y+-bC'',
    ''a%p09bY*icaCuNm0Rj{Q6aWAK2mm&gW=SG|`^1$10015V001Na0000000000005+c5OD|qaA|NaUv_0'',
    ''~WN&gWXmo9CHEd~OFJ@_MbY*gLFJfVHWiD`eP)h*<6ay3h000O8HkM{dA;3J0w*mkFwh90MGXMYp000'',
    ''0000000q=Dyg2mo+ta4%nWWo~3|axZ9fZEQ7cX<{#CX>4?5a&s?fZfa#?bYE>{bYWj(Xkl`5WpplZc~'',
    ''DCM0u%!j0000805+CpNqy_mwf6!503{6o03-ka00000000000HlHMbO-=&X>c!Jc4cm4Z*nhabZu-kY'',
    ''-wUIW@&76WpZ;bY-w(EE^v8JO928D0~7!N00;m!mS#yI?VTja1^@siDF6U000000000000001_fhc$g'',
    ''0B~t=FJE?LZe(wAFKBdaY&C3YVlQTCY;<LEb1!djbZKvHVQh3^XLBxac~DCM0u%!j0000805+CpNtzy'',
    ''1nC}$;02pEb04V?f00000000000HlFCe+U3@X>c!Jc4cm4Z*nhabZu-kY-wUIW@&76WpZ;bb75|2bZL'',
    ''5JaxQRrP)h*<6ay3h000O8HkM{dpN?v+&;bAda|8eYDgXcg0000000000q=9jj2mo+ta4%nWWo~3|ax'',
    ''Z9fZEQ7cX<{#CX>4?5a&s?tXlZn1b8ul}WiD`eP)h*<6ay3h000O8HkM{df-++yj{pDw&;S4cEdT%j0'',
    ''000000000q=AW-2mo+ta4%nWWo~3|axZ9fZEQ7cX<{#Qa%E*<WMOc0WpZ;bUtei%X>?y-E^v8JO928D'']"

definition DATA_19827 :: "string list" where
  "DATA_19827 = [
    ''0~7!N00;m!mS#yYC&#`K0ssIL1^@sn00000000000001_fn%5m0B~t=FJE?LZe(wAFKBdaY&C3YVlQ-'',
    ''ZWo2PxVQ_S1a&s?dWo~n5X)bViP)h*<6ay3h000O8HkM{d<Xm468Ug?SeFgvkC;$Ke0000000000q=C'',
    ''Jf2mo+ta4%nWWo~3|axZ9fZEQ7cX<{#Qa%E*<WMOc0WpZ;bb76QcaCuNm0Rj{Q6aWAK2mm&gW=TicH*'',
    ''Vtu002%6001oj0000000000005+c9i0dOaA|NaUv_0~WN&gWXmo9CHEd~OFLZKcWny({Y-D9}b1z?CX'',
    ''>MtBUtcb8c~DCM0u%!j0000805+CpNkqz4s&Wnh0CqM204V?f00000000000HlFSq6h$RX>c!Jc4cm4'',
    ''Z*nhabZu-kY-wUIbaG{7Vs&Y3WMy)5FJfVHWiD`eP)h*<6ay3h000O8HkM{d2<k5Q+XnyugCYO`C;$K'',
    ''e0000000000q=5vn2mo+ta4%nWWo~3|axZ9fZEQ7cX<{#Qa%E*=b!lv5WpZ;bWN&RQaCuNm0Rj{Q6aW'',
    ''AK2mm&gW=Wxam+&(R007)E001fg0000000000005+cCAkOyaA|NaUv_0~WN&gWXmo9CHEd~OFLZKcWn'',
    ''y({Y-D9}b1!9da%E*MaCuNm0Rj{Q6aWAK2mm&gW=Y!qO3-W#002=p001ul0000000000005+cpu-3Na'',
    ''A|NaUv_0~WN&gWXmo9CHEd~OFLZKcWny({Y-D9}b1!9da%E*-Y<O*KE^v8JO928D0~7!N00;m!mS#zF'',
    ''L?M<<1^@u46#xJ%00000000000001_fmzWA0B~t=FJE?LZe(wAFKBdaY&C3YVlQ-ZWo36^Y-?q5b1z?'',
    ''CX>MtBUtcb8c~DCM0u%!j0000805+CpNlhb|z@h{I080}904M+e00000000000HlHN*9ZV`X>c!Jc4c'',
    ''m4Z*nhabZu-kY-wUIbaG{7cVTR6WpZ;bVqtS-E^v8JO928D0~7!N00;m!mS#z1if^g+0RRAn1poji00'',
    ''000000000001_f!N##0B~t=FJE?LZe(wAFKBdaY&C3YVlQ-ZWo36^Y-?q5b1!6XZ7y(mP)h*<6ay3h0'',
    ''00O8HkM{dBEb+b5(NMNOcDS9DF6Tf0000000000q=6LQ2mo+ta4%nWWo~3|axZ9fZEQ7cX<{#Qa%E+A'',
    ''VQgz<a&s?bbaG{7E^v8JO928D0~7!N00;m!mS#zo4V*`41^@u17ytk+00000000000001_fo<dn0B~t'',
    ''=FJE?LZe(wAFKBdaY&C3YVlQ-ZWo36^Y-?q5b1!9da%E*-Y<O*KE^v8JO928D0~7!N00;m!mS#y4Uu_'',
    ''V`0ssI72><{p00000000000001_fg$S%0B~t=FJE?LZe(wAFKBdaY&C3YVlQ-ZWo36^Y-?q5b1!FQZg'',
    ''Xg9E^v8JO928D0~7!N00;m!mS#!wnInLL3IG6`Bme*)00000000000001_fidm~0B~t=FJE?LZe(wAF'',
    ''KlmPYi4O|WiMY}X>MtBUtcb8c~DCM0u%!j0000805+CpNh{v+Cn5s?09*<H03-ka00000000000HlHO'',
    ''_y_=SX>c!Jc4cm4Z*nheZ)0m_X>4ULY-w(5Y;R+0W@&6?E^v8JO928D0~7!N00;m!mS#yICcJ)g0{{R'',
    ''R3;+Nn00000000000001_fmQqn0B~t=FJE?LZe(wAFKlmPYi4O|WiM@OWNC72Z)0m_X>4UKaCuNm0Rj'',
    ''{Q6aWAK2mm&gW=SACaxEGN007Dt001KZ0000000000005+c3jhfKaA|NaUv_0~WN&gWY;R+0W@&6?FK'',
    ''}sOY;R+0W@&6?E^v8JO928D0~7!N00;m!mS#!2h48%z1poko6#xJx00000000000001_fo2E^0B~t=F'',
    ''JE?LZe(wAFKlmPYi4O|WiNAaY-x05Y;R+0W@&6?E^v8JO928D0~7!N00;m!mS#zjBMI3(0{{Rx3IG5n'']"

definition DATA_19852 :: "string list" where
  "DATA_19852 = [
    ''00000000000001_fwK(>0B~t=FJE?LZe(wAFKlmPYi4O|WiNAiZER_7Yiw_0Yi4O|WiD`eP)h*<6ay3'',
    ''h000O8HkM{dJSkYli2(or&;kGeA^-pY0000000000q=7XN2>@_ua4%nWWo~3|axZXUV{2h&X>MmPUte'',
    ''KjZ*_EEUoLQYP)h*<6ay3h000O8HkM{dfp(V47y$qP0RjL3ApigX0000000000q=Eht2>@_ua4%nWWo'',
    ''~3|axZXUV{2h&X>MmPUtei%X>?y-E^v8JO928D0~7!N00;m!mS#!jX-ebE0RRA80{{RZ00000000000'',
    ''001_fmIX<0B~t=FJE?LZe(wAFK}UFYhh<;Zf7rFV{dJ6VRSBVc~DCM0u%!j0000805+CpN&5Yy5_16n'',
    ''0Eh(u03-ka00000000000HlFl76|}wX>c!Jc4cm4Z*nhiVPk7yXK8L{FJE(Xa&=>Lb#i5ME^v8JO928'',
    ''D0~7!N00;m!mS#zPEGt(93IG5mAOHX$00000000000001_ffE=B0B~t=FJE?LZe(wAFK}UFYhh<;Zf7'',
    ''rTVRCC_a&s<lc~DCM0u%!j0000805+CpNv;u}^LGXS0Ot?@03`qb00000000000HlFdA_)L+X>c!Jc4'',
    ''cm4Z*nhiVPk7yXK8L{FLGsZb!l>CZDnqBb1rasP)h*<6ay3h000O8HkM{dd_{wdj~D;|d2IjyBLDyZ0'',
    ''000000000q=67A2>@_ua4%nWWo~3|axZXUV{2h&X>MmPb8uy2X=Z6<a&s<lc~DCM0u%!j0000805+Cp'',
    ''NyX|X4-o+X0Hpx{03HAU00000000000HlH7K?wkGX>c!Jc4cm4Z*nhiVPk7yXK8L{FLiWjY;!Jfc~DC'',
    ''M0u%!j0000805+CpNe=JEp<xXG03<B{03ZMW00000000000HlE}LkR$IX>c!Jc4cm4Z*nhiVPk7yXK8'',
    ''L{FLq^eb7^mGE^v8JO928D0~7!N00;m!mS#!GEkGtsZ2$m1lK}uF00000000000001_fy__|0B~t=FJ'',
    ''E?LZe(wAFK}yTUvg!0Z*_8GWpgiIUukY>bYEXCaCuNm0Rj{Q6aWAK2mm&gW=Z;5ag34#007Sm001BW0'',
    ''000000000005+cT)qhaaA|NaUv_0~WN&gWaB^>Fa%FRKFJE72ZfSI1UoLQYP)h*<6ay3h000O8HkM{d'',
    ''55q<SGz0(ueF^{o8vp<R0000000000q=78M2>@_ua4%nWWo~3|axZXlZ)b94b8|0ZVR9~Tc~DCM0u%!'',
    ''j0000805+CpNh*KwFb@L&0Nw=v03QGV00000000000HlGL#|Z#%X>c!Jc4cm4Z*nhia&KpHWpi^cV{d'',
    ''hCbY*fbaCuNm0Rj{Q6aWAK2mm&gW=YQM4^I07001Tn0018V0000000000005+c<;n>FaA|NaUv_0~WN'',
    ''&gWaB^>Fa%FRKFKA_KaAk6HE^v8JO928D0~7!N00;m!mS#zJ2vU3K0ssIa1poja00000000000001_f'',
    ''gR5Y0B~t=FJE?LZe(wAFK}{iXL4n8b1!pnX>M+1axQRrP)h*<6ay3h000O8HkM{dX({S?U<3dF76||V'',
    ''AOHXW0000000000q=7=x2>@_ua4%nWWo~3|axZdaadl;LbaO9XUukY>bYEXCaCuNm0Rj{Q6aWAK2mm&'',
    ''gW=VDXxhYT+0010K001BW0000000000005+c;MNHMaA|NaUv_0~WN&gWa%FLKWpi|MFJWY1aCBvIb1r'',
    ''asP)h*<6ay3h000O8HkM{d$g9t&!UX^Tq80!E8vp<R0000000000q=9bg2>@_ua4%nWWo~3|axZdaad'',
    ''l;LbaO9ZaA_`Zc~DCM0u%!j0000805+CpNnB7pCt3*r0Pi0F02}}S00000000000HlFw@Cg8LX>c!Jc'',
    ''4cm4Z*nhkWpQ<7b98erVRdw9E^v8JO928D0~7!N00;m!mS#zrDnMzG%K`w1LInUH00000000000001_'']"

definition DATA_19877 :: "string list" where
  "DATA_19877 = [
    ''f&KXj0B~t=FJE?LZe(wAFLGsZb!BsOb1!3IV`Xx5E^uXSP)h*<6ay3h000O8HkM{dE+307XaN8KaRLA'',
    ''U9RL6T0000000000q=C!D3;=Lxa4%nWWo~3|axZdaadl;LbaO9bWpZ?LE^v8JO928D0~7!N00;m!mS#'',
    ''z}SqnXx0ssJ)1^@sa00000000000001_fo{hP0B~t=FJE?LZe(wAFLGsZb!BsOb1!3WZE#_9E^v8JO9'',
    ''28D0~7!N00;m!mS#y*v#Y{=6951pM*sjH00000000000001_fkVm+0B~t=FJE?LZe(wAFLGsZb!BsOb'',
    ''1!3WZ)<5~b1rasP)h*<6ay3h000O8HkM{dX>g)+)dK(kEDHbtA^-pY0000000000q=Eh23;=Lxa4%nW'',
    ''Wo~3|axZdaadl;LbaO9dcw=R7bZKvHb1rasP)h*<6ay3h000O8HkM{ddD^4OdI10c{{jF29RL6T0000'',
    ''000000q=6FR3;=Lxa4%nWWo~3|axZdaadl;LbaO9gZ*OaJE^v8JO928D0~7!N00;m!mS#zucis<yA^-'',
    ''qHcK`q$00000000000001_fyd(v0B~t=FJE?LZe(wAFLGsZb!BsOb1!XgWMyn~E^v8JO928D0~7!N00'',
    '';m!mS#yLdmYTb8vp<aWB>pl00000000000001_frJJP0B~t=FJE?LZe(wAFLGsZb!BsOb1!pcb8~5LZ'',
    ''gVbhc~DCM0u%!j0000805+CpN!(>A^ZNt<0Q3w103-ka00000000000HlF|A`Jj=X>c!Jc4cm4Z*nhk'',
    ''WpQ<7b98erb97;Jb#q^1Z)9b2E^v8JO928D0~7!N00;m!mS#!jAj%JX1ONcU3jhEj00000000000001'',
    ''_fxagV0B~t=FJE?LZe(wAFLGsZb!BsOb1!pra&=>Lb#i5ME^v8JO928D0~7!N00;m!mS#x{=(3^?9{>'',
    ''PjUH||c00000000000001_fqE<r0B~t=FJE?LZe(wAFLGsZb!BsOb1!vtX>4;YaCuNm0Rj{Q6aWAK2m'',
    ''m&gW=WnnC&jq}003wO001cf0000000000005+c!%GbSaA|NaUv_0~WN&gWa%FLKWpi|MFK}UFYhh<)b'',
    ''1z?CX>MtBUtcb8c~DCM0u%!j0000805+CpNpWmS{EY$t01pKK05Jdn00000000000HlG#P7MHXX>c!J'',
    ''c4cm4Z*nhkWpQ<7b98eraA9L>VP|D?FJow7a%5$6FJE72ZfSI1UoLQYP)h*<6ay3h000O8HkM{dah$&'',
    ''~caZ=9qCx=xF#rGn0000000000q=BDN4FGUya4%nWWo~3|axZdaadl;LbaO9oVPk7yXJvCQV`yP=WMy'',
    ''<OVrgeJW^!e5E^v8JO928D0~7!N00;m!mS#!*fEffE0{{S&1^@sv00000000000001_fo0<j0B~t=FJ'',
    ''E?LZe(wAFLGsZb!BsOb1!gVV{2h&WpgiMXkl_>WppoMX=gQXa&KZ~axQRrP)h*<6ay3h000O8HkM{dd'',
    ''9qhoGXwwt$O!-dGXMYp0000000000q=C`q4FGUya4%nWWo~3|axZdaadl;LbaO9oVPk7yXJvCQV`yP='',
    ''WMy<OV`yP=WMy<^V{|TXc~DCM0u%!j0000805+CpN%)Y$01gQN016}k0672v00000000000HlFc>kR;'',
    ''KX>c!Jc4cm4Z*nhkWpQ<7b98eraA9L>VP|D?FJow7a%5$6FJow7a%5?9baH88b#!TOZZ2?nP)h*<6ay'',
    ''3h000O8HkM{dIf<p8bOZnZ&kg_pI{*Lx0000000000q=CBh4FGUya4%nWWo~3|axZdaadl;LbaO9oVP'',
    ''k7yXJvCQV`yP=WMy<OV`yP=b7gdAa&L8TaB^>AWpXZXc~DCM0u%!j0000805+CpN%$G)gIfat0B#2W0'',
    ''5$*s00000000000HlG3`3(SYX>c!Jc4cm4Z*nhkWpQ<7b98eraA9L>VP|D?FJow7a%5$6FJow7a&u*L'']"

definition DATA_19902 :: "string list" where
  "DATA_19902 = [
    ''aB^>AWpXZXc~DCM0u%!j0000805+CpNx<0<G~fdO01gQN06PEx00000000000HlF7{S5$cX>c!Jc4cm'',
    ''4Z*nhkWpQ<7b98eraA9L>VP|D?FJow7a%5$6FJo_HX>Mn8bYXO5ZDC_*X>MgMaCuNm0Rj{Q6aWAK2mm'',
    ''&gW=SCX-8oSL004yq001ul0000000000005+cZvhSfaA|NaUv_0~WN&gWa%FLKWpi|MFK}UFYhh<)b1'',
    ''!3PVRB?;bT4CXZE#_9E^v8JO928D0~7!N00;m!mS#!(Rlv`-0ssIv1pojt00000000000001_fei!>0'',
    ''B~t=FJE?LZe(wAFLGsZb!BsOb1!gVV{2h&WpgiMXkl_>WppoNZ*FsRVQzGDE^v8JO928D0~7!N00;m!'',
    ''mS#z-1}4T#0{{T_1^@sw00000000000001_ffEM~0B~t=FJE?LZe(wAFLGsZb!BsOb1!gVV{2h&Wpgi'',
    ''MXkl_>WppoNa5*$NaB^>AWpXZXc~DCM0u%!j0000805+CpNv18*IdKF40CNlg05Sjo00000000000Hl'',
    ''Gj3Jw5pX>c!Jc4cm4Z*nhkWpQ<7b98eraA9L>VP|D?FJow7a%5$6FJ*IMaB^>AWpXZXc~DCM0u%!j00'',
    ''00805+CpN!CdH%*h1+0G}QJ04@Lk00000000000HlF(4-NouX>c!Jc4cm4Z*nhkWpQ<7b98eraA9L>V'',
    ''P|D?FJow7a%5$6FJ*IMb8Rkgc~DCM0u%!j0000805+CpNvwRlMGFN00A3CN05kvq00000000000HlG3'',
    ''6%GJ!X>c!Jc4cm4Z*nhkWpQ<7b98eraA9L>VP|D?FJow7a%5$6FJ*OOYH)CJZ(?O~E^v8JO928D0~7!'',
    ''N00;m!mS#yR<Svn~Qvd*(vj6}x00000000000001_f#ezv0B~t=FJE?LZe(wAFLGsZb!BsOb1!gVV{2'',
    ''h&WpgiMXkl_>WppoPbz^ICW^!e5E^v8JO928D0~7!N00;m!mS#x>v&Q5Z0{{Sv1^@sw000000000000'',
    ''01_f#Yrt0B~t=FJE?LZe(wAFLGsZb!BsOb1!gVV{2h&WpgiMXkl_>WppoPbz^ICaB^>AWpXZXc~DCM0'',
    ''u%!j0000805+CpNhMFC6yHDq062&M05Sjo00000000000HlFVat;7+X>c!Jc4cm4Z*nhkWpQ<7b98er'',
    ''aA9L>VP|D?FJow7a%5$6FJ*OOba!TQWpOTWc~DCM0u%!j0000805+CpNiCu{R2c&R0E`9z05kvq0000'',
    ''0000000HlF^vkm}oX>c!Jc4cm4Z*nhkWpQ<7b98eraA9L>VP|D?FJow7a%5$6FJ*OOba!xaZ(?O~E^v'',
    ''8JO928D0~7!N00;m!mS#ygjr0xcLI41(i~s;L00000000000001_f#|jl0B~t=FJE?LZe(wAFLGsZb!'',
    ''BsOb1!gVV{2h&WpgiMXkl_>WppoRVlp!^GG=mRaV~IqP)h*<6ay3h000O8HkM{dAGO=|8Up|Tkp=(&H'',
    ''2?qr0000000000q=6**4ghdza4%nWWo~3|axZdaadl;LbaO9oVPk7yXJvCQV`yP=WMy<OXJRrlF*0y+'',
    ''Z(?O~E^v8JO928D0~7!N00;m!mS#!glC36d5&!@%GyniK00000000000001_fsy?V0B~t=FJE?LZe(w'',
    ''AFLGsZb!BsOb1!gVV{2h&WpgiMXkl_>WppoSWnyw=cW`oVVr6nJaCuNm0Rj{Q6aWAK2mm&gW=WT?nhw'',
    ''5J007gt001xm0000000000005+cPY@3PaA|NaUv_0~WN&gWa%FLKWpi|MFK}UFYhh<)b1!3PVRB?;bT'',
    ''4XYb7pd7aV~IqP)h*<6ay3h000O8HkM{d8-?V^OA`P9luG~rF8}}l0000000000q=8#!4*+m!a4%nWW'',
    ''o~3|axZdaadl;LbaO9oVPk7yXJvCQV`yP=WMy<OYH(w2ba*asc~DCM0u%!j0000805+CpNk~!&j0_6^'']"

definition DATA_19927 :: "string list" where
  "DATA_19927 = [
    ''0PryY06PEx00000000000HlHQdJh0_X>c!Jc4cm4Z*nhkWpQ<7b98eraA9L>VP|D?FJow7a%5$6FKl6'',
    ''MXJU11XJK+_VQy`2WMynFaCuNm0Rj{Q6aWAK2mm&gW=Wi$w`2Va002Ej0024w0000000000005+cScV'',
    ''S(aA|NaUv_0~WN&gWa%FLKWpi|MFK}UFYhh<)b1!3PVRB?;bT4dSZf9e8a%pUAX=80~WMynFaCuNm0R'',
    ''j{Q6aWAK2mm&gW=RntLmg!a002}m001`t0000000000005+ct&$G_aA|NaUv_0~WN&gWa%FLKWpi|MF'',
    ''K}UFYhh<)b1!3PVRB?;bT4dSZf9q5Wo2t^Z)9a`E^v8JO928D0~7!N00;m!mS#yGqI(LS2><{#EC2vF'',
    ''00000000000001_foGf#0B~t=FJE?LZe(wAFLGsZb!BsOb1!gVV{2h&WpgiMXkl_>WppoWVQyz=Wnyw'',
    ''=cWrNEWo#~Rc~DCM0u%!j0000805+CpNl>?%e#Z&`0QfKf06PEx00000000000HlFirVjvcX>c!Jc4c'',
    ''m4Z*nhkWpQ<7b98eraA9L>VP|D?FJow7a%5$6FKl6MXJ~b9XJK+_VQy`2WMynFaCuNm0Rj{Q6aWAK2m'',
    ''m&gW=Tsue_iDY000Xt001@s0000000000005+cd$A7yaA|NaUv_0~WN&gWa%FLKWpi|MFK}UFYhh<)b'',
    ''1!3PVRB?;bT4dSZfA68VQFn|WMynFaCuNm0Rj{Q6aWAK2mm&gW=Z9ms+oHR003|l001=r0000000000'',
    ''005+cw7d@haA|NaUv_0~WN&gWa%FLKWpi|MFK}UFYhh<)b1!3PVRB?;bT4dSbZKreaB^>AWpXZXc~DC'',
    ''M0u%!j0000805+CpNu``|bDabL0K^Oc05|{u00000000000HlF}!w&#(X>c!Jc4cm4Z*nhkWpQ<7b98'',
    ''eraA9L>VP|D?FJow7a%5$6FKuFDXkl`5Wpr?IZ(?O~E^v8JO928D0~7!N00;m!mS#!LjE_560{{T82L'',
    ''J##00000000000001_fpy3a0B~t=FJE?LZe(wAFLGsZb!BsOb1!gVV{2h&WpgiMXkl_>WppoXVq<e>a'',
    ''&L8TaB^>AWpXZXc~DCM0u%!j0000805+CpN%7@pnoJA;0ESEe051Rl00000000000HlE=%ntx?X>c!J'',
    ''c4cm4Z*nhkWpQ<7b98eraA9L>VP|D?FJow7a%5$6FKuFDb8~GjaCuNm0Rj{Q6aWAK2mm&gW=Z-Q6}Wl'',
    ''^006lX001}u0000000000005+cz1R-`aA|NaUv_0~WN&gWa%FLKWpi|MFK}UFYhh<)b1!3PVRB?;bT4'',
    ''yaV`yP=b7gdJa&KZ~axQRrP)h*<6ay3h000O8HkM{dq}=7dBm@8e+YA5zH~;_u0000000000q=Aj!4*'',
    ''+m!a4%nWWo~3|axZdaadl;LbaO9oVPk7yXJvCQV`yP=WMy<Ob7Et2XL4_KaBy;OVr6nJaCuNm0Rj{Q6'',
    ''aWAK2mm&gW=WS}@K*f<006WO001)p0000000000005+c2jmX`aA|NaUv_0~WN&gWa%FLKWpi|MFK}UF'',
    ''Yhh<)b1!3PVRB?;bT4yiX>)LLZ(?O~E^v8JO928D0~7!N00;m!mS#z<oHjaF2LJ%L8UO$~000000000'',
    ''00001_fmP`b0B~t=FJE?LZe(wAFLGsZb!BsOb1!gVV{2h&WpgiMXkl_>WppofZfSO9a&uv9WMy<^V{~'',
    ''tFE^v8JO928D0~7!N00;m!mS#y``ygu`1ONbB3IG5z00000000000001_fdugn0B~t=FJE?LZe(wAFL'',
    ''GsZb!BsOb1!gVV{2h&WpgiMXkl_>WppofbY?hka&KZ~axQRrP)h*<6ay3h000O8HkM{d&d{T~b_4(bB'',
    ''ntolF#rGn0000000000q=9qw4*+m!a4%nWWo~3|axZdaadl;LbaO9oVPk7yXJvCQb#iQMX<{=kUtei%'']"

definition DATA_19952 :: "string list" where
  "DATA_19952 = [
    ''X>?y-E^v8JO928D0~7!N00;m!mS#x@Xc0Bo3;+N*DF6U900000000000001_fjIgP0B~t=FJE?LZe(w'',
    ''AFLGsZb!BsOb1!gVV{2h&Wpgiea%^mAVlyvaV{dG1Wn*+{Z*FrgaCuNm0Rj{Q6aWAK2mm&gW=R2F4Gf'',
    ''wN003bv001)p0000000000005+cV+RlbaA|NaUv_0~WN&gWa%FLKWpi|MFK}UFYhh<)b1!vrY;0*_Gc'',
    ''RLrZf<2`bZKvHE^v8JO928D0~7!N00;m!mS#y6e_NEJBme+6g8%?G00000000000001_fld|>0B~t=F'',
    ''JE?LZe(wAFLGsZb!BsOb1!gVV{2h&Wpgiea%^mAVlyveZ*Fd7V{~b6Zg6jJY%XwlP)h*<6ay3h000O8'',
    ''HkM{d6r)PD76$+T-xUA=GXMYp0000000000q=7~|5CCv#a4%nWWo~3|axZdaadl;LbaO9oVPk7yXJvC'',
    ''Qb#iQMX<{=kWq4y{aCB*JZgVbhc~DCM0u%!j0000805+CpN!PCU=_v;Q04o;&051Rl00000000000Hl'',
    ''GfLJ$COX>c!Jc4cm4Z*nhkWpQ<7b98eraA9L>VP|D?FLiQkY-wUMFJ@_FY-DpTaCuNm0Rj{Q6aWAK2m'',
    ''m&gW=Wm-upv(a000mP001!n0000000000005+cBT5heaA|NaUv_0~WN&gWa%FLKWpi|MFK}UFYhh<)b'',
    ''1!vrY;0*_GcRUoY-Mn7b963nc~DCM0u%!j0000805+CpNjDCd5N8hn03<U205kvq00000000000HlGz'',
    ''O%MQZX>c!Jc4cm4Z*nhkWpQ<7b98eraA9L>VP|D?FLiQkY-wUMFK};fY;9p~VP|D>E^v8JO928D0~7!'',
    ''N00;m!mS#zPGjy()2LJ$M7XSb-00000000000001_fqGpK0B~t=FJE?LZe(wAFLGsZb!BsOb1!gVV{2'',
    ''h&Wpgiea%^mAVlyvtWpQ<7b963nc~DCM0u%!j0000805+CpNyj{$K^+tT0Jlg005Jdn00000000000H'',
    ''lFnWe@;xX>c!Jc4cm4Z*nhkWpQ<7b98eraA9L>VP|D?FLiQkY-wUMFLGsbaBpsNWiD`eP)h*<6ay3h0'',
    ''00O8HkM{d000000ssI200000IRF3v0000000000q=C$N5CCv#a4%nWWo~3|axZdaadl;LbaO9oVPk7y'',
    ''XJvCQb#iQMX<{=kV{dMBa%o~OUtei%X>?y-E^v8JO928D0~7!N00;m!mS#!5n4CII2><{A9{>P40000'',
    ''0000000001_fhBqn0B~t=FJE?LZe(wAFLGsZb!BsOb1!gVV{2h&Wpgiea%^mAVlyveZ*FvQX<{#7aBy'',
    ''XAXK8L_E^v8JO928D0~7!N00;m!mS#!V5}&rK1polE5dZ)=00000000000001_fy#pr0B~t=FJE?LZe'',
    ''(wAFLGsZb!BsOb1!gVV{2h&Wpgiea%^mAVlyveZ*FvQX<{#KbZl*KZ*OcaaCuNm0Rj{Q6aWAK2mm&gW'',
    ''=SLDzYK8>0006m0024w0000000000005+c%!v>HaA|NaUv_0~WN&gWa%FLKWpi|MFK}UFYhh<)b1!vr'',
    ''Y;0*_GcRLrZgg^KVlQxcZ*XO9b8~DiaCuNm0Rj{Q6aWAK2mm&gW=R^~ig~;S001Nw001@s000000000'',
    ''0005+cm6#9!aA|NaUv_0~WN&gWa%FLKWpi|MFK}UFYhh<)b1!vrY;0*_GcRLrZgg^KVlQ)VV{3CRaCu'',
    ''Nm0Rj{Q6aWAK2mm&gW=W4-pnOmO003<O0024w0000000000005+crJoQ0aA|NaUv_0~WN&gWa%FLKWp'',
    ''i|MFK}UFYhh<)b1!vrY;0*_GcRyqV{2h&WpgiIUukY>bYEXCaCuNm0Rj{Q6aWAK2mm&gW=TfDrf2X90'',
    ''08GA002G!0000000000005+cO`s3}aA|NaUv_0~WN&gWa%FLKWpi|MFK}UFYhh<)b1!vrY;0*_GcRyq'']"

definition DATA_19977 :: "string list" where
  "DATA_19977 = [
    ''V{2h&WpgiYa%5$4Wn^DuX=8LQaCuNm0Rj{Q6aWAK2mm&gW=WY?O<G7D005G8001=r0000000000005+'',
    ''cnX3>0aA|NaUv_0~WN&gWa%FLKWpi|MFK}UFYhh<)b1!vrY;0*_GcRyqV{2h&WpgicX?QMhc~DCM0u%'',
    ''!j0000805+CpNf5AT<=p@P0L%dZ08Ib@00000000000HlF5$q)c=X>c!Jc4cm4Z*nhkWpQ<7b98eraA'',
    ''9L>VP|D?FLiQkY-wUMFK}UFYhh<)b1!pqY+r3*bYo~=Xm4|LZeeX@FJE72ZfSI1UoLQYP)h*<6ay3h0'',
    ''00O8HkM{dt<;<w1O@;A!VUlcQ~&?~0000000000q=9_O5CCv#a4%nWWo~3|axZdaadl;LbaO9oVPk7y'',
    ''XJvCQb#iQMX<{=kaA9L>VP|D?FLQHjUu|J@V`yJ!Z*z2RVQpnEUukV{Y-Md_ZggREX>V>WaCuNm0Rj{'',
    ''Q6aWAK2mm&gW=R{kXYqCc004Xg001@s0000000000005+c^3V_faA|NaUv_0~WN&gWa%FLKWpi|MFK}'',
    ''UFYhh<)b1!vrY;0*_GcR>?X>2cFUukY>bYEXCaCuNm0Rj{Q6aWAK2mm&gW=W<Ds6H|W004**001}u00'',
    ''00000000005+cywVT=aA|NaUv_0~WN&gWa%FLKWpi|MFK}UFYhh<)b1!vrY;0*_GcR>?X>2cJZ*Fd7V'',
    ''{~b6ZZ2?nP)h*<6ay3h000O8HkM{d%)z`q+5!LoPzV43H2?qr0000000000q=7`*5CCv#a4%nWWo~3|'',
    ''axZdaadl;LbaO9oVPk7yXJvCQb#iQMX<{=kb#!TLFLGsZb!BsOE^v8JO928D0~7!N00;m!mS#z9=K&m'',
    ''@0{{SZ2mk;!00000000000001_fpOgs0B~t=FJE?LZe(wAFLGsZb!BsOb1!gVV{2h&Wpgiea%^mAVly'',
    ''vwbZKlaa%FRHZ*FsCE^v8JO928D0~7!N00;m!mS#y5kQj;?4FCYBDF6U700000000000001_fnwnh0B'',
    ''~t=FJE?LZe(wAFLGsZb!BsOb1!gVV{2h&Wpgiea%^mAVlyvwbZKlaa%FUKc`k5yP)h*<6ay3h000O8H'',
    ''kM{dLjYkeiVpw)W-R~!G5`Po0000000000q=C%t5CCv#a4%nWWo~3|axZdaadl;LbaO9oVPk7yXJvCQ'',
    ''b#iQMX<{=kb#!TLFLQHjUoLQYP)h*<6ay3h000O8HkM{dZ?<XJPzwM6d?f$?H2?qr0000000000q=Ba'',
    ''X5CCv#a4%nWWo~3|axZdaadl;LbaO9oVPk7yXJvCQb#iQMX<{=kb#!TLFLY^bWp8zKE^v8JO928D0~7'',
    ''!N00;m!mS#z3nQJx=2mk>0761S-00000000000001_fk_Gx0B~t=FJE?LZe(wAFLGsZb!BsOb1!gVV{'',
    ''2h&Wpgiea%^mAVlyvwbZKlab#iPjaCuNm0Rj{Q6aWAK2mm&gW=U_sp*SuJ002-a001Na00000000000'',
    ''05+crxFnWaA|NaUv_0~WN&gWcV%K_Zewp`X>Mn8FJE72ZfSI1UoLQYP)h*<6ay3h000O8HkM{d$E^s9'',
    ''1qJ{B6C(fsA^-pY0000000000q=6S65dd&$a4%nWWo~3|axZsfVr6b)Z)9n1XLB!XVPa)$b1rasP)h*'',
    ''<6ay3h000O8HkM{dP=7HWL;?T+83h0UBme*a0000000000q=8%{5dd&$a4%nWWo~3|axZsfVr6b)Z)9'',
    ''n1XLB!YYiwa+Wo&aUaCuNm0Rj{Q6aWAK2mm&gW=R&CJ{`IR005#H001EX0000000000005+c;wBLQaA'',
    ''|NaUv_0~WN&gWcV%K_Zewp`X>Mn8FLY&dbaO6nc~DCM0u%!j0000805+CpNl0%+zN7>I0MZZu04e|g0'',
    ''0000000000HlH2ED->3X>c!Jc4cm4Z*nhpWnyJ+V{c?>ZfA2ZcwcpMWpZC+WoBt^Wn?aJc~DCM0u%!j'']"

definition DATA_20002 :: "string list" where
  "DATA_20002 = [
    ''0000805+CpNstYPL#F}&0K^CY02lxO00000000000HlG(F%bZ8X>c!NZ*6U1Ze(*WUtei%X>?y-E^v8'',
    ''JO928D0~7!N00;m!mS#yEVLM;#0RRAI1pojQ00000000000001_fuuAM0B~t=FJo_QZDDR?b1!3PWn*'',
    ''hDaCuNm0Rj{Q6aWAK2mm&gW=Sx?%(G_$005N<000^Q0000000000005+c#5NHCaA|NaV{dJ3VQyq|FJ'',
    ''o_QaBO9CX>V>WaCuNm0Rj{Q6aWAK2mm&gW=Yu|nWhv7004p>000;O0000000000005+cV>%H4aA|NaV'',
    ''{dJ3VQyq|FJy0bZftL1WG--dP)h*<6ay3h000O8HkM{d!}jxF*#iIo6AJ(U761SM0000000000q=BtM'',
    ''5dd&$a4%zTZEaz0WOFZOa%E+DWiD`eP)h*<6ay3h000O8HkM{d_=)VKy#fFLJq7>(6aWAK000000000'',
    ''0q=C9d5dd&$a4%zTZEaz0WOFZQVRL9MaCuNm0Rj{Q6aWAK2mm&gW=S3v(4DFQ007nl000yK00000000'',
    ''00005+csYww4aA|NaV{dJ3VQyq|FKA_Ka4v9pP)h*<6ay3h000O8HkM{dOC^RDv=0CP1VjJ;7XSbN00'',
    ''00000000q=AJ?5dd&$a4%zTZEaz0WOFZRZgX^DY-}!Yc~DCM0u%!j0000805+CpNe@fMIKK-30BI}$0'',
    ''2BZK00000000000HlF#TM+<oX>c!NZ*6U1Ze(*WY-w|JE^v8JO928D0~7!N00;m!mS#z=LWJBV1^@t-'',
    ''5dZ)d00000000000001_fnR440B~t=FJo_QZDDR?b1!pcVRB<=E^v8JO928D0~7!N00;m!mS#x|Qy(P'',
    ''!1^@s97XSbh00000000000001_fw^rF0B~t=FJo_QZDDR?b1!pfZ+9+mc~DCM0u%!j0000805+CpNvn'',
    ''w&KhOgJ07MG_02u%P00000000000HlHEbP)h>X>c!NZ*6U1Ze(*Wb#7^Hb97;BY%XwlP)h*<6ay3h00'',
    ''0O8HkM{dmp60f{09I4F&+Q_6#xJL0000000000q=D{u5dd&$a4%zTZEaz0WOFZfXk}$=E^v8JO928D0'',
    ''~7!N00;m!mS#zrC#iAl1^@s+5&!@e00000000000001_fgOPn0B~t=FJo_QaA9;WUtei%X>?y-E^v8J'',
    ''O928D0~7!N00;m!mS#zUqNSHj6#xJ@S^xkT00000000000001_fjx*30B~t=FJo_QaA9;WWNBk`V{dL'',
    ''|X=g5Qc~DCM0u%!j0000805+CpNvaxWyg>i}07n1-02TlM00000000000HlGyoe=<VX>c!XZ)9a`b1z'',
    ''?CX>MtBUtcb8c~DCM0u%!j0000805+CpNoY<oZQ%d_0OtV!022TJ00000000000HlF6o)G|WX>c!XZ)'',
    ''9a`b1!LbWMz0RaCuNm0Rj{Q6aWAK2mm&gW=Q}50006200000000^Q0000000000005+cN1qV@aA|NaZ'',
    ''*XODVRUJ4ZgVeRUukY>bYEXCaCuNm0Rj{Q6aWAK2mm&gW=YRwVyLbG001@y000*N0000000000005+c'',
    ''fu9ioaA|NaZ*XODVRUJ4ZgVeVXk}w-E^v8JO928D0~7!N00;m!mS#!$A~Q391poj_6aWAi000000000'',
    ''00001_fn=c(0B~t=FK=*Va$$67Z*FrhW^!d^dSxzfc~DCM0u%!j0000805+CpNnB~t8Grx)02BcL022'',
    ''TJ00000000000HlE$rx5^fX>c!cWpOWGUukY>bYEXCaCuNm0Rj{Q6aWAK2mm&gW=S02j0$ND005RQ00'',
    ''0vJ0000000000005+c%cl_laA|Naa%FKZa%FK}W@&6?E^v8JO928D0~7!N00;m!mS#zTZB@hfEdT(Qw'',
    ''EzGX00000000000001_fn~K30B~t=FLGsZFLGsZUukZ0bYX04E^v8JO928D0~7!N00;m!mS#y3-I8{*'']"

definition DATA_20027 :: "string list" where
  "DATA_20027 = [
    ''ApiiLh5!H(00000000000001_fso@70B~t=FLGsZFLGsZUvp)2E^v8JO928D0~7!N00;m!mS#x>M#OM'',
    ''X2mk=_8UO$o00000000000001_fpY~C0B~t=FLGsZFLGsZUv+M2ZgX^DY-}!Yc~DCM0u%!j0000805+'',
    ''CpN#I(vz7rt;05fU;02KfL00000000000HlHW4H5uwX>c!fbZKmJFJE72ZfSI1UoLQYP)h*<6ay3h00'',
    ''0O8HkM{dH45H4sR{r9Ya##u6aWAK0000000000q=7##5&&>%a4&UqX>4;ZVQ_F{X>xNeaCuNm0Rj{Q6'',
    ''aWAK2mm&gW=YKqO)dZe001Bb000sI0000000000005+c8afgHaA|Nab#!TLb1!0bX>4RJaCuNm0Rj{Q'',
    ''6aWAK2mm&gW=U}#Y9s~&006iM000;O0000000000005+cN<0z(aA|Nab#!TLb1!6NaB^j1VRUJ4ZZ2?'',
    ''nP)h*<6ay3h000O8HkM{dy;?u8x&Z(H%L4!a6#xJL0000000000q=AM%5&&>%a4&UqX>4;ZWo~0{WNB'',
    ''_^E^v8JO928D0~7!N00;m!mS#!vL+!w%0RRAl0{{RQ00000000000001_fpb9;0B~t=FLiWjY;!MWX>'',
    ''4V4d2@7SZ7y(mP)h*<6ay3h000O8HkM{dAU6ec-~<2wdkX*n5&!@I0000000000q=8IB5&&>%a4&UqX'',
    ''>4;ZXKZO=V=i!cP)h*<6ay3h000O8HkM{dsWj;XeFOjiG7A6z6951J0000000000q=8&W5&&>%a4&Uq'',
    ''X>4;ZXkl|`WpgfYc~DCM0u%!j0000805+CpNoOY4c(Vim0RIdC02BZK00000000000HlEmO%ecbX>c!'',
    ''fbZKmJFKlmTXK8L{E^v8JO928D0~7!N00;m!mS#yvRM_f?1^@t06#xJg00000000000001_f$vcg0B~'',
    ''t=FLiWjY;!Mfb#!E5bY)~NaCuNm0Rj{Q6aWAK2mm&gW=Rd^lDOvr001Be000&M0000000000005+ct5'',
    ''^~MaA|Nab#!TLb1!gVV{2h&X>MmOaCuNm0Rj{Q6aWAK2mm&gW=R&J@=Ch^000&N0012T00000000000'',
    ''05+c##<5qaA|Nab#!TLb1!pcbailaZ*OdKUt)D>Y-BEQc~DCM0u%!j0000805+CpN#){@m0}J608K3b'',
    ''01p5F00000000000HlGuToM3qX>c!fbZKmJFLh}yaCuNm0Rj{Q6aWAK2mm&gW=Y6a#Y^K20034n000v'',
    ''J0000000000005+cOKTDUaA|Nac4KodUtei%X>?y-E^v8JO928D0~7!N00;m!mS#!&z|6%n1pols4gd'',
    ''fV00000000000001_fnRwN0B~t=FLq;dFJfVOVPSGEaCuNm0Rj{Q6aWAK2mm&gW=SZ%-Y@_S006x!00'',
    ''0gE0000000000005+c!G00|aA|Nac4KodXK8dUaCuNm0Rj{Q6aWAK2mm&gW=VNsY8_z&0058;000yK0'',
    ''000000000005+c?TZosaA|Nac4KodZDn#}b#iH8Y%XwlP)h*<6ay3h000O8HkM{dZZwraAPWEhh9m$0'',
    ''6#xJL0000000000q=A5t5&&>%a4&Xab1!psVs>S6b7^mGE^v8JO928D0~7!N00;m&mS#z-aWq#E0ssI'',
    ''91poje00000000000001_fzz830B~t=EjcbQE-@}-X>)WfX>Mk3FGNLCLsCglR7p=xE^>2pP)h*<6ay'',
    ''3h000O8I+kWhZ!-C~DgXcgL;wH)Bme*a0000000000q=6-#5&&>%a4k75FfK7JWNCABEop9MZ!cwTba'',
    ''HuLaBpdDbaO6rcyv%p0Rj{Q6aWAK2mm^kW=YQ5y3c<C0012Z001EX0000000000005+ck)9F&aA|NYI'',
    ''W90RF)n0jb960fZf0*UZDn*}WMOn+E^2dcZcs}B0u%!j0000806LatNyi_T!Ug~U00aO403iSX00000'']"

definition DATA_20052 :: "string list" where
  "DATA_20052 = [
    ''000000HlFWp%MUaX>ct$E-)@JE@WwQbS-IaW^XTaZ*X61Wp-t3E_8TwP)h*<6ay3h000O8I+kWhtJ{J'',
    ''TUjP6AZU6uP82|tP0000000000q=A&75&&>%a4k75FfK7JWNCABEop9MZ!cF!MMX?dO928D0~7!N00;'',
    ''m&mS#y_txRE}0{{Tw2><{b00000000000001_fhwXB0B~t=EjcbQE-@}-X>)WfX>Mk3FHJ>MK}11RK~'',
    ''PHp0u%!j0000806LatN$y5^m0m3X0LEPa02%-Q00000000000HlEirV;>fX>ct$E-)@JE@WwQbS-IaW'',
    ''^XT2MMF<gL{Liw1^@s60RI600O3&p0G!hj0000'']"

section \<open>Every group is valid\<close>

lemma scan_DATA_19722: "scan_lines 0 [] DATA_19722 = Some 316"
  unfolding DATA_19722_def by (simp only: scan_eval, (simp add: b85_eval)?)

lemma scan_DATA_19727: "scan_lines 0 [] DATA_19727 = Some 1580"
  unfolding DATA_19727_def by (simp only: scan_eval, (simp add: b85_eval)?)

lemma scan_DATA_19752: "scan_lines 0 [] DATA_19752 = Some 1580"
  unfolding DATA_19752_def by (simp only: scan_eval, (simp add: b85_eval)?)

lemma scan_DATA_19777: "scan_lines 0 [] DATA_19777 = Some 1580"
  unfolding DATA_19777_def by (simp only: scan_eval, (simp add: b85_eval)?)

lemma scan_DATA_19802: "scan_lines 0 [] DATA_19802 = Some 1580"
  unfolding DATA_19802_def by (simp only: scan_eval, (simp add: b85_eval)?)

lemma scan_DATA_19827: "scan_lines 0 [] DATA_19827 = Some 1580"
  unfolding DATA_19827_def by (simp only: scan_eval, (simp add: b85_eval)?)

lemma scan_DATA_19852: "scan_lines 0 [] DATA_19852 = Some 1580"
  unfolding DATA_19852_def by (simp only: scan_eval, (simp add: b85_eval)?)

lemma scan_DATA_19877: "scan_lines 0 [] DATA_19877 = Some 1580"
  unfolding DATA_19877_def by (simp only: scan_eval, (simp add: b85_eval)?)

lemma scan_DATA_19902: "scan_lines 0 [] DATA_19902 = Some 1580"
  unfolding DATA_19902_def by (simp only: scan_eval, (simp add: b85_eval)?)

lemma scan_DATA_19927: "scan_lines 0 [] DATA_19927 = Some 1580"
  unfolding DATA_19927_def by (simp only: scan_eval, (simp add: b85_eval)?)

lemma scan_DATA_19952: "scan_lines 0 [] DATA_19952 = Some 1580"
  unfolding DATA_19952_def by (simp only: scan_eval, (simp add: b85_eval)?)

lemma scan_DATA_19977: "scan_lines 0 [] DATA_19977 = Some 1580"
  unfolding DATA_19977_def by (simp only: scan_eval, (simp add: b85_eval)?)

lemma scan_DATA_20002: "scan_lines 0 [] DATA_20002 = Some 1580"
  unfolding DATA_20002_def by (simp only: scan_eval, (simp add: b85_eval)?)

lemma scan_DATA_20027: "scan_lines 0 [] DATA_20027 = Some 1580"
  unfolding DATA_20027_def by (simp only: scan_eval, (simp add: b85_eval)?)

lemma scan_DATA_20052: "scan_lines 0 ''~'' DATA_20052 = Some 284"
  unfolding DATA_20052_def by (simp only: scan_eval, (simp add: b85_eval)?)

section \<open>The table of contents\<close>

definition pip_toc1 :: "zentry list" where
  "pip_toc1 = [
    zent ''pip/__init__.py'' 8 3868 11348 0,
    zent ''pip/__main__.py'' 8 307 584 3913,
    zent ''pip/basecommand.py'' 8 3395 11910 4265,
    zent ''pip/baseparser.py'' 8 3238 10465 7708,
    zent ''pip/cmdoptions.py'' 8 4734 16474 10993,
    zent ''pip/download.py'' 8 9112 32171 15774,
    zent ''pip/exceptions.py'' 8 2747 8121 24931,
    zent ''pip/index.py'' 8 10848 39950 27725,
    zent ''pip/locations.py'' 8 2193 5626 38615,
    zent ''pip/pep425tags.py'' 8 3659 10980 40854,
    zent ''pip/status_codes.py'' 8 125 156 44560,
    zent ''pip/wheel.py'' 8 9826 32010 44734,
    zent ''pip/_vendor/__init__.py'' 8 1551 4670 54602,
    zent ''pip/_vendor/appdirs.py'' 8 4488 22368 56206,
    zent ''pip/_vendor/distro.py'' 8 8992 38349 60746,
    zent ''pip/_vendor/ipaddress.py'' 8 15209 80176 69789,
    zent ''pip/_vendor/ordereddict.py'' 8 1555 4094 85052,
    zent ''pip/_vendor/pyparsing.py'' 8 53482 224171 86663,
    zent ''pip/_vendor/re-vendor.py'' 8 358 773 140199,
    zent ''pip/_vendor/retrying.py'' 8 2511 9972 140611,
    zent ''pip/_vendor/six.py'' 8 7496 30098 143175,
    zent ''pip/_vendor/cachecontrol/__init__.py'' 8 174 302 150719,
    zent ''pip/_vendor/cachecontrol/_cmd.py'' 8 515 1320 150959,
    zent ''pip/_vendor/cachecontrol/adapter.py'' 8 1364 4608 151536,
    zent ''pip/_vendor/cachecontrol/cache.py'' 8 300 790 152965,
    zent ''pip/_vendor/cachecontrol/compat.py'' 8 206 416 153328,
    zent ''pip/_vendor/cachecontrol/controller.py'' 8 3848 13024 153598,
    zent ''pip/_vendor/cachecontrol/filewrapper.py'' 8 1017 2531 157514,
    zent ''pip/_vendor/cachecontrol/heuristics.py'' 8 1473 4141 158600,
    zent ''pip/_vendor/cachecontrol/serialize.py'' 8 2088 6536 160141,
    zent ''pip/_vendor/cachecontrol/wrapper.py'' 8 188 498 162296,
    zent ''pip/_vendor/cachecontrol/caches/__init__.py'' 8 203 369 162549,
    zent ''pip/_vendor/cachecontrol/caches/file_cache.py'' 8 1371 3532 162825,
    zent ''pip/_vendor/cachecontrol/caches/redis_cache.py'' 8 422 973 164271,
    zent ''pip/_vendor/colorama/__init__.py'' 8 179 240 164769,
    zent ''pip/_vendor/colorama/ansi.py'' 8 907 2524 165010,
    zent ''pip/_vendor/colorama/ansitowin32.py'' 8 2672 9668 165975,
    zent ''pip/_vendor/colorama/initialise.py'' 8 645 1917 168712,
    zent ''pip/_vendor/colorama/win32.py'' 8 1356 5365 169421,
    zent ''pip/_vendor/colorama/winterm.py'' 8 1506 6290 170836,
    zent ''pip/_vendor/distlib/__init__.py'' 8 349 581 172403,
    zent ''pip/_vendor/distlib/compat.py'' 8 10856 40801 172813,
    zent ''pip/_vendor/distlib/database.py'' 8 11967 49672 183728,
    zent ''pip/_vendor/distlib/index.py'' 8 5425 21085 195756,
    zent ''pip/_vendor/distlib/locators.py'' 8 12982 51013 201239,
    zent ''pip/_vendor/distlib/manifest.py'' 8 4204 14810 214282,
    zent ''pip/_vendor/distlib/markers.py'' 8 1933 6282 218547,
    zent ''pip/_vendor/distlib/metadata.py'' 8 9143 38833 220540,
    zent ''pip/_vendor/distlib/resources.py'' 8 2984 10766 229744,
    zent ''pip/_vendor/distlib/scripts.py'' 8 4618 15224 232790,
    zent ''pip/_vendor/distlib/t32.exe'' 8 43708 89088 237468,
    zent ''pip/_vendor/distlib/t64.exe'' 8 47195 97792 281233,
    zent ''pip/_vendor/distlib/util.py'' 8 15031 52991 328485,
    zent ''pip/_vendor/distlib/version.py'' 8 6575 23711 343573,
    zent ''pip/_vendor/distlib/w32.exe'' 8 42586 85504 350208,
    zent ''pip/_vendor/distlib/w64.exe'' 8 46349 94208 392851,
    zent ''pip/_vendor/distlib/wheel.py'' 8 9485 39115 439257,
    zent ''pip/_vendor/distlib/_backport/__init__.py'' 8 195 274 448800,
    zent ''pip/_vendor/distlib/_backport/misc.py'' 8 462 971 449066,
    zent ''pip/_vendor/distlib/_backport/shutil.py'' 8 7239 25647 449595,
    zent ''pip/_vendor/distlib/_backport/sysconfig.cfg'' 8 502 2617 456903,
    zent ''pip/_vendor/distlib/_backport/sysconfig.py'' 8 7912 26955 457478,
    zent ''pip/_vendor/distlib/_backport/tarfile.py'' 8 22882 92628 465462,
    zent ''pip/_vendor/html5lib/__init__.py'' 8 431 780 488414,
    zent ''pip/_vendor/html5lib/_ihatexml.py'' 8 5157 16705 488907,
    zent ''pip/_vendor/html5lib/_inputstream.py'' 8 8027 32532 494127,
    zent ''pip/_vendor/html5lib/_tokenizer.py'' 8 7359 76580 502220,
    zent ''pip/_vendor/html5lib/_utils.py'' 8 1596 4096 509643,
    zent ''pip/_vendor/html5lib/constants.py'' 8 18441 83387 511299,
    zent ''pip/_vendor/html5lib/html5parser.py'' 8 17100 117170 529803,
    zent ''pip/_vendor/html5lib/serializer.py'' 8 3955 14177 546968,
    zent ''pip/_vendor/html5lib/_trie/__init__.py'' 8 166 289 550987,
    zent ''pip/_vendor/html5lib/_trie/_base.py'' 8 412 979 551221,
    zent ''pip/_vendor/html5lib/_trie/datrie.py'' 8 422 1178 551698,
    zent ''pip/_vendor/html5lib/_trie/py.py'' 8 541 1775 552186,
    zent ''pip/_vendor/html5lib/filters/__init__.py'' 8 2 0 552789,
    zent ''pip/_vendor/html5lib/filters/alphabeticalattributes.py'' 8 287 621 552861,
    zent ''pip/_vendor/html5lib/filters/base.py'' 8 149 286 553232,
    zent ''pip/_vendor/html5lib/filters/inject_meta_charset.py'' 8 695 2742 553447,
    zent ''pip/_vendor/html5lib/filters/lint.py'' 8 759 3365 554223,
    zent ''pip/_vendor/html5lib/filters/optionaltags.py'' 8 1737 10534 555048,
    zent ''pip/_vendor/html5lib/filters/sanitizer.py'' 8 5615 25112 556859,
    zent ''pip/_vendor/html5lib/filters/whitespace.py'' 8 464 1139 562545,
    zent ''pip/_vendor/html5lib/treeadapters/__init__.py'' 8 143 208 563081,
    zent ''pip/_vendor/html5lib/treeadapters/genshi.py'' 8 529 1555 563299,
    zent ''pip/_vendor/html5lib/treeadapters/sax.py'' 8 538 1661 563901,
    zent ''pip/_vendor/html5lib/treebuilders/__init__.py'' 8 1251 3406 564509,
    zent ''pip/_vendor/html5lib/treebuilders/base.py'' 8 3698 13942 565835,
    zent ''pip/_vendor/html5lib/treebuilders/dom.py'' 8 2011 8835 569604,
    zent ''pip/_vendor/html5lib/treebuilders/etree.py'' 8 2611 12764 571685,
    zent ''pip/_vendor/html5lib/treebuilders/etree_lxml.py'' 8 3436 14161 574368,
    zent ''pip/_vendor/html5lib/treewalkers/__init__.py'' 8 1613 5544 577881,
    zent ''pip/_vendor/html5lib/treewalkers/base.py'' 8 1186 4939 579568,
    zent ''pip/_vendor/html5lib/treewalkers/dom.py'' 8 503 1413 580824,
    zent ''pip/_vendor/html5lib/treewalkers/etree.py'' 8 1298 4684 581396,
    zent ''pip/_vendor/html5lib/treewalkers/etree_lxml.py'' 8 1640 6309 582765,
    zent ''pip/_vendor/html5lib/treewalkers/genshi.py'' 8 712 2309 584481,
    zent ''pip/_vendor/lockfile/__init__.py'' 8 2690 9371 585265,
    zent ''pip/_vendor/lockfile/linklockfile.py'' 8 802 2652 588017,
    zent ''pip/_vendor/lockfile/mkdirlockfile.py'' 8 883 3096 588885,
    zent ''pip/_vendor/lockfile/pidlockfile.py'' 8 2074 6090 589835,
    zent ''pip/_vendor/lockfile/sqlitelockfile.py'' 8 1289 5506 591974,
    zent ''pip/_vendor/lockfile/symlinklockfile.py'' 8 829 2616 593331,
    zent ''pip/_vendor/packaging/__about__.py'' 8 393 720 594229,
    zent ''pip/_vendor/packaging/__init__.py'' 8 280 513 594686,
    zent ''pip/_vendor/packaging/_compat.py'' 8 459 860 595029,
    zent ''pip/_vendor/packaging/_structures.py'' 8 371 1416 595550,
    zent ''pip/_vendor/packaging/markers.py'' 8 2565 8230 595987,
    zent ''pip/_vendor/packaging/requirements.py'' 8 1655 4327 598614,
    zent ''pip/_vendor/packaging/specifiers.py'' 8 6287 28025 600336,
    zent ''pip/_vendor/packaging/utils.py'' 8 273 421 606688,
    zent ''pip/_vendor/packaging/version.py'' 8 3425 11556 607021,
    zent ''pip/_vendor/pkg_resources/__init__.py'' 8 27981 103230 610508,
    zent ''pip/_vendor/progress/__init__.py'' 8 1170 3023 638556,
    zent ''pip/_vendor/progress/bar.py'' 8 1076 2685 639788,
    zent ''pip/_vendor/progress/counter.py'' 8 783 1502 640921,
    zent ''pip/_vendor/progress/helpers.py'' 8 1019 2854 641765,
    zent ''pip/_vendor/progress/spinner.py'' 8 744 1314 642845,
    zent ''pip/_vendor/requests/__init__.py'' 8 1120 2326 643650,
    zent ''pip/_vendor/requests/adapters.py'' 8 4944 19740 644832,
    zent ''pip/_vendor/requests/api.py'' 8 1474 5794 649838,
    zent ''pip/_vendor/requests/auth.py'' 8 2394 8175 651369,
    zent ''pip/_vendor/requests/cacert.pem'' 8 183185 344712 653821,
    zent ''pip/_vendor/requests/certs.py'' 8 360 625 837067,
    zent ''pip/_vendor/requests/compat.py'' 8 665 1687 837486,
    zent ''pip/_vendor/requests/cookies.py'' 8 4989 18208 838211,
    zent ''pip/_vendor/requests/exceptions.py'' 8 981 2860 843261,
    zent ''pip/_vendor/requests/hooks.py'' 8 378 767 844306]"

definition pip_toc2 :: "zentry list" where
  "pip_toc2 = [
    zent ''pip/_vendor/requests/models.py'' 8 8833 30532 844743,
    zent ''pip/_vendor/requests/sessions.py'' 8 7103 25609 853636,
    zent ''pip/_vendor/requests/status_codes.py'' 8 1275 3316 860801,
    zent ''pip/_vendor/requests/structures.py'' 8 1148 3012 862142,
    zent ''pip/_vendor/requests/utils.py'' 8 7950 24163 863354,
    zent ''pip/_vendor/requests/packages/__init__.py'' 8 697 1384 871363,
    zent ''pip/_vendor/requests/packages/chardet/__init__.py'' 8 653 1295 872131,
    zent ''pip/_vendor/requests/packages/chardet/big5freq.py'' 8 37239 82594 872863,
    zent ''pip/_vendor/requests/packages/chardet/big5prober.py'' 8 795 1684 910181,
    zent ''pip/_vendor/requests/packages/chardet/chardetect.py'' 8 1075 2504 911057,
    zent ''pip/_vendor/requests/packages/chardet/chardistribution.py'' 8 2318 9226 912213,
    zent ''pip/_vendor/requests/packages/chardet/charsetgroupprober.py'' 8 1140 3791 914618,
    zent ''pip/_vendor/requests/packages/chardet/charsetprober.py'' 8 859 1902 915847,
    zent ''pip/_vendor/requests/packages/chardet/codingstatemachine.py'' 8 992 2318 916790,
    zent ''pip/_vendor/requests/packages/chardet/compat.py'' 8 593 1157 917871,
    zent ''pip/_vendor/requests/packages/chardet/constants.py'' 8 694 1335 918541,
    zent ''pip/_vendor/requests/packages/chardet/cp949prober.py'' 8 844 1782 919315,
    zent ''pip/_vendor/requests/packages/chardet/escprober.py'' 8 1137 3187 920241,
    zent ''pip/_vendor/requests/packages/chardet/escsm.py'' 8 1481 7839 921458,
    zent ''pip/_vendor/requests/packages/chardet/eucjpprober.py'' 8 1291 3678 923015,
    zent ''pip/_vendor/requests/packages/chardet/euckrfreq.py'' 8 21423 45978 924388,
    zent ''pip/_vendor/requests/packages/chardet/euckrprober.py'' 8 793 1675 945891,
    zent ''pip/_vendor/requests/packages/chardet/euctwfreq.py'' 8 16607 34872 946766,
    zent ''pip/_vendor/requests/packages/chardet/euctwprober.py'' 8 793 1676 963453,
    zent ''pip/_vendor/requests/packages/chardet/gb2312freq.py'' 8 17131 36011 964328,
    zent ''pip/_vendor/requests/packages/chardet/gb2312prober.py'' 8 794 1681 981540,
    zent ''pip/_vendor/requests/packages/chardet/hebrewprober.py'' 8 4715 13359 982417,
    zent ''pip/_vendor/requests/packages/chardet/jisfreq.py'' 8 22206 47315 987215,
    zent ''pip/_vendor/requests/packages/chardet/jpcntx.py'' 8 4939 19348 1009499,
    zent ''pip/_vendor/requests/packages/chardet/langbulgarianmodel.py'' 8 2828 12784 1014515,
    zent ''pip/_vendor/requests/packages/chardet/langcyrillicmodel.py'' 8 3069 17725 1017432,
    zent ''pip/_vendor/requests/packages/chardet/langgreekmodel.py'' 8 2405 12628 1020589,
    zent ''pip/_vendor/requests/packages/chardet/langhebrewmodel.py'' 8 2462 11318 1023079,
    zent ''pip/_vendor/requests/packages/chardet/langhungarianmodel.py'' 8 2759 12536 1025627,
    zent ''pip/_vendor/requests/packages/chardet/langthaimodel.py'' 8 2789 11275 1028475,
    zent ''pip/_vendor/requests/packages/chardet/latin1prober.py'' 8 1659 5232 1031348,
    zent ''pip/_vendor/requests/packages/chardet/mbcharsetprober.py'' 8 1181 3268 1033090,
    zent ''pip/_vendor/requests/packages/chardet/mbcsgroupprober.py'' 8 857 1967 1034357,
    zent ''pip/_vendor/requests/packages/chardet/mbcssm.py'' 8 3148 19590 1035300,
    zent ''pip/_vendor/requests/packages/chardet/sbcharsetprober.py'' 8 1658 4793 1038525,
    zent ''pip/_vendor/requests/packages/chardet/sbcsgroupprober.py'' 8 1060 3291 1040269,
    zent ''pip/_vendor/requests/packages/chardet/sjisprober.py'' 8 1277 3764 1041415,
    zent ''pip/_vendor/requests/packages/chardet/universaldetector.py'' 8 1879 6840 1042773,
    zent ''pip/_vendor/requests/packages/chardet/utf8prober.py'' 8 1054 2652 1044740,
    zent ''pip/_vendor/requests/packages/urllib3/__init__.py'' 8 1142 2852 1045875,
    zent ''pip/_vendor/requests/packages/urllib3/_collections.py'' 8 3288 10553 1047096,
    zent ''pip/_vendor/requests/packages/urllib3/connection.py'' 8 3738 11617 1050467,
    zent ''pip/_vendor/requests/packages/urllib3/connectionpool.py'' 8 9379 33591 1054286,
    zent ''pip/_vendor/requests/packages/urllib3/exceptions.py'' 8 1814 5599 1063750,
    zent ''pip/_vendor/requests/packages/urllib3/fields.py'' 8 1833 5931 1065645,
    zent ''pip/_vendor/requests/packages/urllib3/filepost.py'' 8 847 2320 1067555,
    zent ''pip/_vendor/requests/packages/urllib3/poolmanager.py'' 8 3943 13092 1068481,
    zent ''pip/_vendor/requests/packages/urllib3/request.py'' 8 1944 5988 1072506,
    zent ''pip/_vendor/requests/packages/urllib3/response.py'' 8 5149 18615 1074528,
    zent ''pip/_vendor/requests/packages/urllib3/contrib/__init__.py'' 8 2 0 1079756,
    zent ''pip/_vendor/requests/packages/urllib3/contrib/appengine.py'' 8 2381 7937 1079845,
    zent ''pip/_vendor/requests/packages/urllib3/contrib/ntlmpool.py'' 8 1451 4531 1082314,
    zent ''pip/_vendor/requests/packages/urllib3/contrib/pyopenssl.py'' 8 3697 11778 1083852,
    zent ''pip/_vendor/requests/packages/urllib3/contrib/socks.py'' 8 1724 5668 1087637,
    zent ''pip/_vendor/requests/packages/urllib3/packages/__init__.py'' 8 80 109 1089445,
    zent ''pip/_vendor/requests/packages/urllib3/packages/ordered_dict.py'' 8 2800 8935 1089613,
    zent ''pip/_vendor/requests/packages/urllib3/packages/six.py'' 8 7496 30098 1092505,
    zent ''pip/_vendor/requests/packages/urllib3/packages/ssl_match_hostname/__init__.py'' 8 221 460 1100084,
    zent ''pip/_vendor/requests/packages/urllib3/packages/ssl_match_hostname/_implementation.py'' 8 1540 3778 1100412,
    zent ''pip/_vendor/requests/packages/urllib3/util/__init__.py'' 8 374 892 1102066,
    zent ''pip/_vendor/requests/packages/urllib3/util/connection.py'' 8 1842 4744 1102524,
    zent ''pip/_vendor/requests/packages/urllib3/util/request.py'' 8 730 2128 1104452,
    zent ''pip/_vendor/requests/packages/urllib3/util/response.py'' 8 925 2165 1105265,
    zent ''pip/_vendor/requests/packages/urllib3/util/retry.py'' 8 3353 10664 1106274,
    zent ''pip/_vendor/requests/packages/urllib3/util/ssl_.py'' 8 3978 11622 1109708,
    zent ''pip/_vendor/requests/packages/urllib3/util/timeout.py'' 8 2896 9596 1113766,
    zent ''pip/_vendor/requests/packages/urllib3/util/url.py'' 8 2063 5879 1116745,
    zent ''pip/_vendor/webencodings/__init__.py'' 8 2862 10576 1118887,
    zent ''pip/_vendor/webencodings/labels.py'' 8 1541 8979 1121815,
    zent ''pip/_vendor/webencodings/mklabels.py'' 8 580 1305 1123420,
    zent ''pip/_vendor/webencodings/tests.py'' 8 1466 6562 1124066,
    zent ''pip/_vendor/webencodings/x_user_defined.py'' 8 1188 4306 1125595,
    zent ''pip/commands/__init__.py'' 8 679 2244 1126855,
    zent ''pip/commands/check.py'' 8 493 1382 1127588,
    zent ''pip/commands/completion.py'' 8 871 2453 1128132,
    zent ''pip/commands/download.py'' 8 2068 7810 1129059,
    zent ''pip/commands/freeze.py'' 8 985 2835 1131181,
    zent ''pip/commands/hash.py'' 8 701 1597 1132218,
    zent ''pip/commands/help.py'' 8 426 982 1132969,
    zent ''pip/commands/install.py'' 8 4020 17412 1133445,
    zent ''pip/commands/list.py'' 8 3007 11369 1137518,
    zent ''pip/commands/search.py'' 8 1574 4502 1140575,
    zent ''pip/commands/show.py'' 8 1788 5891 1142201,
    zent ''pip/commands/uninstall.py'' 8 976 2884 1144039,
    zent ''pip/commands/wheel.py'' 8 2044 7729 1145070,
    zent ''pip/compat/__init__.py'' 8 1772 4672 1147165,
    zent ''pip/compat/dictconfig.py'' 8 5453 23096 1148989,
    zent ''pip/models/__init__.py'' 8 65 71 1154496,
    zent ''pip/models/index.py'' 8 225 487 1154613,
    zent ''pip/operations/__init__.py'' 8 2 0 1154887,
    zent ''pip/operations/check.py'' 8 430 1590 1154945,
    zent ''pip/operations/freeze.py'' 8 1408 5194 1155428,
    zent ''pip/req/__init__.py'' 8 128 276 1156890,
    zent ''pip/req/req_file.py'' 8 3433 11926 1157067,
    zent ''pip/req/req_install.py'' 8 11767 46487 1160549,
    zent ''pip/req/req_set.py'' 8 8627 34462 1172368,
    zent ''pip/req/req_uninstall.py'' 8 2128 6897 1181043,
    zent ''pip/utils/__init__.py'' 8 8467 27187 1183225,
    zent ''pip/utils/appdirs.py'' 8 2729 8811 1191743,
    zent ''pip/utils/build.py'' 8 512 1312 1194522,
    zent ''pip/utils/deprecation.py'' 8 774 2232 1195082,
    zent ''pip/utils/encoding.py'' 8 442 971 1195910,
    zent ''pip/utils/filesystem.py'' 8 420 899 1196403,
    zent ''pip/utils/glibc.py'' 8 1248 2939 1196876,
    zent ''pip/utils/hashes.py'' 8 1149 2866 1198172,
    zent ''pip/utils/logging.py'' 8 1203 3327 1199370,
    zent ''pip/utils/outdated.py'' 8 1673 5455 1200623,
    zent ''pip/utils/packaging.py'' 8 743 2080 1202347,
    zent ''pip/utils/setuptools_build.py'' 8 187 278 1203142,
    zent ''pip/utils/ui.py'' 8 3682 11597 1203388,
    zent ''pip/vcs/__init__.py'' 8 3555 12374 1207115,
    zent ''pip/vcs/bazaar.py'' 8 1331 3803 1210719,
    zent ''pip/vcs/git.py'' 8 3328 11197 1212097,
    zent ''pip/vcs/mercurial.py'' 8 1121 3472 1215469,
    zent ''pip/vcs/subversion.py'' 8 2848 9350 1216640,
    zent ''pip-9.0.1.dist-info/DESCRIPTION.rst'' 8 529 1287 1219539,
    zent ''pip-9.0.1.dist-info/entry_points.txt'' 8 42 68 1220133,
    zent ''pip-9.0.1.dist-info/metadata.json'' 8 639 1565 1220241,
    zent ''pip-9.0.1.dist-info/top_level.txt'' 8 6 4 1220943,
    zent ''pip-9.0.1.dist-info/WHEEL'' 8 95 110 1221012,
    zent ''pip-9.0.1.dist-info/METADATA'' 8 930 2529 1221162,
    zent ''pip-9.0.1.dist-info/RECORD'' 8 11614 24006 1222150]"

definition pip_toc :: "zentry list" where
  "pip_toc = pip_toc1 @ pip_toc2"

definition end_record :: bytes where
  "end_record = end_signature @
     [CHR 0x00, CHR 0x00, CHR 0x00, CHR 0x00, CHR 0xFF, CHR 0x00, CHR 0xFF, CHR 0x00,
      CHR 0xE1, CHR ''Q'', CHR 0x00, CHR 0x00, CHR 0x9C, CHR 0xD3, CHR 0x12, CHR 0x00,
      CHR 0x00, CHR 0x00]"

section \<open>Reading the directory in stages\<close>

text \<open>
  The directory starts 156 bytes into what lines 19722 to 19726 decode to.  Each stage reads the
  next 25 lines, from the bytes the stage before it left over.  The last five lines end in a group of
  four characters, so the last byte of their filled decoding is dropped.
\<close>

definition stage_19722 :: bytes where
  "stage_19722 = drop 156 (fast_decode (concat DATA_19722))"

lemmas stage_19722_eval = stage_19722_def [unfolded DATA_19722_def, simplified zip_eval]

definition stage_19727 :: "zentry list list \<times> bytes" where
  "stage_19727 = stream 1233820 0 stage_19722 [] DATA_19727"

lemmas stage_19727_eval =
  stage_19727_def [unfolded stage_19722_eval DATA_19727_def, simplified zip_eval]

definition stage_19752 :: "zentry list list \<times> bytes" where
  "stage_19752 = stream 1233820 0 (snd stage_19727) [] DATA_19752"

lemmas stage_19752_eval =
  stage_19752_def [unfolded stage_19727_eval DATA_19752_def, simplified zip_eval]

definition stage_19777 :: "zentry list list \<times> bytes" where
  "stage_19777 = stream 1233820 0 (snd stage_19752) [] DATA_19777"

lemmas stage_19777_eval =
  stage_19777_def [unfolded stage_19752_eval DATA_19777_def, simplified zip_eval]

definition stage_19802 :: "zentry list list \<times> bytes" where
  "stage_19802 = stream 1233820 0 (snd stage_19777) [] DATA_19802"

lemmas stage_19802_eval =
  stage_19802_def [unfolded stage_19777_eval DATA_19802_def, simplified zip_eval]

definition stage_19827 :: "zentry list list \<times> bytes" where
  "stage_19827 = stream 1233820 0 (snd stage_19802) [] DATA_19827"

lemmas stage_19827_eval =
  stage_19827_def [unfolded stage_19802_eval DATA_19827_def, simplified zip_eval]

definition stage_19852 :: "zentry list list \<times> bytes" where
  "stage_19852 = stream 1233820 0 (snd stage_19827) [] DATA_19852"

lemmas stage_19852_eval =
  stage_19852_def [unfolded stage_19827_eval DATA_19852_def, simplified zip_eval]

definition stage_19877 :: "zentry list list \<times> bytes" where
  "stage_19877 = stream 1233820 0 (snd stage_19852) [] DATA_19877"

lemmas stage_19877_eval =
  stage_19877_def [unfolded stage_19852_eval DATA_19877_def, simplified zip_eval]

definition stage_19902 :: "zentry list list \<times> bytes" where
  "stage_19902 = stream 1233820 0 (snd stage_19877) [] DATA_19902"

lemmas stage_19902_eval =
  stage_19902_def [unfolded stage_19877_eval DATA_19902_def, simplified zip_eval]

definition stage_19927 :: "zentry list list \<times> bytes" where
  "stage_19927 = stream 1233820 0 (snd stage_19902) [] DATA_19927"

lemmas stage_19927_eval =
  stage_19927_def [unfolded stage_19902_eval DATA_19927_def, simplified zip_eval]

definition stage_19952 :: "zentry list list \<times> bytes" where
  "stage_19952 = stream 1233820 0 (snd stage_19927) [] DATA_19952"

lemmas stage_19952_eval =
  stage_19952_def [unfolded stage_19927_eval DATA_19952_def, simplified zip_eval]

definition stage_19977 :: "zentry list list \<times> bytes" where
  "stage_19977 = stream 1233820 0 (snd stage_19952) [] DATA_19977"

lemmas stage_19977_eval =
  stage_19977_def [unfolded stage_19952_eval DATA_19977_def, simplified zip_eval]

definition stage_20002 :: "zentry list list \<times> bytes" where
  "stage_20002 = stream 1233820 0 (snd stage_19977) [] DATA_20002"

lemmas stage_20002_eval =
  stage_20002_def [unfolded stage_19977_eval DATA_20002_def, simplified zip_eval]

definition stage_20027 :: "zentry list list \<times> bytes" where
  "stage_20027 = stream 1233820 0 (snd stage_20002) [] DATA_20027"

lemmas stage_20027_eval =
  stage_20027_def [unfolded stage_20002_eval DATA_20027_def, simplified zip_eval]

definition stage_20052 :: "zentry list \<times> bytes" where
  "stage_20052 = pull 1233820 0 (snd stage_20027 @ butlast (fast_decode (concat DATA_20052 @ ''~'')))"

lemmas stage_20052_eval =
  stage_20052_def [unfolded stage_20027_eval DATA_20052_def, simplified zip_eval]

text \<open>Lines 19727 to 20051, and what reading them from \<open>stage_19722\<close> on leaves.\<close>

definition dir_middle :: "string list list" where
  "dir_middle = [DATA_19727, DATA_19752, DATA_19777, DATA_19802, DATA_19827, DATA_19852,
  DATA_19877, DATA_19902, DATA_19927, DATA_19952, DATA_19977, DATA_20002, DATA_20027]"

lemmas stage_runs =
  run_stage [OF stage_19727_def [symmetric]]
  run_stage [OF stage_19752_def [symmetric]]
  run_stage [OF stage_19777_def [symmetric]]
  run_stage [OF stage_19802_def [symmetric]]
  run_stage [OF stage_19827_def [symmetric]]
  run_stage [OF stage_19852_def [symmetric]]
  run_stage [OF stage_19877_def [symmetric]]
  run_stage [OF stage_19902_def [symmetric]]
  run_stage [OF stage_19927_def [symmetric]]
  run_stage [OF stage_19952_def [symmetric]]
  run_stage [OF stage_19977_def [symmetric]]
  run_stage [OF stage_20002_def [symmetric]]
  run_stage [OF stage_20027_def [symmetric]]

lemma dir_middle_evaluated:
  "run 1233820 0 stage_19722 dir_middle =
     (concat (rev (fst stage_20027 @ fst stage_20002 @ fst stage_19977 @ fst stage_19952 @ fst
     stage_19927 @ fst stage_19902 @ fst stage_19877 @ fst stage_19852 @ fst stage_19827 @ fst
     stage_19802 @ fst stage_19777 @ fst stage_19752 @ fst stage_19727)),
      snd stage_20027)"
  unfolding dir_middle_def
  by (simp only: stage_runs apfst_conv run.simps(1) rev_append concat_append append_assoc append_Nil2)

lemma directory_evaluated:
  "concat (rev (fst stage_20027 @ fst stage_20002 @ fst stage_19977 @ fst stage_19952 @ fst
  stage_19927 @ fst stage_19902 @ fst stage_19877 @ fst stage_19852 @ fst stage_19827 @ fst
  stage_19802 @ fst stage_19777 @ fst stage_19752 @ fst stage_19727)) @ fst stage_20052 = pip_toc"
  "snd stage_20052 = end_record"
  by (simp_all only: stage_19727_eval stage_19752_eval stage_19777_eval stage_19802_eval
  stage_19827_eval stage_19852_eval stage_19877_eval stage_19902_eval stage_19927_eval
  stage_19952_eval stage_19977_eval stage_20002_eval stage_20027_eval stage_20052_eval fst_conv
  snd_conv pip_toc_def pip_toc1_def pip_toc2_def
    end_record_def end_signature_def rev.simps concat.simps append.simps append_assoc append_Nil2)

end
