(* ===== verification/Payload.thy ===== *)
theory Payload
  imports Payload1 Payload2 Payload3 Payload4 Payload_Directory
begin

text \<open>
  The literal \<open>DATA\<close> of \<open>Crawler/get-pip.py\<close> and what it decodes to.  Lines 17057 to 20056 of the
  script are written out (\<open>DATA_tail\<close>); the 16855 lines before them are a parameter, \<open>head\<close>.
  \<open>payload head\<close> is the text that \<open>main\<close> hands to \<open>b85decode\<close>.
\<close>

section \<open>Definitions from the code\<close>

definition DATA_tail :: "string list" where
  "DATA_tail = DATA_17057 @ DATA_17207 @ DATA_17357 @ DATA_17507 @ DATA_17657
     @ DATA_17807 @ DATA_17957 @ DATA_18107 @ DATA_18257 @ DATA_18407
     @ DATA_18557 @ DATA_18707 @ DATA_18857 @ DATA_19007 @ DATA_19157
     @ DATA_19307 @ DATA_19457 @ DATA_19607
     @ DATA_19722 @ concat dir_middle @ DATA_20052"

definition newline :: char where
  "newline = CHR 0x0A"

text \<open>The literal starts with a line break and has one after each line.\<close>

definition DATA :: "string list \<Rightarrow> bytes" where
  "DATA head = newline # concat (map (\<lambda>l. l @ [newline]) (head @ DATA_tail))"

definition remove_newlines :: "bytes \<Rightarrow> bytes" where
  "remove_newlines b = filter (\<lambda>c. c \<noteq> newline) b"

definition payload :: "string list \<Rightarrow> bytes" where
  "payload head = remove_newlines (DATA head)"

section \<open>Scanning and decoding the tail\<close>

lemma scan_from: "scan n b = Some k \<Longrightarrow> scan (m + n) b = Some (m + k)"
  by (induction n b arbitrary: k rule: scan.induct)
     (auto simp: add.assoc simp del: horner.simps split: if_splits)

lemma scan_lines_from:
  "scan_lines 0 p ls = Some k \<Longrightarrow> ls \<noteq> [] \<Longrightarrow> scan m (concat ls @ p) = Some (m + k)"
  using scan_from [OF scan_lines_scan, of 0 p ls k m] by simp

lemma scan_lines_whole_groups: "scan_lines n [] ls = Some k \<Longrightarrow> whole_groups ls"
proof (induction ls arbitrary: n rule: whole_groups.induct)
  case (2 a b c d e ls)
  then obtain m where "scan n (a @ b @ c @ d @ e) = Some m" "scan_lines m [] ls = Some k"
    by (auto split: option.splits)
  then have "5 dvd length (a @ b @ c @ d @ e)" "whole_groups ls"
    using scan_sound "2.IH" by blast+
  then show ?case by (simp del: length_append)
qed simp_all

lemma scan_length: "scan 0 b = Some k \<Longrightarrow> length (fast_decode b) = k"
  using scan_sound [of 0 b k 0] fast_decode_sound [of 0 b k 0] by auto

definition DATA_before :: "string list" where
  "DATA_before = DATA_17057 @ DATA_17207 @ DATA_17357 @ DATA_17507 @ DATA_17657
     @ DATA_17807 @ DATA_17957 @ DATA_18107 @ DATA_18257 @ DATA_18407
     @ DATA_18557 @ DATA_18707 @ DATA_18857 @ DATA_19007 @ DATA_19157
     @ DATA_19307 @ DATA_19457 @ DATA_19607"

lemma scans_from_step:
  "scan_lines 0 [] d = Some k \<Longrightarrow> scan (m + k) r = Some j \<Longrightarrow> scan m (concat d @ r) = Some j"
  by (cases "d = []") (simp_all add: scan_append [OF scan_lines_from, of "[]", simplified])

lemma concat_lines_append: "concat (xs @ ys) @ r = concat xs @ concat ys @ r"
  by simp

lemmas scans_before = scan_DATA_17057 scan_DATA_17207 scan_DATA_17357 scan_DATA_17507
  scan_DATA_17657 scan_DATA_17807 scan_DATA_17957 scan_DATA_18107 scan_DATA_18257
  scan_DATA_18407 scan_DATA_18557 scan_DATA_18707 scan_DATA_18857 scan_DATA_19007
  scan_DATA_19157 scan_DATA_19307 scan_DATA_19457 scan_DATA_19607

lemma scan_before: "scan 0 (concat DATA_before @ []) = Some 168428"
  unfolding DATA_before_def concat_lines_append
  by (rule scans_before [THEN scans_from_step])+ simp


lemma DATA_tail_split:
  "concat DATA_tail = concat DATA_before @ concat DATA_19722 @ concat (concat dir_middle) @ concat DATA_20052"
  unfolding DATA_tail_def DATA_before_def by (simp only: concat_append append_assoc)

lemmas scans_middle = scan_DATA_19727 scan_DATA_19752 scan_DATA_19777 scan_DATA_19802
  scan_DATA_19827 scan_DATA_19852 scan_DATA_19877 scan_DATA_19902 scan_DATA_19927
  scan_DATA_19952 scan_DATA_19977 scan_DATA_20002 scan_DATA_20027

lemma scan_last: "scan m (concat DATA_20052 @ ''~'') = Some (m + 284)"
  by (rule scan_lines_from [OF scan_DATA_20052]) (simp add: DATA_20052_def)

lemma scan_directory:
  "scan 168428 (concat DATA_19722 @ concat (concat dir_middle) @ concat DATA_20052 @ ''~'') = Some 189568"
  unfolding dir_middle_def concat.simps concat_append append_Nil append_assoc
  by (rule scans_from_step [OF scan_DATA_19722] scans_middle [THEN scans_from_step])+
     (simp only: scan_last, simp)

lemma scan_tail: "scan 0 (concat DATA_tail @ ''~'') = Some 189568"
  unfolding DATA_tail_split append_assoc
  using scan_append [OF scan_before] scan_directory by simp

lemma whole_middle: "list_all whole_groups dir_middle"
  unfolding dir_middle_def list.pred_inject(2)
  by (intro conjI TrueI scans_middle [THEN scan_lines_whole_groups] list.pred_inject(1))

lemma whole_lists_dvd: "list_all whole_groups ds \<Longrightarrow> 5 dvd length (concat (concat ds))"
proof (induction ds)
  case (Cons d ds)
  then have "5 dvd length (concat d)" "5 dvd length (concat (concat ds))"
    by (simp_all add: whole_groups_dvd)
  from dvd_add [OF this] show ?case by simp
qed simp

lemma decode_tail_split:
  "fast_decode (concat DATA_tail @ ''~'') =
     fast_decode (concat DATA_before) @ fast_decode (concat DATA_19722)
     @ fast_decode (concat (concat dir_middle)) @ fast_decode (concat DATA_20052 @ ''~'')"
proof -
  have "5 dvd length (concat DATA_before)" using scan_sound [OF scan_before] by simp
  moreover have "5 dvd length (concat DATA_19722)"
    by (rule whole_groups_dvd [OF scan_lines_whole_groups [OF scan_DATA_19722]])
  ultimately show ?thesis
    unfolding DATA_tail_split append_assoc by (simp only: fast_decode_append whole_lists_dvd [OF whole_middle])
qed

section \<open>Decoding the whole payload\<close>

lemma scan_ok: "scan n b = Some k \<Longrightarrow> \<forall>c \<in> set b. b85_ok c"
proof (induction n b rule: scan.induct)
  case (2 n a b c d e r)
  from "2.prems" have g: "(if low_digit a then True else b85_ok a \<and> horner 0 [a, b, c, d, e] < 4294967296)
        \<and> b85_ok b \<and> b85_ok c \<and> b85_ok d \<and> b85_ok e" and rec: "scan (n + 4) r = Some k"
    by (simp_all split: if_splits)
  from g have "b85_ok a" by (simp only: low_digit_def split: if_splits)
  with g "2.IH" [OF g rec] show ?case by simp
qed simp_all

lemma newline_not_ok: "\<not> b85_ok newline"
  by (simp add: newline_def b85_ok_def b85alphabet_def)

lemma remove_newlines_lines:
  "\<forall>c \<in> set (concat ls). b85_ok c \<Longrightarrow> remove_newlines (concat (map (\<lambda>l. l @ [newline]) ls)) = concat ls"
proof (induction ls)
  case (Cons l ls)
  then have "filter (\<lambda>c. c \<noteq> newline) l = l" using newline_not_ok by (auto simp: filter_id_conv)
  with Cons show ?case by (simp add: remove_newlines_def)
qed (simp add: remove_newlines_def)

lemma tail_ok: "\<forall>c \<in> set (concat DATA_tail). b85_ok c"
  using scan_ok [OF scan_tail] by simp

lemma payload_eq:
  assumes "\<forall>c \<in> set (concat head). b85_ok c"
  shows "payload head = concat head @ concat DATA_tail"
proof -
  have "\<forall>c \<in> set (concat (head @ DATA_tail)). b85_ok c" using assms tail_ok by auto
  from remove_newlines_lines [OF this] show ?thesis
    by (simp add: payload_def DATA_def remove_newlines_def del: map_append)
qed

lemma b85decode_whole:
  assumes "major \<in> {2, 3}" "b85decode major b = Inr r" "5 dvd length b"
  shows "decode_blocks 5 hunk 0 b = Inr r"
proof -
  have "padding b = 0" using assms(3) by (simp add: padding_eq dvd_eq_mod_eq_0)
  then show ?thesis using assms(2) by (auto simp: b85decode_eq [OF assms(1)] padded_def res_bind_Inr_iff)
qed

definition tail_bytes :: bytes where
  "tail_bytes = butlast (fast_decode (concat DATA_tail @ ''~''))"

lemma length_tail_bytes: "length tail_bytes = 189567"
  unfolding tail_bytes_def by (simp only: length_butlast scan_length [OF scan_tail])

lemma decode_payload:
  assumes major: "major \<in> {2, 3}" and dvd: "5 dvd length (concat head)"
    and head: "b85decode major (concat head) = Inr hb"
  shows "b85decode major (payload head) = Inr (hb @ tail_bytes)"
proof -
  let ?T = "concat DATA_tail @ ''~''"
  have ok: "\<forall>c \<in> set (concat head). b85_ok c"
    using b85decode_accepts [OF major, of "concat head"] length_b85decode [OF major head] head
    by blast
  have pl: "payload head = concat head @ concat DATA_tail" by (rule payload_eq [OF ok])
  have "5 dvd length ?T" using scan_sound [OF scan_tail] by blast
  from dvd_add [OF dvd this] have "5 dvd length (concat head) + length ?T" .
  then have "length (payload head) mod 5 = 4"
    unfolding pl by (simp only: length_append list.size) presburger
  then have pad: "padding (payload head) = 1" by (simp add: padding_eq)
  have tl: "decode_blocks 5 hunk i ?T = Inr (fast_decode ?T)" for i
    by (rule fast_decode_sound [OF scan_tail])
  have "padded (payload head) = concat head @ ?T"
    unfolding padded_def pad by (simp add: pl)
  then have blocks: "decode_blocks 5 hunk 0 (padded (payload head)) = Inr (hb @ fast_decode ?T)"
    using decode_blocks_append [OF dvd, of hunk 0 ?T] b85decode_whole [OF major head dvd] tl by simp
  have ne: "fast_decode ?T \<noteq> []" using scan_length [OF scan_tail] by auto
  show ?thesis
    unfolding b85decode_eq [OF major] blocks res_bind_Inr pad tail_bytes_def
    using ne by (simp only: butlast_conv_take [symmetric] butlast_append if_False)
qed

section \<open>The directory\<close>

lemma tail_bytes_split:
  "tail_bytes = fast_decode (concat DATA_before) @ take 156 (fast_decode (concat DATA_19722))
     @ stage_19722 @ fast_decode (concat (concat dir_middle)) @ butlast (fast_decode (concat DATA_20052 @ ''~''))"
proof -
  have "fast_decode (concat DATA_20052 @ ''~'') \<noteq> []"
    using scan_length [OF scan_last [of 0, unfolded add_0]] by auto
  then show ?thesis
    unfolding tail_bytes_def decode_tail_split stage_19722_def
    by (simp add: butlast_append)
qed

lemma length_front:
  "length (fast_decode (concat DATA_before) @ take 156 (fast_decode (concat DATA_19722))) = 168584"
proof -
  have "length (fast_decode (concat DATA_before)) = 168428"
    using scan_length [of "concat DATA_before" 168428] scan_before by simp
  moreover have "length (fast_decode (concat DATA_19722)) = 316"
    using scan_length [of "concat DATA_19722" 316] scan_lines_scan [OF scan_DATA_19722]
    by (simp add: DATA_19722_def)
  ultimately show ?thesis by simp
qed

lemma stages_chain:
  obtains q es where "run 1233820 0 stage_19722 dir_middle = (es, q)"
    "pull 1233820 0 (q @ butlast (fast_decode (concat DATA_20052 @ ''~''))) = (fst stage_20052, end_record)"
    "es @ fst stage_20052 = pip_toc"
  using that [OF dir_middle_evaluated] directory_evaluated stage_20052_def
  by (metis prod.collapse)

lemma read_end_record: "read_entries dir arc end_record = Inr []"
  by (subst read_entries.simps)
     (simp add: read_entry_def end_record_def end_signature_def central_signature_def numeral_eq_Suc)

text \<open>What follows the directory start is the entries and then the end record.\<close>

lemma directory_bytes:
  defines "D \<equiv> stage_19722 @ fast_decode (concat (concat dir_middle))
     @ butlast (fast_decode (concat DATA_20052 @ ''~''))"
  shows "read_entries 1233820 0 D = Inr pip_toc" "\<exists>c. D = c @ end_record"
proof -
  let ?B = "butlast (fast_decode (concat DATA_20052 @ ''~''))"
  obtain q es where run: "run 1233820 0 stage_19722 dir_middle = (es, q)"
    and pull: "pull 1233820 0 (q @ ?B) = (fst stage_20052, end_record)"
    and toc: "es @ fst stage_20052 = pip_toc" by (rule stages_chain)
  note rs = run_sound [OF whole_middle run]
  have "read_entries 1233820 0 D = res_bind (read_entries 1233820 0 (q @ ?B)) (\<lambda>fs. Inr (es @ fs))"
    unfolding D_def using rs by blast
  also have "read_entries 1233820 0 (q @ ?B) = Inr (fst stage_20052)"
    using pull_sound [OF pull, of "[]"] by (simp add: read_end_record)
  finally show "read_entries 1233820 0 D = Inr pip_toc" by (simp add: toc)
  from rs obtain c where "stage_19722 @ fast_decode (concat (concat dir_middle)) = c @ q" by blast
  moreover obtain c' where "q @ ?B = c' @ end_record" using pull_suffix [OF pull] by blast
  ultimately have "D = (c @ c') @ end_record" unfolding D_def by (metis append.assoc)
  then show "\<exists>c. D = c @ end_record" by blast
qed

lemma drop_front: "length x = n \<Longrightarrow> drop n (x @ y) = y"
  by simp

lemma payload_directory:
  assumes "length hb = 1065236"
  shows "zip_directory (hb @ tail_bytes) = Inr pip_toc"
proof -
  let ?F = "hb @ fast_decode (concat DATA_before) @ take 156 (fast_decode (concat DATA_19722))"
  let ?D = "stage_19722 @ fast_decode (concat (concat dir_middle))
     @ butlast (fast_decode (concat DATA_20052 @ ''~''))"
  let ?z = "hb @ tail_bytes"
  have split: "?z = ?F @ ?D" unfolding tail_bytes_split by simp
  have lenF: "length ?F = 1233820" using assms length_front by (simp only: length_append)
  have lenz: "length ?z = 1254803" by (simp add: assms length_tail_bytes)
  obtain c where c: "?D = c @ end_record" using directory_bytes(2) by blast
  have lenE: "length end_record = 22" by (simp add: end_record_def end_signature_def)
  have "length (?F @ c) + 22 = 1254803" using lenz lenE unfolding split c by simp
  then have "length (?F @ c) = 1254781" by simp
  from drop_front [OF this] have e: "drop 1254781 ?z = end_record" unfolding split c by simp
  have d: "drop 1233820 ?z = ?D" unfolding split by (rule drop_front [OF lenF])
  have f: "take 4 end_record = end_signature" "le32 end_record 12 = 20961" "le32 end_record 16 = 1233820"
    by (simp_all add: end_record_def end_signature_def le32_def le16_def)
  show ?thesis
    unfolding zip_directory_def Let_def lenz
    using e d f directory_bytes(1) by (simp add: length_tail_bytes)
qed

lemma payload_directory_offset:
  assumes "length hb = 1065236"
  shows "le32 (drop (length (hb @ tail_bytes) - 22) (hb @ tail_bytes)) 16 = 1233820"
proof -
  obtain c where "hb @ tail_bytes = c @ end_record"
    using directory_bytes(2) unfolding tail_bytes_split by (metis append.assoc)
  moreover have "length end_record = 22" by (simp add: end_record_def end_signature_def)
  ultimately have "drop (length (hb @ tail_bytes) - 22) (hb @ tail_bytes) = end_record" by simp
  then show ?thesis by (simp add: end_record_def end_signature_def le32_def le16_def)
qed

end
