(* ===== verification/Payload_Archive.thy ===== *)
theory Payload_Archive
  imports Payload
begin

text \<open>
  What the archive embedded in \<open>Crawler/get-pip.py\<close> provides, as far as the directory at its end tells: the
  payload decodes, the directory is that of a zip file, it lists the modules of pip that \<open>bootstrap\<close> imports,
  and its only top-level module is \<open>pip\<close>.  The files themselves are not looked at; most of them lie in the lines
  202 to 17056, which are a parameter.
\<close>

section \<open>Evaluating the table of contents\<close>

fun has_name :: "string \<Rightarrow> zentry list \<Rightarrow> bool" where
  "has_name n [] = False"
| "has_name n (e # es) = (zname e = n \<or> has_name n es)"

lemma zip_lookup_iff: "zip_lookup es n \<noteq> None \<longleftrightarrow> has_name n es"
proof -
  have "zip_lookup es n \<noteq> None \<longleftrightarrow> n \<in> zname ` set es"
    by (auto simp: zip_lookup_def map_of_eq_None_iff image_image)
  also have "\<dots> \<longleftrightarrow> has_name n es" by (induction es) auto
  finally show ?thesis .
qed

lemma zname_zent: "zname (zent n m c s off) = n" "zoffset (zent n m c s off) = off"
  "zcsize (zent n m c s off) = c" "zmethod (zent n m c s off) = m" "zsize (zent n m c s off) = s"
  by (simp_all add: zent_def)

lemma has_name_append: "has_name n (xs @ ys) \<longleftrightarrow> has_name n xs \<or> has_name n ys"
  by (induction xs) auto

lemma toc_names:
  "has_name ''pip/__init__.py'' pip_toc"
  "has_name ''pip/commands/__init__.py'' pip_toc"
  "has_name ''pip/commands/install.py'' pip_toc"
  "has_name ''pip/req/__init__.py'' pip_toc"
  "has_name ''pip/_vendor/__init__.py'' pip_toc"
  "has_name ''pip/_vendor/requests/__init__.py'' pip_toc"
  "has_name ''pip/_vendor/requests/cacert.pem'' pip_toc"
  unfolding pip_toc_def pip_toc1_def pip_toc2_def append.simps
  by (simp_all only: has_name.simps zname_zent list.inject char.inject simp_thms)

fun tiled :: "nat \<Rightarrow> zentry list \<Rightarrow> nat option" and tiled_if :: "nat \<Rightarrow> bool \<Rightarrow> zentry list \<Rightarrow> nat option" where
  "tiled off [] = Some off"
| "tiled off (e # es) = tiled_if (off + 30 + zcsize e + length (zname e)) (zoffset e = off) es"
| "tiled_if off False es = None"
| "tiled_if off True es = tiled off es"

lemma tiles_tiled: "tiles off es = tiled off es"
  by (induction es arbitrary: off) (simp_all add: ac_simps)

lemma length_step: "m + length (x # xs) = m + 1 + length xs" "m + length [] = m"
  by simp_all

lemmas tile_eval = tiled.simps tiled_if.simps zname_zent length_step arith_simps rel_simps
  one_plus_numeral numeral_plus_one one_add_one add_0_left add_0_right refl

lemma toc_tiles: "tiles 0 pip_toc = Some 1233820"
  unfolding tiles_tiled pip_toc_def pip_toc1_def pip_toc2_def append.simps
  by (simp only: tile_eval)

definition in_pip :: "zentry \<Rightarrow> bool" where
  "in_pip e \<longleftrightarrow> prefix ''pip/'' (zname e) \<or> prefix ''pip-9.0.1.dist-info/'' (zname e)
     \<and> \<not> prefix ''pip-9.0.1.dist-info/_'' (zname e)"

lemma toc_in_pip: "list_all (\<lambda>e. in_pip e \<and> zmethod e = 8) pip_toc"
  unfolding pip_toc_def pip_toc1_def pip_toc2_def append.simps
  by (simp add: zname_zent in_pip_def)

lemma toc_length: "length pip_toc = 255"
  by (simp add: pip_toc_def pip_toc1_def pip_toc2_def)

section \<open>Modules\<close>

lemma find_module_package: "has_name (p @ ''/__init__.py'') es \<Longrightarrow> find_module es p \<noteq> None"
  by (auto simp: find_module_def search_order_def zip_lookup_iff [symmetric] split: option.split)

lemma find_first_Some:
  "find_first es p xs = Some (e, k) \<Longrightarrow> \<exists>ext. (ext, k) \<in> set xs \<and> has_name (p @ ext) es"
  by (induction es p xs rule: find_first.induct)
     (auto simp: zip_lookup_iff [symmetric] split: option.splits)

text \<open>The only compiled files are absent: nothing of the archive ends in \<open>.pyc\<close>.\<close>

lemma last_step: "last [x] = x" "last (x # y # xs) = last (y # xs)"
  by simp_all

lemma toc_no_pyc: "list_all (\<lambda>e. last (zname e) \<noteq> CHR ''c'') pip_toc"
  unfolding pip_toc_def pip_toc1_def pip_toc2_def append.simps
  by (simp only: zname_zent last_step list.pred_inject char.inject simp_thms)

lemma has_name_list_all: "has_name n es \<Longrightarrow> list_all (\<lambda>e. P (zname e)) es \<Longrightarrow> P n"
  by (induction es) auto

lemma toc_find_package:
  "has_name (p @ ''/__init__.py'') pip_toc \<Longrightarrow> \<exists>e. find_module pip_toc p = Some (e, True)"
proof -
  assume "has_name (p @ ''/__init__.py'') pip_toc"
  moreover have "\<not> has_name (p @ ''/__init__.pyc'') pip_toc"
    using has_name_list_all [OF _ toc_no_pyc] by fastforce
  ultimately show ?thesis
    by (auto simp: find_module_def search_order_def zip_lookup_iff [symmetric] split: option.split)
qed

lemma toc_find_source: "has_name (p @ ''.py'') pip_toc \<Longrightarrow> find_module pip_toc p \<noteq> None"
  by (auto simp: find_module_def search_order_def zip_lookup_iff [symmetric] split: option.split)

lemma toc_imports:
  "import_path pip_toc [] [''pip'']"
  "import_path pip_toc [] [''pip'', ''commands'', ''install'']"
  "import_path pip_toc [] [''pip'', ''req'']"
  "import_path pip_toc [] [''pip'', ''_vendor'', ''requests'']"
  using toc_find_package [of "''pip''"] toc_find_package [of "''pip/commands''"]
    toc_find_package [of "''pip/req''"] toc_find_package [of "''pip/_vendor''"]
    toc_find_package [of "''pip/_vendor/requests''"] toc_find_source [of "''pip/commands/install''"]
    toc_names by auto

lemma toc_only_pip:
  assumes "find_module pip_toc m \<noteq> None" "CHR ''/'' \<notin> set m"
  shows "m = ''pip''"
proof -
  obtain e k where "find_first pip_toc m search_order = Some (e, k)"
    using assms(1) by (auto simp: find_module_def)
  then obtain ext where ext: "(ext, k) \<in> set search_order" "has_name (m @ ext) pip_toc"
    using find_first_Some by blast
  have "list_all (\<lambda>e. prefix ''pip/'' (zname e) \<or> prefix ''pip-9.0.1.dist-info/'' (zname e)
     \<and> \<not> prefix ''pip-9.0.1.dist-info/_'' (zname e)) pip_toc"
    using toc_in_pip by (simp add: in_pip_def list_all_iff)
  from has_name_list_all [OF ext(2) this]
  have p: "prefix ''pip/'' (m @ ext) \<or> prefix ''pip-9.0.1.dist-info/'' (m @ ext)
     \<and> \<not> prefix ''pip-9.0.1.dist-info/_'' (m @ ext)" .
  have t: "takeWhile (\<lambda>c. c \<noteq> CHR ''/'') (m @ ext) = m @ takeWhile (\<lambda>c. c \<noteq> CHR ''/'') ext"
    using assms(2) by (auto intro!: takeWhile_append2)
  have q: "m = w \<and> hd ext = CHR ''/''"
    if pre: "prefix (w @ ''/'') (m @ ext)" and w: "CHR ''/'' \<notin> set w" for w
  proof -
    from pre obtain r where r: "m @ ext = w @ ''/'' @ r" by (auto simp: prefix_def)
    have "takeWhile (\<lambda>c. c \<noteq> CHR ''/'') (w @ ''/'' @ r) = w"
      using w by (subst takeWhile_append2) auto
    with t have w_eq: "w = m @ takeWhile (\<lambda>c. c \<noteq> CHR ''/'') ext" by (simp add: r)
    have "CHR ''/'' \<in> set (m @ ext)" by (simp add: r)
    then have "hd ext = CHR ''/''"
      using ext(1) assms(2) by (auto simp: search_order_def)
    with w_eq ext(1) show ?thesis by (auto simp: search_order_def)
  qed
  from p show ?thesis
  proof
    assume "prefix ''pip/'' (m @ ext)"
    then show ?thesis using q [of "''pip''"] by simp
  next
    assume r: "prefix ''pip-9.0.1.dist-info/'' (m @ ext) \<and> \<not> prefix ''pip-9.0.1.dist-info/_'' (m @ ext)"
    with q [of "''pip-9.0.1.dist-info''"] have "m = ''pip-9.0.1.dist-info''" "hd ext = CHR ''/''" by simp_all
    with r ext(1) show ?thesis by (auto simp: search_order_def)
  qed
qed

section \<open>The properties\<close>

lemma replicate_4_5: "replicate 5 x = [x, x, x, x, x]" "replicate 4 y = [y, y, y, y]"
  by (simp_all add: eval_nat_numeral)

lemma hunk_zeros: "hunk i (replicate 5 (CHR ''0'')) = Inr (replicate 4 (CHR 0x00))"
  unfolding replicate_4_5 by (simp add: hunk_def unpack4_def b85_eval char_of_def)

lemma decode_zeros:
  "decode_blocks 5 hunk i (replicate (5 * n) (CHR ''0'')) = Inr (replicate (4 * n) (CHR 0x00))"
proof (induction n arbitrary: i)
  case (Suc n)
  have "replicate (5 * Suc n) (CHR ''0'') = replicate 5 (CHR ''0'') @ replicate (5 * n) (CHR ''0'')"
    "replicate (4 * Suc n) (CHR 0x00) = replicate 4 (CHR 0x00) @ replicate (4 * n) (CHR 0x00)"
    by (simp_all only: replicate_add [symmetric] mult_Suc_right)
  then show ?case using hunk_zeros Suc.IH by (simp only: decode_blocks_append_block length_replicate zero_less_numeral res_bind_Inr)
qed simp

lemma concat_zeros: "concat (replicate n (replicate k x)) = replicate (n * k) x"
  by (induction n) (simp_all add: replicate_add)

lemma zero_head:
  defines "head \<equiv> replicate 16855 (replicate 79 (CHR ''0''))"
  shows "length head = 16855" "\<forall>l \<in> set head. length l = 79"
    "b85decode 3 (concat head) = Inr (replicate 1065236 (CHR 0x00))"
proof -
  show "length head = 16855" by (simp only: head_def length_replicate)
  show "\<forall>l \<in> set head. length l = 79"
    by (auto simp only: head_def in_set_replicate length_replicate)
  have "concat head = replicate (5 * 266309) (CHR ''0'')"
    unfolding head_def concat_zeros by (simp only: arith_simps)
  moreover have "padding (replicate (5 * 266309) (CHR ''0'')) = 0"
    unfolding padding_eq length_replicate by simp
  ultimately show "b85decode 3 (concat head) = Inr (replicate 1065236 (CHR 0x00))"
    using decode_zeros [of 0 266309] by (simp add: b85decode_eq padded_def)
qed

text \<open>
  The shape of the lines 202 to 17056, which the parameter stands for: 16855 lines of 79
  characters, acceptable to the decoder.
\<close>

definition head_ok :: "nat \<Rightarrow> string list \<Rightarrow> bool" where
  "head_ok major head \<longleftrightarrow> length head = 16855 \<and> list_all (\<lambda>l. length l = 79) head
     \<and> (case b85decode major (concat head) of Inr _ \<Rightarrow> True | Inl _ \<Rightarrow> False)"

lemma length_concat_lines: "list_all (\<lambda>l. length l = k) ls \<Longrightarrow> length (concat ls) = length ls * k"
  by (induction ls) simp_all

lemma head_decoded:
  assumes "major \<in> {2, 3}" "head_ok major head"
  obtains hb where "b85decode major (concat head) = Inr hb" "length hb = 1065236"
    "5 dvd length (concat head)"
proof -
  obtain hb where hb: "b85decode major (concat head) = Inr hb"
    using assms(2) by (auto simp: head_ok_def split: sum.splits)
  have len: "length (concat head) = 5 * 266309"
    using assms(2) length_concat_lines [of 79 head] by (simp add: head_ok_def del: length_concat)
  then have dvd: "5 dvd length (concat head)" by simp
  then have "padding (concat head) = 0" by (simp add: padding_eq dvd_eq_mod_eq_0)
  then have "length hb = 1065236" using length_b85decode [OF assms(1) hb] len by simp
  with hb dvd that show thesis by blast
qed

lemma zero_head_ok: "head_ok 3 (replicate 16855 (replicate 79 (CHR ''0'')))"
  using zero_head by (simp add: head_ok_def list_all_iff)

lemma payload_archive:
  assumes "major \<in> {2, 3}" "head_ok major head"
  shows "\<exists>z. b85decode major (payload head) = Inr z \<and> length z = 1254803 \<and> zip_directory z = Inr pip_toc"
proof -
  obtain hb where hb: "b85decode major (concat head) = Inr hb" "length hb = 1065236"
    "5 dvd length (concat head)" using head_decoded [OF assms] by blast
  then show ?thesis
    using decode_payload [OF assms(1) hb(3) hb(1)] payload_directory [OF hb(2)]
    by (simp add: length_tail_bytes)
qed

text \<open>
  C7.  What the payload decodes to.  For Python 2 and 3 and every text of lines 202 to 17056 that has their number
  and length of lines and that the decoder accepts, what \<open>main\<close> writes to \<open>pip.zip\<close> has 1254803 bytes and ends in
  the end record of a zip file, and the reader of the central directory lists 255 entries.  The offsets, names
  and sizes that these entries declare fit together: each local record would begin where the one before
  ends, the first at 0, and the last would end where the directory begins.  (The local records are not read.)
\<close>

theorem payload_is_archive:
  assumes "major \<in> {2, 3}" "head_ok major head"
  shows "\<exists>z es. b85decode major (payload head) = Inr z \<and> length z = 1254803
    \<and> zip_directory z = Inr es \<and> length es = 255 \<and> tiles 0 es = Some (le32 (drop (length z - 22) z) 16)"
proof -
  obtain hb where hb: "b85decode major (concat head) = Inr hb" "length hb = 1065236"
    "5 dvd length (concat head)" using head_decoded [OF assms] by blast
  have "le32 (drop (length (hb @ tail_bytes) - 22) (hb @ tail_bytes)) 16 = 1233820"
    by (rule payload_directory_offset [OF hb(2)])
  then show ?thesis
    using decode_payload [OF assms(1) hb(3) hb(1)] payload_directory [OF hb(2)] hb(2)
      toc_length toc_tiles
    by (intro exI [of _ "hb @ tail_bytes"] exI [of _ pip_toc]) (simp add: length_tail_bytes)
qed

theorem payload_is_archive_witness:
  "\<exists>z es. b85decode 3 (payload (replicate 16855 (replicate 79 (CHR ''0'')))) = Inr z
    \<and> length z = 1254803 \<and> zip_directory z = Inr es \<and> length es = 255
    \<and> tiles 0 es = Some (le32 (drop (length z - 22) z) 16)"
  by (rule payload_is_archive [OF _ zero_head_ok]) simp

text \<open>
  Putting the archive in front of \<open>sys.path\<close> shadows no other module: the only top-level name it
  provides is \<open>pip\<close>.  In particular the probes \<open>import setuptools\<close> and \<open>import wheel\<close> see the
  platform, although the archive holds a file \<open>pip/wheel.py\<close>.
\<close>

theorem payload_shadows_only_pip:
  assumes "major \<in> {2, 3}" "head_ok major head"
  shows "\<exists>z es. b85decode major (payload head) = Inr z \<and> zip_directory z = Inr es
    \<and> {m. CHR ''/'' \<notin> set m \<and> find_module es m \<noteq> None} = {''pip''}"
proof -
  have "{m. CHR ''/'' \<notin> set m \<and> find_module pip_toc m \<noteq> None} = {''pip''}"
    using toc_only_pip toc_find_package [of "''pip''"] toc_names(1) by auto
  then show ?thesis using payload_archive [OF assms] by blast
qed

theorem payload_shadows_only_pip_witness:
  "\<exists>z es. b85decode 3 (payload (replicate 16855 (replicate 79 (CHR ''0'')))) = Inr z
    \<and> zip_directory z = Inr es
    \<and> {m. CHR ''/'' \<notin> set m \<and> find_module es m \<noteq> None} = {''pip''}"
  by (rule payload_shadows_only_pip [OF _ zero_head_ok]) simp

end
