(* ===== verification/Main_Script.thy ===== *)
theory Main_Script
  imports Bootstrap Payload_Archive
begin

text \<open>
  \<open>main\<close> of \<open>Crawler/get-pip.py\<close> (lines 179 to 198): unpack the archive into a temporary directory,
  put it in front of \<open>sys.path\<close>, run \<open>bootstrap\<close> there, and remove the directory whatever happened.
  The properties here are those of the whole script.  \<open>head\<close> stands for the lines 202 to 17056 of
  the literal \<open>DATA\<close>.
\<close>

section \<open>Definitions from the code\<close>

text \<open>\<open>from base64 import b85decode\<close>, or the decoder of the script.\<close>

definition the_b85decode :: "host \<Rightarrow> bytes \<Rightarrow> bytes res" where
  "the_b85decode h = (case native_b85decode h of Some f \<Rightarrow> f | None \<Rightarrow> b85decode (py_major h))"

definition make_tmpdir :: "host \<Rightarrow> (frame \<times> world, string) exec" where
  "make_tmpdir h =
     after (on_world (mkdtemp h)) (\<lambda>d.
     after (update (\<lambda>(f, w). (f\<lparr>f_tmpdir := Some d\<rparr>, w))) (\<lambda>_. ret d))"

definition unpack :: "host \<Rightarrow> string list \<Rightarrow> string \<Rightarrow> (world, unit) exec" where
  "unpack h head d =
     (let pip_zip = path_join d ''pip.zip'' in
      after (open_wb h d pip_zip) (\<lambda>_.
      after (of_res (the_b85decode h (payload head))) (\<lambda>b.
      after (write_bytes h pip_zip b) (\<lambda>_.
      update (\<lambda>w. w\<lparr>sys_path := pip_zip # sys_path w\<rparr>)))))"

definition remove_tmpdir :: "host \<Rightarrow> (frame \<times> world, unit) exec" where
  "remove_tmpdir h s =
     (if truthy (f_tmpdir (fst s)) then on_world (rmtree h (the (f_tmpdir (fst s)))) s else (Inr (), s))"

definition main :: "host \<Rightarrow> string list \<Rightarrow> (world, unit) exec" where
  "main h head =
     with_frame \<lparr>f_tmpdir = None, f_delete = False\<rparr>
       (finally_do
          (after (make_tmpdir h) (\<lambda>d.
           after (on_world (unpack h head d)) (\<lambda>_.
           on_world (bootstrap h (Some d)))))
          (remove_tmpdir h))"

text \<open>\<open>if __name__ == "__main__": main()\<close>\<close>

definition script :: "host \<Rightarrow> string list \<Rightarrow> string \<Rightarrow> (world, unit) exec" where
  "script h head module_name = (if module_name = ''__main__'' then main h head else ret ())"

section \<open>Running it\<close>

definition run_in :: "host \<Rightarrow> string list \<Rightarrow> string \<Rightarrow> (world, unit) exec" where
  "run_in h head d = after (unpack h head d) (\<lambda>_. bootstrap h (Some d))"

lemma body_given:
  "after (on_world (unpack h head d)) (\<lambda>_. on_world (bootstrap h (Some d))) (f, w) =
     (fst (run_in h head d w), (f, snd (run_in h head d w)))"
  by (simp add: after_def on_world_eq run_in_def split: prod.splits sum.splits)

lemma main_eq:
  "main h head w =
     (case mkdtemp h w of
        (Inl e, w1) \<Rightarrow> (Inl e, w1)
      | (Inr d, w1) \<Rightarrow> (if d = [] then run_in h head d w1
                        else finally_do (run_in h head d) (rmtree h d) w1))"
proof (cases "mkdtemp h w")
  case (Pair r w1)
  let ?f = "\<lparr>f_tmpdir = None, f_delete = False\<rparr>"
  show ?thesis
  proof (cases r)
    case (Inl e)
    then have "make_tmpdir h (?f, w) = (Inl e, (?f, w1))"
      using Pair by (simp add: make_tmpdir_def after_def on_world_eq)
    then show ?thesis using Pair Inl
      by (simp add: main_def with_frame_def finally_do_def after_cases(1) remove_tmpdir_def)
  next
    case (Inr d)
    then have "make_tmpdir h (?f, w) = (Inr d, (?f\<lparr>f_tmpdir := Some d\<rparr>, w1))"
      using Pair by (simp add: make_tmpdir_def after_def on_world_eq update_def ret_def)
    then show ?thesis using Pair Inr
      by (simp add: main_def with_frame_def finally_do_def after_cases(2) body_given remove_tmpdir_def
          on_world_eq split: prod.split sum.split)
  qed
qed

lemma run_in_raises: "\<exists>e w'. run_in h head d w = (Inl e, w')"
  using bootstrap_raises by (auto simp: run_in_def after_def split: prod.split sum.split)

section \<open>Cleaning up\<close>

definition deletable :: "host \<Rightarrow> string \<Rightarrow> bool" where
  "deletable h d \<longleftrightarrow> (\<forall>p. p = d \<or> below d p \<longrightarrow> \<not> undeletable h p)"

lemma deletable_not_stuck: "deletable h d \<Longrightarrow> \<not> stuck_in h w d"
  by (auto simp: deletable_def stuck_in_def list_ex_iff)

lemma mkdtemp_Inr: "mkdtemp_name h w = Inr d \<Longrightarrow> mkdtemp h w = (Inr d, w\<lparr>dirs := d # dirs w\<rparr>)"
  by (simp add: mkdtemp_def)

text \<open>
  C1. The temporary directory never survives.  Whatever happens in between, an error of the decoder, of an
  import or of pip included, when the script ends the directory it created is gone with
  everything in it, provided the system lets it be deleted.
\<close>

theorem main_removes_tmpdir:
  assumes "mkdtemp_name h w = Inr d" "d \<noteq> []" "deletable h d"
  shows "removed d (snd (main h head w))"
proof -
  have "main h head w = finally_do (run_in h head d) (rmtree h d) (w\<lparr>dirs := d # dirs w\<rparr>)"
    using assms(2) by (simp add: main_eq mkdtemp_Inr [OF assms(1)])
  then show ?thesis using tmp.finally_clean [OF deletable_not_stuck [OF assms(3)]] by simp
qed

lemma demo_deletable: "deletable demo_host d" "deletable demo_host_pip d"
  by (simp_all add: deletable_def demo_host_pip_def)

theorem main_removes_tmpdir_witness: "removed ''/tmp/t'' (snd (main demo_host [] empty_world))"
  by (rule main_removes_tmpdir) (simp_all add: demo_deletable)

lemma main_fst:
  "mkdtemp_name h w = Inr d \<Longrightarrow> fst (main h head w) = fst (run_in h head d (w\<lparr>dirs := d # dirs w\<rparr>))"
  using tmp.finally_outcome [of "run_in h head d" h d] by (simp add: main_eq mkdtemp_Inr)

text \<open>
  C38. How the script ends, always in an exception.  When no temporary directory can be made, it is the error of
  \<open>mkdtemp\<close>; otherwise it is that of unpacking and \<open>bootstrap\<close>, so cleaning up hides nothing.
\<close>

theorem main_outcome:
  "(\<exists>e. fst (main h head w) = Inl e)
   \<and> fst (main h head w) = (case mkdtemp_name h w of
        Inl e \<Rightarrow> Inl e
      | Inr d \<Rightarrow> fst (run_in h head d (w\<lparr>dirs := d # dirs w\<rparr>)))"
proof (cases "mkdtemp_name h w")
  case (Inl e)
  then show ?thesis by (simp add: main_eq mkdtemp_def)
next
  case (Inr d)
  then show ?thesis
    using main_fst [OF Inr, of head] run_in_raises [of h head d "w\<lparr>dirs := d # dirs w\<rparr>"] by auto
qed

section \<open>Files outside the directory\<close>

lemma map_of_filter_fst:
  "\<not> below d p \<Longrightarrow> map_of (filter (\<lambda>(q, b). below d q \<longrightarrow> u q) al) p = map_of al p"
  by (induction al) auto

lemma rmtree_outside: "\<not> below d p \<Longrightarrow> map_of (files (snd (rmtree h d w))) p = map_of (files w) p"
  by (simp add: rmtree_def map_of_filter_fst)

text \<open>\<open>m\<close> changes no file but those of \<open>S\<close>.\<close>

definition writes_only :: "string set \<Rightarrow> (world, 'a) exec \<Rightarrow> bool" where
  "writes_only S m \<longleftrightarrow> (\<forall>w p. p \<notin> S \<longrightarrow> map_of (files (snd (m w))) p = map_of (files w) p)"

lemma writes_only_mono: "writes_only S m \<Longrightarrow> S \<subseteq> T \<Longrightarrow> writes_only T m"
  by (auto simp: writes_only_def)

lemma writes_only_files: "(\<And>w. files (snd (m w)) = files w) \<Longrightarrow> writes_only S m"
  by (simp add: writes_only_def)

lemma writes_only_after:
  "writes_only S m \<Longrightarrow> (\<And>x. writes_only S (f x)) \<Longrightarrow> writes_only S (after m f)"
  by (auto simp: writes_only_def after_def split: prod.split sum.split) (metis snd_conv)+

lemma writes_only_basic:
  "writes_only S (of_res r)" "writes_only S (sys_exit n)" "writes_only S (mkdtemp h)" "writes_only S (ret x)"
  "writes_only S register_install" "writes_only S (raise_exc e)"
  by (rule writes_only_files; simp add: exec_unfold sys_exit_def mkdtemp_def register_install_def split: sum.split)+

lemma writes_only_update: "(\<And>w. files (f w) = files w) \<Longrightarrow> writes_only S (update f)"
  by (rule writes_only_files) (simp add: update_def)

lemma writes_only_open:
  "p \<in> S \<Longrightarrow> writes_only S (open_wb h d p)" "p \<in> S \<Longrightarrow> writes_only S (write_bytes h p b)"
  by (auto simp: writes_only_def open_wb_def write_bytes_def update_conv' split: option.split)

lemma writes_only_imports:
  assumes "\<And>ms. writes_only S (run_module h ms)" "\<And>ms. writes_only S (site_module h ms)"
  shows "writes_only S (import_module h ms)" "writes_only S (probe h m i)"
    and "writes_only S (in_turn (import_module h) mss)"
proof -
  show i: "writes_only S (import_module h ms)" for ms
    using assms by (auto simp: writes_only_def import_module_def)
  show "writes_only S (in_turn (import_module h) mss)"
    by (induction mss) (auto intro: writes_only_after writes_only_basic i)
  have "writes_only S (after (import_module h [m]) (\<lambda>_. ret False))"
    by (intro writes_only_after i writes_only_basic)
  moreover have "snd (except_ImportError n y w) = snd (n w)" for n :: "(world, bool) exec" and y w
    by (auto simp: except_ImportError_def split: prod.split sum.split pyexc.split)
  ultimately have "writes_only S (except_ImportError (after (import_module h [m]) (\<lambda>_. ret False)) True)"
    by (simp add: writes_only_def)
  then show "writes_only S (probe h m i)" by (cases i) (simp_all add: probe_def [abs_def] writes_only_basic)
qed

lemma run_in_only:
  assumes run: "\<And>ms. writes_only S (run_module h ms)" "\<And>ms. writes_only S (site_module h ms)"
    and data: "\<And>ms n. writes_only S (get_data h ms n)" and pip: "\<And>args. writes_only S (pip_main h args)"
    and S: "{p. below d p} \<subseteq> S"
  shows "writes_only S (run_in h head d)"
proof -
  have paths: "path_join d ''pip.zip'' \<in> S" "path_join d ''cacert.pem'' \<in> S"
    using S path_join_below [of "''pip.zip''" d] path_join_below [of "''cacert.pem''" d] by auto
  note basic = writes_only_after writes_only_basic writes_only_open writes_only_update paths writes_only_imports [OF run]
  have u: "writes_only S (unpack h head d)"
    unfolding unpack_def Let_def by (intro basic) simp
  have "writes_only S (get_cert h)"
    unfolding get_cert_def by (intro writes_only_after data) (simp split: option.split add: writes_only_basic)
  then have c: "writes_only S (write_cert h d)"
    unfolding write_cert_def Let_def by (intro basic) simp_all
  have "writes_only S (prepare h)"
    unfolding prepare_def import_pip_def install_args_def by (intro basic) (simp add: split_beta basic)
  then have "writes_only S (bootstrap h (Some d))"
    unfolding bootstrap_given run_pip_def by (intro basic c pip)
  then show ?thesis unfolding run_in_def by (intro basic u)
qed

text \<open>
  C9. The script itself writes only inside its temporary directory.  Let \<open>S\<close> hold the files that the code it runs
  may write: the imported modules (of the archive and of the platform), \<open>pkgutil.get_data\<close> and pip.  Then
  no file outside of \<open>S\<close> and of the temporary directory is created, changed or deleted.
\<close>

theorem main_writes_inside_tmpdir:
  assumes "mkdtemp_name h w = Inr d"
    and "\<And>ms. writes_only S (run_module h ms)" "\<And>ms. writes_only S (site_module h ms)"
    and "\<And>ms n. writes_only S (get_data h ms n)" "\<And>args. writes_only S (pip_main h args)"
    and "p \<notin> S" "\<not> below d p"
  shows "map_of (files (snd (main h head w))) p = map_of (files w) p"
proof -
  let ?v = "w\<lparr>dirs := d # dirs w\<rparr>" and ?T = "S \<union> {p. below d p}"
  have "writes_only ?T (run_in h head d)"
    by (rule run_in_only) (auto intro: assms(2-5) [THEN writes_only_mono])
  then have "map_of (files (snd (run_in h head d ?v))) p = map_of (files w) p"
    using assms(6,7) by (simp add: writes_only_def)
  moreover have "snd (main h head w) = (if d = [] then snd (run_in h head d ?v)
      else snd (rmtree h d (snd (run_in h head d ?v))))"
    by (simp add: main_eq mkdtemp_Inr [OF assms(1)] tmp.finally_state)
  ultimately show ?thesis using rmtree_outside [OF assms(7)] by (simp split: if_split_asm)
qed

theorem main_writes_inside_tmpdir_witness:
  "map_of (files (snd (main demo_host_pip [] empty_world))) ''/etc/passwd'' = map_of (files empty_world) ''/etc/passwd''"
proof (rule main_writes_inside_tmpdir [where d = "''/tmp/t''" and S = "{pyc, ''/tmp/t/log''}"])
  have "\<not> below ''/tmp/t'' ''/etc/passwd''" by (simp add: below_def as_dir_def)
  then show "\<not> below ''/tmp/t'' ''/etc/passwd''" .
  show "writes_only {pyc, ''/tmp/t/log''} (site_module demo_host_pip ms)" for ms
    by (simp add: writes_only_def update_conv')
  show "writes_only {pyc, ''/tmp/t/log''} (pip_main demo_host_pip args)" for args
    by (simp add: writes_only_def update_conv')
qed (simp_all add: writes_only_def pyc_def)

section \<open>The archive is refused\<close>

lemma main_payload_error:
  assumes "mkdtemp_name h w = Inr d" "open_fault h (path_join d ''pip.zip'') = None"
    and "the_b85decode h (payload head) = Inl e"
  shows "fst (main h head w) = Inl e \<and> sys_path (snd (main h head w)) = sys_path w
    \<and> commands_dict (snd (main h head w)) = commands_dict w \<and> cert_cell (snd (main h head w)) = cert_cell w"
proof -
  let ?v = "w\<lparr>dirs := d # dirs w\<rparr>"
  have "run_in h head d ?v = (Inl e, ?v\<lparr>files := AList.update (path_join d ''pip.zip'') [] (files w)\<rparr>)"
    using assms(2,3) by (simp add: run_in_def unpack_def Let_def after_def open_wb_def of_res_def)
  then show ?thesis
    by (cases "d = []") (auto simp: main_eq mkdtemp_Inr [OF assms(1)] finally_do_def rmtree_def)
qed

text \<open>
  C10. When the decoder refuses the payload, the script ends with its error before anything of the
  archive is run: \<open>sys.path\<close>, the commands of pip and the certificate are as they were.
\<close>

theorem main_bad_payload:
  assumes "mkdtemp_name h w = Inr d" "open_fault h (path_join d ''pip.zip'') = None"
    and "the_b85decode h (payload head) = Inl e"
  shows "fst (main h head w) = Inl e \<and> sys_path (snd (main h head w)) = sys_path w
    \<and> commands_dict (snd (main h head w)) = commands_dict w \<and> cert_cell (snd (main h head w)) = cert_cell w"
  using assms by (rule main_payload_error)

theorem main_bad_payload_witness:
  "fst (main (demo_host\<lparr>native_b85decode := Some (\<lambda>_. Inl (ValueError (BadChar 0)))\<rparr>) [] empty_world)
     = Inl (ValueError (BadChar 0))
   \<and> sys_path (snd (main (demo_host\<lparr>native_b85decode := Some (\<lambda>_. Inl (ValueError (BadChar 0)))\<rparr>) [] empty_world))
     = sys_path empty_world
   \<and> commands_dict (snd (main (demo_host\<lparr>native_b85decode := Some (\<lambda>_. Inl (ValueError (BadChar 0)))\<rparr>) [] empty_world))
     = commands_dict empty_world
   \<and> cert_cell (snd (main (demo_host\<lparr>native_b85decode := Some (\<lambda>_. Inl (ValueError (BadChar 0)))\<rparr>) [] empty_world))
     = cert_cell empty_world"
  by (rule main_bad_payload) (simp_all add: the_b85decode_def)

section \<open>The archive is used\<close>

definition pip_zip :: "string \<Rightarrow> string" where
  "pip_zip d = path_join d ''pip.zip''"

text \<open>The world after the archive has been written and put in front of \<open>sys.path\<close>.\<close>

definition unpacked :: "string \<Rightarrow> bytes \<Rightarrow> world \<Rightarrow> world" where
  "unpacked d z w = w\<lparr>dirs := d # dirs w, files := AList.update (pip_zip d) z (files w),
     sys_path := pip_zip d # sys_path w\<rparr>"

lemma update_twice: "AList.update k x (AList.update k y al) = AList.update k x al"
  by (induction al) auto

lemma unpack_ok:
  assumes "open_fault h (pip_zip d) = None" "write_fault h (pip_zip d) = None"
    and "the_b85decode h (payload head) = Inr z"
  shows "unpack h head d (w\<lparr>dirs := d # dirs w\<rparr>) = (Inr (), unpacked d z w)"
  using assms
  by (simp add: unpack_def Let_def after_def open_wb_def of_res_def write_bytes_def update_def
      pip_zip_def [symmetric] unpacked_def update_twice)

lemma unpacked_simps [simp]:
  "sys_path (unpacked d z w) = pip_zip d # sys_path w" "map_of (files (unpacked d z w)) (pip_zip d) = Some z"
  "d \<in> set (dirs (unpacked d z w))"
  by (simp_all add: unpacked_def update_conv')

definition no_archives :: "world \<Rightarrow> bool" where
  "no_archives w \<longleftrightarrow> list_all (\<lambda>p. map_of (files w) p = None) (sys_path w)"

lemma archive_has_other:
  assumes "zip_directory z = Inr es" "find_module es (hd ms) = None"
    and "list_all (\<lambda>p. map_of (files w) p = None) ps"
  shows "\<not> archive_has (unpacked d z w) ms ps"
  using assms(3)
  by (induction ps) (auto simp: assms(1,2) unpacked_def update_conv' split: option.splits)

subsection \<open>Imports from the archive\<close>

lemma toc_no_platform: "m \<in> {''setuptools'', ''wheel''} \<Longrightarrow> find_module pip_toc m = None"
proof (rule ccontr)
  assume m: "m \<in> {''setuptools'', ''wheel''}" and "find_module pip_toc m \<noteq> None"
  from this(2) have "m = ''pip''" by (rule toc_only_pip) (use m in auto)
  then show False using m by simp
qed

lemma pip_imports_found:
  "ms \<in> set pip_imports \<Longrightarrow> find_module pip_toc (hd ms) \<noteq> None \<and> import_path pip_toc [] ms"
  using toc_imports toc_find_package [of "''pip''"] toc_names(1) by (auto simp: pip_imports_def)

lemma import_from_archive:
  assumes "zip_directory z = Inr pip_toc" "ms \<in> set pip_imports" "keeps d (unpacked d z w) v"
  shows "import_module h ms v = run_module h ms v"
  using pip_imports_found [OF assms(2)] by (auto simp: import_module_keeps [OF assms(3)] assms(1))

lemma imports_from_archive:
  assumes z: "zip_directory z = Inr pip_toc"
    and run: "\<And>ms v. ms \<in> set pip_imports \<Longrightarrow> keeps d v (snd (run_module h ms v))"
  shows "set mss \<subseteq> set pip_imports \<Longrightarrow> keeps d (unpacked d z w) v \<Longrightarrow>
    in_turn (import_module h) mss v = in_turn (run_module h) mss v
    \<and> keeps d (unpacked d z w) (snd (in_turn (run_module h) mss v))"
proof (induction mss arbitrary: v)
  case (Cons ms mss)
  then have i: "import_module h ms v = run_module h ms v" using import_from_archive [OF z] by simp
  obtain r v' where r: "run_module h ms v = (r, v')" by (cases "run_module h ms v")
  then have "keeps d (unpacked d z w) v'" using Cons.prems run [of ms v] keeps_trans by auto
  then show ?case using Cons i r by (cases r) (simp_all add: after_def)
qed (simp add: ret_def)

text \<open>
  C8. The imports of \<open>bootstrap\<close>, \<open>import pip\<close>, \<open>from pip.commands.install import\<close> and \<open>from pip.req import\<close>, come
  from the embedded archive.  For every acceptable text of lines 202 to 17056, once the archive is unpacked and
  first on \<open>sys.path\<close>, whatever the platform has, they run the modules of the archive one after the other until
  one raises, if running a module leaves alone \<open>sys.path\<close>, the files it names and the temporary directory (\<open>keeps\<close>).
  The package and the file of the certificate that \<open>bootstrap\<close> asks for are in the archive too.  (setuptools and wheel,
  which it looks for afterwards, are not.)
\<close>

theorem payload_imports_resolve:
  assumes "py_major h \<in> {2, 3}" "head_ok (py_major h) head"
    and "\<And>ms v. ms \<in> set pip_imports \<Longrightarrow> keeps d v (snd (run_module h ms v))"
  shows "\<exists>z es. b85decode (py_major h) (payload head) = Inr z \<and> zip_directory z = Inr es
    \<and> import_pip h (unpacked d z w) = in_turn (run_module h) pip_imports (unpacked d z w)
    \<and> import_path es [] cert_package
    \<and> zip_lookup es (concat (map (\<lambda>m. m @ ''/'') cert_package) @ cert_name) \<noteq> None
    \<and> find_module es ''setuptools'' = None \<and> find_module es ''wheel'' = None"
proof -
  obtain z where z: "b85decode (py_major h) (payload head) = Inr z" "zip_directory z = Inr pip_toc"
    using payload_archive [OF assms(1,2)] by blast
  have "import_pip h (unpacked d z w) = in_turn (run_module h) pip_imports (unpacked d z w)"
    using imports_from_archive [OF z(2) assms(3), of pip_imports w "unpacked d z w"] by (simp add: import_pip_def)
  moreover have "import_path pip_toc [] cert_package" unfolding cert_package_def by (rule toc_imports)
  moreover have "zip_lookup pip_toc (concat (map (\<lambda>m. m @ ''/'') cert_package) @ cert_name) \<noteq> None"
    unfolding zip_lookup_iff cert_package_def cert_name_def using toc_names(7) by simp
  moreover have "find_module pip_toc ''setuptools'' = None" "find_module pip_toc ''wheel'' = None"
    by (simp_all add: toc_no_platform)
  ultimately show ?thesis using z by blast
qed

theorem payload_imports_resolve_witness:
  "\<exists>z es. b85decode 3 (payload (replicate 16855 (replicate 79 (CHR ''0'')))) = Inr z \<and> zip_directory z = Inr es
    \<and> import_pip demo_host (unpacked ''/tmp/t'' z empty_world)
        = in_turn (run_module demo_host) pip_imports (unpacked ''/tmp/t'' z empty_world)
    \<and> import_path es [] cert_package
    \<and> zip_lookup es (concat (map (\<lambda>m. m @ ''/'') cert_package) @ cert_name) \<noteq> None
    \<and> find_module es ''setuptools'' = None \<and> find_module es ''wheel'' = None"
proof -
  have "head_ok (py_major demo_host) (replicate 16855 (replicate 79 (CHR ''0'')))"
    using zero_head_ok by (simp only: demo_host_simps)
  from payload_imports_resolve [OF _ this, of "''/tmp/t''" empty_world] show ?thesis by (simp only: demo_host_simps) simp
qed

subsection \<open>The successful run\<close>

text \<open>What the platform says to the search for a package: it is there, or \<open>ImportError\<close>.\<close>

definition answers :: "bool \<Rightarrow> unit res \<Rightarrow> bool" where
  "answers has r \<longleftrightarrow> (case r of Inr _ \<Rightarrow> has | Inl e \<Rightarrow> \<not> has \<and> is_ImportError e)"

definition pip_args :: "host \<Rightarrow> (string \<Rightarrow> bool) \<Rightarrow> string list" where
  "pip_args h has = [''install'', ''--upgrade''] @ user_args h @
     (if names h (user_args h) ''pip'' then [] else [''pip'']) @
     (if declined_setuptools h \<or> has ''setuptools'' \<or> names h (user_args h) ''setuptools''
      then [] else [''setuptools'']) @
     (if declined_wheel h \<or> has ''wheel'' \<or> names h (user_args h) ''wheel'' then [] else [''wheel''])"

lemma platform_import:
  assumes "zip_directory z = Inr pip_toc" "no_archives w" "keeps d (unpacked d z w) v" "m \<in> {''setuptools'', ''wheel''}"
  shows "import_module h [m] v = site_module h [m] v"
proof -
  have none: "find_module pip_toc m = None" using assms(4) by (rule toc_no_platform)
  then have "\<not> archive_has (unpacked d z w) [m] (sys_path w)"
    using archive_has_other [OF assms(1), of "[m]" w "sys_path w" d] assms(2) by (simp add: no_archives_def)
  then show ?thesis using none by (simp add: import_module_keeps [OF assms(3)] assms(1))
qed

lemma install_args_platform:
  assumes z: "zip_directory z = Inr pip_toc" "no_archives w" and v: "keeps d (unpacked d z w) v"
    and site: "\<And>m v. m \<in> {''setuptools'', ''wheel''} \<Longrightarrow> answers (has m) (fst (site_module h [m] v))"
      "\<And>m v. m \<in> {''setuptools'', ''wheel''} \<Longrightarrow> calm d v (snd (site_module h [m] v))"
  shows "\<exists>args v'. install_args h v = (Inr args, v') \<and> [''install'', ''--upgrade''] @ args = pip_args h has \<and> calm d v v'"
proof -
  let ?s = "after_setuptools h v"
  note import = platform_import [OF z]
  have s: "calm d v ?s"
    using site(2) [of "''setuptools''" v] by (simp add: after_setuptools_def import [OF v])
  then have ls: "keeps d (unpacked d z w) ?s" using keeps_trans [OF v] by (simp add: calm_def)
  have "calm d ?s (after_wheel h v)"
    using site(2) [of "''wheel''" ?s] by (simp add: after_wheel_def import [OF ls])
  then have "calm d v (after_wheel h v)" by (rule calm_trans [OF s])
  moreover have "setuptools_failure h v = None" "missing h v ''setuptools'' \<longleftrightarrow> \<not> has ''setuptools''"
    "wheel_failure h v = None" "missing h ?s ''wheel'' \<longleftrightarrow> \<not> has ''wheel''"
    using site(1) [of "''setuptools''" v] site(1) [of "''wheel''" ?s]
    by (auto simp: answers_def setuptools_failure_def wheel_failure_def probe_failure_def missing_def
        import [OF v] import [OF ls] split: sum.splits)
  ultimately show ?thesis by (simp add: install_args_eq wanted_def pip_args_def)
qed

lemma in_turn_fst: "(\<And>x v. x \<in> set xs \<Longrightarrow> fst (f x v) = Inr ()) \<Longrightarrow> fst (in_turn f xs v) = Inr ()"
proof (induction xs arbitrary: v)
  case (Cons x xs)
  obtain r v' where r: "f x v = (r, v')" by (cases "f x v")
  then have "r = Inr ()" using Cons.prems [of x v] by simp
  then show ?case using Cons r by (simp add: after_def)
qed (simp add: ret_def)

lemma prepare_unpacked:
  assumes z: "zip_directory z = Inr pip_toc" "no_archives w"
    and run: "\<And>ms v. ms \<in> set pip_imports \<Longrightarrow> fst (run_module h ms v) = Inr ()"
      "\<And>ms v. ms \<in> set pip_imports \<Longrightarrow> keeps d v (snd (run_module h ms v))"
    and site: "\<And>m v. m \<in> {''setuptools'', ''wheel''} \<Longrightarrow> answers (has m) (fst (site_module h [m] v))"
      "\<And>m v. m \<in> {''setuptools'', ''wheel''} \<Longrightarrow> calm d v (snd (site_module h [m] v))"
  shows "\<exists>args u. prepare h (unpacked d z w) = (Inr args, u) \<and> [''install'', ''--upgrade''] @ args = pip_args h has
    \<and> keeps d (unpacked d z w) u \<and> commands_dict u ''install'' = Some ''CertInstallCommand''"
proof -
  let ?u = "unpacked d z w"
  obtain r v where v: "import_pip h ?u = (r, v)" by (cases "import_pip h ?u")
  have i: "import_pip h ?u = in_turn (run_module h) pip_imports ?u" "keeps d ?u v"
    using imports_from_archive [OF z(1) run(2), of pip_imports w ?u] v by (auto simp: import_pip_def)
  have "fst (import_pip h ?u) = Inr ()" unfolding i(1) by (rule in_turn_fst) (rule run(1))
  then have r: "r = Inr ()" using v by simp
  obtain args u where "install_args h (registered v) = (Inr args, u)"
    "[''install'', ''--upgrade''] @ args = pip_args h has" "calm d (registered v) u"
    using install_args_platform [OF z keeps_registered [OF i(2)] site] by blast
  moreover from this(3) have "keeps d ?u u" using keeps_trans [OF keeps_registered [OF i(2)]] by (simp add: calm_def)
  moreover have "prepare h ?u = install_args h (registered v)" by (rule prepare_imported) (simp only: v r)
  moreover have "commands_dict u = commands_dict (registered v)" using calculation(3) by (simp add: calm_def)
  ultimately show ?thesis by simp
qed

lemma cert_zip_differ: "cert_path d \<noteq> pip_zip d"
  by (simp add: cert_path_def pip_zip_def path_join_def)

lemma zip_below: "below d (pip_zip d)"
  by (simp add: pip_zip_def path_join_below)

text \<open>
  C2. The successful run.  Suppose that Python is 2 or 3, and \<open>base64.b85decode\<close>, if there is one, agrees with the
  decoder of the script on the payload; that the lines 202 to 17056 are acceptable (\<open>head_ok\<close>: their number, their
  length, and the decoder takes them); that \<open>mkdtemp\<close>, opening and writing succeed; that no entry of \<open>sys.path\<close>
  is a file; that the modules of pip that \<open>bootstrap\<close> imports run without error and leave alone \<open>sys.path\<close>, the
  files it names and the temporary directory; that the platform has setuptools and wheel (\<open>has\<close>) or answers with \<open>ImportError\<close>; that
  \<open>pkgutil.get_data\<close> returns the certificate; and that these two leave all of this alone, and pip's commands
  and the variable \<open>cert_path\<close> too.  Then the payload decodes, and the script runs the embedded pip once, with the
  arguments of \<open>pip_args\<close>, in a world where \<open>pip.zip\<close> holds the decoded archive and is first on \<open>sys.path\<close>, the
  certificate file is in place and bound, and \<open>install\<close> is the command of the script; it exits with the status
  of that run, or with its exception.
\<close>

theorem main_runs_pip:
  assumes "py_major h \<in> {2, 3}" "head_ok (py_major h) head"
    and "the_b85decode h (payload head) = b85decode (py_major h) (payload head)"
    and "mkdtemp_name h w = Inr d" "\<And>p. open_fault h p = None" "\<And>p. write_fault h p = None"
    and "no_archives w"
    and "\<And>ms v. ms \<in> set pip_imports \<Longrightarrow> fst (run_module h ms v) = Inr ()"
    and "\<And>ms v. ms \<in> set pip_imports \<Longrightarrow> keeps d v (snd (run_module h ms v))"
    and "\<And>m v. m \<in> {''setuptools'', ''wheel''} \<Longrightarrow> answers (has m) (fst (site_module h [m] v))"
    and "\<And>m v. m \<in> {''setuptools'', ''wheel''} \<Longrightarrow> calm d v (snd (site_module h [m] v))"
    and "\<And>v. fst (get_data h cert_package cert_name v) = Inr (Some b)"
    and "\<And>v. calm d v (snd (get_data h cert_package cert_name v))"
  shows "\<exists>v z. b85decode (py_major h) (payload head) = Inr z \<and> zip_directory z = Inr pip_toc
    \<and> map_of (files v) (pip_zip d) = Some z \<and> sys_path v = pip_zip d # sys_path w
    \<and> map_of (files v) (cert_path d) = Some b \<and> cert_cell v = Some (cert_path d)
    \<and> commands_dict v ''install'' = Some ''CertInstallCommand''
    \<and> fst (main h head w) = (case fst (pip_main h (pip_args h has) v) of
         Inr status \<Rightarrow> Inl (SystemExit status) | Inl e \<Rightarrow> Inl e)"
proof -
  obtain z where z: "b85decode (py_major h) (payload head) = Inr z" "zip_directory z = Inr pip_toc"
    using payload_archive [OF assms(1,2)] by blast
  let ?u = "unpacked d z w"
  have unpack: "unpack h head d (w\<lparr>dirs := d # dirs w\<rparr>) = (Inr (), ?u)"
    by (rule unpack_ok) (use assms z in simp_all)
  obtain args u where u: "prepare h ?u = (Inr args, u)" "[''install'', ''--upgrade''] @ args = pip_args h has"
    "keeps d ?u u" "commands_dict u ''install'' = Some ''CertInstallCommand''"
    using prepare_unpacked [OF z(2) assms(7-11)] by blast
  then have "d \<in> set (dirs u)" by (simp add: keeps_def)
  from bootstrap_calls_pip [OF u(1) this assms(5,6,12,13)]
  obtain v where v: "bootstrap h (Some d) ?u = after (pip_main h (pip_args h has)) sys_exit v"
    "map_of (files v) (cert_path d) = Some b" "cert_cell v = Some (cert_path d)" "commands_dict v = commands_dict u"
    "sys_path v = sys_path u" "\<forall>p. p \<noteq> cert_path d \<and> below d p \<longrightarrow> map_of (files v) p = map_of (files u) p"
    unfolding u(2) by blast
  have "fst (main h head w) = fst (after (pip_main h (pip_args h has)) sys_exit v)"
    using unpack v(1) by (simp add: main_fst [OF assms(4)] run_in_def after_cases)
  also have "\<dots> = (case fst (pip_main h (pip_args h has) v) of
         Inr status \<Rightarrow> Inl (SystemExit status) | Inl e \<Rightarrow> Inl e)"
    by (simp add: after_def sys_exit_def raise_exc_def split: prod.split sum.split)
  finally have run: "fst (main h head w) = (case fst (pip_main h (pip_args h has) v) of
         Inr status \<Rightarrow> Inl (SystemExit status) | Inl e \<Rightarrow> Inl e)" .
  have "map_of (files v) (pip_zip d) = map_of (files ?u) (pip_zip d)"
    using v(6) u(3) cert_zip_differ [of d] zip_below [of d] by (simp add: keeps_def)
  moreover have "sys_path v = pip_zip d # sys_path w" using v(5) u(3) by (simp add: keeps_def)
  ultimately show ?thesis using z v(2-4) u(4) run by (intro exI [of _ v] exI [of _ z]) simp
qed

theorem main_runs_pip_witness:
  "\<exists>v z. b85decode (py_major demo_host) (payload (replicate 16855 (replicate 79 (CHR ''0'')))) = Inr z
    \<and> zip_directory z = Inr pip_toc
    \<and> map_of (files v) (pip_zip ''/tmp/t'') = Some z \<and> sys_path v = pip_zip ''/tmp/t'' # sys_path empty_world
    \<and> map_of (files v) (cert_path ''/tmp/t'') = Some ''cert'' \<and> cert_cell v = Some (cert_path ''/tmp/t'')
    \<and> commands_dict v ''install'' = Some ''CertInstallCommand''
    \<and> fst (main demo_host (replicate 16855 (replicate 79 (CHR ''0''))) empty_world) =
       (case fst (pip_main demo_host (pip_args demo_host (\<lambda>_. False)) v) of
         Inr status \<Rightarrow> Inl (SystemExit status) | Inl e \<Rightarrow> Inl e)"
proof (rule main_runs_pip)
  show "head_ok (py_major demo_host) (replicate 16855 (replicate 79 (CHR ''0'')))"
    using zero_head_ok by (simp only: demo_host_simps)
  show "the_b85decode demo_host (payload (replicate 16855 (replicate 79 (CHR ''0''))))
      = b85decode (py_major demo_host) (payload (replicate 16855 (replicate 79 (CHR ''0''))))"
    unfolding the_b85decode_def demo_host_simps option.case by (rule refl)
  show "no_archives empty_world" by (simp add: no_archives_def empty_world_def)
qed (simp_all add: answers_def is_ImportError_def)

end
