(* ===== verification/Generator.thy ===== *)
theory Generator
  imports Prelude
begin

text \<open>
  Python generators and the spider middleware of \<open>Crawler/tutorial/tutorial/middlewares.py\<close>.  A
  generator is what it does when it is consumed: it stops, raises, or yields a value and goes on; it
  may yield for ever, so the type is coinductive.
\<close>

section \<open>Generators\<close>

codatatype 'a gen = Stop | Raise pyexc | Yield 'a "'a gen"

fun of_list :: "'a list \<Rightarrow> 'a gen" where
  "of_list [] = Stop"
| "of_list (x # xs) = Yield x (of_list xs)"

section \<open>The middleware\<close>

text \<open>\<open>for i in result: yield i\<close>\<close>

primcorec for_yield :: "'a gen \<Rightarrow> 'a gen" where
  "for_yield g = (case g of Stop \<Rightarrow> Stop | Raise e \<Rightarrow> Raise e | Yield x g' \<Rightarrow> Yield x (for_yield g'))"

text \<open>
  The object connects its method \<open>spider_opened\<close> to a signal of the crawler; the crawler keeps the
  receivers of each signal.  Methods that return nothing return \<open>None\<close>.
\<close>

datatype signal = SpiderOpened | SpiderClosed | OtherSignal string

datatype receiver = MiddlewareSpiderOpened nat | OtherReceiver string

record crawler =
  receivers :: "(signal \<times> receiver) list"
  next_object :: nat

definition from_crawler :: "crawler \<Rightarrow> nat \<times> crawler" where
  "from_crawler c =
     (let s = next_object c; c' = c\<lparr>next_object := Suc s\<rparr>
      in (s, c'\<lparr>receivers := receivers c' @ [(SpiderOpened, MiddlewareSpiderOpened s)]\<rparr>))"

definition process_spider_input :: "'response \<Rightarrow> 'spider \<Rightarrow> 'r option res" where
  "process_spider_input response spider = Inr None"

definition process_spider_output :: "'response \<Rightarrow> 'a gen \<Rightarrow> 'spider \<Rightarrow> 'a gen" where
  "process_spider_output response result spider = for_yield result"

definition process_spider_exception :: "'response \<Rightarrow> pyexc \<Rightarrow> 'spider \<Rightarrow> 'a gen option" where
  "process_spider_exception response exception spider = None"

definition process_start_requests :: "'a gen \<Rightarrow> 'spider \<Rightarrow> 'a gen" where
  "process_start_requests start_requests spider = for_yield start_requests"

definition spider_opened :: "string \<Rightarrow> string list \<Rightarrow> string list" where
  "spider_opened spider_name log = log @ [''Spider opened: '' @ spider_name]"

section \<open>Lemmas\<close>

lemma for_yield_simps [simp]:
  "for_yield Stop = Stop" "for_yield (Raise e) = Raise e" "for_yield (Yield x g) = Yield x (for_yield g)"
  by (subst for_yield.code; simp)+

lemma for_yield_id: "for_yield g = g"
proof (coinduction arbitrary: g rule: gen.coinduct_strong)
  case (Eq_gen g)
  show ?case by (cases g) auto
qed

lemma for_yield_eq_id: "for_yield = id"
  by (simp add: fun_eq_iff for_yield_id)

text \<open>
  The chain of middlewares of a crawl: each gets the generator of the one before.
\<close>

definition through :: "('a gen \<Rightarrow> 'a gen) list \<Rightarrow> 'a gen \<Rightarrow> 'a gen" where
  "through ms g = fold (\<lambda>m g. m g) ms g"

lemma through_insert: "m = id \<Longrightarrow> through (xs @ m # ys) = through (xs @ ys)"
  by (auto simp: through_def fun_eq_iff)

text \<open>
  C40. The middleware is transparent.  Wherever it stands in a chain of middlewares, what comes out is what
  would come out without it, for results and for start requests: the same values and the same
  exception at the same place, also for generators that do not end.
\<close>

theorem middleware_transparent:
  "through (xs @ (\<lambda>g. process_spider_output response g spider) # ys) g = through (xs @ ys) g
   \<and> through (xs @ (\<lambda>g. process_start_requests g spider) # ys) r = through (xs @ ys) r"
  by (simp add: process_spider_output_def process_start_requests_def through_insert [OF for_yield_eq_id])

definition is_middleware :: "receiver \<Rightarrow> bool" where
  "is_middleware r = (case r of MiddlewareSpiderOpened i \<Rightarrow> True | _ \<Rightarrow> False)"

definition crawler_ok :: "crawler \<Rightarrow> bool" where
  "crawler_ok c \<longleftrightarrow>
     list_all (\<lambda>(s, r). case r of MiddlewareSpiderOpened i \<Rightarrow> i < next_object c \<and> s = SpiderOpened | _ \<Rightarrow> True)
       (receivers c)
     \<and> distinct (filter is_middleware (map snd (receivers c)))"

text \<open>
  Creating middlewares keeps the receivers of a crawler in order: each new one is registered once,
  for the opening of a spider and for nothing else, behind those that were there, and no two share
  a receiver.
\<close>

theorem from_crawler_keeps_ok:
  assumes "crawler_ok c" "from_crawler c = (s, c')"
  shows "crawler_ok c' \<and> receivers c' = receivers c @ [(SpiderOpened, MiddlewareSpiderOpened s)]
    \<and> MiddlewareSpiderOpened s \<notin> snd ` set (receivers c)"
proof -
  have c': "s = next_object c" "next_object c' = Suc s"
      "receivers c' = receivers c @ [(SpiderOpened, MiddlewareSpiderOpened s)]"
    using assms(2) by (auto simp: from_crawler_def Let_def)
  have new: "MiddlewareSpiderOpened s \<notin> snd ` set (receivers c)"
    using assms(1) c'(1) by (fastforce simp: crawler_ok_def list_all_iff)
  have "list_all (\<lambda>(s, r). case r of MiddlewareSpiderOpened i \<Rightarrow> i < Suc (next_object c) \<and> s = SpiderOpened | _ \<Rightarrow> True)
       (receivers c)"
    using assms(1) unfolding crawler_ok_def
    by (elim conjE list.pred_mono_strong) (auto split: receiver.splits)
  then have "crawler_ok c'"
    using assms(1) new c' by (auto simp: crawler_ok_def is_middleware_def)
  then show ?thesis using c'(3) new by blast
qed

definition demo_crawler :: "nat \<Rightarrow> (signal \<times> receiver) list \<Rightarrow> crawler" where
  "demo_crawler n rs = \<lparr>receivers = (SpiderClosed, OtherReceiver ''stats'') # rs, next_object = n\<rparr>"

theorem from_crawler_keeps_ok_witness:
  "crawler_ok (demo_crawler 2 [(SpiderOpened, MiddlewareSpiderOpened 1)])
   \<and> receivers (demo_crawler 2 [(SpiderOpened, MiddlewareSpiderOpened 1)])
     = receivers (demo_crawler 1 []) @ [(SpiderOpened, MiddlewareSpiderOpened 1)]
   \<and> MiddlewareSpiderOpened 1 \<notin> snd ` set (receivers (demo_crawler 1 []))"
  by (rule from_crawler_keeps_ok)
     (simp_all add: demo_crawler_def crawler_ok_def from_crawler_def is_middleware_def)

end
