(* ===== verification/Spider.thy ===== *)
theory Spider
  imports Generator
begin

text \<open>
  The spider of \<open>Crawler/tutorial\<close>: the item class of \<open>items.py\<close> and \<open>parse\<close> of
  \<open>spiders/dmoz_spider.py\<close>.  Scrapy is not part of the repository.  Its selectors and the
  assignment to a field of an item are arguments of the model (\<open>scrapy\<close>), and so is the attribute
  \<open>xpath\<close> of the spider object, which \<open>parse\<close> reads.
\<close>

section \<open>Definitions from the code\<close>

type_synonym item = "string \<rightharpoonup> string list"

definition DmozItem_fields :: "string list" where
  "DmozItem_fields = [''title'', ''link'', ''desc'']"

record 'sel scrapy =
  response_xpath :: "string \<Rightarrow> 'sel list"
  sel_xpath :: "'sel \<Rightarrow> string \<Rightarrow> 'sel list"
  sel_extract :: "'sel list \<Rightarrow> string list"
  spider_xpath :: "(string \<Rightarrow> 'sel list) option"
  set_field :: "string list \<Rightarrow> item \<Rightarrow> string \<Rightarrow> string list \<Rightarrow> item res"

record spider_class =
  spider_name :: string
  allowed_domains :: "string list"
  start_urls :: "string list"

definition DemozSpider :: spider_class where
  "DemozSpider = \<lparr>spider_name = ''dmoz'', allowed_domains = [''dmoz.org''],
     start_urls = [''http://write.blog.csdn.net/postlist'']\<rparr>"

definition self_xpath :: "'sel scrapy \<Rightarrow> string \<Rightarrow> 'sel list res" where
  "self_xpath s q = (case spider_xpath s of None \<Rightarrow> Inl (AttributeError ''xpath'') | Some f \<Rightarrow> Inr (f q))"

text \<open>The body of the loop.\<close>

definition parse_li :: "'sel scrapy \<Rightarrow> 'sel \<Rightarrow> item res" where
  "parse_li s sel =
     (let item = (\<lambda>_. None) in
      res_bind (self_xpath s ''a/text()'') (\<lambda>t.
      res_bind (set_field s DmozItem_fields item ''title'' (sel_extract s t)) (\<lambda>item.
      res_bind (set_field s DmozItem_fields item ''link'' (sel_extract s (sel_xpath s sel ''a/@herf''))) (\<lambda>item.
      set_field s DmozItem_fields item ''desc'' (sel_extract s (sel_xpath s sel ''text()''))))))"

fun parse_loop :: "'sel scrapy \<Rightarrow> 'sel list \<Rightarrow> item gen" where
  "parse_loop s [] = Stop"
| "parse_loop s (sel # sels) =
     (case parse_li s sel of Inl e \<Rightarrow> Raise e | Inr item \<Rightarrow> Yield item (parse_loop s sels))"

definition parse :: "'sel scrapy \<Rightarrow> item gen" where
  "parse s = parse_loop s (response_xpath s ''//ul/li'')"

section \<open>Properties\<close>

text \<open>Assigning to a declared field sets it, to any other is a \<open>KeyError\<close>.\<close>

definition item_law :: "'sel scrapy \<Rightarrow> bool" where
  "item_law s \<longleftrightarrow> (\<forall>fs it k v. set_field s fs it k v =
     (if k \<in> set fs then Inr (it(k \<mapsto> v)) else Inl (KeyError k)))"

text \<open>The item of one list element, by the queries of the code.\<close>

definition li_item :: "'sel scrapy \<Rightarrow> (string \<Rightarrow> 'sel list) \<Rightarrow> 'sel \<Rightarrow> item" where
  "li_item s f sel =
     [''title'' \<mapsto> sel_extract s (f ''a/text()''), ''link'' \<mapsto> sel_extract s (sel_xpath s sel ''a/@herf''),
      ''desc'' \<mapsto> sel_extract s (sel_xpath s sel ''text()'')]"

lemma parse_li_eq:
  assumes "item_law s"
  shows "parse_li s sel = (case spider_xpath s of
      None \<Rightarrow> Inl (AttributeError ''xpath'') | Some f \<Rightarrow> Inr (li_item s f sel))"
  using assms
  by (simp add: parse_li_def self_xpath_def item_law_def DmozItem_fields_def li_item_def Let_def split: option.split)

definition demo_scrapy :: "nat scrapy" where
  "demo_scrapy = \<lparr>response_xpath = (\<lambda>q. [1, 2]), sel_xpath = (\<lambda>n q. [10 * n]),
     sel_extract = map (\<lambda>n. replicate n (CHR ''x'')), spider_xpath = None,
     set_field = (\<lambda>fs it k v. if k \<in> set fs then Inr (it(k \<mapsto> v)) else Inl (KeyError k))\<rparr>"

text \<open>
  C39. On the spider class of Scrapy, which has no method \<open>xpath\<close>, a response with a list element makes
  \<open>parse\<close> raise \<open>AttributeError\<close> before it yields anything, because the title is looked up on \<open>self\<close>; only
  a response without one is parsed, to nothing.  On a class that has such a method, \<open>parse\<close> yields one item
  for each list element, in the order of the page, with exactly the three declared fields and without a
  \<open>KeyError\<close>; all of them share one title, as the query does not look at the element.
\<close>

theorem parse_outcome:
  assumes "item_law s"
  shows "case spider_xpath s of
      None \<Rightarrow> parse s = (if response_xpath s ''//ul/li'' = [] then Stop else Raise (AttributeError ''xpath''))
    | Some f \<Rightarrow> parse s = of_list (map (li_item s f) (response_xpath s ''//ul/li''))
        \<and> (\<forall>sel. dom (li_item s f sel) = set DmozItem_fields
             \<and> li_item s f sel ''title'' = Some (sel_extract s (f ''a/text()'')))"
proof (cases "spider_xpath s")
  case None
  then show ?thesis
    by (cases "response_xpath s ''//ul/li''") (simp_all add: parse_def parse_li_def self_xpath_def Let_def)
next
  case (Some f)
  have "parse_loop s sels = of_list (map (li_item s f) sels)" for sels
    using assms Some by (induction sels) (simp_all add: parse_li_eq)
  moreover have "dom (li_item s f sel) = set DmozItem_fields
         \<and> li_item s f sel ''title'' = Some (sel_extract s (f ''a/text()''))" for sel
    by (auto simp: li_item_def DmozItem_fields_def)
  ultimately show ?thesis using Some by (simp add: parse_def)
qed

theorem parse_outcome_witness:
  "parse demo_scrapy = Raise (AttributeError ''xpath'')
   \<and> parse (demo_scrapy\<lparr>spider_xpath := Some (\<lambda>_. [3])\<rparr>) =
       of_list (map (li_item (demo_scrapy\<lparr>spider_xpath := Some (\<lambda>_. [3])\<rparr>) (\<lambda>_. [3])) [1, 2])"
proof
  show "parse demo_scrapy = Raise (AttributeError ''xpath'')"
    using parse_outcome [of demo_scrapy] by (simp add: demo_scrapy_def item_law_def)
  show "parse (demo_scrapy\<lparr>spider_xpath := Some (\<lambda>_. [3])\<rparr>) =
       of_list (map (li_item (demo_scrapy\<lparr>spider_xpath := Some (\<lambda>_. [3])\<rparr>) (\<lambda>_. [3])) [1, 2])"
    using parse_outcome [of "demo_scrapy\<lparr>spider_xpath := Some (\<lambda>_. [3])\<rparr>"]
    by (simp add: demo_scrapy_def item_law_def)
qed

end
