(* ===== verification/Project.thy ===== *)
theory Project
  imports Spider
begin

text \<open>
  The Scrapy project \<open>Crawler/tutorial\<close> as a whole: the settings module, the text of
  \<open>pipelines.py\<close> with Python's rule on indentation, and which modules of the project a crawl loads.
\<close>

section \<open>Settings\<close>

datatype setting = SStr string | SList "string list" | SBool bool

text \<open>The assignments of \<open>settings.py\<close>; everything else in that file is a comment.\<close>

definition settings :: "string \<rightharpoonup> setting" where
  "settings = [''BOT_NAME'' \<mapsto> SStr ''tutorial'',
     ''SPIDER_MODULES'' \<mapsto> SList [''tutorial.spiders''],
     ''NEWSPIDER_MODULE'' \<mapsto> SStr ''tutorial.spiders'',
     ''ROBOTSTXT_OBEY'' \<mapsto> SBool True]"

section \<open>Indentation\<close>

text \<open>
  Python's tokenizer on source lines: blank lines and comments are skipped, a line that ends in a
  colon opens a block, the first line of a block must be indented more than the line that opens
  it, and any other line must be at the level of an open block.  The result is the number of the first
  line that is wrong.  (Lines that continue an expression are outside the model; the file has none.)
\<close>

fun indent :: "string \<Rightarrow> nat" where
  "indent (c # cs) = (if c = CHR '' '' then Suc (indent cs) else 0)"
| "indent [] = 0"

definition code_part :: "string \<Rightarrow> string" where
  "code_part l = dropWhile (\<lambda>c. c = CHR '' '') l"

definition skipped :: "string \<Rightarrow> bool" where
  "skipped l \<longleftrightarrow> code_part l = [] \<or> hd (code_part l) = CHR ''#''"

definition opens_block :: "string \<Rightarrow> bool" where
  "opens_block l \<longleftrightarrow> last l = CHR '':''"

fun layout :: "nat \<Rightarrow> nat list \<Rightarrow> bool \<Rightarrow> string list \<Rightarrow> unit res" where
  "layout n stack opened [] = (if opened then Inl (IndentationError n) else Inr ())"
| "layout n stack opened (l # ls) =
     (if skipped l then layout (Suc n) stack opened ls
      else if opened then
        (if hd stack < indent l then layout (Suc n) (indent l # stack) (opens_block l) ls
         else Inl (IndentationError n))
      else (let stack' = dropWhile (\<lambda>k. indent l < k) stack in
            if stack' \<noteq> [] \<and> hd stack' = indent l then layout (Suc n) stack' (opens_block l) ls
            else Inl (IndentationError n)))"

definition check_layout :: "string list \<Rightarrow> unit res" where
  "check_layout ls = layout 1 [0] False ls"

definition pipelines_py :: "string list" where
  "pipelines_py = [
    ''# -*- coding: utf-8 -*-'',
    '''',
    ''# Define your item pipelines here'',
    ''#'',
    ''# Don'' @ [CHR 0x27] @ ''t forget to add your pipeline to the ITEM_PIPELINES setting'',
    ''# See: http://doc.scrapy.org/en/latest/topics/item-pipeline.html'',
    '''',
    ''import json'',
    ''import codecs'',
    '''',
    ''#class W3SchoolPipeline(object):'',
    ''#    def __init__(self):'',
    ''#        self.file = codecs.open('' @ [CHR 0x27] @ ''w3school_data_utf8.json'' @ [CHR 0x27] @ '', ''
       @ [CHR 0x27] @ ''wb'' @ [CHR 0x27] @ '','',
    ''#                encoding='' @ [CHR 0x27] @ ''utf-8'' @ [CHR 0x27] @ '')'',
    ''#'',
    ''#    def process_item(self, item, spider):'',
    ''#        line = json.dumps(dict(item)) + '' @ [CHR 0x27, CHR 0x5C, CHR ''n'', CHR 0x27],
    ''#        self.file.write(line.decode('' @ [CHR 0x22] @ ''unicode_escape'' @ [CHR 0x22] @ ''))'',
    ''class TutorialPipeline(object):'',
    ''        def process_item(self, item, spider):'',
    ''        return item'']"

section \<open>What a crawl loads\<close>

text \<open>
  The modules of the project that the settings name: those of the spiders, and the modules of the classes
  in the dictionaries of pipelines and middlewares (here \<open>SList\<close> of dotted class names).
\<close>

definition named :: "(string \<rightharpoonup> setting) \<Rightarrow> string \<Rightarrow> string list" where
  "named st k = (case st k of Some (SList xs) \<Rightarrow> xs | Some (SStr x) \<Rightarrow> [x] | _ \<Rightarrow> [])"

definition class_module :: "string \<Rightarrow> string" where
  "class_module c = rev (drop 1 (dropWhile (\<lambda>x. x \<noteq> CHR ''.'') (rev c)))"

definition loaded_modules :: "(string \<rightharpoonup> setting) \<Rightarrow> string list" where
  "loaded_modules st = named st ''SPIDER_MODULES''
     @ map class_module (named st ''ITEM_PIPELINES'' @ named st ''SPIDER_MIDDLEWARES'')"

text \<open>
  Loading them, in order: only the layout of \<open>pipelines.py\<close> is looked at here, the other modules of the
  project are taken to compile.
\<close>

definition load_module :: "string \<Rightarrow> unit res" where
  "load_module m = (if m = ''tutorial.pipelines'' then check_layout pipelines_py else Inr ())"

fun start_crawl :: "string list \<Rightarrow> unit res" where
  "start_crawl [] = Inr ()"
| "start_crawl (m # ms) = res_bind (load_module m) (\<lambda>_. start_crawl ms)"

lemma pipelines_layout: "check_layout pipelines_py = Inl (IndentationError 21)"
  by (simp add: check_layout_def pipelines_py_def skipped_def code_part_def opens_block_def)

lemma start_crawl_pipelines:
  "start_crawl ms = (if ''tutorial.pipelines'' \<in> set ms then Inl (IndentationError 21) else Inr ())"
  by (induction ms) (simp_all add: load_module_def pipelines_layout)

text \<open>
  \<open>pipelines.py\<close> cannot be imported: the body of \<open>process_item\<close> is not indented under its
  \<open>def\<close>, an \<open>IndentationError\<close> at line 21.  With that line indented by one more level the file is
  accepted.
\<close>

theorem pipelines_indentation:
  "check_layout pipelines_py = Inl (IndentationError 21)
   \<and> check_layout (pipelines_py[20 := ''            return item'']) = Inr ()"
  by (simp add: check_layout_def pipelines_py_def skipped_def code_part_def opens_block_def)

text \<open>
  The broken module stops a crawl as soon as the settings name its pipeline, whatever else they say; the
  settings of the project do not, so a crawl with them starts, without the pipeline and without the
  middleware.
\<close>

theorem pipelines_stop_crawl:
  "start_crawl (loaded_modules settings) = Inr ()
   \<and> start_crawl (loaded_modules (st(''ITEM_PIPELINES'' \<mapsto> SList [''tutorial.pipelines.TutorialPipeline''])))
       = Inl (IndentationError 21)
   \<and> ''tutorial.middlewares'' \<notin> set (loaded_modules settings)"
  by (simp add: start_crawl_pipelines loaded_modules_def settings_def named_def class_module_def)

end
