(* ===== verification/Adaptors.thy ===== *)
theory Adaptors
  imports Main
begin

text \<open>
  The container adaptors of \<open>Algorithm/MinStack/MinStack.hpp\<close>: a queue made of two stacks, a stack
  made of two queues, and three stacks that know their minimum.  A \<open>std::stack\<close> is the list of its
  elements from the top, a \<open>std::queue\<close> the list from the front.  \<open>None\<close> stands for an operation the
  C++ library leaves undefined (\<open>top\<close>, \<open>front\<close> or \<open>pop\<close> of an empty container).

  The contract is the locale \<open>adaptor\<close>: the operations simulate operations on plain lists, so every
  sequence of calls gives the outputs of the specification.
\<close>

section \<open>The contract\<close>

datatype 'a call = Push 'a | Pop | Top

text \<open>Running calls: the values of \<open>Top\<close>, or \<open>None\<close> once a call is undefined.\<close>

fun run_calls ::
  "('a \<Rightarrow> 'q \<Rightarrow> 'q) \<Rightarrow> ('q \<Rightarrow> 'q option) \<Rightarrow> ('q \<Rightarrow> ('a \<times> 'q) option) \<Rightarrow> 'a call list \<Rightarrow> 'q \<Rightarrow> 'a list option" where
  "run_calls c_push c_pop c_top [] q = Some []"
| "run_calls c_push c_pop c_top (Push x # cs) q = run_calls c_push c_pop c_top cs (c_push x q)"
| "run_calls c_push c_pop c_top (Pop # cs) q =
     (case c_pop q of None \<Rightarrow> None | Some q' \<Rightarrow> run_calls c_push c_pop c_top cs q')"
| "run_calls c_push c_pop c_top (Top # cs) q =
     (case c_top q of
        None \<Rightarrow> None
      | Some (x, q') \<Rightarrow> map_option ((#) x) (run_calls c_push c_pop c_top cs q'))"

text \<open>Looking at a list does not change it.\<close>

definition peek :: "('a list \<Rightarrow> 'a option) \<Rightarrow> 'a list \<Rightarrow> ('a \<times> 'a list) option" where
  "peek f xs = map_option (\<lambda>x. (x, xs)) (f xs)"

locale adaptor =
  fixes c_push :: "'a \<Rightarrow> 'q \<Rightarrow> 'q" and c_pop :: "'q \<Rightarrow> 'q option" and c_top :: "'q \<Rightarrow> ('a \<times> 'q) option"
    and valid :: "'q \<Rightarrow> bool" and view :: "'q \<Rightarrow> 'a list"
    and s_push :: "'a \<Rightarrow> 'a list \<Rightarrow> 'a list" and s_pop :: "'a list \<Rightarrow> 'a list option"
    and s_top :: "'a list \<Rightarrow> 'a option"
  assumes push_ok: "valid q \<Longrightarrow> valid (c_push x q) \<and> view (c_push x q) = s_push x (view q)"
    and pop_ok: "valid q \<Longrightarrow> map_option view (c_pop q) = s_pop (view q)"
    and pop_inv: "valid q \<Longrightarrow> c_pop q = Some q' \<Longrightarrow> valid q'"
    and top_ok: "valid q \<Longrightarrow> map_option fst (c_top q) = s_top (view q)"
    and top_inv: "valid q \<Longrightarrow> c_top q = Some (x, q') \<Longrightarrow> valid q' \<and> view q' = view q"
begin

lemma run_refines:
  "valid q \<Longrightarrow> run_calls c_push c_pop c_top cs q = run_calls s_push s_pop (peek s_top) cs (view q)"
proof (induction cs arbitrary: q)
  case (Cons c cs)
  show ?case
  proof (cases c)
    case (Push x)
    then show ?thesis using Cons push_ok [of q x] by simp
  next
    case Pop
    show ?thesis
    proof (cases "c_pop q")
      case None
      then show ?thesis using Pop pop_ok [OF Cons.prems] by simp
    next
      case (Some q')
      then have "s_pop (view q) = Some (view q')" using pop_ok [OF Cons.prems] by simp
      then show ?thesis using Pop Some Cons.IH [OF pop_inv [OF Cons.prems Some]] by simp
    qed
  next
    case Top
    show ?thesis
    proof (cases "c_top q")
      case None
      then show ?thesis using Top top_ok [OF Cons.prems] by (simp add: peek_def)
    next
      case (Some r)
      then obtain x q' where r: "c_top q = Some (x, q')" by (cases r) auto
      then have "s_top (view q) = Some x" using top_ok [OF Cons.prems] by simp
      then show ?thesis
        using Top r Cons.IH [of q'] top_inv [OF Cons.prems r] by (simp add: peek_def)
    qed
  qed
qed simp

end

section \<open>A queue made of two stacks\<close>

record 'a two_stacks =
  q_in :: "'a list"
  q_out :: "'a list"

definition queue_push :: "'a \<Rightarrow> 'a two_stacks \<Rightarrow> 'a two_stacks" where
  "queue_push x q = q\<lparr>q_in := x # q_in q\<rparr>"

text \<open>\<open>while (!_in.empty()) { _out.push(_in.top()); _in.pop(); }\<close>\<close>

fun pour :: "'a list \<Rightarrow> 'a list \<Rightarrow> 'a list" where
  "pour [] out = out"
| "pour (x # ins) out = pour ins (x # out)"

definition queue_pop :: "'a two_stacks \<Rightarrow> 'a two_stacks option" where
  "queue_pop q =
     (if q_out q \<noteq> [] then Some (q\<lparr>q_out := tl (q_out q)\<rparr>)
      else if q_in q = [] then Some q
      else Some (q\<lparr>q_in := [], q_out := tl (pour (q_in q) (q_out q))\<rparr>))"

definition queue_front :: "'a two_stacks \<Rightarrow> ('a \<times> 'a two_stacks) option" where
  "queue_front q =
     (if q_out q \<noteq> [] then Some (hd (q_out q), q)
      else (let out = pour (q_in q) (q_out q) in
            if out = [] then None else Some (hd out, q\<lparr>q_in := [], q_out := out\<rparr>)))"

definition queue_size :: "'a two_stacks \<Rightarrow> nat" where
  "queue_size q = length (q_out q) + length (q_in q)"

definition queue_empty :: "'a two_stacks \<Rightarrow> bool" where
  "queue_empty q \<longleftrightarrow> q_out q = [] \<and> q_in q = []"

definition queue_new :: "'a two_stacks" where
  "queue_new = \<lparr>q_in = [], q_out = []\<rparr>"

text \<open>The queue it stands for, from the front.\<close>

definition queue_abs :: "'a two_stacks \<Rightarrow> 'a list" where
  "queue_abs q = q_out q @ rev (q_in q)"

definition fifo_push :: "'a \<Rightarrow> 'a list \<Rightarrow> 'a list" where "fifo_push x xs = xs @ [x]"
definition fifo_pop :: "'a list \<Rightarrow> 'a list option" where "fifo_pop xs = Some (tl xs)"

fun first :: "'a list \<Rightarrow> 'a option" where
  "first [] = None"
| "first (x # xs) = Some x"

lemma pour_eq: "pour ins out = rev ins @ out"
  by (induction ins arbitrary: out) simp_all

lemma first_hd: "xs \<noteq> [] \<Longrightarrow> first xs = Some (hd xs)"
  by (cases xs) simp_all

interpretation queue: adaptor queue_push queue_pop queue_front "\<lambda>_. True" queue_abs fifo_push fifo_pop first
  by unfold_locales
     (auto simp: queue_push_def queue_pop_def queue_front_def queue_abs_def fifo_push_def fifo_pop_def
        pour_eq first_hd Let_def split: if_splits)

section \<open>A stack made of two queues\<close>

record 'a two_queues =
  s_q1 :: "'a list"
  s_q2 :: "'a list"

definition stack_push :: "'a \<Rightarrow> 'a two_queues \<Rightarrow> 'a two_queues" where
  "stack_push x s = (if s_q1 s = [] then s\<lparr>s_q2 := s_q2 s @ [x]\<rparr> else s\<lparr>s_q1 := s_q1 s @ [x]\<rparr>)"

text \<open>\<open>while (from.size() > 1) { to.push(from.front()); from.pop(); }\<close>\<close>

fun shift :: "'a list \<Rightarrow> 'a list \<Rightarrow> 'a list \<times> 'a list" where
  "shift (x # y # src) dst = shift (y # src) (dst @ [x])"
| "shift src dst = (src, dst)"

definition stack_pop :: "'a two_queues \<Rightarrow> 'a two_queues option" where
  "stack_pop s =
     (if s_q1 s = []
      then (case shift (s_q2 s) (s_q1 s) of
              ([], dst) \<Rightarrow> None
            | (x # src, dst) \<Rightarrow> Some (s\<lparr>s_q1 := dst, s_q2 := src\<rparr>))
      else (case shift (s_q1 s) (s_q2 s) of
              ([], dst) \<Rightarrow> None
            | (x # src, dst) \<Rightarrow> Some (s\<lparr>s_q1 := src, s_q2 := dst\<rparr>)))"

definition stack_top :: "'a two_queues \<Rightarrow> ('a \<times> 'a two_queues) option" where
  "stack_top s =
     (if s_q1 s = [] then (if s_q2 s = [] then None else Some (last (s_q2 s), s))
      else Some (last (s_q1 s), s))"

definition stack_size :: "'a two_queues \<Rightarrow> nat" where
  "stack_size s = length (s_q1 s) + length (s_q2 s)"

definition stack_empty :: "'a two_queues \<Rightarrow> bool" where
  "stack_empty s \<longleftrightarrow> s_q1 s = [] \<and> s_q2 s = []"

definition stack_new :: "'a two_queues" where
  "stack_new = \<lparr>s_q1 = [], s_q2 = []\<rparr>"

definition stack_inv :: "'a two_queues \<Rightarrow> bool" where
  "stack_inv s \<longleftrightarrow> s_q1 s = [] \<or> s_q2 s = []"

definition stack_abs :: "'a two_queues \<Rightarrow> 'a list" where
  "stack_abs s = rev (s_q1 s @ s_q2 s)"

fun lifo_pop :: "'a list \<Rightarrow> 'a list option" where
  "lifo_pop [] = None"
| "lifo_pop (x # xs) = Some xs"

lemma shift_eq: "xs \<noteq> [] \<Longrightarrow> shift xs dst = ([last xs], dst @ butlast xs)"
  by (induction xs dst rule: shift.induct) simp_all

lemma lifo_pop_rev: "xs \<noteq> [] \<Longrightarrow> lifo_pop (rev xs) = Some (rev (butlast xs))"
  by (cases xs rule: rev_cases) simp_all

lemma first_rev: "xs \<noteq> [] \<Longrightarrow> first (rev xs) = Some (last xs)"
  by (cases xs rule: rev_cases) simp_all

interpretation stack: adaptor stack_push stack_pop stack_top stack_inv stack_abs "(#)" lifo_pop first
proof unfold_locales
  fix s :: "'a two_queues" assume inv: "stack_inv s"
  show "stack_inv (stack_push x s) \<and> stack_abs (stack_push x s) = x # stack_abs s" for x
    using inv by (auto simp: stack_inv_def stack_push_def stack_abs_def)
  show "map_option stack_abs (stack_pop s) = lifo_pop (stack_abs s)"
    using inv by (cases "s_q2 s = []") (auto simp: stack_inv_def stack_pop_def stack_abs_def shift_eq lifo_pop_rev)
  show "stack_inv s'" if "stack_pop s = Some s'" for s'
    using inv that
    by (cases "s_q2 s = []") (auto simp: stack_inv_def stack_pop_def shift_eq split: if_splits list.splits)
  show "map_option fst (stack_top s) = first (stack_abs s)"
    using inv by (auto simp: stack_inv_def stack_top_def stack_abs_def first_rev)
  show "stack_inv s' \<and> stack_abs s' = stack_abs s" if "stack_top s = Some (x, s')" for x s'
    using inv that by (auto simp: stack_top_def split: if_splits)
qed

section \<open>Stacks that know their minimum\<close>

fun min_of :: "'a::linorder list \<Rightarrow> 'a option" where
  "min_of [] = None"
| "min_of (x # xs) = (case min_of xs of None \<Rightarrow> Some x | Some m \<Rightarrow> Some (if x < m then x else m))"

text \<open>\<open>min_of\<close> of every suffix that is not empty.\<close>

fun mins :: "'a::linorder list \<Rightarrow> 'a list" where
  "mins [] = []"
| "mins (x # xs) = (case mins xs of [] \<Rightarrow> [x] | m # ms \<Rightarrow> (if x < m then x else m) # m # ms)"

lemma mins_Nil_iff [simp]: "mins xs = [] \<longleftrightarrow> xs = []"
  by (cases xs) (simp_all split: list.split)

lemma tl_mins [simp]: "tl (mins xs) = mins (tl xs)"
  by (cases xs) (simp_all split: list.split)

lemma first_mins: "first (mins xs) = min_of xs"
  by (induction xs) (simp_all split: list.split option.split, auto)

lemma min_of_Min: "xs \<noteq> [] \<Longrightarrow> min_of xs = Some (Min (set xs))"
proof (induction xs)
  case (Cons x xs)
  show ?case
  proof (cases "xs = []")
    case False
    then have "Min (set (x # xs)) = min x (Min (set xs))" by simp
    then show ?thesis using Cons.IH [OF False] by (simp only: min_of.simps option.case) (auto simp: min_def)
  qed simp
qed simp

subsection \<open>Method 1: a second stack of minima\<close>

record 'a min_stack1 =
  m1_s :: "'a list"
  m1_min :: "'a list"

definition m1_new :: "'a min_stack1" where "m1_new = \<lparr>m1_s = [], m1_min = []\<rparr>"

definition m1_push :: "'a::linorder \<Rightarrow> 'a min_stack1 \<Rightarrow> 'a min_stack1" where
  "m1_push x s =
     (if m1_min s = [] \<or> x < hd (m1_min s) then s\<lparr>m1_s := x # m1_s s, m1_min := x # m1_min s\<rparr>
      else s\<lparr>m1_s := x # m1_s s, m1_min := hd (m1_min s) # m1_min s\<rparr>)"

definition m1_pop :: "'a min_stack1 \<Rightarrow> 'a min_stack1 option" where
  "m1_pop s = (if m1_s s = [] \<or> m1_min s = [] then None
     else Some (s\<lparr>m1_s := tl (m1_s s), m1_min := tl (m1_min s)\<rparr>))"

definition m1_top :: "'a min_stack1 \<Rightarrow> 'a option" where "m1_top s = first (m1_s s)"
definition m1_Min :: "'a min_stack1 \<Rightarrow> 'a option" where "m1_Min s = first (m1_min s)"

definition m1_inv :: "'a::linorder min_stack1 \<Rightarrow> bool" where
  "m1_inv s \<longleftrightarrow> m1_min s = mins (m1_s s)"

lemma m1_push_ok: "m1_inv s \<Longrightarrow> m1_inv (m1_push x s) \<and> m1_s (m1_push x s) = x # m1_s s"
  by (auto simp: m1_inv_def m1_push_def split: list.split)

interpretation m1: adaptor m1_push m1_pop "\<lambda>s. map_option (\<lambda>x. (x, s)) (m1_Min s)" m1_inv m1_s "(#)" lifo_pop min_of
proof unfold_locales
  fix s :: "'a min_stack1" assume inv: "m1_inv s"
  show "m1_inv (m1_push x s) \<and> m1_s (m1_push x s) = x # m1_s s" for x
    using inv by (rule m1_push_ok)
  show "map_option m1_s (m1_pop s) = lifo_pop (m1_s s)"
    using inv by (cases "m1_s s") (auto simp: m1_inv_def m1_pop_def simp del: mins.simps(2))
  show "m1_inv s'" if "m1_pop s = Some s'" for s'
    using inv that by (cases "m1_s s") (auto simp: m1_inv_def m1_pop_def split: if_splits simp del: mins.simps(2))
  show "map_option fst (map_option (\<lambda>x. (x, s)) (m1_Min s)) = min_of (m1_s s)"
    using inv by (simp add: m1_Min_def m1_inv_def first_mins option.map_comp o_def option.map_ident)
qed auto

subsection \<open>Method 2: minima with counters\<close>

record 'a min_stack2 =
  m2_s :: "'a list"
  m2_min :: "('a \<times> nat) list"

definition m2_new :: "'a min_stack2" where "m2_new = \<lparr>m2_s = [], m2_min = []\<rparr>"

definition m2_push :: "'a::linorder \<Rightarrow> 'a min_stack2 \<Rightarrow> 'a min_stack2" where
  "m2_push x s =
     (case m2_min s of
        [] \<Rightarrow> s\<lparr>m2_s := x # m2_s s, m2_min := [(x, 1)]\<rparr>
      | (m, k) # ms \<Rightarrow>
          (if x < m then s\<lparr>m2_s := x # m2_s s, m2_min := (x, 1) # (m, k) # ms\<rparr>
           else s\<lparr>m2_s := x # m2_s s, m2_min := (m, k + 1) # ms\<rparr>))"

definition m2_pop :: "'a min_stack2 \<Rightarrow> 'a min_stack2 option" where
  "m2_pop s =
     (if m2_s s = [] then None
      else (case m2_min s of
              [] \<Rightarrow> None
            | (m, k) # ms \<Rightarrow>
                Some (s\<lparr>m2_s := tl (m2_s s), m2_min := (if k - 1 = 0 then ms else (m, k - 1) # ms)\<rparr>)))"

definition m2_Top :: "'a min_stack2 \<Rightarrow> 'a option" where "m2_Top s = first (m2_s s)"

text \<open>
  \<open>Min\<close> returns the whole pair, as the code has it.  Its declared result is a \<open>T\<close>, so a program that calls it
  does not compile; the other members do.
\<close>

definition m2_Min :: "'a min_stack2 \<Rightarrow> ('a \<times> nat) option" where "m2_Min s = first (m2_min s)"

definition unroll :: "('a \<times> nat) list \<Rightarrow> 'a list" where
  "unroll ms = concat (map (\<lambda>(m, k). replicate k m) ms)"

definition m2_inv :: "'a::linorder min_stack2 \<Rightarrow> bool" where
  "m2_inv s \<longleftrightarrow> unroll (m2_min s) = mins (m2_s s) \<and> list_all (\<lambda>(m, k). 0 < k) (m2_min s)"

lemma unroll_Cons: "0 < k \<Longrightarrow> unroll ((m, k) # ms) = m # unroll (if k - 1 = 0 then ms else (m, k - 1) # ms)"
  by (cases k) (simp_all add: unroll_def)

lemma m2_inv_Cons:
  assumes "m2_inv s" "m2_min s = (m, k) # ms"
  shows "0 < k" "mins (m2_s s) = m # unroll (if k - 1 = 0 then ms else (m, k - 1) # ms)" "m2_s s \<noteq> []"
proof -
  show k: "0 < k" using assms by (simp add: m2_inv_def)
  have "unroll (m2_min s) = mins (m2_s s)" using assms(1) by (simp add: m2_inv_def)
  then show u: "mins (m2_s s) = m # unroll (if k - 1 = 0 then ms else (m, k - 1) # ms)"
    using assms(2) unroll_Cons [OF k, of m ms] by metis
  show "m2_s s \<noteq> []" using u by (metis list.distinct(1) mins_Nil_iff)
qed

lemma m2_push_ok: "m2_inv s \<Longrightarrow> m2_inv (m2_push x s) \<and> m2_s (m2_push x s) = x # m2_s s"
proof (cases "m2_min s")
  case Nil
  then show "m2_inv s \<Longrightarrow> ?thesis" by (simp add: m2_inv_def m2_push_def unroll_def)
next
  case (Cons p ms)
  moreover assume inv: "m2_inv s"
  moreover obtain m k where "p = (m, k)" by (cases p)
  ultimately show ?thesis
    using m2_inv_Cons [OF inv, of m k ms] by (auto simp: m2_inv_def m2_push_def unroll_def)
qed

text \<open>The interpretation for what \<open>Min\<close> is meant to return, the first component of the pair.\<close>

interpretation m2: adaptor m2_push m2_pop "\<lambda>s. map_option (\<lambda>p. (fst p, s)) (m2_Min s)" m2_inv m2_s "(#)" lifo_pop min_of
proof unfold_locales
  fix s :: "'a min_stack2" assume inv: "m2_inv s"
  show "m2_inv (m2_push x s) \<and> m2_s (m2_push x s) = x # m2_s s" for x
    using inv by (rule m2_push_ok)
  have empty: "m2_min s = [] \<longleftrightarrow> m2_s s = []"
  proof (cases "m2_min s")
    case Nil
    then have "mins (m2_s s) = unroll []" using inv by (metis m2_inv_def)
    then show ?thesis using Nil by (simp add: unroll_def)
  next
    case (Cons p ms)
    then show ?thesis using m2_inv_Cons(3) [OF inv, of "fst p" "snd p" ms] by simp
  qed
  show "map_option m2_s (m2_pop s) = lifo_pop (m2_s s)"
    using empty by (cases "m2_s s") (auto simp: m2_pop_def split: list.split)
  show "m2_inv s'" if "m2_pop s = Some s'" for s'
  proof -
    from that have ne: "m2_s s \<noteq> []" by (auto simp: m2_pop_def)
    then obtain m k ms where p: "m2_min s = (m, k) # ms"
      using empty by (cases "m2_min s") auto
    with that ne have s': "s' = s\<lparr>m2_s := tl (m2_s s), m2_min := (if k - 1 = 0 then ms else (m, k - 1) # ms)\<rparr>"
      by (auto simp: m2_pop_def)
    note k = m2_inv_Cons(1,2) [OF inv p]
    then have "unroll (m2_min s') = mins (m2_s s')" using tl_mins [of "m2_s s"] by (simp add: s')
    then show ?thesis using inv k(1) p by (auto simp: m2_inv_def s')
  qed
  show "map_option fst (map_option (\<lambda>p. (fst p, s)) (m2_Min s)) = min_of (m2_s s)"
  proof (cases "m2_min s")
    case Nil
    then show ?thesis using empty by (simp add: m2_Min_def)
  next
    case (Cons p ms)
    then have "first (mins (m2_s s)) = Some (fst p)"
      using m2_inv_Cons(2) [OF inv, of "fst p" "snd p" ms] by simp
    then show ?thesis using Cons by (simp add: m2_Min_def first_mins)
  qed
qed auto

text \<open>With \<open>Top\<close>, the first two are stacks.\<close>

interpretation t1: adaptor m1_push m1_pop "\<lambda>s. map_option (\<lambda>x. (x, s)) (m1_top s)" m1_inv m1_s "(#)" lifo_pop first
  by unfold_locales
     (use m1.push_ok m1.pop_ok m1.pop_inv in \<open>auto simp: m1_top_def option.map_comp o_def option.map_ident\<close>)

interpretation t2: adaptor m2_push m2_pop "\<lambda>s. map_option (\<lambda>x. (x, s)) (m2_Top s)" m2_inv m2_s "(#)" lifo_pop first
  by unfold_locales
     (use m2.push_ok m2.pop_ok m2.pop_inv in \<open>auto simp: m2_Top_def option.map_comp o_def option.map_ident\<close>)

subsection \<open>Method 3: one stack, minima above their elements\<close>

definition m3_push :: "'a::linorder \<Rightarrow> 'a list \<Rightarrow> 'a list" where
  "m3_push x s = (if s = [] \<or> x < hd s then x # x # s else hd s # x # s)"

definition m3_pop :: "'a list \<Rightarrow> 'a list option" where
  "m3_pop s = (case s of m # x # r \<Rightarrow> Some r | _ \<Rightarrow> None)"

definition m3_Min :: "'a list \<Rightarrow> 'a option" where "m3_Min s = first s"

fun m3_view :: "'a list \<Rightarrow> 'a list" where
  "m3_view (m # x # s) = x # m3_view s"
| "m3_view _ = []"

fun m3_inv :: "'a::linorder list \<Rightarrow> bool" where
  "m3_inv [] = True"
| "m3_inv [m] = False"
| "m3_inv (m # x # s) = (Some m = min_of (x # m3_view s) \<and> m3_inv s)"

lemma m3_first: "m3_inv s \<Longrightarrow> first s = min_of (m3_view s)"
  by (cases s rule: m3_inv.cases) simp_all

interpretation m3: adaptor m3_push m3_pop "\<lambda>s. map_option (\<lambda>x. (x, s)) (m3_Min s)" m3_inv m3_view "(#)" lifo_pop min_of
proof unfold_locales
  fix s :: "'a list" assume inv: "m3_inv s"
  show "m3_inv (m3_push x s) \<and> m3_view (m3_push x s) = x # m3_view s" for x
    using inv m3_first [OF inv] by (cases s) (auto simp: m3_push_def split: option.splits)
  show "map_option m3_view (m3_pop s) = lifo_pop (m3_view s)"
    using inv by (cases s rule: m3_inv.cases) (simp_all add: m3_pop_def)
  show "m3_inv s'" if "m3_pop s = Some s'" for s'
    using inv that by (cases s rule: m3_inv.cases) (auto simp: m3_pop_def)
  show "map_option fst (map_option (\<lambda>x. (x, s)) (m3_Min s)) = min_of (m3_view s)"
    using m3_first [OF inv] by (simp add: m3_Min_def option.map_comp o_def option.map_ident)
qed auto

section \<open>Properties\<close>

text \<open>
  The stacks with a minimum: on every sequence of calls, with \<open>Min\<close> for \<open>Top\<close>, the first and the third give the
  minima of a plain stack, and so would the second if its \<open>Min\<close> returned the first component of its pair, as
  it is meant to.
\<close>

lemma min_stacks_equivalent:
  fixes cs :: "'a::linorder call list"
  defines "minima \<equiv> run_calls (#) lifo_pop (peek (\<lambda>xs. if xs = [] then None else Some (Min (set xs)))) cs []"
  shows "run_calls m1_push m1_pop (\<lambda>s. map_option (\<lambda>x. (x, s)) (m1_Min s)) cs m1_new = minima"
    and "run_calls m2_push m2_pop (\<lambda>s. map_option (\<lambda>p. (fst p, s)) (m2_Min s)) cs m2_new = minima"
    and "run_calls m3_push m3_pop (\<lambda>s. map_option (\<lambda>x. (x, s)) (m3_Min s)) cs [] = minima"
proof -
  have m: "min_of = (\<lambda>xs :: 'a list. if xs = [] then None else Some (Min (set xs)))"
    using min_of_Min by (auto simp: fun_eq_iff)
  show "run_calls m1_push m1_pop (\<lambda>s. map_option (\<lambda>x. (x, s)) (m1_Min s)) cs m1_new = minima"
    "run_calls m2_push m2_pop (\<lambda>s. map_option (\<lambda>p. (fst p, s)) (m2_Min s)) cs m2_new = minima"
    "run_calls m3_push m3_pop (\<lambda>s. map_option (\<lambda>x. (x, s)) (m3_Min s)) cs [] = minima"
    using m1.run_refines [where q = "m1_new :: 'a min_stack1"] m2.run_refines [where q = "m2_new :: 'a min_stack2"]
      m3.run_refines [where q = "[] :: 'a list"]
    by (simp_all add: minima_def m1_new_def m1_inv_def m2_new_def m2_inv_def unroll_def m)
qed

text \<open>
  C36. The structures refine lists.  The queue made of two stacks is a queue and the stack made of two queues is
  a stack: every sequence of calls gives what it gives on a list, with \<open>Push\<close> at the end for the queue and at
  the front for the stack, and \<open>Pop\<close> and \<open>Front\<close> (\<open>Top\<close>) at the front.  \<open>Pop\<close> of an empty queue does
  nothing and \<open>Front\<close> of an empty queue is undefined; \<open>Size\<close> and \<open>Empty\<close> are those of the list.  Of the three
  stacks with a minimum, the first and the second are stacks on every sequence of \<open>Push\<close>, \<open>Pop\<close> and \<open>Top\<close>, and
  on every sequence of \<open>Push\<close>, \<open>Pop\<close> and \<open>Min\<close> the first and the third give the minima of a plain stack.
  Nothing is said of \<open>Min\<close> of the second, which returns a pair where its result type is that of the elements.
\<close>

theorem adaptors_refine_lists:
  fixes ms :: "'m::linorder call list"
  shows "run_calls queue_push queue_pop queue_front cs queue_new = run_calls fifo_push fifo_pop (peek first) cs []
   \<and> queue_size q = length (queue_abs q) \<and> queue_empty q = (queue_abs q = [])
   \<and> run_calls stack_push stack_pop stack_top cs stack_new = run_calls (#) lifo_pop (peek first) cs []
   \<and> stack_size s = length (stack_abs s) \<and> stack_empty s = (stack_abs s = [])
   \<and> (let plain = run_calls (#) lifo_pop (peek first) ms [] in
       run_calls m1_push m1_pop (\<lambda>s. map_option (\<lambda>x. (x, s)) (m1_top s)) ms m1_new = plain
       \<and> run_calls m2_push m2_pop (\<lambda>s. map_option (\<lambda>x. (x, s)) (m2_Top s)) ms m2_new = plain)
   \<and> (let minima = run_calls (#) lifo_pop (peek (\<lambda>xs. if xs = [] then None else Some (Min (set xs)))) ms [] in
       run_calls m1_push m1_pop (\<lambda>s. map_option (\<lambda>x. (x, s)) (m1_Min s)) ms m1_new = minima
       \<and> run_calls m3_push m3_pop (\<lambda>s. map_option (\<lambda>x. (x, s)) (m3_Min s)) ms [] = minima)"
proof -
  have "run_calls m1_push m1_pop (\<lambda>s. map_option (\<lambda>x. (x, s)) (m1_top s)) ms m1_new
      = run_calls (#) lifo_pop (peek first) ms []"
    "run_calls m2_push m2_pop (\<lambda>s. map_option (\<lambda>x. (x, s)) (m2_Top s)) ms m2_new
      = run_calls (#) lifo_pop (peek first) ms []"
    using t1.run_refines [where q = "m1_new :: 'm min_stack1"] t2.run_refines [where q = "m2_new :: 'm min_stack2"]
    by (simp_all add: m1_new_def m1_inv_def m2_new_def m2_inv_def unroll_def)
  then show ?thesis
    unfolding Let_def min_stacks_equivalent
    using queue.run_refines [where q = queue_new] stack.run_refines [where q = stack_new]
    by (auto simp: queue_new_def queue_abs_def queue_size_def queue_empty_def
        stack_new_def stack_inv_def stack_abs_def stack_size_def stack_empty_def)
qed

end
