(* ===== verification/Pop_Order.thy ===== *)
theory Pop_Order
  imports Main
begin

text \<open>
  \<open>fun::StackPopOderIsLegal\<close> of \<open>Algorithm/MinStack/MinStack.hpp\<close>: can the characters of \<open>in\<close>, pushed in
  order on a stack, be popped in the order \<open>out\<close>?  The code pops whenever the top is the next character.
  The specification is the existence of any interleaving of pushes and pops.
\<close>

section \<open>Definitions from the code\<close>

text \<open>The inner loop: the stack, from its top, and what is left of \<open>out\<close>.\<close>

fun match_tops :: "char list \<Rightarrow> char list \<Rightarrow> char list \<times> char list" where
  "match_tops (x # tamp) (y # out) = (if y = x then match_tops tamp out else (x # tamp, y # out))"
| "match_tops tamp out = (tamp, out)"

text \<open>The outer loop; the result is the stack at its end.\<close>

fun pop_loop :: "char list \<Rightarrow> char list \<Rightarrow> char list \<Rightarrow> char list" where
  "pop_loop [] tamp out = tamp"
| "pop_loop (c # inp) tamp out = (case match_tops (c # tamp) out of (tamp', out') \<Rightarrow> pop_loop inp tamp' out')"

text \<open>\<open>None\<close> is the failed assertion that the strings have one length.\<close>

definition StackPopOderIsLegal :: "char list \<Rightarrow> char list \<Rightarrow> bool option" where
  "StackPopOderIsLegal inp out = (if length inp = length out then Some (pop_loop inp [] out = []) else None)"

section \<open>Pushes and pops in any order\<close>

inductive pops :: "char list \<Rightarrow> char list \<Rightarrow> char list \<Rightarrow> bool" where
  none: "pops [] [] []"
| push: "pops inp (c # s) out \<Longrightarrow> pops (c # inp) s out"
| pop: "pops inp s out \<Longrightarrow> pops inp (c # s) (c # out)"

inductive_cases pops_pushE: "pops (c # inp) s out"
inductive_simps pops_Nil [simp]: "pops [] [] out" and pops_stuck [simp]: "pops [] (x # s) []"
  and pops_end: "pops [] (x # s) (y # out)"

text \<open>What is not to be pushed any more is popped when it is next, or never.\<close>

lemma pops_now:
  "pops inp st xs \<Longrightarrow> st = p @ x # s \<Longrightarrow> xs = x # out \<Longrightarrow> x \<notin> set inp \<Longrightarrow> x \<notin> set p \<Longrightarrow>
   p = [] \<and> pops inp s out"
proof (induction arbitrary: p rule: pops.induct)
  case (push inp c st xs)
  have "c # p = [] \<and> pops inp s out"
    using push.prems by (intro push.IH) auto
  then show ?case by simp
next
  case (pop inp st xs c)
  then show ?case by (cases p) auto
qed simp

lemma match_tops_pops:
  "match_tops s out = (s', out') \<Longrightarrow> set s \<inter> set inp = {} \<Longrightarrow>
   pops inp s out = pops inp s' out' \<and> set s' \<subseteq> set s \<and> length s + length out' = length s' + length out
   \<and> (s' = [] \<or> out' = [] \<or> hd s' \<noteq> hd out')"
proof (induction s out rule: match_tops.induct)
  case (1 x s y out)
  show ?case
  proof (cases "y = x")
    case True
    have "pops inp (x # s) (x # out) \<longleftrightarrow> pops inp s out"
      using pops_now [of inp "x # s" "x # out" "[]" x s out] "1.prems"(2) by (auto intro: pops.pop)
    then show ?thesis using "1.IH" [OF True] "1.prems" True by auto
  qed (use "1.prems" in auto)
qed auto

lemma must_push:
  assumes "s = [] \<or> out = [] \<or> hd s \<noteq> hd out"
  shows "pops (c # inp) s out \<longleftrightarrow> pops inp (c # s) out"
  using assms by (auto elim: pops_pushE intro: pops.push)

lemma pop_loop_pops:
  "distinct inp \<Longrightarrow> set s \<inter> set inp = {} \<Longrightarrow> length inp + length s = length out \<Longrightarrow>
   s = [] \<or> out = [] \<or> hd s \<noteq> hd out \<Longrightarrow> pop_loop inp s out = [] \<longleftrightarrow> pops inp s out"
proof (induction inp s out rule: pop_loop.induct)
  case (1 s out)
  then show ?case by (cases s; cases out) (auto simp: pops_end)
next
  case (2 c inp s out)
  obtain s' out' where m: "match_tops (c # s) out = (s', out')" by (cases rule: prod.exhaust)
  have disj: "set (c # s) \<inter> set inp = {}" using "2.prems" by auto
  note mt = match_tops_pops [OF m disj]
  have "pop_loop inp s' out' = [] \<longleftrightarrow> pops inp s' out'"
    using mt disj "2.prems"(1,3) by (intro "2.IH" [OF m [symmetric]]) auto
  then show ?case using mt m must_push [OF "2.prems"(4)] by simp
qed

section \<open>Soundness for every input\<close>

lemma match_tops_sound: "match_tops s out = (s', out') \<Longrightarrow> pops inp s' out' \<Longrightarrow> pops inp s out"
  by (induction s out rule: match_tops.induct) (auto split: if_splits intro: pops.pop)

lemma pop_loop_sound:
  "pop_loop inp s out = [] \<Longrightarrow> length inp + length s = length out \<Longrightarrow> pops inp s out"
proof (induction inp s out rule: pop_loop.induct)
  case (2 c inp s out)
  obtain s' out' where m: "match_tops (c # s) out = (s', out')" by (cases rule: prod.exhaust)
  have "length (c # s) + length out' = length s' + length out"
    using match_tops_pops [OF m, of "[]"] by simp
  then have "pops inp s' out'" using "2.IH" [OF m [symmetric]] "2.prems" m by auto
  then show ?case using match_tops_sound [OF m] by (auto intro: pops.push)
qed simp

text \<open>
  With equal characters the greedy rule can miss an interleaving: popping the first \<open>c\<close> at once leaves
  the second one above \<open>u\<close>.
\<close>

lemma pop_order_misses:
  "StackPopOderIsLegal ''cucw'' ''cwuc'' = Some False \<and> pops ''cucw'' [] ''cwuc''"
proof
  show "StackPopOderIsLegal ''cucw'' ''cwuc'' = Some False" by (simp add: StackPopOderIsLegal_def)
  show "pops ''cucw'' [] ''cwuc''"
    by (rule pops.push, rule pops.push, rule pops.push, rule pops.pop, rule pops.push) (intro pops.pop pops.none)
qed

text \<open>
  C37. For strings of one length whose characters differ, the answer is right: it is true exactly when some
  interleaving of pushes of \<open>in\<close> and pops gives \<open>out\<close>; and a positive answer is right for all strings.
\<close>

theorem pop_order_legal_iff:
  assumes "length inp = length out"
  shows "(if distinct inp then StackPopOderIsLegal inp out = Some (pops inp [] out)
    else StackPopOderIsLegal inp out = Some True \<longrightarrow> pops inp [] out)"
  using assms pop_loop_pops [of inp "[]" out] pop_loop_sound [of inp "[]" out]
  by (simp add: StackPopOderIsLegal_def)

lemma pop_order_legal_iff_witness:
  "pops ''abcd'' [] ''bdca'' \<and> \<not> pops ''abcd'' [] ''dacb'' \<and> pops ''abab'' [] ''abba''"
  using pop_order_legal_iff [of "''abcd''" "''bdca''"] pop_order_legal_iff [of "''abcd''" "''dacb''"]
    pop_order_legal_iff [of "''abab''" "''abba''"]
  by (simp add: StackPopOderIsLegal_def)

end
