(* ===== verification/Arrays.thy ===== *)
theory Arrays
  imports Main "HOL-Library.Multiset"
begin

text \<open>
  Arrays as lists, shared by the sorting routines and the heaps: the exchange of two elements
  (\<open>_Swap\<close> of \<open>Algorithm/Sort/sort.h\<close>, \<open>std::swap\<close> on two elements of a vector), what it does to the
  elements, and the arrays that differ from another only in a part of them.
\<close>

definition Swap :: "nat \<Rightarrow> nat \<Rightarrow> 'a list \<Rightarrow> 'a list" where
  "Swap i j a = a[i := a ! j, j := a ! i]"

lemma length_swap [simp]: "length (Swap i j a) = length a"
  by (simp add: Swap_def)

lemma swap_nth:
  "i < length a \<Longrightarrow> j < length a \<Longrightarrow> Swap i j a ! x = (if x = i then a ! j else if x = j then a ! i else a ! x)"
  by (auto simp: Swap_def nth_list_update)

lemma mset_swap_eq: "i < length a \<Longrightarrow> j < length a \<Longrightarrow> mset (Swap i j a) = mset a"
  by (simp add: Swap_def mset_swap)

text \<open>\<open>b\<close> has the elements of \<open>a\<close>, rearranged in the positions from \<open>lo\<close> to \<open>hi\<close> only.\<close>

definition within :: "nat \<Rightarrow> nat \<Rightarrow> 'a list \<Rightarrow> 'a list \<Rightarrow> bool" where
  "within lo hi a b \<longleftrightarrow> length b = length a \<and> mset b = mset a
     \<and> (\<forall>x. x < length a \<and> (x < lo \<or> hi \<le> x) \<longrightarrow> b ! x = a ! x)
     \<and> (\<forall>x. lo \<le> x \<and> x < hi \<longrightarrow> (\<exists>y. lo \<le> y \<and> y < hi \<and> b ! x = a ! y))"

lemma within_nth: "within lo hi a b \<Longrightarrow> lo \<le> x \<Longrightarrow> x < hi \<Longrightarrow> \<exists>y. lo \<le> y \<and> y < hi \<and> b ! x = a ! y"
  by (simp add: within_def)

lemma within_same: "within lo hi a b \<Longrightarrow> x < lo \<or> hi \<le> x \<Longrightarrow> x < length a \<Longrightarrow> b ! x = a ! x"
  by (simp add: within_def)

lemma within_refl [simp]: "within lo hi a a"
  by (auto simp: within_def)

lemma within_trans: "within lo hi a b \<Longrightarrow> within lo hi b c \<Longrightarrow> within lo hi a c"
  unfolding within_def by (intro conjI) (simp, simp, simp, metis)

lemma within_widen:
  assumes "within lo hi a b" "lo' \<le> lo" "hi \<le> hi'" "hi' \<le> length a"
  shows "within lo' hi' a b"
  unfolding within_def
proof (intro conjI allI impI)
  show "b ! x = a ! x" if "x < length a \<and> (x < lo' \<or> hi' \<le> x)" for x
    using that assms unfolding within_def by auto
  show "\<exists>y. lo' \<le> y \<and> y < hi' \<and> b ! x = a ! y" if x: "lo' \<le> x \<and> x < hi'" for x
  proof (cases "lo \<le> x \<and> x < hi")
    case True
    then obtain y where "lo \<le> y" "y < hi" "b ! x = a ! y" using assms(1) unfolding within_def by blast
    then show ?thesis using assms(2,3) by (intro exI [of _ y]) simp
  next
    case False
    then have "b ! x = a ! x" using assms(1,4) x unfolding within_def by auto
    then show ?thesis using x by blast
  qed
qed (use assms in \<open>simp_all add: within_def\<close>)

lemmas within_mono = within_widen [OF _ order_refl]

lemma within_swap:
  assumes "lo \<le> i" "i < hi" "lo \<le> j" "j < hi" "hi \<le> length a"
  shows "within lo hi a (Swap i j a)"
proof -
  have "i < length a" "j < length a" using assms by auto
  then show ?thesis using assms by (auto simp: within_def swap_nth mset_swap_eq)
qed

end
