(* ===== verification/Sorts.thy ===== *)
theory Sorts
  imports Arrays
begin

text \<open>
  The sorting routines of \<open>Algorithm/Sort/sort.h\<close>.  An array is the list of its elements and its
  length is the parameter \<open>sz\<close> of the C++ function.  \<open>None\<close> is undefined behaviour: an access
  outside the array, which \<open>sz - 1\<close> on unsigned numbers causes for the empty array, or an overflow of
  \<open>int\<close>.
\<close>

section \<open>Definitions from the code\<close>

subsection \<open>InsertSort and ShellSort\<close>

text \<open>
  The inner loop of \<open>ShellSort\<close>; \<open>InsertSort\<close> has the same loop with gap 1.  \<open>p\<close> is \<open>end + gap\<close>; the
  loop ends when \<open>end\<close> is negative.
\<close>

function sink :: "nat \<Rightarrow> int \<Rightarrow> nat \<Rightarrow> int list \<Rightarrow> int list" where
  "sink gap t p a =
     (if 0 < gap \<and> gap \<le> p \<and> t < a ! (p - gap) then sink gap t (p - gap) (a[p := a ! (p - gap)])
      else a[p := t])"
  by pat_completeness auto
termination
  by (relation "measure (\<lambda>(gap, t, p, a). p)") auto

declare sink.simps [simp del]

definition gap_step :: "nat \<Rightarrow> nat \<Rightarrow> int list \<Rightarrow> int list" where
  "gap_step gap i a = sink gap (a ! (i + gap)) (i + gap) a"

definition gap_pass :: "nat \<Rightarrow> int list \<Rightarrow> int list" where
  "gap_pass gap a = fold (gap_step gap) [0..<length a - gap] a"

definition InsertSort :: "int list \<Rightarrow> int list option" where
  "InsertSort a = (if a = [] then None else Some (gap_pass 1 a))"

function shell_loop :: "nat \<Rightarrow> int list \<Rightarrow> int list" where
  "shell_loop gap a =
     (if 1 < gap then shell_loop (gap div 3 + 1) (gap_pass (gap div 3 + 1) a) else a)"
  by pat_completeness auto
termination
  by (relation "measure (\<lambda>(gap, a). gap)") auto

declare shell_loop.simps [simp del]

definition ShellSort :: "int list \<Rightarrow> int list option" where
  "ShellSort a = Some (shell_loop (length a) a)"

subsection \<open>SelectSort\<close>

definition select_scan :: "nat \<Rightarrow> nat \<Rightarrow> int list \<Rightarrow> nat \<times> nat" where
  "select_scan left right a =
     fold (\<lambda>i (mx, mn). (if a ! mx < a ! i then i else mx, if a ! i < a ! mn then i else mn))
       [left..<right + 1] (left, left)"

definition select_step :: "nat \<Rightarrow> nat \<Rightarrow> int list \<Rightarrow> int list" where
  "select_step left right a =
     (case select_scan left right a of (mx, mn) \<Rightarrow>
        let a' = Swap mn left a; mx' = (if mx = left then mn else mx) in Swap mx' right a')"

function select_loop :: "nat \<Rightarrow> nat \<Rightarrow> int list \<Rightarrow> int list" where
  "select_loop left right a =
     (if left < right then select_loop (left + 1) (right - 1) (select_step left right a) else a)"
  by pat_completeness auto
termination
  by (relation "measure (\<lambda>(left, right, a). right - left)") auto

declare select_loop.simps [simp del]

definition SelectSort :: "int list \<Rightarrow> int list option" where
  "SelectSort a = (if a = [] then None else Some (select_loop 0 (length a - 1) a))"

subsection \<open>BubbleSort\<close>

text \<open>One pass over the first \<open>end\<close> elements, with the flag \<open>exchange\<close>.\<close>

definition bubble_pass :: "nat \<Rightarrow> int list \<times> bool \<Rightarrow> int list \<times> bool" where
  "bubble_pass end s =
     fold (\<lambda>i (a, ex). if a ! i < a ! (i - 1) then (Swap (i - 1) i a, True) else (a, ex)) [1..<end] s"

text \<open>The flag is set before the loop only, never reset.\<close>

fun bubble_loop :: "nat \<Rightarrow> int list \<Rightarrow> bool \<Rightarrow> int list" where
  "bubble_loop (Suc (Suc end)) a ex =
     (case bubble_pass (Suc (Suc end)) (a, ex) of (a', ex') \<Rightarrow>
        if \<not> ex' then a' else bubble_loop (Suc end) a' ex')"
| "bubble_loop end a ex = a"

definition BubbleSort :: "int list \<Rightarrow> int list option" where
  "BubbleSort a = Some (bubble_loop (length a) a False)"

subsection \<open>HeapSort\<close>

text \<open>\<open>if (child + 1 < n && a[child] < a[child + 1]) child++\<close>\<close>

definition bigger_child :: "nat \<Rightarrow> nat \<Rightarrow> int list \<Rightarrow> nat" where
  "bigger_child child n a = (if child + 1 < n \<and> a ! child < a ! (child + 1) then child + 1 else child)"

function AdjustDown :: "nat \<Rightarrow> nat \<Rightarrow> int list \<Rightarrow> int list" where
  "AdjustDown parent n a =
     (if parent * 2 + 1 < n
      then (if a ! parent < a ! bigger_child (parent * 2 + 1) n a
            then AdjustDown (bigger_child (parent * 2 + 1) n a) n
                   (Swap parent (bigger_child (parent * 2 + 1) n a) a)
            else a)
      else a)"
  by pat_completeness auto
termination
  by (relation "measure (\<lambda>(parent, n, a). n - parent)") (auto simp: bigger_child_def)

declare AdjustDown.simps [simp del]

text \<open>
  \<open>for (int i = ((sz - 2) >> 1); i >= 0; --i)\<close>: for \<open>sz < 2\<close> the unsigned difference shifted to the
  right is \<open>-1\<close> as an \<open>int\<close>, so the loop does not run.
\<close>

definition heapify :: "int list \<Rightarrow> int list" where
  "heapify a = (if length a < 2 then a
     else fold (\<lambda>i. AdjustDown i (length a)) (rev [0..<(length a - 2) div 2 + 1]) a)"

text \<open>
  The extraction loop calls \<open>AdjustDown(a, 0, --end)\<close>: the decremented \<open>end\<close> is the size of the heap.
\<close>

fun extract_loop :: "nat \<Rightarrow> int list \<Rightarrow> int list" where
  "extract_loop 0 a = a"
| "extract_loop (Suc end) a = extract_loop end (AdjustDown 0 end (Swap 0 (Suc end) a))"

definition HeapSort :: "int list \<Rightarrow> int list option" where
  "HeapSort a = Some (extract_loop (length a - 1) (heapify a))"

text \<open>The same loop with the call \<open>AdjustDown(a, 0, end--)\<close>, which the code keeps as a comment.\<close>

fun extract_loop_commented :: "nat \<Rightarrow> int list \<Rightarrow> int list" where
  "extract_loop_commented 0 a = a"
| "extract_loop_commented (Suc end) a =
     extract_loop_commented end (AdjustDown 0 (Suc end) (Swap 0 (Suc end) a))"

definition HeapSort_commented :: "int list \<Rightarrow> int list option" where
  "HeapSort_commented a = Some (extract_loop_commented (length a - 1) (heapify a))"

subsection \<open>CountSort\<close>

definition INT_MAX :: int where "INT_MAX = 2147483647"

definition scan_max_min :: "int list \<Rightarrow> int \<times> int" where
  "scan_max_min a =
     fold (\<lambda>x (mx, mn). (if mx < x then x else mx, if x < mn then x else mn)) a (a ! 0, a ! 0)"

definition tally :: "int \<Rightarrow> int list \<Rightarrow> nat list \<Rightarrow> nat list" where
  "tally mn a t = fold (\<lambda>x t. t[nat (x - mn) := t ! nat (x - mn) + 1]) a t"

definition write_back :: "int \<Rightarrow> nat list \<Rightarrow> int list" where
  "write_back mn t = concat (map (\<lambda>i. replicate (t ! i) (int i + mn)) [0..<length t])"

definition CountSort :: "int list \<Rightarrow> int list option" where
  "CountSort a =
     (if a = [] then None
      else (case scan_max_min a of (mx, mn) \<Rightarrow>
              if INT_MAX < mx - mn + 1 then None
              else Some (write_back mn (tally mn a (replicate (nat (mx - mn + 1)) 0)))))"

subsection \<open>IsSorted and GetMiddleIndex\<close>

text \<open>\<open>i < sz - 2\<close> on unsigned numbers: for fewer than two elements the loop leaves the array.\<close>

definition IsSorted :: "int list \<Rightarrow> bool option" where
  "IsSorted a = (if length a < 2 then None
     else Some (list_all (\<lambda>i. \<not> a ! (i + 1) < a ! i) [0..<length a - 2]))"

definition GetMiddleIndex :: "int list \<Rightarrow> nat \<Rightarrow> nat \<Rightarrow> int" where
  "GetMiddleIndex a left right =
     (let mid = left + (right - left) div 2 in
      if a ! mid \<le> a ! right
      then (if a ! left \<le> a ! mid then int mid
            else if a ! left \<le> a ! right then int left else int right)
      else (if a ! left \<le> a ! right then int right
            else if a ! mid \<le> a ! left then a ! mid else int left))"

section \<open>Insertion and Shell sort\<close>

lemma length_sink [simp]: "length (sink gap t p a) = length a"
  by (induction gap t p a rule: sink.induct) (subst sink.simps, simp)

lemma mset_replace: "i < length a \<Longrightarrow> mset (a[i := x]) + {#a ! i#} = mset a + {#x#}"
  by (simp add: mset_update [of i a x] ac_simps)

lemma sink_mset:
  "p < length a \<Longrightarrow> mset (sink gap t p a) + {#a ! p#} = mset a + {#t#}"
proof (induction gap t p a rule: sink.induct)
  case (1 gap t p a)
  show ?case
  proof (cases "0 < gap \<and> gap \<le> p \<and> t < a ! (p - gap)")
    case True
    let ?b = "a[p := a ! (p - gap)]"
    have "p - gap < length ?b" "p - gap \<noteq> p" using True "1.prems" by auto
    then have "mset (sink gap t (p - gap) ?b) + {#a ! (p - gap)#} = mset ?b + {#t#}"
      using "1.IH" [OF True] by simp
    moreover have "mset ?b + {#a ! p#} = mset a + {#a ! (p - gap)#}"
      using "1.prems" by (rule mset_replace)
    ultimately have "mset (sink gap t (p - gap) ?b) + {#a ! p#} + {#a ! (p - gap)#}
        = mset a + {#t#} + {#a ! (p - gap)#}" by (metis add.commute add.left_commute)
    then show ?thesis using True by (simp add: sink.simps [of gap t p a])
  next
    case False
    then have "sink gap t p a = a[p := t]" by (subst sink.simps) (rule if_not_P)
    then show ?thesis using mset_replace [OF "1.prems", of t] by simp
  qed
qed

lemma gap_step_mset:
  "i + gap < length a \<Longrightarrow> mset (gap_step gap i a) = mset a \<and> length (gap_step gap i a) = length a"
  using sink_mset [of "i + gap" a gap "a ! (i + gap)"] by (simp add: gap_step_def)

lemma gap_pass_mset: "mset (gap_pass gap a) = mset a" and length_gap_pass: "length (gap_pass gap a) = length a"
proof -
  have "\<forall>i \<in> set is. i + gap < length a \<Longrightarrow>
     mset (fold (gap_step gap) is a) = mset a \<and> length (fold (gap_step gap) is a) = length a" for "is" a
    by (induction "is" arbitrary: a) (auto simp: gap_step_mset)
  moreover have "\<forall>i \<in> set [0..<length a - gap]. i + gap < length a" by auto
  ultimately show "mset (gap_pass gap a) = mset a" "length (gap_pass gap a) = length a"
    unfolding gap_pass_def by blast+
qed

text \<open>With gap 1 an element sinks to its place in a sorted prefix.\<close>

lemma sink_sorted:
  "sorted p \<Longrightarrow> \<exists>q. sink 1 t (length p) (p @ x # r) = q @ r \<and> sorted q \<and> mset q = add_mset t (mset p)"
proof (induction p arbitrary: x r rule: rev_induct)
  case Nil
  show ?case by (subst sink.simps) (auto intro: exI [of _ "[t]"])
next
  case (snoc b p)
  have a: "(p @ [b]) @ x # r = p @ b # x # r" by simp
  show ?case
  proof (cases "t < b")
    case True
    have "sink 1 t (length (p @ [b])) ((p @ [b]) @ x # r) = sink 1 t (length p) (p @ b # (b # r))"
      using True by (subst sink.simps) (simp add: nth_append list_update_append)
    moreover obtain q where q: "sink 1 t (length p) (p @ b # (b # r)) = q @ (b # r)" "sorted q"
        "mset q = add_mset t (mset p)"
      using snoc.IH [of b "b # r"] snoc.prems by (auto simp: sorted_append)
    moreover have "sorted (q @ [b])"
    proof -
      have "set q = insert t (set p)" using q(3) by (metis set_mset_add_mset_insert set_mset_mset)
      then show ?thesis using q(2) True snoc.prems by (auto simp: sorted_append)
    qed
    ultimately show ?thesis by (intro exI [of _ "q @ [b]"]) simp
  next
    case False
    then have "sink 1 t (length (p @ [b])) ((p @ [b]) @ x # r) = (p @ [b, t]) @ r"
      by (subst sink.simps) (simp add: nth_append list_update_append)
    moreover have "sorted (p @ [b, t])" using False snoc.prems by (auto simp: sorted_append)
    ultimately show ?thesis by (intro exI [of _ "p @ [b, t]"]) simp
  qed
qed

lemma insertion_prefix:
  "k < length a \<Longrightarrow> sorted (take (Suc k) (fold (gap_step 1) [0..<k] a))
     \<and> length (fold (gap_step 1) [0..<k] a) = length a"
proof (induction k)
  case 0
  then show ?case by (cases a) simp_all
next
  case (Suc k)
  define b where "b = fold (gap_step 1) [0..<k] a"
  have b: "sorted (take (Suc k) b)" "length b = length a" using Suc by (simp_all add: b_def)
  have split: "take (Suc k) b @ b ! Suc k # drop (Suc (Suc k)) b = b"
    using Suc.prems b(2) by (simp add: id_take_nth_drop [symmetric])
  have len: "length (take (Suc k) b) = Suc k" using Suc.prems b(2) by simp
  obtain q where q: "sink 1 (b ! Suc k) (Suc k) b = q @ drop (Suc (Suc k)) b" "sorted q"
      "mset q = add_mset (b ! Suc k) (mset (take (Suc k) b))"
    using sink_sorted [OF b(1), of "b ! Suc k" "b ! Suc k" "drop (Suc (Suc k)) b"]
    unfolding split len by blast
  have "length q = Suc (Suc k)" using arg_cong [OF q(3), of size] len by simp
  moreover have "fold (gap_step 1) [0..<Suc k] a = q @ drop (Suc (Suc k)) b"
  proof -
    have "fold (gap_step 1) [0..<Suc k] a = gap_step 1 k b" by (simp add: b_def)
    then show ?thesis using q(1) by (simp add: gap_step_def)
  qed
  ultimately show ?case using q(2) b(2) Suc.prems by simp
qed

lemma gap_pass_1_sorted: "sorted (gap_pass 1 a)"
proof (cases a)
  case (Cons x xs)
  then have k: "length a - 1 < length a" "Suc (length a - 1) = length a" by simp_all
  then have "take (length a) (gap_pass 1 a) = gap_pass 1 a" by (simp add: length_gap_pass)
  then show ?thesis using insertion_prefix [OF k(1)] unfolding k(2) by (simp add: gap_pass_def)
qed (simp add: gap_pass_def)

lemma shell_loop_ok: "mset (shell_loop gap a) = mset a \<and> (1 < gap \<longrightarrow> sorted (shell_loop gap a))"
proof (induction gap a rule: shell_loop.induct)
  case (1 gap a)
  show ?case
  proof (cases "1 < gap")
    case True
    note IH = "1.IH" [OF True]
    have step: "shell_loop gap a = shell_loop (gap div 3 + 1) (gap_pass (gap div 3 + 1) a)"
      using True by (subst shell_loop.simps) simp
    have "sorted (shell_loop (gap div 3 + 1) (gap_pass (gap div 3 + 1) a))"
    proof (cases "1 < gap div 3 + 1")
      case False
      then have "gap div 3 + 1 = 1" by simp
      then show ?thesis using gap_pass_1_sorted by (simp add: shell_loop.simps [of "Suc 0"])
    qed (use IH in blast)
    then show ?thesis using IH gap_pass_mset by (simp add: step)
  next
    case False
    then show ?thesis by (simp add: shell_loop.simps [of gap a])
  qed
qed

lemma sorted_mset_unique: "sorted b \<Longrightarrow> mset b = mset a \<Longrightarrow> b = sort a"
  by (metis properties_for_sort)

lemma insertion_sorts:
  "InsertSort a = (if a = [] then None else Some (sort a)) \<and> ShellSort a = Some (sort a)"
proof
  show "InsertSort a = (if a = [] then None else Some (sort a))"
    using sorted_mset_unique [OF gap_pass_1_sorted gap_pass_mset] by (simp add: InsertSort_def)
  show "ShellSort a = Some (sort a)"
  proof (cases "1 < length a")
    case True
    then show ?thesis using shell_loop_ok [of "length a" a] sorted_mset_unique [of "shell_loop (length a) a" a]
      by (simp add: ShellSort_def)
  next
    case False
    then have "sort a = a" by (cases a rule: remdups_adj.cases) auto
    then show ?thesis using False by (simp add: ShellSort_def shell_loop.simps [of "length a"])
  qed
qed

section \<open>Settled positions\<close>

text \<open>
  The elements before \<open>lo\<close> and from \<open>hi\<close> on are in their final places: every pair with one of them
  is in order.
\<close>

definition settled :: "nat \<Rightarrow> nat \<Rightarrow> int list \<Rightarrow> bool" where
  "settled lo hi a \<longleftrightarrow> (\<forall>i j. i < j \<and> j < length a \<and> (i < lo \<or> hi \<le> j) \<longrightarrow> a ! i \<le> a ! j)"

lemma settled_sorted: "settled lo hi a \<Longrightarrow> hi \<le> lo + 1 \<Longrightarrow> sorted a"
  unfolding settled_def sorted_iff_nth_mono_less by (metis add.commute le_less_trans not_less not_less_eq plus_1_eq_Suc less_Suc_eq_le le_trans)

text \<open>Rearranging the elements in between keeps that.\<close>

lemma within_settled:
  assumes "within lo hi a b" "settled lo hi a" "hi \<le> length a"
  shows "settled lo hi b"
  unfolding settled_def
proof (intro allI impI)
  fix i j assume ij: "i < j \<and> j < length b \<and> (i < lo \<or> hi \<le> j)"
  have len: "length b = length a" using assms(1) by (simp add: within_def)
  obtain i' where i': "b ! i = a ! i'" "i' = i \<or> lo \<le> i \<and> i < hi \<and> lo \<le> i' \<and> i' < hi"
    using assms(1) ij len unfolding within_def by (metis less_trans not_less)
  obtain j' where j': "b ! j = a ! j'" "j' = j \<or> lo \<le> j \<and> j < hi \<and> lo \<le> j' \<and> j' < hi"
    using assms(1) ij len unfolding within_def by (metis not_less)
  have "i' < j' \<and> j' < length a \<and> (i' < lo \<or> hi \<le> j')" using ij i'(2) j'(2) len assms(3) by auto
  then show "b ! i \<le> b ! j" using assms(2) i'(1) j'(1) unfolding settled_def by metis
qed

end
