(* ===== verification/Binary_Heap.thy ===== *)
theory Binary_Heap
  imports Arrays
begin

text \<open>
  The array heap of \<open>FileComPress/heap.h\<close> (class \<open>Heap\<close>), which the Huffman tree is built with.  The vector \<open>_heap\<close> is the list of its elements and the template
  parameter \<open>Compara\<close> is the function \<open>cmp\<close>.  \<open>None\<close> is undefined behaviour or a failed assertion:
  the top of an empty heap, or \<open>pop_back\<close> on an empty vector.

  The contract of a comparison and the contract of a priority queue are locales; the heap operations
  over any comparison are a priority queue.  \<open>AdjustDown\<close> of the heap sort is the same loop.
\<close>

section \<open>Definitions from the code\<close>

text \<open>\<open>if (child + 1 < sz && cmp(_heap[child + 1], _heap[child])) child += 1;\<close>\<close>

definition first_child :: "('a \<Rightarrow> 'a \<Rightarrow> bool) \<Rightarrow> nat \<Rightarrow> nat \<Rightarrow> 'a list \<Rightarrow> nat" where
  "first_child cmp child n a =
     (if child + 1 < n \<and> cmp (a ! (child + 1)) (a ! child) then child + 1 else child)"

lemma first_child_ge [simp]: "child \<le> first_child cmp child n a"
  by (simp add: first_child_def)

function sift_down :: "('a \<Rightarrow> 'a \<Rightarrow> bool) \<Rightarrow> nat \<Rightarrow> nat \<Rightarrow> 'a list \<Rightarrow> 'a list" where
  "sift_down cmp parent n a =
     (if parent * 2 + 1 < n \<and>
         cmp (a ! first_child cmp (parent * 2 + 1) n a) (a ! parent)
      then sift_down cmp (first_child cmp (parent * 2 + 1) n a) n
             (Swap parent (first_child cmp (parent * 2 + 1) n a) a)
      else a)"
  by pat_completeness auto
termination
  by (relation "measure (\<lambda>(cmp, parent, n, a). n - parent)") (auto simp: first_child_def)

declare sift_down.simps [simp del]

text \<open>\<open>_AdjustUp\<close>: the parent of \<open>child\<close> is \<open>(child - 1) >> 1\<close>.\<close>

function sift_up :: "('a \<Rightarrow> 'a \<Rightarrow> bool) \<Rightarrow> nat \<Rightarrow> 'a list \<Rightarrow> 'a list" where
  "sift_up cmp child a =
     (if 0 < child \<and> cmp (a ! child) (a ! ((child - 1) div 2))
      then sift_up cmp ((child - 1) div 2) (Swap child ((child - 1) div 2) a)
      else a)"
  by pat_completeness auto
termination
  by (relation "measure (\<lambda>(cmp, child, a). child)") auto

declare sift_up.simps [simp del]

text \<open>
  The constructor from an array: \<open>assert(size > 0)\<close>, then \<open>for (int i = (size - 2) / 2; i >= 0; --i)\<close>;
  for one element the signed quotient is 0, and that step finds no child.
\<close>

definition heap_of :: "('a \<Rightarrow> 'a \<Rightarrow> bool) \<Rightarrow> 'a list \<Rightarrow> 'a list option" where
  "heap_of cmp arr =
     (if arr = [] then None
      else Some (fold (\<lambda>i. sift_down cmp i (length arr)) (rev [0..<(length arr - 2) div 2 + 1]) arr))"

definition heap_push :: "('a \<Rightarrow> 'a \<Rightarrow> bool) \<Rightarrow> 'a \<Rightarrow> 'a list \<Rightarrow> 'a list" where
  "heap_push cmp d a = sift_up cmp (length a) (a @ [d])"

definition heap_top :: "'a list \<Rightarrow> 'a option" where
  "heap_top a = (if a = [] then None else Some (a ! 0))"

definition heap_pop :: "('a \<Rightarrow> 'a \<Rightarrow> bool) \<Rightarrow> 'a list \<Rightarrow> 'a list option" where
  "heap_pop cmp a =
     (if 1 < length a
      then (let b = butlast (Swap 0 (length a - 1) a) in Some (sift_down cmp 0 (length b) b))
      else if a = [] then None else Some (butlast a))"

section \<open>The order of a heap\<close>

text \<open>
  A comparison of the C++ library: it is asymmetric, and not being before is transitive (so that
  elements neither of which is before the other are equivalent).
\<close>

locale comparison =
  fixes cmp :: "'a \<Rightarrow> 'a \<Rightarrow> bool"
  assumes asym: "cmp x y \<Longrightarrow> \<not> cmp y x"
    and not_before_trans: "\<not> cmp y x \<Longrightarrow> \<not> cmp z y \<Longrightarrow> \<not> cmp z x"

text \<open>
  No node of the first \<open>n\<close> elements is before its parent, where the parent is \<open>k\<close> or later and not
  the place \<open>p\<close>.
\<close>

definition heap_but :: "('a \<Rightarrow> 'a \<Rightarrow> bool) \<Rightarrow> nat option \<Rightarrow> nat \<Rightarrow> nat \<Rightarrow> 'a list \<Rightarrow> bool" where
  "heap_but cmp p k n a \<longleftrightarrow>
     (\<forall>c. 0 < c \<and> c < n \<and> k \<le> (c - 1) div 2 \<and> Some ((c - 1) div 2) \<noteq> p
        \<longrightarrow> \<not> cmp (a ! c) (a ! ((c - 1) div 2)))"

definition is_heap :: "('a \<Rightarrow> 'a \<Rightarrow> bool) \<Rightarrow> 'a list \<Rightarrow> bool" where
  "is_heap cmp a \<longleftrightarrow> heap_but cmp None 0 (length a) a"

lemma parent_iff: "0 < c \<Longrightarrow> (c - 1) div 2 = p \<longleftrightarrow> c = 2 * p + 1 \<or> c = 2 * p + 2" for c p :: nat
  by auto

lemma sift_down_go:
  "p * 2 + 1 < n \<Longrightarrow> cmp (a ! first_child cmp (p * 2 + 1) n a) (a ! p) \<Longrightarrow>
   sift_down cmp p n a
   = sift_down cmp (first_child cmp (p * 2 + 1) n a) n (Swap p (first_child cmp (p * 2 + 1) n a) a)"
  by (subst sift_down.simps) simp

lemma sift_down_stop:
  "\<not> (p * 2 + 1 < n \<and> cmp (a ! first_child cmp (p * 2 + 1) n a) (a ! p)) \<Longrightarrow> sift_down cmp p n a = a"
  by (subst sift_down.simps) (rule if_not_P)

lemma sift_down_leaf [simp]: "n \<le> p * 2 + 1 \<Longrightarrow> sift_down cmp p n a = a"
  by (rule sift_down_stop) simp

lemma first_child_in:
  assumes "p * 2 + 1 < n"
  shows "p < first_child cmp (p * 2 + 1) n a" "first_child cmp (p * 2 + 1) n a < n"
    "(first_child cmp (p * 2 + 1) n a - 1) div 2 = p"
  using assms by (auto simp: first_child_def)

lemma sift_down_within:
  "lo \<le> p \<Longrightarrow> p < n \<Longrightarrow> n \<le> length a \<Longrightarrow> within lo n a (sift_down cmp p n a)"
proof (induction cmp p n a rule: sift_down.induct)
  case (1 cmp p n a)
  let ?c = "first_child cmp (p * 2 + 1) n a"
  show ?case
  proof (cases "p * 2 + 1 < n \<and> cmp (a ! ?c) (a ! p)")
    case True
    then have go: "p * 2 + 1 < n" "cmp (a ! ?c) (a ! p)" by simp_all
    note c = first_child_in [OF go(1), of cmp a]
    have "within lo n (Swap p ?c a) (sift_down cmp ?c n (Swap p ?c a))"
      using c "1.prems" by (intro "1.IH" [OF True]) simp_all
    moreover have "within lo n a (Swap p ?c a)"
      using c "1.prems" by (intro within_swap) simp_all
    ultimately show ?thesis unfolding sift_down_go [of p n cmp a, OF go] by (rule within_trans [rotated])
  next
    case False
    then show ?thesis by (simp add: sift_down_stop)
  qed
qed

lemma sift_down_mset:
  "n \<le> length a \<Longrightarrow> mset (sift_down cmp p n a) = mset a \<and> length (sift_down cmp p n a) = length a"
  using sift_down_within [of p p n a cmp] by (cases "p < n") (simp_all add: within_def)

lemma sift_up_mset:
  "child < length a \<Longrightarrow> mset (sift_up cmp child a) = mset a \<and> length (sift_up cmp child a) = length a"
proof (induction cmp child a rule: sift_up.induct)
  case (1 cmp child a)
  show ?case
  proof (cases "0 < child \<and> cmp (a ! child) (a ! ((child - 1) div 2))")
    case True
    have p: "(child - 1) div 2 < length a" using "1.prems" by linarith
    have go: "sift_up cmp child a = sift_up cmp ((child - 1) div 2) (Swap child ((child - 1) div 2) a)"
      using True by (subst sift_up.simps) simp
    show ?thesis using "1.IH" [OF True] p mset_swap_eq [OF "1.prems" p] unfolding go by simp
  next
    case False
    then show ?thesis by (subst (1 2) sift_up.simps) auto
  qed
qed

lemma heap_but_skip: "heap_but cmp None (Suc p) n a \<Longrightarrow> heap_but cmp (Some p) p n a"
  by (auto simp: heap_but_def Suc_le_eq le_less)

lemma heap_but_cong:
  "(\<And>i. i < n \<Longrightarrow> a ! i = b ! i) \<Longrightarrow> heap_but cmp p k n a = heap_but cmp p k n b"
proof -
  assume "\<And>i. i < n \<Longrightarrow> a ! i = b ! i"
  moreover have "(c - 1) div 2 < n" if "c < n" for c :: nat using that by linarith
  ultimately show ?thesis unfolding heap_but_def by (intro all_cong) metis
qed

context comparison begin

lemma first_child_best:
  assumes "p * 2 + 1 < n" "0 < c" "c < n" "(c - 1) div 2 = p"
  shows "\<not> cmp (a ! c) (a ! first_child cmp (p * 2 + 1) n a)"
proof -
  have "c = p * 2 + 1 \<or> c = p * 2 + 1 + 1" using assms(2,4) by (auto simp: parent_iff)
  then show ?thesis using assms(3) asym by (auto simp: first_child_def)
qed

text \<open>One exchange moves the place where the heap may be broken from \<open>p\<close> to its child \<open>c\<close>.\<close>

lemma swap_heap_but:
  assumes "p < length a" "c < length a" "0 < c" "c < n" "p < c" "(c - 1) div 2 = p" "cmp (a ! c) (a ! p)"
    and heap: "heap_but cmp (Some p) k n a"
    and best: "\<And>x. 0 < x \<Longrightarrow> x < n \<Longrightarrow> (x - 1) div 2 = p \<Longrightarrow> \<not> cmp (a ! x) (a ! c)"
    and above: "0 < p \<Longrightarrow> k \<le> (p - 1) div 2 \<Longrightarrow> \<not> cmp (a ! c) (a ! ((p - 1) div 2))"
  shows "heap_but cmp (Some c) k n (Swap p c a)"
  unfolding heap_but_def
proof (intro allI impI, elim conjE)
  note nth = swap_nth [OF assms(1,2)]
  fix x assume x: "0 < x" "x < n" "k \<le> (x - 1) div 2" "Some ((x - 1) div 2) \<noteq> Some c"
  show "\<not> cmp (Swap p c a ! x) (Swap p c a ! ((x - 1) div 2))"
  proof (cases "(x - 1) div 2 = p")
    case True
    have "\<not> cmp (a ! x) (a ! c)" using best x True by blast
    moreover have "x \<noteq> p" using x(1) True by linarith
    ultimately have "\<not> cmp (Swap p c a ! x) (a ! c)" using asym [OF assms(7)] unfolding nth by simp
    moreover have "Swap p c a ! p = a ! c" unfolding nth by simp
    ultimately show ?thesis unfolding True by simp
  next
    case False
    then have "x \<noteq> c" using assms(6) by auto
    moreover have "\<not> cmp (a ! c) (a ! ((p - 1) div 2))" if "x = p"
      using above x that by simp
    moreover have "\<not> cmp (a ! x) (a ! ((x - 1) div 2))"
      using heap x False unfolding heap_but_def by blast
    ultimately show ?thesis unfolding nth using False x(4) by (cases "x = p") simp_all
  qed
qed

lemma sift_down_heap:
  assumes "n \<le> length a" "heap_but cmp (Some p) k n a" "k \<le> p" "p < n"
    and "\<And>c. 0 < c \<Longrightarrow> c < n \<Longrightarrow> (c - 1) div 2 = p \<Longrightarrow> 0 < p \<Longrightarrow> k \<le> (p - 1) div 2
           \<Longrightarrow> \<not> cmp (a ! c) (a ! ((p - 1) div 2))"
  shows "heap_but cmp None k n (sift_down cmp p n a)"
  using assms
proof (induction "n - p" arbitrary: p a rule: less_induct)
  case (less p a)
  note prems = less.prems
  let ?c = "first_child cmp (p * 2 + 1) n a"
  show ?case
  proof (cases "p * 2 + 1 < n \<and> cmp (a ! ?c) (a ! p)")
    case True
    then have go: "p * 2 + 1 < n" "cmp (a ! ?c) (a ! p)" by simp_all
    note c = first_child_in [OF go(1), of cmp a] first_child_best [OF go(1), where a = a]
    let ?b = "Swap p ?c a"
    have len: "p < length a" "?c < length a" using c(1,2) prems(1,4) by simp_all
    note nth = swap_nth [OF len]
    have "heap_but cmp None k n (sift_down cmp ?c n ?b)"
    proof (rule less.hyps)
      show "heap_but cmp (Some ?c) k n ?b"
        using c prems(2,5) len go(2) by (intro swap_heap_but) simp_all
      show "\<not> cmp (?b ! d) (?b ! ((?c - 1) div 2))"
        if d: "0 < d" "d < n" "(d - 1) div 2 = ?c" "0 < ?c" "k \<le> (?c - 1) div 2" for d
      proof -
        have "d \<noteq> p" "d \<noteq> ?c" using d c(1) by auto
        moreover have "k \<le> (d - 1) div 2" "Some ((d - 1) div 2) \<noteq> Some p"
          using prems(3) d(3) c(1) by simp_all
        then have "\<not> cmp (a ! d) (a ! ((d - 1) div 2))"
          using prems(2) d(1,2) unfolding heap_but_def by blast
        ultimately show ?thesis unfolding nth using c(1,3) d(3) by simp
      qed
      show "n - ?c < n - p" using c(1,2) by linarith
    qed (use c(1,2) prems in simp_all)
    then show ?thesis unfolding sift_down_go [of p n cmp a, OF go] .
  next
    case False
    have "\<not> cmp (a ! x) (a ! p)" if x: "0 < x" "x < n" "(x - 1) div 2 = p" for x
    proof -
      have lt: "p * 2 + 1 < n" using x by (auto simp: parent_iff simp del: One_nat_def)
      have "\<not> cmp (a ! ?c) (a ! p)" using False lt by simp
      from not_before_trans [OF this first_child_best [OF lt x, where a = a]] show ?thesis .
    qed
    then show ?thesis using prems(2) unfolding sift_down_stop [of p n cmp a, OF False] heap_but_def by auto
  qed
qed

lemma sift_down_loop:
  "k \<le> m \<Longrightarrow> m \<le> n \<Longrightarrow> n \<le> length a \<Longrightarrow> heap_but cmp None m n a \<Longrightarrow>
   heap_but cmp None k n (fold (\<lambda>i. sift_down cmp i n) (rev [k..<m]) a)
   \<and> within 0 n a (fold (\<lambda>i. sift_down cmp i n) (rev [k..<m]) a)"
proof (induction m arbitrary: a)
  case (Suc m)
  show ?case
  proof (cases "k = Suc m")
    case False
    with Suc.prems have km: "k \<le> m" "m < n" by simp_all
    have w: "within 0 n a (sift_down cmp m n a)" using km Suc.prems by (intro sift_down_within) simp_all
    have h: "heap_but cmp None m n (sift_down cmp m n a)"
      using km Suc.prems heap_but_skip [OF Suc.prems(4)] by (intro sift_down_heap) auto
    have "n \<le> length (sift_down cmp m n a)" using w Suc.prems by (simp add: within_def)
    with Suc.IH [of "sift_down cmp m n a"] km h w within_trans [OF w]
    show ?thesis by simp
  qed (use Suc.prems in simp)
qed simp

lemma heap_root:
  assumes "heap_but cmp None 0 n a" "i < n"
  shows "\<not> cmp (a ! i) (a ! 0)"
  using assms(2)
proof (induction i rule: less_induct)
  case (less i)
  show ?case
  proof (cases "i = 0")
    case False
    then have "(i - 1) div 2 < i" by linarith
    then have "\<not> cmp (a ! ((i - 1) div 2)) (a ! 0)" using less by simp
    moreover have "\<not> cmp (a ! i) (a ! ((i - 1) div 2))"
      using assms(1) less.prems False unfolding heap_but_def by simp
    ultimately show ?thesis by (rule not_before_trans)
  qed (use asym in auto)
qed

text \<open>\<open>_AdjustUp\<close>: only the node that climbs may be before its parent, and never before its grandparent's place.\<close>

definition climbing :: "nat \<Rightarrow> 'a list \<Rightarrow> bool" where
  "climbing i a \<longleftrightarrow>
     (\<forall>c. 0 < c \<and> c < length a \<and> c \<noteq> i \<longrightarrow> \<not> cmp (a ! c) (a ! ((c - 1) div 2)))
     \<and> (\<forall>c. 0 < c \<and> c < length a \<and> (c - 1) div 2 = i \<and> 0 < i \<longrightarrow> \<not> cmp (a ! c) (a ! ((i - 1) div 2)))"

lemma climbing_step:
  assumes "climbing i a" "0 < i" "i < length a" "cmp (a ! i) (a ! ((i - 1) div 2))"
  shows "climbing ((i - 1) div 2) (Swap i ((i - 1) div 2) a)"
proof -
  let ?p = "(i - 1) div 2"
  have p: "?p < i" "?p < length a" using assms(2,3) by linarith+
  note nth = swap_nth [OF assms(3) p(2)]
  have h1: "\<not> cmp (a ! c) (a ! ((c - 1) div 2))" if "0 < c" "c < length a" "c \<noteq> i" for c
    using assms(1) that unfolding climbing_def by blast
  have h2: "\<not> cmp (a ! c) (a ! ?p)" if "0 < c" "c < length a" "(c - 1) div 2 = i" for c
    using assms(1,2) that unfolding climbing_def by blast
  have "\<not> cmp (Swap i ?p a ! c) (Swap i ?p a ! ((c - 1) div 2))"
    if c: "0 < c" "c < length a" "c \<noteq> ?p" for c
  proof -
    have lt: "(c - 1) div 2 < c" using c(1) by linarith
    consider "c = i" | "c \<noteq> i" "(c - 1) div 2 = ?p" | "c \<noteq> i" "(c - 1) div 2 = i"
      | "c \<noteq> i" "(c - 1) div 2 \<noteq> ?p" "(c - 1) div 2 \<noteq> i" by blast
    then show ?thesis
    proof cases
      case 1
      then show ?thesis unfolding nth using asym [OF assms(4)] p(1) by simp
    next
      case 2
      have "\<not> cmp (a ! c) (a ! ?p)" using h1 [OF c(1,2) 2(1)] 2(2) by simp
      with asym [OF assms(4)] have "\<not> cmp (a ! c) (a ! i)" using not_before_trans by blast
      then show ?thesis unfolding nth using 2 c(3) p(1) by simp
    next
      case 3
      then show ?thesis unfolding nth using h2 [OF c(1,2)] c(3) p(1) by simp
    next
      case 4
      then show ?thesis unfolding nth using h1 [OF c(1,2)] c(3) by simp
    qed
  qed
  moreover have "\<not> cmp (Swap i ?p a ! c) (Swap i ?p a ! ((?p - 1) div 2))"
    if c: "0 < c" "c < length a" "(c - 1) div 2 = ?p" "0 < ?p" for c
  proof -
    have q: "(?p - 1) div 2 < ?p" using c(4) by linarith
    have up: "\<not> cmp (a ! ?p) (a ! ((?p - 1) div 2))" using h1 [of ?p] c(4) p by simp
    have "c \<noteq> ?p" using c(1,3) by linarith
    moreover have "\<not> cmp (a ! c) (a ! ((?p - 1) div 2))" if "c \<noteq> i"
    proof (rule not_before_trans [OF up])
      show "\<not> cmp (a ! c) (a ! ?p)" using h1 [OF c(1,2) that] c(3) by simp
    qed
    ultimately show ?thesis unfolding nth using up q p(1) by (cases "c = i") auto
  qed
  ultimately show ?thesis unfolding climbing_def by simp
qed

lemma sift_up_heap: "climbing i a \<Longrightarrow> i < length a \<Longrightarrow> is_heap cmp (sift_up cmp i a)"
proof (induction i arbitrary: a rule: less_induct)
  case (less i a)
  show ?case
  proof (cases "0 < i \<and> cmp (a ! i) (a ! ((i - 1) div 2))")
    case True
    then have "climbing ((i - 1) div 2) (Swap i ((i - 1) div 2) a)"
      using less.prems by (intro climbing_step) simp_all
    moreover have "(i - 1) div 2 < i" "(i - 1) div 2 < length a" using True less.prems(2) by linarith+
    moreover have "sift_up cmp i a = sift_up cmp ((i - 1) div 2) (Swap i ((i - 1) div 2) a)"
      using True by (subst sift_up.simps) simp
    ultimately show ?thesis using less.IH by simp
  next
    case False
    then have "sift_up cmp i a = a" by (subst sift_up.simps) auto
    moreover have "\<not> cmp (a ! c) (a ! ((c - 1) div 2))" if "0 < c" "c < length a" for c
      using less.prems(1) False that unfolding climbing_def by (cases "c = i") auto
    ultimately show ?thesis by (simp add: is_heap_def heap_but_def)
  qed
qed

lemma push_heap:
  assumes "is_heap cmp a"
  shows "is_heap cmp (heap_push cmp d a)" "mset (heap_push cmp d a) = add_mset d (mset a)"
proof -
  have "climbing (length a) (a @ [d])"
    unfolding climbing_def
  proof (intro conjI allI impI, elim conjE)
    fix c :: nat assume "0 < c" "c < length (a @ [d])" "c \<noteq> length a"
    moreover from this have "(c - 1) div 2 < length a" by simp
    ultimately show "\<not> cmp ((a @ [d]) ! c) ((a @ [d]) ! ((c - 1) div 2))"
      using assms by (simp add: is_heap_def heap_but_def nth_append)
  next
    fix c :: nat assume "0 < c \<and> c < length (a @ [d]) \<and> (c - 1) div 2 = length a \<and> 0 < length a"
    then have False by auto
    then show "\<not> cmp ((a @ [d]) ! c) ((a @ [d]) ! ((length a - 1) div 2))" ..
  qed
  then show "is_heap cmp (heap_push cmp d a)" unfolding heap_push_def by (intro sift_up_heap) simp_all
  show "mset (heap_push cmp d a) = add_mset d (mset a)"
    using sift_up_mset [of "length a" "a @ [d]" cmp] by (simp add: heap_push_def)
qed

lemma top_first:
  assumes "is_heap cmp a" "heap_top a = Some x"
  shows "x \<in> set a" "\<forall>y \<in> set a. \<not> cmp y x"
proof -
  have a: "a \<noteq> []" "x = a ! 0" using assms(2) by (auto simp: heap_top_def split: if_splits)
  then show "x \<in> set a" by simp
  show "\<forall>y \<in> set a. \<not> cmp y x"
    using heap_root [of "length a" a] assms(1) by (auto simp: a(2) is_heap_def in_set_conv_nth)
qed

lemma pop_heap:
  assumes "is_heap cmp a" "heap_top a = Some x"
  shows "\<exists>b. heap_pop cmp a = Some b \<and> is_heap cmp b \<and> mset a = add_mset x (mset b)"
proof (cases "1 < length a")
  case False
  then have "a = [x]" using assms(2) by (cases a) (auto simp: heap_top_def)
  then show ?thesis by (simp add: heap_pop_def is_heap_def heap_but_def)
next
  case True
  let ?n = "length a - 1" and ?s = "Swap 0 (length a - 1) a"
  let ?b = "butlast ?s"
  have len: "0 < length a" "?n < length a" using True by auto
  have lb: "length ?b = ?n" by simp
  have nth: "?b ! i = (if i = 0 then a ! ?n else a ! i)" if "i < ?n" for i
  proof -
    have "?b ! i = ?s ! i" using that by (simp add: nth_butlast)
    then show ?thesis using that unfolding swap_nth [OF len] by simp
  qed
  have "heap_but cmp (Some 0) 0 ?n ?b"
    unfolding heap_but_def
  proof (intro allI impI, elim conjE)
    fix c :: nat assume c: "0 < c" "c < ?n" "Some ((c - 1) div 2) \<noteq> Some 0"
    then have p: "(c - 1) div 2 < ?n" by linarith
    show "\<not> cmp (?b ! c) (?b ! ((c - 1) div 2))"
      using c assms(1) unfolding nth [OF c(2)] nth [OF p] by (simp add: is_heap_def heap_but_def)
  qed
  then have "heap_but cmp None 0 ?n (sift_down cmp 0 ?n ?b)"
    using True lb by (intro sift_down_heap) auto
  moreover have m: "mset (sift_down cmp 0 ?n ?b) = mset ?b" "length (sift_down cmp 0 ?n ?b) = ?n"
    using sift_down_mset [of ?n ?b cmp 0] lb by simp_all
  moreover have "mset a = add_mset x (mset ?b)"
  proof -
    have "?s = ?b @ [last ?s]" using len(1) by (subst append_butlast_last_id) (auto simp: Swap_def)
    moreover have "last ?s = x"
      using len assms(2) by (subst last_conv_nth) (auto simp: Swap_def heap_top_def nth_list_update)
    ultimately have "mset ?s = add_mset x (mset ?b)" by (metis mset.simps mset_append add_mset_add_single)
    then show ?thesis using mset_swap_eq [OF len] by simp
  qed
  ultimately show ?thesis using True lb by (simp add: heap_pop_def Let_def is_heap_def)
qed

lemma heap_of_ok:
  assumes "a \<noteq> []"
  shows "\<exists>b. heap_of cmp a = Some b \<and> is_heap cmp b \<and> mset b = mset a"
proof -
  let ?m = "(length a - 2) div 2 + 1"
  have "heap_but cmp None ?m (length a) a" unfolding heap_but_def by auto
  moreover have "?m \<le> length a" using assms by (cases a) auto
  ultimately show ?thesis
    using sift_down_loop [of 0 ?m "length a" a] assms by (auto simp: heap_of_def is_heap_def within_def)
qed

end

section \<open>The contract of a priority queue\<close>

locale priority_queue = comparison cmp for cmp :: "'a \<Rightarrow> 'a \<Rightarrow> bool" +
  fixes empty :: 'q and push :: "'a \<Rightarrow> 'q \<Rightarrow> 'q" and top :: "'q \<Rightarrow> 'a option"
    and pop :: "'q \<Rightarrow> 'q option" and ok :: "'q \<Rightarrow> bool" and bag :: "'q \<Rightarrow> 'a multiset"
  assumes empty_ok: "ok empty" "bag empty = {#}"
    and push_ok: "ok q \<Longrightarrow> ok (push x q) \<and> bag (push x q) = add_mset x (bag q)"
    and top_None: "ok q \<Longrightarrow> top q = None \<longleftrightarrow> bag q = {#}"
    and top_Some: "ok q \<Longrightarrow> top q = Some x \<Longrightarrow> x \<in># bag q \<and> (\<forall>y \<in># bag q. \<not> cmp y x)"
    and pop_None: "ok q \<Longrightarrow> pop q = None \<longleftrightarrow> bag q = {#}"
    and pop_Some: "ok q \<Longrightarrow> top q = Some x \<Longrightarrow> pop q = Some r \<Longrightarrow> ok r \<and> bag q = add_mset x (bag r)"
begin

lemma take_first:
  assumes "ok q" "bag q \<noteq> {#}"
  obtains x r where "top q = Some x" "pop q = Some r" "ok r" "bag q = add_mset x (bag r)"
    "\<forall>y \<in># bag q. \<not> cmp y x"
proof -
  obtain x where x: "top q = Some x" using top_None [OF assms(1)] assms(2) by auto
  moreover obtain r where r: "pop q = Some r" using pop_None [OF assms(1)] assms(2) by auto
  ultimately show thesis
    using that [OF x r] pop_Some [OF assms(1) x r] top_Some [OF assms(1) x] by simp
qed

lemma push_all: "ok q \<Longrightarrow> ok (fold push xs q) \<and> bag (fold push xs q) = mset xs + bag q"
  by (induction xs arbitrary: q) (simp_all add: push_ok)

end

sublocale comparison \<subseteq> heap: priority_queue cmp "[]" "heap_push cmp" heap_top "heap_pop cmp" "is_heap cmp" mset
proof
  show "is_heap cmp []" by (simp add: is_heap_def heap_but_def)
  show "is_heap cmp a \<Longrightarrow> heap_top a = None \<longleftrightarrow> mset a = {#}" for a by (simp add: heap_top_def)
  show "is_heap cmp a \<Longrightarrow> heap_pop cmp a = None \<longleftrightarrow> mset a = {#}" for a
    by (auto simp: heap_pop_def Let_def)
  show "is_heap cmp a \<Longrightarrow> heap_top a = Some x \<Longrightarrow> heap_pop cmp a = Some b
      \<Longrightarrow> is_heap cmp b \<and> mset a = add_mset x (mset b)" for a x b
    using pop_heap [of a x] by auto
qed (use push_heap top_first in \<open>simp_all\<close>)

text \<open>The function objects \<open>Less\<close> and \<open>Greater\<close>.\<close>

interpretation Less: comparison "(<) :: 'a :: linorder \<Rightarrow> 'a \<Rightarrow> bool"
  by unfold_locales auto

interpretation Greater: comparison "(>) :: 'a :: linorder \<Rightarrow> 'a \<Rightarrow> bool"
  by unfold_locales auto

section \<open>Histories of a heap\<close>

datatype 'a heap_call = Push 'a | Pop

fun heap_run :: "('a \<Rightarrow> 'a \<Rightarrow> bool) \<Rightarrow> 'a heap_call list \<Rightarrow> 'a list \<Rightarrow> 'a list option" where
  "heap_run cmp [] a = Some a"
| "heap_run cmp (Push d # cs) a = heap_run cmp cs (heap_push cmp d a)"
| "heap_run cmp (Pop # cs) a = (case heap_pop cmp a of None \<Rightarrow> None | Some b \<Rightarrow> heap_run cmp cs b)"

text \<open>The abstract object is a bag; \<open>first\<close> chooses the element that \<open>Pop\<close> removes.\<close>

fun bag_run :: "('a multiset \<Rightarrow> 'a) \<Rightarrow> 'a heap_call list \<Rightarrow> 'a multiset \<Rightarrow> 'a multiset option" where
  "bag_run first [] M = Some M"
| "bag_run first (Push d # cs) M = bag_run first cs (add_mset d M)"
| "bag_run first (Pop # cs) M = (if M = {#} then None else bag_run first cs (M - {#first M#}))"

context comparison begin

lemma heap_run_bag:
  assumes first: "\<And>M x. x \<in># M \<Longrightarrow> (\<And>y. y \<in># M \<Longrightarrow> \<not> cmp y x) \<Longrightarrow> first M = x"
  shows "is_heap cmp a \<Longrightarrow> map_option mset (heap_run cmp cs a) = bag_run first cs (mset a)
    \<and> (\<forall>b. heap_run cmp cs a = Some b \<longrightarrow> heap_top b = (if b = [] then None else Some (first (mset b))))"
proof (induction cs arbitrary: a)
  case Nil
  show ?case
  proof (cases "a = []")
    case False
    then obtain x where "heap_top a = Some x" by (auto simp: heap_top_def)
    then have "first (mset a) = x" using top_first [OF Nil] by (intro first) simp_all
    then show ?thesis using \<open>heap_top a = Some x\<close> False by simp
  qed (simp add: heap_top_def)
next
  case (Cons c cs)
  show ?case
  proof (cases c)
    case (Push d)
    then show ?thesis using Cons.IH push_heap [OF Cons.prems, of d] by simp
  next
    case Pop
    show ?thesis
    proof (cases "a = []")
      case False
      then have "mset a \<noteq> {#}" by simp
      then obtain x r where r: "heap_top a = Some x" "heap_pop cmp a = Some r" "is_heap cmp r"
          "mset a = add_mset x (mset r)" "\<forall>y \<in># mset a. \<not> cmp y x"
        using Cons.prems heap.take_first by metis
      have "first (mset a) = x" using r(4,5) by (intro first) auto
      then show ?thesis using Cons.IH [OF r(3)] r(2,4) False Pop by simp
    qed (simp add: Pop heap_pop_def)
  qed
qed

end

text \<open>
  C28. A heap that starts empty refines a bag, whatever the calls: \<open>Push\<close> adds the element, \<open>Pop\<close> takes
  out the least one (with \<open>Less\<close>; with \<open>Greater\<close>, the greatest one) and is undefined on an empty heap
  only, and \<open>Top\<close> is that element.
\<close>

theorem heap_refines_bag:
  "map_option mset (heap_run (<) cs []) = bag_run Min_mset cs {#}
   \<and> Option.bind (heap_run (<) cs []) heap_top
     = Option.bind (bag_run Min_mset cs {#}) (\<lambda>M. if M = {#} then None else Some (Min_mset M))
   \<and> map_option mset (heap_run (>) cs []) = bag_run Max_mset cs {#}
   \<and> Option.bind (heap_run (>) cs []) heap_top
     = Option.bind (bag_run Max_mset cs {#}) (\<lambda>M. if M = {#} then None else Some (Max_mset M))"
  for cs :: "int heap_call list"
proof -
  have "Min_mset M = x" if "x \<in># M" "\<And>y. y \<in># M \<Longrightarrow> \<not> y < x" for M and x :: int
    using that by (intro Min_eqI) (auto simp: not_less)
  from Less.heap_run_bag [OF this Less.heap.empty_ok(1), where cs = cs]
  have less: "map_option mset (heap_run (<) cs []) = bag_run Min_mset cs {#}"
    "\<forall>b. heap_run (<) cs [] = Some b \<longrightarrow> heap_top b = (if b = [] then None else Some (Min_mset (mset b)))"
    by simp_all
  have "Max_mset M = x" if "x \<in># M" "\<And>y. y \<in># M \<Longrightarrow> \<not> x < y" for M and x :: int
    using that by (intro Max_eqI) (auto simp: not_less)
  from Greater.heap_run_bag [OF this Greater.heap.empty_ok(1), where cs = cs]
  have greater: "map_option mset (heap_run (>) cs []) = bag_run Max_mset cs {#}"
    "\<forall>b. heap_run (>) cs [] = Some b \<longrightarrow> heap_top b = (if b = [] then None else Some (Max_mset (mset b)))"
    by simp_all
  show ?thesis
    using less(2) greater(2) unfolding less(1) [symmetric] greater(1) [symmetric]
    by (cases "heap_run (<) cs []"; cases "heap_run (>) cs []") simp_all
qed

end
