(* ===== verification/Heap_Sort.thy ===== *)
theory Heap_Sort
  imports Sorts Binary_Heap
begin

text \<open>
  \<open>HeapSort\<close> of \<open>Algorithm/Sort/sort.h\<close>: \<open>AdjustDown\<close> restores the heap below one node, the first
  loop builds a heap, and the extraction loop would sort with the call that the code has as a comment.
\<close>

text \<open>\<open>AdjustDown\<close> is the loop \<open>_AdjustDown\<close> of the heap with the comparison \<open>Greater\<close>, on a part of the array.\<close>

lemma AdjustDown_sift: "AdjustDown p n a = sift_down (>) p n a"
proof (induction p n a rule: AdjustDown.induct)
  case (1 p n a)
  have c: "bigger_child i n a = first_child (>) i n a" for i
    by (simp add: bigger_child_def first_child_def)
  show ?case
    using "1.IH" unfolding c by (subst AdjustDown.simps, subst sift_down.simps) (simp add: c)
qed

lemma AdjustDown_stop: "n \<le> p * 2 + 1 \<Longrightarrow> AdjustDown p n a = a"
  by (simp add: AdjustDown_sift)

lemma AdjustDown_within: "lo \<le> p \<Longrightarrow> p < n \<Longrightarrow> n \<le> length a \<Longrightarrow> within lo n a (AdjustDown p n a)"
  unfolding AdjustDown_sift by (rule sift_down_within)

lemmas AdjustDown_heap = Greater.sift_down_heap [where 'a = int, folded AdjustDown_sift]

lemma greatest_first: "heap_but (>) None 0 n a \<Longrightarrow> i < n \<Longrightarrow> a ! i \<le> a ! 0" for a :: "int list"
  using Greater.heap_root [of n a i] by (simp add: not_less)

lemma extract_step:
  assumes "heap_but (>) None 0 (Suc n) a" "settled 0 (Suc n) a" "Suc n \<le> length a" "0 < n"
  defines "b \<equiv> AdjustDown 0 n (Swap 0 n a)"
  shows "heap_but (>) None 0 n b" "settled 0 n b" "length b = length a" "mset b = mset a"
proof -
  let ?s = "Swap 0 n a"
  have len: "0 < length a" "n < length a" using assms(3) by auto
  have "settled 0 (Suc n) ?s"
    using assms(2,3) by (intro within_settled [OF within_swap]) simp_all
  moreover have "?s ! i \<le> ?s ! n" if "i < n" for i
    using greatest_first [OF assms(1)] that assms(4) by (auto simp: swap_nth [OF len])
  ultimately have s: "settled 0 n ?s"
    unfolding settled_def using assms(3) by (metis le_neq_implies_less length_swap less_zeroE Suc_leI)
  have w: "within 0 n ?s b" unfolding b_def using assms(4) len by (intro AdjustDown_within) simp_all
  show "settled 0 n b" using len by (intro within_settled [OF w s]) simp
  have "heap_but (>) (Some 0) 0 n ?s"
    using assms(1) unfolding heap_but_def by (auto simp: swap_nth [OF len] less_Suc_eq)
  then show "heap_but (>) None 0 n b"
    unfolding b_def using assms(4) len by (intro AdjustDown_heap) auto
  show "length b = length a" "mset b = mset a"
    using w mset_swap_eq [OF len] by (simp_all add: within_def)
qed

lemma extract_loop_commented_ok:
  "heap_but (>) None 0 (Suc n) a \<Longrightarrow> settled 0 (Suc n) a \<Longrightarrow> Suc n \<le> length a \<Longrightarrow>
   sorted (extract_loop_commented n a) \<and> mset (extract_loop_commented n a) = mset a"
proof (induction n arbitrary: a)
  case 0
  then show ?case using settled_sorted [of 0 1 a] by simp
next
  case (Suc n)
  show ?case
    using extract_step [OF Suc.prems] Suc.IH [of "AdjustDown 0 (Suc n) (Swap 0 (Suc n) a)"] Suc.prems(3)
    by simp
qed

lemma heapify_heap:
  assumes "\<not> length a < 2"
  shows "heap_but (>) None 0 (length a) (heapify a)" "within 0 (length a) a (heapify a)"
proof -
  let ?m = "(length a - 2) div 2 + 1"
  have m: "heap_but (>) None ?m (length a) a" using assms unfolding heap_but_def by auto
  have "?m \<le> length a" using assms by linarith
  from Greater.sift_down_loop [OF le0 this order_refl m]
  show "heap_but (>) None 0 (length a) (heapify a)" "within 0 (length a) a (heapify a)"
    using assms unfolding heapify_def AdjustDown_sift by simp_all
qed

lemma heapify_mset: "mset (heapify a) = mset a" and heapify_length [simp]: "length (heapify a) = length a"
  using heapify_heap(2) [of a] by (cases "length a < 2"; simp add: within_def heapify_def)+

lemma HeapSort_commented_ok: "HeapSort_commented a = Some (sort a)"
proof (cases "length a < 2")
  case True
  then have "sort a = a" by (cases a rule: remdups_adj.cases) auto
  moreover have "length a - 1 = 0" using True by simp
  ultimately show ?thesis using True by (simp add: HeapSort_commented_def heapify_def)
next
  case False
  let ?n = "length a"
  have n: "Suc (?n - 1) = ?n" using False by simp
  have "settled 0 ?n (heapify a)" by (simp add: settled_def)
  then have "sorted (extract_loop_commented (?n - 1) (heapify a))
      \<and> mset (extract_loop_commented (?n - 1) (heapify a)) = mset a"
    using extract_loop_commented_ok [of "?n - 1" "heapify a"] heapify_heap(1) [OF False] heapify_mset
    unfolding n by simp
  then show ?thesis by (simp add: HeapSort_commented_def sorted_mset_unique)
qed

text \<open>The loop as it is written moves elements, and puts the largest one at the end.\<close>

lemma extract_loop_within: "n < length a \<Longrightarrow> within 0 (Suc n) a (extract_loop n a)"
proof (induction n arbitrary: a)
  case (Suc n)
  let ?s = "Swap 0 (Suc n) a"
  have s: "within 0 (Suc (Suc n)) a ?s" using Suc.prems by (intro within_swap) simp_all
  have d: "within 0 n ?s (AdjustDown 0 n ?s)"
    using Suc.prems by (cases "n = 0") (simp_all add: AdjustDown_stop AdjustDown_within)
  then have "within 0 (Suc n) (AdjustDown 0 n ?s) (extract_loop n (AdjustDown 0 n ?s))"
    using Suc by (simp add: within_def)
  then have "within 0 (Suc (Suc n)) (AdjustDown 0 n ?s) (extract_loop n (AdjustDown 0 n ?s))"
    by (rule within_mono) (use Suc.prems d in \<open>simp_all add: within_def\<close>)
  moreover have "within 0 (Suc (Suc n)) ?s (AdjustDown 0 n ?s)" using d by (rule within_mono) (use Suc.prems in simp_all)
  ultimately show ?case using s by (auto intro: within_trans)
qed simp

lemma extract_loop_last: "0 < n \<Longrightarrow> n < length a \<Longrightarrow> extract_loop n a ! n = a ! 0"
proof (induction n)
  case (Suc n)
  let ?s = "Swap 0 (Suc n) a"
  have d: "within 0 n ?s (AdjustDown 0 n ?s)"
    using Suc.prems by (cases "n = 0") (simp_all add: AdjustDown_stop AdjustDown_within)
  then have "within 0 (Suc n) (AdjustDown 0 n ?s) (extract_loop n (AdjustDown 0 n ?s))"
    using Suc.prems by (intro extract_loop_within) (simp add: within_def)
  with d have "extract_loop (Suc n) a ! Suc n = ?s ! Suc n"
    using Suc.prems by (simp add: within_def)
  moreover have "?s ! Suc n = a ! 0" using Suc.prems by (subst swap_nth) auto
  ultimately show ?case by simp
qed simp

lemma HeapSort_keeps:
  "\<exists>b. HeapSort a = Some b \<and> mset b = mset a \<and> (if a = [] then b = [] else last b = Max (set a))"
proof (cases "length a < 2")
  case True
  then have "extract_loop (length a - 1) a = a" by (cases "length a - 1") auto
  with True show ?thesis by (cases a) (auto simp: HeapSort_def heapify_def)
next
  case False
  define h b where "h = heapify a" and "b = extract_loop (length a - 1) h"
  have h: "length h = length a" "mset h = mset a" by (simp_all add: h_def heapify_mset)
  have "within 0 (Suc (length a - 1)) h b"
    unfolding b_def using False h(1) by (intro extract_loop_within) simp
  then have b: "mset b = mset a" "length b = length a" using h by (simp_all add: within_def)
  have "b ! (length a - 1) = h ! 0"
    unfolding b_def using False h(1) by (intro extract_loop_last) simp_all
  moreover have "b ! (length a - 1) = last b" using b(2) False by (subst last_conv_nth) auto
  moreover have "h ! 0 = Max (set h)"
  proof (rule Max_eqI [symmetric])
    fix y assume "y \<in> set h"
    then obtain i where "i < length a" "y = h ! i" using h(1) by (auto simp: in_set_conv_nth)
    then show "y \<le> h ! 0" using greatest_first heapify_heap(1) [OF False] by (simp add: h_def)
  next
    show "h ! 0 \<in> set h" using False h(1) by (intro nth_mem) linarith
  qed simp
  ultimately have "last b = Max (set a)" using mset_eq_setD [OF h(2)] by simp
  then show ?thesis using b False by (auto simp: HeapSort_def b_def h_def)
qed

text \<open>
  \<open>HeapSort\<close> keeps the elements and puts the largest one last, but it does not sort: the call
  \<open>AdjustDown(a, 0, --end)\<close> leaves one element out of the heap, so \<open>{3, 2, 1}\<close> becomes \<open>{2, 1, 3}\<close>.
  With \<open>AdjustDown(a, 0, end--)\<close>, the call the code has as a comment, every array is sorted.
\<close>

lemma heap_sort_leaves_one_out:
  "(\<exists>b. HeapSort a = Some b \<and> mset b = mset a \<and> (if a = [] then b = [] else last b = Max (set a)))
   \<and> HeapSort [3, 2, 1] = Some [2, 1, 3]
   \<and> HeapSort_commented a = Some (sort a)"
proof (intro conjI)
  show "HeapSort [3, 2, 1] = Some [2, 1, 3]" by code_simp
qed (rule HeapSort_keeps HeapSort_commented_ok)+

end
