(* ===== verification/Exchange_Sorts.thy ===== *)
theory Exchange_Sorts
  imports Heap_Sort
begin

text \<open>
  \<open>SelectSort\<close>, \<open>BubbleSort\<close> and \<open>CountSort\<close> of \<open>Algorithm/Sort/sort.h\<close>, and its check \<open>IsSorted\<close>.
\<close>

section \<open>Selection sort\<close>

lemma select_scan_ok:
  fixes a :: "int list"
  shows "left \<le> k \<Longrightarrow>
   (case fold (\<lambda>i (mx, mn). (if a ! mx < a ! i then i else mx, if a ! i < a ! mn then i else mn))
       [left..<k] (left, left) of (mx, mn) \<Rightarrow>
     left \<le> mx \<and> mx \<le> max left (k - 1) \<and> left \<le> mn \<and> mn \<le> max left (k - 1)
     \<and> (\<forall>i. left \<le> i \<and> i < k \<longrightarrow> a ! i \<le> a ! mx \<and> a ! mn \<le> a ! i))"
proof (induction k)
  case (Suc k)
  show ?case
  proof (cases "left = Suc k")
    case False
    with Suc.prems have lk: "left \<le> k" by simp
    obtain mx mn where f: "fold (\<lambda>i (mx, mn). (if a ! mx < a ! i then i else mx, if a ! i < a ! mn then i else mn))
       [left..<k] (left, left) = (mx, mn)" by (cases rule: prod.exhaust)
    have ok: "left \<le> mx" "mx \<le> max left (k - 1)" "left \<le> mn" "mn \<le> max left (k - 1)"
      "\<And>i. left \<le> i \<Longrightarrow> i < k \<Longrightarrow> a ! i \<le> a ! mx \<and> a ! mn \<le> a ! i"
      using Suc.IH [OF lk] by (auto simp: f)
    have "a ! i \<le> a ! (if a ! mx < a ! k then k else mx) \<and> a ! (if a ! k < a ! mn then k else mn) \<le> a ! i"
      if "left \<le> i" "i < Suc k" for i
      using ok(5) [of i] that by (cases "i = k") auto
    then show ?thesis using ok(1-4) lk by (auto simp: f)
  qed simp
qed simp

text \<open>The two swaps bring a smallest element to the left end and a largest one to the right end.\<close>

lemma two_swaps:
  fixes a :: "int list"
  assumes "left < right" "right < length a" "left \<le> mx" "mx \<le> right" "left \<le> mn" "mn \<le> right"
    and ext: "\<And>i. left \<le> i \<Longrightarrow> i \<le> right \<Longrightarrow> a ! i \<le> a ! mx \<and> a ! mn \<le> a ! i"
  defines "mx' \<equiv> if mx = left then mn else mx"
  defines "c \<equiv> Swap mx' right (Swap mn left a)"
  shows "within left (right + 1) a c" "c ! left = a ! mn" "c ! right = a ! mx"
proof -
  define b where "b = Swap mn left a"
  have len: "mn < length a" "left < length a" "mx' < length b" "right < length b" "length b = length a"
    using assms(1-6) by (auto simp: mx'_def b_def)
  have "within left (right + 1) a b" unfolding b_def using assms(1-6) by (intro within_swap) simp_all
  moreover have "within left (right + 1) b c"
    unfolding c_def b_def [symmetric] using assms(1-6) len(5) by (intro within_swap) (auto simp: mx'_def)
  ultimately show "within left (right + 1) a c" by (rule within_trans)
  have b_nth: "b ! x = (if x = mn then a ! left else if x = left then a ! mn else a ! x)" for x
    unfolding b_def using len by (intro swap_nth) simp_all
  have c_nth: "c ! x = (if x = mx' then b ! right else if x = right then b ! mx' else b ! x)" for x
    unfolding c_def b_def [symmetric] using len by (intro swap_nth) simp_all
  have "b ! mx' = a ! mx"
    unfolding b_nth using assms(1,3-6) ext [of left] by (auto simp: mx'_def)
  then show "c ! right = a ! mx" unfolding c_nth by auto
  show "c ! left = a ! mn"
  proof (cases "mx' = left")
    case True
    then have "mx = left" "mn = left" unfolding mx'_def by (cases "mx = left"; simp)+
    then have "a ! right = a ! mn" using ext [of right] assms(1) by simp
    then show ?thesis unfolding c_nth b_nth using assms(1) True \<open>mn = left\<close> by simp
  next
    case False
    then show ?thesis unfolding c_nth b_nth using assms(1) by auto
  qed
qed

text \<open>A settled part may shrink when its ends are its smallest and its largest element.\<close>

lemma settled_shrink:
  assumes st: "settled left (right + 1) c"
    and ends: "\<And>i. left \<le> i \<Longrightarrow> i \<le> right \<Longrightarrow> c ! left \<le> c ! i \<and> c ! i \<le> c ! right"
  shows "settled (left + 1) right c"
  unfolding settled_def
proof (intro allI impI)
  fix i j assume ij: "i < j \<and> j < length c \<and> (i < left + 1 \<or> right \<le> j)"
  show "c ! i \<le> c ! j"
  proof (cases "i < left \<or> right + 1 \<le> j")
    case True
    then show ?thesis using st ij unfolding settled_def by blast
  next
    case False
    then consider "i = left" "left \<le> j" "j \<le> right" | "j = right" "left \<le> i" "i \<le> right"
      using ij by fastforce
    then show ?thesis by cases (use ends in auto)
  qed
qed

lemma select_step_ok:
  assumes "left < right" "right < length a" "settled left (right + 1) a"
  shows "settled (left + 1) right (select_step left right a)"
    "mset (select_step left right a) = mset a" "length (select_step left right a) = length a"
proof -
  obtain mx mn where sc: "select_scan left right a = (mx, mn)" by (cases rule: prod.exhaust)
  have ok: "left \<le> mx" "mx \<le> right" "left \<le> mn" "mn \<le> right"
    "\<And>i. left \<le> i \<Longrightarrow> i \<le> right \<Longrightarrow> a ! i \<le> a ! mx \<and> a ! mn \<le> a ! i"
    using select_scan_ok [of left "right + 1" a] sc assms(1) by (auto simp: select_scan_def less_Suc_eq_le)
  have step: "select_step left right a = Swap (if mx = left then mn else mx) right (Swap mn left a)"
    by (simp add: select_step_def sc Let_def)
  note two = two_swaps [OF assms(1,2) ok, folded step]
  show "settled (left + 1) right (select_step left right a)"
  proof (rule settled_shrink)
    show "settled left (right + 1) (select_step left right a)"
      using assms(2,3) by (intro within_settled [OF two(1)]) simp_all
    show "select_step left right a ! left \<le> select_step left right a ! i
        \<and> select_step left right a ! i \<le> select_step left right a ! right" if i: "left \<le> i" "i \<le> right" for i
    proof -
      obtain y where "left \<le> y" "y \<le> right" "select_step left right a ! i = a ! y"
        using within_nth [OF two(1), of i] i by auto
      then show ?thesis using ok(5) [of y] two(2,3) by simp
    qed
  qed
  show "mset (select_step left right a) = mset a" "length (select_step left right a) = length a"
    using two(1) by (simp_all add: within_def)
qed

lemma select_loop_ok:
  "right < length a \<Longrightarrow> settled left (right + 1) a \<Longrightarrow>
   sorted (select_loop left right a) \<and> mset (select_loop left right a) = mset a"
proof (induction left right a rule: select_loop.induct)
  case (1 left right a)
  show ?case
  proof (cases "left < right")
    case True
    note step = select_step_ok [OF True "1.prems"]
    have "right - 1 < length (select_step left right a)" using step(3) "1.prems"(1) by simp
    moreover have "right - 1 + 1 = right" using True by simp
    ultimately show ?thesis
      using "1.IH" [OF True] step(1,2) True by (simp add: select_loop.simps [of left right a])
  next
    case False
    then show ?thesis
      using settled_sorted [OF "1.prems"(2)] by (simp add: select_loop.simps [of left right a])
  qed
qed

lemma SelectSort_ok: "SelectSort a = (if a = [] then None else Some (sort a))"
proof (cases "a = []")
  case False
  then have "settled 0 (length a - 1 + 1) a" "length a - 1 < length a" by (auto simp: settled_def)
  then show ?thesis
    using select_loop_ok [of "length a - 1" a 0] False by (simp add: SelectSort_def sorted_mset_unique)
qed (simp add: SelectSort_def)

section \<open>Bubble sort\<close>

text \<open>
  One pass over a part whose tail is settled carries the largest element to its end; when nothing was
  exchanged, that part is sorted.
\<close>

definition carried :: "nat \<Rightarrow> nat \<Rightarrow> int list \<Rightarrow> bool \<Rightarrow> int list \<times> bool \<Rightarrow> bool" where
  "carried end m a ex r \<longleftrightarrow> within 0 end a (fst r) \<and> (\<forall>i \<le> m. fst r ! i \<le> fst r ! m)
     \<and> (\<not> snd r \<longrightarrow> fst r = a \<and> \<not> ex \<and> sorted (take (Suc m) a))"

lemma carried_step:
  assumes c: "carried end m a ex (b, x)" and len: "Suc m < end" "end \<le> length a"
  shows "carried end (Suc m) a ex (if b ! Suc m < b ! m then (Swap m (Suc m) b, True) else (b, x))"
proof -
  have IH: "within 0 end a b" "\<And>i. i \<le> m \<Longrightarrow> b ! i \<le> b ! m" "\<not> x \<Longrightarrow> b = a \<and> \<not> ex \<and> sorted (take (Suc m) a)"
    using c by (simp_all add: carried_def)
  have bl: "length b = length a" using IH(1) by (simp add: within_def)
  have range: "m < length b" "Suc m < length b" using len bl by simp_all
  show ?thesis
  proof (cases "b ! Suc m < b ! m")
    case True
    have "within 0 end b (Swap m (Suc m) b)" using len bl by (intro within_swap) simp_all
    then have "within 0 end a (Swap m (Suc m) b)" using IH(1) by (rule within_trans [rotated])
    moreover have "Swap m (Suc m) b ! i \<le> Swap m (Suc m) b ! Suc m" if "i \<le> Suc m" for i
      unfolding swap_nth [OF range] using that IH(2) True by (auto simp: le_Suc_eq)
    ultimately show ?thesis using True by (simp add: carried_def)
  next
    case False
    have top: "b ! i \<le> b ! Suc m" if "i \<le> Suc m" for i
      using that IH(2) [of i] False by (cases "i = Suc m") auto
    have "sorted (take (Suc (Suc m)) a)" if "\<not> x"
    proof -
      have a: "b = a" "sorted (take (Suc m) a)" using IH(3) that by simp_all
      then have "\<forall>y \<in> set (take (Suc m) a). y \<le> a ! Suc m"
        using top range by (auto simp: in_set_conv_nth)
      then show ?thesis
        using a range(2) by (subst take_Suc_conv_app_nth) (auto simp: sorted_append)
    qed
    then show ?thesis using IH top False by (simp add: carried_def)
  qed
qed

lemma bubble_pass_ok:
  fixes ex :: bool
  assumes "end \<le> length a"
  shows "Suc m \<le> end \<Longrightarrow>
    carried end m a ex (fold (\<lambda>i (a, ex). if a ! i < a ! (i - 1) then (Swap (i - 1) i a, True) else (a, ex)) [1..<Suc m] (a, ex))"
proof (induction m)
  case 0
  then show ?case using assms by (cases a) (auto simp: carried_def)
next
  case (Suc m)
  let ?r = "fold (\<lambda>i (a, ex). if a ! i < a ! (i - 1) then (Swap (i - 1) i a, True) else (a, ex)) [1..<Suc m] (a, ex)"
  obtain b x where r: "?r = (b, x)" by (cases rule: prod.exhaust)
  have "carried end m a ex (b, x)" using Suc r by simp
  moreover have "[1..<Suc (Suc m)] = [1..<Suc m] @ [Suc m]" by simp
  ultimately show ?case
    using carried_step [of "end" m a ex b x] Suc.prems assms r
    by (cases "b ! Suc m < b ! m") (simp_all del: upt_Suc upt.simps)
qed

lemma bubble_loop_ok:
  "end \<le> length a \<Longrightarrow> settled 0 end a \<Longrightarrow> sorted (bubble_loop end a ex) \<and> mset (bubble_loop end a ex) = mset a"
proof (induction "end" a ex rule: bubble_loop.induct)
  case (1 n a ex)
  let ?n = "Suc (Suc n)"
  obtain b x where f: "bubble_pass ?n (a, ex) = (b, x)" by (cases rule: prod.exhaust)
  have "carried ?n (Suc n) a ex (b, x)"
    using bubble_pass_ok [of ?n a "Suc n" ex] "1.prems"(1) f by (simp add: bubble_pass_def)
  then have p: "within 0 ?n a b" "\<And>i. i \<le> Suc n \<Longrightarrow> b ! i \<le> b ! Suc n" "\<not> x \<Longrightarrow> b = a \<and> sorted (take ?n a)"
    by (simp_all add: carried_def)
  have len: "length b = length a" and ms: "mset b = mset a" using p(1) by (simp_all add: within_def)
  have sb: "settled 0 ?n b" using within_settled [OF p(1) "1.prems"(2,1)] .
  show ?case
  proof (cases x)
    case True
    have "settled 0 (Suc n) b"
      unfolding settled_def
    proof (intro allI impI)
      fix i j assume ij: "i < j \<and> j < length b \<and> (i < 0 \<or> Suc n \<le> j)"
      show "b ! i \<le> b ! j"
      proof (cases "j = Suc n")
        case True
        then show ?thesis using p(2) ij by simp
      next
        case False
        then show ?thesis using sb ij unfolding settled_def by (metis Suc_leI le_neq_implies_less)
      qed
    qed
    then show ?thesis using "1.IH" [OF f [symmetric]] True "1.prems"(1) f len ms by simp
  next
    case False
    have "sorted a"
      unfolding sorted_iff_nth_mono_less
    proof (intro allI impI)
      fix i j assume ij: "i < j" "j < length a"
      show "a ! i \<le> a ! j"
      proof (cases "j < ?n")
        case True
        then show ?thesis using p(3) [OF False] ij by (auto simp: sorted_iff_nth_mono_less)
      next
        case False
        then show ?thesis using "1.prems"(2) ij unfolding settled_def by auto
      qed
    qed
    then show ?thesis using False f p(3) by simp
  qed
qed (auto intro: settled_sorted)

lemma BubbleSort_ok: "BubbleSort a = Some (sort a)"
proof -
  have "settled 0 (length a) a" by (simp add: settled_def)
  then show ?thesis using bubble_loop_ok [OF order_refl] by (simp add: BubbleSort_def sorted_mset_unique)
qed

section \<open>Counting sort\<close>

lemma scan_max_min_ok:
  assumes "a \<noteq> []"
  shows "scan_max_min a = (Max (set a), Min (set a))"
proof -
  have "fold (\<lambda>x (mx, mn). (if mx < x then x else mx, if x < mn then x else mn)) b (u, v)
      = (Max (insert u (set b)), Min (insert v (set b)))" for b :: "int list" and u v
  proof (induction b arbitrary: u v)
    case (Cons x b)
    have "(if u < x then x else u) = max u x" "(if x < v then x else v) = min v x" by auto
    then show ?case using Cons.IH by (cases "b = []") (simp_all add: max.assoc min.assoc ac_simps)
  qed simp
  moreover have "insert (a ! 0) (set a) = set a" using assms by (simp add: insert_absorb)
  ultimately show ?thesis by (simp add: scan_max_min_def)
qed

lemma tally_ok:
  "\<forall>x \<in> set a. mn \<le> x \<and> x < mn + int (length t) \<Longrightarrow>
   length (tally mn a t) = length t
   \<and> (\<forall>j < length t. tally mn a t ! j = t ! j + count (mset a) (mn + int j))"
proof (induction a arbitrary: t)
  case (Cons x a)
  let ?k = "nat (x - mn)" and ?t = "t[nat (x - mn) := t ! nat (x - mn) + 1]"
  have "tally mn (x # a) t = tally mn a ?t" by (simp add: tally_def)
  moreover have "?k = j \<longleftrightarrow> x = mn + int j" for j using Cons.prems by auto
  ultimately show ?case using Cons.IH [of ?t] Cons.prems by (auto simp: nth_list_update)
qed (simp add: tally_def)

lemma write_back_ok:
  "sorted (write_back mn t)
   \<and> (\<forall>v. count (mset (write_back mn t)) v = (if mn \<le> v \<and> v < mn + int (length t) then t ! nat (v - mn) else 0))"
proof -
  let ?w = "\<lambda>n. concat (map (\<lambda>i. replicate (t ! i) (int i + mn)) [0..<n])"
  have "sorted (?w n) \<and> (\<forall>v \<in> set (?w n). v < mn + int n)
    \<and> (\<forall>v. count (mset (?w n)) v = (if mn \<le> v \<and> v < mn + int n then t ! nat (v - mn) else 0))" for n
  proof (induction n)
    case (Suc n)
    have "nat (int n + mn - mn) = n" by simp
    then show ?case using Suc by (fastforce simp: sorted_append)
  qed simp
  then show ?thesis unfolding write_back_def by blast
qed

lemma CountSort_ok:
  "CountSort a = (if a = [] \<or> INT_MAX < Max (set a) - Min (set a) + 1 then None else Some (sort a))"
proof (cases "a = [] \<or> INT_MAX < Max (set a) - Min (set a) + 1")
  case False
  define mn r where "mn = Min (set a)" and "r = replicate (nat (Max (set a) - mn + 1)) (0 :: nat)"
  have le: "mn \<le> x" "x \<le> Max (set a)" if "x \<in> set a" for x using that by (simp_all add: mn_def)
  have "mn \<le> Max (set a)" using False le(1) by (intro le(1) Max_in) auto
  then have len: "int (length r) = Max (set a) - mn + 1" by (simp add: r_def)
  have t: "length (tally mn a r) = length r" "\<And>j. j < length r \<Longrightarrow> tally mn a r ! j = count (mset a) (mn + int j)"
    using tally_ok [of a mn r] le len by (auto simp: r_def)
  have "count (mset (write_back mn (tally mn a r))) v = count (mset a) v" for v
  proof (cases "v \<in> set a")
    case True
    then have "mn \<le> v" "v < mn + int (length r)" "nat (v - mn) < length r" using le [OF True] len by linarith+
    then show ?thesis using t write_back_ok [of mn "tally mn a r"] by simp
  next
    case False
    then have "count (mset a) v = 0" by (simp add: count_eq_zero_iff)
    then show ?thesis using t write_back_ok [of mn "tally mn a r"] by (auto simp: nat_less_iff)
  qed
  then have "mset (write_back mn (tally mn a r)) = mset a" by (rule multiset_eqI)
  then have "write_back mn (tally mn a r) = sort a" using write_back_ok by (intro sorted_mset_unique) blast+
  then show ?thesis using False scan_max_min_ok [of a] by (simp add: CountSort_def mn_def r_def)
next
  case True
  then show ?thesis using scan_max_min_ok [of a] by (auto simp: CountSort_def)
qed

section \<open>The check\<close>

lemma IsSorted_ok: "IsSorted a = (if length a < 2 then None else Some (sorted (butlast a)))"
proof -
  have "list_all (\<lambda>i. \<not> a ! (i + 1) < a ! i) [0..<length a - 2] \<longleftrightarrow> sorted (butlast a)"
    by (auto simp: list_all_iff sorted_iff_nth_Suc nth_butlast not_less)
  then show ?thesis by (simp add: IsSorted_def)
qed

section \<open>What the sorts have in common\<close>

locale sorting_routine =
  fixes routine :: "int list \<Rightarrow> int list option"
  assumes sorts: "a \<noteq> [] \<Longrightarrow> routine a = Some (sort a)"
begin

text \<open>Sorting again changes nothing, the order of the input does not matter, and the check accepts the result.\<close>

lemma twice: "a \<noteq> [] \<Longrightarrow> Option.bind (routine a) routine = routine a"
  using sorts [of a] sorts [of "sort a"] by (simp add: sorted_sort_id flip: set_empty)

lemma any_order: "a \<noteq> [] \<Longrightarrow> mset a = mset b \<Longrightarrow> routine a = routine b"
  using sorts [of a] sorts [of b] by (metis mset_zero_iff_right properties_for_sort mset_sort sorted_sort)

lemma checked: "a \<noteq> [] \<Longrightarrow> Option.bind (routine a) IsSorted = (if length a < 2 then None else Some True)"
  using sorts [of a] by (simp add: IsSorted_ok sorted_butlast)

end

interpretation insertion: sorting_routine InsertSort
  by unfold_locales (simp add: insertion_sorts)

interpretation shell: sorting_routine ShellSort
  by unfold_locales (simp add: insertion_sorts)

interpretation selection: sorting_routine SelectSort
  by unfold_locales (simp add: SelectSort_ok)

interpretation bubble: sorting_routine BubbleSort
  by unfold_locales (simp add: BubbleSort_ok)

text \<open>\<open>GetMiddleIndex\<close> has a branch that returns an element where an index is meant.\<close>

lemma middle_index_element: "GetMiddleIndex [30, 20, 10] 0 2 = 20"
  by (simp add: GetMiddleIndex_def)

section \<open>Properties\<close>

text \<open>
  C32. The insertion sort, the Shell sort, the selection sort, which moves the smallest and the largest
  element in one scan, and the bubble sort, whose flag is never reset, all return the sorted array.  For
  the empty array the insertion and the selection sort are undefined (\<open>sz - 1\<close> wraps around), the others
  are not.  The counting sort returns the sorted array exactly when the array is not empty and the number
  of values between its smallest and its largest element is an \<open>int\<close>.  The heap sort keeps the elements and
  puts the largest one last, but it does not sort: the call \<open>AdjustDown(a, 0, --end)\<close> leaves one element out of
  the heap, so \<open>{3, 2, 1}\<close> becomes \<open>{2, 1, 3}\<close>; with \<open>AdjustDown(a, 0, end--)\<close>, the call the code has as a
  comment, it sorts every array.
\<close>

theorem sorting_routines_sort:
  "InsertSort a = (if a = [] then None else Some (sort a)) \<and> ShellSort a = Some (sort a)
   \<and> SelectSort a = (if a = [] then None else Some (sort a)) \<and> BubbleSort a = Some (sort a)
   \<and> CountSort a = (if a = [] \<or> INT_MAX < Max (set a) - Min (set a) + 1 then None else Some (sort a))
   \<and> (\<exists>b. HeapSort a = Some b \<and> mset b = mset a \<and> (if a = [] then b = [] else last b = Max (set a)))
   \<and> HeapSort [3, 2, 1] = Some [2, 1, 3] \<and> HeapSort_commented a = Some (sort a)"
  using heap_sort_leaves_one_out [of a]
  by (intro conjI insertion_sorts [THEN conjunct1] insertion_sorts [THEN conjunct2] SelectSort_ok BubbleSort_ok CountSort_ok)
    blast+

text \<open>
  \<open>IsSorted\<close> does not look at the last element: its loop runs to \<open>sz - 2\<close>.  It accepts exactly the
  arrays that are sorted without their last element, \<open>{1, 3, 2}\<close> for example, and reads outside an array
  of fewer than two elements.  It accepts what the sorts return for two elements and more.
\<close>

theorem is_sorted_ignores_the_last:
  assumes "a \<noteq> []"
  shows "IsSorted b = (if length b < 2 then None else Some (sorted (butlast b)))
    \<and> IsSorted [1, 3, 2] = Some True
    \<and> list_all (\<lambda>routine. Option.bind (routine a) IsSorted = (if length a < 2 then None else Some True))
        [InsertSort, ShellSort, SelectSort, BubbleSort]"
  using assms
  by (simp add: IsSorted_ok insertion.checked shell.checked selection.checked bubble.checked)

lemma is_sorted_ignores_the_last_witness:
  "Option.bind (ShellSort [5, 3, 9, 3]) IsSorted = Some True \<and> IsSorted [5, 9, 3] = Some True"
  using is_sorted_ignores_the_last [of "[5, 3, 9, 3]" "[5, 9, 3]"] by simp

end
