(* ===== verification/Quick_Sort.thy ===== *)
theory Quick_Sort
  imports Sorts
begin

text \<open>
  \<open>quicksort\<close> of the namespace \<open>fun\<close> in \<open>Algorithm/MinStack/MinStack.hpp\<close>.  Its two parts may overlap in
  one element, and the first part can be as long as the whole: that the recursion ends needs an argument.
\<close>

section \<open>Definitions from the code\<close>

text \<open>The loop \<open>while (i < j)\<close>; at its end \<open>i\<close> and \<open>j\<close> are equal.\<close>

function split_loop :: "nat \<Rightarrow> nat \<Rightarrow> nat \<Rightarrow> int list \<Rightarrow> nat \<times> int list" where
  "split_loop begin i j a =
     (if i < j
      then (if a ! begin < a ! i then split_loop begin i (j - 1) (Swap i j a) else split_loop begin (i + 1) j a)
      else (j, a))"
  by pat_completeness auto
termination
  by (relation "measure (\<lambda>(begin, i, j, a). j - i)") auto

declare split_loop.simps [simp del]

text \<open>\<open>None\<close> is an access outside the array, or a recursion that does not end.\<close>

partial_function (option) quicksort :: "nat \<Rightarrow> nat \<Rightarrow> int list \<Rightarrow> int list option" where
  "quicksort begin end a =
     (if begin < end then
        if end < length a then
          case split_loop begin (begin + 1) end a of (j, a1) \<Rightarrow>
            let i = (if a1 ! begin \<le> a1 ! j then j - 1 else j) in
            Option.bind (quicksort begin i (Swap begin i a1)) (\<lambda>a3. quicksort j end a3)
        else None
      else Some a)"

section \<open>Correctness\<close>

text \<open>
  The loop brings the elements that are at most the pivot in front of \<open>j\<close> and the larger ones behind it;
  when \<open>j\<close> has not moved nothing was exchanged.
\<close>

lemma split_loop_ok:
  "begin < i \<Longrightarrow> i \<le> j \<Longrightarrow> j \<le> end \<Longrightarrow> end < length a \<Longrightarrow>
   \<forall>x. begin < x \<and> x < i \<longrightarrow> a ! x \<le> a ! begin \<Longrightarrow> \<forall>x. j < x \<and> x \<le> end \<longrightarrow> a ! begin < a ! x \<Longrightarrow>
   split_loop begin i j a = (k, b) \<Longrightarrow>
   i \<le> k \<and> k \<le> j \<and> within (begin + 1) (end + 1) a b \<and> b ! begin = a ! begin
   \<and> (\<forall>x. begin < x \<and> x < k \<longrightarrow> b ! x \<le> a ! begin) \<and> (\<forall>x. k < x \<and> x \<le> end \<longrightarrow> a ! begin < b ! x)
   \<and> (k = j \<longrightarrow> b = a)"
proof (induction "begin" i j a rule: split_loop.induct)
  case (1 bg i j a)
  consider (swap) "i < j" "a ! bg < a ! i" | (skip) "i < j" "\<not> a ! bg < a ! i" | (stop) "\<not> i < j" by blast
  then show ?case
  proof cases
    case swap
    let ?a = "Swap i j a"
    have len: "i < length a" "j < length a" using "1.prems" by simp_all
    note nth = swap_nth [OF len]
    have bg: "?a ! bg = a ! bg" unfolding nth using "1.prems"(1,2) by auto
    have lo: "\<forall>x. bg < x \<and> x < i \<longrightarrow> ?a ! x \<le> ?a ! bg"
      unfolding bg unfolding nth using "1.prems"(2,5) by auto
    have hi: "\<forall>x. j - 1 < x \<and> x \<le> end \<longrightarrow> ?a ! bg < ?a ! x"
      unfolding bg unfolding nth using swap "1.prems"(6) by auto
    have eq: "split_loop bg i (j - 1) ?a = (k, b)"
      using "1.prems"(7) swap by (simp add: split_loop.simps [of bg i j a])
    have IH: "i \<le> k \<and> k \<le> j - 1 \<and> within (bg + 1) (end + 1) ?a b \<and> b ! bg = ?a ! bg
      \<and> (\<forall>x. bg < x \<and> x < k \<longrightarrow> b ! x \<le> ?a ! bg) \<and> (\<forall>x. k < x \<and> x \<le> end \<longrightarrow> ?a ! bg < b ! x)
      \<and> (k = j - 1 \<longrightarrow> b = ?a)"
      using "1.prems" swap by (intro "1.IH"(1) [OF swap _ _ _ _ lo hi eq]) simp_all
    have "within (bg + 1) (end + 1) a ?a"
      using "1.prems" by (intro within_swap) simp_all
    then have "within (bg + 1) (end + 1) a b" using IH by (blast intro: within_trans)
    moreover have "k \<le> j - 1" using IH by blast
    then have "k \<le> j" "k \<noteq> j" using swap(1) by linarith+
    ultimately show ?thesis using IH unfolding bg by simp
  next
    case skip
    have lo: "\<forall>x. bg < x \<and> x < i + 1 \<longrightarrow> a ! x \<le> a ! bg"
      using "1.prems"(5) skip(2) by (auto simp: less_Suc_eq)
    have eq: "split_loop bg (i + 1) j a = (k, b)"
      using "1.prems"(7) skip by (simp add: split_loop.simps [of bg i j a])
    have "i + 1 \<le> k \<and> k \<le> j \<and> within (bg + 1) (end + 1) a b \<and> b ! bg = a ! bg
      \<and> (\<forall>x. bg < x \<and> x < k \<longrightarrow> b ! x \<le> a ! bg) \<and> (\<forall>x. k < x \<and> x \<le> end \<longrightarrow> a ! bg < b ! x)
      \<and> (k = j \<longrightarrow> b = a)"
      using "1.prems" skip by (intro "1.IH"(2) [OF skip _ _ _ _ lo _ eq]) simp_all
    then show ?thesis by simp
  next
    case stop
    then have "k = j" "b = a" using "1.prems"(7) by (simp_all add: split_loop.simps [of bg i j a])
    then show ?thesis using "1.prems" stop by auto
  qed
qed

definition sorted_part :: "nat \<Rightarrow> nat \<Rightarrow> int list \<Rightarrow> bool" where
  "sorted_part lo hi a \<longleftrightarrow> (\<forall>x y. lo \<le> x \<and> x < y \<and> y \<le> hi \<longrightarrow> a ! x \<le> a ! y)"

text \<open>Two sorted parts, the second of which is at least as large as what is in front of it.\<close>

lemma sorted_part_join:
  assumes "within j (end + 1) a b" "end < length a" "j \<le> end"
    and "\<And>x y. bg \<le> x \<Longrightarrow> x < y \<Longrightarrow> y < j \<Longrightarrow> a ! x \<le> a ! y" "sorted_part j end b"
    and low: "\<And>x y. bg \<le> x \<Longrightarrow> x < j \<Longrightarrow> j \<le> y \<Longrightarrow> y \<le> end \<Longrightarrow> a ! x \<le> a ! y"
  shows "sorted_part bg end b"
  unfolding sorted_part_def
proof (intro allI impI)
  fix x y assume xy: "bg \<le> x \<and> x < y \<and> y \<le> end"
  have same: "b ! z = a ! z" if "z < j" for z using within_same [OF assms(1)] that assms(2,3) by simp
  consider "y < j" | "x < j" "j \<le> y" | "j \<le> x" by linarith
  then show "b ! x \<le> b ! y"
  proof cases
    case 2
    then obtain z where "j \<le> z" "z \<le> end" "b ! y = a ! z"
      using within_nth [OF assms(1), of y] xy by auto
    then show ?thesis using low [of x z] xy 2 same [of x] by simp
  qed (use xy assms(4,5) same in \<open>auto simp: sorted_part_def\<close>)
qed

text \<open>Of two calls on a part the one whose last element is a largest one is nearer to the end.\<close>

definition max_last :: "nat \<Rightarrow> nat \<Rightarrow> int list \<Rightarrow> bool" where
  "max_last bg end a \<longleftrightarrow> (\<forall>x. bg \<le> x \<and> x \<le> end \<longrightarrow> a ! x \<le> a ! end)"

definition calls_left :: "nat \<Rightarrow> nat \<Rightarrow> int list \<Rightarrow> nat" where
  "calls_left bg end a = 2 * (end - bg) + (if max_last bg end a then 0 else 1)"

lemma calls_left_shorter: "e - c < end - bg \<Longrightarrow> calls_left c e b < calls_left bg end a"
  by (simp add: calls_left_def)

lemma partition_step:
  assumes "bg < end" "end < length a" "split_loop bg (bg + 1) end a = (j, a1)"
  defines "i \<equiv> if a1 ! bg \<le> a1 ! j then j - 1 else j"
  defines "a2 \<equiv> Swap bg i a1"
  shows "bg < j" "j \<le> end" "bg \<le> i" "i \<le> j" "j \<le> i + 1" "within bg (end + 1) a a2"
    "\<And>x. bg \<le> x \<Longrightarrow> x \<le> i \<Longrightarrow> a2 ! x \<le> a ! bg" "\<And>y. j \<le> y \<Longrightarrow> y \<le> end \<Longrightarrow> a ! bg \<le> a2 ! y"
    "calls_left bg i a2 < calls_left bg end a"
proof -
  have j: "bg < j" "j \<le> end" and w1: "within (bg + 1) (end + 1) a a1" and a1: "a1 ! bg = a ! bg"
    and lo: "\<And>x. bg < x \<Longrightarrow> x < j \<Longrightarrow> a1 ! x \<le> a ! bg" and hi: "\<And>x. j < x \<Longrightarrow> x \<le> end \<Longrightarrow> a ! bg < a1 ! x"
    and still: "j = end \<Longrightarrow> a1 = a"
    using split_loop_ok [of bg "bg + 1" "end" "end" a j a1] assms(1-3) by auto
  have i: "bg \<le> i" "i \<le> j" "j \<le> i + 1" using j by (auto simp: i_def)
  have "bg < length a1" "i < length a1" using i j assms(2) w1 by (simp_all add: within_def)
  note nth = swap_nth [OF this, folded a2_def]
  have w: "within bg (end + 1) a a1" using assms(2) by (intro within_widen [OF w1]) simp_all
  then have "within bg (end + 1) a1 a2"
    unfolding a2_def using i j assms(1,2) by (intro within_swap) (simp_all add: within_def)
  with w show "within bg (end + 1) a a2" by (rule within_trans)
  have "a1 ! i \<le> a ! bg" using a1 lo [of i] i j by (cases "i = bg") (auto simp: i_def split: if_splits)
  then show left: "a2 ! x \<le> a ! bg" if "bg \<le> x" "x \<le> i" for x
    unfolding nth using that lo [of x] a1 i j by (cases "x = j") auto
  show "a ! bg \<le> a2 ! y" if "j \<le> y" "y \<le> end" for y
    unfolding nth using that hi [of y] a1 i j by (cases "y = j") (auto simp: i_def)
  show "calls_left bg i a2 < calls_left bg end a"
  proof (cases "i = end")
    case True
    then have ij: "j = end" "\<not> a1 ! bg \<le> a1 ! j" using i j by (auto simp: i_def split: if_splits)
    then have "a2 ! i = a ! bg" unfolding nth using a1 by simp
    then have "max_last bg i a2" using left by (simp add: max_last_def)
    moreover have "\<not> max_last bg end a" using ij still assms(1) by (auto simp: max_last_def)
    ultimately show ?thesis using True by (simp add: calls_left_def)
  next
    case False
    then show ?thesis using i j by (intro calls_left_shorter) simp
  qed
qed (use assms(1-3) split_loop_ok [of bg "bg + 1" "end" "end" a j a1] in \<open>auto simp: i_def\<close>)

text \<open>The two sorted parts make a sorted whole; \<open>p\<close> is the pivot.\<close>

lemma parts_sorted:
  assumes "end < length a" "bg \<le> i" "i \<le> j" "j \<le> i + 1" "bg < j" "j \<le> end"
    and left: "\<And>x. bg \<le> x \<Longrightarrow> x \<le> i \<Longrightarrow> a ! x \<le> p" and right: "\<And>y. j \<le> y \<Longrightarrow> y \<le> end \<Longrightarrow> p \<le> a ! y"
    and w: "within bg (i + 1) a b" "within j (end + 1) b c" and s: "sorted_part bg i b" "sorted_part j end c"
  shows "sorted_part bg end c" "within bg (end + 1) a c"
proof -
  have len: "length b = length a" using w(1) by (simp add: within_def)
  have left': "b ! x \<le> p" if "bg \<le> x" "x \<le> i" for x
    using within_nth [OF w(1) that(1)] that(2) left by (auto simp: less_Suc_eq_le)
  have right': "p \<le> b ! y" if "i < y" "y \<le> end" for y
    using within_same [OF w(1), of y] that right [of y] assms(1,4) by simp
  show "sorted_part bg end c"
  proof (rule sorted_part_join [OF w(2)])
    show "b ! x \<le> b ! y" if "bg \<le> x" "x < y" "y < j" for x y
      using s(1) that assms(4) unfolding sorted_part_def by simp
    show "b ! x \<le> b ! y" if "bg \<le> x" "x < j" "j \<le> y" "y \<le> end" for x y
    proof (cases "y \<le> i")
      case True
      then show ?thesis using s(1) that unfolding sorted_part_def by simp
    next
      case False
      moreover have "x \<le> i" using that assms(4) by linarith
      ultimately show ?thesis using left' [of x] right' [of y] that by simp
    qed
  qed (use assms(1,6) len s(2) in simp_all)
  have "within bg (end + 1) a b" "within bg (end + 1) b c"
    using assms(1-6) len by (intro within_widen [OF w(1)] within_widen [OF w(2)]; simp)+
  then show "within bg (end + 1) a c" by (rule within_trans)
qed

lemma quicksort_ok:
  "end < length a \<Longrightarrow> \<exists>b. quicksort bg end a = Some b \<and> within bg (end + 1) a b \<and> sorted_part bg end b"
proof (induction "calls_left bg end a" arbitrary: bg "end" a rule: less_induct)
  case less
  show ?case
  proof (cases "bg < end")
    case False
    then show ?thesis by (subst quicksort.simps) (auto simp: sorted_part_def)
  next
    case True
    obtain j a1 where sp: "split_loop bg (bg + 1) end a = (j, a1)" by (cases rule: prod.exhaust)
    define i a2 where "i = (if a1 ! bg \<le> a1 ! j then j - 1 else j)" and "a2 = Swap bg i a1"
    note step = partition_step [OF True less.prems sp, folded i_def, folded a2_def]
    have len2: "length a2 = length a" using step(6) by (simp add: within_def)
    obtain a3 where q3: "quicksort bg i a2 = Some a3" "within bg (i + 1) a2 a3" "sorted_part bg i a3"
      using less.hyps [OF step(9)] step(2,4) less.prems len2 by auto
    have len3: "length a3 = length a" using q3(2) len2 by (simp add: within_def)
    have "calls_left j end a3 < calls_left bg end a" using step(1,2) by (intro calls_left_shorter) simp
    then obtain b where q4: "quicksort j end a3 = Some b" "within j (end + 1) a3 b" "sorted_part j end b"
      using less.hyps less.prems len3 by metis
    have "sorted_part bg end b" "within bg (end + 1) a2 b"
      using parts_sorted [OF _ step(3-5,1,2,7,8) q3(2) q4(2) q3(3) q4(3)] less.prems len2 by simp_all
    moreover have "quicksort bg end a = Some b"
      using True less.prems sp q3(1) q4(1) by (subst quicksort.simps) (simp add: Let_def i_def a2_def)
    ultimately show ?thesis using within_trans [OF step(6)] by blast
  qed
qed

text \<open>
  C33. The quick sort always ends, without an access outside the array, and returns the array with the part
  from \<open>begin\<close> to \<open>end\<close> sorted, its elements rearranged and all others in place; called with 0 and the last
  index it returns the sorted array.
\<close>

theorem quicksort_sorts:
  assumes "hi < length a"
  shows "(\<exists>b. quicksort lo hi a = Some b \<and> take lo b = take lo a \<and> drop (hi + 1) b = drop (hi + 1) a
      \<and> mset b = mset a \<and> sorted (drop lo (take (hi + 1) b)))
    \<and> quicksort 0 (length a - 1) a = Some (sort a)"
proof
  obtain b where b: "quicksort lo hi a = Some b" "within lo (hi + 1) a b" "sorted_part lo hi b"
    using quicksort_ok [OF assms] by blast
  then have len: "length b = length a" by (simp add: within_def)
  have "take lo b = take lo a" "drop (hi + 1) b = drop (hi + 1) a"
    using b(2) len by (auto simp: within_def intro!: nth_equalityI)
  moreover have "sorted (drop lo (take (hi + 1) b))"
    using b(3) len assms by (auto simp: sorted_iff_nth_mono_less sorted_part_def)
  ultimately show "\<exists>b. quicksort lo hi a = Some b \<and> take lo b = take lo a \<and> drop (hi + 1) b = drop (hi + 1) a
      \<and> mset b = mset a \<and> sorted (drop lo (take (hi + 1) b))"
    using b by (simp add: within_def)
  have n: "length a - 1 < length a" using assms by simp
  obtain c where c: "quicksort 0 (length a - 1) a = Some c" "within 0 (length a - 1 + 1) a c" "sorted_part 0 (length a - 1) c"
    using quicksort_ok [OF n] by blast
  then have "sorted c" "mset c = mset a" by (auto simp: sorted_iff_nth_mono_less sorted_part_def within_def)
  then show "quicksort 0 (length a - 1) a = Some (sort a)" using c(1) by (simp add: sorted_mset_unique)
qed

lemma quicksort_sorts_witness: "quicksort 0 3 [3, 1, 3, 2] = Some [1, 2, 3, 3]"
  using quicksort_sorts [of 0 "[3, 1, 3, 2]" 0] by (simp add: eval_nat_numeral)

end
