(* ===== verification/Union_Find.thy ===== *)
theory Union_Find
  imports Main
begin

text \<open>
  \<open>UnionFindSet\<close> of \<open>Algorithm/Union\<close>.  The member \<open>_set\<close> is a list of integers: a positive entry is the
  parent of its index, a negative one marks a root and counts the elements below it.
\<close>

section \<open>Definitions from the code\<close>

definition UnionFindSet :: "nat \<Rightarrow> int list" where
  "UnionFindSet n = replicate (n + 1) (- 1)"

text \<open>
  \<open>None\<close>: an index is outside the vector (the assertion fails, or a later turn reads outside), or the loop never
  ends.  \<open>endless\<close> below is the second case, and \<open>FindParent_None_iff\<close> says that there is no other.
\<close>

partial_function (option) FindParent :: "int list \<Rightarrow> nat \<Rightarrow> nat option" where
  "FindParent s index =
     (if index < length s then (if 0 < s ! index then FindParent s (nat (s ! index)) else Some index)
      else None)"

definition SetUnionFriend :: "nat \<Rightarrow> nat \<Rightarrow> int list \<Rightarrow> int list option" where
  "SetUnionFriend left right s =
     (if left < length s \<and> right < length s
      then (case FindParent s left of None \<Rightarrow> None
        | Some left_parent \<Rightarrow> (case FindParent s right of None \<Rightarrow> None
        | Some right_parent \<Rightarrow>
            Some (if left \<noteq> right
                  then (s[left_parent := s ! left_parent + s ! right_parent])[right_parent := int left_parent]
                  else s)))
      else None)"

definition UnionSize :: "int list \<Rightarrow> nat" where
  "UnionSize s = length (filter (\<lambda>i. s ! i < 0) [1..<length s])"

text \<open>The index after \<open>k\<close> turns of the loop of \<open>_FindParent\<close>; the loop never ends when its condition always holds.\<close>

definition turns :: "int list \<Rightarrow> nat \<Rightarrow> nat \<Rightarrow> nat" where
  "turns s k i = ((\<lambda>i. nat (s ! i)) ^^ k) i"

definition endless :: "int list \<Rightarrow> nat \<Rightarrow> bool" where
  "endless s i \<longleftrightarrow> (\<forall>k. turns s k i < length s \<and> 0 < s ! turns s k i)"

section \<open>Paths to the roots\<close>

inductive leads :: "int list \<Rightarrow> nat \<Rightarrow> nat \<Rightarrow> bool" for s where
  root: "i < length s \<Longrightarrow> \<not> 0 < s ! i \<Longrightarrow> leads s i i"
| step: "i < length s \<Longrightarrow> 0 < s ! i \<Longrightarrow> leads s (nat (s ! i)) r \<Longrightarrow> leads s i r"

lemma leads_FindParent: "leads s i r \<Longrightarrow> FindParent s i = Some r"
  by (induction rule: leads.induct) (subst FindParent.simps, simp)+

lemma FindParent_leads: "FindParent s i = Some r \<Longrightarrow> leads s i r"
  by (erule FindParent.raw_induct [rotated]) (auto split: if_splits intro: leads.intros)

lemma FindParent_iff: "FindParent s i = Some r \<longleftrightarrow> leads s i r"
  using leads_FindParent FindParent_leads by blast

lemma leads_root: "leads s i r \<Longrightarrow> r < length s \<and> \<not> 0 < s ! r \<and> i < length s"
  by (induction rule: leads.induct) auto

lemma leads_pos: "leads s i r \<Longrightarrow> 0 < i \<Longrightarrow> 0 < r"
  by (induction rule: leads.induct) auto

lemma root_unique: "leads s i r \<Longrightarrow> leads s i r' \<Longrightarrow> r = r'"
  by (metis FindParent_iff option.inject)

lemma turns_simps [simp]: "turns s 0 i = i" "turns s (Suc k) i = turns s k (nat (s ! i))"
  by (simp_all add: turns_def funpow_Suc_right del: funpow.simps(2))

lemma leads_turns: "leads s i r \<Longrightarrow> \<exists>k. turns s k i = r"
  by (induction rule: leads.induct) (metis turns_simps)+

lemma turns_leads:
  "\<forall>j < k. turns s j i < length s \<and> 0 < s ! turns s j i \<Longrightarrow> leads s (turns s k i) r \<Longrightarrow> leads s i r"
proof (induction k arbitrary: i)
  case (Suc k)
  have "\<forall>j < k. turns s j (nat (s ! i)) < length s \<and> 0 < s ! turns s j (nat (s ! i))"
  proof (intro allI impI)
    fix j assume "j < k"
    then show "turns s j (nat (s ! i)) < length s \<and> 0 < s ! turns s j (nat (s ! i))"
      using Suc.prems(1) [rule_format, of "Suc j"] by simp
  qed
  then have "leads s (nat (s ! i)) r" using Suc by simp
  then show ?case using Suc.prems(1) [rule_format, of 0] leads.step by simp
qed simp

lemma turns_steps: "leads s i r \<Longrightarrow> \<forall>j < k. turns s j i < length s \<and> 0 < s ! turns s j i \<Longrightarrow> leads s (turns s k i) r"
proof (induction k arbitrary: i)
  case (Suc k)
  have i: "i < length s" "0 < s ! i" using Suc.prems(2) [rule_format, of 0] by simp_all
  have "leads s (nat (s ! i)) r" by (rule leads.cases [OF Suc.prems(1)]) (use i in simp_all)
  moreover have "\<forall>j < k. turns s j (nat (s ! i)) < length s \<and> 0 < s ! turns s j (nat (s ! i))"
  proof (intro allI impI)
    fix j assume "j < k"
    then show "turns s j (nat (s ! i)) < length s \<and> 0 < s ! turns s j (nat (s ! i))"
      using Suc.prems(2) [rule_format, of "Suc j"] by simp
  qed
  ultimately show ?case using Suc.IH by simp
qed simp

lemma FindParent_None_iff:
  "FindParent s i = None \<longleftrightarrow> endless s i
     \<or> (\<exists>k. (\<forall>j < k. turns s j i < length s \<and> 0 < s ! turns s j i) \<and> length s \<le> turns s k i)"
proof (cases "FindParent s i")
  case (Some r)
  then have r: "leads s i r" by (rule FindParent_leads)
  then obtain k where "turns s k i = r" using leads_turns by blast
  then have "\<not> (turns s k i < length s \<and> 0 < s ! turns s k i)" using leads_root [OF r] by simp
  then have "\<not> endless s i" unfolding endless_def by blast
  moreover have "\<not> length s \<le> turns s k i" if "\<forall>j < k. turns s j i < length s \<and> 0 < s ! turns s j i" for k
    using leads_root [OF turns_steps [OF r that]] by linarith
  ultimately have "\<not> (endless s i \<or> (\<exists>k. (\<forall>j < k. turns s j i < length s \<and> 0 < s ! turns s j i) \<and> length s \<le> turns s k i))"
    by blast
  then show ?thesis unfolding Some by simp
next
  case None
  show ?thesis
  proof (cases "endless s i")
    case False
    then obtain k where k: "\<not> (turns s k i < length s \<and> 0 < s ! turns s k i)"
      "\<forall>j < k. turns s j i < length s \<and> 0 < s ! turns s j i"
      unfolding endless_def using exists_least_iff [of "\<lambda>k. \<not> (turns s k i < length s \<and> 0 < s ! turns s k i)"] by blast
    have "length s \<le> turns s k i"
    proof (rule ccontr)
      assume "\<not> length s \<le> turns s k i"
      then have "leads s (turns s k i) (turns s k i)" using k(1) by (intro leads.root) simp_all
      from turns_leads [OF k(2) this] None show False by (simp add: FindParent_iff [symmetric])
    qed
    then show ?thesis using None k(2) by blast
  qed (use None in blast)
qed

text \<open>The representation invariant: every search ends, in a root that counts its elements.\<close>

definition members :: "int list \<Rightarrow> nat \<Rightarrow> nat set" where
  "members s r = {i. 0 < i \<and> FindParent s i = Some r}"

definition forest :: "int list \<Rightarrow> bool" where
  "forest s \<longleftrightarrow> s \<noteq> [] \<and> (\<forall>i < length s. FindParent s i \<noteq> None)
     \<and> (\<forall>r < length s. 0 < r \<and> \<not> 0 < s ! r \<longrightarrow> s ! r = - int (card (members s r)))"

lemma members_bounded: "members s r \<subseteq> {..<length s}"
  using leads_root by (auto simp: members_def FindParent_iff)

lemma root_member: "r < length s \<Longrightarrow> \<not> 0 < s ! r \<Longrightarrow> 0 < r \<Longrightarrow> r \<in> members s r"
  by (simp add: members_def FindParent_iff leads.root)

lemma root_negative: "forest s \<Longrightarrow> r < length s \<Longrightarrow> 0 < r \<Longrightarrow> \<not> 0 < s ! r \<Longrightarrow> s ! r < 0"
proof -
  assume a: "forest s" "r < length s" "0 < r" "\<not> 0 < s ! r"
  then have "r \<in> members s r" by (simp add: root_member)
  moreover have "finite (members s r)" using members_bounded by (rule finite_subset) simp
  ultimately have "0 < card (members s r)" by (auto simp: card_gt_0_iff)
  moreover have "s ! r = - int (card (members s r))" using a unfolding forest_def by blast
  ultimately show ?thesis by simp
qed

lemma new_forest: "forest (UnionFindSet n)" "i \<le> n \<Longrightarrow> FindParent (UnionFindSet n) i = Some i"
proof -
  define s where "s = UnionFindSet n"
  have nth: "s ! i = - 1" if "i \<le> n" for i
    using that by (simp add: s_def UnionFindSet_def del: replicate_Suc)
  have len: "length s = n + 1" by (simp add: s_def UnionFindSet_def)
  have find: "FindParent s i = (if i \<le> n then Some i else None)" for i
    by (subst FindParent.simps) (simp add: nth len)
  then show "i \<le> n \<Longrightarrow> FindParent (UnionFindSet n) i = Some i" by (simp add: s_def)
  have "members s r = {r}" if "r \<le> n" "0 < r" for r using that by (auto simp: members_def find)
  moreover have "s \<noteq> []" using len by auto
  ultimately have "forest s" using nth by (simp add: forest_def find len)
  then show "forest (UnionFindSet n)" by (simp add: s_def)
qed

section \<open>Joining two different sets\<close>

lemma leads_join:
  assumes pq: "leads s l p" "leads s r q" "p \<noteq> q" "0 < p" and neg: "s ! p < 0" "s ! q < 0"
  defines "s' \<equiv> (s[p := s ! p + s ! q])[q := int p]"
  shows "leads s i x \<Longrightarrow> leads s' i (if x = q then p else x)"
proof (induction rule: leads.induct)
  case (root i)
  have pos: "0 < p" "p < length s" "q < length s"
    using pq(4) leads_root [OF pq(1)] leads_root [OF pq(2)] by simp_all
  have p: "leads s' p p" using pos neg pq(3) by (intro leads.root) (simp_all add: s'_def)
  show ?case
  proof (cases "i = q")
    case True
    have "leads s' q p" using pos p by - (rule leads.step, simp_all add: s'_def)
    then show ?thesis using True by simp
  next
    case False
    moreover have "leads s' i i" if "i \<noteq> p"
      using root False that by (intro leads.root) (simp_all add: s'_def)
    ultimately show ?thesis using p by (cases "i = p") simp_all
  qed
next
  case (step i x)
  have "i \<noteq> p" "i \<noteq> q" using step.hyps(2) neg by auto
  with step show ?case by - (rule leads.step, simp_all add: s'_def)
qed

lemma UnionSize_card: "UnionSize t = card {i. 0 < i \<and> i < length t \<and> t ! i < 0}"
proof -
  have "UnionSize t = card (set (filter (\<lambda>i. t ! i < 0) [1..<length t]))"
    unfolding UnionSize_def by (rule distinct_card [symmetric]) simp
  moreover have "set (filter (\<lambda>i. t ! i < 0) [1..<length t]) = {i. 0 < i \<and> i < length t \<and> t ! i < 0}" by auto
  ultimately show ?thesis by simp
qed

text \<open>What is known of two roots \<open>p\<close> and \<open>q\<close> when they are joined.\<close>

lemma two_roots:
  assumes "forest s" "leads s l p" "leads s r q" "0 < p" "0 < q"
  shows "0 < p" "0 < q" "p < length s" "q < length s" "l < length s" "r < length s" "s ! p < 0" "s ! q < 0"
proof -
  show pos: "0 < p" "0 < q" by (fact assms)+
  show "p < length s" "q < length s" "l < length s" "r < length s"
    using leads_root [OF assms(2)] leads_root [OF assms(3)] by simp_all
  then show "s ! p < 0" "s ! q < 0"
    using root_negative [OF assms(1)] leads_root [OF assms(2)] leads_root [OF assms(3)] pos by simp_all
qed

lemma join_find:
  assumes f: "forest s" and pq: "leads s l p" "leads s r q" "p \<noteq> q" "0 < p" "0 < q"
  defines "s' \<equiv> (s[p := s ! p + s ! q])[q := int p]"
  shows "FindParent s' i = map_option (\<lambda>x. if x = q then p else x) (FindParent s i)"
proof (cases "i < length s")
  case True
  then obtain x where x: "FindParent s i = Some x" using f by (auto simp: forest_def)
  then have "leads s' i (if x = q then p else x)"
    using leads_join [OF pq(1-4) two_roots(7,8) [OF f pq(1,2,4,5)]] by (simp add: s'_def FindParent_iff)
  then show ?thesis using x by (simp add: FindParent_iff [symmetric])
next
  case False
  then show ?thesis by (simp add: s'_def FindParent.simps)
qed

lemma join_forest:
  assumes f: "forest s" and pq: "leads s l p" "leads s r q" "p \<noteq> q" "0 < p" "0 < q"
  defines "s' \<equiv> (s[p := s ! p + s ! q])[q := int p]"
  shows "forest s'"
  unfolding forest_def
proof (intro conjI allI impI)
  note roots = two_roots [OF f pq(1,2,4,5)]
  note find = join_find [OF f pq, folded s'_def]
  have len: "length s' = length s" by (simp add: s'_def)
  show "s' \<noteq> []" using roots(3) len by auto
  show "FindParent s' i \<noteq> None" if "i < length s'" for i
    using that f len by (simp add: find forest_def)
  have mem: "members s' p = members s p \<union> members s q" using pq(3) by (auto simp: members_def find)
  have mem': "members s' x = members s x" if "x \<noteq> p" "x \<noteq> q" for x using that pq(3) by (auto simp: members_def find)
  have "finite (members s x)" for x using members_bounded by (rule finite_subset) simp
  moreover have "members s p \<inter> members s q = {}" using pq(3) by (auto simp: members_def)
  ultimately have card: "card (members s' p) = card (members s p) + card (members s q)"
    using mem by (simp add: card_Un_disjoint)
  have cnt: "s ! x = - int (card (members s x))" if "x < length s" "0 < x" "\<not> 0 < s ! x" for x
    using f that by (simp add: forest_def)
  fix x assume x: "x < length s'" "0 < x \<and> \<not> 0 < s' ! x"
  then have "x \<noteq> q" using roots(1,4) by (auto simp: s'_def)
  then show "s' ! x = - int (card (members s' x))"
    using x card cnt roots len pq(3) by (cases "x = p") (auto simp: s'_def mem' [unfolded s'_def])
qed

lemma join_ok:
  assumes f: "forest s" and pq: "leads s l p" "leads s r q" "p \<noteq> q" "0 < p" "0 < q"
  defines "s' \<equiv> (s[p := s ! p + s ! q])[q := int p]"
  shows "SetUnionFriend l r s = Some s'" "UnionSize s' + 1 = UnionSize s"
proof -
  note roots = two_roots [OF f pq(1,2,4,5)]
  have "l \<noteq> r" using pq root_unique by blast
  then show "SetUnionFriend l r s = Some s'"
    using pq roots by (simp add: SetUnionFriend_def s'_def FindParent_iff [symmetric])
  have "{i. 0 < i \<and> i < length s \<and> s ! i < 0} = insert q {i. 0 < i \<and> i < length s' \<and> s' ! i < 0}"
    using roots pq(3) by (auto simp: s'_def nth_list_update)
  moreover have "q \<notin> {i. 0 < i \<and> i < length s' \<and> s' ! i < 0}" using roots by (simp add: s'_def)
  ultimately show "UnionSize s' + 1 = UnionSize s" by (simp add: UnionSize_card)
qed

text \<open>The index 0 cannot be a parent, since the entry 0 does not count as one.\<close>

lemma zero_root: "forest s \<Longrightarrow> leads s i 0 \<Longrightarrow> i = 0 \<and> s ! 0 \<le> 0"
  using leads_pos leads_root by fastforce

lemma join_zero_left:
  assumes f: "forest s" and pq: "leads s l 0" "leads s r q" "q \<noteq> 0"
  defines "s' \<equiv> (s[0 := s ! 0 + s ! q])[q := 0]"
  shows "SetUnionFriend l r s = Some s'" "FindParent s' = FindParent s" "UnionSize s' + 1 = UnionSize s"
proof -
  have q: "q < length s" "r < length s" "\<not> 0 < s ! q" using leads_root [OF pq(2)] by simp_all
  then have neg: "s ! q < 0" using root_negative [OF f] pq(3) by simp
  have l: "l = 0" "s ! 0 \<le> 0" "0 < length s" using zero_root [OF f pq(1)] leads_root [OF pq(1)] by simp_all
  have "leads s 0 0" using l by (intro leads.root) simp_all
  then have "r \<noteq> 0" using pq(2,3) root_unique [of s 0 0 q] by (intro notI) simp
  then show "SetUnionFriend l r s = Some s'"
    using pq q l by (simp add: SetUnionFriend_def s'_def FindParent_iff [symmetric])
  have parent: "length s' = length s" "0 < s' ! i \<longleftrightarrow> 0 < s ! i" "0 < s ! i \<Longrightarrow> s' ! i = s ! i" for i
    using neg l q by (auto simp: s'_def nth_list_update)
  have "leads s' i x" if "leads s i x" for i x
    using that by (induction rule: leads.induct) (auto intro: leads.intros simp: parent)
  moreover have "leads s i x" if "leads s' i x" for i x
    using that by (induction rule: leads.induct) (auto intro: leads.intros simp: parent)
  ultimately have "leads s' = leads s" by blast
  then have "FindParent s' i = Some x \<longleftrightarrow> FindParent s i = Some x" for i x by (simp add: FindParent_iff)
  then have "FindParent s' i = FindParent s i" for i by (cases "FindParent s i") (metis not_None_eq)+
  then show "FindParent s' = FindParent s" by blast
  have "{i. 0 < i \<and> i < length s \<and> s ! i < 0} = insert q {i. 0 < i \<and> i < length s' \<and> s' ! i < 0}"
    using q neg pq(3) by (auto simp: s'_def nth_list_update)
  moreover have "q \<notin> {i. 0 < i \<and> i < length s' \<and> s' ! i < 0}" using q by (simp add: s'_def)
  ultimately show "UnionSize s' + 1 = UnionSize s" by (simp add: UnionSize_card)
qed

lemma join_zero_right:
  assumes f: "forest s" and pq: "leads s l p" "leads s r 0" "p \<noteq> 0"
  defines "s' \<equiv> (s[p := s ! p + s ! 0])[0 := int p]"
  shows "SetUnionFriend l r s = Some s'" "UnionSize s' = UnionSize s"
    "FindParent s' i = map_option (\<lambda>x. if x = 0 then p else x) (FindParent s i)"
proof -
  have p: "p < length s" "l < length s" "s ! p < 0"
    using leads_root [OF pq(1)] root_negative [OF f] pq(3) by auto
  have r: "r = 0" "s ! 0 \<le> 0" "0 < length s" using zero_root [OF f pq(2)] leads_root [OF pq(2)] by simp_all
  have "leads s 0 0" using r by (intro leads.root) simp_all
  then have "l \<noteq> 0" using pq(1,3) root_unique [of s 0 0 p] by (intro notI) simp
  then show "SetUnionFriend l r s = Some s'"
    using pq p r by (simp add: SetUnionFriend_def s'_def FindParent_iff [symmetric])
  have self: "leads s' p p" using p r pq(3) by (intro leads.root) (auto simp: s'_def)
  have zero: "leads s' 0 p" using p r pq(3) self by - (rule leads.step, simp_all add: s'_def)
  have step: "leads s' i (if x = 0 then p else x)" if "leads s i x" for i x
    using that
  proof (induction rule: leads.induct)
    case (root i)
    then have "leads s' i i" if "i \<noteq> 0" "i \<noteq> p" using that by (intro leads.root) (simp_all add: s'_def)
    then show ?case using self zero by (cases "i = p") auto
  next
    case (step i x)
    have "i \<noteq> p" "i \<noteq> 0" using step.hyps(2) p(3) r(2) by (auto intro: ccontr)
    with step show ?case by - (rule leads.step, simp_all add: s'_def)
  qed
  show "FindParent s' i = map_option (\<lambda>x. if x = 0 then p else x) (FindParent s i)"
  proof (cases "i < length s")
    case True
    then obtain x where x: "FindParent s i = Some x" using f by (auto simp: forest_def)
    then have "leads s' i (if x = 0 then p else x)" using step by (simp add: FindParent_iff)
    then show ?thesis using x by (simp add: FindParent_iff [symmetric])
  qed (simp add: s'_def FindParent.simps)
  have "{i. 0 < i \<and> i < length s \<and> s ! i < 0} = {i. 0 < i \<and> i < length s' \<and> s' ! i < 0}"
    using p r by (auto simp: s'_def nth_list_update)
  then show "UnionSize s' = UnionSize s" by (simp add: UnionSize_card)
qed

section \<open>Joining a set with itself\<close>

lemma join_again:
  assumes f: "forest s" and pq: "leads s l p" "leads s r p" "l \<noteq> r"
  defines "s' \<equiv> (s[p := s ! p + s ! p])[p := int p]"
  shows "SetUnionFriend l r s = Some s'" "p < length s'" "s' ! p = int p" "endless s' i \<longleftrightarrow> FindParent s i = Some p"
    "FindParent s' i = (if endless s' i then None else FindParent s i)"
proof -
  have "0 < p"
  proof (rule ccontr)
    assume "\<not> 0 < p"
    then have "l = 0" "r = 0" using zero_root [OF f, of l] zero_root [OF f, of r] pq by simp_all
    then show False using pq(3) by simp
  qed
  then have p: "0 < p" "p < length s" "l < length s" "r < length s" "\<not> 0 < s ! p"
    using leads_root [OF pq(1)] leads_root [OF pq(2)] by simp_all
  show "SetUnionFriend l r s = Some s'"
    using pq p by (simp add: SetUnionFriend_def s'_def FindParent_iff [symmetric])
  show s': "p < length s'" "s' ! p = int p" using p by (simp_all add: s'_def)
  have "turns s' k p = p" for k using s'(2) by (induction k) simp_all
  then have loop: "endless s' p" using s' p(1) by (simp add: endless_def)
  have earlier: "endless s' j" if "endless s' (nat (s' ! j))" "j < length s'" "0 < s' ! j" for j
    unfolding endless_def
  proof
    fix k show "turns s' k j < length s' \<and> 0 < s' ! turns s' k j"
    proof (cases k)
      case (Suc m)
      then show ?thesis using that(1) [unfolded endless_def, rule_format, of m] by simp
    qed (use that in simp)
  qed
  have endless: "endless s' j" if "leads s j x" "x = p" for j x
    using that
  proof (induction rule: leads.induct)
    case (step j x)
    moreover have "j \<noteq> p" using step.hyps(2) p(5) by auto
    ultimately show ?case by - (rule earlier, simp_all add: s'_def)
  qed (use loop in simp)
  have other: "leads s' j x" if "leads s j x" "x \<noteq> p" for j x
    using that
  proof (induction rule: leads.induct)
    case (step j x)
    moreover have "j \<noteq> p" using step.hyps(2) p(5) by auto
    ultimately show ?case by - (rule leads.step, simp_all add: s'_def)
  qed (auto intro: leads.root simp: s'_def)
  have ends: "endless s' i \<Longrightarrow> FindParent s' i = None" using FindParent_None_iff by blast
  have len: "length s' = length s" by (simp add: s'_def)
  have "(endless s' i \<longleftrightarrow> FindParent s i = Some p) \<and> FindParent s' i = (if endless s' i then None else FindParent s i)"
  proof (cases "i < length s")
    case True
    then obtain x where x: "leads s i x" using f by (auto simp: forest_def FindParent_iff)
    show ?thesis
    proof (cases "x = p")
      case False
      then have "FindParent s' i = Some x" using other [OF x] by (simp add: FindParent_iff)
      then show ?thesis using ends x False by (auto simp: FindParent_iff [symmetric])
    qed (use x endless ends in \<open>auto simp: FindParent_iff [symmetric]\<close>)
  next
    case False
    then have "\<not> endless s' i" unfolding endless_def using len turns_simps(1) [of s' i] by metis
    then show ?thesis using False len by (simp add: FindParent.simps)
  qed
  then show "endless s' i \<longleftrightarrow> FindParent s i = Some p" "FindParent s' i = (if endless s' i then None else FindParent s i)"
    by blast+
qed

section \<open>Properties\<close>

text \<open>
  C31. Joining two different indices, in a forest (every search ends, and the entry of a root other than 0 counts
  its elements); \<open>p\<close> and \<open>q\<close> are the roots of the two.  When they are different and not 0, the operation
  refines the union of two blocks of a partition: the representation stays a forest, every element of the second
  set gets the root of the first and no other root changes, and there is one set less.  When \<open>p\<close> is \<open>q\<close>, it
  destroys the structure: the test compares the elements instead of their roots, so the root becomes its own
  parent, and exactly the searches from the elements of this set never end.  The index 0 is accepted but does not
  work: joined to another set from the left no root changes, although one set less is counted; from the right it
  gets the root of that set, and as many sets are counted as before.
\<close>

theorem union_find_joins:
  assumes "forest s" "FindParent s l = Some p" "FindParent s r = Some q" "l \<noteq> r"
  shows "\<exists>s'. SetUnionFriend l r s = Some s'
    \<and> (if p = q then p < length s' \<and> s' ! p = int p \<and> (\<forall>i. endless s' i \<longleftrightarrow> FindParent s i = Some p)
         \<and> FindParent s' = (\<lambda>i. if endless s' i then None else FindParent s i)
       else if p = 0 then FindParent s' = FindParent s \<and> UnionSize s' + 1 = UnionSize s
       else FindParent s' = (\<lambda>i. map_option (\<lambda>x. if x = q then p else x) (FindParent s i))
         \<and> (if q = 0 then UnionSize s' = UnionSize s else forest s' \<and> UnionSize s' + 1 = UnionSize s))"
proof -
  have pq: "leads s l p" "leads s r q" using assms(2,3) by (simp_all add: FindParent_iff)
  consider "p = q" | "p \<noteq> q" "p = 0" | "p \<noteq> q" "0 < p" "q = 0" | "p \<noteq> q" "0 < p" "0 < q" by auto
  then show ?thesis
  proof cases
    case 1
    then show ?thesis using join_again [OF assms(1) pq(1) _ assms(4)] pq(2) by (simp add: fun_eq_iff)
  next
    case 2
    then show ?thesis using join_zero_left [OF assms(1) _ pq(2)] pq(1) by simp
  next
    case 3
    then show ?thesis using join_zero_right [OF assms(1) pq(1)] pq(2) by (simp add: fun_eq_iff)
  next
    case 4
    note j = assms(1) pq 4
    show ?thesis using 4 join_ok [OF j] join_forest [OF j] join_find [OF j] by (simp add: fun_eq_iff)
  qed
qed

text \<open>The calls 1-2 on eight elements, and 1-2, 2-3, 1-3 on the elements 1 to 3.\<close>

lemma union_find_joins_witness:
  "(\<exists>s'. SetUnionFriend 1 2 (UnionFindSet 8) = Some s' \<and> forest s' \<and> FindParent s' 2 = Some 1 \<and> UnionSize s' = 7) \<and>
   SetUnionFriend 1 2 (UnionFindSet 3) = Some [- 1, - 2, 1, - 1] \<and>
   SetUnionFriend 2 3 [- 1, - 2, 1, - 1] = Some [- 1, - 3, 1, 1] \<and>
   (\<exists>s'. SetUnionFriend 1 3 [- 1, - 3, 1, 1] = Some s' \<and> endless s' 1)"
proof (intro conjI)
  have "UnionSize (UnionFindSet 8) = 8" by code_simp
  then show "\<exists>s'. SetUnionFriend 1 2 (UnionFindSet 8) = Some s' \<and> forest s' \<and> FindParent s' 2 = Some 1 \<and> UnionSize s' = 7"
    using union_find_joins [of "UnionFindSet 8" 1 1 2 2] new_forest [of 8] new_forest(2) [of 1 8] new_forest(2) [of 2 8]
    by (auto simp del: One_nat_def)
  have f: "FindParent [- 1, - 3, 1, 1] 1 = Some 1" "FindParent [- 1, - 3, 1, 1] 3 = Some 1"
    by (simp_all add: FindParent.simps)
  have first: "SetUnionFriend 1 2 (UnionFindSet 3) = Some [- 1, - 2, 1, - 1]"
    and second: "SetUnionFriend 2 3 [- 1, - 2, 1, - 1] = Some [- 1, - 3, 1, 1]"
    by (simp_all add: SetUnionFriend_def UnionFindSet_def FindParent.simps eval_nat_numeral)
  have "forest [- 1, - 2, 1, - 1]"
    using union_find_joins [of "UnionFindSet 3" 1 1 2 2] new_forest [of 3] new_forest(2) [of 1 3] new_forest(2) [of 2 3]
    unfolding first by simp
  moreover have "FindParent [- 1, - 2, 1, - 1] 2 = Some 1" "FindParent [- 1, - 2, 1, - 1] 3 = Some 3"
    by (simp_all add: FindParent.simps)
  ultimately have "forest [- 1, - 3, 1, 1]"
    using union_find_joins [of "[- 1, - 2, 1, - 1]" 2 1 3 3] unfolding second by simp
  from union_find_joins [OF this f]
  show "\<exists>s'. SetUnionFriend 1 3 [- 1, - 3, 1, 1] = Some s' \<and> endless s' 1" using f by auto
qed (simp_all add: SetUnionFriend_def UnionFindSet_def FindParent.simps eval_nat_numeral)

text \<open>The element 0 as a parent reads as a root.  The graph code joins from 0.\<close>

lemma union_find_zero:
  "\<exists>s. SetUnionFriend 0 1 (UnionFindSet 1) = Some s \<and> FindParent s 1 = Some 1"
  by (simp add: SetUnionFriend_def UnionFindSet_def FindParent.simps)

end
