(* ===== verification/Bloom_Filter.thy ===== *)
theory Bloom_Filter
  imports Main "HOL-Library.Word"
begin

text \<open>
  \<open>Bitset\<close>, the string hashes and \<open>BloomFilter\<close> of \<open>DataStruct/Bitset\<close>.  \<open>size_t\<close> is a 64-bit word and
  \<open>char\<close> a signed byte.  \<open>None\<close> is an access outside the vector or a remainder by zero.
\<close>

unbundle bit_operations_syntax

section \<open>Definitions from the code\<close>

subsection \<open>Bitset\<close>

record bitset =
  bs_count :: "64 word"
  bs_size :: "64 word"
  bs_bmp :: "8 word list"

definition Bitset :: "64 word \<Rightarrow> bitset" where
  "Bitset rng = \<lparr>bs_count = 0, bs_size = rng, bs_bmp = replicate (unat (drop_bit 3 rng) + 1) 0\<rparr>"

definition Bitset_Test :: "64 word \<Rightarrow> bitset \<Rightarrow> bool option" where
  "Bitset_Test pos b =
     (let index = unat (drop_bit 3 pos); num = unat (pos mod 8) in
      if index < length (bs_bmp b) then Some (bs_bmp b ! index AND push_bit num 1 \<noteq> 0) else None)"

definition Bitset_Set :: "64 word \<Rightarrow> bitset \<Rightarrow> bitset option" where
  "Bitset_Set pos b =
     (let index = unat (drop_bit 3 pos); num = unat (pos mod 8) in
      if index < length (bs_bmp b)
      then Some (b\<lparr>bs_bmp := (bs_bmp b)[index := bs_bmp b ! index OR push_bit num 1], bs_count := bs_count b + 1\<rparr>)
      else None)"

definition Bitset_reSet :: "64 word \<Rightarrow> bitset \<Rightarrow> bitset option" where
  "Bitset_reSet pos b =
     (let index = unat (drop_bit 3 pos); num = unat (pos mod 8) in
      if index < length (bs_bmp b)
      then Some (b\<lparr>bs_bmp := (bs_bmp b)[index := bs_bmp b ! index AND NOT (push_bit num 1)]\<rparr>)
      else None)"

definition Bitset_clear :: "bitset \<Rightarrow> bitset" where
  "Bitset_clear b = b\<lparr>bs_bmp := replicate (length (bs_bmp b)) 0\<rparr>"

subsection \<open>The hashes\<close>

text \<open>The characters of \<open>str.c_str()\<close>, which ends at the first null character, converted to \<open>size_t\<close>.\<close>

definition c_str :: "8 word list \<Rightarrow> 64 word list" where
  "c_str str = map scast (takeWhile (\<lambda>c. c \<noteq> 0) str)"

definition BKDRHash :: "8 word list \<Rightarrow> 64 word" where
  "BKDRHash str = fold (\<lambda>ch hash. hash * 131 + ch) (c_str str) 0"

definition SDBMHash :: "8 word list \<Rightarrow> 64 word" where
  "SDBMHash str = fold (\<lambda>ch hash. 65599 * hash + ch) (c_str str) 0"

definition RSHash :: "8 word list \<Rightarrow> 64 word" where
  "RSHash str = fst (fold (\<lambda>ch (hash, magic). (hash * magic + ch, magic * 378551)) (c_str str) (0, 63689))"

definition APHash :: "8 word list \<Rightarrow> 64 word" where
  "APHash str = fst (fold (\<lambda>ch (hash, i :: nat).
     (if even i then hash XOR (push_bit 7 hash XOR ch XOR drop_bit 3 hash)
      else hash XOR NOT (push_bit 11 hash XOR ch XOR drop_bit 5 hash), i + 1)) (c_str str) (0, 0))"

definition JSHash :: "8 word list \<Rightarrow> 64 word" where
  "JSHash str =
     (if c_str str = [] then 0
      else fold (\<lambda>ch hash. hash XOR (push_bit 5 hash + ch + drop_bit 2 hash)) (c_str str) 1315423911)"

subsection \<open>BloomFilter\<close>

text \<open>The hash functions are template parameters; these are their defaults.\<close>

definition default_hashes :: "(8 word list \<Rightarrow> 64 word) list" where
  "default_hashes = [BKDRHash, JSHash, SDBMHash, RSHash, APHash]"

record bloom =
  bf_bitset :: bitset
  bf_range :: "64 word"

definition BloomFilter :: "64 word \<Rightarrow> bloom" where
  "BloomFilter sz = \<lparr>bf_bitset = Bitset (sz * 10), bf_range = sz * 10\<rparr>"

text \<open>The calls of \<open>_bitset.Set\<close> and of \<open>_bitset.Test\<close> one after the other; the first false result returns.\<close>

fun set_each :: "('p \<Rightarrow> 's \<Rightarrow> 's option) \<Rightarrow> 'p list \<Rightarrow> 's \<Rightarrow> 's option" where
  "set_each put_bit [] b = Some b"
| "set_each put_bit (p # ps) b = Option.bind (put_bit p b) (set_each put_bit ps)"

fun test_each :: "('p \<Rightarrow> 's \<Rightarrow> bool option) \<Rightarrow> 'p list \<Rightarrow> 's \<Rightarrow> bool option" where
  "test_each test_bit [] b = Some True"
| "test_each test_bit (p # ps) b =
     Option.bind (test_bit p b) (\<lambda>t. if t then test_each test_bit ps b else Some False)"

definition bloom_Set :: "('k \<Rightarrow> 64 word) list \<Rightarrow> 'k \<Rightarrow> bloom \<Rightarrow> bloom option" where
  "bloom_Set hs key f =
     (if bf_range f = 0 then None
      else map_option (\<lambda>b. f\<lparr>bf_bitset := b\<rparr>) (set_each Bitset_Set (map (\<lambda>h. h key mod bf_range f) hs) (bf_bitset f)))"

definition bloom_Test :: "('k \<Rightarrow> 64 word) list \<Rightarrow> 'k \<Rightarrow> bloom \<Rightarrow> bool option" where
  "bloom_Test hs key f =
     (if bf_range f = 0 then None else test_each Bitset_Test (map (\<lambda>h. h key mod bf_range f) hs) (bf_bitset f))"

text \<open>A client that adds the keys of a list.\<close>

fun add_keys :: "('k \<Rightarrow> 64 word) list \<Rightarrow> 'k list \<Rightarrow> bloom \<Rightarrow> bloom option" where
  "add_keys hs [] f = Some f"
| "add_keys hs (k # ks) f = Option.bind (bloom_Set hs k f) (add_keys hs ks)"

section \<open>The bit set is a set of positions\<close>

definition capacity :: "bitset \<Rightarrow> nat" where
  "capacity b = 8 * length (bs_bmp b)"

definition positions :: "bitset \<Rightarrow> 64 word set" where
  "positions b = {p. Bitset_Test p b = Some True}"

definition in_range :: "bitset \<Rightarrow> 64 word set" where
  "in_range b = {p. unat p < capacity b}"

lemma index_num: "unat (drop_bit 3 p) = unat p div 8" "unat (p mod 8) = unat p mod 8" for p :: "64 word"
  by (simp_all add: drop_bit_eq_div unat_div unat_mod)

lemma num_less: "unat (p mod 8) < 8" for p :: "64 word"
  by (simp add: index_num)

lemma same_position:
  "unat (drop_bit 3 p) = unat (drop_bit 3 q) \<and> unat (p mod 8) = unat (q mod 8) \<longleftrightarrow> p = q" for p q :: "64 word"
  by (metis index_num div_mult_mod_eq word_unat_eq_iff)

lemma byte_bit: "w AND push_bit n 1 \<noteq> 0 \<longleftrightarrow> bit w n" for w :: "8 word"
  by (simp add: and_exp_eq_0_iff_not_bit push_bit_of_1)

lemma bit_mask: "m < 8 \<Longrightarrow> bit (push_bit n 1 :: 8 word) m \<longleftrightarrow> n = m"
  by (auto simp: push_bit_of_1 bit_exp_iff)

lemma Test_defined: "Bitset_Test p b = None \<longleftrightarrow> capacity b \<le> unat p"
  by (auto simp: Bitset_Test_def capacity_def index_num Let_def)

lemma Test_bit:
  "Bitset_Test p b = (if unat p < capacity b then Some (bit (bs_bmp b ! unat (drop_bit 3 p)) (unat (p mod 8))) else None)"
  unfolding Bitset_Test_def Let_def byte_bit by (auto simp: capacity_def index_num)

lemma positions_bit:
  "p \<in> positions b \<longleftrightarrow> unat p < capacity b \<and> bit (bs_bmp b ! unat (drop_bit 3 p)) (unat (p mod 8))"
  by (auto simp: positions_def Test_bit)

lemma Test_positions: "Bitset_Test p b = (if unat p < capacity b then Some (p \<in> positions b) else None)"
  by (simp add: Test_bit positions_bit)

lemma Set_Some:
  assumes "Bitset_Set p b = Some b'"
  shows "positions b' = insert p (positions b)" "capacity b' = capacity b" "bs_count b' = bs_count b + 1"
proof -
  let ?i = "\<lambda>p :: 64 word. unat (drop_bit 3 p)" and ?n = "\<lambda>p :: 64 word. unat (p mod 8)"
  have b': "b' = b\<lparr>bs_bmp := (bs_bmp b)[?i p := bs_bmp b ! ?i p OR push_bit (?n p) 1], bs_count := bs_count b + 1\<rparr>"
    and len: "?i p < length (bs_bmp b)"
    using assms by (auto simp: Bitset_Set_def Let_def split: if_splits)
  then show cap: "capacity b' = capacity b" "bs_count b' = bs_count b + 1" by (simp_all add: capacity_def)
  have pcap: "unat p < capacity b" using len by (simp add: capacity_def index_num)
  have "bit (bs_bmp b' ! ?i q) (?n q) \<longleftrightarrow> q = p \<or> bit (bs_bmp b ! ?i q) (?n q)" if "unat q < capacity b" for q
  proof (cases "?i q = ?i p")
    case True
    then have "bit (bs_bmp b' ! ?i q) (?n q) \<longleftrightarrow> bit (bs_bmp b ! ?i q) (?n q) \<or> ?n q = ?n p"
      using len by (auto simp: b' bit_or_iff bit_mask [OF num_less] simp del: push_bit_of_1)
    then show ?thesis using same_position [of q p] True by blast
  next
    case False
    then show ?thesis by (auto simp: b')
  qed
  then show "positions b' = insert p (positions b)" using pcap by (auto simp: positions_bit cap)
qed

lemma reSet_Some:
  assumes "Bitset_reSet p b = Some b'"
  shows "positions b' = positions b - {p}" "capacity b' = capacity b" "bs_count b' = bs_count b"
proof -
  let ?i = "\<lambda>p :: 64 word. unat (drop_bit 3 p)" and ?n = "\<lambda>p :: 64 word. unat (p mod 8)"
  have b': "b' = b\<lparr>bs_bmp := (bs_bmp b)[?i p := bs_bmp b ! ?i p AND NOT (push_bit (?n p) 1)]\<rparr>"
    and len: "?i p < length (bs_bmp b)"
    using assms by (auto simp: Bitset_reSet_def Let_def split: if_splits)
  then show cap: "capacity b' = capacity b" "bs_count b' = bs_count b" by (simp_all add: capacity_def)
  have "bit (bs_bmp b' ! ?i q) (?n q) \<longleftrightarrow> q \<noteq> p \<and> bit (bs_bmp b ! ?i q) (?n q)" if "unat q < capacity b" for q
  proof (cases "?i q = ?i p")
    case True
    then have "bit (bs_bmp b' ! ?i q) (?n q) \<longleftrightarrow> bit (bs_bmp b ! ?i q) (?n q) \<and> ?n q \<noteq> ?n p"
      using len num_less [of q] by (auto simp: b' bit_and_iff bit_not_iff bit_mask [OF num_less] simp del: push_bit_of_1)
    then show ?thesis using same_position [of q p] True by blast
  next
    case False
    then show ?thesis by (auto simp: b')
  qed
  then show "positions b' = positions b - {p}" by (auto simp: positions_bit cap)
qed

lemma Set_defined: "Bitset_Set p b = None \<longleftrightarrow> capacity b \<le> unat p"
  and reSet_defined: "Bitset_reSet p b = None \<longleftrightarrow> capacity b \<le> unat p"
  by (auto simp: Bitset_Set_def Bitset_reSet_def capacity_def index_num Let_def)

lemma clear_positions: "positions (Bitset_clear b) = {}" "capacity (Bitset_clear b) = capacity b"
proof -
  show cap: "capacity (Bitset_clear b) = capacity b" by (simp add: capacity_def Bitset_clear_def)
  show "positions (Bitset_clear b) = {}"
    by (auto simp: positions_bit cap) (auto simp: Bitset_clear_def capacity_def index_num)
qed

lemma new_positions: "positions (Bitset r) = {}" and new_capacity: "capacity (Bitset r) = 8 * (unat r div 8 + 1)"
proof -
  show "capacity (Bitset r) = 8 * (unat r div 8 + 1)"
    by (simp add: capacity_def Bitset_def index_num)
  show "positions (Bitset r) = {}"
    by (auto simp: positions_bit Bitset_def capacity_def index_num simp del: replicate_Suc)
qed

section \<open>The filter\<close>

text \<open>What the filter relies on: a store of bits, each of which can be set and tested.\<close>

locale bit_store =
  fixes put_bit :: "'p \<Rightarrow> 's \<Rightarrow> 's option" and test_bit :: "'p \<Rightarrow> 's \<Rightarrow> bool option"
    and holds :: "'s \<Rightarrow> 'p set" and room :: "'s \<Rightarrow> 'p set"
  assumes set_law: "p \<in> room b \<Longrightarrow> \<exists>c. put_bit p b = Some c \<and> holds c = insert p (holds b) \<and> room c = room b"
    and test_law: "p \<in> room b \<Longrightarrow> test_bit p b = Some (p \<in> holds b)"
begin

lemma set_each_ok:
  "set ps \<subseteq> room b \<Longrightarrow> \<exists>c. set_each put_bit ps b = Some c \<and> holds c = set ps \<union> holds b \<and> room c = room b"
proof (induction ps arbitrary: b)
  case (Cons p ps)
  then obtain c where c: "put_bit p b = Some c" "holds c = insert p (holds b)" "room c = room b"
    using set_law [of p b] by auto
  then obtain e where "set_each put_bit ps c = Some e" "holds e = set ps \<union> holds c" "room e = room c"
    using Cons.IH [of c] Cons.prems by auto
  then show ?case using c by simp
qed simp

lemma test_each_ok: "set ps \<subseteq> room b \<Longrightarrow> test_each test_bit ps b = Some (set ps \<subseteq> holds b)"
  by (induction ps) (simp_all add: test_law)

end

interpretation bits: bit_store Bitset_Set Bitset_Test positions in_range
proof unfold_locales
  fix p b assume "p \<in> in_range b"
  then have p: "unat p < capacity b" by (simp add: in_range_def)
  then show "Bitset_Test p b = Some (p \<in> positions b)" by (simp add: Test_positions)
  obtain c where c: "Bitset_Set p b = Some c" using p Set_defined [of p b] by (cases "Bitset_Set p b") auto
  then show "\<exists>c. Bitset_Set p b = Some c \<and> positions c = insert p (positions b) \<and> in_range c = in_range b"
    using Set_Some [OF c] by (simp add: in_range_def)
qed

definition bloom_ok :: "bloom \<Rightarrow> bool" where
  "bloom_ok f \<longleftrightarrow> bf_range f \<noteq> 0 \<and> (\<forall>p < bf_range f. p \<in> in_range (bf_bitset f))"

lemma new_bloom_ok: "sz * 10 \<noteq> 0 \<Longrightarrow> bloom_ok (BloomFilter sz)"
proof -
  have "n < m \<Longrightarrow> n < 8 * (m div 8 + 1)" for n m :: nat by presburger
  then show "sz * 10 \<noteq> 0 \<Longrightarrow> bloom_ok (BloomFilter sz)"
    by (simp add: bloom_ok_def BloomFilter_def new_capacity in_range_def word_less_nat_alt)
qed

definition hashed :: "('k \<Rightarrow> 64 word) list \<Rightarrow> 64 word \<Rightarrow> 'k \<Rightarrow> 64 word set" where
  "hashed hs r k = (\<lambda>h. h k mod r) ` set hs"

lemma hashed_in_range: "bloom_ok f \<Longrightarrow> hashed hs (bf_range f) k \<subseteq> in_range (bf_bitset f)"
  by (auto simp: bloom_ok_def hashed_def word_mod_less_divisor word_gt_0)

lemma set_hashed: "set (map (\<lambda>h. h k mod r) hs) = hashed hs r k"
  by (simp add: hashed_def)

text \<open>The filter \<open>g\<close> is \<open>f\<close> with the positions in \<open>P\<close> set.\<close>

definition grown :: "64 word set \<Rightarrow> bloom \<Rightarrow> bloom \<Rightarrow> bool" where
  "grown P f g \<longleftrightarrow> bloom_ok g \<and> bf_range g = bf_range f
     \<and> positions (bf_bitset g) = P \<union> positions (bf_bitset f)"

lemma grown_trans: "grown P f g \<Longrightarrow> grown Q g h \<Longrightarrow> grown (P \<union> Q) f h"
  by (simp add: grown_def Un_ac)

lemma bloom_Set_ok:
  assumes "bloom_ok f"
  obtains g where "bloom_Set hs k f = Some g" "grown (hashed hs (bf_range f) k) f g"
proof -
  obtain c where "set_each Bitset_Set (map (\<lambda>h. h k mod bf_range f) hs) (bf_bitset f) = Some c"
    "positions c = hashed hs (bf_range f) k \<union> positions (bf_bitset f)" "in_range c = in_range (bf_bitset f)"
    using bits.set_each_ok [of "map (\<lambda>h. h k mod bf_range f) hs", unfolded set_hashed, OF hashed_in_range [OF assms]]
    by blast
  then show ?thesis
    using that [of "f\<lparr>bf_bitset := c\<rparr>"] assms by (simp add: bloom_Set_def bloom_ok_def grown_def)
qed

lemma add_keys_ok:
  "bloom_ok f \<Longrightarrow> \<exists>g. add_keys hs ks f = Some g \<and> grown (\<Union>k \<in> set ks. hashed hs (bf_range f) k) f g"
proof (induction ks arbitrary: f)
  case Nil
  then show ?case by (simp add: grown_def)
next
  case (Cons k ks)
  obtain g where g: "bloom_Set hs k f = Some g" "grown (hashed hs (bf_range f) k) f g"
    using bloom_Set_ok [OF Cons.prems] .
  then have "bloom_ok g" "bf_range g = bf_range f" by (simp_all add: grown_def)
  with Cons.IH obtain h where h: "add_keys hs ks g = Some h"
    "grown (\<Union>k \<in> set ks. hashed hs (bf_range f) k) g h" by metis
  from grown_trans [OF g(2) h(2)] show ?case using g(1) h(1) by simp
qed

lemma bloom_Test_ok:
  "bloom_ok f \<Longrightarrow> bloom_Test hs k f = Some (hashed hs (bf_range f) k \<subseteq> positions (bf_bitset f))"
  using bits.test_each_ok [of "map (\<lambda>h. h k mod bf_range f) hs", unfolded set_hashed, OF hashed_in_range]
  by (simp add: bloom_Test_def bloom_ok_def)

section \<open>Properties\<close>

text \<open>
  The bit set refines a set of positions below its capacity: \<open>Set\<close> inserts, \<open>reSet\<close> deletes,
  \<open>clear\<close> empties and \<open>Test\<close> decides membership, all undefined exactly from the capacity on.  The counter is
  not the number of elements: \<open>Set\<close> always adds one to it, \<open>reSet\<close> and \<open>clear\<close> leave it.
\<close>

theorem bitset_refines_set:
  "positions (Bitset r) = {} \<and> unat r < capacity (Bitset r)
   \<and> Bitset_Test p b = (if unat p < capacity b then Some (p \<in> positions b) else None)
   \<and> map_option (\<lambda>b'. (positions b', capacity b', bs_count b')) (Bitset_Set p b)
       = (if unat p < capacity b then Some (insert p (positions b), capacity b, bs_count b + 1) else None)
   \<and> map_option (\<lambda>b'. (positions b', capacity b', bs_count b')) (Bitset_reSet p b)
       = (if unat p < capacity b then Some (positions b - {p}, capacity b, bs_count b) else None)
   \<and> positions (Bitset_clear b) = {} \<and> bs_count (Bitset_clear b) = bs_count b"
proof (intro conjI)
  show "map_option (\<lambda>b'. (positions b', capacity b', bs_count b')) (Bitset_Set p b)
       = (if unat p < capacity b then Some (insert p (positions b), capacity b, bs_count b + 1) else None)"
    using Set_defined [of p b] by (cases "Bitset_Set p b") (simp_all add: Set_Some)
  show "map_option (\<lambda>b'. (positions b', capacity b', bs_count b')) (Bitset_reSet p b)
       = (if unat p < capacity b then Some (positions b - {p}, capacity b, bs_count b) else None)"
    using reSet_defined [of p b] by (cases "Bitset_reSet p b") (simp_all add: reSet_Some)
  show "unat r < capacity (Bitset r)" unfolding new_capacity by presburger
  show "bs_count (Bitset_clear b) = bs_count b" by (simp add: Bitset_clear_def)
qed (simp_all add: new_positions clear_positions Test_positions)

text \<open>
  C34. After any keys have been added to a new filter, \<open>Test\<close> of a key is true exactly when each of its
  hashes, modulo the range, is a hash of an added key; so it is true for every added key.  No access leaves
  the bit set.
\<close>

theorem bloom_filter_tests:
  assumes "sz * 10 \<noteq> 0"
  shows "\<exists>f. add_keys hs ks (BloomFilter sz) = Some f
    \<and> bloom_Test hs k f = Some (list_all (\<lambda>h. h k mod (sz * 10) \<in>
        (\<Union>k' \<in> set ks. (\<lambda>h'. h' k' mod (sz * 10)) ` set hs)) hs)
    \<and> map (\<lambda>k'. bloom_Test hs k' f) ks = map (\<lambda>_. Some True) ks"
proof -
  obtain f where f: "add_keys hs ks (BloomFilter sz) = Some f" "bloom_ok f" "bf_range f = sz * 10"
    "positions (bf_bitset f) = (\<Union>k' \<in> set ks. hashed hs (sz * 10) k')"
    using add_keys_ok [OF new_bloom_ok [OF assms], of hs ks] by (auto simp: BloomFilter_def new_positions grown_def)
  have "map (\<lambda>k'. bloom_Test hs k' f) ks = map (\<lambda>_. Some True) ks"
    using f by (auto simp: bloom_Test_ok)
  moreover have "bloom_Test hs k f = Some (list_all (\<lambda>h. h k mod (sz * 10) \<in>
        (\<Union>k' \<in> set ks. (\<lambda>h'. h' k' mod (sz * 10)) ` set hs)) hs)"
    unfolding bloom_Test_ok [OF f(2)] f(3,4) option.inject by (simp add: hashed_def list_all_iff image_subset_iff)
  ultimately show ?thesis using f(1) by blast
qed

text \<open>A filter of 2 * 10 bits with the two keys "ab" and "c"; "x" was not added.\<close>

lemma bloom_filter_tests_witness:
  "\<exists>f. add_keys default_hashes [[97, 98], [99]] (BloomFilter 2) = Some f
    \<and> bloom_Test default_hashes [97, 98] f = Some True \<and> bloom_Test default_hashes [120] f = Some False"
proof -
  have "(2 :: 64 word) * 10 \<noteq> 0" by simp
  from bloom_filter_tests [OF this, of default_hashes "[[97, 98], [99]]" "[120]"]
  obtain f where f: "add_keys default_hashes [[97, 98], [99]] (BloomFilter 2) = Some f"
    "bloom_Test default_hashes [120] f = Some (list_all (\<lambda>h. h [120] mod (2 * 10) \<in>
        (\<Union>k' \<in> set [[97, 98], [99]]. (\<lambda>h'. h' k' mod (2 * 10)) ` set default_hashes)) default_hashes)"
    "map (\<lambda>k'. bloom_Test default_hashes k' f) [[97, 98], [99]] = map (\<lambda>_. Some True) [[97, 98], [99 :: 8 word]]"
    by blast
  have "\<not> list_all (\<lambda>h. h [120 :: 8 word] mod (2 * 10) \<in>
        (\<Union>k' \<in> set [[97, 98], [99]]. (\<lambda>h'. h' k' mod (2 * 10)) ` set default_hashes)) default_hashes"
    by code_simp
  then show ?thesis using f by (intro exI [of _ f]) simp
qed

end
