(* ===== verification/Search_Tree.thy ===== *)
theory Search_Tree
  imports Main
begin

text \<open>
  \<open>BinarySearchTree\<close> of \<open>DataStruct/BinarySearchTree\<close>: insertion, search, deletion, and the traversals
  with an explicit stack.  A pointer to a node is the tree below it; an assignment through a reference
  to a pointer is the tree with that part replaced.
\<close>

section \<open>Definitions from the code\<close>

datatype ('k, 'v) bst = Null | Node (left_of: "('k, 'v) bst") (data: 'k) (val: 'v) (right_of: "('k, 'v) bst")
where "left_of Null = Null" | "right_of Null = Null"

fun find_node :: "'k::linorder \<Rightarrow> ('k, 'v) bst \<Rightarrow> ('k, 'v) bst" where
  "find_node d Null = Null"
| "find_node d (Node l k v r) = (if d < k then find_node d l else if k < d then find_node d r else Node l k v r)"

text \<open>The new tree and the result of the call.\<close>

fun insert_node :: "'k::linorder \<Rightarrow> 'v \<Rightarrow> ('k, 'v) bst \<Rightarrow> ('k, 'v) bst \<times> bool" where
  "insert_node d v Null = (Node Null d v Null, True)"
| "insert_node d v (Node l k w r) =
     (if d < k then (case insert_node d v l of (l', b) \<Rightarrow> (Node l' k w r, b))
      else if k < d then (case insert_node d v r of (r', b) \<Rightarrow> (Node l k w r', b))
      else (Node l k w r, False))"

fun findMin :: "('k, 'v) bst \<Rightarrow> ('k, 'v) bst" where
  "findMin Null = Null"
| "findMin (Node l k v r) = (if l = Null then Node l k v r else findMin l)"

text \<open>With two children only the member \<open>_data\<close> of the smallest node on the right is copied.\<close>

fun erase :: "'k::linorder \<Rightarrow> ('k, 'v) bst \<Rightarrow> ('k, 'v) bst" where
  "erase d Null = Null"
| "erase d (Node l k v r) =
     (if k < d then Node l k v (erase d r)
      else if d < k then Node (erase d l) k v r
      else if l = Null then r
      else if r = Null then l
      else Node l (data (findMin r)) v (erase (data (findMin r)) r))"

text \<open>The inner loop of the traversals: the nodes from \<open>cur\<close> to the left are pushed.\<close>

fun push_left :: "('k, 'v) bst \<Rightarrow> ('k, 'v) bst list \<Rightarrow> ('k, 'v) bst list" where
  "push_left Null s = s"
| "push_left (Node l k v r) s = push_left l (Node l k v r # s)"

definition work :: "('k, 'v) bst list \<Rightarrow> nat" where
  "work s = sum_list (map (\<lambda>t. 1 + size (right_of t)) s)"

lemma work_push_left: "work (push_left t s) = size t + work s"
  by (induction t s rule: push_left.induct) (simp_all add: work_def)

text \<open>The lists are the keys that are written to \<open>std::cout\<close>.\<close>

function in_loop :: "('k, 'v) bst \<Rightarrow> ('k, 'v) bst list \<Rightarrow> 'k list" where
  "in_loop cur s = (case push_left cur s of [] \<Rightarrow> [] | n # s' \<Rightarrow> data n # in_loop (right_of n) s')"
  by pat_completeness auto
termination
proof (relation "measure (\<lambda>(cur, s). size cur + work s)")
  fix cur :: "('k, 'v) bst" and s n s'
  assume "push_left cur s = n # s'"
  then have "size cur + work s = 1 + size (right_of n) + work s'"
    using work_push_left [of cur s] by (simp add: work_def)
  then show "((right_of n, s'), cur, s) \<in> measure (\<lambda>(cur, s). size cur + work s)" by simp
qed simp

definition inOrder :: "('k, 'v) bst \<Rightarrow> 'k list" where
  "inOrder root = in_loop root []"

fun left_keys :: "('k, 'v) bst \<Rightarrow> 'k list" where
  "left_keys Null = []"
| "left_keys (Node l k v r) = k # left_keys l"

function prev_loop :: "('k, 'v) bst \<Rightarrow> ('k, 'v) bst list \<Rightarrow> 'k list" where
  "prev_loop cur s = left_keys cur @ (case push_left cur s of [] \<Rightarrow> [] | n # s' \<Rightarrow> prev_loop (right_of n) s')"
  by pat_completeness auto
termination
proof (relation "measure (\<lambda>(cur, s). size cur + work s)")
  fix cur :: "('k, 'v) bst" and s n s'
  assume "push_left cur s = n # s'"
  then have "size cur + work s = 1 + size (right_of n) + work s'"
    using work_push_left [of cur s] by (simp add: work_def)
  then show "((right_of n, s'), cur, s) \<in> measure (\<lambda>(cur, s). size cur + work s)" by simp
qed simp

definition prevOder :: "('k, 'v) bst \<Rightarrow> 'k list" where
  "prevOder root = prev_loop root []"

text \<open>
  \<open>postOder\<close> compares a pointer with the node written last.  In a tree without equal keys two nodes are
  the same exactly when the trees below them are equal.
\<close>

partial_function (option) post_loop ::
  "('k, 'v) bst \<Rightarrow> ('k, 'v) bst \<Rightarrow> ('k, 'v) bst list \<Rightarrow> 'k list \<Rightarrow> 'k list option" where
  "post_loop cur prev s out =
     (case push_left cur s of
        [] \<Rightarrow> Some out
      | front # s' \<Rightarrow>
          if right_of front = Null \<or> right_of front = prev
          then post_loop Null front s' (out @ [data front])
          else post_loop (right_of front) prev (front # s') out)"

definition postOder :: "('k, 'v) bst \<Rightarrow> 'k list option" where
  "postOder root = post_loop root root [] []"

text \<open>\<open>levelOder\<close> takes the next node from a stack.\<close>

function level_loop :: "('k, 'v) bst list \<Rightarrow> 'k list" where
  "level_loop [] = []"
| "level_loop (front # s) =
     data front # level_loop ((if right_of front = Null then [] else [right_of front])
       @ (if left_of front = Null then [] else [left_of front]) @ s)"
  by pat_completeness auto
termination
proof (relation "measure (\<lambda>s. sum_list (map (\<lambda>t. 1 + 2 * size t) s))")
  fix front :: "('k, 'v) bst" and s
  show "((if right_of front = Null then [] else [right_of front])
       @ (if left_of front = Null then [] else [left_of front]) @ s, front # s)
     \<in> measure (\<lambda>s. sum_list (map (\<lambda>t. 1 + 2 * size t) s))"
    by (cases front) auto
qed simp

definition levelOder :: "('k, 'v) bst \<Rightarrow> 'k list" where
  "levelOder root = (if root = Null then [] else level_loop [root])"

section \<open>The order invariant\<close>

fun entries :: "('k, 'v) bst \<Rightarrow> ('k \<times> 'v) list" where
  "entries Null = []"
| "entries (Node l k v r) = entries l @ (k, v) # entries r"

definition keys :: "('k, 'v) bst \<Rightarrow> 'k list" where
  "keys t = map fst (entries t)"

lemma keys_simps [simp]: "keys Null = []" "keys (Node l k v r) = keys l @ k # keys r"
  by (simp_all add: keys_def)

definition ordered :: "('k::linorder, 'v) bst \<Rightarrow> bool" where
  "ordered t \<longleftrightarrow> sorted_wrt (<) (keys t)"

lemma ordered_simps [simp]:
  "ordered Null"
  "ordered (Node l k v r) \<longleftrightarrow> ordered l \<and> ordered r \<and> (\<forall>x \<in> set (keys l). x < k) \<and> (\<forall>x \<in> set (keys r). k < x)"
  by (auto simp: ordered_def sorted_wrt_append dest: less_trans)

text \<open>What a tree stores for a key, and the abstract map.\<close>

definition stored :: "('k::linorder, 'v) bst \<Rightarrow> 'k \<Rightarrow> 'v option" where
  "stored t d = (case find_node d t of Null \<Rightarrow> None | Node l k v r \<Rightarrow> Some v)"

lemma stored_simps [simp]:
  "stored Null d = None"
  "stored (Node l k v r) d = (if d < k then stored l d else if k < d then stored r d else Some v)"
  by (simp_all add: stored_def)

lemma stored_iff: "ordered t \<Longrightarrow> stored t d \<noteq> None \<longleftrightarrow> d \<in> set (keys t)"
  by (induction t) (auto dest: less_asym)

lemma stored_None: "ordered t \<Longrightarrow> d \<notin> set (keys t) \<Longrightarrow> stored t d = None"
  using stored_iff by blast

lemma insert_ok:
  "ordered t \<Longrightarrow> insert_node d v t = (t', b) \<Longrightarrow>
   ordered t' \<and> set (keys t') = insert d (set (keys t)) \<and> b = (d \<notin> set (keys t))
   \<and> stored t' = (if d \<in> set (keys t) then stored t else (stored t)(d \<mapsto> v))"
proof (induction d v t arbitrary: t' b rule: insert_node.induct)
  case (1 d v)
  then show ?case by (auto simp: fun_eq_iff)
next
  case (2 d v l k w r)
  consider (less) "d < k" | (greater) "k < d" "\<not> d < k" | (equal) "d = k" by fastforce
  then show ?case
  proof cases
    case less
    obtain l' c where i: "insert_node d v l = (l', c)" by (cases rule: prod.exhaust)
    have t': "t' = Node l' k w r" "b = c" using "2.prems"(2) less i by simp_all
    have "d \<notin> set (keys r)" "d \<noteq> k" using "2.prems"(1) less by auto
    moreover have "ordered l" using "2.prems"(1) by simp
    note "2.IH"(1) [OF less this i]
    ultimately show ?thesis using "2.prems"(1) less by (auto simp: fun_eq_iff t')
  next
    case greater
    obtain r' c where i: "insert_node d v r = (r', c)" by (cases rule: prod.exhaust)
    have t': "t' = Node l k w r'" "b = c" using "2.prems"(2) greater i by simp_all
    have "d \<notin> set (keys l)" "d \<noteq> k" using "2.prems"(1) greater by auto
    moreover have "ordered r" using "2.prems"(1) by simp
    note "2.IH"(2) [OF greater(2,1) this i]
    ultimately show ?thesis using "2.prems"(1) greater by (auto simp: fun_eq_iff t')
  next
    case equal
    then show ?thesis using "2.prems" by auto
  qed
qed

lemma findMin_first: "t \<noteq> Null \<Longrightarrow> findMin t \<noteq> Null \<and> keys t = data (findMin t) # tl (keys t)"
  by (induction t rule: findMin.induct) (auto, metis list.sel(3) append_Cons)

lemma findMin_least:
  assumes "ordered t" "t \<noteq> Null"
  shows "data (findMin t) \<in> set (keys t)" "x \<in> set (keys t) \<Longrightarrow> x = data (findMin t) \<or> data (findMin t) < x"
proof -
  have k: "keys t = data (findMin t) # tl (keys t)" using findMin_first [OF assms(2)] ..
  then show "data (findMin t) \<in> set (keys t)" by (metis list.set_intros(1))
  show "x = data (findMin t) \<or> data (findMin t) < x" if "x \<in> set (keys t)"
    using that assms(1) unfolding ordered_def by (subst (asm) k, subst (asm) k) auto
qed

lemma erase_keys:
  "ordered t \<Longrightarrow> ordered (erase d t) \<and> set (keys (erase d t)) = set (keys t) - {d}"
proof (induction d t rule: erase.induct)
  case (2 d l k v r)
  consider "k < d" | "d < k" | "d = k" "l = Null" | "d = k" "l \<noteq> Null" "r = Null"
    | "d = k" "l \<noteq> Null" "r \<noteq> Null" by fastforce
  then show ?case
  proof cases
    case 5
    let ?m = "data (findMin r)"
    have r: "ordered r" "ordered l" using "2.prems" by simp_all
    have e: "ordered (erase ?m r) \<and> set (keys (erase ?m r)) = set (keys r) - {?m}"
      using 5 r by (intro "2.IH"(3)) auto
    have m: "?m \<in> set (keys r)" "\<And>x. x \<in> set (keys r) \<Longrightarrow> x = ?m \<or> ?m < x"
      using findMin_least [OF r(1) 5(3)] by blast+
    have "k < ?m" using "2.prems" m(1) by simp
    then have "\<forall>x \<in> set (keys l). x < ?m" using "2.prems" by force
    moreover have "k \<notin> set (keys l)" "k \<notin> set (keys r)" using "2.prems" by auto
    ultimately show ?thesis using e m 5 r by auto
  qed (use 2 in auto)
qed simp

text \<open>
  The values: the entry of the deleted key goes, but when its node has two children the next key takes
  over the value of the deleted one.
\<close>

fun next_key :: "'k::linorder \<Rightarrow> ('k, 'v) bst \<Rightarrow> 'k option" where
  "next_key d Null = None"
| "next_key d (Node l k v r) =
     (if k < d then next_key d r else if d < k then next_key d l
      else if l = Null \<or> r = Null then None else Some (data (findMin r)))"

lemma next_key_None: "d \<notin> set (keys t) \<Longrightarrow> next_key d t = None"
  by (induction d t rule: next_key.induct) auto

lemma findMin_next: "ordered t \<Longrightarrow> t \<noteq> Null \<Longrightarrow> next_key (data (findMin t)) t = None"
proof (induction t rule: findMin.induct)
  case (2 l k v r)
  then show ?case using findMin_least(1) [of l] by (cases "l = Null") auto
qed simp

lemma next_key_in: "ordered t \<Longrightarrow> next_key d t = Some m \<Longrightarrow> m \<in> set (keys t) \<and> d < m"
proof (induction d t rule: next_key.induct)
  case (2 d l k v r)
  then show ?case using findMin_least(1) [of r] by (auto split: if_splits)
qed simp

lemma erase_stored:
  "ordered t \<Longrightarrow> stored (erase d t) =
     (case next_key d t of None \<Rightarrow> (stored t)(d := None) | Some m \<Rightarrow> (stored t)(d := None, m := stored t d))"
proof (induction d t rule: erase.induct)
  case (2 d l k v r)
  have o: "ordered l" "ordered r" using "2.prems" by simp_all
  consider "k < d" | "d < k" | "d = k" "l = Null" | "d = k" "l \<noteq> Null" "r = Null"
    | "d = k" "l \<noteq> Null" "r \<noteq> Null" by fastforce
  then show ?case
  proof cases
    case 1
    have "k < m" if "next_key d r = Some m" for m using next_key_in [OF o(2) that] 1 by (blast intro: less_trans)
    then show ?thesis using "2.IH"(1) [OF 1 o(2)] 1 by (auto simp: fun_eq_iff split: option.splits)
  next
    case 2
    have "m < k" if "next_key d l = Some m" for m using next_key_in [OF o(1) that] "2.prems" by simp
    then show ?thesis using "2.IH"(2) [OF _ 2 o(1)] 2 by (auto simp: fun_eq_iff split: option.splits)
  next
    case 3
    have "stored r x = None" if "x \<le> k" for x using "2.prems" that by (intro stored_None) auto
    then show ?thesis using 3 by (auto simp: fun_eq_iff)
  next
    case 4
    have "stored l x = None" if "k \<le> x" for x using "2.prems" that by (intro stored_None) auto
    then show ?thesis using 4 by (auto simp: fun_eq_iff)
  next
    case 5
    let ?m = "data (findMin r)"
    have m: "?m \<in> set (keys r)" "\<And>x. x \<in> set (keys r) \<Longrightarrow> x = ?m \<or> ?m < x"
      using findMin_least [OF o(2) 5(3)] by blast+
    have km: "k < ?m" using "2.prems" m(1) by simp
    have e: "stored (erase ?m r) = (stored r)(?m := None)"
      using "2.IH"(3) 5 o findMin_next [OF o(2) 5(3)] by (simp add: fun_eq_iff)
    have "stored l x = None" if "k \<le> x" for x using "2.prems" that by (intro stored_None) auto
    moreover have "stored r x = None" if "x < ?m" for x
      using that m(2) by (intro stored_None o) force
    ultimately show ?thesis using 5 km by (auto simp: fun_eq_iff e not_less)
  qed
qed (simp add: fun_eq_iff)

section \<open>The traversals\<close>

fun preorder :: "('k, 'v) bst \<Rightarrow> 'k list" where
  "preorder Null = []"
| "preorder (Node l k v r) = k # preorder l @ preorder r"

fun postorder :: "('k, 'v) bst \<Rightarrow> 'k list" where
  "postorder Null = []"
| "postorder (Node l k v r) = postorder l @ postorder r @ [k]"

fun mirror :: "('k, 'v) bst \<Rightarrow> ('k, 'v) bst" where
  "mirror Null = Null"
| "mirror (Node l k v r) = Node (mirror r) k v (mirror l)"

declare in_loop.simps [simp del] prev_loop.simps [simp del] level_loop.simps [simp del]

lemma in_loop_tree: "in_loop t s = keys t @ in_loop Null s"
proof (induction t arbitrary: s)
  case (Node l k v r)
  have "in_loop (Node l k v r) s = in_loop l (Node l k v r # s)"
    by (simp add: in_loop.simps)
  also have "\<dots> = keys l @ in_loop Null (Node l k v r # s)" by (rule Node.IH)
  also have "in_loop Null (Node l k v r # s) = k # in_loop r s" by (subst in_loop.simps) simp
  finally show ?case using Node.IH by simp
qed simp

lemma prev_loop_tree: "prev_loop t s = preorder t @ prev_loop Null s"
proof (induction t arbitrary: s)
  case (Node l k v r)
  have "prev_loop (Node l k v r) s = k # prev_loop l (Node l k v r # s)"
    by (simp add: prev_loop.simps)
  also have "\<dots> = k # preorder l @ prev_loop Null (Node l k v r # s)" using Node.IH(1) by simp
  also have "prev_loop Null (Node l k v r # s) = prev_loop r s" by (subst prev_loop.simps) simp
  finally show ?case using Node.IH by simp
qed simp

fun subtrees :: "('k, 'v) bst \<Rightarrow> ('k, 'v) bst set" where
  "subtrees Null = {}"
| "subtrees (Node l k v r) = insert l (insert r (subtrees l \<union> subtrees r))"

lemma subtrees_keys: "u \<in> subtrees t \<Longrightarrow> set (keys u) \<subseteq> set (keys t)"
  by (induction t) auto

lemma subtrees_size: "u \<in> subtrees t \<Longrightarrow> size u < size t"
  by (induction t) auto

lemma post_loop_tree:
  "distinct (keys t) \<Longrightarrow> t \<noteq> Null \<Longrightarrow> prev \<notin> subtrees t \<Longrightarrow>
   post_loop t prev s out = post_loop Null t s (out @ postorder t)"
proof (induction t arbitrary: prev s out)
  case (Node l k v r)
  let ?t = "Node l k v r"
  define prev' where "prev' = (if l = Null then prev else l)"
  have "post_loop ?t prev s out = post_loop l prev (?t # s) out"
    by (simp add: post_loop.simps)
  also have "\<dots> = post_loop Null prev' (?t # s) (out @ postorder l)"
  proof (cases "l = Null")
    case False
    then show ?thesis using Node.IH(1) [of prev] Node.prems by (simp add: prev'_def)
  qed (simp add: prev'_def)
  finally have left: "post_loop ?t prev s out = post_loop Null prev' (?t # s) (out @ postorder l)" .
  show ?case
  proof (cases "r = Null")
    case True
    then show ?thesis unfolding left by (simp add: post_loop.simps [of Null prev'])
  next
    case False
    have ne: "prev' \<noteq> r \<and> prev' \<notin> subtrees r"
    proof (cases "l = Null")
      case True
      then show ?thesis using Node.prems by (simp add: prev'_def)
    next
      case False
      then obtain x where "x \<in> set (keys l)" by (cases l) auto
      then have "\<not> set (keys l) \<subseteq> set (keys r)" using Node.prems(1) by auto
      then show ?thesis using False subtrees_keys [of l r] by (auto simp: prev'_def)
    qed
    then have "post_loop Null prev' (?t # s) (out @ postorder l) = post_loop r prev' (?t # s) (out @ postorder l)"
      using False by (subst post_loop.simps) auto
    also have "\<dots> = post_loop Null r (?t # s) ((out @ postorder l) @ postorder r)"
      using Node.IH(2) Node.prems False ne by simp
    also have "\<dots> = post_loop Null ?t s (((out @ postorder l) @ postorder r) @ [k])"
      by (subst post_loop.simps) simp
    finally show ?thesis unfolding left by simp
  qed
qed simp

lemma level_loop_tree:
  "Null \<notin> set ts \<Longrightarrow> level_loop ts = concat (map (\<lambda>t. preorder (mirror t)) ts)"
proof (induction ts rule: level_loop.induct)
  case (2 front s)
  have "level_loop (front # s) = data front # concat (map (\<lambda>t. preorder (mirror t))
      ((if right_of front = Null then [] else [right_of front])
       @ (if left_of front = Null then [] else [left_of front]) @ s))"
    using "2.prems" by (subst level_loop.simps(2), subst "2.IH") auto
  then show ?case using "2.prems" by (cases front) auto
qed (simp add: level_loop.simps(1))

section \<open>Properties\<close>

text \<open>
  C30. On ordered trees, search, insertion and deletion refine a finite map, up to one fault: the keys are
  those of the map, an insertion of a new key adds its value and of an old one changes nothing and returns
  false, but the deletion of a node with two children copies the next key into it and not its value, so
  that key then has the value of the deleted one.
\<close>

theorem bst_refines_map:
  assumes "ordered t"
  shows "set (keys t) = dom (stored t)
    \<and> (case insert_node d v t of (t', b) \<Rightarrow>
         ordered t' \<and> b = (stored t d = None) \<and> stored t' = (if b then (stored t)(d \<mapsto> v) else stored t))
    \<and> ordered (erase d t) \<and> dom (stored (erase d t)) = dom (stored t) - {d}
    \<and> stored (erase d t) = (case next_key d t of None \<Rightarrow> (stored t)(d := None)
         | Some m \<Rightarrow> (stored t)(d := None, m := stored t d))"
proof -
  have dom: "ordered u \<Longrightarrow> dom (stored u) = set (keys u)" for u :: "('a, 'b) bst"
    using stored_iff by (auto simp: dom_def)
  obtain t' b where i: "insert_node d v t = (t', b)" by (cases rule: prod.exhaust)
  have "dom (stored t) = set (keys t)" using assms by (rule dom)
  moreover have "dom (stored (erase d t)) = set (keys t) - {d}" "ordered (erase d t)"
    using dom [of "erase d t"] erase_keys [OF assms, of d] by simp_all
  moreover have "stored t d = None \<longleftrightarrow> d \<notin> set (keys t)" using stored_iff [OF assms, of d] by auto
  ultimately show ?thesis
    using insert_ok [OF assms i] erase_stored [OF assms, of d] by (simp add: i)
qed

text \<open>Deleting 2 from the tree with the keys 1, 2, 3 leaves the value of 2 at 3.\<close>

lemma bst_refines_map_witness:
  "stored (erase 2 (Node (Node Null (1 :: int) ''a'' Null) 2 ''b'' (Node Null 3 ''c'' Null))) 3 = Some ''b''"
  using bst_refines_map [of "Node (Node Null (1 :: int) ''a'' Null) 2 ''b'' (Node Null 3 ''c'' Null)" 2 "''d''"]
  by simp

text \<open>
  C35. The traversals with a stack return, and write the keys in the order of the recursive traversals:
  \<open>inOrder\<close> and \<open>prevOder\<close> for every tree, \<open>postOder\<close> for trees without equal keys.  \<open>levelOder\<close>, which has
  a stack where a queue is meant, does not go level by level: it is the preorder of the mirrored tree.
\<close>

theorem traversals_recursive:
  assumes "distinct (keys t)"
  shows "inOrder t = keys t \<and> prevOder t = preorder t \<and> postOder t = Some (postorder t)
    \<and> levelOder t = preorder (mirror t)"
proof (intro conjI)
  show "inOrder t = keys t" by (simp add: inOrder_def in_loop_tree [of t] in_loop.simps [of Null])
  show "prevOder t = preorder t" by (simp add: prevOder_def prev_loop_tree [of t] prev_loop.simps [of Null])
  show "postOder t = Some (postorder t)"
  proof (cases "t = Null")
    case False
    have "t \<notin> subtrees t" using subtrees_size by blast
    then have "post_loop t t [] [] = post_loop Null t [] (postorder t)"
      using post_loop_tree [OF assms False, of t "[]" "[]"] by simp
    then show ?thesis by (simp add: postOder_def post_loop.simps [of Null])
  qed (simp add: postOder_def post_loop.simps)
  show "levelOder t = preorder (mirror t)" by (cases "t = Null") (simp_all add: levelOder_def level_loop_tree)
qed

text \<open>A tree with the root 2, its children 1 and 4, and 3 below 4.\<close>

lemma traversals_recursive_witness:
  "postOder (Node (Node Null (1 :: int) () Null) 2 () (Node (Node Null 3 () Null) 4 () Null)) = Some [1, 3, 4, 2] \<and>
   levelOder (Node (Node Null (1 :: int) () Null) 2 () (Node (Node Null 3 () Null) 4 () Null)) = [2, 4, 3, 1]"
  using traversals_recursive [of "Node (Node Null (1 :: int) () Null) 2 () (Node (Node Null 3 () Null) 4 () Null)"]
  by simp

end
