(* ===== verification/Huffman_Tree.thy ===== *)
theory Huffman_Tree
  imports Binary_Heap "HOL-Library.Word"
begin

text \<open>
  The Huffman tree of the file compressor: \<open>FileInformation\<close> and \<open>Conversion\<close> of
  \<open>FileComPress/filecompress.h\<close> and \<open>FileComPress/huffmantree.h\<close>.  A \<open>size_t\<close> is a 64-bit word, an
  \<open>unsigned char\<close> an 8-bit word, and the array \<open>_fileinfo\<close> a list of 256 entries.  A pointer to a node
  is the tree below it, \<open>HNull\<close> for \<open>NULL\<close>; the pointer \<open>_prev\<close> is read in \<open>Conversion\<close> only, where it
  is the node that the traversal has just come from.
\<close>

section \<open>Definitions from the code\<close>

record file_info =
  appearence_number :: "64 word"
  huffman_code :: string
  ch :: "8 word"

datatype huffman = HNull | HuffmanNode (wt: file_info) (left: huffman) (right: huffman)
  where "left HNull = HNull" | "right HNull = HNull"

text \<open>\<open>SmallHeap\<close> compares the weights.\<close>

definition lighter :: "huffman \<Rightarrow> huffman \<Rightarrow> bool" where
  "lighter x y \<longleftrightarrow> appearence_number (wt x) < appearence_number (wt y)"

definition join_nodes :: "huffman \<Rightarrow> huffman \<Rightarrow> huffman" where
  "join_nodes l r = HuffmanNode
     \<lparr>appearence_number = appearence_number (wt l) + appearence_number (wt r), huffman_code = [], ch = 0\<rparr> l r"

text \<open>\<open>a[i] != invalue\<close> compares with the number 0.\<close>

definition leaf_heap :: "file_info list \<Rightarrow> huffman list" where
  "leaf_heap a =
     fold (\<lambda>f q. if appearence_number f \<noteq> 0 then heap_push lighter (HuffmanNode f HNull HNull) q else q) a []"

lemma heap_pop_length: "heap_pop cmp q = Some r \<Longrightarrow> length r = length q - 1 \<and> q \<noteq> []"
  using sift_down_mset [of "length q - 1" "butlast (Swap 0 (length q - 1) q)" cmp 0]
  by (cases q) (auto simp: heap_pop_def Let_def split: if_splits)

lemma heap_push_length [simp]: "length (heap_push cmp d q) = Suc (length q)"
  using sift_up_mset [of "length q" "q @ [d]" cmp] by (simp add: heap_push_def)

function merge_loop :: "huffman list \<Rightarrow> huffman option" where
  "merge_loop q =
     (if 1 < length q
      then (case heap_top q of None \<Rightarrow> None | Some l \<Rightarrow>
            (case heap_pop lighter q of None \<Rightarrow> None | Some q1 \<Rightarrow>
             (case heap_top q1 of None \<Rightarrow> None | Some r \<Rightarrow>
              (case heap_pop lighter q1 of None \<Rightarrow> None | Some q2 \<Rightarrow>
                 merge_loop (heap_push lighter (join_nodes l r) q2)))))
      else heap_top q)"
  by pat_completeness auto
termination
  by (relation "measure length") (auto dest!: heap_pop_length)

declare merge_loop.simps [simp del]

text \<open>\<open>None\<close> is the failed assertion of \<open>Top\<close> when no entry has a number.\<close>

definition HuffmanTree :: "file_info list \<Rightarrow> huffman option" where
  "HuffmanTree a = merge_loop (leaf_heap a)"

subsection \<open>Conversion\<close>

text \<open>\<open>_huffman_code += _prev->_wt._huffman_code; _huffman_code += b\<close> for a child that is not \<open>NULL\<close>.\<close>

definition extend :: "file_info \<Rightarrow> string \<Rightarrow> huffman \<Rightarrow> huffman" where
  "extend p b t =
     (case t of HNull \<Rightarrow> HNull
      | HuffmanNode w l r \<Rightarrow> HuffmanNode (w\<lparr>huffman_code := huffman_code w @ huffman_code p @ b\<rparr>) l r)"

lemma extend_simps [simp]:
  "extend p b HNull = HNull"
  "extend p b (HuffmanNode w l r) = HuffmanNode (w\<lparr>huffman_code := huffman_code w @ huffman_code p @ b\<rparr>) l r"
  by (simp_all add: extend_def)

fun nodes :: "huffman \<Rightarrow> nat" where
  "nodes HNull = 0"
| "nodes (HuffmanNode w l r) = Suc (nodes l + nodes r)"

lemma nodes_extend [simp]: "nodes (extend p b t) = nodes t"
  by (cases t) simp_all

text \<open>The inner loop goes down to the left and pushes what it passes.\<close>

function go_left :: "huffman \<Rightarrow> huffman list \<Rightarrow> huffman list" where
  "go_left HNull s = s"
| "go_left (HuffmanNode w l r) s = go_left (extend w ''0'' l) (HuffmanNode w l r # s)"
  by pat_completeness auto
termination
  by (relation "measure (\<lambda>(t, s). nodes t)") auto

lemma go_left_nodes:
  "sum_list (map (\<lambda>n. Suc (nodes (right n))) (go_left t s))
   = nodes t + sum_list (map (\<lambda>n. Suc (nodes (right n))) s)"
  by (induction t s rule: go_left.induct) simp_all

definition set_code :: "8 word \<Rightarrow> string \<Rightarrow> file_info list \<Rightarrow> file_info list" where
  "set_code c p tbl = tbl[unat c := (tbl ! unat c)\<lparr>huffman_code := p\<rparr>]"

definition visit :: "huffman \<Rightarrow> file_info list \<Rightarrow> file_info list" where
  "visit n tbl =
     (if left n = HNull \<and> right n = HNull then set_code (ch (wt n)) (huffman_code (wt n)) tbl else tbl)"

function convert_loop :: "huffman \<Rightarrow> huffman list \<Rightarrow> file_info list \<Rightarrow> file_info list" where
  "convert_loop t s tbl =
     (case go_left t s of
        [] \<Rightarrow> tbl
      | n # s' \<Rightarrow> convert_loop (extend (wt n) ''1'' (right n)) s' (visit n tbl))"
  by pat_completeness auto
termination
proof (relation "measure (\<lambda>(t, s, tbl). nodes t + sum_list (map (\<lambda>n. Suc (nodes (right n))) s))")
  fix t s n s' and tbl :: "file_info list"
  assume "go_left t s = n # s'"
  then show "((extend (wt n) ''1'' (right n), s', visit n tbl), (t, s, tbl))
      \<in> measure (\<lambda>(t, s, tbl). nodes t + sum_list (map (\<lambda>n. Suc (nodes (right n))) s))"
    using go_left_nodes [of t s] by simp
qed simp

declare convert_loop.simps [simp del]

definition Conversion :: "huffman \<Rightarrow> file_info list \<Rightarrow> file_info list" where
  "Conversion t tbl = convert_loop t [] tbl"

section \<open>The shape of the tree\<close>

fun leaves :: "huffman \<Rightarrow> file_info list" where
  "leaves HNull = []"
| "leaves (HuffmanNode w HNull HNull) = [w]"
| "leaves (HuffmanNode w l r) = leaves l @ leaves r"

text \<open>
  A node has no child or two, an inner node weighs what its children weigh together, and no node has
  a code yet.
\<close>

fun is_huffman :: "huffman \<Rightarrow> bool" where
  "is_huffman HNull \<longleftrightarrow> False"
| "is_huffman (HuffmanNode w l r) \<longleftrightarrow> huffman_code w = [] \<and>
     (l = HNull \<and> r = HNull
      \<or> is_huffman l \<and> is_huffman r
        \<and> appearence_number w = appearence_number (wt l) + appearence_number (wt r))"

lemma is_huffman_not_HNull [simp]: "is_huffman t \<Longrightarrow> t \<noteq> HNull"
  by auto

lemma leaves_node: "l \<noteq> HNull \<Longrightarrow> leaves (HuffmanNode w l r) = leaves l @ leaves r"
  "r \<noteq> HNull \<Longrightarrow> leaves (HuffmanNode w l r) = leaves l @ leaves r"
  by (cases l; cases r; simp)+

lemma join_huffman:
  assumes "is_huffman l" "is_huffman r"
  shows "is_huffman (join_nodes l r)" "leaves (join_nodes l r) = leaves l @ leaves r"
    "left (join_nodes l r) \<noteq> HNull"
  using assms by (auto simp: join_nodes_def leaves_node)

lemma leaf_huffman: "huffman_code f = [] \<Longrightarrow> is_huffman (HuffmanNode f HNull HNull)"
  by simp

lemma root_weight: "is_huffman t \<Longrightarrow> appearence_number (wt t) = sum_list (map appearence_number (leaves t))"
proof (induction t)
  case (HuffmanNode w l r)
  then show ?case by (cases "l = HNull") (auto simp: leaves_node)
qed simp

interpretation light: comparison lighter
  by unfold_locales (auto simp: lighter_def)

text \<open>The loop keeps the leaves, and ends with one tree.\<close>

abbreviation all_leaves :: "huffman list \<Rightarrow> file_info multiset" where
  "all_leaves q \<equiv> sum_list (map (\<lambda>t. mset (leaves t)) q)"

lemma all_leaves_mset: "mset q = mset r \<Longrightarrow> all_leaves q = all_leaves r"
  by (metis mset_map sum_mset_sum_list)

lemma take_light:
  assumes "is_heap lighter q" "q \<noteq> []"
  shows "\<exists>l r. heap_top q = Some l \<and> heap_pop lighter q = Some r \<and> is_heap lighter r
    \<and> mset q = add_mset l (mset r)"
proof -
  have "mset q \<noteq> {#}" using assms(2) by simp
  from light.heap.take_first [OF assms(1) this] show ?thesis by metis
qed

lemma merge_loop_ok:
  "is_heap lighter q \<Longrightarrow> q \<noteq> [] \<Longrightarrow> \<forall>t \<in> set q. is_huffman t \<Longrightarrow>
   \<exists>t. merge_loop q = Some t \<and> is_huffman t \<and> mset (leaves t) = all_leaves q
     \<and> (1 < length q \<longrightarrow> left t \<noteq> HNull)"
proof (induction "length q" arbitrary: q rule: less_induct)
  case less
  show ?case
  proof (cases "1 < length q")
    case False
    then obtain t where "q = [t]" using less.prems(2) by (cases q) auto
    then show ?thesis using less.prems(3) by (subst merge_loop.simps) (simp add: heap_top_def)
  next
    case True
    obtain l q1 where l: "heap_top q = Some l" "heap_pop lighter q = Some q1" "is_heap lighter q1"
        "mset q = add_mset l (mset q1)"
      using take_light [OF less.prems(1,2)] by blast
    have len1: "length q = Suc (length q1)" using arg_cong [OF l(4), of size] by simp
    then have "q1 \<noteq> []" using True by auto
    then obtain r q2 where r: "heap_top q1 = Some r" "heap_pop lighter q1 = Some q2" "is_heap lighter q2"
        "mset q1 = add_mset r (mset q2)"
      using take_light [OF l(3)] by blast
    have len2: "length q1 = Suc (length q2)" using arg_cong [OF r(4), of size] by simp
    let ?q = "heap_push lighter (join_nodes l r) q2"
    have q: "is_heap lighter ?q" "mset ?q = add_mset (join_nodes l r) (mset q2)"
      using light.push_heap [OF r(3)] by auto
    have set: "set q = insert l (insert r (set q2))"
      using l(4) r(4) by (metis set_mset_add_mset_insert set_mset_mset)
    then have lr: "is_huffman l" "is_huffman r" using less.prems(3) by auto
    have setq: "set ?q = insert (join_nodes l r) (set q2)"
      using q(2) by (metis set_mset_add_mset_insert set_mset_mset)
    have all: "all_leaves ?q = all_leaves q"
    proof -
      have "all_leaves ?q = all_leaves (join_nodes l r # q2)"
        by (rule all_leaves_mset) (simp add: q(2))
      also have "\<dots> = all_leaves (l # r # q2)" using join_huffman(2) [OF lr] by simp
      also have "\<dots> = all_leaves q" by (rule all_leaves_mset) (simp add: l(4) r(4))
      finally show ?thesis .
    qed
    have step: "merge_loop q = merge_loop ?q"
      using True l(1,2) r(1,2) by (subst merge_loop.simps) simp
    have "\<exists>t. merge_loop ?q = Some t \<and> is_huffman t \<and> mset (leaves t) = all_leaves ?q
        \<and> (1 < length ?q \<longrightarrow> left t \<noteq> HNull)"
    proof (rule less.hyps)
      show "length ?q < length q" using len1 len2 by simp
      show "\<forall>t \<in> set ?q. is_huffman t" using setq set less.prems(3) join_huffman(1) [OF lr] by auto
    qed (use q(1) setq in auto)
    moreover have "left t \<noteq> HNull" if "merge_loop ?q = Some t" "length ?q = 1" for t
    proof -
      have "q2 = []" using that(2) by simp
      then have "?q = [join_nodes l r]" by (simp add: heap_push_def sift_up.simps)
      then have "merge_loop ?q = Some (join_nodes l r)" by (simp add: merge_loop.simps heap_top_def)
      then show ?thesis using that(1) join_huffman(3) [OF lr] by simp
    qed
    ultimately show ?thesis unfolding step all by (cases "length ?q = 1") auto
  qed
qed

lemma leaf_heap_ok:
  assumes "\<forall>f \<in> set a. huffman_code f = []"
  shows "is_heap lighter (leaf_heap a)
    \<and> mset (leaf_heap a) = mset (map (\<lambda>f. HuffmanNode f HNull HNull) (filter (\<lambda>f. appearence_number f \<noteq> 0) a))"
proof -
  have fold_eq: "fold (\<lambda>f q. if appearence_number f \<noteq> 0 then heap_push lighter (HuffmanNode f HNull HNull) q else q) a q
      = fold (heap_push lighter) (map (\<lambda>f. HuffmanNode f HNull HNull) (filter (\<lambda>f. appearence_number f \<noteq> 0) a)) q" for q
    by (induction a arbitrary: q) simp_all
  show ?thesis
    unfolding leaf_heap_def fold_eq using light.heap.push_all [OF light.heap.empty_ok(1)] by simp
qed

lemma HuffmanTree_None: "\<forall>f \<in> set a. appearence_number f = 0 \<Longrightarrow> HuffmanTree a = None"
proof -
  assume "\<forall>f \<in> set a. appearence_number f = 0"
  then have "leaf_heap a = []" unfolding leaf_heap_def by (induction a) simp_all
  then show ?thesis by (simp add: HuffmanTree_def merge_loop.simps heap_top_def)
qed

lemma HuffmanTree_ok:
  assumes "\<forall>f \<in> set a. huffman_code f = []" "filter (\<lambda>f. appearence_number f \<noteq> 0) a \<noteq> []"
  obtains t where "HuffmanTree a = Some t" "is_huffman t"
    "mset (leaves t) = mset (filter (\<lambda>f. appearence_number f \<noteq> 0) a)"
    "1 < length (filter (\<lambda>f. appearence_number f \<noteq> 0) a) \<longrightarrow> left t \<noteq> HNull"
proof -
  let ?used = "filter (\<lambda>f. appearence_number f \<noteq> 0) a"
  have h: "is_heap lighter (leaf_heap a)"
    "mset (leaf_heap a) = mset (map (\<lambda>f. HuffmanNode f HNull HNull) ?used)"
    using leaf_heap_ok [OF assms(1)] by auto
  have len: "length (leaf_heap a) = length ?used" using mset_eq_length [OF h(2)] by simp
  have set: "set (leaf_heap a) = (\<lambda>f. HuffmanNode f HNull HNull) ` set ?used"
    using h(2) by (metis set_map set_mset_mset)
  have "all_leaves (leaf_heap a) = all_leaves (map (\<lambda>f. HuffmanNode f HNull HNull) ?used)"
    using h(2) by (rule all_leaves_mset)
  also have "\<dots> = mset ?used" by (induction a) simp_all
  finally have all: "all_leaves (leaf_heap a) = mset ?used" .
  have "leaf_heap a \<noteq> []" using len assms(2) by auto
  moreover have "\<forall>t \<in> set (leaf_heap a). is_huffman t" using set assms(1) by auto
  ultimately obtain t where "merge_loop (leaf_heap a) = Some t" "is_huffman t" "mset (leaves t) = mset ?used"
      "1 < length ?used \<longrightarrow> left t \<noteq> HNull"
    using merge_loop_ok [OF h(1)] unfolding all len by blast
  then show thesis using that unfolding HuffmanTree_def by blast
qed

section \<open>Codes\<close>

text \<open>The way down to each leaf: \<open>0\<close> to the left, \<open>1\<close> to the right.\<close>

fun codes :: "huffman \<Rightarrow> (8 word \<times> string) list" where
  "codes HNull = []"
| "codes (HuffmanNode w l r) =
     (if l = HNull \<and> r = HNull then [(ch w, [])]
      else map (\<lambda>(c, p). (c, CHR ''0'' # p)) (codes l) @ map (\<lambda>(c, p). (c, CHR ''1'' # p)) (codes r))"

lemma codes_leaves: "is_huffman t \<Longrightarrow> map fst (codes t) = map ch (leaves t)"
proof (induction t)
  case (HuffmanNode w l r)
  then show ?case by (cases "l = HNull") (auto simp: leaves_node comp_def split_def)
qed simp

text \<open>No code is the beginning of another one.\<close>

lemma codes_prefix_free:
  "(c, p) \<in> set (codes t) \<Longrightarrow> (d, p @ q) \<in> set (codes t) \<Longrightarrow> q = []"
proof (induction t arbitrary: p)
  case (HuffmanNode w l r)
  show ?case
  proof (cases "l = HNull \<and> r = HNull")
    case False
    then show ?thesis using HuffmanNode by (cases p) (auto split: if_splits)
  qed (use HuffmanNode.prems in auto)
qed simp

lemma codes_injective: "(c, p) \<in> set (codes t) \<Longrightarrow> (d, p) \<in> set (codes t) \<Longrightarrow> c = d"
proof (induction t arbitrary: p)
  case (HuffmanNode w l r)
  then show ?case by (cases "l = HNull \<and> r = HNull") (auto split: if_splits)
qed simp

lemma one_leaf:
  assumes "is_huffman t" "length (leaves t) = 1"
  shows "left t = HNull \<and> right t = HNull"
proof -
  have pos: "0 < length (leaves u)" if "is_huffman u" for u
    using that by (induction u rule: leaves.induct) auto
  show ?thesis
  proof (cases t)
    case (HuffmanNode w l r)
    then show ?thesis using assms pos [of l] pos [of r]
      by (cases "l = HNull") (auto simp: leaves_node simp del: length_greater_0_conv)
  qed (use assms in simp)
qed

text \<open>What the loop of \<open>Conversion\<close> has yet to visit: a node on the stack and the tree to its right.\<close>

definition coded :: "string \<Rightarrow> huffman \<Rightarrow> (8 word \<times> string) list" where
  "coded p t = map (\<lambda>(c, q). (c, p @ q)) (codes t)"

definition pending :: "huffman \<Rightarrow> (8 word \<times> string) list" where
  "pending n = (if left n = HNull \<and> right n = HNull then [(ch (wt n), huffman_code (wt n))] else [])
     @ coded (huffman_code (wt n) @ ''1'') (right n)"

definition ready :: "huffman \<Rightarrow> bool" where
  "ready t \<longleftrightarrow> t = HNull \<or> left t = HNull \<and> right t = HNull \<or> is_huffman (left t) \<and> is_huffman (right t)"

lemma coded_HNull [simp]: "coded p HNull = []"
  by (simp add: coded_def)

lemma coded_node:
  "coded p (HuffmanNode w l r) =
     (if l = HNull \<and> r = HNull then [(ch w, p)] else coded (p @ ''0'') l @ coded (p @ ''1'') r)"
  by (simp add: coded_def comp_def split_def)

lemma ready_extend: "is_huffman t \<Longrightarrow> ready (extend p b t)"
  "is_huffman t \<Longrightarrow> coded (huffman_code (wt (extend p b t))) (extend p b t) = coded (huffman_code p @ b) t"
  by (cases t; auto simp: ready_def coded_node)+

lemma go_left_pending:
  "ready t \<Longrightarrow> \<forall>n \<in> set s. n \<noteq> HNull \<and> ready n \<Longrightarrow>
   concat (map pending (go_left t s)) = coded (huffman_code (wt t)) t @ concat (map pending s)
   \<and> (\<forall>n \<in> set (go_left t s). n \<noteq> HNull \<and> ready n)"
proof (induction t s rule: go_left.induct)
  case (2 w l r s)
  show ?case
  proof (cases "l = HNull")
    case True
    then have "r = HNull" using "2.prems" by (auto simp: ready_def)
    then show ?thesis using True "2.prems" by (simp add: pending_def coded_node)
  next
    case False
    then have lr: "is_huffman l" "is_huffman r" using "2.prems" by (auto simp: ready_def)
    then show ?thesis
      using "2.IH" "2.prems" ready_extend [OF lr(1), of w "''0''"] False
      by (simp add: pending_def coded_node)
  qed
qed simp

abbreviation set_codes :: "(8 word \<times> string) list \<Rightarrow> file_info list \<Rightarrow> file_info list" where
  "set_codes \<equiv> fold (\<lambda>(c, p). set_code c p)"

lemma convert_loop_codes:
  "ready t \<Longrightarrow> \<forall>n \<in> set s. n \<noteq> HNull \<and> ready n \<Longrightarrow>
   convert_loop t s tbl = set_codes (coded (huffman_code (wt t)) t @ concat (map pending s)) tbl"
proof (induction t s tbl rule: convert_loop.induct)
  case (1 t s tbl)
  note push = go_left_pending [OF "1.prems"]
  show ?case
  proof (cases "go_left t s")
    case Nil
    then have "coded (huffman_code (wt t)) t @ concat (map pending s) = []" using push by simp
    then show ?thesis using Nil by (subst convert_loop.simps) (simp only: fold.simps id_apply list.case)
  next
    case (Cons n s')
    have n: "n \<noteq> HNull" "ready n" "\<forall>n \<in> set s'. n \<noteq> HNull \<and> ready n" using push Cons by auto
    let ?t = "extend (wt n) ''1'' (right n)"
    have t: "ready ?t" "coded (huffman_code (wt ?t)) ?t = coded (huffman_code (wt n) @ ''1'') (right n)"
      using n(2) ready_extend [of "right n" "wt n" "''1''"] by (cases "right n"; auto simp: ready_def n(1))+
    have "convert_loop t s tbl = convert_loop ?t s' (visit n tbl)"
      using Cons by (subst convert_loop.simps) simp
    also have "\<dots> = set_codes (coded (huffman_code (wt n) @ ''1'') (right n) @ concat (map pending s')) (visit n tbl)"
      using "1.IH" [OF Cons t(1) n(3)] unfolding t(2) .
    also have "\<dots> = set_codes (pending n @ concat (map pending s')) tbl"
      by (simp add: visit_def pending_def)
    also have "pending n @ concat (map pending s') = concat (map pending (go_left t s))"
      by (simp add: Cons)
    finally show ?thesis using push by simp
  qed
qed

lemma Conversion_codes:
  assumes "is_huffman t"
  shows "Conversion t tbl = set_codes (codes t) tbl"
proof -
  have "ready t" "huffman_code (wt t) = []" using assms by (cases t; auto simp: ready_def)+
  then show ?thesis
    unfolding Conversion_def by (simp add: convert_loop_codes coded_def)
qed

lemma byte_less: "unat c < 256" for c :: "8 word"
  using unsigned_less [of c, where 'a = nat] by simp

lemma set_codes_nth:
  assumes "length tbl = 256" "distinct (map fst cs)"
  shows "length (set_codes cs tbl) = 256"
    "set_codes cs tbl ! unat c =
       (case map_of cs c of None \<Rightarrow> tbl ! unat c | Some p \<Rightarrow> (tbl ! unat c)\<lparr>huffman_code := p\<rparr>)"
proof -
  have "length (set_codes cs tbl) = 256 \<and> set_codes cs tbl ! unat c =
       (case map_of cs c of None \<Rightarrow> tbl ! unat c | Some p \<Rightarrow> (tbl ! unat c)\<lparr>huffman_code := p\<rparr>)"
    using assms
  proof (induction cs arbitrary: tbl)
    case (Cons x cs)
    obtain d p where x: "x = (d, p)" by (cases x)
    have d: "unat d < 256" by (rule byte_less)
    have IH: "length (set_codes cs (set_code d p tbl)) = 256 \<and> set_codes cs (set_code d p tbl) ! unat c =
       (case map_of cs c of None \<Rightarrow> set_code d p tbl ! unat c
        | Some q \<Rightarrow> (set_code d p tbl ! unat c)\<lparr>huffman_code := q\<rparr>)"
      using Cons.prems by (intro Cons.IH) (simp_all add: set_code_def)
    have "d \<notin> fst ` set cs" using Cons.prems(2) by (simp add: x)
    then have "map_of cs d = None" by (simp add: map_of_eq_None_iff)
    moreover have "set_code d p tbl ! unat c = (if c = d then (tbl ! unat c)\<lparr>huffman_code := p\<rparr> else tbl ! unat c)"
      using d Cons.prems(1) by (auto simp: set_code_def nth_list_update dest: unsigned_word_eqI)
    ultimately show ?case using IH by (auto simp: x split: option.splits)
  qed simp
  then show "length (set_codes cs tbl) = 256"
    "set_codes cs tbl ! unat c =
       (case map_of cs c of None \<Rightarrow> tbl ! unat c | Some p \<Rightarrow> (tbl ! unat c)\<lparr>huffman_code := p\<rparr>)"
    by auto
qed

end
