(* ===== verification/File_Compressor.thy ===== *)
theory File_Compressor
  imports Huffman_Tree "HOL-Library.Sublist"
begin

text \<open>
  The file compressor of \<open>FileComPress/filecompress.h\<close>.  The files are a map from paths to byte
  strings; \<open>fgetc\<close> at the end of a file gives \<open>EOF\<close>, which as a \<open>char\<close> is the byte 0xFF.  A
  \<open>ConfigInfo\<close> takes 16 bytes: the character, seven bytes of padding that the program never writes
  (a parameter \<open>pad\<close>), and the count in little-endian order.
\<close>

section \<open>Definitions from the code\<close>

type_synonym files = "string \<Rightarrow> 8 word list option"

text \<open>What stops a run: a failed \<open>assert\<close>, a \<open>NULL\<close> pointer, an exception of \<open>std::string::substr\<close>, a
  header without its last record (the result of \<open>fread\<close> is not looked at), or a signed overflow.\<close>

datatype failure = Assertion | Null_pointer | Out_of_range | Header_cut | Signed_overflow

definition init_fileinfo :: "file_info list" where
  "init_fileinfo = map (\<lambda>i. \<lparr>appearence_number = 0, huffman_code = [], ch = of_nat i\<rparr>) [0..<256]"

definition count_char :: "8 word \<Rightarrow> file_info list \<Rightarrow> file_info list" where
  "count_char c tbl = tbl[unat c := (tbl ! unat c)\<lparr>appearence_number := appearence_number (tbl ! unat c) + 1\<rparr>]"

subsection \<open>The header\<close>

definition le_bytes :: "64 word \<Rightarrow> 8 word list" where
  "le_bytes w = map (\<lambda>j. ucast (drop_bit (8 * j) w)) [0..<8]"

definition config_info :: "(nat \<Rightarrow> nat \<Rightarrow> 8 word) \<Rightarrow> nat \<Rightarrow> 8 word \<Rightarrow> 64 word \<Rightarrow> 8 word list" where
  "config_info pad i c n = c # map (pad i) [0..<7] @ le_bytes n"

text \<open>The loop over the table; \<open>c\<close> is \<open>info.ch\<close>, which the last record with \<open>count = -1\<close> still has.\<close>

fun config_loop :: "(nat \<Rightarrow> nat \<Rightarrow> 8 word) \<Rightarrow> nat \<Rightarrow> 8 word \<Rightarrow> file_info list \<Rightarrow> 8 word list" where
  "config_loop pad i c [] = config_info pad i c (- 1)"
| "config_loop pad i c (f # fs) =
     (if appearence_number f \<noteq> 0
      then config_info pad i (ch f) (appearence_number f) @ config_loop pad (Suc i) (ch f) fs
      else config_loop pad (Suc i) c fs)"

definition ConfigurationFileInformation :: "(nat \<Rightarrow> nat \<Rightarrow> 8 word) \<Rightarrow> file_info list \<Rightarrow> 8 word list" where
  "ConfigurationFileInformation pad tbl = config_loop pad 0 (pad 0 7) tbl"

definition le_word :: "8 word list \<Rightarrow> 64 word" where
  "le_word bs = word_rcat (rev bs)"

function read_config :: "8 word list \<Rightarrow> file_info list \<Rightarrow> failure + file_info list \<times> 8 word list" where
  "read_config bs tbl =
     (if length bs < 16 then Inl Header_cut
      else if le_word (take 8 (drop 8 bs)) = - 1 then Inr (tbl, drop 16 bs)
      else read_config (drop 16 bs)
             (tbl[unat (bs ! 0) := (tbl ! unat (bs ! 0))
                \<lparr>ch := bs ! 0, appearence_number := le_word (take 8 (drop 8 bs))\<rparr>]))"
  by pat_completeness auto
termination
  by (relation "measure (\<lambda>(bs, tbl). length bs)") auto

declare read_config.simps [simp del]

subsection \<open>CompressToFile\<close>

text \<open>\<open>current_value\<close>, \<open>pos\<close> and the bytes written.\<close>

definition put_bit :: "char \<Rightarrow> 8 word \<times> nat \<times> 8 word list \<Rightarrow> 8 word \<times> nat \<times> 8 word list" where
  "put_bit b s = (case s of (current_value, pos, out) \<Rightarrow>
     let v = (if b = CHR ''1'' then or (push_bit 1 current_value) 1 else push_bit 1 current_value) in
     if pos + 1 = 8 then (0, 0, out @ [v]) else (v, pos + 1, out))"

text \<open>
  \<open>while (!feof(fop))\<close>: the end of the file is seen after it has been read, so the loop also runs
  for \<open>EOF\<close>, with the code of the byte 0xFF.
\<close>

definition CompressToFile :: "file_info list \<Rightarrow> 8 word list \<Rightarrow> 8 word list" where
  "CompressToFile tbl content =
     (case fold (\<lambda>c. fold put_bit (huffman_code (tbl ! unat c))) (content @ [0xFF]) (0, 0, []) of
        (current_value, pos, out) \<Rightarrow>
          if pos \<noteq> 0 then out @ [push_bit (8 - pos) current_value] else out)"

subsection \<open>The constructor that compresses a file\<close>

definition stem :: "string \<Rightarrow> string" where
  "stem path = takeWhile (\<lambda>c. c \<noteq> CHR ''.'') path"

text \<open>
  The output is opened, and truncated, before the input is read.  The result is the table of the
  object and the files.
\<close>

definition FileCompress ::
  "(nat \<Rightarrow> nat \<Rightarrow> 8 word) \<Rightarrow> files \<Rightarrow> string \<Rightarrow> failure + file_info list \<times> files" where
  "FileCompress pad fs filePath =
     (if fs filePath = None then Inl Assertion
      else let out = stem filePath @ ''.hzp'';
               fs1 = fs(out \<mapsto> []);
               content = the (fs1 filePath);
               tbl = fold count_char content init_fileinfo in
           (case HuffmanTree tbl of
              None \<Rightarrow> Inl Assertion
            | Some root \<Rightarrow>
                let tbl' = Conversion root tbl in
                Inr (tbl', fs1(out \<mapsto> ConfigurationFileInformation pad tbl' @ CompressToFile tbl' content))))"

subsection \<open>unCompress\<close>

text \<open>
  One character of the output at most is written per turn; \<open>n\<close> is \<open>total_num\<close>, the number of
  characters still to come.
\<close>

definition next_byte :: "8 word list \<Rightarrow> 8 word \<times> 8 word list" where
  "next_byte bs = (case bs of [] \<Rightarrow> (0xFF, []) | b # bs' \<Rightarrow> (b, bs'))"

function decode_loop :: "huffman \<Rightarrow> huffman \<Rightarrow> nat \<Rightarrow> 8 word \<Rightarrow> 8 word list \<Rightarrow> nat \<Rightarrow> failure + 8 word list" where
  "decode_loop rt cur pos v bs n =
     (case (if bit v pos then right cur else left cur) of
        HNull \<Rightarrow> Inl Null_pointer
      | HuffmanNode w l r \<Rightarrow>
          let (v', pos', bs') = (if pos = 0 then (fst (next_byte bs), 7, snd (next_byte bs)) else (v, pos - 1, bs)) in
          if l = HNull \<and> r = HNull
          then if n \<le> 1 then Inr [ch w]
               else (case decode_loop rt rt pos' v' bs' (n - 1) of Inl e \<Rightarrow> Inl e | Inr out \<Rightarrow> Inr (ch w # out))
          else decode_loop rt (HuffmanNode w l r) pos' v' bs' n)"
  by pat_completeness auto
termination
proof (relation "measures [\<lambda>(rt, cur, pos, v, bs, n). n, \<lambda>(rt, cur, pos, v, bs, n). nodes cur]", goal_cases)
  case (3 rt cur pos v bs n w l r x xa y xb ya)
  then show ?case by (cases cur) (auto split: if_splits)
qed auto

declare decode_loop.simps [simp del]

text \<open>
  A number that is not positive is counted down until it overflows; a root without children is
  followed to \<open>NULL\<close> before that.  \<open>filename.find(".")\<close> is \<open>npos\<close> when there is no dot, and \<open>substr\<close> of that throws.\<close>

definition unCompress :: "file_info list \<Rightarrow> files \<Rightarrow> string \<Rightarrow> failure + files" where
  "unCompress tbl fs filename =
     (case fs filename of
        None \<Rightarrow> Inl Assertion
      | Some _ \<Rightarrow>
          if CHR ''.'' \<notin> set filename then Inl Out_of_range
          else if take 4 (drop (length (stem filename)) filename) \<noteq> ''.hzp'' then Inr fs
          else let newfile = stem filename @ ''1.txt''; fs1 = fs(newfile \<mapsto> []) in
            (case read_config (the (fs1 filename)) tbl of
               Inl e \<Rightarrow> Inl e
             | Inr (tbl', bs) \<Rightarrow>
                 (case HuffmanTree tbl' of
                    None \<Rightarrow> Inl Assertion
                  | Some rt \<Rightarrow>
                      if sint (appearence_number (wt rt)) \<le> 0 \<and> left rt \<noteq> HNull then Inl Signed_overflow
                      else (case decode_loop rt rt 7 (fst (next_byte bs)) (snd (next_byte bs))
                                   (unat (appearence_number (wt rt))) of
                              Inl e \<Rightarrow> Inl e
                            | Inr out \<Rightarrow> Inr (fs1(newfile \<mapsto> out))))))"

section \<open>The header\<close>

lemma horner_digits:
  "horner_sum id 256 (map (\<lambda>j. x div 256 ^ j mod 256) [0..<n]) = x mod 256 ^ n" for x :: int
proof (induction n arbitrary: x)
  case (Suc n)
  have "map (\<lambda>j. x div 256 ^ j mod 256) [0..<Suc n]
      = x mod 256 # map (\<lambda>j. x div 256 div 256 ^ j mod 256) [0..<n]"
    by (simp add: map_upt_Suc zdiv_zmult2_eq del: upt_Suc)
  then have "horner_sum id 256 (map (\<lambda>j. x div 256 ^ j mod 256) [0..<Suc n])
      = x mod 256 + 256 * (x div 256 mod 256 ^ n)" by (simp add: Suc.IH del: upt_Suc)
  also have "\<dots> = x mod 256 ^ Suc n" by (simp add: zmod_zmult2_eq)
  finally show ?case .
qed simp

lemma uint_byte: "uint (ucast (drop_bit (8 * j) w) :: 8 word) = uint w div 256 ^ j mod 256" for w :: "64 word"
proof -
  have "uint (ucast (drop_bit (8 * j) w) :: 8 word) = take_bit 8 (drop_bit (8 * j) (uint w))"
    by transfer (simp add: take_bit_drop_bit min_def)
  then show ?thesis by (simp add: take_bit_eq_mod drop_bit_eq_div power_mult)
qed

lemma le_word_bytes [simp]: "le_word (le_bytes w) = w"
proof -
  have "horner_sum uint 256 (le_bytes w) = horner_sum id 256 (map uint (le_bytes w))"
    by (simp add: horner_sum_eq_sum_funpow)
  also have "map uint (le_bytes w) = map (\<lambda>j. uint w div 256 ^ j mod 256) [0..<8]"
    unfolding le_bytes_def map_map o_def uint_byte ..
  also have "horner_sum id 256 \<dots> = uint w mod 256 ^ 8" by (rule horner_digits)
  also have "\<dots> = uint w" using uint_bounded [of w] uint_ge_0 [of w] by simp
  finally show ?thesis by (simp add: le_word_def word_rcat_def)
qed

lemma length_le_bytes [simp]: "length (le_bytes w) = 8"
  by (simp add: le_bytes_def)

lemma config_info_parts:
  "length (config_info pad i c n) = 16" "(config_info pad i c n @ rest) ! 0 = c"
  "drop 8 (config_info pad i c n) = le_bytes n"
  by (simp_all add: config_info_def)

lemma read_config_end: "read_config (config_info pad i c (- 1) @ rest) tbl = Inr (tbl, rest)"
  by (subst read_config.simps) (simp add: config_info_parts)

lemma read_config_record:
  "n \<noteq> - 1 \<Longrightarrow> read_config (config_info pad i c n @ rest) tbl
     = read_config rest (tbl[unat c := (tbl ! unat c)\<lparr>ch := c, appearence_number := n\<rparr>])"
  by (subst read_config.simps) (simp add: config_info_parts)

definition blank :: "nat \<Rightarrow> file_info" where
  "blank i = \<lparr>appearence_number = 0, huffman_code = [], ch = of_nat i\<rparr>"

definition erase_code :: "file_info \<Rightarrow> file_info" where
  "erase_code f = f\<lparr>huffman_code := []\<rparr>"

lemma read_config_loop:
  assumes "length pre + length fs = 256"
    and "\<forall>j < length fs. ch (fs ! j) = of_nat (length pre + j) \<and> appearence_number (fs ! j) \<noteq> - 1"
  shows "read_config (config_loop pad i c fs @ rest) (pre @ map blank [length pre..<256])
    = Inr (pre @ map erase_code fs, rest)"
  using assms
proof (induction fs arbitrary: i c pre)
  case Nil
  then show ?case by (simp add: read_config_end)
next
  case (Cons f fs)
  let ?k = "length pre"
  have k: "?k < 256" using Cons.prems(1) by simp
  have f: "ch f = of_nat ?k" "appearence_number f \<noteq> - 1" using Cons.prems(2) by auto
  have u: "unat (ch f) = ?k" using f(1) k by (simp add: unat_of_nat)
  have upt: "map blank [?k..<256] = blank ?k # map blank [Suc ?k..<256]" using k by (simp add: upt_conv_Cons)
  have "\<forall>j < length fs. ch (fs ! j) = of_nat (length (pre @ [erase_code f]) + j)
      \<and> appearence_number (fs ! j) \<noteq> - 1"
    using Cons.prems(2) by (metis Suc_less_eq add_Suc_right add_Suc_shift length_append_singleton length_Cons nth_Cons_Suc)
  from Cons.IH [OF _ this, of i'] Cons.prems(1)
  have IH: "read_config (config_loop pad i' c' fs @ rest) (pre @ erase_code f # map blank [Suc ?k..<256])
      = Inr (pre @ map erase_code (f # fs), rest)" for i' c'
    using Cons.IH [OF _ \<open>\<forall>j < length fs. ch (fs ! j) = _ \<and> _\<close>, of i' c'] Cons.prems(1) by simp
  show ?case
  proof (cases "appearence_number f = 0")
    case True
    then have "erase_code f = blank ?k" using f(1) by (simp add: erase_code_def blank_def)
    then show ?thesis using True IH [of "Suc i" c] by (simp add: upt)
  next
    case False
    have "blank ?k\<lparr>ch := ch f, appearence_number := appearence_number f\<rparr> = erase_code f"
      by (simp add: blank_def erase_code_def)
    then show ?thesis
      using False IH [of "Suc i" "ch f"] by (simp add: upt u read_config_record [OF f(2)])
  qed
qed

lemma init_blank: "init_fileinfo = map blank [0..<256]"
  by (simp add: init_fileinfo_def blank_def)

lemma read_written_config:
  assumes "length tbl = 256" "\<forall>i < 256. ch (tbl ! i) = of_nat i \<and> appearence_number (tbl ! i) \<noteq> - 1"
  shows "read_config (ConfigurationFileInformation pad tbl @ rest) init_fileinfo = Inr (map erase_code tbl, rest)"
  using read_config_loop [of "[]" tbl pad 0 "pad 0 7" rest] assms
  by (simp add: init_blank ConfigurationFileInformation_def)

section \<open>The bits\<close>

text \<open>The bits of a byte from the highest to the lowest, and those not yet in a byte.\<close>

definition low_bits :: "nat \<Rightarrow> 8 word \<Rightarrow> bool list" where
  "low_bits n v = map (bit v) (rev [0..<n])"

definition file_bits :: "8 word list \<Rightarrow> bool list" where
  "file_bits bs = concat (map (low_bits 8) bs)"

lemma file_bits_simps [simp]: "file_bits [] = []" "file_bits (b # bs) = low_bits 8 b @ file_bits bs" "file_bits (xs @ ys) = file_bits xs @ file_bits ys"
  by (simp_all add: file_bits_def)

abbreviation ones :: "string \<Rightarrow> bool list" where
  "ones \<equiv> map (\<lambda>b. b = CHR ''1'')"

lemma low_bits_push:
  assumes "pos < 8"
  shows "low_bits (Suc pos) (if x then or (push_bit 1 v) 1 else push_bit 1 v) = low_bits pos v @ [x]"
proof -
  have "bit (if x then or (push_bit 1 v) 1 else push_bit 1 v) 0 = x"
    by (simp add: bit_0 even_or_iff)
  moreover have "bit (if x then or (push_bit 1 v) 1 else push_bit 1 v) (Suc i) = bit v i" if "i < pos" for i
  proof -
    have "bit (push_bit 1 v) (Suc i) = bit v i"
      unfolding bit_push_bit_iff using that assms by simp
    then show ?thesis by (cases x) (simp_all add: bit_or_iff bit_1_iff)
  qed
  ultimately show ?thesis
    by (simp add: low_bits_def upt_conv_Cons rev_map flip: map_Suc_upt del: upt_Suc)
qed

lemma put_bits:
  "pos < 8 \<Longrightarrow> \<exists>v' pos' out'. fold put_bit cs (v, pos, out) = (v', pos', out') \<and> pos' < 8
     \<and> file_bits out' @ low_bits pos' v' = file_bits out @ low_bits pos v @ ones cs"
proof (induction cs arbitrary: v pos out)
  case (Cons b cs)
  define w where "w = (if b = CHR ''1'' then or (push_bit 1 v) 1 else push_bit 1 v)"
  have w: "low_bits (Suc pos) w = low_bits pos v @ [b = CHR ''1'']"
    unfolding w_def by (rule low_bits_push [OF Cons.prems])
  show ?case
  proof (cases "pos = 7")
    case True
    then have step: "put_bit b (v, pos, out) = (0, 0, out @ [w])" by (simp add: put_bit_def w_def Let_def)
    have "low_bits 8 w = low_bits pos v @ [b = CHR ''1'']" "low_bits 0 0 = []"
      using w True by (simp_all add: low_bits_def del: upt_Suc)
    then show ?thesis using Cons.IH [of 0 0 "out @ [w]"] by (simp add: step)
  next
    case False
    then have "put_bit b (v, pos, out) = (w, Suc pos, out)" by (simp add: put_bit_def w_def Let_def)
    then show ?thesis using Cons.IH [of "Suc pos" w out] Cons.prems False by (simp add: w)
  qed
qed simp

lemma low_bits_final: "pos < 8 \<Longrightarrow> low_bits 8 (push_bit (8 - pos) v) = low_bits pos v @ replicate (8 - pos) False"
proof -
  assume pos: "pos < 8"
  show ?thesis
    using pos by (intro nth_equalityI) (auto simp: low_bits_def rev_nth nth_append bit_simps simp del: upt_Suc)
qed

lemma fold_concat_map: "fold (\<lambda>c. fold g (h c)) xs s = fold g (concat (map h xs)) s"
  by (induction xs arbitrary: s) simp_all

lemma CompressToFile_bits:
  "\<exists>k. file_bits (CompressToFile tbl content)
     = ones (concat (map (\<lambda>c. huffman_code (tbl ! unat c)) (content @ [0xFF]))) @ replicate k False"
proof -
  let ?cs = "concat (map (\<lambda>c. huffman_code (tbl ! unat c)) (content @ [0xFF]))"
  obtain v pos out where s: "fold put_bit ?cs (0, 0, []) = (v, pos, out)" "pos < 8"
      "file_bits out @ low_bits pos v = ones ?cs"
    using put_bits [of 0 ?cs 0 "[]"] by (auto simp: low_bits_def)
  show ?thesis
  proof (cases "pos = 0")
    case True
    then have "file_bits (CompressToFile tbl content) = ones ?cs"
      using s by (simp add: CompressToFile_def fold_concat_map low_bits_def)
    then show ?thesis by (intro exI [of _ 0]) simp
  next
    case False
    then have "file_bits (CompressToFile tbl content) = ones ?cs @ replicate (8 - pos) False"
      using s low_bits_final [OF s(2)] by (simp add: CompressToFile_def fold_concat_map flip: append_assoc)
    then show ?thesis by blast
  qed
qed

section \<open>Decoding\<close>

text \<open>The bits that \<open>unCompress\<close> has not looked at: \<open>pos + 1\<close> of the current byte, and the file.\<close>

definition bits_left :: "nat \<Rightarrow> 8 word \<Rightarrow> 8 word list \<Rightarrow> bool list" where
  "bits_left pos v bs = low_bits (Suc pos) v @ file_bits bs"

definition advance :: "nat \<Rightarrow> 8 word \<Rightarrow> 8 word list \<Rightarrow> 8 word \<times> nat \<times> 8 word list" where
  "advance pos v bs = (if pos = 0 then (fst (next_byte bs), 7, snd (next_byte bs)) else (v, pos - 1, bs))"

lemma advance_bits:
  assumes "prefix (b # w) (bits_left pos v bs)" "advance pos v bs = (v', pos', bs')"
  shows "bit v pos = b" "prefix w (bits_left pos' v' bs')"
proof -
  have low: "low_bits (Suc k) u = bit u k # low_bits k u" for k u by (simp add: low_bits_def)
  show "bit v pos = b" using assms(1) by (simp add: bits_left_def low)
  have w: "prefix w (low_bits pos v @ file_bits bs)" using assms(1) by (simp add: bits_left_def low)
  show "prefix w (bits_left pos' v' bs')"
  proof (cases pos)
    case 0
    then show ?thesis
      using assms(2) w by (cases bs) (auto simp: advance_def next_byte_def bits_left_def low_bits_def)
  next
    case (Suc k)
    then show ?thesis using assms(2) w by (auto simp: advance_def bits_left_def)
  qed
qed

lemma decode_step:
  assumes "advance pos v bs = (v', pos', bs')" "(if bit v pos then right cur else left cur) = HuffmanNode w l r"
  shows "decode_loop rt cur pos v bs n =
    (if l = HNull \<and> r = HNull
     then if n \<le> 1 then Inr [ch w]
          else (case decode_loop rt rt pos' v' bs' (n - 1) of Inl e \<Rightarrow> Inl e | Inr out \<Rightarrow> Inr (ch w # out))
     else decode_loop rt (HuffmanNode w l r) pos' v' bs' n)"
  using assms by (subst decode_loop.simps) (simp add: advance_def split: if_splits)

text \<open>From an inner node the code of a leaf below it leads to that leaf.\<close>

lemma decode_path:
  "is_huffman cur \<Longrightarrow> left cur \<noteq> HNull \<Longrightarrow> (c, p) \<in> set (codes cur) \<Longrightarrow> prefix (ones p @ w) (bits_left pos v bs) \<Longrightarrow>
   \<exists>pos' v' bs'. prefix w (bits_left pos' v' bs') \<and> decode_loop rt cur pos v bs n =
     (if n \<le> 1 then Inr [c]
      else (case decode_loop rt rt pos' v' bs' (n - 1) of Inl e \<Rightarrow> Inl e | Inr out \<Rightarrow> Inr (c # out)))"
proof (induction p arbitrary: cur pos v bs)
  case Nil
  then show ?case by (cases cur) auto
next
  case (Cons b p)
  obtain f l r where cur: "cur = HuffmanNode f l r" using Cons.prems(1) by (cases cur) auto
  have lr: "is_huffman l" "is_huffman r" using Cons.prems(1,2) by (auto simp: cur)
  define t where "t = (if b = CHR ''1'' then r else l)"
  have t: "is_huffman t" "(c, p) \<in> set (codes t)"
    using Cons.prems(2,3) lr by (auto simp: cur t_def)
  obtain v' pos' bs' where adv: "advance pos v bs = (v', pos', bs')" by (metis prod_cases3)
  have pre: "prefix ((b = CHR ''1'') # (ones p @ w)) (bits_left pos v bs)" using Cons.prems(4) by simp
  have w: "prefix (ones p @ w) (bits_left pos' v' bs')" using advance_bits(2) [OF pre adv] .
  obtain g l' r' where node: "t = HuffmanNode g l' r'" using t(1) by (cases t) auto
  have "(if bit v pos then right cur else left cur) = HuffmanNode g l' r'"
    using advance_bits(1) [OF pre adv] node by (auto simp: cur t_def)
  note step = decode_step [OF adv this, of rt n]
  show ?case
  proof (cases "l' = HNull")
    case True
    then have "r' = HNull" "ch g = c" "p = []" using t by (auto simp: node)
    then show ?thesis using step w True by auto
  next
    case False
    then have "decode_loop rt cur pos v bs n = decode_loop rt t pos' v' bs' n" using step by (simp add: node)
    moreover have "left t \<noteq> HNull" using False by (simp add: node)
    ultimately show ?thesis using Cons.IH [OF t(1) _ t(2) w] by simp
  qed
qed

lemma decode_all:
  assumes "is_huffman rt" "left rt \<noteq> HNull"
  shows "\<forall>c \<in> set xs. (c, code c) \<in> set (codes rt) \<Longrightarrow> xs \<noteq> [] \<Longrightarrow>
    prefix (ones (concat (map code xs)) @ w) (bits_left pos v bs) \<Longrightarrow>
    decode_loop rt rt pos v bs (length xs) = Inr xs"
proof (induction xs arbitrary: pos v bs)
  case (Cons c xs)
  have "prefix (ones (code c) @ (ones (concat (map code xs)) @ w)) (bits_left pos v bs)"
    using Cons.prems(3) by simp
  from decode_path [OF assms _ this, where c = c and rt = rt and n = "length (c # xs)"]
  obtain pos' v' bs' where go: "prefix (ones (concat (map code xs)) @ w) (bits_left pos' v' bs')"
      "decode_loop rt rt pos v bs (length (c # xs)) =
         (if length (c # xs) \<le> 1 then Inr [c]
          else (case decode_loop rt rt pos' v' bs' (length (c # xs) - 1) of Inl e \<Rightarrow> Inl e | Inr out \<Rightarrow> Inr (c # out)))"
    using Cons.prems(1) by auto
  show ?case
  proof (cases "xs = []")
    case False
    then have "decode_loop rt rt pos' v' bs' (length xs) = Inr xs"
      using Cons.IH [OF _ _ go(1)] Cons.prems(1) by simp
    then show ?thesis using go(2) False by simp
  qed (use go(2) in simp)
qed simp

section \<open>Counting\<close>

definition counted :: "8 word list \<Rightarrow> file_info list" where
  "counted content = fold count_char content init_fileinfo"

lemma init_nth: "length init_fileinfo = 256" "i < 256 \<Longrightarrow> init_fileinfo ! i = blank i"
  by (simp_all add: init_blank)

lemma count_char_fold:
  assumes "length tbl = 256"
  shows "length (fold count_char content tbl) = 256"
    "i < 256 \<Longrightarrow> fold count_char content tbl ! i =
       (tbl ! i)\<lparr>appearence_number := appearence_number (tbl ! i) + of_nat (count_list content (of_nat i))\<rparr>"
    "sum_list (map appearence_number (fold count_char content tbl))
       = sum_list (map appearence_number tbl) + of_nat (length content)"
  using assms
proof (induction content arbitrary: tbl)
  case (Cons c content)
  have c: "unat c < 256" by (rule byte_less)
  { case 1
    then show ?case using Cons.IH(1) [of "count_char c tbl"] by (simp add: count_char_def)
  next
    case 2
    have "c = of_nat i \<longleftrightarrow> unat c = i" using 2 by (auto simp: unat_of_nat)
    then show ?case using Cons.IH(2) [of "count_char c tbl"] 2 c
      by (auto simp: count_char_def nth_list_update ac_simps)
  next
    case 3
    have add1: "sum_list (xs[k := xs ! k + 1]) = sum_list xs + 1" if "k < length xs" for xs :: "64 word list" and k
      using that by (induction xs arbitrary: k) (auto simp: ac_simps split: nat.split)
    have "sum_list (map appearence_number (count_char c tbl)) = sum_list (map appearence_number tbl) + 1"
      using add1 [of "unat c" "map appearence_number tbl"] c 3 by (simp add: count_char_def map_update)
    then show ?case using Cons.IH(3) [of "count_char c tbl"] 3 by (simp add: count_char_def ac_simps)
  }
qed simp_all

lemma counted_nth:
  assumes "i < 256"
  shows "counted content ! i = \<lparr>appearence_number = of_nat (count_list content (of_nat i)), huffman_code = [], ch = of_nat i\<rparr>"
  unfolding counted_def count_char_fold(2) [OF init_nth(1) assms] init_nth(2) [OF assms] by (simp add: blank_def)

lemma length_counted [simp]: "length (counted content) = 256"
  unfolding counted_def by (rule count_char_fold(1) [OF init_nth(1)])

lemma counted_sum: "sum_list (map appearence_number (counted content)) = of_nat (length content)"
proof -
  have "sum_list (map appearence_number init_fileinfo) = 0"
    by (simp add: init_blank blank_def o_def)
  then show ?thesis unfolding counted_def count_char_fold(3) [OF init_nth(1)] by simp
qed

abbreviation used :: "file_info list \<Rightarrow> file_info list" where
  "used \<equiv> filter (\<lambda>f. appearence_number f \<noteq> 0)"

lemma small_number: "n < 2 ^ 63 \<Longrightarrow> k \<le> n \<Longrightarrow> (of_nat k :: 64 word) = 0 \<longleftrightarrow> k = 0"
  "n < 2 ^ 63 \<Longrightarrow> k \<le> n \<Longrightarrow> (of_nat k :: 64 word) \<noteq> - 1"
proof -
  assume n: "n < 2 ^ 63" "k \<le> n"
  then have u: "unat (of_nat k :: 64 word) = k" by (simp add: unat_of_nat)
  show "(of_nat k :: 64 word) = 0 \<longleftrightarrow> k = 0" using u by auto
  have "unat (- 1 :: 64 word) = 2 ^ 64 - 1" by (simp add: unsigned_minus_1_eq_mask mask_eq_exp_minus_1)
  with u n show "(of_nat k :: 64 word) \<noteq> - 1" by auto
qed

lemma used_iff:
  assumes "length content < 2 ^ 63"
  shows "ch ` set (used (counted content)) = set content"
proof -
  have "c \<in> ch ` set (used (counted content)) \<longleftrightarrow> c \<in> set content" for c
  proof -
    have "c \<in> ch ` set (used (counted content))
        \<longleftrightarrow> (\<exists>i < 256. appearence_number (counted content ! i) \<noteq> 0 \<and> ch (counted content ! i) = c)"
      by (auto simp: in_set_conv_nth image_iff)
    also have "\<dots> \<longleftrightarrow> (\<exists>i < 256. count_list content (of_nat i) \<noteq> 0 \<and> of_nat i = c)"
      using small_number(1) [OF assms count_le_length] by (auto simp: counted_nth)
    also have "\<dots> \<longleftrightarrow> count_list content c \<noteq> 0"
    proof -
      have "of_nat (unat c) = c" by simp
      then show ?thesis using byte_less [of c] by metis
    qed
    finally show ?thesis by (simp add: count_list_0_iff)
  qed
  then show ?thesis by blast
qed

lemma used_distinct: "distinct (map ch (used (counted content)))"
proof -
  have "map ch (counted content) = map of_nat [0..<256]"
    by (rule nth_equalityI) (simp_all add: counted_nth)
  moreover have "distinct (map (of_nat :: nat \<Rightarrow> 8 word) [0..<256])"
    unfolding distinct_map by (auto intro!: inj_onI dest: arg_cong [of _ _ unat] simp: unat_of_nat)
  ultimately show ?thesis by (metis distinct_map_filter)
qed

lemma counted_plain: "\<forall>f \<in> set (counted content). huffman_code f = []"
  by (auto simp: in_set_conv_nth counted_nth)

section \<open>Compressing and back\<close>

lemma used_sum: "sum_list (map appearence_number (used tbl)) = sum_list (map appearence_number tbl)"
  by (induction tbl) simp_all

lemma used_many:
  assumes "length content < 2 ^ 63"
  shows "length (used (counted content)) = card (set content)"
proof -
  have "card (set content) = card (set (map ch (used (counted content))))" using used_iff [OF assms] by simp
  then show ?thesis using distinct_card [OF used_distinct] by simp
qed

text \<open>The tree that the counts give: its leaves are the characters of the file, each with one code.\<close>

lemma tree_of_counts:
  assumes "content \<noteq> []" "length content < 2 ^ 63"
  obtains t where "HuffmanTree (counted content) = Some t" "is_huffman t"
    "distinct (map fst (codes t))" "fst ` set (codes t) = set content"
    "appearence_number (wt t) = of_nat (length content)"
    "mset (leaves t) = mset (used (counted content))"
    "1 < card (set content) \<longrightarrow> left t \<noteq> HNull"
proof -
  have "used (counted content) \<noteq> []"
  proof
    assume "used (counted content) = []"
    then have "set content = {}" using used_iff [OF assms(2)] by (metis image_empty list.set(1))
    then show False using assms(1) by simp
  qed
  then obtain t where t: "HuffmanTree (counted content) = Some t" "is_huffman t"
      "mset (leaves t) = mset (used (counted content))"
      "1 < length (used (counted content)) \<longrightarrow> left t \<noteq> HNull"
    by (rule HuffmanTree_ok [OF counted_plain])
  have "distinct (map ch (leaves t)) \<longleftrightarrow> distinct (map ch (used (counted content)))"
    using t(3) by (intro mset_eq_imp_distinct_iff) (metis mset_map)
  then have d: "distinct (map fst (codes t))" using used_distinct codes_leaves [OF t(2)] by simp
  have "fst ` set (codes t) = ch ` set (leaves t)"
    using codes_leaves [OF t(2)] by (metis list.set_map)
  then have f: "fst ` set (codes t) = set content"
    using used_iff [OF assms(2)] mset_eq_setD [OF t(3)] by simp
  have "sum_list (map appearence_number (leaves t)) = sum_list (map appearence_number (used (counted content)))"
    by (simp only: sum_mset_sum_list [symmetric] mset_map t(3))
  then have w: "appearence_number (wt t) = of_nat (length content)"
    unfolding root_weight [OF t(2)] used_sum counted_sum .
  have m: "1 < card (set content) \<longrightarrow> left t \<noteq> HNull"
    using t(4) used_many [OF assms(2)] by simp
  show thesis by (rule that [OF t(1,2) d f w t(3) m])
qed

lemma coded_table:
  fixes content :: "8 word list"
  assumes "distinct (map fst (codes t))"
  defines "tbl \<equiv> set_codes (codes t) (counted content)"
  shows "length tbl = 256" "map erase_code tbl = counted content"
    "i < 256 \<Longrightarrow> ch (tbl ! i) = of_nat i"
    "i < 256 \<Longrightarrow> appearence_number (tbl ! i) = appearence_number (counted content ! i)"
    "c \<in> fst ` set (codes t) \<Longrightarrow> (c, huffman_code (tbl ! unat c)) \<in> set (codes t)"
proof -
  show len: "length tbl = 256" unfolding tbl_def by (rule set_codes_nth(1) [OF length_counted assms(1)])
  have nth: "tbl ! unat c = (case map_of (codes t) c of None \<Rightarrow> counted content ! unat c
      | Some p \<Rightarrow> (counted content ! unat c)\<lparr>huffman_code := p\<rparr>)" for c
    unfolding tbl_def by (rule set_codes_nth(2) [OF length_counted assms(1)])
  have i: "tbl ! i = (case map_of (codes t) (of_nat i) of None \<Rightarrow> counted content ! i
      | Some p \<Rightarrow> (counted content ! i)\<lparr>huffman_code := p\<rparr>)" if "i < 256" for i
  proof -
    have u: "unat (of_nat i :: 8 word) = i" using that by (simp add: unat_of_nat)
    show ?thesis using nth [of "of_nat i"] unfolding u .
  qed
  show "ch (tbl ! i) = of_nat i" if "i < 256"
    using that by (simp add: i counted_nth split: option.split)
  show "appearence_number (tbl ! i) = appearence_number (counted content ! i)" if "i < 256"
    using that by (simp add: i split: option.split)
  show "map erase_code tbl = counted content"
    using len by (intro nth_equalityI) (simp_all add: i erase_code_def counted_nth split: option.split)
  show "(c, huffman_code (tbl ! unat c)) \<in> set (codes t)" if c: "c \<in> fst ` set (codes t)"
  proof -
    obtain p where "(c, p) \<in> set (codes t)" using c by auto
    then have "map_of (codes t) c = Some p" using assms(1) by simp
    then show ?thesis using \<open>(c, p) \<in> _\<close> by (simp add: nth)
  qed
qed

lemma stem_append [simp]: "stem (stem path @ CHR ''.'' # xs) = stem path"
proof -
  have "takeWhile P (takeWhile P xs @ c # ys) = takeWhile P xs" if "\<not> P c" for P xs ys and c :: char
    using that by (induction xs) auto
  then show ?thesis by (simp add: stem_def)
qed

lemma compress_content:
  assumes "fs path = Some content" "path \<noteq> stem path @ ''.hzp''" "content \<noteq> []" "length content < 2 ^ 63"
  obtains t tbl where "HuffmanTree (counted content) = Some t" "is_huffman t"
    "1 < card (set content) \<longrightarrow> left t \<noteq> HNull" "mset (leaves t) = mset (used (counted content))"
    "appearence_number (wt t) = of_nat (length content)"
    "FileCompress pad fs path = Inr (tbl, fs(stem path @ ''.hzp'' \<mapsto>
       ConfigurationFileInformation pad tbl @ CompressToFile tbl content))"
    "\<forall>rest. read_config (ConfigurationFileInformation pad tbl @ rest) init_fileinfo = Inr (counted content, rest)"
    "\<forall>c \<in> set content. (c, huffman_code (tbl ! unat c)) \<in> set (codes t)"
proof -
  obtain t where t: "HuffmanTree (counted content) = Some t" "is_huffman t"
      "distinct (map fst (codes t))" "fst ` set (codes t) = set content"
      "appearence_number (wt t) = of_nat (length content)"
      "mset (leaves t) = mset (used (counted content))" "1 < card (set content) \<longrightarrow> left t \<noteq> HNull"
    using tree_of_counts [OF assms(3,4)] .
  let ?tbl = "set_codes (codes t) (counted content)"
  note tbl = coded_table [OF t(3), where content = content]
  have "appearence_number (?tbl ! i) \<noteq> - 1" if "i < 256" for i
    unfolding tbl(4) [OF that] counted_nth [OF that]
    using small_number(2) [OF assms(4) count_le_length] by simp
  then have "read_config (ConfigurationFileInformation pad ?tbl @ rest) init_fileinfo = Inr (counted content, rest)" for rest
    using read_written_config [OF tbl(1), of pad rest] tbl(2,3) by simp
  then have "\<forall>rest. read_config (ConfigurationFileInformation pad ?tbl @ rest) init_fileinfo = Inr (counted content, rest)" ..
  moreover have "FileCompress pad fs path = Inr (?tbl, fs(stem path @ ''.hzp'' \<mapsto>
       ConfigurationFileInformation pad ?tbl @ CompressToFile ?tbl content))"
    using assms(1,2) t(1) by (simp add: FileCompress_def counted_def Conversion_codes [OF t(2)] Let_def)
  moreover have "\<forall>c \<in> set content. (c, huffman_code (?tbl ! unat c)) \<in> set (codes t)"
    using tbl(5) t(4) by simp
  ultimately show thesis by (intro that [OF t(1,2,7,6,5)])
qed

lemma uncompress_written:
  assumes "fs (stem path @ ''.hzp'') = Some (header @ body)"
    and "\<forall>rest. read_config (header @ rest) init_fileinfo = Inr (counted content, rest)"
    and "HuffmanTree (counted content) = Some t" "appearence_number (wt t) = of_nat (length content)"
    and "content \<noteq> []" "length content < 2 ^ 63"
  shows "unCompress init_fileinfo fs (stem path @ ''.hzp'') =
    (case decode_loop t t 7 (fst (next_byte body)) (snd (next_byte body)) (length content) of
       Inl e \<Rightarrow> Inl e | Inr out \<Rightarrow> Inr (fs(stem path @ ''1.txt'' \<mapsto> out)))"
proof -
  have "sint (of_nat (length content) :: 64 word) = int (length content)"
    using assms(6) by (simp add: signed_of_nat signed_take_bit_int_eq_self)
  then have pos: "\<not> sint (appearence_number (wt t)) \<le> 0" using assms(4,5) by simp
  have n: "unat (appearence_number (wt t)) = length content" using assms(4,6) by (simp add: unat_of_nat)
  show ?thesis
    using assms(1-3) pos by (simp add: unCompress_def n Let_def split: sum.split)
qed

text \<open>
  C13. Compressing a file with at least two different characters and then decompressing the result
  gives a file with the same bytes, whatever they are: the compressor writes \<open><stem>.hzp\<close>, the
  decompressor writes \<open><stem>1.txt\<close>, and no other file changes.
\<close>

theorem compress_round_trip:
  assumes "fs path = Some content" "path \<noteq> stem path @ ''.hzp''"
    and "1 < card (set content)" "length content < 2 ^ 63"
  shows "\<exists>tbl packed. FileCompress pad fs path = Inr (tbl, fs(stem path @ ''.hzp'' \<mapsto> packed))
    \<and> unCompress init_fileinfo (fs(stem path @ ''.hzp'' \<mapsto> packed)) (stem path @ ''.hzp'')
        = Inr (fs(stem path @ ''.hzp'' \<mapsto> packed, stem path @ ''1.txt'' \<mapsto> content))"
proof -
  have ne: "content \<noteq> []" using assms(3) by auto
  obtain t tbl where t: "HuffmanTree (counted content) = Some t" "is_huffman t"
      "1 < card (set content) \<longrightarrow> left t \<noteq> HNull" "mset (leaves t) = mset (used (counted content))"
      "appearence_number (wt t) = of_nat (length content)"
    and compress: "FileCompress pad fs path = Inr (tbl, fs(stem path @ ''.hzp'' \<mapsto>
       ConfigurationFileInformation pad tbl @ CompressToFile tbl content))"
    and header: "\<forall>rest. read_config (ConfigurationFileInformation pad tbl @ rest) init_fileinfo = Inr (counted content, rest)"
    and code: "\<forall>c \<in> set content. (c, huffman_code (tbl ! unat c)) \<in> set (codes t)"
    by (rule compress_content [where fs = fs and path = path and pad = pad, OF assms(1,2) ne assms(4)])
  let ?body = "CompressToFile tbl content"
  let ?code = "\<lambda>c. huffman_code (tbl ! unat c)"
  obtain k where body: "file_bits ?body = ones (concat (map ?code (content @ [0xFF]))) @ replicate k False"
    using CompressToFile_bits by blast
  have "file_bits ?body = ones (concat (map ?code content)) @ (ones (?code (0xFF :: 8 word)) @ replicate k False)"
    using body by simp
  moreover have "ones (concat (map ?code content)) \<noteq> []"
  proof -
    have "?code (hd content) \<noteq> []"
      using code t(2,3) assms(3) ne by (cases t) (auto dest!: bspec [of _ _ "hd content"])
    then show ?thesis using ne by (cases content) auto
  qed
  ultimately have "prefix (ones (concat (map ?code content)) @ [])
      (bits_left 7 (fst (next_byte ?body)) (snd (next_byte ?body)))"
    by (cases ?body) (auto simp: bits_left_def next_byte_def)
  then have "decode_loop t t 7 (fst (next_byte ?body)) (snd (next_byte ?body)) (length content) = Inr content"
    using t(2,3) assms(3) code ne by (intro decode_all [where w = "[]"]) auto
  moreover note uncompress_written [where path = path and body = ?body
      and fs = "fs(stem path @ ''.hzp'' \<mapsto> ConfigurationFileInformation pad tbl @ ?body)",
      OF _ header t(1,5) ne assms(4)]
  ultimately show ?thesis using compress by auto
qed

theorem compress_round_trip_witness:
  "\<exists>tbl packed. FileCompress (\<lambda>i j. 0) [''a.t'' \<mapsto> [1, 2, 1]] ''a.t''
        = Inr (tbl, [''a.t'' \<mapsto> [1, 2, 1], ''a.hzp'' \<mapsto> packed])
    \<and> unCompress init_fileinfo [''a.t'' \<mapsto> [1, 2, 1], ''a.hzp'' \<mapsto> packed] ''a.hzp''
        = Inr [''a.t'' \<mapsto> [1, 2, 1], ''a.hzp'' \<mapsto> packed, ''a1.txt'' \<mapsto> [1, 2, 1]]"
  using compress_round_trip [of "[''a.t'' \<mapsto> [1, 2, 1]]" "''a.t''" "[1, 2, 1]" "\<lambda>i j. 0"]
  by (simp add: stem_def card_insert_if)

text \<open>
  C29. What goes wrong: the constructor stops at the assertion of \<open>Top\<close> for an empty file, and for a
  file with the suffix of the output, which it has emptied before reading it; and a file with one
  character, however often, is compressed, but decompressing the result follows a \<open>NULL\<close> pointer.
\<close>

theorem compress_error_cases:
  assumes "fs path = Some content" "length content < 2 ^ 63"
    and "content = [] \<or> path = stem path @ ''.hzp'' \<or> card (set content) = 1"
  shows "if content = [] \<or> path = stem path @ ''.hzp'' then FileCompress pad fs path = Inl Assertion
    else (\<exists>tbl packed. FileCompress pad fs path = Inr (tbl, fs(stem path @ ''.hzp'' \<mapsto> packed))
      \<and> unCompress init_fileinfo (fs(stem path @ ''.hzp'' \<mapsto> packed)) (stem path @ ''.hzp'') = Inl Null_pointer)"
proof (cases "content = [] \<or> path = stem path @ ''.hzp''")
  case True
  have "\<forall>f \<in> set init_fileinfo. appearence_number f = 0" by (simp add: init_fileinfo_def)
  then have "HuffmanTree init_fileinfo = None" by (rule HuffmanTree_None)
  then have "FileCompress pad fs path = Inl Assertion"
    using True assms(1) by (auto simp: FileCompress_def Let_def)
  then show ?thesis using True by simp
next
  case False
  then have ne: "content \<noteq> []" "path \<noteq> stem path @ ''.hzp''" by simp_all
  obtain t tbl where t: "HuffmanTree (counted content) = Some t" "is_huffman t"
      "1 < card (set content) \<longrightarrow> left t \<noteq> HNull" "mset (leaves t) = mset (used (counted content))"
      "appearence_number (wt t) = of_nat (length content)"
    and compress: "FileCompress pad fs path = Inr (tbl, fs(stem path @ ''.hzp'' \<mapsto>
       ConfigurationFileInformation pad tbl @ CompressToFile tbl content))"
    and header: "\<forall>rest. read_config (ConfigurationFileInformation pad tbl @ rest) init_fileinfo = Inr (counted content, rest)"
    and code: "\<forall>c \<in> set content. (c, huffman_code (tbl ! unat c)) \<in> set (codes t)"
    by (rule compress_content [where fs = fs and path = path and pad = pad, OF assms(1) ne(2,1) assms(2)])
  have "length (leaves t) = 1"
    using assms(3) False used_many [OF assms(2)] mset_eq_length [OF t(4)] by simp
  then have leaf: "left t = HNull \<and> right t = HNull" using one_leaf [OF t(2)] by simp
  let ?body = "CompressToFile tbl content"
  have "decode_loop t t 7 (fst (next_byte ?body)) (snd (next_byte ?body)) (length content) = Inl Null_pointer"
    using leaf by (subst decode_loop.simps) simp
  moreover note uncompress_written [where path = path and body = ?body
      and fs = "fs(stem path @ ''.hzp'' \<mapsto> ConfigurationFileInformation pad tbl @ ?body)",
      OF _ header t(1,5) ne(1) assms(2)]
  ultimately show ?thesis using compress False by auto
qed

theorem compress_error_cases_witness:
  "FileCompress (\<lambda>i j. 0) [''a.t'' \<mapsto> []] ''a.t'' = Inl Assertion
   \<and> FileCompress (\<lambda>i j. 0) [''a.hzp'' \<mapsto> [1, 2]] ''a.hzp'' = Inl Assertion
   \<and> (\<exists>tbl packed. FileCompress (\<lambda>i j. 0) [''a.t'' \<mapsto> [1, 1]] ''a.t''
        = Inr (tbl, [''a.t'' \<mapsto> [1, 1], ''a.hzp'' \<mapsto> packed])
      \<and> unCompress init_fileinfo [''a.t'' \<mapsto> [1, 1], ''a.hzp'' \<mapsto> packed] ''a.hzp'' = Inl Null_pointer)"
  using compress_error_cases [of "[''a.t'' \<mapsto> []]" "''a.t''" "[]" "\<lambda>i j. 0"]
    compress_error_cases [of "[''a.hzp'' \<mapsto> [1, 2]]" "''a.hzp''" "[1, 2]" "\<lambda>i j. 0"]
    compress_error_cases [of "[''a.t'' \<mapsto> [1, 1]]" "''a.t''" "[1, 1]" "\<lambda>i j. 0"]
  by (simp add: stem_def)

text \<open>
  C14. The tree and its codes: for every file that is not empty, the tree is full, every inner node
  weighs what its children weigh together and the root weighs the length of the file; each character
  of the file has one code, no other character has one, and no code is the beginning of another.
\<close>

theorem huffman_tree_codes:
  assumes "content \<noteq> []" "length content < 2 ^ 63"
  shows "\<exists>t. HuffmanTree (counted content) = Some t \<and> is_huffman t
    \<and> appearence_number (wt t) = of_nat (length content)
    \<and> distinct (map fst (codes t)) \<and> fst ` set (codes t) = set content
    \<and> list_all (\<lambda>(c, p). list_all (\<lambda>(d, q). prefix p q = (c = d)) (codes t)) (codes t)"
proof -
  obtain t where t: "HuffmanTree (counted content) = Some t" "is_huffman t"
      "distinct (map fst (codes t))" "fst ` set (codes t) = set content"
      "appearence_number (wt t) = of_nat (length content)"
    using tree_of_counts [OF assms] by metis
  have "prefix p q \<longleftrightarrow> c = d" if "(c, p) \<in> set (codes t)" "(d, q) \<in> set (codes t)" for c p d q
  proof
    assume "prefix p q"
    then obtain r where "q = p @ r" by (auto simp: prefix_def)
    then have "q = p" using codes_prefix_free [OF that(1)] that(2) by auto
    then show "c = d" using codes_injective that by blast
  next
    assume "c = d"
    then show "prefix p q" using that t(3) by (metis eq_key_imp_eq_value prefix_order.refl)
  qed
  then show ?thesis using t by (auto simp: list_all_iff)
qed

theorem huffman_tree_codes_witness:
  "\<exists>t. HuffmanTree (counted [7]) = Some t \<and> fst ` set (codes t) = {7}"
  using huffman_tree_codes [of "[7]"] by auto

end
