(* ===== verification/Iteration.thy ===== *)
theory Iteration
  imports Main
begin

text \<open>
  Iterators of the C++ containers: a position or \<open>None\<close> for the end, a start and a step.  The locale
  \<open>iteration\<close> is the contract that a container's iterator visits a list of positions one after the other.
\<close>

text \<open>\<open>step\<close> leads from each element of a list to the next one, and from the last to \<open>e\<close>.\<close>

fun chain :: "('p option \<Rightarrow> 'p option) \<Rightarrow> 'p list \<Rightarrow> 'p option \<Rightarrow> bool" where
  "chain step [] e \<longleftrightarrow> True"
| "chain step (x # xs) e \<longleftrightarrow> step (Some x) = (if xs = [] then e else Some (hd xs)) \<and> chain step xs e"

lemma chain_append:
  "chain step (xs @ ys) e \<longleftrightarrow> chain step xs (if ys = [] then e else Some (hd ys)) \<and> chain step ys e"
  by (induction xs) auto

lemma chain_funpow:
  "chain step xs e \<Longrightarrow> xs \<noteq> [] \<Longrightarrow>
   map (\<lambda>i. (step ^^ i) (Some (hd xs))) [0..<length xs] = map Some xs \<and> (step ^^ length xs) (Some (hd xs)) = e"
proof (induction xs)
  case (Cons x xs)
  show ?case
  proof (cases "xs = []")
    case False
    then have "step (Some x) = Some (hd xs)" "chain step xs e" using Cons.prems by simp_all
    then show ?thesis using Cons.IH False
      by (simp add: map_upt_Suc funpow_swap1 [symmetric] del: upt_Suc funpow.simps)
        (simp add: funpow_Suc_right del: funpow.simps)
  qed (use Cons.prems in simp)
qed simp

locale iteration =
  fixes ok :: "'s \<Rightarrow> bool" and start :: "'s \<Rightarrow> 'p option" and step :: "'s \<Rightarrow> 'p option \<Rightarrow> 'p option"
    and places :: "'s \<Rightarrow> 'p list"
  assumes start_hd: "ok s \<Longrightarrow> start s = (if places s = [] then None else Some (hd (places s)))"
    and steps: "ok s \<Longrightarrow> chain (step s) (places s) None"
begin

text \<open>The iterators from the start to the end, and the values that a function reads at them.\<close>

lemma visits:
  assumes "ok s"
  shows "map (\<lambda>i. (step s ^^ i) (start s)) [0..<length (places s)] = map Some (places s)"
    "(step s ^^ length (places s)) (start s) = None"
proof -
  have "map (\<lambda>i. (step s ^^ i) (start s)) [0..<length (places s)] = map Some (places s)
      \<and> (step s ^^ length (places s)) (start s) = None"
    using chain_funpow [OF steps [OF assms]] start_hd [OF assms] by (cases "places s = []") simp_all
  then show "map (\<lambda>i. (step s ^^ i) (start s)) [0..<length (places s)] = map Some (places s)"
    "(step s ^^ length (places s)) (start s) = None" by auto
qed

lemma reads:
  assumes "ok s" "map (get s) (places s) = xs"
  shows "map (\<lambda>i. map_option (get s) ((step s ^^ i) (start s))) [0..<length xs] = map Some xs"
    "(step s ^^ length xs) (start s) = None"
proof -
  have len: "length xs = length (places s)" using assms(2) by auto
  have "map (\<lambda>i. map_option (get s) ((step s ^^ i) (start s))) [0..<length xs]
      = map (map_option (get s)) (map (\<lambda>i. (step s ^^ i) (start s)) [0..<length (places s)])"
    by (simp add: len)
  also have "\<dots> = map Some xs" unfolding visits(1) [OF assms(1)] using assms(2) by auto
  finally show "map (\<lambda>i. map_option (get s) ((step s ^^ i) (start s))) [0..<length xs] = map Some xs" .
  show "(step s ^^ length xs) (start s) = None" unfolding len by (rule visits(2) [OF assms(1)])
qed

end

end
