(* ===== verification/Red_Black_Tree.thy ===== *)
theory Red_Black_Tree
  imports Iteration
begin

text \<open>
  The red-black tree of \<open>DataStruct/RBTree/rb_tree.h\<close>.  A pointer to a node with its \<open>_parent\<close> chain is a
  position: the subtree at the node and the list of the steps from the node up to the root, each with
  the colour, the value and the other child of the parent.  \<open>None\<close> is a step through a \<open>NULL\<close> pointer.
\<close>

section \<open>Definitions from the code\<close>

datatype colour = RED | BLACK

datatype 'a rb = Leaf | Node (col: colour) (lchild: "'a rb") (val: 'a) (rchild: "'a rb")
  where "col Leaf = BLACK" | "lchild Leaf = Leaf" | "rchild Leaf = Leaf"

text \<open>The parent, seen from its left or from its right child.\<close>

datatype 'a parent =
    LeftOf (pcol: colour) (pval: 'a) (sibling: "'a rb")
  | RightOf (pcol: colour) (sibling: "'a rb") (pval: 'a)

fun up :: "'a rb \<Rightarrow> 'a parent \<Rightarrow> 'a rb" where
  "up t (LeftOf c v r) = Node c t v r"
| "up t (RightOf c l v) = Node c l v t"

abbreviation zip_up :: "'a rb \<Rightarrow> 'a parent list \<Rightarrow> 'a rb" where
  "zip_up \<equiv> foldl up"

subsection \<open>insert\<close>

text \<open>The search for the place of the new node; \<open>None\<close> if the value is there.\<close>

fun descend :: "'a::linorder \<Rightarrow> 'a rb \<Rightarrow> 'a parent list \<Rightarrow> 'a parent list option" where
  "descend value Leaf ps = Some ps"
| "descend value (Node c l v r) ps =
     (if v < value then descend value r (RightOf c l v # ps)
      else if value < v then descend value l (LeftOf c v r # ps)
      else None)"

fun rotate_left :: "'a rb \<Rightarrow> 'a rb option" where
  "rotate_left (Node c l v (Node c' rl v' rr)) = Some (Node c' (Node c l v rl) v' rr)"
| "rotate_left t = None"

fun rotate_right :: "'a rb \<Rightarrow> 'a rb option" where
  "rotate_right (Node c (Node c' ll v' lr) v r) = Some (Node c' ll v' (Node c lr v r))"
| "rotate_right t = None"

fun paint :: "colour \<Rightarrow> 'a rb \<Rightarrow> 'a rb" where
  "paint c Leaf = Leaf"
| "paint c (Node c' l v r) = Node c l v r"

definition paint_sibling :: "colour \<Rightarrow> 'a parent \<Rightarrow> 'a parent" where
  "paint_sibling c p =
     (case p of LeftOf pc v r \<Rightarrow> LeftOf pc v (paint c r) | RightOf pc l v \<Rightarrow> RightOf pc (paint c l) v)"

text \<open>
  The rotations when the uncle is not red: \<open>parent\<close> first, if \<open>cur\<close> is on the inner side (then \<open>_swap\<close>
  exchanges the names \<open>parent\<close> and \<open>cur\<close>), then \<open>grandfather\<close>; the top becomes black, the old
  grandfather red.
\<close>

fun rotate_grandfather :: "'a rb \<Rightarrow> 'a parent \<Rightarrow> 'a parent \<Rightarrow> 'a rb option" where
  "rotate_grandfather cur p (LeftOf c v uncle) =
     (case (case p of RightOf _ _ _ \<Rightarrow> rotate_left (up cur p) | LeftOf _ _ _ \<Rightarrow> Some (up cur p)) of
        None \<Rightarrow> None
      | Some parent \<Rightarrow>
          (case rotate_right (Node c parent v uncle) of
             Some (Node _ l v' r) \<Rightarrow> Some (Node BLACK l v' (paint RED r)) | _ \<Rightarrow> None))"
| "rotate_grandfather cur p (RightOf c uncle v) =
     (case (case p of LeftOf _ _ _ \<Rightarrow> rotate_right (up cur p) | RightOf _ _ _ \<Rightarrow> Some (up cur p)) of
        None \<Rightarrow> None
      | Some parent \<Rightarrow>
          (case rotate_left (Node c uncle v parent) of
             Some (Node _ l v' r) \<Rightarrow> Some (Node BLACK (paint RED l) v' r) | _ \<Rightarrow> None))"

text \<open>
  The loop \<open>while (parent && RED == parent->_col)\<close>.  With a red uncle it goes on from the grandfather if
  that has a red parent; after the rotations the parent is black, so the loop ends.
\<close>

fun fix_loop :: "'a rb \<Rightarrow> 'a parent list \<Rightarrow> 'a rb option" where
  "fix_loop cur [] = Some cur"
| "fix_loop cur [p] = (if pcol p = RED then None else Some (up cur p))"
| "fix_loop cur (p # g # ps) =
     (if pcol p = RED
      then if col (sibling g) = RED
           then fix_loop (paint RED (up (paint BLACK (up cur p)) (paint_sibling BLACK g))) ps
           else map_option (\<lambda>t. zip_up t ps) (rotate_grandfather cur p g)
      else Some (zip_up cur (p # g # ps)))"

definition insert_rb :: "'a::linorder \<Rightarrow> 'a rb \<Rightarrow> (bool \<times> 'a rb) option" where
  "insert_rb value root =
     (if root = Leaf then Some (True, Node BLACK Leaf value Leaf)
      else (case descend value root [] of
              None \<Rightarrow> Some (False, root)
            | Some ps \<Rightarrow>
                let cur = Node RED Leaf value Leaf in
                if ps \<noteq> [] \<and> pcol (hd ps) = BLACK then Some (True, zip_up cur ps)
                else map_option (\<lambda>t. (True, paint BLACK t)) (fix_loop cur ps)))"

subsection \<open>is_rb_tree\<close>

fun left_blacks :: "'a rb \<Rightarrow> nat" where
  "left_blacks Leaf = 0"
| "left_blacks (Node c l v r) = (if c = BLACK then 1 else 0) + left_blacks l"

text \<open>The second argument is the colour of the parent, if there is one.\<close>

fun check_rb :: "'a rb \<Rightarrow> colour option \<Rightarrow> nat \<Rightarrow> nat \<Rightarrow> bool" where
  "check_rb Leaf pc black_node_number k \<longleftrightarrow> k = black_node_number"
| "check_rb (Node c l v r) pc black_node_number k \<longleftrightarrow>
     \<not> (c = RED \<and> pc = Some RED)
     \<and> check_rb l (Some c) (if c = BLACK then black_node_number + 1 else black_node_number) k
     \<and> check_rb r (Some c) (if c = BLACK then black_node_number + 1 else black_node_number) k"

definition is_rb_tree :: "'a rb \<Rightarrow> bool" where
  "is_rb_tree root \<longleftrightarrow> root = Leaf \<or> check_rb root None 0 (left_blacks root)"

subsection \<open>Iterators\<close>

text \<open>An iterator is a position in the tree, or \<open>None\<close> for \<open>NULL\<close>.\<close>

type_synonym 'a iterator = "('a rb \<times> 'a parent list) option"

fun leftmost :: "'a rb \<Rightarrow> 'a parent list \<Rightarrow> 'a rb \<times> 'a parent list" where
  "leftmost (Node c (Node c' l' v' r') v r) ps = leftmost (Node c' l' v' r') (LeftOf c v r # ps)"
| "leftmost t ps = (t, ps)"

fun rightmost :: "'a rb \<Rightarrow> 'a parent list \<Rightarrow> 'a rb \<times> 'a parent list" where
  "rightmost (Node c l v (Node c' l' v' r')) ps = rightmost (Node c' l' v' r') (RightOf c l v # ps)"
| "rightmost t ps = (t, ps)"

text \<open>\<open>while (parent && parent->_right == cur)\<close>, then \<open>_node = parent\<close>; and its mirror image.\<close>

fun climb_right :: "'a rb \<Rightarrow> 'a parent list \<Rightarrow> 'a iterator" where
  "climb_right t [] = None"
| "climb_right t (RightOf c l v # ps) = climb_right (up t (RightOf c l v)) ps"
| "climb_right t (LeftOf c v r # ps) = Some (up t (LeftOf c v r), ps)"

fun climb_left :: "'a rb \<Rightarrow> 'a parent list \<Rightarrow> 'a iterator" where
  "climb_left t [] = None"
| "climb_left t (LeftOf c v r # ps) = climb_left (up t (LeftOf c v r)) ps"
| "climb_left t (RightOf c l v # ps) = Some (up t (RightOf c l v), ps)"

text \<open>\<open>operator++\<close> tests for a left child of its parent first, and then climbs.\<close>

definition increment :: "'a iterator \<Rightarrow> 'a iterator" where
  "increment it =
     (case it of
        None \<Rightarrow> None
      | Some (t, ps) \<Rightarrow>
          if rchild t \<noteq> Leaf then Some (leftmost (rchild t) (RightOf (col t) (lchild t) (val t) # ps))
          else (case ps of
                  LeftOf c v r # ps' \<Rightarrow> Some (Node c t v r, ps')
                | _ \<Rightarrow> climb_right t ps))"

definition decrement :: "'a iterator \<Rightarrow> 'a iterator" where
  "decrement it =
     (case it of
        None \<Rightarrow> None
      | Some (t, ps) \<Rightarrow>
          if lchild t \<noteq> Leaf then Some (rightmost (lchild t) (LeftOf (col t) (val t) (rchild t) # ps))
          else climb_left t ps)"

definition Begin :: "'a rb \<Rightarrow> 'a iterator" where
  "Begin root = (if root = Leaf then None else Some (leftmost root []))"

definition rBegin :: "'a rb \<Rightarrow> 'a iterator" where
  "rBegin root = (if root = Leaf then None else Some (rightmost root []))"

section \<open>The values in order\<close>

fun inorder :: "'a rb \<Rightarrow> 'a list" where
  "inorder Leaf = []"
| "inorder (Node c l v r) = inorder l @ v # inorder r"

fun before :: "'a parent list \<Rightarrow> 'a list" where
  "before [] = []"
| "before (LeftOf c v r # ps) = before ps"
| "before (RightOf c l v # ps) = before ps @ inorder l @ [v]"

fun behind :: "'a parent list \<Rightarrow> 'a list" where
  "behind [] = []"
| "behind (LeftOf c v r # ps) = v # inorder r @ behind ps"
| "behind (RightOf c l v # ps) = behind ps"

lemma inorder_zip: "inorder (zip_up t ps) = before ps @ inorder t @ behind ps"
proof (induction ps arbitrary: t)
  case (Cons p ps)
  then show ?case by (cases p) simp_all
qed simp

lemma inorder_paint [simp]: "inorder (paint c t) = inorder t"
  by (cases t) simp_all

lemma descend_between:
  "descend value t ps = Some qs \<Longrightarrow> sorted (inorder t) \<Longrightarrow> distinct (inorder t) \<Longrightarrow>
   \<exists>xs ys. inorder t = xs @ ys \<and> before qs = before ps @ xs \<and> behind qs = ys @ behind ps
     \<and> (\<forall>x \<in> set xs. x < value) \<and> (\<forall>y \<in> set ys. value < y)"
proof (induction t arbitrary: ps)
  case (Node c l v r)
  show ?case
  proof (cases "v < value")
    case True
    then obtain xs ys where "inorder r = xs @ ys" "before qs = before ps @ inorder l @ v # xs"
        "behind qs = ys @ behind ps" "\<forall>x \<in> set xs. x < value" "\<forall>y \<in> set ys. value < y"
      using Node.IH(2) [of "RightOf c l v # ps"] Node.prems by (auto simp: sorted_append)
    then show ?thesis using True Node.prems
      by (intro exI [of _ "inorder l @ v # xs"] exI [of _ ys]) (auto simp: sorted_append)
  next
    case False
    then have lt: "value < v" and "descend value l (LeftOf c v r # ps) = Some qs"
      using Node.prems(1) by (auto split: if_splits)
    then obtain xs ys where "inorder l = xs @ ys" "before qs = before ps @ xs"
        "behind qs = ys @ v # inorder r @ behind ps" "\<forall>x \<in> set xs. x < value" "\<forall>y \<in> set ys. value < y"
      using Node.IH(1) [of "LeftOf c v r # ps"] Node.prems by (auto simp: sorted_append)
    then show ?thesis using lt Node.prems
      by (intro exI [of _ xs] exI [of _ "ys @ v # inorder r"]) (auto simp: sorted_append)
  qed
qed simp

lemma descend_found: "descend value t ps = None \<Longrightarrow> value \<in> set (inorder t)"
  by (induction t arbitrary: ps) (auto split: if_splits)

section \<open>The red-black invariants\<close>

fun no_red_red :: "'a rb \<Rightarrow> bool" where
  "no_red_red Leaf \<longleftrightarrow> True"
| "no_red_red (Node c l v r) \<longleftrightarrow>
     (c = RED \<longrightarrow> col l = BLACK \<and> col r = BLACK) \<and> no_red_red l \<and> no_red_red r"

fun black_balanced :: "'a rb \<Rightarrow> bool" where
  "black_balanced Leaf \<longleftrightarrow> True"
| "black_balanced (Node c l v r) \<longleftrightarrow> left_blacks l = left_blacks r \<and> black_balanced l \<and> black_balanced r"

definition rb_ok :: "'a::linorder rb \<Rightarrow> bool" where
  "rb_ok t \<longleftrightarrow> sorted (inorder t) \<and> distinct (inorder t) \<and> col t = BLACK \<and> no_red_red t \<and> black_balanced t"

text \<open>The same for the steps up from a subtree with \<open>n\<close> black nodes on each way down.\<close>

definition black_parent :: "'a parent list \<Rightarrow> bool" where
  "black_parent ps \<longleftrightarrow> ps = [] \<or> pcol (hd ps) = BLACK"

fun parents_ok :: "nat \<Rightarrow> 'a parent list \<Rightarrow> bool" where
  "parents_ok n [] \<longleftrightarrow> True"
| "parents_ok n (p # ps) \<longleftrightarrow>
     left_blacks (sibling p) = n \<and> black_balanced (sibling p) \<and> no_red_red (sibling p)
     \<and> (pcol p = RED \<longrightarrow> col (sibling p) = BLACK \<and> ps \<noteq> [] \<and> black_parent ps)
     \<and> parents_ok (if pcol p = BLACK then n + 1 else n) ps"

lemma black_parent_simps [simp]: "black_parent []" "black_parent (p # ps) \<longleftrightarrow> pcol p = BLACK"
  by (simp_all add: black_parent_def)

lemma zip_up_ok:
  "no_red_red t \<Longrightarrow> black_balanced t \<Longrightarrow> parents_ok (left_blacks t) ps \<Longrightarrow> col t = BLACK \<or> black_parent ps \<Longrightarrow>
   no_red_red (zip_up t ps) \<and> black_balanced (zip_up t ps) \<and> (ps \<noteq> [] \<longrightarrow> col (zip_up t ps) = BLACK)"
proof (induction ps arbitrary: t)
  case (Cons p ps)
  have "no_red_red (up t p)" "black_balanced (up t p)" "col (up t p) = pcol p"
    "left_blacks (up t p) = (if pcol p = BLACK then left_blacks t + 1 else left_blacks t)"
    using Cons.prems by (cases p; auto)+
  moreover have "col (up t p) = BLACK \<or> black_parent ps" "ps = [] \<longrightarrow> pcol p = BLACK"
    using Cons.prems by (cases p; cases "pcol p"; auto)+
  ultimately show ?case using Cons.IH [of "up t p"] Cons.prems(3) by auto
qed simp

lemma zip_of_descend:
  "descend value t ps = Some qs \<Longrightarrow> zip_up Leaf qs = zip_up t ps"
  by (induction t arbitrary: ps) (auto split: if_splits)

lemma descend_parents:
  "descend value t ps = Some qs \<Longrightarrow> no_red_red t \<Longrightarrow> black_balanced t \<Longrightarrow> parents_ok (left_blacks t) ps \<Longrightarrow>
   col t = BLACK \<or> ps \<noteq> [] \<and> black_parent ps \<Longrightarrow> parents_ok 0 qs \<and> (t \<noteq> Leaf \<or> ps \<noteq> [] \<longrightarrow> qs \<noteq> [])"
proof (induction t arbitrary: ps)
  case (Node c l v r)
  have "col l = BLACK \<or> c = BLACK" "col r = BLACK \<or> c = BLACK" using Node.prems(2) by (cases c; auto)+
  moreover have "left_blacks (Node c l v r) = (if c = BLACK then left_blacks l + 1 else left_blacks l)" by simp
  ultimately show ?case
    using Node.prems Node.IH(1) [of "LeftOf c v r # ps"] Node.IH(2) [of "RightOf c l v # ps"]
    by (cases c) (auto split: if_splits)
qed auto

section \<open>Insertion\<close>

lemma rotate_ok:
  assumes "col cur = RED" "no_red_red cur" "black_balanced cur" "pcol p = RED" "pcol g = BLACK"
    and "col (sibling g) = BLACK" "parents_ok (left_blacks cur) (p # g # ps)"
  shows "\<exists>t. rotate_grandfather cur p g = Some t \<and> inorder t = inorder (up (up cur p) g)
    \<and> col t = BLACK \<and> no_red_red t \<and> black_balanced t \<and> left_blacks t = left_blacks cur + 1"
proof -
  obtain l v r where cur: "cur = Node RED l v r" using assms(1) by (cases cur) auto
  show ?thesis
  proof (cases g)
    case (LeftOf c w u)
    then show ?thesis using assms cur by (cases p) auto
  next
    case (RightOf c u w)
    then show ?thesis using assms cur by (cases p) auto
  qed
qed

lemma recolour_ok:
  assumes "col cur = RED" "no_red_red cur" "black_balanced cur" "pcol p = RED" "pcol g = BLACK"
    and "col (sibling g) = RED" "parents_ok (left_blacks cur) (p # g # ps)"
  defines "t \<equiv> paint RED (up (paint BLACK (up cur p)) (paint_sibling BLACK g))"
  shows "inorder t = inorder (up (up cur p) g)" "col t = RED" "no_red_red t" "black_balanced t"
    "left_blacks t = left_blacks cur + 1"
proof -
  obtain l v r where cur: "cur = Node RED l v r" using assms(1) by (cases cur) auto
  obtain ul uv ur where u: "sibling g = Node RED ul uv ur" using assms(6) by (cases "sibling g") auto
  have "inorder t = inorder (up (up cur p) g) \<and> col t = RED \<and> no_red_red t \<and> black_balanced t
      \<and> left_blacks t = left_blacks cur + 1"
    using assms(2-7) cur u unfolding t_def paint_sibling_def by (cases p; cases g) auto
  then show "inorder t = inorder (up (up cur p) g)" "col t = RED" "no_red_red t" "black_balanced t"
    "left_blacks t = left_blacks cur + 1" by auto
qed

lemma before_behind_up: "before (p # ps) @ inorder t @ behind (p # ps) = before ps @ inorder (up t p) @ behind ps"
  by (cases p) simp_all

lemma fix_loop_ok:
  "col cur = RED \<Longrightarrow> no_red_red cur \<Longrightarrow> black_balanced cur \<Longrightarrow> parents_ok (left_blacks cur) ps \<Longrightarrow>
   \<exists>t. fix_loop cur ps = Some t \<and> t \<noteq> Leaf \<and> inorder t = before ps @ inorder cur @ behind ps
     \<and> no_red_red t \<and> black_balanced t"
proof (induction cur ps rule: fix_loop.induct)
  case (1 cur)
  then show ?case by auto
next
  case (2 cur p)
  then have "pcol p = BLACK" by (cases "pcol p") auto
  then have "no_red_red (up cur p) \<and> black_balanced (up cur p)" using zip_up_ok [of cur "[p]"] 2 by simp
  then show ?case using \<open>pcol p = BLACK\<close> by (cases p) auto
next
  case (3 cur p g ps)
  note eq = before_behind_up
  show ?case
  proof (cases "pcol p")
    case RED
    have g: "pcol g = BLACK" using "3.prems"(4) RED by simp
    show ?thesis
    proof (cases "col (sibling g)")
      case [simp]: RED
      let ?t = "paint RED (up (paint BLACK (up cur p)) (paint_sibling BLACK g))"
      note t = recolour_ok [OF "3.prems"(1-3) \<open>pcol p = RED\<close> g RED "3.prems"(4)]
      have "parents_ok (left_blacks ?t) ps" using "3.prems"(4) \<open>pcol p = RED\<close> g unfolding t(5) by simp
      from "3.IH" [OF \<open>pcol p = RED\<close> RED t(2-4) this]
      show ?thesis using \<open>pcol p = RED\<close> unfolding t(1) eq by simp
    next
      case BLACK
      then have "col (sibling g) \<noteq> RED" by simp
      obtain t where t: "rotate_grandfather cur p g = Some t" "inorder t = inorder (up (up cur p) g)"
          "col t = BLACK" "no_red_red t" "black_balanced t" "left_blacks t = left_blacks cur + 1"
        using rotate_ok [OF "3.prems"(1-3) RED g BLACK "3.prems"(4)] by blast
      have "parents_ok (left_blacks t) ps" using "3.prems"(4) RED g unfolding t(6) by simp
      then have "no_red_red (zip_up t ps) \<and> black_balanced (zip_up t ps)"
        using zip_up_ok [OF t(4,5)] t(3) by simp
      moreover have "zip_up t ps \<noteq> Leaf" using arg_cong [OF t(2), of length] inorder_zip [of t ps]
        by (cases p; cases g) auto
      ultimately show ?thesis using RED BLACK t(1,2) unfolding eq by (simp add: inorder_zip)
    qed
  next
    case BLACK
    then have "no_red_red (zip_up cur (p # g # ps)) \<and> black_balanced (zip_up cur (p # g # ps))"
      using zip_up_ok [OF "3.prems"(2-4)] by simp
    moreover have "zip_up cur (p # g # ps) \<noteq> Leaf" using inorder_zip [of cur "p # g # ps"] "3.prems"(1)
      by (cases cur) auto
    ultimately show ?thesis using BLACK inorder_zip [of cur "p # g # ps"] by simp
  qed
qed

lemma paint_black_ok:
  "no_red_red t \<Longrightarrow> black_balanced t \<Longrightarrow> col (paint BLACK t) = BLACK \<and> no_red_red (paint BLACK t) \<and> black_balanced (paint BLACK t)"
  by (cases t) auto

lemma insert_rb_ok:
  assumes "rb_ok t"
  shows "\<exists>t'. insert_rb value t = Some (value \<notin> set (inorder t), t') \<and> rb_ok t'
    \<and> inorder t' = (if value \<in> set (inorder t) then inorder t else insort value (inorder t))"
proof (cases "t = Leaf")
  case True
  then show ?thesis by (simp add: insert_rb_def rb_ok_def)
next
  case False
  note ok = assms [unfolded rb_ok_def]
  show ?thesis
  proof (cases "descend value t []")
    case None
    then show ?thesis using False assms descend_found [OF None] by (simp add: insert_rb_def)
  next
    case (Some ps)
    have ps: "parents_ok 0 ps" "ps \<noteq> []" using descend_parents [OF Some] ok False by simp_all
    obtain xs ys where xy: "inorder t = xs @ ys" "before ps = xs" "behind ps = ys"
        "\<forall>x \<in> set xs. x < value" "\<forall>y \<in> set ys. value < y"
      using descend_between [OF Some] ok by auto
    have new: "value \<notin> set (inorder t)" using xy by auto
    have ins: "xs @ value # ys = insort value (inorder t)"
      using xy(1,4,5) ok by (intro sorted_distinct_set_unique)
        (auto simp: sorted_append sorted_insort distinct_insort set_insort_key new [unfolded xy(1)])
    let ?cur = "Node RED Leaf value Leaf"
    have good: "rb_ok t'" if "inorder t' = insort value (inorder t)" "col t' = BLACK" "no_red_red t'" "black_balanced t'" for t'
      using that new ok unfolding rb_ok_def by (simp add: sorted_insort distinct_insort)
    show ?thesis
    proof (cases "pcol (hd ps)")
      case RED
      obtain t' where t': "fix_loop ?cur ps = Some t'" "inorder t' = xs @ value # ys" "no_red_red t'" "black_balanced t'"
        using fix_loop_ok [of ?cur ps] ps xy by auto
      then have "insert_rb value t = Some (True, paint BLACK t')" using RED Some False by (simp add: insert_rb_def)
      moreover have "rb_ok (paint BLACK t')" using paint_black_ok [OF t'(3,4)] t'(2) ins by (intro good) simp_all
      ultimately show ?thesis using t'(2) ins new by simp
    next
      case BLACK
      then have "insert_rb value t = Some (True, zip_up ?cur ps)" using ps Some False by (simp add: insert_rb_def)
      moreover have z: "inorder (zip_up ?cur ps) = insort value (inorder t)" using xy ins by (simp add: inorder_zip)
      moreover have "rb_ok (zip_up ?cur ps)"
        using zip_up_ok [of ?cur ps] ps BLACK z by (intro good) (auto simp: black_parent_def)
      ultimately show ?thesis using new by simp
    qed
  qed
qed

text \<open>The calls of \<open>insert\<close> one after the other, with what they return.\<close>

fun insert_all :: "'a::linorder list \<Rightarrow> 'a rb \<Rightarrow> (bool list \<times> 'a rb) option" where
  "insert_all [] t = Some ([], t)"
| "insert_all (x # xs) t =
     (case insert_rb x t of None \<Rightarrow> None
      | Some (b, t') \<Rightarrow> map_option (\<lambda>(bs, u). (b # bs, u)) (insert_all xs t'))"

lemma insert_all_ok:
  "rb_ok t \<Longrightarrow> \<exists>u. insert_all xs t = Some (map (\<lambda>i. xs ! i \<notin> set (inorder t) \<union> set (take i xs)) [0..<length xs], u)
     \<and> rb_ok u \<and> set (inorder u) = set (inorder t) \<union> set xs"
proof (induction xs arbitrary: t)
  case (Cons x xs)
  obtain t' where t': "insert_rb x t = Some (x \<notin> set (inorder t), t')" "rb_ok t'"
      "inorder t' = (if x \<in> set (inorder t) then inorder t else insort x (inorder t))"
    using insert_rb_ok [OF Cons.prems] by blast
  have set: "set (inorder t') = Set.insert x (set (inorder t))"
    unfolding t'(3) by (auto simp: set_insort_key)
  obtain u where u: "insert_all xs t' = Some (map (\<lambda>i. xs ! i \<notin> set (inorder t') \<union> set (take i xs)) [0..<length xs], u)"
      "rb_ok u" "set (inorder u) = set (inorder t') \<union> set xs"
    using Cons.IH [OF t'(2)] by blast
  have "map (\<lambda>i. (x # xs) ! i \<notin> set (inorder t) \<union> set (take i (x # xs))) [0..<length (x # xs)]
      = (x \<notin> set (inorder t)) # map (\<lambda>i. xs ! i \<notin> set (inorder t') \<union> set (take i xs)) [0..<length xs]"
    unfolding set by (auto simp: map_upt_Suc simp del: upt_Suc)
  then show ?case using t'(1) u set by (simp del: upt_Suc)
qed simp

section \<open>The check and the height\<close>

lemma check_rb_iff:
  "check_rb t pc n k \<longleftrightarrow> no_red_red t \<and> (col t = RED \<longrightarrow> pc \<noteq> Some RED) \<and> black_balanced t \<and> k = n + left_blacks t"
proof (induction t arbitrary: pc n)
  case (Node c l v r)
  have "col u = BLACK \<longleftrightarrow> col u \<noteq> RED" for u :: "'a rb" by (cases "col u") simp_all
  then show ?case by (cases c) (auto simp: Node.IH)
qed auto

lemma is_rb_tree_iff: "is_rb_tree t \<longleftrightarrow> no_red_red t \<and> black_balanced t"
  by (auto simp: is_rb_tree_def check_rb_iff)

fun height :: "'a rb \<Rightarrow> nat" where
  "height Leaf = 0"
| "height (Node c l v r) = Suc (max (height l) (height r))"

lemma height_blacks:
  "no_red_red t \<Longrightarrow> black_balanced t \<Longrightarrow> height t \<le> 2 * left_blacks t + (if col t = RED then 1 else 0)"
proof (induction t)
  case (Node c l v r)
  then show ?case by (cases c) (auto split: if_splits)
qed simp

lemma blacks_length: "black_balanced t \<Longrightarrow> 2 ^ left_blacks t \<le> length (inorder t) + 1"
proof (induction t)
  case (Node c l v r)
  then have "2 ^ left_blacks l \<le> length (inorder l) + 1" "2 ^ left_blacks l \<le> length (inorder r) + 1" by simp_all
  then show ?case by (cases c) simp_all
qed simp

lemma height_bound: "rb_ok t \<Longrightarrow> 2 ^ (height t div 2) \<le> length (inorder t) + 1"
proof -
  assume "rb_ok t"
  then have ok: "no_red_red t" "black_balanced t" "col t = BLACK" by (simp_all add: rb_ok_def)
  then have "height t div 2 \<le> left_blacks t" using height_blacks [OF ok(1,2)] by simp
  then have "(2 :: nat) ^ (height t div 2) \<le> 2 ^ left_blacks t" by (intro power_increasing) simp_all
  then show ?thesis using blacks_length [OF ok(2)] by (rule order_trans)
qed

lemma descend_height: "descend value t ps = Some qs \<Longrightarrow> length qs \<le> length ps + height t"
proof (induction t arbitrary: ps)
  case (Node c l v r)
  then show ?case
    using Node.IH(1) [of "LeftOf c v r # ps"] Node.IH(2) [of "RightOf c l v # ps"] by (auto split: if_splits)
qed simp

section \<open>Iteration\<close>

text \<open>The positions of the nodes in order.\<close>

fun places :: "'a rb \<Rightarrow> 'a parent list \<Rightarrow> ('a rb \<times> 'a parent list) list" where
  "places Leaf ps = []"
| "places (Node c l v r) ps =
     places l (LeftOf c v r # ps) @ (Node c l v r, ps) # places r (RightOf c l v # ps)"

lemma places_inorder: "map (\<lambda>x. val (fst x)) (places t ps) = inorder t"
  by (induction t arbitrary: ps) simp_all

lemma places_empty [simp]: "places t ps = [] \<longleftrightarrow> t = Leaf"
  by (cases t) simp_all

lemma hd_places: "t \<noteq> Leaf \<Longrightarrow> hd (places t ps) = leftmost t ps"
  by (induction t ps rule: leftmost.induct) (auto simp: hd_append)

lemma last_places: "t \<noteq> Leaf \<Longrightarrow> last (places t ps) = rightmost t ps"
  by (induction t ps rule: rightmost.induct) auto

lemma increment_climb:
  "increment (Some (t, ps)) =
     (if rchild t \<noteq> Leaf then Some (leftmost (rchild t) (RightOf (col t) (lchild t) (val t) # ps)) else climb_right t ps)"
  by (cases ps; cases "hd ps") (auto simp: increment_def split: list.split parent.split)

lemma decrement_climb:
  "decrement (Some (t, ps)) =
     (if lchild t \<noteq> Leaf then Some (rightmost (lchild t) (LeftOf (col t) (val t) (rchild t) # ps)) else climb_left t ps)"
  by (simp add: decrement_def)

lemma chain_increment: "t \<noteq> Leaf \<Longrightarrow> chain increment (places t ps) (climb_right t ps)"
proof (induction t arbitrary: ps)
  case (Node c l v r)
  have "chain increment (places l (LeftOf c v r # ps)) (Some (Node c l v r, ps))"
    using Node.IH(1) [of "LeftOf c v r # ps"] by (cases "l = Leaf") simp_all
  moreover have "chain increment (places r (RightOf c l v # ps)) (climb_right (Node c l v r) ps)"
    using Node.IH(2) [of "RightOf c l v # ps"] by (cases "r = Leaf") simp_all
  ultimately show ?case by (simp add: chain_append increment_climb hd_places)
qed simp

lemma chain_decrement: "t \<noteq> Leaf \<Longrightarrow> chain decrement (rev (places t ps)) (climb_left t ps)"
proof (induction t arbitrary: ps)
  case (Node c l v r)
  have "chain decrement (rev (places l (LeftOf c v r # ps))) (climb_left (Node c l v r) ps)"
    using Node.IH(1) [of "LeftOf c v r # ps"] by (cases "l = Leaf") simp_all
  moreover have "chain decrement (rev (places r (RightOf c l v # ps))) (Some (Node c l v r, ps))"
    using Node.IH(2) [of "RightOf c l v # ps"] by (cases "r = Leaf") simp_all
  ultimately show ?case by (simp add: chain_append decrement_climb hd_rev last_places)
qed simp

interpretation forward: iteration "\<lambda>t. True" Begin "\<lambda>t. increment" "\<lambda>t. places t []"
proof
  show "Begin t = (if places t [] = [] then None else Some (hd (places t [])))" for t :: "'a rb"
    by (simp add: Begin_def hd_places)
  show "chain increment (places t []) None" for t :: "'a rb"
    using chain_increment [of t "[]"] by (cases "t = Leaf") simp_all
qed

interpretation backward: iteration "\<lambda>t. True" rBegin "\<lambda>t. decrement" "\<lambda>t. rev (places t [])"
proof
  show "rBegin t = (if rev (places t []) = [] then None else Some (hd (rev (places t []))))" for t :: "'a rb"
    by (simp add: rBegin_def hd_rev last_places)
  show "chain decrement (rev (places t [])) None" for t :: "'a rb"
    using chain_decrement [of t "[]"] by (cases "t = Leaf") simp_all
qed

section \<open>Properties\<close>

text \<open>
  C15. Any sequence of insertions into an empty tree succeeds and refines the insertions into a set: each
  returns whether the value is new, and at the end the values in order are the elements of the set.  The tree
  is a red-black tree: its root is black, no red node has a red child, all ways down have the same number of
  black nodes, and its height is logarithmic, so that a search takes at most \<open>2 log (n + 1) + 1\<close> turns.
\<close>

theorem rb_tree_refines_set:
  "\<exists>t. insert_all xs Leaf = Some (map (\<lambda>i. xs ! i \<notin> set (take i xs)) [0..<length xs], t)
    \<and> inorder t = sorted_list_of_set (set xs)
    \<and> col t = BLACK \<and> no_red_red t \<and> black_balanced t \<and> is_rb_tree t
    \<and> 2 ^ (height t div 2) \<le> card (set xs) + 1"
proof -
  have "rb_ok (Leaf :: 'a rb)" by (simp add: rb_ok_def)
  then obtain t where t: "insert_all xs Leaf = Some (map (\<lambda>i. xs ! i \<notin> set (take i xs)) [0..<length xs], t)"
      "rb_ok t" "set (inorder t) = set xs"
    using insert_all_ok [of Leaf xs] by auto
  note ok = t(2) [unfolded rb_ok_def]
  have order: "inorder t = sorted_list_of_set (set xs)"
    using ok t(3) by (intro sorted_distinct_set_unique) simp_all
  then have "length (inorder t) = card (set xs)" by simp
  then show ?thesis using t(1) order ok height_bound [OF t(2)] by (auto simp: is_rb_tree_iff)
qed

text \<open>
  The check \<open>is_rb_tree\<close> accepts exactly the trees without a red child of a red node whose ways down have
  equally many black nodes; that the root is black, which every insertion makes sure of, is not part of it.
\<close>

theorem is_rb_tree_decides: "is_rb_tree t \<longleftrightarrow> no_red_red t \<and> black_balanced t"
  by (rule is_rb_tree_iff)

text \<open>
  C26. From \<open>Begin()\<close> the operator \<open>++\<close> visits the values of the tree in order, once each, and then is \<open>End()\<close>;
  from \<open>rBegin()\<close> the operator \<open>--\<close> visits them in the opposite order.  This holds for every tree.
\<close>

theorem rb_iteration:
  "map (\<lambda>i. map_option (\<lambda>x. val (fst x)) ((increment ^^ i) (Begin t))) [0..<length (inorder t)] = map Some (inorder t)
   \<and> (increment ^^ length (inorder t)) (Begin t) = None
   \<and> map (\<lambda>i. map_option (\<lambda>x. val (fst x)) ((decrement ^^ i) (rBegin t))) [0..<length (inorder t)]
     = map Some (rev (inorder t))
   \<and> (decrement ^^ length (inorder t)) (rBegin t) = None"
  using forward.reads [where s = t and get = "\<lambda>t x. val (fst x)", OF TrueI places_inorder]
    backward.reads [where s = t and get = "\<lambda>t x. val (fst x)" and xs = "rev (inorder t)"]
  by (simp add: rev_map flip: places_inorder [of t "[]"])

end
