(* ===== verification/Hash_Table.thy ===== *)
theory Hash_Table
  imports Iteration "HOL-Library.Multiset"
begin

text \<open>
  The two hash tables of \<open>DataStruct/HashTable/hash_table.h\<close>.  The function object \<open>HashFunc\<close> is the
  argument \<open>hf\<close> of the operations, and a \<open>size_t\<close> is a natural number.  In \<open>BUCK\<close> a pointer to a node is
  the chain that starts there, \<open>[]\<close> for \<open>NULL\<close>; in \<open>OPEN\<close> the fields of a node that is \<open>EMPTY\<close> are never
  read.  \<open>None\<close> is undefined behaviour: an access outside the table, a division by 0 or an overflow.
\<close>

section \<open>Definitions from the code\<close>

definition sprime_list :: "nat list" where
  "sprime_list =
    [53, 97, 193, 389, 769,
     1543, 3079, 6151, 12289, 24593,
     49157, 98317, 196613, 393241, 786433,
     1572869, 3145739, 6291469, 12582917, 25165843,
     50331653, 100663319, 201326611, 402653189, 805306457,
     1610612741, 3221225473, 4294967291]"

definition get_next_prime :: "nat \<Rightarrow> nat" where
  "get_next_prime n =
     (case find (\<lambda>i. n < sprime_list ! i \<and> i \<noteq> 27) [0..<28] of
        Some i \<Rightarrow> sprime_list ! i | None \<Rightarrow> sprime_list ! 27)"

subsection \<open>The table of buckets\<close>

record ('k, 'v) hash_table =
  tables :: "('k \<times> 'v) list list"
  ht_size :: nat

definition new_hash_table :: "('k, 'v) hash_table" where
  "new_hash_table = \<lparr>tables = [], ht_size = 0\<rparr>"

text \<open>The inner loop of \<open>_checkCapacity\<close>: the nodes of a chain move one by one to the front of their new chains.\<close>

definition rehash_node :: "('k \<Rightarrow> nat) \<Rightarrow> ('k \<times> 'v) \<Rightarrow> ('k \<times> 'v) list list \<Rightarrow> ('k \<times> 'v) list list" where
  "rehash_node hf kv ts =
     (let index = hf (fst kv) mod length ts in ts[index := kv # ts ! index])"

definition checkCapacity :: "('k \<Rightarrow> nat) \<Rightarrow> ('k, 'v) hash_table \<Rightarrow> ('k, 'v) hash_table" where
  "checkCapacity hf t =
     (if length (tables t) = 0 then t\<lparr>tables := replicate (get_next_prime 1) []\<rparr>
      else if ht_size t div length (tables t) \<ge> 1
      then t\<lparr>tables := fold (fold (rehash_node hf)) (tables t)
               (replicate (get_next_prime (length (tables t))) [])\<rparr>
      else t)"

text \<open>The search along a chain.\<close>

fun find_chain :: "'k \<Rightarrow> ('k \<times> 'v) list \<Rightarrow> ('k \<times> 'v) list" where
  "find_chain k [] = []"
| "find_chain k (kv # next) = (if fst kv = k then kv # next else find_chain k next)"

text \<open>\<open>Insert\<close> returns the table, the iterator and whether the key is new.\<close>

definition Insert :: "('k \<Rightarrow> nat) \<Rightarrow> 'k \<times> 'v \<Rightarrow> ('k, 'v) hash_table
    \<Rightarrow> ('k, 'v) hash_table \<times> ('k \<times> 'v) list \<times> bool" where
  "Insert hf kv t =
     (let t1 = checkCapacity hf t;
          index = hf (fst kv) mod length (tables t1);
          cur = find_chain (fst kv) (tables t1 ! index) in
      if cur \<noteq> [] then (t1, cur, False)
      else let tamp = kv # tables t1 ! index in
           (t1\<lparr>tables := (tables t1)[index := tamp], ht_size := ht_size t1 + 1\<rparr>, tamp, True))"

text \<open>\<open>operator[]\<close> inserts the default value \<open>d\<close> and returns the value at the iterator.\<close>

definition subscript :: "('k \<Rightarrow> nat) \<Rightarrow> 'v \<Rightarrow> 'k \<Rightarrow> ('k, 'v) hash_table \<Rightarrow> ('k, 'v) hash_table \<times> 'v" where
  "subscript hf d k t = (case Insert hf (k, d) t of (t', it, _) \<Rightarrow> (t', snd (hd it)))"

text \<open>\<open>table[k] = v\<close> writes the value through the reference.\<close>

definition assign :: "('k \<Rightarrow> nat) \<Rightarrow> 'v \<Rightarrow> 'k \<Rightarrow> 'v \<Rightarrow> ('k, 'v) hash_table \<Rightarrow> ('k, 'v) hash_table" where
  "assign hf d k v t =
     (let t' = fst (subscript hf d k t); index = hf k mod length (tables t') in
      t'\<lparr>tables := (tables t')[index := map (\<lambda>kv. if fst kv = k then (k, v) else kv) (tables t' ! index)]\<rparr>)"

fun first_chain :: "'n list list \<Rightarrow> 'n list option" where
  "first_chain [] = None"
| "first_chain (c # cs) = (if c \<noteq> [] then Some c else first_chain cs)"

definition ht_Begin :: "('k, 'v) hash_table \<Rightarrow> ('k \<times> 'v) list option" where
  "ht_Begin t = first_chain (tables t)"

text \<open>\<open>operator++\<close> looks for the next chain from the index of the key.\<close>

definition ht_increment :: "('k \<Rightarrow> nat) \<Rightarrow> ('k, 'v) hash_table \<Rightarrow> ('k \<times> 'v) list option \<Rightarrow> ('k \<times> 'v) list option" where
  "ht_increment hf t it =
     (case it of
        Some (kv # next) \<Rightarrow>
          if next \<noteq> [] then Some next
          else first_chain (drop (hf (fst kv) mod length (tables t) + 1) (tables t))
      | _ \<Rightarrow> None)"

subsection \<open>The table with open addresses\<close>

datatype ('k, 'v) hs_node = EMPTY | EXIST 'k 'v | DELETE 'k 'v

record ('k, 'v) hs_table =
  slots :: "('k, 'v) hs_node list"
  hs_size :: nat

definition new_hs_table :: "('k, 'v) hs_table" where
  "new_hs_table = \<lparr>slots = [], hs_size = 0\<rparr>"

definition MAX_INT :: nat where "MAX_INT = 2147483647"

text \<open>
  One step of the probing: \<open>index += i; i *= i; if (index > size) index %= size; i++\<close>, where \<open>i * i\<close> may
  overflow.
\<close>

definition next_probe :: "nat \<Rightarrow> nat \<Rightarrow> nat \<Rightarrow> (nat \<times> nat) option" where
  "next_probe n index i =
     (if MAX_INT < i * i then None
      else Some (if index + i > n then (index + i) mod n else index + i, i * i + 1))"

text \<open>
  The two loops: \<open>insert\<close> stops at the first node that does not exist, \<open>find\<close> at the first that is empty.
  The result is the index of the key, or of the free node, or \<open>-1\<close>.
\<close>

function probe_insert :: "('k, 'v) hs_node list \<Rightarrow> 'k \<Rightarrow> nat \<Rightarrow> nat \<Rightarrow> nat option option" where
  "probe_insert ts k index i =
     (if length ts \<le> index then None
      else (case ts ! index of
              EXIST k' v' \<Rightarrow>
                if k' = k then Some None
                else (case next_probe (length ts) index i of
                        None \<Rightarrow> None | Some (index', i') \<Rightarrow> probe_insert ts k index' i')
            | _ \<Rightarrow> Some (Some index)))"
  by pat_completeness auto
termination
proof (relation "measure (\<lambda>(ts, k, index, i). 2 * MAX_INT * MAX_INT - i)", goal_cases)
  case (2 ts k index i k' v' x index' i')
  have "i < i * i + 1" "i * i \<le> MAX_INT" using 2 by (cases i; auto simp: next_probe_def split: if_splits)+
  then show ?case using 2 by (auto simp: next_probe_def MAX_INT_def split: if_splits)
qed simp

function probe_find :: "('k, 'v) hs_node list \<Rightarrow> 'k \<Rightarrow> nat \<Rightarrow> nat \<Rightarrow> nat option option" where
  "probe_find ts k index i =
     (if length ts \<le> index then None
      else (case ts ! index of
              EMPTY \<Rightarrow> Some None
            | EXIST k' v' \<Rightarrow>
                if k' = k then Some (Some index)
                else (case next_probe (length ts) index i of
                        None \<Rightarrow> None | Some (index', i') \<Rightarrow> probe_find ts k index' i')
            | DELETE k' v' \<Rightarrow>
                (case next_probe (length ts) index i of
                   None \<Rightarrow> None | Some (index', i') \<Rightarrow> probe_find ts k index' i')))"
  by pat_completeness auto
termination
proof (relation "measure (\<lambda>(ts, k, index, i). 2 * MAX_INT * MAX_INT - i)", goal_cases)
  case (2 ts k index i k' v' x index' i')
  have "i < i * i + 1" "i * i \<le> MAX_INT" using 2 by (cases i; auto simp: next_probe_def split: if_splits)+
  then show ?case using 2 by (auto simp: next_probe_def MAX_INT_def split: if_splits)
next
  case (3 ts k index i k' v' x index' i')
  have "i < i * i + 1" "i * i \<le> MAX_INT" using 3 by (cases i; auto simp: next_probe_def split: if_splits)+
  then show ?case using 3 by (auto simp: next_probe_def MAX_INT_def split: if_splits)
qed simp

declare probe_insert.simps [simp del] probe_find.simps [simp del]

text \<open>The part of \<open>insert\<close> after the check of the capacity.\<close>

definition hs_put :: "('k \<Rightarrow> nat) \<Rightarrow> 'k \<Rightarrow> 'v \<Rightarrow> ('k, 'v) hs_table \<Rightarrow> (bool \<times> ('k, 'v) hs_table) option" where
  "hs_put hf k v t =
     (case probe_insert (slots t) k (hf k mod length (slots t)) 1 of
        None \<Rightarrow> None
      | Some None \<Rightarrow> Some (False, t)
      | Some (Some index) \<Rightarrow> Some (True, t\<lparr>slots := (slots t)[index := EXIST k v], hs_size := hs_size t + 1\<rparr>))"

text \<open>
  The nodes that exist are inserted into the new table.  The check of the capacity in those insertions
  finds room, as the new table is larger.
\<close>

fun hs_move :: "('k \<Rightarrow> nat) \<Rightarrow> ('k, 'v) hs_node list \<Rightarrow> ('k, 'v) hs_table \<Rightarrow> ('k, 'v) hs_table option" where
  "hs_move hf [] t = Some t"
| "hs_move hf (EXIST k v # ns) t = (case hs_put hf k v t of None \<Rightarrow> None | Some (_, t') \<Rightarrow> hs_move hf ns t')"
| "hs_move hf (_ # ns) t = hs_move hf ns t"

definition hs_checkCapacity :: "('k \<Rightarrow> nat) \<Rightarrow> ('k, 'v) hs_table \<Rightarrow> ('k, 'v) hs_table option" where
  "hs_checkCapacity hf t =
     (let t1 = (if length (slots t) = 0 then t\<lparr>slots := replicate (get_next_prime 1) EMPTY\<rparr> else t) in
      if hs_size t1 * 10 div length (slots t1) \<ge> 7
      then (case hs_move hf (slots t1) \<lparr>slots = replicate (get_next_prime (length (slots t1))) EMPTY, hs_size = 0\<rparr> of
              None \<Rightarrow> None | Some t2 \<Rightarrow> Some (t1\<lparr>slots := slots t2\<rparr>))
      else Some t1)"

definition hs_insert :: "('k \<Rightarrow> nat) \<Rightarrow> 'k \<Rightarrow> 'v \<Rightarrow> ('k, 'v) hs_table \<Rightarrow> (bool \<times> ('k, 'v) hs_table) option" where
  "hs_insert hf k v t = (case hs_checkCapacity hf t of None \<Rightarrow> None | Some t1 \<Rightarrow> hs_put hf k v t1)"

definition hs_find :: "('k \<Rightarrow> nat) \<Rightarrow> 'k \<Rightarrow> ('k, 'v) hs_table \<Rightarrow> nat option option" where
  "hs_find hf k t = probe_find (slots t) k (hf k mod length (slots t)) 1"

fun mark_deleted :: "('k, 'v) hs_node \<Rightarrow> ('k, 'v) hs_node" where
  "mark_deleted (EXIST k v) = DELETE k v"
| "mark_deleted n = n"

definition hs_erase :: "('k \<Rightarrow> nat) \<Rightarrow> 'k \<Rightarrow> ('k, 'v) hs_table \<Rightarrow> (bool \<times> ('k, 'v) hs_table) option" where
  "hs_erase hf k t =
     (case hs_find hf k t of
        None \<Rightarrow> None
      | Some None \<Rightarrow> Some (False, t)
      | Some (Some index) \<Rightarrow>
          Some (True, t\<lparr>slots := (slots t)[index := mark_deleted (slots t ! index)], hs_size := hs_size t - 1\<rparr>))"

section \<open>The table of buckets refines a map\<close>

definition placed :: "('k \<Rightarrow> nat) \<Rightarrow> ('k \<times> 'v) list list \<Rightarrow> bool" where
  "placed hf ts \<longleftrightarrow> (\<forall>i < length ts. \<forall>kv \<in> set (ts ! i). hf (fst kv) mod length ts = i)"

definition buck_ok :: "('k \<Rightarrow> nat) \<Rightarrow> ('k, 'v) hash_table \<Rightarrow> bool" where
  "buck_ok hf t \<longleftrightarrow> placed hf (tables t) \<and> distinct (map fst (concat (tables t)))
     \<and> ht_size t = length (concat (tables t))"

abbreviation contents :: "('k, 'v) hash_table \<Rightarrow> 'k \<Rightarrow> 'v option" where
  "contents t \<equiv> map_of (concat (tables t))"

lemma next_prime_pos: "0 < get_next_prime n"
proof -
  have "list_all (\<lambda>p. 0 < p) sprime_list" by (simp add: sprime_list_def)
  moreover have "length sprime_list = 28" by (simp add: sprime_list_def)
  ultimately have "0 < sprime_list ! i" if "i < 28" for i using that by (simp add: list_all_length)
  then show ?thesis by (auto simp: get_next_prime_def find_Some_iff split: option.split)
qed

lemma mset_concat_update: "i < length ts \<Longrightarrow> mset (concat (ts[i := x # ts ! i])) = add_mset x (mset (concat ts))"
proof (induction ts arbitrary: i)
  case (Cons c ts)
  then show ?case by (cases i) auto
qed simp

lemma rehash_node_ok:
  assumes "placed hf ts" "ts \<noteq> []"
  shows "placed hf (rehash_node hf kv ts)" "mset (concat (rehash_node hf kv ts)) = add_mset kv (mset (concat ts))"
    "length (rehash_node hf kv ts) = length ts"
proof -
  have i: "hf (fst kv) mod length ts < length ts" using assms(2) by simp
  show "placed hf (rehash_node hf kv ts)"
    using assms(1) i by (auto simp: placed_def rehash_node_def Let_def nth_list_update)
  show "mset (concat (rehash_node hf kv ts)) = add_mset kv (mset (concat ts))"
    unfolding rehash_node_def Let_def using i by (rule mset_concat_update)
  show "length (rehash_node hf kv ts) = length ts" by (simp add: rehash_node_def Let_def)
qed

lemma rehash_nodes_ok:
  "placed hf ts \<Longrightarrow> ts \<noteq> [] \<Longrightarrow> placed hf (fold (rehash_node hf) kvs ts)
     \<and> mset (concat (fold (rehash_node hf) kvs ts)) = mset kvs + mset (concat ts)
     \<and> length (fold (rehash_node hf) kvs ts) = length ts"
proof (induction kvs arbitrary: ts)
  case (Cons kv kvs)
  have "rehash_node hf kv ts \<noteq> []" using rehash_node_ok(3) [OF Cons.prems, of kv] Cons.prems(2) by auto
  then show ?case
    using Cons.IH [of "rehash_node hf kv ts"] rehash_node_ok [OF Cons.prems, of kv] by simp
qed simp

lemma fold_fold_concat: "fold (fold g) xss s = fold g (concat xss) s"
  by (induction xss arbitrary: s) simp_all

lemma placed_empty: "placed hf (replicate n [])"
  by (simp add: placed_def)

lemma same_contents:
  assumes "mset (concat (tables t)) = mset (concat (tables u))" "distinct (map fst (concat (tables u)))"
  shows "distinct (map fst (concat (tables t)))" "contents t = contents u"
proof -
  have "mset (map fst (concat (tables t))) = mset (map fst (concat (tables u)))" using assms(1) by (metis mset_map)
  then show d: "distinct (map fst (concat (tables t)))" using assms(2) mset_eq_imp_distinct_iff by blast
  show "contents t = contents u"
    using map_of_inject_set [OF d assms(2)] mset_eq_setD [OF assms(1)] by blast
qed

lemma checkCapacity_ok:
  assumes "buck_ok hf t"
  shows "buck_ok hf (checkCapacity hf t)" "contents (checkCapacity hf t) = contents t"
    "0 < length (tables (checkCapacity hf t))" "ht_size (checkCapacity hf t) = ht_size t"
proof -
  let ?t = "checkCapacity hf t"
  show size: "ht_size ?t = ht_size t" by (simp add: checkCapacity_def)
  note ok = assms [unfolded buck_ok_def]
  define new where "new = replicate (get_next_prime (length (tables t))) ([] :: ('a \<times> 'b) list)"
  have new: "placed hf new" "new \<noteq> []" "mset (concat new) = {#}"
    using next_prime_pos by (simp_all add: new_def placed_empty)
  have m: "placed hf (tables ?t) \<and> mset (concat (tables ?t)) = mset (concat (tables t)) \<and> 0 < length (tables ?t)"
  proof (cases "length (tables t) = 0")
    case True
    then show ?thesis using next_prime_pos by (simp add: checkCapacity_def placed_empty)
  next
    case False
    have "tables ?t = (if ht_size t div length (tables t) \<ge> 1 then fold (rehash_node hf) (concat (tables t)) new else tables t)"
      using False by (simp add: checkCapacity_def fold_fold_concat new_def)
    then show ?thesis using False ok rehash_nodes_ok [OF new(1,2), of "concat (tables t)"] new(2,3) by auto
  qed
  then have same: "distinct (map fst (concat (tables ?t)))" "contents ?t = contents t"
    using same_contents [of ?t t] ok by auto
  show "buck_ok hf ?t"
    using m same size ok mset_eq_length [of "concat (tables ?t)" "concat (tables t)"] by (simp add: buck_ok_def)
  show "contents ?t = contents t" by (rule same(2))
  show "0 < length (tables ?t)" using m by simp
qed

text \<open>A key is looked for in its own chain only.\<close>

lemma map_of_concat_placed:
  assumes "placed hf ts" "ts \<noteq> []"
  shows "map_of (concat ts) k = map_of (ts ! (hf k mod length ts)) k"
proof -
  have "map_of (concat (drop i ts)) k = (if i \<le> hf k mod length ts then map_of (ts ! (hf k mod length ts)) k else None)"
    if "i \<le> length ts" for i
    using that
  proof (induction i rule: inc_induct)
    case base
    have "hf k mod length ts < length ts" using assms(2) by simp
    then show ?case by simp
  next
    case (step i)
    have split: "concat (drop i ts) = ts ! i @ concat (drop (Suc i) ts)"
      using step.hyps(2) by (simp flip: Cons_nth_drop_Suc)
    show ?case
    proof (cases "i = hf k mod length ts")
      case True
      then show ?thesis using step.IH unfolding split by (simp add: map_add_def split: option.split)
    next
      case False
      then have "map_of (ts ! i) k = None"
        using assms(1) step.hyps by (auto simp: placed_def map_of_eq_None_iff)
      then show ?thesis using step.IH False unfolding split by (simp add: map_add_def split: option.split)
    qed
  qed
  from this [of 0] show ?thesis by simp
qed

lemma find_chain_cases:
  "(map_of c k = None \<and> find_chain k c = []) \<or>
   (\<exists>v next. map_of c k = Some v \<and> find_chain k c = (k, v) # next)"
  by (induction k c rule: find_chain.induct) auto

text \<open>What \<open>Insert\<close> does to the map.\<close>

lemma Insert_ok:
  assumes "buck_ok hf t"
  obtains t' it where "Insert hf (k, v) t = (t', it, contents t k = None)" "buck_ok hf t'"
    "contents t' = (if contents t k = None then (contents t)(k \<mapsto> v) else contents t)"
    "it \<noteq> []" "hd it = (k, the (contents t' k))" "0 < length (tables t')"
proof -
  define t1 where "t1 = checkCapacity hf t"
  note cap = checkCapacity_ok [OF assms, folded t1_def]
  note ok = cap(1) [unfolded buck_ok_def]
  let ?i = "hf k mod length (tables t1)"
  have i: "?i < length (tables t1)" using cap(3) by simp
  have look: "contents t k = map_of (tables t1 ! ?i) k"
    using map_of_concat_placed [of hf "tables t1" k] ok cap(2,3) by simp
  show thesis
  proof (cases "contents t k")
    case None
    then have none: "find_chain k (tables t1 ! ?i) = []" using look find_chain_cases [of "tables t1 ! ?i" k] by auto
    let ?t = "t1\<lparr>tables := (tables t1)[?i := (k, v) # tables t1 ! ?i], ht_size := ht_size t1 + 1\<rparr>"
    have m: "mset (concat (tables ?t)) = add_mset (k, v) (mset (concat (tables t1)))"
      using mset_concat_update [OF i, of "(k, v)"] by simp
    have new: "k \<notin> fst ` set (concat (tables t1))"
      using None cap(2) by (metis map_of_eq_None_iff)
    have mk: "mset (map fst (concat (tables ?t))) = mset (k # map fst (concat (tables t1)))"
      using arg_cong [OF m, of "image_mset fst"] by simp
    have d: "distinct (map fst (concat (tables ?t)))"
      using mset_eq_imp_distinct_iff [OF mk] new ok by simp
    have "placed hf (tables ?t)"
      using rehash_node_ok(1) [of hf "tables t1" "(k, v)"] ok cap(3) by (simp add: rehash_node_def Let_def)
    moreover have "length (concat (tables ?t)) = Suc (length (concat (tables t1)))"
      using arg_cong [OF m, of size] by simp
    ultimately have B: "buck_ok hf ?t" using ok d by (simp add: buck_ok_def)
    have C: "contents ?t = (contents t)(k \<mapsto> v)"
    proof -
      have "contents ?t = map_of ((k, v) # concat (tables t1))"
        using d new ok arg_cong [OF m, of set_mset] by (subst map_of_inject_set) simp_all
      then show ?thesis using cap(2) by simp
    qed
    have I: "Insert hf (k, v) t = (?t, (k, v) # tables t1 ! ?i, True)"
      using none by (simp add: Insert_def Let_def flip: t1_def)
    show thesis
    proof (rule that [OF _ B])
      show "Insert hf (k, v) t = (?t, (k, v) # tables t1 ! ?i, contents t k = None)" using I None by simp
      show "contents ?t = (if contents t k = None then (contents t)(k \<mapsto> v) else contents t)" using C None by simp
      show "hd ((k, v) # tables t1 ! ?i) = (k, the (contents ?t k))" unfolding C by simp
    qed (use cap(3) in simp_all)
  next
    case (Some w)
    then obtain nx where "find_chain k (tables t1 ! ?i) = (k, w) # nx"
      using look find_chain_cases [of "tables t1 ! ?i" k] by auto
    then have "Insert hf (k, v) t = (t1, (k, w) # nx, False)"
      by (simp add: Insert_def Let_def flip: t1_def)
    then show thesis using that [of t1 "(k, w) # nx"] Some cap by simp
  qed
qed

lemma assign_ok:
  assumes "buck_ok hf t"
  shows "buck_ok hf (assign hf d k v t)" "contents (assign hf d k v t) = (contents t)(k \<mapsto> v)"
proof -
  obtain t' it where ins: "Insert hf (k, d) t = (t', it, contents t k = None)" "buck_ok hf t'"
      "contents t' = (if contents t k = None then (contents t)(k \<mapsto> d) else contents t)" "0 < length (tables t')"
    using Insert_ok [OF assms, of k d] by metis
  let ?i = "hf k mod length (tables t')"
  let ?upd = "map (\<lambda>kv. if fst kv = k then (k, v) else kv)"
  have eq: "assign hf d k v t = t'\<lparr>tables := (tables t')[?i := ?upd (tables t' ! ?i)]\<rparr>" (is "_ = ?t")
    using ins(1) by (simp add: assign_def subscript_def Let_def)
  have i: "?i < length (tables t')" using ins(4) by simp
  note ok = ins(2) [unfolded buck_ok_def]
  have fst_upd: "map fst (?upd c) = map fst c" for c by (induction c) auto
  have keys: "map (map fst) (tables ?t) = map (map fst) (tables t')"
    by (simp add: map_update fst_upd del: map_map) (simp add: list_update_id flip: nth_map [OF i] del: nth_map)
  then have fst_eq: "map fst (concat (tables ?t)) = map fst (concat (tables t'))" by (simp add: map_concat)
  have len: "length (concat (tables ?t)) = length (concat (tables t'))" using arg_cong [OF fst_eq, of length] by simp
  have p: "placed hf (tables ?t)" using ok i by (auto simp: placed_def nth_list_update split: if_splits)
  show "buck_ok hf (assign hf d k v t)" unfolding eq using p ok fst_eq len by (simp add: buck_ok_def)
  have upd: "map_of (?upd c) k' = (if k' = k \<and> map_of c k \<noteq> None then Some v else map_of c k')" for c k'
    by (induction c) auto
  have "contents ?t k' = ((contents t)(k \<mapsto> v)) k'" for k'
  proof -
    have ne: "tables ?t \<noteq> []" "tables t' \<noteq> []" using ins(4) by auto
    have c': "contents t' k \<noteq> None" using ins(3) by (auto split: if_splits)
    have "contents ?t k' = map_of (tables ?t ! (hf k' mod length (tables t'))) k'"
      using map_of_concat_placed [OF p ne(1)] by simp
    also have "\<dots> = (if k' = k then Some v else contents t' k')"
    proof -
      have look: "contents t' x = map_of (tables t' ! (hf x mod length (tables t'))) x" for x
        by (rule map_of_concat_placed [OF ok [THEN conjunct1] ne(2)])
      have "map_of (tables t' ! ?i) k \<noteq> None" using c' look by metis
      then show ?thesis unfolding look [of k'] using i by (auto simp: nth_list_update upd)
    qed
    finally show ?thesis using ins(3) by (auto split: if_splits)
  qed
  then show "contents (assign hf d k v t) = (contents t)(k \<mapsto> v)" unfolding eq by blast
qed

subsection \<open>Histories\<close>

datatype ('k, 'v) ht_call = InsertCall 'k 'v | ReadCall 'k | AssignCall 'k 'v

text \<open>The results: the value at the iterator or reference, and whether an insertion found a new key.\<close>

fun do_call :: "('k \<Rightarrow> nat) \<Rightarrow> 'v \<Rightarrow> ('k, 'v) ht_call \<Rightarrow> ('k, 'v) hash_table \<Rightarrow> ('v \<times> bool) \<times> ('k, 'v) hash_table" where
  "do_call hf d (InsertCall k v) t = (case Insert hf (k, v) t of (t', it, b) \<Rightarrow> ((snd (hd it), b), t'))"
| "do_call hf d (ReadCall k) t = (case subscript hf d k t of (t', v) \<Rightarrow> ((v, False), t'))"
| "do_call hf d (AssignCall k v) t = ((v, False), assign hf d k v t)"

fun map_call :: "'v \<Rightarrow> ('k, 'v) ht_call \<Rightarrow> ('k \<Rightarrow> 'v option) \<Rightarrow> ('v \<times> bool) \<times> ('k \<Rightarrow> 'v option)" where
  "map_call d (InsertCall k v) m = (case m k of None \<Rightarrow> ((v, True), m(k \<mapsto> v)) | Some w \<Rightarrow> ((w, False), m))"
| "map_call d (ReadCall k) m = (case m k of None \<Rightarrow> ((d, False), m(k \<mapsto> d)) | Some w \<Rightarrow> ((w, False), m))"
| "map_call d (AssignCall k v) m = ((v, False), m(k \<mapsto> v))"

fun run_all :: "('c \<Rightarrow> 's \<Rightarrow> 'o \<times> 's) \<Rightarrow> 'c list \<Rightarrow> 's \<Rightarrow> 'o list \<times> 's" where
  "run_all call [] s = ([], s)"
| "run_all call (c # cs) s =
     (case call c s of (x, s') \<Rightarrow> (case run_all call cs s' of (xs, s'') \<Rightarrow> (x # xs, s'')))"

lemma call_refines:
  assumes "buck_ok hf t"
  shows "\<exists>x t'. do_call hf d c t = (x, t') \<and> buck_ok hf t' \<and> map_call d c (contents t) = (x, contents t')"
proof (cases c)
  case (InsertCall k v)
  show ?thesis
    by (rule Insert_ok [OF assms, of k v]) (auto simp: InsertCall split: option.splits if_splits)
next
  case (ReadCall k)
  show ?thesis
    by (rule Insert_ok [OF assms, of k d]) (auto simp: ReadCall subscript_def split: option.splits if_splits)
next
  case (AssignCall k v)
  then show ?thesis using assign_ok [OF assms, of d k v]
    by (intro exI [of _ "(v, False)"] exI [of _ "assign hf d k v t"]) simp
qed

lemma new_ok: "buck_ok hf new_hash_table"
  by (simp add: new_hash_table_def buck_ok_def placed_def)

lemma ht_run_refines:
  "buck_ok hf t \<Longrightarrow> \<exists>xs t'. run_all (do_call hf d) cs t = (xs, t') \<and> buck_ok hf t'
     \<and> run_all (map_call d) cs (contents t) = (xs, contents t')"
proof (induction cs arbitrary: t)
  case (Cons c cs)
  obtain x t' where "do_call hf d c t = (x, t')" "buck_ok hf t'" "map_call d c (contents t) = (x, contents t')"
    using call_refines [OF Cons.prems] by blast
  then show ?case using Cons.IH [of t'] by fastforce
qed simp

section \<open>Iteration over the buckets\<close>

fun suffs :: "'n list \<Rightarrow> 'n list list" where
  "suffs [] = []"
| "suffs (x # xs) = (x # xs) # suffs xs"

lemma suffs_hd: "map hd (suffs c) = c" "suffs c = [] \<longleftrightarrow> c = []" "c \<noteq> [] \<Longrightarrow> hd (suffs c) = c"
  by (induction c) auto

lemma first_chain_hd:
  "first_chain cs = (if concat (map suffs cs) = [] then None else Some (hd (concat (map suffs cs))))"
  by (induction cs) (auto simp: suffs_hd hd_append)

lemma bucket_chain:
  assumes "placed hf (tables t)" "i \<le> length (tables t)"
  shows "chain (ht_increment hf t) (concat (map suffs (drop i (tables t)))) None"
  using assms(2)
proof (induction i rule: inc_induct)
  case base
  then show ?case by simp
next
  case (step i)
  let ?rest = "drop (Suc i) (tables t)"
  have "chain (ht_increment hf t) (suffs c) (first_chain ?rest)"
    if "\<forall>kv \<in> set c. hf (fst kv) mod length (tables t) = i" for c
    using that by (induction c) (auto simp: ht_increment_def suffs_hd)
  then have "chain (ht_increment hf t) (suffs (tables t ! i)) (first_chain ?rest)"
    using assms(1) step.hyps(2) by (simp add: placed_def)
  then show ?case
    using step.IH step.hyps(2) by (simp add: chain_append first_chain_hd flip: Cons_nth_drop_Suc)
qed

interpretation bucket: iteration "buck_ok hf" ht_Begin "ht_increment hf" "\<lambda>t. concat (map suffs (tables t))"
  for hf :: "'k \<Rightarrow> nat"
proof
  show "ht_Begin t = (if concat (map suffs (tables t)) = [] then None else Some (hd (concat (map suffs (tables t)))))"
    for t :: "('k, 'v) hash_table"
    by (simp add: ht_Begin_def first_chain_hd)
  show "chain (ht_increment hf t) (concat (map suffs (tables t))) None" if "buck_ok hf t" for t :: "('k, 'v) hash_table"
    using bucket_chain [of hf t 0] that by (simp add: buck_ok_def)
qed

section \<open>Open addresses\<close>

lemma probe_found:
  "probe_find ts k index i = Some (Some j) \<Longrightarrow> j < length ts \<and> (\<exists>v. ts ! j = EXIST k v)"
  by (induction ts k index i rule: probe_find.induct)
    (subst (asm) (3) probe_find.simps, auto split: if_splits hs_node.splits option.splits prod.splits)

text \<open>The search goes the way of the insertion, past the nodes that it passed.\<close>

lemma probe_after_insert:
  "probe_insert ts k index i = Some (Some j) \<Longrightarrow>
   j < length ts \<and> probe_find (ts[j := EXIST k v]) k index i = Some (Some j)"
proof (induction ts k index i rule: probe_insert.induct)
  case (1 ts k index i)
  have len: "index < length ts" using "1.prems" by (subst (asm) probe_insert.simps) (auto split: if_splits)
  show ?case
  proof (cases "ts ! index")
    case (EXIST k' v')
    then obtain index' i' where nx: "k' \<noteq> k" "next_probe (length ts) index i = Some (index', i')"
        "probe_insert ts k index' i' = Some (Some j)"
      using "1.prems" len by (subst (asm) probe_insert.simps) (auto split: if_splits option.splits)
    have IH: "j < length ts \<and> probe_find (ts[j := EXIST k v]) k index' i' = Some (Some j)"
      using "1.IH" len EXIST nx by auto
    show ?thesis
      using IH EXIST nx len by (subst probe_find.simps) (auto simp: nth_list_update)
  next
    case EMPTY
    then have "j = index" using "1.prems" len by (simp add: probe_insert.simps)
    then show ?thesis using len by (simp add: probe_find.simps)
  next
    case (DELETE k' v')
    then have "j = index" using "1.prems" len by (simp add: probe_insert.simps)
    then show ?thesis using len by (simp add: probe_find.simps)
  qed
qed

section \<open>Properties\<close>

text \<open>
  C16. The table of buckets refines a map.  Every sequence of insertions, reads and writes through \<open>operator[]\<close>
  gives the results that it gives on a finite map, whatever the hash function and however often the table
  grows: an insertion of a known key keeps the old value, a read of an unknown key inserts the default.
  At the end the nodes are the entries of the map, once each, and \<open>_size\<close> is their number.
\<close>

theorem buckets_refine_map:
  "case run_all (do_call hf d) cs new_hash_table of (xs, t) \<Rightarrow>
     (case run_all (map_call d) cs Map.empty of (ys, m) \<Rightarrow>
        xs = ys \<and> contents t = m \<and> distinct (map fst (concat (tables t)))
        \<and> ht_size t = card (dom m))"
proof -
  obtain xs t where run: "run_all (do_call hf d) cs new_hash_table = (xs, t)" "buck_ok hf t"
      "run_all (map_call d) cs (contents new_hash_table) = (xs, contents t)"
    using ht_run_refines [OF new_ok, of hf d cs] by blast
  moreover have "ht_size t = card (dom (contents t))"
  proof -
    have "dom (contents t) = set (map fst (concat (tables t)))" by (simp only: dom_map_of_conv_image_fst set_map)
    then have "card (dom (contents t)) = length (map fst (concat (tables t)))"
      using run(2) distinct_card unfolding buck_ok_def by metis
    then show ?thesis using run(2) by (simp add: buck_ok_def)
  qed
  ultimately show ?thesis by (simp add: new_hash_table_def buck_ok_def)
qed

text \<open>
  The iterator of the table of buckets: after any calls, \<open>++\<close> leads from \<open>Begin()\<close> through all entries, once
  each, bucket after bucket, and then to \<open>End()\<close>, although it only has the key of its node to find the bucket.
\<close>

theorem bucket_iteration:
  "case run_all (do_call hf d) cs new_hash_table of (xs, t) \<Rightarrow>
     map (\<lambda>i. map_option hd ((ht_increment hf t ^^ i) (ht_Begin t))) [0..<ht_size t] = map Some (concat (tables t))
     \<and> (ht_increment hf t ^^ ht_size t) (ht_Begin t) = None"
proof -
  obtain xs t where run: "run_all (do_call hf d) cs new_hash_table = (xs, t)" "buck_ok hf t"
    using ht_run_refines [OF new_ok, of hf d cs] by blast
  have "map hd (concat (map suffs (tables t))) = concat (tables t)"
    by (simp add: map_concat suffs_hd o_def)
  from bucket.reads [where get = "\<lambda>t. hd", OF run(2) this]
  show ?thesis using run by (simp add: buck_ok_def)
qed

text \<open>
  C27. Open addresses: when an insertion succeeds, the next search for the key finds the node with the new value;
  and what a search finds is a node that exists and has the key.  (Neither needs an assumption on the table.)
\<close>

theorem open_insert_found:
  assumes "hs_insert hf k v t = Some (True, t')"
  shows "\<exists>j. hs_find hf k t' = Some (Some j) \<and> j < length (slots t') \<and> slots t' ! j = EXIST k v"
proof -
  obtain t1 where "hs_checkCapacity hf t = Some t1" "hs_put hf k v t1 = Some (True, t')"
    using assms by (auto simp: hs_insert_def split: option.splits)
  then obtain j where j: "probe_insert (slots t1) k (hf k mod length (slots t1)) 1 = Some (Some j)"
      "slots t' = (slots t1)[j := EXIST k v]"
    by (auto simp: hs_put_def split: option.splits)
  then show ?thesis using probe_after_insert [OF j(1), of v] by (auto simp: hs_find_def)
qed

text \<open>The table of 53 nodes after inserting the keys of a list.\<close>

definition filled :: "(nat \<times> (nat, nat) hs_node) list \<Rightarrow> nat \<Rightarrow> (nat, nat) hs_table" where
  "filled upds n = \<lparr>slots = fold (\<lambda>(i, x) ts. ts[i := x]) upds (replicate 53 EMPTY), hs_size = n\<rparr>"

theorem open_insert_found_witness:
  "\<exists>j. hs_find id 7 (filled [(7, EXIST 7 (0 :: nat))] 1) = Some (Some j)"
proof -
  have "hs_insert id 7 0 (filled [] 0) = Some (True, filled [(7, EXIST 7 0)] 1)"
    by (simp add: hs_insert_def hs_checkCapacity_def filled_def hs_put_def probe_insert.simps)
  from open_insert_found [OF this] show ?thesis by blast
qed

text \<open>Calls on the table with open addresses, with their results (for a search, whether it finds the key).\<close>

datatype hs_call = InsertKey nat | EraseKey nat | FindKey nat

fun hs_run :: "hs_call list \<Rightarrow> (nat, unit) hs_table \<Rightarrow> bool list option" where
  "hs_run [] t = Some []"
| "hs_run (InsertKey k # cs) t =
     (case hs_insert id k () t of None \<Rightarrow> None | Some (b, t') \<Rightarrow> map_option ((#) b) (hs_run cs t'))"
| "hs_run (EraseKey k # cs) t =
     (case hs_erase id k t of None \<Rightarrow> None | Some (b, t') \<Rightarrow> map_option ((#) b) (hs_run cs t'))"
| "hs_run (FindKey k # cs) t =
     (case hs_find id k t of None \<Rightarrow> None | Some r \<Rightarrow> map_option ((#) (r \<noteq> None)) (hs_run cs t))"

lemma get_next_prime_1: "get_next_prime 1 = 53"
  by (simp add: get_next_prime_def sprime_list_def upt_conv_Cons)

text \<open>
  Two faults of the table with open addresses, with numbers as keys.  The probing wraps around only behind
  the index 53, so inserting 52 and 105 into a new table accesses the node at 53.  And an insertion takes the
  first deleted node without looking for its key behind it: after 1, 54 and the deletion of 1, the key 54 is
  inserted a second time, and is still found after it has been deleted.
\<close>

theorem open_table_faults:
  "hs_run [InsertKey 52, InsertKey 105] new_hs_table = None
   \<and> hs_run [InsertKey 1, InsertKey 54, EraseKey 1, InsertKey 54, EraseKey 54, FindKey 54] new_hs_table
     = Some [True, True, True, True, True, True]"
  by (simp add: new_hs_table_def hs_insert_def hs_checkCapacity_def hs_put_def hs_erase_def hs_find_def
      get_next_prime_1 [simplified] probe_insert.simps probe_find.simps next_probe_def MAX_INT_def nth_list_update)

end
