(* ===== verification/Graph.thy ===== *)
theory Graph
  imports Union_Find
begin

text \<open>
  The graphs of \<open>Algorithm/Graph/Graph.hpp\<close>: the adjacency matrix, and the adjacency lists with both
  searches and Kruskal's algorithm.  A search returns the indices of the vertices in the order in which it
  writes them.  \<open>None\<close> is a failed assertion, an access outside a vector or a search that does not end.
\<close>

section \<open>Definitions from the code\<close>

subsection \<open>The adjacency matrix\<close>

record ('v, 'w) graph_martix =
  gm_vertexs :: "'v list"
  gm_martix :: "'w list list"
  gm_index_map :: "'v \<Rightarrow> nat option"

text \<open>The loop over the vertices; a later equal vertex overwrites the index of an earlier one.\<close>

definition index_of_vertexs :: "'v list \<Rightarrow> 'v \<Rightarrow> nat option" where
  "index_of_vertexs vs = map_of (rev (zip vs [0..<length vs]))"

definition GraphMartix :: "'w \<Rightarrow> 'v list \<Rightarrow> ('v, 'w) graph_martix" where
  "GraphMartix w0 vs =
     \<lparr>gm_vertexs = vs, gm_martix = replicate (length vs) (replicate (length vs) w0), gm_index_map = index_of_vertexs vs\<rparr>"

text \<open>\<open>_index_map[v]\<close> gives an unknown vertex the index 0.\<close>

definition index_at :: "'v \<Rightarrow> ('v \<Rightarrow> nat option) \<Rightarrow> nat \<times> ('v \<Rightarrow> nat option)" where
  "index_at v m = (case m v of Some i \<Rightarrow> (i, m) | None \<Rightarrow> (0, m(v \<mapsto> 0)))"

text \<open>
  \<open>AddEdge\<close>.  The first statement on the matrix is the comparison \<open>_martix[src_index][dst_index] == weight\<close>,
  which reads an element and does nothing.
\<close>

definition gm_AddEdge :: "bool \<Rightarrow> 'v \<Rightarrow> 'v \<Rightarrow> 'w \<Rightarrow> ('v, 'w) graph_martix \<Rightarrow> ('v, 'w) graph_martix option" where
  "gm_AddEdge IsDirected src dst weight g =
     (case index_at src (gm_index_map g) of (src_index, m1) \<Rightarrow>
      (case index_at dst m1 of (dst_index, m2) \<Rightarrow>
         if length (gm_martix g) \<le> src_index \<or> length (gm_martix g) \<le> dst_index then None
         else Some (if \<not> IsDirected
           then g\<lparr>gm_index_map := m2, gm_martix := (gm_martix g)[dst_index := (gm_martix g ! dst_index)[src_index := weight]]\<rparr>
           else g\<lparr>gm_index_map := m2\<rparr>)))"

subsection \<open>The adjacency lists\<close>

record 'w edge =
  e_src :: nat
  e_dst :: nat
  e_w :: 'w

record ('v, 'w) graph =
  vertexs :: "'v list"
  link_tables :: "'w edge list list"
  index_map :: "'v \<Rightarrow> nat option"

definition GraphLinkTable :: "'v list \<Rightarrow> ('v, 'w) graph" where
  "GraphLinkTable vs =
     \<lparr>vertexs = vs, link_tables = replicate (length vs) [], index_map = index_of_vertexs vs\<rparr>"

definition add_edge :: "nat \<Rightarrow> nat \<Rightarrow> 'w \<Rightarrow> ('v, 'w) graph \<Rightarrow> ('v, 'w) graph option" where
  "add_edge src_index dst_index w g =
     (if src_index < length (vertexs g) \<and> dst_index < length (vertexs g)
      then Some (g\<lparr>link_tables := (link_tables g)
             [src_index := \<lparr>e_src = src_index, e_dst = dst_index, e_w = w\<rparr> # link_tables g ! src_index]\<rparr>)
      else None)"

definition AddEdge :: "bool \<Rightarrow> 'v \<Rightarrow> 'v \<Rightarrow> 'w \<Rightarrow> ('v, 'w) graph \<Rightarrow> ('v, 'w) graph option" where
  "AddEdge IsDirected src dst w g =
     (case index_map g src of None \<Rightarrow> None | Some src_index \<Rightarrow>
      (case index_map g dst of None \<Rightarrow> None | Some dst_index \<Rightarrow>
        (case add_edge src_index dst_index w g of None \<Rightarrow> None | Some g1 \<Rightarrow>
           if \<not> IsDirected then add_edge dst_index src_index w g1 else Some g1)))"

text \<open>The loop of \<open>BFS\<close>: the queue, the vertices visited, and the output.\<close>

function bfs_loop :: "'w edge list list \<Rightarrow> nat list \<Rightarrow> bool list \<Rightarrow> nat list option" where
  "bfs_loop ts [] visited = Some []"
| "bfs_loop ts (front # q) visited =
     (if length visited \<le> front \<or> length ts \<le> front then None
      else if \<not> visited ! front
      then (let visited' = visited[front := True] in
            if list_all (\<lambda>e. e_dst e < length visited) (ts ! front)
            then map_option ((#) front)
                   (bfs_loop ts (q @ map e_dst (filter (\<lambda>e. \<not> visited' ! e_dst e) (ts ! front))) visited')
            else None)
      else bfs_loop ts q visited)"
  by pat_completeness auto
termination
proof (relation "measures [\<lambda>(ts, q, visited). count_list visited False, \<lambda>(ts, q, visited). length q]", goal_cases)
  case (2 ts front q visited visited')
  then have "front < length visited" "\<not> visited ! front" by auto
  then have "count_list (visited[front := True]) False < count_list visited False"
    by (induction visited arbitrary: front) (auto simp: nth_Cons split: nat.splits)
  then show ?case using 2 by simp
qed simp_all

definition BFS :: "nat \<Rightarrow> ('v, 'w) graph \<Rightarrow> nat list option" where
  "BFS head g = bfs_loop (link_tables g) [head] (replicate (length (vertexs g)) False)"

text \<open>
  The loop of \<open>_DFS\<close> over the edges of a vertex, with the recursive call for an edge to a vertex that is
  not visited; the results are the output and the vertices visited.
\<close>

partial_function (option) dfs_edges :: "'w edge list list \<Rightarrow> 'w edge list \<Rightarrow> bool list \<Rightarrow> (nat list \<times> bool list) option" where
  "dfs_edges ts es visited =
     (if es = [] then Some ([], visited)
      else if length visited \<le> e_dst (hd es) then None
      else if visited ! e_dst (hd es) then dfs_edges ts (tl es) visited
      else if length ts \<le> e_dst (hd es) then None
      else Option.bind (dfs_edges ts (ts ! e_dst (hd es)) (visited[e_dst (hd es) := True]))
             (\<lambda>r. Option.bind (dfs_edges ts (tl es) (snd r))
               (\<lambda>r'. Some (e_dst (hd es) # fst r @ fst r', snd r'))))"

definition DFS :: "nat \<Rightarrow> ('v, 'w) graph \<Rightarrow> nat list option" where
  "DFS head g =
     (if length (vertexs g) \<le> head \<or> length (link_tables g) \<le> head then None
      else map_option (\<lambda>r. head # fst r)
             (dfs_edges (link_tables g) (link_tables g ! head) ((replicate (length (vertexs g)) False)[head := True])))"

subsection \<open>Kruskal\<close>

text \<open>
  The edges that are put into the priority queue, and the loop over the edges in the order in which it
  gives them.  The loop does not test whether the queue is empty, so at its end it is undefined; \<open>N\<close> is
  unsigned and wraps around.
\<close>

definition kruskal_edges :: "('v, 'w) graph \<Rightarrow> 'w edge list" where
  "kruskal_edges g = concat (map (filter (\<lambda>e. e_src e < e_dst e)) (link_tables g))"

fun kruskal_loop :: "'w edge list \<Rightarrow> int list \<Rightarrow> nat \<Rightarrow> ('v, 'w) graph \<Rightarrow> ('v, 'w) graph option" where
  "kruskal_loop [] uf N min_tree = None"
| "kruskal_loop (e # pq) uf N min_tree =
     (case FindParent uf (e_src e) of None \<Rightarrow> None | Some p \<Rightarrow>
      (case FindParent uf (e_dst e) of None \<Rightarrow> None | Some q \<Rightarrow>
        if p \<noteq> q
        then (case SetUnionFriend (e_src e) (e_dst e) uf of None \<Rightarrow> None | Some uf' \<Rightarrow>
              (case add_edge (e_src e) (e_dst e) (e_w e) min_tree of None \<Rightarrow> None | Some min_tree' \<Rightarrow>
                if N = 1 then Some min_tree'
                else kruskal_loop pq uf' (if N = 0 then 2 ^ 64 - 1 else N - 1) min_tree'))
        else kruskal_loop pq uf N min_tree))"

definition Kruskal :: "'w edge list \<Rightarrow> ('v, 'w) graph \<Rightarrow> ('v, 'w) graph option" where
  "Kruskal pq g =
     kruskal_loop pq (UnionFindSet (length (vertexs g))) (length (vertexs g) - 1)
       \<lparr>vertexs = vertexs g, link_tables = replicate (length (vertexs g)) [], index_map = index_map g\<rparr>"

section \<open>Reachability that avoids what is visited\<close>

inductive_set avoid :: "('n \<times> 'n) set \<Rightarrow> 'n set \<Rightarrow> 'n set \<Rightarrow> 'n set" for E V A where
  base: "x \<in> A \<Longrightarrow> x \<notin> V \<Longrightarrow> x \<in> avoid E V A"
| step: "x \<in> avoid E V A \<Longrightarrow> (x, y) \<in> E \<Longrightarrow> y \<notin> V \<Longrightarrow> y \<in> avoid E V A"

lemma avoid_induct_sub:
  assumes "\<And>x. x \<in> A \<Longrightarrow> x \<notin> V \<Longrightarrow> x \<in> S" "\<And>x y. x \<in> S \<Longrightarrow> (x, y) \<in> E \<Longrightarrow> y \<notin> V \<Longrightarrow> y \<in> S"
  shows "avoid E V A \<subseteq> S"
proof
  fix x assume "x \<in> avoid E V A"
  then show "x \<in> S" by induction (use assms in auto)
qed

lemma avoid_empty [simp]: "avoid E V {} = {}"
  using avoid_induct_sub [of "{}" V "{}" E] by blast

lemma avoid_outside: "x \<in> avoid E V A \<Longrightarrow> x \<notin> V"
  by (induction rule: avoid.induct) auto

lemma avoid_mono: "A - V \<subseteq> B \<Longrightarrow> avoid E V A \<subseteq> avoid E V B"
  by (rule avoid_induct_sub) (auto intro: avoid.intros)

lemma avoid_disjoint: "avoid E V A \<inter> V = {}"
  by (auto dest: avoid_outside)

lemma avoid_minus: "avoid E V (A \<union> (B - V)) = avoid E V (A \<union> B)"
  by (intro equalityI avoid_mono) auto

lemma avoid_visited: "x \<in> V \<Longrightarrow> avoid E V (insert x A) = avoid E V A"
  by (intro equalityI avoid_mono) auto

lemma avoid_Un: "avoid E V (A \<union> B) = avoid E V A \<union> avoid E (V \<union> avoid E V A) B"
proof (rule equalityI)
  show "avoid E V (A \<union> B) \<subseteq> avoid E V A \<union> avoid E (V \<union> avoid E V A) B"
    by (rule avoid_induct_sub) (auto intro: avoid.intros)
  have "avoid E V A \<subseteq> avoid E V (A \<union> B)" by (rule avoid_mono) auto
  moreover have "avoid E (V \<union> avoid E V A) B \<subseteq> avoid E V (A \<union> B)"
    by (rule avoid_induct_sub) (auto intro: avoid.intros)
  ultimately show "avoid E V A \<union> avoid E (V \<union> avoid E V A) B \<subseteq> avoid E V (A \<union> B)" by blast
qed

lemma avoid_visit:
  assumes "x \<notin> V"
  shows "avoid E V (insert x A) = insert x (avoid E (insert x V) (A \<union> E `` {x}))"
proof (rule equalityI)
  show "avoid E V (insert x A) \<subseteq> insert x (avoid E (insert x V) (A \<union> E `` {x}))"
    by (rule avoid_induct_sub) (auto intro: avoid.intros)
  have x: "x \<in> avoid E V (insert x A)" using assms by (auto intro: avoid.base)
  have "avoid E (insert x V) (A \<union> E `` {x}) \<subseteq> avoid E V (insert x A)"
    by (rule avoid_induct_sub) (auto intro: avoid.intros x)
  with x show "insert x (avoid E (insert x V) (A \<union> E `` {x})) \<subseteq> avoid E V (insert x A)" by blast
qed

lemma avoid_rtrancl: "avoid E {} {h} = E\<^sup>* `` {h}"
proof (rule equalityI)
  show "avoid E {} {h} \<subseteq> E\<^sup>* `` {h}"
    by (rule avoid_induct_sub) (auto intro: rtrancl_into_rtrancl)
  show "E\<^sup>* `` {h} \<subseteq> avoid E {} {h}"
  proof
    fix y assume "y \<in> E\<^sup>* `` {h}"
    then have "(h, y) \<in> E\<^sup>*" by simp
    then show "y \<in> avoid E {} {h}" by induction (auto intro: avoid.intros)
  qed
qed

section \<open>The searches\<close>

definition arcs :: "'w edge list list \<Rightarrow> (nat \<times> nat) set" where
  "arcs ts = {(i, j). i < length ts \<and> j \<in> e_dst ` set (ts ! i)}"

definition tables_ok :: "nat \<Rightarrow> 'w edge list list \<Rightarrow> bool" where
  "tables_ok n ts \<longleftrightarrow> length ts = n \<and> (\<forall>i < n. \<forall>e \<in> set (ts ! i). e_dst e < n)"

definition marked :: "bool list \<Rightarrow> nat set" where
  "marked visited = {i. i < length visited \<and> visited ! i}"

lemma in_marked [simp]: "x \<in> marked visited \<longleftrightarrow> x < length visited \<and> visited ! x"
  by (simp add: marked_def)

lemma marked_update: "x < length visited \<Longrightarrow> marked (visited[x := True]) = insert x (marked visited)"
  by (auto simp: nth_list_update split: if_splits)

lemma arcs_from: "i < length ts \<Longrightarrow> arcs ts `` {i} = e_dst ` set (ts ! i)"
  by (auto simp: arcs_def)

lemma bfs_loop_ok:
  "tables_ok (length visited) ts \<Longrightarrow> \<forall>x \<in> set q. x < length visited \<Longrightarrow>
   \<exists>out. bfs_loop ts q visited = Some out \<and> distinct out \<and> set out = avoid (arcs ts) (marked visited) (set q)"
proof (induction ts q visited rule: bfs_loop.induct)
  case (1 ts visited)
  then show ?case by simp
next
  case (2 ts front q visited)
  have len: "front < length visited" "front < length ts" "length ts = length visited"
    using "2.prems" by (auto simp: tables_ok_def)
  show ?case
  proof (cases "visited ! front")
    case True
    then show ?thesis using "2.IH"(2) "2.prems" len by (auto simp: avoid_visited)
  next
    case False
    define visited' where "visited' = visited[front := True]"
    define new where "new = map e_dst (filter (\<lambda>e. \<not> visited' ! e_dst e) (ts ! front))"
    have all: "list_all (\<lambda>e. e_dst e < length visited) (ts ! front)"
      using "2.prems"(1) len by (simp add: tables_ok_def list_all_iff)
    have marked: "marked visited' = insert front (marked visited)"
      unfolding visited'_def by (rule marked_update [OF len(1)])
    have new: "set new = arcs ts `` {front} - marked visited'"
      unfolding arcs_from [OF len(2)] new_def using all by (auto simp: visited'_def list_all_iff)
    have "\<forall>x \<in> set (q @ new). x < length visited'"
      using "2.prems"(2) all by (auto simp: new_def visited'_def list_all_iff)
    moreover have "tables_ok (length visited') ts" using "2.prems"(1) by (simp add: visited'_def)
    moreover have "\<not> (length visited \<le> front \<or> length ts \<le> front)" using len by simp
    ultimately have "\<exists>out. bfs_loop ts (q @ new) visited' = Some out \<and> distinct out
        \<and> set out = avoid (arcs ts) (marked visited') (set (q @ new))"
      using "2.IH"(1) [OF _ False refl all] unfolding new_def visited'_def by blast
    then obtain out where out: "bfs_loop ts (q @ new) visited' = Some out" "distinct out"
        "set out = avoid (arcs ts) (marked visited') (set (q @ new))" by blast
    have set_out: "set out = avoid (arcs ts) (marked visited') (set q \<union> arcs ts `` {front})"
      unfolding out(3) set_append new by (rule avoid_minus)
    have "front \<notin> marked visited" using False by simp
    then have "insert front (set out) = avoid (arcs ts) (marked visited) (set (front # q))"
      unfolding set_out marked list.set(2) by (rule avoid_visit [symmetric])
    moreover have "front \<notin> set out"
      using avoid_disjoint [of "arcs ts" "marked visited'"] unfolding set_out marked by blast
    moreover have "bfs_loop ts (front # q) visited = Some (front # out)"
      using len False all out(1) by (simp add: Let_def new_def visited'_def)
    ultimately show ?thesis using out(2) by simp
  qed
qed

lemma count_False_mark: "x < length v \<Longrightarrow> \<not> v ! x \<Longrightarrow> count_list (v[x := True]) False < count_list v False"
  by (induction v arbitrary: x) (auto simp: nth_Cons split: nat.splits)

lemma count_False_mono:
  "length v = length w \<Longrightarrow> marked v \<subseteq> marked w \<Longrightarrow> count_list w False \<le> count_list v False"
proof (induction v w rule: list_induct2)
  case (Cons a v b w)
  have "marked v \<subseteq> marked w" using Cons.prems by (auto dest: subsetD [of _ _ "Suc _"])
  moreover have "a \<longrightarrow> b" using Cons.prems by (auto dest: subsetD [of _ _ 0])
  ultimately show ?case using Cons.IH by auto
qed simp

lemma dfs_edges_ok:
  "tables_ok (length visited) ts \<Longrightarrow> \<forall>e \<in> set es. e_dst e < length visited \<Longrightarrow>
   \<exists>out visited'. dfs_edges ts es visited = Some (out, visited') \<and> length visited' = length visited \<and> distinct out
     \<and> set out = avoid (arcs ts) (marked visited) (e_dst ` set es) \<and> marked visited' = marked visited \<union> set out"
proof (induction "count_list visited False" arbitrary: visited es rule: less_induct)
  case less
  from less.prems(2) show ?case
  proof (induction es)
    case Nil
    show ?case by (subst dfs_edges.simps) simp
  next
    case (Cons e es)
    let ?x = "e_dst e"
    have x: "?x < length visited" "?x < length ts" using Cons.prems less.prems(1) by (auto simp: tables_ok_def)
    show ?case
    proof (cases "visited ! ?x")
      case True
      then have "dfs_edges ts (e # es) visited = dfs_edges ts es visited"
        using x by (subst dfs_edges.simps) simp
      then show ?thesis using Cons True x by (simp add: avoid_visited)
    next
      case False
      let ?v1 = "visited[?x := True]"
      have m1: "marked ?v1 = insert ?x (marked visited)" by (rule marked_update [OF x(1)])
      have less1: "count_list ?v1 False < count_list visited False" using False x by (intro count_False_mark)
      have ok: "tables_ok (length ?v1) ts" "\<forall>e \<in> set (ts ! ?x). e_dst e < length ?v1"
        using less.prems(1) x by (simp_all add: tables_ok_def)
      obtain out1 v2 where r1: "dfs_edges ts (ts ! ?x) ?v1 = Some (out1, v2)" "length v2 = length visited" "distinct out1"
          "set out1 = avoid (arcs ts) (marked ?v1) (e_dst ` set (ts ! ?x))" "marked v2 = marked ?v1 \<union> set out1"
        using less.hyps [OF less1 ok] by auto
      have "count_list v2 False \<le> count_list ?v1 False" using r1(2,5) by (intro count_False_mono) auto
      then have less2: "count_list v2 False < count_list visited False" using less1 by simp
      have ok2: "tables_ok (length v2) ts" "\<forall>e \<in> set es. e_dst e < length v2"
        using less.prems(1) Cons.prems r1(2) by simp_all
      obtain out2 v3 where r2: "dfs_edges ts es v2 = Some (out2, v3)" "length v3 = length visited" "distinct out2"
          "set out2 = avoid (arcs ts) (marked v2) (e_dst ` set es)" "marked v3 = marked v2 \<union> set out2"
        using less.hyps [OF less2 ok2] r1(2) by auto
      have run: "dfs_edges ts (e # es) visited = Some (?x # out1 @ out2, v3)"
        using x False r1(1) r2(1) by (subst dfs_edges.simps) simp
      have first: "avoid (arcs ts) (marked visited) {?x} = insert ?x (set out1)"
        using avoid_visit [of ?x "marked visited" "arcs ts" "{}"] False
        unfolding r1(4) m1 arcs_from [OF x(2)] by simp
      have "avoid (arcs ts) (marked visited) (e_dst ` set (e # es))
          = avoid (arcs ts) (marked visited) ({?x} \<union> e_dst ` set es)" by simp
      also have "\<dots> = insert ?x (set out1) \<union> set out2"
        unfolding avoid_Un first r2(4) r1(5) m1 by (simp add: Un_commute)
      finally have "set (?x # out1 @ out2) = avoid (arcs ts) (marked visited) (e_dst ` set (e # es))" by auto
      moreover have "distinct (?x # out1 @ out2)"
      proof -
        have "set out1 \<inter> marked ?v1 = {}" unfolding r1(4) by (rule avoid_disjoint)
        moreover have "set out2 \<inter> marked v2 = {}" unfolding r2(4) by (rule avoid_disjoint)
        ultimately show ?thesis using r1(3,5) r2(3) m1 by auto
      qed
      moreover have "marked v3 = marked visited \<union> set (?x # out1 @ out2)" using r2(5) r1(5) m1 by auto
      ultimately show ?thesis using run r2(2) by blast
    qed
  qed
qed

section \<open>The order of the breadth-first search\<close>

definition dist :: "(nat \<times> nat) set \<Rightarrow> nat \<Rightarrow> nat \<Rightarrow> nat" where
  "dist E h y = (LEAST n. (h, y) \<in> E ^^ n)"

lemma dist_path: "(h, y) \<in> E\<^sup>* \<Longrightarrow> (h, y) \<in> E ^^ dist E h y"
  unfolding dist_def by (rule LeastI_ex) (simp add: rtrancl_power)

lemma dist_least: "(h, y) \<in> E ^^ n \<Longrightarrow> dist E h y \<le> n"
  unfolding dist_def by (rule Least_le)

lemma dist_step: "(h, x) \<in> E\<^sup>* \<Longrightarrow> (x, y) \<in> E \<Longrightarrow> dist E h y \<le> Suc (dist E h x)"
  using dist_path [of h x E] by (intro dist_least) auto

lemma dist_pred:
  assumes "(h, y) \<in> E\<^sup>*" "dist E h y = Suc k"
  shows "\<exists>x. (h, x) \<in> E\<^sup>* \<and> dist E h x = k \<and> (x, y) \<in> E"
proof -
  obtain x where x: "(h, x) \<in> E ^^ k" "(x, y) \<in> E" using dist_path [OF assms(1)] assms(2) by auto
  then have r: "(h, x) \<in> E\<^sup>*" by (meson relpow_imp_rtrancl)
  moreover have "dist E h x = k" using dist_least [OF x(1)] dist_step [OF r x(2)] assms(2) by simp
  ultimately show ?thesis using x(2) by blast
qed

text \<open>
  While the vertices at distance \<open>k\<close> are taken from the first part of the queue, the second part fills with
  those at distance \<open>k + 1\<close>.
\<close>

definition level :: "(nat \<times> nat) set \<Rightarrow> (nat \<Rightarrow> nat) \<Rightarrow> nat set \<Rightarrow> nat \<Rightarrow> nat set \<Rightarrow> nat set \<Rightarrow> nat set \<Rightarrow> bool" where
  "level E D R k Q1 Q2 V \<longleftrightarrow>
     Q1 \<union> Q2 \<subseteq> R
     \<and> (\<forall>x \<in> Q1 - V. D x = k) \<and> (\<forall>x \<in> Q2 - V - Q1. D x = Suc k)
     \<and> (\<forall>y \<in> R. D y < k \<longrightarrow> y \<in> V) \<and> (\<forall>y \<in> R. D y = k \<longrightarrow> y \<in> V \<union> Q1)
     \<and> (\<forall>x \<in> V. D x = k \<longrightarrow> E `` {x} \<subseteq> V \<union> Q1 \<union> Q2) \<and> (\<forall>x \<in> V. D x \<le> k)"

lemma levelD:
  assumes "level E D R k Q1 Q2 V"
  shows "x \<in> Q1 \<Longrightarrow> x \<in> R" "x \<in> Q2 \<Longrightarrow> x \<in> R" "x \<in> Q1 \<Longrightarrow> x \<notin> V \<Longrightarrow> D x = k"
    "x \<in> Q2 \<Longrightarrow> x \<notin> V \<Longrightarrow> x \<notin> Q1 \<Longrightarrow> D x = Suc k" "y \<in> R \<Longrightarrow> D y < k \<Longrightarrow> y \<in> V"
    "y \<in> R \<Longrightarrow> D y = k \<Longrightarrow> y \<in> V \<or> y \<in> Q1"
    "x \<in> V \<Longrightarrow> D x = k \<Longrightarrow> (x, y) \<in> E \<Longrightarrow> y \<in> V \<or> y \<in> Q1 \<or> y \<in> Q2" "x \<in> V \<Longrightarrow> D x \<le> k"
proof -
  note l = assms [unfolded level_def]
  note l2 = l [THEN conjunct2] note l3 = l2 [THEN conjunct2] note l4 = l3 [THEN conjunct2]
  note l5 = l4 [THEN conjunct2] note l6 = l5 [THEN conjunct2]
  show "x \<in> Q1 \<Longrightarrow> x \<in> R" "x \<in> Q2 \<Longrightarrow> x \<in> R" using l [THEN conjunct1] by blast+
  show "x \<in> Q1 \<Longrightarrow> x \<notin> V \<Longrightarrow> D x = k" using l2 [THEN conjunct1] by blast
  show "x \<in> Q2 \<Longrightarrow> x \<notin> V \<Longrightarrow> x \<notin> Q1 \<Longrightarrow> D x = Suc k" using l3 [THEN conjunct1] by blast
  show "y \<in> R \<Longrightarrow> D y < k \<Longrightarrow> y \<in> V" using l4 [THEN conjunct1] by blast
  show "y \<in> R \<Longrightarrow> D y = k \<Longrightarrow> y \<in> V \<or> y \<in> Q1" using l5 [THEN conjunct1] by blast
  show "x \<in> V \<Longrightarrow> D x = k \<Longrightarrow> (x, y) \<in> E \<Longrightarrow> y \<in> V \<or> y \<in> Q1 \<or> y \<in> Q2" using l6 [THEN conjunct1] by blast
  show "x \<in> V \<Longrightarrow> D x \<le> k" using l6 [THEN conjunct2] by blast
qed

lemma levelI:
  assumes "\<And>x. x \<in> Q1 \<Longrightarrow> x \<in> R" "\<And>x. x \<in> Q2 \<Longrightarrow> x \<in> R" "\<And>x. x \<in> Q1 \<Longrightarrow> x \<notin> V \<Longrightarrow> D x = k"
    "\<And>x. x \<in> Q2 \<Longrightarrow> x \<notin> V \<Longrightarrow> x \<notin> Q1 \<Longrightarrow> D x = Suc k" "\<And>y. y \<in> R \<Longrightarrow> D y < k \<Longrightarrow> y \<in> V"
    "\<And>y. y \<in> R \<Longrightarrow> D y = k \<Longrightarrow> y \<in> V \<or> y \<in> Q1"
    "\<And>x y. x \<in> V \<Longrightarrow> D x = k \<Longrightarrow> (x, y) \<in> E \<Longrightarrow> y \<in> V \<or> y \<in> Q1 \<or> y \<in> Q2" "\<And>x. x \<in> V \<Longrightarrow> D x \<le> k"
  shows "level E D R k Q1 Q2 V"
  unfolding level_def using assms by (intro conjI ballI impI subsetI) auto

lemma level_shift:
  assumes l: "level E D R k {} Q V" and pred: "\<And>y. y \<in> R \<Longrightarrow> D y = Suc k \<Longrightarrow> \<exists>x \<in> R. D x = k \<and> (x, y) \<in> E"
  shows "level E D R (Suc k) Q {} V"
proof (rule levelI)
  show "D x = Suc k" if "x \<in> Q" "x \<notin> V" for x using levelD(4) [OF l that] by simp
  show "y \<in> V" if "y \<in> R" "D y < Suc k" for y
    using levelD(5,6) [OF l that(1)] that(2) by (auto simp: less_Suc_eq)
  show "y \<in> V \<or> y \<in> Q" if y: "y \<in> R" "D y = Suc k" for y
  proof -
    obtain x where x: "x \<in> R" "D x = k" "(x, y) \<in> E" using pred [OF y] by blast
    then have "x \<in> V" using levelD(6) [OF l x(1,2)] by simp
    from levelD(7) [OF l this x(2,3)] show ?thesis by simp
  qed
  show "y \<in> V \<or> y \<in> Q \<or> y \<in> {}" if "x \<in> V" "D x = Suc k" for x y
    using levelD(8) [OF l that(1)] that(2) by simp
  show "D x \<le> Suc k" if "x \<in> V" for x using levelD(8) [OF l that] by simp
qed (use levelD(2) [OF l] in auto)

lemma level_drop:
  assumes l: "level E D R k (insert x Q1) Q2 V" and "x \<in> V"
  shows "level E D R k Q1 Q2 V"
proof (rule levelI)
  show "z \<in> V \<or> z \<in> Q1 \<or> z \<in> Q2" if "y \<in> V" "D y = k" "(y, z) \<in> E" for y z
    using levelD(7) [OF l that] assms(2) by blast
  show "y \<in> V \<or> y \<in> Q1" if "y \<in> R" "D y = k" for y
    using levelD(6) [OF l that] assms(2) by blast
  show "D y = Suc k" if "y \<in> Q2" "y \<notin> V" "y \<notin> Q1" for y
    using levelD(4) [OF l that(1,2)] that assms(2) by blast
qed (use levelD(1-3,5,8) [OF l] in simp_all)

lemma level_visit:
  assumes l: "level E D R k (insert x Q1) Q2 V" and x: "x \<notin> V"
    and R: "\<And>y. (x, y) \<in> E \<Longrightarrow> y \<in> R" "\<And>y. (x, y) \<in> E \<Longrightarrow> D y \<le> Suc (D x)"
  shows "D x = k" "level E D R k Q1 (Q2 \<union> (E `` {x} - insert x V)) (insert x V)"
proof -
  show d: "D x = k" using levelD(3) [OF l _ x] by simp
  have new: "D y = Suc k" if y: "(x, y) \<in> E" "y \<notin> insert x V" "y \<notin> Q1" for y
  proof -
    have "D y \<le> Suc k" using R(2) [OF y(1)] d by simp
    moreover have "\<not> D y < k" using levelD(5) [OF l R(1) [OF y(1)]] y(2) by blast
    moreover have "D y \<noteq> k" using levelD(6) [OF l R(1) [OF y(1)]] y(2,3) by blast
    ultimately show ?thesis by simp
  qed
  show "level E D R k Q1 (Q2 \<union> (E `` {x} - insert x V)) (insert x V)"
  proof (rule levelI)
    fix z y assume z: "z \<in> insert x V" "D z = k" "(z, y) \<in> E"
    show "y \<in> insert x V \<or> y \<in> Q1 \<or> y \<in> Q2 \<union> (E `` {x} - insert x V)"
    proof (cases "z = x")
      case False
      then show ?thesis using levelD(7) [OF l _ z(2,3)] z(1) by blast
    qed (use z(3) in blast)
  next
    fix z assume "z \<in> Q2 \<union> (E `` {x} - insert x V)" "z \<notin> insert x V" "z \<notin> Q1"
    then show "D z = Suc k" using levelD(4) [OF l, of z] new [of z] by blast
  next
    fix z assume "z \<in> insert x V"
    then show "D z \<le> k" using levelD(8) [OF l, of z] d by auto
  next
    fix z assume "z \<in> Q2 \<union> (E `` {x} - insert x V)"
    then show "z \<in> R" using levelD(2) [OF l, of z] R(1) by blast
  qed (use levelD(1,3,5,6) [OF l] in blast)+
qed

lemma bfs_loop_order:
  "bfs_loop ts q visited = Some out \<Longrightarrow> q = q1 @ q2 \<Longrightarrow> level (arcs ts) (dist (arcs ts) h) ((arcs ts)\<^sup>* `` {h}) k (set q1) (set q2) (marked visited) \<Longrightarrow>
   sorted (map (dist (arcs ts) h) out) \<and> (\<forall>x \<in> set out. k \<le> dist (arcs ts) h x)"
proof (induction ts q visited arbitrary: q1 q2 k out rule: bfs_loop.induct)
  case (1 ts visited)
  then show ?case by simp
next
  case (2 ts front q visited)
  let ?E = "arcs ts" and ?D = "dist (arcs ts) h" and ?R = "(arcs ts)\<^sup>* `` {h}"
  obtain p1 p2 m where p: "q = p1 @ p2" "k \<le> m" "level ?E ?D ?R m (insert front (set p1)) (set p2) (marked visited)"
  proof (cases q1)
    case Nil
    then have "level ?E ?D ?R (Suc k) (set q2) {} (marked visited)" "q2 = front # q"
      using "2.prems"(2,3) dist_pred [of h _ ?E k] by (auto intro!: level_shift)
    then show thesis using that [of q "[]" "Suc k"] by simp
  next
    case (Cons x p)
    then show thesis using that [of p q2 k] "2.prems"(2,3) by simp
  qed
  have ok: "\<not> (length visited \<le> front \<or> length ts \<le> front)" using "2.prems"(1) by (auto split: if_splits)
  show ?case
  proof (cases "visited ! front")
    case True
    then have "bfs_loop ts q visited = Some out" using "2.prems"(1) ok by simp
    moreover have "front \<in> marked visited" using True ok by simp
    from level_drop [OF p(3) this] have "level ?E ?D ?R m (set p1) (set p2) (marked visited)" .
    ultimately have "sorted (map (dist (arcs ts) h) out) \<and> (\<forall>x \<in> set out. m \<le> dist (arcs ts) h x)"
      using "2.IH"(2) [OF ok _ _ p(1)] True by blast
    then show ?thesis using p(2) by auto
  next
    case False
    define visited' where "visited' = visited[front := True]"
    define new where "new = map e_dst (filter (\<lambda>e. \<not> visited' ! e_dst e) (ts ! front))"
    have all: "list_all (\<lambda>e. e_dst e < length visited) (ts ! front)"
      using "2.prems"(1) ok False by (auto simp: Let_def split: if_splits)
    obtain rest where rest: "bfs_loop ts (q @ new) visited' = Some rest" "out = front # rest"
      using "2.prems"(1) ok False all by (auto simp: Let_def new_def visited'_def)
    have marked: "marked visited' = insert front (marked visited)"
      unfolding visited'_def using ok by (intro marked_update) simp
    have "front < length ts" using ok by simp
    then have new: "set new = arcs ts `` {front} - marked visited'"
      unfolding arcs_from [OF \<open>front < length ts\<close>] new_def using all by (auto simp: visited'_def list_all_iff)
    have nf: "front \<notin> marked visited" using False by simp
    have r: "(h, front) \<in> ?E\<^sup>*" using levelD(1) [OF p(3), of front] by simp
    have "\<And>y. (front, y) \<in> ?E \<Longrightarrow> y \<in> ?R" "\<And>y. (front, y) \<in> ?E \<Longrightarrow> ?D y \<le> Suc (?D front)"
      using dist_step [OF r] r by (auto intro: rtrancl_into_rtrancl)
    note visit = level_visit [OF p(3) nf this]
    have "level ?E ?D ?R m (set p1) (set (p2 @ new)) (marked visited')"
      using visit(2) unfolding set_append new marked .
    then have "sorted (map (dist (arcs ts) h) rest) \<and> (\<forall>x \<in> set rest. m \<le> dist (arcs ts) h x)"
      using "2.IH"(1) [OF ok False refl all, of rest p1 "p2 @ new" m] rest(1) p(1)
      unfolding new_def visited'_def by simp
    then show ?thesis using visit(1) p(2) rest(2) by auto
  qed
qed

section \<open>Graphs built from edges\<close>

fun add_edges :: "bool \<Rightarrow> ('v \<times> 'v \<times> 'w) list \<Rightarrow> ('v, 'w) graph \<Rightarrow> ('v, 'w) graph option" where
  "add_edges d [] g = Some g"
| "add_edges d ((a, b, w) # es) g = (case AddEdge d a b w g of None \<Rightarrow> None | Some g' \<Rightarrow> add_edges d es g')"

text \<open>The relation that the edges give on the indices of the vertices, in both directions if not directed.\<close>

definition neighbours :: "bool \<Rightarrow> 'v list \<Rightarrow> ('v \<times> 'v \<times> 'w) list \<Rightarrow> (nat \<times> nat) set" where
  "neighbours d vs es =
     {(i, j). \<exists>a b w. (a, b, w) \<in> set es \<and>
        (index_of_vertexs vs a = Some i \<and> index_of_vertexs vs b = Some j
         \<or> \<not> d \<and> index_of_vertexs vs a = Some j \<and> index_of_vertexs vs b = Some i)}"

lemma index_of_Some: "index_of_vertexs vs v = Some i \<Longrightarrow> i < length vs \<and> vs ! i = v"
  unfolding index_of_vertexs_def by (drule map_of_SomeD) (auto simp: set_zip)

lemma index_of_None: "index_of_vertexs vs v = None \<longleftrightarrow> v \<notin> set vs"
proof -
  have "fst ` set (rev (zip vs [0..<length vs])) = set vs"
    by (metis length_map list.set_map map_fst_zip map_nth set_rev length_upt minus_nat.diff_0)
  then show ?thesis unfolding index_of_vertexs_def map_of_eq_None_iff by simp
qed

lemma add_edge_arcs:
  assumes "tables_ok (length (vertexs g)) (link_tables g)" "i < length (vertexs g)" "j < length (vertexs g)"
  shows "\<exists>g'. add_edge i j w g = Some g' \<and> vertexs g' = vertexs g \<and> index_map g' = index_map g
    \<and> tables_ok (length (vertexs g')) (link_tables g') \<and> arcs (link_tables g') = insert (i, j) (arcs (link_tables g))"
  using assms by (auto simp: add_edge_def tables_ok_def arcs_def nth_list_update split: if_splits)

lemma AddEdge_arcs:
  assumes "tables_ok (length (vertexs g)) (link_tables g)" "index_map g = index_of_vertexs (vertexs g)"
    and "a \<in> set (vertexs g)" "b \<in> set (vertexs g)"
  shows "\<exists>g'. AddEdge d a b w g = Some g' \<and> vertexs g' = vertexs g \<and> index_map g' = index_map g
    \<and> tables_ok (length (vertexs g')) (link_tables g')
    \<and> arcs (link_tables g') = arcs (link_tables g) \<union> neighbours d (vertexs g) [(a, b, w)]"
proof -
  obtain i j where ij: "index_map g a = Some i" "index_map g b = Some j"
    using assms(2-4) index_of_None [of "vertexs g"] by (metis not_Some_eq)
  then have lt: "i < length (vertexs g)" "j < length (vertexs g)" using assms(2) index_of_Some by metis+
  obtain g1 where g1: "add_edge i j w g = Some g1" "vertexs g1 = vertexs g" "index_map g1 = index_map g"
      "tables_ok (length (vertexs g1)) (link_tables g1)" "arcs (link_tables g1) = insert (i, j) (arcs (link_tables g))"
    using add_edge_arcs [OF assms(1) lt, of w] by blast
  have nb: "neighbours d (vertexs g) [(a, b, w)] = (if d then {(i, j)} else {(i, j), (j, i)})"
    using ij unfolding assms(2) by (auto simp: neighbours_def)
  show ?thesis
  proof (cases d)
    case True
    then show ?thesis using ij g1 nb by (simp add: AddEdge_def)
  next
    case False
    obtain g2 where g2: "add_edge j i w g1 = Some g2" "vertexs g2 = vertexs g1" "index_map g2 = index_map g1"
        "tables_ok (length (vertexs g2)) (link_tables g2)" "arcs (link_tables g2) = insert (j, i) (arcs (link_tables g1))"
      using add_edge_arcs [OF g1(4), of j i w] lt g1(2) by auto
    then show ?thesis using False ij g1 nb by (auto simp: AddEdge_def)
  qed
qed

lemma add_edges_arcs:
  "tables_ok (length (vertexs g)) (link_tables g) \<Longrightarrow> index_map g = index_of_vertexs (vertexs g) \<Longrightarrow>
   \<forall>(a, b, w) \<in> set es. a \<in> set (vertexs g) \<and> b \<in> set (vertexs g) \<Longrightarrow>
   \<exists>g'. add_edges d es g = Some g' \<and> vertexs g' = vertexs g \<and> tables_ok (length (vertexs g')) (link_tables g')
     \<and> arcs (link_tables g') = arcs (link_tables g) \<union> neighbours d (vertexs g) es"
proof (induction es arbitrary: g)
  case Nil
  then show ?case by (simp add: neighbours_def)
next
  case (Cons e es)
  obtain a b w where e: "e = (a, b, w)" by (cases e)
  obtain g1 where g1: "AddEdge d a b w g = Some g1" "vertexs g1 = vertexs g" "index_map g1 = index_map g"
      "tables_ok (length (vertexs g1)) (link_tables g1)"
      "arcs (link_tables g1) = arcs (link_tables g) \<union> neighbours d (vertexs g) [(a, b, w)]"
    using AddEdge_arcs [OF Cons.prems(1,2), of a b d w] Cons.prems(3) e by auto
  have "neighbours d (vertexs g) (e # es) = neighbours d (vertexs g) [(a, b, w)] \<union> neighbours d (vertexs g) es"
    by (auto simp: neighbours_def e)
  then show ?case using Cons.IH [OF g1(4)] Cons.prems(2,3) g1 e by (auto simp: Un_assoc)
qed

section \<open>Properties\<close>

lemma new_graph:
  "vertexs (GraphLinkTable vs) = vs" "index_map (GraphLinkTable vs) = index_of_vertexs vs"
  "tables_ok (length vs) (link_tables (GraphLinkTable vs))" "arcs (link_tables (GraphLinkTable vs)) = {}"
  by (auto simp: GraphLinkTable_def tables_ok_def arcs_def)

lemma marked_none: "marked (replicate n False) = {}"
  by auto

text \<open>
  C17. Both searches of a graph with adjacency lists.  When its edges are between its vertices and the search starts
  at a vertex, both return, stay inside the vectors, and visit exactly the vertices that can be reached along the
  edges (in both directions if the graph is not directed), each once; the breadth-first search visits them in
  the order of their distance from the start.
\<close>

theorem graph_searches:
  assumes "list_all (\<lambda>(a, b, w). a \<in> set vs \<and> b \<in> set vs) es" "head < length vs"
  shows "\<exists>g bs ds. add_edges d es (GraphLinkTable vs) = Some g \<and> BFS head g = Some bs \<and> DFS head g = Some ds
    \<and> distinct bs \<and> set bs = (neighbours d vs es)\<^sup>* `` {head}
    \<and> distinct ds \<and> set ds = (neighbours d vs es)\<^sup>* `` {head}
    \<and> sorted (map (dist (neighbours d vs es) head) bs)"
proof -
  obtain g where g: "add_edges d es (GraphLinkTable vs) = Some g" "vertexs g = vs"
      "tables_ok (length vs) (link_tables g)" "arcs (link_tables g) = neighbours d vs es"
    using add_edges_arcs [of "GraphLinkTable vs" es d] assms(1) by (auto simp: new_graph list_all_iff)
  let ?ts = "link_tables g" and ?n = "length vs"
  have ok: "tables_ok (length (replicate ?n False)) ?ts" "\<forall>x \<in> set [head]. x < length (replicate ?n False)"
    using g(3) assms(2) by simp_all
  obtain bs where bs: "bfs_loop ?ts [head] (replicate ?n False) = Some bs" "distinct bs"
      "set bs = avoid (arcs ?ts) (marked (replicate ?n False)) (set [head])"
    using bfs_loop_ok [OF ok] by blast
  have "level (arcs ?ts) (dist (arcs ?ts) head) ((arcs ?ts)\<^sup>* `` {head}) 0 (set [head]) (set []) {}"
    unfolding level_def using dist_path [of head _ "arcs ?ts"] dist_least [of head head 0 "arcs ?ts"] by force
  then have "sorted (map (dist (arcs ?ts) head) bs)"
    using bfs_loop_order [OF bs(1), of "[head]" "[]" head 0] unfolding marked_none by simp
  moreover have "set bs = (arcs ?ts)\<^sup>* `` {head}" using bs(3) unfolding marked_none by (simp add: avoid_rtrancl)
  moreover have "tables_ok (length ((replicate ?n False)[head := True])) ?ts"
      "\<forall>e \<in> set (?ts ! head). e_dst e < length ((replicate ?n False)[head := True])"
    using g(3) assms(2) by (simp_all add: tables_ok_def)
  from dfs_edges_ok [OF this]
  obtain out v where dfs: "dfs_edges ?ts (?ts ! head) ((replicate ?n False)[head := True]) = Some (out, v)" "distinct out"
      "set out = avoid (arcs ?ts) (marked ((replicate ?n False)[head := True])) (e_dst ` set (?ts ! head))"
    by blast
  have h: "head < length ?ts" using g(3) assms(2) by (simp add: tables_ok_def)
  have "head < length (replicate ?n False)" using assms(2) by simp
  from marked_update [OF this]
  have m: "marked ((replicate ?n False)[head := True]) = {head}" unfolding marked_none .
  have "insert head (set out) = (arcs ?ts)\<^sup>* `` {head}"
    using avoid_visit [of head "{}" "arcs ?ts" "{}"] unfolding avoid_rtrancl dfs(3) m arcs_from [OF h] by simp
  moreover have "head \<notin> set out" using avoid_disjoint [of "arcs ?ts" "{head}"] unfolding dfs(3) m by blast
  ultimately show ?thesis
    using g bs(1,2) dfs(1,2) assms(2) h by (simp add: BFS_def DFS_def)
qed

theorem graph_searches_witness:
  "\<exists>g bs ds. add_edges True [(''a'', ''b'', 1 :: int), (''b'', ''a'', 2)] (GraphLinkTable [''a'', ''b'', ''c'']) = Some g
    \<and> BFS 0 g = Some bs \<and> DFS 0 g = Some ds \<and> distinct bs \<and> distinct ds \<and> set bs = set ds"
  using graph_searches [of "[''a'', ''b'', ''c'']" "[(''a'', ''b'', 1 :: int), (''b'', ''a'', 2)]" 0 True] by auto

text \<open>
  The adjacency matrix loses edges: \<open>AddEdge\<close> compares where it should assign, so it stores an edge between two
  vertices in one of its two places if the graph is not directed, and nowhere if it is.
\<close>

theorem martix_loses_edges:
  assumes "gm_index_map g a = Some i" "gm_index_map g b = Some j" "i \<noteq> j"
    and "i < length (gm_martix g)" "j < length (gm_martix g)" "i < length (gm_martix g ! j)"
  shows "\<exists>g'. gm_AddEdge d a b w g = Some g' \<and> gm_martix g' ! i ! j = gm_martix g ! i ! j
    \<and> gm_martix g' ! j ! i = (if d then gm_martix g ! j ! i else w)"
  using assms by (simp add: gm_AddEdge_def index_at_def nth_list_update)

theorem martix_loses_edges_witness:
  "\<exists>g. gm_AddEdge False ''a'' ''b'' 5 (GraphMartix (0 :: int) [''a'', ''b'']) = Some g
    \<and> gm_martix g ! 0 ! 1 = 0 \<and> gm_martix g ! 1 ! 0 = 5"
  using martix_loses_edges [of "GraphMartix (0 :: int) [''a'', ''b'']" "''a''" 0 "''b''" 1 False 5]
  by (simp add: GraphMartix_def index_of_vertexs_def)

text \<open>
  Kruskal's algorithm on a graph whose edges at the vertex 0 form a triangle: the union-find takes the parent 0
  for a root, so the edges 0-1, 0-2 and 1-2 are all taken, three edges are enough, and the vertex 3 is left
  out.  On a graph of one vertex the empty queue is asked for its top.
\<close>

theorem kruskal_takes_a_cycle:
  "Option.bind (add_edges False [(0, 1, 1 :: int), (0, 2, 2), (1, 2, 3), (2, 3, 4)] (GraphLinkTable [0, 1, 2, 3 :: int]))
     (\<lambda>g. map_option (\<lambda>tree. map (map e_dst) (link_tables tree)) (Kruskal (sort_key e_w (kruskal_edges g)) g))
   = Some [[2, 1], [2], [], []]
   \<and> Kruskal [] (GraphLinkTable [0 :: int] :: (int, int) graph) = None"
  by (simp add: GraphLinkTable_def AddEdge_def add_edge_def index_of_vertexs_def kruskal_edges_def Kruskal_def
      SetUnionFriend_def UnionFindSet_def FindParent.simps eval_nat_numeral)

end
