(* ===== verification/AVL_Tree.thy ===== *)
theory AVL_Tree
  imports Main
begin

text \<open>
  The AVL tree of \<open>DataStruct/AVLTree/AVLTree.h\<close>: insertion with balance factors in the nodes, the four
  rotations, the test of the balance and the traversal.  A pointer to a node with its \<open>_parent\<close> chain is
  a position: the subtree at the node and the steps from the node up to the root.  The keys of a tree
  are different, so two pointers are equal exactly when the keys of their nodes are; the loop that
  updates the balance factors compares pointers, and the model compares the keys.
\<close>

section \<open>Definitions from the code\<close>

datatype ('k, 'v) avl =
    Leaf
  | Node (avl_left: "('k, 'v) avl") (avl_key: 'k) (avl_value: 'v) (bf: int) (avl_right: "('k, 'v) avl")
  where "bf Leaf = 0"

text \<open>The parent, seen from its left or from its right child.\<close>

datatype ('k, 'v) above =
    LeftOf (above_key: 'k) 'v (above_bf: int) (other: "('k, 'v) avl")
  | RightOf (other: "('k, 'v) avl") (above_key: 'k) 'v (above_bf: int)

type_synonym ('k, 'v) place = "('k, 'v) avl \<times> ('k, 'v) above list"

fun link :: "('k, 'v) avl \<Rightarrow> ('k, 'v) above \<Rightarrow> ('k, 'v) avl" where
  "link t (LeftOf k v b r) = Node t k v b r"
| "link t (RightOf l k v b) = Node l k v b t"

abbreviation root_of :: "('k, 'v) place \<Rightarrow> ('k, 'v) avl" where
  "root_of p \<equiv> foldl link (fst p) (snd p)"

subsection \<open>The rotations\<close>

text \<open>
  A rotation hangs the new top on the side of \<open>grandfather\<close> that the comparison of the keys says.  If
  that is not the side of \<open>parent\<close>, the nodes are no longer a tree and the result is \<open>None\<close>, as for a
  step through \<open>NULL\<close>; the result is the position of \<open>parent\<close> after the rotation.
\<close>

fun right_side :: "'k::linorder \<Rightarrow> ('k, 'v) above list \<Rightarrow> bool" where
  "right_side k [] \<longleftrightarrow> True"
| "right_side k (RightOf l g v b # ps) \<longleftrightarrow> g < k"
| "right_side k (LeftOf g v b r # ps) \<longleftrightarrow> \<not> g < k"

fun left_left_rotation :: "('k::linorder, 'v) place \<Rightarrow> ('k, 'v) place option" where
  "left_left_rotation (Node l k v b (Node subRL rk rv rb rr), ps) =
     (if right_side k ps then Some (Node l k v 0 subRL, LeftOf rk rv 0 rr # ps) else None)"
| "left_left_rotation _ = None"

fun right_right_rotation :: "('k::linorder, 'v) place \<Rightarrow> ('k, 'v) place option" where
  "right_right_rotation (Node (Node ll lk lv lb subLR) k v b r, ps) =
     (if right_side k ps then Some (Node subLR k v 0 r, RightOf ll lk lv 0 # ps) else None)"
| "right_right_rotation _ = None"

fun set_bf :: "int \<Rightarrow> ('k, 'v) avl \<Rightarrow> ('k, 'v) avl" where
  "set_bf b Leaf = Leaf"
| "set_bf b (Node l k v _ r) = Node l k v b r"

text \<open>
  The double rotations turn the child first, with \<open>parent\<close> as its grandfather, and then \<open>parent\<close>; at
  the end \<open>parent\<close> and the old child are the two children of the new top, whose balance factor is 0.
\<close>

definition left_right_rotation :: "('k::linorder, 'v) place \<Rightarrow> ('k, 'v) place option" where
  "left_right_rotation p =
     (case p of
        (Node (Node ll lk lv lb (Node lrl lrk lrv lrb lrr)) k v b r, ps) \<Rightarrow>
          (case left_left_rotation (Node ll lk lv lb (Node lrl lrk lrv lrb lrr), LeftOf k v b r # ps) of
             Some (subL, up # LeftOf k v b r # ps) \<Rightarrow>
               (case right_right_rotation (Node (link subL up) k v b r, ps) of
                  Some (parent, RightOf subL tk tv tb # ps) \<Rightarrow>
                    (if lrb = - 1 then Some (set_bf 1 parent, RightOf (set_bf 0 subL) tk tv 0 # ps)
                     else if lrb = 1 then Some (set_bf 0 parent, RightOf (set_bf (- 1) subL) tk tv 0 # ps)
                     else Some (set_bf 0 parent, RightOf (set_bf 0 subL) tk tv 0 # ps))
                | _ \<Rightarrow> None)
           | _ \<Rightarrow> None)
      | _ \<Rightarrow> None)"

text \<open>Where the factor of \<open>subRL\<close> was 1 the code sets that of \<open>subRL\<close>, and leaves that of \<open>subR\<close> at 0.\<close>

definition right_left_rotation :: "('k::linorder, 'v) place \<Rightarrow> ('k, 'v) place option" where
  "right_left_rotation p =
     (case p of
        (Node l k v b (Node (Node rll rlk rlv rlb rlr) rk rv rb rr), ps) \<Rightarrow>
          (case right_right_rotation (Node (Node rll rlk rlv rlb rlr) rk rv rb rr, RightOf l k v b # ps) of
             Some (subR, up # RightOf l k v b # ps) \<Rightarrow>
               (case left_left_rotation (Node l k v b (link subR up), ps) of
                  Some (parent, LeftOf tk tv tb subR # ps) \<Rightarrow>
                    (if rlb = 1 then Some (set_bf (- 1) parent, LeftOf tk tv 0 subR # ps)
                     else if rlb = - 1 then Some (set_bf 0 parent, LeftOf tk tv 0 (set_bf 1 subR) # ps)
                     else Some (set_bf 0 parent, LeftOf tk tv 0 (set_bf 0 subR) # ps))
                | _ \<Rightarrow> None)
           | _ \<Rightarrow> None)
      | _ \<Rightarrow> None)"

subsection \<open>insert\<close>

fun find_place :: "'k::linorder \<Rightarrow> ('k, 'v) avl \<Rightarrow> ('k, 'v) above list \<Rightarrow> ('k, 'v) above list option" where
  "find_place key Leaf ps = Some ps"
| "find_place key (Node l k v b r) ps =
     (if k < key then find_place key r (RightOf l k v b # ps)
      else if key < k then find_place key l (LeftOf k v b r # ps)
      else None)"

fun has_key :: "'k \<Rightarrow> ('k, 'v) avl \<Rightarrow> bool" where
  "has_key k Leaf \<longleftrightarrow> False"
| "has_key k (Node l k' v b r) \<longleftrightarrow> k = k'"

text \<open>The balance factor of \<open>parent\<close> after the test whether \<open>cur\<close> is one of its children.\<close>

fun new_bf :: "'k \<Rightarrow> ('k, 'v) avl \<Rightarrow> int" where
  "new_bf cur Leaf = 0"
| "new_bf cur (Node l k v b r) = (if has_key cur l then b - 1 else if has_key cur r then b + 1 else b)"

text \<open>
  The loop \<open>while (parent)\<close> with the key of \<open>cur\<close> and the position of \<open>parent\<close>.  \<open>Some None\<close> is a step
  through \<open>NULL\<close>; \<open>None\<close> a loop that does not end.  After a rotation the loop goes on, with the same
  \<open>cur\<close> and \<open>parent\<close>.
\<close>

partial_function (option) update_bf ::
  "'k::linorder \<Rightarrow> ('k, 'v) place \<Rightarrow> (bool \<times> ('k, 'v) avl) option option" where
  "update_bf cur p =
     (let b = new_bf cur (fst p); parent = set_bf b (fst p); ps = snd p in
      if parent = Leaf then Some None
      else if b = 0 then Some (Some (True, root_of (parent, ps)))
      else if \<bar>b\<bar> = 1
      then (case ps of [] \<Rightarrow> Some (Some (True, parent)) | u # us \<Rightarrow> update_bf (avl_key parent) (link parent u, us))
      else if b = 2
      then (if avl_right parent = Leaf then Some None
            else if bf (avl_right parent) = 1
            then (case left_left_rotation (parent, ps) of None \<Rightarrow> Some None | Some q \<Rightarrow> update_bf cur q)
            else if bf (avl_right parent) = - 1
            then (case right_left_rotation (parent, ps) of None \<Rightarrow> Some None | Some q \<Rightarrow> update_bf cur q)
            else update_bf cur (parent, ps))
      else if b = - 2
      then (if avl_left parent = Leaf then Some None
            else if bf (avl_left parent) = - 1
            then (case right_right_rotation (parent, ps) of None \<Rightarrow> Some None | Some q \<Rightarrow> update_bf cur q)
            else if bf (avl_left parent) = 1
            then (case left_right_rotation (parent, ps) of None \<Rightarrow> Some None | Some q \<Rightarrow> update_bf cur q)
            else update_bf cur (parent, ps))
      else Some (Some (False, root_of (parent, ps))))"

definition insert_avl ::
  "'k::linorder \<Rightarrow> 'v \<Rightarrow> ('k, 'v) avl \<Rightarrow> (bool \<times> ('k, 'v) avl) option option" where
  "insert_avl key value root =
     (if root = Leaf then Some (Some (True, Node Leaf key value 0 Leaf))
      else (case find_place key root [] of
              None \<Rightarrow> Some (Some (False, root))
            | Some [] \<Rightarrow> Some None
            | Some (u # us) \<Rightarrow> update_bf key (link (Node Leaf key value 0 Leaf) u, us)))"

subsection \<open>isBalance and inOder\<close>

text \<open>\<open>None\<close> is the result \<open>false\<close>; otherwise the value of the reference parameter.\<close>

fun is_balance :: "('k, 'v) avl \<Rightarrow> int option" where
  "is_balance Leaf = Some 0"
| "is_balance (Node l k v b r) =
     (case is_balance l of None \<Rightarrow> None
      | Some left_high \<Rightarrow>
          (case is_balance r of None \<Rightarrow> None
           | Some right_high \<Rightarrow>
               if \<bar>left_high - right_high\<bar> > 1 then None
               else Some (if left_high > right_high then left_high + 1 else right_high + 1)))"

definition isBalance :: "('k, 'v) avl \<Rightarrow> bool" where
  "isBalance root \<longleftrightarrow> is_balance root \<noteq> None"

fun push_lefts :: "('k, 'v) avl \<Rightarrow> ('k, 'v) avl list \<Rightarrow> ('k, 'v) avl list" where
  "push_lefts Leaf s = s"
| "push_lefts (Node l k v b r) s = push_lefts l (Node l k v b r # s)"

definition stack_work :: "('k, 'v) avl list \<Rightarrow> nat" where
  "stack_work s = sum_list (map (\<lambda>t. 1 + size (avl_right t)) s)"

lemma work_push_lefts: "stack_work (push_lefts t s) = size t + stack_work s"
  by (induction t s rule: push_lefts.induct) (simp_all add: stack_work_def)

text \<open>The list is the keys and values that are written to \<open>std::cout\<close>.\<close>

function in_oder_loop :: "('k, 'v) avl \<Rightarrow> ('k, 'v) avl list \<Rightarrow> ('k \<times> 'v) list" where
  "in_oder_loop cur s =
     (case push_lefts cur s of
        [] \<Rightarrow> []
      | front # s' \<Rightarrow> (avl_key front, avl_value front) # in_oder_loop (avl_right front) s')"
  by pat_completeness auto
termination
proof (relation "measure (\<lambda>(cur, s). size cur + stack_work s)")
  fix cur :: "('k, 'v) avl" and s n s'
  assume "push_lefts cur s = n # s'"
  then have "size cur + stack_work s = 1 + size (avl_right n) + stack_work s'"
    using work_push_lefts [of cur s] by (simp add: stack_work_def)
  then show "((avl_right n, s'), cur, s) \<in> measure (\<lambda>(cur, s). size cur + stack_work s)" by simp
qed simp

definition inOder :: "('k, 'v) avl \<Rightarrow> ('k \<times> 'v) list" where
  "inOder root = (if root = Leaf then [] else in_oder_loop root [])"

section \<open>The entries in order, and the invariant\<close>

fun items :: "('k, 'v) avl \<Rightarrow> ('k \<times> 'v) list" where
  "items Leaf = []"
| "items (Node l k v b r) = items l @ (k, v) # items r"

fun before :: "('k, 'v) above list \<Rightarrow> ('k \<times> 'v) list" where
  "before [] = []"
| "before (LeftOf k v b r # ps) = before ps"
| "before (RightOf l k v b # ps) = before ps @ items l @ [(k, v)]"

fun behind :: "('k, 'v) above list \<Rightarrow> ('k \<times> 'v) list" where
  "behind [] = []"
| "behind (LeftOf k v b r # ps) = (k, v) # items r @ behind ps"
| "behind (RightOf l k v b # ps) = behind ps"

lemma items_root_of: "items (root_of (t, ps)) = before ps @ items t @ behind ps"
proof (induction ps arbitrary: t)
  case (Cons u us)
  from this [of "link t u"] show ?case by (cases u) simp_all
qed simp

abbreviation increasing :: "('k::linorder \<times> 'v) list \<Rightarrow> bool" where
  "increasing xs \<equiv> sorted_wrt (<) (map fst xs)"

fun height :: "('k, 'v) avl \<Rightarrow> nat" where
  "height Leaf = 0"
| "height (Node l k v b r) = 1 + max (height l) (height r)"

fun balanced :: "('k, 'v) avl \<Rightarrow> bool" where
  "balanced Leaf \<longleftrightarrow> True"
| "balanced (Node l k v b r) \<longleftrightarrow>
     b = int (height r) - int (height l) \<and> \<bar>b\<bar> \<le> 1 \<and> balanced l \<and> balanced r"

definition avl_ok :: "('k::linorder, 'v) avl \<Rightarrow> bool" where
  "avl_ok t \<longleftrightarrow> increasing (items t) \<and> balanced t"

text \<open>The steps up from a subtree of height \<open>h\<close> in a balanced tree.\<close>

fun fits :: "nat \<Rightarrow> ('k, 'v) above list \<Rightarrow> bool" where
  "fits h [] \<longleftrightarrow> True"
| "fits h (LeftOf k v b r # ps) \<longleftrightarrow>
     b = int (height r) - int h \<and> \<bar>b\<bar> \<le> 1 \<and> balanced r \<and> fits (1 + max h (height r)) ps"
| "fits h (RightOf l k v b # ps) \<longleftrightarrow>
     b = int h - int (height l) \<and> \<bar>b\<bar> \<le> 1 \<and> balanced l \<and> fits (1 + max (height l) h) ps"

lemma balanced_root_of: "balanced t \<Longrightarrow> fits (height t) ps \<Longrightarrow> balanced (root_of (t, ps))"
proof (induction ps arbitrary: t)
  case (Cons u us)
  then show ?case using Cons.IH [of "link t u"] by (cases u) simp_all
qed simp

text \<open>
  The insertion that does not stop.  On the way up from the new node the first parent that was not in
  balance decides: it is in balance now, or it is turned.  After a double rotation whose innermost node
  leans away from \<open>parent\<close>, \<open>parent\<close> gets a factor that is not 0, and the loop goes up once more through
  nodes it has updated before.
\<close>

fun runs_on :: "('k, 'v) avl \<Rightarrow> ('k, 'v) above list \<Rightarrow> bool" where
  "runs_on t [] \<longleftrightarrow> False"
| "runs_on t (LeftOf k v b r # ps) \<longleftrightarrow>
     (if b = 0 then runs_on (Node t k v (- 1) r) ps
      else b = - 1 \<and> bf t = 1 \<and> bf (avl_right t) = - 1)"
| "runs_on t (RightOf l k v b # ps) \<longleftrightarrow>
     (if b = 0 then runs_on (Node l k v 1 t) ps
      else b = 1 \<and> bf t = - 1 \<and> bf (avl_left t) = 1)"

definition insert_runs_on :: "'k::linorder \<Rightarrow> 'v \<Rightarrow> ('k, 'v) avl \<Rightarrow> bool" where
  "insert_runs_on key value root =
     (case find_place key root [] of None \<Rightarrow> False | Some ps \<Rightarrow> runs_on (Node Leaf key value 0 Leaf) ps)"

section \<open>The loop on the way up\<close>

lemma increasing_append:
  "increasing (xs @ ys) \<longleftrightarrow> increasing xs \<and> increasing ys \<and> (\<forall>x \<in> set xs. \<forall>y \<in> set ys. fst x < fst y)"
  by (auto simp: sorted_wrt_append)

abbreviation keys :: "('k, 'v) avl \<Rightarrow> 'k set" where
  "keys t \<equiv> fst ` set (items t)"

lemma increasing_node:
  "increasing (items (Node l k v b r)) \<longleftrightarrow>
     increasing (items l) \<and> increasing (items r) \<and> (\<forall>x \<in> keys l. x < k) \<and> (\<forall>x \<in> keys r. k < x)"
  by (auto simp: sorted_wrt_append) (metis fst_conv less_trans)

lemma keys_node: "keys (Node l k v b r) = insert k (keys l \<union> keys r)"
  by auto

lemma increasing_part: "increasing (items (root_of (t, ps))) \<Longrightarrow> increasing (items t)"
  unfolding items_root_of by (simp add: sorted_wrt_append)

lemmas in_order = increasing_node keys_node

lemma right_side_in_order:
  "increasing (items (root_of (Node l k v b r, ps))) \<Longrightarrow> right_side k ps"
proof -
  assume "increasing (items (root_of (Node l k v b r, ps)))"
  then have "increasing (before ps @ (items l @ (k, v) # items r) @ behind ps)"
    by (simp only: items_root_of items.simps)
  then show "right_side k ps"
    by (cases "(k, ps)" rule: right_side.cases) (auto simp: increasing_append sorted_wrt_append)
qed

fun raised :: "('k, 'v) above \<Rightarrow> int" where
  "raised (LeftOf k v b r) = b - 1"
| "raised (RightOf l k v b) = b + 1"

lemma has_key_in: "has_key k t \<Longrightarrow> k \<in> keys t"
  by (cases t) auto

lemma new_bf_raised:
  assumes "increasing (items (root_of (t, u # us)))" and "t \<noteq> Leaf"
  shows "new_bf (avl_key t) (link t u) = raised u"
proof -
  have "increasing (items (link t u))" using increasing_part [of "link t u" us] assms(1) by simp
  moreover obtain l k v b r where "t = Node l k v b r" using assms(2) by (cases t) auto
  ultimately show ?thesis
    using has_key_in [of "avl_key t" "other u"] by (cases u) (auto simp: sorted_wrt_append)
qed

lemma new_bf_kept:
  assumes "cur \<notin> keys (avl_left t)" "cur \<notin> keys (avl_right t)"
  shows "new_bf cur t = bf t"
  using assms has_key_in [of cur] by (cases t) auto

text \<open>The loop after \<open>cur = parent\<close>, with the subtree at \<open>cur\<close> and the steps up from it.\<close>

fun go_up :: "('k::linorder, 'v) avl \<Rightarrow> ('k, 'v) above list \<Rightarrow> (bool \<times> ('k, 'v) avl) option option" where
  "go_up t [] = Some (Some (True, t))"
| "go_up t (u # us) = update_bf (avl_key t) (link t u, us)"

lemma update_still:
  "new_bf cur p = 0 \<Longrightarrow> p \<noteq> Leaf \<Longrightarrow> update_bf cur (p, ps) = Some (Some (True, root_of (set_bf 0 p, ps)))"
  by (cases p) (subst update_bf.simps, simp add: Let_def)+

lemma update_on:
  "\<bar>new_bf cur p\<bar> = 1 \<Longrightarrow> p \<noteq> Leaf \<Longrightarrow> update_bf cur (p, ps) = go_up (set_bf (new_bf cur p) p) ps"
  by (cases p; cases ps) (subst update_bf.simps, auto simp: Let_def simp del: new_bf.simps)+

lemma turn_left:
  assumes "increasing (items (root_of (Node l k v 1 (Node rl rk rv 1 rr), ps)))"
  shows "update_bf rk (Node l k v 1 (Node rl rk rv 1 rr), ps)
    = Some (Some (True, root_of (Node (Node l k v 0 rl) rk rv 0 rr, ps)))"
proof -
  have "rk \<notin> keys l" "rk \<notin> keys rl"
    using increasing_part [OF assms] by (auto simp: in_order simp del: items.simps)
  then have b: "new_bf rk (Node l k v 1 (Node rl rk rv 1 rr)) = 2" "new_bf rk (Node l k v 0 rl) = 0"
    using has_key_in [of rk] by auto
  have "update_bf rk (Node l k v 1 (Node rl rk rv 1 rr), ps) = update_bf rk (Node l k v 0 rl, LeftOf rk rv 0 rr # ps)"
    using b(1) right_side_in_order [OF assms] by (subst update_bf.simps) (simp add: Let_def)
  then show ?thesis using update_still [OF b(2), of "LeftOf rk rv 0 rr # ps"] by simp
qed

lemma turn_right:
  assumes "increasing (items (root_of (Node (Node ll lk lv (- 1) lr) k v (- 1) r, ps)))"
  shows "update_bf lk (Node (Node ll lk lv (- 1) lr) k v (- 1) r, ps)
    = Some (Some (True, root_of (Node ll lk lv 0 (Node lr k v 0 r), ps)))"
proof -
  have "lk \<notin> keys r" "lk \<notin> keys lr"
    using increasing_part [OF assms] by (auto simp: in_order simp del: items.simps)
  then have b: "new_bf lk (Node (Node ll lk lv (- 1) lr) k v (- 1) r) = - 2" "new_bf lk (Node lr k v 0 r) = 0"
    using has_key_in [of lk] by auto
  have "update_bf lk (Node (Node ll lk lv (- 1) lr) k v (- 1) r, ps)
      = update_bf lk (Node lr k v 0 r, RightOf ll lk lv 0 # ps)"
    using b(1) right_side_in_order [OF assms] by (subst update_bf.simps) (simp add: Let_def)
  then show ?thesis using update_still [OF b(2), of "RightOf ll lk lv 0 # ps"] by simp
qed

lemma turn_right_left:
  assumes "increasing (items (root_of (Node l k v 1 (Node (Node a x xv c d) rk rv (- 1) rr), ps)))"
  shows "update_bf rk (Node l k v 1 (Node (Node a x xv c d) rk rv (- 1) rr), ps) =
    (if c = 1 then go_up (Node (Node l k v (- 1) a) x xv (- 1) (Node d rk rv 0 rr)) ps
     else Some (Some (True, root_of (Node (Node l k v 0 a) x xv 0
            (Node d rk rv (if c = - 1 then 1 else 0) rr), ps))))"
proof -
  have "rk \<notin> keys l" "rk \<notin> keys a" "k < rk" "k < x" "x < rk"
    using increasing_part [OF assms] by (auto simp: in_order simp del: items.simps)
  then have b: "new_bf rk (Node l k v 1 (Node (Node a x xv c d) rk rv (- 1) rr)) = 2"
      "new_bf rk (Node l k v 0 a) = 0" "new_bf rk (Node l k v (- 1) a) = - 1"
    using has_key_in [of rk] by auto
  define t where "t = Node d rk rv (if c = - 1 then 1 else 0) rr"
  have "update_bf rk (Node l k v 1 (Node (Node a x xv c d) rk rv (- 1) rr), ps)
      = update_bf rk (Node l k v (if c = 1 then - 1 else 0) a, LeftOf x xv 0 t # ps)"
    using b(1) right_side_in_order [OF assms] \<open>k < rk\<close> \<open>k < x\<close>
    by (subst update_bf.simps) (simp add: Let_def right_left_rotation_def t_def)
  moreover have "update_bf rk (Node l k v 0 a, LeftOf x xv 0 t # ps)
      = Some (Some (True, root_of (Node (Node l k v 0 a) x xv 0 t, ps)))"
    using update_still [OF b(2), of "LeftOf x xv 0 t # ps"] by simp
  moreover have "update_bf rk (Node l k v (- 1) a, LeftOf x xv 0 t # ps)
      = go_up (Node (Node l k v (- 1) a) x xv (- 1) t) ps"
    using update_on [of rk "Node l k v (- 1) a" "LeftOf x xv 0 t # ps"] b(3)
      update_on [of k "Node (Node l k v (- 1) a) x xv 0 t" ps] by simp
  ultimately show ?thesis by (auto simp add: t_def)
qed

lemma turn_left_right:
  assumes "increasing (items (root_of (Node (Node ll lk lv 1 (Node a x xv c d)) k v (- 1) r, ps)))"
  shows "update_bf lk (Node (Node ll lk lv 1 (Node a x xv c d)) k v (- 1) r, ps) =
    (if c = - 1 then go_up (Node (Node ll lk lv 0 a) x xv 1 (Node d k v 1 r)) ps
     else Some (Some (True, root_of (Node (Node ll lk lv (if c = 1 then - 1 else 0) a) x xv 0
            (Node d k v 0 r), ps))))"
proof -
  have "lk \<notin> keys r" "lk \<notin> keys d" "lk < k" "x < k" "lk < x"
    using increasing_part [OF assms] by (auto simp: in_order simp del: items.simps)
  then have b: "new_bf lk (Node (Node ll lk lv 1 (Node a x xv c d)) k v (- 1) r) = - 2"
      "new_bf lk (Node d k v 0 r) = 0" "new_bf lk (Node d k v 1 r) = 1"
    using has_key_in [of lk] by auto
  define t where "t = Node ll lk lv (if c = 1 then - 1 else 0) a"
  have "update_bf lk (Node (Node ll lk lv 1 (Node a x xv c d)) k v (- 1) r, ps)
      = update_bf lk (Node d k v (if c = - 1 then 1 else 0) r, RightOf t x xv 0 # ps)"
    using b(1) right_side_in_order [OF assms] \<open>lk < k\<close> \<open>x < k\<close>
    by (subst update_bf.simps) (auto simp add: Let_def left_right_rotation_def t_def)
  moreover have "update_bf lk (Node d k v 0 r, RightOf t x xv 0 # ps)
      = Some (Some (True, root_of (Node t x xv 0 (Node d k v 0 r), ps)))"
    using update_still [OF b(2), of "RightOf t x xv 0 # ps"] by simp
  moreover have "update_bf lk (Node d k v 1 r, RightOf t x xv 0 # ps) = go_up (Node t x xv 1 (Node d k v 1 r)) ps"
    using update_on [of lk "Node d k v 1 r" "RightOf t x xv 0 # ps"] b(3)
      update_on [of k "Node t x xv 0 (Node d k v 1 r)" ps] \<open>lk < k\<close> by (simp add: t_def)
  ultimately show ?thesis by (auto simp add: t_def)
qed

section \<open>Insertion\<close>

definition leaning :: "('k, 'v) avl \<Rightarrow> bool" where
  "leaning t \<longleftrightarrow> (bf t = 1 \<and> avl_right t \<noteq> Leaf) \<or> (bf t = - 1 \<and> avl_left t \<noteq> Leaf)"

definition small :: "('k, 'v) above list \<Rightarrow> bool" where
  "small ps \<longleftrightarrow> (\<forall>u \<in> set ps. \<bar>above_bf u\<bar> \<le> 1)"

lemma small_Cons [simp]: "small (u # us) \<longleftrightarrow> \<bar>above_bf u\<bar> \<le> 1 \<and> small us"
  by (simp add: small_def)

lemma go_up_step:
  assumes "increasing (items (root_of (t, u # us)))" "t \<noteq> Leaf"
  shows "raised u = 0 \<Longrightarrow> go_up t (u # us) = Some (Some (True, root_of (set_bf 0 (link t u), us)))"
    and "\<bar>raised u\<bar> = 1 \<Longrightarrow> go_up t (u # us) = go_up (set_bf (raised u) (link t u)) us"
proof -
  have "link t u \<noteq> Leaf" by (cases u) auto
  then show "raised u = 0 \<Longrightarrow> go_up t (u # us) = Some (Some (True, root_of (set_bf 0 (link t u), us)))"
    and "\<bar>raised u\<bar> = 1 \<Longrightarrow> go_up t (u # us) = go_up (set_bf (raised u) (link t u)) us"
    using new_bf_raised [OF assms] by (simp_all add: update_still update_on)
qed

lemma items_set_bf [simp]: "items (set_bf b t) = items t"
  by (cases t) simp_all

text \<open>Whatever the balance factors are, the loop ends and keeps the entries and their order.\<close>

lemma go_up_ends:
  "increasing (items (root_of (t, ps))) \<Longrightarrow> leaning t \<Longrightarrow> small ps \<Longrightarrow>
   \<exists>T. go_up t ps = Some (Some (True, T)) \<and> items T = items (root_of (t, ps))"
proof (induction ps arbitrary: t)
  case (Cons u us)
  have "t \<noteq> Leaf" using Cons.prems(2) by (auto simp: leaning_def)
  note step = go_up_step [OF Cons.prems(1) this]
  obtain tl tk tv tb tr where t: "t = Node tl tk tv tb tr" using \<open>t \<noteq> Leaf\<close> by (cases t) auto
  have incr: "increasing (items (root_of (link t u, us)))" using Cons.prems(1) by simp
  consider "raised u = 0" | "\<bar>raised u\<bar> = 1" | "\<bar>raised u\<bar> = 2"
    using Cons.prems(3) by (cases u) (simp_all; linarith)+
  then show ?case
  proof cases
    case 1
    then show ?thesis using step(1) by (simp add: items_root_of [simplified])
  next
    case 2
    have "leaning (set_bf (raised u) (link t u))" using 2 Cons.prems(3) t by (cases u) (auto simp: leaning_def)
    moreover have "items (root_of (set_bf (raised u) (link t u), us)) = items (root_of (t, u # us))"
      by (simp add: items_root_of [simplified])
    ultimately show ?thesis
      using Cons.IH [of "set_bf (raised u) (link t u)"] step(2) [OF 2] Cons.prems by simp
  next
    case 3
    then show ?thesis
    proof (cases u)
      case (LeftOf k v b r)
      then have b: "b = - 1" using 3 Cons.prems(3) by simp linarith
      consider "tb = - 1" | a x xv c d where "tb = 1" "tr = Node a x xv c d"
        using Cons.prems(2) t by (cases tr) (auto simp: leaning_def)
      then show ?thesis
      proof cases
        case 1
        then show ?thesis using turn_right incr b t LeftOf by (force simp: items_root_of [simplified])
      next
        case 2
        note turn = turn_left_right [of tl tk tv a x xv c d k v r us]
        show ?thesis
          using turn incr b t LeftOf 2 Cons.prems(3)
            Cons.IH [of "Node (Node tl tk tv 0 a) x xv 1 (Node d k v 1 r)"]
          by (auto simp: items_root_of [simplified] leaning_def)
      qed
    next
      case (RightOf l k v b)
      then have b: "b = 1" using 3 Cons.prems(3) by simp linarith
      consider "tb = 1" | a x xv c d where "tb = - 1" "tl = Node a x xv c d"
        using Cons.prems(2) t by (cases tl) (auto simp: leaning_def)
      then show ?thesis
      proof cases
        case 1
        then show ?thesis using turn_left incr b t RightOf by (force simp: items_root_of [simplified])
      next
        case 2
        note turn = turn_right_left [of l k v a x xv c d tk tv tr us]
        show ?thesis
          using turn incr b t RightOf 2 Cons.prems(3)
            Cons.IH [of "Node (Node l k v (- 1) a) x xv (- 1) (Node d tk tv 0 tr)"]
          by (auto simp: items_root_of [simplified] leaning_def)
      qed
    qed
  qed
qed simp

lemma grown_parent:
  assumes "balanced t" "t \<noteq> Leaf" "fits (height t - 1) (u # us)" "\<bar>raised u\<bar> = 1"
  defines "p \<equiv> set_bf (raised u) (link t u)"
  shows "balanced p" "fits (height p - 1) us" "bf p \<noteq> 0" "runs_on p us \<longleftrightarrow> runs_on t (u # us)"
proof -
  obtain n where n: "height t = Suc n" using assms(2) by (cases t) auto
  have fits: "fits n (u # us)" and "above_bf u = 0"
    using assms(3,4) n by (cases u; simp; linarith)+
  then have "height (other u) = n" by (cases u) simp_all
  with fits have "balanced p \<and> fits (height p - 1) us \<and> bf p \<noteq> 0 \<and> runs_on p us = runs_on t (u # us)"
    using assms(1) n \<open>above_bf u = 0\<close> unfolding p_def by (cases u) simp_all
  then show "balanced p" "fits (height p - 1) us" "bf p \<noteq> 0" "runs_on p us \<longleftrightarrow> runs_on t (u # us)"
    by simp_all
qed

lemma balanced_leaning: "balanced t \<Longrightarrow> bf t \<noteq> 0 \<Longrightarrow> leaning t"
proof (cases t)
  case (Node l k v b r)
  assume "balanced t" "bf t \<noteq> 0"
  then have "b = 1 \<or> b = - 1" "b = int (height r) - int (height l)" using Node by simp_all linarith
  then have "b = 1 \<and> r \<noteq> Leaf \<or> b = - 1 \<and> l \<noteq> Leaf" by (cases l; cases r) simp_all
  then show "leaning t" using Node by (simp add: leaning_def)
qed simp

lemma even_parent:
  assumes "balanced t" "t \<noteq> Leaf" "fits (height t - 1) (u # us)" "raised u = 0"
  defines "p \<equiv> set_bf 0 (link t u)"
  shows "balanced p" "fits (height p) us"
proof -
  obtain n where n: "height t = Suc n" using assms(2) by (cases t) auto
  have "fits n (u # us)" using assms(3) n by simp
  moreover from this have "height (other u) = Suc n" using assms(4) by (cases u) simp_all
  ultimately have "balanced p \<and> fits (height p) us" using assms(1) n unfolding p_def by (cases u) simp_all
  then show "balanced p" "fits (height p) us" by simp_all
qed

text \<open>The trees after the four rotations, when the balance factors are right.\<close>

lemma turned_right:
  assumes "balanced (Node sl tk tv (- 1) sr)" "fits (height (Node sl tk tv (- 1) sr) - 1) (LeftOf k v (- 1) r # us)"
  shows "balanced (root_of (Node sl tk tv 0 (Node sr k v 0 r), us))"
proof -
  have "height sl = Suc (height sr)" using assms(1) by simp
  moreover from this have "height r = height sr" using assms(2) by simp
  ultimately show ?thesis using assms by (intro balanced_root_of) simp_all
qed

lemma turned_left:
  assumes "balanced (Node sl tk tv 1 sr)" "fits (height (Node sl tk tv 1 sr) - 1) (RightOf l k v 1 # us)"
  shows "balanced (root_of (Node (Node l k v 0 sl) tk tv 0 sr, us))"
proof -
  have "height sr = Suc (height sl)" using assms(1) by simp
  moreover from this have "height l = height sl" using assms(2) by simp
  ultimately show ?thesis using assms by (intro balanced_root_of) simp_all
qed

lemma turned_left_right:
  fixes a c d x xv
  defines "sr \<equiv> Node a x xv c d"
  assumes "balanced (Node sl tk tv 1 sr)" "fits (height (Node sl tk tv 1 sr) - 1) (LeftOf k v (- 1) r # us)"
    and "c \<noteq> - 1"
  shows "balanced (root_of (Node (Node sl tk tv (if c = 1 then - 1 else 0) a) x xv 0 (Node d k v 0 r), us))"
proof -
  have sr: "height sr = Suc (height sl)" using assms(2) by simp
  then have r: "height r = height sl" using assms(3) by simp
  have c: "c = int (height d) - int (height a)" "\<bar>c\<bar> \<le> 1"
    using assms(2) unfolding sr_def balanced.simps by blast+
  then have "c = 0 \<or> c = 1" using assms(4) by linarith
  then have "c = 0 \<and> height a = height sl \<and> height d = height sl
      \<or> c = 1 \<and> Suc (height a) = height sl \<and> height d = height sl"
    using c(1) sr unfolding sr_def by auto
  then show ?thesis using assms(2,3) sr r by (intro balanced_root_of) (auto simp: sr_def)
qed

lemma turned_right_left:
  fixes a c d x xv
  defines "sl \<equiv> Node a x xv c d"
  assumes "balanced (Node sl tk tv (- 1) sr)" "fits (height (Node sl tk tv (- 1) sr) - 1) (RightOf l k v 1 # us)"
    and "c \<noteq> 1"
  shows "balanced (root_of (Node (Node l k v 0 a) x xv 0 (Node d tk tv (if c = - 1 then 1 else 0) sr), us))"
proof -
  have sl: "height sl = Suc (height sr)" using assms(2) by simp
  then have l: "height l = height sr" using assms(3) by simp
  have c: "c = int (height d) - int (height a)" "\<bar>c\<bar> \<le> 1"
    using assms(2) unfolding sl_def balanced.simps by blast+
  then have "c = 0 \<or> c = - 1" using assms(4) by linarith
  then have "c = 0 \<and> height a = height sr \<and> height d = height sr
      \<or> c = - 1 \<and> height a = height sr \<and> Suc (height d) = height sr"
    using c(1) sl unfolding sl_def by auto
  then show ?thesis using assms(2,3) sl l by (intro balanced_root_of) (auto simp: sl_def)
qed

text \<open>A subtree that has grown and is in balance gives a tree in balance, if the loop does not run on.\<close>

lemma go_up_balanced:
  "increasing (items (root_of (t, ps))) \<Longrightarrow> balanced t \<Longrightarrow> bf t \<noteq> 0 \<Longrightarrow> fits (height t - 1) ps \<Longrightarrow>
   \<not> runs_on t ps \<Longrightarrow> \<exists>T. go_up t ps = Some (Some (True, T)) \<and> balanced T"
proof (induction ps arbitrary: t)
  case (Cons u us)
  have "t \<noteq> Leaf" using Cons.prems(3) by auto
  note step = go_up_step [OF Cons.prems(1) this]
  obtain tl tk tv tb tr where t: "t = Node tl tk tv tb tr" using \<open>t \<noteq> Leaf\<close> by (cases t) auto
  note lean = balanced_leaning [OF Cons.prems(2,3)]
  have incr: "increasing (items (root_of (link t u, us)))" using Cons.prems(1) by simp
  have "raised u = 0 \<or> \<bar>raised u\<bar> = 1 \<or> \<bar>raised u\<bar> = 2"
    using Cons.prems(4) by (cases u) (simp_all; linarith)+
  then consider "raised u = 0" | "\<bar>raised u\<bar> = 1" | "\<bar>raised u\<bar> = 2" by blast
  then show ?case
  proof cases
    case 1
    note even_parent [OF Cons.prems(2) \<open>t \<noteq> Leaf\<close> Cons.prems(4) 1]
    then show ?thesis using step(1) [OF 1] balanced_root_of [of "set_bf 0 (link t u)" us] by simp
  next
    case 2
    let ?t = "set_bf (raised u) (link t u)"
    note IH = Cons.IH [of ?t] and grown = grown_parent [OF Cons.prems(2) \<open>t \<noteq> Leaf\<close> Cons.prems(4) 2]
    moreover have "increasing (items (root_of (?t, us)))"
      using incr by (simp add: items_root_of [simplified])
    ultimately show ?thesis using IH grown Cons.prems(5) unfolding step(2) [OF 2] by blast
  next
    case 3
    then show ?thesis
    proof (cases u)
      case (LeftOf k v b r)
      then have b: "b = - 1" using 3 Cons.prems(4) by simp linarith
      consider "tb = - 1" | a x xv c d where "tb = 1" "tr = Node a x xv c d"
        using lean t by (cases tr) (auto simp: leaning_def)
      then show ?thesis
      proof cases
        case 1
        have "balanced (root_of (Node tl tk tv 0 (Node tr k v 0 r), us))"
          using Cons.prems(2,4) unfolding t LeftOf b 1 by (rule turned_right)
        then show ?thesis using turn_right [of tl tk tv tr k v r us] 1 incr b t LeftOf by simp
      next
        case 2
        have "c \<noteq> - 1" using Cons.prems(5) t LeftOf b 2 by simp
        have "balanced (root_of (Node (Node tl tk tv (if c = 1 then - 1 else 0) a) x xv 0 (Node d k v 0 r), us))"
          using Cons.prems(2,4) \<open>c \<noteq> - 1\<close> unfolding t LeftOf b 2 by (rule turned_left_right)
        then show ?thesis using turn_left_right [of tl tk tv a x xv c d k v r us] \<open>c \<noteq> - 1\<close> incr b t LeftOf 2 by (simp only: go_up.simps link.simps) simp
      qed
    next
      case (RightOf l k v b)
      then have b: "b = 1" using 3 Cons.prems(4) by simp linarith
      consider "tb = 1" | a x xv c d where "tb = - 1" "tl = Node a x xv c d"
        using lean t by (cases tl) (auto simp: leaning_def)
      then show ?thesis
      proof cases
        case 1
        have "balanced (root_of (Node (Node l k v 0 tl) tk tv 0 tr, us))"
          using Cons.prems(2,4) unfolding t RightOf b 1 by (rule turned_left)
        then show ?thesis using turn_left [of l k v tl tk tv tr us] 1 incr b t RightOf by simp
      next
        case 2
        have "c \<noteq> 1" using Cons.prems(5) t RightOf b 2 by simp
        have "balanced (root_of (Node (Node l k v 0 a) x xv 0 (Node d tk tv (if c = - 1 then 1 else 0) tr), us))"
          using Cons.prems(2,4) \<open>c \<noteq> 1\<close> unfolding t RightOf b 2 by (rule turned_right_left)
        then show ?thesis using turn_right_left [of l k v a x xv c d tk tv tr us] \<open>c \<noteq> 1\<close> incr b t RightOf 2 by (simp only: go_up.simps link.simps) simp
      qed
    qed
  qed
qed simp

lemma descend_root: "find_place key t ps = Some qs \<Longrightarrow> root_of (Leaf, qs) = root_of (t, ps)"
  by (induction t arbitrary: ps) (fastforce split: if_splits)+

lemma avl_absent: "find_place key t ps = None \<Longrightarrow> key \<in> keys t"
  by (induction t arbitrary: ps) (auto split: if_splits)

lemma avl_between:
  "find_place key t ps = Some qs \<Longrightarrow> increasing (items t) \<Longrightarrow>
   \<exists>xs ys. items t = xs @ ys \<and> before qs = before ps @ xs \<and> behind qs = ys @ behind ps
     \<and> (\<forall>x \<in> fst ` set xs. x < key) \<and> (\<forall>y \<in> fst ` set ys. key < y)"
proof (induction t arbitrary: ps)
  case (Node l k v b r)
  note ord = Node.prems(2) [unfolded increasing_node]
  show ?case
  proof (cases "k < key")
    case True
    then obtain xs ys where "items r = xs @ ys" "before qs = before ps @ items l @ (k, v) # xs"
        "behind qs = ys @ behind ps" "\<forall>x \<in> fst ` set xs. x < key" "\<forall>y \<in> fst ` set ys. key < y"
      using Node.IH(2) [of "RightOf l k v b # ps"] Node.prems(1) ord by auto
    then show ?thesis using True ord
      by (intro exI [of _ "items l @ (k, v) # xs"] exI [of _ ys]) auto
  next
    case False
    then have lt: "key < k" and "find_place key l (LeftOf k v b r # ps) = Some qs"
      using Node.prems(1) by (auto split: if_splits)
    then obtain xs ys where "items l = xs @ ys" "before qs = before ps @ xs"
        "behind qs = ys @ (k, v) # items r @ behind ps" "\<forall>x \<in> fst ` set xs. x < key" "\<forall>y \<in> fst ` set ys. key < y"
      using Node.IH(1) [of "LeftOf k v b r # ps"] ord by auto
    then show ?thesis using lt ord
      by (intro exI [of _ xs] exI [of _ "ys @ (k, v) # items r"]) auto
  qed
qed simp

lemma descend_fits:
  "find_place key t ps = Some qs \<Longrightarrow> balanced t \<Longrightarrow> fits (height t) ps \<Longrightarrow>
   fits 0 qs \<and> (t \<noteq> Leaf \<or> ps \<noteq> [] \<longrightarrow> qs \<noteq> [])"
proof (induction t arbitrary: ps)
  case (Node l k v b r)
  then show ?case
    using Node.IH(1) [of "LeftOf k v b r # ps"] Node.IH(2) [of "RightOf l k v b # ps"]
    by (auto split: if_splits)
qed simp

lemma fits_small: "fits h ps \<Longrightarrow> small ps"
  by (induction h ps rule: fits.induct) (auto simp: small_def)

text \<open>The new leaf: after the first parent the subtree is leaning, or the loop is at its end.\<close>

lemma go_up_leaf:
  assumes "increasing (items (root_of (Node Leaf k v 0 Leaf, ps)))" "fits 0 ps" "ps \<noteq> []"
  shows "\<exists>T. go_up (Node Leaf k v 0 Leaf) ps = Some (Some (True, T))
    \<and> items T = items (root_of (Node Leaf k v 0 Leaf, ps)) \<and> (\<not> runs_on (Node Leaf k v 0 Leaf) ps \<longrightarrow> balanced T)"
proof -
  let ?t = "Node Leaf k v 0 Leaf"
  obtain u us where ps: "ps = u # us" using assms(3) by (cases ps) auto
  let ?p = "set_bf (raised u) (link ?t u)"
  note incr = assms(1) [unfolded ps] and fits = assms(2) [unfolded ps]
  note step = go_up_step [OF incr, simplified]
  have "raised u = 0 \<or> \<bar>raised u\<bar> = 1" using fits by (cases u) (simp_all; linarith)+
  then show ?thesis
  proof
    assume "raised u = 0"
    then show ?thesis
      using step(1) even_parent [of ?t u us] fits balanced_root_of [of "set_bf 0 (link ?t u)" us]
      by (simp add: ps items_root_of [simplified])
  next
    assume r: "\<bar>raised u\<bar> = 1"
    have b: "balanced ?p" "fits (height ?p - 1) us" "bf ?p \<noteq> 0" "runs_on ?p us = runs_on ?t (u # us)"
      using grown_parent [of ?t u us] fits r by simp_all
    have items: "items (root_of (?p, us)) = items (root_of (?t, u # us))"
      by (simp add: items_root_of [simplified])
    then show ?thesis
      using go_up_ends [of ?p us] go_up_balanced [of ?p us] b incr balanced_leaning [of ?p]
        fits_small [OF b(2)] step(2) [OF r] ps by auto
  qed
qed

lemma insert_avl_new:
  assumes "avl_ok t" "key \<notin> keys t"
  shows "\<exists>T xs ys. insert_avl key value t = Some (Some (True, T)) \<and> items t = xs @ ys
    \<and> items T = xs @ (key, value) # ys \<and> increasing (items T) \<and> (\<not> insert_runs_on key value t \<longrightarrow> balanced T)"
proof (cases "t = Leaf")
  case True
  then show ?thesis by (intro exI [of _ "Node Leaf key value 0 Leaf"] exI [of _ "[]"]) (simp add: insert_avl_def)
next
  case False
  let ?n = "Node Leaf key value 0 Leaf"
  have t: "increasing (items t)" "balanced t" using assms(1) by (simp_all add: avl_ok_def)
  obtain qs where qs: "find_place key t [] = Some qs"
    using avl_absent [of key t "[]"] assms(2) by (cases "find_place key t []") auto
  obtain xs ys where xy: "items t = xs @ ys" "before qs = xs" "behind qs = ys"
      "\<forall>x \<in> fst ` set xs. x < key" "\<forall>y \<in> fst ` set ys. key < y"
    using avl_between [OF qs t(1)] by auto
  have items: "items (root_of (?n, qs)) = xs @ (key, value) # ys" by (simp only: items_root_of xy) simp
  moreover have "increasing (xs @ (key, value) # ys)"
    using t(1) xy by (auto simp: sorted_wrt_append)
  moreover have fits: "fits 0 qs" "qs \<noteq> []" using descend_fits [OF qs t(2)] False by simp_all
  moreover have "insert_avl key value t = go_up ?n qs"
    using False qs fits(2) by (cases qs) (simp_all add: insert_avl_def)
  moreover from calculation obtain T where "go_up ?n qs = Some (Some (True, T))"
      "items T = xs @ (key, value) # ys" "\<not> runs_on ?n qs \<longrightarrow> balanced T"
    using go_up_leaf [of key "value" qs] by auto
  ultimately show ?thesis
    using xy(1) qs by (intro exI [of _ T] exI [of _ xs] exI [of _ ys]) (simp add: insert_runs_on_def)
qed

section \<open>isBalance and inOder\<close>

lemma is_balance_some: "is_balance t = Some h \<Longrightarrow> h = int (height t)"
  by (induction t arbitrary: h) (auto split: option.splits if_splits)

fun height_balanced :: "('k, 'v) avl \<Rightarrow> bool" where
  "height_balanced Leaf \<longleftrightarrow> True"
| "height_balanced (Node l k v b r) \<longleftrightarrow>
     \<bar>int (height r) - int (height l)\<bar> \<le> 1 \<and> height_balanced l \<and> height_balanced r"

lemma isBalance_decides: "isBalance t \<longleftrightarrow> height_balanced t"
proof (induction t)
  case (Node l k v b r)
  then show ?case using is_balance_some [of l] is_balance_some [of r]
    by (cases "is_balance l"; cases "is_balance r") (auto simp: isBalance_def abs_minus_commute)
qed (simp add: isBalance_def)

lemma balanced_height_balanced: "balanced t \<Longrightarrow> height_balanced t"
  by (induction t) auto

definition waiting :: "('k, 'v) avl list \<Rightarrow> ('k \<times> 'v) list" where
  "waiting s = concat (map (\<lambda>t. (avl_key t, avl_value t) # items (avl_right t)) s)"

lemma waiting_push_lefts: "waiting (push_lefts t s) = items t @ waiting s"
  by (induction t s rule: push_lefts.induct) (simp_all add: waiting_def)

lemma in_oder_loop_items: "in_oder_loop cur s = items cur @ waiting s"
proof (induction cur s rule: in_oder_loop.induct)
  case (1 cur s)
  then show ?case using waiting_push_lefts [of cur s]
    by (cases "push_lefts cur s") (simp_all add: waiting_def)
qed

lemma inOder_items: "inOder t = items t"
  using in_oder_loop_items [of t "[]"] by (simp add: inOder_def waiting_def del: in_oder_loop.simps)

section \<open>The properties\<close>

lemma map_of_middle:
  "key \<notin> fst ` set (xs @ ys) \<Longrightarrow> map_of (xs @ (key, value) # ys) = (map_of (xs @ ys))(key \<mapsto> value)"
  by (induction xs) auto

text \<open>
  C18. The insertion into an AVL tree always ends: it returns whether the key is new, and then the tree
  has the old entries and the new one, in the order of the keys, in which \<open>inOder\<close> writes them.  The
  result is an AVL tree again, with the right balance factors, unless the loop over the parents runs on
  after a double rotation.
\<close>

theorem avl_insertion:
  assumes "avl_ok t"
  shows "\<exists>T. insert_avl key value t = Some (Some (key \<notin> keys t, T)) \<and> increasing (inOder T)
    \<and> map_of (inOder T) = (if key \<in> keys t then map_of (inOder t) else (map_of (inOder t))(key \<mapsto> value))
    \<and> (\<not> insert_runs_on key value t \<longrightarrow> avl_ok T \<and> isBalance T)"
proof (cases "key \<in> keys t")
  case True
  have "find_place key t [] = None"
    using avl_between [of key t "[]"] assms True by (cases "find_place key t []") (auto simp: avl_ok_def)
  then have "insert_avl key value t = Some (Some (False, t))" using True by (auto simp: insert_avl_def)
  then show ?thesis
    using assms True by (auto simp: avl_ok_def inOder_items isBalance_decides balanced_height_balanced)
next
  case False
  from insert_avl_new [OF assms False, of "value"] obtain T xs ys where
    T: "insert_avl key value t = Some (Some (True, T))" "items t = xs @ ys" "items T = xs @ (key, value) # ys"
      "increasing (items T)" "\<not> insert_runs_on key value t \<longrightarrow> balanced T" by blast
  show ?thesis
    using T False map_of_middle [of key xs ys "value"]
    by (auto simp: avl_ok_def inOder_items isBalance_decides balanced_height_balanced)
qed

theorem avl_insertion_witness:
  "\<exists>T. insert_avl (2::nat) ''c'' (Node Leaf 1 ''a'' 1 (Node Leaf 3 ''b'' 0 Leaf)) = Some (Some (True, T))
    \<and> avl_ok T \<and> map_of (inOder T) 2 = Some ''c''"
proof -
  let ?t = "Node Leaf (1::nat) ''a'' 1 (Node Leaf 3 ''b'' 0 Leaf)"
  have "avl_ok ?t" by (simp add: avl_ok_def)
  moreover have "\<not> insert_runs_on 2 ''c'' ?t" by (simp add: insert_runs_on_def)
  ultimately show ?thesis using avl_insertion [of ?t 2 "''c''"] by auto
qed

declare update_bf.simps [code]

text \<open>Eight insertions, the last of which makes the loop run on, and give a tree out of balance.\<close>

definition insert_keys :: "nat list \<Rightarrow> (bool \<times> (nat, unit) avl) option option" where
  "insert_keys ks =
     foldl (\<lambda>t k. case t of Some (Some (b, t)) \<Rightarrow> insert_avl k () t | _ \<Rightarrow> t) (Some (Some (True, Leaf))) ks"

lemma avl_loses_balance:
  "(case insert_keys [0, 1, 4, 6, 7, 5, 3, 2] of Some (Some (b, t)) \<Rightarrow> \<not> isBalance t | _ \<Rightarrow> False)"
  by code_simp

text \<open>After more insertions a key that is new is inserted, but the result is \<open>false\<close>.\<close>

lemma avl_refuses_new_key:
  "(case insert_keys [1, 11, 2, 0, 3, 4, 7, 12, 8, 9, 5] of
      Some (Some (b, t)) \<Rightarrow> \<not> b \<and> 5 \<in> set (map fst (inOder t)) | _ \<Rightarrow> False)"
  by code_simp

end
