(* ===== verification/Threaded_Tree.thy ===== *)
theory Threaded_Tree
  imports "HOL-Library.Tree"
begin

text \<open>
  The threaded binary trees of \<open>DataStruct/ThreadTree\<close> (\<open>InOder/InOderThread.h\<close> and
  \<open>prevOder/prevOder.h\<close>, which shares the construction, the in-order threading and its iterator with the
  former).  The nodes are shared and changed in place, so they are kept in an explicit store: a list
  of nodes, whose addresses are positions in the list.  \<open>None\<close> is \<open>NULL\<close>; \<open>new\<close> appends a node.
\<close>

section \<open>Definitions from the code\<close>

datatype NodeType = LINK | THREAD

record 'a tnode =
  data :: 'a
  left_p :: "nat option"
  right_p :: "nat option"
  lefttype :: NodeType
  righttype :: NodeType

type_synonym 'a store = "'a tnode list"

definition new_node :: "'a \<Rightarrow> 'a tnode" where
  "new_node d = \<lparr>data = d, left_p = None, right_p = None, lefttype = LINK, righttype = LINK\<rparr>"

subsection \<open>Construction\<close>

text \<open>
  \<open>__CreatTree\<close> passes \<open>++index\<close> by reference, so the index after a call is the last one it read.  A loop
  or a recursion that does not end is \<open>None\<close>.
\<close>

partial_function (option) CreatTree ::
  "'a list \<Rightarrow> 'a \<Rightarrow> nat \<Rightarrow> 'a store \<Rightarrow> (nat option \<times> nat \<times> 'a store) option" where
  "CreatTree a invalid index h =
     (if index < length a \<and> a ! index \<noteq> invalid
      then Option.bind (CreatTree a invalid (index + 1) (h @ [new_node (a ! index)]))
             (\<lambda>(l, index', h1).
                Option.bind (CreatTree a invalid (index' + 1) (h1[length h := (h1 ! length h)\<lparr>left_p := l\<rparr>]))
                  (\<lambda>(r, index'', h2).
                     Some (Some (length h), index'', h2[length h := (h2 ! length h)\<lparr>right_p := r\<rparr>])))
      else Some (None, index, h))"

text \<open>The constructor; \<open>Some None\<close> is the failure of \<open>assert(NULL != a && n > 0)\<close>.\<close>

definition BinaryTreeThread :: "'a list \<Rightarrow> 'a \<Rightarrow> (nat option \<times> 'a store) option option" where
  "BinaryTreeThread a invalid =
     (if a = [] then Some None
      else map_option (\<lambda>(root, index, h). Some (root, h)) (CreatTree a invalid 0 []))"

subsection \<open>Threading\<close>

text \<open>\<open>if (NULL == root->_left)\<close> and \<open>if (prev && NULL == prev->_right)\<close>.\<close>

definition thread_left :: "nat \<Rightarrow> nat option \<Rightarrow> 'a store \<Rightarrow> 'a store" where
  "thread_left root prev h =
     (if left_p (h ! root) = None then h[root := (h ! root)\<lparr>left_p := prev, lefttype := THREAD\<rparr>] else h)"

definition thread_right :: "nat \<Rightarrow> nat option \<Rightarrow> 'a store \<Rightarrow> 'a store" where
  "thread_right root prev h =
     (case prev of
        None \<Rightarrow> h
      | Some b \<Rightarrow>
          if right_p (h ! b) = None then h[b := (h ! b)\<lparr>right_p := Some root, righttype := THREAD\<rparr>] else h)"

text \<open>The result is the reference parameter \<open>prev\<close> and the store.\<close>

partial_function (option) in_thread ::
  "nat option \<Rightarrow> nat option \<Rightarrow> 'a store \<Rightarrow> (nat option \<times> 'a store) option" where
  "in_thread root prev h =
     (case root of
        None \<Rightarrow> Some (prev, h)
      | Some r \<Rightarrow>
          Option.bind (if lefttype (h ! r) = LINK then in_thread (left_p (h ! r)) prev h else Some (prev, h))
            (\<lambda>(prev1, h1).
               let h2 = thread_right r prev1 (thread_left r prev1 h1) in
               if righttype (h2 ! r) = LINK then in_thread (right_p (h2 ! r)) (Some r) h2 else Some (Some r, h2)))"

definition InOderThread :: "nat option \<Rightarrow> 'a store \<Rightarrow> 'a store option" where
  "InOderThread root h = map_option snd (in_thread root None h)"

partial_function (option) prev_thread ::
  "nat option \<Rightarrow> nat option \<Rightarrow> 'a store \<Rightarrow> (nat option \<times> 'a store) option" where
  "prev_thread root prev h =
     (case root of
        None \<Rightarrow> Some (prev, h)
      | Some r \<Rightarrow>
          let h1 = thread_right r prev (thread_left r prev h) in
          Option.bind (if lefttype (h1 ! r) = LINK then prev_thread (left_p (h1 ! r)) (Some r) h1 else Some (Some r, h1))
            (\<lambda>(prev2, h2).
               if righttype (h2 ! r) = LINK then prev_thread (right_p (h2 ! r)) prev2 h2 else Some (prev2, h2)))"

definition prevOderThread :: "nat option \<Rightarrow> 'a store \<Rightarrow> 'a store option" where
  "prevOderThread root h = map_option snd (prev_thread root None h)"

subsection \<open>Iterators\<close>

text \<open>\<open>begin\<close> goes to the left whatever the type of the pointer is; \<open>operator++\<close> only along links.\<close>

partial_function (option) down_left :: "'a store \<Rightarrow> nat option \<Rightarrow> nat option option" where
  "down_left h sub =
     (case sub of
        None \<Rightarrow> Some None
      | Some a \<Rightarrow> if left_p (h ! a) \<noteq> None then down_left h (left_p (h ! a)) else Some sub)"

partial_function (option) down_links :: "'a store \<Rightarrow> nat option \<Rightarrow> nat option option" where
  "down_links h sub =
     (case sub of
        None \<Rightarrow> Some None
      | Some a \<Rightarrow> if lefttype (h ! a) = LINK then down_links h (left_p (h ! a)) else Some sub)"

definition in_next :: "'a store \<Rightarrow> nat \<Rightarrow> nat option option" where
  "in_next h a =
     (if righttype (h ! a) = THREAD then Some (right_p (h ! a)) else down_links h (right_p (h ! a)))"

definition prev_next :: "'a store \<Rightarrow> nat \<Rightarrow> nat option option" where
  "prev_next h a = Some (if lefttype (h ! a) = LINK then left_p (h ! a) else right_p (h ! a))"

text \<open>The loop \<open>for (; it != end(); ++it)\<close> with the tree_of that it reads.\<close>

partial_function (option) iterate ::
  "(nat \<Rightarrow> nat option option) \<Rightarrow> 'a store \<Rightarrow> nat option \<Rightarrow> 'a list \<Rightarrow> 'a list option" where
  "iterate step h it out =
     (case it of
        None \<Rightarrow> Some out
      | Some a \<Rightarrow> Option.bind (step a) (\<lambda>it'. iterate step h it' (out @ [data (h ! a)])))"

definition in_output :: "'a store \<Rightarrow> nat option \<Rightarrow> 'a list option" where
  "in_output h root = Option.bind (down_left h root) (\<lambda>it. iterate (in_next h) h it [])"

definition prev_output :: "'a store \<Rightarrow> nat option \<Rightarrow> 'a list option" where
  "prev_output h root = iterate (prev_next h) h root []"

subsection \<open>InOderNoR and the destructor\<close>

text \<open>The two nested loops as one: a step pushes \<open>cur\<close>, or pops when \<open>cur\<close> is \<open>NULL\<close>.\<close>

partial_function (option) norec_loop ::
  "'a store \<Rightarrow> nat option \<Rightarrow> nat list \<Rightarrow> 'a list \<Rightarrow> 'a list option" where
  "norec_loop h cur s out =
     (case cur of
        Some a \<Rightarrow> norec_loop h (left_p (h ! a)) (a # s) out
      | None \<Rightarrow>
          (case s of
             [] \<Rightarrow> Some out
           | t # s' \<Rightarrow> norec_loop h (right_p (h ! t)) s' (out @ [data (h ! t)])))"

definition InOderNoR :: "'a store \<Rightarrow> nat option \<Rightarrow> 'a list option" where
  "InOderNoR h root = norec_loop h root [] []"

text \<open>\<open>_Destroy\<close> with a bound on the depth of the calls; the result is the list of the deleted nodes.\<close>

fun Destroy :: "nat \<Rightarrow> 'a store \<Rightarrow> nat option \<Rightarrow> nat list option" where
  "Destroy depth h None = Some []"
| "Destroy 0 h (Some a) = None"
| "Destroy (Suc depth) h (Some a) =
     (case Destroy depth h (left_p (h ! a)) of
        None \<Rightarrow> None
      | Some xs \<Rightarrow>
          (case Destroy depth h (right_p (h ! a)) of None \<Rightarrow> None | Some ys \<Rightarrow> Some (xs @ ys @ [a])))"

section \<open>Trees in the store\<close>

text \<open>The shape of a tree of addresses, before threading and after it.\<close>

fun root_ref :: "nat tree \<Rightarrow> nat option" where
  "root_ref Leaf = None"
| "root_ref (Node l a r) = Some a"

lemma root_ref_None [simp]: "root_ref t = None \<longleftrightarrow> t = Leaf" "None = root_ref t \<longleftrightarrow> t = Leaf"
  by (cases t; simp)+

fun linked :: "'a store \<Rightarrow> nat tree \<Rightarrow> bool" where
  "linked h Leaf \<longleftrightarrow> True"
| "linked h (Node l a r) \<longleftrightarrow>
     a < length h \<and> left_p (h ! a) = root_ref l \<and> right_p (h ! a) = root_ref r
     \<and> lefttype (h ! a) = LINK \<and> righttype (h ! a) = LINK \<and> linked h l \<and> linked h r"

text \<open>Threads for the order of \<open>inorder\<close>, between a predecessor and a successor.\<close>

fun in_threaded :: "'a store \<Rightarrow> nat tree \<Rightarrow> nat option \<Rightarrow> nat option \<Rightarrow> bool" where
  "in_threaded h Leaf pr su \<longleftrightarrow> True"
| "in_threaded h (Node l a r) pr su \<longleftrightarrow>
     a < length h
     \<and> left_p (h ! a) = (if l = Leaf then pr else root_ref l)
     \<and> lefttype (h ! a) = (if l = Leaf then THREAD else LINK)
     \<and> right_p (h ! a) = (if r = Leaf then su else root_ref r)
     \<and> righttype (h ! a) = (if r = Leaf \<and> su \<noteq> None then THREAD else LINK)
     \<and> in_threaded h l pr (Some a) \<and> in_threaded h r (Some a) su"

text \<open>Threads for the order of \<open>preorder\<close>.\<close>

fun prev_threaded :: "'a store \<Rightarrow> nat tree \<Rightarrow> nat option \<Rightarrow> nat option \<Rightarrow> bool" where
  "prev_threaded h Leaf pr su \<longleftrightarrow> True"
| "prev_threaded h (Node l a r) pr su \<longleftrightarrow>
     a < length h
     \<and> left_p (h ! a) = (if l = Leaf then pr else root_ref l)
     \<and> lefttype (h ! a) = (if l = Leaf then THREAD else LINK)
     \<and> right_p (h ! a) = (if r \<noteq> Leaf then root_ref r else if l \<noteq> Leaf then root_ref l else su)
     \<and> righttype (h ! a) = (if r = Leaf \<and> (l \<noteq> Leaf \<or> su \<noteq> None) then THREAD else LINK)
     \<and> prev_threaded h l (Some a) (if r = Leaf then su else root_ref r)
     \<and> prev_threaded h r (Some (last (a # preorder l))) su"

lemma linked_agree:
  "linked h t \<Longrightarrow> (\<And>a. a \<in> set_tree t \<Longrightarrow> h' ! a = h ! a) \<Longrightarrow> length h \<le> length h' \<Longrightarrow> linked h' t"
  by (induction t) auto

lemma in_threaded_agree:
  "in_threaded h t pr su \<Longrightarrow> (\<And>a. a \<in> set_tree t \<Longrightarrow> h' ! a = h ! a) \<Longrightarrow> length h = length h' \<Longrightarrow>
   in_threaded h' t pr su"
  by (induction t arbitrary: pr su) auto

lemma prev_threaded_agree:
  "prev_threaded h t pr su \<Longrightarrow> (\<And>a. a \<in> set_tree t \<Longrightarrow> h' ! a = h ! a) \<Longrightarrow> length h = length h' \<Longrightarrow>
   prev_threaded h' t pr su"
  by (induction t arbitrary: pr su) auto

lemma inorder_Nil [simp]: "inorder t = [] \<longleftrightarrow> t = Leaf" and preorder_Nil [simp]: "preorder t = [] \<longleftrightarrow> t = Leaf"
  by (cases t; simp)+

lemma last_in: "t \<noteq> Leaf \<Longrightarrow> last (inorder t) \<in> set_tree t" "t \<noteq> Leaf \<Longrightarrow> last (preorder t) \<in> set_tree t"
  by (metis inorder_Nil last_in_set set_inorder) (metis preorder_Nil last_in_set set_preorder)

lemma hd_in: "t \<noteq> Leaf \<Longrightarrow> hd (inorder t) \<in> set_tree t"
  by (metis inorder_Nil hd_in_set set_inorder)

lemma hd_preorder: "t \<noteq> Leaf \<Longrightarrow> root_ref t = Some (hd (preorder t))"
  by (cases t) auto

subsection \<open>The assignments\<close>

lemma thread_length [simp]:
  "length (thread_left a p h) = length h" "length (thread_right a p h) = length h"
  by (simp_all add: thread_left_def thread_right_def split: option.splits)

lemma map_upd_data: "map data (h[a := x]) = map data h \<longleftrightarrow> a < length h \<longrightarrow> data x = data (h ! a)"
  by (metis length_map list_update_beyond list_update_id map_update not_le nth_list_update_eq nth_map)

lemma thread_data [simp]: "map data (thread_left a p h) = map data h" "map data (thread_right a p h) = map data h"
  by (simp_all add: thread_left_def thread_right_def map_upd_data split: option.splits)

lemma thread_left_nth:
  "thread_left a p h ! b =
     (if b = a \<and> a < length h \<and> left_p (h ! a) = None then (h ! a)\<lparr>left_p := p, lefttype := THREAD\<rparr> else h ! b)"
  by (auto simp: thread_left_def nth_list_update list_update_beyond)

lemma thread_right_nth:
  "thread_right a p h ! b =
     (if p = Some b \<and> b < length h \<and> right_p (h ! b) = None
      then (h ! b)\<lparr>right_p := Some a, righttype := THREAD\<rparr> else h ! b)"
  by (cases p; cases "the p = b"; cases "b < length h") (auto simp: thread_right_def list_update_beyond)

text \<open>The last node of a threaded part has no successor yet; the next node becomes it.\<close>

lemma in_threaded_last:
  "in_threaded h t pr None \<Longrightarrow> t \<noteq> Leaf \<Longrightarrow> right_p (h ! last (inorder t)) = None \<and> last (inorder t) < length h"
  by (induction t arbitrary: pr) (auto split: if_splits)

lemma in_threaded_succ:
  "in_threaded h t pr None \<Longrightarrow> distinct (inorder t) \<Longrightarrow> t \<noteq> Leaf \<Longrightarrow>
   in_threaded (thread_right x (Some (last (inorder t))) h) t pr (Some x)"
proof (induction t arbitrary: pr)
  case (Node l a r)
  let ?h = "thread_right x (Some (last (inorder (Node l a r)))) h"
  have out: "?h ! b = h ! b" if "b \<noteq> last (inorder (Node l a r))" for b
    using that by (subst thread_right_nth) simp
  have left: "in_threaded ?h l pr (Some a)" if "last (inorder (Node l a r)) \<notin> set_tree l"
  proof (rule in_threaded_agree [of h])
    show "in_threaded h l pr (Some a)" using Node.prems(1) by simp
    show "?h ! b = h ! b" if b: "b \<in> set_tree l" for b using \<open>last _ \<notin> _\<close> b by (intro out) auto
  qed simp
  show ?case
  proof (cases "r = Leaf")
    case True
    have "in_threaded ?h l pr (Some a)" using Node.prems(2) True by (intro left) auto
    moreover have "?h ! a = (h ! a)\<lparr>right_p := Some x, righttype := THREAD\<rparr>"
      using Node.prems(1) True by (simp add: thread_right_nth)
    ultimately show ?thesis using Node.prems(1) True by simp
  next
    case False
    have "last (inorder (Node l a r)) = last (inorder r)" using False by simp
    moreover have "last (inorder r) \<in> set_tree r" using last_in(1) [OF False] .
    moreover have "in_threaded ?h l pr (Some a)" using Node.prems(2) calculation by (intro left) auto
    moreover have "in_threaded ?h r (Some a) (Some x)"
      using Node.IH(2) [of "Some a"] Node.prems False by auto
    moreover have "?h ! a = h ! a" using Node.prems(2) False calculation(2) by (intro out) auto
    ultimately show ?thesis using Node.prems(1) False by simp
  qed
qed simp

section \<open>Threading\<close>

text \<open>The assignments at a node \<open>a\<close>, after the part \<open>l\<close> below it on the left.\<close>

lemma at_node:
  assumes "in_threaded h l pr None" "distinct (inorder l)" "a \<notin> set_tree l" "a < length h"
    and "left_p (h ! a) = root_ref l" "lefttype (h ! a) = LINK" "pr \<noteq> Some a"
  defines "p \<equiv> if l = Leaf then pr else Some (last (inorder l))"
  defines "h' \<equiv> thread_right a p (thread_left a p h)"
  shows "in_threaded h' l pr (Some a)"
    and "h' ! a = (if l = Leaf then (h ! a)\<lparr>left_p := pr, lefttype := THREAD\<rparr> else h ! a)"
    and "b \<notin> set_tree l \<Longrightarrow> b \<noteq> a \<Longrightarrow> h' ! b = (if l = Leaf then thread_right a pr h ! b else h ! b)"
proof -
  have p: "p \<noteq> Some a" using assms(3,7) last_in(1) [of l] by (auto simp: p_def)
  show "h' ! a = (if l = Leaf then (h ! a)\<lparr>left_p := pr, lefttype := THREAD\<rparr> else h ! a)"
    using p assms(4,5) unfolding h'_def by (subst thread_right_nth) (simp add: thread_left_nth p_def)
  show "in_threaded h' l pr (Some a)"
  proof (cases "l = Leaf")
    case False
    then have "thread_left a p h = h" using assms(5) by (simp add: thread_left_def)
    then show ?thesis using in_threaded_succ [OF assms(1,2) False, of a] False by (simp add: h'_def p_def)
  qed simp
  show "h' ! b = (if l = Leaf then thread_right a pr h ! b else h ! b)" if "b \<notin> set_tree l" "b \<noteq> a"
  proof (cases "l = Leaf")
    case True
    then show ?thesis using that unfolding h'_def p_def by (simp add: thread_right_nth thread_left_nth)
  next
    case False
    then have "last (inorder l) \<noteq> b" using that last_in(1) [OF False] by auto
    then show ?thesis using that False unfolding h'_def p_def by (simp add: thread_right_nth thread_left_nth)
  qed
qed

lemma in_thread_ok:
  "linked h t \<Longrightarrow> distinct (inorder t) \<Longrightarrow> t \<noteq> Leaf \<Longrightarrow> (\<And>b. prev = Some b \<Longrightarrow> b \<notin> set_tree t) \<Longrightarrow>
   \<exists>h'. in_thread (root_ref t) prev h = Some (Some (last (inorder t)), h') \<and> in_threaded h' t prev None
     \<and> map data h' = map data h
     \<and> (\<forall>b. b \<notin> set_tree t \<longrightarrow> h' ! b = thread_right (hd (inorder t)) prev h ! b)"
proof (induction t arbitrary: prev h)
  case (Node l a r)
  have a: "a \<notin> set_tree l" "a \<notin> set_tree r" "prev \<noteq> Some a" using Node.prems(2,4) by auto
  have dist: "distinct (inorder l)" "distinct (inorder r)" using Node.prems(2) by auto
  define p where "p = (if l = Leaf then prev else Some (last (inorder l)))"
  have "\<exists>h1. in_thread (root_ref l) prev h = Some (p, h1) \<and> in_threaded h1 l prev None \<and> map data h1 = map data h
    \<and> (\<forall>b. b \<notin> set_tree l \<longrightarrow> h1 ! b = (if l = Leaf then h else thread_right (hd (inorder l)) prev h) ! b)"
  proof (cases "l = Leaf")
    case True
    then show ?thesis by (auto simp: p_def in_thread.simps)
  next
    case False
    then show ?thesis using Node.IH(1) [of h prev] Node.prems dist by (auto simp: p_def)
  qed
  then obtain h1 where h1: "in_thread (root_ref l) prev h = Some (p, h1)" "in_threaded h1 l prev None"
      "map data h1 = map data h"
      "\<And>b. b \<notin> set_tree l \<Longrightarrow> h1 ! b = (if l = Leaf then h else thread_right (hd (inorder l)) prev h) ! b"
    by blast
  have len1: "length h1 = length h" using h1(3) by (metis length_map)
  have h1a: "h1 ! a = h ! a" using h1(4) [OF a(1)] a(3) by (auto simp: thread_right_nth)
  define h2 where "h2 = thread_right a p (thread_left a p h1)"
  note node = at_node [OF h1(2) dist(1) a(1), folded p_def, folded h2_def]
  have h2: "in_threaded h2 l prev (Some a)"
      "h2 ! a = (if l = Leaf then (h ! a)\<lparr>left_p := prev, lefttype := THREAD\<rparr> else h ! a)"
    using node(1,2) Node.prems(1) h1a len1 a(3) by auto
  have out2: "h2 ! b = thread_right (hd (inorder (Node l a r))) prev h ! b" if "b \<notin> set_tree l" "b \<noteq> a" for b
    using node(3) [of b] Node.prems(1) h1a len1 a(3) that h1(4) [OF that(1)]
    by (auto simp: thread_right_nth hd_append)
  have data2: "map data h2 = map data h" "length h2 = length h" using h1(3) len1 by (simp_all add: h2_def)
  have step: "in_thread (root_ref (Node l a r)) prev h = in_thread (root_ref r) (Some a) h2"
    using Node.prems(1) h1(1) h2(2) by (subst in_thread.simps) (auto simp: Let_def h2_def [symmetric])
  show ?case
  proof (cases "r = Leaf")
    case True
    then show ?thesis using step h2 data2 out2 Node.prems(1) by (auto simp: in_thread.simps)
  next
    case False
    have same: "h2 ! b = h ! b" if "b \<in> set_tree r" for b
    proof -
      have "b \<notin> set_tree l" "b \<noteq> a" "prev \<noteq> Some b" using that Node.prems(2,4) by auto
      then show ?thesis using out2 [of b] by (simp add: thread_right_nth)
    qed
    have "linked h2 r" by (rule linked_agree [of h]) (use Node.prems(1) data2 same in simp_all)
    then obtain h3 where h3: "in_thread (root_ref r) (Some a) h2 = Some (Some (last (inorder r)), h3)"
        "in_threaded h3 r (Some a) None" "map data h3 = map data h2"
        "\<And>b. b \<notin> set_tree r \<Longrightarrow> h3 ! b = thread_right (hd (inorder r)) (Some a) h2 ! b"
      using Node.IH(2) [of h2 "Some a"] dist(2) False a(2) by auto
    have "right_p (h2 ! a) \<noteq> None" using h2(2) Node.prems(1) False by (simp del: not_None_eq)
    then have out3: "h3 ! b = h2 ! b" if "b \<notin> set_tree r" for b
      using h3(4) [OF that] by (auto simp: thread_right_nth)
    have len3: "length h3 = length h" using h3(3) data2 by (metis length_map)
    have "in_threaded h3 l prev (Some a)"
    proof (rule in_threaded_agree [OF h2(1)])
      show "h3 ! b = h2 ! b" if "b \<in> set_tree l" for b using that Node.prems(2) by (intro out3) auto
    qed (simp add: len3 data2(2))
    then have "in_threaded h3 (Node l a r) prev None"
      using h3(2) h2(2) out3 [OF a(2)] Node.prems(1) len3 False by auto
    then show ?thesis using step h3(1,3) data2(1) out3 out2 False by auto
  qed
qed simp

text \<open>The same for \<open>prev_thread\<close>: both parts come after the node.\<close>

lemma prev_threaded_last:
  "prev_threaded h t pr None \<Longrightarrow> t \<noteq> Leaf \<Longrightarrow>
   right_p (h ! last (preorder t)) = None \<and> last (preorder t) < length h"
  by (induction t arbitrary: pr) (auto split: if_splits)

lemma prev_threaded_succ:
  "prev_threaded h t pr None \<Longrightarrow> distinct (preorder t) \<Longrightarrow> t \<noteq> Leaf \<Longrightarrow>
   prev_threaded (thread_right x (Some (last (preorder t))) h) t pr (Some x)"
proof (induction t arbitrary: pr)
  case (Node l a r)
  let ?h = "thread_right x (Some (last (preorder (Node l a r)))) h"
  have out: "?h ! b = h ! b" if "b \<noteq> last (preorder (Node l a r))" for b
    using that by (subst thread_right_nth) simp
  show ?case
  proof (cases "r = Leaf")
    case False
    then have last: "last (preorder (Node l a r)) = last (preorder r)" by simp
    have in_r: "last (preorder r) \<in> set_tree r" using last_in(2) [OF False] .
    have "prev_threaded ?h l (Some a) (root_ref r)"
    proof (rule prev_threaded_agree [of h])
      show "prev_threaded h l (Some a) (root_ref r)" using Node.prems(1) False by simp
      show "?h ! b = h ! b" if "b \<in> set_tree l" for b
        using that in_r last Node.prems(2) by (intro out) (auto simp flip: set_preorder)
    qed simp
    moreover have "prev_threaded ?h r (Some (last (a # preorder l))) (Some x)"
      using Node.IH(2) [of "Some (last (a # preorder l))"] Node.prems False by auto
    moreover have "?h ! a = h ! a" using Node.prems(2) in_r last by (intro out) (auto simp flip: set_preorder)
    ultimately show ?thesis using Node.prems(1) False by simp
  next
    case True
    show ?thesis
    proof (cases "l = Leaf")
      case True
      have "?h ! a = (h ! a)\<lparr>right_p := Some x, righttype := THREAD\<rparr>"
        using Node.prems(1) True \<open>r = Leaf\<close> by (simp add: thread_right_nth)
      then show ?thesis using Node.prems(1) True \<open>r = Leaf\<close> by simp
    next
      case False
      then have last: "last (preorder (Node l a r)) = last (preorder l)" using True by simp
      have "?h ! a = h ! a"
        using Node.prems(2) last last_in(2) [OF False] by (intro out) (auto simp flip: set_preorder)
      moreover have "prev_threaded ?h l (Some a) (Some x)"
        using Node.IH(1) [of "Some a"] Node.prems False True by auto
      ultimately show ?thesis using Node.prems(1) False True by simp
    qed
  qed
qed simp

lemma prev_at_node:
  assumes "a < length h" "prev \<noteq> Some a"
  defines "h' \<equiv> thread_right a prev (thread_left a prev h)"
  shows "h' ! a = (if left_p (h ! a) = None then (h ! a)\<lparr>left_p := prev, lefttype := THREAD\<rparr> else h ! a)"
    and "b \<noteq> a \<Longrightarrow> h' ! b = thread_right a prev h ! b"
  using assms(1,2) unfolding h'_def by (simp_all add: thread_right_nth thread_left_nth)

lemma prev_thread_ok:
  "linked h t \<Longrightarrow> distinct (preorder t) \<Longrightarrow> t \<noteq> Leaf \<Longrightarrow> (\<And>b. prev = Some b \<Longrightarrow> b \<notin> set_tree t) \<Longrightarrow>
   \<exists>h'. prev_thread (root_ref t) prev h = Some (Some (last (preorder t)), h') \<and> prev_threaded h' t prev None
     \<and> map data h' = map data h
     \<and> (\<forall>b. b \<notin> set_tree t \<longrightarrow> h' ! b = thread_right (hd (preorder t)) prev h ! b)"
proof (induction t arbitrary: prev h)
  case (Node l a r)
  have a: "a \<notin> set_tree l" "a \<notin> set_tree r" "prev \<noteq> Some a"
    using Node.prems(2,4) by (auto simp flip: set_preorder)
  have dist: "distinct (preorder l)" "distinct (preorder r)" using Node.prems(2) by auto
  define h1 where "h1 = thread_right a prev (thread_left a prev h)"
  have len1: "length h1 = length h" and data1: "map data h1 = map data h" by (simp_all add: h1_def)
  have h1a: "h1 ! a = (if l = Leaf then (h ! a)\<lparr>left_p := prev, lefttype := THREAD\<rparr> else h ! a)"
    using prev_at_node(1) [of a h prev, folded h1_def] Node.prems(1) a(3) by auto
  have out1: "h1 ! b = thread_right a prev h ! b" if "b \<noteq> a" for b
    using prev_at_node(2) [of a h prev b, folded h1_def] Node.prems(1) a(3) that by auto
  have same1: "h1 ! b = h ! b" if "b \<in> set_tree l \<union> set_tree r" for b
  proof -
    have "b \<noteq> a" "prev \<noteq> Some b" using that a Node.prems(4) by auto
    then show ?thesis using out1 [of b] by (simp add: thread_right_nth)
  qed
  define p where "p = Some (last (a # preorder l))"
  have "\<exists>h2. (if lefttype (h1 ! a) = LINK then prev_thread (left_p (h1 ! a)) (Some a) h1 else Some (Some a, h1)) = Some (p, h2)
    \<and> map data h2 = map data h1 \<and> prev_threaded h2 l (Some a) None
    \<and> h2 ! a = (if l = Leaf \<or> r \<noteq> Leaf then h1 ! a else (h1 ! a)\<lparr>right_p := root_ref l, righttype := THREAD\<rparr>)
    \<and> (\<forall>b. b \<notin> set_tree l \<longrightarrow> b \<noteq> a \<longrightarrow> h2 ! b = h1 ! b)"
  proof (cases "l = Leaf")
    case True
    then show ?thesis using h1a by (auto simp: p_def)
  next
    case False
    have "linked h1 l" by (rule linked_agree [of h]) (use Node.prems(1) len1 same1 in simp_all)
    then obtain h2 where h2: "prev_thread (root_ref l) (Some a) h1 = Some (Some (last (preorder l)), h2)"
        "prev_threaded h2 l (Some a) None" "map data h2 = map data h1"
        "\<And>b. b \<notin> set_tree l \<Longrightarrow> h2 ! b = thread_right (hd (preorder l)) (Some a) h1 ! b"
      using Node.IH(1) [of h1 "Some a"] dist(1) False a(1) by auto
    have "h2 ! a = (if r \<noteq> Leaf then h1 ! a else (h1 ! a)\<lparr>right_p := root_ref l, righttype := THREAD\<rparr>)"
      using h2(4) [OF a(1)] h1a Node.prems(1) len1 False hd_preorder [OF False] by (auto simp: thread_right_nth)
    then show ?thesis using h2 h1a Node.prems(1) False by (auto simp: p_def thread_right_nth)
  qed
  then obtain h2 where h2: "(if lefttype (h1 ! a) = LINK then prev_thread (left_p (h1 ! a)) (Some a) h1 else Some (Some a, h1)) = Some (p, h2)"
      "map data h2 = map data h1" "prev_threaded h2 l (Some a) None"
      "h2 ! a = (if l = Leaf \<or> r \<noteq> Leaf then h1 ! a else (h1 ! a)\<lparr>right_p := root_ref l, righttype := THREAD\<rparr>)"
      "\<And>b. b \<notin> set_tree l \<Longrightarrow> b \<noteq> a \<Longrightarrow> h2 ! b = h1 ! b" by blast
  have step: "prev_thread (root_ref (Node l a r)) prev h =
      (if righttype (h2 ! a) = LINK then prev_thread (right_p (h2 ! a)) p h2 else Some (p, h2))"
    using h2(1) by (subst prev_thread.simps) (auto simp: Let_def h1_def [symmetric])
  have len2: "length h2 = length h" using h2(2) len1 by (metis length_map)
  show ?case
  proof (cases "r = Leaf")
    case True
    have "prev_thread (root_ref (Node l a r)) prev h = Some (p, h2)"
      using step h2(4) h1a True Node.prems(1) by (cases "l = Leaf") (auto simp: prev_thread.simps)
    moreover have "prev_threaded h2 (Node l a r) prev None"
      using h2(3,4) h1a True Node.prems(1) len2 by auto
    ultimately show ?thesis using h2(2,5) out1 data1 True by (auto simp: p_def)
  next
    case False
    have step_r: "prev_thread (root_ref (Node l a r)) prev h = prev_thread (root_ref r) p h2"
      using step h2(4) h1a False Node.prems(1) by auto
    have "linked h2 r"
    proof (rule linked_agree [of h])
      show "h2 ! b = h ! b" if "b \<in> set_tree r" for b
        using h2(5) [of b] same1 [of b] that Node.prems(2) by (auto simp flip: set_preorder)
    qed (use Node.prems(1) len2 in auto)
    moreover have "b \<notin> set_tree r" if "p = Some b" for b
    proof -
      have "b = a \<or> b \<in> set_tree l" using that last_in(2) [of l] by (auto simp: p_def split: if_splits)
      then show ?thesis using a(2) Node.prems(2) by (auto simp flip: set_preorder)
    qed
    ultimately obtain h3 where h3: "prev_thread (root_ref r) p h2 = Some (Some (last (preorder r)), h3)"
        "prev_threaded h3 r p None" "map data h3 = map data h2"
        "\<And>b. b \<notin> set_tree r \<Longrightarrow> h3 ! b = thread_right (hd (preorder r)) p h2 ! b"
      using Node.IH(2) [of h2 p] dist(2) False by blast
    have len3: "length h3 = length h" using h3(3) len2 by (metis length_map)
    have h3a: "h3 ! a = h1 ! a"
      using h3(4) [OF a(2)] h2(4) h1a Node.prems(1) False by (auto simp: thread_right_nth)
    have "prev_threaded h3 l (Some a) (root_ref r)"
    proof (cases "l = Leaf")
      case lf: False
      have "prev_threaded (thread_right (hd (preorder r)) p h2) l (Some a) (root_ref r)"
        using prev_threaded_succ [OF h2(3) dist(1) lf, of "hd (preorder r)"] hd_preorder [OF False] lf
        by (simp add: p_def)
      then show ?thesis using h3(4) Node.prems(2) len2 len3
        by (elim prev_threaded_agree) (auto simp flip: set_preorder)
    qed simp
    moreover have "h3 ! b = h1 ! b" if "b \<notin> set_tree l" "b \<noteq> a" "b \<notin> set_tree r" for b
    proof -
      have "p \<noteq> Some b" using that last_in(2) [of l] by (auto simp: p_def)
      then show ?thesis using h3(4) [OF that(3)] h2(5) [OF that(1,2)] by (simp add: thread_right_nth)
    qed
    ultimately show ?thesis
      using step_r h3(1-3) h3a h1a h2(2) data1 out1 Node.prems(1) len3 False by (auto simp: p_def)
  qed
qed simp

section \<open>Iteration, traversal and destruction\<close>

text \<open>\<open>step\<close> leads from each node of a list to the next one, and from the last to \<open>e\<close>.\<close>

fun follows :: "(nat \<Rightarrow> nat option option) \<Rightarrow> nat list \<Rightarrow> nat option \<Rightarrow> bool" where
  "follows step [] e \<longleftrightarrow> True"
| "follows step (x # xs) e \<longleftrightarrow> step x = Some (if xs = [] then e else Some (hd xs)) \<and> follows step xs e"

lemma follows_append:
  "follows step (xs @ ys) e \<longleftrightarrow> follows step xs (if ys = [] then e else Some (hd ys)) \<and> follows step ys e"
  by (induction xs) auto

lemma iterate_follows:
  "follows step xs None \<Longrightarrow>
   iterate step h (if xs = [] then None else Some (hd xs)) out = Some (out @ map (\<lambda>a. data (h ! a)) xs)"
proof (induction xs arbitrary: out)
  case (Cons x xs)
  then show ?case by (subst iterate.simps) (simp cong: if_cong)
qed (simp add: iterate.simps)

lemma down_links_first:
  "in_threaded h t pr su \<Longrightarrow> t \<noteq> Leaf \<Longrightarrow> down_links h (root_ref t) = Some (Some (hd (inorder t)))"
proof (induction t arbitrary: pr su)
  case (Node l a r)
  then show ?case by (subst down_links.simps) (cases "l = Leaf"; auto)
qed simp

lemma down_left_first:
  "in_threaded h t None su \<Longrightarrow>
   down_left h (root_ref t) = Some (if inorder t = [] then None else Some (hd (inorder t)))"
proof (induction t arbitrary: su)
  case (Node l a r)
  then show ?case by (subst down_left.simps) (cases "l = Leaf"; auto)
qed (simp add: down_left.simps)

lemma in_next_follows: "in_threaded h t pr su \<Longrightarrow> follows (in_next h) (inorder t) su"
proof (induction t arbitrary: pr su)
  case (Node l a r)
  have "in_next h a = Some (if r = Leaf then su else Some (hd (inorder r)))"
  proof (cases "r = Leaf")
    case True
    then show ?thesis using Node.prems by (auto simp: in_next_def down_links.simps)
  next
    case False
    then show ?thesis using Node.prems down_links_first [of h r "Some a" su] by (auto simp: in_next_def)
  qed
  then show ?case using Node.IH [of pr "Some a"] Node.IH(2) [of "Some a" su] Node.prems
    by (auto simp: follows_append)
qed simp

lemma prev_next_follows: "prev_threaded h t pr su \<Longrightarrow> follows (prev_next h) (preorder t) su"
proof (induction t arbitrary: pr su)
  case (Node l a r)
  have "follows (prev_next h) (preorder l) (if r = Leaf then su else root_ref r)"
    "follows (prev_next h) (preorder r) su"
    using Node.IH(1) [of "Some a"] Node.IH(2) Node.prems by auto
  moreover have "prev_next h a = Some (if l \<noteq> Leaf then root_ref l else if r \<noteq> Leaf then root_ref r else su)"
    using Node.prems by (auto simp: prev_next_def)
  ultimately show ?case using hd_preorder [of l] hd_preorder [of r] by (auto simp: follows_append)
qed simp

lemma in_output_ok:
  assumes "in_threaded h t None None"
  shows "in_output h (root_ref t) = Some (map (\<lambda>a. data (h ! a)) (inorder t))"
  using down_left_first [OF assms] iterate_follows [OF in_next_follows [OF assms], of h "[]"]
  by (simp add: in_output_def)

lemma prev_output_ok:
  assumes "prev_threaded h t None None"
  shows "prev_output h (root_ref t) = Some (map (\<lambda>a. data (h ! a)) (preorder t))"
  using iterate_follows [OF prev_next_follows [OF assms], of h "[]"] hd_preorder [of t]
  by (cases "t = Leaf") (simp_all add: prev_output_def)

lemma norec_loop_tree:
  "linked h t \<Longrightarrow>
   norec_loop h (root_ref t) s out = norec_loop h None s (out @ map (\<lambda>a. data (h ! a)) (inorder t))"
proof (induction t arbitrary: s out)
  case (Node l a r)
  let ?d = "\<lambda>a. data (h ! a)"
  have "norec_loop h (root_ref (Node l a r)) s out = norec_loop h (root_ref l) (a # s) out"
    using Node.prems by (subst norec_loop.simps) simp
  also have "\<dots> = norec_loop h None (a # s) (out @ map ?d (inorder l))" using Node by simp
  also have "\<dots> = norec_loop h (root_ref r) s (out @ map ?d (inorder l) @ [?d a])"
    using Node.prems by (subst norec_loop.simps) simp
  finally show ?case using Node by simp
qed simp

lemma InOderNoR_ok: "linked h t \<Longrightarrow> InOderNoR h (root_ref t) = Some (map (\<lambda>a. data (h ! a)) (inorder t))"
  using norec_loop_tree [of h t "[]" "[]"] by (simp add: InOderNoR_def norec_loop.simps)

lemma Destroy_linked: "linked h t \<Longrightarrow> height t \<le> depth \<Longrightarrow> Destroy depth h (root_ref t) = Some (postorder t)"
proof (induction t arbitrary: depth)
  case (Node l a r)
  then show ?case by (cases depth) auto
qed simp

text \<open>After the threading only the first node has no left pointer, and only the last no right pointer.\<close>

lemma root_in: "root_ref t = Some b \<Longrightarrow> b \<in> set_tree t"
  by (cases t) auto

lemma in_threaded_left:
  "in_threaded h t pr su \<Longrightarrow> a \<in> set_tree t \<Longrightarrow>
   (case left_p (h ! a) of None \<Rightarrow> pr = None \<and> a = hd (inorder t) | Some b \<Rightarrow> pr = Some b \<or> b \<in> set_tree t)"
proof (induction t arbitrary: pr su)
  case (Node l c r)
  then consider "a = c" | "a \<in> set_tree l" | "a \<in> set_tree r" by auto
  then show ?case
  proof cases
    case 1
    then show ?thesis using Node.prems root_in [of l] by (cases "l = Leaf") (auto split: option.splits)
  next
    case 2
    then have "l \<noteq> Leaf" by auto
    then show ?thesis using 2 Node.IH(1) [of pr "Some c"] Node.prems by (auto simp: hd_append split: option.splits)
  next
    case 3
    then show ?thesis using Node.IH(2) [of "Some c" su] Node.prems by (auto split: option.splits)
  qed
qed simp

lemma in_threaded_right:
  "in_threaded h t pr su \<Longrightarrow> a \<in> set_tree t \<Longrightarrow>
   (case right_p (h ! a) of None \<Rightarrow> su = None \<and> a = last (inorder t) | Some b \<Rightarrow> su = Some b \<or> b \<in> set_tree t)"
proof (induction t arbitrary: pr su)
  case (Node l c r)
  then consider "a = c" | "a \<in> set_tree l" | "a \<in> set_tree r" by auto
  then show ?case
  proof cases
    case 1
    then show ?thesis using Node.prems root_in [of r] by (cases "r = Leaf") (auto split: option.splits)
  next
    case 2
    then show ?thesis using Node.IH(1) [of pr "Some c"] Node.prems by (auto split: option.splits)
  next
    case 3
    then show ?thesis using Node.IH(2) [of "Some c" su] Node.prems by (auto split: option.splits)
  qed
qed simp

lemma Destroy_threaded:
  assumes "in_threaded h t None None" "distinct (inorder t)" "size t \<ge> 2"
  shows "a \<in> set_tree t \<Longrightarrow> Destroy depth h (Some a) = None"
proof (induction depth arbitrary: a)
  case (Suc depth)
  have "inorder t \<noteq> []" "length (inorder t) \<ge> 2" using assms(3) by auto
  then have "hd (inorder t) \<noteq> last (inorder t)"
    using assms(2) by (cases "inorder t") auto
  then have "\<exists>b \<in> set_tree t. left_p (h ! a) = Some b \<or> right_p (h ! a) = Some b"
    using in_threaded_left [OF assms(1) Suc.prems] in_threaded_right [OF assms(1) Suc.prems]
    by (auto split: option.splits)
  then show ?case using Suc.IH by (auto split: option.splits)
qed simp

section \<open>Construction\<close>

text \<open>A tree in the order in which \<open>__CreatTree\<close> reads it, with \<open>invalid\<close> for \<open>NULL\<close>.\<close>

fun serial :: "'a \<Rightarrow> 'a tree \<Rightarrow> 'a list" where
  "serial invalid Leaf = [invalid]"
| "serial invalid (Node l x r) = x # serial invalid l @ serial invalid r"

definition tree_of :: "'a store \<Rightarrow> nat tree \<Rightarrow> 'a tree" where
  "tree_of h t = map_tree (\<lambda>a. data (h ! a)) t"

lemma tree_of_simps [simp]:
  "tree_of h Leaf = Leaf" "tree_of h (Node l a r) = Node (tree_of h l) (data (h ! a)) (tree_of h r)"
  by (simp_all add: tree_of_def)

lemma tree_of_agree: "(\<And>a. a \<in> set_tree t \<Longrightarrow> h' ! a = h ! a) \<Longrightarrow> tree_of h' t = tree_of h t"
  by (induction t) auto

definition read_at :: "'a list \<Rightarrow> 'a \<Rightarrow> nat \<Rightarrow> 'a" where
  "read_at a invalid j = (if j < length a then a ! j else invalid)"

lemma CreatTree_ok:
  "\<exists>t i' h'. CreatTree a invalid i h = Some (root_ref t, i', h') \<and> linked h' t \<and> i \<le> i'
     \<and> set_tree t = {length h..<length h'} \<and> length h \<le> length h' \<and> distinct (inorder t)
     \<and> (\<forall>b < length h. h' ! b = h ! b)
     \<and> serial invalid (tree_of h' t) = map (read_at a invalid) [i..<Suc i']"
proof (induction "length a - i" arbitrary: i h rule: less_induct)
  case less
  show ?case
  proof (cases "i < length a \<and> a ! i \<noteq> invalid")
    case False
    then have "CreatTree a invalid i h = Some (root_ref Leaf, i, h)"
      by (subst CreatTree.simps) auto
    moreover have "read_at a invalid i = invalid" using False by (auto simp: read_at_def)
    ultimately show ?thesis by (intro exI [of _ Leaf] exI [of _ i] exI [of _ h]) simp
  next
    case True
    let ?p = "length h" and ?h = "h @ [new_node (a ! i)]"
    obtain l i1 h1 where l: "CreatTree a invalid (i + 1) ?h = Some (root_ref l, i1, h1)" "linked h1 l" "i + 1 \<le> i1"
        "set_tree l = {Suc ?p..<length h1}" "Suc ?p \<le> length h1" "distinct (inorder l)"
        "\<forall>b < Suc ?p. h1 ! b = ?h ! b" "serial invalid (tree_of h1 l) = map (read_at a invalid) [i + 1..<Suc i1]"
      using less [of "i + 1" ?h, unfolded length_append_singleton] True by fastforce
    define h1' where "h1' = h1[?p := (h1 ! ?p)\<lparr>left_p := root_ref l\<rparr>]"
    have h1': "length h1' = length h1" "\<And>b. b \<noteq> ?p \<Longrightarrow> h1' ! b = h1 ! b"
        "h1' ! ?p = (new_node (a ! i))\<lparr>left_p := root_ref l\<rparr>"
      using l(5,7) by (auto simp: h1'_def)
    obtain r i2 h2 where r: "CreatTree a invalid (i1 + 1) h1' = Some (root_ref r, i2, h2)" "linked h2 r" "i1 + 1 \<le> i2"
        "set_tree r = {length h1..<length h2}" "length h1 \<le> length h2" "distinct (inorder r)"
        "\<forall>b < length h1. h2 ! b = h1' ! b" "serial invalid (tree_of h2 r) = map (read_at a invalid) [i1 + 1..<Suc i2]"
      using less [of "i1 + 1" h1', unfolded h1'(1)] True l(3) by fastforce
    define h3 where "h3 = h2[?p := (h2 ! ?p)\<lparr>right_p := root_ref r\<rparr>]"
    have h3: "length h3 = length h2" "\<And>b. b \<noteq> ?p \<Longrightarrow> h3 ! b = h2 ! b"
        "h3 ! ?p = (new_node (a ! i))\<lparr>left_p := root_ref l, right_p := root_ref r\<rparr>"
      using r(5,7) l(5) h1'(3) by (auto simp: h3_def)
    have in_l: "h3 ! b = h1 ! b" if "b \<in> set_tree l" for b
      using that l(4) r(7) h3(2) [of b] h1'(2) [of b] by auto
    have in_r: "h3 ! b = h2 ! b" if "b \<in> set_tree r" for b using that r(4) l(5) h3(2) [of b] by auto
    have links: "linked h3 l" "linked h3 r" "tree_of h3 l = tree_of h1 l" "tree_of h3 r = tree_of h2 r"
      using linked_agree [OF l(2) in_l] linked_agree [OF r(2) in_r] tree_of_agree [of l h3 h1, OF in_l]
        tree_of_agree [of r h3 h2, OF in_r] h3(1) r(5) by simp_all
    have "CreatTree a invalid i h = Some (root_ref (Node l ?p r), i2, h3)"
      using True l(1) r(1) by (subst CreatTree.simps) (simp add: h1'_def [symmetric] h3_def [symmetric])
    moreover have "linked h3 (Node l ?p r)" using links h3 l(5) r(5) by (simp add: new_node_def)
    moreover have "set_tree (Node l ?p r) = {?p..<length h3}" using l(4,5) r(4,5) h3(1) by auto
    moreover have "distinct (inorder (Node l ?p r))" using l(4-6) r(4-6) by auto
    moreover have "\<forall>b < ?p. h3 ! b = h ! b" using h3(2) r(7) l(5,7) h1'(2) by (auto simp: nth_append)
    moreover have "serial invalid (tree_of h3 (Node l ?p r)) = map (read_at a invalid) [i..<Suc i2]"
    proof -
      have "[i..<Suc i2] = i # [i + 1..<Suc i1] @ [i1 + 1..<Suc i2]"
        using l(3) r(3) upt_add_eq_append [of "i + 1" "Suc i1" "i2 - i1"] by (simp add: upt_conv_Cons)
      then show ?thesis using links l(8) r(8) h3(3) True by (simp add: new_node_def read_at_def)
    qed
    ultimately show ?thesis
      using l(3,5) r(3,5) h3(1) by (intro exI [of _ "Node l ?p r"] exI [of _ i2] exI [of _ h3]) simp
  qed
qed

section \<open>The properties\<close>

lemma distinct_preorder: "distinct (inorder t) \<Longrightarrow> distinct (preorder t)"
  by (induction t) auto

lemma tree_of_orders:
  "inorder (tree_of h t) = map (\<lambda>a. data (h ! a)) (inorder t)"
  "preorder (tree_of h t) = map (\<lambda>a. data (h ! a)) (preorder t)"
  "postorder (tree_of h t) = map (\<lambda>a. data (h ! a)) (postorder t)"
  by (induction t) simp_all

lemma tree_of_data:
  assumes "map data h' = map data h" "set_tree t \<subseteq> {0..<length h}"
  shows "tree_of h' t = tree_of h t"
proof -
  have len: "length h' = length h" using assms(1) by (metis length_map)
  have "data (h' ! a) = data (h ! a)" if "a \<in> set_tree t" for a
  proof -
    have "a < length h" using that assms(2) by auto
    then show ?thesis using assms(1) len by (metis nth_map)
  qed
  then show ?thesis unfolding tree_of_def by (intro tree.map_cong) auto
qed

lemma BinaryTreeThread_ok:
  assumes "a \<noteq> []"
  shows "\<exists>t h i. BinaryTreeThread a invalid = Some (Some (root_ref t, h)) \<and> linked h t
    \<and> set_tree t = {0..<length h} \<and> distinct (inorder t)
    \<and> serial invalid (tree_of h t) = map (read_at a invalid) [0..<Suc i]"
proof -
  obtain t i h where t: "CreatTree a invalid 0 [] = Some (root_ref t, i, h)" "linked h t" "set_tree t = {0..<length h}"
      "distinct (inorder t)" "serial invalid (tree_of h t) = map (read_at a invalid) [0..<Suc i]"
    using CreatTree_ok [of a invalid 0 "[]"] by fastforce
  then show ?thesis using assms
    by (intro exI [of _ t] exI [of _ h] exI [of _ i]) (simp add: BinaryTreeThread_def del: upt_Suc)
qed

lemma InOderThread_ok:
  assumes "linked h t" "distinct (inorder t)"
  shows "\<exists>h'. InOderThread (root_ref t) h = Some h' \<and> in_threaded h' t None None \<and> map data h' = map data h"
  using in_thread_ok [OF assms, of None]
  by (cases "t = Leaf") (fastforce simp: InOderThread_def in_thread.simps)+

lemma prevOderThread_ok:
  assumes "linked h t" "distinct (inorder t)"
  shows "\<exists>h'. prevOderThread (root_ref t) h = Some h' \<and> prev_threaded h' t None None \<and> map data h' = map data h"
  using prev_thread_ok [OF assms(1) distinct_preorder [OF assms(2)], of None]
  by (cases "t = Leaf") (fastforce simp: prevOderThread_def prev_thread.simps)+

text \<open>
  C19. The constructor of the threaded tree ends for every array that is not empty, and builds the tree
  whose preorder with \<open>invalid\<close> for the missing parts is a beginning of the array (extended by
  \<open>invalid\<close>).  \<open>InOderNoR\<close> writes its values in order; after the in-order threading the iterator from
  \<open>begin\<close> by \<open>++\<close> reads the values in order and ends, and after the threading in preorder the other
  iterator reads them in preorder and ends.
\<close>

theorem threaded_trees:
  assumes "a \<noteq> []"
  shows "\<exists>T n root h. BinaryTreeThread a invalid = Some (Some (root, h))
    \<and> serial invalid T = map (read_at a invalid) [0..<n] \<and> InOderNoR h root = Some (inorder T)
    \<and> (\<exists>h1. InOderThread root h = Some h1 \<and> in_output h1 root = Some (inorder T))
    \<and> (\<exists>h2. prevOderThread root h = Some h2 \<and> prev_output h2 root = Some (preorder T))"
proof -
  obtain t h i where t: "BinaryTreeThread a invalid = Some (Some (root_ref t, h))" "linked h t"
      "set_tree t = {0..<length h}" "distinct (inorder t)"
      "serial invalid (tree_of h t) = map (read_at a invalid) [0..<Suc i]"
    using BinaryTreeThread_ok [OF assms] by blast
  obtain h1 where h1: "InOderThread (root_ref t) h = Some h1" "in_threaded h1 t None None" "map data h1 = map data h"
    using InOderThread_ok [OF t(2,4)] by blast
  obtain h2 where h2: "prevOderThread (root_ref t) h = Some h2" "prev_threaded h2 t None None" "map data h2 = map data h"
    using prevOderThread_ok [OF t(2,4)] by blast
  have same: "tree_of h1 t = tree_of h t" "tree_of h2 t = tree_of h t"
    using tree_of_data [OF h1(3)] tree_of_data [OF h2(3)] t(3) by simp_all
  have "InOderNoR h (root_ref t) = Some (inorder (tree_of h t))"
    "in_output h1 (root_ref t) = Some (inorder (tree_of h t))" "prev_output h2 (root_ref t) = Some (preorder (tree_of h t))"
    using InOderNoR_ok [OF t(2)] in_output_ok [OF h1(2)] prev_output_ok [OF h2(2)] tree_of_orders(1) [of h1 t]
      tree_of_orders(1) [of h t] tree_of_orders(2) [of h2 t] unfolding same by simp_all
  then show ?thesis using t(1,5) h1(1) h2(1) by blast
qed

theorem threaded_trees_witness:
  "\<exists>T n root h. BinaryTreeThread [1, 2, 0, 0, 3::nat] 0 = Some (Some (root, h))
    \<and> serial 0 T = map (read_at [1, 2, 0, 0, 3] 0) [0..<n] \<and> InOderNoR h root = Some (inorder T)"
  using threaded_trees [of "[1, 2, 0, 0, 3::nat]" 0] by blast

text \<open>
  The destructor deletes every node once, children first, as long as the tree has no threads.  Once it
  has been threaded in order, with two nodes or more, \<open>_Destroy\<close> follows the threads and never returns.
\<close>

theorem destroy_follows_threads:
  assumes "a \<noteq> []"
  shows "\<exists>root h h1. BinaryTreeThread a invalid = Some (Some (root, h)) \<and> InOderThread root h = Some h1
    \<and> (\<exists>depth ds. Destroy depth h root = Some ds \<and> distinct ds \<and> set ds = {0..<length h})
    \<and> (length h \<ge> 2 \<longrightarrow> (\<forall>depth. Destroy depth h1 root = None))"
proof -
  obtain t h i where t: "BinaryTreeThread a invalid = Some (Some (root_ref t, h))" "linked h t"
      "set_tree t = {0..<length h}" "distinct (inorder t)"
    using BinaryTreeThread_ok [OF assms] by blast
  obtain h1 where h1: "InOderThread (root_ref t) h = Some h1" "in_threaded h1 t None None"
    using InOderThread_ok [OF t(2,4)] by blast
  have size: "size t = length h" using distinct_card [OF t(4)] t(3) by simp
  have "distinct (postorder t)" using t(4) by (induction t) auto
  then have "Destroy (height t) h (root_ref t) = Some (postorder t) \<and> distinct (postorder t)
      \<and> set (postorder t) = {0..<length h}"
    using Destroy_linked [OF t(2) order.refl] t(3) by simp
  moreover have "Destroy depth h1 (root_ref t) = None" if "length h \<ge> 2" for depth
    using Destroy_threaded [OF h1(2) t(4)] that size by (cases t) auto
  ultimately show ?thesis using t(1) h1(1) by blast
qed

end
