(* ===== verification/My_Map.thy ===== *)
theory My_Map
  imports Red_Black_Tree "HOL-Library.Product_Lexorder"
begin

text \<open>
  \<open>my_map\<close> of \<open>DataStruct/MyMap\<close>, a map on a red-black tree of pairs.  Its \<open>rb_tree.h\<close> is the tree of
  \<open>Red_Black_Tree\<close> with another result of \<open>insert\<close>: an iterator beside the flag.  The values of a tree
  are different, so the node of an iterator is given by its value.
\<close>

section \<open>Definitions from the code\<close>

text \<open>
  The value of the node \<open>cur\<close> when the loop of \<open>insert\<close> ends: with a red uncle \<open>cur\<close> is the grandfather
  only if the loop goes on, and a rotation at \<open>parent\<close> exchanges the names \<open>parent\<close> and \<open>cur\<close>.
\<close>

fun cur_value :: "'a rb \<Rightarrow> 'a parent list \<Rightarrow> 'a" where
  "cur_value cur (p # g # ps) =
     (if pcol p = RED
      then if col (sibling g) = RED
           then if ps \<noteq> [] \<and> pcol (hd ps) = RED
                then cur_value (paint RED (up (paint BLACK (up cur p)) (paint_sibling BLACK g))) ps
                else val cur
           else (case (p, g) of
                   (RightOf _ _ v, LeftOf _ _ _) \<Rightarrow> v
                 | (LeftOf _ v _, RightOf _ _ _) \<Rightarrow> v
                 | _ \<Rightarrow> val cur)
      else val cur)"
| "cur_value cur ps = val cur"

text \<open>\<open>insert\<close>: the value at the iterator, the flag and the tree.\<close>

definition insert_it :: "'a::linorder \<Rightarrow> 'a rb \<Rightarrow> ('a \<times> bool \<times> 'a rb) option" where
  "insert_it x root =
     (if root = Leaf then Some (x, True, Node BLACK Leaf x Leaf)
      else (case descend x root [] of
              None \<Rightarrow> Some (x, False, root)
            | Some ps \<Rightarrow>
                let cur = Node RED Leaf x Leaf in
                if ps \<noteq> [] \<and> pcol (hd ps) = BLACK then Some (x, True, zip_up cur ps)
                else map_option (\<lambda>t. (cur_value cur ps, True, paint BLACK t)) (fix_loop cur ps)))"

type_synonym ('k, 'v) my_map = "('k \<times> 'v) rb"

text \<open>
  \<open>operator[]\<close> inserts the key with \<open>Value()\<close>, the argument \<open>d\<close>, and returns a reference to the second
  part at the iterator.  Reading it gives that part; an assignment to it changes the node in place.
\<close>

definition map_read :: "'v \<Rightarrow> 'k::linorder \<Rightarrow> ('k, 'v::linorder) my_map \<Rightarrow> ('v \<times> ('k, 'v) my_map) option" where
  "map_read d key t = map_option (\<lambda>(x, b, t'). (snd x, t')) (insert_it (key, d) t)"

definition map_write :: "'v \<Rightarrow> 'k::linorder \<Rightarrow> 'v \<Rightarrow> ('k, 'v::linorder) my_map \<Rightarrow> ('k, 'v) my_map option" where
  "map_write d key v t =
     map_option (\<lambda>(x, b, t'). map_rb (\<lambda>y. if y = x then (fst x, v) else y) t') (insert_it (key, d) t)"

section \<open>Insertion\<close>

lemma insert_it_rb: "map_option snd (insert_it x t) = insert_rb x t"
  by (auto simp: insert_it_def insert_rb_def Let_def option.map_comp comp_def split: option.splits)

lemma val_paint [simp]: "t \<noteq> Leaf \<Longrightarrow> val (paint c t) = val t"
  by (cases t) auto

lemma val_in: "t \<noteq> Leaf \<Longrightarrow> val t \<in> set (inorder t)"
  by (cases t) auto

lemma set_zip: "set (inorder (zip_up t ps)) = set (before ps) \<union> set (inorder t) \<union> set (behind ps)"
  by (auto simp: inorder_zip)

lemma up_not_Leaf [simp]: "up t p \<noteq> Leaf" "paint c (up t p) \<noteq> Leaf"
  by (cases p; simp)+

lemma inorder_up_sibling: "inorder (up (paint c t) (paint_sibling c' g)) = inorder (up t g)"
  by (cases g) (simp_all add: paint_sibling_def)

lemma inorder_up: "set (inorder (up t p)) = set (before [p]) \<union> set (inorder t) \<union> set (behind [p])"
  by (cases p) auto

text \<open>The iterator is at a node of the new tree.\<close>

lemma cur_value_in: "cur \<noteq> Leaf \<Longrightarrow> cur_value cur ps \<in> set (inorder (zip_up cur ps))"
proof (induction cur ps rule: cur_value.induct)
  case (1 cur p g ps)
  have "val cur \<in> set (inorder (zip_up cur (p # g # ps)))" using val_in [OF 1(2)] by (simp only: set_zip) simp
  moreover have "v \<in> set (inorder (zip_up cur (p # g # ps)))"
    if "p = RightOf c l v \<or> p = LeftOf c v r" for c l v r
    using that by (cases g) (auto simp: inorder_zip)
  moreover have "paint RED (up (paint BLACK (up cur p)) (paint_sibling BLACK g)) \<noteq> Leaf"
    by (cases g) (simp_all add: paint_sibling_def)
  moreover have "inorder (zip_up (paint RED (up (paint BLACK (up cur p)) (paint_sibling BLACK g))) ps)
      = inorder (zip_up cur (p # g # ps))"
    by (simp add: inorder_zip [of _ ps] inorder_up_sibling)
  ultimately show ?case using 1(1) by (auto split: parent.split)
qed (use val_in in \<open>auto simp: inorder_up\<close>)

lemma insert_it_ok:
  assumes "rb_ok t"
  shows "\<exists>y t'. insert_it x t = Some (y, x \<notin> set (inorder t), t') \<and> y \<in> set (inorder t') \<and> rb_ok t'
    \<and> inorder t' = (if x \<in> set (inorder t) then inorder t else insort x (inorder t))"
proof -
  obtain t' where t': "insert_rb x t = Some (x \<notin> set (inorder t), t')" "rb_ok t'"
      "inorder t' = (if x \<in> set (inorder t) then inorder t else insort x (inorder t))"
    using insert_rb_ok [OF assms] by blast
  then obtain y where y: "insert_it x t = Some (y, x \<notin> set (inorder t), t')"
    using insert_it_rb [of x t] by auto
  have "y \<in> set (inorder t')"
  proof (cases "y = x")
    case True
    then show ?thesis using t'(3) by (auto simp: set_insort_key)
  next
    case False
    then obtain ps where ps: "descend x t [] = Some ps" "y = cur_value (Node RED Leaf x Leaf) ps" "x \<notin> set (inorder t)"
      using y by (auto simp: insert_it_def Let_def split: if_splits option.splits)
    have "set (inorder (zip_up (Node RED Leaf x Leaf) ps)) = Set.insert x (set (inorder t))"
      using zip_of_descend [OF ps(1)] inorder_zip [of Leaf ps] inorder_zip [of t "[]"] by (auto simp: set_zip)
    then show ?thesis using cur_value_in [of "Node RED Leaf x Leaf" ps] ps(2,3) t'(3)
      by (auto simp: set_insort_key)
  qed
  then show ?thesis using y t'(2,3) by blast
qed

text \<open>
  C25. What \<open>operator[]\<close> does when a key is read.  It inserts the pair of the key and the default value, unless
  this very pair is stored, and the flag says which; the order and the rules of the tree are kept, and so is every
  entry that was there.  So a key that is stored with other values is not looked up: it is in the map once more
  afterwards, with the default value.  The value it returns is that of the entry at the iterator, some entry of
  the new map; if the pair of the key and the default was stored, it is the default and the map does not change.
\<close>

theorem map_read_adds:
  assumes "rb_ok m"
  shows "\<exists>y m'. insert_it (key, d) m = Some (y, (key, d) \<notin> set (inorder m), m')
    \<and> map_read d key m = Some (snd y, m') \<and> rb_ok m' \<and> y \<in> set (inorder m')
    \<and> set (inorder m') = Set.insert (key, d) (set (inorder m))
    \<and> {w. (key, w) \<in> set (inorder m')} = Set.insert d {w. (key, w) \<in> set (inorder m)}
    \<and> (if (key, d) \<in> set (inorder m) then m' = m \<and> snd y = d
       else length (inorder m') = length (inorder m) + 1)"
proof -
  obtain y m' where y: "insert_it (key, d) m = Some (y, (key, d) \<notin> set (inorder m), m')" "y \<in> set (inorder m')"
      "rb_ok m'" "inorder m' = (if (key, d) \<in> set (inorder m) then inorder m else insort (key, d) (inorder m))"
    using insert_it_ok [OF assms] by blast
  have entries: "set (inorder m') = Set.insert (key, d) (set (inorder m))"
    unfolding y(4) by (auto simp: set_insort_key)
  have "m' = m \<and> y = (key, d)" if "(key, d) \<in> set (inorder m)"
    using y(1) that by (auto simp: insert_it_def Let_def split: if_splits option.splits)
  then show ?thesis using y entries by (intro exI [of _ y] exI [of _ m']) (auto simp: map_read_def)
qed

theorem map_read_adds_witness:
  "\<exists>y m'. map_read 0 (6::nat) (Node BLACK Leaf (6, 7::nat) Leaf) = Some (snd y, m')
    \<and> {w. (6, w) \<in> set (inorder m')} = {0, 7}"
proof -
  have "rb_ok (Node BLACK Leaf (6::nat, 7::nat) Leaf)" by (simp add: rb_ok_def)
  from map_read_adds [OF this, of 6 0] show ?thesis by auto
qed

text \<open>
  Which entry the iterator is at.  In a map with the one entry (2, 5), reading the key 2 gives the default.  With
  (1, 0) besides, a rotation at the parent exchanges the names of the two nodes, the iterator is at the
  old entry, and 5 is read; with (3, 5) instead of (2, 5) the value of the key 3 is read.
\<close>

lemma map_read_examples:
  "map_option fst (map_read 0 2 (Node BLACK Leaf (2::nat, 5::nat) Leaf)) = Some 0"
  "map_option fst (map_read 0 2 (Node BLACK Leaf (1::nat, 0::nat) (Node RED Leaf (2, 5) Leaf))) = Some 5"
  "map_option fst (map_read 0 2 (Node BLACK Leaf (1::nat, 0::nat) (Node RED Leaf (3, 5) Leaf))) = Some 5"
  by (simp_all add: map_read_def insert_it_def less_prod_simp)

text \<open>
  So the first assignment with \<open>operator[]\<close> to a map is not read again: the next read of the key gives the
  default.  And an assignment can change another entry: after the entries (1, 0) and (3, 0) the assignment to the
  key 2 changes the value of the key 3.
\<close>

lemma map_write_read:
  "v \<noteq> d \<Longrightarrow> Option.bind (map_write d key v Leaf) (\<lambda>m. map_option fst (map_read d key m)) = Some d"
  by (cases "v < d") (auto simp: map_write_def map_read_def insert_it_def less_prod_simp)

lemma map_write_elsewhere:
  "Option.bind (map_write 0 (1::nat) (0::nat) Leaf)
     (\<lambda>m. Option.bind (map_write 0 3 0 m) (\<lambda>m. map_option inorder (map_write 0 2 5 m)))
   = Some [(1, 0), (2, 0), (3, 5)]"
  by (simp add: map_write_def insert_it_def less_prod_simp)

end
