(* ===== verification/Shuffles.thy ===== *)
theory Shuffles
  imports Arrays "HOL-Library.FuncSet"
begin

text \<open>
  The shuffles of \<open>Algorithm/Shuffle/shuffle.cpp\<close>.  The results of \<open>std::rand\<close> are an argument: a
  function that gives the number drawn in each round.  An access outside the vector is \<open>None\<close>.
\<close>

section \<open>Definitions from the code\<close>

definition BUFFSIZE :: nat where
  "BUFFSIZE = 54"

text \<open>\<open>m_v\<close> after \<open>resize\<close> and the loop of the constructor; the position 0 is not used.\<close>

definition new_Solution :: "nat list" where
  "new_Solution = fold (\<lambda>i v. v[i := i]) [1..<BUFFSIZE + 1] (replicate (BUFFSIZE + 1) 0)"

definition try_swap :: "nat \<Rightarrow> nat \<Rightarrow> 'a list \<Rightarrow> 'a list option" where
  "try_swap i j v = (if i < length v \<and> j < length v then Some (Swap i j v) else None)"

text \<open>The loop of both shuffles, with the computation of \<open>rand_idx\<close> as an argument.\<close>

fun shuffle_loop :: "(nat \<Rightarrow> nat) \<Rightarrow> nat list \<Rightarrow> 'a list \<Rightarrow> 'a list option" where
  "shuffle_loop rand_idx [] v = Some v"
| "shuffle_loop rand_idx (i # is) v = Option.bind (try_swap i (rand_idx i) v) (shuffle_loop rand_idx is)"

definition shuffle_pro :: "(nat \<Rightarrow> nat) \<Rightarrow> 'a list \<Rightarrow> 'a list option" where
  "shuffle_pro rand v = shuffle_loop (\<lambda>i. i + rand i mod (BUFFSIZE - i + 1)) [1..<length v] v"

definition shuffle_simple :: "nat \<Rightarrow> (nat \<Rightarrow> nat) \<Rightarrow> 'a list \<Rightarrow> 'a list option" where
  "shuffle_simple RAND_MAX rand v =
     shuffle_loop (\<lambda>i. 1 + rand i div ((RAND_MAX + 1) div BUFFSIZE)) [1..<length v] v"

text \<open>\<open>legal[m_v[i]]++\<close> on an array of 55 numbers, and the test of each of them.\<close>

fun count_legal :: "nat list \<Rightarrow> nat list \<Rightarrow> nat list option" where
  "count_legal [] legal = Some legal"
| "count_legal (x # xs) legal =
     (if x < length legal then count_legal xs (legal[x := legal ! x + 1]) else None)"

definition isLegal :: "nat list \<Rightarrow> bool option" where
  "isLegal v =
     Option.bind (count_legal (drop 1 v) (replicate 55 0))
       (\<lambda>legal. if length v \<le> 55 then Some (list_all (\<lambda>i. legal ! i \<noteq> 0) [1..<length v]) else None)"

section \<open>The loop\<close>

lemma shuffle_loop_keeps:
  "shuffle_loop f is v = Some w \<Longrightarrow> mset w = mset v \<and> length w = length v"
proof (induction "is" arbitrary: v)
  case (Cons i "is")
  then show ?case by (auto simp: try_swap_def mset_swap_eq split: if_splits)
qed simp

lemma shuffle_loop_cong:
  "(\<And>k. k \<in> set is \<Longrightarrow> f k = g k) \<Longrightarrow> shuffle_loop f is v = shuffle_loop g is v"
proof (induction "is" arbitrary: v)
  case (Cons i "is")
  then show ?case by (cases "try_swap i (g i) v") simp_all
qed simp

text \<open>From a position on, with partners between the position and the end.\<close>

definition forward :: "(nat \<Rightarrow> nat) \<Rightarrow> nat \<Rightarrow> nat \<Rightarrow> bool" where
  "forward f i n \<longleftrightarrow> (\<forall>k. i \<le> k \<and> k < n \<longrightarrow> k \<le> f k \<and> f k < n)"

lemma forward_Suc: "forward f i n \<Longrightarrow> forward f (Suc i) n"
  by (simp add: forward_def)

lemma shuffle_loop_step:
  assumes "i < length v" "forward f i (length v)"
  shows "shuffle_loop f [i..<length v] v = shuffle_loop f [Suc i..<length v] (Swap i (f i) v)"
  using assms by (simp add: upt_conv_Cons try_swap_def forward_def)

lemma shuffle_loop_forward:
  "forward f i (length v) \<Longrightarrow> \<exists>w. shuffle_loop f [i..<length v] v = Some w \<and> (\<forall>k < i. k < length v \<longrightarrow> w ! k = v ! k)"
proof (induction "length v - i" arbitrary: i v)
  case (Suc m)
  then have i: "i < length v" "f i < length v" "i \<le> f i" by (auto simp: forward_def)
  let ?v = "Swap i (f i) v"
  have m: "m = length v - Suc i" using Suc.hyps(2) by linarith
  obtain w where w: "shuffle_loop f [Suc i..<length v] ?v = Some w" "\<forall>k < Suc i. k < length v \<longrightarrow> w ! k = ?v ! k"
    using Suc.hyps(1) [of ?v "Suc i"] m forward_Suc [OF Suc.prems] by auto
  have "w ! k = v ! k" if "k < i" for k using w(2) i that by (simp add: swap_nth)
  then show ?case using w(1) shuffle_loop_step [OF i(1) Suc.prems] by auto
qed simp

lemma shuffle_loop_inj:
  "forward f i (length v) \<Longrightarrow> forward g i (length v) \<Longrightarrow> distinct v \<Longrightarrow>
   shuffle_loop f [i..<length v] v = shuffle_loop g [i..<length v] v \<Longrightarrow> i \<le> k \<Longrightarrow> k < length v \<Longrightarrow> f k = g k"
proof (induction "length v - i" arbitrary: i v)
  case (Suc m)
  then have i: "i < length v" "f i < length v" "g i < length v" by (auto simp: forward_def)
  note step = shuffle_loop_step [OF i(1) Suc.prems(1)] shuffle_loop_step [OF i(1) Suc.prems(2)]
  have fg: "forward f (Suc i) (length v)" "forward g (Suc i) (length v)" using Suc.prems(1,2) forward_Suc by auto
  have "\<exists>w. shuffle_loop f [i..<length v] v = Some w \<and> w ! i = v ! f i"
    using shuffle_loop_forward [of f "Suc i" "Swap i (f i) v"] fg i step(1) by (auto simp: swap_nth)
  moreover have "\<exists>w. shuffle_loop g [i..<length v] v = Some w \<and> w ! i = v ! g i"
    using shuffle_loop_forward [of g "Suc i" "Swap i (g i) v"] fg i step(2) by (auto simp: swap_nth)
  ultimately have "v ! f i = v ! g i" using Suc.prems(4) by auto
  then have same: "f i = g i" using Suc.prems(3) i by (simp add: nth_eq_iff_index_eq)
  show ?case
  proof (cases "k = i")
    case False
    have "distinct (Swap i (f i) v)"
      using Suc.prems(3) mset_swap_eq [OF i(1,2)] by (metis mset_eq_imp_distinct_iff)
    then show ?thesis
      using Suc.hyps(1) [of "Swap i (f i) v" "Suc i"] Suc.hyps(2) fg step Suc.prems(4-6) same False by simp
  qed (simp add: same)
qed simp

lemma shuffle_loop_onto:
  "mset w = mset v \<Longrightarrow> (\<And>k. k < i \<Longrightarrow> k < length v \<Longrightarrow> w ! k = v ! k) \<Longrightarrow>
   \<exists>f. forward f i (length v) \<and> shuffle_loop f [i..<length v] v = Some w"
proof (induction "length v - i" arbitrary: i v)
  case 0
  then have "length w = length v" by (metis size_mset)
  then have "w = v" using 0 by (intro nth_equalityI) auto
  then show ?case using 0 by (auto simp: forward_def)
next
  case (Suc m)
  have len: "length w = length v" using Suc.prems(1) by (metis size_mset)
  have i: "i < length v" using Suc.hyps(2) by simp
  have "mset (drop i w) = mset (drop i v)"
  proof -
    have "take i w = take i v" using Suc.prems(2) len by (intro nth_equalityI) auto
    then have "mset (take i w) + mset (drop i w) = mset (take i w) + mset (drop i v)"
      using Suc.prems(1) by (metis append_take_drop_id mset_append)
    then show ?thesis by simp
  qed
  then have "w ! i \<in> set (drop i v)"
    using i len by (metis Cons_nth_drop_Suc list.set_intros(1) mset_eq_setD)
  then obtain j where j: "i \<le> j" "j < length v" "v ! j = w ! i"
    by (auto simp: in_set_conv_nth) (metis le_add1 less_diff_conv add.commute)
  let ?v = "Swap i j v"
  have m: "m = length v - Suc i" using Suc.hyps(2) by linarith
  have "w ! k = ?v ! k" if "k < Suc i" for k
    using that i j Suc.prems(2) [of k] by (auto simp: swap_nth less_Suc_eq)
  then obtain f where f: "forward f (Suc i) (length v)" "shuffle_loop f [Suc i..<length v] ?v = Some w"
    using Suc.hyps(1) [of ?v "Suc i"] m Suc.prems(1) mset_swap_eq [OF i j(2)] by auto
  let ?f = "f(i := j)"
  have fw: "forward ?f i (length v)" using f(1) j by (auto simp: forward_def Suc_le_eq)
  have "shuffle_loop ?f [Suc i..<length v] ?v = Some w"
    using f(2) shuffle_loop_cong [of "[Suc i..<length v]" ?f f ?v] by simp
  then have "shuffle_loop ?f [i..<length v] v = Some w"
    using shuffle_loop_step [OF i fw] by simp
  then show ?case using fw by blast
qed

section \<open>The properties\<close>

lemma new_Solution_eq: "new_Solution = [0..<55]"
proof -
  have "fold (\<lambda>i v. v[i := i]) [1..<n] (replicate 55 0) = [0..<n] @ replicate (55 - n) 0"
    if "1 \<le> n" "n \<le> 55" for n :: nat
    using that
  proof (induction n rule: dec_induct)
    case base
    then show ?case by (simp add: replicate_Suc [symmetric] numeral_eq_Suc)
  next
    case (step n)
    then have "replicate (55 - n) (0::nat) = 0 # replicate (55 - Suc n) 0"
      by (simp add: Suc_diff_Suc flip: replicate_Suc)
    then show ?case using step by (simp add: list_update_append)
  qed
  from this [of 55] show ?thesis by (simp add: new_Solution_def BUFFSIZE_def)
qed

text \<open>The vectors that \<open>m_v\<close> can be: 0, and the numbers from 1 to 54 in any order.\<close>

definition orders :: "nat list set" where
  "orders = {v. mset v = mset [0..<55] \<and> v ! 0 = 0}"

lemma orders_length: "v \<in> orders \<Longrightarrow> length v = 55"
  unfolding orders_def by (metis (mono_tags) mem_Collect_eq length_upt size_mset diff_zero)

lemma orders_distinct: "v \<in> orders \<Longrightarrow> distinct v"
  unfolding orders_def using mset_eq_imp_distinct_iff by fastforce

definition draws :: "nat \<Rightarrow> nat set" where
  "draws i = {..<BUFFSIZE - i + 1}"

lemma forward_draws: "forward (\<lambda>i. i + rand i mod (BUFFSIZE - i + 1)) 1 55"
proof -
  have "k + rand k mod (BUFFSIZE - k + 1) < 55" if "k < 55" for k
  proof -
    have "rand k mod (BUFFSIZE - k + 1) < BUFFSIZE - k + 1" by (rule mod_less_divisor) simp
    moreover have "k + (BUFFSIZE - k + 1) = 55" using that by (simp add: BUFFSIZE_def)
    ultimately show ?thesis by linarith
  qed
  then show ?thesis by (simp add: forward_def)
qed

lemma shuffle_pro_orders:
  assumes "v \<in> orders"
  shows "\<exists>w \<in> orders. shuffle_pro rand v = Some w"
  using shuffle_loop_forward [of "\<lambda>i. i + rand i mod (BUFFSIZE - i + 1)" 1 v] shuffle_loop_keeps [of _ "[1..<length v]" v]
    forward_draws [of rand] orders_length [OF assms] assms
  unfolding shuffle_pro_def orders_def by auto

lemma count_legal_ok:
  "\<forall>x \<in> set xs. x < length l \<Longrightarrow>
   \<exists>l'. count_legal xs l = Some l' \<and> length l' = length l \<and> (\<forall>i < length l. l' ! i \<noteq> 0 \<longleftrightarrow> l ! i \<noteq> 0 \<or> i \<in> set xs)"
proof (induction xs arbitrary: l)
  case (Cons x xs)
  then show ?case using Cons.IH [of "l[x := l ! x + 1]"] by (auto simp: nth_list_update)
qed simp

lemma orders_set:
  assumes "v \<in> orders"
  shows "set (drop 1 v) = {1..<55}"
proof -
  have v: "set v = {0..<55}"
    using assms mset_eq_setD [of v "[0..<55]"] unfolding orders_def mem_Collect_eq set_upt by blast
  obtain xs where xs: "v = 0 # xs"
    using assms orders_length [OF assms] unfolding orders_def by (cases v) simp_all
  have "0 \<notin> set xs" using orders_distinct [OF assms] unfolding xs by simp
  moreover have "Set.insert 0 (set xs) = {0..<55}" using v unfolding xs by (simp only: list.set)
  moreover have "{1..<55} = {0..<55} - {0::nat}" by fastforce
  ultimately have "set xs = {1..<55}" by blast
  then show ?thesis unfolding xs by simp
qed

lemma isLegal_orders:
  assumes "v \<in> orders"
  shows "isLegal v = Some True"
proof -
  have set: "set (drop 1 v) = {1..<55}" using orders_set [OF assms] .
  then obtain l where l: "count_legal (drop 1 v) (replicate 55 0) = Some l" "length l = 55"
      "\<forall>i < 55. l ! i \<noteq> 0 \<longleftrightarrow> replicate 55 0 ! i \<noteq> (0::nat) \<or> i \<in> set (drop 1 v)"
    using count_legal_ok [of "drop 1 v" "replicate 55 0"] by auto
  have "l ! i \<noteq> 0" if "1 \<le> i" "i < 55" for i using l(3) that set by auto
  then show ?thesis using l(1) orders_length [OF assms] by (simp add: isLegal_def list_all_iff)
qed

text \<open>
  C20. \<open>shuffle_pro\<close> never leaves the vector, keeps it a rearrangement of the numbers from 1 to 54, which
  \<open>isLegal\<close> accepts, and is fair: from any order, each order is the result of exactly one sequence of
  remainders of the random numbers.
\<close>

theorem shuffle_pro_fair:
  assumes "v \<in> orders"
  shows "bij_betw (\<lambda>r. shuffle_pro r v) (PiE {1..<55} draws) (Some ` orders)
    \<and> (\<exists>w. shuffle_pro rand v = Some w \<and> isLegal w = Some True)"
proof
  note len = orders_length [OF assms]
  let ?f = "\<lambda>r i. i + r i mod (BUFFSIZE - i + 1)"
  show "bij_betw (\<lambda>r. shuffle_pro r v) (PiE {1..<55} draws) (Some ` orders)"
    unfolding bij_betw_def
  proof
    show "inj_on (\<lambda>r. shuffle_pro r v) (PiE {1..<55} draws)"
    proof (rule inj_onI)
      fix r s
      assume r: "r \<in> PiE {1..<55} draws" and s: "s \<in> PiE {1..<55} draws" and "shuffle_pro r v = shuffle_pro s v"
      then have "?f r k = ?f s k" if "k \<in> {1..<55}" for k
        using shuffle_loop_inj [of "?f r" 1 v "?f s" k] forward_draws [of r] forward_draws [of s] len
          orders_distinct [OF assms] that by (simp add: shuffle_pro_def)
      moreover have "r k < BUFFSIZE - k + 1" "s k < BUFFSIZE - k + 1" if "k \<in> {1..<55}" for k
        using PiE_mem [OF r that] PiE_mem [OF s that] by (simp_all add: draws_def)
      ultimately show "r = s" by (intro PiE_ext [OF r s]) simp
    qed
    show "(\<lambda>r. shuffle_pro r v) ` PiE {1..<55} draws = Some ` orders"
    proof
      show "(\<lambda>r. shuffle_pro r v) ` PiE {1..<55} draws \<subseteq> Some ` orders"
        using shuffle_pro_orders [OF assms] by force
      show "Some ` orders \<subseteq> (\<lambda>r. shuffle_pro r v) ` PiE {1..<55} draws"
      proof
        fix x
        assume "x \<in> Some ` orders"
        then obtain w where w: "x = Some w" "w \<in> orders" by blast
        then obtain f where f: "forward f 1 55" "shuffle_loop f [1..<55] v = Some w"
          using shuffle_loop_onto [of w v 1] assms len by (auto simp: orders_def)
        define r where "r = restrict (\<lambda>i. f i - i) {1..<55}"
        have bound: "k \<le> f k" "f k < 55" if "k \<in> {1..<55}" for k using f(1) that by (auto simp: forward_def)
        have "r \<in> PiE {1..<55} draws"
          using bound unfolding r_def draws_def BUFFSIZE_def by (intro PiE_I) (auto simp: less_diff_conv2)
        moreover have "?f r k = f k" if "k \<in> {1..<55}" for k
          using bound [OF that] that by (simp add: r_def BUFFSIZE_def)
        then have "shuffle_loop (?f r) [1..<55] v = shuffle_loop f [1..<55] v" by (intro shuffle_loop_cong) auto
        then have "shuffle_pro r v = Some w" using f(2) len by (simp add: shuffle_pro_def)
        ultimately show "x \<in> (\<lambda>r. shuffle_pro r v) ` PiE {1..<55} draws" using w(1) by force
      qed
    qed
  qed
  show "\<exists>w. shuffle_pro rand v = Some w \<and> isLegal w = Some True"
    using shuffle_pro_orders [OF assms, of rand] isLegal_orders by blast
qed

theorem shuffle_pro_fair_witness:
  "bij_betw (\<lambda>r. shuffle_pro r new_Solution) (PiE {1..<55} draws) (Some ` orders)"
proof -
  have "new_Solution \<in> orders" by (simp add: orders_def new_Solution_eq)
  then show ?thesis using shuffle_pro_fair by blast
qed

text \<open>
  The first \<open>shuffle\<close> divides by \<open>(RAND_MAX + 1u) / BUFFSIZE\<close>, rounded down, so the largest random numbers
  give the index 55: with the \<open>RAND_MAX\<close> of the GNU library the last 38 of them leave the vector.
\<close>

lemma shuffle_simple_leaves:
  "shuffle_simple 2147483647 (\<lambda>i. 2147483610) new_Solution = None"
  "\<exists>w. shuffle_simple 2147483647 (\<lambda>i. 2147483609) new_Solution = Some w"
  by (simp_all add: shuffle_simple_def new_Solution_eq try_swap_def upt_conv_Cons BUFFSIZE_def)

end
