(* ===== verification/Binary_Tree.thy ===== *)
theory Binary_Tree
  imports "HOL-Library.Tree" "HOL-Library.Word"
begin

text \<open>
  The class \<open>BinaryTree\<close> of \<open>DataStruct/BTree/BinaryTree.hpp\<close>: the level order, the sizes and depths, the
  searches and the common ancestor of two nodes.  The labels of a tree are its nodes, so a pointer to a
  node is its label, or the subtree where the code goes on from it, and the labels of one tree are
  different.  What the nodes hold is an argument where the code looks at it.
\<close>

section \<open>Definitions from the code\<close>

subsection \<open>Level by level\<close>

text \<open>The children of a node that are pushed into the queue.\<close>

fun kids :: "'n tree \<Rightarrow> 'n tree list" where
  "kids Leaf = []"
| "kids (Node l x r) = (if l \<noteq> Leaf then [l] else []) @ (if r \<noteq> Leaf then [r] else [])"

definition queue_work :: "'n tree list \<Rightarrow> nat" where
  "queue_work q = sum_list (map (\<lambda>t. 2 * size t + 1) q)"

lemma queue_work_simps [simp]:
  "queue_work [] = 0" "queue_work (t # q) = 2 * size t + 1 + queue_work q"
  "queue_work (q @ q') = queue_work q + queue_work q'"
  by (simp_all add: queue_work_def)

lemma queue_work_kids: "queue_work (kids t) < 2 * size t + 1"
  by (cases t) auto

text \<open>The list is the nodes that are written; \<open>front\<close> is popped after its children have been pushed.\<close>

function level_queue :: "'n tree list \<Rightarrow> 'n list" where
  "level_queue [] = []"
| "level_queue (front # q) = (if front = Leaf then [] else [value front]) @ level_queue (q @ kids front)"
  by pat_completeness auto
termination
proof (relation "measure queue_work")
  fix front :: "'n tree" and q
  show "(q @ kids front, front # q) \<in> measure queue_work" using queue_work_kids [of front] by simp
qed simp

definition LevelOder :: "'n tree \<Rightarrow> 'n list" where
  "LevelOder root = level_queue (if root \<noteq> Leaf then [root] else [])"

text \<open>\<open>noRDepth\<close>: the inner loop \<open>while (len--)\<close>, then the outer one.\<close>

fun one_level :: "nat \<Rightarrow> 'n tree list \<Rightarrow> 'n tree list" where
  "one_level (Suc len) (t # q) = one_level len (q @ kids t)"
| "one_level _ q = q"

lemma one_level_kids: "one_level (length q) (q @ q') = q' @ concat (map kids q)"
  by (induction q arbitrary: q') simp_all

lemma one_level_all: "one_level (length q) q = concat (map kids q)"
  using one_level_kids [of q "[]"] by simp

lemma queue_work_level: "q \<noteq> [] \<Longrightarrow> queue_work (concat (map kids q)) < queue_work q"
proof (induction q rule: list_nonempty_induct)
  case (single t)
  then show ?case using queue_work_kids [of t] by simp
next
  case (cons t q)
  then show ?case using queue_work_kids [of t] by simp
qed

function depth_queue :: "'n tree list \<Rightarrow> nat \<Rightarrow> nat" where
  "depth_queue q depth = (if q = [] then depth else depth_queue (one_level (length q) q) (depth + 1))"
  by pat_completeness auto
termination
  by (relation "measure (\<lambda>(q, depth). queue_work q)") (simp_all add: one_level_all queue_work_level)

declare depth_queue.simps [simp del]

definition noRDepth :: "'n tree \<Rightarrow> nat" where
  "noRDepth r = (if r = Leaf then 0 else depth_queue [r] 0)"

subsection \<open>Sizes and depths\<close>

fun Size :: "'n tree \<Rightarrow> nat" where
  "Size Leaf = 0"
| "Size (Node l x r) = Size l + Size r + 1"

fun LeafSize :: "'n tree \<Rightarrow> nat" where
  "LeafSize Leaf = 0"
| "LeafSize (Node l x r) = (if l = Leaf \<and> r = Leaf then 1 else LeafSize l + LeafSize r)"

text \<open>The level is a \<open>size_t\<close>, so \<open>K - 1\<close> wraps around at 0.\<close>

fun GetKLevelSize :: "'n tree \<Rightarrow> 64 word \<Rightarrow> nat" where
  "GetKLevelSize Leaf K = 0"
| "GetKLevelSize (Node l x r) K = (if K = 1 then 1 else GetKLevelSize l (K - 1) + GetKLevelSize r (K - 1))"

fun Depth :: "'n tree \<Rightarrow> nat" where
  "Depth Leaf = 0"
| "Depth (Node l x r) =
     (if l = Leaf \<and> r = Leaf then 1 else if Depth l > Depth r then Depth l + 1 else Depth r + 1)"

text \<open>
  The helper \<open>_GetMaxLen\<close>, and \<open>_GetMaxLen2\<close> with its result and its reference parameter.  The public \<open>GetMaxLen\<close>,
  which starts the helper at -1, is declared \<open>void\<close> and returns a value: a call of it does not compile, and it is
  not modelled.
\<close>

fun GetMaxLen :: "'n tree \<Rightarrow> int \<Rightarrow> int" where
  "GetMaxLen Leaf maxlen = maxlen"
| "GetMaxLen (Node l x r) maxlen =
     (let leftDepth = int (Depth l); rightDepth = int (Depth r);
          maxlen = (if maxlen > leftDepth + rightDepth then maxlen else leftDepth + rightDepth)
      in GetMaxLen r (GetMaxLen l maxlen))"

fun GetMaxLen2 :: "'n tree \<Rightarrow> int \<Rightarrow> int \<times> int" where
  "GetMaxLen2 Leaf maxlen = (0, maxlen)"
| "GetMaxLen2 (Node l x r) maxlen =
     (let (left_depth, maxlen) = GetMaxLen2 l maxlen; (right_depth, maxlen) = GetMaxLen2 r maxlen
      in (if left_depth > right_depth then left_depth + 1 else right_depth + 1,
          if maxlen > left_depth + right_depth then maxlen else left_depth + right_depth))"

subsection \<open>Searches\<close>

text \<open>Both versions of \<open>_Find\<close>, by the data of a node and by its address.\<close>

fun find_data :: "('n \<Rightarrow> 'a) \<Rightarrow> 'n tree \<Rightarrow> 'a \<Rightarrow> 'n tree" where
  "find_data data Leaf d = Leaf"
| "find_data data (Node l x r) d =
     (if d = data x then Node l x r
      else if find_data data l d \<noteq> Leaf then find_data data l d else find_data data r d)"

fun find_ptr :: "'n tree \<Rightarrow> 'n \<Rightarrow> 'n tree" where
  "find_ptr Leaf p = Leaf"
| "find_ptr (Node l x r) p =
     (if x = p then Node l x r else if find_ptr l p \<noteq> Leaf then find_ptr l p else find_ptr r p)"

text \<open>
  \<open>_FindCommFather\<close>, with \<open>the_root\<close> for the member \<open>_root\<close> that its second test compares with.
\<close>

fun comm_father :: "'n \<Rightarrow> 'n tree \<Rightarrow> 'n \<Rightarrow> 'n \<Rightarrow> 'n option" where
  "comm_father the_root Leaf x1 x2 = None"
| "comm_father the_root (Node l x r) x1 x2 =
     (if x1 = x \<or> x2 = x then Some (if x1 = the_root then x1 else x2)
      else
        let x1_inleft = find_ptr l x1 \<noteq> Leaf; x1_inright = \<not> x1_inleft \<and> find_ptr r x1 \<noteq> Leaf;
            x2_inleft = find_ptr l x2 \<noteq> Leaf; x2_inright = \<not> x2_inleft \<and> find_ptr r x2 \<noteq> Leaf in
        if \<not> x1_inleft \<and> \<not> x1_inright then None
        else if \<not> x2_inleft \<and> \<not> x2_inright then None
        else if x1_inleft \<and> x2_inright \<or> x1_inright \<and> x2_inleft then Some x
        else if x1_inleft \<and> x2_inleft then comm_father the_root l x1 x2
        else if x1_inright \<and> x2_inright then comm_father the_root r x1 x2
        else None)"

definition FindCommFather :: "'n tree \<Rightarrow> 'n \<Rightarrow> 'n \<Rightarrow> 'n option" where
  "FindCommFather root x1 x2 = (if root = Leaf then None else comm_father (value root) root x1 x2)"

text \<open>\<open>_GetPath\<close> with its result and the stack, whose top is the head of the list.\<close>

fun GetPath :: "'n tree \<Rightarrow> 'n \<Rightarrow> 'n list \<Rightarrow> bool \<times> 'n list" where
  "GetPath Leaf p s = (False, s)"
| "GetPath (Node l x r) p s =
     (let s = x # s in
      if hd s = p then (True, s)
      else
        let (found, s) = (if l \<noteq> Leaf then GetPath l p s else (False, s)) in
        if found then (True, s)
        else
          let (found, s) = (if r \<noteq> Leaf then GetPath r p s else (False, s)) in
          if found then (True, s) else (False, tl s))"

text \<open>The two loops of \<open>FindCommFather2\<close>.\<close>

function equalize :: "'n list \<Rightarrow> 'n list \<Rightarrow> 'n list \<times> 'n list" where
  "equalize s1 s2 =
     (if length s1 = length s2 then (s1, s2)
      else if length s1 > length s2 then equalize (tl s1) s2 else equalize s1 (tl s2))"
  by pat_completeness auto
termination by (relation "measure (\<lambda>(s1, s2). length s1 + length s2)") auto

declare equalize.simps [simp del]

fun first_common :: "'n list \<Rightarrow> 'n list \<Rightarrow> 'n option" where
  "first_common (a # s1) (b # s2) = (if a = b then Some a else first_common s1 s2)"
| "first_common _ _ = None"

definition FindCommFather2 :: "'n tree \<Rightarrow> 'n \<Rightarrow> 'n \<Rightarrow> 'n option" where
  "FindCommFather2 root x1 x2 =
     (case equalize (snd (GetPath root x1 [])) (snd (GetPath root x2 [])) of (s1, s2) \<Rightarrow> first_common s1 s2)"

section \<open>Level by level\<close>

text \<open>The nodes at a depth, from left to right.\<close>

fun depth_level :: "nat \<Rightarrow> 'n tree \<Rightarrow> 'n list" where
  "depth_level k Leaf = []"
| "depth_level 0 (Node l x r) = [x]"
| "depth_level (Suc k) (Node l x r) = depth_level k l @ depth_level k r"

lemma level_0: "depth_level 0 t = (if t = Leaf then [] else [value t])"
  by (cases t) auto

lemma level_Suc: "depth_level (Suc k) t = concat (map (depth_level k) (kids t))"
  by (cases t) auto

lemma level_empty: "height t \<le> k \<Longrightarrow> depth_level k t = []"
  by (induction k t rule: depth_level.induct) auto

lemma level_queue_step:
  "level_queue (q @ q') = concat (map (depth_level 0) q) @ level_queue (q' @ concat (map kids q))"
  by (induction q arbitrary: q') (simp_all add: level_0)

lemma height_kids: "u \<in> set (kids t) \<Longrightarrow> height u < height t"
  by (cases t) (auto split: if_splits)

lemma level_queue_levels:
  "\<forall>t \<in> set q. height t \<le> n \<Longrightarrow> level_queue q = concat (map (\<lambda>k. concat (map (depth_level k) q)) [0..<n])"
proof (induction n arbitrary: q)
  case 0
  then have "\<forall>t \<in> set q. t = Leaf" by simp
  then show ?case by (induction q) auto
next
  case (Suc n)
  have "\<forall>u \<in> set (concat (map kids q)). height u \<le> n" using Suc.prems height_kids by fastforce
  then have "level_queue q = concat (map (depth_level 0) q)
      @ concat (map (\<lambda>k. concat (map (depth_level k) (concat (map kids q)))) [0..<n])"
    using level_queue_step [of q "[]"] Suc.IH by simp
  also have "(\<lambda>k. concat (map (depth_level k) (concat (map kids q)))) = (\<lambda>k. concat (map (depth_level (Suc k)) q))"
    by (rule ext, induction q) (simp_all add: level_Suc)
  finally show ?case by (simp add: map_upt_Suc del: upt_Suc)
qed

lemma LevelOder_levels: "LevelOder t = concat (map (\<lambda>k. depth_level k t) [0..<height t])"
  using level_queue_levels [of "[t]" "height t"] by (simp add: LevelOder_def del: level_queue.simps(2))

lemma depth_queue_height:
  "q \<noteq> [] \<Longrightarrow> Leaf \<notin> set q \<Longrightarrow> depth_queue q d = d + Max (height ` set q)"
proof (induction "Max (height ` set q)" arbitrary: q d rule: less_induct)
  case less
  let ?q = "concat (map kids q)"
  have step: "depth_queue q d = depth_queue ?q (d + 1)"
    using less.prems by (subst depth_queue.simps) (simp add: one_level_all)
  have no_leaf: "Leaf \<notin> set ?q"
  proof -
    have "Leaf \<notin> set (kids t)" for t :: "'a tree" by (cases t) auto
    then show ?thesis by simp
  qed
  have heights: "\<forall>u \<in> set ?q. height u < Max (height ` set q)"
  proof
    fix u
    assume "u \<in> set ?q"
    then obtain t where t: "t \<in> set q" "u \<in> set (kids t)" by auto
    then have "height t \<le> Max (height ` set q)" by simp
    then show "height u < Max (height ` set q)" using height_kids [OF t(2)] by simp
  qed
  have "Max (height ` set q) \<in> height ` set q" using less.prems(1) by (intro Max_in) simp_all
  then obtain t where t: "t \<in> set q" "height t = Max (height ` set q)" by (elim imageE) simp
  have "t \<noteq> Leaf" using t(1) less.prems(2) by blast
  then obtain l x r where n: "t = Node l x r" by (cases t) auto
  show ?case
  proof (cases "?q = []")
    case True
    then have "kids t = []" using t(1) by auto
    then have "height t = 1" using n by (auto split: if_splits)
    then show ?thesis using step True t(2) by (simp add: depth_queue.simps)
  next
    case False
    have "Max (height ` set ?q) < Max (height ` set q)" using heights False by simp
    moreover have "Max (height ` set q) \<le> Max (height ` set ?q) + 1"
    proof (cases "kids t = []")
      case True
      then have "height t = 1" using n by (auto split: if_splits)
      then show ?thesis using t(2) by simp
    next
      case nonempty: False
      then have "\<exists>u \<in> set (kids t). height t = height u + 1"
        using n by (auto simp: max_def split: if_splits)
      then obtain u where u: "u \<in> set ?q" "height t = height u + 1" using t(1) by auto
      then have "height u \<le> Max (height ` set ?q)" by (intro Max_ge) auto
      then show ?thesis using u(2) t(2) by simp
    qed
    ultimately show ?thesis using less.hyps [OF _ False no_leaf, of "d + 1"] step by simp
  qed
qed

lemma Depth_height: "Depth t = height t"
  by (induction t) auto

lemma noRDepth_height: "noRDepth t = height t"
  using depth_queue_height [of "[t]" 0] by (simp add: noRDepth_def)

lemma Size_size: "Size t = size t"
  by (induction t) auto

lemma GetKLevelSize_level:
  "GetKLevelSize t K = length (depth_level (unat (K - 1)) t)"
proof (induction t arbitrary: K)
  case (Node l x r)
  show ?case
  proof (cases "K = 1")
    case False
    then have "K - 1 \<noteq> 0" by simp
    then have "unat (K - 1) = Suc (unat (K - 1 - 1))" using unat_minus_one [of "K - 1"] unat_eq_zero [of "K - 1"] by simp
    then show ?thesis using Node False by simp
  qed simp
qed simp

lemma length_levels: "(\<Sum>k<n. length (depth_level k t)) = size t" if "height t \<le> n"
  using that
proof (induction t arbitrary: n)
  case (Node l x r)
  then obtain m where n: "n = Suc m" "height l \<le> m" "height r \<le> m" by (cases n) auto
  then show ?case using Node.IH by (simp add: sum.lessThan_Suc_shift sum.distrib del: sum.lessThan_Suc)
qed simp

section \<open>Searches and common ancestors\<close>

lemma find_ptr_Leaf [simp]: "find_ptr t p \<noteq> Leaf \<longleftrightarrow> p \<in> set_tree t" "find_ptr t p = Leaf \<longleftrightarrow> p \<notin> set_tree t"
  by (induction t) auto

lemma find_ptr_value: "p \<in> set_tree t \<Longrightarrow> value (find_ptr t p) = p"
  by (induction t) auto

lemma find_ptr_subset: "set_tree (find_ptr t p) \<subseteq> set_tree t"
  by (induction t) auto

text \<open>\<open>a\<close> is \<open>x\<close> or above it.\<close>

definition ancestor :: "'n tree \<Rightarrow> 'n \<Rightarrow> 'n \<Rightarrow> bool" where
  "ancestor t a x \<longleftrightarrow> a \<in> set_tree t \<and> x \<in> set_tree (find_ptr t a)"

text \<open>The lowest of the common ancestors, by recursion.\<close>

fun lowest :: "'n tree \<Rightarrow> 'n \<Rightarrow> 'n \<Rightarrow> 'n option" where
  "lowest Leaf x y = None"
| "lowest (Node l a r) x y =
     (if x \<in> set_tree l \<and> y \<in> set_tree l then lowest l x y
      else if x \<in> set_tree r \<and> y \<in> set_tree r then lowest r x y
      else if {x, y} \<subseteq> set_tree (Node l a r) then Some a else None)"

lemma ancestor_Node:
  "distinct (inorder (Node l b r)) \<Longrightarrow>
   ancestor (Node l b r) a x \<longleftrightarrow> a = b \<and> x \<in> set_tree (Node l b r) \<or> ancestor l a x \<or> ancestor r a x"
  by (auto simp: ancestor_def)

lemma ancestor_in: "ancestor t a x \<Longrightarrow> a \<in> set_tree t \<and> x \<in> set_tree t"
  using find_ptr_subset [of t a] by (auto simp: ancestor_def)

lemma lowest_ok:
  "distinct (inorder t) \<Longrightarrow> x \<in> set_tree t \<Longrightarrow> y \<in> set_tree t \<Longrightarrow>
   \<exists>a. lowest t x y = Some a \<and> ancestor t a x \<and> ancestor t a y
     \<and> (\<forall>b. ancestor t b x \<and> ancestor t b y \<longrightarrow> ancestor t b a)"
proof (induction t)
  case (Node l a r)
  note anc = ancestor_Node [OF Node.prems(1)]
  have d: "a \<notin> set_tree l" "a \<notin> set_tree r" "set_tree l \<inter> set_tree r = {}" using Node.prems(1) by auto
  consider "x \<in> set_tree l \<and> y \<in> set_tree l" | "x \<in> set_tree r \<and> y \<in> set_tree r"
    | "\<not> (x \<in> set_tree l \<and> y \<in> set_tree l) \<and> \<not> (x \<in> set_tree r \<and> y \<in> set_tree r)" by blast
  then show ?case
  proof cases
    case 1
    then obtain c where c: "lowest l x y = Some c" "ancestor l c x" "ancestor l c y"
        "\<forall>b. ancestor l b x \<and> ancestor l b y \<longrightarrow> ancestor l b c"
      using Node.IH(1) Node.prems(1) by auto
    moreover have "\<not> ancestor r b x" "\<not> ancestor r b y" for b
      using ancestor_in [of r b x] ancestor_in [of r b y] 1 d(3) by blast+
    ultimately show ?thesis using 1 ancestor_in [of l c x] unfolding anc by auto
  next
    case 2
    then obtain c where c: "lowest r x y = Some c" "ancestor r c x" "ancestor r c y"
        "\<forall>b. ancestor r b x \<and> ancestor r b y \<longrightarrow> ancestor r b c"
      using Node.IH(2) Node.prems(1) by auto
    moreover have "\<not> ancestor l b x" "\<not> ancestor l b y" for b
      using ancestor_in [of l b x] ancestor_in [of l b y] 2 d(3) by blast+
    moreover have "\<not> (x \<in> set_tree l \<and> y \<in> set_tree l)" using 2 d(3) by blast
    ultimately show ?thesis using 2 ancestor_in [of r c x] unfolding anc by auto
  next
    case 3
    have only: "b = a" if "ancestor (Node l a r) b x" "ancestor (Node l a r) b y" for b
    proof (rule ccontr)
      assume "b \<noteq> a"
      then have "ancestor l b x \<or> ancestor r b x" "ancestor l b y \<or> ancestor r b y" using that anc by auto
      then show False using 3 d(3) ancestor_in [of l b x] ancestor_in [of r b x] ancestor_in [of l b y]
          ancestor_in [of r b y] by blast
    qed
    have low: "lowest (Node l a r) x y = Some a" using 3 Node.prems(2,3) by (simp only: lowest.simps) simp
    have self: "ancestor (Node l a r) a x" "ancestor (Node l a r) a y" "ancestor (Node l a r) a a"
      using Node.prems(2,3) by (simp_all add: anc)
    have "ancestor (Node l a r) b a" if "ancestor (Node l a r) b x \<and> ancestor (Node l a r) b y" for b
      using only [of b] that self(3) by blast
    then show ?thesis using low self(1,2) by blast
  qed
qed simp

text \<open>The nodes from the root to a node.\<close>

fun path :: "'n tree \<Rightarrow> 'n \<Rightarrow> 'n list" where
  "path Leaf p = []"
| "path (Node l x r) p =
     x # (if x = p then [] else if p \<in> set_tree l then path l p else path r p)"

lemma path_in: "p \<in> set_tree t \<Longrightarrow> set (path t p) \<subseteq> set_tree t"
  by (induction t) auto

lemma path_not_Nil: "p \<in> set_tree t \<Longrightarrow> path t p \<noteq> []"
  by (cases t) auto

lemma GetPath_path:
  "GetPath t p s = (if p \<in> set_tree t then (True, rev (path t p) @ s) else (False, s))"
  by (induction t arbitrary: s) (auto simp: Let_def)

lemma tl_rev: "tl (rev xs) = rev (butlast xs)"
  by (metis butlast_rev rev_rev_ident)

lemma equalize_rev:
  "equalize (rev p) (rev q) = (rev (take (length q) p), rev (take (length p) q))"
proof (induction "length p + length q" arbitrary: p q rule: less_induct)
  case less
  show ?case
  proof (cases "length p = length q")
    case False
    then consider "length p > length q" | "length q > length p" by linarith
    then show ?thesis
    proof cases
      case 1
      then have "p \<noteq> []" by auto
      then have "tl (rev p) = rev (butlast p)" "length q \<le> length (butlast p)" using 1
        by (simp_all add: tl_rev)
      then show ?thesis using 1 less [of "butlast p" q] \<open>p \<noteq> []\<close>
        by (subst equalize.simps) (simp add: take_butlast)
    next
      case 2
      then have "q \<noteq> []" by auto
      then have "tl (rev q) = rev (butlast q)" "length p \<le> length (butlast q)" using 2
        by (simp_all add: tl_rev)
      then show ?thesis using 2 less [of p "butlast q"] \<open>q \<noteq> []\<close>
        by (subst equalize.simps) (simp add: take_butlast)
    qed
  qed (simp add: equalize.simps)
qed

lemma first_common_snoc:
  "length s = length s' \<Longrightarrow> first_common (s @ [a]) (s' @ [b]) =
     (case first_common s s' of Some c \<Rightarrow> Some c | None \<Rightarrow> if a = b then Some a else None)"
  by (induction s s' rule: list_induct2) auto

lemma first_common_disjoint: "set s \<inter> set s' = {} \<Longrightarrow> first_common s s' = None"
  by (induction s s' rule: first_common.induct) auto

lemma first_common_lowest:
  "distinct (inorder t) \<Longrightarrow> x \<in> set_tree t \<Longrightarrow> y \<in> set_tree t \<Longrightarrow>
   first_common (rev (take (length (path t y)) (path t x))) (rev (take (length (path t x)) (path t y))) = lowest t x y"
proof (induction t)
  case (Node l a r)
  have d: "a \<notin> set_tree l" "a \<notin> set_tree r" "set_tree l \<inter> set_tree r = {}" using Node.prems(1) by auto
  define p where "p = (\<lambda>z. if a = z then [] else if z \<in> set_tree l then path l z else path r z)"
  have path: "path (Node l a r) z = a # p z" for z by (simp add: p_def)
  have eq: "first_common (rev (take (length (path (Node l a r) y)) (path (Node l a r) x)))
      (rev (take (length (path (Node l a r) x)) (path (Node l a r) y)))
    = (case first_common (rev (take (length (p y)) (p x))) (rev (take (length (p x)) (p y))) of
         Some c \<Rightarrow> Some c | None \<Rightarrow> Some a)"
    unfolding path by (simp add: first_common_snoc)
  consider "x \<in> set_tree l \<and> y \<in> set_tree l" | "x \<in> set_tree r \<and> y \<in> set_tree r"
    | "\<not> (x \<in> set_tree l \<and> y \<in> set_tree l) \<and> \<not> (x \<in> set_tree r \<and> y \<in> set_tree r)" by blast
  then show ?case
  proof cases
    case 1
    then have "p x = path l x" "p y = path l y" using d(1) by (auto simp: p_def)
    then show ?thesis using eq 1 Node.IH(1) Node.prems(1) lowest_ok [of l x y] by auto
  next
    case 2
    then have "p x = path r x" "p y = path r y" "x \<notin> set_tree l" using d(2,3) by (auto simp: p_def)
    then show ?thesis using eq 2 Node.IH(2) Node.prems(1) lowest_ok [of r x y] by auto
  next
    case 3
    have "set (p x) \<inter> set (p y) = {}"
    proof (cases "x = a \<or> y = a")
      case True
      then show ?thesis by (auto simp: p_def)
    next
      case False
      then consider "x \<in> set_tree l" "y \<in> set_tree r" | "x \<in> set_tree r" "y \<in> set_tree l"
        using 3 Node.prems(2,3) by auto
      then show ?thesis
      proof cases
        case 1
        then have p: "p x = path l x" "p y = path r y" using d False by (auto simp: p_def)
        show ?thesis unfolding p using path_in [OF 1(1)] path_in [OF 1(2)] d(3) by blast
      next
        case 2
        then have p: "p x = path r x" "p y = path l y" using d False by (auto simp: p_def)
        show ?thesis unfolding p using path_in [OF 2(1)] path_in [OF 2(2)] d(3) by blast
      qed
    qed
    then have "set (take (length (p y)) (p x)) \<inter> set (take (length (p x)) (p y)) = {}"
      using set_take_subset [of _ "p x"] set_take_subset [of _ "p y"] by blast
    moreover have "lowest (Node l a r) x y = Some a" using 3 Node.prems(2,3) by (simp only: lowest.simps) simp
    ultimately show ?thesis unfolding eq by (simp add: first_common_disjoint)
  qed
qed simp

lemma FindCommFather2_lowest:
  "distinct (inorder t) \<Longrightarrow> x \<in> set_tree t \<Longrightarrow> y \<in> set_tree t \<Longrightarrow> FindCommFather2 t x y = lowest t x y"
  by (simp add: FindCommFather2_def GetPath_path equalize_rev first_common_lowest)

lemma comm_father_lowest:
  "distinct (inorder t) \<Longrightarrow> x \<in> set_tree t \<Longrightarrow> y \<in> set_tree t \<Longrightarrow> tp \<in> set_tree t \<longrightarrow> tp = value t \<Longrightarrow>
   comm_father tp t x y = (if ancestor t x y \<and> x \<noteq> tp \<and> x \<noteq> y then Some y else lowest t x y)"
proof (induction t)
  case (Node l a r)
  note anc = ancestor_Node [OF Node.prems(1)]
  have d: "a \<notin> set_tree l" "a \<notin> set_tree r" "set_tree l \<inter> set_tree r = {}" using Node.prems(1) by auto
  have tp: "tp \<notin> set_tree l" "tp \<notin> set_tree r" using Node.prems(4) d by auto
  consider "x = a" | "y = a" "x \<noteq> a" | "x \<in> set_tree l \<and> y \<in> set_tree l" | "x \<in> set_tree r \<and> y \<in> set_tree r"
    | "x \<in> set_tree l \<and> y \<in> set_tree r \<or> x \<in> set_tree r \<and> y \<in> set_tree l"
    using Node.prems(2,3) by auto
  then show ?case
  proof cases
    case 1
    then show ?thesis using Node.prems(3) d by (auto simp: anc)
  next
    case 2
    then have "\<not> ancestor l x y" "\<not> ancestor r x y" using d ancestor_in [of l x y] ancestor_in [of r x y] by auto
    then show ?thesis using 2 Node.prems(2) d tp by (auto simp: anc)
  next
    case 3
    then have "\<not> ancestor r x y" using d ancestor_in [of r x y] by auto
    then show ?thesis using 3 d Node.IH(1) Node.prems(1) tp by (auto simp: anc)
  next
    case 4
    then have "\<not> ancestor l x y" using d ancestor_in [of l x y] by auto
    moreover have "x \<notin> set_tree l" "y \<notin> set_tree l" using 4 d(3) by auto
    ultimately show ?thesis using 4 d Node.IH(2) Node.prems(1) tp by (auto simp: anc)
  next
    case 5
    then have "\<not> ancestor l x y" "\<not> ancestor r x y" using d ancestor_in [of l x y] ancestor_in [of r x y] by auto
    then show ?thesis using 5 d by (auto simp: anc)
  qed
qed simp

section \<open>The longest path\<close>

text \<open>The number of edges from the root to a node, and between two nodes.\<close>

definition depth_of :: "'n tree \<Rightarrow> 'n \<Rightarrow> nat" where
  "depth_of t x = length (path t x) - 1"

fun distance :: "'n tree \<Rightarrow> 'n \<Rightarrow> 'n \<Rightarrow> nat" where
  "distance Leaf x y = 0"
| "distance (Node l a r) x y =
     (if x \<in> set_tree l \<and> y \<in> set_tree l then distance l x y
      else if x \<in> set_tree r \<and> y \<in> set_tree r then distance r x y
      else depth_of (Node l a r) x + depth_of (Node l a r) y)"

lemma depth_of_Node:
  "distinct (inorder (Node l a r)) \<Longrightarrow> depth_of (Node l a r) x =
     (if x = a then 0 else if x \<in> set_tree l then Suc (depth_of l x)
      else if x \<in> set_tree r then Suc (depth_of r x) else length (path r x))"
  using path_not_Nil [of x l] path_not_Nil [of x r] by (auto simp: depth_of_def)

lemma depth_of_root [simp]: "depth_of (Node l a r) a = 0"
  by (simp add: depth_of_def)

lemma depth_of_less: "distinct (inorder t) \<Longrightarrow> x \<in> set_tree t \<Longrightarrow> depth_of t x < height t"
proof (induction t)
  case (Node l a r)
  then show ?case by (subst depth_of_Node) (auto simp: less_max_iff_disj)
qed simp

lemma deepest: "distinct (inorder t) \<Longrightarrow> t \<noteq> Leaf \<Longrightarrow> \<exists>x \<in> set_tree t. Suc (depth_of t x) = height t"
proof (induction t)
  case (Node l a r)
  have d: "a \<notin> set_tree l" "a \<notin> set_tree r" "set_tree l \<inter> set_tree r = {}" using Node.prems(1) by auto
  consider "l = Leaf" "r = Leaf" | "l \<noteq> Leaf" "height r \<le> height l" | "r \<noteq> Leaf" "height l \<le> height r"
    by (cases l; cases r) (auto, linarith)
  then show ?case
  proof cases
    case 1
    then show ?thesis by (simp add: depth_of_def)
  next
    case 2
    then obtain x where x: "x \<in> set_tree l" "Suc (depth_of l x) = height l" using Node by auto
    then have "x \<noteq> a" using d by auto
    then show ?thesis using x 2 depth_of_Node [OF Node.prems(1), of x] by (intro bexI [of _ x]) auto
  next
    case 3
    then obtain x where x: "x \<in> set_tree r" "Suc (depth_of r x) = height r" using Node by auto
    then have "x \<noteq> a" "x \<notin> set_tree l" using d by auto
    then show ?thesis using x 3 depth_of_Node [OF Node.prems(1), of x] by (intro bexI [of _ x]) auto
  qed
qed simp

text \<open>The most that the depths on both sides of a node add up to.\<close>

fun span :: "'n tree \<Rightarrow> nat" where
  "span Leaf = 0"
| "span (Node l x r) = max (height l + height r) (max (span l) (span r))"

lemma GetMaxLen2_span: "GetMaxLen2 t m = (int (height t), if t = Leaf then m else max m (int (span t)))"
  by (induction t arbitrary: m) (auto simp: Let_def max_def split: prod.splits)

lemma GetMaxLen_span: "GetMaxLen t m = (if t = Leaf then m else max m (int (span t)))"
  by (induction t arbitrary: m) (auto simp: Let_def max_def Depth_height)

lemma depth_of_side:
  assumes "distinct (inorder (Node l a r))" "x \<in> set_tree l \<Longrightarrow> height l \<le> n" "x \<in> set_tree r \<Longrightarrow> height r \<le> n"
    and "x \<in> set_tree (Node l a r)"
  shows "depth_of (Node l a r) x \<le> n"
proof -
  consider "x = a" | "x \<noteq> a" "x \<in> set_tree l" | "x \<noteq> a" "x \<notin> set_tree l" "x \<in> set_tree r" using assms(4) by auto
  then show ?thesis
  proof cases
    case 2
    then have "Suc (depth_of l x) \<le> height l" using depth_of_less [of l x] assms(1) by simp
    then show ?thesis using 2 assms(2) depth_of_Node [OF assms(1), of x] by simp
  next
    case 3
    then have "Suc (depth_of r x) \<le> height r" using depth_of_less [of r x] assms(1) by simp
    then show ?thesis using 3 assms(3) depth_of_Node [OF assms(1), of x] by simp
  qed (simp add: depth_of_def)
qed

lemma distance_span:
  "distinct (inorder t) \<Longrightarrow> x \<in> set_tree t \<Longrightarrow> y \<in> set_tree t \<Longrightarrow> distance t x y \<le> span t"
proof (induction t)
  case (Node l a r)
  have d: "set_tree l \<inter> set_tree r = {}" "distinct (inorder l)" "distinct (inorder r)" using Node.prems(1) by auto
  consider "x \<in> set_tree l \<and> y \<in> set_tree l" | "\<not> (x \<in> set_tree l \<and> y \<in> set_tree l)" "x \<in> set_tree r \<and> y \<in> set_tree r"
    | "\<not> (x \<in> set_tree l \<and> y \<in> set_tree l)" "\<not> (x \<in> set_tree r \<and> y \<in> set_tree r)" by blast
  then show ?case
  proof cases
    case 1
    then have "distance l x y \<le> span l" using Node.IH(1) d(2) by blast
    then show ?thesis using 1 by simp
  next
    case 2
    then have "distance r x y \<le> span r" using Node.IH(2) d(3) by blast
    moreover have "distance (Node l a r) x y = distance r x y" using 2 by auto
    ultimately show ?thesis by simp
  next
    case 3
    define hx where "hx = (if x \<in> set_tree l then height l else if x \<in> set_tree r then height r else 0)"
    define hy where "hy = (if y \<in> set_tree l then height l else if y \<in> set_tree r then height r else 0)"
    have "depth_of (Node l a r) x \<le> hx" "depth_of (Node l a r) y \<le> hy"
      using d(1) Node.prems by (auto intro!: depth_of_side simp: hx_def hy_def)
    moreover have "hx + hy \<le> height l + height r" using 3 by (auto simp: hx_def hy_def)
    ultimately show ?thesis using 3 by (auto simp add: le_max_iff_disj)
  qed
qed simp

lemma span_reached:
  "distinct (inorder t) \<Longrightarrow> t \<noteq> Leaf \<Longrightarrow> \<exists>x \<in> set_tree t. \<exists>y \<in> set_tree t. distance t x y = span t"
proof (induction t)
  case (Node l a r)
  have d: "a \<notin> set_tree l" "a \<notin> set_tree r" "set_tree l \<inter> set_tree r = {}" "distinct (inorder l)" "distinct (inorder r)"
    using Node.prems(1) by auto
  let ?t = "Node l a r"
  have "span ?t = height l + height r \<or> l \<noteq> Leaf \<and> span ?t = span l \<or> r \<noteq> Leaf \<and> span ?t = span r"
    by (cases "l = Leaf"; cases "r = Leaf") (auto simp: max_def)
  then consider "span ?t = height l + height r" | "l \<noteq> Leaf" "span ?t = span l" | "r \<noteq> Leaf" "span ?t = span r"
    by blast
  then show ?case
  proof cases
    case 1
    have "\<exists>x \<in> insert a (set_tree l). depth_of ?t x = height l"
    proof (cases "l = Leaf")
      case True
      then show ?thesis by (simp add: depth_of_def)
    next
      case False
      then obtain x where x: "x \<in> set_tree l" "Suc (depth_of l x) = height l" using deepest d(4) by blast
      then have "depth_of ?t x = height l" using d(1) depth_of_Node [OF Node.prems(1), of x] by auto
      then show ?thesis using x(1) by blast
    qed
    moreover have "\<exists>y \<in> insert a (set_tree r). depth_of ?t y = height r"
    proof (cases "r = Leaf")
      case True
      then show ?thesis by (simp add: depth_of_def)
    next
      case False
      then obtain y where y: "y \<in> set_tree r" "Suc (depth_of r y) = height r" using deepest d(5) by blast
      then have "depth_of ?t y = height r" using d(2,3) depth_of_Node [OF Node.prems(1), of y] by auto
      then show ?thesis using y(1) by blast
    qed
    ultimately obtain x y where xy: "x \<in> insert a (set_tree l)" "y \<in> insert a (set_tree r)"
        "depth_of ?t x = height l" "depth_of ?t y = height r" by blast
    then have "\<not> (x \<in> set_tree l \<and> y \<in> set_tree l)" "\<not> (x \<in> set_tree r \<and> y \<in> set_tree r)" using d(1-3) by blast+
    then have "distance ?t x y = span ?t" using xy(3,4) 1 by auto
    then show ?thesis using xy(1,2) by (intro bexI [of _ x] bexI [of _ y]) auto
  next
    case 2
    then obtain x y where "x \<in> set_tree l" "y \<in> set_tree l" "distance l x y = span l" using Node.IH(1) d(4) by blast
    then show ?thesis using 2(2) by (intro bexI [of _ x] bexI [of _ y]) auto
  next
    case 3
    then obtain x y where "x \<in> set_tree r" "y \<in> set_tree r" "distance r x y = span r" using Node.IH(2) d(5) by blast
    moreover from this have "x \<notin> set_tree l" using d(3) by blast
    ultimately show ?thesis using 3(2) by (intro bexI [of _ x] bexI [of _ y]) auto
  qed
qed simp

section \<open>The properties\<close>

text \<open>
  C23. Both searches for the common father of two nodes of a tree: the one with paths returns the lowest
  common ancestor, the common ancestor below all others.  The recursive one returns the same node unless the
  first node is above the second and not the root of the whole tree: then it returns the second.
\<close>

theorem common_fathers:
  assumes "distinct (inorder t)" "x \<in> set_tree t" "y \<in> set_tree t"
  shows "\<exists>a. FindCommFather2 t x y = Some a \<and> ancestor t a x \<and> ancestor t a y
    \<and> (\<forall>b. ancestor t b x \<and> ancestor t b y \<longrightarrow> ancestor t b a)
    \<and> FindCommFather t x y = Some (if ancestor t x y \<and> x \<noteq> y \<and> x \<noteq> value t then y else a)"
proof -
  obtain a where a: "lowest t x y = Some a" "ancestor t a x" "ancestor t a y"
      "\<forall>b. ancestor t b x \<and> ancestor t b y \<longrightarrow> ancestor t b a"
    using lowest_ok [OF assms] by blast
  have "FindCommFather t x y = Some (if ancestor t x y \<and> x \<noteq> y \<and> x \<noteq> value t then y else a)"
    using comm_father_lowest [OF assms, of "value t"] assms(2) a(1) by (auto simp: FindCommFather_def)
  moreover have "FindCommFather2 t x y = Some a" using FindCommFather2_lowest [OF assms] a(1) by simp
  ultimately show ?thesis using a(2-4) by blast
qed

theorem common_fathers_witness:
  "FindCommFather (Node Leaf 1 (Node Leaf 2 (Node Leaf (3::nat) Leaf))) 2 3 = Some 3
   \<and> FindCommFather2 (Node Leaf 1 (Node Leaf 2 (Node Leaf (3::nat) Leaf))) 2 3 \<noteq> Some 3"
proof -
  let ?t = "Node Leaf 1 (Node Leaf 2 (Node Leaf (3::nat) Leaf))"
  obtain a where a: "FindCommFather2 ?t 2 3 = Some a" "ancestor ?t a 2"
      "FindCommFather ?t 2 3 = Some (if ancestor ?t 2 3 \<and> (2::nat) \<noteq> 3 \<and> 2 \<noteq> value ?t then 3 else a)"
    using common_fathers [of ?t 2 3] by auto
  moreover have "ancestor ?t 2 3" "\<not> ancestor ?t 3 2" by (simp_all add: ancestor_def)
  ultimately show ?thesis by auto
qed

text \<open>
  C24. \<open>LevelOder\<close> writes the nodes level by level, each from left to right; the depth by the queue and the
  recursive one are the height.  \<open>GetKLevelSize\<close> counts the nodes of the level K, from 1 on (the level 0 is
  taken for 2 to the 64).  On a tree that is not empty, both helpers for the longest path, \<open>_GetMaxLen\<close> and
  \<open>_GetMaxLen2\<close> started at -1, give the number of edges between the two nodes that are furthest from each other.
\<close>

theorem tree_measures:
  assumes "distinct (inorder t)" "t \<noteq> Leaf"
  shows "LevelOder t = concat (map (\<lambda>k. depth_level k t) [0..<height t])
    \<and> noRDepth t = height t \<and> Depth t = height t \<and> Size t = size t
    \<and> GetKLevelSize t K = length (depth_level (if K = 0 then 2 ^ 64 - 1 else unat K - 1) t)
    \<and> (\<exists>m. GetMaxLen t (- 1) = int m \<and> GetMaxLen2 t (- 1) = (int (height t), int m)
        \<and> (\<forall>x \<in> set_tree t. \<forall>y \<in> set_tree t. distance t x y \<le> m)
        \<and> (\<exists>x \<in> set_tree t. \<exists>y \<in> set_tree t. distance t x y = m))"
proof (intro conjI)
  have "unat (K - 1) = (if K = 0 then 2 ^ 64 - 1 else unat K - 1)"
    by (cases "K = 0") (simp_all add: unat_minus_one unsigned_minus_1_eq_mask mask_eq_exp_minus_1)
  then show "GetKLevelSize t K = length (depth_level (if K = 0 then 2 ^ 64 - 1 else unat K - 1) t)"
    by (simp only: GetKLevelSize_level)
  show "\<exists>m. GetMaxLen t (- 1) = int m \<and> GetMaxLen2 t (- 1) = (int (height t), int m)
        \<and> (\<forall>x \<in> set_tree t. \<forall>y \<in> set_tree t. distance t x y \<le> m)
        \<and> (\<exists>x \<in> set_tree t. \<exists>y \<in> set_tree t. distance t x y = m)"
    using assms distance_span [OF assms(1)] span_reached [OF assms]
    by (intro exI [of _ "span t"]) (simp add: GetMaxLen_span GetMaxLen2_span)
qed (simp_all add: LevelOder_levels noRDepth_height Depth_height Size_size)

theorem tree_measures_witness:
  "LevelOder (Node (Node Leaf 2 Leaf) 1 (Node Leaf (3::nat) Leaf)) = [1, 2, 3]
   \<and> GetKLevelSize (Node (Node Leaf 2 Leaf) 1 (Node Leaf (3::nat) Leaf)) 2 = 2"
proof -
  let ?t = "Node (Node Leaf 2 Leaf) 1 (Node Leaf (3::nat) Leaf)"
  have "distinct (inorder ?t)" "?t \<noteq> Leaf" by simp_all
  from tree_measures [OF this, of 2] show ?thesis by (simp add: numeral_eq_Suc)
qed

end
