(* ===== verification/Memory_Copy.thy ===== *)
theory Memory_Copy
  imports Main
begin

text \<open>
  \<open>Strlen\<close> and \<open>Memcpy\<close> of the namespace \<open>fun\<close> of \<open>Algorithm/MinStack/MinStack.hpp\<close>, on a memory that maps
  the addresses that may be used to bytes.  The address 0 is \<open>NULL\<close>; \<open>None\<close> is a failed assertion, an access
  to other memory, or a recursion that does not end.
\<close>

section \<open>Definitions from the code\<close>

type_synonym memory = "nat \<rightharpoonup> char"

partial_function (option) Strlen :: "memory \<Rightarrow> nat \<Rightarrow> nat option" where
  "Strlen m str =
     (if str = 0 then None
      else (case m str of
              None \<Rightarrow> None
            | Some c \<Rightarrow> if c \<noteq> CHR 0x00 then Option.bind (Strlen m (str + 1)) (\<lambda>k. Some (1 + k)) else Some 0))"

definition put :: "nat \<Rightarrow> nat \<Rightarrow> memory \<Rightarrow> memory option" where
  "put d s m = (case m s of None \<Rightarrow> None | Some c \<Rightarrow> if m d = None then None else Some (m(d \<mapsto> c)))"

text \<open>\<open>while (size--)\<close>, and the loop of the other branch, which goes down from the last byte.\<close>

fun copy_up :: "nat \<Rightarrow> nat \<Rightarrow> nat \<Rightarrow> memory \<Rightarrow> memory option" where
  "copy_up 0 d s m = Some m"
| "copy_up (Suc n) d s m = Option.bind (put d s m) (copy_up n (d + 1) (s + 1))"

fun copy_down :: "nat \<Rightarrow> nat \<Rightarrow> nat \<Rightarrow> memory \<Rightarrow> memory option" where
  "copy_down 0 d s m = Some m"
| "copy_down (Suc n) d s m = Option.bind (put (d + n) (s + n) m) (copy_down n d s)"

definition Memcpy :: "nat \<Rightarrow> nat \<Rightarrow> nat \<Rightarrow> memory \<Rightarrow> (nat \<times> memory) option" where
  "Memcpy dst src len m =
     (if dst = 0 \<or> src = 0 then None
      else map_option (\<lambda>m'. (dst, m'))
             (if dst > src + len \<or> dst < src then copy_up len dst src m else copy_down len dst src m))"

section \<open>The loops\<close>

text \<open>The memory after a copy of the old bytes.\<close>

definition copied :: "nat \<Rightarrow> nat \<Rightarrow> nat \<Rightarrow> memory \<Rightarrow> memory" where
  "copied n d s m = (\<lambda>a. if d \<le> a \<and> a < d + n then m (s + (a - d)) else m a)"

definition usable :: "nat \<Rightarrow> nat \<Rightarrow> memory \<Rightarrow> bool" where
  "usable p n m \<longleftrightarrow> (\<forall>k < n. m (p + k) \<noteq> None)"

lemma usable_upd: "usable p n m \<Longrightarrow> usable p n (m(a \<mapsto> c))"
  by (simp add: usable_def)

lemma usable_first: "usable p (Suc n) m \<Longrightarrow> m p \<noteq> None" "usable p (Suc n) m \<Longrightarrow> usable (Suc p) n m"
  unfolding usable_def by (metis add_0_right zero_less_Suc) (metis add_Suc_shift Suc_less_eq)

lemma usable_last: "usable p (Suc n) m \<Longrightarrow> m (p + n) \<noteq> None" "usable p (Suc n) m \<Longrightarrow> usable p n m"
  unfolding usable_def by simp_all

lemma copied_0: "copied 0 d s m = m"
  by (rule ext) (auto simp: copied_def)

lemma copied_first: "d < s \<or> s + n < d \<Longrightarrow> m s = Some c \<Longrightarrow> copied n (Suc d) (Suc s) (m(d \<mapsto> c)) = copied (Suc n) d s m"
proof (rule ext)
  fix a
  assume asm: "d < s \<or> s + n < d" "m s = Some c"
  show "copied n (Suc d) (Suc s) (m(d \<mapsto> c)) a = copied (Suc n) d s m a"
  proof (cases "Suc d \<le> a \<and> a < d + Suc n")
    case True
    then have "Suc s + (a - Suc d) = s + (a - d)" "s + (a - d) \<noteq> d" using asm(1) by linarith+
    then show ?thesis using True by (simp add: copied_def)
  qed (use asm(2) in \<open>auto simp: copied_def\<close>)
qed

lemma copied_last: "s \<le> d \<Longrightarrow> m (s + n) = Some c \<Longrightarrow> copied n d s (m(d + n \<mapsto> c)) = copied (Suc n) d s m"
proof (rule ext)
  fix a
  assume asm: "s \<le> d" "m (s + n) = Some c"
  show "copied n d s (m(d + n \<mapsto> c)) a = copied (Suc n) d s m a"
  proof (cases "d \<le> a \<and> a < d + n")
    case True
    then have "s + (a - d) \<noteq> d + n" using asm(1) by linarith
    then show ?thesis using True by (simp add: copied_def)
  next
    case False
    then show ?thesis using asm(2) by (cases "a = d + n") (auto simp: copied_def)
  qed
qed

lemma copy_up_ok:
  "usable s n m \<Longrightarrow> usable d n m \<Longrightarrow> d < s \<or> s + n \<le> d \<Longrightarrow> copy_up n d s m = Some (copied n d s m)"
proof (induction n arbitrary: d s m)
  case (Suc n)
  obtain c where c: "m s = Some c" using usable_first(1) [OF Suc.prems(1)] by auto
  have "copy_up n (Suc d) (Suc s) (m(d \<mapsto> c)) = Some (copied n (Suc d) (Suc s) (m(d \<mapsto> c)))"
    using Suc.prems(3) usable_first [OF Suc.prems(1)] usable_first [OF Suc.prems(2)]
    by (intro Suc.IH usable_upd) auto
  moreover have "copied n (Suc d) (Suc s) (m(d \<mapsto> c)) = copied (Suc n) d s m"
    using Suc.prems(3) c by (intro copied_first) auto
  ultimately show ?case using c usable_first(1) [OF Suc.prems(2)] by (simp add: put_def)
qed (simp add: copied_0)

lemma copy_down_ok:
  "usable s n m \<Longrightarrow> usable d n m \<Longrightarrow> s \<le> d \<Longrightarrow> copy_down n d s m = Some (copied n d s m)"
proof (induction n arbitrary: m)
  case (Suc n)
  obtain c where c: "m (s + n) = Some c" using usable_last(1) [OF Suc.prems(1)] by auto
  have "copy_down n d s (m(d + n \<mapsto> c)) = Some (copied n d s (m(d + n \<mapsto> c)))"
    using Suc.prems usable_last by (intro Suc.IH usable_upd) auto
  moreover have "copied n d s (m(d + n \<mapsto> c)) = copied (Suc n) d s m"
    using Suc.prems(3) c by (intro copied_last) auto
  ultimately show ?case using c usable_last(1) [OF Suc.prems(2)] by (simp add: put_def)
qed (simp add: copied_0)

section \<open>The properties\<close>

text \<open>
  \<open>Strlen\<close> of a string that lies in the memory with its end mark returns, with the length of the string.
\<close>

lemma Strlen_string:
  assumes "str \<noteq> 0" "\<forall>k < length s. m (str + k) = Some (s ! k)" "CHR 0x00 \<notin> set s"
    and "m (str + length s) = Some (CHR 0x00)"
  shows "Strlen m str = Some (length s)"
  using assms
proof (induction s arbitrary: str)
  case (Cons c s)
  have "Strlen m (str + 1) = Some (length s)"
  proof (rule Cons.IH)
    show "\<forall>k < length s. m (str + 1 + k) = Some (s ! k)"
      using Cons.prems(2) by (metis One_nat_def Suc_less_eq add.assoc length_Cons nth_Cons_Suc plus_1_eq_Suc)
  qed (use Cons.prems in auto)
  moreover have "m str = Some c" using Cons.prems(2) by (metis add_0_right length_Cons nth_Cons_0 zero_less_Suc)
  ultimately show ?case using Cons.prems(1,3) by (subst Strlen.simps) auto
qed (simp add: Strlen.simps)

text \<open>
  \<open>Memcpy\<close> of usable memory returns its first argument and leaves at the destination the bytes that were
  at the source before, and all other memory as it was, also when the two parts overlap.
\<close>

theorem memcpy_overlapping:
  assumes "dst \<noteq> 0" "src \<noteq> 0" "usable src len m" "usable dst len m"
  shows "\<exists>m'. Memcpy dst src len m = Some (dst, m')
    \<and> (\<forall>a. m' a = (if dst \<le> a \<and> a < dst + len then m (src + (a - dst)) else m a))"
  using copy_up_ok [OF assms(3,4)] copy_down_ok [OF assms(3,4)] assms(1,2)
  by (auto simp: Memcpy_def copied_def)

theorem memcpy_overlapping_witness:
  "\<exists>m'. Memcpy 2 1 3 (\<lambda>a. Some (char_of a)) = Some (2, m') \<and> m' 4 = Some (char_of (3::nat))"
proof -
  have "usable p 3 (\<lambda>a. Some (char_of a))" for p :: nat by (simp add: usable_def)
  then obtain m' where "Memcpy 2 1 3 (\<lambda>a. Some (char_of a)) = Some (2, m')"
      "\<forall>a. m' a = (if 2 \<le> a \<and> a < 2 + 3 then Some (char_of (1 + (a - 2))) else Some (char_of a))"
    using memcpy_overlapping [of 2 1 3 "\<lambda>a. Some (char_of a)"] by auto
  then show ?thesis by simp
qed

end
