(* ===== verification/Allocator.thy ===== *)
theory Allocator
  imports "HOL-Library.Multiset" "HOL-Library.Monad_Syntax"
begin

text \<open>
  The memory allocator of \<open>DataStruct/Alloc.h/alloc.hpp\<close>: free lists of blocks of 8, 16, ... 128 bytes, and a
  pool that new blocks are cut from.  \<open>malloc\<close> is a parameter: \<open>malloc k n\<close> is the address that its call number
  \<open>k\<close> returns for \<open>n\<close> bytes, 0 when it fails.  The word at the start of a free block, which links it to the
  next one, is in \<open>links\<close>.  \<open>handle\<close> says whether a handler is installed; calling it is taken to return without
  touching this state.  \<open>None\<close> is undefined behaviour or a loop that does not end; sums of sizes are taken to stay
  below 2 to the 64.
\<close>

section \<open>Definitions from the code\<close>

record alloc =
  free_list :: "nat list"
  start_free :: nat
  end_free :: nat
  heap_size :: nat
  handle :: bool
  links :: "nat \<Rightarrow> nat"
  regions :: "(nat \<times> nat) list"
  calls :: nat

datatype pointer = Ptr nat | Bad_alloc

definition fresh_alloc :: alloc where
  "fresh_alloc = \<lparr>free_list = replicate 16 0, start_free = 0, end_free = 0, heap_size = 0, handle = False,
     links = (\<lambda>_. 0), regions = [], calls = 0\<rparr>"

text \<open>The code means to return the handler that was installed before, but returns the new one.\<close>

definition SetMallocHandler :: "bool \<Rightarrow> alloc \<Rightarrow> bool \<times> alloc" where
  "SetMallocHandler f s = (f, s\<lparr>handle := f\<rparr>)"

definition RroundUp :: "nat \<Rightarrow> nat" where "RroundUp n = (n + 7) div 8 * 8"

definition FreeListIndex :: "nat \<Rightarrow> nat" where "FreeListIndex n = (n + 7) div 8 - 1"

subsection \<open>Memory\<close>

text \<open>The memory that was obtained from \<open>malloc\<close> and not given back.\<close>

definition inside :: "alloc \<Rightarrow> nat \<Rightarrow> nat \<Rightarrow> bool" where
  "inside s p n \<longleftrightarrow> list_ex (\<lambda>(a, b). a \<le> p \<and> p + n \<le> a + b) (regions s)"

definition get_link :: "nat \<Rightarrow> alloc \<Rightarrow> nat option" where
  "get_link p s = (if inside s p 8 then Some (links s p) else None)"

definition set_link :: "nat \<Rightarrow> nat \<Rightarrow> alloc \<Rightarrow> alloc option" where
  "set_link p q s = (if inside s p 8 then Some (s\<lparr>links := (links s)(p := q)\<rparr>) else None)"

definition do_malloc :: "(nat \<Rightarrow> nat \<Rightarrow> nat) \<Rightarrow> nat \<Rightarrow> alloc \<Rightarrow> nat \<times> alloc" where
  "do_malloc malloc n s =
     (let p = malloc (calls s) n in
      (p, s\<lparr>calls := calls s + 1, regions := (if p = 0 then [] else [(p, n)]) @ regions s\<rparr>))"

subsection \<open>The first level\<close>

partial_function (option) OOM_Malloc :: "(nat \<Rightarrow> nat \<Rightarrow> nat) \<Rightarrow> nat \<Rightarrow> alloc \<Rightarrow> (pointer \<times> alloc) option" where
  "OOM_Malloc malloc n s =
     (if \<not> handle s then Some (Bad_alloc, s)
      else case do_malloc malloc n s of (p, s) \<Rightarrow> if p \<noteq> 0 then Some (Ptr p, s) else OOM_Malloc malloc n s)"

definition malloc_Allocate :: "(nat \<Rightarrow> nat \<Rightarrow> nat) \<Rightarrow> nat \<Rightarrow> alloc \<Rightarrow> (pointer \<times> alloc) option" where
  "malloc_Allocate malloc n s =
     (case do_malloc malloc n s of (p, s) \<Rightarrow> if p = 0 then OOM_Malloc malloc n s else Some (Ptr p, s))"

text \<open>\<open>free\<close> of something that \<open>malloc\<close> did not return is undefined.\<close>

definition malloc_Deallocate :: "nat \<Rightarrow> alloc \<Rightarrow> alloc option" where
  "malloc_Deallocate p s =
     (if p \<in> fst ` set (regions s) then Some (s\<lparr>regions := filter (\<lambda>r. fst r \<noteq> p) (regions s)\<rparr>) else None)"

subsection \<open>The second level\<close>

text \<open>The block at the head of a list is taken out, or one is put in front.\<close>

definition pop_block :: "nat \<Rightarrow> alloc \<Rightarrow> (nat \<times> alloc) option" where
  "pop_block i s = do {
     q \<leftarrow> get_link (free_list s ! i) s;
     Some (free_list s ! i, s\<lparr>free_list := (free_list s)[i := q]\<rparr>)}"

definition push_block :: "nat \<Rightarrow> nat \<Rightarrow> alloc \<Rightarrow> alloc option" where
  "push_block i p s = (if i < 16 then do {
     s \<leftarrow> set_link p (free_list s ! i) s;
     Some (s\<lparr>free_list := (free_list s)[i := p]\<rparr>)} else None)"

text \<open>The result, the reference parameter \<open>nobjs\<close> and the state.\<close>

partial_function (option) ChunkAlloc ::
  "(nat \<Rightarrow> nat \<Rightarrow> nat) \<Rightarrow> nat \<Rightarrow> nat \<Rightarrow> alloc \<Rightarrow> (pointer \<times> nat \<times> alloc) option" where
  "ChunkAlloc malloc n nobjs s =
     (let total_bytes = n * nobjs; left_bytes = end_free s - start_free s in
      if left_bytes \<ge> total_bytes then
        Some (Ptr (start_free s), nobjs, s\<lparr>start_free := start_free s + total_bytes\<rparr>)
      else if left_bytes \<ge> n then
        let nobjs = left_bytes div n; total_bytes = nobjs * n in
        Some (Ptr (start_free s + total_bytes), nobjs, s\<lparr>start_free := start_free s + total_bytes\<rparr>)
      else do {
        let bytes_to_get = 2 * total_bytes + RroundUp (heap_size s div 16);
        s \<leftarrow> (if left_bytes > 0 then push_block (FreeListIndex left_bytes) (start_free s) s else Some s);
        case do_malloc malloc bytes_to_get s of (p, s) \<Rightarrow>
          if p = 0 then
            case List.find (\<lambda>i. free_list s ! i \<noteq> 0) [FreeListIndex n..<16] of
              Some i \<Rightarrow> do {
                (r, s) \<leftarrow> pop_block i s;
                ChunkAlloc malloc n nobjs (s\<lparr>start_free := r, end_free := r + (i + 1) * 8\<rparr>)}
            | None \<Rightarrow> do {
                (r, s) \<leftarrow> malloc_Allocate malloc bytes_to_get (s\<lparr>start_free := 0, end_free := 0\<rparr>);
                case r of
                  Bad_alloc \<Rightarrow> Some (Bad_alloc, nobjs, s)
                | Ptr p \<Rightarrow> ChunkAlloc malloc n nobjs
                    (s\<lparr>start_free := p, heap_size := heap_size s + bytes_to_get, end_free := p + bytes_to_get\<rparr>)}
          else ChunkAlloc malloc n nobjs
            (s\<lparr>start_free := p, heap_size := heap_size s + bytes_to_get, end_free := p + bytes_to_get\<rparr>)})"

text \<open>The loop of \<open>Refill\<close>, with \<open>current_obj\<close> and \<open>next_obj\<close>; its result is \<open>current_obj\<close>.\<close>

fun link_loop :: "nat \<Rightarrow> nat \<Rightarrow> nat \<Rightarrow> nat \<Rightarrow> alloc \<Rightarrow> (nat \<times> alloc) option" where
  "link_loop 0 current_obj next_obj n s = Some (current_obj, s)"
| "link_loop (Suc k) current_obj next_obj n s = do {
     s \<leftarrow> set_link next_obj (next_obj + n) s;
     link_loop k next_obj (next_obj + n) n s}"

definition Refill :: "(nat \<Rightarrow> nat \<Rightarrow> nat) \<Rightarrow> nat \<Rightarrow> alloc \<Rightarrow> (pointer \<times> alloc) option" where
  "Refill malloc n s = do {
     (chunk, nobjs, s) \<leftarrow> ChunkAlloc malloc n 20 s;
     case chunk of
       Bad_alloc \<Rightarrow> Some (Bad_alloc, s)
     | Ptr chunk \<Rightarrow>
         if nobjs = 1 then Some (Ptr chunk, s)
         else do {
           let s = s\<lparr>free_list := (free_list s)[FreeListIndex n := chunk + n]\<rparr>;
           (current_obj, s) \<leftarrow> link_loop (nobjs - 2) 0 (chunk + n) n s;
           s \<leftarrow> set_link current_obj 0 s;
           Some (Ptr chunk, s)}}"

text \<open>
  The index of 0 bytes wraps around to the largest number; \<open>Deallocate\<close> of more than 128 bytes goes on after
  the call of the first level.
\<close>

definition Allocate :: "(nat \<Rightarrow> nat \<Rightarrow> nat) \<Rightarrow> nat \<Rightarrow> alloc \<Rightarrow> (pointer \<times> alloc) option" where
  "Allocate malloc n s =
     (if n > 128 then malloc_Allocate malloc n s
      else if n = 0 then None
      else if free_list s ! FreeListIndex n = 0 then Refill malloc (RroundUp n) s
      else map_option (\<lambda>(r, s). (Ptr r, s)) (pop_block (FreeListIndex n) s))"

definition Deallocate :: "nat \<Rightarrow> nat \<Rightarrow> alloc \<Rightarrow> alloc option" where
  "Deallocate p n s = do {
     s \<leftarrow> (if n > 128 then malloc_Deallocate p s else Some s);
     if n = 0 then None else push_block (FreeListIndex n) p s}"

section \<open>Who owns the memory\<close>

text \<open>The bytes of a block, and of all the blocks that the client has.\<close>

definition ext :: "nat \<Rightarrow> nat \<Rightarrow> nat multiset" where "ext p n = mset [p..<p + n]"

definition owned :: "(nat \<times> nat) multiset \<Rightarrow> nat multiset" where
  "owned cs = \<Sum>\<^sub># (image_mset (\<lambda>(p, n). ext p n) cs)"

lemma owned_simps [simp]: "owned {#} = {#}" "owned (add_mset (p, n) cs) = ext p n + owned cs"
  "owned (cs + cs') = owned cs + owned cs'"
  by (simp_all add: owned_def)

lemma in_ext [simp]: "x \<in># ext p n \<longleftrightarrow> p \<le> x \<and> x < p + n"
  by (simp add: ext_def)

lemma ext_0 [simp]: "ext p 0 = {#}"
  by (simp add: ext_def)

lemma ext_add: "ext p (m + n) = ext p m + ext (p + m) n"
proof -
  have "[p..<p + (m + n)] = [p..<p + m] @ [p + m..<p + m + n]"
    using upt_add_eq_append [of p "p + m" n] by (simp add: add.assoc)
  then show ?thesis by (simp add: ext_def)
qed

lemma count_ext: "count (ext p n) x = (if p \<le> x \<and> x < p + n then 1 else 0)"
  by (simp add: ext_def distinct_count_atmost_1 [THEN iffD1, rule_format])

text \<open>The list of free blocks at an address.\<close>

fun free_chain :: "(nat \<Rightarrow> nat) \<Rightarrow> nat \<Rightarrow> nat list \<Rightarrow> bool" where
  "free_chain l p [] = (p = 0)"
| "free_chain l p (q # qs) = (p = q \<and> p \<noteq> 0 \<and> free_chain l (l p) qs)"

lemma free_chain_upd [simp]: "q \<notin> set ps \<Longrightarrow> free_chain (l(q := v)) p ps = free_chain l p ps"
  by (induction ps arbitrary: p) auto

lemma free_chain_0 [simp]: "free_chain l 0 ps \<longleftrightarrow> ps = []"
  by (cases ps) auto

definition list_bytes :: "nat \<Rightarrow> nat list \<Rightarrow> nat multiset" where
  "list_bytes i ps = owned (mset (map (\<lambda>p. (p, 8 * (i + 1))) ps))"

definition free_bytes :: "(nat \<Rightarrow> nat list) \<Rightarrow> nat multiset" where
  "free_bytes F = (\<Sum>i<16. list_bytes i (F i))"

lemma list_bytes_simps [simp]:
  "list_bytes i [] = {#}" "list_bytes i (p # ps) = ext p (8 * (i + 1)) + list_bytes i ps"
  by (simp_all add: list_bytes_def)

lemma free_bytes_upd: "i < 16 \<Longrightarrow> free_bytes (F(i := ps)) + list_bytes i (F i) = free_bytes F + list_bytes i ps"
proof -
  assume i: "i < 16"
  have split: "free_bytes G = list_bytes i (G i) + (\<Sum>j \<in> {..<16} - {i}. list_bytes j (G j))" for G
    unfolding free_bytes_def using i by (intro sum.remove) auto
  have "(\<Sum>j \<in> {..<16} - {i}. list_bytes j ((F(i := ps)) j)) = (\<Sum>j \<in> {..<16} - {i}. list_bytes j (F j))"
    by (intro sum.cong) auto
  then show ?thesis using split [of F] split [of "F(i := ps)"] by (simp add: ac_simps)
qed

lemma list_bytes_le: "i < 16 \<Longrightarrow> list_bytes i (F i) \<subseteq># free_bytes F"
proof -
  assume i: "i < 16"
  have "free_bytes F = list_bytes i (F i) + (\<Sum>j \<in> {..<16} - {i}. list_bytes j (F j))"
    unfolding free_bytes_def using i by (intro sum.remove) auto
  then show ?thesis by simp
qed

lemma in_list_bytes: "p \<in> set ps \<Longrightarrow> p \<in># list_bytes i ps"
  by (induction ps) auto

lemma in_list_bytes_iff: "x \<in># list_bytes i ps \<longleftrightarrow> (\<exists>q \<in> set ps. q \<le> x \<and> x < q + 8 * (i + 1))"
  by (induction ps) auto

lemma in_free_bytes: "x \<in># free_bytes F \<longleftrightarrow> (\<exists>i < 16. x \<in># list_bytes i (F i))"
proof -
  have "x \<in># (\<Sum>i<k. list_bytes i (F i)) \<longleftrightarrow> (\<exists>i < k. x \<in># list_bytes i (F i))" for k :: nat
    by (induction k) (auto simp: less_Suc_eq)
  then show ?thesis by (simp add: free_bytes_def)
qed

lemma in_owned: "x \<in># owned cs \<longleftrightarrow> (\<exists>(q, m) \<in># cs. q \<le> x \<and> x < q + m)"
  by (induction cs) auto

text \<open>No byte has two owners.\<close>

definition single :: "nat multiset \<Rightarrow> bool" where "single M \<longleftrightarrow> (\<forall>x. count M x \<le> 1)"

lemma single_mono: "single M \<Longrightarrow> N \<subseteq># M \<Longrightarrow> single N"
  by (meson le_trans mset_subset_eq_count single_def)

lemma single_add: "single (M + N) \<longleftrightarrow> single M \<and> single N \<and> (\<forall>x. x \<in># M \<longrightarrow> x \<notin># N)"
proof -
  have "count M x + count N x \<le> 1 \<longleftrightarrow> count M x \<le> 1 \<and> count N x \<le> 1 \<and> (0 < count M x \<longrightarrow> count N x = 0)" for x
    by linarith
  then show ?thesis unfolding single_def by (simp add: not_in_iff) blast
qed

lemma single_ext: "single (ext p n)"
  by (simp add: single_def count_ext)

definition pool :: "alloc \<Rightarrow> nat multiset" where "pool s = ext (start_free s) (end_free s - start_free s)"

text \<open>What \<open>malloc\<close> promises: what it returns does not overlap what it returned before.\<close>

definition fresh_malloc :: "(nat \<Rightarrow> nat \<Rightarrow> nat) \<Rightarrow> bool" where
  "fresh_malloc malloc \<longleftrightarrow> (\<forall>j k m n. j < k \<and> malloc j m \<noteq> 0 \<and> malloc k n \<noteq> 0 \<longrightarrow>
     malloc j m + m \<le> malloc k n \<or> malloc k n + n \<le> malloc j m)"

definition regions_ok :: "(nat \<Rightarrow> nat \<Rightarrow> nat) \<Rightarrow> alloc \<Rightarrow> bool" where
  "regions_ok malloc s \<longleftrightarrow> (\<forall>(a, n) \<in> set (regions s). a \<noteq> 0 \<and> (\<exists>j < calls s. a = malloc j n))"

definition lists_ok :: "alloc \<Rightarrow> (nat \<Rightarrow> nat list) \<Rightarrow> bool" where
  "lists_ok s F \<longleftrightarrow> length (free_list s) = 16
     \<and> (\<forall>i < 16. free_chain (links s) (free_list s ! i) (F i) \<and> (\<forall>p \<in> set (F i). inside s p (8 * (i + 1))))"

definition pool_ok :: "alloc \<Rightarrow> bool" where
  "pool_ok s \<longleftrightarrow> start_free s \<le> end_free s \<and> 8 dvd end_free s - start_free s
     \<and> (start_free s < end_free s \<longrightarrow> inside s (start_free s) (end_free s - start_free s))"

definition shared_out :: "(nat \<Rightarrow> nat \<Rightarrow> nat) \<Rightarrow> alloc \<Rightarrow> (nat \<times> nat) multiset \<Rightarrow> (nat \<Rightarrow> nat list) \<Rightarrow> bool" where
  "shared_out malloc s cs F \<longleftrightarrow> regions_ok malloc s \<and> pool_ok s \<and> (\<forall>(p, n) \<in># cs. inside s p n)
     \<and> lists_ok s F \<and> single (owned cs + free_bytes F + pool s)"

definition alloc_ok :: "(nat \<Rightarrow> nat \<Rightarrow> nat) \<Rightarrow> alloc \<Rightarrow> (nat \<times> nat) multiset \<Rightarrow> bool" where
  "alloc_ok malloc s cs \<longleftrightarrow> (\<exists>F. shared_out malloc s cs F)"

section \<open>Every operation keeps the ownership\<close>

lemma inside_links [simp]: "inside (s\<lparr>links := l\<rparr>) = inside s" "inside (s\<lparr>free_list := fl\<rparr>) = inside s"
  "inside (s\<lparr>start_free := a\<rparr>) = inside s" "inside (s\<lparr>end_free := a\<rparr>) = inside s"
  "inside (s\<lparr>heap_size := a\<rparr>) = inside s" "inside (s\<lparr>handle := f\<rparr>) = inside s" "inside (s\<lparr>calls := k\<rparr>) = inside s"
  by (simp_all add: inside_def fun_eq_iff)

lemma inside_part: "inside s p n \<Longrightarrow> p \<le> q \<Longrightarrow> q + m \<le> p + n \<Longrightarrow> inside s q m"
  by (auto simp: inside_def list_ex_iff) (metis (no_types, lifting) case_prodI le_trans)

lemma alloc_okI:
  "regions_ok malloc s \<Longrightarrow> pool_ok s \<Longrightarrow> (\<And>p n. (p, n) \<in># cs \<Longrightarrow> inside s p n) \<Longrightarrow> lists_ok s F \<Longrightarrow>
   single (owned cs + free_bytes F + pool s) \<Longrightarrow> alloc_ok malloc s cs"
  unfolding alloc_ok_def shared_out_def by blast

lemma shared_outD:
  assumes "shared_out malloc s cs F"
  shows "regions_ok malloc s" "pool_ok s" "(p, n) \<in># cs \<Longrightarrow> inside s p n" "lists_ok s F"
    "single (owned cs + free_bytes F + pool s)"
  using assms unfolding shared_out_def by blast+

lemma alloc_ok_inside: "alloc_ok malloc s cs \<Longrightarrow> (p, n) \<in># cs \<Longrightarrow> inside s p n"
  unfolding alloc_ok_def shared_out_def by blast

lemma alloc_ok_sub: "alloc_ok malloc s cs \<Longrightarrow> cs' \<subseteq># cs \<Longrightarrow> alloc_ok malloc s cs'"
proof -
  assume ok: "alloc_ok malloc s cs" and sub: "cs' \<subseteq># cs"
  obtain F where "shared_out malloc s cs F" using ok unfolding alloc_ok_def by blast
  note F = shared_outD [OF this]
  obtain ds where "cs = cs' + ds" using sub by (metis subset_mset.add_diff_inverse)
  then have "owned cs' + free_bytes F + pool s \<subseteq># owned cs + free_bytes F + pool s" by (simp add: ac_simps)
  then show ?thesis using F sub by (intro alloc_okI [of _ _ _ F] single_mono [OF F(5)]) (auto dest: mset_subset_eqD)
qed

text \<open>A link is written at the start of a block of the client.\<close>

lemma write_ok:
  assumes ok: "alloc_ok malloc s cs" and own: "(p, n) \<in># cs" "p \<le> a" "a < p + n"
  shows "alloc_ok malloc (s\<lparr>links := (links s)(a := v)\<rparr>) cs"
proof -
  obtain F where "shared_out malloc s cs F" using ok unfolding alloc_ok_def by blast
  note F = shared_outD [OF this]
  obtain ds where "cs = add_mset (p, n) ds" using own(1) by (metis mset_add)
  then have "a \<in># owned cs" using own by simp
  then have "a \<notin># free_bytes F" using F(5) unfolding single_add by blast
  then have a: "a \<notin> set (F i)" if "i < 16" for i
    using in_list_bytes [of a "F i" i] list_bytes_le [OF that, of F] by (meson mset_subset_eqD)
  show ?thesis
  proof (rule alloc_okI [of _ _ _ F])
    show "lists_ok (s\<lparr>links := (links s)(a := v)\<rparr>) F" using F(4) a unfolding lists_ok_def by simp
  qed (use F in \<open>simp_all add: regions_ok_def pool_ok_def pool_def\<close>)
qed

lemma set_link_ok:
  assumes ok: "alloc_ok malloc s cs" and own: "(p, n) \<in># cs" "8 \<le> n"
  shows "set_link p q s = Some (s\<lparr>links := (links s)(p := q)\<rparr>)" "alloc_ok malloc (s\<lparr>links := (links s)(p := q)\<rparr>) cs"
proof -
  have "inside s p n" using ok own(1) by (rule alloc_ok_inside)
  then have "inside s p 8" by (rule inside_part) (use own(2) in simp_all)
  then show "set_link p q s = Some (s\<lparr>links := (links s)(p := q)\<rparr>)" by (simp add: set_link_def)
  show "alloc_ok malloc (s\<lparr>links := (links s)(p := q)\<rparr>) cs" using write_ok [OF ok own(1)] own(2) by simp
qed

text \<open>A block goes from a free list to the client, and back.\<close>

lemma pop_block_ok:
  assumes ok: "alloc_ok malloc s cs" and i: "i < 16" and ne: "free_list s ! i \<noteq> 0"
  obtains s' where "pop_block i s = Some (free_list s ! i, s')" "alloc_ok malloc s' (add_mset (free_list s ! i, 8 * (i + 1)) cs)"
    and "\<exists>q. s' = s\<lparr>free_list := (free_list s)[i := q]\<rparr>"
proof -
  obtain F where "shared_out malloc s cs F" using ok unfolding alloc_ok_def by blast
  note F = shared_outD [OF this]
  have c: "free_chain (links s) (free_list s ! i) (F i)" "\<forall>p \<in> set (F i). inside s p (8 * (i + 1))"
    using F(4) i unfolding lists_ok_def by blast+
  then obtain ps where ps: "F i = free_list s ! i # ps" "free_chain (links s) (links s (free_list s ! i)) ps"
    using ne by (cases "F i") auto
  then have "inside s (free_list s ! i) (8 * (i + 1))" using c(2) by simp
  then have "inside s (free_list s ! i) 8" by (rule inside_part) simp_all
  then have pop: "pop_block i s = Some (free_list s ! i, s\<lparr>free_list := (free_list s)[i := links s (free_list s ! i)]\<rparr>)"
    by (simp add: pop_block_def get_link_def)
  moreover have "alloc_ok malloc (s\<lparr>free_list := (free_list s)[i := links s (free_list s ! i)]\<rparr>)
      (add_mset (free_list s ! i, 8 * (i + 1)) cs)"
  proof (rule alloc_okI [of _ _ _ "F(i := ps)"])
    show "lists_ok (s\<lparr>free_list := (free_list s)[i := links s (free_list s ! i)]\<rparr>) (F(i := ps))"
      using F(4) ps c(2) unfolding lists_ok_def by (auto simp: nth_list_update)
    have "free_bytes F = ext (free_list s ! i) (8 * (i + 1)) + free_bytes (F(i := ps))"
      using free_bytes_upd [OF i, of F ps] ps(1) by (simp add: ac_simps)
    then show "single (owned (add_mset (free_list s ! i, 8 * (i + 1)) cs) + free_bytes (F(i := ps))
        + pool (s\<lparr>free_list := (free_list s)[i := links s (free_list s ! i)]\<rparr>))"
      using F(5) by (simp add: pool_def ac_simps)
  qed (use F c(2) ps(1) in \<open>auto simp: regions_ok_def pool_ok_def\<close>)
  ultimately show thesis using that by blast
qed

lemma push_block_ok:
  assumes ok: "alloc_ok malloc s (add_mset (p, 8 * (i + 1)) cs)" and i: "i < 16" and p: "p \<noteq> 0"
  shows "push_block i p s = Some (s\<lparr>links := (links s)(p := free_list s ! i), free_list := (free_list s)[i := p]\<rparr>)"
    and "alloc_ok malloc (s\<lparr>links := (links s)(p := free_list s ! i), free_list := (free_list s)[i := p]\<rparr>) cs"
proof -
  let ?s = "s\<lparr>links := (links s)(p := free_list s ! i)\<rparr>"
  have ok': "alloc_ok malloc ?s (add_mset (p, 8 * (i + 1)) cs)"
    and set: "set_link p (free_list s ! i) s = Some ?s" using set_link_ok [OF ok, of p "8 * (i + 1)"] by simp_all
  show "push_block i p s = Some (s\<lparr>links := (links s)(p := free_list s ! i), free_list := (free_list s)[i := p]\<rparr>)"
    using set i by (simp add: push_block_def)
  obtain F where F': "shared_out malloc ?s (add_mset (p, 8 * (i + 1)) cs) F" using ok' unfolding alloc_ok_def by blast
  note F = shared_outD [OF F']
  have "list_bytes i (F i) \<subseteq># free_bytes F" by (rule list_bytes_le [OF i])
  moreover have "p \<notin># free_bytes F" using F(5) unfolding single_add by auto
  ultimately have fresh: "p \<notin> set (F i)" using in_list_bytes by (meson mset_subset_eqD)
  show "alloc_ok malloc (s\<lparr>links := (links s)(p := free_list s ! i), free_list := (free_list s)[i := p]\<rparr>) cs"
  proof (rule alloc_okI [of _ _ _ "F(i := p # F i)"])
    have "free_chain (links ?s) (free_list s ! i) (F i)" using F(4) i unfolding lists_ok_def by simp
    moreover have "inside s p (8 * (i + 1))" using F(3) by simp
    ultimately show "lists_ok (s\<lparr>links := (links s)(p := free_list s ! i), free_list := (free_list s)[i := p]\<rparr>) (F(i := p # F i))"
      using F(4) p unfolding lists_ok_def by (auto simp: nth_list_update)
    have "free_bytes (F(i := p # F i)) = ext p (8 * (i + 1)) + free_bytes F"
      using free_bytes_upd [OF i, of F "p # F i"] by (simp add: ac_simps)
    then show "single (owned cs + free_bytes (F(i := p # F i))
        + pool (s\<lparr>links := (links s)(p := free_list s ! i), free_list := (free_list s)[i := p]\<rparr>))"
      using F(5) by (simp add: pool_def ac_simps)
  qed (use F in \<open>auto simp: regions_ok_def pool_ok_def\<close>)
qed

text \<open>The pool: its first bytes are handed out; it is given up; a block becomes the pool.\<close>

lemma pool_cut:
  assumes ok: "alloc_ok malloc s cs" and k: "0 < k" "k \<le> end_free s - start_free s" "8 dvd k"
  shows "alloc_ok malloc (s\<lparr>start_free := start_free s + k\<rparr>) (add_mset (start_free s, k) cs)"
proof -
  obtain F where "shared_out malloc s cs F" using ok unfolding alloc_ok_def by blast
  note F = shared_outD [OF this]
  let ?l = "end_free s - start_free s"
  have ins: "inside s (start_free s) ?l" using F(2) k unfolding pool_ok_def by auto
  show ?thesis
  proof (rule alloc_okI [of _ _ _ F])
    have "8 dvd ?l - k" using F(2) k(3) unfolding pool_ok_def by (blast intro: dvd_diff_nat)
    moreover have "inside s (start_free s + k) (?l - k)" using k by (intro inside_part [OF ins]) simp_all
    moreover have "end_free (s\<lparr>start_free := start_free s + k\<rparr>) = end_free s"
      "start_free (s\<lparr>start_free := start_free s + k\<rparr>) = start_free s + k"
      "end_free s - (start_free s + k) = ?l - k" by simp_all
    moreover have "start_free s + k \<le> end_free s" using k by linarith
    ultimately show "pool_ok (s\<lparr>start_free := start_free s + k\<rparr>)" unfolding pool_ok_def
      by (simp only: inside_links simp_thms)
    have "pool s = ext (start_free s) k + pool (s\<lparr>start_free := start_free s + k\<rparr>)"
      using ext_add [of "start_free s" k "?l - k"] k by (simp add: pool_def)
    then show "single (owned (add_mset (start_free s, k) cs) + free_bytes F + pool (s\<lparr>start_free := start_free s + k\<rparr>))"
      using F(5) by (simp add: ac_simps)
  qed (use F k inside_part [OF ins, of "start_free s" k] in \<open>auto simp: regions_ok_def lists_ok_def\<close>)
qed

lemma pool_none:
  assumes ok: "alloc_ok malloc s cs"
  shows "alloc_ok malloc (s\<lparr>start_free := a, end_free := a\<rparr>) cs"
proof -
  obtain F where "shared_out malloc s cs F" using ok unfolding alloc_ok_def by blast
  note F = shared_outD [OF this]
  have "single (owned cs + free_bytes F)" using F(5) by (simp add: single_add)
  then show ?thesis
    by (intro alloc_okI [of _ _ _ F]) (use F in \<open>simp_all add: regions_ok_def lists_ok_def pool_ok_def pool_def\<close>)
qed

lemma pool_new:
  assumes ok: "alloc_ok malloc s (add_mset (p, n) cs)" and n: "8 dvd n"
  shows "alloc_ok malloc (s\<lparr>start_free := p, end_free := p + n\<rparr>) cs"
proof -
  obtain F where "shared_out malloc s (add_mset (p, n) cs) F" using ok unfolding alloc_ok_def by blast
  note F = shared_outD [OF this]
  have "single (owned cs + free_bytes F + ext p n)"
    by (rule single_mono [OF F(5)]) (simp add: ac_simps)
  then show ?thesis
    by (intro alloc_okI [of _ _ _ F]) (use F n in \<open>simp_all add: regions_ok_def lists_ok_def pool_ok_def pool_def\<close>)
qed

text \<open>A region from \<open>malloc\<close> belongs to its caller.\<close>

lemma do_malloc_ok:
  assumes ok: "alloc_ok malloc s cs" and fresh: "fresh_malloc malloc" and "do_malloc malloc n s = (p, s')"
  shows "alloc_ok malloc s' (if p = 0 then cs else add_mset (p, n) cs)"
proof -
  obtain F where "shared_out malloc s cs F" using ok unfolding alloc_ok_def by blast
  note F = shared_outD [OF this]
  have p: "p = malloc (calls s) n" and s': "s' = s\<lparr>calls := calls s + 1, regions := (if p = 0 then [] else [(p, n)]) @ regions s\<rparr>"
    using assms(3) by (auto simp: do_malloc_def Let_def)
  have ins: "inside s q m \<Longrightarrow> inside s' q m" for q m by (auto simp: inside_def s')
  have "\<exists>j < calls s + 1. a = malloc j m" if "\<exists>j < calls s. a = malloc j m" for a m
    using that less_SucI by (metis Suc_eq_plus1)
  then have reg: "regions_ok malloc s'"
    using F(1) p unfolding regions_ok_def s' by (fastforce split: if_splits)
  have lists: "lists_ok s' F" using F(4) ins by (auto simp: lists_ok_def s')
  have pool: "pool_ok s'" "pool s' = pool s" using F(2) ins by (auto simp: pool_ok_def pool_def s')
  show ?thesis
  proof (cases "p = 0")
    case True
    then show ?thesis using F ins reg lists pool by (auto intro: alloc_okI [of _ _ _ F])
  next
    case False
    have apart: "x \<notin># ext p n" if x: "q \<le> x" "x < q + m" and q: "inside s q m" for q m x
    proof -
      obtain a b where ab: "(a, b) \<in> set (regions s)" "a \<le> q" "q + m \<le> a + b"
        using q by (auto simp: inside_def list_ex_iff)
      then obtain j where j: "a \<noteq> 0" "j < calls s" "a = malloc j b" using F(1) by (auto simp: regions_ok_def)
      then have "a + b \<le> p \<or> p + n \<le> a" using fresh False p unfolding fresh_malloc_def by blast
      then show ?thesis using ab x by auto
    qed
    have "x \<notin># ext p n" if x: "x \<in># owned cs + free_bytes F + pool s" for x
    proof -
      consider q m where "(q, m) \<in># cs" "q \<le> x" "x < q + m"
        | i q where "i < 16" "q \<in> set (F i)" "q \<le> x" "x < q + 8 * (i + 1)" | "x \<in># pool s"
        using x by (auto simp: in_owned in_free_bytes in_list_bytes_iff)
      then show ?thesis
      proof cases
        case 1
        then show ?thesis using apart [of q x m] F(3) by simp
      next
        case 2
        then show ?thesis using apart [of q x "8 * (i + 1)"] F(4) unfolding lists_ok_def by auto
      next
        case 3
        then show ?thesis using apart [of "start_free s" x "end_free s - start_free s"] F(2)
          unfolding pool_ok_def pool_def by auto
      qed
    qed
    then have "single (ext p n + (owned cs + free_bytes F + pool s))"
      using F(5) single_ext by (subst single_add) blast
    moreover have "inside s' p n" using False by (simp add: inside_def s')
    ultimately show ?thesis using F ins reg lists pool False
      by (intro alloc_okI [of _ _ _ F]) (auto simp: ac_simps)
  qed
qed

section \<open>A refill\<close>

lemma split_block:
  assumes ok: "alloc_ok malloc s (add_mset (p, a + b) cs)"
  shows "alloc_ok malloc s (add_mset (p, a) (add_mset (p + a, b) cs))"
proof -
  obtain F where "shared_out malloc s (add_mset (p, a + b) cs) F" using ok unfolding alloc_ok_def by blast
  note F = shared_outD [OF this]
  have ins: "inside s p (a + b)" by (rule F(3)) simp
  have "inside s p a" "inside s (p + a) b" by (rule inside_part [OF ins]; simp)+
  then show ?thesis
    using F by (intro alloc_okI [of _ _ _ F]) (auto simp: ext_add ac_simps)
qed

definition row :: "nat \<Rightarrow> nat \<Rightarrow> nat \<Rightarrow> (nat \<times> nat) multiset" where
  "row p n k = mset (map (\<lambda>j. (p + j * n, n)) [0..<k])"

lemma row_simps [simp]: "row p n 0 = {#}" "row p n (Suc k) = add_mset (p + k * n, n) (row p n k)"
  by (simp_all add: row_def)

lemma in_row: "j < k \<Longrightarrow> (p + j * n, n) \<in># row p n k"
  by (auto simp: row_def)

lemma row_first: "row p n (Suc k) = add_mset (p, n) (row (p + n) n k)"
  by (induction k) (auto simp: algebra_simps)

lemma split_row: "alloc_ok malloc s (add_mset (p, k * n) cs) \<Longrightarrow> alloc_ok malloc s (row p n k + cs)"
proof (induction k arbitrary: cs)
  case 0
  then show ?case by (auto intro: alloc_ok_sub)
next
  case (Suc k)
  then have "alloc_ok malloc s (add_mset (p, k * n) (add_mset (p + k * n, n) cs))"
    by (intro split_block) (simp add: add.commute)
  from Suc.IH [OF this] show ?case by simp
qed

lemma set_link_free_list:
  "set_link p q (s\<lparr>free_list := f\<rparr>) = map_option (\<lambda>s. s\<lparr>free_list := f\<rparr>) (set_link p q s)"
  by (simp add: set_link_def)

lemma link_loop_free_list:
  "link_loop k c x n (s\<lparr>free_list := f\<rparr>) = map_option (\<lambda>(c, s). (c, s\<lparr>free_list := f\<rparr>)) (link_loop k c x n s)"
proof (induction k arbitrary: c x s)
  case (Suc k)
  show ?case by (cases "set_link x (x + n) s") (simp_all add: set_link_free_list Suc.IH)
qed simp

lemma link_loop_ok:
  "alloc_ok malloc s cs \<Longrightarrow> \<forall>j < k. (x + j * n, n) \<in># cs \<Longrightarrow> 8 \<le> n \<Longrightarrow>
   \<exists>l. link_loop k c x n s = Some (if k = 0 then c else x + (k - 1) * n, s\<lparr>links := l\<rparr>)
     \<and> alloc_ok malloc (s\<lparr>links := l\<rparr>) cs \<and> (\<forall>j < k. l (x + j * n) = x + (j + 1) * n) \<and> (\<forall>a < x. l a = links s a)"
proof (induction k arbitrary: c x s)
  case 0
  then show ?case by (intro exI [of _ "links s"]) simp
next
  case (Suc k)
  let ?s = "s\<lparr>links := (links s)(x := x + n)\<rparr>"
  have "(x, n) \<in># cs" using Suc.prems(2) by force
  note set = set_link_ok [OF Suc.prems(1) this Suc.prems(3)]
  have "\<forall>j < k. (x + n + j * n, n) \<in># cs"
  proof (intro allI impI)
    fix j assume "j < k"
    then show "(x + n + j * n, n) \<in># cs" using Suc.prems(2) [rule_format, of "Suc j"] by (simp add: add.assoc)
  qed
  from Suc.IH [OF set(2) this Suc.prems(3), of x]
  obtain l where l: "link_loop k x (x + n) n ?s = Some (if k = 0 then x else x + n + (k - 1) * n, ?s\<lparr>links := l\<rparr>)"
    "alloc_ok malloc (?s\<lparr>links := l\<rparr>) cs" "\<forall>j < k. l (x + n + j * n) = x + n + (j + 1) * n"
    "\<forall>a < x + n. l a = links ?s a" by blast
  have "l (x + j * n) = x + (j + 1) * n" if j: "j < Suc k" for j
  proof (cases j)
    case 0
    then show ?thesis using l(4) Suc.prems(3) by simp
  next
    case (Suc i)
    then have "l (x + n + i * n) = x + n + (i + 1) * n" using l(3) j by simp
    then show ?thesis using Suc by (simp add: algebra_simps)
  qed
  moreover have "(if k = 0 then x else x + n + (k - 1) * n) = x + k * n" by (cases k) simp_all
  ultimately show ?case using l set(1) Suc.prems(3) by (intro exI [of _ l]) simp
qed

lemma free_chain_row:
  "p \<noteq> 0 \<Longrightarrow> \<forall>j < k. l (p + j * n) = (if j + 1 = k then 0 else p + (j + 1) * n) \<Longrightarrow>
   free_chain l (if k = 0 then 0 else p) (map (\<lambda>j. p + j * n) [0..<k])"
proof (induction k arbitrary: p)
  case (Suc k)
  have "\<forall>j < k. l (p + n + j * n) = (if j + 1 = k then 0 else p + n + (j + 1) * n)"
  proof (intro allI impI)
    fix j assume "j < k"
    then show "l (p + n + j * n) = (if j + 1 = k then 0 else p + n + (j + 1) * n)"
      using Suc.prems(2) [rule_format, of "Suc j"] by (simp add: add.assoc)
  qed
  from Suc.IH [OF _ this] have "free_chain l (if k = 0 then 0 else p + n) (map (\<lambda>j. p + n + j * n) [0..<k])"
    using Suc.prems(1) by simp
  moreover have "l p = (if k = 0 then 0 else p + n)" using Suc.prems(2) [rule_format, of 0] by auto
  moreover have "map (\<lambda>j. p + j * n) [0..<Suc k] = p # map (\<lambda>j. p + n + j * n) [0..<k]"
    by (simp add: map_upt_Suc add.assoc del: upt_Suc)
  ultimately show ?case using Suc.prems(1) by simp
qed simp

lemma attach_ok:
  assumes ok: "alloc_ok malloc s (mset (map (\<lambda>p. (p, 8 * (i + 1))) ps) + cs)" and i: "i < 16"
    and "free_list s ! i = 0" "free_chain (links s) q ps"
  shows "alloc_ok malloc (s\<lparr>free_list := (free_list s)[i := q]\<rparr>) cs"
proof -
  obtain F where "shared_out malloc s (mset (map (\<lambda>p. (p, 8 * (i + 1))) ps) + cs) F"
    using ok unfolding alloc_ok_def by blast
  note F = shared_outD [OF this]
  have "F i = []" using F(4) i assms(3) unfolding lists_ok_def by (metis free_chain_0)
  then have bytes: "free_bytes (F(i := ps)) = list_bytes i ps + free_bytes F"
    using free_bytes_upd [OF i, of F ps] by (simp add: add.commute)
  show ?thesis
  proof (rule alloc_okI [of _ _ _ "F(i := ps)"])
    have "inside s p (8 * (i + 1))" if "p \<in> set ps" for p by (rule F(3)) (use that in auto)
    then show "lists_ok (s\<lparr>free_list := (free_list s)[i := q]\<rparr>) (F(i := ps))"
      using F(4) assms(4) unfolding lists_ok_def by (auto simp: nth_list_update)
    show "single (owned cs + free_bytes (F(i := ps)) + pool (s\<lparr>free_list := (free_list s)[i := q]\<rparr>))"
      using F(5) unfolding bytes by (simp add: list_bytes_def pool_def ac_simps)
  qed (use F in \<open>auto simp: regions_ok_def pool_ok_def\<close>)
qed

section \<open>New memory\<close>

lemma alloc_ok_other [simp]: "alloc_ok malloc (s\<lparr>heap_size := h\<rparr>) cs = alloc_ok malloc s cs"
  "alloc_ok malloc (s\<lparr>handle := f\<rparr>) cs = alloc_ok malloc s cs"
  by (simp_all add: alloc_ok_def shared_out_def regions_ok_def pool_ok_def lists_ok_def pool_def)

lemma alloc_ok_not_0: "alloc_ok malloc s cs \<Longrightarrow> (p, n) \<in># cs \<Longrightarrow> p \<noteq> 0"
proof -
  assume ok: "alloc_ok malloc s cs" and p: "(p, n) \<in># cs"
  then have "inside s p n" by (rule alloc_ok_inside)
  moreover have "regions_ok malloc s" using ok unfolding alloc_ok_def shared_out_def by blast
  ultimately show ?thesis by (fastforce simp: inside_def list_ex_iff regions_ok_def)
qed

text \<open>
  When the loop of \<open>OOM_Malloc\<close> does not end: a handler is installed, and from now on \<open>malloc\<close> refuses every
  request of some size, \<open>n\<close> bytes or more.
\<close>

definition starved :: "(nat \<Rightarrow> nat \<Rightarrow> nat) \<Rightarrow> nat \<Rightarrow> alloc \<Rightarrow> bool" where
  "starved malloc n s \<longleftrightarrow> handle s \<and> (\<exists>m \<ge> n. \<forall>k \<ge> calls s. malloc k m = 0)"

definition got :: "(nat \<Rightarrow> nat \<Rightarrow> nat) \<Rightarrow> nat \<Rightarrow> alloc \<Rightarrow> (nat \<times> nat) multiset \<Rightarrow> pointer \<Rightarrow> alloc \<Rightarrow> bool" where
  "got malloc n s cs r s' \<longleftrightarrow> handle s' = handle s
     \<and> (case r of Ptr p \<Rightarrow> alloc_ok malloc s' (add_mset (p, n) cs) | Bad_alloc \<Rightarrow> \<not> handle s \<and> alloc_ok malloc s' cs)"

lemma do_malloc_eq: "do_malloc malloc n s = (malloc (calls s) n,
    s\<lparr>calls := calls s + 1, regions := (if malloc (calls s) n = 0 then [] else [(malloc (calls s) n, n)]) @ regions s\<rparr>)"
  by (simp add: do_malloc_def Let_def)

lemma OOM_Malloc_ok:
  assumes "fresh_malloc malloc" "malloc j n \<noteq> 0"
  shows "alloc_ok malloc s cs \<Longrightarrow> handle s \<Longrightarrow> calls s \<le> j \<Longrightarrow>
    \<exists>p c rs. OOM_Malloc malloc n s = Some (Ptr p, s\<lparr>calls := c, regions := rs\<rparr>)
      \<and> alloc_ok malloc (s\<lparr>calls := c, regions := rs\<rparr>) (add_mset (p, n) cs)"
proof (induction "j - calls s" arbitrary: s rule: less_induct)
  case less
  obtain p s' where m: "do_malloc malloc n s = (p, s')" by (cases "do_malloc malloc n s")
  then have s': "s' = s\<lparr>calls := calls s', regions := regions s'\<rparr>" "calls s' = calls s + 1" "p = malloc (calls s) n"
    by (auto simp: do_malloc_eq)
  note ok = do_malloc_ok [OF less.prems(1) assms(1) m]
  show ?case
  proof (cases "p = 0")
    case True
    then have "calls s \<noteq> j" using assms(2) s'(3) by auto
    moreover have "handle s'" using less.prems(2) s'(1) by (metis alloc.ext_inject alloc.surjective alloc.update_convs(7,8))
    ultimately have "\<exists>p c rs. OOM_Malloc malloc n s' = Some (Ptr p, s'\<lparr>calls := c, regions := rs\<rparr>)
      \<and> alloc_ok malloc (s'\<lparr>calls := c, regions := rs\<rparr>) (add_mset (p, n) cs)"
      using less.prems(3) s'(2) ok True by (intro less.hyps) auto
    moreover have "s'\<lparr>calls := c, regions := rs\<rparr> = s\<lparr>calls := c, regions := rs\<rparr>" for c rs by (subst s'(1)) simp
    ultimately show ?thesis using less.prems(2) m True by (subst OOM_Malloc.simps) simp
  next
    case False
    moreover have "s\<lparr>calls := calls s', regions := regions s'\<rparr> = s'" using s'(1) by simp
    ultimately show ?thesis using less.prems(2) m ok
      by (intro exI [of _ p] exI [of _ "calls s'"] exI [of _ "regions s'"]) (simp add: OOM_Malloc.simps)
  qed
qed

lemma OOM_Malloc_starved:
  "handle s \<Longrightarrow> \<forall>k \<ge> calls s. malloc k n = 0 \<Longrightarrow> OOM_Malloc malloc n s = None"
proof -
  let ?P = "\<lambda>malloc n s (y :: pointer \<times> alloc). \<not> (handle s \<and> (\<forall>k \<ge> calls s. malloc k n = 0))"
  have "?P malloc n s y" if "OOM_Malloc malloc n s = Some y" for y
  proof (rule OOM_Malloc.raw_induct [where P = ?P, OF _ that])
    fix f malloc n s y
    assume step: "\<And>malloc n s y. f malloc n s = Some y \<Longrightarrow> ?P malloc n s y"
      and run: "(if \<not> handle s then Some (Bad_alloc, s)
        else case do_malloc malloc n s of (p, s) \<Rightarrow> if p \<noteq> 0 then Some (Ptr p, s) else f malloc n s) = Some y"
    show "?P malloc n s y"
    proof
      assume h: "handle s \<and> (\<forall>k \<ge> calls s. malloc k n = 0)"
      then have "f malloc n (s\<lparr>calls := calls s + 1, regions := regions s\<rparr>) = Some y"
        using run by (simp add: do_malloc_eq)
      from step [OF this] show False using h by simp
    qed
  qed
  then show "handle s \<Longrightarrow> \<forall>k \<ge> calls s. malloc k n = 0 \<Longrightarrow> OOM_Malloc malloc n s = None"
    by (cases "OOM_Malloc malloc n s") auto
qed

text \<open>An allocation ends with a block or \<open>bad_alloc\<close>, unless it is starved.\<close>

lemma malloc_Allocate_ok:
  assumes ok: "alloc_ok malloc s cs" and fresh: "fresh_malloc malloc"
  obtains (ends) r c rs where "malloc_Allocate malloc n s = Some (r, s\<lparr>calls := c, regions := rs\<rparr>)"
      "got malloc n s cs r (s\<lparr>calls := c, regions := rs\<rparr>)"
    | (starved) "malloc_Allocate malloc n s = None" "handle s" "\<forall>k \<ge> calls s. malloc k n = 0"
proof -
  obtain p s' where m: "do_malloc malloc n s = (p, s')" by (cases "do_malloc malloc n s")
  then have s': "s' = s\<lparr>calls := calls s', regions := regions s'\<rparr>" "calls s' = calls s + 1" "p = malloc (calls s) n"
    and hs: "handle s' = handle s" by (auto simp: do_malloc_eq)
  note ok' = do_malloc_ok [OF ok fresh m]
  consider (found) j where "p = 0" "handle s" "j \<ge> calls s'" "malloc j n \<noteq> 0"
    | (never) "p = 0" "handle s" "\<forall>j \<ge> calls s'. malloc j n = 0" | (direct) "\<not> (p = 0 \<and> handle s)" by blast
  then show thesis
  proof cases
    case found
    obtain q c rs where q: "OOM_Malloc malloc n s' = Some (Ptr q, s'\<lparr>calls := c, regions := rs\<rparr>)"
      "alloc_ok malloc (s'\<lparr>calls := c, regions := rs\<rparr>) (add_mset (q, n) cs)"
      using OOM_Malloc_ok [OF fresh found(4), of s' cs] ok' found hs by auto
    moreover have "s'\<lparr>calls := c, regions := rs\<rparr> = s\<lparr>calls := c, regions := rs\<rparr>" by (subst s'(1)) simp
    ultimately show thesis using ends [of "Ptr q" rs c] m found by (simp add: malloc_Allocate_def got_def)
  next
    case never
    have "malloc k n = 0" if "k \<ge> calls s" for k
      using that never(1,3) s'(2,3) by (cases "k = calls s") auto
    moreover have "malloc_Allocate malloc n s = None"
      using OOM_Malloc_starved [of s' malloc n] m never hs by (simp add: malloc_Allocate_def)
    ultimately show thesis using starved never(2) by blast
  next
    case direct
    then have "malloc_Allocate malloc n s = Some (if p = 0 then Bad_alloc else Ptr p, s')"
      using m hs by (auto simp: malloc_Allocate_def OOM_Malloc.simps)
    moreover have "got malloc n s cs (if p = 0 then Bad_alloc else Ptr p) s'" using ok' direct hs
      by (cases "p = 0") (simp_all add: got_def)
    moreover have "s\<lparr>calls := calls s', regions := regions s'\<rparr> = s'" using s'(1) by simp
    ultimately show thesis using ends [of _ "regions s'" "calls s'"] by metis
  qed
qed

lemma class_index: "8 dvd n \<Longrightarrow> 8 \<le> n \<Longrightarrow> n \<le> 128 \<Longrightarrow> FreeListIndex n < 16 \<and> 8 * (FreeListIndex n + 1) = n"
  by (auto simp: FreeListIndex_def elim!: dvdE)

text \<open>What is left of the pool goes into a free list of smaller blocks.\<close>

lemma keep_rest_ok:
  assumes ok: "alloc_ok malloc s cs" and n: "8 dvd n" "8 \<le> n" "n \<le> 128" and left: "end_free s - start_free s < n"
  shows "\<exists>l fl. (if end_free s - start_free s > 0
        then push_block (FreeListIndex (end_free s - start_free s)) (start_free s) s else Some s)
      = Some (s\<lparr>links := l, free_list := fl\<rparr>)
    \<and> (\<forall>a. alloc_ok malloc (s\<lparr>links := l, free_list := fl, start_free := a, end_free := a\<rparr>) cs)
    \<and> (\<forall>i \<ge> FreeListIndex n. fl ! i = free_list s ! i)"
proof (cases "end_free s - start_free s > 0")
  case False
  show ?thesis by (rule exI [of _ "links s"], rule exI [of _ "free_list s"]) (use False pool_none [OF ok] in simp_all)
next
  case True
  let ?l = "end_free s - start_free s" and ?p = "start_free s"
  have "8 dvd ?l" using ok unfolding alloc_ok_def shared_out_def pool_ok_def by blast
  moreover from this have "8 \<le> ?l" using True by (auto elim: dvdE)
  ultimately have i: "FreeListIndex ?l < 16" "8 * (FreeListIndex ?l + 1) = ?l" using class_index [of ?l] n left by auto
  have less: "FreeListIndex ?l < FreeListIndex n" 
  proof -
    have "8 * (FreeListIndex ?l + 1) < 8 * (FreeListIndex n + 1)"
      using class_index [OF n, THEN conjunct2] left i(2) by (simp only:)
    then show ?thesis by (simp only: nat_mult_less_cancel_disj add_less_cancel_right)
  qed
  let ?s = "s\<lparr>start_free := ?p + ?l\<rparr>"
  let ?L = "(links s)(?p := free_list s ! FreeListIndex ?l)" and ?fl = "(free_list s)[FreeListIndex ?l := ?p]"
  have ok': "alloc_ok malloc ?s (add_mset (?p, 8 * (FreeListIndex ?l + 1)) cs)"
    unfolding i(2) using \<open>8 dvd ?l\<close> True by (intro pool_cut [OF ok]) simp_all
  have "?p \<noteq> 0" using alloc_ok_not_0 [OF ok', of ?p "8 * (FreeListIndex ?l + 1)"] by simp
  note push = push_block_ok [OF ok' i(1) this]
  have "push_block (FreeListIndex ?l) ?p s = Some (s\<lparr>links := ?L, free_list := ?fl\<rparr>)"
    using push(1) i(1) by (auto simp: push_block_def set_link_def split: if_splits)
  moreover have "alloc_ok malloc (s\<lparr>links := ?L, free_list := ?fl, start_free := a, end_free := a\<rparr>) cs" for a
    using pool_none [OF push(2), of a] by simp
  moreover have "?fl ! i = free_list s ! i" if "FreeListIndex n \<le> i" for i using that less by simp
  ultimately show ?thesis using True by (intro exI [of _ ?L] exI [of _ ?fl]) simp
qed

text \<open>The second of the three cases of \<open>ChunkAlloc\<close> is avoided.\<close>

definition plain :: "(nat \<Rightarrow> nat \<Rightarrow> nat) \<Rightarrow> nat \<Rightarrow> alloc \<Rightarrow> bool" where
  "plain malloc n s \<longleftrightarrow> n * 20 \<le> end_free s - start_free s
     \<or> end_free s - start_free s < n
       \<and> (malloc (calls s) (2 * (n * 20) + RroundUp (heap_size s div 16)) \<noteq> 0
          \<or> (\<forall>i \<in> {FreeListIndex n..<16}. free_list s ! i = 0))"

lemma ChunkAlloc_first:
  "n * k \<le> end_free s - start_free s \<Longrightarrow>
   ChunkAlloc malloc n k s = Some (Ptr (start_free s), k, s\<lparr>start_free := start_free s + n * k\<rparr>)"
  by (subst ChunkAlloc.simps) (simp add: Let_def)

lemma cut_region:
  assumes ok: "alloc_ok malloc s (add_mset (p, b) cs)" and "8 dvd b" "0 < m" "m \<le> b" "8 dvd m"
  shows "alloc_ok malloc (s\<lparr>start_free := p + m, heap_size := h, end_free := p + b\<rparr>) (add_mset (p, m) cs)"
proof -
  have eq: "s\<lparr>start_free := p + m, heap_size := h, end_free := p + b\<rparr>
      = s\<lparr>start_free := p, end_free := p + b\<rparr>\<lparr>start_free := p + m\<rparr>\<lparr>heap_size := h\<rparr>"
    by (cases s) simp
  have "alloc_ok malloc (s\<lparr>start_free := p, end_free := p + b\<rparr>\<lparr>start_free := p + m\<rparr>) (add_mset (p, m) cs)"
    using pool_cut [OF pool_new [OF ok assms(2)], of m] assms(3-5) by simp
  then show ?thesis unfolding eq alloc_ok_other .
qed

lemma ChunkAlloc_ok:
  assumes ok: "alloc_ok malloc s cs" and fresh: "fresh_malloc malloc"
    and n: "8 dvd n" "8 \<le> n" "n \<le> 128" and plain: "plain malloc n s"
  obtains (ends) r s' where "ChunkAlloc malloc n 20 s = Some (r, 20, s')" "got malloc (20 * n) s cs r s'"
      "free_list s' ! FreeListIndex n = free_list s ! FreeListIndex n"
    | (starved) "ChunkAlloc malloc n 20 s = None" "starved malloc n s"
proof (cases "n * 20 \<le> end_free s - start_free s")
  case True
  have "alloc_ok malloc (s\<lparr>start_free := start_free s + n * 20\<rparr>) (add_mset (start_free s, n * 20) cs)"
    using n True by (intro pool_cut [OF ok]) simp_all
  then show thesis using ends [OF ChunkAlloc_first [OF True]] by (simp add: got_def mult.commute)
next
  case False
  note result = ends
  have left: "end_free s - start_free s < n" using plain False unfolding plain_def by auto
  let ?b = "2 * (n * 20) + RroundUp (heap_size s div 16)"
  have b: "8 dvd ?b" "n * 20 \<le> ?b" using n(1) by (simp_all add: RroundUp_def)
  obtain l fl where keep: "(if end_free s - start_free s > 0
        then push_block (FreeListIndex (end_free s - start_free s)) (start_free s) s else Some s)
      = Some (s\<lparr>links := l, free_list := fl\<rparr>)"
    and ok1: "\<And>a. alloc_ok malloc (s\<lparr>links := l, free_list := fl, start_free := a, end_free := a\<rparr>) cs"
    and fl: "\<And>i. FreeListIndex n \<le> i \<Longrightarrow> fl ! i = free_list s ! i"
    using keep_rest_ok [OF ok n left] by blast
  let ?s1 = "s\<lparr>links := l, free_list := fl\<rparr>"
  let ?p = "malloc (calls s) ?b"
  let ?rs = "(if ?p = 0 then [] else [(?p, ?b)]) @ regions s"
  let ?s2 = "?s1\<lparr>calls := calls s + 1, regions := ?rs\<rparr>"
  have m1: "do_malloc malloc ?b ?s1 = (?p, ?s2)" by (simp add: do_malloc_eq)
  have m2: "do_malloc malloc ?b (?s1\<lparr>start_free := 0, end_free := 0\<rparr>) = (?p, ?s2\<lparr>start_free := 0, end_free := 0\<rparr>)"
    by (simp add: do_malloc_eq)
  note ok2 = do_malloc_ok [OF ok1 fresh m2]
  have region: thesis
    if s3: "alloc_ok malloc s3 (add_mset (p, ?b) cs)" "handle s3 = handle s" "free_list s3 = fl"
      and eq: "ChunkAlloc malloc n 20 s = ChunkAlloc malloc n 20
        (s3\<lparr>start_free := p, heap_size := heap_size s + ?b, end_free := p + ?b\<rparr>)" for p s3
  proof -
    let ?s4 = "s3\<lparr>start_free := p, heap_size := heap_size s + ?b, end_free := p + ?b\<rparr>"
    have "ChunkAlloc malloc n 20 s = Some (Ptr p, 20, s3\<lparr>start_free := p + n * 20, heap_size := heap_size s + ?b, end_free := p + ?b\<rparr>)"
      unfolding eq using b(2) by (subst ChunkAlloc_first) simp_all
    moreover have "alloc_ok malloc (s3\<lparr>start_free := p + n * 20, heap_size := heap_size s + ?b, end_free := p + ?b\<rparr>)
        (add_mset (p, n * 20) cs)"
      by (rule cut_region [OF s3(1) b(1)]) (use b(2) n in simp_all)
    ultimately show thesis using result [of "Ptr p"] s3(2,3) fl [of "FreeListIndex n"] by (simp add: got_def mult.commute)
  qed
  show thesis
  proof (cases "?p = 0")
    case ne: False
    have "alloc_ok malloc (?s2\<lparr>start_free := 0, end_free := 0\<rparr>) (add_mset (?p, ?b) cs)" using ok2 ne by simp
    then show thesis
      by (rule region) (use False left keep m1 ne in \<open>simp_all add: ChunkAlloc.simps [of malloc n 20 s] Let_def\<close>)
  next
    case eq0: True
    have "List.find (\<lambda>i. fl ! i \<noteq> 0) [FreeListIndex n..<16] = None"
      using plain left eq0 False fl unfolding plain_def find_None_iff by auto
    then have c: "ChunkAlloc malloc n 20 s = Option.bind (malloc_Allocate malloc ?b (?s2\<lparr>start_free := 0, end_free := 0\<rparr>))
        (\<lambda>(r, s). case r of Bad_alloc \<Rightarrow> Some (Bad_alloc, 20, s)
           | Ptr p \<Rightarrow> ChunkAlloc malloc n 20
              (s\<lparr>start_free := p, heap_size := heap_size s + ?b, end_free := p + ?b\<rparr>))"
      using False left keep m1 eq0
      by (simp add: ChunkAlloc.simps [of malloc n 20 s] Let_def cong: pointer.case_cong)
    let ?s3 = "?s2\<lparr>start_free := 0, end_free := 0\<rparr>"
    have ok3: "alloc_ok malloc ?s3 cs" using ok2 eq0 by simp
    show thesis
    proof (cases rule: malloc_Allocate_ok [OF ok3 fresh, of ?b, case_names ends starved])
      case r: (ends r k rs)
      show thesis
      proof (cases r)
        case (Ptr p)
        show thesis by (rule region [of "?s3\<lparr>calls := k, regions := rs\<rparr>" p]) (use r Ptr c in \<open>simp_all add: got_def\<close>)
      next
        case Bad_alloc
        then show thesis using result [of Bad_alloc "?s3\<lparr>calls := k, regions := rs\<rparr>"] r c fl [of "FreeListIndex n"]
          by (simp add: got_def)
      qed
    next
      case never: starved
      have c3: "calls ?s3 = calls s + 1" "handle ?s3 = handle s" by simp_all
      have "malloc k ?b = 0" if k: "k \<ge> calls s" for k
      proof (cases "k = calls s")
        case True
        then show ?thesis using eq0 by (simp only:)
      next
        case False
        then have "calls ?s3 \<le> k" using k c3(1) by linarith
        then show ?thesis using never(3) by blast
      qed
      moreover have "n \<le> ?b" by simp
      ultimately have "starved malloc n s" using never(2) c3(2) unfolding starved_def by blast
      moreover have "ChunkAlloc malloc n 20 s = None" unfolding c never(1) by simp
      ultimately show thesis by (rule starved [rotated])
    qed
  qed
qed

lemma Refill_ok:
  assumes ok: "alloc_ok malloc s cs" and fresh: "fresh_malloc malloc"
    and n: "8 dvd n" "8 \<le> n" "n \<le> 128" and plain: "plain malloc n s" and empty: "free_list s ! FreeListIndex n = 0"
  obtains (ends) r s' where "Refill malloc n s = Some (r, s')" "got malloc n s cs r s'"
    | (starved) "Refill malloc n s = None" "starved malloc n s"
proof (cases rule: ChunkAlloc_ok [OF ok fresh n plain, case_names ends starved])
  case starved
  then show thesis using that(2) by (simp add: Refill_def)
next
  case c: (ends r s1)
  show thesis
  proof (cases r)
    case Bad_alloc
    then show thesis using c that(1) by (simp add: Refill_def got_def)
  next
    case (Ptr p)
    let ?i = "FreeListIndex n" and ?ps = "map (\<lambda>j. p + n + j * n) [0..<18]"
    note i = class_index [OF n]
    have "alloc_ok malloc s1 (add_mset (p, 20 * n) cs)" using c(2) Ptr by (simp add: got_def)
    from split_row [OF this] have "alloc_ok malloc s1 (row p n (Suc (Suc 18)) + cs)" by simp
    moreover have "row p n (Suc (Suc 18)) = add_mset (p, n) (add_mset (p + n + 18 * n, n) (row (p + n) n 18))"
      unfolding row_first [of p n] by (simp only: row_simps)
    ultimately have ok1: "alloc_ok malloc s1 (row (p + n) n 18 + add_mset (p, n) cs)"
      by (auto intro: alloc_ok_sub)
    from link_loop_ok [OF this, of 18 "p + n" n 0] in_row [of _ 18 "p + n" n] n(2)
    obtain l where l: "link_loop 18 0 (p + n) n s1 = Some (p + n + 17 * n, s1\<lparr>links := l\<rparr>)"
      "alloc_ok malloc (s1\<lparr>links := l\<rparr>) (row (p + n) n 18 + add_mset (p, n) cs)"
      "\<forall>j < 18. l (p + n + j * n) = p + n + (j + 1) * n" by auto
    have "(p + n + 17 * n, n) \<in># row (p + n) n 18 + add_mset (p, n) cs" using in_row [of 17 18 "p + n" n] by simp
    note set = set_link_ok [OF l(2) this n(2), of 0]
    let ?l = "l(p + n + 17 * n := 0)"
    have "free_chain ?l (if 18 = (0::nat) then 0 else p + n) ?ps"
      by (rule free_chain_row) (use n(2) l(3) in \<open>auto simp: mult_eq_self_implies_10\<close>)
    moreover have "row (p + n) n 18 = mset (map (\<lambda>p. (p, 8 * (?i + 1))) ?ps)"
      unfolding i [THEN conjunct2] by (simp add: row_def o_def)
    ultimately have "alloc_ok malloc (s1\<lparr>links := ?l\<rparr>\<lparr>free_list := (free_list s1)[?i := p + n]\<rparr>) (add_mset (p, n) cs)"
      using attach_ok [of malloc "s1\<lparr>links := ?l\<rparr>" ?i ?ps "add_mset (p, n) cs" "p + n"] set(2) i c(3) empty by simp
    moreover have "Refill malloc n s = Some (Ptr p, s1\<lparr>links := ?l\<rparr>\<lparr>free_list := (free_list s1)[?i := p + n]\<rparr>)"
      using c(1) Ptr l(1) set(1) by (simp add: Refill_def link_loop_free_list set_link_free_list)
    ultimately show thesis using that(1) [of "Ptr p"] c(2) Ptr by (simp add: got_def)
  qed
qed

section \<open>The interface\<close>

text \<open>The size of the block that is handed out for \<open>n\<close> bytes.\<close>

definition block_size :: "nat \<Rightarrow> nat" where "block_size n = (if n > 128 then n else RroundUp n)"

definition avoids :: "(nat \<Rightarrow> nat \<Rightarrow> nat) \<Rightarrow> nat \<Rightarrow> alloc \<Rightarrow> bool" where
  "avoids malloc n s \<longleftrightarrow> n > 128 \<or> 0 < n \<and> (free_list s ! FreeListIndex n \<noteq> 0 \<or> plain malloc (RroundUp n) s)"

lemma RroundUp_class: "0 < n \<Longrightarrow> n \<le> 128 \<Longrightarrow>
  8 dvd RroundUp n \<and> 8 \<le> RroundUp n \<and> RroundUp n \<le> 128 \<and> FreeListIndex (RroundUp n) = FreeListIndex n
  \<and> 8 * (FreeListIndex n + 1) = RroundUp n \<and> FreeListIndex n < 16 \<and> n \<le> RroundUp n"
  unfolding RroundUp_def FreeListIndex_def by auto

lemma starved_mono: "starved malloc n s \<Longrightarrow> m \<le> n \<Longrightarrow> starved malloc m s"
  unfolding starved_def using le_trans by blast

lemma Allocate_ok:
  assumes ok: "alloc_ok malloc s cs" and fresh: "fresh_malloc malloc" and av: "avoids malloc n s"
  obtains (ends) r s' where "Allocate malloc n s = Some (r, s')" "got malloc (block_size n) s cs r s'"
    | (starved) "Allocate malloc n s = None" "starved malloc n s"
proof -
  consider "n > 128" | "0 < n" "n \<le> 128" "free_list s ! FreeListIndex n \<noteq> 0"
    | "0 < n" "n \<le> 128" "free_list s ! FreeListIndex n = 0" "plain malloc (RroundUp n) s"
    using av unfolding avoids_def by linarith
  then show thesis
  proof cases
    case 1
    show thesis
    proof (cases rule: malloc_Allocate_ok [OF ok fresh, of n, case_names ends starved])
      case ends
      then show thesis using that(1) 1 by (auto simp: Allocate_def block_size_def)
    next
      case starved
      then have "starved malloc n s" unfolding starved_def by blast
      then show thesis using that(2) starved 1 by (simp add: Allocate_def)
    qed
  next
    case 2
    note c = RroundUp_class [OF 2(1,2)]
    obtain s' where "pop_block (FreeListIndex n) s = Some (free_list s ! FreeListIndex n, s')"
      "alloc_ok malloc s' (add_mset (free_list s ! FreeListIndex n, 8 * (FreeListIndex n + 1)) cs)"
      "\<exists>q. s' = s\<lparr>free_list := (free_list s)[FreeListIndex n := q]\<rparr>"
      using pop_block_ok [OF ok _ 2(3)] c by blast
    then show thesis using that(1) [of "Ptr (free_list s ! FreeListIndex n)" s'] 2 c
      by (auto simp: Allocate_def block_size_def got_def)
  next
    case 3
    note c = RroundUp_class [OF 3(1,2)]
    have n: "8 dvd RroundUp n" "8 \<le> RroundUp n" "RroundUp n \<le> 128"
      "free_list s ! FreeListIndex (RroundUp n) = 0" using c 3(3) by simp_all
    show thesis
    proof (cases rule: Refill_ok [OF ok fresh n(1-3) 3(4) n(4), case_names ends starved])
      case ends
      then show thesis using that(1) 3 by (simp add: Allocate_def block_size_def)
    next
      case starved
      then show thesis using that(2) starved_mono [OF starved(2)] c 3 by (simp add: Allocate_def)
    qed
  qed
qed

lemma Deallocate_ok:
  assumes ok: "alloc_ok malloc s (add_mset (p, RroundUp n) cs)" and n: "0 < n" "n \<le> 128"
  shows "\<exists>s'. Deallocate p n s = Some s' \<and> alloc_ok malloc s' cs \<and> handle s' = handle s
    \<and> (\<exists>s''. Allocate malloc n s' = Some (Ptr p, s'') \<and> free_list s'' = free_list s)"
proof -
  note c = RroundUp_class [OF n]
  have "p \<noteq> 0" using alloc_ok_not_0 [OF ok, of p "RroundUp n"] by simp
  have ok': "alloc_ok malloc s (add_mset (p, 8 * (FreeListIndex n + 1)) cs)" using ok c by simp
  let ?s' = "s\<lparr>links := (links s)(p := free_list s ! FreeListIndex n), free_list := (free_list s)[FreeListIndex n := p]\<rparr>"
  have push: "push_block (FreeListIndex n) p s = Some ?s'"
    and ok'': "alloc_ok malloc ?s' cs" using push_block_ok [OF ok' _ \<open>p \<noteq> 0\<close>] c by blast+
  have "length (free_list s) = 16" using ok unfolding alloc_ok_def shared_out_def lists_ok_def by blast
  moreover have "inside s p 8" using inside_part [OF alloc_ok_inside [OF ok, of p "RroundUp n"], of p 8] c by simp
  ultimately have "pop_block (FreeListIndex n) ?s' = Some (p, ?s'\<lparr>free_list := free_list s\<rparr>)"
    using c by (simp add: pop_block_def get_link_def)
  then show ?thesis using push ok'' n c \<open>p \<noteq> 0\<close> \<open>length (free_list s) = 16\<close> by (simp add: Deallocate_def Allocate_def)
qed

text \<open>
  The states that a program can reach, with the blocks it has: it sets or removes a handler, asks for blocks of
  at least one byte without coming to the second case of \<open>ChunkAlloc\<close>, gives blocks of at most 128 bytes back
  with the size it asked for, and writes into its blocks.
\<close>

inductive uses :: "(nat \<Rightarrow> nat \<Rightarrow> nat) \<Rightarrow> alloc \<Rightarrow> (nat \<times> nat) multiset \<Rightarrow> bool" for malloc where
  start: "uses malloc fresh_alloc {#}"
| handler: "uses malloc s cs \<Longrightarrow> uses malloc (snd (SetMallocHandler f s)) cs"
| get: "uses malloc s cs \<Longrightarrow> avoids malloc n s \<Longrightarrow> Allocate malloc n s = Some (Ptr p, s') \<Longrightarrow>
    uses malloc s' (add_mset (p, block_size n) cs)"
| fail: "uses malloc s cs \<Longrightarrow> avoids malloc n s \<Longrightarrow> Allocate malloc n s = Some (Bad_alloc, s') \<Longrightarrow> uses malloc s' cs"
| give: "uses malloc s (add_mset (p, RroundUp n) cs) \<Longrightarrow> 0 < n \<Longrightarrow> n \<le> 128 \<Longrightarrow> Deallocate p n s = Some s' \<Longrightarrow>
    uses malloc s' cs"
| store: "uses malloc s cs \<Longrightarrow> (p, n) \<in># cs \<Longrightarrow> p \<le> a \<Longrightarrow> a < p + n \<Longrightarrow> uses malloc (s\<lparr>links := (links s)(a := v)\<rparr>) cs"

lemma fresh_alloc_ok: "alloc_ok malloc fresh_alloc {#}"
  by (rule alloc_okI [of _ _ _ "\<lambda>_. []"])
    (simp_all add: fresh_alloc_def regions_ok_def pool_ok_def lists_ok_def free_bytes_def pool_def single_def)

lemma uses_ok:
  assumes fresh: "fresh_malloc malloc"
  shows "uses malloc s cs \<Longrightarrow> alloc_ok malloc s cs"
proof (induction rule: uses.induct)
  case start
  show ?case by (rule fresh_alloc_ok)
next
  case (handler s cs f)
  then show ?case by (simp add: SetMallocHandler_def)
next
  case (get s cs n p s')
  then show ?case using Allocate_ok [OF get.IH fresh get.hyps(2)] by (fastforce simp: got_def)
next
  case (fail s cs n s')
  then show ?case using Allocate_ok [OF fail.IH fresh fail.hyps(2)] by (fastforce simp: got_def)
next
  case (give s p n cs s')
  then show ?case using Deallocate_ok [of malloc s p n cs] by auto
next
  case (store s cs p n a v)
  then show ?case using write_ok [of malloc s cs p n a v] by simp
qed

lemma count_owned: "count (owned cs) x = size {#c \<in># cs. fst c \<le> x \<and> x < fst c + snd c#}"
  by (induction cs) (auto simp: count_ext)

text \<open>The second case of \<open>ChunkAlloc\<close> adds the size of what it hands out before it takes the address.\<close>

lemma link_loop_result: "link_loop k c x n s = Some (c', s') \<Longrightarrow> \<exists>l. s' = s\<lparr>links := l\<rparr>"
proof (induction k arbitrary: c x s)
  case (Suc k)
  then obtain t where t: "set_link x (x + n) s = Some t" "link_loop k x (x + n) n t = Some (c', s')"
    by (auto simp: bind_eq_Some_conv)
  from Suc.IH [OF t(2)] t(1) show ?case by (auto simp: set_link_def split: if_splits)
next
  case 0
  then show ?case by (intro exI [of _ "links s"]) simp
qed

lemma Refill_result:
  "Refill malloc n s = Some (r, s') \<Longrightarrow>
   \<exists>k s1 l fl. ChunkAlloc malloc n 20 s = Some (r, k, s1) \<and> s' = s1\<lparr>links := l, free_list := fl\<rparr>
     \<and> (\<forall>i. i \<noteq> FreeListIndex n \<longrightarrow> fl ! i = free_list s1 ! i)"
proof -
  assume r: "Refill malloc n s = Some (r, s')"
  then obtain c k s1 where c: "ChunkAlloc malloc n 20 s = Some (c, k, s1)" by (auto simp: Refill_def bind_eq_Some_conv)
  have same: "s1 = s1\<lparr>links := links s1, free_list := free_list s1\<rparr>" by simp
  show ?thesis
  proof (cases "c = Bad_alloc \<or> k = 1")
    case True
    then have "r = c" "s' = s1" using r c by (auto simp: Refill_def split: pointer.splits)
    then show ?thesis using c same by blast
  next
    case False
    then obtain p where p: "c = Ptr p" by (cases c) auto
    let ?fl = "(free_list s1)[FreeListIndex n := p + n]"
    obtain d t where t: "link_loop (k - 2) 0 (p + n) n (s1\<lparr>free_list := ?fl\<rparr>) = Some (d, t)" "set_link d 0 t = Some s'" "r = c"
      using r c p False by (auto simp: Refill_def bind_eq_Some_conv)
    obtain l where "t = s1\<lparr>free_list := ?fl\<rparr>\<lparr>links := l\<rparr>" using link_loop_result [OF t(1)] by blast
    then have "s' = s1\<lparr>links := l(d := 0), free_list := ?fl\<rparr>" using t(2) by (auto simp: set_link_def split: if_splits)
    moreover have "\<forall>i. i \<noteq> FreeListIndex n \<longrightarrow> ?fl ! i = free_list s1 ! i" by simp
    ultimately show ?thesis using c t(3) by blast
  qed
qed

lemma ChunkAlloc_fresh:
  assumes "ChunkAlloc malloc n 20 fresh_alloc = Some (Ptr p, k, s)" "8 \<le> n"
  shows "regions s = [(p, 40 * n)] \<and> start_free s = p + 20 * n \<and> end_free s = p + 40 * n \<and> free_list s = replicate 16 0"
proof -
  have none: "List.find (\<lambda>i. replicate 16 (0::nat) ! i \<noteq> 0) [FreeListIndex n..<16] = None"
    by (auto simp: find_None_iff)
  show ?thesis
  proof (cases "malloc 0 (40 * n) = 0 \<and> malloc 1 (40 * n) = 0")
    case True
    then show ?thesis using assms(1) [unfolded ChunkAlloc.simps [of malloc n 20 fresh_alloc]] assms(2) none
      by (simp add: fresh_alloc_def do_malloc_eq RroundUp_def
          malloc_Allocate_def OOM_Malloc.simps Let_def)
  next
    case False
    then show ?thesis using assms(1) [unfolded ChunkAlloc.simps [of malloc n 20 fresh_alloc]] assms(2) none
      by (auto simp: fresh_alloc_def do_malloc_eq RroundUp_def
          malloc_Allocate_def ChunkAlloc_first Let_def split: if_splits)
  qed
qed

lemma ChunkAlloc_second:
  "n \<le> end_free s - start_free s \<Longrightarrow> end_free s - start_free s < n * k \<Longrightarrow>
   ChunkAlloc malloc n k s = (let m = (end_free s - start_free s) div n * n in
     Some (Ptr (start_free s + m), (end_free s - start_free s) div n, s\<lparr>start_free := start_free s + m\<rparr>))"
  by (subst ChunkAlloc.simps) (simp add: Let_def)

section \<open>The properties\<close>

definition demo_malloc :: "nat \<Rightarrow> nat \<Rightarrow> nat" where
  "demo_malloc k n = (if n \<le> 2 ^ 20 then (k + 1) * 2 ^ 20 else 0)"

lemma demo_malloc_fresh: "fresh_malloc demo_malloc"
proof -
  have "(j + 1) * 2 ^ 20 + 2 ^ 20 \<le> (k + 1) * (2 ^ 20 :: nat)" if "j < k" for j k
    using mult_le_mono1 [of "j + 2" "k + 1" "2 ^ 20 :: nat"] that by (simp only: add_mult_distrib) simp
  then show ?thesis unfolding fresh_malloc_def demo_malloc_def by (fastforce split: if_splits)
qed

text \<open>
  C21. Take a program that asks for blocks of at least one byte, gives back only blocks of at most 128 bytes, each
  with the size it asked for, writes only into blocks it has, sets and removes handlers, and never comes to the
  second case of \<open>ChunkAlloc\<close>; and let new memory of \<open>malloc\<close> not overlap what it returned before.  Then the
  blocks of the program lie in memory from \<open>malloc\<close> and no byte is in two of them.  The next such request
  returns a block of at least its size, apart from the others, or \<open>bad_alloc\<close>, and that only without a handler;
  it does not return only when a handler is installed and \<open>malloc\<close> refuses every further request of some size
  that is no smaller.  A block of at most 128 bytes can be given back, and the next request of its size gets it
  again.  An installed handler is taken to return without touching the allocator.
\<close>

theorem allocator_blocks_apart:
  assumes "uses malloc s cs" "fresh_malloc malloc"
  shows "(\<forall>(p, n) \<in># cs. inside s p n) \<and> (\<forall>x. size {#c \<in># cs. fst c \<le> x \<and> x < fst c + snd c#} \<le> 1)
    \<and> (avoids malloc n s \<longrightarrow> n \<le> block_size n \<and> (case Allocate malloc n s of
          Some (Ptr p, s') \<Rightarrow> uses malloc s' (add_mset (p, block_size n) cs)
        | Some (Bad_alloc, s') \<Rightarrow> \<not> handle s \<and> uses malloc s' cs
        | None \<Rightarrow> handle s \<and> (\<exists>m \<ge> n. \<forall>k \<ge> calls s. malloc k m = 0)))
    \<and> (cs = add_mset (p, RroundUp m) cs' \<and> 0 < m \<and> m \<le> 128 \<longrightarrow> (\<exists>s'. Deallocate p m s = Some s' \<and> uses malloc s' cs'
        \<and> (\<exists>s''. Allocate malloc m s' = Some (Ptr p, s''))))"
proof (intro conjI impI)
  note ok = uses_ok [OF assms(2,1)]
  show "\<forall>(p, n) \<in># cs. inside s p n" using alloc_ok_inside [OF ok] by blast
  have "single (owned cs)" using ok unfolding alloc_ok_def shared_out_def by (auto simp: single_add)
  then show "\<forall>x. size {#c \<in># cs. fst c \<le> x \<and> x < fst c + snd c#} \<le> 1" by (simp add: single_def count_owned)
  show "n \<le> block_size n" unfolding block_size_def RroundUp_def by (simp, presburger)
  show "case Allocate malloc n s of
          Some (Ptr p, s') \<Rightarrow> uses malloc s' (add_mset (p, block_size n) cs)
        | Some (Bad_alloc, s') \<Rightarrow> \<not> handle s \<and> uses malloc s' cs
        | None \<Rightarrow> handle s \<and> (\<exists>m \<ge> n. \<forall>k \<ge> calls s. malloc k m = 0)" if av: "avoids malloc n s"
  proof (cases rule: Allocate_ok [OF ok assms(2) av, case_names ends starved])
    case (ends r s')
    then show ?thesis using uses.get [OF assms(1) av] uses.fail [OF assms(1) av]
      by (cases r) (simp_all add: got_def)
  qed (simp add: starved_def)
  show "\<exists>s'. Deallocate p m s = Some s' \<and> uses malloc s' cs' \<and> (\<exists>s''. Allocate malloc m s' = Some (Ptr p, s''))"
    if c: "cs = add_mset (p, RroundUp m) cs' \<and> 0 < m \<and> m \<le> 128"
  proof -
    have m: "0 < m" "m \<le> 128" and cs: "cs = add_mset (p, RroundUp m) cs'" using c by simp_all
    from Deallocate_ok [OF ok [unfolded cs] m] uses.give [OF assms(1) [unfolded cs] m]
    show ?thesis by blast
  qed
qed

theorem allocator_blocks_apart_witness:
  "case Allocate demo_malloc 8 fresh_alloc of
     Some (Ptr p, s') \<Rightarrow> uses demo_malloc s' {#(p, 8)#}
   | Some (Bad_alloc, s') \<Rightarrow> \<not> handle fresh_alloc \<and> uses demo_malloc s' {#}
   | None \<Rightarrow> handle fresh_alloc \<and> (\<exists>m \<ge> 8. \<forall>k \<ge> calls fresh_alloc. demo_malloc k m = 0)"
proof -
  have "avoids demo_malloc 8 fresh_alloc"
    by (simp add: avoids_def plain_def demo_malloc_def fresh_alloc_def RroundUp_def)
  moreover have "block_size 8 = 8" by (simp add: block_size_def RroundUp_def)
  ultimately show ?thesis
    using allocator_blocks_apart [OF uses.start demo_malloc_fresh, of 8]
    by (simp cong: pointer.case_cong option.case_cong)
qed

text \<open>
  C22. The second case of \<open>ChunkAlloc\<close> hands out memory that is not the allocator's: after a first request of
  some size, a request of a larger class (up to 128 bytes) has undefined behaviour, or returns a block that
  reaches over the end of the memory obtained from \<open>malloc\<close>.
\<close>

theorem allocator_overruns:
  assumes "0 < m" "RroundUp m < RroundUp n" "n \<le> 128" "Allocate malloc m fresh_alloc = Some (Ptr q, s)"
  shows "Allocate malloc n s = None \<or> (\<exists>p s'. Allocate malloc n s = Some (Ptr p, s') \<and> \<not> inside s' p n)"
proof (cases "Allocate malloc n s")
  case (Some rs)
  obtain r s' where rs: "rs = (r, s')" by (cases rs)
  have m: "m \<le> 128" using assms(2,3) by (auto simp: RroundUp_def)
  have n: "0 < n" using assms(2) by (cases n) (auto simp: RroundUp_def)
  let ?M = "RroundUp m" and ?N = "RroundUp n"
  note M = RroundUp_class [OF assms(1) m] and N = RroundUp_class [OF n assms(3)]
  have "free_list fresh_alloc ! FreeListIndex m = 0" using M by (simp add: fresh_alloc_def)
  then have "Refill malloc ?M fresh_alloc = Some (Ptr q, s)" using assms(1,4) m by (simp add: Allocate_def)
  from Refill_result [OF this] obtain k s1 l fl where s: "ChunkAlloc malloc ?M 20 fresh_alloc = Some (Ptr q, k, s1)"
    "s = s1\<lparr>links := l, free_list := fl\<rparr>" "\<forall>i. i \<noteq> FreeListIndex m \<longrightarrow> fl ! i = free_list s1 ! i" using M by auto
  then have s1: "regions s = [(q, 40 * ?M)]" "start_free s = q + 20 * ?M" "end_free s = q + 40 * ?M"
    "free_list s1 = replicate 16 0" using ChunkAlloc_fresh [OF s(1)] M by simp_all
  have "FreeListIndex n \<noteq> FreeListIndex m" using M N assms(2) by auto
  then have "free_list s ! FreeListIndex n = 0" using s(2,3) s1(4) N by simp
  then have "Refill malloc ?N s = Some (r, s')" using Some rs n assms(3) by (simp add: Allocate_def)
  from Refill_result [OF this] obtain k' s2 l' fl' where s': "ChunkAlloc malloc ?N 20 s = Some (r, k', s2)"
    "s' = s2\<lparr>links := l', free_list := fl'\<rparr>" by blast
  have left: "end_free s - start_free s = 20 * ?M" using s1 by simp
  have "?N \<le> 20 * ?M" "20 * ?M < ?N * 20" using M N assms(2) by auto
  then have r: "r = Ptr (start_free s + 20 * ?M div ?N * ?N)" "regions s' = regions s"
    using s' ChunkAlloc_second [of ?N s 20 malloc] left by (auto simp: Let_def)
  have "8 dvd 20 * ?M mod ?N" using M N by (intro dvd_mod) auto
  moreover have "20 * ?M mod ?N < ?N" using N by (intro mod_less_divisor) simp
  ultimately obtain j where "20 * ?M mod ?N = 8 * j" "8 * j < ?N" by (auto elim: dvdE)
  then have "20 * ?M mod ?N < n" using div_times_less_eq_dividend [of "n + 7" 8] by (simp add: RroundUp_def)
  moreover have "20 * ?M div ?N * ?N + 20 * ?M mod ?N = 20 * ?M" by (rule div_mult_mod_eq)
  ultimately have "start_free s + 20 * ?M div ?N * ?N + n > q + 40 * ?M" using s1(2) by linarith
  then show ?thesis using Some rs r s1(1) by (simp add: inside_def)
qed simp

theorem allocator_overruns_witness:
  "\<exists>s. Allocate demo_malloc 8 fresh_alloc = Some (Ptr (2 ^ 20), s)
     \<and> (Allocate demo_malloc 16 s = None \<or> (\<exists>p s'. Allocate demo_malloc 16 s = Some (Ptr p, s') \<and> \<not> inside s' p 16))"
proof -
  have loop: "link_loop (numeral k) c x n s = Option.bind (set_link x (x + n) s) (link_loop (pred_numeral k) x (x + n) n)"
    for k c x n s unfolding numeral_eq_Suc by simp
  have "ChunkAlloc demo_malloc 8 20 fresh_alloc = Some (Ptr (2 ^ 20), 20, fresh_alloc\<lparr>start_free := 2 ^ 20 + 160,
      heap_size := 320, end_free := 2 ^ 20 + 320, regions := [(2 ^ 20, 320)], calls := 1\<rparr>)"
    unfolding ChunkAlloc.simps [of demo_malloc 8 20 fresh_alloc]
    by (simp add: ChunkAlloc_first fresh_alloc_def RroundUp_def demo_malloc_def do_malloc_eq)
  then obtain s where "Allocate demo_malloc 8 fresh_alloc = Some (Ptr (2 ^ 20), s)"
    by (simp add: Allocate_def Refill_def RroundUp_def FreeListIndex_def fresh_alloc_def loop set_link_def inside_def)
  then show ?thesis using allocator_overruns [of 8 16 demo_malloc "2 ^ 20" s] by (simp add: RroundUp_def)
qed

end
