(* ===== verification/Part_Sorts.thy ===== *)
theory Part_Sorts
  imports Sorts "HOL-Library.Monad_Syntax"
begin

text \<open>
  The three partitions of \<open>Algorithm/Sort/sort.h\<close> and the quick sort with a stack.  The function that
  chooses the index of the pivot is an argument (\<open>middle\<close>); the code has \<open>GetMiddleIndex\<close> for it.  \<open>None\<close> is an
  access outside the array or a loop that does not end.
\<close>

section \<open>Definitions from the code\<close>

text \<open>The lines that the three partitions begin with; \<open>mid\<close> is an \<open>int\<close>.\<close>

definition pivot_last :: "(int list \<Rightarrow> nat \<Rightarrow> nat \<Rightarrow> int) \<Rightarrow> int list \<Rightarrow> nat \<Rightarrow> nat \<Rightarrow> int list option" where
  "pivot_last middle a left right =
     (if left < length a \<and> right < length a then
        let mid = middle a left right in
        if 0 \<le> mid \<and> nat mid < length a then Some (Swap right (nat mid) a) else None
      else None)"

subsection \<open>PartSort1\<close>

function skip_small :: "nat \<Rightarrow> nat \<Rightarrow> int \<Rightarrow> int list \<Rightarrow> nat" where
  "skip_small begin end key a = (if begin < end \<and> a ! begin \<le> key then skip_small (begin + 1) end key a else begin)"
  by pat_completeness auto
termination by (relation "measure (\<lambda>(begin, end, key, a). end - begin)") auto

function skip_large :: "nat \<Rightarrow> nat \<Rightarrow> int \<Rightarrow> int list \<Rightarrow> nat" where
  "skip_large begin end key a = (if begin < end \<and> key \<le> a ! end then skip_large begin (end - 1) key a else end)"
  by pat_completeness auto
termination by (relation "measure (\<lambda>(begin, end, key, a). end - begin)") auto

declare skip_small.simps [simp del] skip_large.simps [simp del]

lemma skip_small_ok:
  "begin \<le> end \<Longrightarrow> begin \<le> skip_small begin end key a \<and> skip_small begin end key a \<le> end
     \<and> (\<forall>x. begin \<le> x \<and> x < skip_small begin end key a \<longrightarrow> a ! x \<le> key)
     \<and> (skip_small begin end key a < end \<longrightarrow> key < a ! skip_small begin end key a)"
proof (induction "begin" "end" key a rule: skip_small.induct)
  case (1 bg ed key a)
  show ?case
  proof (cases "bg < ed \<and> a ! bg \<le> key")
    case True
    then have "skip_small bg ed key a = skip_small (bg + 1) ed key a" by (subst skip_small.simps) simp
    moreover have IH: "bg + 1 \<le> skip_small (bg + 1) ed key a \<and> skip_small (bg + 1) ed key a \<le> ed
        \<and> (\<forall>x. bg + 1 \<le> x \<and> x < skip_small (bg + 1) ed key a \<longrightarrow> a ! x \<le> key)
        \<and> (skip_small (bg + 1) ed key a < ed \<longrightarrow> key < a ! skip_small (bg + 1) ed key a)"
      using True by (intro "1.IH") simp_all
    moreover have "a ! x \<le> key" if "bg \<le> x" "x < skip_small (bg + 1) ed key a" for x
      using that IH True by (cases "x = bg") auto
    ultimately show ?thesis by simp
  next
    case False
    then show ?thesis using "1.prems" by (subst (1 2 3 4 5) skip_small.simps) auto
  qed
qed

lemma skip_large_ok:
  "begin \<le> end \<Longrightarrow> begin \<le> skip_large begin end key a \<and> skip_large begin end key a \<le> end
     \<and> (\<forall>x. skip_large begin end key a < x \<and> x \<le> end \<longrightarrow> key \<le> a ! x)
     \<and> (begin < skip_large begin end key a \<longrightarrow> a ! skip_large begin end key a < key)"
proof (induction "begin" "end" key a rule: skip_large.induct)
  case (1 bg ed key a)
  show ?case
  proof (cases "bg < ed \<and> key \<le> a ! ed")
    case True
    then have "skip_large bg ed key a = skip_large bg (ed - 1) key a" by (subst skip_large.simps) simp
    moreover have IH: "bg \<le> skip_large bg (ed - 1) key a \<and> skip_large bg (ed - 1) key a \<le> ed - 1
        \<and> (\<forall>x. skip_large bg (ed - 1) key a < x \<and> x \<le> ed - 1 \<longrightarrow> key \<le> a ! x)
        \<and> (bg < skip_large bg (ed - 1) key a \<longrightarrow> a ! skip_large bg (ed - 1) key a < key)"
      using True by (intro "1.IH") auto
    moreover have "key \<le> a ! x" if "skip_large bg (ed - 1) key a < x" "x \<le> ed" for x
      using that IH True by (cases "x = ed") auto
    ultimately show ?thesis by auto
  next
    case False
    then show ?thesis using "1.prems" by (subst (1 2 3 4 5) skip_large.simps) auto
  qed
qed

function meet_loop :: "nat \<Rightarrow> nat \<Rightarrow> int \<Rightarrow> int list \<Rightarrow> (nat \<times> int list) option" where
  "meet_loop begin end key a =
     (if begin < end then
        if end < length a then
          let begin' = skip_small begin end key a; end' = skip_large begin' end key a in
          meet_loop begin' end' key (if begin' < end' then Swap begin' end' a else a)
        else None
      else Some (begin, a))"
  by pat_completeness auto
termination
proof (relation "measure (\<lambda>(begin, end, key, a). 2 * (end - begin) + (if key < a ! begin \<and> a ! end < key then 1 else 0))")
  fix bg ed key b e and a :: "int list"
  assume asm: "bg < ed" "ed < length a" "b = skip_small bg ed key a" "e = skip_large b ed key a"
  have b: "bg \<le> b" "b \<le> ed" "b < ed \<Longrightarrow> key < a ! b" using skip_small_ok [of bg ed key a] asm(1,3) by auto
  have e: "b \<le> e" "e \<le> ed" "b < e \<Longrightarrow> a ! e < key" using skip_large_ok [OF b(2), of key a] asm(4) by auto
  show "((b, e, key, if b < e then Swap b e a else a), bg, ed, key, a)
      \<in> measure (\<lambda>(begin, end, key, a). 2 * (end - begin) + (if key < a ! begin \<and> a ! end < key then 1 else 0))"
  proof (cases "b < e")
    case True
    then have "Swap b e a ! b < key" using e asm(2) by (simp add: swap_nth)
    then show ?thesis using True b e by (cases "b = bg \<and> e = ed") auto
  qed (use b e asm(1) in auto)
qed simp

declare meet_loop.simps [simp del]

definition PartSort1 :: "(int list \<Rightarrow> nat \<Rightarrow> nat \<Rightarrow> int) \<Rightarrow> int list \<Rightarrow> nat \<Rightarrow> nat \<Rightarrow> (nat \<times> int list) option" where
  "PartSort1 middle a left right = do {
     a \<leftarrow> pivot_last middle a left right;
     (begin, a) \<leftarrow> meet_loop left right (a ! right) a;
     Some (begin, Swap begin right a)}"

subsection \<open>PartSort2\<close>

function skip_less :: "nat \<Rightarrow> nat \<Rightarrow> int \<Rightarrow> int list \<Rightarrow> nat" where
  "skip_less left right key a = (if left < right \<and> a ! left < key then skip_less (left + 1) right key a else left)"
  by pat_completeness auto
termination by (relation "measure (\<lambda>(left, right, key, a). right - left)") auto

function skip_greater :: "nat \<Rightarrow> nat \<Rightarrow> int \<Rightarrow> int list \<Rightarrow> nat" where
  "skip_greater left right key a = (if left < right \<and> key < a ! right then skip_greater left (right - 1) key a else right)"
  by pat_completeness auto
termination by (relation "measure (\<lambda>(left, right, key, a). right - left)") auto

declare skip_less.simps [simp del] skip_greater.simps [simp del]

partial_function (option) pit_loop :: "nat \<Rightarrow> nat \<Rightarrow> int \<Rightarrow> int list \<Rightarrow> (nat \<times> int list) option" where
  "pit_loop left right key a =
     (if left < right then
        let left = skip_less left right key a; a = a[right := a ! left];
            right = skip_greater left right key a; a = a[left := a ! right] in
        pit_loop left right key a
      else Some (left, a[left := key]))"

definition PartSort2 :: "(int list \<Rightarrow> nat \<Rightarrow> nat \<Rightarrow> int) \<Rightarrow> int list \<Rightarrow> nat \<Rightarrow> nat \<Rightarrow> (nat \<times> int list) option" where
  "PartSort2 middle a left right = do {
     a \<leftarrow> pivot_last middle a left right;
     pit_loop left right (a ! right) a}"

subsection \<open>PartSort3 and QuickSortNonR\<close>

text \<open>The inner loop with \<open>++prev\<close>, then the outer one.\<close>

function pull_front :: "int \<Rightarrow> nat \<Rightarrow> int \<Rightarrow> int list \<Rightarrow> (int \<times> int list) option" where
  "pull_front prev cur key a =
     (if a ! cur < key then
        let prev = prev + 1 in
        if prev = int cur then Some (prev, a)
        else if 0 \<le> prev \<and> prev < int (length a) then pull_front prev cur key (Swap (nat prev) cur a)
        else None
      else Some (prev, a))"
  by pat_completeness auto
termination by (relation "measure (\<lambda>(prev, cur, key, a). nat (int (length a) - prev))") auto

declare pull_front.simps [simp del]

function chase_loop :: "int \<Rightarrow> nat \<Rightarrow> nat \<Rightarrow> int \<Rightarrow> int list \<Rightarrow> (int \<times> int list) option" where
  "chase_loop prev cur right key a =
     (if cur < right then Option.bind (pull_front prev cur key a) (\<lambda>(prev, a). chase_loop prev (cur + 1) right key a)
      else Some (prev, a))"
  by pat_completeness auto
termination by (relation "measure (\<lambda>(prev, cur, right, key, a). right - cur)") auto

declare chase_loop.simps [simp del]

definition PartSort3 :: "(int list \<Rightarrow> nat \<Rightarrow> nat \<Rightarrow> int) \<Rightarrow> int list \<Rightarrow> nat \<Rightarrow> nat \<Rightarrow> (nat \<times> int list) option" where
  "PartSort3 middle a left right = do {
     a \<leftarrow> pivot_last middle a left right;
     (prev, a) \<leftarrow> chase_loop (int left - 1) left right (a ! right) a;
     let prev = prev + 1 in
     if 0 \<le> prev \<and> prev < int (length a) then Some (nat prev, Swap (nat prev) right a) else None}"

text \<open>The stack holds the two ends of every part; its top is the head of the list.\<close>

partial_function (option) stack_loop ::
  "(int list \<Rightarrow> nat \<Rightarrow> nat \<Rightarrow> int) \<Rightarrow> nat list \<Rightarrow> int list \<Rightarrow> int list option" where
  "stack_loop middle s a =
     (case s of
        [] \<Rightarrow> Some a
      | [x] \<Rightarrow> None
      | begin # end # s \<Rightarrow> do {
          (d, a) \<leftarrow> PartSort3 middle a begin end;
          let s = (if int begin < int d - 1 then begin # (d - 1) # s else s);
          let s = (if d + 1 < end then (d + 1) # end # s else s);
          stack_loop middle s a})"

definition QuickSortNonR :: "(int list \<Rightarrow> nat \<Rightarrow> nat \<Rightarrow> int) \<Rightarrow> int list \<Rightarrow> nat \<Rightarrow> nat \<Rightarrow> int list option" where
  "QuickSortNonR middle a left right = stack_loop middle (if left < right then [left, right] else []) a"

section \<open>The partitions\<close>

text \<open>The elements up to \<open>d\<close> are at most the one there, those behind it at least.\<close>

definition parted :: "nat \<Rightarrow> nat \<Rightarrow> nat \<Rightarrow> int list \<Rightarrow> int list \<Rightarrow> bool" where
  "parted left right d a b \<longleftrightarrow> left \<le> d \<and> d \<le> right \<and> within left (right + 1) a b
     \<and> (\<forall>x. left \<le> x \<and> x \<le> d \<longrightarrow> b ! x \<le> b ! d) \<and> (\<forall>x. d \<le> x \<and> x \<le> right \<longrightarrow> b ! d \<le> b ! x)"

lemma parted_trans: "within left (right + 1) a b \<Longrightarrow> parted left right d b c \<Longrightarrow> parted left right d a c"
  unfolding parted_def by (blast intro: within_trans)

text \<open>The index of the pivot lies in the part.\<close>

definition in_part :: "(int list \<Rightarrow> nat \<Rightarrow> nat \<Rightarrow> int) \<Rightarrow> int list \<Rightarrow> nat \<Rightarrow> nat \<Rightarrow> bool" where
  "in_part middle a left right \<longleftrightarrow> int left \<le> middle a left right \<and> middle a left right \<le> int right"

lemma pivot_last_ok:
  assumes "left \<le> right" "right < length a" "in_part middle a left right"
  shows "pivot_last middle a left right = Some (Swap right (nat (middle a left right)) a)"
    "within left (right + 1) a (Swap right (nat (middle a left right)) a)"
proof -
  obtain m where m: "middle a left right = int m"
    using assms(3) unfolding in_part_def by (metis nonneg_int_cases of_nat_0_le_iff order_trans)
  then have "left \<le> m" "m \<le> right" using assms(3) by (simp_all add: in_part_def)
  then show "pivot_last middle a left right = Some (Swap right (nat (middle a left right)) a)"
    "within left (right + 1) a (Swap right (nat (middle a left right)) a)"
    using assms(1,2) m by (simp_all add: pivot_last_def within_swap)
qed

lemma meet_loop_ok:
  "L \<le> begin \<Longrightarrow> begin \<le> end \<Longrightarrow> end \<le> R \<Longrightarrow> R < length a \<Longrightarrow> a ! R = key \<Longrightarrow> key \<le> a ! end \<Longrightarrow>
   \<forall>x. L \<le> x \<and> x < begin \<longrightarrow> a ! x \<le> key \<Longrightarrow> \<forall>x. end < x \<and> x \<le> R \<longrightarrow> key \<le> a ! x \<Longrightarrow>
   \<exists>k b. meet_loop begin end key a = Some (k, b) \<and> L \<le> k \<and> k \<le> R \<and> within L (R + 1) a b \<and> b ! R = key
     \<and> (\<forall>x. L \<le> x \<and> x < k \<longrightarrow> b ! x \<le> key) \<and> (\<forall>x. k \<le> x \<and> x \<le> R \<longrightarrow> key \<le> b ! x)"
proof (induction "begin" "end" key a rule: meet_loop.induct)
  case (1 bg ed key a)
  show ?case
  proof (cases "bg < ed")
    case False
    then have "key \<le> a ! x" if "bg \<le> x" "x \<le> R" for x using that "1.prems"(2,6,8) by (cases "x = ed") auto
    then show ?thesis using False "1.prems" by (subst meet_loop.simps) auto
  next
    case True
    define b e where "b = skip_small bg ed key a" and "e = skip_large b ed key a"
    have len: "ed < length a" using "1.prems"(3,4) by linarith
    have b: "bg \<le> b" "b \<le> ed" "\<forall>x. bg \<le> x \<and> x < b \<longrightarrow> a ! x \<le> key" "b < ed \<longrightarrow> key < a ! b"
      using skip_small_ok [OF "1.prems"(2), of key a] by (simp_all add: b_def)
    have e: "b \<le> e" "e \<le> ed" "\<forall>x. e < x \<and> x \<le> ed \<longrightarrow> key \<le> a ! x" "b < e \<longrightarrow> a ! e < key"
      using skip_large_ok [OF b(2), of key a] by (simp_all add: e_def)
    let ?a = "if b < e then Swap b e a else a"
    have nth: "?a ! x = (if x = b then a ! e else if x = e then a ! b else a ! x)" for x
      using b e len by (auto simp: swap_nth)
    have below: "a ! x \<le> key" if "L \<le> x" "x < b" for x using that b(3) "1.prems"(7) by (cases "x < bg") auto
    have above: "key \<le> a ! x" if "e < x" "x \<le> R" for x using that e(3) "1.prems"(8) by (cases "x \<le> ed") auto
    have "key \<le> a ! b" using b(2,4) "1.prems"(6) by (cases "b = ed") auto
    have "within L (R + 1) a ?a" using b e "1.prems" by (auto intro!: within_swap)
    moreover have "e \<noteq> R \<or> b = e" using e(4) "1.prems"(5) by (cases "b < e") (use e(1) in auto)
    then have "?a ! R = key" unfolding nth using "1.prems"(3,5) b(2) e(1,2) by (cases "R = b") auto
    moreover have "key \<le> ?a ! e" unfolding nth using \<open>key \<le> a ! b\<close> by auto
    moreover have "\<forall>x. L \<le> x \<and> x < b \<longrightarrow> ?a ! x \<le> key" unfolding nth using below e(1) by auto
    moreover have "\<forall>x. e < x \<and> x \<le> R \<longrightarrow> key \<le> ?a ! x" unfolding nth using above e(1) by auto
    ultimately have "\<exists>k c. meet_loop b e key ?a = Some (k, c) \<and> L \<le> k \<and> k \<le> R \<and> within L (R + 1) ?a c \<and> c ! R = key
     \<and> (\<forall>x. L \<le> x \<and> x < k \<longrightarrow> c ! x \<le> key) \<and> (\<forall>x. k \<le> x \<and> x \<le> R \<longrightarrow> key \<le> c ! x)"
      using b e "1.prems" by (intro "1.IH" [OF True len b_def e_def]) auto
    moreover have "meet_loop bg ed key a = meet_loop b e key ?a"
      using True len by (subst meet_loop.simps) (simp add: Let_def b_def e_def)
    ultimately show ?thesis using within_trans [OF \<open>within L (R + 1) a ?a\<close>] by auto
  qed
qed

lemma PartSort1_ok:
  assumes "left \<le> right" "right < length a" "in_part middle a left right"
  shows "\<exists>d b. PartSort1 middle a left right = Some (d, b) \<and> parted left right d a b"
proof -
  define a1 where "a1 = Swap right (nat (middle a left right)) a"
  note p = pivot_last_ok [OF assms, folded a1_def]
  have len: "right < length a1" using assms(2) by (simp add: a1_def)
  obtain k b where k: "meet_loop left right (a1 ! right) a1 = Some (k, b)" "left \<le> k" "k \<le> right"
    "within left (right + 1) a1 b" "b ! right = a1 ! right" "\<forall>x. left \<le> x \<and> x < k \<longrightarrow> b ! x \<le> a1 ! right"
    "\<forall>x. k \<le> x \<and> x \<le> right \<longrightarrow> a1 ! right \<le> b ! x"
    using meet_loop_ok [of left left right right a1 "a1 ! right"] assms(1) len by auto
  have lenb: "k < length b" "right < length b" using k(3,4) len by (auto simp: within_def)
  have "within left (right + 1) b (Swap k right b)" using k(2,3) lenb by (intro within_swap) auto
  moreover have "\<forall>x. left \<le> x \<and> x \<le> k \<longrightarrow> Swap k right b ! x \<le> Swap k right b ! k"
    "\<forall>x. k \<le> x \<and> x \<le> right \<longrightarrow> Swap k right b ! k \<le> Swap k right b ! x"
    unfolding swap_nth [OF lenb] using k(3,5-7) by auto
  ultimately have "parted left right k b (Swap k right b)" using k(2,3) unfolding parted_def by blast
  then have "parted left right k a (Swap k right b)" using parted_trans [OF p(2)] parted_trans [OF k(4)] by blast
  then show ?thesis using p(1) k(1) by (simp add: PartSort1_def)
qed

lemma swap_same [simp]: "Swap p p a = a"
  by (simp add: Swap_def)

lemma pull_front_eq:
  assumes "p \<le> cur" "cur < length a" "p < cur \<Longrightarrow> key \<le> a ! p"
  shows "pull_front (int p - 1) cur key a =
    Some (if a ! cur < key then (int (p + 1) - 1, Swap p cur a) else (int p - 1, a))"
proof (cases "a ! cur < key \<and> p \<noteq> cur")
  case True
  then have "\<not> Swap p cur a ! cur < key" using assms by (simp add: swap_nth)
  then have "pull_front (int p) cur key (Swap p cur a) = Some (int p, Swap p cur a)" by (subst pull_front.simps) simp
  then show ?thesis using True assms(1,2) by (subst pull_front.simps) (simp add: Let_def)
next
  case False
  then show ?thesis by (subst pull_front.simps) (auto simp: Let_def)
qed

lemma chase_loop_ok:
  "L \<le> p \<Longrightarrow> p \<le> cur \<Longrightarrow> cur \<le> R \<Longrightarrow> R < length a \<Longrightarrow> \<forall>x. L \<le> x \<and> x < p \<longrightarrow> a ! x < key \<Longrightarrow>
   \<forall>x. p \<le> x \<and> x < cur \<longrightarrow> key \<le> a ! x \<Longrightarrow>
   \<exists>d b. chase_loop (int p - 1) cur R key a = Some (int d - 1, b) \<and> L \<le> d \<and> d \<le> R \<and> within L R a b
     \<and> (\<forall>x. L \<le> x \<and> x < d \<longrightarrow> b ! x < key) \<and> (\<forall>x. d \<le> x \<and> x < R \<longrightarrow> key \<le> b ! x)"
proof (induction "R - cur" arbitrary: p cur a)
  case 0
  then show ?case by (subst chase_loop.simps) auto
next
  case (Suc n)
  have lt: "cur < R" "n = R - (cur + 1)" and len: "p < length a" "cur < length a" using Suc.hyps(2) Suc.prems by simp_all
  have pull: "pull_front (int p - 1) cur key a =
      Some (if a ! cur < key then (int (p + 1) - 1, Swap p cur a) else (int p - 1, a))"
    using Suc.prems by (intro pull_front_eq) auto
  show ?case
  proof (cases "a ! cur < key")
    case True
    have w: "within L R a (Swap p cur a)" using Suc.prems lt(1) by (intro within_swap) simp_all
    have "\<exists>d b. chase_loop (int (p + 1) - 1) (cur + 1) R key (Swap p cur a) = Some (int d - 1, b) \<and> L \<le> d \<and> d \<le> R
        \<and> within L R (Swap p cur a) b \<and> (\<forall>x. L \<le> x \<and> x < d \<longrightarrow> b ! x < key) \<and> (\<forall>x. d \<le> x \<and> x < R \<longrightarrow> key \<le> b ! x)"
    proof (rule Suc.hyps(1))
      show "\<forall>x. L \<le> x \<and> x < p + 1 \<longrightarrow> Swap p cur a ! x < key"
        unfolding swap_nth [OF len] using Suc.prems(2,5) True by (auto simp: less_Suc_eq)
      show "\<forall>x. p + 1 \<le> x \<and> x < cur + 1 \<longrightarrow> key \<le> Swap p cur a ! x"
        unfolding swap_nth [OF len] using Suc.prems(6) by auto
    qed (use Suc.prems lt in simp_all)
    then obtain d b where d: "chase_loop (int (p + 1) - 1) (cur + 1) R key (Swap p cur a) = Some (int d - 1, b)" "L \<le> d"
      "d \<le> R" "within L R (Swap p cur a) b" "\<forall>x. L \<le> x \<and> x < d \<longrightarrow> b ! x < key" "\<forall>x. d \<le> x \<and> x < R \<longrightarrow> key \<le> b ! x"
      by blast
    have "chase_loop (int p - 1) cur R key a = Some (int d - 1, b)"
      using d(1) lt(1) pull True by (subst chase_loop.simps) simp
    then show ?thesis using d within_trans [OF w] by blast
  next
    case False
    have "\<exists>d b. chase_loop (int p - 1) (cur + 1) R key a = Some (int d - 1, b) \<and> L \<le> d \<and> d \<le> R
        \<and> within L R a b \<and> (\<forall>x. L \<le> x \<and> x < d \<longrightarrow> b ! x < key) \<and> (\<forall>x. d \<le> x \<and> x < R \<longrightarrow> key \<le> b ! x)"
      using Suc.prems lt False by (intro Suc.hyps(1)) (auto simp: less_Suc_eq)
    moreover have "chase_loop (int p - 1) cur R key a = chase_loop (int p - 1) (cur + 1) R key a"
      using lt(1) pull False by (subst chase_loop.simps) simp
    ultimately show ?thesis by simp
  qed
qed

lemma PartSort3_ok:
  assumes "left \<le> right" "right < length a" "in_part middle a left right"
  shows "\<exists>d b. PartSort3 middle a left right = Some (d, b) \<and> parted left right d a b"
proof -
  define a1 where "a1 = Swap right (nat (middle a left right)) a"
  note p = pivot_last_ok [OF assms, folded a1_def]
  have len: "right < length a1" using assms(2) by (simp add: a1_def)
  obtain d b where d: "chase_loop (int left - 1) left right (a1 ! right) a1 = Some (int d - 1, b)" "left \<le> d" "d \<le> right"
    "within left right a1 b" "\<forall>x. left \<le> x \<and> x < d \<longrightarrow> b ! x < a1 ! right" "\<forall>x. d \<le> x \<and> x < right \<longrightarrow> a1 ! right \<le> b ! x"
    using chase_loop_ok [of left left left right a1 "a1 ! right"] assms(1) len by auto
  have lenb: "d < length b" "right < length b" using d(3,4) len by (auto simp: within_def)
  have r: "b ! right = a1 ! right" using within_same [OF d(4)] len by simp
  have w: "within left (right + 1) a1 b" using within_widen [OF d(4)] len by simp
  have "within left (right + 1) b (Swap d right b)" using d(2,3) lenb by (intro within_swap) auto
  moreover have "\<forall>x. left \<le> x \<and> x \<le> d \<longrightarrow> Swap d right b ! x \<le> Swap d right b ! d"
    unfolding swap_nth [OF lenb] using d(5) r by (auto simp: less_imp_le)
  moreover have "\<forall>x. d \<le> x \<and> x \<le> right \<longrightarrow> Swap d right b ! d \<le> Swap d right b ! x"
    unfolding swap_nth [OF lenb] using d(3,6) r by auto
  ultimately have "parted left right d b (Swap d right b)" using d(2,3) unfolding parted_def by blast
  then have "parted left right d a (Swap d right b)" using parted_trans [OF p(2)] parted_trans [OF w] by blast
  then show ?thesis using p(1) d(1) lenb by (simp add: PartSort3_def)
qed

lemma skip_less_ok:
  "left \<le> right \<Longrightarrow> left \<le> skip_less left right key a \<and> skip_less left right key a \<le> right
     \<and> (\<forall>x. left \<le> x \<and> x < skip_less left right key a \<longrightarrow> a ! x < key)
     \<and> (skip_less left right key a < right \<longrightarrow> key \<le> a ! skip_less left right key a)"
proof (induction left right key a rule: skip_less.induct)
  case (1 l r key a)
  show ?case
  proof (cases "l < r \<and> a ! l < key")
    case True
    then have "skip_less l r key a = skip_less (l + 1) r key a" by (subst skip_less.simps) simp
    moreover have IH: "l + 1 \<le> skip_less (l + 1) r key a \<and> skip_less (l + 1) r key a \<le> r
        \<and> (\<forall>x. l + 1 \<le> x \<and> x < skip_less (l + 1) r key a \<longrightarrow> a ! x < key)
        \<and> (skip_less (l + 1) r key a < r \<longrightarrow> key \<le> a ! skip_less (l + 1) r key a)"
      using True by (intro "1.IH") auto
    moreover have "a ! x < key" if "l \<le> x" "x < skip_less (l + 1) r key a" for x
      using that IH True by (cases "x = l") auto
    ultimately show ?thesis by auto
  next
    case False
    then show ?thesis using "1.prems" by (subst (1 2 3 4 5) skip_less.simps) auto
  qed
qed

lemma skip_greater_ok:
  "left \<le> right \<Longrightarrow> left \<le> skip_greater left right key a \<and> skip_greater left right key a \<le> right
     \<and> (\<forall>x. skip_greater left right key a < x \<and> x \<le> right \<longrightarrow> key < a ! x)
     \<and> (left < skip_greater left right key a \<longrightarrow> a ! skip_greater left right key a \<le> key)"
proof (induction left right key a rule: skip_greater.induct)
  case (1 l r key a)
  show ?case
  proof (cases "l < r \<and> key < a ! r")
    case True
    then have "skip_greater l r key a = skip_greater l (r - 1) key a" by (subst skip_greater.simps) simp
    moreover have IH: "l \<le> skip_greater l (r - 1) key a \<and> skip_greater l (r - 1) key a \<le> r - 1
        \<and> (\<forall>x. skip_greater l (r - 1) key a < x \<and> x \<le> r - 1 \<longrightarrow> key < a ! x)
        \<and> (l < skip_greater l (r - 1) key a \<longrightarrow> a ! skip_greater l (r - 1) key a \<le> key)"
      using True by (intro "1.IH") auto
    moreover have "key < a ! x" if "skip_greater l (r - 1) key a < x" "x \<le> r" for x
      using that IH True by (cases "x = r") auto
    ultimately show ?thesis by auto
  next
    case False
    then show ?thesis using "1.prems" by (subst (1 2 3 4 5) skip_greater.simps) auto
  qed
qed

text \<open>
  The pit at \<open>right\<close> stands for the pivot.  When the pivot has no equal in the part the loop ends; when it
  has one, the loop comes to it and stays there.
\<close>

lemma pit_loop_ok:
  "L \<le> left \<Longrightarrow> left \<le> right \<Longrightarrow> right \<le> R \<Longrightarrow> R < length a \<Longrightarrow> \<forall>x. L \<le> x \<and> x < left \<longrightarrow> a ! x < key \<Longrightarrow>
   \<forall>x. right < x \<and> x \<le> R \<longrightarrow> key < a ! x \<Longrightarrow> \<forall>x. left \<le> x \<and> x < right \<longrightarrow> a ! x \<noteq> key \<Longrightarrow>
   \<exists>d b. pit_loop left right key a = Some (d, b) \<and> parted L R d (a[right := key]) b"
proof (induction "right - left" arbitrary: left right a rule: less_induct)
  case less
  show ?case
  proof (cases "left < right")
    case False
    then have "left = right" using less.prems(2) by simp
    then have "parted L R left (a[right := key]) (a[left := key])"
      using less.prems unfolding parted_def by (auto simp: nth_list_update less_imp_le)
    then show ?thesis using False by (subst pit_loop.simps) auto
  next
    case True
    define l where "l = skip_less left right key a"
    define a1 where "a1 = a[right := a ! l]"
    define r where "r = skip_greater l right key a1"
    define a2 where "a2 = a1[l := a1 ! r]"
    have l: "left \<le> l" "l \<le> right" "\<forall>x. left \<le> x \<and> x < l \<longrightarrow> a ! x < key" "l < right \<longrightarrow> key \<le> a ! l"
      using skip_less_ok [OF less.prems(2), of key a] by (simp_all add: l_def)
    have r: "l \<le> r" "r \<le> right" "\<forall>x. r < x \<and> x \<le> right \<longrightarrow> key < a1 ! x" "l < r \<longrightarrow> a1 ! r \<le> key"
      using skip_greater_ok [OF l(2), of key a1] by (simp_all add: r_def)
    have step: "pit_loop left right key a = pit_loop l r key a2"
      using True by (subst pit_loop.simps) (simp add: Let_def l_def r_def a1_def a2_def)
    have low: "a ! x < key" if "L \<le> x" "x < l" for x using that l(3) less.prems(5) by (cases "x < left") auto
    have len: "left < length a" "right < length a" "l < length a" "r < length a" using less.prems l r by auto
    show ?thesis
    proof (cases "l = right")
      case lr: True
      then have "r = right" "a2 = a" using r(1,2) len by (auto simp: a2_def a1_def)
      then have "\<exists>d b. pit_loop l r key a2 = Some (d, b) \<and> parted L R d (a2[r := key]) b"
        using True lr less.prems low l by (intro less.hyps) auto
      then show ?thesis using step \<open>r = right\<close> \<open>a2 = a\<close> by simp
    next
      case False
      then have lt: "l < right" "key < a ! l" using l less.prems(7) by (auto simp: order_less_le)
      then have "r \<noteq> right" using r(4) len by (auto simp: a1_def)
      then have r': "r < right" using r(2) by simp
      have nth1: "a1 ! x = (if x = right then a ! l else a ! x)" for x using len by (simp add: a1_def nth_list_update)
      have nth2: "a2 ! x = (if x = l then a1 ! r else a1 ! x)" for x using len by (simp add: a2_def a1_def nth_list_update)
      have "\<exists>d b. pit_loop l r key a2 = Some (d, b) \<and> parted L R d (a2[r := key]) b"
      proof (rule less.hyps)
        show "\<forall>x. L \<le> x \<and> x < l \<longrightarrow> a2 ! x < key" unfolding nth2 nth1 using low lt by auto
        show "\<forall>x. r < x \<and> x \<le> R \<longrightarrow> key < a2 ! x"
        proof (intro allI impI)
          fix x assume x: "r < x \<and> x \<le> R"
          show "key < a2 ! x"
          proof (cases "x \<le> right")
            case True
            then show ?thesis unfolding nth2 using r(1,3) x by auto
          next
            case False
            then show ?thesis unfolding nth2 nth1 using less.prems(6) lt x by auto
          qed
        qed
        show "\<forall>x. l \<le> x \<and> x < r \<longrightarrow> a2 ! x \<noteq> key" unfolding nth2 nth1 using less.prems(7) l(1) r' by auto
      qed (use less.prems l r' r(1) True in \<open>auto simp: a2_def a1_def\<close>)
      moreover have "within L (R + 1) (a[right := key]) (a2[r := key])"
      proof -
        have "a2[r := key] = Swap l r (Swap l right (a[right := key]))"
          using len lt r' r(1) by (intro nth_equalityI) (auto simp: Swap_def a2_def a1_def nth_list_update)
        moreover have "within L (R + 1) (a[right := key]) (Swap l right (a[right := key]))"
          using less.prems l by (intro within_swap) auto
        moreover have "within L (R + 1) (Swap l right (a[right := key])) (Swap l r (Swap l right (a[right := key])))"
          using less.prems l r by (intro within_swap) auto
        ultimately show ?thesis by (metis within_trans)
      qed
      ultimately show ?thesis unfolding step using parted_trans by blast
    qed
  qed
qed

lemma pit_loop_unique:
  assumes "pit_loop left right key a = Some y"
  shows "left \<le> right \<and> right < length a \<longrightarrow> (\<forall>x. left \<le> x \<and> x < right \<longrightarrow> a ! x \<noteq> key)"
  using assms
proof (rule pit_loop.raw_induct [rotated])
  fix pit :: "nat \<Rightarrow> nat \<Rightarrow> int \<Rightarrow> int list \<Rightarrow> (nat \<times> int list) option" and left right key a y
  assume IH: "\<And>left right key a y. pit left right key a = Some y \<Longrightarrow>
      left \<le> right \<and> right < length a \<longrightarrow> (\<forall>x. left \<le> x \<and> x < right \<longrightarrow> a ! x \<noteq> key)"
    and step: "(if left < right then
        let left = skip_less left right key a; a = a[right := a ! left];
            right = skip_greater left right key a; a = a[left := a ! right] in
        pit left right key a
      else Some (left, a[left := key])) = Some y"
  define l where "l = skip_less left right key a"
  define a1 where "a1 = a[right := a ! l]"
  define r where "r = skip_greater l right key a1"
  define a2 where "a2 = a1[l := a1 ! r]"
  show "left \<le> right \<and> right < length a \<longrightarrow> (\<forall>x. left \<le> x \<and> x < right \<longrightarrow> a ! x \<noteq> key)"
  proof (intro impI allI)
    fix x
    assume ok: "left \<le> right \<and> right < length a" and x: "left \<le> x \<and> x < right"
    have l: "left \<le> l" "l \<le> right" "\<forall>x. left \<le> x \<and> x < l \<longrightarrow> a ! x < key" "l < right \<longrightarrow> key \<le> a ! l"
      using skip_less_ok [of left right key a] ok by (simp_all add: l_def)
    have r: "l \<le> r" "r \<le> right" "\<forall>x. r < x \<and> x \<le> right \<longrightarrow> key < a1 ! x" "l < r \<longrightarrow> a1 ! r \<le> key"
      using skip_greater_ok [OF l(2), of key a1] by (simp_all add: r_def)
    have nth1: "a1 ! x = (if x = right then a ! l else a ! x)" for x using ok by (simp add: a1_def nth_list_update)
    have nth2: "a2 ! x = (if x = l then a1 ! r else a1 ! x)" for x using ok l by (simp add: a2_def a1_def nth_list_update)
    have "pit l r key a2 = Some y" using step x by (simp add: Let_def l_def r_def a1_def a2_def)
    from IH [OF this] have ne: "a2 ! x \<noteq> key" if "l \<le> x" "x < r" for x using that r ok by (auto simp: a2_def a1_def)
    have "a ! l \<noteq> key" if "l < right"
    proof
      assume "a ! l = key"
      moreover from this have "r = right" using r(3) [rule_format, of right] r(2) nth1 by fastforce
      ultimately show False using ne [of l] that nth2 nth1 by simp
    qed
    then have "key < a ! l" if "l < right" using that l(4) by simp
    then have rr: "r < right" if "l < right" using that r(2,4) nth1 by (cases "r = right") auto
    consider "x < l" | "x = l" | "l < x" "r < x" | "l < x" "x = r" | "l < x" "x < r" by linarith
    then show "a ! x \<noteq> key"
    proof cases
      case 3
      then have "key < a1 ! x" using r(3) x by simp
      then show ?thesis using nth1 x by auto
    next
      case 4
      then show ?thesis using ne [of l] nth2 nth1 x by auto
    next
      case 5
      then show ?thesis using ne [of x] nth2 nth1 x by auto
    qed (use l(3) x \<open>l < right \<Longrightarrow> a ! l \<noteq> key\<close> in auto)
  qed
qed

lemma PartSort2_ok:
  assumes "left \<le> right" "right < length a" "in_part middle a left right"
  defines "mid \<equiv> nat (middle a left right)"
  shows "if \<forall>x. left \<le> x \<and> x \<le> right \<and> x \<noteq> mid \<longrightarrow> a ! x \<noteq> a ! mid
    then \<exists>d b. PartSort2 middle a left right = Some (d, b) \<and> parted left right d a b
    else PartSort2 middle a left right = None"
proof -
  define a1 where "a1 = Swap right mid a"
  note p = pivot_last_ok [OF assms(1-3), folded mid_def, folded a1_def]
  have len: "right < length a1" "mid < length a" "left \<le> mid" "mid \<le> right"
    using assms(2,3) unfolding a1_def mid_def in_part_def by auto
  have nth: "a1 ! x = (if x = right then a ! mid else if x = mid then a ! right else a ! x)" for x
    using swap_nth [OF assms(2) len(2)] by (simp add: a1_def)
  have unique: "(\<forall>x. left \<le> x \<and> x < right \<longrightarrow> a1 ! x \<noteq> a1 ! right)
      \<longleftrightarrow> (\<forall>x. left \<le> x \<and> x \<le> right \<and> x \<noteq> mid \<longrightarrow> a ! x \<noteq> a ! mid)" (is "?u \<longleftrightarrow> ?v")
  proof
    assume u: ?u
    show ?v
    proof (intro allI impI)
      fix x assume x: "left \<le> x \<and> x \<le> right \<and> x \<noteq> mid"
      show "a ! x \<noteq> a ! mid"
      proof (cases "x = right")
        case True
        then show ?thesis using u [rule_format, of mid] x len(3,4) nth by auto
      next
        case False
        then show ?thesis using u [rule_format, of x] x nth by auto
      qed
    qed
  next
    assume ?v
    then show ?u using nth assms(1) by auto
  qed
  have eq: "PartSort2 middle a left right = pit_loop left right (a1 ! right) a1" using p(1) by (simp add: PartSort2_def)
  show ?thesis
  proof (cases ?u)
    case True
    then obtain d b where d: "pit_loop left right (a1 ! right) a1 = Some (d, b)" "parted left right d (a1[right := a1 ! right]) b"
      using pit_loop_ok [of left left right right a1 "a1 ! right"] assms(1) len(1) by auto
    then have "parted left right d a b" using parted_trans [OF p(2)] by simp
    then show ?thesis using d(1) True unfolding eq unique [symmetric] by auto
  next
    case False
    then have "pit_loop left right (a1 ! right) a1 = None"
      using pit_loop_unique [of left right "a1 ! right" a1] assms(1) len(1)
      by (cases "pit_loop left right (a1 ! right) a1") blast+
    then show ?thesis using False unfolding eq unique [symmetric] by simp
  qed
qed

section \<open>The quick sort with a stack\<close>

text \<open>A part of an array sorted.\<close>

definition sort_part :: "nat \<Rightarrow> nat \<Rightarrow> int list \<Rightarrow> int list" where
  "sort_part lo hi a = take lo a @ sort (drop lo (take (hi + 1) a)) @ drop (hi + 1) a"

lemma sort_part_append: "length p = lo \<Longrightarrow> length p + length m = hi + 1 \<Longrightarrow> sort_part lo hi (p @ m @ q) = p @ sort m @ q"
  by (simp add: sort_part_def)

lemma sort_short: "length xs < 2 \<Longrightarrow> sort xs = xs"
  by (cases xs rule: remdups_adj.cases) auto

lemma length_sort_part: "lo \<le> hi \<Longrightarrow> hi < length a \<Longrightarrow> length (sort_part lo hi a) = length a"
  by (simp add: sort_part_def)

lemma parted_append:
  assumes "parted lo hi d a b" "hi < length a"
  obtains P L p R Q where "b = P @ L @ [p] @ R @ Q" "length P = lo" "length L = d - lo" "length R = hi - d"
    "sort_part lo hi a = P @ sort L @ [p] @ sort R @ Q"
proof -
  have d: "lo \<le> d" "d \<le> hi" and w: "within lo (hi + 1) a b"
    and small: "\<forall>x. lo \<le> x \<and> x \<le> d \<longrightarrow> b ! x \<le> b ! d" and large: "\<forall>x. d \<le> x \<and> x \<le> hi \<longrightarrow> b ! d \<le> b ! x"
    using assms(1) by (simp_all add: parted_def)
  have len: "length b = length a" and ms: "mset b = mset a" using w by (simp_all add: within_def)
  define P L R Q where "P = take lo b" and "L = drop lo (take d b)" and "R = drop (d + 1) (take (hi + 1) b)"
    and "Q = drop (hi + 1) b"
  have "take (d + 1) b = P @ L @ [b ! d]"
    using d len assms(2) append_take_drop_id [of lo "take d b"] by (simp add: P_def L_def take_Suc_conv_app_nth min_def)
  moreover have "take (hi + 1) b = take (d + 1) b @ R"
    using d append_take_drop_id [of "d + 1" "take (hi + 1) b"] by (simp add: R_def min_def)
  ultimately have b: "b = P @ L @ [b ! d] @ R @ Q" using append_take_drop_id [of "hi + 1" b] by (simp add: Q_def)
  have lens: "length P = lo" "length L = d - lo" "length R = hi - d" using d len assms(2) by (simp_all add: P_def L_def R_def)
  have out: "take lo a = P" "drop (hi + 1) a = Q"
    using w len by (auto simp: within_def P_def Q_def intro!: nth_equalityI)
  have "a = take lo a @ drop lo (take (hi + 1) a) @ drop (hi + 1) a"
  proof -
    have "take lo a @ drop lo (take (hi + 1) a) = take (hi + 1) a"
      using d append_take_drop_id [of lo "take (hi + 1) a"] by (simp add: min_def)
    then show ?thesis by (metis append_assoc append_take_drop_id)
  qed
  then have "mset a = mset P + mset (drop lo (take (hi + 1) a)) + mset Q" unfolding out by (metis mset_append add.assoc)
  moreover have "mset b = mset P + mset (L @ [b ! d] @ R) + mset Q" by (subst b) simp
  ultimately have "mset (drop lo (take (hi + 1) a)) = mset (L @ [b ! d] @ R)" using ms by simp
  then have "sort (drop lo (take (hi + 1) a)) = sort (L @ [b ! d] @ R)" by (metis mset_sort properties_for_sort sorted_sort)
  also have "\<dots> = sort L @ [b ! d] @ sort R"
  proof (rule properties_for_sort)
    have "x \<le> b ! d" if "x \<in> set L" for x
      using that small d len assms(2) by (auto simp: L_def in_set_conv_nth)
    moreover have "b ! d \<le> x" if "x \<in> set R" for x
      using that large d len assms(2) by (auto simp: R_def in_set_conv_nth)
    ultimately show "sorted (sort L @ [b ! d] @ sort R)" by (fastforce simp: sorted_append)
  qed simp
  finally have "sort_part lo hi a = P @ sort L @ [b ! d] @ sort R @ Q" by (simp add: sort_part_def out [simplified])
  with b lens show thesis using that by blast
qed

lemma parted_sort:
  assumes "parted lo hi d a b" "hi < length a"
  shows "fold (\<lambda>(l, r). sort_part l r) ((if d + 1 < hi then [(d + 1, hi)] else [])
      @ (if int lo < int d - 1 then [(lo, d - 1)] else [])) b = sort_part lo hi a"
proof -
  have d: "lo \<le> d" "d \<le> hi" using assms(1) by (simp_all add: parted_def)
  obtain P L p R Q where b: "b = P @ L @ [p] @ R @ Q" "length P = lo" "length L = d - lo" "length R = hi - d"
    "sort_part lo hi a = P @ sort L @ [p] @ sort R @ Q" using parted_append [OF assms] by blast
  let ?c = "P @ L @ [p] @ sort R @ Q"
  have "(if d + 1 < hi then sort_part (d + 1) hi b else b) = ?c"
  proof (cases "d + 1 < hi")
    case True
    have "sort_part (d + 1) hi ((P @ L @ [p]) @ R @ Q) = (P @ L @ [p]) @ sort R @ Q"
      by (rule sort_part_append) (use b(2-4) d True in simp_all)
    then show ?thesis using True b(1) by simp
  next
    case False
    then show ?thesis using b(1,4) by (simp add: sort_short)
  qed
  moreover have "(if int lo < int d - 1 then sort_part lo (d - 1) ?c else ?c) = P @ sort L @ [p] @ sort R @ Q"
  proof (cases "int lo < int d - 1")
    case True
    then show ?thesis using b(2,3) d by (simp add: sort_part_append)
  next
    case False
    then have "length L < 2" using b(3) d by simp
    then show ?thesis using False by (simp add: sort_short)
  qed
  ultimately show ?thesis using b(5) by (simp split: if_splits)
qed

lemma stack_loop_ok:
  assumes mid: "\<forall>a l r. l \<le> r \<and> r < length a \<longrightarrow> in_part middle a l r"
  shows "\<forall>(l, r) \<in> set ps. l < r \<and> r < length a \<Longrightarrow>
    stack_loop middle (concat (map (\<lambda>(l, r). [l, r]) ps)) a = Some (fold (\<lambda>(l, r). sort_part l r) ps a)"
proof (induction "sum_list (map (\<lambda>(l, r). r - l) ps)" arbitrary: ps a rule: less_induct)
  case less
  show ?case
  proof (cases ps)
    case Nil
    then show ?thesis by (simp add: stack_loop.simps)
  next
    case (Cons p qs)
    obtain lo hi where p: "p = (lo, hi)" by (cases p)
    have lh: "lo < hi" "hi < length a" using less.prems Cons p by auto
    then obtain d b where d: "PartSort3 middle a lo hi = Some (d, b)" "parted lo hi d a b"
      using PartSort3_ok [of lo hi a middle] mid by auto
    have len: "length b = length a" "lo \<le> d" "d \<le> hi" using d(2) by (simp_all add: parted_def within_def)
    let ?new = "(if d + 1 < hi then [(d + 1, hi)] else []) @ (if int lo < int d - 1 then [(lo, d - 1)] else [])"
    have "sum_list (map (\<lambda>(l, r). r - l) (?new @ qs)) < sum_list (map (\<lambda>(l, r). r - l) ps)"
      using Cons p lh len by auto
    moreover have "\<forall>(l, r) \<in> set (?new @ qs). l < r \<and> r < length b"
      using less.prems Cons lh len by auto
    ultimately have "stack_loop middle (concat (map (\<lambda>(l, r). [l, r]) (?new @ qs))) b
        = Some (fold (\<lambda>(l, r). sort_part l r) (?new @ qs) b)" by (rule less.hyps)
    also have "fold (\<lambda>(l, r). sort_part l r) (?new @ qs) b = fold (\<lambda>(l, r). sort_part l r) ps a"
      using parted_sort [OF d(2) lh(2)] Cons p by (simp only: fold_append o_def fold_simps) simp
    also have "stack_loop middle (concat (map (\<lambda>(l, r). [l, r]) (?new @ qs))) b
        = stack_loop middle (concat (map (\<lambda>(l, r). [l, r]) ps)) a"
      using Cons p d(1) by (subst (2) stack_loop.simps) (simp add: Let_def)
    finally show ?thesis .
  qed
qed

section \<open>The index of the pivot\<close>

text \<open>\<open>GetMiddleIndex\<close> is the index of the middle one of three elements, but for one branch.\<close>

lemma GetMiddleIndex_cases:
  assumes "left \<le> right"
  defines "mid \<equiv> left + (right - left) div 2"
  shows "if a ! right < a ! mid \<and> a ! mid \<le> a ! left then GetMiddleIndex a left right = a ! mid
    else in_part GetMiddleIndex a left right"
proof -
  have "left \<le> mid" "mid \<le> right" using assms(1) by (simp_all add: mid_def)
  then show ?thesis unfolding in_part_def GetMiddleIndex_def Let_def mid_def [symmetric] by auto
qed

text \<open>
  Unless three elements fall strictly from the middle to the right and not rise from the left to the middle,
  where \<open>GetMiddleIndex\<close> returns an element for an index, the first and the third partition bring the elements
  that are at most the pivot in front of it and the others behind it, and so does the second when no other
  element of the part equals the pivot; when there is one, it runs for ever.  With any choice of an index
  inside the part \<open>QuickSortNonR\<close> returns and sorts the part; with \<open>GetMiddleIndex\<close> it leaves the array
  \<open>{30, 20, 10}\<close>.
\<close>

theorem quick_sort_parts:
  assumes "left \<le> right" "right < length a" "\<forall>a l r. l \<le> r \<and> r < length a \<longrightarrow> in_part middle a l r"
  shows "(let mid = left + (right - left) div 2; pivot = nat (GetMiddleIndex a left right) in
      if a ! right < a ! mid \<and> a ! mid \<le> a ! left then GetMiddleIndex a left right = a ! mid
      else (\<exists>d b. PartSort1 GetMiddleIndex a left right = Some (d, b) \<and> parted left right d a b)
        \<and> (\<exists>d b. PartSort3 GetMiddleIndex a left right = Some (d, b) \<and> parted left right d a b)
        \<and> (if \<forall>x. left \<le> x \<and> x \<le> right \<and> x \<noteq> pivot \<longrightarrow> a ! x \<noteq> a ! pivot
            then \<exists>d b. PartSort2 GetMiddleIndex a left right = Some (d, b) \<and> parted left right d a b
            else PartSort2 GetMiddleIndex a left right = None))
    \<and> QuickSortNonR middle a left right = Some (sort_part left right a)
    \<and> QuickSortNonR GetMiddleIndex [30, 20, 10] 0 2 = None"
proof (intro conjI)
  show "QuickSortNonR GetMiddleIndex [30, 20, 10] 0 2 = None"
    by (simp add: QuickSortNonR_def stack_loop.simps PartSort3_def pivot_last_def GetMiddleIndex_def)
  show "QuickSortNonR middle a left right = Some (sort_part left right a)"
  proof (cases "left < right")
    case True
    then show ?thesis using stack_loop_ok [OF assms(3), of "[(left, right)]" a] assms(2) by (simp add: QuickSortNonR_def)
  next
    case False
    then have "left = right" using assms(1) by simp
    then have "sort_part left right a = a" using assms(2)
      by (simp add: sort_part_def take_Suc_conv_app_nth id_take_nth_drop [symmetric])
    then show ?thesis using False by (simp add: QuickSortNonR_def stack_loop.simps)
  qed
qed (use GetMiddleIndex_cases [OF assms(1), of a] PartSort1_ok [OF assms(1,2)] PartSort2_ok [OF assms(1,2)]
      PartSort3_ok [OF assms(1,2)] in \<open>simp add: Let_def split: if_splits\<close>)

theorem quick_sort_parts_witness: "QuickSortNonR (\<lambda>a l r. int l) [3, 1, 3, 2] 0 3 = Some [1, 2, 3, 3]"
  using quick_sort_parts [of 0 3 "[3, 1, 3, 2]" "\<lambda>a l r. int l"] by (simp add: in_part_def sort_part_def)

end
