(* ===== verification/Spec2Isabelle.thy ===== *)
theory Spec2Isabelle
  imports Main_Script Project Adaptors Pop_Order Heap_Sort Exchange_Sorts Quick_Sort Union_Find Bloom_Filter Search_Tree
    File_Compressor Red_Black_Tree Hash_Table Graph AVL_Tree Threaded_Tree My_Map Shuffles Binary_Tree Memory_Copy Allocator
    Part_Sorts
begin

text \<open>
  A verification library for the Python code of the repository, all of it under \<open>Crawler/\<close>: the
  script \<open>get-pip.py\<close> and the Scrapy project \<open>tutorial/\<close>; and for part of its C++ exercises on data
  structures and algorithms, under \<open>Algorithm/\<close>, \<open>DataStruct/\<close> and \<open>FileComPress/\<close>, which share no code
  with the Python part.

  The script.  \<open>get-pip.py\<close> holds a zip archive with a copy of pip as base85 text.  \<open>main\<close> makes a
  temporary directory, decodes the text into \<open>pip.zip\<close> there, puts that file in front of \<open>sys.path\<close>
  and calls \<open>bootstrap\<close>, which imports pip from the archive, works out the command line, extracts
  the certificate file and exits with the status of \<open>pip.main\<close>; on the way out \<open>main\<close> removes the
  directory.

  The theories, in the order they import each other:

  \<^item> \<open>Prelude\<close>: byte strings, exceptions as values (\<open>pyexc\<close>), results (\<open>'a res\<close>), block-wise decoding
    loops, and the interfaces of block codes as locales (\<open>block_code\<close>, \<open>canonical_block_code\<close>).
  \<^item> \<open>Base85\<close>: \<open>iterbytes\<close>, \<open>_b85alphabet\<close> and \<open>b85decode\<close> (lines 33 to 77), statement by statement.
    \<open>Base85_Correct\<close> reduces it to a function \<open>hunk\<close> on blocks of five characters;
    \<open>Base85_Roundtrip\<close> gives the encoder on numbers, interprets \<open>block_code\<close> and proves that
    decoding undoes encoding; \<open>Base85_Errors\<close> interprets \<open>canonical_block_code\<close> and says exactly
    which inputs are refused, with which exception and position, and which are accepted.
  \<^item> \<open>Payload1\<close> to \<open>Payload4\<close> and \<open>Payload_Directory\<close>: the lines 17057 to 20056 of the literal \<open>DATA\<close>,
    each piece checked in the kernel by the scanner of \<open>Payload_Check\<close>.  The 16855 lines before
    them are the parameter \<open>head\<close> of the definitions (\<open>head_ok\<close> states their shape).
    \<open>Payload_Decode\<close> and \<open>Payload_Stream\<close> decode base85 lines and read directory entries by
    rewriting; \<open>Zip\<close> is the reader of zip directories and the search for modules that an entry of
    \<open>sys.path\<close> goes through; \<open>Payload\<close> assembles the literal and decodes it; \<open>Payload_Archive\<close>
    shows what the directory of the archive provides.
  \<^item> \<open>Script_Runtime\<close>: the state the script changes (\<open>world\<close>), what it calls but does not define
    (\<open>host\<close>), computations that may raise (\<open>exec\<close>), \<open>try\<close>/\<open>finally\<close>, temporary directories and
    files.  An import runs code that may raise and change the world in any way, files included.  The locale \<open>scoped_resource\<close> is the contract of a resource released in a \<open>finally\<close>; it
    is interpreted on \<open>rmtree\<close>.
  \<^item> \<open>Script_Arguments\<close>: the command line (lines 102 to 159), as the code has it and as a
    specification (\<open>user_args\<close>, \<open>wanted\<close>), with the refinement between them.
  \<^item> \<open>Bootstrap\<close> (lines 80 to 176; \<open>keeps\<close> and \<open>calm\<close> are what a hypothesis can ask of code that is run) and \<open>Main_Script\<close> (lines 41 to 42 and 179 to 198, 20060 to 20061):
    the two functions of the script, and the properties of a whole run.
  \<^item> \<open>Generator\<close>: generators as a coinductive type and \<open>middlewares.py\<close>; \<open>Spider\<close>: \<open>items.py\<close> and
    \<open>spiders/dmoz_spider.py\<close>; \<open>Project\<close>: \<open>settings.py\<close> and the layout of \<open>pipelines.py\<close>.

  The C++ exercises, one theory or two for each; they use each other only where said.  An array or a
  \<open>vector\<close> is a list, a tree of nodes a datatype, and \<open>None\<close> stands for undefined behaviour, a failed
  assertion or a loop that does not end.

  \<^item> \<open>Adaptors\<close>: the queue of two stacks, the stack of two queues and the three stacks with a minimum of
    \<open>Algorithm/MinStack/MinStack.hpp\<close>.  The locale \<open>adaptor\<close> is the simulation of a reference structure
    on a list by a structure with an invariant; it is interpreted on all five (on the second stack with a
    minimum, whose \<open>Min\<close> does not compile, also for what \<open>Min\<close> is meant to return).
    \<open>Pop_Order\<close>: \<open>StackPopOderIsLegal\<close> of that file, against the relation \<open>pops\<close> of all interleavings.
    \<open>Quick_Sort\<close>: \<open>quicksort\<close> of that file, whose recursion ends by the measure \<open>calls_left\<close>.
  \<^item> \<open>Arrays\<close>: exchanging elements and rearranging part of an array, for the sorts and the heap.
  \<^item> \<open>Sorts\<close>: the routines of \<open>Algorithm/Sort/sort.h\<close> but the quick sorts, and the insertion and Shell
    sort; \<open>Heap_Sort\<close>: the heap sort; \<open>Exchange_Sorts\<close>: selection, bubble and counting sort, the check
    \<open>IsSorted\<close>, and the locale \<open>sorting_routine\<close> for what four of the sorts have in common; \<open>Part_Sorts\<close>:
    the three partitions and the quick sort with a stack, for any choice of the pivot (\<open>middle\<close>).
  \<^item> \<open>Union_Find\<close>: \<open>Algorithm/Union\<close>; the searches are a \<open>partial_function\<close>, \<open>forest\<close> is the
    invariant under which they all end, and \<open>endless\<close> says that one does not.
  \<^item> \<open>Bloom_Filter\<close>: \<open>DataStruct/Bitset\<close>, with \<open>size_t\<close> as 64-bit words; the filter uses the bit set
    through the locale \<open>bit_store\<close>.
  \<^item> \<open>Search_Tree\<close>: \<open>DataStruct/BinarySearchTree\<close>, with its map and its traversals.

  \<^item> \<open>Binary_Heap\<close>: the class \<open>Heap\<close> of \<open>FileComPress/heap.h\<close> over any comparison.  The locales
    \<open>comparison\<close> and \<open>priority_queue\<close> are the contracts of a comparison and of a priority queue; the
    heap is one for every comparison, and \<open>Heap_Sort\<close> uses the same lemmas.
  \<^item> \<open>Huffman_Tree\<close>: the tree of \<open>FileComPress/huffmantree.h\<close>, built with that heap, and the codes that
    \<open>Conversion\<close> of \<open>filecompress.h\<close> gives its leaves; \<open>File_Compressor\<close>: the header, the packing of bits
    and decompression, as operations on a map from paths to byte strings, with what stops a run as a
    value of \<open>failure\<close>.
  \<^item> \<open>Iteration\<close>: the locale \<open>iteration\<close>, the contract of an iterator that visits a list of positions; it is
    interpreted on both directions of the red-black tree and on the hash table.
  \<^item> \<open>Red_Black_Tree\<close>: \<open>DataStruct/RBTree/rb_tree.h\<close>, with the \<open>_parent\<close> pointers as the steps from a subtree
    up to the root; \<open>Hash_Table\<close>: the table of buckets and the table with open addresses of
    \<open>DataStruct/HashTable/hash_table.h\<close> over any hash function.
  \<^item> \<open>Graph\<close>: \<open>Algorithm/Graph/Graph.hpp\<close>; the searches are proved against reachability that avoids the
    visited vertices (\<open>avoid\<close>), and Kruskal uses \<open>Union_Find\<close>.
  \<^item> \<open>AVL_Tree\<close>: \<open>DataStruct/AVLTree/AVLTree.h\<close>, with the balance factors in the nodes and the loop over the
    parents as the code has it; \<open>runs_on\<close> says when that loop does not stop after a double rotation.
  \<^item> \<open>Threaded_Tree\<close>: \<open>DataStruct/ThreadTree\<close> on an explicit store of nodes; \<open>linked\<close>, \<open>in_threaded\<close> and
    \<open>prev_threaded\<close> relate the store to a shape before and after the threading.
  \<^item> \<open>My_Map\<close>: \<open>DataStruct/MyMap\<close>, on the tree of \<open>Red_Black_Tree\<close> with pairs as values.
  \<^item> \<open>Shuffles\<close>: \<open>Algorithm/Shuffle/shuffle.cpp\<close>, with the random numbers as an argument.
  \<^item> \<open>Binary_Tree\<close>: the level order, the sizes and depths, the searches and the common ancestor of two nodes
    of \<open>DataStruct/BTree/BinaryTree.hpp\<close>, against the levels (\<open>depth_level\<close>), the distance of nodes and
    \<open>lowest\<close>; the labels of a tree are its nodes.
  \<^item> \<open>Memory_Copy\<close>: \<open>Strlen\<close> and \<open>Memcpy\<close> of \<open>MinStack.hpp\<close>, on a partial map from addresses to bytes.
  \<^item> \<open>Allocator\<close>: \<open>DataStruct/Alloc.h/alloc.hpp\<close>, with \<open>malloc\<close> as a parameter and the links of the free blocks
    in a store; \<open>alloc_ok\<close> shares the memory out among the program, the free lists and the pool, \<open>uses\<close> is the
    relation of what a program can do with it, and \<open>avoids\<close> names the requests that stay clear of the second
    case of \<open>ChunkAlloc\<close>, which hands out memory behind the pool.

  What the properties show.  On every path of \<open>main\<close> the temporary directory is removed, and the script itself
  touches no other file: only the modules it imports and pip may.  A run always ends in an exception, the error of
  its first failing step or the exit of pip, which is run with the specified arguments, certificate and archive.
  The decoder inverts the encoder, its errors are characterised, and the payload decodes to bytes with the
  directory of a zip archive, from which the imports of \<open>bootstrap\<close> are served and which shadows nothing else.
  The middleware is transparent, and three defects of the tutorial
  project are stated as theorems (a method looked up on the wrong object, a block that is not indented,
  and that the settings hide the latter).  Each of the C++ structures refines its abstract one (a list,
  a set, a map, a partition), the sorts but one sort, and the faults found on the way are theorems too:
  what the heap sort does instead of sorting, which pair \<open>IsSorted\<close> skips, which values a deletion
  from the tree mixes up, which files the compressor cannot handle, which searches of the union-find run for
  ever after a union, what the level traversal writes, when the insertion into the AVL tree loses its balance, what
  \<open>operator[]\<close> of the map adds and returns, why a threaded tree is never destroyed, and which memory the allocator gives
  away that is not its own.

  Bounds.  All recursions are structural or have a measure, but for the loops that need an invariant to
  end and are \<open>partial_function\<close>s: \<open>FindParent\<close>, \<open>Strlen\<close>,
  \<open>OOM_Malloc\<close>, \<open>ChunkAlloc\<close>, \<open>post_loop\<close>, \<open>quicksort\<close>, \<open>pit_loop\<close>, \<open>stack_loop\<close>, \<open>dfs_edges\<close>,
  \<open>update_bf\<close>, and the functions on the store of \<open>Threaded_Tree\<close>; that they return, or when they do not, is part of their properties.  The only
  fuel is the depth of the calls in \<open>Destroy\<close>: with the height of the tree it is enough, and for the
  threaded tree it is shown that no depth is.  Python integers are
  natural numbers; \<open>struct.pack\<close> of a number of more than 32 bits is an error value.  Paths are POSIX
  paths.  The arrays and vectors of the C++ part are shorter than 2 to the 31, so that indices of type
  \<open>int\<close> do not overflow; where an element can overflow (\<open>CountSort\<close>) or wrap around (the hashes) the
  model has it.

  Parameters.  Functions of pip, of Scrapy and the outcome of system calls are fields of \<open>host\<close> and
  \<open>scrapy\<close>; where a property needs more of them than that they are functions, it is a hypothesis.  Of \<open>malloc\<close> it
  is that new memory does not overlap the old; a handler for its failure is taken to return without touching the
  allocator, and nothing is assumed of what it achieves.

  Not modelled.  The contents of the archived files (they are compressed), the lines 202 to 17056 of
  \<open>DATA\<close> and what pip does.  Of the
  C++ exercises: the recursive \<open>QuickSort\<close> of \<open>sort.h\<close>, \<open>Greed\<close>, and \<open>Trie\<close> and \<open>DictionaryTree\<close> (whose class \<open>Node\<close> is
  declared nowhere) of \<open>Algorithm\<close>; the B-tree and the variant of
  the heap in \<open>DataStruct\<close>, and its copy of Lua; \<open>zipCompress.h\<close> of \<open>FileComPress\<close>, which is unfinished; the
  directories \<open>HTTPD\<close>, \<open>HTTPD1.0\<close>, \<open>HTTPD2.0\<close>.
\<close>

text \<open>
  The error of a damaged script: when a character of the payload was changed into one outside the
  alphabet, and nothing before it is wrong, the script ends with a \<open>ValueError\<close> that names the position of that
  character, counted without line breaks.
\<close>

theorem main_reports_bad_character:
  assumes "mkdtemp_name h w = Inr d" "open_fault h (path_join d ''pip.zip'') = None"
    and "native_b85decode h = None" "py_major h \<in> {2, 3}"
    and "i < length (payload head)" "\<not> b85_ok (payload head ! i)"
    and "\<forall>c \<in> set (take i (payload head)). b85_ok c"
    and "\<forall>k < i div 5. horner 0 (blk (payload head) k) < 2 ^ 32"
  shows "fst (main h head w) = Inl (ValueError (BadChar i))"
proof -
  have "the_b85decode h (payload head) = Inl (ValueError (BadChar i))"
    using b85decode_BadChar [OF assms(4), of "payload head" i] assms by (simp add: the_b85decode_def)
  then show ?thesis by (rule main_payload_error [OF assms(1,2), THEN conjunct1])
qed

theorem main_reports_bad_character_witness:
  "fst (main demo_host ['' ''] empty_world) = Inl (ValueError (BadChar 0))"
proof (rule main_reports_bad_character)
  have p: "payload ['' ''] = CHR '' '' # remove_newlines (concat (map (\<lambda>l. l @ [newline]) DATA_tail))"
    by (simp add: payload_def DATA_def remove_newlines_def newline_def)
  show "0 < length (payload ['' ''])" "\<not> b85_ok (payload ['' ''] ! 0)"
    by (simp_all add: p b85_ok_def b85alphabet_def)
qed simp_all

end
